(* ===== verification/Pg_Prelude.thy ===== *)
theory Pg_Prelude
  imports Main "HOL-Library.Word"
begin

text \<open>
  Shared vocabulary of the development: the error values C code can end in, the result
  type with its bind, fixed-width integer limits, and memory blocks with checked access.

  \<^item> A C function that may leave through \<^verbatim>\<open>elog(ERROR)\<close> or run into undefined behaviour
    returns a \<open>'a res\<close>: \<open>Inl e\<close> for the abnormal exit, \<open>Inr x\<close> for a normal return.
  \<^item> A block is a list of optional cells. \<open>None\<close> is a cell that was allocated and never
    written. Reading it, or touching a cell outside the block, is an error value, so
    memory safety is something the theorems have to show and not a side condition.
  \<^item> Generic facts on lists used by several components are collected here.
\<close>

named_theorems c_mem \<open>facts that resolve checked memory accesses\<close>

section \<open>Errors and results\<close>

datatype pg_error =
    Elog string      \<comment> \<open>\<^verbatim>\<open>elog(ERROR, ...)\<close> or \<^verbatim>\<open>ereport(ERROR, ...)\<close> with its message\<close>
  | OutOfBounds      \<comment> \<open>an access outside the block\<close>
  | Uninitialised    \<comment> \<open>a read of a cell that was never written\<close>
  | UseAfterFree     \<comment> \<open>an access through a pointer to released storage\<close>
  | IntOverflow      \<comment> \<open>signed overflow\<close>
  | BadShift         \<comment> \<open>a shift by a negative or too large count\<close>
  | NullDeref        \<comment> \<open>an access through the null pointer\<close>
  | DeadFrame        \<comment> \<open>a jump to an exception handler whose frame has returned\<close>
  | Diverges         \<comment> \<open>a loop that never ends\<close>

type_synonym 'a res = "pg_error + 'a"

definition bindE :: "'a res \<Rightarrow> ('a \<Rightarrow> 'b res) \<Rightarrow> 'b res" where
  "bindE m f = (case m of Inl e \<Rightarrow> Inl e | Inr x \<Rightarrow> f x)"

lemma bindE_Inl [simp]: "bindE (Inl e) f = Inl e"
  by (simp add: bindE_def)

lemma bindE_Inr [simp]: "bindE (Inr x) f = f x"
  by (simp add: bindE_def)

lemma bindE_eq_Inr: "bindE m f = Inr y \<longleftrightarrow> (\<exists>x. m = Inr x \<and> f x = Inr y)"
  by (cases m) auto

lemma bindE_assoc: "bindE (bindE m f) g = bindE m (\<lambda>x. bindE (f x) g)"
  by (cases m) auto

lemma bindE_cong [fundef_cong]:
  "m = m' \<Longrightarrow> (\<And>x. m' = Inr x \<Longrightarrow> f x = f' x) \<Longrightarrow> bindE m f = bindE m' f'"
  by (cases m') auto

text \<open>
  Code that changes shared state and may leave abnormally: the state is also there after
  an error, because a handler that swallows the error continues with it.
\<close>

type_synonym ('s, 'a) sm = "'s \<Rightarrow> 'a res \<times> 's"

definition returnS :: "'a \<Rightarrow> ('s, 'a) sm" where
  "returnS x = (\<lambda>s. (Inr x, s))"

definition failS :: "pg_error \<Rightarrow> ('s, 'a) sm" where
  "failS e = (\<lambda>s. (Inl e, s))"

definition bindS :: "('s, 'a) sm \<Rightarrow> ('a \<Rightarrow> ('s, 'b) sm) \<Rightarrow> ('s, 'b) sm" where
  "bindS m f = (\<lambda>s. case m s of (Inl e, s') \<Rightarrow> (Inl e, s') | (Inr x, s') \<Rightarrow> f x s')"

definition getS :: "('s, 's) sm" where
  "getS = (\<lambda>s. (Inr s, s))"

definition putS :: "'s \<Rightarrow> ('s, unit) sm" where
  "putS s = (\<lambda>_. (Inr (), s))"

definition liftS :: "'a res \<Rightarrow> ('s, 'a) sm" where
  "liftS r = (\<lambda>s. (r, s))"

lemma bindS_cong [fundef_cong]:
  "m = m' \<Longrightarrow> (\<And>x. f x = f' x) \<Longrightarrow> bindS m f = bindS m' f'"
  by (metis ext)

lemma sm_simps [simp]:
  "returnS x s = (Inr x, s)" "failS e s = (Inl e, s)" "getS s = (Inr s, s)" "putS t s = (Inr (), t)"
  "liftS r s = (r, s)" "bindS (returnS x) f = f x" "bindS (failS e) f = failS e"
  by (auto simp: returnS_def failS_def getS_def putS_def liftS_def bindS_def)

lemma bindS_run:
  "m s = (Inr x, s') \<Longrightarrow> bindS m f s = f x s'"
  "m s = (Inl e, s') \<Longrightarrow> bindS m f s = (Inl e, s')"
  by (auto simp: bindS_def)

text \<open>Total specifications: every outcome, normal or not, satisfies its condition.\<close>

definition runs :: "('s, 'a) sm \<Rightarrow> 's \<Rightarrow> ('a \<Rightarrow> 's \<Rightarrow> bool) \<Rightarrow> (pg_error \<Rightarrow> 's \<Rightarrow> bool) \<Rightarrow> bool" where
  "runs m s Q E = (case m s of (Inr x, s') \<Rightarrow> Q x s' | (Inl e, s') \<Rightarrow> E e s')"

lemma runs_simps [simp]:
  "runs (returnS x) s Q E = Q x s" "runs (failS e) s Q E = E e s" "runs getS s Q E = Q s s"
  "runs (putS t) s Q E = Q () t"
  by (auto simp: runs_def)

lemma runs_liftS [simp]: "runs (liftS r) s Q E = (case r of Inl e \<Rightarrow> E e s | Inr x \<Rightarrow> Q x s)"
  by (cases r) (auto simp: runs_def)

lemma runs_bindS [simp]: "runs (bindS m f) s Q E = runs m s (\<lambda>x s'. runs (f x) s' Q E) E"
  by (auto simp: runs_def bindS_def split: prod.splits sum.splits)

lemma runs_mono:
  "runs m s Q E \<Longrightarrow> (\<And>x s'. Q x s' \<Longrightarrow> Q' x s') \<Longrightarrow> (\<And>e s'. E e s' \<Longrightarrow> E' e s') \<Longrightarrow> runs m s Q' E'"
  by (auto simp: runs_def split: prod.splits sum.splits)

section \<open>Integer limits\<close>

abbreviation INT_MAX :: int where "INT_MAX \<equiv> 2147483647"

abbreviation MaxAllocSize :: int where "MaxAllocSize \<equiv> 1073741823"

text \<open>A signed \<^verbatim>\<open>int\<close> result that leaves the type is undefined behaviour in C.\<close>

definition c_int :: "int \<Rightarrow> int res" where
  "c_int x = (if - INT_MAX - 1 \<le> x \<and> x \<le> INT_MAX then Inr x else Inl IntOverflow)"

lemma c_int_ok [c_mem]: "- INT_MAX - 1 \<le> x \<Longrightarrow> x \<le> INT_MAX \<Longrightarrow> c_int x = Inr x"
  by (simp add: c_int_def)

section \<open>Memory blocks\<close>

type_synonym 'b block = "'b option list"

text \<open>
  \<^verbatim>\<open>palloc\<close> and \<^verbatim>\<open>repalloc\<close> of \<open>n\<close> cells of \<open>esz\<close> bytes. The request is converted to the
  unsigned type \<^verbatim>\<open>Size\<close>, so a negative one is refused with the oversized ones.
\<close>

definition palloc :: "int \<Rightarrow> int \<Rightarrow> 'b block res" where
  "palloc esz n =
     (if n < 0 \<or> n * esz > MaxAllocSize then Inl (Elog ''invalid memory alloc request size'')
      else Inr (replicate (nat n) None))"

definition repalloc :: "int \<Rightarrow> 'b block \<Rightarrow> int \<Rightarrow> 'b block res" where
  "repalloc esz b n =
     (if n < 0 \<or> n * esz > MaxAllocSize then Inl (Elog ''invalid memory alloc request size'')
      else Inr (take (nat n) b @ replicate (nat n - length b) None))"

definition load :: "'b block \<Rightarrow> int \<Rightarrow> 'b res" where
  "load b i =
     (if i < 0 \<or> int (length b) \<le> i then Inl OutOfBounds
      else case b ! nat i of None \<Rightarrow> Inl Uninitialised | Some v \<Rightarrow> Inr v)"

definition store :: "'b block \<Rightarrow> int \<Rightarrow> 'b \<Rightarrow> 'b block res" where
  "store b i v =
     (if i < 0 \<or> int (length b) \<le> i then Inl OutOfBounds else Inr (b[nat i := Some v]))"

text \<open>\<^verbatim>\<open>memcpy(b + off, src, ...)\<close> of a list of cells; an empty copy at the end is allowed.\<close>

definition memcpy_to :: "'b block \<Rightarrow> int \<Rightarrow> 'b block \<Rightarrow> 'b block res" where
  "memcpy_to b off src =
     (if off < 0 \<or> int (length b) < off + int (length src) then Inl OutOfBounds
      else Inr (take (nat off) b @ src @ drop (nat off + length src) b))"

text \<open>The \<open>n\<close> cells from \<open>off\<close> on, as the source operand of a copy.\<close>

definition cells :: "'b block \<Rightarrow> int \<Rightarrow> int \<Rightarrow> 'b block res" where
  "cells b off n =
     (if off < 0 \<or> n < 0 \<or> int (length b) < off + n then Inl OutOfBounds
      else Inr (take (nat n) (drop (nat off) b)))"

text \<open>\<^verbatim>\<open>memmove\<close> inside one block: the source is read before anything is written.\<close>

definition memmove_in :: "'b block \<Rightarrow> int \<Rightarrow> int \<Rightarrow> int \<Rightarrow> 'b block res" where
  "memmove_in b dst src n = bindE (cells b src n) (memcpy_to b dst)"

subsection \<open>Access inside the bounds succeeds\<close>

lemma palloc_ok [c_mem]:
  "0 \<le> n \<Longrightarrow> n * esz \<le> MaxAllocSize \<Longrightarrow> palloc esz n = Inr (replicate (nat n) None)"
  by (simp add: palloc_def)

lemma repalloc_grow [c_mem]:
  "int (length b) \<le> n \<Longrightarrow> n * esz \<le> MaxAllocSize \<Longrightarrow>
   repalloc esz b n = Inr (b @ replicate (nat n - length b) None)"
  by (simp add: repalloc_def)

lemma load_ok [c_mem]: "i < length b \<Longrightarrow> b ! i = Some v \<Longrightarrow> load b (int i) = Inr v"
  by (simp add: load_def)

lemma store_ok [c_mem]: "i < length b \<Longrightarrow> store b (int i) v = Inr (b[i := Some v])"
  by (simp add: store_def)

lemma store_split [c_mem]: "i = int (length as) \<Longrightarrow> store (as @ a # bs) i v = Inr (as @ Some v # bs)"
  by (simp add: store_def list_update_append)

lemma store_length: "store b i v = Inr b' \<Longrightarrow> length b' = length b"
  by (auto simp: store_def split: if_splits)

lemma memcpy_to_length: "memcpy_to b i src = Inr b' \<Longrightarrow> length b' = length b"
  by (auto simp: memcpy_to_def split: if_splits)

lemma cells_ok [c_mem]:
  "off + n \<le> length b \<Longrightarrow> cells b (int off) (int n) = Inr (take n (drop off b))"
  by (simp add: cells_def)

lemma memcpy_to_ok [c_mem]:
  "off + length src \<le> length b \<Longrightarrow>
   memcpy_to b (int off) src = Inr (take off b @ src @ drop (off + length src) b)"
  by (simp add: memcpy_to_def)

section \<open>Generic list facts\<close>

lemma nat_le_length_conv: "nat i \<le> length xs \<longleftrightarrow> i \<le> int (length xs)"
  by linarith

lemma list_update_split:
  "xs = as @ a # bs \<Longrightarrow> i = length as \<Longrightarrow> xs[i := v] = as @ v # bs"
  by simp

lemma take_map_Some_split:
  "take n b = map Some t \<Longrightarrow> n < length b \<Longrightarrow> b ! n = x \<Longrightarrow>
   b = map Some t @ x # drop (Suc n) b"
  by (metis id_take_nth_drop)

end
