(* ===== verification/StringInfo.thy ===== *)
theory StringInfo
  imports Pg_Prelude
begin

text \<open>
  The extensible string buffer of \<^verbatim>\<open>src_common_stringinfo.c\<close> and \<^verbatim>\<open>pvsnprintf\<close> of
  \<^verbatim>\<open>src_common_psprintf.c\<close>, byte for byte: the buffer block, its allocated size, the text
  length and the cursor. Every write goes through a checked access, the doubling loop of
  \<^verbatim>\<open>enlargeStringInfo\<close> reports overflow and divergence, and the retry loop of
  \<^verbatim>\<open>appendStringInfo\<close> is a partial function, so that it returns is a theorem.

  \<open>si_text\<close> is the abstraction (the text the buffer holds) and \<open>si_ok\<close> the invariant of
  \<^verbatim>\<open>stringinfo.h\<close>: the block has \<^verbatim>\<open>maxlen\<close> bytes, \<^verbatim>\<open>len < maxlen\<close>, the text is initialised and a
  NUL follows it.
\<close>

section \<open>State and operations\<close>

abbreviation NUL :: char where "NUL \<equiv> CHR 0x00"

record StringInfoData =
  data :: "char block"
  len :: int
  maxlen :: int
  cursor :: int

definition resetStringInfo :: "StringInfoData \<Rightarrow> StringInfoData res" where
  "resetStringInfo str =
     bindE (store (data str) 0 NUL) (\<lambda>d. Inr (str\<lparr>data := d, len := 0, cursor := 0\<rparr>))"

definition initStringInfo :: "StringInfoData res" where
  "initStringInfo =
     bindE (palloc 1 1024) (\<lambda>d.
       resetStringInfo \<lparr>data = d, len = 0, maxlen = 1024, cursor = 0\<rparr>)"

text \<open>\<^verbatim>\<open>while (needed > newlen) newlen = 2 * newlen;\<close>\<close>

function enlarge_newlen :: "int \<Rightarrow> int \<Rightarrow> int res" where
  "enlarge_newlen needed newlen =
     (if needed > newlen
      then if newlen \<le> 0 then Inl Diverges
           else if 2 * newlen > INT_MAX then Inl IntOverflow
           else enlarge_newlen needed (2 * newlen)
      else Inr newlen)"
  by pat_completeness auto
termination
  by (relation "measure (\<lambda>(needed, newlen). nat (needed - newlen))") auto

declare enlarge_newlen.simps [simp del]

definition enlargeStringInfo :: "StringInfoData \<Rightarrow> int \<Rightarrow> StringInfoData res" where
  "enlargeStringInfo str needed =
     (if needed < 0 then Inl (Elog ''invalid string enlargement request size'')
      else if needed \<ge> (MaxAllocSize - len str) mod 2 ^ 64 then Inl (Elog ''out of memory'')
      else let needed' = needed + len str + 1 in
        if needed' \<le> maxlen str then Inr str
        else bindE (c_int (2 * maxlen str)) (\<lambda>newlen0.
             bindE (enlarge_newlen needed' newlen0) (\<lambda>newlen1.
             let newlen = (if newlen1 > MaxAllocSize then MaxAllocSize else newlen1) in
             bindE (repalloc 1 (data str) newlen) (\<lambda>d.
             Inr (str\<lparr>data := d, maxlen := newlen\<rparr>)))))"

definition appendBinaryStringInfo :: "StringInfoData \<Rightarrow> char list \<Rightarrow> StringInfoData res" where
  "appendBinaryStringInfo str0 bytes =
     bindE (enlargeStringInfo str0 (int (length bytes))) (\<lambda>str.
     bindE (memcpy_to (data str) (len str) (map Some bytes)) (\<lambda>d.
     let len' = len str + int (length bytes) in
     bindE (store d len' NUL) (\<lambda>d'. Inr (str\<lparr>data := d', len := len'\<rparr>))))"

text \<open>A C string is the list of its bytes before the terminating NUL.\<close>

definition appendStringInfoString :: "StringInfoData \<Rightarrow> string \<Rightarrow> StringInfoData res" where
  "appendStringInfoString str s = appendBinaryStringInfo str s"

definition put_char :: "StringInfoData \<Rightarrow> char \<Rightarrow> StringInfoData res" where
  "put_char str ch =
     bindE (store (data str) (len str) ch) (\<lambda>d.
     bindE (store d (len str + 1) NUL) (\<lambda>d'.
     Inr (str\<lparr>data := d', len := len str + 1\<rparr>)))"

definition appendStringInfoChar :: "StringInfoData \<Rightarrow> char \<Rightarrow> StringInfoData res" where
  "appendStringInfoChar str ch =
     bindE (if len str + 1 \<ge> maxlen str then enlargeStringInfo str 1 else Inr str)
       (\<lambda>str'. put_char str' ch)"

definition appendStringInfoCharMacro :: "StringInfoData \<Rightarrow> char \<Rightarrow> StringInfoData res" where
  "appendStringInfoCharMacro str ch =
     (if len str + 1 \<ge> maxlen str then appendStringInfoChar str ch else put_char str ch)"

text \<open>\<^verbatim>\<open>while (--count >= 0) str->data[str->len++] = ' ';\<close>\<close>

fun put_spaces :: "StringInfoData \<Rightarrow> nat \<Rightarrow> StringInfoData res" where
  "put_spaces str 0 = Inr str"
| "put_spaces str (Suc count) =
     bindE (store (data str) (len str) (CHR '' '')) (\<lambda>d.
     put_spaces (str\<lparr>data := d, len := len str + 1\<rparr>) count)"

definition appendStringInfoSpaces :: "StringInfoData \<Rightarrow> int \<Rightarrow> StringInfoData res" where
  "appendStringInfoSpaces str0 count =
     (if count > 0
      then bindE (enlargeStringInfo str0 count) (\<lambda>str1.
           bindE (put_spaces str1 (nat count)) (\<lambda>str.
           bindE (store (data str) (len str) NUL) (\<lambda>d. Inr (str\<lparr>data := d\<rparr>))))
      else Inr str0)"

text \<open>
  \<^verbatim>\<open>pvsnprintf(buf + off, avail, fmt, args)\<close>. What the format expands to is the argument
  \<open>out\<close> (\<open>None\<close> when the conversion fails and \<^verbatim>\<open>vsnprintf\<close> returns a negative number). At most
  \<open>avail - 1\<close> bytes and a NUL are written; the result is the byte count or the size needed.
\<close>

definition pvsnprintf :: "char block \<Rightarrow> int \<Rightarrow> int \<Rightarrow> string option \<Rightarrow> (char block \<times> int) res" where
  "pvsnprintf buf off avail out =
     (case out of
        None \<Rightarrow> Inl (Elog ''vsnprintf failed'')
      | Some s \<Rightarrow>
          bindE (memcpy_to buf off (map Some (take (nat avail - 1) s @ [NUL]))) (\<lambda>buf'.
          let nprinted = int (length s) in
          if nprinted < avail then Inr (buf', nprinted)
          else if nprinted > MaxAllocSize - 1 then Inl (Elog ''out of memory'')
          else Inr (buf', nprinted + 1)))"

definition appendStringInfoVA :: "StringInfoData \<Rightarrow> string option \<Rightarrow> (StringInfoData \<times> int) res" where
  "appendStringInfoVA str out =
     (let avail = maxlen str - len str in
      if avail < 16 then Inr (str, 32)
      else bindE (pvsnprintf (data str) (len str) avail out) (\<lambda>(d, nprinted).
           if nprinted < avail then Inr (str\<lparr>data := d, len := len str + nprinted\<rparr>, 0)
           else bindE (store d (len str) NUL) (\<lambda>d'. Inr (str\<lparr>data := d'\<rparr>, nprinted))))"

text \<open>The retry loop; \<open>None\<close> would be a loop that never ends.\<close>

partial_function (option) appendStringInfo ::
  "StringInfoData \<Rightarrow> string option \<Rightarrow> StringInfoData res option" where
  "appendStringInfo str out =
     (case appendStringInfoVA str out of
        Inl e \<Rightarrow> Some (Inl e)
      | Inr (str1, needed) \<Rightarrow>
          if needed = 0 then Some (Inr str1)
          else case enlargeStringInfo str1 needed of
                 Inl e \<Rightarrow> Some (Inl e)
               | Inr str2 \<Rightarrow> appendStringInfo str2 out)"

section \<open>Abstraction and invariant\<close>

definition si_text :: "StringInfoData \<Rightarrow> string" where
  "si_text str = map the (take (nat (len str)) (data str))"

definition si_ok :: "StringInfoData \<Rightarrow> bool" where
  "si_ok str \<longleftrightarrow> int (length (data str)) = maxlen str \<and> 0 \<le> len str \<and> len str < maxlen str \<and>
     maxlen str \<le> MaxAllocSize \<and> list_all (\<lambda>c. c \<noteq> None) (take (nat (len str)) (data str)) \<and>
     data str ! nat (len str) = Some NUL"

text \<open>The invariant spelled out as the layout of the block.\<close>

definition si_rep :: "StringInfoData \<Rightarrow> string \<Rightarrow> bool" where
  "si_rep str t \<longleftrightarrow> (\<exists>rest. data str = map Some t @ Some NUL # rest) \<and>
     len str = int (length t) \<and> maxlen str = int (length (data str)) \<and> maxlen str \<le> MaxAllocSize"

lemma map_Some_the: "list_all (\<lambda>c. c \<noteq> None) xs \<Longrightarrow> map Some (map the xs) = xs"
  by (induction xs) auto

lemma si_repI:
  "data str = map Some t @ Some NUL # rest \<Longrightarrow> len str = int (length t) \<Longrightarrow>
   maxlen str = int (length (data str)) \<Longrightarrow> maxlen str \<le> MaxAllocSize \<Longrightarrow> si_rep str t"
  by (auto simp: si_rep_def)

lemma si_rep_iff: "si_rep str t \<longleftrightarrow> si_ok str \<and> si_text str = t"
proof
  assume "si_rep str t"
  then show "si_ok str \<and> si_text str = t"
    by (auto simp: si_rep_def si_ok_def si_text_def list_all_iff nth_append)
next
  assume ok: "si_ok str \<and> si_text str = t"
  let ?n = "nat (len str)"
  have t: "take ?n (data str) = map Some t"
    using ok by (auto simp: si_ok_def si_text_def map_Some_the simp del: map_map)
  have "data str = map Some t @ Some NUL # drop (Suc ?n) (data str)"
    by (rule take_map_Some_split [OF t]) (use ok in \<open>auto simp: si_ok_def\<close>)
  moreover from t have "length t = ?n"
    using ok by (metis si_ok_def length_map length_take min.absorb2 nat_le_length_conv order.strict_implies_order)
  ultimately show "si_rep str t"
    using ok by (auto simp: si_rep_def si_ok_def)
qed

lemma si_rep_text: "si_ok str \<Longrightarrow> si_rep str (si_text str)"
  by (simp add: si_rep_iff)

lemma si_ok_len: "si_ok str \<Longrightarrow> len str = int (length (si_text str))"
  using si_rep_text by (auto simp: si_rep_def)

section \<open>Growing the buffer\<close>

lemma enlarge_newlen_ok:
  "0 < newlen \<Longrightarrow> needed \<le> MaxAllocSize \<Longrightarrow>
   \<exists>k. enlarge_newlen needed newlen = Inr (newlen * 2 ^ k) \<and> needed \<le> newlen * 2 ^ k"
proof (induction needed newlen rule: enlarge_newlen.induct)
  case (1 needed newlen)
  show ?case
  proof (cases "needed > newlen")
    case True
    with 1 have "\<exists>k. enlarge_newlen needed (2 * newlen) = Inr (2 * newlen * 2 ^ k) \<and>
        needed \<le> 2 * newlen * 2 ^ k"
      by simp
    then obtain k where "enlarge_newlen needed (2 * newlen) = Inr (newlen * 2 ^ Suc k)"
        and "needed \<le> newlen * 2 ^ Suc k"
      by (auto simp: ac_simps)
    with True 1 show ?thesis
      by (intro exI [of _ "Suc k"]) (simp add: enlarge_newlen.simps [of needed newlen])
  next
    case False
    then show ?thesis
      by (intro exI [of _ 0]) (simp add: enlarge_newlen.simps [of needed newlen])
  qed
qed

lemma size_room: "0 \<le> n \<Longrightarrow> n \<le> MaxAllocSize \<Longrightarrow> (MaxAllocSize - n) mod 2 ^ 64 = MaxAllocSize - n"
  by simp

lemma enlarge_rep:
  assumes rep: "si_rep str t" and needed: "0 \<le> needed" "needed + int (length t) < MaxAllocSize"
  shows "\<exists>str'. enlargeStringInfo str needed = Inr str' \<and> si_rep str' t \<and>
     int (length t) + needed + 1 \<le> maxlen str' \<and> maxlen str \<le> maxlen str' \<and> cursor str' = cursor str"
proof -
  from rep obtain rest where d: "data str = map Some t @ Some NUL # rest"
    and len: "len str = int (length t)" and ml: "maxlen str = int (length (data str))"
    and mx: "maxlen str \<le> MaxAllocSize"
    by (auto simp: si_rep_def)
  let ?n = "needed + int (length t) + 1"
  show ?thesis
  proof (cases "?n \<le> maxlen str")
    case True
    with rep needed len mx ml d show ?thesis
      by (auto simp: enlargeStringInfo_def Let_def size_room)
  next
    case False
    have pos: "0 < 2 * maxlen str" using ml d by simp
    obtain k where loop: "enlarge_newlen ?n (2 * maxlen str) = Inr (2 * maxlen str * 2 ^ k)"
      and big: "?n \<le> 2 * maxlen str * 2 ^ k"
      using enlarge_newlen_ok [OF pos, of ?n] needed by auto
    define m where "m = min MaxAllocSize (2 * maxlen str * 2 ^ k)"
    have "maxlen str * 1 \<le> maxlen str * (2 * 2 ^ k)"
      using pos by (intro mult_left_mono) (auto intro: order_trans [of 1 2])
    then have m: "maxlen str \<le> m" "?n \<le> m" "m \<le> MaxAllocSize"
      using mx big needed by (auto simp: m_def mult.assoc)
    have "enlargeStringInfo str needed =
        Inr (str\<lparr>data := data str @ replicate (nat m - length (data str)) None, maxlen := m\<rparr>)"
      using needed len mx False loop m ml
      by (auto simp: enlargeStringInfo_def Let_def size_room c_int_ok repalloc_grow m_def min_def ac_simps)
    moreover have "si_rep (str\<lparr>data := data str @ replicate (nat m - length (data str)) None, maxlen := m\<rparr>) t"
      using d len ml m by (auto simp: si_rep_def)
    ultimately show ?thesis
      using m by auto
  qed
qed

lemma enlarge_full:
  "si_rep str t \<Longrightarrow> 0 \<le> needed \<Longrightarrow> MaxAllocSize \<le> needed + int (length t) \<Longrightarrow>
   enlargeStringInfo str needed = Inl (Elog ''out of memory'')"
  by (auto simp: enlargeStringInfo_def si_rep_def size_room)

section \<open>Appending\<close>

text \<open>Writing \<open>s\<close> and a NUL behind the text of a buffer that has the room.\<close>

lemma write_tail_rep:
  assumes rep: "si_rep str t" and room: "int (length t) + int (length s) + 1 \<le> maxlen str"
  shows "\<exists>d. memcpy_to (data str) (len str) (map Some (s @ [NUL])) = Inr d \<and>
     si_rep (str\<lparr>data := d, len := len str + int (length s)\<rparr>) (t @ s)"
proof -
  from rep obtain rest where d: "data str = map Some t @ Some NUL # rest"
    and l: "len str = int (length t)" "maxlen str = int (length (data str))" "maxlen str \<le> MaxAllocSize"
    by (auto simp: si_rep_def)
  have fits: "length t + length (map Some (s @ [NUL])) \<le> length (data str)"
    using room l by simp
  let ?d = "take (length t) (data str) @ map Some (s @ [NUL]) @ drop (length t + length (map Some (s @ [NUL]))) (data str)"
  have len_d: "length ?d = length (data str)"
    using fits by simp
  have "si_rep (str\<lparr>data := ?d, len := len str + int (length s)\<rparr>) (t @ s)"
    by (rule si_repI [where rest = "drop (length t + length (map Some (s @ [NUL]))) (data str)"])
      (use l d len_d in auto)
  then show ?thesis
    using memcpy_to_ok [OF fits] l by (intro exI [of _ ?d]) simp
qed

lemma store_tail_after_memcpy:
  assumes "si_rep str t" and "int (length t) + int (length s) + 1 \<le> maxlen str"
  shows "\<exists>d d'. memcpy_to (data str) (len str) (map Some s) = Inr d \<and>
     store d (len str + int (length s)) NUL = Inr d' \<and>
     si_rep (str\<lparr>data := d', len := len str + int (length s)\<rparr>) (t @ s)"
proof -
  obtain d' where d': "memcpy_to (data str) (len str) (map Some (s @ [NUL])) = Inr d'"
    and rep': "si_rep (str\<lparr>data := d', len := len str + int (length s)\<rparr>) (t @ s)"
    using write_tail_rep [OF assms] by blast
  from assms obtain rest where dd: "data str = map Some t @ Some NUL # rest"
    and l: "len str = int (length t)" "maxlen str = int (length (data str))"
    by (auto simp: si_rep_def)
  let ?d = "take (length t) (data str) @ map Some s @ drop (length t + length s) (data str)"
  have d: "memcpy_to (data str) (len str) (map Some s) = Inr ?d"
    using memcpy_to_ok [of "length t" "map Some s" "data str"] assms(2) l by simp
  have lt: "length t + length s < length (data str)"
    using assms(2) l by linarith
  then obtain x where x: "drop (length t + length s) (data str) = x # drop (Suc (length t + length s)) (data str)"
    using Cons_nth_drop_Suc by metis
  have "store ?d (len str + int (length s)) NUL =
      Inr (?d[length t + length s := Some NUL])"
    using store_ok [of "length t + length s" ?d NUL] lt l by simp
  also have "?d[length t + length s := Some NUL] = d'"
    using d' lt l x by (simp add: memcpy_to_def list_update_append split: if_splits)
  finally show ?thesis
    using d rep' by blast
qed

lemma appendBinary_rep:
  assumes rep: "si_rep str t" and room: "int (length t) + int (length s) < MaxAllocSize"
  shows "\<exists>str'. appendBinaryStringInfo str s = Inr str' \<and> si_rep str' (t @ s) \<and> cursor str' = cursor str"
proof -
  obtain str1 where e: "enlargeStringInfo str (int (length s)) = Inr str1"
    and r1: "si_rep str1 t" and big: "int (length t) + int (length s) + 1 \<le> maxlen str1"
    and c: "cursor str1 = cursor str"
    using enlarge_rep [OF rep, of "int (length s)"] room by auto
  from store_tail_after_memcpy [OF r1 big] e c show ?thesis
    by (auto simp: appendBinaryStringInfo_def Let_def)
qed

lemma put_char_rep:
  assumes rep: "si_rep str t" and room: "int (length t) + 2 \<le> maxlen str"
  shows "\<exists>str'. put_char str ch = Inr str' \<and> si_rep str' (t @ [ch]) \<and> cursor str' = cursor str"
proof -
  have "\<exists>d d'. memcpy_to (data str) (len str) [Some ch] = Inr d \<and>
     store d (len str + 1) NUL = Inr d' \<and> si_rep (str\<lparr>data := d', len := len str + 1\<rparr>) (t @ [ch])"
    using store_tail_after_memcpy [OF rep, of "[ch]"] room by simp
  moreover have "memcpy_to (data str) (len str) [Some ch] = store (data str) (len str) ch"
    using rep by (auto simp: memcpy_to_def store_def si_rep_def list_update_append)
  ultimately show ?thesis
    by (auto simp: put_char_def)
qed

lemma appendChar_rep:
  assumes rep: "si_rep str t" and room: "int (length t) + 1 < MaxAllocSize"
  shows "\<exists>str'. appendStringInfoChar str ch = Inr str' \<and> si_rep str' (t @ [ch]) \<and> cursor str' = cursor str"
proof (cases "len str + 1 \<ge> maxlen str")
  case True
  obtain str1 where "enlargeStringInfo str 1 = Inr str1" "si_rep str1 t"
    "int (length t) + 2 \<le> maxlen str1" "cursor str1 = cursor str"
    using enlarge_rep [OF rep, of 1] room by auto
  with put_char_rep [of str1 t ch] True show ?thesis
    by (auto simp: appendStringInfoChar_def)
next
  case False
  with rep have "int (length t) + 2 \<le> maxlen str"
    by (simp add: si_rep_def)
  with put_char_rep [OF rep] False show ?thesis
    by (auto simp: appendStringInfoChar_def)
qed

lemma appendCharMacro_eq: "appendStringInfoCharMacro str ch = appendStringInfoChar str ch"
  by (simp add: appendStringInfoCharMacro_def appendStringInfoChar_def)

lemma put_spaces_ok:
  "data str = map Some t @ rest \<Longrightarrow> len str = int (length t) \<Longrightarrow> n \<le> length rest \<Longrightarrow>
   put_spaces str n =
     Inr (str\<lparr>data := map Some (t @ replicate n (CHR '' '')) @ drop n rest, len := len str + int n\<rparr>)"
proof (induction n arbitrary: str t rest)
  case 0
  then show ?case by simp
next
  case (Suc n)
  from Suc.prems(3) obtain x rest' where rest: "rest = x # rest'"
    by (cases rest) auto
  let ?str = "str\<lparr>data := map Some (t @ [CHR '' '']) @ rest', len := len str + 1\<rparr>"
  have "store (data str) (len str) (CHR '' '') = Inr (map Some (t @ [CHR '' '']) @ rest')"
    using Suc.prems rest by (simp add: store_def list_update_append)
  moreover have "put_spaces ?str n = Inr (?str\<lparr>data := map Some ((t @ [CHR '' '']) @ replicate n (CHR '' ''))
      @ drop n rest', len := len ?str + int n\<rparr>)"
    by (rule Suc.IH) (use Suc.prems rest in auto)
  ultimately show ?case
    using rest by (simp add: ac_simps)
qed

lemma appendSpaces_rep:
  assumes rep: "si_rep str t" and room: "int (length t) + max 0 count < MaxAllocSize"
  shows "\<exists>str'. appendStringInfoSpaces str count = Inr str' \<and>
     si_rep str' (t @ replicate (nat count) (CHR '' '')) \<and> cursor str' = cursor str"
proof (cases "count > 0")
  case True
  obtain str1 where e: "enlargeStringInfo str count = Inr str1" and r1: "si_rep str1 t"
    and big: "int (length t) + count + 1 \<le> maxlen str1" and c: "cursor str1 = cursor str"
    using enlarge_rep [OF rep, of count] room True by auto
  from r1 obtain rest where d: "data str1 = map Some t @ Some NUL # rest"
    and l: "len str1 = int (length t)" "maxlen str1 = int (length (data str1))" "maxlen str1 \<le> MaxAllocSize"
    by (auto simp: si_rep_def)
  have n: "nat count \<le> length rest" using big l d by simp
  let ?sp = "t @ replicate (nat count) (CHR '' '')"
  let ?tail = "drop (nat count) (Some NUL # rest)"
  obtain x tl where tail: "?tail = x # tl"
    using n by (cases ?tail) auto
  have put: "put_spaces str1 (nat count) =
      Inr (str1\<lparr>data := map Some ?sp @ ?tail, len := len str1 + int (nat count)\<rparr>)"
    by (rule put_spaces_ok) (use d l n in auto)
  have st: "store (map Some ?sp @ x # tl) (len str1 + int (nat count)) NUL = Inr (map Some ?sp @ Some NUL # tl)"
    by (rule store_split) (use l in simp)
  have "length (map Some ?sp @ Some NUL # tl) = length (data str1)"
    using arg_cong [OF tail, of length] d n by simp
  then have "si_rep (str1\<lparr>len := len str1 + int (nat count), data := map Some ?sp @ Some NUL # tl\<rparr>) ?sp"
    by (intro si_repI [where rest = tl]) (use l in auto)
  with e put st tail c True show ?thesis
    by (auto simp: appendStringInfoSpaces_def)
next
  case False
  with rep show ?thesis
    by (auto simp: appendStringInfoSpaces_def)
qed

subsection \<open>Formatted output: the retry loop\<close>

lemma VA_fits:
  assumes rep: "si_rep str t" and avail: "16 \<le> maxlen str - len str"
    and fits: "int (length s) < maxlen str - len str"
  shows "\<exists>str'. appendStringInfoVA str (Some s) = Inr (str', 0) \<and> si_rep str' (t @ s) \<and> cursor str' = cursor str"
proof -
  have "take (nat (maxlen str - len str) - 1) s = s"
    using fits by simp
  moreover have "int (length t) + int (length s) + 1 \<le> maxlen str"
    using fits rep by (simp add: si_rep_def)
  ultimately show ?thesis
    using write_tail_rep [OF rep, of s] avail fits
    by (auto simp: appendStringInfoVA_def pvsnprintf_def Let_def)
qed

lemma VA_small:
  "maxlen str - len str < 16 \<Longrightarrow> appendStringInfoVA str out = Inr (str, 32)"
  by (simp add: appendStringInfoVA_def)

lemma VA_short:
  assumes rep: "si_rep str t" and avail: "16 \<le> maxlen str - len str"
    and long: "maxlen str - len str \<le> int (length s)" and lim: "int (length s) < MaxAllocSize"
  shows "\<exists>str'. appendStringInfoVA str (Some s) = Inr (str', int (length s) + 1) \<and> si_rep str' t \<and>
     cursor str' = cursor str"
proof -
  let ?s = "take (nat (maxlen str - len str) - 1) s"
  have ls: "int (length ?s) = maxlen str - len str - 1"
    using avail long by simp
  obtain d where d: "memcpy_to (data str) (len str) (map Some (?s @ [NUL])) = Inr d"
    using write_tail_rep [OF rep, of ?s] ls rep by (auto simp: si_rep_def)
  from rep obtain rest where dd: "data str = map Some t @ Some NUL # rest"
    and l: "len str = int (length t)" "maxlen str = int (length (data str))" "maxlen str \<le> MaxAllocSize"
    by (auto simp: si_rep_def)
  have lend: "length d = length (data str)"
    using d by (rule memcpy_to_length)
  have "take (length t) d = map Some t"
    using d dd l by (auto simp: memcpy_to_def split: if_splits)
  then have "d = map Some t @ (d ! length t) # drop (Suc (length t)) d"
    using lend dd by (intro take_map_Some_split) auto
  then have st: "d[length t := Some NUL] = map Some t @ Some NUL # drop (Suc (length t)) d"
    by (rule list_update_split) simp
  have "store d (len str) NUL = Inr (d[length t := Some NUL])"
    using store_ok [of "length t" d NUL] lend dd l by simp
  moreover have "length (d[length t := Some NUL]) = length (data str)"
    using lend by simp
  then have "si_rep (str\<lparr>data := d[length t := Some NUL]\<rparr>) t"
    by (intro si_repI [where rest = "drop (Suc (length t)) d"]) (use st l in auto)
  ultimately show ?thesis
    using d avail long lim by (auto simp: appendStringInfoVA_def pvsnprintf_def Let_def)
qed

lemma VA_toolong:
  assumes rep: "si_rep str t" and avail: "16 \<le> maxlen str - len str" and long: "MaxAllocSize \<le> int (length s)"
  shows "appendStringInfoVA str (Some s) = Inl (Elog ''out of memory'')"
proof -
  let ?s = "take (nat (maxlen str - len str) - 1) s"
  have "int (length t) + int (length ?s) + 1 \<le> maxlen str"
    using avail rep by (auto simp: si_rep_def)
  then obtain d where "memcpy_to (data str) (len str) (map Some (?s @ [NUL])) = Inr d"
    using write_tail_rep [OF rep, of ?s] by blast
  moreover have "maxlen str - len str \<le> int (length s)"
    using rep long by (auto simp: si_rep_def)
  ultimately show ?thesis
    using avail long by (auto simp: appendStringInfoVA_def pvsnprintf_def Let_def)
qed

text \<open>One call, two calls, three calls: each lemma feeds the next.\<close>

lemma appendf_fits:
  assumes "si_rep str t" and "16 \<le> maxlen str - len str" and "int (length s) < maxlen str - len str"
  shows "\<exists>str'. appendStringInfo str (Some s) = Some (Inr str') \<and> si_rep str' (t @ s) \<and> cursor str' = cursor str"
  using VA_fits [OF assms] by (subst appendStringInfo.simps) auto

lemma appendf_avail:
  assumes rep: "si_rep str t" and avail: "16 \<le> maxlen str - len str"
  shows "\<exists>r. appendStringInfo str (Some s) = Some r \<and>
     (if int (length t) + int (length s) + 1 < MaxAllocSize \<or> int (length s) < maxlen str - len str
      then \<exists>str'. r = Inr str' \<and> si_rep str' (t @ s) \<and> cursor str' = cursor str
      else r = Inl (Elog ''out of memory''))"
proof -
  consider (fits) "int (length s) < maxlen str - len str"
    | (short) "maxlen str - len str \<le> int (length s)" "int (length s) < MaxAllocSize"
    | (toolong) "maxlen str - len str \<le> int (length s)" "MaxAllocSize \<le> int (length s)"
    by linarith
  then show ?thesis
  proof cases
    case fits
    with appendf_fits [OF rep avail fits] show ?thesis by auto
  next
    case short
    obtain str1 where va: "appendStringInfoVA str (Some s) = Inr (str1, int (length s) + 1)"
      and r1: "si_rep str1 t" and c1: "cursor str1 = cursor str"
      using VA_short [OF rep avail short] by blast
    show ?thesis
    proof (cases "int (length t) + int (length s) + 1 < MaxAllocSize")
      case True
      then obtain str2 where e: "enlargeStringInfo str1 (int (length s) + 1) = Inr str2" "si_rep str2 t"
        "int (length t) + (int (length s) + 1) + 1 \<le> maxlen str2" "cursor str2 = cursor str1"
        using enlarge_rep [OF r1, of "int (length s) + 1"] by auto
      have "16 \<le> maxlen str2 - len str2" "int (length s) < maxlen str2 - len str2"
        using e short avail by (auto simp: si_rep_def)
      with e obtain str3 where "appendStringInfo str2 (Some s) = Some (Inr str3)" "si_rep str3 (t @ s)"
        "cursor str3 = cursor str2"
        using appendf_fits [of str2 t s] by blast
      with va e c1 True show ?thesis
        by (subst appendStringInfo.simps) auto
    next
      case False
      then have "enlargeStringInfo str1 (int (length s) + 1) = Inl (Elog ''out of memory'')"
        by (intro enlarge_full [OF r1]) auto
      with va False short show ?thesis
        by (subst appendStringInfo.simps) auto
    qed
  next
    case toolong
    with VA_toolong [OF rep avail] show ?thesis
      by (subst appendStringInfo.simps) auto
  qed
qed

lemma appendf_total:
  assumes rep: "si_rep str t"
  shows "\<exists>r. appendStringInfo str (Some s) = Some r \<and>
     ((\<exists>str'. r = Inr str' \<and> si_rep str' (t @ s) \<and> cursor str' = cursor str) \<or>
      r = Inl (Elog ''out of memory'') \<and> MaxAllocSize \<le> int (length t) + int (length s) + 32)"
proof (cases "maxlen str - len str < 16")
  case False
  with appendf_avail [OF rep, of s] show ?thesis
    by (auto split: if_splits)
next
  case True
  show ?thesis
  proof (cases "32 + int (length t) < MaxAllocSize")
    case small: True
    obtain str1 where e: "enlargeStringInfo str 32 = Inr str1" "si_rep str1 t"
      "int (length t) + 32 + 1 \<le> maxlen str1" "cursor str1 = cursor str"
      using enlarge_rep [OF rep, of 32] small by auto
    then have "16 \<le> maxlen str1 - len str1"
      by (auto simp: si_rep_def)
    from appendf_avail [OF e(2) this, of s] e VA_small [OF True, of "Some s"] show ?thesis
      by (subst appendStringInfo.simps) (auto split: if_splits)
  next
    case big: False
    then have "enlargeStringInfo str 32 = Inl (Elog ''out of memory'')"
      by (intro enlarge_full [OF rep]) auto
    with VA_small [OF True, of "Some s"] big show ?thesis
      by (subst appendStringInfo.simps) auto
  qed
qed

section \<open>The interface: a text sink\<close>

text \<open>
  What the clients of the buffer rely on. \<open>puts\<close> says that a call appended exactly \<open>s\<close>, or
  gave up with an \<^verbatim>\<open>elog\<close> because the text would not fit below \<open>limit\<close>: no client call ends in a
  memory error or an endless loop. The relation composes over \<open>bindE\<close>, so a client that
  makes many calls is described by the concatenation of what they append.
\<close>

definition puts :: "('b \<Rightarrow> bool) \<Rightarrow> ('b \<Rightarrow> string) \<Rightarrow> int \<Rightarrow> 'b \<Rightarrow> string \<Rightarrow> 'b res \<Rightarrow> bool" where
  "puts ok tx limit b s r \<longleftrightarrow>
     (case r of Inr b' \<Rightarrow> ok b' \<and> tx b' = tx b @ s
      | Inl e \<Rightarrow> (\<exists>m. e = Elog m) \<and> limit \<le> int (length (tx b)) + int (length s))"

text \<open>A loop over the elements of a list that appends for each.\<close>

fun put_each :: "('b \<Rightarrow> 'x \<Rightarrow> 'b res) \<Rightarrow> 'b \<Rightarrow> 'x list \<Rightarrow> 'b res" where
  "put_each f b [] = Inr b"
| "put_each f b (x # xs) = bindE (f b x) (\<lambda>b'. put_each f b' xs)"

locale text_sink =
  fixes ok :: "'b \<Rightarrow> bool" and tx :: "'b \<Rightarrow> string" and limit :: int
    and put :: "'b \<Rightarrow> string \<Rightarrow> 'b res" and putc :: "'b \<Rightarrow> char \<Rightarrow> 'b res"
    and putf :: "'b \<Rightarrow> string \<Rightarrow> 'b res"
  assumes put_law: "ok b \<Longrightarrow> puts ok tx limit b s (put b s)"
    and putc_law: "ok b \<Longrightarrow> puts ok tx limit b [c] (putc b c)"
    and putf_law: "ok b \<Longrightarrow> puts ok tx limit b s (putf b s)"
begin

lemma puts_done: "ok b \<Longrightarrow> puts ok tx limit b [] (Inr b)"
  by (simp add: puts_def)

lemma puts_bind:
  assumes "puts ok tx limit b s r"
    and "\<And>b'. ok b' \<Longrightarrow> tx b' = tx b @ s \<Longrightarrow> puts ok tx limit b' s' (f b')"
  shows "puts ok tx limit b (s @ s') (bindE r f)"
proof (cases r)
  case (Inl e)
  with assms(1) show ?thesis by (auto simp: puts_def)
next
  case (Inr b')
  with assms have "puts ok tx limit b' s' (f b')" and "tx b' = tx b @ s"
    by (auto simp: puts_def)
  with Inr show ?thesis by (auto simp: puts_def split: sum.splits)
qed

lemma puts_If:
  "(c \<Longrightarrow> puts ok tx limit b s r) \<Longrightarrow> (\<not> c \<Longrightarrow> puts ok tx limit b s' r') \<Longrightarrow>
   puts ok tx limit b (if c then s else s') (if c then r else r')"
  by simp

lemma puts_put_each:
  assumes step: "\<And>b x. ok b \<Longrightarrow> puts ok tx limit b (g x) (f b x)"
  shows "ok b \<Longrightarrow> puts ok tx limit b (concat (map g xs)) (put_each f b xs)"
proof (induction xs arbitrary: b)
  case Nil
  then show ?case by (simp add: puts_done)
next
  case (Cons x xs)
  then show ?case by (auto intro: puts_bind step)
qed

text \<open>Below the limit the call succeeds, and the text is known.\<close>

lemma puts_success:
  "puts ok tx limit b s r \<Longrightarrow> int (length (tx b)) + int (length s) < limit \<Longrightarrow>
   \<exists>b'. r = Inr b' \<and> ok b' \<and> tx b' = tx b @ s"
  by (auto simp: puts_def split: sum.splits)

lemma puts_error: "puts ok tx limit b s (Inl e) \<Longrightarrow> \<exists>m. e = Elog m"
  by (simp add: puts_def)

end

text \<open>\<^verbatim>\<open>appendStringInfo(str, fmt, ...)\<close> with the expansion of the format given.\<close>

definition appendStringInfo_fmt :: "StringInfoData \<Rightarrow> string \<Rightarrow> StringInfoData res" where
  "appendStringInfo_fmt str s =
     (case appendStringInfo str (Some s) of None \<Rightarrow> Inl Diverges | Some r \<Rightarrow> r)"

abbreviation si_limit :: int where "si_limit \<equiv> MaxAllocSize - 32"

lemma append_full:
  "si_rep str t \<Longrightarrow> MaxAllocSize \<le> int (length t) + int (length s) \<Longrightarrow>
   appendBinaryStringInfo str s = Inl (Elog ''out of memory'')"
  using enlarge_full [of str t "int (length s)"] by (simp add: appendBinaryStringInfo_def)

lemma appendChar_full:
  assumes "si_rep str t" and "MaxAllocSize \<le> int (length t) + 1"
  shows "appendStringInfoChar str ch = Inl (Elog ''out of memory'')"
proof -
  have "len str + 1 \<ge> maxlen str"
    using assms by (auto simp: si_rep_def)
  with enlarge_full [of str t 1] assms show ?thesis
    by (simp add: appendStringInfoChar_def)
qed

interpretation si: text_sink si_ok si_text si_limit
  appendStringInfoString appendStringInfoCharMacro appendStringInfo_fmt
proof unfold_locales
  fix b s assume "si_ok b"
  then have rep: "si_rep b (si_text b)" by (rule si_rep_text)
  show "puts si_ok si_text si_limit b s (appendStringInfoString b s)"
    using appendBinary_rep [OF rep, of s] append_full [OF rep, of s]
    by (cases "int (length (si_text b)) + int (length s) < MaxAllocSize")
      (auto simp: puts_def appendStringInfoString_def si_rep_iff)
next
  fix b c assume "si_ok b"
  then have rep: "si_rep b (si_text b)" by (rule si_rep_text)
  show "puts si_ok si_text si_limit b [c] (appendStringInfoCharMacro b c)"
    using appendChar_rep [OF rep, of c] appendChar_full [OF rep, of c]
    by (cases "int (length (si_text b)) + 1 < MaxAllocSize")
      (auto simp: puts_def appendCharMacro_eq si_rep_iff)
next
  fix b s assume "si_ok b"
  then have rep: "si_rep b (si_text b)" by (rule si_rep_text)
  show "puts si_ok si_text si_limit b s (appendStringInfo_fmt b s)"
    using appendf_total [OF rep, of s]
    by (auto simp: puts_def appendStringInfo_fmt_def si_rep_iff)
qed

section \<open>Properties\<close>

text \<open>
  A concrete buffer for the witnesses: 20 bytes that hold the text \<^verbatim>\<open>ab\<close>.
\<close>

definition demo_buf :: StringInfoData where
  "demo_buf = \<lparr>data = map Some [CHR ''a'', CHR ''b'', NUL] @ replicate 17 None,
     len = 2, maxlen = 20, cursor = 0\<rparr>"

lemma demo_buf_ok: "si_ok demo_buf" "si_text demo_buf = ''ab''"
  by (simp_all add: demo_buf_def si_ok_def si_text_def)

text \<open>
  C30: The retry loop of appendStringInfo always returns. It has appended exactly the
  formatted text and kept the buffer invariant and the cursor, or it has raised "out of
  memory", and that only when the text would come within 32 bytes of MaxAllocSize.
\<close>

theorem appendStringInfo_returns:
  assumes "si_ok str"
  shows "\<exists>r. appendStringInfo str (Some s) = Some r \<and>
     (case r of
        Inr str' \<Rightarrow> si_ok str' \<and> si_text str' = si_text str @ s \<and> cursor str' = cursor str
      | Inl e \<Rightarrow> e = Elog ''out of memory'' \<and>
          MaxAllocSize \<le> int (length (si_text str)) + int (length s) + 32)"
  using appendf_total [OF si_rep_text [OF assms], of s] by (auto simp: si_rep_iff)

theorem appendStringInfo_returns_witness:
  "\<exists>str'. appendStringInfo demo_buf (Some ''cde'') = Some (Inr str') \<and> si_ok str' \<and> si_text str' = ''abcde''"
proof -
  obtain r where "appendStringInfo demo_buf (Some ''cde'') = Some r"
    and "case r of Inr str' \<Rightarrow> si_ok str' \<and> si_text str' = si_text demo_buf @ ''cde'' \<and> cursor str' = cursor demo_buf
      | Inl e \<Rightarrow> e = Elog ''out of memory'' \<and> MaxAllocSize \<le> int (length (si_text demo_buf)) + int (length ''cde'') + 32"
    using appendStringInfo_returns [OF demo_buf_ok(1), of "''cde''"] by blast
  then show ?thesis by (cases r) (auto simp: demo_buf_ok)
qed

text \<open>
  C31: enlargeStringInfo refuses a negative request and one that would reach MaxAllocSize,
  each with its own error. Every other request succeeds: the buffer then has room for the
  request and the NUL, never more than MaxAllocSize bytes, the same text, and no doubling
  step overflows an int or loops forever.
\<close>

theorem enlargeStringInfo_spec:
  assumes "si_ok str"
  shows "(needed < 0 \<longrightarrow> enlargeStringInfo str needed = Inl (Elog ''invalid string enlargement request size'')) \<and>
     (0 \<le> needed \<and> MaxAllocSize \<le> needed + len str \<longrightarrow> enlargeStringInfo str needed = Inl (Elog ''out of memory'')) \<and>
     (0 \<le> needed \<and> needed + len str < MaxAllocSize \<longrightarrow>
        (\<exists>str'. enlargeStringInfo str needed = Inr str' \<and> si_ok str' \<and> si_text str' = si_text str \<and>
           len str' + needed + 1 \<le> maxlen str' \<and> maxlen str \<le> maxlen str' \<and> maxlen str' \<le> MaxAllocSize))"
proof -
  have rep: "si_rep str (si_text str)" using assms by (rule si_rep_text)
  have len: "len str = int (length (si_text str))" using assms by (rule si_ok_len)
  have neg: "needed < 0 \<Longrightarrow> enlargeStringInfo str needed = Inl (Elog ''invalid string enlargement request size'')"
    by (simp add: enlargeStringInfo_def)
  have grow: "\<exists>str'. enlargeStringInfo str needed = Inr str' \<and> si_ok str' \<and> si_text str' = si_text str \<and>
      len str' + needed + 1 \<le> maxlen str' \<and> maxlen str \<le> maxlen str' \<and> maxlen str' \<le> MaxAllocSize"
    if "0 \<le> needed" "needed + len str < MaxAllocSize"
    using enlarge_rep [OF rep, of needed] that len by (auto simp: si_rep_iff si_ok_len) (auto simp: si_ok_def)
  show ?thesis
    using neg grow enlarge_full [OF rep, of needed] len by auto
qed

theorem enlargeStringInfo_spec_witness:
  "si_ok demo_buf \<and> (\<exists>str'. enlargeStringInfo demo_buf 100 = Inr str' \<and> si_text str' = ''ab'' \<and> 103 \<le> maxlen str')"
  using enlargeStringInfo_spec [OF demo_buf_ok(1), of 100]
  by (auto simp: demo_buf_ok si_ok_len)

text \<open>
  A fresh buffer is empty, and the append operations (binary data, a string, a
  character, the character macro, spaces) each append exactly their bytes and keep the
  invariant whenever the result stays below MaxAllocSize; a negative space count appends
  nothing.
\<close>

theorem append_operations:
  assumes "si_ok str" and "len str + int (length bytes) < MaxAllocSize" and "len str + 1 < MaxAllocSize"
    and "len str + max 0 count < MaxAllocSize"
  shows "(\<exists>s0. initStringInfo = Inr s0 \<and> si_ok s0 \<and> si_text s0 = []) \<and>
     (\<exists>b. appendBinaryStringInfo str bytes = Inr b \<and> si_ok b \<and> si_text b = si_text str @ bytes) \<and>
     (\<exists>b. appendStringInfoString str bytes = Inr b \<and> si_ok b \<and> si_text b = si_text str @ bytes) \<and>
     (\<exists>b. appendStringInfoChar str ch = Inr b \<and> si_ok b \<and> si_text b = si_text str @ [ch]) \<and>
     (\<exists>b. appendStringInfoCharMacro str ch = Inr b \<and> si_ok b \<and> si_text b = si_text str @ [ch]) \<and>
     (\<exists>b. appendStringInfoSpaces str count = Inr b \<and> si_ok b \<and>
        si_text b = si_text str @ replicate (nat count) (CHR '' ''))"
proof -
  have rep: "si_rep str (si_text str)" using assms(1) by (rule si_rep_text)
  have len: "len str = int (length (si_text str))" using assms(1) by (rule si_ok_len)
  have init: "\<exists>s0. initStringInfo = Inr s0 \<and> si_ok s0 \<and> si_text s0 = []"
  proof -
    let ?s = "\<lparr>data = (replicate 1024 None)[0 := Some NUL], len = 0, maxlen = 1024, cursor = 0\<rparr>"
    have "initStringInfo = Inr ?s"
      by (simp add: initStringInfo_def palloc_def resetStringInfo_def store_def)
    moreover have "si_ok ?s" "si_text ?s = []"
      by (simp_all add: si_ok_def si_text_def)
    ultimately show ?thesis by blast
  qed
  show ?thesis
    using init appendBinary_rep [OF rep, of bytes] appendChar_rep [OF rep, of ch] appendSpaces_rep [OF rep, of count]
      assms(2-4)
    by (auto simp: len si_rep_iff appendStringInfoString_def appendCharMacro_eq)
qed

theorem append_operations_witness:
  "\<exists>b. appendBinaryStringInfo demo_buf ''xy'' = Inr b \<and> si_ok b \<and> si_text b = ''abxy''"
proof -
  have l: "len demo_buf = 2" by (simp add: demo_buf_def)
  show ?thesis
    using append_operations [OF demo_buf_ok(1), of "''xy''" 3] by (auto simp: l demo_buf_ok)
qed

end
