(* ===== verification/Json_Helper.thy ===== *)
theory Json_Helper
  imports StringInfo
begin

text \<open>
  \<^verbatim>\<open>pg_query_json_helper.c\<close>: writing JSON string tokens into a buffer and dropping the comma
  behind the last field. The escaping is judged by a reader for JSON strings,
  \<open>json_read\<close>, written from the JSON grammar: reading what \<open>outToken\<close> wrote gives the
  string back.
\<close>

section \<open>Operations\<close>

definition removeTrailingDelimiter :: "StringInfoData \<Rightarrow> StringInfoData res" where
  "removeTrailingDelimiter str =
     (if len str \<ge> 1
      then bindE (load (data str) (len str - 1)) (\<lambda>c.
             if c = CHR '',''
             then bindE (store (data str) (len str - 1) NUL)
                    (\<lambda>d. Inr (str\<lparr>data := d, len := len str - 1\<rparr>))
             else Inr str)
      else Inr str)"

abbreviation backslash :: char where "backslash \<equiv> CHR 0x5C"
abbreviation dquote :: char where "dquote \<equiv> CHR 0x22"

text \<open>The digits \<^verbatim>\<open>%04x\<close> prints for a value below 65536.\<close>

definition hex_digit :: "nat \<Rightarrow> char" where
  "hex_digit d = (if d < 10 then char_of (48 + d) else char_of (87 + d))"

definition hex4 :: "nat \<Rightarrow> string" where
  "hex4 n = map (\<lambda>k. hex_digit (n div 16 ^ k mod 16)) [3, 2, 1, 0]"

text \<open>The \<^verbatim>\<open>switch\<close> in the loop of \<^verbatim>\<open>_outToken\<close>.\<close>

definition outToken_char :: "StringInfoData \<Rightarrow> char \<Rightarrow> StringInfoData res" where
  "outToken_char buf p =
     (if p = CHR 0x08 then appendStringInfoString buf [backslash, CHR ''b'']
      else if p = CHR 0x0C then appendStringInfoString buf [backslash, CHR ''f'']
      else if p = CHR 0x0A then appendStringInfoString buf [backslash, CHR ''n'']
      else if p = CHR 0x0D then appendStringInfoString buf [backslash, CHR ''r'']
      else if p = CHR 0x09 then appendStringInfoString buf [backslash, CHR ''t'']
      else if p = dquote then appendStringInfoString buf [backslash, dquote]
      else if p = backslash then appendStringInfoString buf [backslash, backslash]
      else if (of_char p :: nat) < 32 \<or> p = CHR ''<'' \<or> p = CHR ''>''
           then appendStringInfo_fmt buf ([backslash, CHR ''u''] @ hex4 (of_char p))
      else appendStringInfoCharMacro buf p)"

definition outToken :: "StringInfoData \<Rightarrow> string option \<Rightarrow> StringInfoData res" where
  "outToken buf str =
     (case str of
        None \<Rightarrow> appendStringInfoString buf ''null''
      | Some s \<Rightarrow>
          bindE (appendStringInfoCharMacro buf dquote) (\<lambda>buf.
          bindE (put_each outToken_char buf s) (\<lambda>buf.
          appendStringInfoCharMacro buf dquote)))"

section \<open>A reader for JSON strings\<close>

definition hex_val :: "char \<Rightarrow> nat option" where
  "hex_val c = (let n = of_char c in
     if 48 \<le> n \<and> n \<le> 57 then Some (n - 48)
     else if 97 \<le> n \<and> n \<le> 102 then Some (n - 87)
     else if 65 \<le> n \<and> n \<le> 70 then Some (n - 55) else None)"

definition hex4_val :: "char \<Rightarrow> char \<Rightarrow> char \<Rightarrow> char \<Rightarrow> nat option" where
  "hex4_val a b c d =
     (case (hex_val a, hex_val b, hex_val c, hex_val d) of
        (Some a, Some b, Some c, Some d) \<Rightarrow> Some (((a * 16 + b) * 16 + c) * 16 + d)
      | _ \<Rightarrow> None)"

definition simple_escape :: "char \<Rightarrow> char option" where
  "simple_escape c =
     (if c = CHR ''b'' then Some (CHR 0x08) else if c = CHR ''f'' then Some (CHR 0x0C)
      else if c = CHR ''n'' then Some (CHR 0x0A) else if c = CHR ''r'' then Some (CHR 0x0D)
      else if c = CHR ''t'' then Some (CHR 0x09)
      else if c = dquote \<or> c = backslash \<or> c = CHR ''/'' then Some c else None)"

text \<open>
  The body of a JSON string up to its closing quote, which must end the input. Raw control
  characters are not allowed; a \<^verbatim>\<open>\u\<close> escape must name a byte.
\<close>

fun json_body :: "string \<Rightarrow> string option" where
  "json_body [] = None"
| "json_body (c # cs) =
     (if c = dquote then (if cs = [] then Some [] else None)
      else if (of_char c :: nat) < 32 then None
      else if c \<noteq> backslash then map_option ((#) c) (json_body cs)
      else case cs of
             e # cs' \<Rightarrow>
               if e = CHR ''u'' then
                 (case cs' of
                    w # x # y # z # cs'' \<Rightarrow>
                      (case hex4_val w x y z of
                         None \<Rightarrow> None
                       | Some n \<Rightarrow> if n < 256 then map_option ((#) (char_of n)) (json_body cs'') else None)
                  | _ \<Rightarrow> None)
               else (case simple_escape e of None \<Rightarrow> None | Some d \<Rightarrow> map_option ((#) d) (json_body cs'))
           | [] \<Rightarrow> None)"

definition json_read :: "string \<Rightarrow> string option" where
  "json_read s = (case s of c # cs \<Rightarrow> if c = dquote then json_body cs else None | [] \<Rightarrow> None)"

section \<open>What a token looks like\<close>

definition json_esc :: "char \<Rightarrow> string" where
  "json_esc p =
     (if p = CHR 0x08 then [backslash, CHR ''b''] else if p = CHR 0x0C then [backslash, CHR ''f'']
      else if p = CHR 0x0A then [backslash, CHR ''n''] else if p = CHR 0x0D then [backslash, CHR ''r'']
      else if p = CHR 0x09 then [backslash, CHR ''t''] else if p = dquote then [backslash, dquote]
      else if p = backslash then [backslash, backslash]
      else if (of_char p :: nat) < 32 \<or> p = CHR ''<'' \<or> p = CHR ''>''
           then [backslash, CHR ''u''] @ hex4 (of_char p)
      else [p])"

lemma outToken_char_puts:
  "si_ok buf \<Longrightarrow> puts si_ok si_text si_limit buf (json_esc p) (outToken_char buf p)"
  unfolding outToken_char_def json_esc_def
  by (intro si.puts_If si.put_law si.putc_law si.putf_law)

lemma outToken_puts:
  assumes "si_ok buf"
  shows "puts si_ok si_text si_limit buf
     (case str of None \<Rightarrow> ''null'' | Some s \<Rightarrow> [dquote] @ concat (map json_esc s) @ [dquote]) (outToken buf str)"
  unfolding outToken_def
  by (cases str)
    (auto simp only: option.case
      intro!: si.puts_bind si.puts_put_each outToken_char_puts si.put_law si.putc_law assms)

lemma hex_val_digit: "d < 16 \<Longrightarrow> hex_val (hex_digit d) = Some d"
  by (auto simp: hex_val_def hex_digit_def Let_def of_char_of take_bit_eq_mod)

lemma hex4_val_hex4:
  "n < 65536 \<Longrightarrow> \<exists>w x y z. hex4 n = [w, x, y, z] \<and> hex4_val w x y z = Some n"
proof -
  assume "n < 65536"
  define a b c where "a = n div 16" and "b = a div 16" and "c = b div 16"
  note abc = this
  have "n = a * 16 + n mod 16" "a = b * 16 + a mod 16" "b = c * 16 + b mod 16" "c mod 16 = c"
    using \<open>n < 65536\<close> by (auto simp: abc)
  moreover have "n div 16 ^ 3 = c" "n div 16 ^ 2 = b" "n div 16 ^ 1 = a" "n div 16 ^ 0 = n"
    by (simp_all add: abc flip: div_mult2_eq)
  ultimately have "((n div 16 ^ 3 mod 16 * 16 + n div 16 ^ 2 mod 16) * 16 + n div 16 ^ 1 mod 16) * 16
      + n div 16 ^ 0 mod 16 = n"
    by metis
  moreover have "n div 4096 < 16"
    using \<open>n < 65536\<close> by simp
  ultimately show ?thesis
    by (simp add: hex4_def hex4_val_def hex_val_digit)
qed

lemma of_char_bound: "(of_char c :: nat) < 256"
  by (cases c) (simp split: bool.split)

lemma json_body_esc: "json_body (json_esc p @ cs) = map_option ((#) p) (json_body cs)"
proof -
  have n: "(of_char p :: nat) < 256" by (rule of_char_bound)
  then have "(of_char p :: nat) < 65536" by linarith
  then obtain w x y z where h: "hex4 (of_char p) = [w, x, y, z]"
    and v: "hex4_val w x y z = Some (of_char p)"
    using hex4_val_hex4 [of "of_char p"] by blast
  show ?thesis
    by (auto simp: json_esc_def simple_escape_def h v n)
qed

lemma json_body_concat:
  "json_body (concat (map json_esc s) @ [dquote]) = Some s"
  by (induction s) (simp_all add: json_body_esc)

lemma length_json_esc: "length (json_esc p) \<le> 6"
  by (auto simp: json_esc_def hex4_def)

lemma length_concat_esc: "length (concat (map json_esc s)) \<le> 6 * length s"
  by (induction s) (use length_json_esc in \<open>auto intro: add_mono\<close>)

lemma removeTrailingDelimiter_rep:
  assumes "si_rep str t"
  shows "\<exists>str'. removeTrailingDelimiter str = Inr str' \<and>
     si_rep str' (if t \<noteq> [] \<and> last t = CHR '','' then butlast t else t)"
proof (cases t rule: rev_cases)
  case Nil
  with assms show ?thesis by (auto simp: removeTrailingDelimiter_def si_rep_def)
next
  case (snoc u c)
  from assms obtain rest where d: "data str = map Some u @ Some c # Some NUL # rest"
    and l: "len str = int (length u) + 1" "maxlen str = int (length (data str))" "maxlen str \<le> MaxAllocSize"
    by (auto simp: si_rep_def snoc)
  have ld: "load (data str) (len str - 1) = Inr c"
    using d l load_ok [of "length u" "data str" c] by (simp add: nth_append)
  have st: "store (data str) (len str - 1) NUL = Inr (map Some u @ Some NUL # Some NUL # rest)"
    unfolding d by (rule store_split) (use l in simp)
  have "si_rep (str\<lparr>data := map Some u @ Some NUL # Some NUL # rest, len := len str - 1\<rparr>) u"
    by (rule si_repI [where rest = "Some NUL # rest"]) (use d l in auto)
  with assms ld st l snoc show ?thesis
    by (auto simp: removeTrailingDelimiter_def)
qed

section \<open>Properties\<close>

text \<open>
  C24: outToken appends a JSON string that reads back as the given string, whatever bytes it
  has (quotes, backslashes, control characters, bytes above 127), or \<^verbatim>\<open>null\<close> for a NULL
  pointer. It fails only by running out of buffer, never by a memory error.
\<close>

theorem outToken_roundtrip:
  assumes "si_ok buf" and "len buf + 6 * int (length s) + 2 < si_limit"
  shows "\<exists>buf' t. outToken buf (Some s) = Inr buf' \<and> si_ok buf' \<and> si_text buf' = si_text buf @ t \<and>
     json_read t = Some s"
proof -
  let ?t = "[dquote] @ concat (map json_esc s) @ [dquote]"
  have "int (length (si_text buf)) + int (length ?t) < si_limit"
    using assms length_concat_esc [of s] by (simp add: si_ok_len)
  then obtain buf' where "outToken buf (Some s) = Inr buf'" "si_ok buf'" "si_text buf' = si_text buf @ ?t"
    using si.puts_success [OF outToken_puts [OF assms(1), of "Some s", unfolded option.case]] by blast
  moreover have "json_read ?t = Some s"
    by (simp add: json_read_def json_body_concat)
  ultimately show ?thesis by blast
qed

theorem outToken_roundtrip_witness:
  "\<exists>buf' t. outToken demo_buf (Some [CHR 0x22, CHR 0x01, CHR ''<'', CHR 0xE9]) = Inr buf' \<and>
     si_text buf' = ''ab'' @ t \<and> json_read t = Some [CHR 0x22, CHR 0x01, CHR ''<'', CHR 0xE9]"
proof -
  have "len demo_buf + 6 * int (length [CHR 0x22, CHR 0x01, CHR ''<'', CHR 0xE9]) + 2 < si_limit"
    by (simp add: demo_buf_def)
  from outToken_roundtrip [OF demo_buf_ok(1) this] show ?thesis
    by (auto simp: demo_buf_ok)
qed

text \<open>
  removeTrailingDelimiter drops one comma at the end of the text and changes nothing
  else; on any valid buffer it reads and writes only initialised bytes inside the buffer.
\<close>

theorem removeTrailingDelimiter_spec:
  assumes "si_ok str"
  shows "\<exists>str'. removeTrailingDelimiter str = Inr str' \<and> si_ok str' \<and>
     si_text str' = (if si_text str \<noteq> [] \<and> last (si_text str) = CHR '','' then butlast (si_text str) else si_text str)"
  using removeTrailingDelimiter_rep [OF si_rep_text [OF assms]] by (simp add: si_rep_iff)

theorem removeTrailingDelimiter_spec_witness:
  "\<exists>str'. removeTrailingDelimiter demo_buf = Inr str' \<and> si_text str' = ''ab''"
  using removeTrailingDelimiter_spec [OF demo_buf_ok(1)] by (simp add: demo_buf_ok) blast

end
