(* ===== verification/Pg_Bitutils.thy ===== *)
theory Pg_Bitutils
  imports Pg_Prelude
begin

text \<open>
  \<^verbatim>\<open>port/pg_bitutils.h\<close> as configured in this tree (\<^verbatim>\<open>HAVE__BUILTIN_CLZ\<close>, \<^verbatim>\<open>HAVE__BUILTIN_CTZ\<close> and
  \<^verbatim>\<open>HAVE__BUILTIN_POPCOUNT\<close> are defined): positions of the highest and lowest set bit, and the
  next power of two, on 32 and 64-bit words. The compiler builtins count bits from the word
  itself. Their value at 0 is undefined in C; the functions assert a nonzero argument.
\<close>

unbundle bit_operations_syntax

section \<open>Operations\<close>

definition builtin_clz :: "'a::len word \<Rightarrow> nat" where
  "builtin_clz w = length (takeWhile (\<lambda>i. \<not> bit w i) (rev [0..<LENGTH('a)]))"

definition builtin_ctz :: "'a::len word \<Rightarrow> nat" where
  "builtin_ctz w = length (takeWhile (\<lambda>i. \<not> bit w i) [0..<LENGTH('a)])"

definition builtin_popcount :: "'a::len word \<Rightarrow> nat" where
  "builtin_popcount w = length (filter (bit w) [0..<LENGTH('a)])"

definition pg_leftmost_one_pos32 :: "32 word \<Rightarrow> int" where
  "pg_leftmost_one_pos32 w = 31 - int (builtin_clz w)"

definition pg_leftmost_one_pos64 :: "64 word \<Rightarrow> int" where
  "pg_leftmost_one_pos64 w = 63 - int (builtin_clz w)"

definition pg_rightmost_one_pos32 :: "32 word \<Rightarrow> int" where
  "pg_rightmost_one_pos32 w = int (builtin_ctz w)"

definition pg_rightmost_one_pos64 :: "64 word \<Rightarrow> int" where
  "pg_rightmost_one_pos64 w = int (builtin_ctz w)"

definition pg_popcount64_slow :: "64 word \<Rightarrow> int" where
  "pg_popcount64_slow w = int (builtin_popcount w)"

definition pg_nextpower2_32 :: "32 word \<Rightarrow> 32 word" where
  "pg_nextpower2_32 num =
     (if num AND (num - 1) = 0 then num
      else push_bit (nat (pg_leftmost_one_pos32 num + 1)) 1)"

definition pg_nextpower2_64 :: "64 word \<Rightarrow> 64 word" where
  "pg_nextpower2_64 num =
     (if num AND (num - 1) = 0 then num
      else push_bit (nat (pg_leftmost_one_pos64 num + 1)) 1)"

definition pg_ceil_log2_32 :: "32 word \<Rightarrow> int" where
  "pg_ceil_log2_32 num = (if num < 2 then 0 else pg_leftmost_one_pos32 (num - 1) + 1)"

section \<open>Positions of bits\<close>

lemma upt_split_at: "k < n \<Longrightarrow> [0..<n] = [0..<k] @ k # [Suc k..<n]"
  using upt_add_eq_append [of 0 k "n - k"] by (simp add: upt_conv_Cons)

lemma takeWhile_upt_at:
  assumes "P k" "k < n" "\<And>j. j < k \<Longrightarrow> \<not> P j"
  shows "takeWhile (\<lambda>i. \<not> P i) [0..<n] = [0..<k]"
  unfolding upt_split_at [OF assms(2)] using assms(1,3) by (subst takeWhile_append2) auto

lemma takeWhile_upt_found:
  assumes "\<exists>i<n. P i"
  shows "length (takeWhile (\<lambda>i. \<not> P i) [0..<n]) = (LEAST i. P i)"
proof -
  from assms obtain i where "i < n" "P i" by blast
  then have "P (LEAST i. P i)" and "(LEAST i. P i) < n"
    using Least_le [of P i] by (auto intro: LeastI)
  then have "takeWhile (\<lambda>i. \<not> P i) [0..<n] = [0..<LEAST i. P i]"
    by (rule takeWhile_upt_at) (rule not_less_Least)
  then show ?thesis by simp
qed

lemma takeWhile_rev_upt_found:
  assumes "P p" "p < n" "\<And>j. p < j \<Longrightarrow> j < n \<Longrightarrow> \<not> P j"
  shows "length (takeWhile (\<lambda>i. \<not> P i) (rev [0..<n])) = n - 1 - p"
proof -
  have split: "[0..<n] = [0..<p] @ p # [Suc p..<n]"
    using assms(2) by (rule upt_split_at)
  have "takeWhile (\<lambda>i. \<not> P i) (rev [0..<n]) = rev [Suc p..<n]"
    unfolding split rev_append using assms
    by (simp del: upt_Suc) (subst takeWhile_append2, auto)
  then show ?thesis using assms(2) by simp
qed

lemma word_nonzero_bit: "(w :: 'a::len word) \<noteq> 0 \<Longrightarrow> \<exists>i<LENGTH('a). bit w i"
  by (metis bit_word_eqI bit_0_eq bot_apply bot_bool_def)

lemma builtin_ctz_Least: "w \<noteq> 0 \<Longrightarrow> builtin_ctz w = (LEAST i. bit w i)"
  unfolding builtin_ctz_def by (rule takeWhile_upt_found) (rule word_nonzero_bit)

lemma pg_rightmost_one_pos64_spec:
  assumes "w \<noteq> 0"
  shows "\<exists>k<64. pg_rightmost_one_pos64 w = int k \<and> bit w k \<and> (\<forall>j<k. \<not> bit w j)"
proof -
  from word_nonzero_bit [OF assms] obtain i where "bit w i" by blast
  then have "bit w (LEAST i. bit w i)" by (rule LeastI)
  moreover have "(LEAST i. bit w i) < 64"
    using calculation bit_imp_le_length by fastforce
  ultimately show ?thesis
    using assms by (auto simp: pg_rightmost_one_pos64_def builtin_ctz_Least dest: not_less_Least)
qed

lemma builtin_popcount_card: "builtin_popcount (w :: 'a::len word) = card {i. bit w i}"
proof -
  have "{i. bit w i} = set (filter (bit w) [0..<LENGTH('a)])"
    by (auto dest: bit_imp_le_length)
  then have "card {i. bit w i} = card (set (filter (bit w) [0..<LENGTH('a)]))" by simp
  also have "\<dots> = builtin_popcount w"
    unfolding builtin_popcount_def by (rule distinct_card) simp
  finally show ?thesis by simp
qed

lemma unat_exp: "p < LENGTH('a) \<Longrightarrow> unat (2 ^ p :: 'a::len word) = 2 ^ p"
  using unsigned_of_nat [of "2 ^ p", where 'a = nat and 'b = 'a]
  by (simp add: take_bit_nat_eq_self)

section \<open>The next power of two\<close>

lemma bit_of_top:
  fixes w :: "'a::len word"
  assumes "2 ^ p \<le> unat w" "unat w < 2 ^ Suc p"
  shows "bit w p"
proof -
  have "unat w div 2 ^ p = 1"
  proof (rule div_nat_eqI)
    show "2 ^ p * 1 \<le> unat w" "unat w < 2 ^ p * Suc 1" using assms by auto
  qed
  then have "bit (unat w) p"
    by (simp add: bit_iff_odd)
  then show ?thesis
    by (simp add: bit_unsigned_iff)
qed

lemma not_bit_above: "unat w < 2 ^ Suc p \<Longrightarrow> p < j \<Longrightarrow> \<not> bit w j"
proof
  assume "unat w < 2 ^ Suc p" "p < j" "bit w j"
  then have "bit (unat w) j" by (simp add: bit_unsigned_iff)
  then have "2 ^ j \<le> unat w" by (metis bit_iff_odd div_less even_zero not_less)
  moreover have "(2::nat) ^ Suc p \<le> 2 ^ j"
    using \<open>p < j\<close> by (intro power_increasing) auto
  ultimately show False using \<open>unat w < 2 ^ Suc p\<close> by linarith
qed

lemma builtin_clz_top:
  fixes w :: "'a::len word"
  assumes "2 ^ p \<le> unat w" "unat w < 2 ^ Suc p"
  shows "builtin_clz w = LENGTH('a) - 1 - p"
  unfolding builtin_clz_def
proof (rule takeWhile_rev_upt_found)
  show "bit w p" using assms by (rule bit_of_top)
  then show "p < LENGTH('a)" by (rule bit_imp_le_length)
  show "\<not> bit w j" if "p < j" for j using assms(2) that by (rule not_bit_above)
qed

lemma nat_power2_bracket: "0 < (n::nat) \<Longrightarrow> \<exists>p. 2 ^ p \<le> n \<and> n < 2 ^ Suc p"
  using ex_power_ivl1 [of 2 n] by auto

lemma power2_and_pred:
  fixes w :: "'a::len word"
  assumes "unat w = 2 ^ p"
  shows "w AND (w - 1) = 0"
proof -
  have p: "p < LENGTH('a)"
    using assms unsigned_less [of w] by (metis power_less_imp_less_exp one_less_numeral_iff semiring_norm(76))
  have "unat w = unat (2 ^ p :: 'a word)"
    using assms p by (simp add: unat_exp)
  then have w: "w = push_bit p 1" by (simp add: push_bit_eq_mult word_unat_eq_iff)
  have "w - 1 = mask p"
    by (simp add: w mask_eq_exp_minus_1 push_bit_eq_mult)
  then show ?thesis
    by (auto simp: w intro!: bit_word_eqI simp: bit_simps)
qed

lemma pg_leftmost_one_pos32_top:
  assumes "2 ^ p \<le> unat w" "unat w < 2 ^ Suc p"
  shows "pg_leftmost_one_pos32 w = int p"
proof -
  have "p < 32" using bit_of_top [OF assms] bit_imp_le_length by fastforce
  then show ?thesis using builtin_clz_top [OF assms] by (simp add: pg_leftmost_one_pos32_def)
qed

lemma pg_nextpower2_32_spec:
  assumes "0 < unat num" "unat num \<le> 2 ^ 31"
  shows "\<exists>k. unat (pg_nextpower2_32 num) = 2 ^ k \<and> unat num \<le> 2 ^ k \<and> 2 ^ k < 2 * unat num"
proof -
  obtain p where p: "2 ^ p \<le> unat num" "unat num < 2 ^ Suc p"
    using nat_power2_bracket [OF assms(1)] by blast
  show ?thesis
  proof (cases "unat num = 2 ^ p")
    case True
    with power2_and_pred [OF True] assms show ?thesis
      by (intro exI [of _ p]) (simp add: pg_nextpower2_32_def)
  next
    case False
    have one: "1 \<le> num" using assms(1) by (simp add: word_le_nat_alt)
    then have pred: "unat (num - 1) = unat num - 1"
      by (metis unat_1 unat_sub)
    have "bit num p" using p by (rule bit_of_top)
    moreover have "bit (num - 1) p"
      by (rule bit_of_top) (use p False pred in auto)
    ultimately have "num AND (num - 1) \<noteq> 0"
      by (metis bit_0_eq bit_and_iff bot_apply bot_bool_def)
    moreover have "p < 31"
    proof (rule ccontr)
      assume "\<not> p < 31"
      then have "(2::nat) ^ 31 \<le> 2 ^ p" by (intro power_increasing) auto
      with p assms False show False by linarith
    qed
    then have "unat (push_bit (Suc p) (1 :: 32 word)) = 2 ^ Suc p"
      using unat_exp [of "Suc p", where 'a = 32] by (simp add: push_bit_eq_mult)
    ultimately have "unat (pg_nextpower2_32 num) = 2 ^ Suc p"
      using pg_leftmost_one_pos32_top [OF p] by (simp add: pg_nextpower2_32_def nat_add_distrib)
    with p False show ?thesis
      by (intro exI [of _ "Suc p"]) auto
  qed
qed

end
