(* ===== verification/Pg_List.thy ===== *)
theory Pg_List
  imports Pg_Bitutils
begin

text \<open>
  The generic list package, \<^verbatim>\<open>src_backend_nodes_list.c\<close> with the accessors of \<^verbatim>\<open>pg_list.h\<close>: an
  array of cells with a length and an allocated length, the first cells possibly inline
  behind the header. \<^verbatim>\<open>NIL\<close> is \<open>None\<close>. Sizes are those of a 64-bit build: a cell has 8 bytes, the
  fixed part of the header 24, so \<^verbatim>\<open>LIST_HEADER_OVERHEAD\<close> is 3 cells.

  \<open>list_of\<close> is the abstraction to HOL lists, \<open>list_ok\<close> the invariant that
  \<^verbatim>\<open>check_list_invariants\<close> asserts, together with what it cannot see (the block has
  \<^verbatim>\<open>max_length\<close> cells and the cells below \<^verbatim>\<open>length\<close> are initialised).
\<close>

section \<open>State and operations\<close>

datatype NodeTag = T_List | T_IntList | T_OidList

record 'a List =
  ltype :: NodeTag
  llength :: int
  max_length :: int
  elements_inline :: bool    \<comment> \<open>\<^verbatim>\<open>elements == initial_elements\<close>\<close>
  elements :: "'a block"

abbreviation sizeof_ListCell :: int where "sizeof_ListCell \<equiv> 8"
abbreviation LIST_HEADER_OVERHEAD :: int where "LIST_HEADER_OVERHEAD \<equiv> 3"

definition nextpower2 :: "int \<Rightarrow> int" where
  "nextpower2 n = uint (pg_nextpower2_32 (word_of_int n))"

definition new_list :: "NodeTag \<Rightarrow> int \<Rightarrow> 'a List res" where
  "new_list type min_size =
     (let max_size = nextpower2 (max 8 (min_size + LIST_HEADER_OVERHEAD)) - LIST_HEADER_OVERHEAD in
      bindE (palloc sizeof_ListCell (LIST_HEADER_OVERHEAD + max_size)) (\<lambda>chunk.
      Inr \<lparr>ltype = type, llength = min_size, max_length = max_size, elements_inline = True,
           elements = drop (nat LIST_HEADER_OVERHEAD) chunk\<rparr>))"

definition enlarge_list :: "'a List \<Rightarrow> int \<Rightarrow> 'a List res" where
  "enlarge_list list min_size =
     (let new_max_len = nextpower2 (max 16 min_size) in
      if elements_inline list
      then bindE (palloc sizeof_ListCell new_max_len) (\<lambda>els.
           bindE (cells (elements list) 0 (llength list)) (\<lambda>old.
           bindE (memcpy_to els 0 old) (\<lambda>els'.
           Inr (list\<lparr>elements := els', elements_inline := False, max_length := new_max_len\<rparr>))))
      else bindE (repalloc sizeof_ListCell (elements list) new_max_len) (\<lambda>els.
           Inr (list\<lparr>elements := els, max_length := new_max_len\<rparr>)))"

definition set_cell :: "'a List \<Rightarrow> int \<Rightarrow> 'a \<Rightarrow> 'a List res" where
  "set_cell list n datum =
     bindE (store (elements list) n datum) (\<lambda>els. Inr (list\<lparr>elements := els\<rparr>))"

definition list_make1_impl :: "NodeTag \<Rightarrow> 'a \<Rightarrow> 'a List option res" where
  "list_make1_impl t datum1 =
     bindE (new_list t 1) (\<lambda>list. bindE (set_cell list 0 datum1) (\<lambda>list. Inr (Some list)))"

definition list_make2_impl :: "NodeTag \<Rightarrow> 'a \<Rightarrow> 'a \<Rightarrow> 'a List option res" where
  "list_make2_impl t datum1 datum2 =
     bindE (new_list t 2) (\<lambda>list. bindE (set_cell list 0 datum1) (\<lambda>list.
     bindE (set_cell list 1 datum2) (\<lambda>list. Inr (Some list))))"

definition list_make3_impl :: "NodeTag \<Rightarrow> 'a \<Rightarrow> 'a \<Rightarrow> 'a \<Rightarrow> 'a List option res" where
  "list_make3_impl t datum1 datum2 datum3 =
     bindE (new_list t 3) (\<lambda>list. bindE (set_cell list 0 datum1) (\<lambda>list.
     bindE (set_cell list 1 datum2) (\<lambda>list. bindE (set_cell list 2 datum3) (\<lambda>list.
     Inr (Some list)))))"

definition list_make4_impl :: "NodeTag \<Rightarrow> 'a \<Rightarrow> 'a \<Rightarrow> 'a \<Rightarrow> 'a \<Rightarrow> 'a List option res" where
  "list_make4_impl t datum1 datum2 datum3 datum4 =
     bindE (new_list t 4) (\<lambda>list. bindE (set_cell list 0 datum1) (\<lambda>list.
     bindE (set_cell list 1 datum2) (\<lambda>list. bindE (set_cell list 2 datum3) (\<lambda>list.
     bindE (set_cell list 3 datum4) (\<lambda>list. Inr (Some list))))))"

definition new_head_cell :: "'a List \<Rightarrow> 'a List res" where
  "new_head_cell list0 =
     bindE (if llength list0 \<ge> max_length list0 then enlarge_list list0 (llength list0 + 1) else Inr list0)
       (\<lambda>list. bindE (memmove_in (elements list) 1 0 (llength list)) (\<lambda>els.
        Inr (list\<lparr>elements := els, llength := llength list + 1\<rparr>)))"

definition new_tail_cell :: "'a List \<Rightarrow> 'a List res" where
  "new_tail_cell list0 =
     bindE (if llength list0 \<ge> max_length list0 then enlarge_list list0 (llength list0 + 1) else Inr list0)
       (\<lambda>list. Inr (list\<lparr>llength := llength list + 1\<rparr>))"

definition lappend :: "'a List option \<Rightarrow> 'a \<Rightarrow> 'a List option res" where
  "lappend list datum =
     bindE (case list of None \<Rightarrow> new_list T_List 1 | Some l \<Rightarrow> new_tail_cell l) (\<lambda>l.
     bindE (set_cell l (llength l - 1) datum) (\<lambda>l. Inr (Some l)))"

definition lcons :: "'a \<Rightarrow> 'a List option \<Rightarrow> 'a List option res" where
  "lcons datum list =
     bindE (case list of None \<Rightarrow> new_list T_List 1 | Some l \<Rightarrow> new_head_cell l) (\<lambda>l.
     bindE (set_cell l 0 datum) (\<lambda>l. Inr (Some l)))"

definition list_copy :: "'a List option \<Rightarrow> 'a List option res" where
  "list_copy oldlist =
     (case oldlist of None \<Rightarrow> Inr None
      | Some old \<Rightarrow>
          bindE (new_list (ltype old) (llength old)) (\<lambda>new.
          bindE (cells (elements old) 0 (llength new)) (\<lambda>src.
          bindE (memcpy_to (elements new) 0 src) (\<lambda>els. Inr (Some (new\<lparr>elements := els\<rparr>))))))"

definition list_concat :: "'a List option \<Rightarrow> 'a List option \<Rightarrow> 'a List option res" where
  "list_concat list1 list2 =
     (case list1 of None \<Rightarrow> list_copy list2
      | Some l1 \<Rightarrow> (case list2 of None \<Rightarrow> Inr list1
         | Some l2 \<Rightarrow>
             bindE (c_int (llength l1 + llength l2)) (\<lambda>new_len.
             bindE (if new_len > max_length l1 then enlarge_list l1 new_len else Inr l1) (\<lambda>l1.
             bindE (cells (elements l2) 0 (llength l2)) (\<lambda>src.
             bindE (memcpy_to (elements l1) (llength l1) src) (\<lambda>els.
             Inr (Some (l1\<lparr>elements := els, llength := new_len\<rparr>))))))))"

text \<open>
  The same call with both arguments the same pointer: the second operand is read through
  the header that the enlargement has just changed.
\<close>

definition list_concat_self :: "'a List option \<Rightarrow> 'a List option res" where
  "list_concat_self list =
     (case list of None \<Rightarrow> list_copy list
      | Some l \<Rightarrow>
          bindE (c_int (llength l + llength l)) (\<lambda>new_len.
          bindE (if new_len > max_length l then enlarge_list l new_len else Inr l) (\<lambda>l.
          bindE (cells (elements l) 0 (llength l)) (\<lambda>src.
          bindE (memcpy_to (elements l) (llength l) src) (\<lambda>els.
          Inr (Some (l\<lparr>elements := els, llength := new_len\<rparr>)))))))"

definition list_length :: "'a List option \<Rightarrow> int" where
  "list_length l = (case l of None \<Rightarrow> 0 | Some l \<Rightarrow> llength l)"

definition list_truncate :: "'a List option \<Rightarrow> int \<Rightarrow> 'a List option" where
  "list_truncate list new_size =
     (if new_size \<le> 0 then None
      else if new_size < list_length list
           then map_option (\<lambda>l. l\<lparr>llength := new_size\<rparr>) list
           else list)"

definition list_delete_nth_cell :: "'a List \<Rightarrow> int \<Rightarrow> 'a List option res" where
  "list_delete_nth_cell list n =
     (if llength list = 1 then Inr None
      else bindE (memmove_in (elements list) n (n + 1) (llength list - 1 - n)) (\<lambda>els.
           Inr (Some (list\<lparr>elements := els, llength := llength list - 1\<rparr>))))"

definition list_copy_tail :: "'a List option \<Rightarrow> int \<Rightarrow> 'a List option res" where
  "list_copy_tail oldlist nskip0 =
     (let nskip = (if nskip0 < 0 then 0 else nskip0) in
      case oldlist of None \<Rightarrow> Inr None
      | Some old \<Rightarrow>
          if nskip \<ge> llength old then Inr None
          else bindE (new_list (ltype old) (llength old - nskip)) (\<lambda>new.
               bindE (cells (elements old) nskip (llength new)) (\<lambda>src.
               bindE (memcpy_to (elements new) 0 src) (\<lambda>els. Inr (Some (new\<lparr>elements := els\<rparr>))))))"

text \<open>The loop of \<^verbatim>\<open>list_copy_deep\<close> over the indices \<open>i, ..., n - 1\<close>; \<open>f\<close> is \<^verbatim>\<open>copyObjectImpl\<close>.\<close>

fun copy_cells :: "('a \<Rightarrow> 'b) \<Rightarrow> 'a block \<Rightarrow> 'b List \<Rightarrow> nat \<Rightarrow> nat \<Rightarrow> 'b List res" where
  "copy_cells f old new i 0 = Inr new"
| "copy_cells f old new i (Suc n) =
     bindE (load old (int i)) (\<lambda>x. bindE (set_cell new (int i) (f x)) (\<lambda>new.
     copy_cells f old new (Suc i) n))"

definition list_copy_deep :: "('a \<Rightarrow> 'b) \<Rightarrow> 'a List option \<Rightarrow> 'b List option res" where
  "list_copy_deep f oldlist =
     (case oldlist of None \<Rightarrow> Inr None
      | Some old \<Rightarrow>
          bindE (new_list (ltype old) (llength old)) (\<lambda>new.
          bindE (copy_cells f (elements old) new 0 (nat (llength new))) (\<lambda>new. Inr (Some new))))"

definition list_nth :: "'a List \<Rightarrow> int \<Rightarrow> 'a res" where
  "list_nth list n = load (elements list) n"

definition linitial :: "'a List option \<Rightarrow> 'a res" where
  "linitial l = (case l of None \<Rightarrow> Inl OutOfBounds | Some l \<Rightarrow> list_nth l 0)"

definition llast :: "'a List option \<Rightarrow> 'a res" where
  "llast l = (case l of None \<Rightarrow> Inl OutOfBounds | Some l \<Rightarrow> list_nth l (llength l - 1))"

text \<open>\<^verbatim>\<open>foreach\<close>: the body runs on the cells at the indices \<open>i, i + 1, ...\<close> below the length.\<close>

fun foreach_from :: "'a List \<Rightarrow> nat \<Rightarrow> nat \<Rightarrow> ('s \<Rightarrow> 'a \<Rightarrow> 's res) \<Rightarrow> 's \<Rightarrow> 's res" where
  "foreach_from l i 0 body s = Inr s"
| "foreach_from l i (Suc n) body s =
     bindE (list_nth l (int i)) (\<lambda>x. bindE (body s x) (foreach_from l (Suc i) n body))"

definition foreach :: "'a List option \<Rightarrow> ('s \<Rightarrow> 'a \<Rightarrow> 's res) \<Rightarrow> 's \<Rightarrow> 's res" where
  "foreach lst body s =
     (case lst of None \<Rightarrow> Inr s | Some l \<Rightarrow> foreach_from l 0 (nat (llength l)) body s)"

section \<open>Abstraction and invariant\<close>

definition list_of :: "'a List option \<Rightarrow> 'a list" where
  "list_of list = (case list of None \<Rightarrow> [] | Some l \<Rightarrow> map the (take (nat (llength l)) (elements l)))"

definition list_ok :: "'a List option \<Rightarrow> bool" where
  "list_ok list = (case list of None \<Rightarrow> True
     | Some l \<Rightarrow> llength l > 0 \<and> llength l \<le> max_length l \<and> max_length l = int (length (elements l)) \<and>
         max_length l * sizeof_ListCell \<le> MaxAllocSize \<and>
         list_all (\<lambda>c. c \<noteq> None) (take (nat (llength l)) (elements l)))"

definition list_rep :: "'a List option \<Rightarrow> 'a list \<Rightarrow> bool" where
  "list_rep list xs = (case list of None \<Rightarrow> xs = []
     | Some l \<Rightarrow> xs \<noteq> [] \<and> (\<exists>rest. elements l = map Some xs @ rest) \<and> llength l = int (length xs) \<and>
         max_length l = int (length (elements l)) \<and> max_length l * sizeof_ListCell \<le> MaxAllocSize)"

definition list_core :: "'a List \<Rightarrow> 'a list \<Rightarrow> bool" where
  "list_core l xs \<longleftrightarrow> (\<exists>rest. elements l = map Some xs @ rest) \<and> llength l = int (length xs) \<and>
     max_length l = int (length (elements l)) \<and> max_length l * sizeof_ListCell \<le> MaxAllocSize"

lemma list_rep_Some: "list_rep (Some l) xs \<longleftrightarrow> xs \<noteq> [] \<and> list_core l xs"
  by (simp add: list_rep_def list_core_def)

lemma list_rep_None: "list_rep None xs \<longleftrightarrow> xs = []"
  by (simp add: list_rep_def)

lemmas list_reps = list_rep_Some list_rep_None

lemma list_coreE:
  assumes "list_core l xs"
  obtains rest where "elements l = map Some xs @ rest" "llength l = int (length xs)"
    "max_length l = int (length (elements l))" "length (elements l) < 134217728"
  using assms by (auto simp: list_core_def)

lemma list_coreI:
  "elements l = map Some xs @ rest \<Longrightarrow> llength l = int (length xs) \<Longrightarrow>
   max_length l = int (length (elements l)) \<Longrightarrow> length (elements l) < 134217728 \<Longrightarrow> list_core l xs"
  by (auto simp: list_core_def)

lemma list_rep_iff: "list_rep list xs \<longleftrightarrow> list_ok list \<and> list_of list = xs"
proof (cases list)
  case None
  then show ?thesis by (auto simp: list_rep_def list_ok_def list_of_def)
next
  case (Some l)
  let ?n = "nat (llength l)"
  show ?thesis
  proof
    assume "list_rep list xs"
    then show "list_ok list \<and> list_of list = xs"
      by (auto simp: Some list_rep_def list_ok_def list_of_def list_all_iff)
  next
    assume ok: "list_ok list \<and> list_of list = xs"
    then have "map Some (map the (take ?n (elements l))) = take ?n (elements l)"
      by (auto simp: Some list_ok_def list_all_iff intro!: map_idI)
    with ok have "elements l = map Some xs @ drop ?n (elements l)"
      by (simp add: Some list_of_def)
    moreover have "length xs = ?n"
      using ok by (auto simp: Some list_ok_def list_of_def)
    ultimately show "list_rep list xs"
      using ok by (auto simp: Some list_rep_def list_ok_def)
  qed
qed

section \<open>Allocation\<close>

abbreviation list_limit :: int where "list_limit \<equiv> 67108861"   \<comment> \<open>\<open>2^26 - 3\<close>\<close>

lemma nextpower2_spec:
  assumes "0 < n" "n \<le> 2 ^ 31"
  shows "\<exists>k. nextpower2 n = 2 ^ k \<and> n \<le> 2 ^ k \<and> 2 ^ k < 2 * n"
proof -
  have u: "unat (word_of_int n :: 32 word) = nat n"
    using assms by (simp add: unsigned_of_int take_bit_int_eq_self)
  obtain k where k: "unat (pg_nextpower2_32 (word_of_int n)) = 2 ^ k" "nat n \<le> 2 ^ k" "2 ^ k < 2 * nat n"
    using pg_nextpower2_32_spec [of "word_of_int n"] u assms by (auto simp: nat_le_iff)
  have "nextpower2 n = int (unat (pg_nextpower2_32 (word_of_int n)))"
    by (simp add: nextpower2_def)
  moreover have "n \<le> int (2 ^ k)" "int (2 ^ k) < 2 * n"
    using k assms by linarith+
  ultimately show ?thesis
    using k by (intro exI [of _ k]) simp
qed

lemma nextpower2_small:
  assumes "0 < n" "n \<le> 67108864"
  shows "n \<le> nextpower2 n \<and> nextpower2 n \<le> 67108864"
proof -
  obtain k where k: "nextpower2 n = 2 ^ k" "n \<le> 2 ^ k" "2 ^ k < 2 * n"
    using nextpower2_spec [of n] assms by auto
  have "(2::int) ^ k < 2 ^ 27" using k assms by simp
  then have "k < 27" by (rule power_less_imp_less_exp [rotated]) simp
  then have "k \<le> 26" by simp
  then have "(2::int) ^ k \<le> 2 ^ 26" by (rule power_increasing) simp
  with k show ?thesis by simp
qed

lemma nextpower2_large:
  assumes "67108864 < n" "n \<le> 2 ^ 31"
  shows "134217728 \<le> nextpower2 n"
proof -
  obtain k where k: "nextpower2 n = 2 ^ k" "n \<le> 2 ^ k"
    using nextpower2_spec [of n] assms by auto
  have "(2::int) ^ 26 < 2 ^ k" using k assms by simp
  then have "26 < k" by (rule power_less_imp_less_exp [rotated]) simp
  then have "27 \<le> k" by simp
  then have "(2::int) ^ 27 \<le> 2 ^ k" by (rule power_increasing) simp
  with k show ?thesis by simp
qed

lemma new_list_ok:
  assumes "0 < n" "n \<le> list_limit"
  shows "\<exists>m. new_list t n = Inr \<lparr>ltype = t, llength = n, max_length = int m, elements_inline = True,
       elements = replicate m None\<rparr> \<and> n \<le> int m \<and> m < 134217728"
proof -
  let ?p = "nextpower2 (max 8 (n + 3))"
  have p: "max 8 (n + 3) \<le> ?p" "?p \<le> 67108864"
    using nextpower2_small [of "max 8 (n + 3)"] assms by auto
  then show ?thesis
    using assms by (intro exI [of _ "nat (?p - 3)"])
      (auto simp: new_list_def Let_def palloc_ok nat_diff_distrib)
qed

lemma new_list_fail:
  assumes "list_limit < n" "n \<le> 1073741824"
  shows "\<exists>m. new_list t n = Inl (Elog m)"
  using nextpower2_large [of "max 8 (n + 3)"] assms
  by (auto simp: new_list_def palloc_def Let_def)

lemma enlarge_list_ok:
  assumes core: "list_core l xs" and size: "max_length l < n" "n \<le> 67108864"
  shows "\<exists>l'. enlarge_list l n = Inr l' \<and> list_core l' xs \<and> n \<le> max_length l' \<and> ltype l' = ltype l"
proof -
  obtain rest where r: "elements l = map Some xs @ rest" "llength l = int (length xs)"
    "max_length l = int (length (elements l))" "length (elements l) < 134217728"
    using core by (rule list_coreE)
  let ?p = "nextpower2 (max 16 n)"
  have p: "max 16 n \<le> ?p" "?p \<le> 67108864"
    using nextpower2_small [of "max 16 n"] size by auto
  have "int (length xs) \<le> ?p" using r size p by simp
  then have fit: "length xs \<le> nat ?p" by linarith
  show ?thesis
  proof (cases "elements_inline l")
    case True
    have c: "cells (elements l) 0 (llength l) = Inr (map Some xs)"
      using cells_ok [of 0 "length xs" "elements l"] r by simp
    have m: "memcpy_to (replicate (nat ?p) None) 0 (map Some xs) =
        Inr (map Some xs @ replicate (nat ?p - length xs) None)"
      using memcpy_to_ok [of 0 "map Some xs" "replicate (nat ?p) None"] fit by simp
    have "list_core (l\<lparr>elements := map Some xs @ replicate (nat ?p - length xs) None,
        elements_inline := False, max_length := ?p\<rparr>) xs"
      by (rule list_coreI [where rest = "replicate (nat ?p - length xs) None"]) (use r p fit in auto)
    with True c m p show ?thesis
      by (auto simp: enlarge_list_def Let_def palloc_ok)
  next
    case False
    have rp: "repalloc sizeof_ListCell (elements l) ?p =
        Inr (elements l @ replicate (nat ?p - length (elements l)) None)"
      by (rule repalloc_grow) (use r p size in auto)
    have "list_core (l\<lparr>elements := elements l @ replicate (nat ?p - length (elements l)) None,
        max_length := ?p\<rparr>) xs"
      by (rule list_coreI [where rest = "rest @ replicate (nat ?p - length (elements l)) None"])
        (use r p size in auto)
    with False rp p show ?thesis
      by (auto simp: enlarge_list_def Let_def)
  qed
qed

lemma enlarge_list_fail:
  assumes "67108864 < n" "n \<le> 1073741824"
  shows "\<exists>m. enlarge_list l n = Inl (Elog m)"
  using nextpower2_large [of "max 16 n"] assms
  by (auto simp: enlarge_list_def palloc_def repalloc_def Let_def)

text \<open>Making room for \<open>n\<close> cells in all: nothing to do, an enlargement, or an error.\<close>

lemma ensure_room:
  assumes core: "list_core l xs" and n: "int (length xs) \<le> n" "n \<le> 1073741824"
  shows "(\<exists>l'. (if max_length l < n then enlarge_list l n else Inr l) = Inr l' \<and> list_core l' xs \<and>
       n \<le> max_length l' \<and> ltype l' = ltype l) \<or>
     (\<exists>m. (if max_length l < n then enlarge_list l n else Inr l) = Inl (Elog m)) \<and> list_limit < n"
  using enlarge_list_ok [OF core, of n] enlarge_list_fail [of n l] n core
  by (cases "max_length l < n"; cases "n \<le> 67108864") auto

lemma set_cell_split:
  "elements l = as @ a # bs \<Longrightarrow> n = int (length as) \<Longrightarrow>
   set_cell l n x = Inr (l\<lparr>elements := as @ Some x # bs\<rparr>)"
  by (simp add: set_cell_def store_split)

section \<open>The interface: a bounded sequence\<close>

text \<open>
  What a call that builds a list promises: the list it should have built, or an \<^verbatim>\<open>elog\<close> when
  that list is longer than what an allocation can hold.
\<close>

definition yields :: "('l \<Rightarrow> 'a list \<Rightarrow> bool) \<Rightarrow> int \<Rightarrow> 'l res \<Rightarrow> 'a list \<Rightarrow> bool" where
  "yields rep limit r xs \<longleftrightarrow>
     (case r of Inr l \<Rightarrow> rep l xs | Inl e \<Rightarrow> (\<exists>m. e = Elog m) \<and> limit < int (length xs))"

text \<open>Appending the elements of a list one after the other.\<close>

fun append_each :: "('l \<Rightarrow> 'a \<Rightarrow> 'l res) \<Rightarrow> 'l \<Rightarrow> 'a list \<Rightarrow> 'l res" where
  "append_each app l [] = Inr l"
| "append_each app l (x # xs) = bindE (app l x) (\<lambda>l'. append_each app l' xs)"

locale sequence =
  fixes rep :: "'l \<Rightarrow> 'a list \<Rightarrow> bool" and limit :: int and nil :: 'l
    and app :: "'l \<Rightarrow> 'a \<Rightarrow> 'l res" and cons :: "'a \<Rightarrow> 'l \<Rightarrow> 'l res"
    and cat :: "'l \<Rightarrow> 'l \<Rightarrow> 'l res" and copy :: "'l \<Rightarrow> 'l res"
  assumes nil_law: "rep nil []"
    and app_law: "rep l xs \<Longrightarrow> yields rep limit (app l x) (xs @ [x])"
    and cons_law: "rep l xs \<Longrightarrow> yields rep limit (cons x l) (x # xs)"
    and cat_law: "rep l xs \<Longrightarrow> rep l' ys \<Longrightarrow> yields rep limit (cat l l') (xs @ ys)"
    and copy_law: "rep l xs \<Longrightarrow> yields rep limit (copy l) xs"
    and rep_inj: "rep l xs \<Longrightarrow> rep l ys \<Longrightarrow> xs = ys"
begin

lemma append_each_yields:
  "rep l xs \<Longrightarrow> yields rep limit (append_each app l ys) (xs @ ys)"
proof (induction ys arbitrary: l xs)
  case Nil
  then show ?case by (simp add: yields_def)
next
  case (Cons y ys)
  from app_law [OF Cons.prems, of y] show ?case
    using Cons.IH [of _ "xs @ [y]"]
    by (cases "app l y") (auto simp: yields_def)
qed

text \<open>Concatenation does what appending the elements one by one does.\<close>

lemma cat_is_append_each:
  assumes "rep l xs" "rep l' ys" "cat l l' = Inr r" "append_each app l ys = Inr r'"
  shows "rep r (xs @ ys) \<and> rep r' (xs @ ys)"
  using cat_law [OF assms(1,2)] append_each_yields [OF assms(1), of ys] assms(3,4)
  by (simp add: yields_def)

lemma build_yields: "yields rep limit (append_each app nil xs) xs"
  using append_each_yields [OF nil_law, of xs] by simp

lemma yields_success: "yields rep limit r xs \<Longrightarrow> int (length xs) \<le> limit \<Longrightarrow> \<exists>l. r = Inr l \<and> rep l xs"
  by (auto simp: yields_def split: sum.splits)

end

section \<open>The operations implement it\<close>

lemma yields_Elog: "r = Inl (Elog m) \<Longrightarrow> limit < int (length xs) \<Longrightarrow> yields rep limit r xs"
  by (simp add: yields_def)

lemma list_coreD: "list_core l xs \<Longrightarrow> int (length xs) \<le> max_length l \<and> max_length l < 134217728"
  by (auto simp: list_core_def)

lemma single_new:
  "\<exists>l l'. new_list t 1 = Inr l \<and> llength l = 1 \<and> set_cell l 0 x = Inr l' \<and> list_core l' [x]"
proof -
  obtain m where m: "new_list t 1 = Inr \<lparr>ltype = t, llength = 1, max_length = int m, elements_inline = True,
       elements = replicate m (None :: 'a option)\<rparr>" "1 \<le> m" "m < 134217728"
    using new_list_ok [of 1 t] by auto
  then obtain k where k: "m = Suc k" by (cases m) auto
  let ?l = "\<lparr>ltype = t, llength = 1, max_length = int m, elements_inline = True,
       elements = replicate m (None :: 'a option)\<rparr>"
  have "set_cell ?l 0 x = Inr (?l\<lparr>elements := [] @ Some x # replicate k None\<rparr>)"
    by (rule set_cell_split) (simp_all add: k)
  moreover have "list_core (?l\<lparr>elements := [] @ Some x # replicate k None\<rparr>) [x]"
    by (rule list_coreI [where rest = "replicate k None"]) (use m k in auto)
  ultimately show ?thesis using m by auto
qed

text \<open>Room for one more cell, as \<^verbatim>\<open>new_head_cell\<close> and \<^verbatim>\<open>new_tail_cell\<close> make it.\<close>

lemma grow_one:
  assumes core: "list_core l xs"
  obtains (ok) l' c rest where
      "(if llength l \<ge> max_length l then enlarge_list l (llength l + 1) else Inr l) = Inr l'"
      "elements l' = map Some xs @ c # rest" "llength l' = int (length xs)"
      "max_length l' = int (length (elements l'))" "length (elements l') < 134217728"
    | (fail) m where
      "(if llength l \<ge> max_length l then enlarge_list l (llength l + 1) else Inr l) = Inl (Elog m)"
      "list_limit < int (length xs) + 1"
proof -
  let ?r = "if max_length l < int (length xs) + 1 then enlarge_list l (int (length xs) + 1) else Inr l"
  have r: "?r = (if llength l \<ge> max_length l then enlarge_list l (llength l + 1) else Inr l)"
    using core by (auto simp: list_core_def)
  consider l' where "?r = Inr l'" "list_core l' xs" "int (length xs) + 1 \<le> max_length l'"
    | m where "?r = Inl (Elog m)" "list_limit < int (length xs) + 1"
    using ensure_room [OF core, of "int (length xs) + 1"] list_coreD [OF core] by auto
  then show thesis
  proof cases
    case (1 l')
    from 1(2) obtain rest where rest: "elements l' = map Some xs @ rest" "llength l' = int (length xs)"
      "max_length l' = int (length (elements l'))" "length (elements l') < 134217728"
      by (rule list_coreE)
    with 1(3) obtain c rest' where "rest = c # rest'" by (cases rest) auto
    with 1(1) rest ok r show thesis by metis
  next
    case (2 m)
    with fail r show thesis by metis
  qed
qed

lemma lappend_yields:
  assumes "list_rep list xs"
  shows "yields list_rep list_limit (lappend list x) (xs @ [x])"
proof (cases list)
  case None
  with assms single_new [of T_List x] show ?thesis
    by (auto simp: lappend_def yields_def list_reps)
next
  case (Some l)
  with assms have core: "list_core l xs"
    by (auto simp: list_reps)
  then show ?thesis
  proof (cases rule: grow_one)
    case (ok l' c rest)
    let ?l = "l'\<lparr>llength := llength l' + 1\<rparr>"
    have "set_cell ?l (llength l') x = Inr (?l\<lparr>elements := map Some xs @ Some x # rest\<rparr>)"
      by (rule set_cell_split) (use ok in auto)
    moreover have "list_core (?l\<lparr>elements := map Some xs @ Some x # rest\<rparr>) (xs @ [x])"
      by (rule list_coreI [where rest = rest]) (use ok in auto)
    ultimately show ?thesis
      using ok(1) Some by (simp add: lappend_def new_tail_cell_def yields_def list_reps)
  next
    case (fail m)
    then show ?thesis
      using Some by (simp add: lappend_def new_tail_cell_def yields_def)
  qed
qed

lemma memmove_right:
  "els = map Some xs @ c # rest \<Longrightarrow> xs \<noteq> [] \<Longrightarrow>
   memmove_in els 1 0 (int (length xs)) = Inr (hd (map Some xs) # map Some xs @ rest)"
  using cells_ok [of 0 "length xs" els] memcpy_to_ok [of 1 "map Some xs" els]
  by (cases xs) (auto simp: memmove_in_def)

lemma lcons_yields:
  assumes "list_rep list xs"
  shows "yields list_rep list_limit (lcons x list) (x # xs)"
proof (cases list)
  case None
  with assms single_new [of T_List x] show ?thesis
    by (auto simp: lcons_def yields_def list_reps)
next
  case (Some l)
  with assms have core: "list_core l xs" and ne: "xs \<noteq> []"
    by (auto simp: list_reps)
  from core show ?thesis
  proof (cases rule: grow_one)
    case (ok l' c rest)
    let ?els = "hd (map Some xs) # map Some xs @ rest"
    let ?l = "l'\<lparr>elements := ?els, llength := llength l' + 1\<rparr>"
    have mm: "memmove_in (elements l') 1 0 (llength l') = Inr ?els"
      using memmove_right [OF ok(2) ne] ok by simp
    have sc: "set_cell ?l 0 x = Inr (?l\<lparr>elements := [] @ Some x # map Some xs @ rest\<rparr>)"
      by (rule set_cell_split) auto
    have "list_core (?l\<lparr>elements := [] @ Some x # map Some xs @ rest\<rparr>) (x # xs)"
      by (rule list_coreI [where rest = rest]) (use ok in auto)
    then show ?thesis
      using ok(1) Some mm sc by (simp add: lcons_def new_head_cell_def yields_def list_reps)
  next
    case (fail m)
    then show ?thesis
      using Some by (simp add: lcons_def new_head_cell_def yields_def)
  qed
qed

text \<open>A fresh list filled by one \<^verbatim>\<open>memcpy\<close>.\<close>

lemma new_filled:
  fixes xs :: "'a list"
  assumes "xs \<noteq> []" "length xs < 134217728"
  obtains (ok) new els where "new_list t (int (length xs)) = Inr new" "llength new = int (length xs)"
      "memcpy_to (elements new) 0 (map Some xs) = Inr els" "list_core (new\<lparr>elements := els\<rparr>) xs"
    | (fail) m where "(new_list t (int (length xs)) :: 'a List res) = Inl (Elog m)" "list_limit < int (length xs)"
proof (cases "int (length xs) \<le> list_limit")
  case True
  obtain m where m: "new_list t (int (length xs)) = Inr \<lparr>ltype = t, llength = int (length xs),
      max_length = int m, elements_inline = True, elements = replicate m (None :: 'a option)\<rparr>"
    "length xs \<le> m" "m < 134217728"
    using new_list_ok [of "int (length xs)" t] assms True by auto
  let ?l = "\<lparr>ltype = t, llength = int (length xs), max_length = int m, elements_inline = True,
       elements = replicate m (None :: 'a option)\<rparr>"
  let ?els = "map Some xs @ replicate (m - length xs) None"
  have "memcpy_to (elements ?l) 0 (map Some xs) = Inr ?els"
    using memcpy_to_ok [of 0 "map Some xs" "elements ?l"] m by simp
  moreover have "list_core (?l\<lparr>elements := ?els\<rparr>) xs"
    by (rule list_coreI [where rest = "replicate (m - length xs) None"]) (use m in auto)
  ultimately show thesis
    using ok m(1) by simp
next
  case False
  with fail new_list_fail [of "int (length xs)" t] assms show thesis by auto
qed

lemma list_copy_yields:
  assumes "list_rep list xs"
  shows "yields list_rep list_limit (list_copy list) xs"
proof (cases list)
  case None
  with assms show ?thesis by (simp add: list_copy_def yields_def list_reps)
next
  case (Some l)
  with assms have core: "list_core l xs" and ne: "xs \<noteq> []" by (auto simp: list_reps)
  from core obtain rest where r: "elements l = map Some xs @ rest" "llength l = int (length xs)"
    "length (elements l) < 134217728" by (rule list_coreE)
  then have c: "cells (elements l) 0 (int (length xs)) = Inr (map Some xs)"
    using cells_ok [of 0 "length xs" "elements l"] by simp
  from r have "length xs < 134217728" by simp
  with ne show ?thesis
  proof (cases rule: new_filled [where t = "ltype l"])
    case ok
    with Some c r ne show ?thesis by (simp add: list_copy_def yields_def list_reps)
  next
    case fail
    with Some r show ?thesis by (simp add: list_copy_def yields_def)
  qed
qed

lemma concat_core:
  assumes "list_core l xs" "int (length xs) + int (length ys) \<le> max_length l"
  shows "\<exists>els. memcpy_to (elements l) (llength l) (map Some ys) = Inr els \<and>
     list_core (l\<lparr>elements := els, llength := llength l + int (length ys)\<rparr>) (xs @ ys)"
proof -
  from assms(1) obtain rest where r: "elements l = map Some xs @ rest" "llength l = int (length xs)"
    "max_length l = int (length (elements l))" "length (elements l) < 134217728" by (rule list_coreE)
  let ?els = "map Some xs @ map Some ys @ drop (length ys) rest"
  have "memcpy_to (elements l) (llength l) (map Some ys) = Inr ?els"
    using memcpy_to_ok [of "length xs" "map Some ys" "elements l"] r assms(2) by simp
  moreover have "list_core (l\<lparr>elements := ?els, llength := llength l + int (length ys)\<rparr>) (xs @ ys)"
    by (rule list_coreI [where rest = "drop (length ys) rest"]) (use r assms(2) in auto)
  ultimately show ?thesis by blast
qed

lemma list_concat_yields:
  assumes "list_rep list1 xs" "list_rep list2 ys"
  shows "yields list_rep list_limit (list_concat list1 list2) (xs @ ys)"
proof (cases list1)
  case None
  with assms list_copy_yields [OF assms(2)] show ?thesis
    by (simp add: list_concat_def list_reps)
next
  case l1: (Some l1)
  show ?thesis
  proof (cases list2)
    case None
    with assms l1 show ?thesis by (simp add: list_concat_def yields_def list_reps)
  next
    case l2: (Some l2)
    from assms l1 l2 have core: "list_core l1 xs" "list_core l2 ys" and ne: "xs \<noteq> []"
      by (auto simp: list_reps)
    from core(2) obtain rest where r: "elements l2 = map Some ys @ rest" "llength l2 = int (length ys)"
      by (rule list_coreE)
    have c: "cells (elements l2) 0 (llength l2) = Inr (map Some ys)"
      using cells_ok [of 0 "length ys" "elements l2"] r by simp
    have len: "llength l1 = int (length xs)" using core by (simp add: list_core_def)
    let ?n = "int (length xs) + int (length ys)"
    have n: "?n \<le> 1073741824" "c_int ?n = Inr ?n"
      using list_coreD [OF core(1)] list_coreD [OF core(2)] by (auto intro!: c_int_ok)
    from ensure_room [OF core(1), of ?n] n(1)
    consider l where "(if max_length l1 < ?n then enlarge_list l1 ?n else Inr l1) = Inr l"
        "list_core l xs" "?n \<le> max_length l"
      | m where "(if max_length l1 < ?n then enlarge_list l1 ?n else Inr l1) = Inl (Elog m)" "list_limit < ?n"
      by auto
    then show ?thesis
    proof cases
      case (1 l)
      have ll: "llength l = int (length xs)" using 1(2) by (simp add: list_core_def)
      from concat_core [OF 1(2,3)] obtain els where
        "memcpy_to (elements l) (llength l) (map Some ys) = Inr els"
        "list_core (l\<lparr>elements := els, llength := llength l + int (length ys)\<rparr>) (xs @ ys)"
        by blast
      with 1(1) l1 l2 c len r(2) n(2) ne ll show ?thesis
        by (simp add: list_concat_def yields_def list_reps)
    next
      case (2 m)
      with l1 l2 len r(2) n(2) show ?thesis
        by (simp add: list_concat_def yields_def)
    qed
  qed
qed

lemma list_rep_inj: "list_rep l xs \<Longrightarrow> list_rep l ys \<Longrightarrow> xs = ys"
  by (auto simp: list_rep_iff)

interpretation pl: sequence list_rep list_limit None lappend lcons list_concat list_copy
  by unfold_locales
    (auto simp: list_rep_None intro: lappend_yields lcons_yields list_concat_yields list_copy_yields list_rep_inj)

section \<open>The other operations\<close>

lemma list_concat_self_eq:
  assumes "list_rep list xs"
  shows "list_concat_self list = list_concat list list"
proof (cases list)
  case None
  then show ?thesis by (simp add: list_concat_self_def list_concat_def)
next
  case (Some l)
  with assms have core: "list_core l xs" by (auto simp: list_reps)
  have read: "cells (elements l') 0 (llength l') = Inr (map Some xs)" if c: "list_core l' xs" for l' :: "'a List"
  proof -
    from c obtain rest where "elements l' = map Some xs @ rest" "llength l' = int (length xs)"
      by (rule list_coreE)
    then show ?thesis using cells_ok [of 0 "length xs" "elements l'"] by simp
  qed
  let ?n = "int (length xs) + int (length xs)"
  have len: "llength l = int (length xs)" using core by (simp add: list_core_def)
  have n: "?n \<le> 1073741824" using list_coreD [OF core] by simp
  from ensure_room [OF core _ n] show ?thesis
    using Some len read [OF core] read
    by (auto simp: list_concat_self_def list_concat_def bindE_def c_int_def split: sum.splits)
qed

lemma list_truncate_rep:
  assumes "list_rep list xs"
  shows "list_rep (list_truncate list n) (take (nat n) xs)"
proof (cases list)
  case None
  with assms show ?thesis by (simp add: list_truncate_def list_length_def list_reps)
next
  case (Some l)
  with assms have core: "list_core l xs" and ne: "xs \<noteq> []" by (auto simp: list_reps)
  from core obtain rest where r: "elements l = map Some xs @ rest" "llength l = int (length xs)"
    "max_length l = int (length (elements l))" "length (elements l) < 134217728" by (rule list_coreE)
  have "list_core (l\<lparr>llength := n\<rparr>) (take (nat n) xs)" if "0 < n" "n < int (length xs)"
    by (rule list_coreI [where rest = "map Some (drop (nat n) xs) @ rest"])
      (use r that in \<open>auto simp flip: map_append append_assoc simp del: append_assoc\<close>)
  with Some core r(2) ne show ?thesis
    by (auto simp: list_truncate_def list_length_def list_reps)
qed

lemma list_delete_nth_rep:
  assumes "list_rep (Some l) xs" "n < length xs"
  shows "\<exists>list'. list_delete_nth_cell l (int n) = Inr list' \<and> list_rep list' (take n xs @ drop (Suc n) xs)"
proof -
  from assms have "list_core l xs" by (simp add: list_reps)
  then obtain rest where r: "elements l = map Some xs @ rest" "llength l = int (length xs)"
    "max_length l = int (length (elements l))" "length (elements l) < 134217728" by (rule list_coreE)
  show ?thesis
  proof (cases "length xs = 1")
    case True
    with assms(2) r show ?thesis by (simp add: list_delete_nth_cell_def list_reps)
  next
    case False
    let ?k = "length xs - Suc n"
    let ?els = "map Some (take n xs @ drop (Suc n) xs) @ drop (n + ?k) (elements l)"
    have "cells (elements l) (int (Suc n)) (int ?k) = Inr (take ?k (drop (Suc n) (elements l)))"
      by (rule cells_ok) (use r assms in auto)
    then have "cells (elements l) (int n + 1) (llength l - 1 - int n) = Inr (map Some (drop (Suc n) xs))"
      using r assms by (simp add: drop_map algebra_simps)
    moreover have "memcpy_to (elements l) (int n) (map Some (drop (Suc n) xs)) = Inr ?els"
      using memcpy_to_ok [of n "map Some (drop (Suc n) xs)" "elements l"] r assms(2)
      by (simp add: take_map)
    moreover have "length (take n xs @ drop (Suc n) xs) = length xs - 1"
      using assms(2) by simp
    moreover from this have "list_core (l\<lparr>elements := ?els, llength := llength l - 1\<rparr>) (take n xs @ drop (Suc n) xs)"
      by (intro list_coreI [where rest = "drop (n + ?k) (elements l)"]) (use r assms(2) in auto)
    moreover have "take n xs @ drop (Suc n) xs \<noteq> []"
      using False assms(2) by auto
    ultimately show ?thesis
      using False r by (simp add: list_delete_nth_cell_def memmove_in_def list_reps)
  qed
qed

lemma list_copy_tail_yields:
  assumes "list_rep list xs"
  shows "yields list_rep list_limit (list_copy_tail list n) (drop (nat n) xs)"
proof (cases list)
  case None
  with assms show ?thesis by (simp add: list_copy_tail_def yields_def list_reps)
next
  case (Some l)
  with assms have core: "list_core l xs" and ne: "xs \<noteq> []" by (auto simp: list_reps)
  from core obtain rest where r: "elements l = map Some xs @ rest" "llength l = int (length xs)"
    "length (elements l) < 134217728" by (rule list_coreE)
  define k where "k = nat n"
  have k: "(if n < 0 then 0 else n) = int k" by (simp add: k_def)
  show ?thesis
  proof (cases "k < length xs")
    case False
    with Some r k show ?thesis by (simp add: list_copy_tail_def yields_def list_reps flip: k_def)
  next
    case True
    have c: "cells (elements l) (int k) (int (length xs - k)) = Inr (map Some (drop k xs))"
      using cells_ok [of k "length xs - k" "elements l"] r True by (simp add: drop_map)
    have "drop k xs \<noteq> []" "length (drop k xs) < 134217728" using True r by auto
    then show ?thesis
    proof (cases rule: new_filled [where t = "ltype l"])
      case ok
      with Some c r True k show ?thesis
        by (simp add: list_copy_tail_def yields_def list_reps flip: k_def)
    next
      case fail
      with Some r True k show ?thesis
        by (simp add: list_copy_tail_def yields_def flip: k_def)
    qed
  qed
qed

lemma list_nth_rep: "list_rep (Some l) xs \<Longrightarrow> n < length xs \<Longrightarrow> list_nth l (int n) = Inr (xs ! n)"
  by (auto simp: list_nth_def list_reps list_core_def nth_append intro!: load_ok)

lemma linitial_rep: "list_rep list xs \<Longrightarrow> xs \<noteq> [] \<Longrightarrow> linitial list = Inr (hd xs)"
  using list_nth_rep [of _ xs 0] by (cases list) (auto simp: linitial_def list_reps hd_conv_nth)

lemma llast_rep:
  assumes "list_rep list xs" "xs \<noteq> []"
  shows "llast list = Inr (last xs)"
proof (cases list)
  case None
  with assms show ?thesis by (simp add: list_reps)
next
  case (Some l)
  with assms have "llength l - 1 = int (length xs - 1)"
    by (cases xs) (auto simp: list_reps list_core_def)
  with Some assms list_nth_rep [of l xs "length xs - 1"] show ?thesis
    by (simp add: llast_def last_conv_nth)
qed

lemma list_length_rep: "list_rep list xs \<Longrightarrow> list_length list = int (length xs)"
  by (cases list) (auto simp: list_length_def list_reps list_core_def)

text \<open>\<^verbatim>\<open>foreach\<close> runs its body on the elements in order.\<close>

fun foldE :: "('s \<Rightarrow> 'a \<Rightarrow> 's res) \<Rightarrow> 's \<Rightarrow> 'a list \<Rightarrow> 's res" where
  "foldE body s [] = Inr s"
| "foldE body s (x # xs) = bindE (body s x) (\<lambda>s'. foldE body s' xs)"

lemma foreach_from_rep:
  "list_rep (Some l) xs \<Longrightarrow> i + n = length xs \<Longrightarrow> foreach_from l i n body s = foldE body s (drop i xs)"
proof (induction n arbitrary: i s)
  case 0
  then show ?case by simp
next
  case (Suc n)
  then have "list_nth l (int i) = Inr (xs ! i)" "drop i xs = xs ! i # drop (Suc i) xs"
    by (auto simp: list_nth_rep Cons_nth_drop_Suc)
  with Suc show ?case by (cases "body s (xs ! i)") auto
qed

lemma foreach_rep:
  assumes "list_rep list xs"
  shows "foreach list body s = foldE body s xs"
proof (cases list)
  case None
  with assms show ?thesis by (simp add: foreach_def list_reps)
next
  case (Some l)
  with assms have "nat (llength l) = length xs" by (auto simp: list_reps list_core_def)
  with Some assms foreach_from_rep [of l xs 0 "length xs"] show ?thesis
    by (simp add: foreach_def)
qed

lemma copy_cells_ok:
  "old = map Some xs @ r \<Longrightarrow> elements new = map Some ys @ rest \<Longrightarrow> length ys = i \<Longrightarrow> n \<le> length rest \<Longrightarrow>
   i + n \<le> length xs \<Longrightarrow>
   copy_cells f old new i n =
     Inr (new\<lparr>elements := map Some (ys @ map f (take n (drop i xs))) @ drop n rest\<rparr>)"
proof (induction n arbitrary: i new ys rest)
  case 0
  then show ?case by simp
next
  case (Suc n)
  then obtain c rest' where rest: "rest = c # rest'" by (cases rest) auto
  let ?new = "new\<lparr>elements := map Some ys @ Some (f (xs ! i)) # rest'\<rparr>"
  have "load old (int i) = Inr (xs ! i)"
    by (rule load_ok) (use Suc.prems in \<open>auto simp: nth_append\<close>)
  moreover have "set_cell new (int i) (f (xs ! i)) = Inr ?new"
    by (rule set_cell_split) (use Suc.prems rest in auto)
  moreover have "copy_cells f old ?new (Suc i) n =
      Inr (?new\<lparr>elements := map Some ((ys @ [f (xs ! i)]) @ map f (take n (drop (Suc i) xs))) @ drop n rest'\<rparr>)"
    by (rule Suc.IH) (use Suc.prems rest in auto)
  moreover have "drop i xs = xs ! i # drop (Suc i) xs"
    using Suc.prems by (simp add: Cons_nth_drop_Suc)
  ultimately show ?case using rest by simp
qed

lemma list_copy_deep_yields:
  assumes "list_rep list xs"
  shows "yields list_rep list_limit (list_copy_deep f list) (map f xs)"
proof (cases list)
  case None
  with assms show ?thesis by (simp add: list_copy_deep_def yields_def list_reps)
next
  case (Some l)
  with assms have core: "list_core l xs" and ne: "xs \<noteq> []" by (auto simp: list_reps)
  from core obtain rest where r: "elements l = map Some xs @ rest" "llength l = int (length xs)"
    "length (elements l) < 134217728" by (rule list_coreE)
  show ?thesis
  proof (cases "int (length xs) \<le> list_limit")
    case True
    obtain m where m: "new_list (ltype l) (int (length xs)) = Inr \<lparr>ltype = ltype l, llength = int (length xs),
        max_length = int m, elements_inline = True, elements = replicate m (None :: 'b option)\<rparr>"
      "length xs \<le> m" "m < 134217728"
      using new_list_ok [of "int (length xs)" "ltype l"] ne True by auto
    let ?l = "\<lparr>ltype = ltype l, llength = int (length xs), max_length = int m, elements_inline = True,
        elements = replicate m (None :: 'b option)\<rparr>"
    let ?els = "map Some ([] @ map f (take (length xs) (drop 0 xs))) @ drop (length xs) (replicate m None)"
    have "copy_cells f (elements l) ?l 0 (length xs) = Inr (?l\<lparr>elements := ?els\<rparr>)"
      by (rule copy_cells_ok) (use r m in auto)
    moreover have "list_core (?l\<lparr>elements := ?els\<rparr>) (map f xs)"
      by (rule list_coreI [where rest = "drop (length xs) (replicate m None)"]) (use m in auto)
    ultimately show ?thesis
      using Some m(1) r(2) ne by (simp add: list_copy_deep_def yields_def list_reps)
  next
    case False
    with new_list_fail [of "int (length xs)" "ltype l"] r obtain e where
      "(new_list (ltype l) (int (length xs)) :: 'b List res) = Inl (Elog e)" by auto
    with Some r False show ?thesis by (simp add: list_copy_deep_def yields_def)
  qed
qed

text \<open>The constructors of short lists.\<close>

lemma new_list_4: "new_list t n = Inr \<lparr>ltype = t, llength = n, max_length = 5, elements_inline = True,
    elements = [None, None, None, None, None]\<rparr>" if "1 \<le> n" "n \<le> 4"
proof -
  have "nextpower2 8 = 8" by code_simp
  moreover have "max 8 (n + 3) = 8" using that by simp
  ultimately show ?thesis
    by (simp add: new_list_def palloc_def eval_nat_numeral)
qed

lemmas make_simps = new_list_4 set_cell_def store_def list_reps list_core_def

lemma list_make_rep:
  "\<exists>l. list_make1_impl t a = Inr l \<and> list_rep l [a]"
  "\<exists>l. list_make2_impl t a b = Inr l \<and> list_rep l [a, b]"
  "\<exists>l. list_make3_impl t a b c = Inr l \<and> list_rep l [a, b, c]"
  "\<exists>l. list_make4_impl t a b c d = Inr l \<and> list_rep l [a, b, c, d]"
  by (simp_all add: list_make1_impl_def list_make2_impl_def list_make3_impl_def list_make4_impl_def make_simps)

section \<open>Properties\<close>

text \<open>A concrete two-element list with inline cells for the witnesses.\<close>

definition demo_list :: "nat List option" where
  "demo_list = Some \<lparr>ltype = T_List, llength = 2, max_length = 5, elements_inline = True,
     elements = [Some 7, Some 9, None, None, None]\<rparr>"

lemma demo_list_ok: "list_ok demo_list" "list_of demo_list = [7, 9]"
  by (simp_all add: demo_list_def list_ok_def list_of_def)

text \<open>
  C25: The constructors and growing operations implement HOL lists. On valid lists within
  the allocation limit, lappend, lcons, list_concat and list_copy return a valid list whose
  elements are those of append, cons, concatenation and the list itself; moving from inline
  to separate cells and every reallocation keeps the elements.
\<close>

theorem list_building:
  assumes "list_ok list1" "list_ok list2"
    and "int (length (list_of list1)) + int (length (list_of list2)) < list_limit"
  shows "(\<exists>l. lappend list1 x = Inr l \<and> list_ok l \<and> list_of l = list_of list1 @ [x]) \<and>
     (\<exists>l. lcons x list1 = Inr l \<and> list_ok l \<and> list_of l = x # list_of list1) \<and>
     (\<exists>l. list_concat list1 list2 = Inr l \<and> list_ok l \<and> list_of l = list_of list1 @ list_of list2) \<and>
     (\<exists>l. list_copy list1 = Inr l \<and> list_ok l \<and> list_of l = list_of list1)"
proof -
  have r: "list_rep list1 (list_of list1)" "list_rep list2 (list_of list2)"
    using assms by (auto simp: list_rep_iff)
  show ?thesis
    using pl.yields_success [OF lappend_yields [OF r(1), of x]] pl.yields_success [OF lcons_yields [OF r(1), of x]]
      pl.yields_success [OF list_concat_yields [OF r]] pl.yields_success [OF list_copy_yields [OF r(1)]] assms(3)
    by (auto simp: list_rep_iff)
qed

theorem list_building_witness:
  "\<exists>l. lappend demo_list 4 = Inr l \<and> list_ok l \<and> list_of l = [7, 9, 4]"
proof -
  have "int (length (list_of demo_list)) + int (length (list_of demo_list)) < list_limit"
    by (simp add: demo_list_ok)
  from list_building [OF demo_list_ok(1) demo_list_ok(1) this, of 4] show ?thesis
    by (auto simp: demo_list_ok)
qed

text \<open>
  list_concat equals appending the elements of the second list one by one, as its
  comment says, and it is safe to pass the same list twice: reading the second operand
  through the header that has just been enlarged gives the same result as reading a
  separate copy of it.
\<close>

theorem list_concat_aliasing:
  assumes "list_ok list1" "list_ok list2"
    and "int (length (list_of list1)) + int (length (list_of list2)) \<le> list_limit"
  shows "(\<exists>l l'. list_concat list1 list2 = Inr l \<and> append_each lappend list1 (list_of list2) = Inr l' \<and>
       list_ok l \<and> list_ok l' \<and> list_of l = list_of l' \<and> list_of l = list_of list1 @ list_of list2) \<and>
     list_concat_self list1 = list_concat list1 list1"
proof -
  have r: "list_rep list1 (list_of list1)" "list_rep list2 (list_of list2)"
    using assms by (auto simp: list_rep_iff)
  have "\<exists>l. list_concat list1 list2 = Inr l \<and> list_rep l (list_of list1 @ list_of list2)"
    by (rule pl.yields_success [OF list_concat_yields [OF r]]) (use assms(3) in simp)
  moreover have "\<exists>l. append_each lappend list1 (list_of list2) = Inr l \<and> list_rep l (list_of list1 @ list_of list2)"
    by (rule pl.yields_success [OF pl.append_each_yields [OF r(1)]]) (use assms(3) in simp)
  ultimately show ?thesis
    using list_concat_self_eq [OF r(1)] by (auto simp: list_rep_iff)
qed

theorem list_concat_aliasing_witness:
  "list_concat_self demo_list = list_concat demo_list demo_list \<and>
   (\<exists>l. list_concat demo_list demo_list = Inr l \<and> list_of l = [7, 9, 7, 9])"
proof -
  have "int (length (list_of demo_list)) + int (length (list_of demo_list)) \<le> list_limit"
    by (simp add: demo_list_ok)
  from list_concat_aliasing [OF demo_list_ok(1) demo_list_ok(1) this] show ?thesis
    by (auto simp: demo_list_ok)
qed

text \<open>
  Removing and copying. Deleting the n'th cell removes exactly that element and gives
  NIL for the last one; truncating keeps the first elements (all of them when asked to
  extend, none for a size of zero or less); list_copy_tail skips the first elements; and
  list_copy_deep applies the copy function to every element in order.
\<close>

theorem list_removing:
  assumes "list_ok list" and "int (length (list_of list)) \<le> list_limit"
  shows "(\<forall>l n. list = Some l \<and> n < length (list_of list) \<longrightarrow>
       (\<exists>r. list_delete_nth_cell l (int n) = Inr r \<and> list_ok r \<and>
          list_of r = take n (list_of list) @ drop (Suc n) (list_of list))) \<and>
     list_ok (list_truncate list k) \<and> list_of (list_truncate list k) = take (nat k) (list_of list) \<and>
     (\<exists>r. list_copy_tail list k = Inr r \<and> list_ok r \<and> list_of r = drop (nat k) (list_of list)) \<and>
     (\<exists>r. list_copy_deep f list = Inr r \<and> list_ok r \<and> list_of r = map f (list_of list))"
proof -
  have r: "list_rep list (list_of list)" using assms by (simp add: list_rep_iff)
  have "\<exists>r. list_copy_tail list k = Inr r \<and> list_rep r (drop (nat k) (list_of list))"
    by (rule pl.yields_success [OF list_copy_tail_yields [OF r]]) (use assms(2) in auto)
  moreover have "\<exists>r. list_copy_deep f list = Inr r \<and> list_rep r (map f (list_of list))"
    by (rule pl.yields_success [OF list_copy_deep_yields [OF r]]) (use assms(2) in auto)
  ultimately show ?thesis
    using list_delete_nth_rep [of _ "list_of list"] list_truncate_rep [OF r, of k] r
    by (auto simp: list_rep_iff)
qed

theorem list_removing_witness:
  "\<exists>r. list_delete_nth_cell (the demo_list) 0 = Inr r \<and> list_of r = [9]"
proof -
  have s: "demo_list = Some (the demo_list)" by (simp add: demo_list_def)
  have "int (length (list_of demo_list)) \<le> list_limit" by (simp add: demo_list_ok)
  from list_removing [OF demo_list_ok(1) this, of 0 Suc] s show ?thesis
    by (auto simp: demo_list_ok dest!: spec [of _ "the demo_list"] spec [of _ 0])
qed

end
