(* ===== verification/Raw_Tree.thy ===== *)
theory Raw_Tree
  imports Pg_Prelude
begin

text \<open>
  Raw parse trees and \<^verbatim>\<open>raw_expression_tree_walker\<close> of \<^verbatim>\<open>src_backend_nodes_nodeFuncs.c\<close>.

  A node is a value node, a list or a struct with its tag and its fields by name; a field
  that is not listed has the zero value that \<^verbatim>\<open>makeNode\<close> gives it (a null pointer, 0, false).
  A list in a tree is represented by its elements: \<^verbatim>\<open>foreach\<close> visits exactly those, in order
  (theory \<open>Pg_List\<close>). Elements may be null, as in the list of a plain \<^verbatim>\<open>DISTINCT\<close>.

  The walker calls a function on the sub-nodes of a node, in the order of the code, until
  one call returns true. \<open>raw_subnodes\<close> is that order, \<open>walk_seq\<close> the chain of calls.
\<close>

datatype (plugins only: code size) raw_tag =
    T_SetToDefault | T_CurrentOfExpr | T_SQLValueFunction | T_ParamRef | T_A_Const | T_A_Star
  | T_Alias | T_RangeVar | T_GroupingFunc | T_SubLink | T_CaseExpr | T_CaseWhen | T_RowExpr
  | T_CoalesceExpr | T_MinMaxExpr | T_XmlExpr | T_NullTest | T_BooleanTest | T_JoinExpr
  | T_IntoClause | T_InsertStmt | T_DeleteStmt | T_UpdateStmt | T_SelectStmt | T_A_Expr
  | T_BoolExpr | T_ColumnRef | T_FuncCall | T_NamedArgExpr | T_A_Indices | T_A_Indirection
  | T_A_ArrayExpr | T_ResTarget | T_MultiAssignRef | T_TypeCast | T_CollateClause | T_SortBy
  | T_WindowDef | T_RangeSubselect | T_RangeFunction | T_RangeTableSample | T_RangeTableFunc
  | T_RangeTableFuncCol | T_TypeName | T_ColumnDef | T_IndexElem | T_GroupingSet
  | T_LockingClause | T_XmlSerialize | T_WithClause | T_InferClause | T_OnConflictClause
  | T_CommonTableExpr
  | T_DefElem | T_RawStmt | T_VariableSetStmt | T_CopyStmt | T_ExplainStmt | T_CreateRoleStmt
  | T_AlterRoleStmt | T_DeclareCursorStmt
  | T_Other string    \<comment> \<open>any other struct type\<close>

datatype node =
    Integer int
  | Float string
  | String string
  | BitString string
  | Null
  | NList "node option list"
  | Struct raw_tag "(string \<times> fld) list"
and fld =
    FNode node
  | FInt int
  | FStr string
  | FBool bool

section \<open>Fields\<close>

fun fields :: "node \<Rightarrow> (string \<times> fld) list" where
  "fields (Struct t fs) = fs"
| "fields _ = []"

definition fnode :: "string \<Rightarrow> node \<Rightarrow> node option" where
  "fnode f n = (case map_of (fields n) f of Some (FNode x) \<Rightarrow> Some x | _ \<Rightarrow> None)"

definition fint :: "string \<Rightarrow> node \<Rightarrow> int" where
  "fint f n = (case map_of (fields n) f of Some (FInt i) \<Rightarrow> i | _ \<Rightarrow> 0)"

fun elems :: "node option \<Rightarrow> node option list" where
  "elems (Some (NList xs)) = xs"
| "elems _ = []"

definition flist :: "string \<Rightarrow> node \<Rightarrow> node option list" where
  "flist f n = elems (fnode f n)"

fun has_tag :: "raw_tag \<Rightarrow> node \<Rightarrow> bool" where
  "has_tag t (Struct t' fs) \<longleftrightarrow> t = t'"
| "has_tag t _ \<longleftrightarrow> False"

section \<open>The walker\<close>

text \<open>
  The fields of a struct that the walker visits, in order; \<open>None\<close> for a tag it does not
  know. \<^verbatim>\<open>CaseExpr\<close> is apart, as the walker looks through its \<^verbatim>\<open>CaseWhen\<close> elements. The groups
  follow the order of the \<^verbatim>\<open>switch\<close>.
\<close>

definition leaf_fields :: "raw_tag \<Rightarrow> string list option" where
  "leaf_fields t = (case t of
       T_SetToDefault \<Rightarrow> Some []
     | T_CurrentOfExpr \<Rightarrow> Some []
     | T_SQLValueFunction \<Rightarrow> Some []
     | T_ParamRef \<Rightarrow> Some []
     | T_A_Const \<Rightarrow> Some []
     | T_A_Star \<Rightarrow> Some []
     | T_Alias \<Rightarrow> Some []
     | _ \<Rightarrow> None)"

definition expr_fields :: "raw_tag \<Rightarrow> string list option" where
  "expr_fields t = (case t of
       T_RangeVar \<Rightarrow> Some [''alias'']
     | T_GroupingFunc \<Rightarrow> Some [''args'']
     | T_SubLink \<Rightarrow> Some [''testexpr'', ''subselect'']
     | T_RowExpr \<Rightarrow> Some [''args'']
     | T_CoalesceExpr \<Rightarrow> Some [''args'']
     | T_MinMaxExpr \<Rightarrow> Some [''args'']
     | T_XmlExpr \<Rightarrow> Some [''named_args'', ''args'']
     | T_NullTest \<Rightarrow> Some [''arg'']
     | T_BooleanTest \<Rightarrow> Some [''arg'']
     | T_JoinExpr \<Rightarrow> Some [''larg'', ''rarg'', ''quals'', ''alias'']
     | T_IntoClause \<Rightarrow> Some [''rel'', ''viewQuery'']
     | _ \<Rightarrow> None)"

definition stmt_fields :: "raw_tag \<Rightarrow> string list option" where
  "stmt_fields t = (case t of
       T_InsertStmt \<Rightarrow> Some [''relation'', ''cols'', ''selectStmt'', ''onConflictClause'', ''returningList'', ''withClause'']
     | T_DeleteStmt \<Rightarrow> Some [''relation'', ''usingClause'', ''whereClause'', ''returningList'', ''withClause'']
     | T_UpdateStmt \<Rightarrow> Some [''relation'', ''targetList'', ''whereClause'', ''fromClause'', ''returningList'', ''withClause'']
     | T_SelectStmt \<Rightarrow> Some [''distinctClause'', ''intoClause'', ''targetList'', ''fromClause'', ''whereClause'', ''groupClause'',
         ''havingClause'', ''windowClause'', ''valuesLists'', ''sortClause'', ''limitOffset'', ''limitCount'',
         ''lockingClause'', ''withClause'', ''larg'', ''rarg'']
     | _ \<Rightarrow> None)"

definition operand_fields :: "raw_tag \<Rightarrow> string list option" where
  "operand_fields t = (case t of
       T_A_Expr \<Rightarrow> Some [''lexpr'', ''rexpr'']
     | T_BoolExpr \<Rightarrow> Some [''args'']
     | T_ColumnRef \<Rightarrow> Some []
     | T_FuncCall \<Rightarrow> Some [''args'', ''agg_order'', ''agg_filter'', ''over'']
     | T_NamedArgExpr \<Rightarrow> Some [''arg'']
     | T_A_Indices \<Rightarrow> Some [''lidx'', ''uidx'']
     | T_A_Indirection \<Rightarrow> Some [''arg'', ''indirection'']
     | T_A_ArrayExpr \<Rightarrow> Some [''elements'']
     | T_ResTarget \<Rightarrow> Some [''indirection'', ''val'']
     | T_MultiAssignRef \<Rightarrow> Some [''source'']
     | T_TypeCast \<Rightarrow> Some [''arg'', ''typeName'']
     | T_CollateClause \<Rightarrow> Some [''arg'']
     | T_SortBy \<Rightarrow> Some [''node'']
     | T_WindowDef \<Rightarrow> Some [''partitionClause'', ''orderClause'', ''startOffset'', ''endOffset'']
     | _ \<Rightarrow> None)"

definition clause_fields :: "raw_tag \<Rightarrow> string list option" where
  "clause_fields t = (case t of
       T_RangeSubselect \<Rightarrow> Some [''subquery'', ''alias'']
     | T_RangeFunction \<Rightarrow> Some [''functions'', ''alias'', ''coldeflist'']
     | T_RangeTableSample \<Rightarrow> Some [''relation'', ''args'', ''repeatable'']
     | T_RangeTableFunc \<Rightarrow> Some [''docexpr'', ''rowexpr'', ''namespaces'', ''columns'', ''alias'']
     | T_RangeTableFuncCol \<Rightarrow> Some [''colexpr'', ''coldefexpr'']
     | T_TypeName \<Rightarrow> Some [''typmods'', ''arrayBounds'']
     | T_ColumnDef \<Rightarrow> Some [''typeName'', ''raw_default'', ''collClause'']
     | T_IndexElem \<Rightarrow> Some [''expr'']
     | T_GroupingSet \<Rightarrow> Some [''content'']
     | T_LockingClause \<Rightarrow> Some [''lockedRels'']
     | T_XmlSerialize \<Rightarrow> Some [''expr'', ''typeName'']
     | T_WithClause \<Rightarrow> Some [''ctes'']
     | T_InferClause \<Rightarrow> Some [''indexElems'', ''whereClause'']
     | T_OnConflictClause \<Rightarrow> Some [''infer'', ''targetList'', ''whereClause'']
     | T_CommonTableExpr \<Rightarrow> Some [''ctequery'']
     | _ \<Rightarrow> None)"

definition visited_fields :: "raw_tag \<Rightarrow> string list option" where
  "visited_fields t =
     (case leaf_fields t of Some fs \<Rightarrow> Some fs | None \<Rightarrow>
      case expr_fields t of Some fs \<Rightarrow> Some fs | None \<Rightarrow>
      case stmt_fields t of Some fs \<Rightarrow> Some fs | None \<Rightarrow>
      case operand_fields t of Some fs \<Rightarrow> Some fs | None \<Rightarrow> clause_fields t)"

text \<open>\<^verbatim>\<open>lfirst_node(CaseWhen, temp)\<close> is read without a check, a null element is a crash.\<close>

fun when_parts :: "node option list \<Rightarrow> node option list res" where
  "when_parts [] = Inr []"
| "when_parts (None # ws) = Inl NullDeref"
| "when_parts (Some w # ws) =
     bindE (when_parts ws) (\<lambda>rest. Inr (fnode ''expr'' w # fnode ''result'' w # rest))"

fun raw_subnodes :: "node \<Rightarrow> node option list res" where
  "raw_subnodes (NList xs) = Inr xs"
| "raw_subnodes (Struct t fs) =
     (let n = Struct t fs in
      if t = T_CaseExpr
      then bindE (when_parts (flist ''args'' n)) (\<lambda>ws.
           Inr (fnode ''arg'' n # ws @ [fnode ''defresult'' n]))
      else case visited_fields t of
        Some fnames \<Rightarrow> Inr (map (\<lambda>f. fnode f n) fnames)
      | None \<Rightarrow> Inl (Elog ''unrecognized node type''))"
| "raw_subnodes _ = Inr []"

fun walk_seq :: "('a \<Rightarrow> ('s, bool) sm) \<Rightarrow> 'a list \<Rightarrow> ('s, bool) sm" where
  "walk_seq walker [] = returnS False"
| "walk_seq walker (x # xs) =
     bindS (walker x) (\<lambda>b. if b then returnS True else walk_seq walker xs)"

definition raw_expression_tree_walker ::
  "node option \<Rightarrow> (node option \<Rightarrow> ('s, bool) sm) \<Rightarrow> ('s, bool) sm" where
  "raw_expression_tree_walker node walker =
     (case node of None \<Rightarrow> returnS False
      | Some n \<Rightarrow> (case raw_subnodes n of Inl e \<Rightarrow> failS e | Inr xs \<Rightarrow> walk_seq walker xs))"

section \<open>Termination of walks\<close>

lemma walk_seq_cong [fundef_cong]:
  "xs = ys \<Longrightarrow> (\<And>x. x \<in> set ys \<Longrightarrow> f x = g x) \<Longrightarrow> walk_seq f xs = walk_seq g ys"
proof (induction xs arbitrary: ys)
  case (Cons x xs)
  then have "walk_seq f xs = walk_seq g xs" "f x = g x" by auto
  with Cons.prems(1) show ?case by (auto cong: if_cong)
qed simp

lemma size_in_list: "Some x \<in> set xs \<Longrightarrow> size x < size_list (size_option size) xs + 1"
  by (induction xs) auto

lemma fnode_size: "fnode f n = Some x \<Longrightarrow> size x < size n"
proof -
  have "map_of fs f = Some (FNode x) \<Longrightarrow> size x < size_list (size_prod (\<lambda>_. 0) size) fs + 1" for fs
    by (induction fs) (auto split: if_splits)
  then show "fnode f n = Some x \<Longrightarrow> size x < size n"
    by (cases n) (fastforce simp: fnode_def split: option.splits fld.splits)+
qed

lemma elems_size: "Some x \<in> set (elems (Some n)) \<Longrightarrow> size x < size n"
  by (cases n) (auto dest: size_in_list)

lemma flist_size: "Some x \<in> set (flist f n) \<Longrightarrow> size x < size n"
  by (cases "fnode f n") (auto simp: flist_def dest!: elems_size fnode_size)

lemma when_parts_size:
  "when_parts ws = Inr ys \<Longrightarrow> Some x \<in> set ys \<Longrightarrow> \<exists>w. Some w \<in> set ws \<and> size x < size w"
proof (induction ws arbitrary: ys rule: when_parts.induct)
  case (3 w ws)
  then obtain rest where r: "when_parts ws = Inr rest" "ys = fnode ''expr'' w # fnode ''result'' w # rest"
    by (auto simp: bindE_eq_Inr)
  show ?case
  proof (cases "Some x \<in> set rest")
    case True
    with 3 r show ?thesis by auto
  next
    case False
    with 3(3) r have "fnode ''expr'' w = Some x \<or> fnode ''result'' w = Some x" by auto
    then show ?thesis by (auto dest: fnode_size)
  qed
qed auto

lemma raw_subnodes_size:
  assumes "raw_subnodes n = Inr xs" "Some x \<in> set xs"
  shows "size x < size n"
proof (cases n)
  case (Struct t fs)
  show ?thesis
  proof (cases "t = T_CaseExpr")
    case True
    with assms(1) Struct have "bindE (when_parts (flist ''args'' n))
        (\<lambda>ws. Inr (fnode ''arg'' n # ws @ [fnode ''defresult'' n])) = Inr xs" by (simp add: Let_def)
    then obtain ws where ws: "when_parts (flist ''args'' n) = Inr ws"
      "xs = fnode ''arg'' n # ws @ [fnode ''defresult'' n]" by (auto simp: bindE_eq_Inr)
    show ?thesis
    proof (cases "Some x \<in> set ws")
      case True
      with ws(1) show ?thesis by (meson flist_size less_trans when_parts_size)
    next
      case False
      with ws(2) assms(2) have "fnode ''arg'' n = Some x \<or> fnode ''defresult'' n = Some x" by auto
      then show ?thesis by (auto dest: fnode_size)
    qed
  next
    case False
    with assms Struct obtain f where "fnode f n = Some x"
      by (auto split: option.splits)
    then show ?thesis by (rule fnode_size)
  qed
next
  case (NList ys)
  with assms show ?thesis by (auto dest: size_in_list)
qed (use assms in auto)

end
