(* ===== verification/Normalize_Walker.thy ===== *)
theory Normalize_Walker
  imports Pg_List Raw_Tree
begin

text \<open>
  The constant recorder of \<^verbatim>\<open>pg_query_normalize.c\<close>: \<^verbatim>\<open>RecordConstLocation\<close> and
  \<^verbatim>\<open>const_record_walker\<close>, which collect the places of the constants of a query.

  \<^item> The growing arrays \<^verbatim>\<open>clocations\<close> and \<^verbatim>\<open>param_refs\<close> are blocks with checked accesses and
    \<^verbatim>\<open>repalloc\<close> by doubling.
  \<^item> \<^verbatim>\<open>PG_exception_stack\<close> is the flag \<open>exn_live\<close>: does it point to a handler whose frame is
    still active? \<^verbatim>\<open>PG_TRY\<close> sets it, a \<^verbatim>\<open>return\<close> out of the block leaves it pointing to the frame
    that has gone, a caught error restores what was saved.
  \<^item> The fingerprint of a node, which matches GROUP BY items with the target list, is an
    argument \<open>fingerprint\<close>: the walk relies on no property of it.
  \<^item> \<^verbatim>\<open>check_stack_depth\<close> is not modelled.
\<close>

section \<open>State\<close>

record pgssLocationLen =
  location :: int
  loc_length :: int      \<comment> \<open>\<^verbatim>\<open>length\<close> in the source, -1 to ignore\<close>
  param_id :: int

record pgssConstLocations =
  clocations :: "pgssLocationLen block"
  clocations_buf_size :: int
  clocations_count :: int
  highest_normalize_param_id :: int
  highest_extern_param_id :: int
  query :: string
  query_len :: int
  param_refs :: "int block option"
  param_refs_buf_size :: int
  param_refs_count :: int
  exn_live :: bool

record FpAndParamRefs =
  fp :: "64 word"
  fp_param_refs :: "int block option"
  fp_param_refs_count :: int

type_synonym 'a recorder = "(pgssConstLocations, 'a) sm"

text \<open>\<^verbatim>\<open>ereport(ERROR)\<close> jumps to the handler that \<^verbatim>\<open>PG_exception_stack\<close> names.\<close>

definition raiseS :: "pg_error \<Rightarrow> 'a recorder" where
  "raiseS e = bindS getS (\<lambda>s. failS (case e of Elog m \<Rightarrow> if exn_live s then Elog m else DeadFrame | _ \<Rightarrow> e))"

definition tryS :: "'a res \<Rightarrow> 'a recorder" where
  "tryS r = (case r of Inl e \<Rightarrow> raiseS e | Inr x \<Rightarrow> returnS x)"

section \<open>Recording\<close>

text \<open>The block that both the constant and the \<^verbatim>\<open>ParamRef\<close> case run when \<^verbatim>\<open>param_refs\<close> is active.\<close>

definition record_param_ref :: "int \<Rightarrow> unit recorder" where
  "record_param_ref number = bindS getS (\<lambda>s.
     case param_refs s of None \<Rightarrow> returnS ()
     | Some refs \<Rightarrow>
         bindS (tryS (store refs (param_refs_count s) number)) (\<lambda>refs.
         bindS (putS (s\<lparr>param_refs := Some refs, param_refs_count := param_refs_count s + 1\<rparr>)) (\<lambda>_.
         if param_refs_count s + 1 \<ge> param_refs_buf_size s
         then
           bindS (tryS (c_int (param_refs_buf_size s * 2))) (\<lambda>size.
           bindS (putS (s\<lparr>param_refs := Some refs, param_refs_count := param_refs_count s + 1,
                          param_refs_buf_size := size\<rparr>)) (\<lambda>_.
           bindS (tryS (repalloc 4 refs size)) (\<lambda>refs.
           putS (s\<lparr>param_refs := Some refs, param_refs_count := param_refs_count s + 1,
                   param_refs_buf_size := size\<rparr>))))
         else returnS ())))"

definition grow_clocations :: "unit recorder" where
  "grow_clocations = bindS getS (\<lambda>s.
     if clocations_count s \<ge> clocations_buf_size s
     then
       bindS (tryS (c_int (clocations_buf_size s * 2))) (\<lambda>size.
       bindS (putS (s\<lparr>clocations_buf_size := size\<rparr>)) (\<lambda>_.
       bindS (tryS (repalloc 12 (clocations s) size)) (\<lambda>locs.
       putS (s\<lparr>clocations_buf_size := size, clocations := locs\<rparr>))))
     else returnS ())"

definition RecordConstLocation :: "int \<Rightarrow> unit recorder" where
  "RecordConstLocation loc =
     (if loc \<ge> 0 then
        bindS grow_clocations (\<lambda>_.
        bindS getS (\<lambda>s.
        let id = - highest_normalize_param_id s in
        bindS (tryS (store (clocations s) (clocations_count s)
                 \<lparr>location = loc, loc_length = -1, param_id = id\<rparr>)) (\<lambda>locs.
        bindS (tryS (c_int (highest_normalize_param_id s + 1))) (\<lambda>high.
        bindS (putS (s\<lparr>clocations := locs, highest_normalize_param_id := high\<rparr>)) (\<lambda>_.
        bindS (record_param_ref id) (\<lambda>_.
        bindS getS (\<lambda>s. putS (s\<lparr>clocations_count := clocations_count s + 1\<rparr>))))))))
      else returnS ())"

text \<open>The search for the opening quote of a \<^verbatim>\<open>DefElem\<close> string, from its location on.\<close>

fun find_quote :: "string \<Rightarrow> int \<Rightarrow> nat \<Rightarrow> int option res" where
  "find_quote q i 0 = Inr None"
| "find_quote q i (Suc n) =
     (if i < 0 \<or> int (length q) < i then Inl OutOfBounds
      else if i < int (length q) \<and> q ! nat i = CHR 0x27 then Inr (Some i)
      else find_quote q (i + 1) n)"

section \<open>Matching GROUP BY with the target list\<close>

text \<open>
  The variable \<^verbatim>\<open>fp_and_param_refs_list\<close>: a list pointer, or a pointer to a list header that
  has been released.
\<close>

datatype fp_list = Live "FpAndParamRefs List option" | Freed

fun fp_search :: "FpAndParamRefs List \<Rightarrow> 64 word \<Rightarrow> nat \<Rightarrow> nat \<Rightarrow> (nat \<times> FpAndParamRefs) option res" where
  "fp_search l h i 0 = Inr None"
| "fp_search l h i (Suc n) =
     bindE (list_nth l (int i)) (\<lambda>x.
     if h = fp x then Inr (Some (i, x)) else fp_search l h (Suc i) n)"

text \<open>
  \<^verbatim>\<open>foreach_delete_current\<close> deletes in place and returns the list, but the result is not
  assigned: when the last element goes, the variable keeps the released header.
\<close>

definition fp_take :: "fp_list \<Rightarrow> 64 word \<Rightarrow> (FpAndParamRefs option \<times> fp_list) res" where
  "fp_take fpl h =
     (case fpl of Freed \<Rightarrow> Inl UseAfterFree
      | Live None \<Rightarrow> Inr (None, fpl)
      | Live (Some l) \<Rightarrow>
          bindE (fp_search l h 0 (nat (llength l))) (\<lambda>found.
          case found of None \<Rightarrow> Inr (None, fpl)
          | Some (i, x) \<Rightarrow>
              bindE (list_delete_nth_cell l (int i)) (\<lambda>l'.
              Inr (Some x, case l' of None \<Rightarrow> Freed | Some _ \<Rightarrow> Live l'))))"

text \<open>The loop that copies the parameter numbers of the matching target to the new constants.\<close>

fun copy_param_ids :: "int block \<Rightarrow> int \<Rightarrow> pgssLocationLen block \<Rightarrow> int \<Rightarrow> nat \<Rightarrow> pgssLocationLen block res" where
  "copy_param_ids refs prev locs i 0 = Inr locs"
| "copy_param_ids refs prev locs i (Suc n) =
     bindE (load refs (i - prev)) (\<lambda>id.
     bindE (load locs i) (\<lambda>x.
     bindE (store locs i (x\<lparr>param_id := id\<rparr>)) (\<lambda>locs.
     copy_param_ids refs prev locs (i + 1) n)))"

definition reuse_params :: "FpAndParamRefs option \<Rightarrow> int \<Rightarrow> unit recorder" where
  "reuse_params fppr prev = bindS getS (\<lambda>s.
     case fppr of None \<Rightarrow> returnS ()
     | Some r \<Rightarrow>
         if fp_param_refs_count r = clocations_count s - prev
         then
           bindS (tryS (case fp_param_refs r of
                    Some refs \<Rightarrow> copy_param_ids refs prev (clocations s) prev (nat (clocations_count s - prev))
                  | None \<Rightarrow> if clocations_count s - prev > 0 then Inl NullDeref else Inr (clocations s))) (\<lambda>locs.
           putS (s\<lparr>clocations := locs,
             highest_normalize_param_id := highest_normalize_param_id s - fp_param_refs_count r\<rparr>))
         else returnS ())"

definition is_int_const :: "node \<Rightarrow> bool" where
  "is_int_const n \<longleftrightarrow> has_tag T_A_Const n \<and> (case fnode ''val'' n of Some (Integer i) \<Rightarrow> True | _ \<Rightarrow> False)"

section \<open>The walker\<close>

definition record_begin :: "unit recorder" where
  "record_begin = bindS getS (\<lambda>s.
     putS (s\<lparr>param_refs := Some [Some 0], param_refs_buf_size := 1, param_refs_count := 0\<rparr>))"

definition record_end :: "unit recorder" where
  "record_end = bindS getS (\<lambda>s.
     putS (s\<lparr>param_refs := None, param_refs_buf_size := 0, param_refs_count := 0\<rparr>))"

text \<open>
  The three loops of the \<^verbatim>\<open>SelectStmt\<close> case over the target list, the GROUP BY and the ORDER BY
  items, with the recursive call as an argument. A \<open>Some\<close> result of the first is the list built, \<open>None\<close>
  the early \<^verbatim>\<open>return true\<close>. Elements are read without a null check.
\<close>

fun walk_targets :: "(node option \<Rightarrow> 64 word) \<Rightarrow> (node option \<Rightarrow> bool recorder) \<Rightarrow>
    node option list \<Rightarrow> FpAndParamRefs List option \<Rightarrow> FpAndParamRefs List option option recorder" where
  "walk_targets fingerprint walker [] l = returnS (Some l)"
| "walk_targets fingerprint walker (x # xs) l =
     bindS record_begin (\<lambda>_.
     bindS (walker x) (\<lambda>b.
     if b then returnS None
     else
       (case x of None \<Rightarrow> failS NullDeref
        | Some res_target \<Rightarrow>
            bindS getS (\<lambda>s.
            bindS (tryS (lappend l \<lparr>fp = fingerprint (fnode ''val'' res_target),
                     fp_param_refs = param_refs s, fp_param_refs_count = param_refs_count s\<rparr>)) (\<lambda>l.
            bindS record_end (\<lambda>_. walk_targets fingerprint walker xs l))))))"

fun walk_groups :: "(node option \<Rightarrow> 64 word) \<Rightarrow> (node option \<Rightarrow> bool recorder) \<Rightarrow>
    node option list \<Rightarrow> fp_list \<Rightarrow> bool recorder" where
  "walk_groups fingerprint walker [] fpl = returnS False"
| "walk_groups fingerprint walker (x # xs) fpl =
     (case x of None \<Rightarrow> failS NullDeref
      | Some n \<Rightarrow>
          if is_int_const n then walk_groups fingerprint walker xs fpl
          else
            bindS (tryS (fp_take fpl (fingerprint x))) (\<lambda>(fppr, fpl).
            bindS getS (\<lambda>s.
            bindS (walker x) (\<lambda>b.
            if b then returnS True
            else bindS (reuse_params fppr (clocations_count s)) (\<lambda>_.
                 walk_groups fingerprint walker xs fpl)))))"

fun walk_sorts :: "(node option \<Rightarrow> bool recorder) \<Rightarrow> node option list \<Rightarrow> bool recorder" where
  "walk_sorts walker [] = returnS False"
| "walk_sorts walker (x # xs) =
     (case x of None \<Rightarrow> failS NullDeref
      | Some n \<Rightarrow>
          if has_tag T_SortBy n \<and> fnode ''node'' n = None then failS NullDeref
          else if has_tag T_SortBy n \<and> (case fnode ''node'' n of Some k \<Rightarrow> is_int_const k | None \<Rightarrow> False)
          then walk_sorts walker xs
          else bindS (walker x) (\<lambda>b. if b then returnS True else walk_sorts walker xs))"

text \<open>
  \<^verbatim>\<open>PG_TRY\<close> around the generic walker, with the \<^verbatim>\<open>return\<close> inside the block. Only errors raised
  through the exception stack reach the handler.
\<close>

definition try_return :: "bool recorder \<Rightarrow> bool recorder" where
  "try_return body = (\<lambda>s.
     case body (s\<lparr>exn_live := True\<rparr>) of
       (Inr b, s') \<Rightarrow> (Inr b, s'\<lparr>exn_live := False\<rparr>)
     | (Inl (Elog m), s') \<Rightarrow> (Inr False, s'\<lparr>exn_live := exn_live s\<rparr>)
     | (Inl e, s') \<Rightarrow> (Inl e, s'))"

lemma walk_targets_cong [fundef_cong]:
  "h = h' \<Longrightarrow> xs = ys \<Longrightarrow> l = l' \<Longrightarrow> (\<And>x. x \<in> set ys \<Longrightarrow> f x = g x) \<Longrightarrow> walk_targets h f xs l = walk_targets h' g ys l'"
proof (induction xs arbitrary: ys l l')
  case (Cons x xs)
  then have "\<And>l. walk_targets h f xs l = walk_targets h g xs l" "f x = g x" by auto
  with Cons.prems show ?case by (auto cong: if_cong option.case_cong)
qed auto

lemma walk_groups_cong [fundef_cong]:
  "h = h' \<Longrightarrow> xs = ys \<Longrightarrow> l = l' \<Longrightarrow> (\<And>x. x \<in> set ys \<Longrightarrow> f x = g x) \<Longrightarrow> walk_groups h f xs l = walk_groups h' g ys l'"
proof (induction xs arbitrary: ys l l')
  case (Cons x xs)
  then have "\<And>l. walk_groups h f xs l = walk_groups h g xs l" "f x = g x" by auto
  with Cons.prems show ?case by (auto cong: if_cong option.case_cong)
qed auto

lemma walk_sorts_cong [fundef_cong]:
  "xs = ys \<Longrightarrow> (\<And>x. x \<in> set ys \<Longrightarrow> f x = g x) \<Longrightarrow> walk_sorts f xs = walk_sorts g ys"
proof (induction xs arbitrary: ys)
  case (Cons x xs)
  then have "walk_sorts f xs = walk_sorts g xs" "f x = g x" by auto
  with Cons.prems show ?case by (auto cong: if_cong option.case_cong)
qed auto

text \<open>\<^verbatim>\<open>if (m) return true;\<close> followed by the rest.\<close>

definition orelse :: "bool recorder \<Rightarrow> bool recorder \<Rightarrow> bool recorder" where
  "orelse m k = bindS m (\<lambda>b. if b then returnS True else k)"

text \<open>The string argument of a \<^verbatim>\<open>DefElem\<close> is recorded at its opening quote.\<close>

definition record_def_elem :: "node \<Rightarrow> unit recorder" where
  "record_def_elem n =
     (case fnode ''arg'' n of
        Some (String str) \<Rightarrow>
          bindS getS (\<lambda>s.
          bindS (tryS (find_quote (query s) (fint ''location'' n) (nat (query_len s - fint ''location'' n)))) (\<lambda>q.
          case q of Some i \<Rightarrow> RecordConstLocation i | None \<Rightarrow> returnS ()))
      | _ \<Rightarrow> returnS ())"

definition record_param :: "node \<Rightarrow> unit recorder" where
  "record_param n =
     bindS getS (\<lambda>s.
     bindS (if fint ''number'' n > highest_extern_param_id s
            then putS (s\<lparr>highest_extern_param_id := fint ''number'' n\<rparr>) else returnS ()) (\<lambda>_.
     record_param_ref (fint ''number'' n)))"

text \<open>The statements of which the walker visits one field only.\<close>

definition single_field :: "node \<Rightarrow> string option" where
  "single_field n =
     (if has_tag T_RawStmt n then Some ''stmt''
      else if has_tag T_VariableSetStmt n then Some ''args''
      else if has_tag T_CopyStmt n then Some ''query''
      else if has_tag T_ExplainStmt n then Some ''query''
      else if has_tag T_CreateRoleStmt n then Some ''options''
      else if has_tag T_AlterRoleStmt n then Some ''options''
      else if has_tag T_DeclareCursorStmt n then Some ''query''
      else None)"

definition walk_select :: "(node option \<Rightarrow> 64 word) \<Rightarrow> (node option \<Rightarrow> bool recorder) \<Rightarrow> node \<Rightarrow> bool recorder" where
  "walk_select fingerprint walker stmt =
     orelse (walk_seq walker [fnode ''distinctClause'' stmt, fnode ''intoClause'' stmt])
     (bindS (walk_targets fingerprint walker (flist ''targetList'' stmt) None) (\<lambda>r.
      case r of None \<Rightarrow> returnS True
      | Some l \<Rightarrow>
          orelse (walk_seq walker [fnode ''fromClause'' stmt, fnode ''whereClause'' stmt])
          (orelse (walk_groups fingerprint walker (flist ''groupClause'' stmt) (Live l))
          (orelse (walk_sorts walker (flist ''sortClause'' stmt))
             (walk_seq walker [fnode ''havingClause'' stmt, fnode ''windowClause'' stmt, fnode ''valuesLists'' stmt,
                fnode ''limitOffset'' stmt, fnode ''limitCount'' stmt, fnode ''lockingClause'' stmt,
                fnode ''withClause'' stmt, fnode ''larg'' stmt, fnode ''rarg'' stmt])))))"

lemma walk_select_cong [fundef_cong]:
  assumes "h = h'" "n = n'" "\<And>x. x = None \<or> (\<exists>y. x = Some y \<and> size y < size n') \<Longrightarrow> f x = g x"
  shows "walk_select h f n = walk_select h' g n'"
proof -
  have fl: "f x = g x" if "x \<in> set (flist fld n')" for x fld
    by (cases x; use that assms(3) in \<open>auto dest: flist_size\<close>)
  have fn: "f (fnode fld n') = g (fnode fld n')" for fld
    using assms(3) by (cases "fnode fld n'") (auto dest: fnode_size)
  have "walk_targets h' f (flist ''targetList'' n') None = walk_targets h' g (flist ''targetList'' n') None"
    "\<And>l. walk_groups h' f (flist ''groupClause'' n') l = walk_groups h' g (flist ''groupClause'' n') l"
    "walk_sorts f (flist ''sortClause'' n') = walk_sorts g (flist ''sortClause'' n')"
    by (auto intro!: walk_targets_cong walk_groups_cong walk_sorts_cong fl)
  with assms(1,2) fn show ?thesis by (simp add: walk_select_def cong: option.case_cong if_cong)
qed

lemma raw_walker_cong [fundef_cong]:
  assumes "n = n'" "\<And>x. x = None \<or> (\<exists>y m. x = Some y \<and> n' = Some m \<and> size y < size m) \<Longrightarrow> f x = g x"
  shows "raw_expression_tree_walker n f = raw_expression_tree_walker n' g"
proof -
  have "walk_seq f xs = walk_seq g xs" if "n' = Some m" "raw_subnodes m = Inr xs" for m xs
  proof (rule walk_seq_cong [OF refl])
    fix x assume "x \<in> set xs"
    with that assms(2) show "f x = g x" by (cases x) (auto dest: raw_subnodes_size)
  qed
  with assms(1) show ?thesis by (auto simp: raw_expression_tree_walker_def split: option.splits sum.splits)
qed

function const_record_walker :: "(node option \<Rightarrow> 64 word) \<Rightarrow> node option \<Rightarrow> bool recorder" where
  "const_record_walker fingerprint None = returnS False"
| "const_record_walker fingerprint (Some n) =
     (if has_tag T_A_Const n then bindS (RecordConstLocation (fint ''location'' n)) (\<lambda>_. returnS False)
      else if has_tag T_ParamRef n then bindS (record_param n) (\<lambda>_. returnS False)
      else if has_tag T_DefElem n
      then bindS (record_def_elem n) (\<lambda>_. const_record_walker fingerprint (fnode ''arg'' n))
      else if has_tag T_TypeName n then returnS False
      else if has_tag T_SelectStmt n then walk_select fingerprint (const_record_walker fingerprint) n
      else
        (case single_field n of
           Some f \<Rightarrow> const_record_walker fingerprint (fnode f n)
         | None \<Rightarrow> try_return (raw_expression_tree_walker (Some n) (const_record_walker fingerprint))))"
  by pat_completeness auto
termination
  by (relation "measure (\<lambda>(_, n). case n of None \<Rightarrow> 0 | Some n \<Rightarrow> Suc (size n))")
    (auto split: option.splits dest!: fnode_size)

text \<open>The workspace that \<^verbatim>\<open>pg_query_normalize\<close> sets up, inside its own \<^verbatim>\<open>PG_TRY\<close>.\<close>

definition init_jstate :: "string \<Rightarrow> pgssConstLocations" where
  "init_jstate input =
     \<lparr>clocations = replicate 32 None, clocations_buf_size = 32, clocations_count = 0,
      highest_normalize_param_id = 1, highest_extern_param_id = 0,
      query = input, query_len = int (length input),
      param_refs = None, param_refs_buf_size = 0, param_refs_count = 0, exn_live = True\<rparr>"

end
