(* ===== verification/Normalize_Recorded.thy ===== *)
theory Normalize_Recorded
  imports Normalize_Walker
begin

text \<open>
  What the constant recorder of \<^verbatim>\<open>pg_query_normalize.c\<close> does. \<open>recorded\<close> lists, as a pure
  function of the tree, the constants and parameters in the order the walk meets them; the
  walk appends exactly these to \<^verbatim>\<open>clocations\<close>, stays inside its growing arrays and ends without
  an error, on trees with the shape the grammar gives (\<open>tree_ok\<close>) and of bounded size.
\<close>

section \<open>The specification\<close>

datatype item = Const int | Par int

text \<open>The sub-nodes the walk goes on to, in order.\<close>

definition sort_key_const :: "node option \<Rightarrow> bool" where
  "sort_key_const x = (case x of Some n \<Rightarrow> has_tag T_SortBy n \<and>
     (case fnode ''node'' n of Some k \<Rightarrow> is_int_const k | None \<Rightarrow> False) | None \<Rightarrow> False)"

definition group_const :: "node option \<Rightarrow> bool" where
  "group_const x = (case x of Some n \<Rightarrow> is_int_const n | None \<Rightarrow> False)"

definition select_visits :: "node \<Rightarrow> node option list" where
  "select_visits stmt =
     [fnode ''distinctClause'' stmt, fnode ''intoClause'' stmt] @ flist ''targetList'' stmt @
     [fnode ''fromClause'' stmt, fnode ''whereClause'' stmt] @
     filter (\<lambda>x. \<not> group_const x) (flist ''groupClause'' stmt) @
     filter (\<lambda>x. \<not> sort_key_const x) (flist ''sortClause'' stmt) @
     [fnode ''havingClause'' stmt, fnode ''windowClause'' stmt, fnode ''valuesLists'' stmt,
      fnode ''limitOffset'' stmt, fnode ''limitCount'' stmt, fnode ''lockingClause'' stmt,
      fnode ''withClause'' stmt, fnode ''larg'' stmt, fnode ''rarg'' stmt]"

definition visits :: "node \<Rightarrow> node option list" where
  "visits n =
     (if has_tag T_A_Const n \<or> has_tag T_ParamRef n \<or> has_tag T_TypeName n then []
      else if has_tag T_DefElem n then [fnode ''arg'' n]
      else if has_tag T_SelectStmt n then select_visits n
      else case single_field n of
        Some f \<Rightarrow> [fnode f n]
      | None \<Rightarrow> (case raw_subnodes n of Inr xs \<Rightarrow> xs | Inl _ \<Rightarrow> []))"

definition own_items :: "string \<Rightarrow> node \<Rightarrow> item list" where
  "own_items q n =
     (if has_tag T_A_Const n then (if fint ''location'' n \<ge> 0 then [Const (fint ''location'' n)] else [])
      else if has_tag T_ParamRef n then [Par (fint ''number'' n)]
      else if has_tag T_DefElem n
      then (case fnode ''arg'' n of
              Some (String str) \<Rightarrow>
                (case find_quote q (fint ''location'' n) (nat (int (length q) - fint ''location'' n)) of
                   Inr (Some i) \<Rightarrow> [Const i] | _ \<Rightarrow> [])
            | _ \<Rightarrow> [])
      else [])"

lemma visits_cases:
  assumes "Some x \<in> set (visits n)"
  obtains (field) f where "fnode f n = Some x" | (element) f where "Some x \<in> set (flist f n)"
    | (raw) xs where "raw_subnodes n = Inr xs" "Some x \<in> set xs"
  using assms by (auto simp: visits_def select_visits_def split: if_splits option.splits sum.splits dest!: sym [of "Some x"]) metis

lemma visits_size: "Some x \<in> set (visits n) \<Longrightarrow> size x < size n"
  by (erule visits_cases) (auto dest: fnode_size flist_size raw_subnodes_size)

function recorded :: "string \<Rightarrow> node option \<Rightarrow> item list" where
  "recorded q None = []"
| "recorded q (Some n) = own_items q n @ concat (map (recorded q) (visits n))"
  by pat_completeness auto
termination
  by (relation "measure (\<lambda>(_, n). case n of None \<Rightarrow> 0 | Some n \<Rightarrow> Suc (size n))")
    (auto split: option.splits dest!: visits_size)

definition const_locs :: "item list \<Rightarrow> int list" where
  "const_locs items = List.map_filter (\<lambda>x. case x of Const i \<Rightarrow> Some i | Par _ \<Rightarrow> None) items"

section \<open>Trees\<close>

fun kids :: "node \<Rightarrow> node list" where
  "kids (NList xs) = List.map_filter id xs"
| "kids (Struct t fs) = List.map_filter (\<lambda>(k, v). case v of FNode x \<Rightarrow> Some x | _ \<Rightarrow> None) fs"
| "kids _ = []"

lemma kids_size [termination_simp]: "x \<in> set (kids n) \<Longrightarrow> size x < size n"
proof (cases n)
  case (Struct t fs)
  assume "x \<in> set (kids n)"
  with Struct have "\<exists>k. (k, FNode x) \<in> set fs"
    by (auto simp: List.map_filter_def split: fld.splits)
  then have "size x < size_list (size_prod (\<lambda>_. 0) size) fs + 1"
    by (induction fs) fastforce+
  with Struct show ?thesis by simp
next
  case (NList xs)
  assume "x \<in> set (kids n)"
  with NList have "Some x \<in> set xs" by (auto simp: List.map_filter_def)
  with NList show ?thesis by (auto dest: size_in_list)
qed auto

lemma fnode_kid: "fnode f n = Some x \<Longrightarrow> x \<in> set (kids n)"
  by (cases n) (auto simp: fnode_def List.map_filter_def image_iff split: option.splits fld.splits dest!: map_of_SomeD)

fun everywhere :: "(node \<Rightarrow> bool) \<Rightarrow> node \<Rightarrow> bool" where
  "everywhere P n \<longleftrightarrow> P n \<and> list_all (everywhere P) (kids n)"

declare everywhere.simps [simp del]

lemma everywhere_here: "everywhere P n \<Longrightarrow> P n"
  by (subst (asm) everywhere.simps) simp

lemma everywhere_kid: "everywhere P n \<Longrightarrow> x \<in> set (kids n) \<Longrightarrow> everywhere P x"
  by (subst (asm) everywhere.simps) (simp add: list_all_iff)

lemma everywhere_fnode: "everywhere P n \<Longrightarrow> fnode f n = Some x \<Longrightarrow> everywhere P x"
  by (blast intro: everywhere_kid fnode_kid)

lemma everywhere_NList: "everywhere P (NList xs) \<Longrightarrow> Some x \<in> set xs \<Longrightarrow> everywhere P x"
  by (rule everywhere_kid) (force simp: List.map_filter_def image_iff)+

lemma everywhere_flist: "everywhere P n \<Longrightarrow> Some x \<in> set (flist f n) \<Longrightarrow> everywhere P x"
proof (cases "fnode f n")
  case (Some m)
  assume "everywhere P n" "Some x \<in> set (flist f n)"
  with Some have "everywhere P m" "Some x \<in> set (elems (Some m))" by (auto simp: flist_def dest: everywhere_fnode)
  then show ?thesis by (cases m) (auto dest: everywhere_NList)
qed (simp add: flist_def)

lemma everywhere_when:
  "when_parts ws = Inr ys \<Longrightarrow> (\<And>w. Some w \<in> set ws \<Longrightarrow> everywhere P w) \<Longrightarrow> Some x \<in> set ys \<Longrightarrow> everywhere P x"
proof (induction ws arbitrary: ys rule: when_parts.induct)
  case (3 w ws)
  then obtain rest where r: "when_parts ws = Inr rest" "ys = fnode ''expr'' w # fnode ''result'' w # rest"
    by (auto simp: bindE_eq_Inr)
  have "everywhere P w" using 3(3) by simp
  then have "everywhere P x" if "fnode ''expr'' w = Some x \<or> fnode ''result'' w = Some x"
    using that everywhere_fnode by blast
  with 3 r show ?case by (auto dest!: sym [of "Some x"])
qed auto

lemma everywhere_raw_subnodes:
  assumes "raw_subnodes n = Inr xs" "everywhere P n" "Some x \<in> set xs"
  shows "everywhere P x"
proof (cases n)
  case (Struct t fs)
  show ?thesis
  proof (cases "t = T_CaseExpr")
    case True
    with assms(1) Struct have "bindE (when_parts (flist ''args'' n))
        (\<lambda>ws. Inr (fnode ''arg'' n # ws @ [fnode ''defresult'' n])) = Inr xs" by (simp add: Let_def)
    then obtain ws where ws: "when_parts (flist ''args'' n) = Inr ws"
      "xs = fnode ''arg'' n # ws @ [fnode ''defresult'' n]" by (auto simp: bindE_eq_Inr)
    have "everywhere P x" if "Some x \<in> set ws"
      using ws(1) _ that by (rule everywhere_when) (use assms(2) in \<open>rule everywhere_flist\<close>)
    with ws(2) assms show ?thesis by (auto dest!: sym [of "Some x"] dest: everywhere_fnode)
  next
    case False
    with assms Struct obtain f where "fnode f n = Some x" by (auto split: option.splits)
    with assms(2) show ?thesis by (blast intro: everywhere_fnode)
  qed
next
  case (NList ys)
  with assms show ?thesis by (auto dest: everywhere_NList)
qed (use assms in auto)

lemma everywhere_visits: "everywhere P n \<Longrightarrow> Some x \<in> set (visits n) \<Longrightarrow> everywhere P x"
  by (erule visits_cases) (auto dest: everywhere_fnode everywhere_flist everywhere_raw_subnodes)

text \<open>
  The shape of raw parse trees that the walk relies on: elements it reads without a check
  are not null, locations and parameter numbers are in range, GROUP BY items contain no
  subselect, and there are not more GROUP BY items than targets, so that the list of
  fingerprints is never used after it has been emptied and released.
\<close>

abbreviation WALK_MAX :: int where "WALK_MAX \<equiv> 33554432"

definition no_select :: "node \<Rightarrow> bool" where
  "no_select = everywhere (\<lambda>n. \<not> has_tag T_SelectStmt n)"

definition simple :: "node option \<Rightarrow> bool" where
  "simple x = (case x of None \<Rightarrow> True | Some n \<Rightarrow> no_select n)"

definition node_ok :: "node \<Rightarrow> bool" where
  "node_ok n \<longleftrightarrow>
     (has_tag T_ParamRef n \<longrightarrow> 0 \<le> fint ''number'' n) \<and>
     (has_tag T_DefElem n \<longrightarrow> 0 \<le> fint ''location'' n) \<and>
     (has_tag T_CaseExpr n \<longrightarrow> None \<notin> set (flist ''args'' n)) \<and>
     (has_tag T_SelectStmt n \<longrightarrow>
        None \<notin> set (flist ''targetList'' n) \<and> int (length (flist ''targetList'' n)) \<le> WALK_MAX \<and>
        None \<notin> set (flist ''groupClause'' n) \<and>
        (flist ''targetList'' n = [] \<or> length (flist ''groupClause'' n) \<le> length (flist ''targetList'' n)) \<and>
        list_all simple (flist ''groupClause'' n) \<and>
        list_all (\<lambda>x. case x of Some m \<Rightarrow> has_tag T_SortBy m \<longrightarrow> fnode ''node'' m \<noteq> None | None \<Rightarrow> False)
          (flist ''sortClause'' n))"

definition tree_ok :: "node option \<Rightarrow> bool" where
  "tree_ok x = (case x of None \<Rightarrow> True | Some n \<Rightarrow> everywhere node_ok n)"

lemma tree_ok_visits: "tree_ok (Some n) \<Longrightarrow> x \<in> set (visits n) \<Longrightarrow> tree_ok x"
  by (cases x) (auto simp: tree_ok_def intro: everywhere_visits)

lemma simple_visits: "simple (Some n) \<Longrightarrow> x \<in> set (visits n) \<Longrightarrow> simple x"
  by (cases x) (auto simp: simple_def no_select_def intro: everywhere_visits)

section \<open>The invariant of the recorder\<close>

definition filled :: "'b block \<Rightarrow> int \<Rightarrow> 'b list \<Rightarrow> bool" where
  "filled b n vs \<longleftrightarrow> int (length vs) = n \<and> (\<exists>rest. b = map Some vs @ rest)"

definition clocs :: "pgssConstLocations \<Rightarrow> pgssLocationLen list" where
  "clocs s = map the (take (nat (clocations_count s)) (clocations s))"

definition id_ok :: "pgssConstLocations \<Rightarrow> int \<Rightarrow> bool" where
  "id_ok s v \<longleftrightarrow> (- highest_normalize_param_id s < v \<and> v < 0) \<or> (0 \<le> v \<and> v \<le> highest_extern_param_id s)"

definition entry_ok :: "pgssConstLocations \<Rightarrow> pgssLocationLen \<Rightarrow> bool" where
  "entry_ok s x \<longleftrightarrow> 0 \<le> location x \<and> loc_length x = -1 \<and> id_ok s (param_id x)"

definition refs_ok :: "pgssConstLocations \<Rightarrow> bool" where
  "refs_ok s = (case param_refs s of None \<Rightarrow> param_refs_count s = 0
     | Some refs \<Rightarrow> (\<exists>vs. filled refs (param_refs_count s) vs \<and> (\<forall>v \<in> set vs. id_ok s v)) \<and>
         int (length refs) = param_refs_buf_size s \<and> param_refs_count s < param_refs_buf_size s \<and>
         param_refs_buf_size s \<le> max 1 (2 * param_refs_count s))"

definition rec_ok :: "pgssConstLocations \<Rightarrow> bool" where
  "rec_ok s \<longleftrightarrow>
     filled (clocations s) (clocations_count s) (clocs s) \<and>
     int (length (clocations s)) = clocations_buf_size s \<and>
     32 \<le> clocations_buf_size s \<and> clocations_buf_size s \<le> max 32 (2 * clocations_count s) \<and>
     list_all (entry_ok s) (clocs s) \<and>
     1 \<le> highest_normalize_param_id s \<and> highest_normalize_param_id s \<le> clocations_count s + 1 \<and>
     0 \<le> highest_extern_param_id s \<and> query_len s = int (length (query s)) \<and> refs_ok s"

text \<open>What a part of the walk changes when it meets \<open>items\<close>.\<close>

definition grows :: "pgssConstLocations \<Rightarrow> pgssConstLocations \<Rightarrow> item list \<Rightarrow> bool" where
  "grows s s' items \<longleftrightarrow>
     map location (clocs s') = map location (clocs s) @ const_locs items \<and>
     clocations_count s' = clocations_count s + int (length (const_locs items)) \<and>
     highest_normalize_param_id s \<le> highest_normalize_param_id s' \<and>
     highest_extern_param_id s \<le> highest_extern_param_id s' \<and>
     (highest_extern_param_id s' = highest_extern_param_id s \<or> Par (highest_extern_param_id s') \<in> set items) \<and>
     (\<forall>k. Par k \<in> set items \<longrightarrow> k \<le> highest_extern_param_id s') \<and>
     param_refs_count s' \<le> param_refs_count s + int (length items) \<and>
     query s' = query s \<and> query_len s' = query_len s"

definition ext :: "pgssConstLocations \<Rightarrow> pgssConstLocations \<Rightarrow> item list \<Rightarrow> bool" where
  "ext s s' items \<longleftrightarrow> grows s s' items \<and> (param_refs s = None \<longrightarrow> param_refs s' = None)"

definition pre :: "string \<Rightarrow> pgssConstLocations \<Rightarrow> item list \<Rightarrow> bool" where
  "pre q s items \<longleftrightarrow> rec_ok s \<and> query s = q \<and> clocations_count s + int (length items) \<le> WALK_MAX \<and>
     param_refs_count s + int (length items) \<le> WALK_MAX"

lemma const_locs_simps [simp]:
  "const_locs [] = []" "const_locs (Const i # xs) = i # const_locs xs" "const_locs (Par k # xs) = const_locs xs"
  "const_locs (xs @ ys) = const_locs xs @ const_locs ys"
  by (simp_all add: const_locs_def List.map_filter_def)

lemma length_const_locs: "length (const_locs items) \<le> length items"
  by (simp add: const_locs_def List.map_filter_def)

lemma grows_refl: "grows s s []"
  by (simp add: grows_def)

lemma grows_trans: "grows s s1 xs \<Longrightarrow> grows s1 s2 ys \<Longrightarrow> grows s s2 (xs @ ys)"
  unfolding grows_def by (elim conjE, intro conjI) fastforce+

lemma ext_refl: "ext s s []"
  by (simp add: ext_def grows_refl)

lemma ext_trans: "ext s s1 xs \<Longrightarrow> ext s1 s2 ys \<Longrightarrow> ext s s2 (xs @ ys)"
  by (auto simp: ext_def intro: grows_trans)

lemma pre_step: "pre q s (xs @ ys) \<Longrightarrow> rec_ok s1 \<Longrightarrow> grows s s1 xs \<Longrightarrow> pre q s1 ys"
  using length_const_locs [of xs] by (auto simp: pre_def grows_def)

lemma pre_left: "pre q s (xs @ ys) \<Longrightarrow> pre q s xs"
  by (auto simp: pre_def)

subsection \<open>The recording operations\<close>

lemma filled_clocs: "filled (clocations s) (clocations_count s) ls \<Longrightarrow> clocs s = ls"
  by (auto simp: filled_def clocs_def)

lemma filled_store:
  assumes "filled b n vs" "n < int (length b)"
  shows "\<exists>b'. store b n v = Inr b' \<and> filled b' (n + 1) (vs @ [v]) \<and> length b' = length b"
proof -
  from assms obtain c rest where "b = map Some vs @ c # rest" "n = int (length vs)"
    by (auto simp: filled_def) (metis append_Nil2 length_map less_irrefl list.exhaust)
  then show ?thesis by (auto simp: store_split filled_def)
qed

lemma filled_append: "filled b n vs \<Longrightarrow> filled (b @ c) n vs"
  by (auto simp: filled_def)

lemma id_ok_update [simp]:
  "id_ok (s\<lparr>param_refs := r\<rparr>) v = id_ok s v" "id_ok (s\<lparr>param_refs_count := c\<rparr>) v = id_ok s v"
  "id_ok (s\<lparr>param_refs_buf_size := c\<rparr>) v = id_ok s v" "id_ok (s\<lparr>clocations := l\<rparr>) v = id_ok s v"
  "id_ok (s\<lparr>clocations_count := c\<rparr>) v = id_ok s v" "id_ok (s\<lparr>clocations_buf_size := c\<rparr>) v = id_ok s v"
  "id_ok (s\<lparr>exn_live := b\<rparr>) v = id_ok s v"
  by (simp_all add: id_ok_def)

lemma refs_ok_update [simp]:
  "refs_ok (s\<lparr>clocations := l\<rparr>) = refs_ok s" "refs_ok (s\<lparr>clocations_count := c\<rparr>) = refs_ok s"
  "refs_ok (s\<lparr>clocations_buf_size := c\<rparr>) = refs_ok s" "refs_ok (s\<lparr>exn_live := b\<rparr>) = refs_ok s"
  by (simp_all add: refs_ok_def split: option.split)

lemma rec_ok_exn_live [simp]: "rec_ok (s\<lparr>exn_live := b\<rparr>) = rec_ok s"
proof -
  have "clocs (s\<lparr>exn_live := b\<rparr>) = clocs s" "entry_ok (s\<lparr>exn_live := b\<rparr>) = entry_ok s"
    by (auto simp: clocs_def entry_ok_def fun_eq_iff)
  then show ?thesis by (simp add: rec_ok_def)
qed

lemma ext_exn_live [simp]:
  "ext (s\<lparr>exn_live := b\<rparr>) s' items = ext s s' items" "ext s (s'\<lparr>exn_live := b\<rparr>) items = ext s s' items"
  by (simp_all add: ext_def grows_def clocs_def)

lemma id_ok_mono:
  "id_ok s v \<Longrightarrow> highest_normalize_param_id s \<le> highest_normalize_param_id s' \<Longrightarrow>
   highest_extern_param_id s \<le> highest_extern_param_id s' \<Longrightarrow> id_ok s' v"
  by (auto simp: id_ok_def)

lemma refs_okI:
  "param_refs s = Some refs \<Longrightarrow> filled refs (param_refs_count s) vs \<Longrightarrow> \<forall>v \<in> set vs. id_ok s v \<Longrightarrow>
   int (length refs) = param_refs_buf_size s \<Longrightarrow> param_refs_count s < param_refs_buf_size s \<Longrightarrow>
   param_refs_buf_size s \<le> max 1 (2 * param_refs_count s) \<Longrightarrow> refs_ok s"
  by (auto simp: refs_ok_def)

lemma record_param_ref_spec:
  assumes "refs_ok s" "id_ok s v" "param_refs_count s < WALK_MAX"
  obtains refs sz count where
    "record_param_ref v s = (Inr (), s\<lparr>param_refs := refs, param_refs_buf_size := sz, param_refs_count := count\<rparr>)"
    "refs_ok (s\<lparr>param_refs := refs, param_refs_buf_size := sz, param_refs_count := count\<rparr>)"
    "count \<le> param_refs_count s + 1" "param_refs s = None \<longrightarrow> refs = None"
proof (cases "param_refs s")
  case None
  with assms show thesis
    by (intro that [where refs = None and sz = "param_refs_buf_size s" and count = "param_refs_count s"])
      (auto simp: record_param_ref_def bindS_def getS_def refs_ok_def)
next
  case (Some refs)
  with assms obtain vs where r: "filled refs (param_refs_count s) vs" "\<forall>v \<in> set vs. id_ok s v"
    "int (length refs) = param_refs_buf_size s" "param_refs_count s < param_refs_buf_size s"
    "param_refs_buf_size s \<le> max 1 (2 * param_refs_count s)" "0 \<le> param_refs_count s"
    by (auto simp: refs_ok_def filled_def)
  then obtain refs' where st: "store refs (param_refs_count s) v = Inr refs'"
    "filled refs' (param_refs_count s + 1) (vs @ [v])" "length refs' = length refs"
    using filled_store [of refs "param_refs_count s" vs v] by auto
  have ids: "\<forall>v \<in> set (vs @ [v]). id_ok s v"
    using r(2) assms(2) by auto
  show thesis
  proof (cases "param_refs_count s + 1 \<ge> param_refs_buf_size s")
    case False
    with Some st ids r show thesis
      by (intro that [where refs = "Some refs'" and sz = "param_refs_buf_size s" and count = "param_refs_count s + 1"])
        (auto simp: record_param_ref_def bindS_def getS_def tryS_def intro!: refs_okI [where vs = "vs @ [v]"])
  next
    case True
    let ?size = "param_refs_buf_size s * 2"
    have "c_int ?size = Inr ?size" using r assms(3) by (intro c_int_ok) auto
    moreover have "repalloc 4 refs' ?size = Inr (refs' @ replicate (nat ?size - length refs') None)"
      by (rule repalloc_grow) (use r st assms(3) in auto)
    moreover have "filled (refs' @ replicate (nat ?size - length refs') None) (param_refs_count s + 1) (vs @ [v])"
      using st by (intro filled_append)
    moreover have "int (length (refs' @ replicate (nat ?size - length refs') None)) = ?size"
      using r st by auto
    ultimately show thesis using Some st ids r True
      by (intro that [where refs = "Some (refs' @ replicate (nat ?size - length refs') None)" and sz = ?size and count = "param_refs_count s + 1"])
        (auto simp: record_param_ref_def bindS_def getS_def tryS_def putS_def intro!: refs_okI [where vs = "vs @ [v]"])
  qed
qed

lemma grow_clocations_spec:
  assumes "rec_ok s" "clocations_count s < WALK_MAX"
  obtains locs sz where "grow_clocations s = (Inr (), s\<lparr>clocations := locs, clocations_buf_size := sz\<rparr>)"
    "filled locs (clocations_count s) (clocs s)" "int (length locs) = sz" "clocations_count s < sz"
    "32 \<le> sz" "sz \<le> max 32 (2 * (clocations_count s))"
proof (cases "clocations_count s \<ge> clocations_buf_size s")
  case False
  with assms show thesis
    by (intro that [where locs = "clocations s" and sz = "clocations_buf_size s"])
      (auto simp: grow_clocations_def bindS_def getS_def rec_ok_def)
next
  case True
  let ?size = "clocations_buf_size s * 2"
  let ?locs = "clocations s @ replicate (nat ?size - length (clocations s)) None"
  have "c_int ?size = Inr ?size" using assms True by (intro c_int_ok) (auto simp: rec_ok_def)
  moreover have "repalloc 12 (clocations s) ?size = Inr ?locs"
    by (rule repalloc_grow) (use assms True in \<open>auto simp: rec_ok_def\<close>)
  moreover have "filled ?locs (clocations_count s) (clocs s)" "int (length ?locs) = ?size"
    using assms by (auto simp: rec_ok_def intro: filled_append)
  moreover have "clocations_count s \<le> clocations_buf_size s"
    using assms by (auto simp: rec_ok_def filled_def)
  ultimately show thesis using assms True
    by (intro that [where locs = ?locs and sz = ?size])
      (auto simp: grow_clocations_def bindS_def getS_def putS_def tryS_def rec_ok_def)
qed

text \<open>
  A part of the walk meets \<open>items\<close> without failing. It is exact when it only appends entries
  and uses up one new parameter number for each.
\<close>

definition exactly :: "pgssConstLocations \<Rightarrow> pgssConstLocations \<Rightarrow> bool" where
  "exactly s s' \<longleftrightarrow> highest_normalize_param_id s' - highest_normalize_param_id s = clocations_count s' - clocations_count s \<and>
     take (length (clocs s)) (clocs s') = clocs s"

definition walks :: "string \<Rightarrow> 'a recorder \<Rightarrow> 'a \<Rightarrow> item list \<Rightarrow> bool \<Rightarrow> bool" where
  "walks q m r items exact \<longleftrightarrow>
     (\<forall>s. pre q s items \<longrightarrow>
        (\<exists>s'. m s = (Inr r, s') \<and> rec_ok s' \<and> ext s s' items \<and> (exact \<longrightarrow> exactly s s')))"

lemma walksD:
  "walks q m r items exact \<Longrightarrow> pre q s items \<Longrightarrow>
   \<exists>s'. m s = (Inr r, s') \<and> rec_ok s' \<and> ext s s' items \<and> (exact \<longrightarrow> exactly s s')"
  by (simp add: walks_def)

lemma exactly_trans: "exactly s s1 \<Longrightarrow> exactly s1 s2 \<Longrightarrow> exactly s s2"
  by (auto simp: exactly_def) (metis take_take min.absorb2 length_take min.cobounded1 min.commute)

lemma RecordConstLocation_walks: "walks q (RecordConstLocation l) () (if l \<ge> 0 then [Const l] else []) exact"
proof (cases "l \<ge> 0")
  case False
  then show ?thesis by (simp add: walks_def RecordConstLocation_def pre_def ext_refl exactly_def)
next
  case True
  have "\<exists>s'. RecordConstLocation l s = (Inr (), s') \<and> rec_ok s' \<and> ext s s' [Const l] \<and> exactly s s'"
    if "pre q s [Const l]" for s
  proof -
    from that have ok: "rec_ok s" and lim: "clocations_count s < WALK_MAX" "param_refs_count s < WALK_MAX"
      by (auto simp: pre_def)
    from grow_clocations_spec [OF ok lim(1)] obtain locs sz where
      g: "grow_clocations s = (Inr (), s\<lparr>clocations := locs, clocations_buf_size := sz\<rparr>)"
      "filled locs (clocations_count s) (clocs s)" "int (length locs) = sz" "clocations_count s < sz"
      "32 \<le> sz" "sz \<le> max 32 (2 * (clocations_count s))" by blast
    define id where "id = - highest_normalize_param_id s"
    define entry where "entry = \<lparr>location = l, loc_length = -1, param_id = id\<rparr>"
    obtain locs' where st: "store locs (clocations_count s) entry = Inr locs'"
      "filled locs' (clocations_count s + 1) (clocs s @ [entry])" "length locs' = length locs"
      using filled_store [OF g(2), of entry] g by auto
    define s1 where "s1 = s\<lparr>clocations_buf_size := sz, clocations := locs',
        highest_normalize_param_id := highest_normalize_param_id s + 1\<rparr>"
    have high: "c_int (highest_normalize_param_id s + 1) = Inr (highest_normalize_param_id s + 1)"
      using ok lim by (intro c_int_ok) (auto simp: rec_ok_def)
    have mono: "id_ok s v \<Longrightarrow> id_ok s1 v" for v by (rule id_ok_mono) (auto simp: s1_def)
    have "refs_ok s1"
      using ok mono by (auto simp: rec_ok_def refs_ok_def s1_def split: option.splits)
    moreover have id1: "id_ok s1 id" using ok by (auto simp: id_ok_def id_def s1_def rec_ok_def)
    ultimately obtain refs sz' count where
      p: "record_param_ref id s1 = (Inr (), s1\<lparr>param_refs := refs, param_refs_buf_size := sz', param_refs_count := count\<rparr>)"
      "refs_ok (s1\<lparr>param_refs := refs, param_refs_buf_size := sz', param_refs_count := count\<rparr>)"
      "count \<le> param_refs_count s1 + 1" "param_refs s1 = None \<longrightarrow> refs = None"
      by (rule record_param_ref_spec [of s1 id]) (use lim in \<open>auto simp: s1_def\<close>)
    define s2 where "s2 = s1\<lparr>param_refs := refs, param_refs_buf_size := sz', param_refs_count := count,
        clocations_count := clocations_count s + 1\<rparr>"
    have run: "RecordConstLocation l s = (Inr (), s2)"
      using True g(1) st(1) high p(1)
      by (simp add: RecordConstLocation_def bindS_def getS_def tryS_def putS_def Let_def s1_def s2_def
          flip: id_def entry_def)
    have sel: "clocations s2 = locs'" "clocations_count s2 = clocations_count s + 1" "clocations_buf_size s2 = sz"
      "highest_normalize_param_id s2 = highest_normalize_param_id s + 1"
      "highest_extern_param_id s2 = highest_extern_param_id s" "query s2 = query s" "query_len s2 = query_len s"
      "param_refs s2 = refs" "param_refs_count s2 = count" "param_refs s1 = param_refs s"
      "param_refs_count s1 = param_refs_count s"
      by (simp_all add: s2_def s1_def)
    have clocs2: "clocs s2 = clocs s @ [entry]" using st by (intro filled_clocs) (simp add: sel)
    have ids2: "id_ok s2 v = id_ok s1 v" for v by (simp add: s2_def)
    have "list_all (entry_ok s2) (clocs s2)"
      using ok True id1 mono unfolding clocs2
      by (auto simp: rec_ok_def list_all_iff entry_ok_def ids2 entry_def)
    moreover have "refs_ok s2" using p(2) by (simp add: s2_def)
    ultimately have "rec_ok s2"
      using ok g(3-6) st(2,3) by (simp add: rec_ok_def sel clocs2)
    moreover have "ext s s2 [Const l]"
      using p(3,4) by (simp add: ext_def grows_def sel clocs2 entry_def)
    ultimately show ?thesis using run by (simp add: exactly_def sel clocs2)
  qed
  with True show ?thesis by (auto simp: walks_def)
qed

lemma walks_return: "walks q (returnS r) r [] exact"
  by (auto simp: walks_def pre_def ext_refl exactly_def)

lemma walks_bind:
  assumes "walks q m r xs exact" "walks q (f r) r' ys exact"
  shows "walks q (bindS m f) r' (xs @ ys) exact"
proof -
  have "\<exists>s'. bindS m f s = (Inr r', s') \<and> rec_ok s' \<and> ext s s' (xs @ ys) \<and> (exact \<longrightarrow> exactly s s')"
    if p: "pre q s (xs @ ys)" for s
  proof -
    from walksD [OF assms(1) pre_left [OF p]] obtain s1 where
      s1: "m s = (Inr r, s1)" "rec_ok s1" "ext s s1 xs" "exact \<longrightarrow> exactly s s1" by blast
    have "pre q s1 ys" by (rule pre_step [OF p s1(2)]) (use s1(3) in \<open>simp add: ext_def\<close>)
    from walksD [OF assms(2) this] obtain s2 where
      s2: "f r s1 = (Inr r', s2)" "rec_ok s2" "ext s1 s2 ys" "exact \<longrightarrow> exactly s1 s2" by blast
    show ?thesis
      using s1 s2 exactly_trans by (intro exI [of _ s2]) (auto simp: bindS_def intro: ext_trans)
  qed
  then show ?thesis by (simp add: walks_def)
qed

lemma walks_seq:
  "(\<And>x. x \<in> set xs \<Longrightarrow> walks q (f x) False (r x) exact) \<Longrightarrow> walks q (walk_seq f xs) False (concat (map r xs)) exact"
proof (induction xs)
  case Nil
  show ?case unfolding walk_seq.simps list.map concat.simps by (rule walks_return)
next
  case (Cons x xs)
  have "walks q (bindS (f x) (\<lambda>b. if b then returnS True else walk_seq f xs)) False (r x @ concat (map r xs)) exact"
    by (rule walks_bind [where r = False]) (use Cons in auto)
  then show ?case by simp
qed

lemma walks_orelse:
  "walks q m False xs exact \<Longrightarrow> walks q k False ys exact \<Longrightarrow> walks q (orelse m k) False (xs @ ys) exact"
  unfolding orelse_def by (rule walks_bind [where r = False]) auto

lemma walks_try_return:
  assumes "walks q m False xs exact"
  shows "walks q (try_return m) False xs exact"
proof -
  have "\<exists>s'. try_return m s = (Inr False, s') \<and> rec_ok s' \<and> ext s s' xs \<and> (exact \<longrightarrow> exactly s s')"
    if p: "pre q s xs" for s
  proof -
    from p have "pre q (s\<lparr>exn_live := True\<rparr>) xs" by (simp add: pre_def)
    with assms obtain s' where "m (s\<lparr>exn_live := True\<rparr>) = (Inr False, s')" "rec_ok s'" "ext s s' xs"
      "exact \<longrightarrow> exactly (s\<lparr>exn_live := True\<rparr>) s'"
      unfolding walks_def by (metis ext_exn_live(1))
    then show ?thesis by (simp add: try_return_def exactly_def clocs_def)
  qed
  then show ?thesis by (simp add: walks_def)
qed

lemma walks_caught: "walks q (try_return (failS (Elog m))) False [] exact"
  by (auto simp: walks_def try_return_def pre_def ext_refl exactly_def clocs_def)

lemma record_param_walks:
  assumes "0 \<le> fint ''number'' n"
  shows "walks q (record_param n) () [Par (fint ''number'' n)] exact"
proof -
  let ?k = "fint ''number'' n"
  have "\<exists>s'. record_param n s = (Inr (), s') \<and> rec_ok s' \<and> ext s s' [Par ?k] \<and> exactly s s'"
    if "pre q s [Par ?k]" for s
  proof -
    from that have ok: "rec_ok s" and lim: "param_refs_count s < WALK_MAX" by (auto simp: pre_def)
    define s1 where "s1 = s\<lparr>highest_extern_param_id := max ?k (highest_extern_param_id s)\<rparr>"
    have mono: "id_ok s v \<Longrightarrow> id_ok s1 v" for v by (rule id_ok_mono) (auto simp: s1_def)
    have "refs_ok s1" using ok mono by (auto simp: rec_ok_def refs_ok_def s1_def split: option.splits)
    moreover have "id_ok s1 ?k" using assms by (auto simp: id_ok_def s1_def)
    ultimately obtain refs sz count where
      p: "record_param_ref ?k s1 = (Inr (), s1\<lparr>param_refs := refs, param_refs_buf_size := sz, param_refs_count := count\<rparr>)"
      "refs_ok (s1\<lparr>param_refs := refs, param_refs_buf_size := sz, param_refs_count := count\<rparr>)"
      "count \<le> param_refs_count s1 + 1" "param_refs s1 = None \<longrightarrow> refs = None"
      by (rule record_param_ref_spec [of s1 ?k]) (use lim in \<open>auto simp: s1_def\<close>)
    define s2 where "s2 = s1\<lparr>param_refs := refs, param_refs_buf_size := sz, param_refs_count := count\<rparr>"
    have "s\<lparr>highest_extern_param_id := ?k\<rparr> = s1" if "?k > highest_extern_param_id s" using that by (simp add: s1_def)
    moreover have "s1 = s" if "\<not> ?k > highest_extern_param_id s" using that by (simp add: s1_def)
    ultimately have run: "record_param n s = (Inr (), s2)"
      using p(1) by (cases "?k > highest_extern_param_id s") (simp_all add: record_param_def bindS_def getS_def s2_def)
    have sel: "clocations s2 = clocations s" "clocations_count s2 = clocations_count s" "clocations_buf_size s2 = clocations_buf_size s"
      "highest_normalize_param_id s2 = highest_normalize_param_id s"
      "highest_extern_param_id s2 = max ?k (highest_extern_param_id s)" "query s2 = query s" "query_len s2 = query_len s"
      "param_refs s2 = refs" "param_refs_count s2 = count" "param_refs s1 = param_refs s"
      "param_refs_count s1 = param_refs_count s" "clocs s2 = clocs s" "refs_ok s2"
      using p(2) by (simp_all add: s2_def s1_def clocs_def)
    have "list_all (entry_ok s2) (clocs s)"
      using ok by (auto simp: rec_ok_def list_all_iff entry_ok_def sel intro: id_ok_mono [of s])
    then have "rec_ok s2" using ok by (auto simp: rec_ok_def sel)
    moreover have "ext s s2 [Par ?k]"
      using p(3,4) by (simp add: ext_def grows_def sel max_def)
    ultimately show ?thesis using run by (simp add: exactly_def sel)
  qed
  then show ?thesis by (auto simp: walks_def)
qed

lemma find_quote_ok:
  "0 \<le> i \<Longrightarrow> i + int n \<le> int (length q) \<or> n = 0 \<Longrightarrow> \<exists>r. find_quote q i n = Inr r \<and> (\<forall>j. r = Some j \<longrightarrow> 0 \<le> j)"
  by (induction q i n rule: find_quote.induct) auto

lemma record_def_elem_walks:
  assumes "has_tag T_DefElem n" "0 \<le> fint ''location'' n"
  shows "walks q (record_def_elem n) () (own_items q n) exact"
proof (cases "\<exists>str. fnode ''arg'' n = Some (String str)")
  case False
  then have "record_def_elem n = returnS ()" "own_items q n = []"
    using assms(1) by (cases n; auto simp: record_def_elem_def own_items_def split: option.splits node.splits)+
  then show ?thesis by (simp add: walks_return)
next
  case True
  let ?l = "fint ''location'' n"
  obtain r where r: "find_quote q ?l (nat (int (length q) - ?l)) = Inr r" "\<forall>j. r = Some j \<longrightarrow> 0 \<le> j"
    using find_quote_ok [OF assms(2), of "nat (int (length q) - ?l)" q] by (cases "?l \<le> int (length q)") auto
  let ?rest = "case r of Some i \<Rightarrow> RecordConstLocation i | None \<Rightarrow> returnS ()"
  have items: "own_items q n = (case r of Some i \<Rightarrow> [Const i] | None \<Rightarrow> [])"
    using assms(1) True r by (cases n) (auto simp: own_items_def split: option.splits)
  have "walks q ?rest () (own_items q n) exact"
    using items r(2) RecordConstLocation_walks [of q "the r" exact] by (cases r) (auto simp: walks_return)
  moreover have "record_def_elem n s = ?rest s" if "pre q s (own_items q n)" for s
    using that r True by (auto simp: record_def_elem_def bindS_def getS_def tryS_def pre_def rec_ok_def)
  ultimately show ?thesis by (simp add: walks_def)
qed

subsection \<open>The loops of the SELECT case\<close>

definition fpr_ok :: "pgssConstLocations \<Rightarrow> FpAndParamRefs \<Rightarrow> bool" where
  "fpr_ok s r = (case fp_param_refs r of None \<Rightarrow> fp_param_refs_count r = 0
     | Some refs \<Rightarrow> \<exists>vs. filled refs (fp_param_refs_count r) vs \<and> (\<forall>v \<in> set vs. id_ok s v))"

lemma fpr_ok_mono:
  "fpr_ok s r \<Longrightarrow> highest_normalize_param_id s \<le> highest_normalize_param_id s' \<Longrightarrow>
   highest_extern_param_id s \<le> highest_extern_param_id s' \<Longrightarrow> fpr_ok s' r"
  by (auto simp: fpr_ok_def split: option.splits dest: id_ok_mono)

lemma refs_fpr_ok:
  "refs_ok s \<Longrightarrow> fpr_ok s \<lparr>fp = h, fp_param_refs = param_refs s, fp_param_refs_count = param_refs_count s\<rparr>"
  by (auto simp: refs_ok_def fpr_ok_def split: option.splits)

lemma refs_ok_count: "refs_ok s \<Longrightarrow> 0 \<le> param_refs_count s"
  by (auto simp: refs_ok_def filled_def split: option.splits)

lemma switch_refs:
  assumes "rec_ok s" "refs_ok (s\<lparr>param_refs := r, param_refs_buf_size := c, param_refs_count := 0\<rparr>)"
  shows "rec_ok (s\<lparr>param_refs := r, param_refs_buf_size := c, param_refs_count := 0\<rparr>)"
    and "grows s (s\<lparr>param_refs := r, param_refs_buf_size := c, param_refs_count := 0\<rparr>) []"
proof -
  let ?s = "s\<lparr>param_refs := r, param_refs_buf_size := c, param_refs_count := 0\<rparr>"
  have "clocs ?s = clocs s" "entry_ok ?s = entry_ok s"
    by (auto simp: clocs_def entry_ok_def fun_eq_iff)
  with assms show "rec_ok ?s" "grows s ?s []"
    by (auto simp: rec_ok_def grows_def refs_ok_count)
qed

lemma walk_targets_spec:
  assumes "\<And>x. x \<in> set xs \<Longrightarrow> x \<noteq> None \<and> walks q (f x) False (r x) exact"
    and "pre q s (concat (map r xs))" "list_rep l ys" "\<forall>y \<in> set ys. fpr_ok s y"
    and "int (length ys) + int (length xs) \<le> list_limit"
  shows "\<exists>s' l' ys'. walk_targets h f xs l s = (Inr (Some l'), s') \<and> rec_ok s' \<and> grows s s' (concat (map r xs)) \<and>
     list_rep l' ys' \<and> length ys' = length ys + length xs \<and> (\<forall>y \<in> set ys'. fpr_ok s' y) \<and>
     (if xs = [] then s' = s else param_refs s' = None) \<and>
     map fp ys' = map fp ys @ map (\<lambda>x. h (fnode ''val'' (the x))) xs"
  using assms
proof (induction xs arbitrary: s l ys)
  case Nil
  then show ?case by (auto simp: pre_def grows_refl)
next
  case (Cons x xs)
  define s0 where "s0 = s\<lparr>param_refs := Some [Some 0], param_refs_buf_size := 1, param_refs_count := 0\<rparr>"
  have "refs_ok s0" by (auto simp: refs_ok_def s0_def filled_def)
  then have s0: "rec_ok s0" "grows s s0 []"
    using Cons.prems(2) switch_refs [where r = "Some [Some 0]" and c = 1 and s = s] by (auto simp: s0_def pre_def)
  have p0: "pre q s0 (r x @ concat (map r xs))"
    using pre_step [of q s "[]"] Cons.prems(2) s0 by simp
  from Cons.prems(1) [of x] pre_left [OF p0] obtain s1 where
    s1: "f x s0 = (Inr False, s1)" "rec_ok s1" "ext s0 s1 (r x)" by (auto simp: walks_def)
  obtain n where n: "x = Some n" using Cons.prems(1) [of x] by auto
  define e where "e = \<lparr>fp = h (fnode ''val'' n), fp_param_refs = param_refs s1, fp_param_refs_count = param_refs_count s1\<rparr>"
  have "yields list_rep list_limit (lappend l e) (ys @ [e])" using Cons.prems(3) by (rule lappend_yields)
  then obtain l1 where l1: "lappend l e = Inr l1" "list_rep l1 (ys @ [e])"
    using Cons.prems(5) pl.yields_success [of "lappend l e" "ys @ [e]"] by auto
  define s2 where "s2 = s1\<lparr>param_refs := None, param_refs_buf_size := 0, param_refs_count := 0\<rparr>"
  have "refs_ok s2" by (simp add: s2_def refs_ok_def)
  then have s2: "rec_ok s2" "grows s1 s2 []" using s1(2) switch_refs [where r = None and c = 0 and s = s1] by (auto simp: s2_def)
  have g: "grows s s2 (r x)"
    using grows_trans [OF grows_trans [OF s0(2)] s2(2), of "r x"] s1(3) by (simp add: ext_def)
  then have p2: "pre q s2 (concat (map r xs))"
    using Cons.prems(2) s2(1) pre_step [of q s "r x" "concat (map r xs)" s2] by simp
  have "refs_ok s1" using s1(2) by (simp add: rec_ok_def)
  then have "fpr_ok s1 e" unfolding e_def by (rule refs_fpr_ok)
  then have "fpr_ok s2 e" by (rule fpr_ok_mono) (auto simp: s2_def)
  moreover have "fpr_ok s2 y" if "y \<in> set ys" for y
    using fpr_ok_mono [of s y s2] that Cons.prems(4) g by (auto simp: grows_def)
  ultimately have "\<exists>s' l' ys'. walk_targets h f xs l1 s2 = (Inr (Some l'), s') \<and> rec_ok s' \<and> grows s2 s' (concat (map r xs)) \<and>
      list_rep l' ys' \<and> length ys' = length (ys @ [e]) + length xs \<and> (\<forall>y \<in> set ys'. fpr_ok s' y) \<and>
      (if xs = [] then s' = s2 else param_refs s' = None) \<and>
      map fp ys' = map fp (ys @ [e]) @ map (\<lambda>x. h (fnode ''val'' (the x))) xs"
    using Cons.prems(1,5) p2 l1(2) by (intro Cons.IH) auto
  then obtain s' l' ys' where fin: "walk_targets h f xs l1 s2 = (Inr (Some l'), s')" "rec_ok s'" "grows s2 s' (concat (map r xs))"
    "list_rep l' ys'" "length ys' = Suc (length ys) + length xs" "\<forall>y \<in> set ys'. fpr_ok s' y"
    "if xs = [] then s' = s2 else param_refs s' = None"
    "map fp ys' = map fp (ys @ [e]) @ map (\<lambda>x. h (fnode ''val'' (the x))) xs" by auto
  have "walk_targets h f (x # xs) l s = (Inr (Some l'), s')"
    using s1(1) n l1(1) fin(1)
    by (simp add: bindS_def getS_def putS_def tryS_def record_begin_def record_end_def flip: s0_def s2_def e_def)
  moreover have "param_refs s' = None" using fin(7) by (auto simp: s2_def split: if_splits)
  moreover have "fp e = h (fnode ''val'' (the x))" by (simp add: e_def n)
  ultimately show ?case using fin grows_trans [OF g fin(3)] by auto
qed

lemma fp_search_rep:
  assumes "list_rep (Some l) ys" "i + n = length ys"
  shows "\<exists>r. fp_search l h i n = Inr r \<and> (case r of None \<Rightarrow> True | Some (j, x) \<Rightarrow> j < length ys \<and> x = ys ! j)"
  using assms(2)
proof (induction n arbitrary: i)
  case (Suc n)
  then have "list_nth l (int i) = Inr (ys ! i)" using assms(1) by (intro list_nth_rep) auto
  then show ?case using Suc.IH [of "Suc i"] Suc.prems by auto
qed auto

lemma fp_take_rep:
  assumes "list_rep l ys"
  shows "\<exists>x fpl ys'. fp_take (Live l) h = Inr (x, fpl) \<and>
     (case x of None \<Rightarrow> fpl = Live l \<and> ys' = ys | Some y \<Rightarrow> ys \<noteq> [] \<and> y \<in> set ys \<and> length ys' + 1 = length ys) \<and>
     set ys' \<subseteq> set ys \<and> (if ys' = [] \<and> ys \<noteq> [] then fpl = Freed else \<exists>l'. fpl = Live l' \<and> list_rep l' ys')"
proof (cases l)
  case None
  with assms show ?thesis by (auto simp: fp_take_def list_reps)
next
  case (Some l0)
  with assms have len: "nat (llength l0) = length ys" and ne: "ys \<noteq> []" by (auto simp: list_reps list_core_def)
  obtain r where r: "fp_search l0 h 0 (length ys) = Inr r" "case r of None \<Rightarrow> True | Some (j, x) \<Rightarrow> j < length ys \<and> x = ys ! j"
    using fp_search_rep [of l0 ys 0 "length ys" h] assms Some by auto
  show ?thesis
  proof (cases r)
    case None
    with Some r len assms ne show ?thesis by (intro exI [of _ None] exI [of _ "Live l"] exI [of _ ys]) (auto simp: fp_take_def)
  next
    case (Some jx)
    obtain j x where jx: "jx = (j, x)" by (cases jx)
    with r Some have j: "j < length ys" "x = ys ! j" by auto
    obtain l' where l': "list_delete_nth_cell l0 (int j) = Inr l'" "list_rep l' (take j ys @ drop (Suc j) ys)"
      using list_delete_nth_rep [OF _ j(1), of l0] assms \<open>l = Some l0\<close> by auto
    have "fp_take (Live l) h = Inr (Some x, case l' of None \<Rightarrow> Freed | Some _ \<Rightarrow> Live l')"
      using \<open>l = Some l0\<close> len r(1) Some jx l'(1) by (simp add: fp_take_def)
    moreover have "set (take j ys @ drop (Suc j) ys) \<subseteq> set ys" by (auto dest: in_set_takeD in_set_dropD)
    moreover have "(l' = None) = (take j ys @ drop (Suc j) ys = [])"
      using l'(2) by (cases l') (auto simp: list_reps)
    moreover have "length (take j ys @ drop (Suc j) ys) + 1 = length ys" using j by auto
    ultimately show ?thesis using j ne l'(2)
      by (intro exI [of _ "Some x"] exI [of _ "case l' of None \<Rightarrow> Freed | Some _ \<Rightarrow> Live l'"]
            exI [of _ "take j ys @ drop (Suc j) ys"]) (auto split: option.splits)
  qed
qed

lemma fp_take_only:
  assumes "list_rep l [y]" "fp y = h"
  shows "fp_take (Live l) h = Inr (Some y, Freed)"
proof -
  obtain l0 where l: "l = Some l0" using assms(1) by (cases l) (simp_all add: list_reps)
  then have len: "nat (llength l0) = Suc 0" using assms(1) by (simp add: list_reps list_core_def)
  have nth: "list_nth l0 0 = Inr y" using list_nth_rep [of l0 "[y]" 0] assms(1) l by simp
  obtain l' where "list_delete_nth_cell l0 0 = Inr l'" "list_rep l' []"
    using list_delete_nth_rep [of l0 "[y]" 0] assms(1) l by auto
  moreover from this have "l' = None" by (cases l') (simp_all add: list_reps)
  ultimately show ?thesis using l len nth assms(2) by (simp add: fp_take_def)
qed

lemma copy_param_ids_spec:
  assumes "refs = map Some vs @ rest" "locs = map Some (as @ bs) @ rest'" "length bs = n" "i - prev + int n \<le> int (length vs)"
    "i = int (length as)" "0 \<le> prev" "prev \<le> i"
  shows "copy_param_ids refs prev locs i n =
     Inr (map Some (as @ map2 (\<lambda>b v. b\<lparr>param_id := v\<rparr>) bs (drop (nat (i - prev)) vs)) @ rest')"
  using assms
proof (induction n arbitrary: i locs as bs)
  case 0
  then show ?case by simp
next
  case (Suc n)
  then obtain b bs' where bs: "bs = b # bs'" by (cases bs) auto
  define k where "k = nat (i - prev)"
  have k: "k < length vs" "i - prev = int k" using Suc.prems by (auto simp: k_def)
  have "load refs (i - prev) = Inr (vs ! k)"
    unfolding k(2) by (rule load_ok) (use Suc.prems(1) k in \<open>auto simp: nth_append\<close>)
  moreover have "load locs i = Inr b"
    unfolding Suc.prems(5) by (rule load_ok) (use Suc.prems(2) bs in \<open>auto simp: nth_append\<close>)
  moreover have "store locs i (b\<lparr>param_id := vs ! k\<rparr>) = Inr (map Some ((as @ [b\<lparr>param_id := vs ! k\<rparr>]) @ bs') @ rest')"
    using Suc.prems(2,5) bs store_split [of i "map Some as" "Some b" "map Some bs' @ rest'"] by simp
  moreover have "copy_param_ids refs prev (map Some ((as @ [b\<lparr>param_id := vs ! k\<rparr>]) @ bs') @ rest') (i + 1) n =
      Inr (map Some ((as @ [b\<lparr>param_id := vs ! k\<rparr>]) @ map2 (\<lambda>b v. b\<lparr>param_id := v\<rparr>) bs' (drop (nat (i + 1 - prev)) vs)) @ rest')"
    by (rule Suc.IH) (use Suc.prems bs in auto)
  moreover have "drop k vs = vs ! k # drop (nat (i + 1 - prev)) vs"
  proof -
    have "nat (i + 1 - prev) = Suc k" using k by simp
    then show ?thesis using k(1) by (simp add: Cons_nth_drop_Suc)
  qed
  ultimately show ?case by (simp add: bs flip: k_def)
qed

lemma reuse_params_spec:
  assumes ok: "rec_ok s" "rec_ok s1" "ext s s1 items" "exactly s s1" "param_refs s = None" and fpr: "fpr_ok s r"
  shows "\<exists>s2. reuse_params (Some r) (clocations_count s) s1 = (Inr (), s2) \<and> rec_ok s2 \<and> ext s s2 items"
proof (cases "fp_param_refs_count r = clocations_count s1 - clocations_count s")
  case False
  with assms show ?thesis by (auto simp: reuse_params_def bindS_def getS_def)
next
  case True
  define c where "c = clocations_count s1 - clocations_count s"
  obtain bs where bs: "clocs s1 = clocs s @ bs"
    using ok(4) by (metis append_take_drop_id exactly_def)
  have len: "int (length (clocs s)) = clocations_count s" "int (length (clocs s1)) = clocations_count s1"
    using ok(1,2) by (auto simp: rec_ok_def filled_def)
  then have c: "c = int (length bs)" using bs by (auto simp: c_def)
  obtain rest where locs: "clocations s1 = map Some (clocs s @ bs) @ rest"
    using ok(2) bs by (auto simp: rec_ok_def filled_def)
  obtain vs where vs: "length vs = length bs" "\<forall>v \<in> set vs. id_ok s v"
    and run: "(case fp_param_refs r of
                    Some refs \<Rightarrow> copy_param_ids refs (clocations_count s) (clocations s1) (clocations_count s) (nat (clocations_count s1 - clocations_count s))
                  | None \<Rightarrow> if clocations_count s1 - clocations_count s > 0 then Inl NullDeref else Inr (clocations s1)) =
      Inr (map Some (clocs s @ map2 (\<lambda>b v. b\<lparr>param_id := v\<rparr>) bs vs) @ rest)"
  proof (cases "fp_param_refs r")
    case None
    with fpr True c have "bs = []" by (auto simp: fpr_ok_def c_def)
    then show thesis using that [of "[]"] None locs c by (simp add: c_def)
  next
    case (Some refs)
    with fpr obtain vs rest' where v: "refs = map Some vs @ rest'" "int (length vs) = c" "\<forall>v \<in> set vs. id_ok s v"
      using True by (auto simp: fpr_ok_def filled_def c_def)
    have "copy_param_ids refs (clocations_count s) (clocations s1) (clocations_count s) (length bs) =
        Inr (map Some (clocs s @ map2 (\<lambda>b v. b\<lparr>param_id := v\<rparr>) bs (drop (nat (clocations_count s - clocations_count s)) vs)) @ rest)"
      by (rule copy_param_ids_spec [OF v(1) locs]) (use v c len in auto)
    with Some v c show thesis by (intro that [of vs]) (auto simp flip: c_def)
  qed
  define s2 where "s2 = s1\<lparr>clocations := map Some (clocs s @ map2 (\<lambda>b v. b\<lparr>param_id := v\<rparr>) bs vs) @ rest,
      highest_normalize_param_id := highest_normalize_param_id s1 - c\<rparr>"
  have sel: "clocations s2 = map Some (clocs s @ map2 (\<lambda>b v. b\<lparr>param_id := v\<rparr>) bs vs) @ rest"
    "clocations_count s2 = clocations_count s1" "clocations_buf_size s2 = clocations_buf_size s1"
    "highest_normalize_param_id s2 = highest_normalize_param_id s"
    "highest_extern_param_id s2 = highest_extern_param_id s1" "query s2 = query s1" "query_len s2 = query_len s1"
    "param_refs s2 = None" "param_refs_count s2 = param_refs_count s1"
    using ok(3,4,5) by (simp_all add: s2_def exactly_def c_def ext_def)
  have f: "filled (clocations s2) (clocations_count s2) (clocs s @ map2 (\<lambda>b v. b\<lparr>param_id := v\<rparr>) bs vs)"
    using vs(1) len bs by (simp add: filled_def sel)
  then have clocs2: "clocs s2 = clocs s @ map2 (\<lambda>b v. b\<lparr>param_id := v\<rparr>) bs vs" by (rule filled_clocs)
  have mono: "id_ok s v \<Longrightarrow> id_ok s2 v" for v
    using ok(3) by (auto intro: id_ok_mono simp: sel ext_def grows_def)
  have "entry_ok s2 x" if "x \<in> set (clocs s)" for x
    using that ok(1) mono by (auto simp: rec_ok_def list_all_iff entry_ok_def)
  moreover have "entry_ok s2 (b\<lparr>param_id := v\<rparr>)" if "(b, v) \<in> set (zip bs vs)" for b v
    using set_zip_leftD [OF that] set_zip_rightD [OF that] ok(2) vs(2) mono bs
    by (auto simp: rec_ok_def list_all_iff entry_ok_def)
  ultimately have "list_all (entry_ok s2) (clocs s2)" by (auto simp: clocs2 list_all_iff)
  moreover have "refs_ok s2" using ok(2,3,5) by (auto simp: rec_ok_def refs_ok_def sel ext_def)
  ultimately have "rec_ok s2"
    using ok(1,2,3) f locs vs(1) by (auto simp: rec_ok_def clocs2 sel ext_def grows_def)
  moreover have "map location (map2 (\<lambda>b v. b\<lparr>param_id := v\<rparr>) bs vs) = map location bs"
    using vs(1) by (induction bs vs rule: list_induct2') auto
  then have "ext s s2 items" using ok(3) bs by (auto simp: ext_def grows_def clocs2 sel)
  moreover have "reuse_params (Some r) (clocations_count s) s1 = (Inr (), s2)"
    using True run by (simp add: reuse_params_def bindS_def getS_def putS_def tryS_def s2_def c_def)
  ultimately show ?thesis by blast
qed

text \<open>Enough list elements are left for the \<open>k\<close> GROUP BY items to come.\<close>

definition fpl_ok :: "pgssConstLocations \<Rightarrow> fp_list \<Rightarrow> nat \<Rightarrow> bool" where
  "fpl_ok s fpl k \<longleftrightarrow> k = 0 \<or>
     (\<exists>l ys. fpl = Live l \<and> list_rep l ys \<and> (\<forall>y \<in> set ys. fpr_ok s y) \<and>
        (ys = [] \<or> (k \<le> length ys \<and> param_refs s = None)))"

lemma fpl_okI:
  "list_rep l ys \<Longrightarrow> (\<And>y. y \<in> set ys \<Longrightarrow> fpr_ok s y) \<Longrightarrow> ys = [] \<or> (k \<le> length ys \<and> param_refs s = None) \<Longrightarrow>
   fpl_ok s (Live l) k"
  by (auto simp: fpl_ok_def)

lemma fpl_ok_mono:
  assumes "fpl_ok s fpl k" "ext s s' items" "j \<le> k"
  shows "fpl_ok s' fpl j"
proof (cases "k = 0")
  case True
  with assms(3) show ?thesis by (simp add: fpl_ok_def)
next
  case False
  with assms(1) obtain l ys where l: "fpl = Live l" "list_rep l ys" "\<forall>y \<in> set ys. fpr_ok s y"
    "ys = [] \<or> (k \<le> length ys \<and> param_refs s = None)" by (auto simp: fpl_ok_def)
  show ?thesis unfolding l(1)
    by (rule fpl_okI [OF l(2)]) (use l assms fpr_ok_mono [of s _ s'] in \<open>auto simp: ext_def grows_def\<close>)
qed

lemma group_step:
  assumes f: "walks q (f x) False (r x) True" and p: "pre q s (r x)" and l: "fpl_ok s fpl (Suc k)"
  shows "\<exists>fppr fpl' s1 s2. fp_take fpl h = Inr (fppr, fpl') \<and> f x s = (Inr False, s1) \<and>
     reuse_params fppr (clocations_count s) s1 = (Inr (), s2) \<and> rec_ok s2 \<and> ext s s2 (r x) \<and> fpl_ok s2 fpl' k"
proof -
  from walksD [OF f p] obtain s1 where s1: "f x s = (Inr False, s1)" "rec_ok s1" "ext s s1 (r x)" "exactly s s1" by blast
  from l obtain l0 ys where live: "fpl = Live l0" "list_rep l0 ys" "\<forall>y \<in> set ys. fpr_ok s y"
    "ys = [] \<or> (Suc k \<le> length ys \<and> param_refs s = None)" by (auto simp: fpl_ok_def)
  from fp_take_rep [OF live(2), of h] obtain fppr fpl' ys' where
    t: "fp_take fpl h = Inr (fppr, fpl')"
    "case fppr of None \<Rightarrow> fpl' = Live l0 \<and> ys' = ys | Some y \<Rightarrow> ys \<noteq> [] \<and> y \<in> set ys \<and> length ys' + 1 = length ys"
    "set ys' \<subseteq> set ys" "if ys' = [] \<and> ys \<noteq> [] then fpl' = Freed else \<exists>l'. fpl' = Live l' \<and> list_rep l' ys'"
    unfolding live(1) by blast
  show ?thesis
  proof (cases fppr)
    case None
    then have "fpl_ok s fpl' (Suc k)" using t(2) l live(1) by simp
    then have "fpl_ok s1 fpl' k" using s1(3) by (rule fpl_ok_mono) simp
    moreover have "reuse_params None (clocations_count s) s1 = (Inr (), s1)"
      by (simp add: reuse_params_def bindS_def getS_def)
    ultimately show ?thesis using t(1) s1 None by blast
  next
    case (Some y)
    with t(2) live have y: "ys \<noteq> []" "fpr_ok s y" "length ys' + 1 = length ys" "Suc k \<le> length ys" "param_refs s = None"
      by auto
    from p have "rec_ok s" by (simp add: pre_def)
    from reuse_params_spec [OF this s1(2-4) y(5,2)] obtain s2 where
      s2: "reuse_params (Some y) (clocations_count s) s1 = (Inr (), s2)" "rec_ok s2" "ext s s2 (r x)" by blast
    have "fpr_ok s2 z" if "z \<in> set ys'" for z
      using fpr_ok_mono [of s z s2] that t(3) live(3) s2(3) by (auto simp: ext_def grows_def)
    moreover have "param_refs s2 = None" using s2(3) y(5) by (simp add: ext_def)
    ultimately have "fpl_ok s2 fpl' k"
      using t(4) y by (cases "ys' = []") (auto simp: fpl_ok_def [of _ Freed] intro!: fpl_okI [of _ ys'])
    then show ?thesis using t(1) s1(1) s2 Some by blast
  qed
qed

lemma walk_groups_spec:
  assumes "\<And>x. x \<in> set xs \<Longrightarrow> x \<noteq> None \<and> (\<not> group_const x \<longrightarrow> walks q (f x) False (r x) True)"
    and "pre q s (concat (map r (filter (\<lambda>x. \<not> group_const x) xs)))" "fpl_ok s fpl (length xs)"
  shows "\<exists>s'. walk_groups h f xs fpl s = (Inr False, s') \<and> rec_ok s' \<and>
     ext s s' (concat (map r (filter (\<lambda>x. \<not> group_const x) xs)))"
  using assms
proof (induction xs arbitrary: s fpl)
  case Nil
  then show ?case by (auto simp: pre_def ext_refl)
next
  case (Cons x xs)
  obtain n where n: "x = Some n" using Cons.prems(1) [of x] by auto
  let ?rest = "concat (map r (filter (\<lambda>x. \<not> group_const x) xs))"
  show ?case
  proof (cases "is_int_const n")
    case True
    have "fpl_ok s fpl (length xs)" using Cons.prems(3) ext_refl by (rule fpl_ok_mono) simp
    with Cons True n show ?thesis by (auto simp: group_const_def)
  next
    case False
    then have p: "pre q s (r x @ ?rest)" using Cons.prems(2) n by (simp add: group_const_def)
    have "walks q (f x) False (r x) True" using Cons.prems(1) [of x] n False by (simp add: group_const_def)
    moreover have "fpl_ok s fpl (Suc (length xs))" using Cons.prems(3) by simp
    ultimately obtain fppr fpl' s1 s2 where st: "fp_take fpl (h x) = Inr (fppr, fpl')" "f x s = (Inr False, s1)"
      "reuse_params fppr (clocations_count s) s1 = (Inr (), s2)" "rec_ok s2" "ext s s2 (r x)" "fpl_ok s2 fpl' (length xs)"
      using group_step [of q f x r s fpl "length xs" "h x"] pre_left [OF p] by blast
    have "pre q s2 ?rest" by (rule pre_step [OF p st(4)]) (use st(5) in \<open>simp add: ext_def\<close>)
    then obtain s' where "walk_groups h f xs fpl' s2 = (Inr False, s')" "rec_ok s'" "ext s2 s' ?rest"
      using Cons.IH [of s2 fpl'] Cons.prems(1) st(6) by auto
    moreover from this st have "walk_groups h f (x # xs) fpl s = (Inr False, s')"
      using n False by (simp add: bindS_def getS_def tryS_def)
    ultimately show ?thesis using ext_trans [OF st(5)] n False by (auto simp: group_const_def)
  qed
qed

lemma walk_sorts_walks:
  assumes "\<And>x. x \<in> set xs \<Longrightarrow> x \<noteq> None \<and> (\<not> sort_key_const x \<longrightarrow> walks q (f x) False (r x) exact)"
    and "\<And>n. Some n \<in> set xs \<Longrightarrow> has_tag T_SortBy n \<Longrightarrow> fnode ''node'' n \<noteq> None"
  shows "walks q (walk_sorts f xs) False (concat (map r (filter (\<lambda>x. \<not> sort_key_const x) xs))) exact"
  using assms
proof (induction xs)
  case Nil
  show ?case unfolding walk_sorts.simps filter.simps list.map concat.simps by (rule walks_return)
next
  case (Cons x xs)
  obtain n where n: "x = Some n" using Cons.prems(1) [of x] by auto
  let ?rest = "concat (map r (filter (\<lambda>x. \<not> sort_key_const x) xs))"
  have IH: "walks q (walk_sorts f xs) False ?rest exact"
    by (rule Cons.IH) (use Cons.prems in auto)
  have nn: "\<not> (has_tag T_SortBy n \<and> fnode ''node'' n = None)" using Cons.prems(2) [of n] n by auto
  show ?case
  proof (cases "sort_key_const x")
    case True
    then have "walk_sorts f (x # xs) = walk_sorts f xs" using n nn by (auto simp: sort_key_const_def)
    with True IH show ?thesis by simp
  next
    case False
    then have "walk_sorts f (x # xs) = bindS (f x) (\<lambda>b. if b then returnS True else walk_sorts f xs)"
      using n nn by (auto simp: sort_key_const_def)
    moreover have "walks q \<dots> False (r x @ ?rest) exact"
      by (rule walks_bind [where r = False]) (use Cons.prems(1) IH False in auto)
    ultimately show ?thesis using False by simp
  qed
qed

subsection \<open>The whole walk\<close>

lemma targets_groups_walks:
  assumes ts: "\<And>x. x \<in> set ts \<Longrightarrow> x \<noteq> None \<and> walks q (f x) False (r x) False" "int (length ts) \<le> WALK_MAX"
    and gs: "\<And>x. x \<in> set gs \<Longrightarrow> x \<noteq> None \<and> (\<not> group_const x \<longrightarrow> walks q (f x) False (r x) True)"
      "ts = [] \<or> length gs \<le> length ts"
    and w: "walks q w False ws False" and k: "walks q k False ks False"
  shows "walks q (bindS (walk_targets h f ts None) (\<lambda>r. case r of None \<Rightarrow> returnS True
      | Some l \<Rightarrow> orelse w (orelse (walk_groups h f gs (Live l)) k))) False
      (concat (map r ts) @ ws @ concat (map r (filter (\<lambda>x. \<not> group_const x) gs)) @ ks) False"
    (is "walks q ?m False (?T @ ws @ ?G @ ks) False")
proof -
  have "\<exists>s'. ?m s = (Inr False, s') \<and> rec_ok s' \<and> ext s s' (?T @ ws @ ?G @ ks)" if p: "pre q s (?T @ ws @ ?G @ ks)" for s
  proof -
    have "list_rep None []" by (simp add: list_reps)
    from walk_targets_spec [OF ts(1) pre_left [OF p] this, of h] ts(2)
    obtain s1 l1 ys where s1: "walk_targets h f ts None s = (Inr (Some l1), s1)" "rec_ok s1" "grows s s1 ?T"
      "list_rep l1 ys" "length ys = length ts" "\<forall>y \<in> set ys. fpr_ok s1 y" "if ts = [] then s1 = s else param_refs s1 = None"
      by auto
    have e1: "ext s s1 ?T" using s1(3,7) by (auto simp: ext_def split: if_splits)
    have p1: "pre q s1 (ws @ ?G @ ks)" by (rule pre_step [OF p s1(2,3)])
    from walksD [OF w pre_left [OF p1]] obtain s2 where s2: "w s1 = (Inr False, s2)" "rec_ok s2" "ext s1 s2 ws"
      by blast
    have p2: "pre q s2 (?G @ ks)"
      by (rule pre_step [OF p1 s2(2)]) (use s2(3) in \<open>simp add: ext_def\<close>)
    have "fpl_ok s1 (Live l1) (length gs)"
      by (rule fpl_okI [OF s1(4)]) (use s1(5-7) gs(2) in \<open>auto split: if_splits\<close>)
    then have "fpl_ok s2 (Live l1) (length gs)" using s2(3) by (rule fpl_ok_mono) simp
    from walk_groups_spec [OF gs(1) pre_left [OF p2] this] obtain s3 where
      s3: "walk_groups h f gs (Live l1) s2 = (Inr False, s3)" "rec_ok s3" "ext s2 s3 ?G" by blast
    have "pre q s3 ks"
      by (rule pre_step [OF p2 s3(2)]) (use s3(3) in \<open>simp add: ext_def\<close>)
    from walksD [OF k this] obtain s4 where s4: "k s3 = (Inr False, s4)" "rec_ok s4" "ext s3 s4 ks" by blast
    have "?m s = (Inr False, s4)"
      using s1(1) s2(1) s3(1) s4(1) by (simp add: orelse_def bindS_def)
    then show ?thesis
      using s4(2) ext_trans [OF e1 ext_trans [OF s2(3) ext_trans [OF s3(3) s4(3)]]] by blast
  qed
  then show ?thesis by (simp add: walks_def)
qed

lemma select_walks:
  assumes ok: "node_ok n" "has_tag T_SelectStmt n"
    and f: "\<And>x. x \<in> set (select_visits n) \<Longrightarrow> walks q (f x) False (r x) (simple x)"
  shows "walks q (walk_select h f n) False (concat (map r (select_visits n))) False"
proof -
  have f': "walks q (f x) False (r x) False" if "x \<in> set (select_visits n)" for x
    using f [OF that] by (auto simp: walks_def)
  have fields: "walks q (walk_seq f xs) False (concat (map r xs)) False" if "set xs \<subseteq> set (select_visits n)" for xs
    using that f' by (intro walks_seq) auto
  have targets: "x \<noteq> None \<and> walks q (f x) False (r x) False" if "x \<in> set (flist ''targetList'' n)" for x
    by (cases x; use that ok f' [of x] in \<open>simp add: node_ok_def select_visits_def\<close>)
  have groups: "x \<noteq> None \<and> (\<not> group_const x \<longrightarrow> walks q (f x) False (r x) True)" if "x \<in> set (flist ''groupClause'' n)" for x
    by (cases x; use that ok f [of x] in \<open>simp add: node_ok_def select_visits_def list_all_iff\<close>)
  have sorts: "x \<noteq> None \<and> (\<not> sort_key_const x \<longrightarrow> walks q (f x) False (r x) False)" if "x \<in> set (flist ''sortClause'' n)" for x
    by (cases x; use that ok f' [of x] in \<open>force simp: node_ok_def select_visits_def list_all_iff\<close>)
  have sortby: "fnode ''node'' m \<noteq> None" if "Some m \<in> set (flist ''sortClause'' n)" "has_tag T_SortBy m" for m
    using that ok by (force simp: node_ok_def list_all_iff)
  have size: "int (length (flist ''targetList'' n)) \<le> WALK_MAX"
    "flist ''targetList'' n = [] \<or> length (flist ''groupClause'' n) \<le> length (flist ''targetList'' n)"
    using ok by (auto simp: node_ok_def)
  have "walks q (walk_select h f n) False
    (concat (map r [fnode ''distinctClause'' n, fnode ''intoClause'' n]) @ concat (map r (flist ''targetList'' n)) @
     concat (map r [fnode ''fromClause'' n, fnode ''whereClause'' n]) @
     concat (map r (filter (\<lambda>x. \<not> group_const x) (flist ''groupClause'' n))) @
     concat (map r (filter (\<lambda>x. \<not> sort_key_const x) (flist ''sortClause'' n))) @
     concat (map r [fnode ''havingClause'' n, fnode ''windowClause'' n, fnode ''valuesLists'' n,
      fnode ''limitOffset'' n, fnode ''limitCount'' n, fnode ''lockingClause'' n,
      fnode ''withClause'' n, fnode ''larg'' n, fnode ''rarg'' n])) False"
    unfolding walk_select_def
    by (intro walks_orelse targets_groups_walks fields walk_sorts_walks targets size groups sorts sortby)
      (auto simp: select_visits_def)
  then show ?thesis by (simp add: select_visits_def)
qed

lemma raw_walks:
  assumes "node_ok n" and "\<And>x xs. raw_subnodes n = Inr xs \<Longrightarrow> x \<in> set xs \<Longrightarrow> walks q (f x) False (r x) exact"
  shows "walks q (try_return (raw_expression_tree_walker (Some n) f)) False
     (concat (map r (case raw_subnodes n of Inr xs \<Rightarrow> xs | Inl _ \<Rightarrow> []))) exact"
proof (cases "raw_subnodes n")
  case (Inr xs)
  then have "raw_expression_tree_walker (Some n) f = walk_seq f xs"
    by (simp add: raw_expression_tree_walker_def)
  with Inr show ?thesis
    using walks_try_return [OF walks_seq [of xs q f r exact]] assms(2) by simp
next
  case (Inl e)
  have "None \<notin> set ws \<Longrightarrow> \<exists>ys. when_parts ws = Inr ys" for ws
    by (induction ws rule: when_parts.induct) auto
  then have "\<exists>m. e = Elog m"
    using Inl assms(1) by (cases n) (fastforce simp: node_ok_def Let_def split: if_splits option.splits)+
  then obtain m where "raw_expression_tree_walker (Some n) f = failS (Elog m)"
    using Inl by (auto simp: raw_expression_tree_walker_def)
  then show ?thesis using walks_caught Inl by simp
qed

lemma walks_weaken: "walks q m r items True \<Longrightarrow> walks q m r items exact"
  by (auto simp: walks_def)

theorem const_record_walker_walks:
  "tree_ok x \<Longrightarrow> walks q (const_record_walker h x) False (recorded q x) (simple x)"
proof (induction "case x of None \<Rightarrow> 0 | Some n \<Rightarrow> Suc (size n)" arbitrary: x rule: less_induct)
  case less
  show ?case
  proof (cases x)
    case None
    then show ?thesis using walks_return by (simp del: sm_simps)
  next
    case (Some n)
    have ok: "node_ok n" using less.prems Some by (simp add: tree_ok_def everywhere_here)
    have IH0: "walks q (const_record_walker h y) False (recorded q y) (simple y)" if "y \<in> set (visits n)" for y
      by (rule less.hyps) (use that Some less.prems tree_ok_visits in \<open>auto split: option.splits dest: visits_size\<close>)
    have IH: "walks q (const_record_walker h y) False (recorded q y) (simple x)" if "y \<in> set (visits n)" for y
      using IH0 [OF that] simple_visits [OF _ that] Some by (cases "simple x") (auto simp: walks_def)
    consider (const) "has_tag T_A_Const n" | (param) "has_tag T_ParamRef n" | (def_elem) "has_tag T_DefElem n"
      | (type_name) "has_tag T_TypeName n" | (select) "has_tag T_SelectStmt n"
      | (other) "\<not> (has_tag T_A_Const n \<or> has_tag T_ParamRef n \<or> has_tag T_DefElem n \<or> has_tag T_TypeName n \<or> has_tag T_SelectStmt n)"
      by blast
    then show ?thesis
    proof cases
      case const
      then have e: "recorded q x = (if fint ''location'' n \<ge> 0 then [Const (fint ''location'' n)] else []) @ []"
        using Some by (simp add: own_items_def visits_def)
      have "const_record_walker h x = bindS (RecordConstLocation (fint ''location'' n)) (\<lambda>_. returnS False)"
        using Some const by simp
      then show ?thesis unfolding e
        by (simp only:) (rule walks_bind [where r = "()"], rule RecordConstLocation_walks, rule walks_return)
    next
      case param
      then have e: "recorded q x = [Par (fint ''number'' n)] @ []" and k: "0 \<le> fint ''number'' n"
        using Some ok by (cases n; simp add: own_items_def visits_def node_ok_def)+
      have "const_record_walker h x = bindS (record_param n) (\<lambda>_. returnS False)"
        using Some param by (cases n) simp_all
      then show ?thesis unfolding e
        by (simp only:) (rule walks_bind [where r = "()"], rule record_param_walks [OF k], rule walks_return)
    next
      case def_elem
      then have e: "recorded q x = own_items q n @ recorded q (fnode ''arg'' n)" and k: "0 \<le> fint ''location'' n"
        using Some ok by (cases n; simp add: visits_def node_ok_def)+
      have v: "fnode ''arg'' n \<in> set (visits n)" using def_elem by (cases n) (simp_all add: visits_def)
      have "const_record_walker h x = bindS (record_def_elem n) (\<lambda>_. const_record_walker h (fnode ''arg'' n))"
        using Some def_elem by (cases n) simp_all
      then show ?thesis unfolding e
        by (simp only:) (rule walks_bind [where r = "()"], rule record_def_elem_walks [OF def_elem k], rule IH [OF v])
    next
      case type_name
      then have "recorded q x = []" "const_record_walker h x = returnS False"
        using Some by (cases n; simp add: own_items_def visits_def)+
      then show ?thesis by (simp only: walks_return)
    next
      case select
      then have v: "visits n = select_visits n" "own_items q n = []" "\<not> simple x"
        "const_record_walker h x = walk_select h (const_record_walker h) n"
        using Some by (cases n; auto simp: visits_def own_items_def simple_def no_select_def dest: everywhere_here)+
      show ?thesis
        using select_walks [OF ok select, of q "const_record_walker h" "recorded q" h] IH0 v Some by simp
    next
      case other
      show ?thesis
      proof (cases "single_field n")
        case None
        with other have "recorded q x = concat (map (recorded q) (case raw_subnodes n of Inr xs \<Rightarrow> xs | Inl _ \<Rightarrow> []))"
          "visits n = (case raw_subnodes n of Inr xs \<Rightarrow> xs | Inl _ \<Rightarrow> [])"
          "const_record_walker h x = try_return (raw_expression_tree_walker (Some n) (const_record_walker h))"
          using Some by (simp_all add: own_items_def visits_def)
        with raw_walks [OF ok, of q "const_record_walker h" "recorded q"] IH show ?thesis by simp
      next
        case (Some f)
        with other have "recorded q x = recorded q (fnode f n)" "const_record_walker h x = const_record_walker h (fnode f n)"
          "fnode f n \<in> set (visits n)"
          using \<open>x = Some n\<close> by (simp_all add: own_items_def visits_def)
        with IH show ?thesis by simp
      qed
    qed
  qed
qed

declare const_record_walker.simps [simp del] recorded.simps [simp del]

section \<open>Properties\<close>

lemma init_rec_ok: "rec_ok (init_jstate q)" "query (init_jstate q) = q" "clocations_count (init_jstate q) = 0"
  "param_refs_count (init_jstate q) = 0" "clocs (init_jstate q) = []" "highest_extern_param_id (init_jstate q) = 0"
  by (simp_all add: rec_ok_def init_jstate_def filled_def clocs_def refs_ok_def)

lemma init_pre: "int (length items) \<le> WALK_MAX \<Longrightarrow> pre q (init_jstate q) items"
  by (simp add: pre_def init_rec_ok)

text \<open>\<^verbatim>\<open>SELECT 'a', $2 + 5 FROM ... GROUP BY 'a' ORDER BY 1\<close>, reduced to what the walk reads.\<close>

definition demo_const :: "int \<Rightarrow> node" where
  "demo_const l = Struct T_A_Const [(''val'', FNode (String ''a'')), (''location'', FInt l)]"

definition demo_select :: node where
  "demo_select = NList [Some (Struct T_RawStmt [(''stmt'', FNode (Struct T_SelectStmt
     [(''targetList'', FNode (NList [
         Some (Struct T_ResTarget [(''val'', FNode (demo_const 7))]),
         Some (Struct T_ResTarget [(''val'', FNode (Struct T_A_Expr
           [(''lexpr'', FNode (Struct T_ParamRef [(''number'', FInt 2)])), (''rexpr'', FNode (demo_const 17))]))])])),
      (''groupClause'', FNode (NList [Some (demo_const 35)])),
      (''sortClause'', FNode (NList [Some (Struct T_SortBy [(''node'', FNode
         (Struct T_A_Const [(''val'', FNode (Integer 1)), (''location'', FInt 48)]))])]))]))])]"

definition demo_query :: string where
  "demo_query = ''SELECT 'a', $2 + 5 FROM t GROUP BY 'a' ORDER BY 1''"

text \<open>
  C5: The constant recorder visits exactly what the specification lists. On every tree of
  the shape the grammar gives and of bounded size, whatever the fingerprints are, the walk
  ends with false and without an error, its growing arrays never overrun, and the recorded
  locations are those of the specification in the order of the walk. Every entry is ready
  for the length computation (length -1), and its parameter number is either a new negative
  one or that of an external parameter that has been seen. The highest external parameter is
  the maximum of those met.
\<close>

theorem const_record_walker_correct:
  assumes "tree_ok (Some tree)" and "int (length (recorded input (Some tree))) \<le> WALK_MAX"
  shows "\<exists>s. const_record_walker fingerprint (Some tree) (init_jstate input) = (Inr False, s) \<and>
     map location (clocs s) = const_locs (recorded input (Some tree)) \<and>
     clocations_count s = int (length (clocs s)) \<and>
     (\<forall>x \<in> set (clocs s). 0 \<le> location x \<and> loc_length x = -1 \<and>
        (- clocations_count s \<le> param_id x \<and> param_id x < 0 \<or>
         0 \<le> param_id x \<and> param_id x \<le> highest_extern_param_id s)) \<and>
     (\<forall>k. Par k \<in> set (recorded input (Some tree)) \<longrightarrow> k \<le> highest_extern_param_id s) \<and>
     (highest_extern_param_id s = 0 \<or> Par (highest_extern_param_id s) \<in> set (recorded input (Some tree)))"
proof -
  from walksD [OF const_record_walker_walks [OF assms(1)] init_pre [OF assms(2)]] obtain s where
    s: "const_record_walker fingerprint (Some tree) (init_jstate input) = (Inr False, s)" "rec_ok s"
    "ext (init_jstate input) s (recorded input (Some tree))" by blast
  have "0 \<le> location x \<and> loc_length x = -1 \<and> (- clocations_count s \<le> param_id x \<and> param_id x < 0 \<or>
      0 \<le> param_id x \<and> param_id x \<le> highest_extern_param_id s)" if "x \<in> set (clocs s)" for x
    using that s(2) by (auto simp: rec_ok_def list_all_iff entry_ok_def id_ok_def)
  moreover have "clocations_count s = int (length (clocs s))" using s(2) by (simp add: rec_ok_def filled_def)
  ultimately show ?thesis using s(1,3) by (auto simp: ext_def grows_def init_rec_ok)
qed

lemma demo_select_ok: "tree_ok (Some demo_select)" "recorded demo_query (Some demo_select) = [Const 7, Par 2, Const 17, Const 35]"
  by code_simp+

theorem const_record_walker_correct_witness:
  "\<exists>s. const_record_walker (\<lambda>_. 0) (Some demo_select) (init_jstate demo_query) = (Inr False, s) \<and>
     map location (clocs s) = [7, 17, 35] \<and> 2 \<le> highest_extern_param_id s"
  using const_record_walker_correct [of demo_select demo_query "\<lambda>_. 0"] by (auto simp: demo_select_ok)

lemma list_walk_dead:
  assumes "tree_ok (Some (NList stmts))" and "int (length (recorded input (Some (NList stmts)))) \<le> WALK_MAX"
  shows "\<exists>s. const_record_walker fingerprint (Some (NList stmts)) (init_jstate input) = (Inr False, s) \<and> \<not> exn_live s"
proof -
  let ?s = "(init_jstate input)\<lparr>exn_live := True\<rparr>"
  have v: "visits (NList stmts) = stmts" by (simp add: visits_def single_field_def)
  have r: "recorded input (Some (NList stmts)) = concat (map (recorded input) stmts)"
    by (simp add: recorded.simps own_items_def v)
  have "walks input (walk_seq (const_record_walker fingerprint) stmts) False (concat (map (recorded input) stmts)) False"
  proof (rule walks_seq)
    fix x assume "x \<in> set stmts"
    then have "walks input (const_record_walker fingerprint x) False (recorded input x) (simple x)"
      using tree_ok_visits [OF assms(1)] by (intro const_record_walker_walks) (simp add: v)
    then show "walks input (const_record_walker fingerprint x) False (recorded input x) False"
      by (auto simp: walks_def)
  qed
  moreover have "pre input ?s (concat (map (recorded input) stmts))"
    using init_pre [OF assms(2)] by (simp add: r pre_def init_rec_ok)
  ultimately obtain s where "walk_seq (const_record_walker fingerprint) stmts ?s = (Inr False, s)"
    by (blast dest: walksD)
  moreover have "const_record_walker fingerprint (Some (NList stmts)) =
      try_return (walk_seq (const_record_walker fingerprint) stmts)"
    by (simp add: const_record_walker.simps single_field_def raw_expression_tree_walker_def)
  ultimately show ?thesis
    by (simp add: try_return_def)
qed

text \<open>
  C39: After a successful walk of a list of statements PG_exception_stack is left
  pointing to the frame of a call that has returned, because the default case returns from
  inside PG_TRY. An error raised afterwards, in the same PG_TRY of pg_query_normalize, jumps
  to that dead frame instead of the handler. The list has a statement, as every list in C has an element.
\<close>

theorem walker_leaves_dead_handler:
  assumes "stmts \<noteq> []" and "tree_ok (Some (NList stmts))" and "int (length (recorded input (Some (NList stmts)))) \<le> WALK_MAX"
  shows "\<exists>s. const_record_walker fingerprint (Some (NList stmts)) (init_jstate input) = (Inr False, s) \<and>
     \<not> exn_live s \<and> tryS (Inl (Elog m)) s = (Inl DeadFrame :: unit res, s)"
  using list_walk_dead [OF assms(2,3), of fingerprint] by (auto simp: tryS_def raiseS_def bindS_def getS_def)

theorem walker_leaves_dead_handler_witness:
  "\<exists>s. const_record_walker (\<lambda>_. 0) (Some demo_select) (init_jstate demo_query) = (Inr False, s) \<and>
     \<not> exn_live s \<and> tryS (Inl (Elog ''at end'')) s = (Inl DeadFrame :: unit res, s)"
proof -
  obtain stmts where l: "demo_select = NList stmts" "stmts \<noteq> []" by (simp add: demo_select_def)
  show ?thesis
    using walker_leaves_dead_handler [OF l(2), of demo_query "\<lambda>_. 0" "''at end''"] demo_select_ok unfolding l(1) by simp
qed

text \<open>
  C38: The list of target fingerprints is used after it has been released. In a SELECT with one target,
  whatever its other clauses are (of the usual shape and size), a first GROUP BY item that matches the
  target and has no subquery in it deletes the only element of the list; \<^verbatim>\<open>foreach_delete_current\<close> then releases
  the list, its result is not stored, and the next GROUP BY item that is no integer constant, matching or not,
  makes the loop read the released list.
\<close>

theorem group_by_use_after_free:
  assumes "has_tag T_SelectStmt n" "flist ''targetList'' n = [Some t]" "flist ''groupClause'' n = Some g1 # Some g2 # gs"
    and "fingerprint (Some g1) = fingerprint (fnode ''val'' t)" "\<not> is_int_const g1" "\<not> is_int_const g2" "simple (Some g1)"
  defines "parts \<equiv> [fnode ''distinctClause'' n, fnode ''intoClause'' n, Some t, fnode ''fromClause'' n, fnode ''whereClause'' n, Some g1]"
  assumes "\<forall>x \<in> set parts. tree_ok x" "int (length (concat (map (recorded input) parts))) \<le> WALK_MAX"
  shows "fst (const_record_walker fingerprint (Some n) (init_jstate input)) = Inl UseAfterFree"
proof -
  let ?f = "const_record_walker fingerprint" and ?r = "recorded input"
  have w: "walks input (?f x) False (?r x) False" if "x \<in> set parts" for x
    using const_record_walker_walks [of x input fingerprint] assms(9) that by (auto simp: walks_def)
  define A where "A = concat (map ?r [fnode ''distinctClause'' n, fnode ''intoClause'' n])"
  define C where "C = concat (map ?r [fnode ''fromClause'' n, fnode ''whereClause'' n])"
  have p: "pre input (init_jstate input) (A @ ?r (Some t) @ C @ ?r (Some g1))"
    by (rule init_pre) (use assms(10) in \<open>simp add: parts_def A_def C_def\<close>)
  have "walks input (walk_seq ?f [fnode ''distinctClause'' n, fnode ''intoClause'' n]) False A False" unfolding A_def
    by (rule walks_seq) (use w in \<open>auto simp: parts_def\<close>)
  from walksD [OF this pre_left [OF p]] obtain s0 where
    s0: "walk_seq ?f [fnode ''distinctClause'' n, fnode ''intoClause'' n] (init_jstate input) = (Inr False, s0)" "rec_ok s0" "ext (init_jstate input) s0 A" by blast
  have p0: "pre input s0 (?r (Some t) @ C @ ?r (Some g1))" by (rule pre_step [OF p s0(2)]) (use s0(3) in \<open>simp add: ext_def\<close>)
  have "\<exists>s' l' ys'. walk_targets fingerprint ?f [Some t] None s0 = (Inr (Some l'), s') \<and> rec_ok s' \<and> grows s0 s' (concat (map ?r [Some t])) \<and>
     list_rep l' ys' \<and> length ys' = length ([] :: FpAndParamRefs list) + length [Some t] \<and> (\<forall>y \<in> set ys'. fpr_ok s' y) \<and>
     (if [Some t] = [] then s' = s0 else param_refs s' = None) \<and>
     map fp ys' = map fp ([] :: FpAndParamRefs list) @ map (\<lambda>x. fingerprint (fnode ''val'' (the x))) [Some t]"
    by (rule walk_targets_spec [where exact = False]) (use w pre_left [OF p0] in \<open>simp_all add: parts_def list_reps\<close>)
  then obtain s1 l y where s1: "walk_targets fingerprint ?f [Some t] None s0 = (Inr (Some l), s1)" "rec_ok s1" "grows s0 s1 (?r (Some t))"
    "list_rep l [y]" "fpr_ok s1 y" "param_refs s1 = None" "fp y = fingerprint (fnode ''val'' t)"
    by (auto simp: length_Suc_conv)
  have p1: "pre input s1 (C @ ?r (Some g1))" by (rule pre_step [OF p0 s1(2,3)])
  have "walks input (walk_seq ?f [fnode ''fromClause'' n, fnode ''whereClause'' n]) False C False" unfolding C_def
    by (rule walks_seq) (use w in \<open>auto simp: parts_def\<close>)
  from walksD [OF this pre_left [OF p1]] obtain s2 where
    s2: "walk_seq ?f [fnode ''fromClause'' n, fnode ''whereClause'' n] s1 = (Inr False, s2)" "rec_ok s2" "ext s1 s2 C" by blast
  have p2: "pre input s2 (?r (Some g1))" by (rule pre_step [OF p1 s2(2)]) (use s2(3) in \<open>simp add: ext_def\<close>)
  have "walks input (?f (Some g1)) False (?r (Some g1)) True"
    using const_record_walker_walks [of "Some g1" input fingerprint] assms(7,9) by (simp add: parts_def)
  moreover have "fpl_ok s2 (Live l) (Suc 0)"
    using s1(4) by (rule fpl_okI) (use s1(5,6) s2(3) fpr_ok_mono [of s1 y s2] in \<open>simp_all add: ext_def grows_def\<close>)
  ultimately obtain fppr fpl s3 s4 where
    g: "fp_take (Live l) (fingerprint (Some g1)) = Inr (fppr, fpl)" "?f (Some g1) s2 = (Inr False, s3)"
      "reuse_params fppr (clocations_count s2) s3 = (Inr (), s4)"
    using group_step [of input ?f "Some g1" ?r s2 "Live l" 0 "fingerprint (Some g1)"] p2 by blast
  have "fpl = Freed" using g(1) fp_take_only [OF s1(4), of "fingerprint (Some g1)"] s1(7) assms(4) by simp
  then have "walk_groups fingerprint ?f (Some g1 # Some g2 # gs) (Live l) s2 = (Inl UseAfterFree, s4)"
    using g assms(5,6) by (simp add: bindS_def getS_def tryS_def raiseS_def fp_take_def)
  then have "fst (walk_select fingerprint ?f n (init_jstate input)) = Inl UseAfterFree"
    using s0(1) s1(1) s2(1) assms(2,3) by (simp add: walk_select_def orelse_def bindS_def del: walk_seq.simps walk_targets.simps walk_groups.simps)
  moreover have "?f (Some n) = walk_select fingerprint ?f n" using assms(1) by (cases n) (simp_all add: const_record_walker.simps)
  ultimately show ?thesis by simp
qed

text \<open>\<^verbatim>\<open>SELECT 'a' GROUP BY 'a', 'b'\<close>, with fingerprints that tell the strings apart.\<close>

definition demo_group :: "node" where
  "demo_group = Struct T_SelectStmt
     [(''targetList'', FNode (NList [Some (Struct T_ResTarget [(''val'', FNode (demo_const 7))])])),
      (''groupClause'', FNode (NList [Some (demo_const 20), Some (Struct T_A_Const [(''val'', FNode (String ''b'')), (''location'', FInt 25)])]))]"

definition demo_fingerprint :: "node option \<Rightarrow> 64 word" where
  "demo_fingerprint x = (case x of Some n \<Rightarrow> (if fnode ''val'' n = Some (String ''a'') then 1 else 2) | None \<Rightarrow> 0)"

theorem group_by_use_after_free_witness:
  "fst (const_record_walker demo_fingerprint (Some demo_group) (init_jstate ''SELECT 'a' GROUP BY 'a', 'b' '')) = Inl UseAfterFree"
proof (rule group_by_use_after_free)
  show "has_tag T_SelectStmt demo_group" by code_simp
  show "flist ''targetList'' demo_group = [Some (Struct T_ResTarget [(''val'', FNode (demo_const 7))])]" by code_simp
  show "flist ''groupClause'' demo_group =
      Some (demo_const 20) # Some (Struct T_A_Const [(''val'', FNode (String ''b'')), (''location'', FInt 25)]) # []" by code_simp
qed code_simp+

end
