(* ===== verification/Core_Scanner.thy ===== *)
theory Core_Scanner
  imports Pg_Prelude
begin

text \<open>
  The interface of the flex scanner as the clients in \<^verbatim>\<open>pg_query_normalize.c\<close>,
  \<^verbatim>\<open>pg_query_split.c\<close> and \<^verbatim>\<open>pg_query_scan.c\<close> use it: the
  tokens it delivers for an input are an argument of every client, and what a client needs
  of them is a hypothesis of its theorems. \<open>Scan_Token\<close> shows of the modelled scanner that its
  tokens have this form. A token is its code, the offset where it starts
  (\<^verbatim>\<open>yylloc\<close>) and the offset of the zero byte flex puts behind it in \<^verbatim>\<open>scanbuf\<close>. The token with
  code 0 is the end of the input; a stream without one stands for a scanner that raises an
  error where the stream ends.

  The whitespace test of \<^verbatim>\<open>src_backend_parser_scansup.c\<close> is here too.
\<close>

record token =
  tok :: int
  yylloc :: int
  tok_end :: int

abbreviation scan_error :: pg_error where
  "scan_error \<equiv> Elog ''syntax error''"

definition core_yylex :: "token list \<Rightarrow> (token \<times> token list) res" where
  "core_yylex ts = (case ts of [] \<Rightarrow> Inl scan_error | t # ts' \<Rightarrow> Inr (t, ts'))"

text \<open>
  A scanner that works as documented: tokens are not empty, lie inside the input one after
  the other, and the end of the input is reported once, behind all of them.
\<close>

fun lexes :: "string \<Rightarrow> int \<Rightarrow> token list \<Rightarrow> bool" where
  "lexes q p [] \<longleftrightarrow> False"
| "lexes q p (t # ts) \<longleftrightarrow>
     (if tok t = 0 then ts = [] \<and> p \<le> yylloc t \<and> yylloc t \<le> int (length q)
      else p \<le> yylloc t \<and> yylloc t < tok_end t \<and> tok_end t \<le> int (length q) \<and> lexes q (tok_end t) ts)"

definition scanner_isspace :: "char \<Rightarrow> bool" where
  "scanner_isspace ch \<longleftrightarrow>
     ch = CHR 0x20 \<or> ch = CHR 0x09 \<or> ch = CHR 0x0A \<or> ch = CHR 0x0D \<or> ch = CHR 0x0C"

text \<open>A byte of a C string; the terminating zero is at the index of the length.\<close>

definition c_char :: "string \<Rightarrow> int \<Rightarrow> char res" where
  "c_char q i =
     (if i < 0 \<or> int (length q) < i then Inl OutOfBounds
      else Inr (if i = int (length q) then CHR 0x00 else q ! nat i))"

section \<open>Consequences\<close>

lemma lexes_bounds:
  "lexes q p ts \<Longrightarrow> t \<in> set ts \<Longrightarrow> tok t \<noteq> 0 \<Longrightarrow> p \<le> yylloc t \<and> yylloc t < tok_end t \<and> tok_end t \<le> int (length q)"
proof (induction q p ts rule: lexes.induct)
  case (2 q p t' ts)
  then show ?case by (cases "t = t'") (fastforce split: if_splits)+
qed simp

lemma lexes_drop:
  assumes "lexes q p (ts1 @ ts2)" "ts2 \<noteq> []"
  shows "\<exists>p'. p \<le> p' \<and> lexes q p' ts2 \<and> (\<forall>t \<in> set ts1. tok t \<noteq> 0 \<and> tok_end t \<le> p' \<and> p \<le> yylloc t \<and> yylloc t < tok_end t)"
  using assms
proof (induction ts1 arbitrary: p)
  case Nil
  then show ?case by auto
next
  case (Cons t ts1)
  then have t: "tok t \<noteq> 0" "p \<le> yylloc t" "yylloc t < tok_end t" "lexes q (tok_end t) (ts1 @ ts2)"
    by (auto split: if_splits)
  from Cons.IH [OF t(4) Cons.prems(2)] obtain p' where "tok_end t \<le> p'" "lexes q p' ts2"
    "\<forall>t \<in> set ts1. tok t \<noteq> 0 \<and> tok_end t \<le> p'" "\<forall>u \<in> set ts1. tok_end t \<le> yylloc u \<and> yylloc u < tok_end u" by auto
  with t show ?case by (intro exI [of _ p']) auto
qed

lemma lexes_ge: "lexes q p ts \<Longrightarrow> t \<in> set ts \<Longrightarrow> p \<le> yylloc t"
proof (induction q p ts rule: lexes.induct)
  case (2 q p t' ts)
  then show ?case by (cases "t = t'") (fastforce split: if_splits)+
qed simp

end
