(* ===== verification/Pg_Qsort.thy ===== *)
theory Pg_Qsort
  imports Pg_Prelude "HOL-Library.Multiset"
begin

text \<open>
  \<^verbatim>\<open>pg_qsort\<close> of \<^verbatim>\<open>src_port_qsort.c\<close>, the Bentley and McIlroy quicksort with its insertion sort
  for short arrays, the check for sorted input, the median of three (of medians) and the
  four-way partition that collects equal elements at both ends and swaps them to the
  middle. An array is a list, an element pointer its index (an integer, as the pointers
  run past both ends of the partition), and a slice that the code sorts in place is the
  sublist it covers.

  That the sort stops and permutes its input is shown for every comparator, consistent or
  not; that the result is sorted for comparators that give a total preorder.
\<close>

section \<open>Operations\<close>

type_synonym 'a cmp = "'a \<Rightarrow> 'a \<Rightarrow> int"

definition elt :: "'a list \<Rightarrow> int \<Rightarrow> 'a" where
  "elt xs i = xs ! nat i"

definition swap :: "'a list \<Rightarrow> int \<Rightarrow> int \<Rightarrow> 'a list" where
  "swap xs i j = xs[nat i := elt xs j, nat j := elt xs i]"

text \<open>\<^verbatim>\<open>vecswap\<close>: \<^verbatim>\<open>swapfunc\<close> exchanges two blocks element by element.\<close>

fun vecswap :: "'a list \<Rightarrow> int \<Rightarrow> int \<Rightarrow> nat \<Rightarrow> 'a list" where
  "vecswap xs i j 0 = xs"
| "vecswap xs i j (Suc n) = vecswap (swap xs i j) (i + 1) (j + 1) n"

definition med3 :: "'a cmp \<Rightarrow> 'a list \<Rightarrow> int \<Rightarrow> int \<Rightarrow> int \<Rightarrow> int" where
  "med3 cmp xs a b c =
     (if cmp (elt xs a) (elt xs b) < 0
      then if cmp (elt xs b) (elt xs c) < 0 then b else if cmp (elt xs a) (elt xs c) < 0 then c else a
      else if cmp (elt xs b) (elt xs c) > 0 then b else if cmp (elt xs a) (elt xs c) < 0 then a else c)"

text \<open>The inner loop of the insertion sort, \<open>pl\<close> running down.\<close>

fun insert_down :: "'a cmp \<Rightarrow> 'a list \<Rightarrow> nat \<Rightarrow> 'a list" where
  "insert_down cmp xs 0 = xs"
| "insert_down cmp xs (Suc p) =
     (if cmp (xs ! p) (xs ! Suc p) > 0
      then insert_down cmp (swap xs (int (Suc p)) (int p)) p
      else xs)"

definition insertion_sort :: "'a cmp \<Rightarrow> 'a list \<Rightarrow> 'a list" where
  "insertion_sort cmp xs = foldl (insert_down cmp) xs [1..<length xs]"

definition presorted :: "'a cmp \<Rightarrow> 'a list \<Rightarrow> bool" where
  "presorted cmp xs = list_all (\<lambda>pm. \<not> cmp (xs ! (pm - 1)) (xs ! pm) > 0) [1..<length xs]"

definition choose_pivot :: "'a cmp \<Rightarrow> 'a list \<Rightarrow> int" where
  "choose_pivot cmp xs =
     (let n = int (length xs); pm = n div 2 in
      if n > 7 then
        (let pl = 0; pn = n - 1 in
         if n > 40 then
           (let d = n div 8;
                pl' = med3 cmp xs pl (pl + d) (pl + 2 * d);
                pm' = med3 cmp xs (pm - d) pm (pm + d);
                pn' = med3 cmp xs (pn - 2 * d) (pn - d) pn
            in med3 cmp xs pl' pm' pn')
         else med3 cmp xs pl pm pn)
      else pm)"

text \<open>\<^verbatim>\<open>while (pb <= pc && (r = cmp(pb, a)) <= 0)\<close>\<close>

function part_up :: "'a cmp \<Rightarrow> 'a list \<Rightarrow> int \<Rightarrow> int \<Rightarrow> int \<Rightarrow> 'a list \<times> int \<times> int" where
  "part_up cmp xs pa pb pc =
     (if pb \<le> pc \<and> cmp (elt xs pb) (elt xs 0) \<le> 0
      then if cmp (elt xs pb) (elt xs 0) = 0
           then part_up cmp (swap xs pa pb) (pa + 1) (pb + 1) pc
           else part_up cmp xs pa (pb + 1) pc
      else (xs, pa, pb))"
  by pat_completeness auto
termination by (relation "measure (\<lambda>(cmp, xs, pa, pb, pc). nat (pc + 1 - pb))") auto

text \<open>\<^verbatim>\<open>while (pb <= pc && (r = cmp(pc, a)) >= 0)\<close>\<close>

function part_down :: "'a cmp \<Rightarrow> 'a list \<Rightarrow> int \<Rightarrow> int \<Rightarrow> int \<Rightarrow> 'a list \<times> int \<times> int" where
  "part_down cmp xs pb pc pd =
     (if pb \<le> pc \<and> cmp (elt xs pc) (elt xs 0) \<ge> 0
      then if cmp (elt xs pc) (elt xs 0) = 0
           then part_down cmp (swap xs pc pd) pb (pc - 1) (pd - 1)
           else part_down cmp xs pb (pc - 1) pd
      else (xs, pc, pd))"
  by pat_completeness auto
termination by (relation "measure (\<lambda>(cmp, xs, pb, pc, pd). nat (pc + 1 - pb))") auto

declare part_up.simps [simp del] part_down.simps [simp del]

lemma part_up_pb: "pb \<le> snd (snd (part_up cmp xs pa pb pc))"
proof (induction cmp xs pa pb pc rule: part_up.induct)
  case (1 cmp xs pa pb pc)
  then show ?case by (subst part_up.simps) (auto simp: Let_def)
qed

lemma part_down_pc: "fst (snd (part_down cmp xs pb pc pd)) \<le> pc"
proof (induction cmp xs pb pc pd rule: part_down.induct)
  case (1 cmp xs pb pc pd)
  then show ?case by (subst part_down.simps) (auto simp: Let_def)
qed

lemma part_up_result: "(xs', pa', pb') = part_up cmp xs pa pb pc \<Longrightarrow> pb \<le> pb'"
  using part_up_pb [of pb cmp xs pa pc] by (metis snd_conv)

lemma part_down_result: "(xs', pc', pd') = part_down cmp xs pb pc pd \<Longrightarrow> pc' \<le> pc"
  using part_down_pc [of cmp xs pb pc pd] by (metis fst_conv snd_conv)

text \<open>The outer \<^verbatim>\<open>for (;;)\<close> of the partition.\<close>

function partition_loop ::
  "'a cmp \<Rightarrow> 'a list \<Rightarrow> int \<Rightarrow> int \<Rightarrow> int \<Rightarrow> int \<Rightarrow> 'a list \<times> int \<times> int \<times> int \<times> int" where
  "partition_loop cmp xs pa pb pc pd =
     (case part_up cmp xs pa pb pc of (xs1, pa1, pb1) \<Rightarrow>
      case part_down cmp xs1 pb1 pc pd of (xs2, pc1, pd1) \<Rightarrow>
        if pb1 > pc1 then (xs2, pa1, pb1, pc1, pd1)
        else partition_loop cmp (swap xs2 pb1 pc1) pa1 (pb1 + 1) (pc1 - 1) pd1)"
  by pat_completeness auto
termination
  by (relation "measure (\<lambda>(cmp, xs, pa, pb, pc, pd). nat (pc + 1 - pb))")
    (auto dest!: part_up_result part_down_result)

declare partition_loop.simps [simp del]

text \<open>
  One round of the sort on an array of at least seven elements: the array after the
  partition and the two \<^verbatim>\<open>vecswap\<close>s, with the sizes of the slices below and above the pivot.
\<close>

definition qsort_split :: "'a cmp \<Rightarrow> 'a list \<Rightarrow> 'a list \<times> int \<times> int" where
  "qsort_split cmp xs0 =
     (let n = int (length xs0);
          xs = swap xs0 0 (choose_pivot cmp xs0) in
      case partition_loop cmp xs 1 1 (n - 1) (n - 1) of (xs1, pa, pb, pc, pd) \<Rightarrow>
      let d = min pa (pb - pa);
          xs2 = vecswap xs1 0 (pb - d) (nat d);
          e = min (pd - pc) (n - pd - 1);
          xs3 = vecswap xs2 pb (n - e) (nat e)
      in (xs3, pb - pa, pd - pc))"


section \<open>Swapping\<close>

lemma length_swap [simp]: "length (swap xs i j) = length xs"
  by (simp add: swap_def)

lemma length_vecswap [simp]: "length (vecswap xs i j n) = length xs"
  by (induction xs i j n rule: vecswap.induct) simp_all

lemma mset_swap_int:
  assumes "0 \<le> i" "i < int (length xs)" "0 \<le> j" "j < int (length xs)"
  shows "mset (swap xs i j) = mset xs"
  using assms by (simp add: swap_def elt_def nat_less_iff mset_swap)

lemma elt_swap:
  assumes "0 \<le> i" "i < int (length xs)" "0 \<le> j" "j < int (length xs)" "0 \<le> k"
  shows "elt (swap xs i j) k = (if k = i then elt xs j else if k = j then elt xs i else elt xs k)"
  using assms by (auto simp: swap_def elt_def nth_list_update nat_less_iff)

lemma swap_split:
  "i = int (length as) \<Longrightarrow> j = int (length as + Suc (length bs)) \<Longrightarrow>
   swap (as @ x # bs @ y # cs) i j = as @ y # bs @ x # cs"
  by (simp add: swap_def elt_def nth_append list_update_append nat_add_distrib)

lemma vecswap_split:
  "length xs = length ys \<Longrightarrow> i = int (length as) \<Longrightarrow> j = int (length as + length xs + length ms) \<Longrightarrow>
   vecswap (as @ xs @ ms @ ys @ bs) i j (length xs) = as @ ys @ ms @ xs @ bs"
proof (induction xs ys arbitrary: as ms i j rule: list_induct2)
  case Nil
  then show ?case by simp
next
  case (Cons x xs y ys)
  have "swap (as @ x # (xs @ ms) @ y # ys @ bs) i j = as @ y # (xs @ ms) @ x # ys @ bs"
    by (rule swap_split) (use Cons in auto)
  moreover have "vecswap ((as @ [y]) @ xs @ (ms @ [x]) @ ys @ bs) (i + 1) (j + 1) (length xs) =
      (as @ [y]) @ ys @ (ms @ [x]) @ xs @ bs"
    by (rule Cons.IH) (use Cons.prems in auto)
  ultimately show ?case by simp
qed

text \<open>
  Exchanging two adjacent blocks by swapping only as many elements as the shorter one has:
  the blocks change places, the longer one with its elements reordered.
\<close>

lemma vecswap_flip:
  assumes i: "i = int (length as)" and d: "d = min (length xs) (length ys)"
    and j: "j = int (length as + length xs + length ys - d)"
  obtains xs' ys' where "vecswap (as @ xs @ ys @ bs) i j d = as @ ys' @ xs' @ bs"
    "mset xs' = mset xs" "mset ys' = mset ys"
proof (cases "length xs \<le> length ys")
  case True
  define ys1 where "ys1 = take (length ys - length xs) ys"
  define ys2 where "ys2 = drop (length ys - length xs) ys"
  have ys: "ys = ys1 @ ys2" "length xs = length ys2" using True by (simp_all add: ys1_def ys2_def)
  have "vecswap (as @ xs @ ys1 @ ys2 @ bs) i j (length xs) = as @ ys2 @ ys1 @ xs @ bs"
    by (rule vecswap_split) (use i j d ys True in auto)
  then show thesis using True ys d by (intro that [of "ys2 @ ys1" xs]) auto
next
  case False
  define xs1 where "xs1 = take (length ys) xs"
  define xs2 where "xs2 = drop (length ys) xs"
  have xs: "xs = xs1 @ xs2" "length xs1 = length ys" using False by (simp_all add: xs1_def xs2_def)
  have "vecswap (as @ xs1 @ xs2 @ ys @ bs) i j (length xs1) = as @ ys @ xs2 @ xs1 @ bs"
    by (rule vecswap_split) (use i j d xs False in auto)
  then show thesis using False xs d by (intro that [of ys "xs2 @ xs1"]) auto
qed

section \<open>The insertion sort\<close>

lemma insert_down_split:
  "\<exists>as1 as2. as = as1 @ as2 \<and> insert_down cmp (as @ x # bs) (length as) = as1 @ x # as2 @ bs \<and>
     (\<forall>y \<in> set as2. cmp y x > 0) \<and> (as1 = [] \<or> cmp (last as1) x \<le> 0)"
proof (induction as arbitrary: bs rule: rev_induct)
  case Nil
  show ?case by simp
next
  case (snoc y as)
  show ?case
  proof (cases "cmp y x > 0")
    case True
    have "swap (as @ y # x # bs) (1 + int (length as)) (int (length as)) = as @ x # y # bs"
      by (simp add: swap_def elt_def nth_append list_update_append nat_add_distrib)
    with True have "insert_down cmp (as @ y # x # bs) (Suc (length as)) = insert_down cmp (as @ x # y # bs) (length as)"
      by (simp add: nth_append)
    moreover from snoc [of "y # bs"] obtain as1 as2 where "as = as1 @ as2"
      "insert_down cmp (as @ x # y # bs) (length as) = as1 @ x # as2 @ y # bs"
      "\<forall>y \<in> set as2. cmp y x > 0" "as1 = [] \<or> cmp (last as1) x \<le> 0" by metis
    ultimately show ?thesis using True
      by (intro exI [of _ as1] exI [of _ "as2 @ [y]"]) auto
  next
    case False
    then show ?thesis
      by (intro exI [of _ "as @ [y]"] exI [of _ "[]"]) (simp add: nth_append)
  qed
qed

lemma mset_insert_down: "p < length xs \<Longrightarrow> mset (insert_down cmp xs p) = mset xs"
  by (induction cmp xs p rule: insert_down.induct) (auto simp: mset_swap_int)

lemma length_insert_down [simp]: "length (insert_down cmp xs p) = length xs"
  by (induction cmp xs p rule: insert_down.induct) simp_all

lemma mset_insert_down_fold:
  "\<forall>p \<in> set ps. p < length xs \<Longrightarrow> mset (foldl (insert_down cmp) xs ps) = mset xs"
  by (induction ps arbitrary: xs) (auto simp: mset_insert_down)

lemma mset_insertion_sort: "mset (insertion_sort cmp xs) = mset xs"
  by (simp add: insertion_sort_def mset_insert_down_fold)

section \<open>The partition\<close>

text \<open>
  The invariant of the partition loops, relative to the comparison with the pivot, the
  element at index 0: equal elements at both ends, smaller ones below \<open>pb\<close>, greater ones
  above \<open>pc\<close>. It mentions no property of the comparator.
\<close>

definition parted :: "'a cmp \<Rightarrow> 'a list \<Rightarrow> int \<Rightarrow> int \<Rightarrow> int \<Rightarrow> int \<Rightarrow> bool" where
  "parted cmp xs pa pb pc pd \<longleftrightarrow>
     1 \<le> pa \<and> pa \<le> pb \<and> pb \<le> pc + 1 \<and> pc \<le> pd \<and> pd < int (length xs) \<and>
     (\<forall>i. 1 \<le> i \<and> i < pa \<longrightarrow> cmp (elt xs i) (elt xs 0) = 0) \<and>
     (\<forall>i. pa \<le> i \<and> i < pb \<longrightarrow> cmp (elt xs i) (elt xs 0) < 0) \<and>
     (\<forall>i. pc < i \<and> i \<le> pd \<longrightarrow> cmp (elt xs i) (elt xs 0) > 0) \<and>
     (\<forall>i. pd < i \<and> i < int (length xs) \<longrightarrow> cmp (elt xs i) (elt xs 0) = 0)"

lemma parted_equal_up:
  assumes "parted cmp xs pa pb pc pd" "pb \<le> pc" "cmp (elt xs pb) (elt xs 0) = 0"
  shows "parted cmp (swap xs pa pb) (pa + 1) (pb + 1) pc pd"
proof -
  have "elt (swap xs pa pb) k = (if k = pa then elt xs pb else if k = pb then elt xs pa else elt xs k)"
    if "0 \<le> k" for k
    using assms that by (intro elt_swap) (auto simp: parted_def)
  with assms show ?thesis by (auto simp: parted_def)
qed

lemma parted_less_up:
  assumes "parted cmp xs pa pb pc pd" "pb \<le> pc" "cmp (elt xs pb) (elt xs 0) < 0"
  shows "parted cmp xs pa (pb + 1) pc pd"
  using assms by (auto simp: parted_def) (metis zle_add1_eq_le order_le_less)

lemma parted_equal_down:
  assumes "parted cmp xs pa pb pc pd" "pb \<le> pc" "cmp (elt xs pc) (elt xs 0) = 0"
  shows "parted cmp (swap xs pc pd) pa pb (pc - 1) (pd - 1)"
proof -
  have "elt (swap xs pc pd) k = (if k = pc then elt xs pd else if k = pd then elt xs pc else elt xs k)"
    if "0 \<le> k" for k
    using assms that by (intro elt_swap) (auto simp: parted_def)
  with assms show ?thesis by (auto simp: parted_def)
qed

lemma parted_greater_down:
  assumes "parted cmp xs pa pb pc pd" "pb \<le> pc" "cmp (elt xs pc) (elt xs 0) > 0"
  shows "parted cmp xs pa pb (pc - 1) pd"
  using assms by (auto simp: parted_def) (metis order_le_less zle_diff1_eq not_le)

lemma parted_exchange:
  assumes "parted cmp xs pa pb pc pd" "pb < pc" "cmp (elt xs pb) (elt xs 0) > 0" "cmp (elt xs pc) (elt xs 0) < 0"
  shows "parted cmp (swap xs pb pc) pa (pb + 1) (pc - 1) pd"
proof -
  have "elt (swap xs pb pc) k = (if k = pb then elt xs pc else if k = pc then elt xs pb else elt xs k)"
    if "0 \<le> k" for k
    using assms that by (intro elt_swap) (auto simp: parted_def)
  with assms show ?thesis by (auto simp: parted_def)
qed

lemma part_up_spec:
  assumes "parted cmp xs pa pb pc pd" "part_up cmp xs pa pb pc = (xs', pa', pb')"
  shows "parted cmp xs' pa' pb' pc pd \<and> mset xs' = mset xs \<and>
     (pb' \<le> pc \<longrightarrow> cmp (elt xs' pb') (elt xs' 0) > 0)"
  using assms
proof (induction cmp xs pa pb pc arbitrary: xs' pa' pb' rule: part_up.induct)
  case (1 cmp xs pa pb pc)
  consider (eq) "pb \<le> pc" "cmp (elt xs pb) (elt xs 0) = 0"
    | (less) "pb \<le> pc" "cmp (elt xs pb) (elt xs 0) < 0"
    | (stop) "\<not> (pb \<le> pc \<and> cmp (elt xs pb) (elt xs 0) \<le> 0)" by linarith
  then show ?case
  proof cases
    case eq
    have "mset (swap xs pa pb) = mset xs"
      by (rule mset_swap_int) (use 1(3) eq in \<open>auto simp: parted_def\<close>)
    with eq 1(1) [OF _ _ parted_equal_up [OF 1(3) eq]] 1(4) show ?thesis
      by (subst (asm) part_up.simps) auto
  next
    case less
    with 1(2) [OF _ _ parted_less_up [OF 1(3) less]] 1(4) show ?thesis
      by (subst (asm) part_up.simps) auto
  next
    case stop
    with 1(3,4) show ?thesis by (subst (asm) part_up.simps) auto
  qed
qed

lemma part_down_spec:
  assumes "parted cmp xs pa pb pc pd" "part_down cmp xs pb pc pd = (xs', pc', pd')"
    "pb \<le> pc \<longrightarrow> cmp (elt xs pb) (elt xs 0) > 0"
  shows "parted cmp xs' pa pb pc' pd' \<and> mset xs' = mset xs \<and>
     (pb \<le> pc' \<longrightarrow> pb < pc' \<and> cmp (elt xs' pc') (elt xs' 0) < 0 \<and> cmp (elt xs' pb) (elt xs' 0) > 0)"
  using assms
proof (induction cmp xs pb pc pd arbitrary: xs' pc' pd' rule: part_down.induct)
  case (1 cmp xs pb pc pd)
  consider (eq) "pb \<le> pc" "cmp (elt xs pc) (elt xs 0) = 0"
    | (greater) "pb \<le> pc" "cmp (elt xs pc) (elt xs 0) > 0"
    | (stop) "\<not> (pb \<le> pc \<and> cmp (elt xs pc) (elt xs 0) \<ge> 0)" by linarith
  then show ?case
  proof cases
    case eq
    have "mset (swap xs pc pd) = mset xs"
      by (rule mset_swap_int) (use 1(3) eq in \<open>auto simp: parted_def\<close>)
    moreover have "elt (swap xs pc pd) k = (if k = pc then elt xs pd else if k = pd then elt xs pc else elt xs k)"
      if "0 \<le> k" for k
      using 1(3) eq that by (intro elt_swap) (auto simp: parted_def)
    then have "pb \<le> pc - 1 \<longrightarrow> cmp (elt (swap xs pc pd) pb) (elt (swap xs pc pd) 0) > 0"
      using 1(3,5) eq by (auto simp: parted_def)
    moreover have "part_down cmp (swap xs pc pd) pb (pc - 1) (pd - 1) = (xs', pc', pd')"
      using 1(4) eq by (simp add: part_down.simps [of cmp xs pb pc pd])
    ultimately show ?thesis using eq 1(1) [OF _ _ parted_equal_down [OF 1(3) eq]] by auto
  next
    case greater
    have step: "part_down cmp xs pb (pc - 1) pd = (xs', pc', pd')"
      using 1(4) greater by (simp add: part_down.simps [of cmp xs pb pc pd])
    show ?thesis
      by (rule 1(2) [OF _ _ parted_greater_down [OF 1(3) greater] step]) (use greater 1(5) in auto)
  next
    case stop
    then have "(xs', pc', pd') = (xs, pc, pd)"
      using 1(4) by (auto simp: part_down.simps [of cmp xs pb pc pd] split: if_splits)
    with 1(3,5) stop show ?thesis by (cases "pb = pc") auto
  qed
qed

lemma partition_loop_spec:
  assumes "parted cmp xs pa pb pc pd" "partition_loop cmp xs pa pb pc pd = (xs', pa', pb', pc', pd')"
  shows "parted cmp xs' pa' pb' pc' pd' \<and> mset xs' = mset xs \<and> pb' = pc' + 1"
  using assms
proof (induction cmp xs pa pb pc pd arbitrary: xs' pa' pb' pc' pd' rule: partition_loop.induct)
  case (1 cmp xs pa pb pc pd)
  obtain xs1 pa1 pb1 where up: "part_up cmp xs pa pb pc = (xs1, pa1, pb1)" by (metis prod_cases3)
  obtain xs2 pc1 pd1 where down: "part_down cmp xs1 pb1 pc pd = (xs2, pc1, pd1)" by (metis prod_cases3)
  note u = part_up_spec [OF 1(2) up]
  note d = part_down_spec [OF conjunct1 [OF u] down]
  show ?case
  proof (cases "pb1 > pc1")
    case True
    with 1(3) up down have "(xs', pa', pb', pc', pd') = (xs2, pa1, pb1, pc1, pd1)"
      by (simp add: partition_loop.simps [of cmp xs pa pb pc pd])
    with u d True show ?thesis by (simp add: parted_def)
  next
    case False
    with u d have "parted cmp (swap xs2 pb1 pc1) pa1 (pb1 + 1) (pc1 - 1) pd1"
      by (intro parted_exchange) auto
    moreover have "mset (swap xs2 pb1 pc1) = mset xs2"
      by (rule mset_swap_int) (use u d False in \<open>auto simp: parted_def\<close>)
    moreover have step: "partition_loop cmp (swap xs2 pb1 pc1) pa1 (pb1 + 1) (pc1 - 1) pd1 = (xs', pa', pb', pc', pd')"
      using 1(3) up down False by (simp add: partition_loop.simps [of cmp xs pa pb pc pd])
    ultimately show ?thesis
      using 1(1) [OF up [symmetric] refl down [symmetric] refl False _ step] u d by metis
  qed
qed

lemma med3_cases: "med3 cmp xs a b c = a \<or> med3 cmp xs a b c = b \<or> med3 cmp xs a b c = c"
  by (simp add: med3_def)

lemma med3_range:
  "lo \<le> a \<Longrightarrow> a < hi \<Longrightarrow> lo \<le> b \<Longrightarrow> b < hi \<Longrightarrow> lo \<le> c \<Longrightarrow> c < hi \<Longrightarrow>
   lo \<le> med3 cmp xs a b c \<and> med3 cmp xs a b c < hi"
  using med3_cases [of cmp xs a b c] by auto

lemma choose_pivot_range:
  assumes "7 \<le> length xs"
  shows "0 \<le> choose_pivot cmp xs \<and> choose_pivot cmp xs < int (length xs)"
proof -
  define n where "n = int (length xs)"
  define d where "d = n div 8"
  define h where "h = n div 2"
  have n: "7 \<le> n" using assms by (simp add: n_def)
  have b: "0 \<le> d" "8 * d \<le> n" "h * 2 \<le> n" "n \<le> h * 2 + 1"
    using n by (auto simp: d_def h_def)
  note r = med3_range [where lo = 0 and hi = n and cmp = cmp and xs = xs]
  have "0 \<le> med3 cmp xs 0 d (2 * d) \<and> med3 cmp xs 0 d (2 * d) < n"
    "0 \<le> med3 cmp xs (h - d) h (h + d) \<and> med3 cmp xs (h - d) h (h + d) < n"
    "0 \<le> med3 cmp xs (n - 1 - 2 * d) (n - 1 - d) (n - 1) \<and> med3 cmp xs (n - 1 - 2 * d) (n - 1 - d) (n - 1) < n"
    "0 \<le> med3 cmp xs 0 h (n - 1) \<and> med3 cmp xs 0 h (n - 1) < n"
    by (rule r; use n b in linarith)+
  moreover from this have "0 \<le> med3 cmp xs (med3 cmp xs 0 d (2 * d)) (med3 cmp xs (h - d) h (h + d))
        (med3 cmp xs (n - 1 - 2 * d) (n - 1 - d) (n - 1)) \<and>
      med3 cmp xs (med3 cmp xs 0 d (2 * d)) (med3 cmp xs (h - d) h (h + d))
        (med3 cmp xs (n - 1 - 2 * d) (n - 1 - d) (n - 1)) < n"
    by (intro r) auto
  ultimately show ?thesis
    using n b by (auto simp: choose_pivot_def Let_def simp flip: n_def d_def h_def)
qed

text \<open>The four slices of a finished partition.\<close>

lemma set_slice:
  "x \<in> set (take (nat (b - a)) (drop (nat a) xs)) \<Longrightarrow> 0 \<le> a \<Longrightarrow> b \<le> int (length xs) \<Longrightarrow>
   \<exists>i. a \<le> i \<and> i < b \<and> x = elt xs i"
proof -
  assume "x \<in> set (take (nat (b - a)) (drop (nat a) xs))" "0 \<le> a" "b \<le> int (length xs)"
  then obtain i where "i < nat (b - a)" "x = xs ! (nat a + i)" by (auto simp: in_set_conv_nth)
  with \<open>0 \<le> a\<close> show ?thesis by (intro exI [of _ "a + int i"]) (auto simp: elt_def nat_add_distrib)
qed

lemma parted_slices:
  assumes "parted cmp xs pa (pc + 1) pc pd"
  obtains es ls gs fs where "xs = es @ ls @ gs @ fs" "elt xs 0 \<in> set es"
    "int (length es) = pa" "int (length ls) = pc + 1 - pa" "int (length gs) = pd - pc"
    "int (length fs) = int (length xs) - pd - 1"
    "\<forall>x \<in> set es. x = elt xs 0 \<or> cmp x (elt xs 0) = 0" "\<forall>x \<in> set ls. cmp x (elt xs 0) < 0"
    "\<forall>x \<in> set gs. cmp x (elt xs 0) > 0" "\<forall>x \<in> set fs. cmp x (elt xs 0) = 0"
proof -
  note p = assms [unfolded parted_def]
  define slice where "slice a b = take (nat (b - a)) (drop (nat a) xs)" for a b
  have len: "int (length (slice a b)) = b - a" if "0 \<le> a" "a \<le> b" "b \<le> int (length xs)" for a b
    using that by (simp add: slice_def)
  have join: "slice a b @ slice b c = slice a c" if "0 \<le> a" "a \<le> b" "b \<le> c" for a b c
    using that take_add [of "nat (b - a)" "nat (c - b)" "drop (nat a) xs"]
    by (simp add: slice_def flip: nat_add_distrib)
  have el: "\<exists>i. a \<le> i \<and> i < b \<and> x = elt xs i" if "x \<in> set (slice a b)" "0 \<le> a" "b \<le> int (length xs)" for x a b
    using set_slice that by (fastforce simp: slice_def)
  let ?n = "int (length xs)"
  have "slice 0 ?n = xs" by (simp add: slice_def)
  then have "slice 0 pa @ slice pa (pc + 1) @ slice (pc + 1) (pd + 1) @ slice (pd + 1) ?n = xs"
    using p by (simp add: join)
  moreover have "elt xs 0 \<in> set (slice 0 pa)"
    using p by (auto simp: slice_def elt_def in_set_conv_nth intro!: exI [of _ 0])
  moreover have "x = elt xs 0 \<or> cmp x (elt xs 0) = 0" if "x \<in> set (slice 0 pa)" for x
    using el [OF that] p by (smt (verit, best))
  moreover have "cmp x (elt xs 0) < 0" if "x \<in> set (slice pa (pc + 1))" for x
    using el [OF that] p by auto
  moreover have "cmp x (elt xs 0) > 0" if "x \<in> set (slice (pc + 1) (pd + 1))" for x
    using el [OF that] p by auto
  moreover have "cmp x (elt xs 0) = 0" if "x \<in> set (slice (pd + 1) ?n)" for x
    using el [OF that] p by auto
  ultimately show thesis
    by (intro that [of "slice 0 pa" "slice pa (pc + 1)" "slice (pc + 1) (pd + 1)" "slice (pd + 1) ?n"])
      (use p in \<open>simp_all add: len\<close>)
qed

text \<open>
  What one round of the sort leaves: three adjacent slices that compare below, equal to
  and above the pivot, the middle one not empty.
\<close>

lemma qsort_split_spec:
  assumes n: "7 \<le> length xs" and split: "qsort_split cmp xs = (ys, d1, d2)"
  obtains as ps bs p where "ys = as @ ps @ bs" "int (length as) = d1" "int (length bs) = d2"
    "p \<in> set ps" "mset ys = mset xs"
    "\<forall>x \<in> set as. cmp x p < 0" "\<forall>x \<in> set ps. x = p \<or> cmp x p = 0" "\<forall>x \<in> set bs. cmp x p > 0"
proof -
  define N where "N = int (length xs)"
  define xs0 where "xs0 = swap xs 0 (choose_pivot cmp xs)"
  obtain xs1 pa pb pc pd where loop: "partition_loop cmp xs0 1 1 (N - 1) (N - 1) = (xs1, pa, pb, pc, pd)"
    by (metis prod_cases5)
  have m0: "mset xs0 = mset xs"
    unfolding xs0_def by (rule mset_swap_int) (use n choose_pivot_range [OF n, of cmp] in auto)
  have "parted cmp xs0 1 1 (N - 1) (N - 1)"
    using n by (simp add: parted_def xs0_def N_def)
  from partition_loop_spec [OF this loop]
  have parted: "parted cmp xs1 pa (pc + 1) pc pd" and m1: "mset xs1 = mset xs0" and pb: "pb = pc + 1" by auto
  have len1: "int (length xs1) = N" using m1 m0 by (simp add: N_def flip: size_mset)
  define p where "p = elt xs1 0"
  from parted_slices [OF parted] obtain es ls gs fs where
    slices: "xs1 = es @ ls @ gs @ fs" "p \<in> set es" and
    lens: "int (length es) = pa" "int (length ls) = pb - pa" "int (length gs) = pd - pc" "int (length fs) = N - pd - 1" and
    cls: "\<forall>x \<in> set es. x = p \<or> cmp x p = 0" "\<forall>x \<in> set ls. cmp x p < 0"
      "\<forall>x \<in> set gs. cmp x p > 0" "\<forall>x \<in> set fs. cmp x p = 0"
    unfolding p_def pb len1 by blast
  define d where "d = min (length es) (length ls)"
  define e where "e = min (length gs) (length fs)"
  obtain es' ls' where flip1: "vecswap ([] @ es @ ls @ gs @ fs) 0 (pb - int d) d = [] @ ls' @ es' @ gs @ fs"
    "mset es' = mset es" "mset ls' = mset ls"
    by (rule vecswap_flip [of 0 "[]" d es ls "pb - int d"]) (use lens in \<open>auto simp: d_def\<close>)
  have l': "length ls' = length ls" "length es' = length es" using flip1(2,3) by (metis size_mset)+
  obtain gs' fs' where flip2: "vecswap ((ls' @ es') @ gs @ fs @ []) pb (N - int e) e = (ls' @ es') @ fs' @ gs' @ []"
    "mset gs' = mset gs" "mset fs' = mset fs"
    by (rule vecswap_flip [of pb "ls' @ es'" e gs fs "N - int e" "[]"]) (use lens l' pb in \<open>auto simp: e_def\<close>)
  have ints: "min pa (pb - pa) = int d" "min (pd - pc) (N - pd - 1) = int e"
    using lens by (auto simp: d_def e_def)
  have "ys = ls' @ es' @ fs' @ gs'" "d1 = pb - pa" "d2 = pd - pc"
    using split loop flip1(1) flip2(1) slices ints
    by (auto simp: qsort_split_def Let_def simp flip: N_def xs0_def)
  moreover have "set es' = set es" "set ls' = set ls" "set gs' = set gs" "set fs' = set fs"
    using flip1 flip2 by (auto simp flip: set_mset_mset)
  moreover have "int (length gs') = pd - pc" using flip2(2) lens by (metis size_mset)
  ultimately show thesis
    using slices cls m0 m1 flip1 flip2 l' lens
    by (intro that [of ls' "es' @ fs'" gs' p]) (auto simp: ac_simps)
qed

lemma qsort_split_length:
  assumes "(ys, d1, d2) = qsort_split cmp xs" "\<not> length xs < 7"
  shows "length ys = length xs \<and> 0 \<le> d1 \<and> 0 \<le> d2 \<and> d1 + d2 < int (length xs)"
proof -
  from assms have "7 \<le> length xs" "qsort_split cmp xs = (ys, d1, d2)" by auto
  from this obtain as ps bs p where "ys = as @ ps @ bs" "int (length as) = d1" "int (length bs) = d2"
    "p \<in> set ps" "mset ys = mset xs" by (rule qsort_split_spec)
  moreover from this have "length ys = length xs" by (metis size_mset)
  moreover have "0 < length ps" using \<open>p \<in> set ps\<close> by (cases ps) auto
  ultimately have "length ys = length as + length ps + length bs" "length ys = length xs" "0 < length ps"
    "int (length as) = d1" "int (length bs) = d2" by auto
  then show ?thesis by linarith
qed

section \<open>The sort\<close>

text \<open>
  The two outer slices are disjoint, so sorting them in place is sorting each of them. The
  code starts with the shorter one, which bounds the depth of its recursion, and continues
  on the other in the same frame; slices of fewer than two elements are left alone.
\<close>

function pg_qsort :: "'a cmp \<Rightarrow> 'a list \<Rightarrow> 'a list" where
  "pg_qsort cmp xs =
     (if length xs < 7 then insertion_sort cmp xs
      else if presorted cmp xs then xs
      else case qsort_split cmp xs of (ys, d1, d2) \<Rightarrow>
        (if d1 > 1 then pg_qsort cmp (take (nat d1) ys) else take (nat d1) ys) @
        take (length ys - nat d2 - nat d1) (drop (nat d1) ys) @
        (if d2 > 1 then pg_qsort cmp (drop (length ys - nat d2) ys) else drop (length ys - nat d2) ys))"
  by pat_completeness auto
termination
  by (relation "measure (\<lambda>(cmp, xs). length xs)") (auto simp: nat_less_iff dest!: qsort_split_length)

declare pg_qsort.simps [simp del]

lemma mset_pg_qsort [simp]: "mset (pg_qsort cmp xs) = mset xs"
proof (induction cmp xs rule: pg_qsort.induct)
  case (1 cmp xs)
  show ?case
  proof (cases "length xs < 7 \<or> presorted cmp xs")
    case True
    then show ?thesis by (subst pg_qsort.simps) (auto simp: mset_insertion_sort)
  next
    case False
    obtain ys d1 d2 where split: "qsort_split cmp xs = (ys, d1, d2)" by (metis prod_cases3)
    from False have "7 \<le> length xs" by simp
    from this split obtain as ps bs p where s: "ys = as @ ps @ bs" "int (length as) = d1"
      "int (length bs) = d2" "mset ys = mset xs" by (rule qsort_split_spec)
    have "mset (pg_qsort cmp as) = mset as" if "d1 > 1"
      using 1(1) [OF _ _ split [symmetric] refl that] False s by auto
    moreover have "mset (pg_qsort cmp bs) = mset bs" if "d2 > 1"
      using 1(2) [OF _ _ split [symmetric] refl that] False s by auto
    ultimately show ?thesis
      using False split s by (subst pg_qsort.simps) (auto simp flip: s(4))
  qed
qed

section \<open>Sortedness for consistent comparators\<close>

text \<open>
  The contract of a comparison function: the sign of the result is antisymmetric and the
  relation \<open>cmp x y \<le> 0\<close> transitive. A sort of this component relies on nothing else.
\<close>

locale comparator =
  fixes cmp :: "'a cmp"
  assumes cmp_flip: "cmp x y < 0 \<longleftrightarrow> cmp y x > 0"
    and cmp_trans: "cmp x y \<le> 0 \<Longrightarrow> cmp y z \<le> 0 \<Longrightarrow> cmp x z \<le> 0"
begin

definition le :: "'a \<Rightarrow> 'a \<Rightarrow> bool" where
  "le x y \<longleftrightarrow> cmp x y \<le> 0"

lemma le_trans: "le x y \<Longrightarrow> le y z \<Longrightarrow> le x z"
  using cmp_trans by (simp add: le_def)

lemma le_refl: "le x x"
  using cmp_flip [of x x] by (simp add: le_def) linarith

lemma not_le: "\<not> le x y \<longleftrightarrow> cmp x y > 0"
  by (auto simp: le_def)

lemma greater_le: "cmp x y > 0 \<Longrightarrow> le y x"
  using cmp_flip [of y x] by (simp add: le_def)

lemma equal_le: "cmp x y = 0 \<Longrightarrow> le x y \<and> le y x"
  using cmp_flip [of x y] cmp_flip [of y x] by (simp add: le_def)

lemma less_le: "cmp x y < 0 \<Longrightarrow> le x y"
  by (simp add: le_def)

lemma sorted_last: "sorted_wrt le (xs @ [y]) \<Longrightarrow> x \<in> set xs \<Longrightarrow> le x y"
  by (simp add: sorted_wrt_append)

lemma insert_down_sorted:
  assumes "sorted_wrt le (take p xs)" "p < length xs"
  shows "sorted_wrt le (take (Suc p) (insert_down cmp xs p))"
proof -
  have xs: "xs = take p xs @ xs ! p # drop (Suc p) xs" using assms(2) by (rule id_take_nth_drop)
  have l: "length (take p xs) = p" using assms(2) by simp
  from insert_down_split [of "take p xs" cmp "xs ! p" "drop (Suc p) xs"]
  obtain as1 as2 where ins: "take p xs = as1 @ as2" "insert_down cmp xs p = as1 @ xs ! p # as2 @ drop (Suc p) xs"
    "\<forall>y \<in> set as2. cmp y (xs ! p) > 0" "as1 = [] \<or> le (last as1) (xs ! p)"
    unfolding l xs [symmetric] le_def by blast
  have "le x (xs ! p)" if "x \<in> set as1" for x
  proof -
    from that ins(4) have "as1 = butlast as1 @ [last as1]" "le (last as1) (xs ! p)" by (cases as1; auto)+
    moreover have "sorted_wrt le as1" using assms(1) ins(1) by (simp add: sorted_wrt_append)
    ultimately show ?thesis
      using that le_trans by (metis append_is_Nil_conv in_set_conv_decomp_last le_refl sorted_last Un_iff set_append list.set_intros(1) set_ConsD empty_iff empty_set)
  qed
  moreover have "take (Suc p) (insert_down cmp xs p) = as1 @ xs ! p # as2"
    using ins(2) l arg_cong [OF ins(1), of length] by simp
  ultimately show ?thesis
    using assms(1) ins(1,3) greater_le by (auto simp: sorted_wrt_append)
qed

lemma insertion_sort_sorted: "sorted_wrt le (insertion_sort cmp xs)"
proof -
  have "n \<le> length xs \<Longrightarrow> sorted_wrt le (take n (foldl (insert_down cmp) xs [1..<n])) \<and>
      length (foldl (insert_down cmp) xs [1..<n]) = length xs" for n
  proof (induction n)
    case 0
    then show ?case by simp
  next
    case (Suc n)
    then show ?case
      using insert_down_sorted [of n "foldl (insert_down cmp) xs [1..<n]"]
      by (cases n) (auto simp: sorted_wrt01)
  qed
  from this [of "length xs"] show ?thesis by (simp add: insertion_sort_def) (metis take_all order_refl)
qed

lemma presorted_sorted: "presorted cmp xs \<Longrightarrow> sorted_wrt le xs"
proof (rule sorted_wrt_iff_nth_Suc_transp [THEN iffD2])
  show "transp le" using le_trans by (auto simp: transp_def)
next
  assume "presorted cmp xs"
  then show "\<forall>i. Suc i < length xs \<longrightarrow> le (xs ! i) (xs ! Suc i)"
    by (force simp: presorted_def list_all_iff le_def)
qed

lemma pg_qsort_sorted: "sorted_wrt le (pg_qsort cmp xs)"
proof (induction "length xs" arbitrary: xs rule: less_induct)
  case less
  show ?case
  proof (cases "length xs < 7 \<or> presorted cmp xs")
    case True
    then show ?thesis
      by (subst pg_qsort.simps) (auto simp: insertion_sort_sorted presorted_sorted)
  next
    case False
    obtain ys d1 d2 where split: "qsort_split cmp xs = (ys, d1, d2)" by (metis prod_cases3)
    from False have n: "7 \<le> length xs" by simp
    from n split obtain as ps bs p where s: "ys = as @ ps @ bs" "int (length as) = d1" "int (length bs) = d2"
      "p \<in> set ps" "\<forall>x \<in> set as. cmp x p < 0" "\<forall>x \<in> set ps. x = p \<or> cmp x p = 0" "\<forall>x \<in> set bs. cmp x p > 0"
      by (rule qsort_split_spec)
    have short: "length as < length xs" "length bs < length xs"
      using qsort_split_length [OF split [symmetric]] n s by auto
    define as' where "as' = (if d1 > 1 then pg_qsort cmp as else as)"
    define bs' where "bs' = (if d2 > 1 then pg_qsort cmp bs else bs)"
    have sets: "set as' = set as" "set bs' = set bs"
      by (auto simp: as'_def bs'_def simp flip: set_mset_mset)
    have "sorted_wrt le as'" "sorted_wrt le bs'"
      using less short s(2,3) by (auto simp: as'_def bs'_def sorted_wrt01)
    moreover have ps: "le x p \<and> le p x" if "x \<in> set ps" for x
      using s(6) that equal_le [of x p] le_refl [of p] by auto
    moreover have "sorted_wrt le ps"
      using ps le_trans by (metis sorted_wrt_iff_nth_less nth_mem order.strict_trans)
    moreover have "le x p" if "x \<in> set as" for x using s(5) that less_le by blast
    moreover have "le p x" if "x \<in> set bs" for x using s(7) that greater_le by blast
    moreover have "pg_qsort cmp xs = as' @ ps @ bs'"
      using False split s by (subst pg_qsort.simps) (auto simp: as'_def bs'_def)
    ultimately show ?thesis
      using sets le_trans by (auto simp: sorted_wrt_append) blast+
  qed
qed

end

section \<open>Properties\<close>

text \<open>
  C13: pg_qsort sorts. For a comparison function whose sign is antisymmetric and whose
  order is transitive the result is a permutation of the input in ascending order; the
  presorted check, the choice of the pivot and the exchange of the equal elements included.
\<close>

theorem pg_qsort_correct:
  assumes "\<And>x y. cmp x y < 0 \<longleftrightarrow> cmp y x > 0"
    and "\<And>x y z. cmp x y \<le> 0 \<Longrightarrow> cmp y z \<le> 0 \<Longrightarrow> cmp x z \<le> 0"
  shows "mset (pg_qsort cmp xs) = mset xs \<and> sorted_wrt (\<lambda>x y. cmp x y \<le> 0) (pg_qsort cmp xs)"
proof -
  have c: "comparator cmp" using assms by (rule comparator.intro)
  then have "comparator.le cmp = (\<lambda>x y. cmp x y \<le> 0)" by (intro ext) (simp add: comparator.le_def)
  then show ?thesis using comparator.pg_qsort_sorted [OF c, of xs] by simp
qed

theorem pg_qsort_correct_witness:
  "mset (pg_qsort (\<lambda>x y :: int. x - y) [5, 3, 9, 3, 1, 8, 2, 7]) = mset [5, 3, 9, 3, 1, 8, 2, 7] \<and>
   sorted_wrt (\<lambda>x y. x - y \<le> 0) (pg_qsort (\<lambda>x y :: int. x - y) [5, 3, 9, 3, 1, 8, 2, 7])"
  by (rule pg_qsort_correct) auto

text \<open>
  pg_qsort is robust against inconsistent comparators. Whatever the comparison
  function answers, the sort ends (the model is a total function) with a permutation of
  its input; in one round the chosen pivot lies in the array, and the two slices left to
  sort are disjoint and together shorter than the array.
\<close>

theorem pg_qsort_any_comparator:
  "mset (pg_qsort cmp xs) = mset xs \<and>
   (7 \<le> length xs \<longrightarrow> 0 \<le> choose_pivot cmp xs \<and> choose_pivot cmp xs < int (length xs) \<and>
     (\<forall>ys d1 d2. qsort_split cmp xs = (ys, d1, d2) \<longrightarrow>
        length ys = length xs \<and> 0 \<le> d1 \<and> 0 \<le> d2 \<and> d1 + d2 < int (length xs)))"
proof -
  have "length ys = length xs \<and> 0 \<le> d1 \<and> 0 \<le> d2 \<and> d1 + d2 < int (length xs)"
    if "7 \<le> length xs" "qsort_split cmp xs = (ys, d1, d2)" for ys d1 d2
    by (rule qsort_split_length [of _ _ _ cmp]) (use that in auto)
  then show ?thesis using choose_pivot_range [of xs cmp] by simp
qed

theorem pg_qsort_any_comparator_witness:
  "mset (pg_qsort (\<lambda>x y. 1) ''abcdefgh'') = mset ''abcdefgh'' \<and>
   choose_pivot (\<lambda>x y. 1) ''abcdefgh'' < 8"
  using pg_qsort_any_comparator [of "\<lambda>x y. 1" "''abcdefgh''"] by simp

end
