(* ===== verification/Pg_Normalize.thy ===== *)
theory Pg_Normalize
  imports Normalize_Recorded Core_Scanner Pg_Qsort
begin

text \<open>
  The second half of \<^verbatim>\<open>pg_query_normalize.c\<close>: \<^verbatim>\<open>fill_in_constant_lengths\<close>, which sorts the
  recorded locations and finds the length of each constant with the scanner,
  \<^verbatim>\<open>generate_normalized_query\<close>, which copies the query with the constants replaced by parameter
  symbols into a buffer of computed size, and \<^verbatim>\<open>pg_query_normalize\<close> itself.
\<close>

section \<open>Lengths of constants\<close>

definition comp_location :: "pgssLocationLen cmp" where
  "comp_location a b =
     (if location a < location b then -1 else if location a > location b then 1 else 0)"

text \<open>\<^verbatim>\<open>strlen(scanbuf + loc)\<close> while a zero byte is at \<open>e\<close>.\<close>

definition scanbuf_from :: "string \<Rightarrow> int \<Rightarrow> int \<Rightarrow> string" where
  "scanbuf_from q e loc = takeWhile (\<lambda>c. c \<noteq> CHR 0x00) (drop (nat loc) (q[nat e := CHR 0x00]))"

text \<open>The loop that steps back over whitespace at the end of a Unicode string, from index \<open>j - 1\<close> on.\<close>

fun skip_space_back :: "string \<Rightarrow> nat \<Rightarrow> nat" where
  "skip_space_back s 0 = 0"
| "skip_space_back s (Suc j) = (if scanner_isspace (s ! j) then skip_space_back s j else Suc j)"

definition const_length :: "string \<Rightarrow> int \<Rightarrow> int \<Rightarrow> int" where
  "const_length q e loc =
     (let s = scanbuf_from q e loc; n = length s in
      if n > 4 \<and> (s ! 0 = CHR ''u'' \<or> s ! 0 = CHR ''U'') \<and> s ! 1 = CHR ''&'' \<and> s ! 2 = CHR 0x27
      then int (skip_space_back s n)
      else int n)"

text \<open>
  The inner loop: lex up to the constant at \<open>loc\<close>. The result is its length, or \<open>None\<close> when the
  input ended first, and the rest of the tokens.
\<close>

fun find_const :: "string \<Rightarrow> int \<Rightarrow> token list \<Rightarrow> (int option \<times> token list) res" where
  "find_const q loc ts =
     (case ts of [] \<Rightarrow> Inl scan_error
      | t # ts1 \<Rightarrow>
          if tok t = 0 then Inr (None, ts1)
          else if yylloc t \<ge> loc then
            bindE (c_char q loc) (\<lambda>c.
            if c = CHR ''-'' then
              bindE (core_yylex ts1) (\<lambda>(t', ts2).
              if tok t' = 0 then Inr (None, ts2)
              else Inr (Some (const_length q (tok_end t') loc), ts2))
            else Inr (Some (const_length q (tok_end t) loc), ts1))
          else find_const q loc ts1)"

declare find_const.simps [simp del]

text \<open>The outer loop over the sorted records.\<close>

fun fill_lengths :: "string \<Rightarrow> int \<Rightarrow> pgssLocationLen list \<Rightarrow> token list \<Rightarrow> pgssLocationLen list res" where
  "fill_lengths q last_loc [] ts = Inr []"
| "fill_lengths q last_loc (x # xs) ts =
     (if location x \<le> last_loc
      then bindE (fill_lengths q last_loc xs ts) (\<lambda>ys. Inr (x # ys))
      else
        bindE (find_const q (location x) ts) (\<lambda>(r, ts').
        case r of None \<Rightarrow> Inr (x # xs)
        | Some n \<Rightarrow>
            bindE (fill_lengths q (location x) xs ts') (\<lambda>ys. Inr (x\<lparr>loc_length := n\<rparr> # ys))))"

fun read_cells :: "'b block \<Rightarrow> int \<Rightarrow> nat \<Rightarrow> 'b list res" where
  "read_cells b i 0 = Inr []"
| "read_cells b i (Suc n) = bindE (load b i) (\<lambda>x. bindE (read_cells b (i + 1) n) (\<lambda>xs. Inr (x # xs)))"

definition fill_in_constant_lengths :: "pgssConstLocations \<Rightarrow> token list \<Rightarrow> pgssConstLocations res" where
  "fill_in_constant_lengths s ts =
     bindE (read_cells (clocations s) 0 (nat (clocations_count s))) (\<lambda>locs0.
     let locs = (if clocations_count s > 1 then pg_qsort comp_location locs0 else locs0) in
     bindE (fill_lengths (query s) (-1) locs ts) (\<lambda>locs.
     bindE (memcpy_to (clocations s) 0 (map Some locs)) (\<lambda>b.
     Inr (s\<lparr>clocations := b\<rparr>))))"

section \<open>The normalized query\<close>

fun digits :: "nat \<Rightarrow> nat \<Rightarrow> string" where
  "digits 0 n = []"
| "digits (Suc k) n = (if n < 10 then [char_of (48 + n)] else digits k (n div 10) @ [char_of (48 + n mod 10)])"

text \<open>The conversion \<^verbatim>\<open>%d\<close> of an \<^verbatim>\<open>int\<close>, which has at most ten digits.\<close>

definition format_d :: "int \<Rightarrow> string" where
  "format_d i = (if i < 0 then CHR ''-'' # digits 10 (nat (- i)) else digits 10 (nat i))"

record gen_state =
  norm_query :: "char block"
  quer_loc :: int
  n_quer_loc :: int
  last_off :: int
  last_tok_len :: int

definition c_string :: "string \<Rightarrow> char block" where
  "c_string q = map Some (q @ [CHR 0x00])"

definition param_number :: "int \<Rightarrow> int \<Rightarrow> int res" where
  "param_number highest_extern n = (if n < 0 then c_int (highest_extern + abs n) else Inr n)"

definition generate_step :: "string \<Rightarrow> int \<Rightarrow> int \<Rightarrow> pgssLocationLen \<Rightarrow> gen_state \<Rightarrow> gen_state res" where
  "generate_step q query_loc highest_extern x g =
     (let off = location x - query_loc; tok_len = loc_length x in
      if tok_len < 0 then Inr g
      else
        let len_to_wrt = off - last_off g - last_tok_len g in
        bindE (cells (c_string q) (quer_loc g) len_to_wrt) (\<lambda>chunk.
        bindE (memcpy_to (norm_query g) (n_quer_loc g) chunk) (\<lambda>b.
        bindE (param_number highest_extern (param_id x)) (\<lambda>number.
        let sym = CHR ''$'' # format_d number in
        bindE (memcpy_to b (n_quer_loc g + len_to_wrt) (c_string sym)) (\<lambda>b.
        Inr \<lparr>norm_query = b, quer_loc = off + tok_len, n_quer_loc = n_quer_loc g + len_to_wrt + int (length sym),
             last_off = off, last_tok_len = tok_len\<rparr>)))))"

fun generate_loop :: "string \<Rightarrow> int \<Rightarrow> int \<Rightarrow> pgssLocationLen list \<Rightarrow> gen_state \<Rightarrow> gen_state res" where
  "generate_loop q query_loc highest_extern [] g = Inr g"
| "generate_loop q query_loc highest_extern (x # xs) g =
     bindE (generate_step q query_loc highest_extern x g) (generate_loop q query_loc highest_extern xs)"

text \<open>What follows the loop: the rest of the query and the terminating zero.\<close>

definition generate_tail :: "string \<Rightarrow> int \<Rightarrow> gen_state \<Rightarrow> (char block \<times> int) res" where
  "generate_tail q len g =
     (let len_to_wrt = len - quer_loc g in
      bindE (cells (c_string q) (quer_loc g) len_to_wrt) (\<lambda>chunk.
      bindE (memcpy_to (norm_query g) (n_quer_loc g) chunk) (\<lambda>b.
      bindE (store b (n_quer_loc g + len_to_wrt) (CHR 0x00)) (\<lambda>b.
      Inr (b, n_quer_loc g + len_to_wrt)))))"

definition generate_normalized_query ::
  "pgssConstLocations \<Rightarrow> int \<Rightarrow> int \<Rightarrow> token list \<Rightarrow> (char block \<times> int) res" where
  "generate_normalized_query s0 query_loc len ts =
     bindE (fill_in_constant_lengths s0 ts) (\<lambda>s.
     bindE (c_int (clocations_count s * 10)) (\<lambda>extra.
     bindE (c_int (len + extra)) (\<lambda>norm_query_buflen.
     bindE (palloc 1 (norm_query_buflen + 1)) (\<lambda>b.
     bindE (read_cells (clocations s) 0 (nat (clocations_count s))) (\<lambda>locs.
     bindE (generate_loop (query s) query_loc (highest_extern_param_id s) locs
        \<lparr>norm_query = b, quer_loc = 0, n_quer_loc = 0, last_off = 0, last_tok_len = 0\<rparr>)
       (generate_tail (query s) len))))))"

section \<open>The entry point\<close>

record PgQueryNormalizeResult =
  normalized_query :: "string option"
  error :: "string option"

text \<open>\<^verbatim>\<open>strdup\<close> reads up to the first zero byte.\<close>

fun strdup :: "char block \<Rightarrow> string res" where
  "strdup [] = Inl OutOfBounds"
| "strdup (None # b) = Inl Uninitialised"
| "strdup (Some c # b) = (if c = CHR 0x00 then Inr [] else bindE (strdup b) (\<lambda>s. Inr (c # s)))"

text \<open>
  The body of the \<^verbatim>\<open>PG_TRY\<close> block. \<open>parse\<close> is \<^verbatim>\<open>raw_parser\<close>, \<open>scan\<close> the scanner; an error in
  the second half is raised through the exception stack that the walk has left.
\<close>

definition normalize_body ::
  "(string \<Rightarrow> node option list res) \<Rightarrow> (string \<Rightarrow> token list) \<Rightarrow> (node option \<Rightarrow> 64 word) \<Rightarrow> string \<Rightarrow> string recorder" where
  "normalize_body parse scan fingerprint input =
     bindS (tryS (parse input)) (\<lambda>tree.
     bindS (const_record_walker fingerprint (if tree = [] then None else Some (NList tree))) (\<lambda>_.
     bindS getS (\<lambda>s.
     bindS (tryS (generate_normalized_query s 0 (int (length input)) (scan input))) (\<lambda>(b, len).
     tryS (strdup b)))))"

text \<open>
  \<^verbatim>\<open>PG_CATCH\<close> turns an error that arrives into the result. Undefined behaviour does not
  arrive: it is the \<open>Inl\<close> of the model.
\<close>

definition pg_query_normalize ::
  "(string \<Rightarrow> node option list res) \<Rightarrow> (string \<Rightarrow> token list) \<Rightarrow> (node option \<Rightarrow> 64 word) \<Rightarrow> string \<Rightarrow>
   PgQueryNormalizeResult res" where
  "pg_query_normalize parse scan fingerprint input =
     (case fst (normalize_body parse scan fingerprint input (init_jstate input)) of
        Inr str \<Rightarrow> Inr \<lparr>normalized_query = Some str, error = None\<rparr>
      | Inl (Elog m) \<Rightarrow> Inr \<lparr>normalized_query = None, error = Some m\<rparr>
      | Inl e \<Rightarrow> Inl e)"

section \<open>Sorted locations\<close>

interpretation loc: comparator comp_location
  by unfold_locales (auto simp: comp_location_def split: if_splits)

lemma loc_le: "loc.le = (\<lambda>a b. location a \<le> location b)"
  by (auto simp: fun_eq_iff loc.le_def comp_location_def)

lemma sort_locations:
  "sorted (map location (pg_qsort comp_location xs))" "mset (pg_qsort comp_location xs) = mset xs"
  using loc.pg_qsort_sorted [of xs] by (simp_all add: sorted_map loc_le)

lemma read_cells_filled: "read_cells (map Some (as @ vs) @ rest) (int (length as)) (length vs) = Inr vs"
proof (induction vs arbitrary: as)
  case (Cons v vs)
  have "load (map Some (as @ v # vs) @ rest) (int (length as)) = Inr v"
    by (rule load_ok) (auto simp: nth_append)
  with Cons [of "as @ [v]"] show ?case by (simp add: add.commute)
qed simp

lemma read_cells_all: "filled b n vs \<Longrightarrow> read_cells b 0 (nat n) = Inr vs"
  using read_cells_filled [of "[]" vs] by (auto simp: filled_def)

section \<open>The scanner finds the constants\<close>

text \<open>
  The records that stand for a constant: the first of each location in the sorted array.
\<close>

fun firsts :: "int \<Rightarrow> pgssLocationLen list \<Rightarrow> pgssLocationLen list" where
  "firsts p [] = []"
| "firsts p (x # xs) = (if location x \<le> p then firsts p xs else x # firsts (location x) xs)"

text \<open>
  The tokens contain the constants at \<open>ls\<close>: each begins a token, and a minus sign is followed
  by the token of the number, which is not a constant of its own. \<open>const_lens\<close> are their lengths.
\<close>

fun consts_at :: "string \<Rightarrow> token list \<Rightarrow> int list \<Rightarrow> bool" where
  "consts_at q ts [] = True"
| "consts_at q [] (l # ls) = False"
| "consts_at q (t # ts) (l # ls) =
     (if tok t = 0 then False
      else if yylloc t = l
      then if q ! nat l = CHR ''-''
           then (case ts of [] \<Rightarrow> False | t' # ts' \<Rightarrow> tok t' \<noteq> 0 \<and> consts_at q ts' ls)
           else consts_at q ts ls
      else consts_at q ts (l # ls))"

fun const_lens :: "string \<Rightarrow> token list \<Rightarrow> int list \<Rightarrow> int list" where
  "const_lens q ts [] = []"
| "const_lens q [] (l # ls) = []"
| "const_lens q (t # ts) (l # ls) =
     (if yylloc t = l
      then if q ! nat l = CHR ''-''
           then (case ts of [] \<Rightarrow> [] | t' # ts' \<Rightarrow> const_length q (tok_end t') l # const_lens q ts' ls)
           else const_length q (tok_end t) l # const_lens q ts ls
      else const_lens q ts (l # ls))"

text \<open>The cuts, relative to the position \<open>p\<close> reached so far.\<close>

fun cuts_ok :: "int \<Rightarrow> int \<Rightarrow> int list \<Rightarrow> int list \<Rightarrow> bool" where
  "cuts_ok len p [] [] \<longleftrightarrow> p \<le> len"
| "cuts_ok len p (l # ls) (n # ns) \<longleftrightarrow> p \<le> l \<and> 1 \<le> n \<and> l + n \<le> len \<and> cuts_ok len (l + n) ls ns"
| "cuts_ok len p _ _ \<longleftrightarrow> False"

lemma cuts_ok_weaken: "cuts_ok len p ls ns \<Longrightarrow> p' \<le> p \<Longrightarrow> cuts_ok len p' ls ns"
  by (induction len p ls ns rule: cuts_ok.induct) auto

lemma scanbuf_from_length:
  assumes "CHR 0x00 \<notin> set q" "0 \<le> l" "l < e" "e \<le> int (length q)"
  shows "scanbuf_from q e l = take (nat (e - l)) (drop (nat l) q)"
proof -
  define i where "i = nat l"
  define k where "k = nat e - i"
  have ik: "nat e = i + k" "0 < k" "i + k \<le> length q" "nat (e - l) = k" "nat l = i"
    using assms by (auto simp: i_def k_def)
  define as where "as = take k (drop i q)"
  have las: "length as = k" using ik by (simp add: as_def)
  have d: "drop i (q[i + k := CHR 0x00]) = (drop i q)[k := CHR 0x00]" by (simp add: drop_update_swap)
  have nz: "\<forall>c \<in> set as. c \<noteq> CHR 0x00" using assms(1) by (auto simp: as_def dest!: in_set_takeD in_set_dropD)
  have "takeWhile (\<lambda>c. c \<noteq> CHR 0x00) ((drop i q)[k := CHR 0x00]) = as"
  proof (cases "k < length (drop i q)")
    case True
    then have "(drop i q)[k := CHR 0x00] = as @ CHR 0x00 # drop (Suc k) (drop i q)"
      by (simp add: as_def upd_conv_take_nth_drop)
    then show ?thesis using nz by (simp add: takeWhile_append)
  next
    case False
    then have "(drop i q)[k := CHR 0x00] = drop i q" by (intro list_update_beyond) simp
    then have "(drop i q)[k := CHR 0x00] = as" using False by (simp add: as_def)
    then show ?thesis using nz by simp
  qed
  then show ?thesis using ik d by (simp add: scanbuf_from_def as_def)
qed

lemma skip_space_back_le: "skip_space_back s n \<le> n"
  by (induction n) auto

lemma skip_space_back_pos: "0 < n \<Longrightarrow> \<not> scanner_isspace (s ! 0) \<Longrightarrow> 0 < skip_space_back s n"
proof (induction n)
  case (Suc n)
  then show ?case by (cases n) auto
qed simp

lemma const_length_bounds:
  assumes "CHR 0x00 \<notin> set q" "0 \<le> l" "l < e" "e \<le> int (length q)"
  shows "1 \<le> const_length q e l \<and> l + const_length q e l \<le> e"
proof -
  define s where "s = scanbuf_from q e l"
  have n: "length s = nat (e - l)" using assms by (simp add: s_def scanbuf_from_length)
  show ?thesis
  proof (cases "length s > 4 \<and> (s ! 0 = CHR ''u'' \<or> s ! 0 = CHR ''U'') \<and> s ! 1 = CHR ''&'' \<and> s ! 2 = CHR 0x27")
    case True
    then have "\<not> scanner_isspace (s ! 0)" by (auto simp: scanner_isspace_def)
    then have "0 < skip_space_back s (length s)" using True by (intro skip_space_back_pos) auto
    then show ?thesis
      using True skip_space_back_le [of s "length s"] n assms
      by (auto simp: const_length_def Let_def simp flip: s_def)
  next
    case False
    then have "const_length q e l = int (length s)" by (auto simp: const_length_def Let_def simp flip: s_def)
    then show ?thesis using n assms by auto
  qed
qed

lemma consts_cuts:
  assumes "CHR 0x00 \<notin> set q" "lexes q p ts" "consts_at q ts ls" "0 \<le> p" "p \<le> int (length q)"
  shows "cuts_ok (int (length q)) p ls (const_lens q ts ls)"
  using assms
proof (induction q ts ls arbitrary: p rule: const_lens.induct)
  case (3 q t ts l ls)
  then have t: "tok t \<noteq> 0" "p \<le> yylloc t" "yylloc t < tok_end t" "tok_end t \<le> int (length q)" "lexes q (tok_end t) ts"
    by (auto split: if_splits)
  show ?case
  proof (cases "yylloc t = l")
    case False
    then have "cuts_ok (int (length q)) (tok_end t) (l # ls) (const_lens q ts (l # ls))"
      using 3 t by (intro 3(3)) auto
    then show ?thesis using False t cuts_ok_weaken by simp
  next
    case l: True
    show ?thesis
    proof (cases "q ! nat l = CHR ''-''")
      case False
      then have "cuts_ok (int (length q)) (tok_end t) ls (const_lens q ts ls)"
        using 3 t l by (intro 3(2)) auto
      moreover have "1 \<le> const_length q (tok_end t) l \<and> l + const_length q (tok_end t) l \<le> tok_end t"
        using 3 t l by (intro const_length_bounds) auto
      ultimately show ?thesis using False t l by (auto intro: cuts_ok_weaken)
    next
      case True
      then obtain t' ts' where ts: "ts = t' # ts'" "tok t' \<noteq> 0" "consts_at q ts' ls"
        using 3(6) t l by (auto split: list.splits)
      with t have t': "tok_end t \<le> yylloc t'" "yylloc t' < tok_end t'" "tok_end t' \<le> int (length q)" "lexes q (tok_end t') ts'"
        by auto
      then have "cuts_ok (int (length q)) (tok_end t') ls (const_lens q ts' ls)"
        using 3 t l ts True by (intro 3(1)) auto
      moreover have "1 \<le> const_length q (tok_end t') l \<and> l + const_length q (tok_end t') l \<le> tok_end t'"
        using 3 t t' l by (intro const_length_bounds) auto
      ultimately show ?thesis using True t t' l ts by (auto intro: cuts_ok_weaken)
    qed
  qed
qed auto

lemma find_const_spec:
  assumes "CHR 0x00 \<notin> set q" "lexes q p ts" "consts_at q ts (l # ls)" "0 \<le> p" "p \<le> int (length q)"
  shows "\<exists>n ts' p'. find_const q l ts = Inr (Some n, ts') \<and> const_lens q ts (l # ls) = n # const_lens q ts' ls \<and>
     consts_at q ts' ls \<and> (ls = [] \<or> lexes q p' ts' \<and> 0 \<le> p' \<and> p' \<le> int (length q))"
  using assms(2-5)
proof (induction ts arbitrary: p)
  case (Cons t ts)
  then have t: "tok t \<noteq> 0" "p \<le> yylloc t" "yylloc t < tok_end t" "tok_end t \<le> int (length q)" "lexes q (tok_end t) ts"
    by (auto split: if_splits)
  show ?case
  proof (cases "yylloc t = l")
    case False
    then have c: "consts_at q ts (l # ls)" using Cons.prems t by simp
    have "tok_end t \<le> l"
      using consts_cuts [OF assms(1) t(5) c] Cons.prems t by (cases "const_lens q ts (l # ls)") auto
    then have "find_const q l (t # ts) = find_const q l ts" using t by (simp add: find_const.simps [of q l "t # ts"])
    moreover have "const_lens q (t # ts) (l # ls) = const_lens q ts (l # ls)" using False by simp
    moreover have "0 \<le> tok_end t" using t Cons.prems by linarith
    ultimately show ?thesis using Cons.IH [OF t(5) c] t by simp
  next
    case l: True
    have c: "c_char q l = Inr (q ! nat l)" using t l Cons.prems by (auto simp: c_char_def)
    show ?thesis
    proof (cases "q ! nat l = CHR ''-''")
      case False
      then have "find_const q l (t # ts) = Inr (Some (const_length q (tok_end t) l), ts)"
        "const_lens q (t # ts) (l # ls) = const_length q (tok_end t) l # const_lens q ts ls" "consts_at q ts ls"
        using t l c Cons.prems by (auto simp: find_const.simps [of q l "t # ts"])
      moreover have "0 \<le> tok_end t" using t Cons.prems by linarith
      ultimately show ?thesis using t by blast
    next
      case True
      then obtain t' ts' where ts: "ts = t' # ts'" "tok t' \<noteq> 0" "consts_at q ts' ls"
        using Cons.prems t l by (auto split: list.splits)
      with t have t': "tok_end t \<le> yylloc t'" "yylloc t' < tok_end t'" "tok_end t' \<le> int (length q)" "lexes q (tok_end t') ts'"
        by auto
      have "find_const q l (t # ts) = Inr (Some (const_length q (tok_end t') l), ts')"
        "const_lens q (t # ts) (l # ls) = const_length q (tok_end t') l # const_lens q ts' ls"
        using True t l c ts by (auto simp: find_const.simps [of q l "t # t' # ts'"] core_yylex_def)
      moreover have "0 \<le> tok_end t'" using t t' Cons.prems by linarith
      ultimately show ?thesis using t' ts by blast
    qed
  qed
qed simp

lemma fill_lengths_spec:
  assumes "CHR 0x00 \<notin> set q" "\<forall>x \<in> set xs. loc_length x = -1"
    and "consts_at q ts (map location (firsts lo xs))"
    and "firsts lo xs = [] \<or> lexes q p ts \<and> 0 \<le> p \<and> p \<le> int (length q)"
  shows "\<exists>ys. fill_lengths q lo xs ts = Inr ys \<and> length ys = length xs \<and>
     filter (\<lambda>y. 0 \<le> loc_length y) ys =
       map2 (\<lambda>x n. x\<lparr>loc_length := n\<rparr>) (firsts lo xs) (const_lens q ts (map location (firsts lo xs)))"
  using assms(2-4)
proof (induction xs arbitrary: lo ts p)
  case (Cons x xs)
  show ?case
  proof (cases "location x \<le> lo")
    case True
    with Cons.IH [where lo = lo and ts = ts and p = p] Cons.prems show ?thesis by fastforce
  next
    case False
    let ?l = "location x" and ?ls = "map location (firsts (location x) xs)"
    from False Cons.prems have "lexes q p ts" "consts_at q ts (?l # ?ls)" "0 \<le> p" "p \<le> int (length q)" by auto
    note here = this
    from find_const_spec [OF assms(1) here] obtain n ts' p' where
      f: "find_const q ?l ts = Inr (Some n, ts')" "const_lens q ts (?l # ?ls) = n # const_lens q ts' ?ls"
      "consts_at q ts' ?ls" "?ls = [] \<or> lexes q p' ts' \<and> 0 \<le> p' \<and> p' \<le> int (length q)" by blast
    have "1 \<le> n" using consts_cuts [OF assms(1) here] f(2) by simp
    from Cons.IH [of ts' ?l p'] f(3,4) Cons.prems(1) obtain ys where
      "fill_lengths q ?l xs ts' = Inr ys" "length ys = length xs"
      "filter (\<lambda>y. 0 \<le> loc_length y) ys = map2 (\<lambda>x n. x\<lparr>loc_length := n\<rparr>) (firsts ?l xs) (const_lens q ts' ?ls)"
      by auto
    with f False \<open>1 \<le> n\<close> show ?thesis by auto
  qed
qed simp

section \<open>The generated text\<close>

text \<open>A query with some pieces replaced: \<open>(offset, length, replacement)\<close> in ascending order.\<close>

fun splice_at :: "string \<Rightarrow> int \<Rightarrow> (int \<times> int \<times> string) list \<Rightarrow> string" where
  "splice_at q p [] = drop (nat p) q"
| "splice_at q p ((l, n, new) # cs) = take (nat (l - p)) (drop (nat p) q) @ new @ splice_at q (l + n) cs"

definition symbol :: "int \<Rightarrow> string" where
  "symbol k = CHR ''$'' # format_d k"

lemma digits_length: "length (digits k n) \<le> k"
  by (induction k n rule: digits.induct) auto

lemma digits_nonzero: "CHR 0x00 \<notin> set (digits k n)"
proof (induction k n rule: digits.induct)
  case (2 k n)
  have "char_of (48 + n mod 10) \<noteq> CHR 0x00" "n < 10 \<Longrightarrow> char_of (48 + n) \<noteq> CHR 0x00"
    by (auto dest!: arg_cong [of _ _ "of_char :: char \<Rightarrow> nat"] simp: take_bit_eq_mod)
  with 2 show ?case by auto
qed simp

lemma symbol_bounds: "0 \<le> k \<Longrightarrow> length (symbol k) \<le> 11 \<and> CHR 0x00 \<notin> set (symbol k)"
  using digits_length [of 10 "nat k"] digits_nonzero [of 10 "nat k"] by (auto simp: symbol_def format_d_def)

lemma query_cells:
  "0 \<le> p \<Longrightarrow> p \<le> l \<Longrightarrow> l \<le> int (length q) \<Longrightarrow>
   cells (c_string q) p (l - p) = Inr (map Some (take (nat (l - p)) (drop (nat p) q)))"
  using cells_ok [of "nat p" "nat (l - p)" "c_string q"]
  by (simp add: c_string_def take_map drop_map flip: map_append)

lemma memcpy_split:
  assumes "b = map Some out @ rest" "length chunk \<le> length rest" "n = int (length out)"
  shows "memcpy_to b n (map Some chunk) = Inr (map Some (out @ chunk) @ drop (length chunk) rest)"
  using assms memcpy_to_ok [of "length out" "map Some chunk" b] by simp

text \<open>What is written so far, with room for the rest and for \<open>k\<close> symbols longer than their constants.\<close>

definition gen_ok :: "string \<Rightarrow> gen_state \<Rightarrow> string \<Rightarrow> int \<Rightarrow> nat \<Rightarrow> bool" where
  "gen_ok q g out p k \<longleftrightarrow>
     (\<exists>rest. norm_query g = map Some out @ rest \<and> int (length q) - p + 10 * int k + 1 \<le> int (length rest)) \<and>
     n_quer_loc g = int (length out) \<and> quer_loc g = p \<and> last_off g + last_tok_len g = p \<and> 0 \<le> p"

lemma generate_step_spec:
  assumes g: "gen_ok q g out p (Suc k)" and x: "p \<le> location x" "1 \<le> loc_length x" "location x + loc_length x \<le> int (length q)"
    and id: "param_number high (param_id x) = Inr i" "0 \<le> i"
  shows "\<exists>g'. generate_step q 0 high x g = Inr g' \<and>
     gen_ok q g' (out @ take (nat (location x - p)) (drop (nat p) q) @ symbol i) (location x + loc_length x) k"
proof -
  define chunk where "chunk = take (nat (location x - p)) (drop (nat p) q)"
  from g obtain rest where r: "norm_query g = map Some out @ rest" "int (length q) - p + 10 * int (Suc k) + 1 \<le> int (length rest)"
    "n_quer_loc g = int (length out)" "quer_loc g = p" "last_off g + last_tok_len g = p" "0 \<le> p"
    by (auto simp: gen_ok_def)
  have len: "int (length chunk) = location x - p" using x r(6) by (simp add: chunk_def)
  have sym: "length (symbol i) \<le> 11" using symbol_bounds [OF id(2)] by simp
  have lw: "location x - last_off g - last_tok_len g = location x - p" using r(5) by simp
  have "cells (c_string q) p (location x - p) = Inr (map Some chunk)"
    unfolding chunk_def by (rule query_cells) (use x r in auto)
  moreover have "memcpy_to (norm_query g) (n_quer_loc g) (map Some chunk) = Inr (map Some (out @ chunk) @ drop (length chunk) rest)"
    by (rule memcpy_split) (use r len x in auto)
  moreover have "memcpy_to (map Some (out @ chunk) @ drop (length chunk) rest) (n_quer_loc g + (location x - p)) (c_string (symbol i)) =
      Inr (map Some ((out @ chunk) @ symbol i @ [CHR 0x00]) @ drop (length (symbol i @ [CHR 0x00])) (drop (length chunk) rest))"
    unfolding c_string_def by (rule memcpy_split [OF refl]) (use r len x sym in auto)
  ultimately have "generate_step q 0 high x g = Inr \<lparr>norm_query =
      map Some ((out @ chunk) @ symbol i @ [CHR 0x00]) @ drop (length (symbol i @ [CHR 0x00])) (drop (length chunk) rest),
      quer_loc = location x + loc_length x, n_quer_loc = n_quer_loc g + (location x - p) + int (length (symbol i)),
      last_off = location x, last_tok_len = loc_length x\<rparr>" (is "_ = Inr ?g'")
    using x id r(1,3,4) by (simp add: generate_step_def Let_def symbol_def lw)
  moreover have "gen_ok q ?g' (out @ chunk @ symbol i) (location x + loc_length x) k"
    using r len sym x unfolding gen_ok_def
    by (auto intro!: exI [of _ "Some (CHR 0x00) # drop (length (symbol i @ [CHR 0x00])) (drop (length chunk) rest)"])
  ultimately show ?thesis unfolding chunk_def by blast
qed

lemma generate_spec:
  assumes "gen_ok q g out p (length ys)" "cuts_ok (int (length q)) p (map location ys) (map loc_length ys)"
    and "list_all2 (\<lambda>y i. param_number high (param_id y) = Inr i \<and> 0 \<le> i) ys ids"
  shows "\<exists>rest. bindE (generate_loop q 0 high ys g) (generate_tail q (int (length q))) =
     (let t = out @ splice_at q p (map2 (\<lambda>y i. (location y, loc_length y, symbol i)) ys ids)
      in Inr (map Some t @ Some (CHR 0x00) # rest, int (length t)))"
  using assms
proof (induction ys arbitrary: g out p ids)
  case Nil
  then obtain rest where r: "norm_query g = map Some out @ rest" "int (length q) - p + 1 \<le> int (length rest)"
    "n_quer_loc g = int (length out)" "quer_loc g = p" "0 \<le> p" "p \<le> int (length q)"
    by (auto simp: gen_ok_def)
  define chunk where "chunk = drop (nat p) q"
  have len: "int (length chunk) = int (length q) - p" using r by (simp add: chunk_def)
  obtain c rest' where rest: "drop (length chunk) rest = c # rest'"
    using r(2) len by (cases "drop (length chunk) rest") auto
  have "cells (c_string q) p (int (length q) - p) = Inr (map Some chunk)"
    using query_cells [of p "int (length q)" q] r by (simp add: chunk_def)
  moreover have "memcpy_to (norm_query g) (n_quer_loc g) (map Some chunk) = Inr (map Some (out @ chunk) @ c # rest')"
    using memcpy_split [OF r(1), of chunk "n_quer_loc g"] r len rest by simp
  moreover have "store (map Some (out @ chunk) @ c # rest') (n_quer_loc g + (int (length q) - p)) (CHR 0x00) =
      Inr (map Some (out @ chunk) @ Some (CHR 0x00) # rest')"
    by (rule store_split) (use r len in simp)
  ultimately show ?case using Nil r len by (auto simp: generate_tail_def Let_def chunk_def)
next
  case (Cons y ys)
  then obtain i is' where ids: "ids = i # is'" "param_number high (param_id y) = Inr i" "0 \<le> i"
    "list_all2 (\<lambda>y i. param_number high (param_id y) = Inr i \<and> 0 \<le> i) ys is'"
    by (auto simp: list_all2_Cons1)
  have c: "p \<le> location y" "1 \<le> loc_length y" "location y + loc_length y \<le> int (length q)"
    "cuts_ok (int (length q)) (location y + loc_length y) (map location ys) (map loc_length ys)"
    using Cons.prems(2) by auto
  have "gen_ok q g out p (Suc (length ys))" using Cons.prems(1) by simp
  from generate_step_spec [OF this c(1-3) ids(2,3)] obtain g' where
    g': "generate_step q 0 high y g = Inr g'"
    "gen_ok q g' (out @ take (nat (location y - p)) (drop (nat p) q) @ symbol i) (location y + loc_length y) (length ys)"
    by blast
  from Cons.IH [OF g'(2) c(4) ids(4)] g'(1) ids(1) show ?case by simp
qed

lemma generate_loop_filter:
  "generate_loop q p high xs g = generate_loop q p high (filter (\<lambda>x. 0 \<le> loc_length x) xs) g"
proof (induction xs arbitrary: g)
  case (Cons x xs)
  have "generate_step q p high x g = Inr g" if "\<not> 0 \<le> loc_length x" using that by (simp add: generate_step_def)
  with Cons show ?case by (cases "generate_step q p high x g") auto
qed simp

lemma strdup_string: "CHR 0x00 \<notin> set t \<Longrightarrow> strdup (map Some t @ Some (CHR 0x00) # rest) = Inr t"
  by (induction t) auto

section \<open>Putting it together\<close>

lemma firsts_set:
  "sorted (map location xs) \<Longrightarrow> set (map location (firsts p xs)) = {l \<in> set (map location xs). p < l} \<and>
   sorted (map location (firsts p xs)) \<and> distinct (map location (firsts p xs))"
proof (induction p xs rule: firsts.induct)
  case (2 p x xs)
  then show ?case by (cases "location x \<le> p") force+
qed simp

lemma firsts_sublist: "set (firsts p xs) \<subseteq> set xs"
  by (induction p xs rule: firsts.induct) auto

lemma firsts_locations:
  assumes "sorted (map location xs)" "\<forall>x \<in> set xs. 0 \<le> location x"
  shows "map location (firsts (-1) xs) = sorted_list_of_set (set (map location xs))"
proof -
  have "{l \<in> set (map location xs). -1 < l} = set (map location xs)" using assms(2) by auto
  then show ?thesis
    using firsts_set [OF assms(1), of "-1"] by (intro sorted_distinct_set_unique) simp_all
qed

lemma fill_in_spec:
  assumes ok: "filled (clocations s) (clocations_count s) (clocs s)" "\<forall>x \<in> set (clocs s). 0 \<le> location x \<and> loc_length x = -1"
    and nz: "CHR 0x00 \<notin> set (query s)" and lex: "lexes (query s) 0 ts"
    and toks: "consts_at (query s) ts (sorted_list_of_set (set (map location (clocs s))))"
  obtains s' xs ys where "fill_in_constant_lengths s ts = Inr s'" "s' = s\<lparr>clocations := clocations s'\<rparr>"
    "filled (clocations s') (clocations_count s) ys" "set xs \<subseteq> set (clocs s)"
    "map location xs = sorted_list_of_set (set (map location (clocs s)))"
    "filter (\<lambda>y. 0 \<le> loc_length y) ys =
       map2 (\<lambda>x n. x\<lparr>loc_length := n\<rparr>) xs (const_lens (query s) ts (map location xs))"
proof -
  define zs where "zs = (if clocations_count s > 1 then pg_qsort comp_location (clocs s) else clocs s)"
  from ok(1) obtain rest where b: "clocations s = map Some (clocs s) @ rest" "int (length (clocs s)) = clocations_count s"
    by (auto simp: filled_def)
  have m: "mset zs = mset (clocs s)" by (simp add: zs_def)
  then have set: "set zs = set (clocs s)" and len: "length zs = length (clocs s)"
    by (metis set_mset_mset) (use m in \<open>metis size_mset\<close>)
  have "sorted (map location zs)"
  proof (cases "clocations_count s > 1")
    case False
    then have "length zs \<le> 1" using b(2) len by simp
    then show ?thesis by (cases zs) auto
  qed (simp add: zs_def sort_locations)
  then have locs: "map location (firsts (-1) zs) = sorted_list_of_set (set (map location (clocs s)))"
    using firsts_locations [of zs] ok(2) set by simp
  have "\<forall>x \<in> set zs. loc_length x = -1" using ok(2) set by auto
  from fill_lengths_spec [OF nz this, of ts "-1" 0] toks lex locs obtain ys where
    ys: "fill_lengths (query s) (-1) zs ts = Inr ys" "length ys = length zs"
    "filter (\<lambda>y. 0 \<le> loc_length y) ys =
      map2 (\<lambda>x n. x\<lparr>loc_length := n\<rparr>) (firsts (-1) zs) (const_lens (query s) ts (map location (firsts (-1) zs)))" by auto
  have r: "read_cells (clocations s) 0 (nat (clocations_count s)) = Inr (clocs s)"
    by (rule read_cells_all [OF ok(1)])
  have "memcpy_to (clocations s) 0 (map Some ys) = Inr (map Some ys @ drop (length ys) (clocations s))"
    using memcpy_to_ok [of 0 "map Some ys" "clocations s"] b ys(2) len by simp
  then have "fill_in_constant_lengths s ts = Inr (s\<lparr>clocations := map Some ys @ drop (length ys) (clocations s)\<rparr>)"
    using r ys(1) by (simp add: fill_in_constant_lengths_def zs_def)
  then show thesis
    using that [of "s\<lparr>clocations := map Some ys @ drop (length ys) (clocations s)\<rparr>" ys "firsts (-1) zs"] locs ys firsts_sublist [of "-1" zs] set b len
    by (simp add: filled_def)
qed

definition final_number :: "int \<Rightarrow> int \<Rightarrow> int" where
  "final_number high i = (if i < 0 then high - i else i)"

lemma cuts_ok_length: "cuts_ok len p ls ns \<Longrightarrow> length ls = length ns"
  by (induction len p ls ns rule: cuts_ok.induct) auto

lemma zip_cuts:
  "length xs = length ns \<Longrightarrow>
   map2 (\<lambda>y i. (location y, loc_length y, symbol i)) (map2 (\<lambda>x n. x\<lparr>loc_length := n\<rparr>) xs ns) (map f xs) =
   zip (map location xs) (zip ns (map (\<lambda>x. symbol (f x)) xs))"
  by (induction xs ns rule: list_induct2) auto

lemma map2_fields:
  "length xs = length ns \<Longrightarrow>
   map location (map2 (\<lambda>x n. x\<lparr>loc_length := n\<rparr>) xs ns) = map location xs \<and>
   map loc_length (map2 (\<lambda>x n. x\<lparr>loc_length := n\<rparr>) xs ns) = ns"
  by (induction xs ns rule: list_induct2) auto

lemma splice_at_nonzero:
  "CHR 0x00 \<notin> set q \<Longrightarrow> \<forall>c \<in> set cs. CHR 0x00 \<notin> set (snd (snd c)) \<Longrightarrow> CHR 0x00 \<notin> set (splice_at q p cs)"
  by (induction q p cs rule: splice_at.induct) (auto dest: in_set_takeD in_set_dropD)

lemma param_number_ok:
  assumes "id_ok s i" "highest_normalize_param_id s \<le> clocations_count s + 1"
    "highest_extern_param_id s + clocations_count s \<le> INT_MAX" "0 \<le> highest_extern_param_id s"
  shows "param_number (highest_extern_param_id s) i = Inr (final_number (highest_extern_param_id s) i) \<and>
     0 \<le> final_number (highest_extern_param_id s) i"
  using assms by (auto simp: param_number_def final_number_def id_ok_def c_int_def)

lemma generate_normalized_query_spec:
  assumes ok: "rec_ok s" and nz: "CHR 0x00 \<notin> set (query s)" and lex: "lexes (query s) 0 ts"
    and toks: "consts_at (query s) ts (sorted_list_of_set (set (map location (clocs s))))"
    and size: "int (length (query s)) + 10 * clocations_count s < MaxAllocSize"
    and high: "highest_extern_param_id s + clocations_count s \<le> INT_MAX"
  shows "\<exists>b len xs. generate_normalized_query s 0 (int (length (query s))) ts = Inr (b, len) \<and>
     set xs \<subseteq> set (clocs s) \<and> map location xs = sorted_list_of_set (set (map location (clocs s))) \<and>
     strdup b = Inr (splice_at (query s) 0 (zip (map location xs) (zip (const_lens (query s) ts (map location xs))
       (map (\<lambda>x. symbol (final_number (highest_extern_param_id s) (param_id x))) xs))))"
proof -
  have f: "filled (clocations s) (clocations_count s) (clocs s)" "\<forall>x \<in> set (clocs s). 0 \<le> location x \<and> loc_length x = -1"
    using ok by (auto simp: rec_ok_def list_all_iff entry_ok_def)
  obtain s' xs ys where fi: "fill_in_constant_lengths s ts = Inr s'"
    "s' = s\<lparr>clocations := clocations s'\<rparr>" "filled (clocations s') (clocations_count s) ys" "set xs \<subseteq> set (clocs s)"
    "map location xs = sorted_list_of_set (set (map location (clocs s)))"
    "filter (\<lambda>y. 0 \<le> loc_length y) ys = map2 (\<lambda>x n. x\<lparr>loc_length := n\<rparr>) xs (const_lens (query s) ts (map location xs))"
    by (rule fill_in_spec [OF f nz lex toks])
  have r: "rec_ok s" "0 \<le> highest_extern_param_id s" "highest_normalize_param_id s \<le> clocations_count s + 1"
    "0 \<le> clocations_count s"
    using ok by (auto simp: rec_ok_def filled_def)
  define q where "q = query s"
  define ns where "ns = const_lens q ts (map location xs)"
  define act where "act = map2 (\<lambda>x n. x\<lparr>loc_length := n\<rparr>) xs ns"
  define ids where "ids = map (\<lambda>x. final_number (highest_extern_param_id s) (param_id x)) xs"
  have cuts: "cuts_ok (int (length q)) 0 (map location xs) ns"
    unfolding ns_def q_def by (rule consts_cuts [OF nz lex]) (use fi(5) toks in auto)
  then have len: "length xs = length ns" by (auto dest: cuts_ok_length)
  have "id_ok s (param_id x)" if "x \<in> set xs" for x
    using that fi(4) ok by (auto simp: rec_ok_def list_all_iff entry_ok_def)
  then have num: "param_number (highest_extern_param_id s) (param_id x) =
      Inr (final_number (highest_extern_param_id s) (param_id x)) \<and> 0 \<le> final_number (highest_extern_param_id s) (param_id x)"
    if "x \<in> set xs" for x
    using param_number_ok [OF _ r(3) high r(2)] that by blast
  then have nums: "list_all2 (\<lambda>y i. param_number (highest_extern_param_id s) (param_id y) = Inr i \<and> 0 \<le> i) act ids"
    using len by (auto simp: act_def ids_def list_all2_conv_all_nth)
  have act: "filter (\<lambda>y. 0 \<le> loc_length y) ys = act" using fi(6) by (simp add: act_def ns_def q_def)
  have cells: "read_cells (clocations s') 0 (nat (clocations_count s)) = Inr ys" by (rule read_cells_all [OF fi(3)])
  have "length act \<le> length ys" unfolding act [symmetric] by (rule length_filter_le)
  then have "gen_ok q \<lparr>norm_query = replicate (nat (int (length q) + clocations_count s * 10 + 1)) None, quer_loc = 0,
      n_quer_loc = 0, last_off = 0, last_tok_len = 0\<rparr> [] 0 (length act)"
    using fi(3) by (simp add: gen_ok_def filled_def)
  from generate_spec [OF this _ nums] cuts map2_fields [OF len, folded act_def] obtain rest' where
    gen: "bindE (generate_loop q 0 (highest_extern_param_id s) act \<lparr>norm_query =
        replicate (nat (int (length q) + clocations_count s * 10 + 1)) None, quer_loc = 0,
        n_quer_loc = 0, last_off = 0, last_tok_len = 0\<rparr>) (generate_tail q (int (length q))) =
      (let t = splice_at q 0 (map2 (\<lambda>y i. (location y, loc_length y, symbol i)) act ids)
       in Inr (map Some t @ Some (CHR 0x00) # rest', int (length t)))"
    by auto
  have sel: "clocations_count s' = clocations_count s" "query s' = q" "highest_extern_param_id s' = highest_extern_param_id s"
    by (subst fi(2), simp add: q_def)+
  have alloc: "c_int (clocations_count s * 10) = Inr (clocations_count s * 10)"
    "c_int (int (length q) + clocations_count s * 10) = Inr (int (length q) + clocations_count s * 10)"
    "(palloc 1 (int (length q) + clocations_count s * 10 + 1) :: char block res) =
      Inr (replicate (nat (int (length q) + clocations_count s * 10 + 1)) None)"
    using size r(4) by (auto simp: c_int_def q_def palloc_def)
  let ?t = "splice_at q 0 (zip (map location xs) (zip ns (map (\<lambda>x. symbol (final_number (highest_extern_param_id s) (param_id x))) xs)))"
  have "generate_normalized_query s 0 (int (length q)) ts = Inr (map Some ?t @ Some (CHR 0x00) # rest', int (length ?t))"
    using gen zip_cuts [OF len, of "\<lambda>x. final_number (highest_extern_param_id s) (param_id x)"]
    by (simp add: generate_normalized_query_def fi(1) sel alloc cells generate_loop_filter [of _ _ _ ys] act Let_def
        flip: act_def ids_def)
  moreover have "CHR 0x00 \<notin> set ?t"
    using num nz symbol_bounds by (intro splice_at_nonzero) (auto simp: q_def dest!: set_zip_rightD)
  ultimately show ?thesis
    using fi(4,5) strdup_string [of ?t rest'] unfolding ns_def q_def by blast
qed

section \<open>Properties\<close>

lemma walk_result:
  assumes "tree_ok (Some (NList stmts))" and "int (length (recorded input (Some (NList stmts)))) \<le> WALK_MAX"
  obtains s where "const_record_walker fingerprint (if stmts = [] then None else Some (NList stmts)) (init_jstate input) =
      (Inr False, s)" "rec_ok s" "ext (init_jstate input) s (recorded input (Some (NList stmts)))"
proof -
  let ?x = "if stmts = [] then None else Some (NList stmts)"
  have "recorded input ?x = recorded input (Some (NList stmts))"
    by (simp add: recorded.simps own_items_def visits_def single_field_def)
  moreover have "tree_ok ?x" using assms(1) by (auto simp: tree_ok_def [of None])
  ultimately show thesis
    using walksD [OF const_record_walker_walks [of ?x], of input "init_jstate input"] init_pre [OF assms(2)] that by metis
qed

text \<open>
  C2: pg_query_normalize replaces exactly the constants. For an input that parses to a
  tree of the usual shape, with a scanner that works as documented and finds the recorded
  constants at the beginning of tokens, the result is the input in which each recorded
  constant, with the length the scanner gives it, is replaced by a parameter symbol, and
  everything else is unchanged. The computed buffer size is always enough, nothing is
  written outside it, no integer overflows, and no error is reported.
\<close>

theorem pg_query_normalize_correct:
  fixes input and stmts and parse and scan
  defines "items \<equiv> recorded input (Some (NList stmts))"
  defines "locs \<equiv> sorted_list_of_set (set (const_locs items))"
  assumes "parse input = Inr stmts" and "tree_ok (Some (NList stmts))" and "int (length items) \<le> WALK_MAX"
    and "CHR 0x00 \<notin> set input" and "lexes input 0 (scan input)" and "consts_at input (scan input) locs"
    and "int (length input) + 10 * int (length items) < MaxAllocSize"
    and "\<forall>x \<in> set items. case x of Par k \<Rightarrow> k + int (length items) \<le> INT_MAX | Const i \<Rightarrow> True"
  shows "\<exists>numbers. length numbers = length locs \<and> (\<forall>n \<in> set numbers. 0 \<le> n) \<and>
     pg_query_normalize parse scan fingerprint input =
       Inr \<lparr>normalized_query = Some (splice_at input 0 (zip locs (zip (const_lens input (scan input) locs) (map symbol numbers)))),
            error = None\<rparr>"
proof -
  from walk_result [OF assms(4,5) [unfolded items_def]] obtain s where
    s: "const_record_walker fingerprint (if stmts = [] then None else Some (NList stmts)) (init_jstate input) = (Inr False, s)"
    "rec_ok s" "ext (init_jstate input) s items" unfolding items_def by blast
  have e: "map location (clocs s) = const_locs items" "query s = input" "clocations_count s = int (length (const_locs items))"
    "highest_extern_param_id s = 0 \<or> Par (highest_extern_param_id s) \<in> set items"
    using s(3) by (auto simp: ext_def grows_def init_rec_ok)
  have n: "length (const_locs items) \<le> length items" by (rule length_const_locs)
  have "highest_extern_param_id s + clocations_count s \<le> INT_MAX"
    using e(3,4) n assms(5,10) by fastforce
  moreover have "int (length (query s)) + 10 * clocations_count s < MaxAllocSize" using assms(9) n e(2,3) by simp
  ultimately obtain b len xs where g: "generate_normalized_query s 0 (int (length (query s))) (scan input) = Inr (b, len)"
    "set xs \<subseteq> set (clocs s)" "map location xs = locs"
    "strdup b = Inr (splice_at input 0 (zip locs (zip (const_lens input (scan input) locs)
       (map (\<lambda>x. symbol (final_number (highest_extern_param_id s) (param_id x))) xs))))"
    using generate_normalized_query_spec [of s "scan input"] s(2) assms(6-8) e(1,2) by (auto simp: locs_def)
  define numbers where "numbers = map (\<lambda>x. final_number (highest_extern_param_id s) (param_id x)) xs"
  have "0 \<le> highest_extern_param_id s" using s(2) by (simp add: rec_ok_def)
  then have "\<forall>n \<in> set numbers. 0 \<le> n"
    using s(2) g(2) by (auto simp: numbers_def final_number_def rec_ok_def list_all_iff entry_ok_def id_ok_def)
  moreover have "length numbers = length locs" using g(3) by (auto simp: numbers_def)
  moreover have "fst (normalize_body parse scan fingerprint input (init_jstate input)) =
      Inr (splice_at input 0 (zip locs (zip (const_lens input (scan input) locs) (map symbol numbers))))"
    using assms(3) s(1) g(1,4) e(2) by (simp add: normalize_body_def tryS_def bindS_def getS_def numbers_def comp_def)
  ultimately show ?thesis by (auto simp: pg_query_normalize_def)
qed

definition demo_tokens :: "token list" where
  "demo_tokens = map (\<lambda>(c, l, e). \<lparr>tok = c, yylloc = l, tok_end = e\<rparr>)
     [(600, 0, 6), (261, 7, 10), (44, 10, 11), (265, 12, 14), (43, 15, 16), (266, 17, 18), (432, 19, 23), (258, 24, 25),
      (447, 26, 31), (290, 32, 34), (261, 35, 38), (533, 39, 44), (290, 45, 47), (266, 48, 49), (0, 49, 49)]"

definition demo_stmts :: "node option list" where
  "demo_stmts = elems (Some demo_select)"

lemma demo_facts:
  "Some (NList demo_stmts) = Some demo_select" "tree_ok (Some (NList demo_stmts))"
  "recorded demo_query (Some (NList demo_stmts)) = [Const 7, Par 2, Const 17, Const 35]"
  "CHR 0x00 \<notin> set demo_query" "lexes demo_query 0 demo_tokens" "consts_at demo_query demo_tokens [7, 17, 35]"
  "const_lens demo_query demo_tokens [7, 17, 35] = [3, 1, 3]" "length demo_query = 49"
  by code_simp+

theorem pg_query_normalize_correct_witness:
  "\<exists>numbers. length numbers = 3 \<and> pg_query_normalize (\<lambda>_. Inr demo_stmts) (\<lambda>_. demo_tokens) (\<lambda>_. 0) demo_query =
     Inr \<lparr>normalized_query = Some (splice_at demo_query 0 (zip [7, 17, 35] (zip [3, 1, 3] (map symbol numbers)))), error = None\<rparr>"
proof -
  have locs: "sorted_list_of_set (set (const_locs (recorded demo_query (Some (NList demo_stmts))))) = [7, 17, 35]"
    unfolding demo_facts(3) by simp
  from pg_query_normalize_correct [of "\<lambda>_. Inr demo_stmts" demo_query demo_stmts "\<lambda>_. demo_tokens" "\<lambda>_. 0"]
  obtain numbers where "length numbers = 3" "pg_query_normalize (\<lambda>_. Inr demo_stmts) (\<lambda>_. demo_tokens) (\<lambda>_. 0) demo_query =
     Inr \<lparr>normalized_query = Some (splice_at demo_query 0 (zip [7, 17, 35] (zip [3, 1, 3] (map symbol numbers)))), error = None\<rparr>"
    unfolding locs demo_facts(3) using demo_facts(2,4,5,6) by (auto simp: demo_facts(7,8) numeral_3_eq_3)
  then show ?thesis by blast
qed

text \<open>An error of the second half meets the handler the walk has left.\<close>

lemma normalize_error_dead:
  assumes "parse input = Inr stmts" "stmts \<noteq> []"
    and "const_record_walker fingerprint (Some (NList stmts)) (init_jstate input) = (Inr False, s)" "\<not> exn_live s"
    and "generate_normalized_query s 0 (int (length input)) (scan input) = Inl (Elog m)"
  shows "pg_query_normalize parse scan fingerprint input = Inl DeadFrame"
  using assms by (simp add: pg_query_normalize_def normalize_body_def tryS_def raiseS_def bindS_def getS_def)

lemma find_const_error:
  "list_all (\<lambda>t. tok t \<noteq> 0 \<and> yylloc t < loc) ts \<Longrightarrow> find_const q loc ts = Inl scan_error"
proof (induction ts)
  case (Cons t ts)
  then show ?case by (subst find_const.simps) simp
qed (simp add: find_const.simps)

lemma scanner_error_spec:
  fixes s :: pgssConstLocations
  defines "locs \<equiv> sorted_list_of_set (set (map location (clocs s)))"
  assumes "rec_ok s" "locs \<noteq> []" "list_all (\<lambda>t. tok t \<noteq> 0 \<and> yylloc t < hd locs) ts"
  shows "generate_normalized_query s query_loc len ts = Inl scan_error"
proof -
  define zs where "zs = (if clocations_count s > 1 then pg_qsort comp_location (clocs s) else clocs s)"
  have f: "filled (clocations s) (clocations_count s) (clocs s)" "\<forall>x \<in> set (clocs s). 0 \<le> location x"
    using assms(2) by (auto simp: rec_ok_def list_all_iff entry_ok_def)
  have m: "mset zs = mset (clocs s)" by (simp add: zs_def)
  then have set: "set zs = set (clocs s)" and len: "length zs = length (clocs s)"
    by (metis set_mset_mset) (use m in \<open>metis size_mset\<close>)
  have sorted: "sorted (map location zs)"
  proof (cases "clocations_count s > 1")
    case False
    then have "length zs \<le> 1" using f(1) len by (simp add: filled_def)
    then show ?thesis by (cases zs) auto
  qed (simp add: zs_def sort_locations)
  obtain x xs where zs: "zs = x # xs" using assms(3) set by (cases zs) (auto simp: locs_def)
  obtain l ls where l: "locs = l # ls" using assms(3) by (cases locs) auto
  have locs: "set locs = set (map location zs)" "sorted locs" by (simp_all add: locs_def set)
  have "l \<in> set (map location zs)" "location x \<in> set locs" using locs(1) l zs by (metis list.set_intros(1), simp)
  then have "location x \<le> l" "l \<le> location x" using sorted locs(2) l zs by auto
  then have "hd locs = location x" using l by simp
  moreover have "x \<in> set (clocs s)" using set zs by auto
  then have "0 \<le> location x" using f(2) by blast
  then have "\<not> location x \<le> -1" by simp
  ultimately have "fill_lengths (query s) (-1) zs ts = Inl scan_error"
    using find_const_error [of "hd locs" ts] assms(4) zs by simp
  then have "fill_in_constant_lengths s ts = Inl scan_error"
    using read_cells_all [OF f(1)] by (simp add: fill_in_constant_lengths_def zs_def Let_def)
  then show ?thesis by (simp add: generate_normalized_query_def)
qed

lemma buffer_error_spec:
  assumes ok: "rec_ok s" and nz: "CHR 0x00 \<notin> set (query s)" and lex: "lexes (query s) 0 ts"
    and toks: "consts_at (query s) ts (sorted_list_of_set (set (map location (clocs s))))"
    and size: "int (length (query s)) \<le> MaxAllocSize" "clocations_count s \<le> WALK_MAX"
      "MaxAllocSize \<le> int (length (query s)) + 10 * clocations_count s"
  shows "generate_normalized_query s 0 (int (length (query s))) ts = Inl (Elog ''invalid memory alloc request size'')"
proof -
  have f: "filled (clocations s) (clocations_count s) (clocs s)" "\<forall>x \<in> set (clocs s). 0 \<le> location x \<and> loc_length x = -1"
    using ok by (auto simp: rec_ok_def list_all_iff entry_ok_def)
  obtain s' where s': "fill_in_constant_lengths s ts = Inr s'" "s' = s\<lparr>clocations := clocations s'\<rparr>"
    by (rule fill_in_spec [OF f nz lex toks]) blast
  have c: "clocations_count s' = clocations_count s" by (subst s'(2)) simp
  have n: "0 \<le> clocations_count s" using ok by (auto simp: rec_ok_def filled_def)
  have ints: "c_int (clocations_count s * 10) = Inr (clocations_count s * 10)"
    "c_int (int (length (query s)) + clocations_count s * 10) = Inr (int (length (query s)) + clocations_count s * 10)"
    using size(1,2) n by (simp_all add: c_int_def)
  have "(palloc 1 (int (length (query s)) + clocations_count s * 10 + 1) :: char block res) =
      Inl (Elog ''invalid memory alloc request size'')"
    using size(3) by (simp add: palloc_def)
  then show ?thesis by (simp add: generate_normalized_query_def s'(1) c ints)
qed

text \<open>
  C26: Errors of the parser are reported, errors behind the walk are not. A parse error becomes
  the error message of the result. But once the walk over the statements has gone through, an
  error raised while the normalized query is put together makes control jump to a handler whose
  frame has returned, which is undefined behaviour, and no result is produced. This is so when
  the scanner raises an error before it has reached the first recorded constant, and when the
  buffer for the normalized query is larger than \<^verbatim>\<open>palloc\<close> allows.
\<close>

theorem pg_query_normalize_errors:
  fixes input and stmts and parse and scan
  defines "items \<equiv> recorded input (Some (NList stmts))"
  defines "locs \<equiv> sorted_list_of_set (set (const_locs items))"
  assumes "parse input = Inr stmts" and "tree_ok (Some (NList stmts))" and "int (length items) \<le> WALK_MAX"
    and "locs \<noteq> []"
    and "list_all (\<lambda>t. tok t \<noteq> 0 \<and> yylloc t < hd locs) (scan input) \<or>
      CHR 0x00 \<notin> set input \<and> lexes input 0 (scan input) \<and> consts_at input (scan input) locs \<and>
      int (length input) \<le> MaxAllocSize \<and> MaxAllocSize \<le> int (length input) + 10 * int (length (const_locs items))"
  shows "pg_query_normalize parse scan fingerprint input = Inl DeadFrame \<and>
    pg_query_normalize (\<lambda>_. Inl (Elog m)) scan fingerprint input = Inr \<lparr>normalized_query = None, error = Some m\<rparr>"
proof
  have ne: "stmts \<noteq> []"
    using assms(6) by (auto simp: locs_def items_def recorded.simps own_items_def visits_def single_field_def)
  from walk_result [OF assms(4,5) [unfolded items_def]] ne obtain s where
    s: "const_record_walker fingerprint (Some (NList stmts)) (init_jstate input) = (Inr False, s)"
    "rec_ok s" "ext (init_jstate input) s items" unfolding items_def by auto
  have e: "map location (clocs s) = const_locs items" "query s = input" "clocations_count s = int (length (const_locs items))"
    using s(3) by (auto simp: ext_def grows_def init_rec_ok)
  have "clocations_count s \<le> WALK_MAX" using e(3) assms(5) length_const_locs [of items] by simp
  then have "\<exists>m. generate_normalized_query s 0 (int (length input)) (scan input) = Inl (Elog m)"
    using assms(7) scanner_error_spec [OF s(2), of "scan input" 0 "int (length input)"]
      buffer_error_spec [OF s(2), of "scan input"] assms(6) by (auto simp: e locs_def)
  then show "pg_query_normalize parse scan fingerprint input = Inl DeadFrame"
    using normalize_error_dead [of parse input stmts fingerprint s scan] assms(3) ne s(1)
      list_walk_dead [OF assms(4,5) [unfolded items_def], of fingerprint] by auto
  show "pg_query_normalize (\<lambda>_. Inl (Elog m)) scan fingerprint input = Inr \<lparr>normalized_query = None, error = Some m\<rparr>"
    by (simp add: pg_query_normalize_def normalize_body_def tryS_def raiseS_def bindS_def getS_def init_jstate_def)
qed

theorem pg_query_normalize_errors_witness:
  "pg_query_normalize (\<lambda>_. Inr demo_stmts) (\<lambda>_. take 1 demo_tokens) (\<lambda>_. 0) demo_query = Inl DeadFrame"
proof -
  have locs: "sorted_list_of_set (set (const_locs (recorded demo_query (Some (NList demo_stmts))))) = [7, 17, 35]"
    unfolding demo_facts(3) by simp
  have "list_all (\<lambda>t. tok t \<noteq> 0 \<and> yylloc t < 7) (take 1 demo_tokens)" by code_simp
  then show ?thesis
    using pg_query_normalize_errors [of "\<lambda>_. Inr demo_stmts" demo_query demo_stmts "\<lambda>_. take 1 demo_tokens" "\<lambda>_. 0" "''at end''"]
    unfolding locs demo_facts(3) using demo_facts(2) by auto
qed

text \<open>
  The whole computation on the example: both occurrences of the grouped constant become the
  same parameter, the numbers start above the external parameter, the ordinal of ORDER BY
  stays a number.
\<close>

lemma demo_normalized:
  "pg_query_normalize (\<lambda>_. Inr demo_stmts) (\<lambda>_. demo_tokens) (\<lambda>_. 0) demo_query =
     Inr \<lparr>normalized_query = Some ''SELECT $3, $2 + $4 FROM t GROUP BY $3 ORDER BY 1'', error = None\<rparr>"
  by code_simp

end
