(* ===== verification/Pg_Split.thy ===== *)
theory Pg_Split
  imports Core_Scanner Raw_Tree
begin

text \<open>
  Splitting an input into statements, \<^verbatim>\<open>pg_query_split.c\<close>, with the parse step
  \<^verbatim>\<open>pg_query_raw_parse\<close> of \<^verbatim>\<open>pg_query_parse.c\<close>. The header \<^verbatim>\<open>pg_query_internal.h\<close> defines
  \<^verbatim>\<open>DEBUG\<close>, so the redirection of stderr through a pipe is compiled out and the collected text
  is empty.

  The scanner variant runs over the tokens twice: once to count the statements, once to
  fill an array of that size. Which token codes are keywords comes from the generated
  keyword list and is the argument \<open>is_kw\<close>. \<^verbatim>\<open>open_parens\<close> is a \<^verbatim>\<open>size_t\<close> and wraps around.
\<close>

section \<open>Statements by the scanner\<close>

record PgQuerySplitStmt =
  stmt_location :: int
  stmt_len :: int

record PgQuerySplitResult =
  stmts :: "PgQuerySplitStmt block option"    \<comment> \<open>\<open>None\<close> for the null pointer\<close>
  n_stmts :: int
  split_stderr :: "string option"
  split_error :: "string option"

text \<open>
  The tests of the loop body in their order. A statement ends at a semicolon or at the end
  of the input, outside parentheses, when a keyword has been seen in it.
\<close>

datatype scan_step = Keyword | Open | Close | Terminator | Skip | Other

definition classify :: "(int \<Rightarrow> bool) \<Rightarrow> bool \<Rightarrow> 64 word \<Rightarrow> int \<Rightarrow> scan_step" where
  "classify is_kw keyword_before_terminator open_parens t =
     (if is_kw t then Keyword
      else if t = 40 then Open
      else if t = 41 then Close
      else if keyword_before_terminator \<and> open_parens = 0 \<and> (t = 59 \<or> t = 0) then Terminator
      else if open_parens = 0 \<and> t = 59 then Skip
      else Other)"

fun kw_after :: "scan_step \<Rightarrow> bool \<Rightarrow> bool" where
  "kw_after Keyword k = True"
| "kw_after Terminator k = False"
| "kw_after _ k = k"

fun parens_after :: "scan_step \<Rightarrow> 64 word \<Rightarrow> 64 word" where
  "parens_after Open n = n + 1"
| "parens_after Close n = n - 1"
| "parens_after _ n = n"

text \<open>The first pass. The counter is a field of the result and survives an error.\<close>

fun count_pass :: "(int \<Rightarrow> bool) \<Rightarrow> bool \<Rightarrow> 64 word \<Rightarrow> int \<Rightarrow> token list \<Rightarrow> unit res \<times> int" where
  "count_pass is_kw k op n [] = (Inl scan_error, n)"
| "count_pass is_kw k op n (t # ts) =
     (let st = classify is_kw k op (tok t);
          n' = (if st = Terminator then n + 1 else n) in
      if tok t = 0 then (Inr (), n') else count_pass is_kw (kw_after st k) (parens_after st op) n' ts)"

text \<open>The second pass fills the array.\<close>

fun fill_pass :: "(int \<Rightarrow> bool) \<Rightarrow> bool \<Rightarrow> 64 word \<Rightarrow> int \<Rightarrow> int \<Rightarrow> PgQuerySplitStmt block \<Rightarrow> token list \<Rightarrow>
    PgQuerySplitStmt block res" where
  "fill_pass is_kw k op stmtstart curstmt b [] = Inl scan_error"
| "fill_pass is_kw k op stmtstart curstmt b (t # ts) =
     (let st = classify is_kw k op (tok t) in
      bindE (if st = Terminator
             then store b curstmt \<lparr>stmt_location = stmtstart, stmt_len = yylloc t - stmtstart\<rparr>
             else Inr b) (\<lambda>b'.
      if tok t = 0 then Inr b'
      else fill_pass is_kw (kw_after st k) (parens_after st op)
        (if st = Terminator \<or> st = Skip then yylloc t + 1 else stmtstart)
        (if st = Terminator then curstmt + 1 else curstmt) b' ts))"

text \<open>
  \<^verbatim>\<open>malloc\<close> of the array and the two passes; an error of the scanner fills in the error field.
\<close>

definition pg_query_split_with_scanner :: "(int \<Rightarrow> bool) \<Rightarrow> (string \<Rightarrow> token list) \<Rightarrow> string \<Rightarrow> PgQuerySplitResult res" where
  "pg_query_split_with_scanner is_kw scan input =
     (case count_pass is_kw False 0 0 (scan input) of
        (Inl (Elog m), n) \<Rightarrow> Inr \<lparr>stmts = None, n_stmts = n, split_stderr = None, split_error = Some m\<rparr>
      | (Inl e, n) \<Rightarrow> Inl e
      | (Inr _, n) \<Rightarrow>
          (case fill_pass is_kw False 0 0 0 (replicate (nat n) None) (scan input) of
             Inl (Elog m) \<Rightarrow> Inr \<lparr>stmts = Some (replicate (nat n) None), n_stmts = n, split_stderr = None, split_error = Some m\<rparr>
           | Inl e \<Rightarrow> Inl e
           | Inr b \<Rightarrow> Inr \<lparr>stmts = Some b, n_stmts = n, split_stderr = Some '''', split_error = None\<rparr>))"

section \<open>Statements by the parser\<close>

record PgQueryInternalParsetreeAndError =
  tree :: "node option list"     \<comment> \<open>empty for \<^verbatim>\<open>NIL\<close>\<close>
  stderr_buffer :: "string option"
  parse_error :: "string option"

definition pg_query_raw_parse :: "(string \<Rightarrow> node option list res) \<Rightarrow> string \<Rightarrow> PgQueryInternalParsetreeAndError res" where
  "pg_query_raw_parse raw_parser input =
     (case raw_parser input of
        Inr t \<Rightarrow> Inr \<lparr>tree = t, stderr_buffer = Some '''', parse_error = None\<rparr>
      | Inl (Elog m) \<Rightarrow> Inr \<lparr>tree = [], stderr_buffer = None, parse_error = Some m\<rparr>
      | Inl e \<Rightarrow> Inl e)"

fun raw_stmts :: "string \<Rightarrow> int \<Rightarrow> node option list \<Rightarrow> PgQuerySplitStmt block \<Rightarrow> PgQuerySplitStmt block res" where
  "raw_stmts input i [] b = Inr b"
| "raw_stmts input i (x # xs) b =
     (case x of None \<Rightarrow> Inl NullDeref
      | Some raw_stmt \<Rightarrow>
          bindE (store b i \<lparr>stmt_location = fint ''stmt_location'' raw_stmt,
            stmt_len = (if fint ''stmt_len'' raw_stmt = 0 then int (length input) - fint ''stmt_location'' raw_stmt
                        else fint ''stmt_len'' raw_stmt)\<rparr>) (raw_stmts input (i + 1) xs))"

definition pg_query_split_with_parser :: "(string \<Rightarrow> node option list res) \<Rightarrow> string \<Rightarrow> PgQuerySplitResult res" where
  "pg_query_split_with_parser raw_parser input =
     bindE (pg_query_raw_parse raw_parser input) (\<lambda>p.
     if tree p \<noteq> []
     then
       bindE (raw_stmts input 0 (tree p) (replicate (length (tree p)) None)) (\<lambda>b.
       Inr \<lparr>stmts = Some b, n_stmts = int (length (tree p)), split_stderr = stderr_buffer p, split_error = parse_error p\<rparr>)
     else Inr \<lparr>stmts = None, n_stmts = 0, split_stderr = stderr_buffer p, split_error = parse_error p\<rparr>)"

section \<open>What the scanner variant finds\<close>

text \<open>The statements as a list, from the place where the current one starts.\<close>

fun statements :: "(int \<Rightarrow> bool) \<Rightarrow> bool \<Rightarrow> 64 word \<Rightarrow> int \<Rightarrow> token list \<Rightarrow> PgQuerySplitStmt list" where
  "statements is_kw k op start [] = []"
| "statements is_kw k op start (t # ts) =
     (let st = classify is_kw k op (tok t);
          here = (if st = Terminator then [\<lparr>stmt_location = start, stmt_len = yylloc t - start\<rparr>] else []) in
      here @ (if tok t = 0 then []
        else statements is_kw (kw_after st k) (parens_after st op)
          (if st = Terminator \<or> st = Skip then yylloc t + 1 else start) ts))"

lemma lexes_ends: "lexes q p ts \<Longrightarrow> \<exists>t \<in> set ts. tok t = 0"
  by (induction q p ts rule: lexes.induct) (auto split: if_splits)

lemma count_pass_statements:
  "\<exists>t \<in> set ts. tok t = 0 \<Longrightarrow> count_pass is_kw k op n ts = (Inr (), n + int (length (statements is_kw k op start ts)))"
proof (induction ts arbitrary: k op n start)
  case (Cons t ts)
  define st where "st = classify is_kw k op (tok t)"
  define start' where "start' = (if st = Terminator \<or> st = Skip then yylloc t + 1 else start)"
  show ?case
  proof (cases "tok t = 0")
    case False
    with Cons.prems have "\<exists>t \<in> set ts. tok t = 0" by auto
    from Cons.IH [OF this, where start = start'] False show ?thesis
      by (simp add: Let_def start'_def flip: st_def)
  qed (simp add: Let_def)
qed simp

lemma fill_pass_statements:
  "\<exists>t \<in> set ts. tok t = 0 \<Longrightarrow> b = map Some done @ rest \<Longrightarrow> curstmt = int (length done) \<Longrightarrow>
   length rest = length (statements is_kw k op start ts) \<Longrightarrow>
   fill_pass is_kw k op start curstmt b ts = Inr (map Some (done @ statements is_kw k op start ts))"
proof (induction ts arbitrary: k op start curstmt b "done" rest)
  case (Cons t ts)
  define st where "st = classify is_kw k op (tok t)"
  define start' where "start' = (if st = Terminator \<or> st = Skip then yylloc t + 1 else start)"
  show ?case
  proof (cases "st = Terminator")
    case False
    show ?thesis
    proof (cases "tok t = 0")
      case True
      with False Cons.prems show ?thesis by (simp add: Let_def st_def)
    next
      case end_not: False
      have "fill_pass is_kw (kw_after st k) (parens_after st op) start' curstmt b ts =
          Inr (map Some (done @ statements is_kw (kw_after st k) (parens_after st op) start' ts))"
        by (rule Cons.IH [OF _ Cons.prems(2,3)])
          (use Cons.prems False end_not in \<open>simp_all add: Let_def start'_def flip: st_def\<close>)
      with False end_not show ?thesis by (simp add: Let_def start'_def flip: st_def)
    qed
  next
    case True
    let ?s = "\<lparr>stmt_location = start, stmt_len = yylloc t - start\<rparr>"
    obtain c rest' where rest: "rest = c # rest'" using Cons.prems True by (cases rest) (auto simp: Let_def simp flip: st_def)
    have store: "store b curstmt ?s = Inr (map Some (done @ [?s]) @ rest')"
      using Cons.prems rest store_split [of curstmt "map Some done" c rest' ?s] by simp
    show ?thesis
    proof (cases "tok t = 0")
      case True
      with store \<open>st = Terminator\<close> Cons.prems rest show ?thesis by (simp add: Let_def st_def)
    next
      case False
      have "fill_pass is_kw (kw_after st k) (parens_after st op) (yylloc t + 1) (curstmt + 1) (map Some (done @ [?s]) @ rest') ts =
          Inr (map Some ((done @ [?s]) @ statements is_kw (kw_after st k) (parens_after st op) (yylloc t + 1) ts))"
        by (rule Cons.IH [OF _ refl]) (use Cons.prems rest True False in \<open>auto simp: Let_def simp flip: st_def\<close>)
      with store True False show ?thesis by (simp add: Let_def flip: st_def)
    qed
  qed
qed simp

text \<open>Statements lie in the input one after the other, with at least the terminator between them.\<close>

fun separated :: "int \<Rightarrow> int \<Rightarrow> PgQuerySplitStmt list \<Rightarrow> bool" where
  "separated len p [] \<longleftrightarrow> True"
| "separated len p (s # ss) \<longleftrightarrow>
     p \<le> stmt_location s \<and> 0 \<le> stmt_len s \<and> stmt_location s + stmt_len s \<le> len \<and>
     separated len (stmt_location s + stmt_len s + 1) ss"

lemma separated_weaken: "separated len p ss \<Longrightarrow> p' \<le> p \<Longrightarrow> separated len p' ss"
  by (cases ss) auto

lemma statements_separated:
  "lexes q p ts \<Longrightarrow> start \<le> p \<Longrightarrow> separated (int (length q)) start (statements is_kw k op start ts)"
proof (induction ts arbitrary: p start k op)
  case (Cons t ts)
  define st where "st = classify is_kw k op (tok t)"
  define start' where "start' = (if st = Terminator \<or> st = Skip then yylloc t + 1 else start)"
  show ?case
  proof (cases "tok t = 0")
    case True
    with Cons.prems show ?thesis by (auto simp: Let_def)
  next
    case False
    with Cons.prems have t: "p \<le> yylloc t" "yylloc t < tok_end t" "tok_end t \<le> int (length q)" "lexes q (tok_end t) ts" by auto
    have "start' \<le> tok_end t" "start \<le> start'" using t Cons.prems by (auto simp: start'_def)
    then have "separated (int (length q)) start' (statements is_kw (kw_after st k) (parens_after st op) start' ts)"
      using t by (intro Cons.IH) auto
    note rest = this
    show ?thesis
    proof (cases "st = Terminator")
      case True
      with rest False t Cons.prems show ?thesis by (simp add: Let_def start'_def flip: st_def)
    next
      case other: False
      then have "statements is_kw k op start (t # ts) = statements is_kw (kw_after st k) (parens_after st op) start' ts"
        using False by (simp add: Let_def start'_def flip: st_def)
      with separated_weaken [OF rest \<open>start \<le> start'\<close>] show ?thesis by simp
    qed
  qed
qed simp

lemma raw_stmts_fill:
  "None \<notin> set xs \<Longrightarrow> b = map Some done @ rest \<Longrightarrow> length rest = length xs \<Longrightarrow> i = int (length done) \<Longrightarrow>
   raw_stmts input i xs b = Inr (map Some (done @ map (\<lambda>x.
     \<lparr>stmt_location = fint ''stmt_location'' (the x),
      stmt_len = (if fint ''stmt_len'' (the x) = 0 then int (length input) - fint ''stmt_location'' (the x)
                  else fint ''stmt_len'' (the x))\<rparr>) xs))"
proof (induction xs arbitrary: i b "done" rest)
  case (Cons x xs)
  then obtain n c rest' where x: "x = Some n" "rest = c # rest'" by (cases x; cases rest) auto
  define s where "s = \<lparr>stmt_location = fint ''stmt_location'' n,
      stmt_len = (if fint ''stmt_len'' n = 0 then int (length input) - fint ''stmt_location'' n else fint ''stmt_len'' n)\<rparr>"
  have "store b i s = Inr (map Some (done @ [s]) @ rest')"
    using Cons.prems x store_split [of i "map Some done" c rest' s] by simp
  moreover have "raw_stmts input (i + 1) xs (map Some (done @ [s]) @ rest') = Inr (map Some ((done @ [s]) @ map (\<lambda>x.
     \<lparr>stmt_location = fint ''stmt_location'' (the x),
      stmt_len = (if fint ''stmt_len'' (the x) = 0 then int (length input) - fint ''stmt_location'' (the x)
                  else fint ''stmt_len'' (the x))\<rparr>) xs))"
    by (rule Cons.IH [OF _ refl]) (use Cons.prems x in auto)
  ultimately show ?case using x by (simp add: s_def)
qed simp

section \<open>Properties\<close>

text \<open>
  C6: Splitting with the scanner finds well-formed statements. For any input whose tokens
  the scanner delivers as documented, both passes agree: every slot of the array sized by
  the first pass is filled by the second one and no write is out of bounds. The statements
  are those of the specification, lie inside the input in order, and each is separated
  from the next by its terminator.
\<close>

theorem pg_query_split_with_scanner_correct:
  assumes "lexes input 0 (scan input)"
  shows "\<exists>ss. pg_query_split_with_scanner is_kw scan input =
      Inr \<lparr>stmts = Some (map Some ss), n_stmts = int (length ss), split_stderr = Some '''', split_error = None\<rparr> \<and>
     ss = statements is_kw False 0 0 (scan input) \<and> separated (int (length input)) 0 ss"
proof -
  let ?ss = "statements is_kw False 0 0 (scan input)"
  have e: "\<exists>t \<in> set (scan input). tok t = 0" using assms by (rule lexes_ends)
  have "count_pass is_kw False 0 0 (scan input) = (Inr (), int (length ?ss))"
    using count_pass_statements [OF e, where start = 0] by simp
  moreover have "fill_pass is_kw False 0 0 0 (replicate (length ?ss) None) (scan input) = Inr (map Some ?ss)"
    using fill_pass_statements [OF e, of "replicate (length ?ss) None" "[]" "replicate (length ?ss) None" 0 is_kw False 0 0] by simp
  moreover have "separated (int (length input)) 0 ?ss" using assms by (rule statements_separated) simp
  ultimately show ?thesis by (simp add: pg_query_split_with_scanner_def)
qed

definition split_demo :: "token list" where
  "split_demo = map (\<lambda>(c, l, e). \<lparr>tok = c, yylloc = l, tok_end = e\<rparr>)
     [(600, 0, 6), (266, 7, 8), (59, 8, 9), (59, 10, 11), (600, 12, 18), (40, 19, 20), (59, 20, 21), (41, 21, 22), (0, 22, 22)]"

theorem pg_query_split_with_scanner_correct_witness:
  "\<exists>ss. pg_query_split_with_scanner (\<lambda>t. t = 600) (\<lambda>_. split_demo) ''SELECT 1; ; SELECT (;)'' =
      Inr \<lparr>stmts = Some (map Some ss), n_stmts = int (length ss), split_stderr = Some '''', split_error = None\<rparr> \<and>
     ss = [\<lparr>stmt_location = 0, stmt_len = 8\<rparr>, \<lparr>stmt_location = 11, stmt_len = 11\<rparr>]"
proof -
  have "lexes ''SELECT 1; ; SELECT (;)'' 0 split_demo"
    "statements (\<lambda>t. t = 600) False 0 0 split_demo = [\<lparr>stmt_location = 0, stmt_len = 8\<rparr>, \<lparr>stmt_location = 11, stmt_len = 11\<rparr>]"
    by code_simp+
  with pg_query_split_with_scanner_correct [of "''SELECT 1; ; SELECT (;)''" "\<lambda>_. split_demo" "\<lambda>t. t = 600"] show ?thesis
    by simp
qed

text \<open>
  An error of the scanner is reported, with the count of the statements before it left
  in the result while the array is the null pointer.
\<close>

theorem pg_query_split_with_scanner_error:
  assumes "\<forall>t \<in> set (scan input). tok t \<noteq> 0"
  shows "pg_query_split_with_scanner is_kw scan input =
     Inr \<lparr>stmts = None, n_stmts = int (length (statements is_kw False 0 0 (scan input))),
          split_stderr = None, split_error = Some ''syntax error''\<rparr>"
proof -
  have "\<forall>t \<in> set ts. tok t \<noteq> 0 \<Longrightarrow>
      count_pass is_kw k op n ts = (Inl scan_error, n + int (length (statements is_kw k op start ts)))" for k op n start ts
  proof (induction ts arbitrary: k op n start)
    case (Cons t ts)
    define st where "st = classify is_kw k op (tok t)"
    from Cons.IH [where start = "if st = Terminator \<or> st = Skip then yylloc t + 1 else start"] Cons.prems show ?case
      by (simp add: Let_def flip: st_def)
  qed simp
  from this [OF assms, where start = 0] show ?thesis by (simp add: pg_query_split_with_scanner_def)
qed

theorem pg_query_split_with_scanner_error_witness:
  "pg_query_split_with_scanner (\<lambda>t. t = 600) (\<lambda>_. take 3 split_demo) ''SELECT 1; ?'' =
     Inr \<lparr>stmts = None, n_stmts = 1, split_stderr = None, split_error = Some ''syntax error''\<rparr>"
proof -
  have "\<forall>t \<in> set (take 3 split_demo). tok t \<noteq> 0" "length (statements (\<lambda>t. t = 600) False 0 0 (take 3 split_demo)) = 1"
    by code_simp+
  with pg_query_split_with_scanner_error [of "\<lambda>_. take 3 split_demo" "''SELECT 1; ?''" "\<lambda>t. t = 600"] show ?thesis by simp
qed

text \<open>
  C23: Splitting with the parser returns one entry per statement of the tree, in order,
  with the missing length of the last statement filled in from the length of the input, and
  reports a parse error with no statements.
\<close>

theorem pg_query_split_with_parser_correct:
  assumes "raw_parser input = Inr xs \<and> None \<notin> set xs \<and> xs \<noteq> [] \<or> raw_parser input = Inl (Elog m)"
  shows "pg_query_split_with_parser raw_parser input =
     (case raw_parser input of
        Inr xs \<Rightarrow> Inr \<lparr>stmts = Some (map (\<lambda>x. Some \<lparr>stmt_location = fint ''stmt_location'' (the x),
            stmt_len = (if fint ''stmt_len'' (the x) = 0 then int (length input) - fint ''stmt_location'' (the x)
                        else fint ''stmt_len'' (the x))\<rparr>) xs),
          n_stmts = int (length xs), split_stderr = Some '''', split_error = None\<rparr>
      | Inl _ \<Rightarrow> Inr \<lparr>stmts = None, n_stmts = 0, split_stderr = None, split_error = Some m\<rparr>)"
  using assms raw_stmts_fill [of xs "replicate (length xs) None" "[]" "replicate (length xs) None" 0 input]
  by (auto simp: pg_query_split_with_parser_def pg_query_raw_parse_def)

theorem pg_query_split_with_parser_correct_witness:
  "pg_query_split_with_parser (\<lambda>_. Inr [Some (Struct T_RawStmt [(''stmt_len'', FInt 8)]),
      Some (Struct T_RawStmt [(''stmt_location'', FInt 9)])]) ''SELECT 1; SELECT 2'' =
     Inr \<lparr>stmts = Some [Some \<lparr>stmt_location = 0, stmt_len = 8\<rparr>, Some \<lparr>stmt_location = 9, stmt_len = 9\<rparr>],
          n_stmts = 2, split_stderr = Some '''', split_error = None\<rparr>"
  by (subst pg_query_split_with_parser_correct) (auto simp: fint_def)

end
