(* ===== verification/Pg_Scan.thy ===== *)
theory Pg_Scan
  imports Core_Scanner
begin

text \<open>
  \<^verbatim>\<open>pg_query_scan\<close> of \<^verbatim>\<open>pg_query_scan.c\<close>: the tokens of an input with their extent and keyword
  class, collected in two passes like the statements of \<^verbatim>\<open>pg_query_split.c\<close>. Beside the token
  the loop reads \<^verbatim>\<open>yyleng\<close> out of the scanner and \<^verbatim>\<open>yyllocend\<close> out of its extra state. The
  keyword class comes from the generated keyword list and is the argument \<open>kw_class\<close>. \<open>Scan_Token\<close>
  puts the modelled scanner below it and proves the property of the whole. The
  protobuf packing of the result is not modelled: the message is the list of its tokens.
\<close>

record scanned = token +
  yyleng :: int
  yyllocend :: int

record ScanToken =
  start :: int
  end_ofs :: int        \<comment> \<open>\<^verbatim>\<open>end\<close> in the source\<close>
  token_code :: int     \<comment> \<open>\<^verbatim>\<open>token\<close>\<close>
  keyword_kind :: int

record PgQueryScanResult =
  scan_version :: int
  n_tokens :: nat
  tokens :: "ScanToken block"

abbreviation tok_IDENT :: int where "tok_IDENT \<equiv> 258"
abbreviation tok_SCONST :: int where "tok_SCONST \<equiv> 261"
abbreviation tok_BCONST :: int where "tok_BCONST \<equiv> 263"
abbreviation tok_XCONST :: int where "tok_XCONST \<equiv> 264"
abbreviation tok_UIDENT :: int where "tok_UIDENT \<equiv> 259"
abbreviation tok_USCONST :: int where "tok_USCONST \<equiv> 262"
abbreviation tok_C_COMMENT :: int where "tok_C_COMMENT \<equiv> 276"

fun token_count :: "nat \<Rightarrow> scanned list \<Rightarrow> nat res" where
  "token_count n [] = Inl scan_error"
| "token_count n (t # ts) = (if tok t = 0 then Inr n else token_count (n + 1) ts)"

definition token_end :: "scanned \<Rightarrow> int" where
  "token_end t =
     (if tok t = tok_SCONST \<or> tok t = tok_BCONST \<or> tok t = tok_XCONST \<or> tok t = tok_IDENT \<or> tok t = tok_C_COMMENT
      then yyllocend t else yylloc t + yyleng t)"

definition output_token :: "(int \<Rightarrow> int option) \<Rightarrow> scanned \<Rightarrow> ScanToken" where
  "output_token kw_class t =
     \<lparr>start = yylloc t, end_ofs = token_end t, token_code = tok t,
      keyword_kind = (case kw_class (tok t) of Some c \<Rightarrow> c + 1 | None \<Rightarrow> 0)\<rparr>"

fun lex_tokens :: "(int \<Rightarrow> int option) \<Rightarrow> int \<Rightarrow> ScanToken block \<Rightarrow> scanned list \<Rightarrow> ScanToken block res" where
  "lex_tokens kw_class i output_tokens [] = Inl scan_error"
| "lex_tokens kw_class i output_tokens (t # ts) =
     (if tok t = 0 then Inr output_tokens
      else bindE (store output_tokens i (output_token kw_class t)) (\<lambda>b. lex_tokens kw_class (i + 1) b ts))"

definition pg_query_scan :: "(int \<Rightarrow> int option) \<Rightarrow> (string \<Rightarrow> scanned list) \<Rightarrow> string \<Rightarrow> (string + PgQueryScanResult) res" where
  "pg_query_scan kw_class scan input =
     (case bindE (token_count 0 (scan input)) (\<lambda>n.
           bindE (lex_tokens kw_class 0 (replicate n None) (scan input)) (\<lambda>b.
           Inr \<lparr>scan_version = 130003, n_tokens = n, tokens = b\<rparr>)) of
        Inr r \<Rightarrow> Inr (Inr r)
      | Inl (Elog m) \<Rightarrow> Inr (Inl m)
      | Inl e \<Rightarrow> Inl e)"

section \<open>Both passes agree\<close>

definition delivered :: "scanned list \<Rightarrow> scanned list" where
  "delivered ts = takeWhile (\<lambda>t. tok t \<noteq> 0) ts"

lemma token_count_delivered: "\<exists>t \<in> set ts. tok t = 0 \<Longrightarrow> token_count n ts = Inr (n + length (delivered ts))"
  by (induction n ts rule: token_count.induct) (auto simp: delivered_def)

lemma lex_tokens_delivered:
  "\<exists>t \<in> set ts. tok t = 0 \<Longrightarrow> b = map Some done @ rest \<Longrightarrow> length rest = length (delivered ts) \<Longrightarrow> i = int (length done) \<Longrightarrow>
   lex_tokens kw i b ts = Inr (map Some (done @ map (output_token kw) (delivered ts)))"
proof (induction ts arbitrary: i b "done" rest)
  case (Cons t ts)
  show ?case
  proof (cases "tok t = 0")
    case True
    with Cons.prems show ?thesis by (simp add: delivered_def)
  next
    case False
    then obtain c rest' where rest: "rest = c # rest'" using Cons.prems by (cases rest) (auto simp: delivered_def)
    have "store b i (output_token kw t) = Inr (map Some (done @ [output_token kw t]) @ rest')"
      using Cons.prems rest store_split [of i "map Some done" c rest' "output_token kw t"] by simp
    moreover have "lex_tokens kw (i + 1) (map Some (done @ [output_token kw t]) @ rest') ts =
        Inr (map Some ((done @ [output_token kw t]) @ map (output_token kw) (delivered ts)))"
      by (rule Cons.IH [OF _ refl]) (use Cons.prems rest False in \<open>auto simp: delivered_def\<close>)
    ultimately show ?thesis using False by (simp add: delivered_def)
  qed
qed simp

text \<open>
  What the scanner leaves behind with a token (\<open>Scan_Token\<close> proves it of the scanner). Strings,
  quoted identifiers and comments are made of several matches: \<^verbatim>\<open>yyleng\<close> is the length of the
  last one, and only \<^verbatim>\<open>yyllocend\<close> is their end. The rules of \<^verbatim>\<open>UIDENT\<close> and \<^verbatim>\<open>USCONST\<close> are of this
  kind too, and of the other tokens \<^verbatim>\<open>yyleng\<close> is the whole length.
\<close>

definition extent_ok :: "scanned \<Rightarrow> bool" where
  "extent_ok t \<longleftrightarrow>
     (if tok t \<in> {tok_IDENT, tok_SCONST, tok_BCONST, tok_XCONST, tok_C_COMMENT} then yyllocend t = tok_end t
      else if tok t \<in> {tok_UIDENT, tok_USCONST} then 0 \<le> yyleng t \<and> yylloc t + yyleng t < tok_end t
      else yylloc t + yyleng t = tok_end t)"

definition extents_ok :: "scanned list \<Rightarrow> bool" where
  "extents_ok ts \<longleftrightarrow> list_all extent_ok (delivered ts)"

definition placed :: "scanned \<Rightarrow> ScanToken \<Rightarrow> bool" where
  "placed t out \<longleftrightarrow>
     token_code out = tok t \<and> start out = yylloc t \<and>
     (if tok t \<in> {tok_UIDENT, tok_USCONST} then start out \<le> end_ofs out \<and> end_ofs out < tok_end t
      else start out < end_ofs out \<and> end_ofs out = tok_end t)"

fun in_order :: "int \<Rightarrow> int \<Rightarrow> ScanToken list \<Rightarrow> bool" where
  "in_order len p [] \<longleftrightarrow> True"
| "in_order len p (t # ts) \<longleftrightarrow> p \<le> start t \<and> start t \<le> end_ofs t \<and> end_ofs t \<le> len \<and> in_order len (end_ofs t) ts"

lemma in_order_mono: "in_order len p ts \<Longrightarrow> p' \<le> p \<Longrightarrow> in_order len p' ts"
  by (cases ts) auto

lemma delivered_in_order:
  "lexes q p (map token.truncate ts) \<Longrightarrow> extents_ok ts \<Longrightarrow>
   in_order (int (length q)) p (map (output_token kw) (delivered ts)) \<and>
   list_all2 placed (delivered ts) (map (output_token kw) (delivered ts))"
proof (induction ts arbitrary: p)
  case (Cons t ts)
  have tr: "tok (token.truncate t) = tok t" "yylloc (token.truncate t) = yylloc t" "tok_end (token.truncate t) = tok_end t" for t :: scanned
    by (simp_all add: token.defs)
  show ?case
  proof (cases "tok t = 0")
    case False
    then have e: "extent_ok t" "extents_ok ts" using Cons.prems(2) by (simp_all add: extents_ok_def delivered_def)
    have l: "p \<le> yylloc t" "yylloc t < tok_end t" "tok_end t \<le> int (length q)" "lexes q (tok_end t) (map token.truncate ts)"
      using Cons.prems(1) False by (simp_all add: tr)
    have t: "placed t (output_token kw t)" "token_end t \<le> tok_end t" "yylloc t \<le> token_end t"
      using e(1) l(2) by (auto simp: extent_ok_def placed_def output_token_def token_end_def split: if_splits)
    show ?thesis
      using Cons.IH [OF l(4) e(2)] False l(1,3) t in_order_mono [of "int (length q)" "tok_end t" _ "token_end t"]
      by (auto simp: delivered_def output_token_def)
  qed (simp add: delivered_def)
qed simp

lemma pg_query_scan_filled:
  assumes "lexes input 0 (map token.truncate (scan input))" and "extents_ok (scan input)"
  shows "\<exists>out. pg_query_scan kw_class scan input =
      Inr (Inr \<lparr>scan_version = 130003, n_tokens = length out, tokens = map Some out\<rparr>) \<and>
     out = map (output_token kw_class) (delivered (scan input)) \<and> in_order (int (length input)) 0 out \<and>
     list_all2 placed (delivered (scan input)) out"
proof -
  have "\<exists>t \<in> set (map token.truncate ts :: token list). tok t = 0 \<Longrightarrow> \<exists>t \<in> set ts. tok t = 0" for ts :: "scanned list"
    by (auto simp: token.defs)
  moreover have "lexes q p ts \<Longrightarrow> \<exists>t \<in> set ts. tok t = 0" for q p ts
    by (induction q p ts rule: lexes.induct) (auto split: if_splits)
  ultimately have e: "\<exists>t \<in> set (scan input). tok t = 0" using assms(1) by blast
  show ?thesis
    using token_count_delivered [OF e, of 0] delivered_in_order [OF assms, of kw_class]
      lex_tokens_delivered [OF e, of "replicate (length (delivered (scan input))) None" "[]" _ 0 kw_class]
    by (simp add: pg_query_scan_def)
qed

text \<open>An error of the scanner ends the first pass, which has allocated nothing.\<close>

lemma pg_query_scan_error:
  assumes "list_all (\<lambda>t. tok t \<noteq> 0) (scan input)"
  shows "pg_query_scan kw_class scan input = Inr (Inl ''syntax error'')"
proof -
  have "list_all (\<lambda>t. tok t \<noteq> 0) ts \<Longrightarrow> token_count n ts = Inl scan_error" for n ts
    by (induction n ts rule: token_count.induct) auto
  then show ?thesis using assms by (simp add: pg_query_scan_def)
qed

end
