(* ===== verification/Bitmapset.thy ===== *)
theory Bitmapset
  imports Pg_Bitutils
begin

text \<open>
  The bitmap set package, \<^verbatim>\<open>src_backend_nodes_bitmapset.c\<close>, with \<^verbatim>\<open>BITS_PER_BITMAPWORD\<close> 64: a header with
  the number of words and the words behind it. The null pointer is an empty set, and so is every
  array of zero words. \<open>bms_members\<close> is the abstraction to sets of numbers; the operations of
  the tree are shown to implement the set operations, and the two iteration patterns that the
  comments of the file give are shown to end after listing every member once, in order.
\<close>

unbundle bit_operations_syntax

section \<open>State and operations\<close>

record Bitmapset =
  nwords :: int
  bwords :: "64 word block"

abbreviation (input) BITS_PER_BITMAPWORD :: int where "BITS_PER_BITMAPWORD \<equiv> 64"

text \<open>\<^verbatim>\<open>WORDNUM\<close> and \<^verbatim>\<open>BITNUM\<close> on nonnegative numbers; C divides towards zero on the others.\<close>

definition WORDNUM :: "int \<Rightarrow> int" where
  "WORDNUM x = (if x < 0 then - ((- x) div 64) else x div 64)"

definition BITNUM :: "int \<Rightarrow> int" where
  "BITNUM x = (if x < 0 then - ((- x) mod 64) else x mod 64)"

definition RIGHTMOST_ONE :: "64 word \<Rightarrow> 64 word" where
  "RIGHTMOST_ONE x = x AND - x"

definition bms_copy :: "Bitmapset option \<Rightarrow> Bitmapset option res" where
  "bms_copy a =
     (case a of None \<Rightarrow> Inr None
      | Some b \<Rightarrow>
          bindE (palloc 8 (1 + nwords b)) (\<lambda>chunk.
          bindE (cells (bwords b) 0 (nwords b)) (\<lambda>src.
          bindE (memcpy_to (drop 1 chunk) 0 src) (\<lambda>ws.
          Inr (Some \<lparr>nwords = nwords b, bwords = ws\<rparr>)))))"

text \<open>Loops run over the indices \<open>i, i + 1, ...\<close>; the last argument is the number of rounds left.\<close>

fun words_zero :: "64 word block \<Rightarrow> nat \<Rightarrow> nat \<Rightarrow> bool res" where
  "words_zero ws i 0 = Inr True"
| "words_zero ws i (Suc n) =
     bindE (load ws (int i)) (\<lambda>w. if w \<noteq> 0 then Inr False else words_zero ws (Suc i) n)"

definition bms_is_empty :: "Bitmapset option \<Rightarrow> bool res" where
  "bms_is_empty a = (case a of None \<Rightarrow> Inr True | Some b \<Rightarrow> words_zero (bwords b) 0 (nat (nwords b)))"

fun words_equal :: "64 word block \<Rightarrow> 64 word block \<Rightarrow> nat \<Rightarrow> nat \<Rightarrow> bool res" where
  "words_equal ws vs i 0 = Inr True"
| "words_equal ws vs i (Suc n) =
     bindE (load ws (int i)) (\<lambda>w. bindE (load vs (int i)) (\<lambda>v.
     if w \<noteq> v then Inr False else words_equal ws vs (Suc i) n))"

definition bms_equal :: "Bitmapset option \<Rightarrow> Bitmapset option \<Rightarrow> bool res" where
  "bms_equal a b =
     (case a of
        None \<Rightarrow> (case b of None \<Rightarrow> Inr True | Some _ \<Rightarrow> bms_is_empty b)
      | Some x \<Rightarrow> (case b of None \<Rightarrow> bms_is_empty a
         | Some y \<Rightarrow>
             (let shorter = (if nwords x \<le> nwords y then x else y);
                  longer = (if nwords x \<le> nwords y then y else x);
                  shortlen = nwords shorter; longlen = nwords longer in
              bindE (words_equal (bwords shorter) (bwords longer) 0 (nat shortlen)) (\<lambda>same.
              if \<not> same then Inr False
              else words_zero (bwords longer) (nat shortlen) (nat (longlen - shortlen))))))"

fun count_words :: "64 word block \<Rightarrow> nat \<Rightarrow> nat \<Rightarrow> int \<Rightarrow> int res" where
  "count_words ws i 0 result = Inr result"
| "count_words ws i (Suc n) result =
     bindE (load ws (int i)) (\<lambda>w.
     bindE (if w \<noteq> 0 then c_int (result + pg_popcount64_slow w) else Inr result) (count_words ws (Suc i) n))"

definition bms_num_members :: "Bitmapset option \<Rightarrow> int res" where
  "bms_num_members a =
     (case a of None \<Rightarrow> Inr 0 | Some b \<Rightarrow> count_words (bwords b) 0 (nat (nwords b)) 0)"

text \<open>The returned number, and the words as \<open>bms_first_member\<close> leaves them.\<close>

fun take_first :: "64 word block \<Rightarrow> nat \<Rightarrow> nat \<Rightarrow> (int \<times> 64 word block) res" where
  "take_first ws i 0 = Inr (- 1, ws)"
| "take_first ws i (Suc n) =
     bindE (load ws (int i)) (\<lambda>w.
     if w \<noteq> 0
     then (let low = RIGHTMOST_ONE w in
           bindE (store ws (int i) (w AND NOT low)) (\<lambda>ws'.
           bindE (c_int (int i * BITS_PER_BITMAPWORD)) (\<lambda>result.
           bindE (c_int (result + pg_rightmost_one_pos64 low)) (\<lambda>result. Inr (result, ws')))))
     else take_first ws (Suc i) n)"

definition bms_first_member :: "Bitmapset option \<Rightarrow> (int \<times> Bitmapset option) res" where
  "bms_first_member a =
     (case a of None \<Rightarrow> Inr (- 1, None)
      | Some b \<Rightarrow> bindE (take_first (bwords b) 0 (nat (nwords b))) (\<lambda>(x, ws).
          Inr (x, Some (b\<lparr>bwords := ws\<rparr>))))"

text \<open>A left shift of a word; a count outside the width is undefined in C.\<close>

definition shift_left :: "64 word \<Rightarrow> int \<Rightarrow> 64 word res" where
  "shift_left w k = (if k < 0 \<or> 64 \<le> k then Inl BadShift else Inr (push_bit (nat k) w))"

fun find_next :: "64 word block \<Rightarrow> int \<Rightarrow> 64 word \<Rightarrow> nat \<Rightarrow> int res" where
  "find_next ws wordnum bits 0 = Inr (- 2)"
| "find_next ws wordnum bits (Suc n) =
     bindE (load ws wordnum) (\<lambda>w0.
     let w = w0 AND bits in
     if w \<noteq> 0
     then bindE (c_int (wordnum * BITS_PER_BITMAPWORD)) (\<lambda>result. c_int (result + pg_rightmost_one_pos64 w))
     else find_next ws (wordnum + 1) (NOT 0) n)"

definition bms_next_member :: "Bitmapset option \<Rightarrow> int \<Rightarrow> int res" where
  "bms_next_member a prevbit0 =
     (case a of None \<Rightarrow> Inr (- 2)
      | Some b \<Rightarrow>
          bindE (c_int (prevbit0 + 1)) (\<lambda>prevbit.
          bindE (shift_left (NOT 0) (BITNUM prevbit)) (\<lambda>mask.
          find_next (bwords b) (WORDNUM prevbit) mask (nat (nwords b - WORDNUM prevbit)))))"

section \<open>Abstraction and invariant\<close>

definition bms_ok :: "Bitmapset option \<Rightarrow> bool" where
  "bms_ok a = (case a of None \<Rightarrow> True
     | Some b \<Rightarrow> nwords b = int (length (bwords b)) \<and> list_all (\<lambda>c. c \<noteq> None) (bwords b) \<and>
         (1 + nwords b) * 8 \<le> MaxAllocSize \<and> nwords b * 64 \<le> INT_MAX)"

definition bms_words :: "Bitmapset option \<Rightarrow> 64 word list" where
  "bms_words a = (case a of None \<Rightarrow> [] | Some b \<Rightarrow> map the (bwords b))"

definition bits_of :: "64 word list \<Rightarrow> nat set" where
  "bits_of ws = {k. k div 64 < length ws \<and> bit (ws ! (k div 64)) (k mod 64)}"

definition bms_members :: "Bitmapset option \<Rightarrow> nat set" where
  "bms_members a = bits_of (bms_words a)"

lemma bms_okE:
  assumes "bms_ok (Some b)"
  obtains ws where "bwords b = map Some ws" "nwords b = int (length ws)" "length ws < 33554432"
    "bms_words (Some b) = ws"
proof
  show "bwords b = map Some (bms_words (Some b))"
    using assms by (auto simp: bms_ok_def bms_words_def list_all_iff intro!: map_idI [symmetric])
qed (use assms in \<open>auto simp: bms_ok_def bms_words_def\<close>)

lemma bms_okI:
  "bwords b = map Some ws \<Longrightarrow> nwords b = int (length ws) \<Longrightarrow> length ws < 33554432 \<Longrightarrow> bms_ok (Some b)"
  by (auto simp: bms_ok_def list_all_iff)

lemma bms_words_eq: "bwords b = map Some ws \<Longrightarrow> bms_words (Some b) = ws"
  by (simp add: bms_words_def o_def)

lemma load_words [simp]: "i < length ws \<Longrightarrow> load (map Some ws) (int i) = Inr (ws ! i)"
  by (simp add: load_def)

lemma bits_of_word:
  "i < length ws \<Longrightarrow> j < 64 \<Longrightarrow> 64 * i + j \<in> bits_of ws \<longleftrightarrow> bit (ws ! i) j"
  by (simp add: bits_of_def)

lemma bits_ofE:
  assumes "k \<in> bits_of ws"
  obtains i j where "k = 64 * i + j" "i < length ws" "j < 64" "bit (ws ! i) j"
proof
  show "k = 64 * (k div 64) + k mod 64" by simp
qed (use assms in \<open>auto simp: bits_of_def\<close>)

lemma bits_of_bound: "k \<in> bits_of ws \<Longrightarrow> k < 64 * length ws"
  by (erule bits_ofE) simp

lemma finite_bits_of [simp]: "finite (bits_of ws)"
  by (rule finite_subset [of _ "{..<64 * length ws}"]) (auto dest: bits_of_bound)

lemma bits_of_empty_iff: "bits_of ws = {} \<longleftrightarrow> (\<forall>i<length ws. ws ! i = 0)"
proof
  assume "bits_of ws = {}"
  then have "\<not> bit (ws ! i) j" if "i < length ws" "j < 64" for i j
    using bits_of_word [OF that] by simp
  then show "\<forall>i<length ws. ws ! i = 0"
    by (auto intro!: bit_word_eqI)
qed (auto elim!: bits_ofE)

lemma bits_of_eq_iff:
  assumes "length vs \<le> length ws"
  shows "bits_of vs = bits_of ws \<longleftrightarrow>
     (\<forall>i<length vs. vs ! i = ws ! i) \<and> (\<forall>i. length vs \<le> i \<longrightarrow> i < length ws \<longrightarrow> ws ! i = 0)"
proof
  assume eq: "bits_of vs = bits_of ws"
  have "vs ! i = ws ! i" if "i < length vs" for i
    using eq that assms by (auto intro!: bit_word_eqI simp flip: bits_of_word)
  moreover have "ws ! i = 0" if "length vs \<le> i" "i < length ws" for i
  proof (rule bit_word_eqI)
    fix n assume "n < LENGTH(64)"
    then have "64 * i + n \<in> bits_of ws \<longleftrightarrow> bit (ws ! i) n" using that by (simp add: bits_of_word)
    moreover have "64 * i + n \<notin> bits_of vs" using that bits_of_bound by fastforce
    ultimately show "bit (ws ! i) n = bit 0 n" using eq by simp
  qed
  ultimately show "(\<forall>i<length vs. vs ! i = ws ! i) \<and> (\<forall>i. length vs \<le> i \<longrightarrow> i < length ws \<longrightarrow> ws ! i = 0)"
    by blast
next
  assume *: "(\<forall>i<length vs. vs ! i = ws ! i) \<and> (\<forall>i. length vs \<le> i \<longrightarrow> i < length ws \<longrightarrow> ws ! i = 0)"
  show "bits_of vs = bits_of ws"
  proof (rule set_eqI)
    fix k show "k \<in> bits_of vs \<longleftrightarrow> k \<in> bits_of ws"
      using * assms by (cases "k div 64 < length vs") (auto simp: bits_of_def)
  qed
qed

lemma bits_of_card: "card (bits_of ws) = (\<Sum>w\<leftarrow>ws. card {j. bit w j})"
proof (induction ws rule: rev_induct)
  case Nil
  then show ?case by (simp add: bits_of_def)
next
  case (snoc w ws)
  have split: "bits_of (ws @ [w]) = bits_of ws \<union> (\<lambda>j. 64 * length ws + j) ` {j. bit w j}"
  proof (rule set_eqI)
    fix k
    have "k div 64 = length ws \<Longrightarrow> k = 64 * length ws + k mod 64" by (metis mult_div_mod_eq)
    moreover have "j < 64" if "bit w j" for j using bit_imp_le_length [OF that] by simp
    ultimately show "k \<in> bits_of (ws @ [w]) \<longleftrightarrow> k \<in> bits_of ws \<union> (\<lambda>j. 64 * length ws + j) ` {j. bit w j}"
      by (auto simp: bits_of_def nth_append less_Suc_eq)
  qed
  have "card (bits_of (ws @ [w])) = card (bits_of ws) + card ((\<lambda>j. 64 * length ws + j) ` {j. bit w j})"
    unfolding split
  proof (rule card_Un_disjoint)
    show "finite ((\<lambda>j. 64 * length ws + j) ` {j. bit w j})"
      by (rule finite_imageI, rule finite_subset [of _ "{..<64}"]) (auto dest: bit_imp_le_length)
    show "bits_of ws \<inter> (\<lambda>j. 64 * length ws + j) ` {j. bit w j} = {}"
      using bits_of_bound by fastforce
  qed simp
  also have "card ((\<lambda>j. 64 * length ws + j) ` {j. bit w j}) = card {j. bit w j}"
    by (rule card_image) (simp add: inj_on_def)
  finally show ?case using snoc.IH by simp
qed

section \<open>Set operations\<close>

lemma all_from_Suc:
  "(\<forall>j. i \<le> j \<longrightarrow> j < i + Suc n \<longrightarrow> P j) \<longleftrightarrow> P i \<and> (\<forall>j. Suc i \<le> j \<longrightarrow> j < Suc i + n \<longrightarrow> P j)"
proof (intro iffI conjI allI impI)
  fix j assume *: "P i \<and> (\<forall>j. Suc i \<le> j \<longrightarrow> j < Suc i + n \<longrightarrow> P j)" "i \<le> j" "j < i + Suc n"
  then show "P j" by (cases "j = i") auto
qed auto

lemma words_zero_spec:
  "i + n \<le> length ws \<Longrightarrow> words_zero (map Some ws) i n = Inr (\<forall>j. i \<le> j \<longrightarrow> j < i + n \<longrightarrow> ws ! j = 0)"
proof (induction n arbitrary: i)
  case (Suc n)
  have "words_zero (map Some ws) (Suc i) n = Inr (\<forall>j. Suc i \<le> j \<longrightarrow> j < Suc i + n \<longrightarrow> ws ! j = 0)"
    by (rule Suc.IH) (use Suc.prems in simp)
  then show ?case unfolding all_from_Suc using Suc.prems by simp
qed simp

lemma words_equal_spec:
  "i + n \<le> length ws \<Longrightarrow> i + n \<le> length vs \<Longrightarrow>
   words_equal (map Some ws) (map Some vs) i n = Inr (\<forall>j. i \<le> j \<longrightarrow> j < i + n \<longrightarrow> ws ! j = vs ! j)"
proof (induction n arbitrary: i)
  case (Suc n)
  have "words_equal (map Some ws) (map Some vs) (Suc i) n =
      Inr (\<forall>j. Suc i \<le> j \<longrightarrow> j < Suc i + n \<longrightarrow> ws ! j = vs ! j)"
    by (rule Suc.IH) (use Suc.prems in simp_all)
  then show ?case unfolding all_from_Suc using Suc.prems by simp
qed simp

lemma bms_is_empty_spec:
  assumes "bms_ok a"
  shows "bms_is_empty a = Inr (bms_members a = {})"
proof (cases a)
  case None
  then show ?thesis by (simp add: bms_is_empty_def bms_members_def bms_words_def bits_of_def)
next
  case (Some b)
  obtain ws where "bwords b = map Some ws" "nwords b = int (length ws)" "bms_words (Some b) = ws"
    using assms Some by (auto elim: bms_okE)
  then show ?thesis
    by (simp add: Some bms_is_empty_def words_zero_spec bms_members_def bits_of_empty_iff)
qed

lemma bms_equal_shorter:
  assumes "bms_ok (Some x)" "bms_ok (Some y)" "nwords x \<le> nwords y"
  shows "bindE (words_equal (bwords x) (bwords y) 0 (nat (nwords x))) (\<lambda>same.
     if \<not> same then Inr False else words_zero (bwords y) (nat (nwords x)) (nat (nwords y - nwords x))) =
   Inr (bms_members (Some x) = bms_members (Some y))"
proof -
  obtain ws where ws: "bwords x = map Some ws" "nwords x = int (length ws)" "bms_words (Some x) = ws"
    using assms(1) by (auto elim: bms_okE)
  obtain vs where vs: "bwords y = map Some vs" "nwords y = int (length vs)" "bms_words (Some y) = vs"
    using assms(2) by (auto elim: bms_okE)
  have len: "length ws \<le> length vs" using assms(3) ws vs by simp
  then have "nat (int (length vs) - int (length ws)) = length vs - length ws" by simp
  then show ?thesis
    using len ws vs bits_of_eq_iff [OF len]
    by (auto simp: words_equal_spec words_zero_spec bms_members_def)
qed

lemma bms_equal_spec:
  assumes "bms_ok a" "bms_ok b"
  shows "bms_equal a b = Inr (bms_members a = bms_members b)"
proof (cases a)
  case None
  then show ?thesis using bms_is_empty_spec [OF assms(2)]
    by (cases b) (auto simp: bms_equal_def bms_members_def bms_words_def bits_of_def)
next
  case (Some x)
  show ?thesis
  proof (cases b)
    case None
    then show ?thesis using bms_is_empty_spec [OF assms(1)] Some
      by (simp add: bms_equal_def bms_members_def bms_words_def bits_of_def)
  next
    case (Some y)
    show ?thesis
    proof (cases "nwords x \<le> nwords y")
      case True
      with bms_equal_shorter [of x y] assms show ?thesis
        by (simp add: Some \<open>a = Some x\<close> bms_equal_def)
    next
      case False
      with bms_equal_shorter [of y x] assms show ?thesis
        by (auto simp: Some \<open>a = Some x\<close> bms_equal_def)
    qed
  qed
qed

lemma bms_copy_spec:
  assumes "bms_ok a"
  shows "bms_copy a = Inr a"
proof (cases a)
  case (Some b)
  obtain ws where ws: "bwords b = map Some ws" "nwords b = int (length ws)" "length ws < 33554432"
    using assms Some by (auto elim: bms_okE)
  have "palloc 8 (1 + nwords b) = Inr (replicate (Suc (length ws)) (None :: 64 word option))"
    using ws by (simp add: palloc_def nat_add_distrib)
  then show ?thesis
    using ws by (simp add: Some bms_copy_def cells_def memcpy_to_def)
qed (simp add: bms_copy_def)

lemma count_words_spec:
  assumes "i + n = length ws" "0 \<le> r" "r + 64 * int n \<le> INT_MAX"
  shows "count_words (map Some ws) i n r = Inr (r + int (\<Sum>w\<leftarrow>drop i ws. card {j. bit w j}))"
  using assms
proof (induction n arbitrary: i r)
  case (Suc n)
  have w: "drop i ws = ws ! i # drop (Suc i) ws"
    using Suc.prems by (simp add: Cons_nth_drop_Suc)
  have pop: "pg_popcount64_slow (ws ! i) = int (card {j. bit (ws ! i) j})"
    by (simp add: pg_popcount64_slow_def builtin_popcount_card)
  have "card {j. bit (ws ! i) j} \<le> card {..<64::nat}"
    by (rule card_mono) (auto dest: bit_imp_le_length)
  then have le: "card {j. bit (ws ! i) j} \<le> 64" by simp
  show ?case
  proof (cases "ws ! i = 0")
    case True
    then have none: "card {j. bit (ws ! i) j} = 0" by (simp flip: bot_set_def)
    show ?thesis using Suc.IH [of "Suc i" r] Suc.prems w True none by (simp flip: bot_set_def)
  next
    case False
    let ?r = "r + int (card {j. bit (ws ! i) j})"
    have "c_int (r + pg_popcount64_slow (ws ! i)) = Inr ?r"
      using Suc.prems le pop by (simp add: c_int_ok)
    moreover have "count_words (map Some ws) (Suc i) n ?r =
        Inr (?r + int (\<Sum>w\<leftarrow>drop (Suc i) ws. card {j. bit w j}))"
      by (rule Suc.IH) (use Suc.prems le in auto)
    ultimately show ?thesis using False Suc.prems w by simp
  qed
qed simp

lemma bms_num_members_spec:
  assumes "bms_ok a"
  shows "bms_num_members a = Inr (int (card (bms_members a)))"
proof (cases a)
  case None
  then show ?thesis by (simp add: bms_num_members_def bms_members_def bms_words_def bits_of_def)
next
  case (Some b)
  obtain ws where "bwords b = map Some ws" "nwords b = int (length ws)" "length ws < 33554432"
    "bms_words (Some b) = ws"
    using assms Some by (auto elim: bms_okE)
  then show ?thesis
    using count_words_spec [of 0 "length ws" ws 0]
    by (simp add: Some bms_num_members_def bms_members_def bits_of_card)
qed

section \<open>The lowest bit\<close>

lemma and_uminus_odd:
  fixes v :: "'a::len word"
  assumes "odd v"
  shows "v AND - v = 1"
proof -
  have "even (NOT v)" using assms by simp
  then have "- v = NOT v OR 1"
    by (simp add: minus_eq_not_plus_1 even_or_iff or_one_eq)
  then have "v AND - v = v AND 1" by (simp add: bit.conj_disj_distrib)
  then show ?thesis using assms by (simp add: and_one_eq odd_iff_mod_2_eq_one)
qed

lemma RIGHTMOST_ONE_spec:
  assumes "bit w k" "\<And>j. j < k \<Longrightarrow> \<not> bit w j"
  shows "RIGHTMOST_ONE w = push_bit k 1"
proof -
  define v where "v = drop_bit k w"
  have w: "w = push_bit k v"
  proof (rule bit_word_eqI)
    fix n assume "n < LENGTH(64)"
    then show "bit w n \<longleftrightarrow> bit (push_bit k v) n"
      using assms(2) [of n] by (cases "n < k") (auto simp: v_def bit_simps)
  qed
  have "odd v" using assms(1) by (simp add: v_def even_drop_bit_iff_not_bit)
  have "- w = push_bit k (- v)" by (simp add: w push_bit_eq_mult)
  then have "w AND - w = push_bit k (v AND - v)" by (simp add: w)
  then show ?thesis unfolding RIGHTMOST_ONE_def using and_uminus_odd [OF \<open>odd v\<close>] by simp
qed

lemma rightmost_one_pos64_eq:
  assumes "bit w k" "\<And>j. j < k \<Longrightarrow> \<not> bit w j"
  shows "pg_rightmost_one_pos64 w = int k"
proof -
  have "w \<noteq> 0" using assms(1) by auto
  then obtain k' where k': "pg_rightmost_one_pos64 w = int k'" "bit w k'" "\<forall>j<k'. \<not> bit w j"
    using pg_rightmost_one_pos64_spec by blast
  then have "k' = k" using assms by (meson linorder_neqE_nat)
  with k' show ?thesis by simp
qed

lemma lowest_bit:
  assumes "(w :: 64 word) \<noteq> 0"
  obtains k where "k < 64" "bit w k" "\<And>j. j < k \<Longrightarrow> \<not> bit w j" "pg_rightmost_one_pos64 w = int k"
  using pg_rightmost_one_pos64_spec [OF assms] by blast

section \<open>Iteration\<close>

text \<open>
  The abstract next member: the least member of a set that is not below \<open>p\<close>, or the end mark.
\<close>

definition next_from :: "nat set \<Rightarrow> nat \<Rightarrow> int" where
  "next_from S p = (if \<exists>k\<in>S. p \<le> k then int (LEAST k. k \<in> S \<and> p \<le> k) else - 2)"

lemma next_from_eq:
  assumes "k \<in> S" "p \<le> k" "\<And>m. m \<in> S \<Longrightarrow> p \<le> m \<Longrightarrow> k \<le> m"
  shows "next_from S p = int k"
proof -
  have "(LEAST k. k \<in> S \<and> p \<le> k) = k" by (rule Least_equality) (use assms in auto)
  then show ?thesis using assms by (auto simp: next_from_def)
qed

lemma next_from_cong:
  assumes "\<And>k. k \<in> S \<Longrightarrow> p \<le> k \<longleftrightarrow> q \<le> k"
  shows "next_from S p = next_from S q"
proof -
  have "(\<lambda>k. k \<in> S \<and> p \<le> k) = (\<lambda>k. k \<in> S \<and> q \<le> k)" using assms by (auto simp: fun_eq_iff)
  then have "(LEAST k. k \<in> S \<and> p \<le> k) = (LEAST k. k \<in> S \<and> q \<le> k)" by (rule arg_cong)
  moreover have "(\<exists>k\<in>S. p \<le> k) \<longleftrightarrow> (\<exists>k\<in>S. q \<le> k)" using assms by auto
  ultimately show ?thesis by (simp only: next_from_def)
qed

lemma find_next_spec:
  assumes "i + n = length ws" "length ws < 33554432" "64 * i \<le> p" "p \<le> 64 * i + 64"
    and "\<And>j. j < 64 \<Longrightarrow> bit bits j \<longleftrightarrow> p \<le> 64 * i + j"
  shows "find_next (map Some ws) (int i) bits n = Inr (next_from (bits_of ws) p)"
  using assms
proof (induction n arbitrary: i p bits)
  case 0
  then have "\<not> p \<le> k" if "k \<in> bits_of ws" for k using bits_of_bound [OF that] by simp
  then show ?case by (auto simp: next_from_def)
next
  case (Suc n)
  let ?w = "ws ! i AND bits"
  have i: "i < length ws" using Suc.prems by simp
  show ?case
  proof (cases "?w = 0")
    case True
    have none: "\<not> p \<le> 64 * i + j" if "bit (ws ! i) j" "j < 64" for j
    proof -
      have "\<not> bit ?w j" using True by simp
      then show ?thesis using that Suc.prems(5) [of j] by (simp add: bit_and_iff)
    qed
    have same: "p \<le> k \<longleftrightarrow> 64 * Suc i \<le> k" if mem: "k \<in> bits_of ws" for k
    proof -
      obtain i' j' where k: "k = 64 * i' + j'" "i' < length ws" "j' < 64" "bit (ws ! i') j'"
        by (rule bits_ofE [OF mem])
      have cases: "i' < i \<or> i' = i \<or> Suc i \<le> i'" by linarith
      have "\<not> p \<le> k" if "i' = i" using none k that by auto
      moreover have "\<not> p \<le> k" if "i' < i" using k that Suc.prems(3) by linarith
      moreover have "p \<le> k" if "Suc i \<le> i'" using k that Suc.prems(4) by linarith
      moreover have "64 * Suc i \<le> k \<longleftrightarrow> Suc i \<le> i'"
        using k(1,3) by auto
      ultimately show ?thesis using cases by auto
    qed
    have "find_next (map Some ws) (int (Suc i)) (NOT 0) n = Inr (next_from (bits_of ws) (64 * Suc i))"
      by (rule Suc.IH) (use Suc.prems in auto)
    then show ?thesis using True i next_from_cong [of "bits_of ws" p "64 * Suc i"] same
      by (simp add: Let_def add.commute)
  next
    case False
    then obtain k where k: "k < 64" "bit ?w k" "\<And>j. j < k \<Longrightarrow> \<not> bit ?w j" "pg_rightmost_one_pos64 ?w = int k"
      by (rule lowest_bit) blast
    have "next_from (bits_of ws) p = int (64 * i + k)"
    proof (rule next_from_eq)
      show "64 * i + k \<in> bits_of ws" using k i by (simp add: bits_of_word bit_and_iff)
      show "p \<le> 64 * i + k" using k Suc.prems(5) by (simp add: bit_and_iff)
      fix m assume m: "m \<in> bits_of ws" "p \<le> m"
      then obtain i' j' where m': "m = 64 * i' + j'" "j' < 64" "bit (ws ! i') j'" by (auto elim: bits_ofE)
      have "i \<le> i'" using m m' Suc.prems(3) by linarith
      moreover have "k \<le> j'" if "i' = i"
        using k(3) [of j'] m m' that Suc.prems(5) [of j'] by (auto simp: bit_and_iff not_less [symmetric])
      ultimately show "64 * i + k \<le> m" using m'(1,2) k(1) by (cases "i' = i") auto
    qed
    then show ?thesis using False i k Suc.prems
      by (simp add: Let_def c_int_ok)
  qed
qed

lemma bms_next_member_spec:
  assumes "bms_ok a" "- 1 \<le> p" "p < INT_MAX"
  shows "bms_next_member a p = Inr (next_from (bms_members a) (nat (p + 1)))"
proof (cases a)
  case None
  then show ?thesis by (simp add: bms_next_member_def bms_members_def bms_words_def bits_of_def next_from_def)
next
  case (Some b)
  obtain ws where ws: "bwords b = map Some ws" "nwords b = int (length ws)" "length ws < 33554432"
    "bms_words (Some b) = ws"
    using assms(1) Some by (auto elim: bms_okE)
  define q where "q = nat (p + 1)"
  have q: "c_int (p + 1) = Inr (int q)" using assms by (simp add: q_def c_int_ok)
  have num: "WORDNUM (int q) = int (q div 64)" "BITNUM (int q) = int (q mod 64)"
    by (simp_all add: WORDNUM_def BITNUM_def zdiv_int zmod_int)
  have shift: "shift_left (NOT 0) (int (q mod 64)) = Inr (push_bit (q mod 64) (NOT 0))"
    by (simp add: shift_left_def)
  have "find_next (map Some ws) (int (q div 64)) (push_bit (q mod 64) (NOT 0))
      (nat (int (length ws) - int (q div 64))) = Inr (next_from (bits_of ws) q)"
  proof (cases "q div 64 \<le> length ws")
    case True
    show ?thesis
    proof (rule find_next_spec)
      show "64 * (q div 64) \<le> q" "q \<le> 64 * (q div 64) + 64" by linarith+
      show "bit (push_bit (q mod 64) (NOT 0 :: 64 word)) j \<longleftrightarrow> q \<le> 64 * (q div 64) + j" if "j < 64" for j
      proof -
        have "q = 64 * (q div 64) + q mod 64" by simp
        then have "q \<le> 64 * (q div 64) + j \<longleftrightarrow> q mod 64 \<le> j" by linarith
        then show ?thesis using that by (simp add: bit_simps not_less)
      qed
    qed (use True ws(3) in auto)
  next
    case False
    then have "\<not> q \<le> k" if "k \<in> bits_of ws" for k using bits_of_bound [OF that] by linarith
    then show ?thesis using False by (auto simp: next_from_def)
  qed
  then show ?thesis
    using ws q num shift by (simp add: Some bms_next_member_def bms_members_def q_def)
qed

lemma bits_of_clear_lowest:
  assumes "i < length ws" "k < 64" "bit (ws ! i) k"
  shows "bits_of (ws[i := ws ! i AND NOT (push_bit k 1)]) = bits_of ws - {64 * i + k}"
proof (rule set_eqI)
  fix m
  show "m \<in> bits_of (ws[i := ws ! i AND NOT (push_bit k 1)]) \<longleftrightarrow> m \<in> bits_of ws - {64 * i + k}"
  proof (cases "m div 64 = i")
    case True
    then have "m = 64 * i + m mod 64" by (metis mult_div_mod_eq)
    then have "m = 64 * i + k \<longleftrightarrow> m mod 64 = k" by linarith
    then show ?thesis using True assms by (auto simp: bits_of_def bit_simps)
  next
    case False
    then have "m \<noteq> 64 * i + k" using assms(2) by auto
    with False show ?thesis by (auto simp: bits_of_def)
  qed
qed

lemma take_first_spec:
  assumes "i + n = length ws" "length ws < 33554432" "\<And>j. j < i \<Longrightarrow> ws ! j = 0"
  shows "\<exists>ws'. take_first (map Some ws) i n =
       Inr (if bits_of ws = {} then - 1 else int (Min (bits_of ws)), map Some ws') \<and>
     length ws' = length ws \<and> bits_of ws' = bits_of ws - {Min (bits_of ws)}"
  using assms
proof (induction n arbitrary: i)
  case 0
  then have "bits_of ws = {}" by (simp add: bits_of_empty_iff)
  then show ?case by auto
next
  case (Suc n)
  have i: "i < length ws" using Suc.prems by simp
  show ?case
  proof (cases "ws ! i = 0")
    case True
    have "\<exists>ws'. take_first (map Some ws) (Suc i) n =
         Inr (if bits_of ws = {} then - 1 else int (Min (bits_of ws)), map Some ws') \<and>
       length ws' = length ws \<and> bits_of ws' = bits_of ws - {Min (bits_of ws)}"
      by (rule Suc.IH) (use Suc.prems True in \<open>auto simp: less_Suc_eq\<close>)
    then show ?thesis using True i by simp
  next
    case False
    then obtain k where k: "k < 64" "bit (ws ! i) k" "\<And>j. j < k \<Longrightarrow> \<not> bit (ws ! i) j"
      by (rule lowest_bit) blast
    define low :: "64 word" where "low = push_bit k 1"
    have low: "RIGHTMOST_ONE (ws ! i) = low" unfolding low_def by (rule RIGHTMOST_ONE_spec) (use k in auto)
    have pos: "pg_rightmost_one_pos64 low = int k"
      by (rule rightmost_one_pos64_eq) (use k(1) in \<open>auto simp: low_def bit_simps\<close>)
    have mem: "64 * i + k \<in> bits_of ws" using i k by (simp add: bits_of_word)
    have Min: "Min (bits_of ws) = 64 * i + k"
    proof (rule Min_eqI [OF finite_bits_of _ mem])
      fix m assume m: "m \<in> bits_of ws"
      obtain i' j' where m': "m = 64 * i' + j'" "j' < 64" "bit (ws ! i') j'"
        by (rule bits_ofE [OF m])
      have "i \<le> i'" using m'(3) Suc.prems(3) [of i'] by (cases "i' < i") auto
      moreover have "k \<le> j'" if "i' = i" using k(3) [of j'] m'(3) that by (cases "j' < k") auto
      ultimately show "64 * i + k \<le> m" using m'(1,2) k(1) by (cases "i' = i") auto
    qed
    have "take_first (map Some ws) i (Suc n) =
        Inr (int (64 * i + k), map Some (ws[i := ws ! i AND NOT low]))"
      using False i k(1) low pos Suc.prems(2)
      by (simp add: Let_def c_int_ok store_def map_update)
    moreover have "bits_of (ws[i := ws ! i AND NOT low]) = bits_of ws - {Min (bits_of ws)}"
      unfolding Min low_def using i k by (intro bits_of_clear_lowest) auto
    ultimately show ?thesis using Min mem by (intro exI [of _ "ws[i := ws ! i AND NOT low]"]) auto
  qed
qed

lemma bms_first_member_spec:
  assumes "bms_ok a"
  obtains a' where
    "bms_first_member a = Inr (if bms_members a = {} then - 1 else int (Min (bms_members a)), a')"
    "bms_ok a'" "bms_members a' = bms_members a - {Min (bms_members a)}"
proof (cases a)
  case None
  then show ?thesis
    by (intro that [of None]) (auto simp: bms_first_member_def bms_members_def bms_words_def bits_of_def bms_ok_def)
next
  case (Some b)
  obtain ws where ws: "bwords b = map Some ws" "nwords b = int (length ws)" "length ws < 33554432"
    "bms_words (Some b) = ws"
    using assms Some by (auto elim: bms_okE)
  obtain ws' where ws': "take_first (map Some ws) 0 (length ws) =
       Inr (if bits_of ws = {} then - 1 else int (Min (bits_of ws)), map Some ws')"
     "length ws' = length ws" "bits_of ws' = bits_of ws - {Min (bits_of ws)}"
    using take_first_spec [of 0 "length ws" ws] ws(3) by auto
  let ?b = "b\<lparr>bwords := map Some ws'\<rparr>"
  show ?thesis
  proof (rule that [of "Some ?b"])
    show "bms_first_member a =
        Inr (if bms_members a = {} then - 1 else int (Min (bms_members a)), Some ?b)"
      using ws ws' by (simp add: Some bms_first_member_def bms_members_def)
    show "bms_ok (Some ?b)" by (rule bms_okI [of _ ws']) (use ws ws' in auto)
    show "bms_members (Some ?b) = bms_members a - {Min (bms_members a)}"
      using ws ws' by (simp add: Some bms_members_def bms_words_eq)
  qed
qed

text \<open>
  The loop \<^verbatim>\<open>while ((x = step(...)) >= 0) process x\<close> as the list of the members it processes. The
  first argument bounds the rounds; a loop that does not end in time gives \<open>Diverges\<close>.
\<close>

fun iterate :: "('s \<Rightarrow> (int \<times> 's) res) \<Rightarrow> nat \<Rightarrow> 's \<Rightarrow> int list res" where
  "iterate step 0 s = Inl Diverges"
| "iterate step (Suc n) s =
     bindE (step s) (\<lambda>(x, s'). if x \<ge> 0 then bindE (iterate step n s') (\<lambda>xs. Inr (x # xs)) else Inr [])"

text \<open>What an iterator over a set of numbers promises, and what the loop does with it.\<close>

locale set_iterator =
  fixes step :: "'s \<Rightarrow> (int \<times> 's) res" and remaining :: "'s \<Rightarrow> nat set" and ok :: "'s \<Rightarrow> bool"
  assumes finite_remaining: "ok s \<Longrightarrow> finite (remaining s)"
    and step_end: "ok s \<Longrightarrow> remaining s = {} \<Longrightarrow> \<exists>x s'. step s = Inr (x, s') \<and> x < 0"
    and step_min: "ok s \<Longrightarrow> remaining s \<noteq> {} \<Longrightarrow> \<exists>s'. step s = Inr (int (Min (remaining s)), s') \<and>
      ok s' \<and> remaining s' = remaining s - {Min (remaining s)}"
begin

lemma iterate_lists:
  "ok s \<Longrightarrow> card (remaining s) < n \<Longrightarrow>
   iterate step n s = Inr (map int (sorted_list_of_set (remaining s)))"
proof (induction n arbitrary: s)
  case (Suc n)
  show ?case
  proof (cases "remaining s = {}")
    case True
    with step_end [OF Suc.prems(1)] show ?thesis by fastforce
  next
    case False
    let ?R = "remaining s"
    have fin: "finite ?R" using Suc.prems(1) by (rule finite_remaining)
    obtain s' where s': "step s = Inr (int (Min ?R), s')" "ok s'" "remaining s' = ?R - {Min ?R}"
      using step_min [OF Suc.prems(1) False] by blast
    have "card (remaining s') < n"
      using Suc.prems(2) s'(3) card_Diff1_less [OF fin Min_in [OF fin False]] by simp
    then have "iterate step n s' = Inr (map int (sorted_list_of_set (?R - {Min ?R})))"
      using Suc.IH [OF s'(2)] s'(3) by simp
    moreover have "sorted_list_of_set ?R = Min ?R # sorted_list_of_set (?R - {Min ?R})"
      using fin False by (rule sorted_list_of_set_nonempty)
    ultimately show ?thesis using s'(1) by simp
  qed
qed simp

end

text \<open>The two patterns of the file: the destructive one and the one that carries the last member.\<close>

definition next_step :: "Bitmapset option \<times> int \<Rightarrow> (int \<times> (Bitmapset option \<times> int)) res" where
  "next_step = (\<lambda>(a, prevbit). bindE (bms_next_member a prevbit) (\<lambda>x. Inr (x, (a, x))))"

definition members_above :: "Bitmapset option \<times> int \<Rightarrow> nat set" where
  "members_above = (\<lambda>(a, prevbit). {k \<in> bms_members a. prevbit < int k})"

lemma finite_bms_members [simp]: "finite (bms_members a)"
  by (simp add: bms_members_def)

interpretation consume: set_iterator bms_first_member bms_members bms_ok
proof
  fix a assume ok: "bms_ok a"
  show "finite (bms_members a)" by simp
  show "\<exists>x a'. bms_first_member a = Inr (x, a') \<and> x < 0" if "bms_members a = {}"
    using that by (auto intro: bms_first_member_spec [OF ok])
  show "\<exists>a'. bms_first_member a = Inr (int (Min (bms_members a)), a') \<and>
      bms_ok a' \<and> bms_members a' = bms_members a - {Min (bms_members a)}" if "bms_members a \<noteq> {}"
    by (rule bms_first_member_spec [OF ok]) (simp add: that)
qed

lemma bms_members_bound: "bms_ok a \<Longrightarrow> k \<in> bms_members a \<Longrightarrow> int k < INT_MAX"
proof (cases a)
  case (Some b)
  assume *: "bms_ok a" "k \<in> bms_members a"
  obtain ws where "length ws < 33554432" "bms_words (Some b) = ws"
    using * Some by (auto elim: bms_okE)
  then show ?thesis using bits_of_bound [of k ws] * by (simp add: Some bms_members_def)
qed (simp add: bms_members_def bms_words_def bits_of_def)

interpretation traverse: set_iterator next_step members_above "\<lambda>(a, p). bms_ok a \<and> - 1 \<le> p \<and> p < INT_MAX"
proof (unfold_locales; clarify)
  fix a :: "Bitmapset option" and p :: int
  assume ok: "bms_ok a" "- 1 \<le> p" "p < INT_MAX"
  show "finite (members_above (a, p))" by (simp add: members_above_def)
  have pos: "nat (p + 1) \<le> k \<longleftrightarrow> p < int k" for k using ok(2) by linarith
  have step: "next_step (a, p) = Inr (next_from (bms_members a) (nat (p + 1)),
      (a, next_from (bms_members a) (nat (p + 1))))"
    using bms_next_member_spec [OF ok] by (simp add: next_step_def)
  show "\<exists>x s'. next_step (a, p) = Inr (x, s') \<and> x < 0" if "members_above (a, p) = {}"
    using that unfolding step by (auto simp: next_from_def members_above_def pos)
  show "\<exists>s'. next_step (a, p) = Inr (int (Min (members_above (a, p))), s') \<and>
      (case s' of (a, p) \<Rightarrow> bms_ok a \<and> - 1 \<le> p \<and> p < INT_MAX) \<and>
      members_above s' = members_above (a, p) - {Min (members_above (a, p))}" if "members_above (a, p) \<noteq> {}"
  proof -
    let ?m = "Min (members_above (a, p))"
    have fin: "finite (members_above (a, p))" by (simp add: members_above_def)
    have mem: "?m \<in> members_above (a, p)" using fin that by (rule Min_in)
    have least: "?m \<le> k" if "k \<in> bms_members a" "p < int k" for k
      by (rule Min_le [OF fin]) (use that in \<open>auto simp: members_above_def\<close>)
    have "next_from (bms_members a) (nat (p + 1)) = int ?m"
      by (rule next_from_eq) (use mem least in \<open>auto simp: members_above_def pos\<close>)
    moreover have "members_above (a, int ?m) = members_above (a, p) - {?m}"
    proof (rule set_eqI)
      fix k
      have "int ?m < int k \<longleftrightarrow> p < int k \<and> k \<noteq> ?m" if "k \<in> bms_members a"
        using mem least [OF that] by (auto simp: members_above_def)
      then show "k \<in> members_above (a, int ?m) \<longleftrightarrow> k \<in> members_above (a, p) - {?m}"
        by (auto simp: members_above_def)
    qed
    ultimately show ?thesis
      using ok mem bms_members_bound [OF ok(1)] unfolding step by (auto simp: members_above_def)
  qed
qed

section \<open>Properties\<close>

text \<open>
  C29: On well-formed bitmap sets the queries are the set operations of the abstraction and end
  without an error: \<open>bms_is_empty\<close> decides emptiness (the null pointer and every array of zero
  words included), \<open>bms_equal\<close> decides equality of the members whatever the two lengths are,
  \<open>bms_num_members\<close> counts them, and \<open>bms_copy\<close> returns an equal set.
\<close>
theorem bitmapset_refines_set:
  assumes "bms_ok a" "bms_ok b"
  shows "bms_is_empty a = Inr (bms_members a = {}) \<and>
    bms_equal a b = Inr (bms_members a = bms_members b) \<and>
    bms_num_members a = Inr (int (card (bms_members a))) \<and>
    bms_copy a = Inr a"
  using assms by (simp add: bms_is_empty_spec bms_equal_spec bms_num_members_spec bms_copy_spec)

text \<open>A set and the same set with a trailing zero word.\<close>

abbreviation demo_set :: "Bitmapset option" where
  "demo_set \<equiv> Some \<lparr>nwords = 2, bwords = [Some 40, Some 1]\<rparr>"

abbreviation demo_padded :: "Bitmapset option" where
  "demo_padded \<equiv> Some \<lparr>nwords = 3, bwords = [Some 40, Some 1, Some 0]\<rparr>"

theorem bitmapset_refines_set_witness:
  "bms_equal demo_set demo_padded = Inr (bms_members demo_set = bms_members demo_padded) \<and>
   bms_equal demo_set demo_padded = Inr True \<and>
   bms_num_members demo_set = Inr (int (card (bms_members demo_set)))"
proof -
  have "bms_ok demo_set" "bms_ok demo_padded" by (simp_all add: bms_ok_def)
  moreover have "bms_equal demo_set demo_padded = Inr True" by code_simp
  ultimately show ?thesis using bitmapset_refines_set [of demo_set demo_padded] by simp
qed

text \<open>
  C15: Both iteration patterns of the comments end and visit every member exactly once in ascending
  order: the destructive loop over \<open>bms_first_member\<close>, and the loop over \<open>bms_next_member\<close> that starts
  with -1. As many rounds as there are members and one more are enough, and the numbers never
  leave the type \<^verbatim>\<open>int\<close>.
\<close>
theorem bitmapset_iteration_terminates:
  assumes "bms_ok a" "card (bms_members a) < n"
  shows "iterate bms_first_member n a = Inr (map int (sorted_list_of_set (bms_members a))) \<and>
    iterate next_step n (a, - 1) = Inr (map int (sorted_list_of_set (bms_members a)))"
proof
  show "iterate bms_first_member n a = Inr (map int (sorted_list_of_set (bms_members a)))"
    using assms by (rule consume.iterate_lists)
  have "members_above (a, - 1) = bms_members a" by (auto simp: members_above_def)
  then show "iterate next_step n (a, - 1) = Inr (map int (sorted_list_of_set (bms_members a)))"
    using traverse.iterate_lists [of "(a, - 1)" n] assms by simp
qed

theorem bitmapset_iteration_terminates_witness:
  "iterate next_step 65 (demo_set, - 1) = Inr [3, 5, 64] \<and>
   iterate bms_first_member 129 demo_set = Inr (map int (sorted_list_of_set (bms_members demo_set)))"
proof -
  have ok: "bms_ok demo_set" by (simp add: bms_ok_def)
  have "bms_num_members demo_set = Inr 3" by code_simp
  then have "card (bms_members demo_set) < 129" using bms_num_members_spec [OF ok] by simp
  moreover have "iterate next_step 65 (demo_set, - 1) = Inr [3, 5, 64]" by code_simp
  ultimately show ?thesis using bitmapset_iteration_terminates [OF ok, of 129] by simp
qed

end
