(* ===== verification/Pg_Wchar.thy ===== *)
theory Pg_Wchar
  imports Pg_Prelude
begin

text \<open>
  Multibyte characters, \<^verbatim>\<open>src_common_wchar.c\<close> with the macros of \<^verbatim>\<open>mb/pg_wchar.h\<close>: for every encoding
  the length and the display width of the character at a pointer, the check that a valid
  character starts there, and the conversions from and to wide characters, collected in the
  table \<open>pg_wchar_table\<close>. A \<^verbatim>\<open>const unsigned char *\<close> is the list of the bytes from the pointer to
  the end of its storage; a read behind that end is an error value, so the functions show
  how many bytes they look at.
\<close>

unbundle bit_operations_syntax

section \<open>Bytes and pointers\<close>

type_synonym bytes = "8 word list"
type_synonym pg_wchar = "32 word"

definition at :: "'a list \<Rightarrow> int \<Rightarrow> 'a res" where
  "at s i = (if i < 0 \<or> int (length s) \<le> i then Inl OutOfBounds else Inr (s ! nat i))"

abbreviation SS2 :: "8 word" where "SS2 \<equiv> 0x8e"
abbreviation SS3 :: "8 word" where "SS3 \<equiv> 0x8f"

definition IS_HIGHBIT_SET :: "8 word \<Rightarrow> bool" where
  "IS_HIGHBIT_SET ch \<longleftrightarrow> ch AND 0x80 \<noteq> 0"

definition ISSJISHEAD :: "8 word \<Rightarrow> bool" where
  "ISSJISHEAD c \<longleftrightarrow> (c \<ge> 0x81 \<and> c \<le> 0x9f) \<or> (c \<ge> 0xe0 \<and> c \<le> 0xfc)"

definition ISSJISTAIL :: "8 word \<Rightarrow> bool" where
  "ISSJISTAIL c \<longleftrightarrow> (c \<ge> 0x40 \<and> c \<le> 0x7e) \<or> (c \<ge> 0x80 \<and> c \<le> 0xfc)"

abbreviation LCPRV1_A :: "8 word" where "LCPRV1_A \<equiv> 0x9a"
abbreviation LCPRV1_B :: "8 word" where "LCPRV1_B \<equiv> 0x9b"
abbreviation LCPRV2_A :: "8 word" where "LCPRV2_A \<equiv> 0x9c"
abbreviation LCPRV2_B :: "8 word" where "LCPRV2_B \<equiv> 0x9d"

definition IS_LC1 :: "8 word \<Rightarrow> bool" where "IS_LC1 c \<longleftrightarrow> c \<ge> 0x81 \<and> c \<le> 0x8d"

definition IS_LC2 :: "8 word \<Rightarrow> bool" where "IS_LC2 c \<longleftrightarrow> c \<ge> 0x90 \<and> c \<le> 0x99"

definition IS_LCPRV1 :: "8 word \<Rightarrow> bool" where "IS_LCPRV1 c \<longleftrightarrow> c = LCPRV1_A \<or> c = LCPRV1_B"

definition IS_LCPRV1_A_RANGE :: "8 word \<Rightarrow> bool" where "IS_LCPRV1_A_RANGE c \<longleftrightarrow> c \<ge> 0xa0 \<and> c \<le> 0xdf"

definition IS_LCPRV1_B_RANGE :: "8 word \<Rightarrow> bool" where "IS_LCPRV1_B_RANGE c \<longleftrightarrow> c \<ge> 0xe0 \<and> c \<le> 0xef"

definition IS_LCPRV2 :: "8 word \<Rightarrow> bool" where "IS_LCPRV2 c \<longleftrightarrow> c = LCPRV2_A \<or> c = LCPRV2_B"

definition IS_LCPRV2_A_RANGE :: "8 word \<Rightarrow> bool" where "IS_LCPRV2_A_RANGE c \<longleftrightarrow> c \<ge> 0xf0 \<and> c \<le> 0xf4"

definition IS_LCPRV2_B_RANGE :: "8 word \<Rightarrow> bool" where "IS_LCPRV2_B_RANGE c \<longleftrightarrow> c \<ge> 0xf5 \<and> c \<le> 0xfe"

definition IS_EUC_RANGE_VALID :: "8 word \<Rightarrow> bool" where "IS_EUC_RANGE_VALID c \<longleftrightarrow> c \<ge> 0xa1 \<and> c \<le> 0xfe"

text \<open>A byte as a value of type \<^verbatim>\<open>pg_wchar\<close>, shifted left by \<open>k\<close>; and the byte at a shift.\<close>

definition wide :: "8 word \<Rightarrow> nat \<Rightarrow> pg_wchar" where
  "wide b k = push_bit k (ucast b)"

definition narrow :: "pg_wchar \<Rightarrow> nat \<Rightarrow> 8 word" where
  "narrow w k = ucast (drop_bit k w)"

section \<open>Conversion loops\<close>

text \<open>
  The loop \<^verbatim>\<open>while (len > 0 && *from)\<close> that every conversion to wide characters runs, with the
  body of the loop as a parameter. The body gives the wide character and how many bytes behind
  the first it takes, or \<open>None\<close> for a \<^verbatim>\<open>break\<close>. Behind the loop a zero is stored.
\<close>

type_synonym mb_char = "bytes \<Rightarrow> int \<Rightarrow> (pg_wchar \<times> nat) option res"

function mb2wchar_loop :: "mb_char \<Rightarrow> bytes \<Rightarrow> pg_wchar block \<Rightarrow> int \<Rightarrow> int \<Rightarrow> (int \<times> pg_wchar block) res" where
  "mb2wchar_loop ch from to cnt len =
     (if len > 0
      then bindE (at from 0) (\<lambda>b.
           if b \<noteq> 0
           then bindE (ch from len) (\<lambda>r.
                case r of
                  None \<Rightarrow> bindE (store to cnt 0) (\<lambda>to. Inr (cnt, to))
                | Some (w, more) \<Rightarrow>
                    bindE (store to cnt w) (\<lambda>to.
                    mb2wchar_loop ch (drop (Suc more) from) to (cnt + 1) (len - int (Suc more))))
           else bindE (store to cnt 0) (\<lambda>to. Inr (cnt, to)))
      else bindE (store to cnt 0) (\<lambda>to. Inr (cnt, to)))"
  by pat_completeness auto

termination mb2wchar_loop
  by (relation "measure (\<lambda>(ch, from, to, cnt, len). nat len)") auto

text \<open>The loop of the conversions from wide characters; the body gives the bytes of one.\<close>

function wchar2mb_loop :: "(pg_wchar \<Rightarrow> bytes) \<Rightarrow> pg_wchar list \<Rightarrow> 8 word block \<Rightarrow> int \<Rightarrow> int \<Rightarrow> (int \<times> 8 word block) res" where
  "wchar2mb_loop ch from to cnt len =
     (if len > 0
      then bindE (at from 0) (\<lambda>w.
           if w \<noteq> 0
           then bindE (memcpy_to to cnt (map Some (ch w))) (\<lambda>to.
                wchar2mb_loop ch (drop 1 from) to (cnt + int (length (ch w))) (len - 1))
           else bindE (store to cnt 0) (\<lambda>to. Inr (cnt, to)))
      else bindE (store to cnt 0) (\<lambda>to. Inr (cnt, to)))"
  by pat_completeness auto

termination wchar2mb_loop
  by (relation "measure (\<lambda>(ch, from, to, cnt, len). nat len)") auto

declare mb2wchar_loop.simps [simp del] wchar2mb_loop.simps [simp del]

section \<open>SQL/ASCII\<close>

definition ascii_char :: mb_char where
  "ascii_char from len = bindE (at from 0) (\<lambda>b. Inr (Some (wide b 0, 0)))"

definition pg_ascii2wchar_with_len :: "bytes \<Rightarrow> pg_wchar block \<Rightarrow> int \<Rightarrow> (int \<times> pg_wchar block) res" where
  "pg_ascii2wchar_with_len from to len = mb2wchar_loop ascii_char from to 0 len"

definition pg_ascii_mblen :: "bytes \<Rightarrow> int res" where
  "pg_ascii_mblen s = Inr 1"

definition pg_ascii_dsplen :: "bytes \<Rightarrow> int res" where
  "pg_ascii_dsplen s =
     bindE (at s 0) (\<lambda>c.
     if c = 0 then Inr 0 else if c < 0x20 \<or> c = 0x7f then Inr (- 1) else Inr 1)"

section \<open>EUC\<close>

definition euc_char :: mb_char where
  "euc_char from len =
     bindE (at from 0) (\<lambda>a.
     if a = SS2 \<and> len \<ge> 2
     then bindE (at from 1) (\<lambda>b. Inr (Some (wide SS2 8 OR wide b 0, 1)))
     else if a = SS3 \<and> len \<ge> 3
     then bindE (at from 1) (\<lambda>b. bindE (at from 2) (\<lambda>c.
          Inr (Some (wide SS3 16 OR wide b 8 OR wide c 0, 2))))
     else if IS_HIGHBIT_SET a \<and> len \<ge> 2
     then bindE (at from 1) (\<lambda>b. Inr (Some (wide a 8 OR wide b 0, 1)))
     else Inr (Some (wide a 0, 0)))"

definition pg_euc2wchar_with_len :: "bytes \<Rightarrow> pg_wchar block \<Rightarrow> int \<Rightarrow> (int \<times> pg_wchar block) res" where
  "pg_euc2wchar_with_len from to len = mb2wchar_loop euc_char from to 0 len"

definition pg_euc_mblen :: "bytes \<Rightarrow> int res" where
  "pg_euc_mblen s =
     bindE (at s 0) (\<lambda>c.
     Inr (if c = SS2 then 2 else if c = SS3 then 3 else if IS_HIGHBIT_SET c then 2 else 1))"

definition pg_euc_dsplen :: "bytes \<Rightarrow> int res" where
  "pg_euc_dsplen s =
     bindE (at s 0) (\<lambda>c.
     if c = SS2 then Inr 2 else if c = SS3 then Inr 2 else if IS_HIGHBIT_SET c then Inr 2
     else pg_ascii_dsplen s)"

definition pg_eucjp2wchar_with_len :: "bytes \<Rightarrow> pg_wchar block \<Rightarrow> int \<Rightarrow> (int \<times> pg_wchar block) res" where
  "pg_eucjp2wchar_with_len from to len = pg_euc2wchar_with_len from to len"

definition pg_eucjp_mblen :: "bytes \<Rightarrow> int res" where
  "pg_eucjp_mblen s = pg_euc_mblen s"

definition pg_eucjp_dsplen :: "bytes \<Rightarrow> int res" where
  "pg_eucjp_dsplen s =
     bindE (at s 0) (\<lambda>c.
     if c = SS2 then Inr 1 else if c = SS3 then Inr 2 else if IS_HIGHBIT_SET c then Inr 2
     else pg_ascii_dsplen s)"

definition pg_euckr2wchar_with_len :: "bytes \<Rightarrow> pg_wchar block \<Rightarrow> int \<Rightarrow> (int \<times> pg_wchar block) res" where
  "pg_euckr2wchar_with_len from to len = pg_euc2wchar_with_len from to len"

definition pg_euckr_mblen :: "bytes \<Rightarrow> int res" where
  "pg_euckr_mblen s = pg_euc_mblen s"

definition pg_euckr_dsplen :: "bytes \<Rightarrow> int res" where
  "pg_euckr_dsplen s = pg_euc_dsplen s"

definition euccn_char :: mb_char where
  "euccn_char from len =
     bindE (at from 0) (\<lambda>a.
     if a = SS2 \<and> len \<ge> 3
     then bindE (at from 1) (\<lambda>b. bindE (at from 2) (\<lambda>c.
          Inr (Some (wide SS2 16 OR wide b 8 OR wide c 0, 2))))
     else if a = SS3 \<and> len \<ge> 3
     then bindE (at from 1) (\<lambda>b. bindE (at from 2) (\<lambda>c.
          Inr (Some (wide SS3 16 OR wide b 8 OR wide c 0, 2))))
     else if IS_HIGHBIT_SET a \<and> len \<ge> 2
     then bindE (at from 1) (\<lambda>b. Inr (Some (wide a 8 OR wide b 0, 1)))
     else Inr (Some (wide a 0, 0)))"

definition pg_euccn2wchar_with_len :: "bytes \<Rightarrow> pg_wchar block \<Rightarrow> int \<Rightarrow> (int \<times> pg_wchar block) res" where
  "pg_euccn2wchar_with_len from to len = mb2wchar_loop euccn_char from to 0 len"

definition pg_euccn_mblen :: "bytes \<Rightarrow> int res" where
  "pg_euccn_mblen s = bindE (at s 0) (\<lambda>c. Inr (if IS_HIGHBIT_SET c then 2 else 1))"

definition pg_euccn_dsplen :: "bytes \<Rightarrow> int res" where
  "pg_euccn_dsplen s = bindE (at s 0) (\<lambda>c. if IS_HIGHBIT_SET c then Inr 2 else pg_ascii_dsplen s)"

definition euctw_char :: mb_char where
  "euctw_char from len =
     bindE (at from 0) (\<lambda>a.
     if a = SS2 \<and> len \<ge> 4
     then bindE (at from 1) (\<lambda>b. bindE (at from 2) (\<lambda>c. bindE (at from 3) (\<lambda>d.
          Inr (Some (wide SS2 24 OR wide b 16 OR wide c 8 OR wide d 0, 3)))))
     else if a = SS3 \<and> len \<ge> 3
     then bindE (at from 1) (\<lambda>b. bindE (at from 2) (\<lambda>c.
          Inr (Some (wide SS3 16 OR wide b 8 OR wide c 0, 2))))
     else if IS_HIGHBIT_SET a \<and> len \<ge> 2
     then bindE (at from 1) (\<lambda>b. Inr (Some (wide a 8 OR wide b 0, 1)))
     else Inr (Some (wide a 0, 0)))"

definition pg_euctw2wchar_with_len :: "bytes \<Rightarrow> pg_wchar block \<Rightarrow> int \<Rightarrow> (int \<times> pg_wchar block) res" where
  "pg_euctw2wchar_with_len from to len = mb2wchar_loop euctw_char from to 0 len"

definition pg_euctw_mblen :: "bytes \<Rightarrow> int res" where
  "pg_euctw_mblen s =
     bindE (at s 0) (\<lambda>c.
     Inr (if c = SS2 then 4 else if c = SS3 then 3 else if IS_HIGHBIT_SET c then 2 else 1))"

definition pg_euctw_dsplen :: "bytes \<Rightarrow> int res" where
  "pg_euctw_dsplen s =
     bindE (at s 0) (\<lambda>c.
     if c = SS2 then Inr 2 else if c = SS3 then Inr 2 else if IS_HIGHBIT_SET c then Inr 2
     else pg_ascii_dsplen s)"

definition euc_bytes :: "pg_wchar \<Rightarrow> bytes" where
  "euc_bytes w =
     (if narrow w 24 \<noteq> 0 then [narrow w 24, narrow w 16, narrow w 8, narrow w 0]
      else if narrow w 16 \<noteq> 0 then [narrow w 16, narrow w 8, narrow w 0]
      else if narrow w 8 \<noteq> 0 then [narrow w 8, narrow w 0]
      else [narrow w 0])"

definition pg_wchar2euc_with_len :: "pg_wchar list \<Rightarrow> 8 word block \<Rightarrow> int \<Rightarrow> (int \<times> 8 word block) res" where
  "pg_wchar2euc_with_len from to len = wchar2mb_loop euc_bytes from to 0 len"

definition pg_johab_mblen :: "bytes \<Rightarrow> int res" where
  "pg_johab_mblen s = pg_euc_mblen s"

definition pg_johab_dsplen :: "bytes \<Rightarrow> int res" where
  "pg_johab_dsplen s = pg_euc_dsplen s"

section \<open>UTF-8\<close>

definition utf_char :: mb_char where
  "utf_char from len =
     bindE (at from 0) (\<lambda>a.
     if a AND 0x80 = 0 then Inr (Some (wide a 0, 0))
     else if a AND 0xe0 = 0xc0
     then (if len < 2 then Inr None
           else bindE (at from 1) (\<lambda>b.
                Inr (Some (wide (a AND 0x1f) 6 OR wide (b AND 0x3f) 0, 1))))
     else if a AND 0xf0 = 0xe0
     then (if len < 3 then Inr None
           else bindE (at from 1) (\<lambda>b. bindE (at from 2) (\<lambda>c.
                Inr (Some (wide (a AND 0x0f) 12 OR wide (b AND 0x3f) 6 OR wide (c AND 0x3f) 0, 2)))))
     else if a AND 0xf8 = 0xf0
     then (if len < 4 then Inr None
           else bindE (at from 1) (\<lambda>b. bindE (at from 2) (\<lambda>c. bindE (at from 3) (\<lambda>d.
                Inr (Some (wide (a AND 0x07) 18 OR wide (b AND 0x3f) 12 OR wide (c AND 0x3f) 6
                  OR wide (d AND 0x3f) 0, 3))))))
     else Inr (Some (wide a 0, 0)))"

definition pg_utf2wchar_with_len :: "bytes \<Rightarrow> pg_wchar block \<Rightarrow> int \<Rightarrow> (int \<times> pg_wchar block) res" where
  "pg_utf2wchar_with_len from to len = mb2wchar_loop utf_char from to 0 len"

text \<open>The bytes \<^verbatim>\<open>unicode_to_utf8\<close> stores, and the call with its destination.\<close>

definition utf8_bytes :: "pg_wchar \<Rightarrow> bytes" where
  "utf8_bytes c =
     (if c \<le> 0x7F then [narrow c 0]
      else if c \<le> 0x7FF
      then [0xC0 OR (narrow c 6 AND 0x1F), 0x80 OR (narrow c 0 AND 0x3F)]
      else if c \<le> 0xFFFF
      then [0xE0 OR (narrow c 12 AND 0x0F), 0x80 OR (narrow c 6 AND 0x3F), 0x80 OR (narrow c 0 AND 0x3F)]
      else [0xF0 OR (narrow c 18 AND 0x07), 0x80 OR (narrow c 12 AND 0x3F),
            0x80 OR (narrow c 6 AND 0x3F), 0x80 OR (narrow c 0 AND 0x3F)])"

definition unicode_to_utf8 :: "pg_wchar \<Rightarrow> 8 word block \<Rightarrow> int \<Rightarrow> 8 word block res" where
  "unicode_to_utf8 c utf8string off = memcpy_to utf8string off (map Some (utf8_bytes c))"

definition pg_utf_mblen :: "bytes \<Rightarrow> int res" where
  "pg_utf_mblen s =
     bindE (at s 0) (\<lambda>c.
     Inr (if c AND 0x80 = 0 then 1 else if c AND 0xe0 = 0xc0 then 2 else if c AND 0xf0 = 0xe0 then 3
          else if c AND 0xf8 = 0xf0 then 4 else 1))"

text \<open>
  This conversion stores a character and then asks for the length of what it has stored.
\<close>

function wchar2utf_loop :: "pg_wchar list \<Rightarrow> 8 word block \<Rightarrow> int \<Rightarrow> int \<Rightarrow> (int \<times> 8 word block) res" where
  "wchar2utf_loop from to cnt len =
     (if len > 0
      then bindE (at from 0) (\<lambda>w.
           if w \<noteq> 0
           then bindE (unicode_to_utf8 w to cnt) (\<lambda>to.
                bindE (load to cnt) (\<lambda>b.
                bindE (pg_utf_mblen [b]) (\<lambda>char_len.
                wchar2utf_loop (drop 1 from) to (cnt + char_len) (len - 1))))
           else bindE (store to cnt 0) (\<lambda>to. Inr (cnt, to)))
      else bindE (store to cnt 0) (\<lambda>to. Inr (cnt, to)))"
  by pat_completeness auto

termination wchar2utf_loop
  by (relation "measure (\<lambda>(from, to, cnt, len). nat len)") auto

declare wchar2utf_loop.simps [simp del]

definition pg_wchar2utf_with_len :: "pg_wchar list \<Rightarrow> 8 word block \<Rightarrow> int \<Rightarrow> (int \<times> 8 word block) res" where
  "pg_wchar2utf_with_len from to len = wchar2utf_loop from to 0 len"

subsection \<open>Display width\<close>

record mbinterval =
  first :: "16 word"
  mbi_last :: "16 word"

function mbbisearch_loop :: "pg_wchar \<Rightarrow> mbinterval list \<Rightarrow> int \<Rightarrow> int \<Rightarrow> bool res" where
  "mbbisearch_loop ucs table lo hi =
     (if hi \<ge> lo
      then (let mid = (lo + hi) div 2 in
            bindE (at table mid) (\<lambda>iv.
            if ucs > ucast (mbi_last iv) then mbbisearch_loop ucs table (mid + 1) hi
            else if ucs < ucast (first iv) then mbbisearch_loop ucs table lo (mid - 1)
            else Inr True))
      else Inr False)"
  by pat_completeness auto

termination mbbisearch_loop
  by (relation "measure (\<lambda>(ucs, table, lo, hi). nat (hi - lo + 1))") auto

declare mbbisearch_loop.simps [simp del]

definition mbbisearch :: "pg_wchar \<Rightarrow> mbinterval list \<Rightarrow> int \<Rightarrow> bool res" where
  "mbbisearch ucs table most =
     bindE (at table 0) (\<lambda>low. bindE (at table most) (\<lambda>high.
     if ucs < ucast (first low) \<or> ucs > ucast (mbi_last high) then Inr False
     else mbbisearch_loop ucs table 0 most))"

definition combining :: "mbinterval list" where
  "combining = map (\<lambda>(a, b). \<lparr>first = a, mbi_last = b\<rparr>) [
    (0x300, 0x36f), (0x483, 0x489), (0x591, 0x5bd), (0x5bf, 0x5bf), (0x5c1, 0x5c2), (0x5c4, 0x5c5),
    (0x5c7, 0x5c7), (0x610, 0x61a), (0x64b, 0x65f), (0x670, 0x670), (0x6d6, 0x6dc), (0x6df, 0x6e4),
    (0x6e7, 0x6e8), (0x6ea, 0x6ed), (0x711, 0x711), (0x730, 0x74a), (0x7a6, 0x7b0), (0x7eb, 0x7f3),
    (0x7fd, 0x7fd), (0x816, 0x819), (0x81b, 0x823), (0x825, 0x827), (0x829, 0x82d), (0x859, 0x85b),
    (0x8d3, 0x8e1), (0x8e3, 0x902), (0x93a, 0x93a), (0x93c, 0x93c), (0x941, 0x948), (0x94d, 0x94d),
    (0x951, 0x957), (0x962, 0x963), (0x981, 0x981), (0x9bc, 0x9bc), (0x9c1, 0x9c4), (0x9cd, 0x9cd),
    (0x9e2, 0x9e3), (0x9fe, 0xa02), (0xa3c, 0xa3c), (0xa41, 0xa51), (0xa70, 0xa71), (0xa75, 0xa75),
    (0xa81, 0xa82), (0xabc, 0xabc), (0xac1, 0xac8), (0xacd, 0xacd), (0xae2, 0xae3), (0xafa, 0xb01),
    (0xb3c, 0xb3c), (0xb3f, 0xb3f), (0xb41, 0xb44), (0xb4d, 0xb56), (0xb62, 0xb63), (0xb82, 0xb82),
    (0xbc0, 0xbc0), (0xbcd, 0xbcd), (0xc00, 0xc00), (0xc04, 0xc04), (0xc3e, 0xc40), (0xc46, 0xc56),
    (0xc62, 0xc63), (0xc81, 0xc81), (0xcbc, 0xcbc), (0xcbf, 0xcbf), (0xcc6, 0xcc6), (0xccc, 0xccd),
    (0xce2, 0xce3), (0xd00, 0xd01), (0xd3b, 0xd3c), (0xd41, 0xd44), (0xd4d, 0xd4d), (0xd62, 0xd63),
    (0xd81, 0xd81), (0xdca, 0xdca), (0xdd2, 0xdd6), (0xe31, 0xe31), (0xe34, 0xe3a), (0xe47, 0xe4e),
    (0xeb1, 0xeb1), (0xeb4, 0xebc), (0xec8, 0xecd), (0xf18, 0xf19), (0xf35, 0xf35), (0xf37, 0xf37),
    (0xf39, 0xf39), (0xf71, 0xf7e), (0xf80, 0xf84), (0xf86, 0xf87), (0xf8d, 0xfbc), (0xfc6, 0xfc6),
    (0x102d, 0x1030), (0x1032, 0x1037), (0x1039, 0x103a), (0x103d, 0x103e), (0x1058, 0x1059),
    (0x105e, 0x1060), (0x1071, 0x1074), (0x1082, 0x1082), (0x1085, 0x1086), (0x108d, 0x108d),
    (0x109d, 0x109d), (0x135d, 0x135f), (0x1712, 0x1714), (0x1732, 0x1734), (0x1752, 0x1753),
    (0x1772, 0x1773), (0x17b4, 0x17b5), (0x17b7, 0x17bd), (0x17c6, 0x17c6), (0x17c9, 0x17d3),
    (0x17dd, 0x17dd), (0x180b, 0x180d), (0x1885, 0x1886), (0x18a9, 0x18a9), (0x1920, 0x1922),
    (0x1927, 0x1928), (0x1932, 0x1932), (0x1939, 0x193b), (0x1a17, 0x1a18), (0x1a1b, 0x1a1b),
    (0x1a56, 0x1a56), (0x1a58, 0x1a60), (0x1a62, 0x1a62), (0x1a65, 0x1a6c), (0x1a73, 0x1a7f),
    (0x1ab0, 0x1b03), (0x1b34, 0x1b34), (0x1b36, 0x1b3a), (0x1b3c, 0x1b3c), (0x1b42, 0x1b42),
    (0x1b6b, 0x1b73), (0x1b80, 0x1b81), (0x1ba2, 0x1ba5), (0x1ba8, 0x1ba9), (0x1bab, 0x1bad),
    (0x1be6, 0x1be6), (0x1be8, 0x1be9), (0x1bed, 0x1bed), (0x1bef, 0x1bf1), (0x1c2c, 0x1c33),
    (0x1c36, 0x1c37), (0x1cd0, 0x1cd2), (0x1cd4, 0x1ce0), (0x1ce2, 0x1ce8), (0x1ced, 0x1ced),
    (0x1cf4, 0x1cf4), (0x1cf8, 0x1cf9), (0x1dc0, 0x1dff), (0x20d0, 0x20f0), (0x2cef, 0x2cf1),
    (0x2d7f, 0x2d7f), (0x2de0, 0x2dff), (0x302a, 0x302d), (0x3099, 0x309a), (0xa66f, 0xa672),
    (0xa674, 0xa67d), (0xa69e, 0xa69f), (0xa6f0, 0xa6f1), (0xa802, 0xa802), (0xa806, 0xa806),
    (0xa80b, 0xa80b), (0xa825, 0xa826), (0xa82c, 0xa82c), (0xa8c4, 0xa8c5), (0xa8e0, 0xa8f1),
    (0xa8ff, 0xa8ff), (0xa926, 0xa92d), (0xa947, 0xa951), (0xa980, 0xa982), (0xa9b3, 0xa9b3),
    (0xa9b6, 0xa9b9), (0xa9bc, 0xa9bd), (0xa9e5, 0xa9e5), (0xaa29, 0xaa2e), (0xaa31, 0xaa32),
    (0xaa35, 0xaa36), (0xaa43, 0xaa43), (0xaa4c, 0xaa4c), (0xaa7c, 0xaa7c), (0xaab0, 0xaab0),
    (0xaab2, 0xaab4), (0xaab7, 0xaab8), (0xaabe, 0xaabf), (0xaac1, 0xaac1), (0xaaec, 0xaaed),
    (0xaaf6, 0xaaf6), (0xabe5, 0xabe5), (0xabe8, 0xabe8), (0xabed, 0xabed), (0xfb1e, 0xfb1e),
    (0xfe00, 0xfe0f), (0xfe20, 0xfe2f)]"

definition ucs_wcwidth :: "pg_wchar \<Rightarrow> int res" where
  "ucs_wcwidth ucs =
     (if ucs = 0 then Inr 0
      else if ucs < 0x20 \<or> (ucs \<ge> 0x7f \<and> ucs < 0xa0) \<or> ucs > 0x0010ffff then Inr (- 1)
      else bindE (mbbisearch ucs combining (int (length combining) - 1)) (\<lambda>found.
           if found then Inr 0
           else Inr (1 +
             (if ucs \<ge> 0x1100 \<and>
                 (ucs \<le> 0x115f \<or>
                  (ucs \<ge> 0x2e80 \<and> ucs \<le> 0xa4cf \<and> ucs AND NOT 0x0011 \<noteq> 0x300a \<and> ucs \<noteq> 0x303f) \<or>
                  (ucs \<ge> 0xac00 \<and> ucs \<le> 0xd7a3) \<or>
                  (ucs \<ge> 0xf900 \<and> ucs \<le> 0xfaff) \<or>
                  (ucs \<ge> 0xfe30 \<and> ucs \<le> 0xfe6f) \<or>
                  (ucs \<ge> 0xff00 \<and> ucs \<le> 0xff5f) \<or>
                  (ucs \<ge> 0xffe0 \<and> ucs \<le> 0xffe6) \<or>
                  (ucs \<ge> 0x20000 \<and> ucs \<le> 0x2ffff))
              then 1 else 0))))"

definition utf8_to_unicode :: "bytes \<Rightarrow> pg_wchar res" where
  "utf8_to_unicode s =
     bindE (at s 0) (\<lambda>a.
     if a AND 0x80 = 0 then Inr (wide a 0)
     else if a AND 0xe0 = 0xc0
     then bindE (at s 1) (\<lambda>b. Inr (wide (a AND 0x1f) 6 OR wide (b AND 0x3f) 0))
     else if a AND 0xf0 = 0xe0
     then bindE (at s 1) (\<lambda>b. bindE (at s 2) (\<lambda>c.
          Inr (wide (a AND 0x0f) 12 OR wide (b AND 0x3f) 6 OR wide (c AND 0x3f) 0)))
     else if a AND 0xf8 = 0xf0
     then bindE (at s 1) (\<lambda>b. bindE (at s 2) (\<lambda>c. bindE (at s 3) (\<lambda>d.
          Inr (wide (a AND 0x07) 18 OR wide (b AND 0x3f) 12 OR wide (c AND 0x3f) 6 OR wide (d AND 0x3f) 0))))
     else Inr 0xffffffff)"

definition pg_utf_dsplen :: "bytes \<Rightarrow> int res" where
  "pg_utf_dsplen s = bindE (utf8_to_unicode s) ucs_wcwidth"

section \<open>Mule internal code\<close>

definition mule_char :: mb_char where
  "mule_char from len =
     bindE (at from 0) (\<lambda>a.
     if IS_LC1 a \<and> len \<ge> 2
     then bindE (at from 1) (\<lambda>b. Inr (Some (wide a 16 OR wide b 0, 1)))
     else if IS_LCPRV1 a \<and> len \<ge> 3
     then bindE (at from 1) (\<lambda>b. bindE (at from 2) (\<lambda>c. Inr (Some (wide b 16 OR wide c 0, 2))))
     else if IS_LC2 a \<and> len \<ge> 3
     then bindE (at from 1) (\<lambda>b. bindE (at from 2) (\<lambda>c.
          Inr (Some (wide a 16 OR wide b 8 OR wide c 0, 2))))
     else if IS_LCPRV2 a \<and> len \<ge> 4
     then bindE (at from 1) (\<lambda>b. bindE (at from 2) (\<lambda>c. bindE (at from 3) (\<lambda>d.
          Inr (Some (wide b 16 OR wide c 8 OR wide d 0, 3)))))
     else Inr (Some (wide a 0, 0)))"

definition pg_mule2wchar_with_len :: "bytes \<Rightarrow> pg_wchar block \<Rightarrow> int \<Rightarrow> (int \<times> pg_wchar block) res" where
  "pg_mule2wchar_with_len from to len = mb2wchar_loop mule_char from to 0 len"

definition mule_bytes :: "pg_wchar \<Rightarrow> bytes" where
  "mule_bytes w =
     (let lb = narrow w 16 in
      if IS_LC1 lb then [lb, narrow w 0]
      else if IS_LC2 lb then [lb, narrow w 8, narrow w 0]
      else if IS_LCPRV1_A_RANGE lb then [LCPRV1_A, lb, narrow w 0]
      else if IS_LCPRV1_B_RANGE lb then [LCPRV1_B, lb, narrow w 0]
      else if IS_LCPRV2_A_RANGE lb then [LCPRV2_A, lb, narrow w 8, narrow w 0]
      else if IS_LCPRV2_B_RANGE lb then [LCPRV2_B, lb, narrow w 8, narrow w 0]
      else [narrow w 0])"

definition pg_wchar2mule_with_len :: "pg_wchar list \<Rightarrow> 8 word block \<Rightarrow> int \<Rightarrow> (int \<times> 8 word block) res" where
  "pg_wchar2mule_with_len from to len = wchar2mb_loop mule_bytes from to 0 len"

definition pg_mule_mblen :: "bytes \<Rightarrow> int res" where
  "pg_mule_mblen s =
     bindE (at s 0) (\<lambda>c.
     Inr (if IS_LC1 c then 2 else if IS_LCPRV1 c then 3 else if IS_LC2 c then 3
          else if IS_LCPRV2 c then 4 else 1))"

definition pg_mule_dsplen :: "bytes \<Rightarrow> int res" where
  "pg_mule_dsplen s =
     bindE (at s 0) (\<lambda>c.
     Inr (if IS_LC1 c then 1 else if IS_LCPRV1 c then 1 else if IS_LC2 c then 2
          else if IS_LCPRV2 c then 2 else 1))"

section \<open>Single-byte encodings\<close>

definition pg_latin12wchar_with_len :: "bytes \<Rightarrow> pg_wchar block \<Rightarrow> int \<Rightarrow> (int \<times> pg_wchar block) res" where
  "pg_latin12wchar_with_len from to len = mb2wchar_loop ascii_char from to 0 len"

definition pg_wchar2single_with_len :: "pg_wchar list \<Rightarrow> 8 word block \<Rightarrow> int \<Rightarrow> (int \<times> 8 word block) res" where
  "pg_wchar2single_with_len from to len = wchar2mb_loop (\<lambda>w. [narrow w 0]) from to 0 len"

definition pg_latin1_mblen :: "bytes \<Rightarrow> int res" where
  "pg_latin1_mblen s = Inr 1"

definition pg_latin1_dsplen :: "bytes \<Rightarrow> int res" where
  "pg_latin1_dsplen s = pg_ascii_dsplen s"

section \<open>Client-only encodings\<close>

definition pg_sjis_mblen :: "bytes \<Rightarrow> int res" where
  "pg_sjis_mblen s =
     bindE (at s 0) (\<lambda>c.
     Inr (if c \<ge> 0xa1 \<and> c \<le> 0xdf then 1 else if IS_HIGHBIT_SET c then 2 else 1))"

definition pg_sjis_dsplen :: "bytes \<Rightarrow> int res" where
  "pg_sjis_dsplen s =
     bindE (at s 0) (\<lambda>c.
     if c \<ge> 0xa1 \<and> c \<le> 0xdf then Inr 1 else if IS_HIGHBIT_SET c then Inr 2 else pg_ascii_dsplen s)"

definition pg_big5_mblen :: "bytes \<Rightarrow> int res" where
  "pg_big5_mblen s = bindE (at s 0) (\<lambda>c. Inr (if IS_HIGHBIT_SET c then 2 else 1))"

definition pg_big5_dsplen :: "bytes \<Rightarrow> int res" where
  "pg_big5_dsplen s = bindE (at s 0) (\<lambda>c. if IS_HIGHBIT_SET c then Inr 2 else pg_ascii_dsplen s)"

definition pg_gbk_mblen :: "bytes \<Rightarrow> int res" where
  "pg_gbk_mblen s = bindE (at s 0) (\<lambda>c. Inr (if IS_HIGHBIT_SET c then 2 else 1))"

definition pg_gbk_dsplen :: "bytes \<Rightarrow> int res" where
  "pg_gbk_dsplen s = bindE (at s 0) (\<lambda>c. if IS_HIGHBIT_SET c then Inr 2 else pg_ascii_dsplen s)"

definition pg_uhc_mblen :: "bytes \<Rightarrow> int res" where
  "pg_uhc_mblen s = bindE (at s 0) (\<lambda>c. Inr (if IS_HIGHBIT_SET c then 2 else 1))"

definition pg_uhc_dsplen :: "bytes \<Rightarrow> int res" where
  "pg_uhc_dsplen s = bindE (at s 0) (\<lambda>c. if IS_HIGHBIT_SET c then Inr 2 else pg_ascii_dsplen s)"

definition pg_gb18030_mblen :: "bytes \<Rightarrow> int res" where
  "pg_gb18030_mblen s =
     bindE (at s 0) (\<lambda>c.
     if \<not> IS_HIGHBIT_SET c then Inr 1
     else bindE (at s 1) (\<lambda>d. Inr (if d \<ge> 0x30 \<and> d \<le> 0x39 then 4 else 2)))"

definition pg_gb18030_dsplen :: "bytes \<Rightarrow> int res" where
  "pg_gb18030_dsplen s = bindE (at s 0) (\<lambda>c. if IS_HIGHBIT_SET c then Inr 2 else pg_ascii_dsplen s)"

section \<open>Validators\<close>

definition pg_ascii_verifier :: "bytes \<Rightarrow> int \<Rightarrow> int res" where
  "pg_ascii_verifier s len = Inr 1"

definition pg_eucjp_verifier :: "bytes \<Rightarrow> int \<Rightarrow> int res" where
  "pg_eucjp_verifier s len =
     bindE (at s 0) (\<lambda>c1.
     if c1 = SS2
     then (if 2 > len then Inr (- 1)
           else bindE (at s 1) (\<lambda>c2. if c2 < 0xa1 \<or> c2 > 0xdf then Inr (- 1) else Inr 2))
     else if c1 = SS3
     then (if 3 > len then Inr (- 1)
           else bindE (at s 1) (\<lambda>c2.
                if \<not> IS_EUC_RANGE_VALID c2 then Inr (- 1)
                else bindE (at s 2) (\<lambda>c2. if \<not> IS_EUC_RANGE_VALID c2 then Inr (- 1) else Inr 3)))
     else if IS_HIGHBIT_SET c1
     then (if 2 > len then Inr (- 1)
           else if \<not> IS_EUC_RANGE_VALID c1 then Inr (- 1)
           else bindE (at s 1) (\<lambda>c2. if \<not> IS_EUC_RANGE_VALID c2 then Inr (- 1) else Inr 2))
     else Inr 1)"

definition pg_euckr_verifier :: "bytes \<Rightarrow> int \<Rightarrow> int res" where
  "pg_euckr_verifier s len =
     bindE (at s 0) (\<lambda>c1.
     if IS_HIGHBIT_SET c1
     then (if 2 > len then Inr (- 1)
           else if \<not> IS_EUC_RANGE_VALID c1 then Inr (- 1)
           else bindE (at s 1) (\<lambda>c2. if \<not> IS_EUC_RANGE_VALID c2 then Inr (- 1) else Inr 2))
     else Inr 1)"

definition pg_euctw_verifier :: "bytes \<Rightarrow> int \<Rightarrow> int res" where
  "pg_euctw_verifier s len =
     bindE (at s 0) (\<lambda>c1.
     if c1 = SS2
     then (if 4 > len then Inr (- 1)
           else bindE (at s 1) (\<lambda>c2.
                if c2 < 0xa1 \<or> c2 > 0xa7 then Inr (- 1)
                else bindE (at s 2) (\<lambda>c2.
                     if \<not> IS_EUC_RANGE_VALID c2 then Inr (- 1)
                     else bindE (at s 3) (\<lambda>c2. if \<not> IS_EUC_RANGE_VALID c2 then Inr (- 1) else Inr 4))))
     else if c1 = SS3 then Inr (- 1)
     else if IS_HIGHBIT_SET c1
     then (if 2 > len then Inr (- 1)
           else bindE (at s 1) (\<lambda>c2. if \<not> IS_EUC_RANGE_VALID c2 then Inr (- 1) else Inr 2))
     else Inr 1)"

text \<open>The loops \<^verbatim>\<open>while (--l > 0)\<close>: the bytes \<open>i, i + 1, ...\<close> are checked, \<open>n\<close> of them.\<close>

fun check_rest :: "(8 word \<Rightarrow> bool) \<Rightarrow> bytes \<Rightarrow> int \<Rightarrow> nat \<Rightarrow> bool res" where
  "check_rest good s i 0 = Inr True"
| "check_rest good s i (Suc n) =
     bindE (at s i) (\<lambda>c. if \<not> good c then Inr False else check_rest good s (i + 1) n)"

definition pg_johab_verifier :: "bytes \<Rightarrow> int \<Rightarrow> int res" where
  "pg_johab_verifier s len =
     bindE (pg_johab_mblen s) (\<lambda>mbl.
     if len < mbl then Inr (- 1)
     else bindE (at s 0) (\<lambda>c.
          if \<not> IS_HIGHBIT_SET c then Inr mbl
          else bindE (check_rest IS_EUC_RANGE_VALID s 1 (nat (mbl - 1))) (\<lambda>good.
               Inr (if good then mbl else - 1))))"

definition pg_mule_verifier :: "bytes \<Rightarrow> int \<Rightarrow> int res" where
  "pg_mule_verifier s len =
     bindE (pg_mule_mblen s) (\<lambda>mbl.
     if len < mbl then Inr (- 1)
     else bindE (check_rest IS_HIGHBIT_SET s 1 (nat (mbl - 1))) (\<lambda>good.
          Inr (if good then mbl else - 1)))"

definition pg_latin1_verifier :: "bytes \<Rightarrow> int \<Rightarrow> int res" where
  "pg_latin1_verifier s len = Inr 1"

definition pg_sjis_verifier :: "bytes \<Rightarrow> int \<Rightarrow> int res" where
  "pg_sjis_verifier s len =
     bindE (pg_sjis_mblen s) (\<lambda>mbl.
     if len < mbl then Inr (- 1)
     else if mbl = 1 then Inr mbl
     else bindE (at s 0) (\<lambda>c1. bindE (at s 1) (\<lambda>c2.
          if \<not> ISSJISHEAD c1 \<or> \<not> ISSJISTAIL c2 then Inr (- 1) else Inr mbl)))"

definition pg_big5_verifier :: "bytes \<Rightarrow> int \<Rightarrow> int res" where
  "pg_big5_verifier s len =
     bindE (pg_big5_mblen s) (\<lambda>mbl.
     if len < mbl then Inr (- 1)
     else bindE (check_rest (\<lambda>c. c \<noteq> 0) s 1 (nat (mbl - 1))) (\<lambda>good.
          Inr (if good then mbl else - 1)))"

definition pg_gbk_verifier :: "bytes \<Rightarrow> int \<Rightarrow> int res" where
  "pg_gbk_verifier s len =
     bindE (pg_gbk_mblen s) (\<lambda>mbl.
     if len < mbl then Inr (- 1)
     else bindE (check_rest (\<lambda>c. c \<noteq> 0) s 1 (nat (mbl - 1))) (\<lambda>good.
          Inr (if good then mbl else - 1)))"

definition pg_uhc_verifier :: "bytes \<Rightarrow> int \<Rightarrow> int res" where
  "pg_uhc_verifier s len =
     bindE (pg_uhc_mblen s) (\<lambda>mbl.
     if len < mbl then Inr (- 1)
     else bindE (check_rest (\<lambda>c. c \<noteq> 0) s 1 (nat (mbl - 1))) (\<lambda>good.
          Inr (if good then mbl else - 1)))"

text \<open>\<^verbatim>\<open>&&\<close> reads its right operand only when the left one holds.\<close>

definition andE :: "bool res \<Rightarrow> bool res \<Rightarrow> bool res" where
  "andE p q = bindE p (\<lambda>b. if b then q else Inr False)"

definition in_range :: "bytes \<Rightarrow> int \<Rightarrow> 8 word \<Rightarrow> 8 word \<Rightarrow> bool res" where
  "in_range s i lo hi = bindE (at s i) (\<lambda>c. Inr (c \<ge> lo \<and> c \<le> hi))"

definition pg_gb18030_verifier :: "bytes \<Rightarrow> int \<Rightarrow> int res" where
  "pg_gb18030_verifier s len =
     bindE (at s 0) (\<lambda>c.
     if \<not> IS_HIGHBIT_SET c then Inr 1
     else bindE (andE (Inr (len \<ge> 4)) (in_range s 1 0x30 0x39)) (\<lambda>four.
     if four
     then bindE (andE (in_range s 0 0x81 0xfe) (andE (in_range s 2 0x81 0xfe) (in_range s 3 0x30 0x39)))
            (\<lambda>good. Inr (if good then 4 else - 1))
     else bindE (andE (Inr (len \<ge> 2)) (in_range s 0 0x81 0xfe)) (\<lambda>two.
     if two
     then bindE (at s 1) (\<lambda>d.
          Inr (if (d \<ge> 0x40 \<and> d \<le> 0x7e) \<or> (d \<ge> 0x80 \<and> d \<le> 0xfe) then 2 else - 1))
     else Inr (- 1))))"

text \<open>
  The cases of \<^verbatim>\<open>pg_utf8_islegal\<close> fall through from the longest to the shortest; the checks of
  the last, the second and the first byte are definitions of their own.
\<close>

definition legal_trail :: "bytes \<Rightarrow> int \<Rightarrow> bool res" where
  "legal_trail source i = bindE (at source i) (\<lambda>a. Inr (\<not> (a < 0x80 \<or> a > 0xBF)))"

definition legal_second :: "bytes \<Rightarrow> bool res" where
  "legal_second source =
     bindE (at source 1) (\<lambda>a. bindE (at source 0) (\<lambda>lead.
     Inr (if lead = 0xE0 then \<not> (a < 0xA0 \<or> a > 0xBF)
          else if lead = 0xED then \<not> (a < 0x80 \<or> a > 0x9F)
          else if lead = 0xF0 then \<not> (a < 0x90 \<or> a > 0xBF)
          else if lead = 0xF4 then \<not> (a < 0x80 \<or> a > 0x8F)
          else \<not> (a < 0x80 \<or> a > 0xBF))))"

definition legal_lead :: "bytes \<Rightarrow> bool res" where
  "legal_lead source = bindE (at source 0) (\<lambda>a. Inr (\<not> (a \<ge> 0x80 \<and> a < 0xC2) \<and> \<not> a > 0xF4))"

definition pg_utf8_islegal :: "bytes \<Rightarrow> int \<Rightarrow> bool res" where
  "pg_utf8_islegal source len =
     (if len = 4
      then andE (legal_trail source 3) (andE (legal_trail source 2)
             (andE (legal_second source) (legal_lead source)))
      else if len = 3
      then andE (legal_trail source 2) (andE (legal_second source) (legal_lead source))
      else if len = 2 then andE (legal_second source) (legal_lead source)
      else if len = 1 then legal_lead source
      else Inr False)"

definition pg_utf8_verifier :: "bytes \<Rightarrow> int \<Rightarrow> int res" where
  "pg_utf8_verifier s len =
     bindE (pg_utf_mblen s) (\<lambda>l.
     if len < l then Inr (- 1)
     else bindE (pg_utf8_islegal s l) (\<lambda>good. if \<not> good then Inr (- 1) else Inr l))"

section \<open>The table of encodings\<close>

record pg_wchar_tbl =
  mb2wchar_with_len :: "(bytes \<Rightarrow> pg_wchar block \<Rightarrow> int \<Rightarrow> (int \<times> pg_wchar block) res) option"
  wchar2mb_with_len :: "(pg_wchar list \<Rightarrow> 8 word block \<Rightarrow> int \<Rightarrow> (int \<times> 8 word block) res) option"
  mblen :: "bytes \<Rightarrow> int res"
  dsplen :: "bytes \<Rightarrow> int res"
  mbverify :: "bytes \<Rightarrow> int \<Rightarrow> int res"
  maxmblen :: int

definition server_entry where
  "server_entry to_wide from_wide len width check most =
     \<lparr>mb2wchar_with_len = Some to_wide, wchar2mb_with_len = Some from_wide, mblen = len,
      dsplen = width, mbverify = check, maxmblen = most\<rparr>"

definition client_entry where
  "client_entry len width check most =
     \<lparr>mb2wchar_with_len = None, wchar2mb_with_len = None, mblen = len,
      dsplen = width, mbverify = check, maxmblen = most\<rparr>"

abbreviation latin1_entry :: pg_wchar_tbl where
  "latin1_entry \<equiv> server_entry pg_latin12wchar_with_len pg_wchar2single_with_len pg_latin1_mblen
     pg_latin1_dsplen pg_latin1_verifier 1"

abbreviation eucjp_entry :: pg_wchar_tbl where
  "eucjp_entry \<equiv> server_entry pg_eucjp2wchar_with_len pg_wchar2euc_with_len pg_eucjp_mblen
     pg_eucjp_dsplen pg_eucjp_verifier 3"

abbreviation sjis_entry :: pg_wchar_tbl where
  "sjis_entry \<equiv> client_entry pg_sjis_mblen pg_sjis_dsplen pg_sjis_verifier 2"

text \<open>The 27 encodings from \<^verbatim>\<open>PG_LATIN1\<close> to \<^verbatim>\<open>PG_KOI8U\<close> have the same entry.\<close>

definition pg_wchar_table :: "pg_wchar_tbl list" where
  "pg_wchar_table =
     [server_entry pg_ascii2wchar_with_len pg_wchar2single_with_len pg_ascii_mblen pg_ascii_dsplen
        pg_ascii_verifier 1,
      eucjp_entry,
      server_entry pg_euccn2wchar_with_len pg_wchar2euc_with_len pg_euccn_mblen pg_euccn_dsplen
        pg_euckr_verifier 2,
      server_entry pg_euckr2wchar_with_len pg_wchar2euc_with_len pg_euckr_mblen pg_euckr_dsplen
        pg_euckr_verifier 3,
      server_entry pg_euctw2wchar_with_len pg_wchar2euc_with_len pg_euctw_mblen pg_euctw_dsplen
        pg_euctw_verifier 4,
      eucjp_entry,
      server_entry pg_utf2wchar_with_len pg_wchar2utf_with_len pg_utf_mblen pg_utf_dsplen
        pg_utf8_verifier 4,
      server_entry pg_mule2wchar_with_len pg_wchar2mule_with_len pg_mule_mblen pg_mule_dsplen
        pg_mule_verifier 4] @
     replicate 27 latin1_entry @
     [sjis_entry,
      client_entry pg_big5_mblen pg_big5_dsplen pg_big5_verifier 2,
      client_entry pg_gbk_mblen pg_gbk_dsplen pg_gbk_verifier 2,
      client_entry pg_uhc_mblen pg_uhc_dsplen pg_uhc_verifier 2,
      client_entry pg_gb18030_mblen pg_gb18030_dsplen pg_gb18030_verifier 4,
      client_entry pg_johab_mblen pg_johab_dsplen pg_johab_verifier 3,
      sjis_entry]"

abbreviation (input) PG_SQL_ASCII :: int where "PG_SQL_ASCII \<equiv> 0"
abbreviation (input) PG_UTF8 :: int where "PG_UTF8 \<equiv> 6"
abbreviation (input) PG_ENCODING_BE_LAST :: int where "PG_ENCODING_BE_LAST \<equiv> 34"
abbreviation (input) PG_LAST_ENCODING :: int where "PG_LAST_ENCODING \<equiv> 42"

definition PG_VALID_ENCODING :: "int \<Rightarrow> bool" where
  "PG_VALID_ENCODING enc \<longleftrightarrow> enc \<ge> 0 \<and> enc < PG_LAST_ENCODING"

definition PG_VALID_BE_ENCODING :: "int \<Rightarrow> bool" where
  "PG_VALID_BE_ENCODING enc \<longleftrightarrow> enc \<ge> 0 \<and> enc \<le> PG_ENCODING_BE_LAST"

definition pg_encoding_mblen :: "int \<Rightarrow> bytes \<Rightarrow> int res" where
  "pg_encoding_mblen encoding mbstr =
     (if PG_VALID_ENCODING encoding
      then bindE (at pg_wchar_table encoding) (\<lambda>t. mblen t mbstr)
      else bindE (at pg_wchar_table PG_SQL_ASCII) (\<lambda>t. mblen t mbstr))"

definition pg_encoding_max_length :: "int \<Rightarrow> int res" where
  "pg_encoding_max_length encoding = bindE (at pg_wchar_table encoding) (\<lambda>t. Inr (maxmblen t))"

end
