(* ===== verification/Encodings.thy ===== *)
theory Encodings
  imports Pg_Wchar Pg_Bitutils
begin

text \<open>
  The contract between an encoding and its clients, as the comment above the validators of
  \<^verbatim>\<open>src_common_wchar.c\<close> states it, and the proof that every entry of \<open>pg_wchar_table\<close> keeps it. The
  table is the interface: the clients in \<^verbatim>\<open>mbutils.c\<close> only go through its function pointers.
\<close>

unbundle bit_operations_syntax

section \<open>Reading bytes\<close>

lemma at_ok [c_mem]: "0 \<le> i \<Longrightarrow> i < int (length s) \<Longrightarrow> at s i = Inr (s ! nat i)"
  by (simp add: at_def)

lemma at_0 [simp]: "s \<noteq> [] \<Longrightarrow> at s 0 = Inr (s ! 0)"
  by (simp add: at_def)

lemma at_append: "at (s @ t) i = (if i < int (length s) then at s i else at t (i - int (length s)))"
  by (auto simp: at_def nth_append nat_diff_distrib nat_less_iff)

lemma IS_HIGHBIT_SET_iff: "IS_HIGHBIT_SET c \<longleftrightarrow> bit c 7"
proof -
  have "(0x80 :: 8 word) = 2 ^ 7" by simp
  then show ?thesis by (simp only: IS_HIGHBIT_SET_def and_exp_eq_0_iff_not_bit not_not)
qed

lemma IS_HIGHBIT_SET_ge: "IS_HIGHBIT_SET c \<longleftrightarrow> 0x80 \<le> c"
proof
  assume "0x80 \<le> c"
  then have "2 ^ 7 \<le> unat c" by (simp add: word_le_nat_alt)
  moreover have "unat c < 2 ^ Suc 7" using unsigned_less [of c] by simp
  ultimately show "IS_HIGHBIT_SET c" unfolding IS_HIGHBIT_SET_iff by (rule bit_of_top)
next
  assume "IS_HIGHBIT_SET c"
  then have "bit c 7" by (simp add: IS_HIGHBIT_SET_iff)
  then have "\<not> unat c < 2 ^ Suc 6" using not_bit_above [of c 6 7] by auto
  then show "0x80 \<le> c" by (simp add: word_le_nat_alt)
qed

section \<open>The contract\<close>

text \<open>
  A validator is called with the number of bytes left, at least one, and looks at no byte
  behind them. It returns -1, or the length of the character at the pointer: positive, at most
  the remaining bytes and the maximum of the encoding, the same length \<^verbatim>\<open>mblen\<close> gives, and with no
  zero byte behind the first. Bytes without the high bit are characters of their own.
\<close>

locale mb_encoding =
  fixes mblen_fn :: "bytes \<Rightarrow> int res" and verify :: "bytes \<Rightarrow> int \<Rightarrow> int res" and most :: int
  assumes verify_total: "0 < n \<Longrightarrow> n \<le> length s \<Longrightarrow> \<exists>l. verify s (int n) = Inr l"
    and verify_range: "0 < n \<Longrightarrow> n \<le> length s \<Longrightarrow> verify s (int n) = Inr l \<Longrightarrow>
      l = - 1 \<or> (1 \<le> l \<and> l \<le> most \<and> l \<le> int n)"
    and verify_mblen: "0 < n \<Longrightarrow> n \<le> length s \<Longrightarrow> verify s (int n) = Inr l \<Longrightarrow> 0 \<le> l \<Longrightarrow> mblen_fn s = Inr l"
    and verify_nonzero: "0 < n \<Longrightarrow> n \<le> length s \<Longrightarrow> verify s (int n) = Inr l \<Longrightarrow>
      0 < i \<Longrightarrow> int i < l \<Longrightarrow> s ! i \<noteq> 0"
    and verify_ascii: "0 < n \<Longrightarrow> n \<le> length s \<Longrightarrow> \<not> IS_HIGHBIT_SET (s ! 0) \<Longrightarrow> verify s (int n) = Inr 1"

section \<open>Every encoding keeps it\<close>

text \<open>One fact per encoding is enough: the outcome of a call, with all that is said about it.\<close>

definition verified :: "(bytes \<Rightarrow> int res) \<Rightarrow> int \<Rightarrow> bytes \<Rightarrow> nat \<Rightarrow> int res \<Rightarrow> bool" where
  "verified mblen_fn most s n r \<longleftrightarrow>
     (r = Inr (- 1) \<and> IS_HIGHBIT_SET (s ! 0)) \<or>
     (\<exists>l. r = Inr (int l) \<and> 1 \<le> l \<and> int l \<le> most \<and> l \<le> n \<and> mblen_fn s = Inr (int l) \<and>
       (\<forall>i. 0 < i \<longrightarrow> i < l \<longrightarrow> s ! i \<noteq> 0) \<and> (\<not> IS_HIGHBIT_SET (s ! 0) \<longrightarrow> l = 1))"

lemma verified_rejects: "IS_HIGHBIT_SET (s ! 0) \<Longrightarrow> verified mblen_fn most s n (Inr (- 1))"
  by (simp add: verified_def)

lemma verified_accepts:
  "mblen_fn s = Inr (int l) \<Longrightarrow> 1 \<le> l \<Longrightarrow> int l \<le> most \<Longrightarrow> l \<le> n \<Longrightarrow>
   (\<And>i. 0 < i \<Longrightarrow> i < l \<Longrightarrow> s ! i \<noteq> 0) \<Longrightarrow> (\<not> IS_HIGHBIT_SET (s ! 0) \<Longrightarrow> l = 1) \<Longrightarrow>
   r = int l \<Longrightarrow> verified mblen_fn most s n (Inr r)"
  by (auto simp: verified_def)

lemma mb_encodingI:
  assumes "\<And>s n. 0 < n \<Longrightarrow> n \<le> length s \<Longrightarrow> verified mblen_fn most s n (verify s (int n))"
  shows "mb_encoding mblen_fn verify most"
proof
  fix s :: bytes and n i :: nat and l :: int
  assume n: "0 < n" "n \<le> length s"
  from assms [OF n] consider (reject) "verify s (int n) = Inr (- 1)" "IS_HIGHBIT_SET (s ! 0)"
    | (accept) k where "verify s (int n) = Inr (int k)" "1 \<le> k" "int k \<le> most" "k \<le> n"
        "mblen_fn s = Inr (int k)" "\<And>i. 0 < i \<Longrightarrow> i < k \<Longrightarrow> s ! i \<noteq> 0" "\<not> IS_HIGHBIT_SET (s ! 0) \<Longrightarrow> k = 1"
    unfolding verified_def by blast
  note outcome = this
  show "\<exists>l. verify s (int n) = Inr l" by (cases rule: outcome) simp_all
  show "\<not> IS_HIGHBIT_SET (s ! 0) \<Longrightarrow> verify s (int n) = Inr 1" by (cases rule: outcome) simp_all
  assume l: "verify s (int n) = Inr l"
  show "l = - 1 \<or> (1 \<le> l \<and> l \<le> most \<and> l \<le> int n)"
    by (cases rule: outcome) (use l in auto)
  show "0 \<le> l \<Longrightarrow> mblen_fn s = Inr l" by (cases rule: outcome) (use l in auto)
  show "0 < i \<Longrightarrow> int i < l \<Longrightarrow> s ! i \<noteq> 0" by (cases rule: outcome) (use l in auto)
qed

lemma check_rest_spec:
  assumes "0 \<le> i" "i + int n \<le> int (length s)"
  shows "check_rest good s i n = Inr (\<forall>k<n. good (s ! (nat i + k)))"
  using assms
proof (induction n arbitrary: i)
  case (Suc n)
  have "check_rest good s (i + 1) n = Inr (\<forall>k<n. good (s ! (nat (i + 1) + k)))"
    by (rule Suc.IH) (use Suc.prems in auto)
  moreover have "(\<forall>k<Suc n. good (s ! (nat i + k))) \<longleftrightarrow>
      good (s ! nat i) \<and> (\<forall>k<n. good (s ! (nat (i + 1) + k)))"
    using Suc.prems(1) by (auto simp: less_Suc_eq_0_disj nat_add_distrib)
  ultimately show ?case using Suc.prems by (simp add: at_ok)
qed simp

lemma less_numeral_cases:
  "(i::nat) < 2 \<longleftrightarrow> i = 0 \<or> i = 1" "i < 3 \<longleftrightarrow> i = 0 \<or> i = 1 \<or> i = 2" "i < 4 \<longleftrightarrow> i = 0 \<or> i = 1 \<or> i = 2 \<or> i = 3"
  by auto

lemma range_nonzero:
  "IS_EUC_RANGE_VALID c \<Longrightarrow> c \<noteq> 0" "IS_HIGHBIT_SET c \<Longrightarrow> c \<noteq> 0" "ISSJISTAIL c \<Longrightarrow> c \<noteq> 0"
  by (auto simp: IS_EUC_RANGE_VALID_def IS_HIGHBIT_SET_def ISSJISTAIL_def)

lemma ss_bytes: "IS_HIGHBIT_SET SS2" "IS_HIGHBIT_SET SS3" "\<not> IS_EUC_RANGE_VALID SS2" "\<not> IS_EUC_RANGE_VALID SS3"
  by (simp_all add: IS_HIGHBIT_SET_def IS_EUC_RANGE_VALID_def)

interpretation ascii: mb_encoding pg_ascii_mblen pg_ascii_verifier 1
  by (rule mb_encodingI) (auto simp: pg_ascii_mblen_def pg_ascii_verifier_def verified_def)

interpretation latin1: mb_encoding pg_latin1_mblen pg_latin1_verifier 1
  by (rule mb_encodingI) (auto simp: pg_latin1_mblen_def pg_latin1_verifier_def verified_def)

lemmas euc_defs = pg_eucjp_mblen_def pg_euckr_mblen_def pg_euccn_mblen_def pg_euc_mblen_def pg_euctw_mblen_def
  pg_eucjp_verifier_def pg_euckr_verifier_def pg_euctw_verifier_def

lemmas byte_facts = verified_def at_def less_numeral_cases range_nonzero ss_bytes

interpretation euckr: mb_encoding pg_euckr_mblen pg_euckr_verifier 3
  by (rule mb_encodingI) (auto simp: euc_defs byte_facts)

interpretation euccn: mb_encoding pg_euccn_mblen pg_euckr_verifier 2
  by (rule mb_encodingI) (auto simp: euc_defs byte_facts)

interpretation eucjp: mb_encoding pg_eucjp_mblen pg_eucjp_verifier 3
  by (rule mb_encodingI) (auto simp: euc_defs byte_facts)

interpretation euctw: mb_encoding pg_euctw_mblen pg_euctw_verifier 4
  by (rule mb_encodingI) (auto simp: euc_defs byte_facts)

interpretation sjis: mb_encoding pg_sjis_mblen pg_sjis_verifier 2
  by (rule mb_encodingI) (auto simp: pg_sjis_mblen_def pg_sjis_verifier_def byte_facts)

lemma verified_rest:
  assumes "mblen_fn s = Inr (int l)" "1 \<le> l" "int l \<le> most" "0 < n" "n \<le> length s"
    and "\<And>c. good c \<Longrightarrow> c \<noteq> 0" "1 < l \<longleftrightarrow> IS_HIGHBIT_SET (s ! 0)"
  shows "verified mblen_fn most s n
     (if int n < int l then Inr (- 1)
      else bindE (check_rest good s 1 (nat (int l - 1))) (\<lambda>b. Inr (if b then int l else - 1)))"
proof (cases "n < l")
  case True
  then show ?thesis using assms by (cases "l = 1") (auto simp: verified_def)
next
  case False
  then have rest: "check_rest good s 1 (nat (int l - 1)) = Inr (\<forall>k<l - 1. good (s ! (1 + k)))"
    using assms(2,5) by (subst check_rest_spec) (auto simp: nat_diff_distrib)
  show ?thesis
  proof (cases "\<forall>k<l - 1. good (s ! (1 + k))")
    case good: True
    have "s ! i \<noteq> 0" if "0 < i" "i < l" for i
      using good [rule_format, of "i - 1"] that assms(6) by auto
    then show ?thesis using False assms good unfolding rest
      by (auto simp: verified_def)
  next
    case bad: False
    then have "1 < l" by (cases "l = 1") auto
    then have "IS_HIGHBIT_SET (s ! 0)" using assms(7) by simp
    then show ?thesis using False bad unfolding rest by (auto simp: verified_def)
  qed
qed

interpretation big5: mb_encoding pg_big5_mblen pg_big5_verifier 2
proof (rule mb_encodingI)
  fix s :: bytes and n :: nat
  assume n: "0 < n" "n \<le> length s"
  then have len: "pg_big5_mblen s = Inr (int (if IS_HIGHBIT_SET (s ! 0) then 2 else 1))"
    by (auto simp: pg_big5_mblen_def at_def)
  show "verified pg_big5_mblen 2 s n (pg_big5_verifier s (int n))"
    unfolding pg_big5_verifier_def len bindE_Inr by (rule verified_rest, rule len) (use n in auto)
qed

interpretation gbk: mb_encoding pg_gbk_mblen pg_gbk_verifier 2
proof (rule mb_encodingI)
  fix s :: bytes and n :: nat
  assume n: "0 < n" "n \<le> length s"
  then have len: "pg_gbk_mblen s = Inr (int (if IS_HIGHBIT_SET (s ! 0) then 2 else 1))"
    by (auto simp: pg_gbk_mblen_def at_def)
  show "verified pg_gbk_mblen 2 s n (pg_gbk_verifier s (int n))"
    unfolding pg_gbk_verifier_def len bindE_Inr by (rule verified_rest, rule len) (use n in auto)
qed

interpretation uhc: mb_encoding pg_uhc_mblen pg_uhc_verifier 2
proof (rule mb_encodingI)
  fix s :: bytes and n :: nat
  assume n: "0 < n" "n \<le> length s"
  then have len: "pg_uhc_mblen s = Inr (int (if IS_HIGHBIT_SET (s ! 0) then 2 else 1))"
    by (auto simp: pg_uhc_mblen_def at_def)
  show "verified pg_uhc_mblen 2 s n (pg_uhc_verifier s (int n))"
    unfolding pg_uhc_verifier_def len bindE_Inr by (rule verified_rest, rule len) (use n in auto)
qed

text \<open>Mule: bytes with the high bit that introduce nothing are characters of one byte.\<close>

lemma mule_lead_highbit:
  "IS_LC1 c \<Longrightarrow> IS_HIGHBIT_SET c" "IS_LC2 c \<Longrightarrow> IS_HIGHBIT_SET c" "IS_LCPRV1 c \<Longrightarrow> IS_HIGHBIT_SET c"
  "IS_LCPRV2 c \<Longrightarrow> IS_HIGHBIT_SET c"
  by (auto simp: IS_LC1_def IS_LC2_def IS_LCPRV1_def IS_LCPRV2_def IS_HIGHBIT_SET_ge word_le_nat_alt)

interpretation mule: mb_encoding pg_mule_mblen pg_mule_verifier 4
proof (rule mb_encodingI)
  fix s :: bytes and n :: nat
  assume n: "0 < n" "n \<le> length s"
  let ?c = "s ! 0"
  define l :: nat where "l = (if IS_LC1 ?c then 2 else if IS_LCPRV1 ?c then 3 else if IS_LC2 ?c then 3
    else if IS_LCPRV2 ?c then 4 else 1)"
  have len: "pg_mule_mblen s = Inr (int l)"
    using n by (auto simp: pg_mule_mblen_def at_def l_def)
  show "verified pg_mule_mblen 4 s n (pg_mule_verifier s (int n))"
  proof (cases "1 < l \<longleftrightarrow> IS_HIGHBIT_SET ?c")
    case True
    show ?thesis
      unfolding pg_mule_verifier_def len bindE_Inr
      by (rule verified_rest, rule len) (use n True in \<open>auto simp: l_def range_nonzero\<close>)
  next
    case False
    then have "l = 1" using mule_lead_highbit [of ?c] by (auto simp: l_def split: if_splits)
    then show ?thesis using n unfolding pg_mule_verifier_def len by (auto simp: verified_def len)
  qed
qed

interpretation johab: mb_encoding pg_johab_mblen pg_johab_verifier 3
proof (rule mb_encodingI)
  fix s :: bytes and n :: nat
  assume n: "0 < n" "n \<le> length s"
  let ?c = "s ! 0"
  define l :: nat where "l = (if ?c = SS2 then 2 else if ?c = SS3 then 3 else if IS_HIGHBIT_SET ?c then 2 else 1)"
  have len: "pg_johab_mblen s = Inr (int l)"
    using n by (auto simp: pg_johab_mblen_def pg_euc_mblen_def at_def l_def)
  show "verified pg_johab_mblen 3 s n (pg_johab_verifier s (int n))"
  proof (cases "IS_HIGHBIT_SET ?c")
    case True
    have "verified pg_johab_mblen 3 s n
     (if int n < int l then Inr (- 1)
      else bindE (check_rest IS_EUC_RANGE_VALID s 1 (nat (int l - 1))) (\<lambda>b. Inr (if b then int l else - 1)))"
      by (rule verified_rest, rule len) (use n True in \<open>auto simp: l_def range_nonzero\<close>)
    moreover have "at s 0 = Inr ?c" using n by (auto simp: at_def)
    ultimately show ?thesis using True unfolding pg_johab_verifier_def len
      by (cases "int n < int l") simp_all
  next
    case False
    then have "l = 1" using ss_bytes by (auto simp: l_def)
    then show ?thesis using n False unfolding pg_johab_verifier_def len by (auto simp: verified_def len at_def)
  qed
qed

interpretation gb18030: mb_encoding pg_gb18030_mblen pg_gb18030_verifier 4
proof (rule mb_encodingI)
  fix s :: bytes and n :: nat
  assume n: "0 < n" "n \<le> length s"
  let ?digit = "0x30 \<le> s ! 1 \<and> s ! 1 \<le> 0x39"
  have at: "at s (int k) = Inr (s ! k)" if "k < n" for k using that n by (simp add: at_def)
  show "verified pg_gb18030_mblen 4 s n (pg_gb18030_verifier s (int n))"
  proof (cases "IS_HIGHBIT_SET (s ! 0) \<and> 2 \<le> n")
    case False
    then show ?thesis using n at [of 0]
      by (auto simp: pg_gb18030_mblen_def pg_gb18030_verifier_def verified_def andE_def)
  next
    case True
    then have two: "at s 0 = Inr (s ! 0)" "at s 1 = Inr (s ! 1)" using at [of 0] at [of 1] by simp_all
    then have len: "pg_gb18030_mblen s = Inr (int (if ?digit then 4 else 2))"
      using True by (simp add: pg_gb18030_mblen_def)
    show ?thesis
    proof (cases "4 \<le> n \<and> ?digit")
      case four: True
      then have "at s 2 = Inr (s ! 2)" "at s 3 = Inr (s ! 3)" using at [of 2] at [of 3] by simp_all
      then show ?thesis using True four two len
        by (auto simp: pg_gb18030_verifier_def in_range_def andE_def verified_def less_numeral_cases)
    next
      case False
      then have "andE (Inr (int n \<ge> 4)) (in_range s 1 0x30 0x39) = Inr False"
        using two by (auto simp: andE_def in_range_def)
      then show ?thesis using True False two len
        by (auto simp: pg_gb18030_verifier_def in_range_def andE_def verified_def less_numeral_cases
            word_le_nat_alt)
    qed
  qed
qed

text \<open>UTF-8: the checks of the trailing bytes, on a buffer that has them.\<close>

lemma utf8_islegal_simps:
  "k < length s \<Longrightarrow> legal_trail s (int k) = Inr (0x80 \<le> s ! k \<and> s ! k \<le> 0xBF)"
  "0 < length s \<Longrightarrow> legal_lead s = Inr (\<not> (0x80 \<le> s ! 0 \<and> s ! 0 < 0xC2) \<and> s ! 0 \<le> 0xF4)"
  by (auto simp: legal_trail_def legal_lead_def at_def not_less)

lemma legal_second_imp: "1 < length s \<Longrightarrow> \<exists>b. legal_second s = Inr b \<and> (b \<longrightarrow> 0x80 \<le> s ! 1 \<and> s ! 1 \<le> 0xBF)"
  by (auto simp: legal_second_def at_def not_less word_le_nat_alt)

lemma utf8_islegal_rest:
  assumes "pg_utf8_islegal s (int l) = Inr True" "1 \<le> l" "l \<le> length s" "0 < i" "i < l"
  shows "s ! i \<noteq> 0"
proof -
  have "l = 1 \<or> l = 2 \<or> l = 3 \<or> l = 4"
    using assms(1) by (auto simp: pg_utf8_islegal_def split: if_splits)
  moreover have "0x80 \<le> s ! 1" if "2 \<le> l"
    using assms(1,3) legal_second_imp [of s] that
    by (auto simp: pg_utf8_islegal_def andE_def bindE_eq_Inr split: if_splits)
  moreover have "0x80 \<le> s ! 2" if "3 \<le> l"
    using assms(1,3) utf8_islegal_simps(1) [of 2 s] that
    by (auto simp: pg_utf8_islegal_def andE_def bindE_eq_Inr split: if_splits)
  moreover have "0x80 \<le> s ! 3" if "4 \<le> l"
    using assms(1,3) utf8_islegal_simps(1) [of 3 s] that
    by (auto simp: pg_utf8_islegal_def andE_def bindE_eq_Inr split: if_splits)
  ultimately show ?thesis using assms(4,5) by (auto simp: less_numeral_cases)
qed

lemma utf8_islegal_total:
  assumes "1 \<le> l" "l \<le> 4" "l \<le> length s"
  shows "\<exists>b. pg_utf8_islegal s (int l) = Inr b"
proof -
  have lead: "legal_lead s = Inr (\<not> (0x80 \<le> s ! 0 \<and> s ! 0 < 0xC2) \<and> s ! 0 \<le> 0xF4)"
    by (rule utf8_islegal_simps) (use assms in linarith)
  have second: "\<exists>b. legal_second s = Inr b" if "2 \<le> l"
    using legal_second_imp [of s] that assms(3) by auto
  have "\<exists>b. legal_trail s (int k) = Inr b" if "k < l" for k
    using utf8_islegal_simps(1) [of k s] that assms(3) by auto
  from this [of 2] this [of 3] have trail: "3 \<le> l \<Longrightarrow> \<exists>b. legal_trail s 2 = Inr b" "4 \<le> l \<Longrightarrow> \<exists>b. legal_trail s 3 = Inr b"
    by simp_all
  consider "l = 1" | "l = 2" | "l = 3" | "l = 4" using assms(1,2) by linarith
  then show ?thesis
  proof cases
    case 1 then show ?thesis using lead by (simp add: pg_utf8_islegal_def)
  next
    case 2 then show ?thesis using lead second by (auto simp: pg_utf8_islegal_def andE_def)
  next
    case 3 then show ?thesis using lead second trail by (auto simp: pg_utf8_islegal_def andE_def)
  next
    case 4 then show ?thesis using lead second trail by (auto simp: pg_utf8_islegal_def andE_def)
  qed
qed

interpretation utf8: mb_encoding pg_utf_mblen pg_utf8_verifier 4
proof (rule mb_encodingI)
  fix s :: bytes and n :: nat
  assume n: "0 < n" "n \<le> length s"
  let ?c = "s ! 0"
  have at0: "at s 0 = Inr ?c" using n by (auto simp: at_def)
  obtain l :: nat where l: "pg_utf_mblen s = Inr (int l)" "1 \<le> l" "l \<le> 4" "\<not> IS_HIGHBIT_SET ?c \<longrightarrow> l = 1"
  proof (rule that)
    show "pg_utf_mblen s = Inr (int (if ?c AND 0x80 = 0 then 1 else if ?c AND 0xe0 = 0xc0 then 2
      else if ?c AND 0xf0 = 0xe0 then 3 else if ?c AND 0xf8 = 0xf0 then 4 else 1))"
      using at0 by (simp add: pg_utf_mblen_def)
  qed (auto simp: IS_HIGHBIT_SET_def)
  show "verified pg_utf_mblen 4 s n (pg_utf8_verifier s (int n))"
  proof (cases "n < l")
    case True
    then show ?thesis using l n by (auto simp: pg_utf8_verifier_def verified_def)
  next
    case False
    then obtain b where b: "pg_utf8_islegal s (int l) = Inr b"
      using utf8_islegal_total [of l s] l n by auto
    have "b" if "\<not> IS_HIGHBIT_SET ?c"
    proof -
      have "legal_lead s = Inr True"
        using that n by (subst utf8_islegal_simps) (auto simp: IS_HIGHBIT_SET_ge word_le_nat_alt)
      then show ?thesis using b l(4) that by (simp add: pg_utf8_islegal_def)
    qed
    then show ?thesis using False b l n utf8_islegal_rest [of s l]
      by (auto simp: pg_utf8_verifier_def verified_def)
  qed
qed

section \<open>The table\<close>

lemma length_pg_wchar_table: "length pg_wchar_table = 42"
  by (simp add: pg_wchar_table_def)

lemma table_entries:
  "t \<in> set pg_wchar_table \<Longrightarrow> mb_encoding (mblen t) (mbverify t) (maxmblen t)"
  unfolding pg_wchar_table_def
  by (auto simp: server_entry_def client_entry_def ascii.mb_encoding_axioms eucjp.mb_encoding_axioms
      euccn.mb_encoding_axioms euckr.mb_encoding_axioms euctw.mb_encoding_axioms utf8.mb_encoding_axioms
      mule.mb_encoding_axioms latin1.mb_encoding_axioms sjis.mb_encoding_axioms big5.mb_encoding_axioms
      gbk.mb_encoding_axioms uhc.mb_encoding_axioms gb18030.mb_encoding_axioms johab.mb_encoding_axioms)

lemma table_lookup:
  assumes "PG_VALID_ENCODING e"
  obtains t where "at pg_wchar_table e = Inr t" "t \<in> set pg_wchar_table" "pg_wchar_table ! nat e = t"
    "mb_encoding (mblen t) (mbverify t) (maxmblen t)"
proof
  show "at pg_wchar_table e = Inr (pg_wchar_table ! nat e)"
    using assms by (simp add: at_def PG_VALID_ENCODING_def length_pg_wchar_table)
  show in_table: "pg_wchar_table ! nat e \<in> set pg_wchar_table"
    by (rule nth_mem) (use assms in \<open>auto simp: PG_VALID_ENCODING_def length_pg_wchar_table nat_less_iff\<close>)
  show "mb_encoding (mblen (pg_wchar_table ! nat e)) (mbverify (pg_wchar_table ! nat e))
      (maxmblen (pg_wchar_table ! nat e))"
    using in_table by (rule table_entries)
qed simp

lemma table_contract:
  "PG_VALID_ENCODING e \<Longrightarrow> at pg_wchar_table e = Inr t \<Longrightarrow> mb_encoding (mblen t) (mbverify t) (maxmblen t)"
  by (auto elim: table_lookup)

end
