(* ===== verification/Mbutils.thy ===== *)
theory Mbutils
  imports Encodings
begin

text \<open>
  The clients of the encoding table, \<^verbatim>\<open>src_backend_utils_mb_mbutils.c\<close> with the names of
  \<^verbatim>\<open>src_common_encnames.c\<close>: verification and clipping of whole strings, the report of an invalid
  sequence, and the conversion of a code point to the database encoding. The thread's
  \<^verbatim>\<open>DatabaseEncoding\<close> is an argument \<open>db\<close>; the conversion procedure that
  \<^verbatim>\<open>Utf8ToServerConvProc\<close> may point to is not part of the tree and an argument as well.
\<close>

unbundle bit_operations_syntax

section \<open>Encoding names\<close>

record pg_enc2name =
  enc_name :: string
  encoding :: int

definition pg_enc2name_tbl :: "pg_enc2name list" where
  "pg_enc2name_tbl = map (\<lambda>(n, i). \<lparr>enc_name = n, encoding = i\<rparr>)
     [(''SQL_ASCII'', 0), (''EUC_JP'', 1), (''EUC_CN'', 2), (''EUC_KR'', 3), (''EUC_TW'', 4),
      (''EUC_JIS_2004'', 5), (''UTF8'', 6), (''MULE_INTERNAL'', 7), (''LATIN1'', 8), (''LATIN2'', 9),
      (''LATIN3'', 10), (''LATIN4'', 11), (''LATIN5'', 12), (''LATIN6'', 13), (''LATIN7'', 14),
      (''LATIN8'', 15), (''LATIN9'', 16), (''LATIN10'', 17), (''WIN1256'', 18), (''WIN1258'', 19),
      (''WIN866'', 20), (''WIN874'', 21), (''KOI8R'', 22), (''WIN1251'', 23), (''WIN1252'', 24),
      (''ISO_8859_5'', 25), (''ISO_8859_6'', 26), (''ISO_8859_7'', 27), (''ISO_8859_8'', 28),
      (''WIN1250'', 29), (''WIN1253'', 30), (''WIN1254'', 31), (''WIN1255'', 32), (''WIN1257'', 33),
      (''KOI8U'', 34), (''SJIS'', 35), (''BIG5'', 36), (''GBK'', 37), (''UHC'', 38), (''GB18030'', 39),
      (''JOHAB'', 40), (''SHIFT_JIS_2004'', 41)]"

text \<open>The new value of \<^verbatim>\<open>DatabaseEncoding\<close>, and the queries on it.\<close>

definition SetDatabaseEncoding :: "int \<Rightarrow> pg_enc2name res" where
  "SetDatabaseEncoding enc =
     (if \<not> PG_VALID_BE_ENCODING enc then Inl (Elog ''invalid database encoding'')
      else at pg_enc2name_tbl enc)"

definition GetDatabaseEncoding :: "pg_enc2name \<Rightarrow> int" where
  "GetDatabaseEncoding db = encoding db"

definition GetDatabaseEncodingName :: "pg_enc2name \<Rightarrow> string" where
  "GetDatabaseEncodingName db = enc_name db"

definition pg_database_encoding_max_length :: "pg_enc2name \<Rightarrow> int res" where
  "pg_database_encoding_max_length db =
     bindE (at pg_wchar_table (GetDatabaseEncoding db)) (\<lambda>t. Inr (maxmblen t))"

section \<open>Lengths\<close>

definition pg_mblen :: "pg_enc2name \<Rightarrow> bytes \<Rightarrow> int res" where
  "pg_mblen db mbstr = bindE (at pg_wchar_table (encoding db)) (\<lambda>t. mblen t mbstr)"

text \<open>
  The loops below advance by the length of a character. If that length were not positive the
  loop would never end, which is the value \<open>Diverges\<close> here.
\<close>

function mbstrlen_loop :: "pg_enc2name \<Rightarrow> bytes \<Rightarrow> int \<Rightarrow> int \<Rightarrow> int res" where
  "mbstrlen_loop db mbstr limit len =
     (if limit > 0
      then bindE (at mbstr 0) (\<lambda>c.
           if c \<noteq> 0
           then bindE (pg_mblen db mbstr) (\<lambda>l.
                if l \<le> 0 then Inl Diverges
                else mbstrlen_loop db (drop (nat l) mbstr) (limit - l) (len + 1))
           else Inr len)
      else Inr len)"
  by pat_completeness auto

termination mbstrlen_loop
  by (relation "measure (\<lambda>(db, mbstr, limit, len). nat limit)") auto

definition pg_mbstrlen_with_len :: "pg_enc2name \<Rightarrow> bytes \<Rightarrow> int \<Rightarrow> int res" where
  "pg_mbstrlen_with_len db mbstr limit =
     bindE (pg_database_encoding_max_length db) (\<lambda>most.
     if most = 1 then Inr limit else mbstrlen_loop db mbstr limit 0)"

function cliplen_loop :: "bytes \<Rightarrow> int \<Rightarrow> int \<Rightarrow> int res" where
  "cliplen_loop str len l =
     (if l < len then bindE (at str l) (\<lambda>c. if c \<noteq> 0 then cliplen_loop str len (l + 1) else Inr l)
      else Inr l)"
  by pat_completeness auto

termination cliplen_loop
  by (relation "measure (\<lambda>(str, len, l). nat (len - l))") auto

definition cliplen :: "bytes \<Rightarrow> int \<Rightarrow> int \<Rightarrow> int res" where
  "cliplen str len limit = cliplen_loop str (min len limit) 0"

function mbcliplen_loop :: "(bytes \<Rightarrow> int res) \<Rightarrow> bytes \<Rightarrow> int \<Rightarrow> int \<Rightarrow> int \<Rightarrow> int res" where
  "mbcliplen_loop mblen_fn mbstr len limit clen =
     (if len > 0
      then bindE (at mbstr 0) (\<lambda>c.
           if c \<noteq> 0
           then bindE (mblen_fn mbstr) (\<lambda>l.
                bindE (c_int (clen + l)) (\<lambda>next.
                if next > limit then Inr clen
                else if next = limit then Inr next
                else if l \<le> 0 then Inl Diverges
                else mbcliplen_loop mblen_fn (drop (nat l) mbstr) (len - l) limit next))
           else Inr clen)
      else Inr clen)"
  by pat_completeness auto

termination mbcliplen_loop
  by (relation "measure (\<lambda>(mblen_fn, mbstr, len, limit, clen). nat len)") auto

declare mbstrlen_loop.simps [simp del] cliplen_loop.simps [simp del] mbcliplen_loop.simps [simp del]

definition pg_encoding_mbcliplen :: "int \<Rightarrow> bytes \<Rightarrow> int \<Rightarrow> int \<Rightarrow> int res" where
  "pg_encoding_mbcliplen enc mbstr len limit =
     bindE (pg_encoding_max_length enc) (\<lambda>most.
     if most = 1 then cliplen mbstr len limit
     else bindE (at pg_wchar_table enc) (\<lambda>t. mbcliplen_loop (mblen t) mbstr len limit 0))"

definition pg_mbcliplen :: "pg_enc2name \<Rightarrow> bytes \<Rightarrow> int \<Rightarrow> int \<Rightarrow> int res" where
  "pg_mbcliplen db mbstr len limit = pg_encoding_mbcliplen (encoding db) mbstr len limit"

section \<open>Verification\<close>

text \<open>The text \<^verbatim>\<open>sprintf\<close> writes for \<^verbatim>\<open>0x%02x\<close>, and the buffer of 41 characters it goes to.\<close>

definition hex_digit :: "nat \<Rightarrow> char" where
  "hex_digit k = ''0123456789abcdef'' ! k"

definition hex_byte :: "8 word \<Rightarrow> string" where
  "hex_byte b = [CHR ''0'', CHR ''x'', hex_digit (unat b div 16), hex_digit (unat b mod 16)]"

definition sprintf_at :: "char block \<Rightarrow> int \<Rightarrow> string \<Rightarrow> (char block \<times> int) res" where
  "sprintf_at buf p s =
     bindE (memcpy_to buf p (map Some (s @ [CHR 0x00]))) (\<lambda>buf. Inr (buf, p + int (length s)))"

fun report_loop :: "bytes \<Rightarrow> int \<Rightarrow> nat \<Rightarrow> char block \<Rightarrow> int \<Rightarrow> (char block \<times> int) res" where
  "report_loop mbstr j 0 buf p = Inr (buf, p)"
| "report_loop mbstr j (Suc n) buf p =
     bindE (at mbstr j) (\<lambda>b. bindE (sprintf_at buf p (hex_byte b)) (\<lambda>(buf, p).
     bindE (if n > 0 then sprintf_at buf p '' '' else Inr (buf, p)) (\<lambda>(buf, p).
     report_loop mbstr (j + 1) n buf p)))"

text \<open>The text up to the first zero of a buffer; \<^verbatim>\<open>%s\<close> reads it.\<close>

fun cstring :: "char block \<Rightarrow> string res" where
  "cstring [] = Inl OutOfBounds"
| "cstring (None # b) = Inl Uninitialised"
| "cstring (Some c # b) = (if c = CHR 0x00 then Inr [] else bindE (cstring b) (\<lambda>s. Inr (c # s)))"

definition report_invalid_encoding :: "int \<Rightarrow> bytes \<Rightarrow> int \<Rightarrow> 'a res" where
  "report_invalid_encoding enc mbstr len =
     bindE (pg_encoding_mblen enc mbstr) (\<lambda>l.
     let jlimit = min (min l len) 8 in
     bindE (report_loop mbstr 0 (nat jlimit) (replicate 41 None) 0) (\<lambda>(buf, p).
     bindE (at pg_enc2name_tbl enc) (\<lambda>e. bindE (cstring buf) (\<lambda>text.
     Inl (Elog (''invalid byte sequence for encoding '' @ [CHR 0x22] @ enc_name e @ [CHR 0x22] @ '': '' @ text))))))"

text \<open>\<^verbatim>\<open>memchr(mbstr, 0, len)\<close>: the offset of the first zero among the first \<open>n\<close> bytes.\<close>

fun memchr0 :: "bytes \<Rightarrow> int \<Rightarrow> nat \<Rightarrow> int option res" where
  "memchr0 s i 0 = Inr None"
| "memchr0 s i (Suc n) = bindE (at s i) (\<lambda>c. if c = 0 then Inr (Some i) else memchr0 s (i + 1) n)"

definition reject :: "int \<Rightarrow> bytes \<Rightarrow> int \<Rightarrow> bool \<Rightarrow> int res" where
  "reject enc mbstr len noError = (if noError then Inr (- 1) else report_invalid_encoding enc mbstr len)"

function verify_loop :: "(bytes \<Rightarrow> int \<Rightarrow> int res) \<Rightarrow> int \<Rightarrow> bool \<Rightarrow> bytes \<Rightarrow> int \<Rightarrow> int \<Rightarrow> int res" where
  "verify_loop mbverify_fn enc noError mbstr len mb_len =
     (if len > 0
      then bindE (at mbstr 0) (\<lambda>c.
           if \<not> IS_HIGHBIT_SET c
           then (if c \<noteq> 0 then verify_loop mbverify_fn enc noError (drop 1 mbstr) (len - 1) (mb_len + 1)
                 else reject enc mbstr len noError)
           else bindE (mbverify_fn mbstr len) (\<lambda>l.
                if l < 0 then reject enc mbstr len noError
                else if l = 0 then Inl Diverges
                else verify_loop mbverify_fn enc noError (drop (nat l) mbstr) (len - l) (mb_len + 1)))
      else Inr mb_len)"
  by pat_completeness auto

termination verify_loop
  by (relation "measure (\<lambda>(f, enc, noError, mbstr, len, mb_len). nat len)") auto

declare verify_loop.simps [simp del]

definition pg_verify_mbstr_len :: "int \<Rightarrow> bytes \<Rightarrow> int \<Rightarrow> bool \<Rightarrow> int res" where
  "pg_verify_mbstr_len enc mbstr len noError =
     bindE (pg_encoding_max_length enc) (\<lambda>most.
     if most \<le> 1
     then bindE (memchr0 mbstr 0 (nat len)) (\<lambda>nullpos.
          case nullpos of
            None \<Rightarrow> Inr len
          | Some i \<Rightarrow> reject enc (drop (nat i) mbstr) 1 noError)
     else bindE (at pg_wchar_table enc) (\<lambda>t. verify_loop (mbverify t) enc noError mbstr len 0))"

definition pg_verifymbstr :: "pg_enc2name \<Rightarrow> bytes \<Rightarrow> int \<Rightarrow> bool \<Rightarrow> bool res" where
  "pg_verifymbstr db mbstr len noError =
     bindE (pg_verify_mbstr_len (GetDatabaseEncoding db) mbstr len noError) (\<lambda>r. Inr (r \<ge> 0))"

section \<open>Code points\<close>

definition is_valid_unicode_codepoint :: "pg_wchar \<Rightarrow> bool" where
  "is_valid_unicode_codepoint c \<longleftrightarrow> c > 0 \<and> c \<le> 0x10FFFF"

text \<open>
  The destination \<open>s\<close> has \<^verbatim>\<open>MAX_UNICODE_EQUIVALENT_STRING+1\<close> bytes. \<open>conv\<close> is the conversion
  procedure, if one was looked up: it gets both encodings, the UTF-8 bytes and the destination.
\<close>

definition pg_unicode_to_server ::
  "pg_enc2name \<Rightarrow> (int \<Rightarrow> int \<Rightarrow> bytes \<Rightarrow> 8 word block \<Rightarrow> 8 word block res) option \<Rightarrow>
   pg_wchar \<Rightarrow> 8 word block \<Rightarrow> 8 word block res" where
  "pg_unicode_to_server db conv c s =
     (if \<not> is_valid_unicode_codepoint c then Inl (Elog ''invalid Unicode code point'')
      else if c \<le> 0x7F
      then bindE (store s 0 (narrow c 0)) (\<lambda>s. store s 1 0)
      else if GetDatabaseEncoding db = PG_UTF8
      then bindE (unicode_to_utf8 c s 0) (\<lambda>s. bindE (load s 0) (\<lambda>b.
           bindE (pg_utf_mblen [b]) (\<lambda>l. store s l 0)))
      else case conv of
             None \<Rightarrow> Inl (Elog (''conversion between UTF8 and '' @ GetDatabaseEncodingName db @ '' is not supported''))
           | Some f \<Rightarrow>
               bindE (unicode_to_utf8 c (replicate 5 None) 0) (\<lambda>u. bindE (load u 0) (\<lambda>b.
               bindE (pg_utf_mblen [b]) (\<lambda>l. bindE (store u l 0) (\<lambda>u.
               bindE (cells u 0 l) (\<lambda>src. f PG_UTF8 (GetDatabaseEncoding db) (map the src) s))))))"

section \<open>Strings of characters\<close>

text \<open>
  The specification: the first \<open>n\<close> bytes are characters of the lengths \<open>ks\<close>, each accepted by the
  validator with the bytes that are left, and none of them the zero character.
\<close>

fun chars_ok :: "(bytes \<Rightarrow> int \<Rightarrow> int res) \<Rightarrow> bytes \<Rightarrow> nat \<Rightarrow> nat list \<Rightarrow> bool" where
  "chars_ok v s n [] = (n = 0)"
| "chars_ok v s n (k # ks) =
     (0 < k \<and> k \<le> n \<and> s ! 0 \<noteq> 0 \<and> v s (int n) = Inr (int k) \<and> chars_ok v (drop k s) (n - k) ks)"

text \<open>
  The offending character: behind the valid characters of the lengths \<open>ks\<close>, which end at \<open>k\<close>, comes a zero
  or something the validator rejects.
\<close>

fun chars_before :: "(bytes \<Rightarrow> int \<Rightarrow> int res) \<Rightarrow> bytes \<Rightarrow> nat \<Rightarrow> nat list \<Rightarrow> bool" where
  "chars_before v s n [] \<longleftrightarrow> 0 < n \<and> (s ! 0 = 0 \<or> v s (int n) = Inr (- 1))"
| "chars_before v s n (k # ks) \<longleftrightarrow>
     0 < k \<and> k \<le> n \<and> s ! 0 \<noteq> 0 \<and> v s (int n) = Inr (int k) \<and> chars_before v (drop k s) (n - k) ks"

lemma chars_before_sum: "chars_before v s n ks \<Longrightarrow> sum_list ks < n"
  by (induction v s n ks rule: chars_before.induct) auto

text \<open>The longest run of whole characters that fits into \<open>r\<close> bytes.\<close>

fun clip :: "nat list \<Rightarrow> int \<Rightarrow> int" where
  "clip [] r = 0"
| "clip (k # ks) r = (if int k > r then 0 else int k + clip ks (r - int k))"

lemma chars_ok_sum: "chars_ok v s n ks \<Longrightarrow> sum_list ks = n"
  by (induction v s n ks rule: chars_ok.induct) auto

lemma chars_ok_pos: "chars_ok v s n ks \<Longrightarrow> k \<in> set ks \<Longrightarrow> 0 < k"
  by (induction v s n ks rule: chars_ok.induct) auto

lemma clip_spec:
  "0 \<le> r \<Longrightarrow> \<exists>j\<le>length ks. clip ks r = int (sum_list (take j ks)) \<and> clip ks r \<le> r \<and>
     (j < length ks \<longrightarrow> r < int (sum_list (take (Suc j) ks)))"
proof (induction ks r rule: clip.induct)
  case (2 k ks r)
  show ?case
  proof (cases "int k > r")
    case True
    then show ?thesis using 2 by (intro exI [of _ 0]) auto
  next
    case False
    then obtain j where j: "j \<le> length ks" "clip ks (r - int k) = int (sum_list (take j ks))"
      "clip ks (r - int k) \<le> r - int k" "j < length ks \<longrightarrow> r - int k < int (sum_list (take (Suc j) ks))"
      using "2.IH" [OF False] False by (meson diff_ge_0_iff_ge linorder_not_less)
    show ?thesis using False j by (intro exI [of _ "Suc j"]) auto
  qed
qed auto

lemma clip_0: "(\<And>k. k \<in> set ks \<Longrightarrow> 0 < k) \<Longrightarrow> clip ks 0 = 0"
  by (cases ks) auto

context mb_encoding
begin

lemma verify_loop_valid:
  "chars_ok verify s n ks \<Longrightarrow> n \<le> length s \<Longrightarrow>
   verify_loop verify enc b s (int n) m = Inr (m + int (length ks))"
proof (induction ks arbitrary: s n m)
  case Nil
  then show ?case by (simp add: verify_loop.simps)
next
  case (Cons k ks)
  then have k: "0 < k" "k \<le> n" "s ! 0 \<noteq> 0" "verify s (int n) = Inr (int k)" and n: "0 < n" "s \<noteq> []"
    by auto
  have rest: "verify_loop verify enc b (drop k s) (int (n - k)) (m + 1) = Inr (m + 1 + int (length ks))"
    by (rule Cons.IH) (use Cons.prems in auto)
  have "k = 1" if "\<not> IS_HIGHBIT_SET (s ! 0)"
    using verify_ascii [OF n(1) Cons.prems(2) that] k(4) by simp
  then show ?case
    using k n rest by (subst verify_loop.simps) (auto simp: of_nat_diff)
qed

lemma verify_loop_invalid:
  assumes "n \<le> length s" "\<nexists>ks. chars_ok verify s n ks"
  shows "\<exists>ks. chars_before verify s n ks \<and>
    (\<forall>b. verify_loop verify enc b s (int n) m = reject enc (drop (sum_list ks) s) (int (n - sum_list ks)) b)"
  using assms
proof (induction n arbitrary: s m rule: less_induct)
  case (less n)
  have "n \<noteq> 0" using less.prems(2) by (metis chars_ok.simps(1))
  then have n: "0 < n" "s \<noteq> []" using less.prems(1) by auto
  obtain l where l: "verify s (int n) = Inr l" "l = - 1 \<or> (1 \<le> l \<and> l \<le> int n)"
    using verify_total [OF n(1) less.prems(1)] verify_range [OF n(1) less.prems(1)] by blast
  have step: "\<exists>ks. chars_before verify s n ks \<and> (\<forall>b. verify_loop verify enc b (drop j s) (int (n - j)) (m + 1) =
      reject enc (drop (sum_list ks) s) (int (n - sum_list ks)) b)" if "l = int j" "s ! 0 \<noteq> 0" "0 < j" "j \<le> n" for j
  proof -
    have "\<nexists>ks. chars_ok verify (drop j s) (n - j) ks"
      using less.prems(2) l(1) that by (metis chars_ok.simps(2))
    moreover have "n - j < n" "n - j \<le> length (drop j s)" using that n less.prems(1) by auto
    ultimately obtain ks where "chars_before verify (drop j s) (n - j) ks"
      "\<forall>b. verify_loop verify enc b (drop j s) (int (n - j)) (m + 1) =
        reject enc (drop (sum_list ks) (drop j s)) (int (n - j - sum_list ks)) b"
      using less.IH [of "n - j" "drop j s" "m + 1"] by blast
    then show ?thesis using l(1) that by (intro exI [of _ "j # ks"]) (simp add: add.commute)
  qed
  show ?case
  proof (cases "s ! 0 = 0 \<or> (IS_HIGHBIT_SET (s ! 0) \<and> l = - 1)")
    case True
    moreover have "\<not> IS_HIGHBIT_SET 0" by (simp add: IS_HIGHBIT_SET_def)
    ultimately have "\<forall>b. verify_loop verify enc b s (int n) m = reject enc s (int n) b"
      using n l by (subst verify_loop.simps) auto
    then show ?thesis using n True l by (intro exI [of _ "[]"]) auto
  next
    case False
    have ascii: "l = 1" if "\<not> IS_HIGHBIT_SET (s ! 0)"
      using verify_ascii [OF n(1) less.prems(1) that] l(1) by simp
    then obtain j where j: "l = int j" "0 < j" "j \<le> n"
      using False l(2) by (cases "IS_HIGHBIT_SET (s ! 0)") (auto intro: that [of "nat l"])
    then have "verify_loop verify enc b s (int n) m = verify_loop verify enc b (drop j s) (int (n - j)) (m + 1)" for b
      using n False l ascii by (subst verify_loop.simps) (auto simp: of_nat_diff)
    then show ?thesis using step [OF j(1) _ j(2,3)] False by simp
  qed
qed

lemma mbcliplen_loop_valid:
  assumes "chars_ok verify s n ks" "n \<le> length s" "0 \<le> clen" "clen < limit" "clen + int n \<le> INT_MAX"
  shows "mbcliplen_loop mblen_fn s (int n) limit clen = Inr (clen + clip ks (limit - clen))"
  using assms
proof (induction ks arbitrary: s n clen)
  case Nil
  then show ?case by (simp add: mbcliplen_loop.simps)
next
  case (Cons k ks)
  then have k: "0 < k" "k \<le> n" "s ! 0 \<noteq> 0" "verify s (int n) = Inr (int k)" and n: "0 < n" "s \<noteq> []"
    by auto
  have len: "mblen_fn s = Inr (int k)"
    using verify_mblen [OF n(1) Cons.prems(2) k(4)] by simp
  have int: "c_int (clen + int k) = Inr (clen + int k)"
    using Cons.prems k by (intro c_int_ok) auto
  have pos: "0 < k" if "k \<in> set ks" for k using chars_ok_pos [OF Cons.prems(1)] that by auto
  show ?case
  proof (cases "clen + int k < limit")
    case True
    have "mbcliplen_loop mblen_fn (drop k s) (int (n - k)) limit (clen + int k) =
        Inr (clen + int k + clip ks (limit - (clen + int k)))"
      by (rule Cons.IH) (use Cons.prems True in auto)
    then show ?thesis
      using True k n len int by (subst mbcliplen_loop.simps) (auto simp: of_nat_diff algebra_simps)
  next
    case False
    then show ?thesis
      using k n len int clip_0 [OF pos]
      by (subst mbcliplen_loop.simps) (auto simp: algebra_simps)
  qed
qed

end

section \<open>Single-byte encodings\<close>

lemma single_byte_entry:
  assumes "t \<in> set pg_wchar_table" "maxmblen t \<le> 1"
  shows "mbverify t = (\<lambda>s len. Inr 1)" "maxmblen t = 1"
  using assms unfolding pg_wchar_table_def
  by (auto simp: server_entry_def client_entry_def pg_ascii_verifier_def pg_latin1_verifier_def fun_eq_iff)

lemma chars_ok_single:
  "n \<le> length s \<Longrightarrow> chars_ok (\<lambda>s len. Inr 1) s n ks \<longleftrightarrow> ks = replicate n 1 \<and> (\<forall>i<n. s ! i \<noteq> 0)"
proof (induction n arbitrary: s ks)
  case 0
  then show ?case by (cases ks) auto
next
  case (Suc n)
  obtain c s' where s: "s = c # s'" using Suc.prems by (cases s) auto
  show ?case
  proof (cases ks)
    case (Cons k ks')
    have "chars_ok (\<lambda>s len. Inr 1) s' n ks' \<longleftrightarrow> ks' = replicate n 1 \<and> (\<forall>i<n. s' ! i \<noteq> 0)"
      by (rule Suc.IH) (use Suc.prems s in simp)
    then show ?thesis using s Cons by (auto simp: less_Suc_eq_0_disj)
  qed auto
qed

lemma memchr0_spec:
  assumes "i + n \<le> length s"
  shows "(memchr0 s (int i) n = Inr None \<and> (\<forall>j. i \<le> j \<longrightarrow> j < i + n \<longrightarrow> s ! j \<noteq> 0)) \<or>
    (\<exists>k. memchr0 s (int i) n = Inr (Some (int k)) \<and> i \<le> k \<and> k < i + n \<and> s ! k = 0 \<and> (\<forall>j. i \<le> j \<longrightarrow> j < k \<longrightarrow> s ! j \<noteq> 0))"
  using assms
proof (induction n arbitrary: i)
  case (Suc n)
  have at: "at s (int i) = Inr (s ! i)" using Suc.prems by (simp add: at_def)
  show ?case
  proof (cases "s ! i = 0")
    case True
    then show ?thesis using at by auto
  next
    case False
    then have step: "memchr0 s (int i) (Suc n) = memchr0 s (int (Suc i)) n"
      using at by (simp add: add.commute)
    have nz: "s ! j \<noteq> 0" if "\<forall>j. Suc i \<le> j \<longrightarrow> j < m \<longrightarrow> s ! j \<noteq> 0" "i \<le> j" "j < m" for j m
      using that False by (cases "j = i") auto
    have "Suc i + n \<le> length s" using Suc.prems by simp
    from Suc.IH [OF this]
    consider "memchr0 s (int (Suc i)) n = Inr None" "\<forall>j. Suc i \<le> j \<longrightarrow> j < Suc i + n \<longrightarrow> s ! j \<noteq> 0"
      | k where "memchr0 s (int (Suc i)) n = Inr (Some (int k))" "Suc i \<le> k" "k < Suc i + n" "s ! k = 0"
          "\<forall>j. Suc i \<le> j \<longrightarrow> j < k \<longrightarrow> s ! j \<noteq> 0"
      by blast
    then show ?thesis
    proof cases
      case 1
      then show ?thesis unfolding step using nz [of "Suc i + n"] by simp
    next
      case 2
      then show ?thesis unfolding step using nz [of k] by (intro disjI2 exI [of _ k] conjI) simp_all
    qed
  qed
qed simp

text \<open>In a single byte encoding the characters before the first zero have one byte each.\<close>

lemma chars_before_single:
  "k < n \<Longrightarrow> s ! k = 0 \<Longrightarrow> \<forall>j<k. s ! j \<noteq> 0 \<Longrightarrow> k < length s \<Longrightarrow> chars_before (\<lambda>s len. Inr 1) s n (replicate k 1)"
proof (induction k arbitrary: s n)
  case (Suc k)
  have "chars_before (\<lambda>s len. Inr 1) (drop 1 s) (n - 1) (replicate k 1)"
    by (rule Suc.IH) (use Suc.prems in auto)
  then show ?case using Suc.prems by (simp add: Suc.prems(3)[rule_format, of 0])
qed simp

lemma cliplen_loop_all:
  "(\<And>i. int i < len \<Longrightarrow> s ! i \<noteq> 0) \<Longrightarrow> len \<le> int (length s) \<Longrightarrow> 0 \<le> l \<Longrightarrow> l \<le> len \<Longrightarrow> cliplen_loop s len l = Inr len"
proof (induction s len l rule: cliplen_loop.induct)
  case (1 s len l)
  show ?case
  proof (cases "l < len")
    case True
    then have "at s l = Inr (s ! nat l)" "s ! nat l \<noteq> 0"
      using 1(2) [of "nat l"] 1(3,4) by (auto simp: at_def)
    then show ?thesis using 1 True by (subst cliplen_loop.simps) simp
  qed (use 1 in \<open>simp add: cliplen_loop.simps\<close>)
qed

lemma clip_replicate: "0 \<le> r \<Longrightarrow> clip (replicate n 1) r = min (int n) r"
  by (induction n arbitrary: r) auto

section \<open>The report\<close>

fun hex_text :: "bytes \<Rightarrow> string" where
  "hex_text [] = []"
| "hex_text [b] = hex_byte b"
| "hex_text (b # c # bs) = hex_byte b @ '' '' @ hex_text (c # bs)"

lemma sprintf_at_ok:
  assumes "length x < length rest"
  shows "sprintf_at (map Some t @ rest) (int (length t)) x =
     Inr (map Some (t @ x @ [CHR 0x00]) @ drop (Suc (length x)) rest, int (length (t @ x)))"
  using assms by (simp add: sprintf_at_def memcpy_to_ok drop_Suc)

lemma length_hex_byte [simp]: "length (hex_byte b) = 4"
  by (simp add: hex_byte_def)

lemma report_loop_ok:
  assumes "0 < n" "j + n \<le> length s" "5 * n \<le> length rest"
  shows "\<exists>rest'. report_loop s (int j) n (map Some t @ rest) (int (length t)) =
     Inr (map Some (t @ hex_text (take n (drop j s)) @ [CHR 0x00]) @ rest',
          int (length (t @ hex_text (take n (drop j s)))))"
  using assms
proof (induction n arbitrary: j t rest)
  case (Suc n)
  have at: "at s (int j) = Inr (s ! j)" using Suc.prems by (simp add: at_def)
  have drop: "drop j s = s ! j # drop (Suc j) s" using Suc.prems by (simp add: Cons_nth_drop_Suc)
  let ?t = "t @ hex_byte (s ! j)"
  have first: "sprintf_at (map Some t @ rest) (int (length t)) (hex_byte (s ! j)) =
      Inr (map Some ?t @ Some (CHR 0x00) # drop 5 rest, int (length ?t))"
    using sprintf_at_ok [of "hex_byte (s ! j)" rest t] Suc.prems by (simp add: eval_nat_numeral)
  show ?case
  proof (cases "n = 0")
    case True
    then show ?thesis using at drop first by simp
  next
    case False
    have blank: "sprintf_at (map Some ?t @ Some (CHR 0x00) # drop 5 rest) (int (length ?t)) '' '' =
        Inr (map Some (?t @ '' '') @ Some (CHR 0x00) # drop 6 rest, int (length (?t @ '' '')))"
      using sprintf_at_ok [of "'' ''" "Some (CHR 0x00) # drop 5 rest" ?t] Suc.prems False
      by (simp add: eval_nat_numeral)
    have "drop (Suc j) s = s ! Suc j # drop (Suc (Suc j)) s"
      using Suc.prems False by (simp add: Cons_nth_drop_Suc)
    then have more: "take n (drop (Suc j) s) = s ! Suc j # take (n - 1) (drop (Suc (Suc j)) s)"
      "take (Suc n) (drop j s) = s ! j # s ! Suc j # take (n - 1) (drop (Suc (Suc j)) s)"
      using False drop by (simp_all add: take_Cons')
    obtain rest' where "report_loop s (int (Suc j)) n (map Some (?t @ '' '') @ Some (CHR 0x00) # drop 6 rest)
        (int (length (?t @ '' ''))) =
      Inr (map Some ((?t @ '' '') @ hex_text (take n (drop (Suc j) s)) @ [CHR 0x00]) @ rest',
          int (length ((?t @ '' '') @ hex_text (take n (drop (Suc j) s)))))"
    proof (rule exE [OF Suc.IH [of "Suc j" "Some (CHR 0x00) # drop 6 rest" "?t @ '' ''"]])
      show "5 * n \<le> length (Some (CHR 0x00) # drop 6 rest)" using Suc.prems(3) False by simp
    qed (use Suc.prems False in auto)
    then show ?thesis
      using at first blank False by (intro exI [of _ rest']) (simp add: more add.commute)
  qed
qed simp

lemma hex_digit_nonzero: "k < 16 \<Longrightarrow> hex_digit k \<noteq> CHR 0x00"
proof -
  have "\<forall>k\<in>set [0..<16]. hex_digit k \<noteq> CHR 0x00" by code_simp
  then show "k < 16 \<Longrightarrow> hex_digit k \<noteq> CHR 0x00" by simp
qed

lemma hex_byte_nonzero: "CHR 0x00 \<notin> set (hex_byte b)"
proof -
  have "unat b < 16 * 16" using unsigned_less [of b, where 'a = nat] by simp
  then have "unat b div 16 < 16" by (rule less_mult_imp_div_less)
  then show ?thesis
    using hex_digit_nonzero [of "unat b div 16"] hex_digit_nonzero [of "unat b mod 16"]
    by (auto simp: hex_byte_def)
qed

lemma hex_text_nonzero: "CHR 0x00 \<notin> set (hex_text bs)"
  by (induction bs rule: hex_text.induct) (auto simp: hex_byte_nonzero)

lemma cstring_ok: "CHR 0x00 \<notin> set t \<Longrightarrow> cstring (map Some (t @ [CHR 0x00]) @ rest) = Inr t"
  by (induction t) auto

lemma length_pg_enc2name_tbl: "length pg_enc2name_tbl = 42"
  by (simp add: pg_enc2name_tbl_def)

definition invalid_message :: "int \<Rightarrow> bytes \<Rightarrow> string" where
  "invalid_message enc bad = ''invalid byte sequence for encoding '' @ [CHR 0x22] @
     enc_name (pg_enc2name_tbl ! nat enc) @ [CHR 0x22] @ '': '' @ hex_text bad"

lemma report_invalid_encoding_ok:
  assumes "PG_VALID_ENCODING e" "pg_encoding_mblen e s = Inr l" "1 \<le> l" "0 < n" "n \<le> length s"
  shows "report_invalid_encoding e s (int n) = Inl (Elog (invalid_message e (take (min (min (nat l) n) 8) s)))"
proof -
  define j where "j = min (min (nat l) n) 8"
  have j: "min (min l (int n)) 8 = int j" "0 < j" "0 + j \<le> length s" "5 * j \<le> length (replicate 41 (None :: char option))"
    using assms by (auto simp: j_def)
  obtain rest where "report_loop s 0 j (replicate 41 None) 0 =
      Inr (map Some (hex_text (take j s) @ [CHR 0x00]) @ rest, int (length (hex_text (take j s))))"
    using report_loop_ok [OF j(2,3,4), of "[]"] by auto
  moreover have "at pg_enc2name_tbl e = Inr (pg_enc2name_tbl ! nat e)"
    using assms(1) by (simp add: at_def length_pg_enc2name_tbl PG_VALID_ENCODING_def)
  ultimately show ?thesis
    using assms(2) cstring_ok [OF hex_text_nonzero, of "take j s" rest] j(1)
    by (simp add: report_invalid_encoding_def Let_def invalid_message_def flip: j_def)
qed

lemma server_entry_mblen:
  assumes "PG_VALID_BE_ENCODING e" "s \<noteq> []"
  shows "\<exists>l. pg_encoding_mblen e s = Inr l \<and> 1 \<le> l \<and> l \<le> 4"
proof -
  have e: "at pg_wchar_table e = Inr (pg_wchar_table ! nat e)" "PG_VALID_ENCODING e"
    using assms(1) by (auto simp: at_def PG_VALID_BE_ENCODING_def PG_VALID_ENCODING_def length_pg_wchar_table)
  have "pg_wchar_table ! nat e \<in> set (take 35 pg_wchar_table)"
    using assms(1) nth_mem [of "nat e" "take 35 pg_wchar_table"]
    by (auto simp: PG_VALID_BE_ENCODING_def length_pg_wchar_table)
  then have "\<exists>l. mblen (pg_wchar_table ! nat e) s = Inr l \<and> 1 \<le> l \<and> l \<le> 4"
    unfolding pg_wchar_table_def using assms(2)
    by (auto simp: server_entry_def pg_ascii_mblen_def pg_latin1_mblen_def euc_defs pg_utf_mblen_def pg_mule_mblen_def)
  then show ?thesis using e by (simp add: pg_encoding_mblen_def)
qed

section \<open>Verification and clipping of whole strings\<close>

lemma pg_verify_mbstr_len_valid:
  assumes "PG_VALID_ENCODING e" "at pg_wchar_table e = Inr t" "n \<le> length s" "chars_ok (mbverify t) s n ks"
  shows "pg_verify_mbstr_len e s (int n) b = Inr (int (length ks))"
proof -
  have t: "t \<in> set pg_wchar_table" "mb_encoding (mblen t) (mbverify t) (maxmblen t)"
    using assms(1,2) by (auto elim: table_lookup)
  show ?thesis
  proof (cases "maxmblen t \<le> 1")
    case True
    note single = single_byte_entry [OF t(1) True]
    then have ks: "ks = replicate n 1" "\<forall>i<n. s ! i \<noteq> 0"
      using assms(3,4) chars_ok_single [of n s ks] by simp_all
    have "memchr0 s 0 n = Inr None" using memchr0_spec [of 0 n s] ks(2) assms(3) by auto
    then show ?thesis
      using assms(2) True ks(1) by (simp add: pg_verify_mbstr_len_def pg_encoding_max_length_def)
  next
    case False
    then show ?thesis
      using assms(2) mb_encoding.verify_loop_valid [OF t(2) assms(4,3), of e b 0]
      by (simp add: pg_verify_mbstr_len_def pg_encoding_max_length_def)
  qed
qed

text \<open>What is rejected is the first offending character; in a single byte encoding its length is given as 1.\<close>

lemma pg_verify_mbstr_len_offending:
  assumes "PG_VALID_ENCODING e" "at pg_wchar_table e = Inr t" "n \<le> length s" "\<nexists>ks. chars_ok (mbverify t) s n ks"
  shows "\<exists>ks m. chars_before (mbverify t) s n ks \<and> (m = n - sum_list ks \<or> m = 1 \<and> pg_encoding_mblen e (drop (sum_list ks) s) = Inr 1) \<and>
    (\<forall>b. pg_verify_mbstr_len e s (int n) b = reject e (drop (sum_list ks) s) (int m) b)"
proof -
  have t: "t \<in> set pg_wchar_table" "mb_encoding (mblen t) (mbverify t) (maxmblen t)"
    using assms(1,2) by (auto elim: table_lookup)
  show ?thesis
  proof (cases "maxmblen t \<le> 1")
    case True
    note single = single_byte_entry [OF t(1) True]
    have "\<not> (\<forall>i<n. s ! i \<noteq> 0)"
      using assms(3,4) chars_ok_single [of n s "replicate n 1"] single by auto
    then obtain k where k: "memchr0 s 0 n = Inr (Some (int k))" "k < n" "s ! k = 0" "\<forall>j<k. s ! j \<noteq> 0"
      using memchr0_spec [of 0 n s] assms(3) by auto
    have "mblen t (drop k s) = Inr 1"
      using mb_encoding.verify_mblen [OF t(2), of 1 "drop k s" 1] k(2) assms(3) single(1) by simp
    moreover have "chars_before (mbverify t) s n (replicate k 1)" "sum_list (replicate k 1) = k"
      using chars_before_single [of k n s] k assms(3) single(1) by (simp_all add: sum_list_replicate)
    ultimately show ?thesis
      using assms(1,2) True k(1)
      by (intro exI [of _ "replicate k 1"] exI [of _ 1])
        (simp add: pg_verify_mbstr_len_def pg_encoding_max_length_def pg_encoding_mblen_def)
  next
    case False
    obtain ks where "chars_before (mbverify t) s n ks"
      "\<forall>b. verify_loop (mbverify t) e b s (int n) 0 = reject e (drop (sum_list ks) s) (int (n - sum_list ks)) b"
      using mb_encoding.verify_loop_invalid [OF t(2) assms(3,4), of e 0] by blast
    then show ?thesis
      using assms(2) False
      by (intro exI [of _ ks] exI [of _ "n - sum_list ks"]) (simp add: pg_verify_mbstr_len_def pg_encoding_max_length_def)
  qed
qed

lemma pg_verify_mbstr_len_invalid:
  assumes "PG_VALID_ENCODING e" "at pg_wchar_table e = Inr t" "n \<le> length s" "\<nexists>ks. chars_ok (mbverify t) s n ks"
  shows "\<exists>k m. k < n \<and> 0 < m \<and> k + m \<le> n \<and> (\<forall>b. pg_verify_mbstr_len e s (int n) b = reject e (drop k s) (int m) b)"
proof -
  obtain ks m where ks: "chars_before (mbverify t) s n ks" "m = n - sum_list ks \<or> m = 1"
    "\<forall>b. pg_verify_mbstr_len e s (int n) b = reject e (drop (sum_list ks) s) (int m) b"
    using pg_verify_mbstr_len_offending [OF assms] by blast
  then show ?thesis using chars_before_sum [OF ks(1)] by (intro exI [of _ "sum_list ks"] exI [of _ m]) auto
qed

lemma pg_encoding_mbcliplen_valid:
  assumes "PG_VALID_ENCODING e" "at pg_wchar_table e = Inr t" "n \<le> length s" "int n \<le> INT_MAX" "0 < limit"
    and "chars_ok (mbverify t) s n ks"
  shows "pg_encoding_mbcliplen e s (int n) limit = Inr (clip ks limit)"
proof -
  have t: "t \<in> set pg_wchar_table" "mb_encoding (mblen t) (mbverify t) (maxmblen t)"
    using assms(1,2) by (auto elim: table_lookup)
  show ?thesis
  proof (cases "maxmblen t \<le> 1")
    case True
    note single = single_byte_entry [OF t(1) True]
    then have ks: "ks = replicate n 1" "\<forall>i<n. s ! i \<noteq> 0"
      using assms(3,6) chars_ok_single [of n s ks] by simp_all
    have "cliplen_loop s (min (int n) limit) 0 = Inr (min (int n) limit)"
      by (rule cliplen_loop_all) (use ks(2) assms(3,5) in auto)
    then show ?thesis
      using assms(2,5) single(2) ks(1) clip_replicate [of limit n]
      by (simp add: pg_encoding_mbcliplen_def pg_encoding_max_length_def cliplen_def)
  next
    case False
    then show ?thesis
      using assms(2) mb_encoding.mbcliplen_loop_valid [OF t(2) assms(6,3), of 0 limit] assms(4,5)
      by (simp add: pg_encoding_mbcliplen_def pg_encoding_max_length_def)
  qed
qed

section \<open>Properties\<close>

abbreviation utf8_entry :: pg_wchar_tbl where
  "utf8_entry \<equiv> server_entry pg_utf2wchar_with_len pg_wchar2utf_with_len pg_utf_mblen
      pg_utf_dsplen pg_utf8_verifier 4"

lemma utf8_entry_facts:
  "at pg_wchar_table 6 = Inr utf8_entry" "mbverify utf8_entry = pg_utf8_verifier" "PG_VALID_ENCODING 6"
  "PG_VALID_BE_ENCODING 6"
  by (simp_all add: at_def pg_wchar_table_def server_entry_def PG_VALID_ENCODING_def PG_VALID_BE_ENCODING_def)

text \<open>
  C28: In every encoding of the table \<open>pg_verify_mbstr_len\<close> decides whether the bytes are a sequence
  of valid characters without a zero byte: it ends, reads nothing behind the given length, and
  returns the number of characters, or -1 when no such sequence exists. The fast path for ASCII
  bytes and the one for single-byte encodings give the same answer as the validators.
\<close>
theorem pg_verify_mbstr_len_decides:
  assumes "PG_VALID_ENCODING e" "at pg_wchar_table e = Inr t" "n \<le> length s"
  shows "\<exists>r. pg_verify_mbstr_len e s (int n) True = Inr r \<and>
    (\<forall>ks. chars_ok (mbverify t) s n ks \<longrightarrow> r = int (length ks)) \<and>
    (r = - 1 \<longleftrightarrow> (\<nexists>ks. chars_ok (mbverify t) s n ks))"
proof (cases "\<exists>ks. chars_ok (mbverify t) s n ks")
  case True
  then obtain ks where ks: "chars_ok (mbverify t) s n ks" by blast
  have "int (length ks) = int (length ks')" if "chars_ok (mbverify t) s n ks'" for ks'
    using pg_verify_mbstr_len_valid [OF assms ks, of True] pg_verify_mbstr_len_valid [OF assms that, of True] by simp
  then have "\<forall>ks'. chars_ok (mbverify t) s n ks' \<longrightarrow> int (length ks) = int (length ks')" by blast
  moreover have "int (length ks) = - 1 \<longleftrightarrow> (\<nexists>ks. chars_ok (mbverify t) s n ks)" using True by simp
  ultimately show ?thesis using pg_verify_mbstr_len_valid [OF assms ks, of True] by blast
next
  case False
  then show ?thesis using pg_verify_mbstr_len_invalid [OF assms] by (auto simp: reject_def)
qed

text \<open>The word of the two characters e acute and A, in UTF-8, and what is left after cutting it.\<close>

theorem pg_verify_mbstr_len_decides_witness:
  "pg_verify_mbstr_len 6 [0xC3, 0xA9, 0x41] 3 True = Inr 2 \<and>
   (\<exists>r. pg_verify_mbstr_len 6 [0x41, 0xC3] (int 2) True = Inr r \<and>
      (\<forall>ks. chars_ok pg_utf8_verifier [0x41, 0xC3] 2 ks \<longrightarrow> r = int (length ks)) \<and>
      (r = - 1 \<longleftrightarrow> (\<nexists>ks. chars_ok pg_utf8_verifier [0x41, 0xC3] 2 ks)))"
proof
  show "pg_verify_mbstr_len 6 [0xC3, 0xA9, 0x41] 3 True = Inr 2" by code_simp
  have "2 \<le> length [0x41, 0xC3 :: 8 word]" by simp
  from pg_verify_mbstr_len_decides [OF utf8_entry_facts(3,1) this]
  show "\<exists>r. pg_verify_mbstr_len 6 [0x41, 0xC3] (int 2) True = Inr r \<and>
      (\<forall>ks. chars_ok pg_utf8_verifier [0x41, 0xC3] 2 ks \<longrightarrow> r = int (length ks)) \<and>
      (r = - 1 \<longleftrightarrow> (\<nexists>ks. chars_ok pg_utf8_verifier [0x41, 0xC3] 2 ks))"
    unfolding utf8_entry_facts(2) .
qed

text \<open>
  C37: With errors enabled, an invalid string in a server encoding ends in exactly the documented
  report. There is a first offending character: valid characters of the lengths \<open>ks\<close> end right in front
  of it, and a zero stands there or the validator rejects it. The report names the encoding
  and lists in hexadecimal the bytes of this character, as many as \<open>pg_encoding_mblen\<close> gives it, but
  no more than are left of the input and no more than eight; the text fits into the local buffer of 41
  characters. A valid string is not reported.
\<close>
theorem pg_verify_mbstr_len_reports:
  assumes "PG_VALID_BE_ENCODING e" "at pg_wchar_table e = Inr t" "n \<le> length s"
  shows "if \<exists>ks. chars_ok (mbverify t) s n ks then \<exists>r. pg_verify_mbstr_len e s (int n) False = Inr r
    else \<exists>ks l. chars_before (mbverify t) s n ks \<and> 1 \<le> l \<and> pg_encoding_mblen e (drop (sum_list ks) s) = Inr l \<and>
      pg_verify_mbstr_len e s (int n) False =
        Inl (Elog (invalid_message e (take (min (min (nat l) (n - sum_list ks)) 8) (drop (sum_list ks) s))))"
proof -
  have e: "PG_VALID_ENCODING e" using assms(1) by (simp add: PG_VALID_ENCODING_def PG_VALID_BE_ENCODING_def)
  show ?thesis
  proof (cases "\<exists>ks. chars_ok (mbverify t) s n ks")
    case True
    then show ?thesis using pg_verify_mbstr_len_valid [OF e assms(2,3)] by auto
  next
    case False
    obtain ks m where ks: "chars_before (mbverify t) s n ks"
      "m = n - sum_list ks \<or> m = 1 \<and> pg_encoding_mblen e (drop (sum_list ks) s) = Inr 1"
      "pg_verify_mbstr_len e s (int n) False = reject e (drop (sum_list ks) s) (int m) False"
      using pg_verify_mbstr_len_offending [OF e assms(2,3) False] by blast
    let ?k = "sum_list ks"
    have k: "?k < n" by (rule chars_before_sum [OF ks(1)])
    then have ne: "drop ?k s \<noteq> []" "0 < m" "m \<le> length (drop ?k s)" using ks(2) assms(3) by auto
    obtain l where l: "pg_encoding_mblen e (drop ?k s) = Inr l" "1 \<le> l"
      using server_entry_mblen [OF assms(1) ne(1)] by blast
    have "report_invalid_encoding e (drop ?k s) (int m) =
        Inl (Elog (invalid_message e (take (min (min (nat l) m) 8) (drop ?k s))))"
      using e l ne(2,3) by (rule report_invalid_encoding_ok)
    moreover have "min (nat l) m = min (nat l) (n - ?k)" using ks(2) l k by auto
    ultimately have "pg_verify_mbstr_len e s (int n) False =
        Inl (Elog (invalid_message e (take (min (min (nat l) (n - ?k)) 8) (drop ?k s))))"
      using ks(3) by (simp add: reject_def)
    then show ?thesis using False ks(1) l by auto
  qed
qed

theorem pg_verify_mbstr_len_reports_witness:
  "\<exists>ks l. chars_before pg_utf8_verifier [0x41, 0xC3] 2 ks \<and> 1 \<le> l \<and> pg_encoding_mblen 6 (drop (sum_list ks) [0x41, 0xC3]) = Inr l \<and>
     pg_verify_mbstr_len 6 [0x41, 0xC3] (int 2) False =
       Inl (Elog (invalid_message 6 (take (min (min (nat l) (2 - sum_list ks)) 8) (drop (sum_list ks) [0x41, 0xC3]))))"
proof -
  have n: "2 \<le> length [0x41, 0xC3 :: 8 word]" by simp
  have "pg_verify_mbstr_len 6 [0x41, 0xC3] (int 2) False \<noteq> Inr r" for r
    by (simp add: pg_verify_mbstr_len_def pg_encoding_max_length_def utf8_entry_facts(1)) code_simp
  then show ?thesis
    using pg_verify_mbstr_len_reports [OF utf8_entry_facts(4,1) n] unfolding utf8_entry_facts(2)
    by (simp only: split: if_splits) blast
qed

text \<open>
  The report itself is not memory safe in GB18030. The remaining input is one byte with the high
  bit; the length of that character is asked for, and \<open>pg_gb18030_mblen\<close> reads the byte behind
  the end of the input, although the comment of \<open>report_invalid_encoding\<close> asks for no more than
  a nonempty rest.
\<close>
theorem gb18030_report_reads_past_end:
  assumes "IS_HIGHBIT_SET c"
  shows "pg_verify_mbstr_len 39 [c] 1 False = Inl OutOfBounds \<and> pg_verify_mbstr_len 39 [c] 1 True = Inr (- 1)"
proof -
  let ?t = "client_entry pg_gb18030_mblen pg_gb18030_dsplen pg_gb18030_verifier 4"
  have t: "at pg_wchar_table 39 = Inr ?t" by (simp add: at_def pg_wchar_table_def nth_append)
  have bad: "pg_gb18030_verifier [c] 1 = Inr (- 1)"
    using assms by (simp add: pg_gb18030_verifier_def andE_def)
  have "pg_encoding_mblen 39 [c] = Inl OutOfBounds"
    using assms t by (simp add: pg_encoding_mblen_def PG_VALID_ENCODING_def client_entry_def pg_gb18030_mblen_def at_def)
  then have rep: "report_invalid_encoding 39 [c] 1 = Inl OutOfBounds" by (simp add: report_invalid_encoding_def)
  have "verify_loop pg_gb18030_verifier 39 b [c] 1 0 = reject 39 [c] 1 b" for b
    using assms bad by (subst verify_loop.simps) simp
  then show ?thesis using t rep
    by (simp add: pg_verify_mbstr_len_def pg_encoding_max_length_def client_entry_def reject_def)
qed

theorem gb18030_report_reads_past_end_witness:
  "pg_verify_mbstr_len 39 [0x81] 1 False = Inl OutOfBounds"
  using gb18030_report_reads_past_end [of "0x81"] by (simp add: IS_HIGHBIT_SET_def)

text \<open>
  C16: Clipping never breaks a character: on a valid string \<open>pg_encoding_mbcliplen\<close> returns the end of a
  character, at most the limit and the length, and one more character would not fit. The
  branch for single-byte encodings and the loop agree, and no addition overflows.
\<close>
theorem pg_encoding_mbcliplen_boundary:
  assumes "PG_VALID_ENCODING e" "at pg_wchar_table e = Inr t" "n \<le> length s" "int n \<le> INT_MAX" "0 < limit"
    and "chars_ok (mbverify t) s n ks"
  shows "\<exists>j\<le>length ks. pg_encoding_mbcliplen e s (int n) limit = Inr (int (sum_list (take j ks))) \<and>
    int (sum_list (take j ks)) \<le> limit \<and> sum_list (take j ks) \<le> n \<and>
    (j < length ks \<longrightarrow> limit < int (sum_list (take (Suc j) ks)))"
proof -
  obtain j where j: "j \<le> length ks" "clip ks limit = int (sum_list (take j ks))" "clip ks limit \<le> limit"
    "j < length ks \<longrightarrow> limit < int (sum_list (take (Suc j) ks))"
    using clip_spec [of limit ks] assms(5) by (meson less_le)
  have "sum_list ks = sum_list (take j ks) + sum_list (drop j ks)"
    by (metis append_take_drop_id sum_list_append)
  then have "sum_list (take j ks) \<le> n" using chars_ok_sum [OF assms(6)] by simp
  then show ?thesis
    using pg_encoding_mbcliplen_valid [OF assms] j by (intro exI [of _ j]) auto
qed

theorem pg_encoding_mbcliplen_boundary_witness:
  "pg_encoding_mbcliplen 6 [0x41, 0xC3, 0xA9, 0x42] 4 2 = Inr 1 \<and>
   (\<exists>j\<le>3. pg_encoding_mbcliplen 6 [0x41, 0xC3, 0xA9, 0x42] (int 4) 2 = Inr (int (sum_list (take j [1, 2, 1]))) \<and>
     int (sum_list (take j [1, 2, 1])) \<le> 2)"
proof
  show "pg_encoding_mbcliplen 6 [0x41, 0xC3, 0xA9, 0x42] 4 2 = Inr 1" by code_simp
  have "chars_ok (mbverify utf8_entry) [0x41, 0xC3, 0xA9, 0x42] 4 [1, 2, 1]"
    unfolding utf8_entry_facts(2) by code_simp
  then have "\<exists>j\<le>length [1, 2, 1 :: nat].
      pg_encoding_mbcliplen 6 [0x41, 0xC3, 0xA9, 0x42] (int 4) 2 = Inr (int (sum_list (take j [1, 2, 1]))) \<and>
      int (sum_list (take j [1, 2, 1])) \<le> 2 \<and> sum_list (take j [1, 2, 1 :: nat]) \<le> 4 \<and>
      (j < length [1, 2, 1 :: nat] \<longrightarrow> 2 < int (sum_list (take (Suc j) [1, 2, 1])))"
    by (rule pg_encoding_mbcliplen_boundary [OF utf8_entry_facts(3,1), rotated -1]) simp_all
  moreover have "length [1, 2, 1 :: nat] = 3" by simp
  ultimately show "\<exists>j\<le>3. pg_encoding_mbcliplen 6 [0x41, 0xC3, 0xA9, 0x42] (int 4) 2 =
      Inr (int (sum_list (take j [1, 2, 1]))) \<and> int (sum_list (take j [1, 2, 1])) \<le> 2"
    by metis
qed

end
