(* ===== verification/Pg_Utf8.thy ===== *)
theory Pg_Utf8
  imports Mbutils
begin

text \<open>
  UTF-8 in \<^verbatim>\<open>src_common_wchar.c\<close> against the definition of the encoding: the bit operations are
  translated to arithmetic on the code point once, and then the validator accepts exactly the
  byte sequences that encode a Unicode scalar value, encoding and decoding are inverse to each
  other, and the conversions of whole strings compose to the identity.
\<close>

unbundle bit_operations_syntax

section \<open>Bit operations as arithmetic\<close>

lemma and_not_mask_eq: "a AND NOT (mask n) = push_bit n (drop_bit n a)" for a :: "'a::len word"
  by (rule bit_word_eqI) (auto simp: bit_simps)

lemma unat_drop_bit: "unat (drop_bit n w) = unat w div 2 ^ n"
  by (subst unat_drop_bit_eq) (rule drop_bit_eq_div)

lemma unat_and_mask: "unat (b AND mask n) = unat b mod 2 ^ n"
  unfolding take_bit_eq_mask [symmetric] unsigned_take_bit_eq by (rule take_bit_eq_mod)

lemma unat_byte: "unat (b :: 8 word) < 256"
  using unsigned_less [of b, where 'a = nat] by simp

lemma unat_high_part: "unat (b AND NOT (mask n)) = unat b div 2 ^ n * 2 ^ n" for b :: "8 word"
proof -
  have "unat (push_bit n (drop_bit n b)) = take_bit 8 (push_bit n (unat (drop_bit n b)))"
    by (rule unsigned_push_bit_eq [where 'b = 8, simplified])
  also have "\<dots> = unat b div 2 ^ n * 2 ^ n mod 256" by (simp only: unat_drop_bit push_bit_eq_mult take_bit_eq_mod) simp
  also have "\<dots> = unat b div 2 ^ n * 2 ^ n"
    using div_times_less_eq_dividend [of "unat b" "2 ^ n"] unat_byte [of b] by (intro mod_less) linarith
  finally show ?thesis by (simp only: and_not_mask_eq)
qed

lemma mask_bytes:
  "(0x07 :: 8 word) = mask 3" "(0x0f :: 8 word) = mask 4" "(0x1f :: 8 word) = mask 5" "(0x3f :: 8 word) = mask 6"
  "(0x80 :: 8 word) = NOT (mask 7)" "(0xe0 :: 8 word) = NOT (mask 5)" "(0xf0 :: 8 word) = NOT (mask 4)"
  "(0xf8 :: 8 word) = NOT (mask 3)"
  by code_simp+

lemma unat_low_bits:
  "unat (b AND 0x07) = unat b mod 8" "unat (b AND 0x0f) = unat b mod 16"
  "unat (b AND 0x1f) = unat b mod 32" "unat (b AND 0x3f) = unat b mod 64"
  for b :: "8 word"
  unfolding mask_bytes unat_and_mask by simp_all

lemma lead_classes:
  "b AND 0x80 = 0 \<longleftrightarrow> unat b < 128"
  "b AND 0xe0 = 0xc0 \<longleftrightarrow> 192 \<le> unat b \<and> unat b < 224"
  "b AND 0xf0 = 0xe0 \<longleftrightarrow> 224 \<le> unat b \<and> unat b < 240"
  "b AND 0xf8 = 0xf0 \<longleftrightarrow> 240 \<le> unat b \<and> unat b < 248"
  for b :: "8 word"
proof -
  have high: "unat (b AND 0x80) = unat b div 128 * 128" "unat (b AND 0xe0) = unat b div 32 * 32"
    "unat (b AND 0xf0) = unat b div 16 * 16" "unat (b AND 0xf8) = unat b div 8 * 8"
    unfolding mask_bytes(5-8) unat_high_part by simp_all
  have "x div m * m = c * m \<longleftrightarrow> c * m \<le> x \<and> x < c * m + m" if "0 < m" for x m c :: nat
  proof -
    have "c * m \<le> x \<and> x < c * m + m" if "x div m = c"
      unfolding that [symmetric] using div_mult_mod_eq [of x m] mod_less_divisor [OF \<open>0 < m\<close>, of x]
      by linarith
    moreover have "x div m = c" if "c * m \<le> x" "x < c * m + m"
      by (rule div_nat_eqI) (use that in \<open>simp_all add: mult.commute\<close>)
    ultimately show ?thesis using that by auto
  qed
  from this [of 128 _ 0] this [of 32 _ 6] this [of 16 _ 14] this [of 8 _ 30]
  have ranges: "x div 128 * 128 = 0 \<longleftrightarrow> x < 128" "x div 32 * 32 = 192 \<longleftrightarrow> 192 \<le> x \<and> x < 224"
    "x div 16 * 16 = 224 \<longleftrightarrow> 224 \<le> x \<and> x < 240" "x div 8 * 8 = 240 \<longleftrightarrow> 240 \<le> x \<and> x < 248" for x :: nat
    by simp_all
  have vals: "unat (0 :: 8 word) = 0" "unat (0xc0 :: 8 word) = 192" "unat (0xe0 :: 8 word) = 224" "unat (0xf0 :: 8 word) = 240"
    by simp_all
  show "b AND 0x80 = 0 \<longleftrightarrow> unat b < 128" "b AND 0xe0 = 0xc0 \<longleftrightarrow> 192 \<le> unat b \<and> unat b < 224"
    "b AND 0xf0 = 0xe0 \<longleftrightarrow> 224 \<le> unat b \<and> unat b < 240" "b AND 0xf8 = 0xf0 \<longleftrightarrow> 240 \<le> unat b \<and> unat b < 248"
    by (simp_all only: word_unat_eq_iff high vals ranges)
qed

lemma unat_or_disjoint:
  assumes "2 ^ k dvd unat x" "unat y < 2 ^ k"
  shows "unat (x OR y) = unat x + unat y"
proof -
  have "unat x AND unat y = 0"
  proof (rule bit_eqI)
    fix n
    show "bit (unat x AND unat y) n = bit 0 n"
    proof (cases "n < k")
      case True
      then have "\<not> bit (unat x) n"
        using assms(1) by (metis bit_push_bit_iff_nat dvd_div_mult_self not_less push_bit_eq_mult)
      then show ?thesis by (simp add: bit_and_iff)
    next
      case False
      then have "\<not> bit (unat y) n"
        using assms(2) by (metis bit_take_bit_iff take_bit_nat_eq_self_iff)
      then show ?thesis by (simp add: bit_and_iff)
    qed
  qed
  then show ?thesis by (simp add: unsigned_or_eq disjunctive_add_eq_or)
qed

lemma unat_marked_bytes:
  "unat (0x80 OR (b AND 0x3F)) = 128 + unat b mod 64" "unat (0xC0 OR (b AND 0x1F)) = 192 + unat b mod 32"
  "unat (0xE0 OR (b AND 0x0F)) = 224 + unat b mod 16" "unat (0xF0 OR (b AND 0x07)) = 240 + unat b mod 8"
  for b :: "8 word"
  using unat_or_disjoint [of 6 "0x80 :: 8 word" "b AND 0x3f"] unat_or_disjoint [of 5 "0xC0 :: 8 word" "b AND 0x1f"]
    unat_or_disjoint [of 4 "0xE0 :: 8 word" "b AND 0x0f"] unat_or_disjoint [of 3 "0xF0 :: 8 word" "b AND 0x07"]
  by (simp_all add: unat_low_bits)

lemma unat_narrow: "unat (narrow c k) = unat c div 2 ^ k mod 256"
proof -
  have "unat (narrow c k) = take_bit 8 (unat (drop_bit k c))"
    unfolding narrow_def by (subst unsigned_ucast_eq) simp_all
  then show ?thesis by (simp only: unat_drop_bit take_bit_eq_mod) simp
qed

lemma unat_wide: "unat b * 2 ^ k < 2 ^ 32 \<Longrightarrow> unat (wide b k) = unat b * 2 ^ k"
proof -
  assume *: "unat b * 2 ^ k < 2 ^ 32"
  have "unat (wide b k) = take_bit 32 (push_bit k (unat (ucast b :: 32 word)))"
    unfolding wide_def by (rule unsigned_push_bit_eq [where 'b = 32, simplified])
  also have "unat (ucast b :: 32 word) = unat b"
    using unat_byte [of b] by (simp add: unsigned_ucast_eq take_bit_nat_eq_self_iff)
  finally show ?thesis using * by (simp add: take_bit_eq_mod push_bit_eq_mult)
qed

section \<open>Encoding and decoding one character\<close>

text \<open>The specification: a Unicode scalar value is a code point that is not a surrogate.\<close>

definition scalar_value :: "pg_wchar \<Rightarrow> bool" where
  "scalar_value c \<longleftrightarrow> c \<le> 0x10FFFF \<and> \<not> (0xD800 \<le> c \<and> c \<le> 0xDFFF)"

lemma scalar_value_unat:
  "scalar_value c \<longleftrightarrow> unat c \<le> 1114111 \<and> \<not> (55296 \<le> unat c \<and> unat c \<le> 57343)"
  by (simp add: scalar_value_def word_le_nat_alt)

text \<open>The bytes of a code point, as numbers.\<close>

definition utf8_nats :: "nat \<Rightarrow> nat list" where
  "utf8_nats n =
     (if n \<le> 127 then [n]
      else if n \<le> 2047 then [192 + n div 64, 128 + n mod 64]
      else if n \<le> 65535 then [224 + n div 4096, 128 + n div 64 mod 64, 128 + n mod 64]
      else [240 + n div 262144, 128 + n div 4096 mod 64, 128 + n div 64 mod 64, 128 + n mod 64])"

lemma mod_mod_small: "n mod 256 mod 64 = n mod 64" "n mod 256 mod 32 = n mod 32" "n mod 256 mod 16 = n mod 16"
  "n mod 256 mod 8 = n mod 8" for n :: nat
  by (simp_all add: mod_mod_cancel)

lemma utf8_bytes_unat:
  assumes "unat c < 2097152"
  shows "map unat (utf8_bytes c) = utf8_nats (unat c)"
proof -
  have top: "n \<le> 2047 \<Longrightarrow> n div 64 mod 32 = n div 64" "n \<le> 65535 \<Longrightarrow> n div 4096 mod 16 = n div 4096"
    "n < 2097152 \<Longrightarrow> n div 262144 mod 8 = n div 262144" for n :: nat
    by (simp_all add: less_mult_imp_div_less)
  show ?thesis
    unfolding utf8_bytes_def utf8_nats_def word_le_nat_alt
    using assms by (simp add: unat_marked_bytes unat_narrow mod_mod_small top)
qed

lemma legal_second_unat:
  "1 < length s \<Longrightarrow> legal_second s = Inr
     ((if unat (s ! 0) = 224 then 160 else if unat (s ! 0) = 240 then 144 else 128) \<le> unat (s ! 1) \<and>
      unat (s ! 1) \<le> (if unat (s ! 0) = 237 then 159 else if unat (s ! 0) = 244 then 143 else 191))"
  by (auto simp: legal_second_def at_def word_less_nat_alt word_unat_eq_iff not_less split: if_splits)

lemma legal_lead_unat: "0 < length s \<Longrightarrow> legal_lead s = Inr ((unat (s ! 0) < 128 \<or> 194 \<le> unat (s ! 0)) \<and> unat (s ! 0) \<le> 244)"
  by (auto simp: legal_lead_def at_def word_le_nat_alt word_less_nat_alt)

lemma legal_trail_unat: "k < length s \<Longrightarrow> legal_trail s (int k) = Inr (128 \<le> unat (s ! k) \<and> unat (s ! k) \<le> 191)"
  by (auto simp: legal_trail_def at_def word_less_nat_alt)

lemma utf_mblen_unat: "s \<noteq> [] \<Longrightarrow> pg_utf_mblen s = Inr
    (if unat (s ! 0) < 128 then 1 else if unat (s ! 0) < 192 then 1 else if unat (s ! 0) < 224 then 2
     else if unat (s ! 0) < 240 then 3 else if unat (s ! 0) < 248 then 4 else 1)"
  by (auto simp: pg_utf_mblen_def lead_classes)

fun legal_nats :: "nat list \<Rightarrow> bool" where
  "legal_nats [a] = (a < 128)"
| "legal_nats [a, b] = (194 \<le> a \<and> a < 224 \<and> 128 \<le> b \<and> b \<le> 191)"
| "legal_nats [a, b, c] = (224 \<le> a \<and> a < 240 \<and> (if a = 224 then 160 else 128) \<le> b \<and>
     b \<le> (if a = 237 then 159 else 191) \<and> 128 \<le> c \<and> c \<le> 191)"
| "legal_nats [a, b, c, d] = (240 \<le> a \<and> a \<le> 244 \<and> (if a = 240 then 144 else 128) \<le> b \<and>
     b \<le> (if a = 244 then 143 else 191) \<and> 128 \<le> c \<and> c \<le> 191 \<and> 128 \<le> d \<and> d \<le> 191)"
| "legal_nats _ = False"

fun decode_nats :: "nat list \<Rightarrow> nat" where
  "decode_nats [a] = a"
| "decode_nats [a, b] = (a - 192) * 64 + (b - 128)"
| "decode_nats [a, b, c] = (a - 224) * 4096 + (b - 128) * 64 + (c - 128)"
| "decode_nats [a, b, c, d] = (a - 240) * 262144 + (b - 128) * 4096 + (c - 128) * 64 + (d - 128)"
| "decode_nats _ = 0"

lemma split64: "n = n div 64 * 64 + n mod 64" "n div 64 = n div 4096 * 64 + n div 64 mod 64"
  "n div 4096 = n div 262144 * 64 + n div 4096 mod 64" for n :: nat
proof -
  have "n div 4096 = n div 64 div 64" "n div 262144 = n div 4096 div 64"
    by (simp_all add: div_mult2_eq [of n 64 64, simplified] div_mult2_eq [of n 4096 64, simplified])
  then show "n = n div 64 * 64 + n mod 64" "n div 64 = n div 4096 * 64 + n div 64 mod 64"
    "n div 4096 = n div 262144 * 64 + n div 4096 mod 64"
    by simp_all
qed

lemma decode_encode_nats: "n < 2097152 \<Longrightarrow> decode_nats (utf8_nats n) = n"
  using split64 [of n] unfolding utf8_nats_def
  by (cases "n \<le> 127"; cases "n \<le> 2047"; cases "n \<le> 65535"; simp only: if_True if_False decode_nats.simps add_diff_cancel_left')

lemma legal_encode_nats:
  assumes "n \<le> 1114111" "\<not> (55296 \<le> n \<and> n \<le> 57343)"
  shows "legal_nats (utf8_nats n)"
proof -
  have small: "n mod 64 < 64" "n div 64 mod 64 < 64" "n div 4096 mod 64 < 64" by simp_all
  consider "n \<le> 127" | "127 < n" "n \<le> 2047" | "2047 < n" "n \<le> 65535" | "65535 < n" by linarith
  then show ?thesis
  proof cases
    case 1 then show ?thesis by (simp add: utf8_nats_def)
  next
    case 2
    then have "2 \<le> n div 64" "n div 64 < 32" by (simp_all add: less_mult_imp_div_less)
    then show ?thesis using 2 small by (simp add: utf8_nats_def)
  next
    case 3
    have "n div 4096 < 16" using 3 by (simp add: less_mult_imp_div_less)
    moreover have "32 \<le> n div 64 mod 64" if "n div 4096 = 0" using split64 [of n] small 3 that by linarith
    moreover have "n div 64 mod 64 < 32" if "n div 4096 = 13" using split64 [of n] small assms(2) that by linarith
    ultimately show ?thesis using 3 small by (auto simp: utf8_nats_def)
  next
    case 4
    have "n div 262144 \<le> 4" using assms(1) split64 [of n] by linarith
    moreover have "16 \<le> n div 4096 mod 64" if "n div 262144 = 0" using split64 [of n] small 4 that by linarith
    moreover have "n div 4096 mod 64 < 16" if "n div 262144 = 4" using split64 [of n] small assms(1) that by linarith
    ultimately show ?thesis using 4 small by (auto simp: utf8_nats_def)
  qed
qed

lemma div_mod_block: "b < 64 \<Longrightarrow> (a * 64 + b) div 64 = a" "b < 64 \<Longrightarrow> (a * 64 + b) mod 64 = b" for a b :: nat
  by simp_all

lemma encode_decode_nats:
  assumes "legal_nats xs"
  shows "utf8_nats (decode_nats xs) = xs \<and> decode_nats xs \<le> 1114111 \<and>
    \<not> (55296 \<le> decode_nats xs \<and> decode_nats xs \<le> 57343)"
proof -
  consider a where "xs = [a]" | a b where "xs = [a, b]" | a b c where "xs = [a, b, c]"
    | a b c d where "xs = [a, b, c, d]"
    using assms by (cases xs rule: legal_nats.cases) auto
  then show ?thesis
  proof cases
    case 1 then show ?thesis using assms by (auto simp: utf8_nats_def)
  next
    case (2 a b)
    define x y where "x = a - 192" "y = b - 128"
    have "a = 192 + x" "b = 128 + y" "y < 64" "2 \<le> x" "x < 32" using assms 2 by (auto simp: x_y_def)
    then show ?thesis using 2 by (auto simp: utf8_nats_def)
  next
    case (3 a b c)
    define x y z where "x = a - 224" "y = b - 128" "z = c - 128"
    have eq: "a = 224 + x" "b = 128 + y" "c = 128 + z" "z < 64" "y < 64" "x < 16" "x = 0 \<longrightarrow> 32 \<le> y" "x = 13 \<longrightarrow> y < 32"
      using assms 3 by (auto simp: x_y_z_def split: if_splits)
    define n where "n = decode_nats xs"
    have n: "n = (x * 64 + y) * 64 + z" using eq 3 by (simp add: n_def algebra_simps)
    have "n div 64 = x * 64 + y" "n mod 64 = z" unfolding n by (rule div_mod_block, use eq in simp)+
    moreover from this have "n div 4096 = x" "n div 64 mod 64 = y"
      using eq by (simp_all add: div_mult2_eq [of n 64 64, simplified])
    moreover have "2047 < n" using eq(7) unfolding n by (cases "x = 0") simp_all
    moreover have "n \<le> 65535" using eq(4-6) by (simp add: n distrib_right)
    moreover consider "x < 13" | "x = 13" | "14 \<le> x" by linarith
    then have "\<not> (55296 \<le> n \<and> n \<le> 57343)"
      by cases (use eq(4,5,8) in \<open>auto simp: n\<close>)
    ultimately have "utf8_nats n = xs \<and> n \<le> 1114111 \<and> \<not> (55296 \<le> n \<and> n \<le> 57343)"
      unfolding 3 eq(1-3) utf8_nats_def by simp
    then show ?thesis unfolding n_def .
  next
    case (4 a b c d)
    define x y z w where "x = a - 240" "y = b - 128" "z = c - 128" "w = d - 128"
    have eq: "a = 240 + x" "b = 128 + y" "c = 128 + z" "d = 128 + w" "w < 64" "z < 64" "y < 64" "x \<le> 4" "x = 0 \<longrightarrow> 16 \<le> y" "x = 4 \<longrightarrow> y < 16"
      using assms 4 by (auto simp: x_y_z_w_def split: if_splits)
    define n where "n = decode_nats xs"
    have n: "n = ((x * 64 + y) * 64 + z) * 64 + w" using eq 4 by (simp add: n_def algebra_simps)
    have "n div 64 = (x * 64 + y) * 64 + z" "n mod 64 = w" unfolding n by (rule div_mod_block, use eq in simp)+
    moreover from this have "n div 4096 = x * 64 + y" "n div 64 mod 64 = z"
      using eq(6) div_mult2_eq [of n 64 64] div_mod_block [of z "x * 64 + y"] by simp_all
    moreover from this have "n div 262144 = x" "n div 4096 mod 64 = y"
      using eq(7) div_mult2_eq [of n 4096 64] div_mod_block [of y x] by simp_all
    moreover have "65535 < n" using eq(9) unfolding n by (cases "x = 0") simp_all
    moreover have "n \<le> 1114111" using eq(5-8,10) unfolding n by (cases "x = 4") auto
    ultimately have "utf8_nats n = xs \<and> n \<le> 1114111 \<and> \<not> (55296 \<le> n \<and> n \<le> 57343)"
      unfolding 4 eq(1-4) utf8_nats_def by simp
    then show ?thesis unfolding n_def .
  qed
qed

section \<open>The validator and the decoder\<close>

lemma take_small:
  "1 \<le> length s \<Longrightarrow> take 1 s = [s ! 0]" "2 \<le> length s \<Longrightarrow> take 2 s = [s ! 0, s ! 1]"
  "3 \<le> length s \<Longrightarrow> take 3 s = [s ! 0, s ! 1, s ! 2]" "4 \<le> length s \<Longrightarrow> take 4 s = [s ! 0, s ! 1, s ! 2, s ! 3]"
  by (auto simp: list_eq_iff_nth_eq less_numeral_cases nth_Cons' )

lemma utf8_islegal_nats:
  assumes "s \<noteq> []" "pg_utf_mblen s = Inr (int l)" "l \<le> length s"
  shows "pg_utf8_islegal s (int l) = Inr (legal_nats (map unat (take l s)))"
proof -
  let ?a = "unat (s ! 0)"
  have lead: "legal_lead s = Inr ((?a < 128 \<or> 194 \<le> ?a) \<and> ?a \<le> 244)" using assms(1) by (intro legal_lead_unat) simp
  consider "l = 1" "?a < 192 \<or> 248 \<le> ?a" | "l = 2" "192 \<le> ?a" "?a < 224" | "l = 3" "224 \<le> ?a" "?a < 240"
    | "l = 4" "240 \<le> ?a" "?a < 248"
    using utf_mblen_unat [OF assms(1)] assms(2) by (auto split: if_splits)
  then show ?thesis
  proof cases
    case 1
    have "take l s = [s ! 0]" using take_small(1) [of s] 1(1) assms(3) by simp
    then show ?thesis using lead 1 by (auto simp: pg_utf8_islegal_def)
  next
    case 2
    have "take l s = [s ! 0, s ! 1]" using take_small(2) [of s] 2(1) assms(3) by simp
    then show ?thesis using lead legal_second_unat [of s] 2 assms(3)
      by (auto simp: pg_utf8_islegal_def andE_def)
  next
    case 3
    have "take l s = [s ! 0, s ! 1, s ! 2]" using take_small(3) [of s] 3(1) assms(3) by simp
    then show ?thesis using lead legal_second_unat [of s] legal_trail_unat [of 2 s] 3 assms(3)
      by (auto simp: pg_utf8_islegal_def andE_def)
  next
    case 4
    have "take l s = [s ! 0, s ! 1, s ! 2, s ! 3]" using take_small(4) [of s] 4(1) assms(3) by simp
    then show ?thesis using lead legal_second_unat [of s] legal_trail_unat [of 2 s] legal_trail_unat [of 3 s] 4 assms(3)
      by (auto simp: pg_utf8_islegal_def andE_def)
  qed
qed

lemma legal_nats_mblen:
  assumes "legal_nats (map unat (take l s))" "l \<le> length s"
  shows "s \<noteq> [] \<and> pg_utf_mblen s = Inr (int l) \<and> 1 \<le> l"
proof -
  have "1 \<le> l \<and> l \<le> 4"
    using assms by (cases "map unat (take l s)" rule: legal_nats.cases) (auto dest!: arg_cong [where f = length])
  then have l: "l = 1 \<or> l = 2 \<or> l = 3 \<or> l = 4" by linarith
  then have "s \<noteq> []" using assms(2) by auto
  moreover have "pg_utf_mblen s = Inr (int l)"
    using l assms take_small [of s] unfolding utf_mblen_unat [OF \<open>s \<noteq> []\<close>] by auto
  ultimately show ?thesis using l by auto
qed

lemma utf8_verifier_accepts:
  assumes "0 < n" "n \<le> length s" "1 \<le> l"
  shows "pg_utf8_verifier s (int n) = Inr (int l) \<longleftrightarrow> l \<le> n \<and> legal_nats (map unat (take l s))"
proof -
  have ne: "s \<noteq> []" using assms by auto
  obtain k where k: "pg_utf_mblen s = Inr (int k)" "1 \<le> k"
    by (rule that [of "if unat (s ! 0) < 128 then 1 else if unat (s ! 0) < 192 then 1 else if unat (s ! 0) < 224 then 2
     else if unat (s ! 0) < 240 then 3 else if unat (s ! 0) < 248 then 4 else 1"])
      (auto simp: utf_mblen_unat [OF ne])
  show ?thesis
  proof
    assume "pg_utf8_verifier s (int n) = Inr (int l)"
    then have "l = k" "k \<le> n" "pg_utf8_islegal s (int k) = Inr True"
      using k by (auto simp: pg_utf8_verifier_def bindE_eq_Inr split: if_splits)
    then show "l \<le> n \<and> legal_nats (map unat (take l s))"
      using utf8_islegal_nats [OF ne k(1)] assms(2) by simp
  next
    assume l: "l \<le> n \<and> legal_nats (map unat (take l s))"
    then have "k = l" using legal_nats_mblen [of l s] assms(2) k(1) by auto
    then show "pg_utf8_verifier s (int n) = Inr (int l)"
      using l k(1) utf8_islegal_nats [OF ne k(1)] assms(2) by (simp add: pg_utf8_verifier_def)
  qed
qed

lemma or_blocks:
  assumes "unat x = p * 2 ^ k" "unat y < 2 ^ k"
  shows "unat (x OR y) = p * 2 ^ k + unat y"
  using unat_or_disjoint [of k x y] assms by simp

lemma wide_low:
  "unat (wide (b AND 0x07) 18) = unat b mod 8 * 262144" "unat (wide (b AND 0x3f) 12) = unat b mod 64 * 4096"
  "unat (wide (b AND 0x0f) 12) = unat b mod 16 * 4096" "unat (wide (b AND 0x3f) 6) = unat b mod 64 * 64"
  "unat (wide (b AND 0x1f) 6) = unat b mod 32 * 64" "unat (wide (b AND 0x3f) 0) = unat b mod 64"
  "unat (wide b 0) = unat b"
proof -
  have "unat b mod 8 < 8" "unat b mod 64 < 64" "unat b mod 16 < 16" "unat b mod 32 < 32" by simp_all
  then show "unat (wide (b AND 0x07) 18) = unat b mod 8 * 262144" "unat (wide (b AND 0x3f) 12) = unat b mod 64 * 4096"
    "unat (wide (b AND 0x0f) 12) = unat b mod 16 * 4096" "unat (wide (b AND 0x3f) 6) = unat b mod 64 * 64"
    "unat (wide (b AND 0x1f) 6) = unat b mod 32 * 64" "unat (wide (b AND 0x3f) 0) = unat b mod 64"
    by (subst unat_wide; simp add: unat_low_bits)+
  show "unat (wide b 0) = unat b" using unat_byte [of b] by (subst unat_wide) simp_all
qed

lemma wide_sums:
  "unat (wide (a AND 0x1f) 6 OR wide (b AND 0x3f) 0) = unat a mod 32 * 64 + unat b mod 64"
  "unat (wide (a AND 0x0f) 12 OR wide (b AND 0x3f) 6 OR wide (c AND 0x3f) 0) =
     unat a mod 16 * 4096 + unat b mod 64 * 64 + unat c mod 64"
  "unat (wide (a AND 0x07) 18 OR wide (b AND 0x3f) 12 OR wide (c AND 0x3f) 6 OR wide (d AND 0x3f) 0) =
     unat a mod 8 * 262144 + unat b mod 64 * 4096 + unat c mod 64 * 64 + unat d mod 64"
proof -
  have m: "unat x mod 64 < 64" for x :: "8 word" by simp
  have one: "unat (wide (x AND 0x3f) 6 OR wide (y AND 0x3f) 0) = unat x mod 64 * 64 + unat y mod 64" for x y
    using or_blocks [of "wide (x AND 0x3f) 6" "unat x mod 64" 6 "wide (y AND 0x3f) 0"] m [of y] by (simp add: wide_low unat_low_bits)
  have two: "unat (wide (x AND 0x3f) 12 OR wide (y AND 0x3f) 6 OR wide (z AND 0x3f) 0) =
      unat x mod 64 * 4096 + (unat y mod 64 * 64 + unat z mod 64)" for x y z
    using or_blocks [of "wide (x AND 0x3f) 12" "unat x mod 64" 12 "wide (y AND 0x3f) 6 OR wide (z AND 0x3f) 0"]
      m [of y] m [of z] by (simp add: wide_low unat_low_bits one)
  show "unat (wide (a AND 0x1f) 6 OR wide (b AND 0x3f) 0) = unat a mod 32 * 64 + unat b mod 64"
    using or_blocks [of "wide (a AND 0x1f) 6" "unat a mod 32" 6 "wide (b AND 0x3f) 0"] m [of b] by (simp add: wide_low unat_low_bits)
  show "unat (wide (a AND 0x0f) 12 OR wide (b AND 0x3f) 6 OR wide (c AND 0x3f) 0) =
     unat a mod 16 * 4096 + unat b mod 64 * 64 + unat c mod 64"
    using or_blocks [of "wide (a AND 0x0f) 12" "unat a mod 16" 12 "wide (b AND 0x3f) 6 OR wide (c AND 0x3f) 0"]
      m [of b] m [of c] by (simp add: wide_low unat_low_bits one or.assoc)
  show "unat (wide (a AND 0x07) 18 OR wide (b AND 0x3f) 12 OR wide (c AND 0x3f) 6 OR wide (d AND 0x3f) 0) =
     unat a mod 8 * 262144 + unat b mod 64 * 4096 + unat c mod 64 * 64 + unat d mod 64"
    using or_blocks [of "wide (a AND 0x07) 18" "unat a mod 8" 18
        "wide (b AND 0x3f) 12 OR wide (c AND 0x3f) 6 OR wide (d AND 0x3f) 0"]
      m [of b] m [of c] m [of d] by (simp add: wide_low unat_low_bits two or.assoc)
qed

lemma sub_mod:
  "192 \<le> a \<Longrightarrow> a < 224 \<Longrightarrow> a mod 32 = a - 192" "224 \<le> a \<Longrightarrow> a < 240 \<Longrightarrow> a mod 16 = a - 224"
  "240 \<le> a \<Longrightarrow> a < 248 \<Longrightarrow> a mod 8 = a - 240" "128 \<le> a \<Longrightarrow> a \<le> 191 \<Longrightarrow> a mod 64 = a - 128" for a :: nat
  by (simp_all add: mod_if [of a] le_mod_geq)

lemma decoder_ok:
  assumes "legal_nats (map unat (take l s))" "l \<le> length s" "int l \<le> len"
  shows "\<exists>w. utf_char s len = Inr (Some (w, l - 1)) \<and> utf8_to_unicode s = Inr w \<and>
    unat w = decode_nats (map unat (take l s))"
proof -
  let ?a = "unat (s ! 0)"
  have mb: "s \<noteq> []" "pg_utf_mblen s = Inr (int l)" "1 \<le> l" using legal_nats_mblen [OF assms(1,2)] by auto
  have at: "at s (int k) = Inr (s ! k)" if "k < l" for k using that assms(2) by (simp add: at_def)
  consider "l = 1" | "l = 2" | "l = 3" | "l = 4"
    using utf_mblen_unat [OF mb(1)] mb(2) by (auto split: if_splits)
  then show ?thesis
  proof cases
    case 1
    have t: "take l s = [s ! 0]" using take_small(1) [of s] 1(1) assms(2) by simp
    have "?a < 128" using assms(1) t by simp
    then show ?thesis using 1 t mb(1) by (auto simp: utf_char_def utf8_to_unicode_def lead_classes wide_low)
  next
    case 2
    have t: "take l s = [s ! 0, s ! 1]" using take_small(2) [of s] 2(1) assms(2) by simp
    have r: "194 \<le> ?a" "?a < 224" "128 \<le> unat (s ! 1)" "unat (s ! 1) \<le> 191" using assms(1) t by auto
    then have "utf_char s len = Inr (Some (wide (s ! 0 AND 0x1f) 6 OR wide (s ! 1 AND 0x3f) 0, 1))"
      "utf8_to_unicode s = Inr (wide (s ! 0 AND 0x1f) 6 OR wide (s ! 1 AND 0x3f) 0)"
      using at [of 1] mb(1) 2 assms(3) by (simp_all add: utf_char_def utf8_to_unicode_def lead_classes)
    then show ?thesis using 2 t r by (simp add: wide_sums sub_mod)
  next
    case 3
    have t: "take l s = [s ! 0, s ! 1, s ! 2]" using take_small(3) [of s] 3(1) assms(2) by simp
    have r: "224 \<le> ?a" "?a < 240" "128 \<le> unat (s ! 1)" "unat (s ! 1) \<le> 191" "128 \<le> unat (s ! 2)" "unat (s ! 2) \<le> 191"
      using assms(1) t by (auto split: if_splits)
    then have "utf_char s len = Inr (Some (wide (s ! 0 AND 0x0f) 12 OR wide (s ! 1 AND 0x3f) 6 OR wide (s ! 2 AND 0x3f) 0, 2))"
      "utf8_to_unicode s = Inr (wide (s ! 0 AND 0x0f) 12 OR wide (s ! 1 AND 0x3f) 6 OR wide (s ! 2 AND 0x3f) 0)"
      using at [of 1] at [of 2] mb(1) 3 assms(3) by (simp_all add: utf_char_def utf8_to_unicode_def lead_classes)
    then show ?thesis using 3 t r by (simp add: wide_sums sub_mod)
  next
    case 4
    have t: "take l s = [s ! 0, s ! 1, s ! 2, s ! 3]" using take_small(4) [of s] 4(1) assms(2) by simp
    have r: "240 \<le> ?a" "?a \<le> 244" "128 \<le> unat (s ! 1)" "unat (s ! 1) \<le> 191" "128 \<le> unat (s ! 2)" "unat (s ! 2) \<le> 191"
      "128 \<le> unat (s ! 3)" "unat (s ! 3) \<le> 191"
      using assms(1) t by (auto split: if_splits)
    then have "utf_char s len = Inr (Some (wide (s ! 0 AND 0x07) 18 OR wide (s ! 1 AND 0x3f) 12 OR wide (s ! 2 AND 0x3f) 6
          OR wide (s ! 3 AND 0x3f) 0, 3))"
      "utf8_to_unicode s = Inr (wide (s ! 0 AND 0x07) 18 OR wide (s ! 1 AND 0x3f) 12 OR wide (s ! 2 AND 0x3f) 6
          OR wide (s ! 3 AND 0x3f) 0)"
      using at [of 1] at [of 2] at [of 3] mb(1) 4 assms(3) by (simp_all add: utf_char_def utf8_to_unicode_def lead_classes)
    then show ?thesis using 4 t r by (simp add: wide_sums sub_mod)
  qed
qed

section \<open>Characters and their bytes\<close>

lemma map_unat_inject: "map unat xs = map unat ys \<longleftrightarrow> xs = (ys :: 'a::len word list)"
  by (rule inj_map_eq_map) (simp add: inj_on_def word_unat_eq_iff)

lemma utf8_bytes_legal:
  assumes "scalar_value c"
  shows "legal_nats (map unat (utf8_bytes c))"
  using assms legal_encode_nats [of "unat c"] utf8_bytes_unat [of c] by (simp add: scalar_value_unat)

lemma length_utf8_bytes: "1 \<le> length (utf8_bytes c)" "length (utf8_bytes c) \<le> 4"
  by (simp_all add: utf8_bytes_def)

lemma utf8_bytes_verified:
  assumes "scalar_value c" "length (utf8_bytes c) \<le> n" "n \<le> length (utf8_bytes c @ t)"
  shows "pg_utf8_verifier (utf8_bytes c @ t) (int n) = Inr (int (length (utf8_bytes c)))"
  using utf8_verifier_accepts [of n "utf8_bytes c @ t" "length (utf8_bytes c)"] utf8_bytes_legal [OF assms(1)]
    length_utf8_bytes [of c] assms(2,3) by simp

lemma utf8_bytes_decoded:
  assumes "scalar_value c" "int (length (utf8_bytes c)) \<le> len"
  shows "utf_char (utf8_bytes c @ t) len = Inr (Some (c, length (utf8_bytes c) - 1))"
    "utf8_to_unicode (utf8_bytes c @ t) = Inr c"
proof -
  have "unat c < 2097152" using assms(1) by (simp add: scalar_value_unat)
  then have dec: "decode_nats (map unat (utf8_bytes c)) = unat c"
    using utf8_bytes_unat [of c] decode_encode_nats [of "unat c"] by simp
  obtain w where w: "utf_char (utf8_bytes c @ t) len = Inr (Some (w, length (utf8_bytes c) - 1))"
    "utf8_to_unicode (utf8_bytes c @ t) = Inr w" "unat w = decode_nats (map unat (utf8_bytes c))"
    using decoder_ok [of "length (utf8_bytes c)" "utf8_bytes c @ t" len] utf8_bytes_legal [OF assms(1)] assms(2) by auto
  then have "w = c" using dec by (simp add: word_unat_eq_iff)
  with w show "utf_char (utf8_bytes c @ t) len = Inr (Some (c, length (utf8_bytes c) - 1))"
    "utf8_to_unicode (utf8_bytes c @ t) = Inr c" by simp_all
qed

lemma verified_is_encoding:
  assumes "pg_utf8_verifier s (int n) = Inr (int l)" "0 < n" "n \<le> length s" "1 \<le> l"
  obtains c where "scalar_value c" "take l s = utf8_bytes c" "l \<le> n"
proof -
  have l: "l \<le> n" "legal_nats (map unat (take l s))"
    using utf8_verifier_accepts [OF assms(2-4)] assms(1) by auto
  obtain c :: pg_wchar where c: "unat c = decode_nats (map unat (take l s))"
    using decoder_ok [OF l(2), of "int l"] l(1) assms(3) by auto
  note enc = encode_decode_nats [OF l(2)]
  have "scalar_value c" using enc c by (simp add: scalar_value_unat)
  moreover have "map unat (utf8_bytes c) = map unat (take l s)"
    using enc c utf8_bytes_unat [of c] by simp
  then have "take l s = utf8_bytes c" by (simp only: map_unat_inject)
  ultimately show ?thesis using l(1) by (rule that)
qed

lemma utf8_bytes_first_zero: "scalar_value c \<Longrightarrow> utf8_bytes c ! 0 = 0 \<longleftrightarrow> c = 0"
proof -
  assume "scalar_value c"
  then have "unat c < 2097152" by (simp add: scalar_value_unat)
  then have "unat (utf8_bytes c ! 0) = utf8_nats (unat c) ! 0"
    using utf8_bytes_unat [of c] length_utf8_bytes(1) [of c] by (metis Suc_le_eq nth_map One_nat_def)
  then show ?thesis by (auto simp: utf8_nats_def word_unat_eq_iff split: if_splits)
qed

lemma chars_ok_utf8:
  "n \<le> length s \<Longrightarrow> chars_ok pg_utf8_verifier s n ks \<longleftrightarrow>
   (\<exists>ws. ks = map (length \<circ> utf8_bytes) ws \<and> take n s = concat (map utf8_bytes ws) \<and> (\<forall>w\<in>set ws. scalar_value w \<and> w \<noteq> 0))"
proof (induction ks arbitrary: s n)
  case Nil
  have "(\<exists>ws. [] = map (length \<circ> utf8_bytes) ws \<and> take n s = concat (map utf8_bytes ws) \<and>
      (\<forall>w\<in>set ws. scalar_value w \<and> w \<noteq> 0)) \<longleftrightarrow> take n s = []" by auto
  then show ?case using Nil by auto
next
  case (Cons k ks)
  show ?case
  proof
    assume *: "chars_ok pg_utf8_verifier s n (k # ks)"
    then have k: "0 < k" "k \<le> n" "s ! 0 \<noteq> 0" "pg_utf8_verifier s (int n) = Inr (int k)"
      "chars_ok pg_utf8_verifier (drop k s) (n - k) ks" by auto
    obtain c where c: "scalar_value c" "take k s = utf8_bytes c"
      using k verified_is_encoding [OF k(4)] Cons.prems by (metis Suc_leI le_less_trans less_le_trans One_nat_def)
    have len: "n - k \<le> length (drop k s)" using Cons.prems by simp
    obtain ws where ws: "ks = map (length \<circ> utf8_bytes) ws" "take (n - k) (drop k s) = concat (map utf8_bytes ws)"
      "\<forall>w\<in>set ws. scalar_value w \<and> w \<noteq> 0"
      using Cons.IH [OF len] k(5) by blast
    have "take n s = take k s @ take (n - k) (drop k s)" using k(2) by (metis le_add_diff_inverse take_add)
    moreover have "k = length (utf8_bytes c)" using c(2) k(2) Cons.prems by (metis length_take min.absorb2 le_trans)
    moreover have "s ! 0 = utf8_bytes c ! 0" using c(2) k(1) by (metis nth_take)
    then have "c \<noteq> 0" using k(3) utf8_bytes_first_zero [OF c(1)] by simp
    ultimately show "\<exists>ws. k # ks = map (length \<circ> utf8_bytes) ws \<and> take n s = concat (map utf8_bytes ws) \<and>
        (\<forall>w\<in>set ws. scalar_value w \<and> w \<noteq> 0)"
      using c ws by (intro exI [of _ "c # ws"]) auto
  next
    assume "\<exists>ws. k # ks = map (length \<circ> utf8_bytes) ws \<and> take n s = concat (map utf8_bytes ws) \<and>
        (\<forall>w\<in>set ws. scalar_value w \<and> w \<noteq> 0)"
    then obtain c ws where ws: "k = length (utf8_bytes c)" "ks = map (length \<circ> utf8_bytes) ws"
      "take n s = utf8_bytes c @ concat (map utf8_bytes ws)" "scalar_value c" "c \<noteq> 0" "\<forall>w\<in>set ws. scalar_value w \<and> w \<noteq> 0"
      by (auto simp: Cons_eq_map_conv)
    define r where "r = concat (map utf8_bytes ws) @ drop n s"
    have s: "s = utf8_bytes c @ r" using ws(3) append_take_drop_id [of n s] unfolding r_def by simp
    have n: "n = k + length (concat (map utf8_bytes ws))" 
      using arg_cong [OF ws(3), of length] ws(1) Cons.prems by simp
    have "chars_ok pg_utf8_verifier (drop k s) (n - k) ks"
    proof (subst Cons.IH)
      show "n - k \<le> length (drop k s)" using Cons.prems by simp
      have "drop k s = r" using s ws(1) by simp
      then have "take (n - k) (drop k s) = concat (map utf8_bytes ws)" using n by (simp add: r_def)
      then show "\<exists>ws. ks = map (length \<circ> utf8_bytes) ws \<and> take (n - k) (drop k s) = concat (map utf8_bytes ws) \<and>
          (\<forall>w\<in>set ws. scalar_value w \<and> w \<noteq> 0)"
        using ws(2,6) by blast
    qed
    moreover have "pg_utf8_verifier s (int n) = Inr (int k)"
      unfolding s ws(1) by (rule utf8_bytes_verified) (use ws(1,4) n s Cons.prems in auto)
    moreover have "s ! 0 \<noteq> 0" "0 < k"
      using utf8_bytes_first_zero [OF ws(4)] ws(1,5) length_utf8_bytes(1) [of c] by (auto simp: s nth_append)
    ultimately show "chars_ok pg_utf8_verifier s n (k # ks)" using n by simp
  qed
qed

section \<open>Conversions to wide characters\<close>

text \<open>
  What the conversion loop needs from the body of an encoding: on a nonempty rest it ends without
  reading behind the given length, and takes at most the bytes that are left.
\<close>

locale mb_decoder =
  fixes ch :: mb_char
  assumes ch_ok: "0 < n \<Longrightarrow> n \<le> length s \<Longrightarrow>
    \<exists>r. ch s (int n) = Inr r \<and> (\<forall>w more. r = Some (w, more) \<longrightarrow> more < n)"
begin

lemma loop_in_bounds:
  "n \<le> length s \<Longrightarrow> cnt + n < length to \<Longrightarrow>
   \<exists>m to'. mb2wchar_loop ch s to (int cnt) (int n) = Inr (int m, to') \<and> m \<le> cnt + n \<and> length to' = length to \<and>
     m < length to' \<and> to' ! m = Some 0"
proof (induction n arbitrary: s cnt to rule: less_induct)
  case (less n)
  have stop: "bindE (store to (int cnt) 0) (\<lambda>to. Inr (int cnt, to)) = Inr (int cnt, to[cnt := Some 0])"
    using less.prems(2) by (simp add: store_ok)
  have stopped: ?case if "mb2wchar_loop ch s to (int cnt) (int n) = bindE (store to (int cnt) 0) (\<lambda>to. Inr (int cnt, to))"
    using that less.prems(2) unfolding stop by (intro exI [of _ cnt] exI [of _ "to[cnt := Some 0]"]) auto
  show ?case
  proof (cases "n = 0 \<or> s ! 0 = 0")
    case True
    then show ?thesis
      by (intro stopped, subst mb2wchar_loop.simps) (use less.prems in \<open>auto simp: at_def\<close>)
  next
    case False
    then have n: "0 < n" "s \<noteq> []" "s ! 0 \<noteq> 0" using less.prems by auto
    obtain r where r: "ch s (int n) = Inr r" "\<forall>w more. r = Some (w, more) \<longrightarrow> more < n"
      using ch_ok [OF n(1) less.prems(1)] by blast
    show ?thesis
    proof (cases r)
      case None
      then show ?thesis by (intro stopped, subst mb2wchar_loop.simps) (use n r in auto)
    next
      case (Some p)
      obtain w more where p: "p = (w, more)" by (cases p)
      then have more: "more < n" using r(2) Some by simp
      have "mb2wchar_loop ch s to (int cnt) (int n) =
          mb2wchar_loop ch (drop (Suc more) s) (to[cnt := Some w]) (int (Suc cnt)) (int (n - Suc more))"
        using n r(1) Some p more less.prems(2)
        by (subst mb2wchar_loop.simps) (simp add: store_ok of_nat_diff add.commute)
      moreover have "\<exists>m to'. mb2wchar_loop ch (drop (Suc more) s) (to[cnt := Some w]) (int (Suc cnt)) (int (n - Suc more)) =
          Inr (int m, to') \<and> m \<le> Suc cnt + (n - Suc more) \<and> length to' = length (to[cnt := Some w]) \<and>
          m < length to' \<and> to' ! m = Some 0"
        by (rule less.IH) (use n more less.prems in auto)
      ultimately show ?thesis using more by auto
    qed
  qed
qed

end

interpretation ascii_dec: mb_decoder ascii_char
  by unfold_locales (auto simp: ascii_char_def at_def)

interpretation euc_dec: mb_decoder euc_char
  by unfold_locales (auto simp: euc_char_def at_def)

interpretation euccn_dec: mb_decoder euccn_char
  by unfold_locales (auto simp: euccn_char_def at_def)

interpretation euctw_dec: mb_decoder euctw_char
  by unfold_locales (auto simp: euctw_char_def at_def)

interpretation utf_dec: mb_decoder utf_char
  by unfold_locales (auto simp: utf_char_def at_def)

interpretation mule_dec: mb_decoder mule_char
  by unfold_locales (auto simp: mule_char_def at_def)

lemma table_decoders:
  assumes "t \<in> set pg_wchar_table" "mb2wchar_with_len t = Some f"
  shows "\<exists>ch. mb_decoder ch \<and> f = (\<lambda>from to len. mb2wchar_loop ch from to 0 len)"
  using assms unfolding pg_wchar_table_def
  by (auto simp: server_entry_def client_entry_def fun_eq_iff pg_ascii2wchar_with_len_def pg_eucjp2wchar_with_len_def
      pg_euc2wchar_with_len_def pg_euccn2wchar_with_len_def pg_euckr2wchar_with_len_def pg_euctw2wchar_with_len_def
      pg_utf2wchar_with_len_def pg_mule2wchar_with_len_def pg_latin12wchar_with_len_def
      intro: ascii_dec.mb_decoder_axioms euc_dec.mb_decoder_axioms euccn_dec.mb_decoder_axioms
        euctw_dec.mb_decoder_axioms utf_dec.mb_decoder_axioms mule_dec.mb_decoder_axioms)

section \<open>Round trips of strings\<close>

lemma utf2wchar_loop_concat:
  assumes "\<forall>w\<in>set ws. scalar_value w \<and> w \<noteq> 0" "length ws < length cs"
  shows "mb2wchar_loop utf_char (concat (map utf8_bytes ws) @ rest) (map Some pre @ cs) (int (length pre))
      (int (length (concat (map utf8_bytes ws)))) =
    Inr (int (length pre + length ws), map Some (pre @ ws @ [0]) @ drop (Suc (length ws)) cs)"
  using assms
proof (induction ws arbitrary: pre cs)
  case Nil
  then show ?case by (cases cs) (auto simp: mb2wchar_loop.simps store_split)
next
  case (Cons c ws)
  let ?b = "utf8_bytes c" and ?r = "concat (map utf8_bytes ws) @ rest"
  obtain x cs' where cs: "cs = x # cs'" using Cons.prems by (cases cs) auto
  have first: "?b @ ?r \<noteq> []" "(?b @ ?r) ! 0 \<noteq> 0"
    using Cons.prems utf8_bytes_first_zero [of c] length_utf8_bytes(1) [of c] by (auto simp: nth_append)
  let ?n = "length ?b + length (concat (map utf8_bytes ws))"
  have dec: "utf_char (?b @ ?r) (int ?n) = Inr (Some (c, length ?b - 1))"
    using Cons.prems by (intro utf8_bytes_decoded) auto
  have suc: "Suc (length ?b - 1) = length ?b" using length_utf8_bytes(1) [of c] by simp
  have "mb2wchar_loop utf_char (?b @ ?r) (map Some pre @ cs) (int (length pre)) (int ?n) =
      mb2wchar_loop utf_char ?r (map Some (pre @ [c]) @ cs') (int (length (pre @ [c])))
        (int (length (concat (map utf8_bytes ws))))"
    using first dec length_utf8_bytes(1) [of c]
    by (subst mb2wchar_loop.simps) (simp add: suc store_split cs add.commute)
  also have "\<dots> = Inr (int (length (pre @ [c]) + length ws), map Some ((pre @ [c]) @ ws @ [0]) @ drop (Suc (length ws)) cs')"
    by (rule Cons.IH) (use Cons.prems cs in auto)
  finally show ?case by (simp add: cs)
qed

lemma utf8_bytes_mblen:
  "scalar_value c \<Longrightarrow> pg_utf_mblen [utf8_bytes c ! 0] = Inr (int (length (utf8_bytes c)))"
proof -
  assume c: "scalar_value c"
  have "pg_utf_mblen (utf8_bytes c) = Inr (int (length (utf8_bytes c)))"
    using legal_nats_mblen [of "length (utf8_bytes c)" "utf8_bytes c"] utf8_bytes_legal [OF c] by simp
  moreover have "utf8_bytes c \<noteq> []" using length_utf8_bytes(1) [of c] by auto
  ultimately show ?thesis by (simp add: pg_utf_mblen_def)
qed

lemma wchar2utf_loop_concat:
  assumes "\<forall>w\<in>set ws. scalar_value w \<and> w \<noteq> 0" "length (concat (map utf8_bytes ws)) < length cs"
  shows "wchar2utf_loop (ws @ rest) (map Some pre @ cs) (int (length pre)) (int (length ws)) =
    Inr (int (length pre + length (concat (map utf8_bytes ws))),
      map Some (pre @ concat (map utf8_bytes ws) @ [0]) @ drop (Suc (length (concat (map utf8_bytes ws)))) cs)"
  using assms
proof (induction ws arbitrary: pre cs)
  case Nil
  then show ?case by (cases cs) (auto simp: wchar2utf_loop.simps store_split)
next
  case (Cons c ws)
  let ?b = "utf8_bytes c"
  have put: "unicode_to_utf8 c (map Some pre @ cs) (int (length pre)) =
      Inr (map Some (pre @ ?b) @ drop (length ?b) cs)"
    using Cons.prems by (simp add: unicode_to_utf8_def memcpy_to_ok)
  have ne: "?b \<noteq> []" using length_utf8_bytes(1) [of c] by auto
  then have get: "load (map Some (pre @ ?b) @ drop (length ?b) cs) (int (length pre)) = Inr (?b ! 0)"
    by (cases ?b) (auto simp: load_def nth_append)
  have "wchar2utf_loop ((c # ws) @ rest) (map Some pre @ cs) (int (length pre)) (int (length (c # ws))) =
      wchar2utf_loop (ws @ rest) (map Some (pre @ ?b) @ drop (length ?b) cs) (int (length (pre @ ?b))) (int (length ws))"
    using put get utf8_bytes_mblen [of c] Cons.prems by (subst wchar2utf_loop.simps) simp
  also have "\<dots> = Inr (int (length (pre @ ?b) + length (concat (map utf8_bytes ws))),
      map Some ((pre @ ?b) @ concat (map utf8_bytes ws) @ [0]) @
        drop (Suc (length (concat (map utf8_bytes ws)))) (drop (length ?b) cs))"
    by (rule Cons.IH) (use Cons.prems in auto)
  finally show ?case by (simp add: add.commute)
qed

section \<open>Properties\<close>

text \<open>
  C4: UTF-8 validation is exact. \<open>pg_verify_mbstr_len\<close> accepts a byte string in UTF-8 if and only if it is
  the concatenation of the encodings of Unicode scalar values other than zero, that is of code
  points up to 10FFFF without the surrogates, each in its shortest form; and it returns how
  many there are.
\<close>
theorem utf8_validation_exact:
  assumes "n \<le> length s"
  shows "pg_verify_mbstr_len PG_UTF8 s (int n) True = Inr (int m) \<longleftrightarrow>
    (\<exists>ws. length ws = m \<and> take n s = concat (map utf8_bytes ws) \<and> (\<forall>w\<in>set ws. scalar_value w \<and> w \<noteq> 0))"
proof
  note valid = pg_verify_mbstr_len_valid [OF utf8_entry_facts(3,1) assms, unfolded utf8_entry_facts(2)]
  note invalid = pg_verify_mbstr_len_invalid [OF utf8_entry_facts(3,1) assms, unfolded utf8_entry_facts(2)]
  assume m: "pg_verify_mbstr_len PG_UTF8 s (int n) True = Inr (int m)"
  then obtain ks where ks: "chars_ok pg_utf8_verifier s n ks"
    using invalid by (fastforce simp: reject_def)
  then obtain ws where "ks = map (length \<circ> utf8_bytes) ws" "take n s = concat (map utf8_bytes ws)"
      "\<forall>w\<in>set ws. scalar_value w \<and> w \<noteq> 0"
    using chars_ok_utf8 [OF assms] by blast
  moreover have "length ks = m" using valid [OF ks, of True] m by simp
  ultimately show "\<exists>ws. length ws = m \<and> take n s = concat (map utf8_bytes ws) \<and> (\<forall>w\<in>set ws. scalar_value w \<and> w \<noteq> 0)"
    by (intro exI [of _ ws]) auto
next
  note valid = pg_verify_mbstr_len_valid [OF utf8_entry_facts(3,1) assms, unfolded utf8_entry_facts(2)]
  assume "\<exists>ws. length ws = m \<and> take n s = concat (map utf8_bytes ws) \<and> (\<forall>w\<in>set ws. scalar_value w \<and> w \<noteq> 0)"
  then obtain ws where ws: "length ws = m" "take n s = concat (map utf8_bytes ws)" "\<forall>w\<in>set ws. scalar_value w \<and> w \<noteq> 0"
    by blast
  then have "chars_ok pg_utf8_verifier s n (map (length \<circ> utf8_bytes) ws)"
    using chars_ok_utf8 [OF assms] by blast
  from valid [OF this, of True] show "pg_verify_mbstr_len PG_UTF8 s (int n) True = Inr (int m)" using ws(1) by simp
qed

theorem utf8_validation_exact_witness:
  "pg_verify_mbstr_len PG_UTF8 [0xE2, 0x82, 0xAC] (int 3) True = Inr (int 1) \<longleftrightarrow>
    (\<exists>ws. length ws = 1 \<and> take 3 [0xE2, 0x82, 0xAC] = concat (map utf8_bytes ws) \<and> (\<forall>w\<in>set ws. scalar_value w \<and> w \<noteq> 0))"
  by (rule utf8_validation_exact) simp

text \<open>
  C27: Conversion to wide characters and back is the identity. For every list of scalar values other than
  zero, decoding its UTF-8 form stores exactly these values and a zero behind them, and
  encoding the values stores exactly the bytes again and a zero, each in a buffer with one cell
  more than the result and nothing behind it changed.
\<close>
theorem utf8_wchar_roundtrip:
  assumes "\<forall>w\<in>set ws. scalar_value w \<and> w \<noteq> 0" "bs = concat (map utf8_bytes ws)"
    and "length ws < length to1" "length bs < length to2"
  shows "pg_utf2wchar_with_len (bs @ rest) to1 (int (length bs)) =
      Inr (int (length ws), map Some (ws @ [0]) @ drop (Suc (length ws)) to1) \<and>
    pg_wchar2utf_with_len (ws @ tail) to2 (int (length ws)) =
      Inr (int (length bs), map Some (bs @ [0]) @ drop (Suc (length bs)) to2)"
  using utf2wchar_loop_concat [OF assms(1,3), of rest "[]"] wchar2utf_loop_concat [OF assms(1), of to2 tail "[]"] assms(2,4)
  by (simp add: pg_utf2wchar_with_len_def pg_wchar2utf_with_len_def)

theorem utf8_wchar_roundtrip_witness:
  "pg_utf2wchar_with_len ([0xC3, 0xA9, 0xE2, 0x82, 0xAC] @ []) [None, None, None, None] (int 5) =
      Inr (2, [Some 0xE9, Some 0x20AC, Some 0, None])"
proof -
  have bs: "[0xC3, 0xA9, 0xE2, 0x82, 0xAC] = concat (map utf8_bytes [0xE9, 0x20AC])" by code_simp
  have "\<forall>w\<in>set [0xE9, 0x20AC]. scalar_value w \<and> w \<noteq> 0" by code_simp
  from utf8_wchar_roundtrip [OF this bs, of "[None, None, None, None]" "replicate 6 None" "[]" "[]"]
  show ?thesis by (simp add: eval_nat_numeral)
qed

text \<open>
  C32: Every conversion to wide characters of the table stays inside its buffers, also on invalid
  input: with one cell more than there are bytes it ends, reads no byte behind the given length,
  stores no more characters than there were bytes, and ends the result with a zero.
\<close>
theorem mb2wchar_in_bounds:
  assumes "t \<in> set pg_wchar_table" "mb2wchar_with_len t = Some f" "n \<le> length s" "n < length to"
  shows "\<exists>m to'. f s to (int n) = Inr (int m, to') \<and> m \<le> n \<and> length to' = length to \<and> to' ! m = Some 0"
proof -
  obtain ch where ch: "mb_decoder ch" "f = (\<lambda>from to len. mb2wchar_loop ch from to 0 len)"
    using table_decoders [OF assms(1,2)] by blast
  show ?thesis using mb_decoder.loop_in_bounds [OF ch(1) assms(3), of 0 to] assms(4) by (auto simp: ch(2))
qed

theorem mb2wchar_in_bounds_witness:
  "\<exists>m to'. pg_euctw2wchar_with_len [0x8e, 0xa1, 0xa1] (replicate 4 None) (int 3) = Inr (int m, to') \<and> m \<le> 3 \<and>
    length to' = length (replicate 4 (None :: pg_wchar option)) \<and> to' ! m = Some 0"
proof (rule mb2wchar_in_bounds)
  show "server_entry pg_euctw2wchar_with_len pg_wchar2euc_with_len pg_euctw_mblen pg_euctw_dsplen
        pg_euctw_verifier 4 \<in> set pg_wchar_table"
    by (simp add: pg_wchar_table_def)
qed (simp_all add: server_entry_def)

end
