(* ===== verification/Scansup.thy ===== *)
theory Scansup
  imports Pg_Utf8
begin

text \<open>
  Identifiers, \<^verbatim>\<open>src_backend_parser_scansup.c\<close>: folding to lower case and truncation to
  \<^verbatim>\<open>NAMEDATALEN - 1\<close> bytes, in the database encoding \<open>db\<close>. \<^verbatim>\<open>isupper\<close> and \<^verbatim>\<open>tolower\<close> depend on the
  locale and are arguments. A notice is returned beside the result, as the two texts it shows.
\<close>

unbundle bit_operations_syntax

abbreviation (input) NAMEDATALEN :: int where "NAMEDATALEN \<equiv> 64"

section \<open>Operations\<close>

text \<open>The bytes from a pointer on, as far as they have been written, and the text up to the zero.\<close>

definition written :: "8 word block \<Rightarrow> bytes" where
  "written b = map the (takeWhile (\<lambda>c. c \<noteq> None) b)"

fun c_text :: "8 word block \<Rightarrow> bytes res" where
  "c_text [] = Inl OutOfBounds"
| "c_text (None # b) = Inl Uninitialised"
| "c_text (Some c # b) = (if c = 0 then Inr [] else bindE (c_text b) (\<lambda>s. Inr (c # s)))"

definition truncate_identifier ::
  "pg_enc2name \<Rightarrow> 8 word block \<Rightarrow> int \<Rightarrow> bool \<Rightarrow> (8 word block \<times> (bytes \<times> bytes) option) res" where
  "truncate_identifier db ident len0 warn =
     (if len0 \<ge> NAMEDATALEN
      then bindE (pg_mbcliplen db (written ident) len0 (NAMEDATALEN - 1)) (\<lambda>len.
           bindE (if warn
                  then bindE (cells ident 0 len) (\<lambda>src. bindE (memcpy_to (replicate 64 None) 0 src) (\<lambda>buf.
                       bindE (store buf len 0) (\<lambda>buf. bindE (c_text ident) (\<lambda>shown.
                       bindE (c_text buf) (\<lambda>cut. Inr (Some (shown, cut)))))))
                  else Inr None) (\<lambda>notice.
           bindE (store ident len 0) (\<lambda>ident. Inr (ident, notice))))
      else Inr (ident, None))"

definition downcase_char :: "(8 word \<Rightarrow> bool) \<Rightarrow> (8 word \<Rightarrow> 8 word) \<Rightarrow> bool \<Rightarrow> 8 word \<Rightarrow> 8 word" where
  "downcase_char isupper tolower enc_is_single_byte ch =
     (if ch \<ge> 0x41 \<and> ch \<le> 0x5a then ch + (0x61 - 0x41)
      else if enc_is_single_byte \<and> IS_HIGHBIT_SET ch \<and> isupper ch then tolower ch
      else ch)"

fun downcase_loop :: "(8 word \<Rightarrow> 8 word) \<Rightarrow> bytes \<Rightarrow> 8 word block \<Rightarrow> int \<Rightarrow> nat \<Rightarrow> 8 word block res" where
  "downcase_loop f ident result i 0 = Inr result"
| "downcase_loop f ident result i (Suc n) =
     bindE (at ident i) (\<lambda>ch. bindE (store result i (f ch)) (\<lambda>result. downcase_loop f ident result (i + 1) n))"

definition downcase_identifier ::
  "(8 word \<Rightarrow> bool) \<Rightarrow> (8 word \<Rightarrow> 8 word) \<Rightarrow> pg_enc2name \<Rightarrow> bytes \<Rightarrow> int \<Rightarrow> bool \<Rightarrow> bool \<Rightarrow>
   (8 word block \<times> (bytes \<times> bytes) option) res" where
  "downcase_identifier isupper tolower db ident len warn trunc =
     bindE (palloc 1 (len + 1)) (\<lambda>result.
     bindE (pg_database_encoding_max_length db) (\<lambda>most.
     bindE (downcase_loop (downcase_char isupper tolower (most = 1)) ident result 0 (nat len)) (\<lambda>result.
     let i = max 0 len in
     bindE (store result i 0) (\<lambda>result.
     if i \<ge> NAMEDATALEN \<and> trunc then truncate_identifier db result i warn else Inr (result, None)))))"

definition downcase_truncate_identifier ::
  "(8 word \<Rightarrow> bool) \<Rightarrow> (8 word \<Rightarrow> 8 word) \<Rightarrow> pg_enc2name \<Rightarrow> bytes \<Rightarrow> int \<Rightarrow> bool \<Rightarrow>
   (8 word block \<times> (bytes \<times> bytes) option) res" where
  "downcase_truncate_identifier isupper tolower db ident len warn =
     downcase_identifier isupper tolower db ident len warn True"

section \<open>Buffers with a text\<close>

lemma written_text: "written (map Some t @ []) = t"
  by (simp add: written_def takeWhile_eq_all_conv [THEN iffD2])

lemma c_text_ok: "0 \<notin> set t \<Longrightarrow> c_text (map Some t @ Some 0 # rest) = Inr t"
  by (induction t) auto

lemma downcase_loop_ok:
  "i + n \<le> length ident \<Longrightarrow> length res = length pre + k \<Longrightarrow> n \<le> k \<Longrightarrow> length pre = i \<Longrightarrow> res = map Some pre @ rest \<Longrightarrow>
   downcase_loop f ident res (int i) n = Inr (map Some (pre @ map f (take n (drop i ident))) @ drop n rest)"
proof (induction n arbitrary: i pre rest res k)
  case (Suc n)
  obtain x rest' where rest: "rest = x # rest'" using Suc.prems by (cases rest) auto
  have at: "at ident (int i) = Inr (ident ! i)" using Suc.prems by (simp add: at_def)
  have st: "store res (int i) (f (ident ! i)) = Inr (map Some (pre @ [f (ident ! i)]) @ rest')"
    using Suc.prems rest by (simp add: store_split)
  have "downcase_loop f ident (map Some (pre @ [f (ident ! i)]) @ rest') (int (Suc i)) n =
      Inr (map Some ((pre @ [f (ident ! i)]) @ map f (take n (drop (Suc i) ident))) @ drop n rest')"
    by (rule Suc.IH [where k = "k - 1"]) (use Suc.prems rest in auto)
  moreover have "drop i ident = ident ! i # drop (Suc i) ident" using Suc.prems by (simp add: Cons_nth_drop_Suc)
  ultimately show ?case using at st rest by (simp add: add.commute)
qed simp

lemma chars_ok_nonzero:
  assumes "mb_encoding mblen_fn v most" "chars_ok v s n ks" "n \<le> length s"
  shows "0 \<notin> set (take n s)"
  using assms(2,3)
proof (induction ks arbitrary: s n)
  case (Cons k ks)
  then have k: "0 < k" "k \<le> n" "s ! 0 \<noteq> 0" "v s (int n) = Inr (int k)" by auto
  have "s ! i \<noteq> 0" if "i < k" for i
    using mb_encoding.verify_nonzero [OF assms(1) _ Cons.prems(2) k(4), of i] k that by (cases "i = 0") auto
  then have "0 \<notin> set (take k s)"
    using k(2) Cons.prems(2) by (auto simp: in_set_conv_nth)
  moreover have "0 \<notin> set (take (n - k) (drop k s))"
    by (rule Cons.IH) (use Cons.prems in auto)
  moreover have "take n s = take k s @ take (n - k) (drop k s)" using k(2) by (metis le_add_diff_inverse take_add)
  ultimately show ?case by simp
qed simp

text \<open>
  Truncation of a buffer that holds a valid text: it is cut at the end of a character, and the
  notice, if one is wanted, shows the text before and after.
\<close>

lemma truncate_identifier_ok:
  assumes "PG_VALID_ENCODING (encoding db)" "at pg_wchar_table (encoding db) = Inr t"
    and "chars_ok (mbverify t) (low @ [0]) (length low) ks" "64 \<le> length low" "int (length low) \<le> INT_MAX"
  shows "truncate_identifier db (map Some (low @ [0])) (int (length low)) warn =
     Inr ((map Some (low @ [0])) [nat (clip ks 63) := Some 0], if warn then Some (low, take (nat (clip ks 63)) low) else None) \<and>
     0 \<le> clip ks 63 \<and> clip ks 63 \<le> 63"
proof -
  let ?b = "map Some (low @ [0])"
  obtain j where j: "clip ks 63 = int (sum_list (take j ks))" "clip ks 63 \<le> 63"
    using clip_spec [of 63 ks] by (meson zero_le_numeral)
  define r where "r = sum_list (take j ks)"
  have r: "clip ks 63 = int r" "r \<le> 63" using j by (auto simp: r_def)
  have "written ?b = low @ [0]" using written_text [of "low @ [0]"] by simp
  then have clip: "pg_mbcliplen db (written ?b) (int (length low)) 63 = Inr (int r)"
    using pg_encoding_mbcliplen_valid [OF assms(1,2) _ assms(5) _ assms(3), of 63] r by (simp add: pg_mbcliplen_def)
  have nz: "0 \<notin> set low"
    using chars_ok_nonzero [OF table_contract [OF assms(1,2)] assms(3)] by simp
  have cut: "cells ?b 0 (int r) = Inr (map Some (take r low))" "store ?b (int r) 0 = Inr (?b [r := Some 0])"
    using r(2) assms(4) by (simp_all add: cells_def store_def take_map)
  have "memcpy_to (replicate 64 None) 0 (map Some (take r low)) =
      Inr (map Some (take r low) @ replicate (64 - r) None)"
    using r(2) assms(4) by (simp add: memcpy_to_def)
  moreover have "replicate (64 - r) (None :: 8 word option) = None # replicate (63 - r) None"
  proof -
    have "64 - r = Suc (63 - r)" using r(2) by simp
    then show ?thesis by simp
  qed
  ultimately have buf: "bindE (memcpy_to (replicate 64 None) 0 (map Some (take r low))) (\<lambda>buf. store buf (int r) 0) =
      Inr (map Some (take r low) @ Some 0 # replicate (63 - r) None)"
    using r(2) assms(4) by (simp add: store_split)
  have shown: "c_text ?b = Inr low" "c_text (map Some (take r low) @ Some 0 # replicate (63 - r) None) = Inr (take r low)"
    using c_text_ok [OF nz, of "[]"] c_text_ok [of "take r low" "replicate (63 - r) None"] nz set_take_subset [of r low] by auto
  show ?thesis
    using clip cut shown assms(4) r buf
    by (cases warn) (auto simp: truncate_identifier_def bindE_eq_Inr)
qed

lemma downcase_truncate_run:
  assumes "at pg_wchar_table (encoding db) = Inr t" "n \<le> length ident" "int n + 1 \<le> MaxAllocSize"
    and low: "low = map (downcase_char isupper tolower (maxmblen t = 1)) (take n ident)"
  shows "downcase_truncate_identifier isupper tolower db ident (int n) warn =
    (if n \<ge> 64 then truncate_identifier db (map Some (low @ [0])) (int n) warn else Inr (map Some (low @ [0]), None))"
proof -
  have loop: "downcase_loop (downcase_char isupper tolower (maxmblen t = 1)) ident (replicate (n + 1) None) 0 n =
      Inr (map Some low @ [None])"
    using downcase_loop_ok [of 0 n ident "replicate (n + 1) None" "[]" "n + 1" "replicate (n + 1) None"] assms(2) low
    by (simp add: drop_replicate replicate_append_same [symmetric])
  have most: "pg_database_encoding_max_length db = Inr (maxmblen t)"
    using assms(1) by (simp add: pg_database_encoding_max_length_def GetDatabaseEncoding_def)
  have alloc: "palloc 1 (int n + 1) = Inr (replicate (n + 1) (None :: 8 word option))"
    using assms(3) by (simp add: palloc_def nat_add_distrib)
  have zero: "store (map Some low @ [None]) (int n) 0 = Inr (map Some (low @ [0]))"
    using assms(2) low by (simp add: store_split)
  show ?thesis using alloc most loop zero by (simp add: downcase_truncate_identifier_def downcase_identifier_def Let_def)
qed

section \<open>Properties\<close>

text \<open>
  C33: \<open>downcase_truncate_identifier\<close> folds every byte of an identifier with \<open>downcase_char\<close> and
  returns a zero-terminated copy. Up to 63 bytes the whole text is kept and no notice is given.
  A longer text that is valid in the database encoding is cut to the longest prefix of whole
  characters of at most 63 bytes, and the notice, if wanted, shows the text and the prefix. No
  access leaves the copy or the local buffer of 64 bytes.
\<close>
theorem downcase_truncate_identifier_correct:
  assumes "PG_VALID_ENCODING (encoding db)" "at pg_wchar_table (encoding db) = Inr t"
    and "n \<le> length ident" "int n + 1 \<le> MaxAllocSize"
    and "low = map (downcase_char isupper tolower (maxmblen t = 1)) (take n ident)"
    and "chars_ok (mbverify t) (low @ [0]) n ks"
  shows "\<exists>block notice. downcase_truncate_identifier isupper tolower db ident (int n) warn = Inr (block, notice) \<and>
    length block = n + 1 \<and>
    (if n < 64 then c_text block = Inr low \<and> notice = None
     else \<exists>j\<le>length ks. c_text block = Inr (take (sum_list (take j ks)) low) \<and> sum_list (take j ks) \<le> 63 \<and>
       (j < length ks \<longrightarrow> 63 < sum_list (take (Suc j) ks)) \<and>
       notice = (if warn then Some (low, take (sum_list (take j ks)) low) else None))"
proof -
  have len: "length low = n" using assms(3,5) by simp
  have nz: "0 \<notin> set low"
    using chars_ok_nonzero [OF table_contract [OF assms(1,2)] assms(6)] len by simp
  note run = downcase_truncate_run [OF assms(2-5), of warn]
  show ?thesis
  proof (cases "n < 64")
    case True
    then show ?thesis using run c_text_ok [OF nz, of "[]"] len by simp
  next
    case False
    obtain j where j: "j \<le> length ks" "clip ks 63 = int (sum_list (take j ks))" "clip ks 63 \<le> 63"
      "j < length ks \<longrightarrow> 63 < int (sum_list (take (Suc j) ks))"
      using clip_spec [of 63 ks] by (meson zero_le_numeral)
    define r where "r = sum_list (take j ks)"
    have r: "clip ks 63 = int r" "r \<le> 63" using j by (auto simp: r_def)
    have "r < length low" using r(2) False len by simp
    then have "(map Some (low @ [0])) [r := Some 0] = map Some (take r low) @ Some 0 # drop (Suc r) (map Some (low @ [0]))"
      by (simp add: upd_conv_take_nth_drop take_map)
    then have shown: "c_text ((map Some (low @ [0])) [r := Some 0]) = Inr (take r low)"
      using c_text_ok [of "take r low"] nz set_take_subset [of r low] by auto
    have "truncate_identifier db (map Some (low @ [0])) (int n) warn =
        Inr ((map Some (low @ [0])) [r := Some 0], if warn then Some (low, take r low) else None)"
      using truncate_identifier_ok [OF assms(1,2), of low ks warn] assms(4,6) len False r by simp
    then have "downcase_truncate_identifier isupper tolower db ident (int n) warn =
        Inr ((map Some (low @ [0])) [r := Some 0], if warn then Some (low, take r low) else None)"
      using run False by simp
    then show ?thesis
      using shown False len j(1,4) r(2)
      by (intro exI [of _ "(map Some (low @ [0])) [r := Some 0]"] exI [of _ "if warn then Some (low, take r low) else None"])
        (auto intro!: exI [of _ j] simp: r_def)
  qed
qed

text \<open>A name of 62 letters and one character of two bytes at its end is cut before that character.\<close>

abbreviation long_name :: bytes where
  "long_name \<equiv> replicate 62 0x41 @ [0xC3, 0xA9]"

theorem downcase_truncate_identifier_correct_witness:
  "bindE (downcase_truncate_identifier (\<lambda>c. False) (\<lambda>c. c) \<lparr>enc_name = ''UTF8'', encoding = 6\<rparr> long_name 64 True)
     (\<lambda>(block, notice). c_text block) = Inr (replicate 62 0x61) \<and>
   (\<exists>block notice. downcase_truncate_identifier (\<lambda>c. False) (\<lambda>c. c) \<lparr>enc_name = ''UTF8'', encoding = 6\<rparr>
     long_name (int 64) True = Inr (block, notice) \<and> length block = 64 + 1)"
proof
  show "bindE (downcase_truncate_identifier (\<lambda>c. False) (\<lambda>c. c) \<lparr>enc_name = ''UTF8'', encoding = 6\<rparr> long_name 64 True)
     (\<lambda>(block, notice). c_text block) = Inr (replicate 62 0x61)"
    by code_simp
  define low where "low = map (downcase_char (\<lambda>c. False) (\<lambda>c. c) (maxmblen utf8_entry = 1)) (take 64 long_name)"
  have low: "low = replicate 62 0x61 @ [0xC3, 0xA9]" unfolding low_def server_entry_def by code_simp
  have ok: "chars_ok (mbverify utf8_entry) (low @ [0]) 64 (replicate 62 1 @ [2])"
    unfolding utf8_entry_facts(2) low by code_simp
  have "PG_VALID_ENCODING (encoding \<lparr>enc_name = ''UTF8'', encoding = 6\<rparr>)"
    "at pg_wchar_table (encoding \<lparr>enc_name = ''UTF8'', encoding = 6\<rparr>) = Inr utf8_entry"
    using utf8_entry_facts by simp_all
  from downcase_truncate_identifier_correct [OF this _ _ low_def ok, of True]
  show "\<exists>block notice. downcase_truncate_identifier (\<lambda>c. False) (\<lambda>c. c) \<lparr>enc_name = ''UTF8'', encoding = 6\<rparr>
     long_name (int 64) True = Inr (block, notice) \<and> length block = 64 + 1"
    by auto
qed

lemma pg_unicode_to_server_stores:
  assumes "GetDatabaseEncoding db = PG_UTF8" "5 \<le> length s" "is_valid_unicode_codepoint c" "scalar_value c"
  shows "pg_unicode_to_server db conv c s = Inr (map Some (utf8_bytes c @ [0]) @ drop (Suc (length (utf8_bytes c))) s)"
proof (cases "c \<le> 0x7F")
  case True
  then have "utf8_bytes c = [narrow c 0]" by (simp add: utf8_bytes_def)
  moreover obtain x y r where "s = x # y # r" using assms(2) by (cases s; cases "tl s") auto
  ultimately show ?thesis using True assms by (simp add: pg_unicode_to_server_def store_def)
next
  case False
  let ?b = "utf8_bytes c"
  have b: "?b \<noteq> []" "length ?b < length s" using length_utf8_bytes [of c] assms(2) by auto
  have u: "unicode_to_utf8 c s 0 = Inr (map Some ?b @ drop (length ?b) s)"
    using b by (simp add: unicode_to_utf8_def memcpy_to_def)
  have "load (map Some ?b @ drop (length ?b) s) 0 = Inr (?b ! 0)" using b(1) by (cases ?b) (simp_all add: load_def)
  moreover have "drop (length ?b) s = s ! length ?b # drop (Suc (length ?b)) s"
    using b(2) by (simp add: Cons_nth_drop_Suc)
  then have "store (map Some ?b @ drop (length ?b) s) (int (length ?b)) 0 =
      Inr (map Some (?b @ [0]) @ drop (Suc (length ?b)) s)"
    by (simp add: store_split)
  ultimately show ?thesis
    using False assms u utf8_bytes_mblen [OF assms(4)] by (simp add: pg_unicode_to_server_def)
qed

text \<open>
  With UTF-8 as database encoding \<open>pg_unicode_to_server\<close> stores the encoding of any code point that is not
  a surrogate, with a zero behind it, in the 17 bytes its callers provide, and the stored text
  is accepted by the verification and decodes to the code point. A code point that is zero or
  above 10FFFF is refused.
\<close>
theorem pg_unicode_to_server_utf8:
  assumes "GetDatabaseEncoding db = PG_UTF8" "length s = 17"
  shows "if is_valid_unicode_codepoint c
    then scalar_value c \<longrightarrow> (\<exists>out. pg_unicode_to_server db conv c s = Inr (map Some (utf8_bytes c @ [0]) @ out) \<and>
      length (utf8_bytes c @ [0]) + length out = 17 \<and>
      pg_verify_mbstr_len PG_UTF8 (utf8_bytes c) (int (length (utf8_bytes c))) True = Inr 1 \<and>
      utf8_to_unicode (utf8_bytes c) = Inr c)
    else pg_unicode_to_server db conv c s = Inl (Elog ''invalid Unicode code point'')"
proof (cases "is_valid_unicode_codepoint c")
  case False
  then show ?thesis by (simp add: pg_unicode_to_server_def)
next
  case True
  let ?b = "utf8_bytes c"
  have b: "?b \<noteq> []" "length ?b \<le> 4" using length_utf8_bytes [of c] by auto
  have "\<exists>out. pg_unicode_to_server db conv c s = Inr (map Some (?b @ [0]) @ out) \<and> length (?b @ [0]) + length out = 17"
    if "scalar_value c"
    using pg_unicode_to_server_stores [OF assms(1) _ True that, of s conv] assms(2) b(2)
    by (intro exI [of _ "drop (Suc (length ?b)) s"]) simp
  moreover have "pg_verify_mbstr_len PG_UTF8 ?b (int (length ?b)) True = Inr (int (length [length ?b]))" if "scalar_value c"
  proof (rule pg_verify_mbstr_len_valid [OF utf8_entry_facts(3,1)])
    have "c \<noteq> 0" using True by (auto simp: is_valid_unicode_codepoint_def)
    then show "chars_ok (mbverify utf8_entry) ?b (length ?b) [length ?b]"
      unfolding utf8_entry_facts(2)
      using utf8_bytes_verified [OF that, of "length ?b" "[]"] utf8_bytes_first_zero [OF that] b by simp
  qed simp
  moreover have "utf8_to_unicode ?b = Inr c" if "scalar_value c"
    using utf8_bytes_decoded(2) [OF that, of "int (length ?b)" "[]"] by simp
  ultimately show ?thesis using True by auto
qed

theorem pg_unicode_to_server_utf8_witness:
  "\<exists>out. pg_unicode_to_server \<lparr>enc_name = ''UTF8'', encoding = 6\<rparr> None 0x20AC (replicate 17 None) =
     Inr (map Some ([0xE2, 0x82, 0xAC] @ [0]) @ out)"
proof -
  have "utf8_bytes 0x20AC = [0xE2, 0x82, 0xAC]" "is_valid_unicode_codepoint 0x20AC" "scalar_value 0x20AC"
    by code_simp+
  moreover have "GetDatabaseEncoding \<lparr>enc_name = ''UTF8'', encoding = 6\<rparr> = PG_UTF8" by (simp add: GetDatabaseEncoding_def)
  moreover have "length (replicate 17 (None :: 8 word option)) = 17" by simp
  ultimately show ?thesis
    using pg_unicode_to_server_utf8 [of "\<lparr>enc_name = ''UTF8'', encoding = 6\<rparr>" "replicate 17 None" "0x20AC" None]
    by (simp only: if_True) blast
qed

end
