(* ===== verification/Unicode_Escapes.thy ===== *)
theory Unicode_Escapes
  imports Scansup Core_Scanner
begin

text \<open>
  Unicode escapes in string literals and identifiers, \<open>str_udeescape\<close> and its helpers in
  \<^verbatim>\<open>src_backend_parser_parser.c\<close>. One round of the loop first decodes what is at the input pointer
  (\<open>next_item\<close>) and then stores it (\<open>put_item\<close>). The position that accompanies an error message is
  not modelled. \<open>unescape\<close> is the specification without a buffer. A string is given
  without its terminator and has no zero byte, so that its length is \<^verbatim>\<open>strlen\<close>.
\<close>

unbundle bit_operations_syntax

section \<open>Operations\<close>

definition isxdigit :: "8 word \<Rightarrow> bool" where
  "isxdigit c \<longleftrightarrow> (0x30 \<le> c \<and> c \<le> 0x39) \<or> (0x61 \<le> c \<and> c \<le> 0x66) \<or> (0x41 \<le> c \<and> c \<le> 0x46)"

definition hexval :: "8 word \<Rightarrow> 32 word res" where
  "hexval c =
     (if c \<ge> 0x30 \<and> c \<le> 0x39 then Inr (ucast c - 0x30)
      else if c \<ge> 0x61 \<and> c \<le> 0x66 then Inr (ucast c - 0x61 + 0xA)
      else if c \<ge> 0x41 \<and> c \<le> 0x46 then Inr (ucast c - 0x41 + 0xA)
      else Inl (Elog ''invalid hexadecimal digit''))"

definition check_unicode_value :: "pg_wchar \<Rightarrow> unit res" where
  "check_unicode_value c =
     (if \<not> is_valid_unicode_codepoint c then Inl (Elog ''invalid Unicode escape value'') else Inr ())"

definition check_uescapechar :: "8 word \<Rightarrow> bool" where
  "check_uescapechar escape =
     (if isxdigit escape \<or> escape = 0x2b \<or> escape = 0x27 \<or> escape = 0x22 \<or> scanner_isspace (char_of (unat escape))
      then False else True)"

definition is_utf16_surrogate_first :: "pg_wchar \<Rightarrow> bool" where
  "is_utf16_surrogate_first c \<longleftrightarrow> c \<ge> 0xD800 \<and> c \<le> 0xDBFF"

definition is_utf16_surrogate_second :: "pg_wchar \<Rightarrow> bool" where
  "is_utf16_surrogate_second c \<longleftrightarrow> c \<ge> 0xDC00 \<and> c \<le> 0xDFFF"

definition surrogate_pair_to_codepoint :: "pg_wchar \<Rightarrow> pg_wchar \<Rightarrow> pg_wchar" where
  "surrogate_pair_to_codepoint fst_half snd_half = push_bit 10 (fst_half AND 0x3FF) + 0x10000 + (snd_half AND 0x3FF)"

abbreviation invalid_pair :: "'a res" where
  "invalid_pair \<equiv> Inl (Elog ''invalid Unicode surrogate pair'')"

text \<open>The chains of \<^verbatim>\<open>isxdigit(in[i]) && ...\<close> and the sums of shifted digit values.\<close>

fun all_xdigit :: "bytes \<Rightarrow> int \<Rightarrow> nat \<Rightarrow> bool res" where
  "all_xdigit s i 0 = Inr True"
| "all_xdigit s i (Suc n) = bindE (at s i) (\<lambda>c. if isxdigit c then all_xdigit s (i + 1) n else Inr False)"

fun hex_value :: "bytes \<Rightarrow> int \<Rightarrow> nat \<Rightarrow> pg_wchar res" where
  "hex_value s i 0 = Inr 0"
| "hex_value s i (Suc n) =
     bindE (at s i) (\<lambda>c. bindE (hexval c) (\<lambda>v. bindE (hex_value s (i + 1) n) (\<lambda>rest.
     Inr (push_bit (4 * n) v + rest))))"

text \<open>A literal byte, a code point to convert, or nothing yet after the first half of a pair.\<close>

datatype item = Literal "8 word" | Unicode pg_wchar | First_half

definition pair_up :: "pg_wchar \<Rightarrow> pg_wchar \<Rightarrow> (item \<times> pg_wchar) res" where
  "pair_up unicode pair_first =
     bindE (check_unicode_value unicode) (\<lambda>_.
     bindE (if pair_first \<noteq> 0
            then (if is_utf16_surrogate_second unicode
                  then Inr (surrogate_pair_to_codepoint pair_first unicode, 0)
                  else invalid_pair)
            else if is_utf16_surrogate_second unicode then invalid_pair
            else Inr (unicode, pair_first)) (\<lambda>(unicode, pair_first).
     if is_utf16_surrogate_first unicode then Inr (First_half, unicode) else Inr (Unicode unicode, pair_first)))"

definition next_item :: "8 word \<Rightarrow> bytes \<Rightarrow> pg_wchar \<Rightarrow> (item \<times> nat \<times> pg_wchar) res" where
  "next_item escape s pair_first =
     bindE (at s 0) (\<lambda>c0.
     if c0 = escape
     then bindE (at s 1) (\<lambda>c1.
          if c1 = escape
          then (if pair_first \<noteq> 0 then invalid_pair else Inr (Literal escape, 2, pair_first))
          else bindE (all_xdigit s 1 4) (\<lambda>four.
          if four
          then bindE (hex_value s 1 4) (\<lambda>unicode. bindE (pair_up unicode pair_first) (\<lambda>(it, p). Inr (it, 5, p)))
          else bindE (if c1 = 0x2b then all_xdigit s 2 6 else Inr False) (\<lambda>six.
          if six
          then bindE (hex_value s 2 6) (\<lambda>unicode. bindE (pair_up unicode pair_first) (\<lambda>(it, p). Inr (it, 8, p)))
          else Inl (Elog ''invalid Unicode escape''))))
     else if pair_first \<noteq> 0 then invalid_pair
     else Inr (Literal c0, 1, pair_first))"

definition put_item ::
  "pg_enc2name \<Rightarrow> (int \<Rightarrow> int \<Rightarrow> bytes \<Rightarrow> 8 word block \<Rightarrow> 8 word block res) option \<Rightarrow> item \<Rightarrow> 8 word block \<Rightarrow> nat \<Rightarrow>
   (8 word block \<times> nat) res" where
  "put_item db conv it new out =
     (case it of
        Literal c \<Rightarrow> bindE (store new (int out) c) (\<lambda>new. Inr (new, out + 1))
      | Unicode u \<Rightarrow>
          bindE (pg_unicode_to_server db conv u (drop out new)) (\<lambda>t.
          bindE (c_text t) (\<lambda>s. Inr (take out new @ t, out + length s)))
      | First_half \<Rightarrow> Inr (new, out))"

text \<open>Before every round the buffer is doubled unless 17 bytes are free behind the output pointer.\<close>

definition make_room :: "8 word block \<Rightarrow> nat \<Rightarrow> 8 word block res" where
  "make_room new out =
     (if int out > int (length new) - 17 then repalloc 1 new (int (length new) * 2) else Inr new)"

lemma next_item_progress: "next_item escape s p = Inr (it, k, p') \<Longrightarrow> s \<noteq> [] \<and> 0 < k"
  by (auto simp: next_item_def bindE_eq_Inr at_def split: if_splits)

function udeescape_loop ::
  "pg_enc2name \<Rightarrow> (int \<Rightarrow> int \<Rightarrow> bytes \<Rightarrow> 8 word block \<Rightarrow> 8 word block res) option \<Rightarrow> 8 word \<Rightarrow> bytes \<Rightarrow>
   8 word block \<Rightarrow> nat \<Rightarrow> pg_wchar \<Rightarrow> 8 word block res" where
  "udeescape_loop db conv escape s new out pair_first =
     bindE (at s 0) (\<lambda>c.
     if c \<noteq> 0
     then bindE (make_room new out) (\<lambda>new.
          bindE (next_item escape s pair_first) (\<lambda>(it, k, pair_first).
          bindE (put_item db conv it new out) (\<lambda>(new, out).
          udeescape_loop db conv escape (drop k s) new out pair_first)))
     else if pair_first \<noteq> 0 then invalid_pair
     else store new (int out) 0)"
  by pat_completeness auto

termination udeescape_loop
  by (relation "measure (\<lambda>(db, conv, escape, s, new, out, p). length s)") (auto dest!: next_item_progress)

declare udeescape_loop.simps [simp del]

definition str_udeescape ::
  "pg_enc2name \<Rightarrow> (int \<Rightarrow> int \<Rightarrow> bytes \<Rightarrow> 8 word block \<Rightarrow> 8 word block res) option \<Rightarrow> bytes \<Rightarrow> 8 word \<Rightarrow> 8 word block res" where
  "str_udeescape db conv str escape =
     bindE (palloc 1 (int (length str) + 17)) (\<lambda>new. udeescape_loop db conv escape (str @ [0]) new 0 0)"

section \<open>The specification\<close>

definition item_bytes :: "item \<Rightarrow> bytes" where
  "item_bytes it = (case it of Literal c \<Rightarrow> [c] | Unicode u \<Rightarrow> utf8_bytes u | First_half \<Rightarrow> [])"

function unescape :: "8 word \<Rightarrow> bytes \<Rightarrow> pg_wchar \<Rightarrow> bytes res" where
  "unescape escape s pair_first =
     bindE (at s 0) (\<lambda>c.
     if c \<noteq> 0
     then bindE (next_item escape s pair_first) (\<lambda>(it, k, p).
          bindE (unescape escape (drop k s) p) (\<lambda>rest. Inr (item_bytes it @ rest)))
     else if pair_first \<noteq> 0 then invalid_pair else Inr [])"
  by pat_completeness auto

termination unescape
  by (relation "measure (\<lambda>(escape, s, p). length s)") (auto dest!: next_item_progress)

declare unescape.simps [simp del]

section \<open>Code points\<close>

definition pair_ok :: "pg_wchar \<Rightarrow> bool" where
  "pair_ok p \<longleftrightarrow> p = 0 \<or> is_utf16_surrogate_first p"

lemma surrogate_pair_range:
  "0x10000 \<le> surrogate_pair_to_codepoint a b \<and> surrogate_pair_to_codepoint a b \<le> 0x10FFFF"
proof -
  have low: "unat (x AND 0x3FF) = unat x mod 1024" for x :: pg_wchar
    using unat_and_mask [of x 10] by (simp add: mask_eq_exp_minus_1)
  have "unat a mod 1024 < 1024" "unat b mod 1024 < 1024" by simp_all
  moreover have "unat (push_bit 10 (a AND 0x3FF)) = unat a mod 1024 * 1024"
  proof -
    have "unat (push_bit 10 (a AND 0x3FF)) = take_bit 32 (push_bit 10 (unat (a AND 0x3FF)))"
      by (rule unsigned_push_bit_eq [where 'b = 32, simplified])
    then show ?thesis using \<open>unat a mod 1024 < 1024\<close> by (simp add: low push_bit_eq_mult take_bit_eq_mod)
  qed
  ultimately have "unat (surrogate_pair_to_codepoint a b) = unat a mod 1024 * 1024 + 65536 + unat b mod 1024"
    by (simp add: surrogate_pair_to_codepoint_def unat_word_ariths low)
  then show ?thesis using \<open>unat a mod 1024 < 1024\<close> \<open>unat b mod 1024 < 1024\<close> by (simp add: word_le_nat_alt)
qed

lemma pair_up_items:
  assumes "pair_up u p = Inr (it, p')" "pair_ok p"
  shows "pair_ok p' \<and> (it = First_half \<or> (\<exists>c. it = Unicode c \<and> scalar_value c \<and> is_valid_unicode_codepoint c \<and> p' = 0))"
proof -
  have valid: "is_valid_unicode_codepoint u"
    using assms(1) by (auto simp: pair_up_def check_unicode_value_def split: if_splits)
  show ?thesis
  proof (cases "p = 0")
    case True
    then show ?thesis
      using assms(1) valid
      by (auto simp: pair_up_def check_unicode_value_def pair_ok_def bindE_eq_Inr scalar_value_def
          is_utf16_surrogate_first_def is_utf16_surrogate_second_def is_valid_unicode_codepoint_def
          word_le_nat_alt split: if_splits)
  next
    case False
    then have it: "it = (if is_utf16_surrogate_first (surrogate_pair_to_codepoint p u) then First_half
        else Unicode (surrogate_pair_to_codepoint p u))"
      "p' = (if is_utf16_surrogate_first (surrogate_pair_to_codepoint p u) then surrogate_pair_to_codepoint p u else 0)"
      using assms(1) valid by (auto simp: pair_up_def check_unicode_value_def bindE_eq_Inr split: if_splits)
    have "\<not> is_utf16_surrogate_first (surrogate_pair_to_codepoint p u)"
      "scalar_value (surrogate_pair_to_codepoint p u)" "is_valid_unicode_codepoint (surrogate_pair_to_codepoint p u)"
      using surrogate_pair_range [of p u]
      by (auto simp: is_utf16_surrogate_first_def scalar_value_def is_valid_unicode_codepoint_def
          word_le_nat_alt word_less_nat_alt)
    then show ?thesis using it by (simp add: pair_ok_def)
  qed
qed

lemma all_xdigit_bound: "all_xdigit s i n = Inr True \<Longrightarrow> 0 < n \<Longrightarrow> 0 \<le> i \<and> i + int n \<le> int (length s)"
proof (induction n arbitrary: i)
  case (Suc n)
  then obtain c where "at s i = Inr c" "all_xdigit s (i + 1) n = Inr True"
    by (auto simp: bindE_eq_Inr split: if_splits)
  then show ?case using Suc.IH [of "i + 1"] by (cases "n = 0") (auto simp: at_def split: if_splits)
qed simp

lemma length_item_bytes: "length (item_bytes it) \<le> 4"
  using length_utf8_bytes(2) by (cases it) (auto simp: item_bytes_def)

lemma next_item_items:
  assumes "next_item escape s p = Inr (it, k, p')" "pair_ok p"
  shows "pair_ok p' \<and> k \<le> length s \<and> length (item_bytes it) \<le> k \<and> 0 < k \<and>
    (it = First_half \<or> (\<exists>c. it = Literal c) \<or> (\<exists>c. it = Unicode c \<and> scalar_value c \<and> is_valid_unicode_codepoint c))"
proof -
  obtain c0 where c0: "at s 0 = Inr c0" using assms(1) by (auto simp: next_item_def bindE_eq_Inr)
  then have ne: "1 \<le> length s" by (auto simp: at_def Suc_le_eq split: if_splits)
  consider (lit) "it = Literal c0" "k = 1" "p' = p"
    | (esc) "it = Literal escape" "k = 2" "p' = p" "2 \<le> length s"
    | (four) u where "pair_up u p = Inr (it, p')" "k = 5" "5 \<le> length s"
    | (six) u where "pair_up u p = Inr (it, p')" "k = 8" "8 \<le> length s"
  proof (cases "c0 = escape")
    case False
    then show ?thesis using assms(1) c0 lit by (auto simp: next_item_def split: if_splits)
  next
    case True
    obtain c1 where c1: "at s 1 = Inr c1" using assms(1) c0 True by (auto simp: next_item_def bindE_eq_Inr)
    then have two: "2 \<le> length s" by (auto simp: at_def split: if_splits)
    show ?thesis
    proof (cases "c1 = escape")
      case True
      then show ?thesis using assms(1) c0 c1 two \<open>c0 = escape\<close> esc by (auto simp: next_item_def split: if_splits)
    next
      case False
      then show ?thesis using assms(1) c0 c1 \<open>c0 = escape\<close> four six all_xdigit_bound [of s 1 4] all_xdigit_bound [of s 2 6]
        by (auto simp: next_item_def bindE_eq_Inr split: if_splits)
    qed
  qed
  then show ?thesis
  proof cases
    case lit
    then show ?thesis using ne assms(2) by (simp add: item_bytes_def)
  next
    case esc
    then show ?thesis using assms(2) by (simp add: item_bytes_def)
  next
    case four
    then show ?thesis using pair_up_items [OF four(1) assms(2)] length_item_bytes [of it] by auto
  next
    case six
    then show ?thesis using pair_up_items [OF six(1) assms(2)] length_item_bytes [of it] by auto
  qed
qed

section \<open>The buffered loop implements the specification\<close>

lemma put_item_ok:
  assumes "GetDatabaseEncoding db = PG_UTF8" "length (map Some pre @ rest) \<ge> length pre + 5"
    and "it = First_half \<or> (\<exists>c. it = Literal c) \<or> (\<exists>c. it = Unicode c \<and> scalar_value c \<and> is_valid_unicode_codepoint c)"
  shows "\<exists>rest'. put_item db conv it (map Some pre @ rest) (length pre) =
      Inr (map Some (pre @ item_bytes it) @ rest', length (pre @ item_bytes it)) \<and>
    length (map Some (pre @ item_bytes it) @ rest') = length (map Some pre @ rest)"
proof -
  consider "it = First_half" | c where "it = Literal c"
    | c where "it = Unicode c" "scalar_value c" "is_valid_unicode_codepoint c" using assms(3) by blast
  then show ?thesis
  proof cases
    case 1 then show ?thesis by (simp add: put_item_def item_bytes_def)
  next
    case (2 c)
    obtain x r where "rest = x # r" using assms(2) by (cases rest) auto
    then show ?thesis using 2 by (simp add: put_item_def item_bytes_def store_split)
  next
    case (3 c)
    let ?b = "utf8_bytes c"
    have st: "pg_unicode_to_server db conv c rest = Inr (map Some (?b @ [0]) @ drop (Suc (length ?b)) rest)"
      by (rule pg_unicode_to_server_stores) (use assms(1,2) 3 in auto)
    have "c \<noteq> 0" using 3(3) by (auto simp: is_valid_unicode_codepoint_def)
    have "chars_ok pg_utf8_verifier ?b (length ?b) (map (length \<circ> utf8_bytes) [c])"
      unfolding chars_ok_utf8 [OF order.refl] using 3(2) \<open>c \<noteq> 0\<close> by (intro exI [of _ "[c]"]) simp
    from chars_ok_nonzero [OF utf8.mb_encoding_axioms this] have "0 \<notin> set ?b" by simp
    then have tx: "c_text (map Some (?b @ [0]) @ drop (Suc (length ?b)) rest) = Inr ?b"
      using c_text_ok [of ?b "drop (Suc (length ?b)) rest"] by simp
    have "length ?b \<le> 4" by (rule length_utf8_bytes)
    then show ?thesis using 3(1) st tx assms(2)
      by (intro exI [of _ "Some 0 # drop (Suc (length ?b)) rest"]) (simp add: put_item_def item_bytes_def)
  qed
qed

lemma udeescape_loop_refines:
  assumes "GetDatabaseEncoding db = PG_UTF8" "pair_ok p" "length pre + length s + 16 \<le> length (map Some pre @ rest)"
  shows "(\<forall>e. unescape escape s p = Inl e \<longrightarrow> udeescape_loop db conv escape s (map Some pre @ rest) (length pre) p = Inl e) \<and>
    (\<forall>bs. unescape escape s p = Inr bs \<longrightarrow>
      (\<exists>tail. udeescape_loop db conv escape s (map Some pre @ rest) (length pre) p = Inr (map Some (pre @ bs @ [0]) @ tail)))"
  using assms(2,3)
proof (induction "length s" arbitrary: s pre rest p rule: less_induct)
  case less
  let ?new = "map Some pre @ rest"
  show ?case
  proof (cases "\<exists>c. at s 0 = Inr c \<and> c \<noteq> 0")
    case False
    then show ?thesis
    proof (cases "at s 0")
      case (Inl e)
      then show ?thesis by (subst (1 2) unescape.simps, subst (1 2) udeescape_loop.simps) simp
    next
      case (Inr c)
      obtain x r where "rest = x # r" using less.prems(2) by (cases rest) auto
      then show ?thesis using Inr False
        by (subst (1 2) unescape.simps, subst (1 2) udeescape_loop.simps) (auto simp: store_split)
    qed
  next
    case True
    then obtain c where c: "at s 0 = Inr c" "c \<noteq> 0" by blast
    then have ne: "s \<noteq> []" by (auto simp: at_def)
    have room: "make_room ?new (length pre) = Inr ?new"
      using less.prems(2) ne by (cases s) (auto simp: make_room_def)
    show ?thesis
    proof (cases "next_item escape s p")
      case (Inl e)
      then show ?thesis using c room
        by (subst (1 2) unescape.simps, subst (1 2) udeescape_loop.simps) simp
    next
      case (Inr r)
      obtain it k p' where r: "r = (it, k, p')" by (cases r) auto
      note it = next_item_items [OF Inr [unfolded r] less.prems(1)]
      obtain rest' where put: "put_item db conv it ?new (length pre) =
          Inr (map Some (pre @ item_bytes it) @ rest', length (pre @ item_bytes it))"
        "length (map Some (pre @ item_bytes it) @ rest') = length ?new"
        using put_item_ok [OF assms(1), of pre rest it conv] it less.prems(2) by auto
      have spec: "unescape escape s p = bindE (unescape escape (drop k s) p') (\<lambda>rest. Inr (item_bytes it @ rest))"
        using c Inr r by (subst unescape.simps) simp
      have run: "udeescape_loop db conv escape s ?new (length pre) p =
          udeescape_loop db conv escape (drop k s) (map Some (pre @ item_bytes it) @ rest') (length (pre @ item_bytes it)) p'"
        using c room Inr r put(1) by (subst udeescape_loop.simps) simp
      have shorter: "length (drop k s) < length s" using it ne by auto
      have fits: "length (pre @ item_bytes it) + length (drop k s) + 16 \<le> length (map Some (pre @ item_bytes it) @ rest')"
        using less.prems(2) it put(2) by auto
      note IH = less.hyps [OF shorter _ fits, of p', unfolded run [symmetric]]
      show ?thesis
      proof (cases "unescape escape (drop k s) p'")
        case (Inl e)
        then show ?thesis using IH it spec by auto
      next
        case (Inr bs)
        then obtain tail where "udeescape_loop db conv escape s ?new (length pre) p =
            Inr (map Some ((pre @ item_bytes it) @ bs @ [0]) @ tail)"
          using IH it by blast
        then show ?thesis using spec Inr by simp
      qed
    qed
  qed
qed

section \<open>Valid text stays valid\<close>

definition utf8_text :: "bytes \<Rightarrow> pg_wchar list \<Rightarrow> bool" where
  "utf8_text s ws \<longleftrightarrow> s = concat (map utf8_bytes ws) \<and> (\<forall>w\<in>set ws. scalar_value w \<and> w \<noteq> 0)"

lemma utf8_bytes_shape:
  assumes "scalar_value w"
  shows "(utf8_bytes w = [narrow w 0] \<and> unat (narrow w 0) = unat w \<and> unat w < 128) \<or> (\<forall>b\<in>set (utf8_bytes w). 128 \<le> unat b)"
proof (cases "unat w < 128")
  case True
  then have "utf8_bytes w = [narrow w 0]" by (simp add: utf8_bytes_def word_le_nat_alt)
  then show ?thesis using True by (simp add: unat_narrow)
next
  case False
  have "map unat (utf8_bytes w) = utf8_nats (unat w)"
    using assms by (intro utf8_bytes_unat) (simp add: scalar_value_unat)
  moreover have "\<forall>n\<in>set (utf8_nats (unat w)). 128 \<le> n" using False by (auto simp: utf8_nats_def)
  ultimately show ?thesis by (metis (mono_tags, lifting) image_eqI list.set_map)
qed

lemma utf8_bytes_ascii: "unat c < 128 \<Longrightarrow> utf8_bytes (ucast c) = [c] \<and> scalar_value (ucast c)" for c :: "8 word"
proof -
  assume c: "unat c < 128"
  then have u: "unat (ucast c :: pg_wchar) = unat c" by (simp add: unsigned_ucast_eq take_bit_nat_eq_self)
  then have "narrow (ucast c) 0 = c" using c by (simp add: word_unat_eq_iff unat_narrow)
  then show ?thesis using c u by (simp add: utf8_bytes_def scalar_value_unat word_le_nat_alt)
qed

lemma ascii_prefix:
  "utf8_text s ws \<Longrightarrow> k \<le> length (s @ [0]) \<Longrightarrow> (\<forall>b\<in>set (take k (s @ [0])). 0 < unat b \<and> unat b < 128) \<Longrightarrow>
   k \<le> length ws \<and> utf8_text (drop k s) (drop k ws) \<and> k \<le> length s"
proof (induction k arbitrary: s ws)
  case (Suc k)
  show ?case
  proof (cases ws)
    case Nil
    then show ?thesis using Suc.prems by (simp add: utf8_text_def)
  next
    case (Cons w ws')
    let ?b = "utf8_bytes w"
    have s: "s = ?b @ concat (map utf8_bytes ws')" and w: "scalar_value w"
      using Suc.prems(1) Cons by (auto simp: utf8_text_def)
    have "?b \<noteq> []" using length_utf8_bytes(1) [of w] by auto
    then obtain b bs where b: "?b = b # bs" by (cases ?b) auto
    then have "unat b < 128" using Suc.prems(3) s by simp
    then have "bs = []" using utf8_bytes_shape [OF w] b by auto
    then have s': "s = b # concat (map utf8_bytes ws')" using s b by simp
    have "utf8_text (concat (map utf8_bytes ws')) ws'" using Suc.prems(1) Cons by (auto simp: utf8_text_def)
    from Suc.IH [OF this] show ?thesis using Suc.prems s' Cons by auto
  qed
qed (simp add: utf8_text_def)

lemma all_xdigit_ascii:
  "all_xdigit s i n = Inr True \<Longrightarrow> 0 \<le> i \<Longrightarrow> j < n \<Longrightarrow> nat i + j < length s \<and> 0 < unat (s ! (nat i + j)) \<and> unat (s ! (nat i + j)) < 128"
proof (induction n arbitrary: i j)
  case (Suc n)
  then have step: "i < int (length s)" "isxdigit (s ! nat i)" "all_xdigit s (i + 1) n = Inr True"
    by (auto simp: bindE_eq_Inr at_def split: if_splits)
  show ?case
  proof (cases j)
    case 0
    then show ?thesis using step(1,2) Suc.prems(2) by (auto simp: isxdigit_def word_le_nat_alt)
  next
    case (Suc j')
    then show ?thesis using Suc.IH [OF step(3), of j'] Suc.prems by (simp add: nat_add_distrib)
  qed
qed simp

lemma next_item_escape_ascii:
  assumes "next_item escape s p = Inr (it, k, p')" "s \<noteq> []" "s ! 0 = escape" "0 < unat escape" "unat escape < 128"
  shows "\<forall>b\<in>set (take k s). 0 < unat b \<and> unat b < 128"
proof -
  have c0: "at s 0 = Inr escape" using assms(2,3) by (simp add: at_def)
  obtain c1 where c1: "at s 1 = Inr c1" using assms(1) c0 by (auto simp: next_item_def bindE_eq_Inr)
  then have two: "1 < length s" "s ! 1 = c1" by (auto simp: at_def split: if_splits)
  have "0 < unat (s ! i) \<and> unat (s ! i) < 128" if i: "i < k" "i < length s" for i
  proof (cases "c1 = escape")
    case True
    then have "k = 2" using assms(1) c0 c1 by (auto simp: next_item_def split: if_splits)
    then show ?thesis using i True two assms(3-5) by (auto simp: less_numeral_cases)
  next
    case False
    then consider "all_xdigit s 1 4 = Inr True" "k = 5" | "c1 = 0x2b" "all_xdigit s 2 6 = Inr True" "k = 8"
      using assms(1) c0 c1 by (auto simp: next_item_def bindE_eq_Inr split: if_splits)
    then show ?thesis
    proof cases
      case 1
      then show ?thesis using i all_xdigit_ascii [of s 1 4 "i - 1"] assms(3-5) by (cases "i = 0") auto
    next
      case 2
      consider "i = 0" | "i = 1" | "2 \<le> i" by linarith
      then show ?thesis
      proof cases
        case 3
        then have "nat 2 + (i - 2) = i" "i - 2 < 6" using i 2 by auto
        then show ?thesis using all_xdigit_ascii [OF 2(2), of "i - 2"] by simp
      qed (use 2 assms(3-5) two in auto)
    qed
  qed
  then show ?thesis by (auto simp: in_set_conv_nth)
qed

lemma pair_up_not_literal: "pair_up u p \<noteq> Inr (Literal c, p')"
  unfolding pair_up_def by (auto simp: bindE_eq_Inr)

lemma next_item_literal:
  "next_item escape s p = Inr (Literal c, k, p') \<Longrightarrow> at s 0 = Inr escape \<Longrightarrow> c = escape"
  by (auto simp: next_item_def bindE_eq_Inr pair_up_not_literal split: if_splits)

lemma unescape_copies:
  "(\<forall>b\<in>set t. b \<noteq> 0 \<and> b \<noteq> escape) \<Longrightarrow> unescape escape (t @ r) 0 = bindE (unescape escape r 0) (\<lambda>rest. Inr (t @ rest))"
proof (induction t)
  case Nil
  then show ?case by (cases "unescape escape r 0") auto
next
  case (Cons b t)
  have "next_item escape ((b # t) @ r) 0 = Inr (Literal b, 1, 0)" using Cons.prems by (simp add: next_item_def)
  then have "unescape escape ((b # t) @ r) 0 = bindE (unescape escape (t @ r) 0) (\<lambda>rest. Inr (b # rest))"
    using Cons.prems by (subst unescape.simps) (simp add: item_bytes_def)
  then show ?case using Cons by (simp add: bindE_assoc)
qed

lemma escaped_item_text:
  assumes "next_item escape s p = Inr (it, k, p')" "pair_ok p" "at s 0 = Inr escape" "0 < unat escape" "unat escape < 128"
  shows "\<exists>us. utf8_text (item_bytes it) us"
proof -
  have "it = First_half \<or> it = Literal escape \<or> (\<exists>c. it = Unicode c \<and> scalar_value c \<and> c \<noteq> 0)"
    using next_item_items [OF assms(1,2)] assms(1,3) next_item_literal by (fastforce simp: is_valid_unicode_codepoint_def)
  then show ?thesis
  proof (elim disjE exE conjE)
    assume "it = First_half"
    then show ?thesis by (intro exI [of _ "[]"]) (simp add: utf8_text_def item_bytes_def)
  next
    assume "it = Literal escape"
    moreover have "ucast escape \<noteq> (0 :: pg_wchar)"
      using utf8_bytes_ascii [OF assms(5)] utf8_bytes_first_zero [of "ucast escape"] assms(4) by auto
    ultimately show ?thesis using utf8_bytes_ascii [OF assms(5)]
      by (intro exI [of _ "[ucast escape]"]) (simp add: utf8_text_def item_bytes_def)
  next
    fix c assume "it = Unicode c" "scalar_value c" "c \<noteq> 0"
    then show ?thesis by (intro exI [of _ "[c]"]) (simp add: utf8_text_def item_bytes_def)
  qed
qed

lemma unescape_valid:
  assumes "utf8_text s ws" "pair_ok p" "unescape escape (s @ [0]) p = Inr bs" "0 < unat escape" "unat escape < 128"
  shows "\<exists>ws'. utf8_text bs ws'"
  using assms(1-3)
proof (induction "length s" arbitrary: s ws p bs rule: less_induct)
  case less
  show ?case
  proof (cases ws)
    case Nil
    then have "bs = []" using less.prems by (auto simp: utf8_text_def unescape.simps split: if_splits)
    then show ?thesis by (intro exI [of _ "[]"]) (simp add: utf8_text_def)
  next
    case (Cons w ws')
    let ?b = "utf8_bytes w" and ?t = "concat (map utf8_bytes ws')"
    have w: "scalar_value w" "w \<noteq> 0" and s: "s = ?b @ ?t" and ws': "utf8_text ?t ws'"
      using less.prems(1) Cons by (auto simp: utf8_text_def)
    have ne: "?b \<noteq> []" "?b ! 0 \<noteq> 0" using length_utf8_bytes(1) [of w] utf8_bytes_first_zero [OF w(1)] w(2) by auto
    then have first: "at (s @ [0]) 0 = Inr (?b ! 0)" "?b ! 0 \<noteq> 0" by (auto simp: s at_def nth_append)
    obtain it k p' bs' where it: "next_item escape (s @ [0]) p = Inr (it, k, p')"
      "unescape escape (drop k (s @ [0])) p' = Inr bs'" "bs = item_bytes it @ bs'"
      using less.prems(3) first by (subst (asm) unescape.simps) (auto simp: bindE_eq_Inr)
    note props = next_item_items [OF it(1) less.prems(2)]
    show ?thesis
    proof (cases "?b ! 0 = escape")
      case True
      have "\<forall>b\<in>set (take k (s @ [0])). 0 < unat b \<and> unat b < 128"
        by (rule next_item_escape_ascii [OF it(1) _ _ assms(4,5)]) (use True ne in \<open>auto simp: s nth_append\<close>)
      then have k: "utf8_text (drop k s) (drop k ws)" "k \<le> length s"
        using ascii_prefix [OF less.prems(1)] props by blast+
      then have "drop k (s @ [0]) = drop k s @ [0]" by simp
      moreover have "length (drop k s) < length s"
      proof -
        have "0 < length s" "0 < k" using props ne(1) s by auto
        then show ?thesis by simp
      qed
      ultimately obtain vs where vs: "utf8_text bs' vs"
        using less.hyps [of "drop k s" "drop k ws" p' bs'] k(1) props it(2) by metis
      moreover obtain us where "utf8_text (item_bytes it) us"
        using escaped_item_text [OF it(1) less.prems(2) _ assms(4,5)] first(1) True by auto
      ultimately show ?thesis using it(3) by (intro exI [of _ "us @ vs"]) (auto simp: utf8_text_def)
    next
      case False
      then have p: "p = 0" using it(1) first(1) by (auto simp: next_item_def split: if_splits)
      have "\<forall>b\<in>set ?b. b \<noteq> 0 \<and> b \<noteq> escape"
        using utf8_bytes_shape [OF w(1)] False ne(2) assms(5) by fastforce
      from unescape_copies [OF this, of "?t @ [0]"]
      obtain rest where "unescape escape (?t @ [0]) 0 = Inr rest" "bs = ?b @ rest"
        using less.prems(3) p by (auto simp: s bindE_eq_Inr)
      moreover obtain vs where "utf8_text rest vs"
        using less.hyps [of ?t ws' 0 rest] ws' ne(1) calculation(1) by (auto simp: s pair_ok_def)
      ultimately show ?thesis using w by (intro exI [of _ "w # vs"]) (auto simp: utf8_text_def)
    qed
  qed
qed

section \<open>Properties\<close>

text \<open>
  C14: With UTF-8 as database encoding \<open>str_udeescape\<close> ends for every string and stays inside its buffer,
  which it never has to enlarge. It raises an error exactly when the specification does, and
  otherwise returns the specified bytes with a zero behind them. If the string is valid UTF-8
  and the escape character is an ASCII byte, the result is valid UTF-8 again: no escape
  produces a lone surrogate, a zero or a code point above 10FFFF.
\<close>
theorem str_udeescape_correct:
  assumes "GetDatabaseEncoding db = PG_UTF8" "int (length str) + 17 \<le> MaxAllocSize"
  shows "case unescape escape (str @ [0]) 0 of
      Inl e \<Rightarrow> str_udeescape db conv str escape = Inl e
    | Inr bs \<Rightarrow> (\<exists>tail. str_udeescape db conv str escape = Inr (map Some (bs @ [0]) @ tail)) \<and>
        (\<forall>ws. utf8_text str ws \<longrightarrow> 0 < unat escape \<longrightarrow> unat escape < 128 \<longrightarrow> (\<exists>ws'. utf8_text bs ws'))"
proof -
  let ?new = "replicate (length str + 17) (None :: 8 word option)"
  have alloc: "palloc 1 (int (length str) + 17) = Inr ?new"
    using assms(2) by (simp add: palloc_def nat_add_distrib)
  have run: "str_udeescape db conv str escape = udeescape_loop db conv escape (str @ [0]) (map Some [] @ ?new) (length ([] :: bytes)) 0"
    using alloc by (simp add: str_udeescape_def)
  note refines = udeescape_loop_refines [OF assms(1), of 0 "[]" "str @ [0]" ?new escape conv, folded run]
  show ?thesis
  proof (cases "unescape escape (str @ [0]) 0")
    case (Inl e)
    then show ?thesis using refines by (simp add: pair_ok_def)
  next
    case (Inr bs)
    then have "\<exists>tail. str_udeescape db conv str escape = Inr (map Some (bs @ [0]) @ tail)"
      using refines by (simp add: pair_ok_def)
    moreover have "\<exists>ws'. utf8_text bs ws'" if "utf8_text str ws" "0 < unat escape" "unat escape < 128" for ws
      using unescape_valid [OF that(1) _ Inr that(2,3)] by (simp add: pair_ok_def)
    ultimately show ?thesis using Inr by auto
  qed
qed

text \<open>The escape for the letter a with diaeresis between two letters, with the backslash as escape.\<close>

theorem str_udeescape_correct_witness:
  "\<exists>tail. str_udeescape \<lparr>enc_name = ''UTF8'', encoding = 6\<rparr> None [0x64, 0x5c, 0x30, 0x30, 0x45, 0x34, 0x74] 0x5c =
     Inr (map Some ([0x64, 0xC3, 0xA4, 0x74] @ [0]) @ tail)"
proof -
  have u: "unescape 0x5c ([0x64, 0x5c, 0x30, 0x30, 0x45, 0x34, 0x74] @ [0]) 0 = Inr [0x64, 0xC3, 0xA4, 0x74]" by code_simp
  have "GetDatabaseEncoding \<lparr>enc_name = ''UTF8'', encoding = 6\<rparr> = PG_UTF8" by (simp add: GetDatabaseEncoding_def)
  from str_udeescape_correct [OF this, where str = "[0x64, 0x5c, 0x30, 0x30, 0x45, 0x34, 0x74]" and escape = "0x5c" and conv = None]
  show ?thesis unfolding u by simp
qed

end
