(* ===== verification/Base_Lexer.thy ===== *)
theory Base_Lexer
  imports Unicode_Escapes
begin

text \<open>
  The filter \<open>base_yylex\<close> between the flex scanner and the grammar, \<^verbatim>\<open>src_backend_parser_parser.c\<close>,
  with the parts of the scanner it works with: the scan buffer made by \<open>scanner_init\<close>, the zero
  that flex puts behind the current token and takes back at the next call, and the message of
  \<open>scanner_yyerror\<close>, which quotes the buffer up to that zero (\<^verbatim>\<open>src_backend_parser_scan.c\<close>).

  Which token starts where in the buffer is decided by the tables generated by flex and by the
  actions of its rules. That is the argument \<open>match\<close> of the operations: given the buffer and the
  position where flex goes on, it returns the token and the position behind it, or the error the
  scanner raises. What the filter relies on is the predicate \<open>scanner_ok\<close>.
\<close>

section \<open>Tokens and scanner state\<close>

abbreviation (input) IDENT :: int where "IDENT \<equiv> 258"
abbreviation (input) UIDENT :: int where "UIDENT \<equiv> 259"
abbreviation (input) SCONST :: int where "SCONST \<equiv> 261"
abbreviation (input) USCONST :: int where "USCONST \<equiv> 262"
abbreviation (input) SQL_COMMENT :: int where "SQL_COMMENT \<equiv> 275"
abbreviation (input) C_COMMENT :: int where "C_COMMENT \<equiv> 276"
abbreviation (input) BETWEEN :: int where "BETWEEN \<equiv> 306"
abbreviation (input) FIRST_P :: int where "FIRST_P \<equiv> 415"
abbreviation (input) ILIKE :: int where "ILIKE \<equiv> 442"
abbreviation (input) IN_P :: int where "IN_P \<equiv> 447"
abbreviation (input) LAST_P :: int where "LAST_P \<equiv> 477"
abbreviation (input) LIKE :: int where "LIKE \<equiv> 484"
abbreviation (input) NOT_P :: int where "NOT_P \<equiv> 520"
abbreviation (input) NULLS_P :: int where "NULLS_P \<equiv> 527"
abbreviation (input) ORDINALITY :: int where "ORDINALITY \<equiv> 542"
abbreviation (input) SIMILAR :: int where "SIMILAR \<equiv> 627"
abbreviation (input) TIME :: int where "TIME \<equiv> 661"
abbreviation (input) UESCAPE :: int where "UESCAPE \<equiv> 675"
abbreviation (input) WITH :: int where "WITH \<equiv> 706"
abbreviation (input) NOT_LA :: int where "NOT_LA \<equiv> 727"
abbreviation (input) NULLS_LA :: int where "NULLS_LA \<equiv> 728"
abbreviation (input) WITH_LA :: int where "WITH_LA \<equiv> 729"

text \<open>The union \<^verbatim>\<open>core_YYSTYPE\<close>, and a token as the grammar sees it: code, value, location.\<close>

datatype core_YYSTYPE = Ival int | Str bytes | Keyword bytes

record yytoken =
  code :: int
  lval :: core_YYSTYPE
  lloc :: nat

type_synonym matcher = "bytes \<Rightarrow> nat \<Rightarrow> (yytoken \<times> nat) res"

text \<open>The fields of \<^verbatim>\<open>base_yy_extra_type\<close> and of the flex state that the filter touches.\<close>

record yyscan =
  scanbuf :: bytes
  yy_c_buf_p :: nat
  yy_hold_char :: "8 word"
  have_lookahead :: bool
  lookahead_token :: int
  lookahead_yylval :: core_YYSTYPE
  lookahead_yylloc :: nat
  lookahead_end :: nat
  lookahead_hold_char :: "8 word"

definition poke :: "bytes \<Rightarrow> nat \<Rightarrow> 8 word \<Rightarrow> bytes res" where
  "poke buf i c = (if i < length buf then Inr (buf[i := c]) else Inl OutOfBounds)"

text \<open>The C string that starts at a pointer, and the member \<^verbatim>\<open>str\<close> of the union.\<close>

fun c_str :: "bytes \<Rightarrow> bytes res" where
  "c_str [] = Inl OutOfBounds"
| "c_str (c # s) = (if c = 0 then Inr [] else bindE (c_str s) (\<lambda>t. Inr (c # t)))"

fun str_member :: "core_YYSTYPE \<Rightarrow> bytes res" where
  "str_member (Str s) = Inr s"
| "str_member _ = Inl Uninitialised"

section \<open>Operations\<close>

text \<open>The structure on the stack of the caller is not initialised; its old content is an argument.\<close>

definition scanner_init :: "bytes \<Rightarrow> yyscan \<Rightarrow> yyscan res" where
  "scanner_init str yyext =
     (let slen = int (length str) in
      bindE (palloc 1 (slen + 2)) (\<lambda>b.
      bindE (memcpy_to b 0 (map Some str)) (\<lambda>b.
      bindE (store b (slen + 1) 0) (\<lambda>b.
      bindE (store b slen 0) (\<lambda>b.
      bindE (load b 0) (\<lambda>c.
      Inr (yyext\<lparr>scanbuf := written b, yy_c_buf_p := 0, yy_hold_char := c\<rparr>)))))))"

definition scanner_yyerror :: "string \<Rightarrow> bytes \<Rightarrow> nat \<Rightarrow> 'a res" where
  "scanner_yyerror message buf loc =
     bindE (at buf (int loc)) (\<lambda>c.
     if c = 0 then Inl (Elog (message @ '' at end of input''))
     else bindE (c_str (drop loc buf)) (\<lambda>near.
          Inl (Elog (message @ '' at or near '' @ [CHR 0x22] @ map (\<lambda>b. char_of (unat b)) near @ [CHR 0x22]))))"

text \<open>
  One call of \<^verbatim>\<open>core_yylex\<close>: the character under the zero comes back, the next token is found,
  and the character behind that one is saved and replaced by a zero.
\<close>

definition lex_token :: "matcher \<Rightarrow> yyscan \<Rightarrow> (yytoken \<times> yyscan) res" where
  "lex_token match st =
     bindE (poke (scanbuf st) (yy_c_buf_p st) (yy_hold_char st)) (\<lambda>buf.
     bindE (match buf (yy_c_buf_p st)) (\<lambda>(t, yy_cp).
     bindE (at buf (int yy_cp)) (\<lambda>c.
     bindE (poke buf yy_cp 0) (\<lambda>buf.
     Inr (t, st\<lparr>scanbuf := buf, yy_hold_char := c, yy_c_buf_p := yy_cp\<rparr>)))))"

definition fetch_token :: "matcher \<Rightarrow> yyscan \<Rightarrow> (yytoken \<times> yyscan) res" where
  "fetch_token match st =
     (if have_lookahead st
      then bindE (poke (scanbuf st) (lookahead_end st) (lookahead_hold_char st)) (\<lambda>buf.
           Inr (\<lparr>code = lookahead_token st, lval = lookahead_yylval st, lloc = lookahead_yylloc st\<rparr>,
                st\<lparr>scanbuf := buf, have_lookahead := False\<rparr>))
      else lex_token match st)"

definition is_comment :: "int \<Rightarrow> bool" where
  "is_comment c \<longleftrightarrow> c = SQL_COMMENT \<or> c = C_COMMENT"

definition token_length :: "yytoken \<Rightarrow> bytes \<Rightarrow> nat option res" where
  "token_length t buf =
     (if code t = NOT_P then Inr (Some 3)
      else if code t = NULLS_P then Inr (Some 5)
      else if code t = WITH then Inr (Some 4)
      else if code t = UIDENT \<or> code t = USCONST then bindE (c_str (drop (lloc t) buf)) (\<lambda>s. Inr (Some (length s)))
      else Inr None)"

definition look_ahead :: "matcher \<Rightarrow> yytoken \<Rightarrow> nat \<Rightarrow> yyscan \<Rightarrow> (yytoken \<times> yyscan) res" where
  "look_ahead match cur len st =
     bindE (lex_token match (st\<lparr>lookahead_end := lloc cur + len\<rparr>)) (\<lambda>(next_tok, st).
     let st = st\<lparr>lookahead_yylval := lval next_tok, lookahead_token := code next_tok, lookahead_yylloc := lloc next_tok\<rparr> in
     bindE (at (scanbuf st) (int (lookahead_end st))) (\<lambda>c.
     bindE (poke (scanbuf st) (lookahead_end st) 0) (\<lambda>buf.
     Inr (next_tok, st\<lparr>lookahead_hold_char := c, scanbuf := buf, have_lookahead := True\<rparr>))))"

definition replace_code :: "int \<Rightarrow> int \<Rightarrow> int" where
  "replace_code cur_token next_token =
     (if cur_token = NOT_P
      then (if next_token \<in> {BETWEEN, IN_P, LIKE, ILIKE, SIMILAR} then NOT_LA else cur_token)
      else if cur_token = NULLS_P then (if next_token \<in> {FIRST_P, LAST_P} then NULLS_LA else cur_token)
      else if cur_token = WITH then (if next_token \<in> {TIME, ORDINALITY} then WITH_LA else cur_token)
      else cur_token)"

type_synonym conversion = "(int \<Rightarrow> int \<Rightarrow> bytes \<Rightarrow> 8 word block \<Rightarrow> 8 word block res) option"

definition unescape_char :: "matcher \<Rightarrow> yytoken \<Rightarrow> yyscan \<Rightarrow> (8 word \<times> yyscan) res" where
  "unescape_char match next_tok st =
     (if code next_tok = UESCAPE
      then bindE (poke (scanbuf st) (lookahead_end st) (lookahead_hold_char st)) (\<lambda>buf.
           bindE (lex_token match (st\<lparr>scanbuf := buf\<rparr>)) (\<lambda>(third, st).
           let st = st\<lparr>lookahead_yylval := lval third\<rparr> in
           if code third \<noteq> SCONST
           then scanner_yyerror ''UESCAPE must be followed by a simple string literal'' (scanbuf st) (lloc third)
           else bindE (str_member (lookahead_yylval st)) (\<lambda>escstr.
                if length escstr \<noteq> 1 \<or> \<not> check_uescapechar (escstr ! 0)
                then scanner_yyerror ''invalid Unicode escape character'' (scanbuf st) (lloc third)
                else Inr (escstr ! 0, st\<lparr>have_lookahead := False\<rparr>))))
      else Inr (0x5c, st))"

definition convert_value :: "pg_enc2name \<Rightarrow> conversion \<Rightarrow> yytoken \<Rightarrow> 8 word \<Rightarrow> yytoken res" where
  "convert_value db conv cur escape =
     bindE (str_member (lval cur)) (\<lambda>s.
     bindE (str_udeescape db conv s escape) (\<lambda>new.
     bindE (c_text new) (\<lambda>t.
     if code cur = UIDENT
     then bindE (truncate_identifier db new (int (length t)) True) (\<lambda>(new, _).
          bindE (c_text new) (\<lambda>t. Inr (cur\<lparr>code := IDENT, lval := Str t\<rparr>)))
     else Inr (cur\<lparr>code := SCONST, lval := Str t\<rparr>))))"

definition finish_token :: "matcher \<Rightarrow> pg_enc2name \<Rightarrow> conversion \<Rightarrow> yytoken \<Rightarrow> yyscan \<Rightarrow> (yytoken \<times> yyscan) res" where
  "finish_token match db conv cur st =
     bindE (token_length cur (scanbuf st)) (\<lambda>cur_token_length.
     case cur_token_length of
       None \<Rightarrow> Inr (cur, st)
     | Some len \<Rightarrow>
         bindE (look_ahead match cur len st) (\<lambda>(next_tok, st).
         if code cur = UIDENT \<or> code cur = USCONST
         then bindE (unescape_char match next_tok st) (\<lambda>(escape, st).
              bindE (convert_value db conv cur escape) (\<lambda>t. Inr (t, st)))
         else Inr (cur\<lparr>code := replace_code (code cur) (code next_tok)\<rparr>, st)))"

partial_function (option) base_yylex ::
  "matcher \<Rightarrow> pg_enc2name \<Rightarrow> conversion \<Rightarrow> yyscan \<Rightarrow> (yytoken \<times> yyscan) res option" where
  "base_yylex match db conv st =
     (case fetch_token match st of
        Inl e \<Rightarrow> Some (Inl e)
      | Inr (cur, st) \<Rightarrow>
          if is_comment (code cur) then base_yylex match db conv st
          else Some (finish_token match db conv cur st))"

declare base_yylex.simps [code]

section \<open>The specification\<close>

text \<open>
  What the filter needs of the scanner: tokens are not empty and lie inside the text one behind
  the other, the end of the text is reported as token 0, the three keywords the filter looks
  behind have the lengths it has wired in, and quoted tokens carry a string.
\<close>

definition token_ok :: "bytes \<Rightarrow> nat \<Rightarrow> yytoken \<Rightarrow> nat \<Rightarrow> bool" where
  "token_ok str p t e \<longleftrightarrow>
     p \<le> lloc t \<and>
     (if code t = 0 then lloc t = length str \<and> e = length str else lloc t < e \<and> e \<le> length str) \<and>
     (code t = NOT_P \<longrightarrow> e = lloc t + 3) \<and> (code t = NULLS_P \<longrightarrow> e = lloc t + 5) \<and> (code t = WITH \<longrightarrow> e = lloc t + 4) \<and>
     (code t \<in> {UIDENT, USCONST, SCONST} \<longrightarrow> (case lval t of Str s \<Rightarrow> True | _ \<Rightarrow> False))"

abbreviation scan_text :: "bytes \<Rightarrow> bytes" where
  "scan_text str \<equiv> str @ [0, 0]"

definition scanner_ok :: "matcher \<Rightarrow> bytes \<Rightarrow> bool" where
  "scanner_ok match str \<longleftrightarrow>
     0 \<notin> set str \<and> int (length str) + 2 \<le> MaxAllocSize \<and>
     list_all (\<lambda>p. case match (scan_text str) p of Inl e \<Rightarrow> True | Inr (t, e) \<Rightarrow> token_ok str p t e) [0..<Suc (length str)]"

text \<open>All tokens of the text with the positions behind them, up to the end or the first error.\<close>

function lexemes :: "matcher \<Rightarrow> bytes \<Rightarrow> nat \<Rightarrow> (yytoken \<times> nat) res list" where
  "lexemes match str p =
     (case match (scan_text str) p of
        Inl e \<Rightarrow> [Inl e]
      | Inr (t, e) \<Rightarrow>
          Inr (t, e) # (if code t \<noteq> 0 \<and> p < e \<and> e \<le> length str then lexemes match str e else []))"
  by pat_completeness auto

termination lexemes
  by (relation "measure (\<lambda>(match, str, p). length str - p)") auto

declare lexemes.simps [simp del]

definition error_near :: "bytes \<Rightarrow> string \<Rightarrow> yytoken \<Rightarrow> nat \<Rightarrow> pg_error" where
  "error_near str message t e =
     (if code t = 0 then Elog (message @ '' at end of input'')
      else Elog (message @ '' at or near '' @ [CHR 0x22] @
             map (\<lambda>b. char_of (unat b)) (take (e - lloc t) (drop (lloc t) str)) @ [CHR 0x22]))"

text \<open>
  The filter on the list of tokens: the next token for the grammar, the position up to which an
  error message may quote the text, and the tokens that are left.
\<close>

fun uescape_literal :: "bytes \<Rightarrow> (yytoken \<times> nat) res list \<Rightarrow> (8 word \<times> nat \<times> (yytoken \<times> nat) res list) res" where
  "uescape_literal str (Inr (v, e) # rest) =
     (if code v \<noteq> SCONST then Inl (error_near str ''UESCAPE must be followed by a simple string literal'' v e)
      else case lval v of
        Str [c] \<Rightarrow> if check_uescapechar c then Inr (c, e, rest) else Inl (error_near str ''invalid Unicode escape character'' v e)
      | _ \<Rightarrow> Inl (error_near str ''invalid Unicode escape character'' v e))"
| "uescape_literal str (Inl err # rest) = Inl err"
| "uescape_literal str [] = Inl OutOfBounds"

fun next_token ::
  "pg_enc2name \<Rightarrow> conversion \<Rightarrow> bytes \<Rightarrow> (yytoken \<times> nat) res list \<Rightarrow> (yytoken \<times> nat \<times> (yytoken \<times> nat) res list) res" where
  "next_token db conv str (Inr (t, e) # rest) =
     (if is_comment (code t) then next_token db conv str rest
      else if code t \<notin> {NOT_P, NULLS_P, WITH, UIDENT, USCONST} then Inr (t, e, rest)
      else case rest of
        [] \<Rightarrow> Inl OutOfBounds
      | Inl err # _ \<Rightarrow> Inl err
      | Inr (u, _) # rest' \<Rightarrow>
          if code t \<notin> {UIDENT, USCONST} then Inr (t\<lparr>code := replace_code (code t) (code u)\<rparr>, e, rest)
          else bindE (if code u = UESCAPE then uescape_literal str rest' else Inr (0x5c, e, rest)) (\<lambda>(c, e, rest).
               bindE (convert_value db conv t c) (\<lambda>t. Inr (t, e, rest))))"
| "next_token db conv str (Inl err # rest) = Inl err"
| "next_token db conv str [] = Inl OutOfBounds"

section \<open>Refinement\<close>

text \<open>
  Between two calls the buffer is the text with a zero behind the last token flex has found and,
  when there is a lookahead token, another one behind the token before it.
\<close>

definition ready :: "bytes \<Rightarrow> yyscan \<Rightarrow> nat \<Rightarrow> bool" where
  "ready str st e \<longleftrightarrow>
     e \<le> length str \<and> yy_c_buf_p st = e \<and> yy_hold_char st = scan_text str ! e \<and>
     (scanbuf st)[e := yy_hold_char st] = scan_text str \<and> \<not> have_lookahead st"

definition settled :: "bytes \<Rightarrow> yyscan \<Rightarrow> nat \<Rightarrow> bool" where
  "settled str st e \<longleftrightarrow>
     ready str st e \<and> scanbuf st = (scan_text str)[e := 0]"

definition ahead :: "bytes \<Rightarrow> yyscan \<Rightarrow> nat \<Rightarrow> bool" where
  "ahead str st e \<longleftrightarrow>
     have_lookahead st \<and> e \<le> length str \<and> yy_c_buf_p st = e \<and> yy_hold_char st = scan_text str ! e \<and>
     (lookahead_end st < e \<or> lookahead_end st = length str) \<and> lookahead_end st \<le> e \<and>
     lookahead_hold_char st = scan_text str ! lookahead_end st \<and>
     scanbuf st = (scan_text str)[e := 0, lookahead_end st := 0] \<and>
     token_ok str (lookahead_end st)
       \<lparr>code = lookahead_token st, lval = lookahead_yylval st, lloc = lookahead_yylloc st\<rparr> e"

definition scan_inv :: "bytes \<Rightarrow> yyscan \<Rightarrow> bool" where
  "scan_inv str st \<longleftrightarrow> (if have_lookahead st then ahead else ready) str st (yy_c_buf_p st)"

definition after_token :: "matcher \<Rightarrow> bytes \<Rightarrow> yytoken \<Rightarrow> nat \<Rightarrow> (yytoken \<times> nat) res list" where
  "after_token match str t e = (if code t = 0 then [] else lexemes match str e)"

definition upcoming :: "matcher \<Rightarrow> bytes \<Rightarrow> yyscan \<Rightarrow> (yytoken \<times> nat) res list" where
  "upcoming match str st =
     (if have_lookahead st
      then let t = \<lparr>code = lookahead_token st, lval = lookahead_yylval st, lloc = lookahead_yylloc st\<rparr> in
           Inr (t, yy_c_buf_p st) # after_token match str t (yy_c_buf_p st)
      else lexemes match str (yy_c_buf_p st))"

lemma c_str_slice:
  "0 \<notin> set (take e s) \<Longrightarrow> e < length s \<Longrightarrow> s ! e = 0 \<Longrightarrow> c_str s = Inr (take e s)"
proof (induction s arbitrary: e)
  case (Cons c s)
  then show ?case by (cases e) auto
qed simp

lemma scanner_ok_match:
  "scanner_ok match str \<Longrightarrow> p \<le> length str \<Longrightarrow> match (scan_text str) p = Inr (t, e) \<Longrightarrow> token_ok str p t e"
  unfolding scanner_ok_def list_all_iff by (cases "p = length str") (auto dest!: bspec [of _ _ p])

lemma token_okD:
  assumes "token_ok str p t e"
  shows "p \<le> lloc t" "lloc t \<le> e" "e \<le> length str" "p \<le> e" "code t \<noteq> 0 \<Longrightarrow> lloc t < e" "code t \<noteq> 0 \<Longrightarrow> p < e"
    "code t = 0 \<Longrightarrow> lloc t = length str \<and> e = length str"
  using assms by (auto simp: token_ok_def split: if_splits)

lemma lexemes_step:
  assumes "scanner_ok match str" "p \<le> length str"
  shows "lexemes match str p =
    (case match (scan_text str) p of Inl err \<Rightarrow> [Inl err] | Inr (t, e) \<Rightarrow> Inr (t, e) # after_token match str t e)"
proof (cases "match (scan_text str) p")
  case (Inr x)
  obtain t e where x: "x = (t, e)" by (cases x)
  have "token_ok str p t e" by (rule scanner_ok_match [OF assms]) (simp add: Inr x)
  then show ?thesis using token_okD(3,6) Inr x by (subst lexemes.simps) (auto simp: after_token_def)
qed (simp add: lexemes.simps)

lemma lex_token_step:
  assumes "scanner_ok match str" "ready str (st\<lparr>have_lookahead := False\<rparr>) p"
  shows "lex_token match st =
    (case match (scan_text str) p of
       Inl err \<Rightarrow> Inl err
     | Inr (t, e) \<Rightarrow> Inr (t, st\<lparr>scanbuf := (scan_text str)[e := 0], yy_hold_char := scan_text str ! e, yy_c_buf_p := e\<rparr>))"
proof -
  have st: "p \<le> length str" "yy_c_buf_p st = p" "(scanbuf st)[p := yy_hold_char st] = scan_text str"
    using assms(2) by (auto simp: ready_def)
  have "length (scanbuf st) = length (scan_text str)" by (metis length_list_update st(3))
  then have buf: "poke (scanbuf st) (yy_c_buf_p st) (yy_hold_char st) = Inr (scan_text str)"
    using st by (simp add: poke_def)
  show ?thesis
  proof (cases "match (scan_text str) p")
    case (Inr x)
    obtain t e where x: "x = (t, e)" by (cases x)
    have "e \<le> length str" using token_okD(3) scanner_ok_match [OF assms(1) st(1)] Inr x by blast
    then show ?thesis unfolding lex_token_def buf using st(2) Inr x by (simp add: at_def poke_def)
  qed (simp add: lex_token_def buf, simp add: st(2))
qed

lemma ahead_restore:
  assumes "ahead str st e"
  shows "poke (scanbuf st) (lookahead_end st) (lookahead_hold_char st) = Inr ((scan_text str)[e := 0])"
proof -
  have "(scan_text str)[e := 0, lookahead_end st := scan_text str ! lookahead_end st] = (scan_text str)[e := 0]"
  proof (cases "lookahead_end st = e")
    case True
    then have "e = length str" using assms by (auto simp: ahead_def)
    then show ?thesis using True by (simp add: nth_append)
  next
    case False
    then show ?thesis by (metis list_update_id list_update_swap)
  qed
  then show ?thesis using assms by (simp add: ahead_def poke_def)
qed

lemma fetch_token_step:
  assumes "scanner_ok match str" "scan_inv str st"
  shows "case upcoming match str st of
      Inl err # _ \<Rightarrow> fetch_token match st = Inl err
    | Inr (t, e) # rest \<Rightarrow> \<exists>st' p. fetch_token match st = Inr (t, st') \<and> settled str st' e \<and> token_ok str p t e \<and> rest = after_token match str t e
    | [] \<Rightarrow> False"
proof (cases "have_lookahead st")
  case True
  let ?t = "\<lparr>code = lookahead_token st, lval = lookahead_yylval st, lloc = lookahead_yylloc st\<rparr>"
  have a: "ahead str st (yy_c_buf_p st)" using assms(2) True by (simp add: scan_inv_def)
  have "fetch_token match st = Inr (?t, st\<lparr>scanbuf := (scan_text str)[yy_c_buf_p st := 0], have_lookahead := False\<rparr>)"
    using True by (simp add: fetch_token_def ahead_restore [OF a])
  moreover have "settled str (st\<lparr>scanbuf := (scan_text str)[yy_c_buf_p st := 0], have_lookahead := False\<rparr>) (yy_c_buf_p st)"
    using a by (simp add: settled_def ready_def ahead_def)
  moreover have "token_ok str (lookahead_end st) ?t (yy_c_buf_p st)" using a by (simp add: ahead_def)
  ultimately show ?thesis using True by (auto simp: upcoming_def Let_def)
next
  case False
  then have s: "ready str st (yy_c_buf_p st)" using assms(2) by (simp add: scan_inv_def)
  then have p: "yy_c_buf_p st \<le> length str" by (simp add: ready_def)
  have "ready str (st\<lparr>have_lookahead := False\<rparr>) (yy_c_buf_p st)" using s by (auto simp: ready_def)
  note lex = lex_token_step [OF assms(1) this]
  show ?thesis
  proof (cases "match (scan_text str) (yy_c_buf_p st)")
    case (Inl err)
    then show ?thesis using False lex by (simp add: upcoming_def fetch_token_def lexemes_step [OF assms(1) p])
  next
    case (Inr x)
    obtain t e where x: "x = (t, e)" by (cases x)
    have ok: "token_ok str (yy_c_buf_p st) t e" by (rule scanner_ok_match [OF assms(1) p]) (simp add: Inr x)
    moreover have "e \<le> length str" by (rule token_okD(3) [OF ok])
    ultimately show ?thesis using False lex Inr x
      by (auto simp: upcoming_def fetch_token_def lexemes_step [OF assms(1) p] settled_def ready_def)
  qed
qed

lemma buffer_text:
  assumes "0 \<notin> set str" "l \<le> e" "e \<le> length str" "length buf = length str + 2" "buf ! e = 0"
    "\<And>i. l \<le> i \<Longrightarrow> i < e \<Longrightarrow> buf ! i = str ! i"
  shows "c_str (drop l buf) = Inr (take (e - l) (drop l str))"
proof -
  have eq: "take (e - l) (drop l buf) = take (e - l) (drop l str)"
    using assms(2-4,6) by (intro nth_equalityI) auto
  have "0 \<notin> set (take (e - l) (drop l str))" using assms(1) by (meson in_set_dropD in_set_takeD)
  then show ?thesis using assms(2-5) by (subst c_str_slice [of "e - l"]) (auto simp: eq)
qed

lemma settled_text:
  assumes "0 \<notin> set str" "settled str st e" "l \<le> e"
  shows "c_str (drop l (scanbuf st)) = Inr (take (e - l) (drop l str))"
  using assms by (intro buffer_text) (auto simp: settled_def ready_def nth_append)

lemma ahead_text:
  assumes "0 \<notin> set str" "ahead str st e" "l \<le> lookahead_end st"
  shows "c_str (drop l (scanbuf st)) = Inr (take (lookahead_end st - l) (drop l str))"
  using assms by (intro buffer_text) (auto simp: ahead_def nth_append)

lemma scanner_yyerror_near:
  assumes "0 \<notin> set str" "settled str st e" "token_ok str p t e"
  shows "scanner_yyerror message (scanbuf st) (lloc t) = Inl (error_near str message t e)"
proof (cases "code t = 0")
  case True
  then show ?thesis using assms(2) token_okD(7) [OF assms(3)]
    by (simp add: scanner_yyerror_def error_near_def at_def settled_def ready_def)
next
  case False
  then have l: "lloc t < e" "e \<le> length str" using token_okD [OF assms(3)] by auto
  then have "scanbuf st ! lloc t = str ! lloc t" "str ! lloc t \<noteq> 0" "lloc t < length (scanbuf st)"
    using assms(1,2) by (auto simp: settled_def ready_def nth_append in_set_conv_nth)
  then show ?thesis using False settled_text [OF assms(1,2), of "lloc t"] l
    by (simp add: scanner_yyerror_def error_near_def at_def)
qed

lemma look_ahead_step:
  assumes ok: "scanner_ok match str" and st: "settled str st e" and len: "lloc t + len = e"
  shows "case lexemes match str e of
      Inl err # _ \<Rightarrow> look_ahead match t len st = Inl err
    | Inr (u, e') # rest \<Rightarrow> \<exists>st'. look_ahead match t len st = Inr (u, st') \<and> ahead str st' e' \<and> lookahead_end st' = e \<and>
        upcoming match str st' = lexemes match str e \<and> rest = after_token match str u e' \<and> token_ok str e u e'
    | [] \<Rightarrow> False"
proof -
  have e: "e \<le> length str" using st by (simp add: settled_def ready_def)
  have "ready str (st\<lparr>lookahead_end := e, have_lookahead := False\<rparr>) e" using st by (simp add: settled_def ready_def)
  then have "ready str ((st\<lparr>lookahead_end := lloc t + len\<rparr>)\<lparr>have_lookahead := False\<rparr>) e" by (simp add: len)
  note lex = lex_token_step [OF ok this]
  show ?thesis
  proof (cases "match (scan_text str) e")
    case (Inl err)
    then show ?thesis using lex by (simp add: look_ahead_def lexemes_step [OF ok e])
  next
    case (Inr x)
    obtain u e' where x: "x = (u, e')" by (cases x)
    have u: "token_ok str e u e'" by (rule scanner_ok_match [OF ok e]) (simp add: Inr x)
    let ?st = "st\<lparr>lookahead_end := e, scanbuf := (scan_text str)[e' := 0, e := 0], yy_hold_char := scan_text str ! e',
      yy_c_buf_p := e', lookahead_yylval := lval u, lookahead_token := code u, lookahead_yylloc := lloc u,
      lookahead_hold_char := scan_text str ! e, have_lookahead := True\<rparr>"
    have sep: "e < e' \<or> e = length str" "e \<le> e'" "e' \<le> length str" using token_okD [OF u] by (cases "code u = 0"; auto)+
    then have "(scan_text str)[e' := 0] ! e = scan_text str ! e" by (cases "e = e'") (auto simp: nth_append)
    then have "look_ahead match t len st = Inr (u, ?st)"
      using lex Inr x e len by (simp add: look_ahead_def Let_def at_def poke_def)
    moreover have "ahead str ?st e'" using u sep by (cases u) (simp add: ahead_def)
    moreover have "upcoming match str ?st = lexemes match str e"
      using Inr x by (cases u) (simp add: upcoming_def lexemes_step [OF ok e] Let_def)
    ultimately show ?thesis using Inr x u by (auto simp: lexemes_step [OF ok e])
  qed
qed

lemma uescape_step:
  assumes ok: "scanner_ok match str" and st: "ahead str st e" and u: "code u = UESCAPE"
  shows "case uescape_literal str (lexemes match str e) of
      Inl err \<Rightarrow> unescape_char match u st = Inl err
    | Inr (c, e', rest) \<Rightarrow> \<exists>st' v. unescape_char match u st = Inr (c, st') \<and> settled str st' e' \<and> rest = lexemes match str e' \<and> e \<le> e'"
proof -
  have e: "e \<le> length str" and nz: "0 \<notin> set str" using st ok by (auto simp: ahead_def scanner_ok_def)
  have "ready str ((st\<lparr>scanbuf := (scan_text str)[e := 0]\<rparr>)\<lparr>have_lookahead := False\<rparr>) e"
    using st by (simp add: ready_def ahead_def)
  note lex = lex_token_step [OF ok this]
  show ?thesis
  proof (cases "match (scan_text str) e")
    case (Inl err)
    then show ?thesis using lex u by (simp add: unescape_char_def ahead_restore [OF st] lexemes_step [OF ok e])
  next
    case (Inr x)
    obtain v e' where x: "x = (v, e')" by (cases x)
    have v: "token_ok str e v e'" by (rule scanner_ok_match [OF ok e]) (simp add: Inr x)
    let ?st = "st\<lparr>scanbuf := (scan_text str)[e' := 0], yy_hold_char := scan_text str ! e', yy_c_buf_p := e',
      lookahead_yylval := lval v, have_lookahead := False\<rparr>"
    have s: "settled str ?st e'" using token_okD(3) [OF v] by (simp add: settled_def ready_def)
    have err: "scanner_yyerror m ((scan_text str)[e' := 0]) (lloc v) = Inl (error_near str m v e')" for m :: string
      using scanner_yyerror_near [OF nz s v, of m] by simp
    have run: "unescape_char match u st =
      (if code v \<noteq> SCONST then Inl (error_near str ''UESCAPE must be followed by a simple string literal'' v e')
       else bindE (str_member (lval v)) (\<lambda>escstr.
         if length escstr \<noteq> 1 \<or> \<not> check_uescapechar (escstr ! 0)
         then Inl (error_near str ''invalid Unicode escape character'' v e') else Inr (escstr ! 0, ?st)))"
      using lex Inr x u by (simp add: unescape_char_def ahead_restore [OF st] Let_def err cong: if_cong)
    have L: "lexemes match str e = Inr (v, e') # after_token match str v e'"
      using Inr x by (simp add: lexemes_step [OF ok e])
    show ?thesis
    proof (cases "code v = SCONST")
      case False
      then show ?thesis by (simp add: run L)
    next
      case True
      then obtain es where es: "lval v = Str es" using v by (auto simp: token_ok_def split: core_YYSTYPE.splits)
      have "after_token match str v e' = lexemes match str e'" using True by (simp add: after_token_def)
      then show ?thesis using True s token_okD(4) [OF v]
        by (auto simp: run L es length_Suc_conv split: list.splits)
    qed
  qed
qed

lemma token_length_ok:
  assumes "scanner_ok match str" "settled str st e" "token_ok str p t e"
  shows "token_length t (scanbuf st) =
    Inr (if code t \<in> {NOT_P, NULLS_P, WITH, UIDENT, USCONST} then Some (e - lloc t) else None)"
proof -
  have "c_str (drop (lloc t) (scanbuf st)) = Inr (take (e - lloc t) (drop (lloc t) str))"
    using assms token_okD(2) [OF assms(3)] by (intro settled_text) (auto simp: scanner_ok_def)
  then show ?thesis using assms(3) token_okD(3) [OF assms(3)] by (auto simp: token_length_def token_ok_def)
qed

lemma convert_value_keeps: "convert_value db conv t c = Inr t' \<Longrightarrow> lloc t' = lloc t \<and> code t' \<noteq> 0"
  by (auto simp: convert_value_def bindE_eq_Inr split: if_splits)

lemma replace_code_nonzero: "c \<noteq> 0 \<Longrightarrow> replace_code c d \<noteq> 0"
  by (auto simp: replace_code_def)

text \<open>An outcome of the filter agrees with one of the specification.\<close>

definition agrees ::
  "matcher \<Rightarrow> bytes \<Rightarrow> (yytoken \<times> yyscan) res \<Rightarrow> (yytoken \<times> nat \<times> (yytoken \<times> nat) res list) res \<Rightarrow> bool" where
  "agrees match str r s \<longleftrightarrow>
     (case s of
        Inl err \<Rightarrow> r = Inl err
      | Inr (t, e, rest) \<Rightarrow>
          \<exists>st. r = Inr (t, st) \<and> c_str (drop (lloc t) (scanbuf st)) = Inr (take (e - lloc t) (drop (lloc t) str)) \<and>
            (code t \<noteq> 0 \<longrightarrow> scan_inv str st \<and> upcoming match str st = rest))"

lemma agrees_ahead:
  assumes "scanner_ok match str" "ahead str st e'" "lloc t \<le> lookahead_end st"
  shows "agrees match str (Inr (t, st)) (Inr (t, lookahead_end st, upcoming match str st))"
  using assms ahead_text [OF _ assms(2,3)] by (auto simp: agrees_def scan_inv_def scanner_ok_def ahead_def)

lemma agrees_settled:
  assumes "scanner_ok match str" "settled str st e" "lloc t \<le> e"
  shows "agrees match str (Inr (t, st)) (Inr (t, e, lexemes match str e))"
  using assms settled_text [OF _ assms(2,3)] by (auto simp: agrees_def scan_inv_def scanner_ok_def settled_def ready_def upcoming_def)

lemma agrees_convert:
  assumes "\<And>t'. convert_value db conv t c = Inr t' \<Longrightarrow> agrees match str (Inr (t', st)) (Inr (t', e, rest))"
  shows "agrees match str (bindE (convert_value db conv t c) (\<lambda>t. Inr (t, st))) (bindE (convert_value db conv t c) (\<lambda>t. Inr (t, e, rest)))"
  using assms by (cases "convert_value db conv t c") (auto simp: agrees_def)

lemma uescape_agrees:
  assumes ok: "scanner_ok match str" and st: "ahead str st e" and u: "code u = UESCAPE" and le: "lloc t \<le> e"
  shows "agrees match str
    (bindE (unescape_char match u st) (\<lambda>(c, st). bindE (convert_value db conv t c) (\<lambda>t. Inr (t, st))))
    (bindE (uescape_literal str (lexemes match str e)) (\<lambda>(c, e, rest). bindE (convert_value db conv t c) (\<lambda>t. Inr (t, e, rest))))"
proof -
  note step = uescape_step [OF ok st u]
  show ?thesis
  proof (cases "uescape_literal str (lexemes match str e)")
    case (Inl err)
    then show ?thesis using step by (simp add: agrees_def)
  next
    case (Inr y)
    obtain c e3 rest where y: "y = (c, e3, rest)" by (cases y)
    obtain st3 where st3: "unescape_char match u st = Inr (c, st3)" "settled str st3 e3" "rest = lexemes match str e3" "e \<le> e3"
      using step Inr y by auto
    have "agrees match str (bindE (convert_value db conv t c) (\<lambda>t. Inr (t, st3))) (bindE (convert_value db conv t c) (\<lambda>t. Inr (t, e3, rest)))"
      unfolding st3(3) by (rule agrees_convert, rule agrees_settled [OF ok st3(2)]) (use le st3(4) in \<open>simp add: convert_value_keeps\<close>)
    then show ?thesis using st3(1) Inr y by simp
  qed
qed

text \<open>A token that needs a look at the next one.\<close>

lemma lookahead_agrees:
  assumes ok: "scanner_ok match str" and st: "settled str st e" and t: "token_ok str p t e" and nc: "\<not> is_comment (code t)"
    and kind: "code t \<in> {NOT_P, NULLS_P, WITH, UIDENT, USCONST}" and L: "lexemes match str e = Inr (u, e') # rest"
  shows "agrees match str (finish_token match db conv t st) (next_token db conv str (Inr (t, e) # lexemes match str e))"
proof -
  have le: "lloc t \<le> e" and len: "lloc t + (e - lloc t) = e" using token_okD(2) [OF t] by auto
  obtain st' where st': "look_ahead match t (e - lloc t) st = Inr (u, st')" "ahead str st' e'" "lookahead_end st' = e"
    "upcoming match str st' = lexemes match str e" "rest = after_token match str u e'" "token_ok str e u e'"
    using look_ahead_step [OF ok st len] L by auto
  have run: "finish_token match db conv t st =
    (if code t = UIDENT \<or> code t = USCONST
     then bindE (unescape_char match u st') (\<lambda>(c, st). bindE (convert_value db conv t c) (\<lambda>t. Inr (t, st)))
     else Inr (t\<lparr>code := replace_code (code t) (code u)\<rparr>, st'))"
    using kind token_length_ok [OF ok st t] st'(1) by (simp add: finish_token_def)
  have here: "agrees match str (Inr (t', st')) (Inr (t', e, lexemes match str e))" if "lloc t' = lloc t" for t'
    using agrees_ahead [OF ok st'(2), of t'] st'(3,4) that le by simp
  consider (word) "\<not> (code t = UIDENT \<or> code t = USCONST)" | (plain) "code t = UIDENT \<or> code t = USCONST" "code u \<noteq> UESCAPE"
    | (esc) "code t = UIDENT \<or> code t = USCONST" "code u = UESCAPE" by blast
  then show ?thesis
  proof cases
    case word
    then show ?thesis using here [of "t\<lparr>code := replace_code (code t) (code u)\<rparr>"] L kind nc by (simp add: run)
  next
    case plain
    have "agrees match str (bindE (convert_value db conv t 0x5c) (\<lambda>t. Inr (t, st')))
      (bindE (convert_value db conv t 0x5c) (\<lambda>t. Inr (t, e, lexemes match str e)))"
      by (rule agrees_convert) (simp add: here convert_value_keeps)
    then show ?thesis using plain L nc by (auto simp: run unescape_char_def)
  next
    case esc
    then have spec: "next_token db conv str (Inr (t, e) # lexemes match str e) =
      bindE (uescape_literal str (lexemes match str e')) (\<lambda>(c, e, rest). bindE (convert_value db conv t c) (\<lambda>t. Inr (t, e, rest)))"
      using L nc st'(5) by (auto simp: after_token_def)
    have "lloc t \<le> e'" using le token_okD(4) [OF st'(6)] by simp
    then show ?thesis unfolding spec using uescape_agrees [OF ok st'(2) esc(2)] esc(1) by (simp add: run)
  qed
qed

lemma finish_token_step:
  assumes ok: "scanner_ok match str" and st: "settled str st e" and t: "token_ok str p t e" and nc: "\<not> is_comment (code t)"
  shows "agrees match str (finish_token match db conv t st) (next_token db conv str (Inr (t, e) # after_token match str t e))"
proof (cases "code t \<in> {NOT_P, NULLS_P, WITH, UIDENT, USCONST}")
  case False
  then have "finish_token match db conv t st = Inr (t, st)"
    "next_token db conv str (Inr (t, e) # after_token match str t e) = Inr (t, e, after_token match str t e)"
    using nc token_length_ok [OF ok st t] by (auto simp: finish_token_def)
  then show ?thesis using agrees_settled [OF ok st token_okD(2) [OF t]] by (auto simp: agrees_def after_token_def)
next
  case True
  then have rest: "after_token match str t e = lexemes match str e" by (auto simp: after_token_def)
  have len: "lloc t + (e - lloc t) = e" using token_okD(2) [OF t] by simp
  note look = look_ahead_step [OF ok st len]
  show ?thesis
  proof (cases "lexemes match str e")
    case Nil
    then show ?thesis using look by simp
  next
    case (Cons l rest')
    show ?thesis
    proof (cases l)
      case (Inl err)
      then show ?thesis using look Cons True nc token_length_ok [OF ok st t] by (simp add: rest agrees_def finish_token_def)
    next
      case (Inr x)
      then show ?thesis using lookahead_agrees [OF ok st t nc True] Cons rest by (cases x) simp
    qed
  qed
qed

lemma base_yylex_step:
  assumes "scanner_ok match str" "scan_inv str st"
  shows "\<exists>r. base_yylex match db conv st = Some r \<and> agrees match str r (next_token db conv str (upcoming match str st))"
  using assms(2)
proof (induction "length (upcoming match str st)" arbitrary: st rule: less_induct)
  case less
  note fetch = fetch_token_step [OF assms(1) less.prems]
  show ?case
  proof (cases "upcoming match str st")
    case Nil
    then show ?thesis using fetch by simp
  next
    case (Cons l rest)
    show ?thesis
    proof (cases l)
      case (Inl err)
      then show ?thesis using fetch Cons by (subst base_yylex.simps) (simp add: agrees_def)
    next
      case (Inr x)
      obtain t e where x: "x = (t, e)" by (cases x)
      obtain st' p where st': "fetch_token match st = Inr (t, st')" "settled str st' e" "token_ok str p t e" "rest = after_token match str t e"
        using fetch Cons Inr x by auto
      show ?thesis
      proof (cases "is_comment (code t)")
        case False
        then have "base_yylex match db conv st = Some (finish_token match db conv t st')"
          using st'(1) by (subst base_yylex.simps) simp
        then show ?thesis using finish_token_step [OF assms(1) st'(2,3) False] Cons Inr x st'(4) by auto
      next
        case True
        have inv: "scan_inv str st'" using st'(2) by (auto simp: scan_inv_def settled_def ready_def)
        have up: "upcoming match str st' = rest"
          using st'(2,4) True by (auto simp: upcoming_def settled_def ready_def after_token_def is_comment_def)
        have "base_yylex match db conv st = base_yylex match db conv st'"
          using st'(1) True by (subst base_yylex.simps) simp
        then show ?thesis using less.hyps [OF _ inv] up Cons Inr x True by simp
      qed
    qed
  qed
qed

lemma scanner_init_ok:
  assumes "int (length str) + 2 \<le> MaxAllocSize"
  shows "scanner_init str yyext = Inr (yyext\<lparr>scanbuf := scan_text str, yy_c_buf_p := 0, yy_hold_char := scan_text str ! 0\<rparr>)"
proof -
  have alloc: "palloc 1 (int (length str) + 2) = Inr (replicate (length str + 2) (None :: 8 word option))"
    using assms by (simp add: palloc_def nat_add_distrib)
  have "drop (length str) (replicate (length str + 2) (None :: 8 word option)) = [None, None]"
    by (simp only: drop_replicate) (simp add: numeral_2_eq_2)
  then have "memcpy_to (replicate (length str + 2) None) 0 (map Some str) = Inr (map Some str @ [None, None])"
    by (simp add: memcpy_to_def)
  moreover have "store (map Some str @ [None, None]) (int (length str) + 1) 0 = Inr (map Some str @ [None, Some 0])"
    by (simp add: store_def nat_add_distrib list_update_append)
  moreover have "store (map Some str @ [None, Some 0]) (int (length str)) 0 = Inr (map Some (scan_text str))"
    by (simp add: store_def list_update_append)
  moreover have "load (map Some (scan_text str)) 0 = Inr (scan_text str ! 0)"
    by (cases str) (simp_all add: load_def)
  moreover have "written (map Some (scan_text str)) = scan_text str" using written_text [of "scan_text str"] by simp
  ultimately show ?thesis using alloc by (simp add: scanner_init_def Let_def)
qed

text \<open>The states between the calls of the grammar.\<close>

inductive reachable :: "matcher \<Rightarrow> pg_enc2name \<Rightarrow> conversion \<Rightarrow> bytes \<Rightarrow> yyscan \<Rightarrow> bool"
  for match db conv str where
  start: "scanner_init str yyext = Inr st \<Longrightarrow> reachable match db conv str (st\<lparr>have_lookahead := False\<rparr>)"
| call: "reachable match db conv str st \<Longrightarrow> base_yylex match db conv st = Some (Inr (t, st')) \<Longrightarrow> code t \<noteq> 0 \<Longrightarrow>
    reachable match db conv str st'"

lemma scan_inv_start:
  assumes "scanner_ok match str" "scanner_init str yyext = Inr st"
  shows "scan_inv str (st\<lparr>have_lookahead := False\<rparr>)"
    "upcoming match str (st\<lparr>have_lookahead := False\<rparr>) = lexemes match str 0"
  using assms scanner_init_ok [of str yyext] by (auto simp: scanner_ok_def scan_inv_def ready_def upcoming_def)

lemma reachable_inv:
  assumes "reachable match db conv str st" "scanner_ok match str"
  shows "scan_inv str st"
  using assms
proof (induction rule: reachable.induct)
  case (call st t st')
  then show ?case using base_yylex_step [OF call.prems, of st db conv] by (auto simp: agrees_def split: sum.splits)
qed (rule scan_inv_start)

section \<open>The tokens of a text\<close>

text \<open>The grammar asks for tokens until it gets token 0 or an error.\<close>

partial_function (option) all_tokens ::
  "matcher \<Rightarrow> pg_enc2name \<Rightarrow> conversion \<Rightarrow> yyscan \<Rightarrow> yytoken res list option" where
  "all_tokens match db conv st =
     Option.bind (base_yylex match db conv st) (\<lambda>r.
     case r of
       Inl err \<Rightarrow> Some [Inl err]
     | Inr (t, st') \<Rightarrow>
         if code t = 0 then Some [Inr t]
         else Option.bind (all_tokens match db conv st') (\<lambda>ts. Some (Inr t # ts)))"

declare all_tokens.simps [code]

lemma uescape_literal_shorter: "uescape_literal str L = Inr (c, e, rest) \<Longrightarrow> length rest < length L"
  by (induction str L rule: uescape_literal.induct) (auto split: if_splits core_YYSTYPE.splits list.splits)

lemma next_token_shorter:
  "next_token db conv str L = Inr (t, e, rest) \<Longrightarrow> length rest < length L"
proof (induction db conv str L arbitrary: t e rest rule: next_token.induct)
  case (1 db conv str u e' L)
  show ?case
  proof (cases "is_comment (code u) \<or> code u \<notin> {NOT_P, NULLS_P, WITH, UIDENT, USCONST}")
    case True
    then show ?thesis using 1 by (auto simp: less_Suc_eq split: if_splits)
  next
    case False
    then show ?thesis using 1(2) uescape_literal_shorter
      by (auto simp: bindE_eq_Inr less_Suc_eq split: if_splits list.splits sum.splits)
  qed
qed auto

function filtered :: "pg_enc2name \<Rightarrow> conversion \<Rightarrow> bytes \<Rightarrow> (yytoken \<times> nat) res list \<Rightarrow> yytoken res list" where
  "filtered db conv str L =
     (case next_token db conv str L of
        Inl err \<Rightarrow> [Inl err]
      | Inr (t, _, rest) \<Rightarrow> if code t = 0 then [Inr t] else Inr t # filtered db conv str rest)"
  by pat_completeness auto

termination filtered
  by (relation "measure (\<lambda>(db, conv, str, L). length L)") (auto dest!: next_token_shorter)

declare filtered.simps [simp del]

lemma all_tokens_step:
  assumes "scanner_ok match str" "scan_inv str st"
  shows "all_tokens match db conv st = Some (filtered db conv str (upcoming match str st))"
  using assms(2)
proof (induction "length (upcoming match str st)" arbitrary: st rule: less_induct)
  case less
  obtain r where r: "base_yylex match db conv st = Some r" "agrees match str r (next_token db conv str (upcoming match str st))"
    using base_yylex_step [OF assms(1) less.prems] by blast
  show ?case
  proof (cases "next_token db conv str (upcoming match str st)")
    case (Inl err)
    then show ?thesis using r by (subst all_tokens.simps, subst filtered.simps) (simp add: agrees_def)
  next
    case (Inr x)
    obtain t e rest where x: "x = (t, e, rest)" by (cases x)
    obtain st' where st': "r = Inr (t, st')" "code t \<noteq> 0 \<longrightarrow> scan_inv str st' \<and> upcoming match str st' = rest"
      using r(2) Inr x by (auto simp: agrees_def)
    have "length rest < length (upcoming match str st)" using next_token_shorter Inr x by blast
    then have "all_tokens match db conv st' = Some (filtered db conv str rest)" if "code t \<noteq> 0"
      using less.hyps [of st'] st'(2) that by simp
    then show ?thesis using r(1) st'(1) Inr x by (subst all_tokens.simps, subst filtered.simps) simp
  qed
qed

lemma length_lexemes: "length (lexemes match str p) \<le> Suc (length str - p)"
proof (induction match str p rule: lexemes.induct)
  case (1 match str p)
  then show ?case by (subst lexemes.simps) (fastforce split: sum.splits)
qed

lemma filtered_end:
  "length (filtered db conv str L) \<le> Suc (length L) \<and>
   (case last (filtered db conv str L) of Inl err \<Rightarrow> True | Inr t \<Rightarrow> code t = 0)"
proof (induction "length L" arbitrary: L rule: less_induct)
  case less
  show ?case
  proof (cases "next_token db conv str L")
    case (Inr x)
    obtain t e rest where x: "x = (t, e, rest)" by (cases x)
    have lt: "length rest < length L" using next_token_shorter Inr x by blast
    have "filtered db conv str rest \<noteq> []" by (subst filtered.simps) (auto split: sum.splits)
    then show ?thesis using less [OF lt] lt Inr x by (subst (1 2) filtered.simps) auto
  qed (subst (1 2) filtered.simps, simp)
qed

section \<open>Properties\<close>

text \<open>A small scanner for the witnesses: the text \<^verbatim>\<open>not/**/in\<close>.\<close>

definition sample_text :: bytes where
  "sample_text = [0x6e, 0x6f, 0x74, 0x2f, 0x2a, 0x2a, 0x2f, 0x69, 0x6e]"

definition sample_match :: matcher where
  "sample_match buf p =
     (if p = 0 then Inr (\<lparr>code = NOT_P, lval = Keyword [0x6e, 0x6f, 0x74], lloc = 0\<rparr>, 3)
      else if p = 3 then Inr (\<lparr>code = C_COMMENT, lval = Keyword [], lloc = 3\<rparr>, 7)
      else if p = 7 then Inr (\<lparr>code = IN_P, lval = Keyword [0x69, 0x6e], lloc = 7\<rparr>, 9)
      else if p = 9 then Inr (\<lparr>code = 0, lval = Keyword [], lloc = 9\<rparr>, 9)
      else Inl (Elog ''syntax error''))"

abbreviation sample_db :: pg_enc2name where
  "sample_db \<equiv> \<lparr>enc_name = ''UTF8'', encoding = 6\<rparr>"

definition sample_start :: yyscan where
  "sample_start = \<lparr>scanbuf = scan_text sample_text, yy_c_buf_p = 0, yy_hold_char = 0x6e, have_lookahead = False, lookahead_token = 0,
     lookahead_yylval = Ival 0, lookahead_yylloc = 0, lookahead_end = 0, lookahead_hold_char = 0\<rparr>"

lemma sample_ok: "scanner_ok sample_match sample_text"
  by code_simp

lemma sample_init: "scanner_init sample_text sample_start = Inr sample_start"
  by code_simp

lemma sample_reachable: "reachable sample_match sample_db None sample_text sample_start"
  using reachable.start [OF sample_init, of sample_match sample_db None] by (simp add: sample_start_def)

text \<open>
  C3: The filter implements its specification. For every text that fits an allocation and every
  scanner that works as documented, the calls of \<open>base_yylex\<close> until the end token or an error
  deliver exactly the tokens of the text with comments left out, with NOT, NULLS and WITH replaced
  according to the token behind them and Unicode literals converted, whatever the uninitialised
  structure contained before; the buffer the scanner works on is the unchanged text at every call.
\<close>
theorem base_yylex_filters:
  assumes "scanner_ok match str"
  shows "\<exists>st. scanner_init str yyext = Inr st \<and>
    all_tokens match db conv (st\<lparr>have_lookahead := False\<rparr>) = Some (filtered db conv str (lexemes match str 0))"
proof -
  obtain st where st: "scanner_init str yyext = Inr st" using assms scanner_init_ok by (auto simp: scanner_ok_def)
  from scan_inv_start [OF assms this] show ?thesis using st all_tokens_step [OF assms] by auto
qed

theorem base_yylex_filters_witness:
  "all_tokens sample_match sample_db None sample_start =
     Some (filtered sample_db None sample_text (lexemes sample_match sample_text 0))"
proof -
  have "sample_start\<lparr>have_lookahead := False\<rparr> = sample_start" by (simp add: sample_start_def)
  then show ?thesis using base_yylex_filters [OF sample_ok, of sample_start sample_db None] by (simp add: sample_init)
qed

text \<open>
  C17: In every state the grammar can reach, a token that needed a look at the next one is again the
  current token for error messages: the buffer reads as the source text of the token up to a
  zero right behind it, and for a literal with a UESCAPE clause up to the end of the clause.
\<close>
theorem error_text_is_current_token:
  assumes "scanner_ok match str" "reachable match db conv str st" "base_yylex match db conv st = Some (Inr (t, st'))"
  shows "\<exists>e rest. next_token db conv str (upcoming match str st) = Inr (t, e, rest) \<and>
    c_str (drop (lloc t) (scanbuf st')) = Inr (take (e - lloc t) (drop (lloc t) str))"
  using base_yylex_step [OF assms(1) reachable_inv [OF assms(2,1)], of db conv] assms(3)
  by (auto simp: agrees_def split: sum.splits)

theorem error_text_is_current_token_witness:
  "\<exists>t st'. base_yylex sample_match sample_db None sample_start = Some (Inr (t, st')) \<and>
     c_str (drop (lloc t) (scanbuf st')) = Inr [0x6e, 0x6f, 0x74]"
proof -
  let ?t = "\<lparr>code = NOT_P, lval = Keyword [0x6e, 0x6f, 0x74], lloc = 0\<rparr>"
  let ?st = "sample_start\<lparr>scanbuf := [0x6e, 0x6f, 0x74, 0x2f, 0x2a, 0x2a, 0x2f, 0x69, 0x6e, 0, 0][7 := 0, 3 := 0], yy_c_buf_p := 7,
    yy_hold_char := 0x69, have_lookahead := True, lookahead_token := C_COMMENT, lookahead_yylval := Keyword [],
    lookahead_yylloc := 3, lookahead_end := 3, lookahead_hold_char := 0x2f\<rparr>"
  have run: "base_yylex sample_match sample_db None sample_start = Some (Inr (?t, ?st))" by code_simp
  have spec: "\<exists>rest. next_token sample_db None sample_text (upcoming sample_match sample_text sample_start) = Inr (?t, 3, rest)"
    by (rule exI [of _ "lexemes sample_match sample_text 3"]) code_simp
  from error_text_is_current_token [OF sample_ok sample_reachable run]
  have "c_str (drop (lloc ?t) (scanbuf ?st)) = Inr [0x6e, 0x6f, 0x74]" using spec by (auto simp: sample_text_def)
  then show ?thesis using run by blast
qed

text \<open>
  C18: The filter always makes progress. A call in a reachable state returns, and the grammar gets
  the end token or an error after at most two calls more than the text has bytes.
\<close>
theorem base_yylex_reaches_end:
  assumes "scanner_ok match str" "scanner_init str yyext = Inr st"
  shows "\<exists>ts. all_tokens match db conv (st\<lparr>have_lookahead := False\<rparr>) = Some ts \<and> length ts \<le> length str + 2 \<and>
    (case last ts of Inl err \<Rightarrow> True | Inr t \<Rightarrow> code t = 0)"
  using all_tokens_step [OF assms(1) scan_inv_start(1) [OF assms]] scan_inv_start(2) [OF assms]
    filtered_end [of db conv str "lexemes match str 0"] length_lexemes [of match str 0]
  by (intro exI conjI) auto

theorem base_yylex_reaches_end_witness:
  "\<exists>ts. all_tokens sample_match sample_db None (sample_start\<lparr>have_lookahead := False\<rparr>) = Some ts \<and> length ts \<le> 11 \<and>
     (case last ts of Inl err \<Rightarrow> True | Inr t \<Rightarrow> code t = 0)"
proof -
  have "length sample_text + 2 = 11" by code_simp
  then show ?thesis using base_yylex_reaches_end [OF sample_ok sample_init, of sample_db None] by (simp only:)
qed

text \<open>
  C36: A comment hides the token behind it from the filter. When NOT, NULLS or WITH is followed by a
  comment, the keyword is delivered unchanged whatever comes after the comment, although the same
  tokens without the comment give the replaced keyword: the comment is itself a token of the
  scanner and is taken as the lookahead token.
\<close>
theorem comment_hides_lookahead:
  assumes "scanner_ok match str" "reachable match db conv str st"
    "upcoming match str st = Inr (t, e) # Inr (c, e1) # Inr (u, e2) # rest"
    "code t \<in> {NOT_P, NULLS_P, WITH}" "is_comment (code c)"
  shows "(\<exists>st'. base_yylex match db conv st = Some (Inr (t, st'))) \<and>
    next_token db conv str (Inr (t, e) # Inr (u, e2) # rest) =
      Inr (t\<lparr>code := replace_code (code t) (code u)\<rparr>, e, Inr (u, e2) # rest)"
proof -
  have "replace_code (code t) (code c) = code t" "\<not> is_comment (code t)"
    using assms(4,5) by (auto simp: replace_code_def is_comment_def)
  moreover obtain r where "base_yylex match db conv st = Some r" "agrees match str r (next_token db conv str (upcoming match str st))"
    using base_yylex_step [OF assms(1) reachable_inv [OF assms(2,1)]] by blast
  ultimately show ?thesis using assms(3,4) by (auto simp: agrees_def)
qed

theorem comment_hides_lookahead_witness:
  "\<exists>st'. base_yylex sample_match sample_db None sample_start =
     Some (Inr (\<lparr>code = NOT_P, lval = Keyword [0x6e, 0x6f, 0x74], lloc = 0\<rparr>, st'))"
proof -
  have "upcoming sample_match sample_text sample_start =
    [Inr (\<lparr>code = NOT_P, lval = Keyword [0x6e, 0x6f, 0x74], lloc = 0\<rparr>, 3), Inr (\<lparr>code = C_COMMENT, lval = Keyword [], lloc = 3\<rparr>, 7),
     Inr (\<lparr>code = IN_P, lval = Keyword [0x69, 0x6e], lloc = 7\<rparr>, 9), Inr (\<lparr>code = 0, lval = Keyword [], lloc = 9\<rparr>, 9)]"
    by code_simp
  from comment_hides_lookahead [OF sample_ok sample_reachable this, of]
  show ?thesis by (simp add: is_comment_def)
qed

end
