(* ===== verification/Display_Width.thy ===== *)
theory Display_Width
  imports Encodings
begin

text \<open>
  Display widths: the binary search \<open>mbbisearch\<close> in the table of combining characters is the
  membership in one of its intervals, and the widths of every encoding are within their range.
\<close>

section \<open>Binary search\<close>

definition covers :: "pg_wchar \<Rightarrow> mbinterval \<Rightarrow> bool" where
  "covers ucs iv \<longleftrightarrow> ucast (first iv) \<le> ucs \<and> ucs \<le> ucast (mbi_last iv)"

text \<open>Intervals in ascending order, as an executable check and as the order of any two of them.\<close>

fun ascending :: "mbinterval list \<Rightarrow> bool" where
  "ascending [] = True"
| "ascending [iv] = (first iv \<le> mbi_last iv)"
| "ascending (iv # jv # ivs) = (first iv \<le> mbi_last iv \<and> mbi_last iv < first jv \<and> ascending (jv # ivs))"

lemma ascending_proper: "ascending table \<Longrightarrow> k < length table \<Longrightarrow> unat (first (table ! k)) \<le> unat (mbi_last (table ! k))"
proof (induction table arbitrary: k rule: ascending.induct)
  case (3 iv jv ivs)
  then show ?case by (cases k) (auto simp: word_le_nat_alt)
qed (auto simp: word_le_nat_alt)

lemma ascending_order:
  "ascending table \<Longrightarrow> i < j \<Longrightarrow> j < length table \<Longrightarrow> unat (mbi_last (table ! i)) < unat (first (table ! j))"
proof (induction table arbitrary: i j rule: ascending.induct)
  case (3 iv jv ivs)
  obtain j' where j: "j = Suc j'" using "3.prems" by (cases j) auto
  have next_iv: "unat (mbi_last iv) < unat (first jv)" using "3.prems"(1) by (simp add: word_less_nat_alt)
  show ?case
  proof (cases i)
    case 0
    have "unat (first jv) \<le> unat (first ((jv # ivs) ! j'))"
    proof (cases j')
      case (Suc k)
      then have "unat (mbi_last ((jv # ivs) ! 0)) < unat (first ((jv # ivs) ! j'))"
        by (intro "3.IH") (use "3.prems" j in auto)
      then show ?thesis using ascending_proper [of "jv # ivs" 0] "3.prems" by simp
    qed simp
    then show ?thesis using next_iv 0 j by simp
  next
    case (Suc i')
    then show ?thesis using "3.IH" [of i' j'] "3.prems" j by simp
  qed
qed auto

lemma unat_ucast16: "unat (ucast (w :: 16 word) :: 32 word) = unat w"
proof -
  have "unat w < 2 ^ 16" using unsigned_less [of w, where 'a = nat] by simp
  then show ?thesis by (simp add: unsigned_ucast_eq take_bit_nat_eq_self)
qed

lemma covers_unat: "covers ucs iv \<longleftrightarrow> unat (first iv) \<le> unat ucs \<and> unat ucs \<le> unat (mbi_last iv)"
  by (simp add: covers_def word_le_nat_alt unat_ucast16)

lemma bisearch_loop_spec:
  assumes "ascending table" "0 \<le> lo" "hi < int (length table)"
  shows "mbbisearch_loop ucs table lo hi = Inr (\<exists>i. lo \<le> int i \<and> int i \<le> hi \<and> covers ucs (table ! i))"
  using assms
proof (induction ucs table lo hi rule: mbbisearch_loop.induct)
  case (1 ucs table lo hi)
  show ?case
  proof (cases "lo \<le> hi")
    case False
    then show ?thesis by (subst mbbisearch_loop.simps) auto
  next
    case True
    define mid where "mid = (lo + hi) div 2"
    have mid: "lo \<le> mid" "mid \<le> hi" "0 \<le> mid" "mid < int (length table)"
      using True "1.prems"(2,3) by (simp_all add: mid_def)
    define m where "m = nat mid"
    have m: "int m = mid" "m < length table" using mid by (auto simp: m_def)
    have at: "at table mid = Inr (table ! m)" using mid by (simp add: at_def m_def not_less)
    let ?L = "unat (mbi_last (table ! m))" and ?F = "unat (first (table ! m))"
    have below: "\<not> covers ucs (table ! i)" if "?L < unat ucs" "i \<le> m" for i
      using that ascending_order [OF "1.prems"(1), of i m] ascending_proper [OF "1.prems"(1), of m] m(2)
      by (cases "i = m") (auto simp: covers_unat)
    have above: "\<not> covers ucs (table ! i)" if "unat ucs < ?F" "m \<le> i" "int i \<le> hi" for i
      using that ascending_order [OF "1.prems"(1), of m i] ascending_proper [OF "1.prems"(1), of m] "1.prems"(3)
      by (cases "i = m") (auto simp: covers_unat)
    have step: "mbbisearch_loop ucs table lo hi =
        (if ?L < unat ucs then mbbisearch_loop ucs table (mid + 1) hi
         else if unat ucs < ?F then mbbisearch_loop ucs table lo (mid - 1) else Inr True)"
      using True at by (subst mbbisearch_loop.simps)
        (simp add: Let_def word_less_nat_alt unat_ucast16 flip: mid_def)
    consider (right) "?L < unat ucs" | (left) "\<not> ?L < unat ucs" "unat ucs < ?F" | (hit) "\<not> ?L < unat ucs" "\<not> unat ucs < ?F"
      by blast
    then show ?thesis
    proof cases
      case right
      have "mbbisearch_loop ucs table (mid + 1) hi = Inr (\<exists>i. mid + 1 \<le> int i \<and> int i \<le> hi \<and> covers ucs (table ! i))"
        by (rule "1.IH"(1) [OF True mid_def at]) (use right "1.prems" mid in \<open>auto simp: word_less_nat_alt unat_ucast16\<close>)
      moreover have "(\<exists>i. mid + 1 \<le> int i \<and> int i \<le> hi \<and> covers ucs (table ! i)) \<longleftrightarrow>
          (\<exists>i. lo \<le> int i \<and> int i \<le> hi \<and> covers ucs (table ! i))"
      proof -
        have "mid + 1 \<le> int i" if "covers ucs (table ! i)" for i
          using below [OF right, of i] that m(1) by (cases "i \<le> m") auto
        then show ?thesis using mid(1) by force
      qed
      ultimately show ?thesis using step right by simp
    next
      case left
      have "mbbisearch_loop ucs table lo (mid - 1) = Inr (\<exists>i. lo \<le> int i \<and> int i \<le> mid - 1 \<and> covers ucs (table ! i))"
        by (rule "1.IH"(2) [OF True mid_def at]) (use left "1.prems" mid in \<open>auto simp: word_less_nat_alt unat_ucast16\<close>)
      moreover have "(\<exists>i. lo \<le> int i \<and> int i \<le> mid - 1 \<and> covers ucs (table ! i)) \<longleftrightarrow>
          (\<exists>i. lo \<le> int i \<and> int i \<le> hi \<and> covers ucs (table ! i))"
      proof -
        have "int i \<le> mid - 1" if "covers ucs (table ! i)" "int i \<le> hi" for i
          using above [OF left(2), of i] that m(1) by (cases "m \<le> i") auto
        then show ?thesis using mid(2) by force
      qed
      ultimately show ?thesis using step left by simp
    next
      case hit
      then have "covers ucs (table ! m)" by (simp add: covers_unat)
      then have "\<exists>i. lo \<le> int i \<and> int i \<le> hi \<and> covers ucs (table ! i)" using mid m(1) by (intro exI [of _ m]) simp
      then show ?thesis using step hit by simp
    qed
  qed
qed

lemma combining_ascending: "ascending combining"
  by code_simp

lemma length_combining: "length combining = 192"
  by (simp add: combining_def)

lemma mbbisearch_spec:
  assumes "ascending table" "table \<noteq> []"
  shows "mbbisearch ucs table (int (length table) - 1) = Inr (\<exists>iv\<in>set table. covers ucs iv)"
proof -
  let ?n = "length table"
  have ends: "at table 0 = Inr (table ! 0)" "at table (int ?n - 1) = Inr (table ! (?n - 1))"
  proof -
    have "nat (int ?n - 1) = ?n - 1" by linarith
    then show "at table 0 = Inr (table ! 0)" "at table (int ?n - 1) = Inr (table ! (?n - 1))"
      using assms(2) by (auto simp: at_def)
  qed
  have all: "(\<exists>iv\<in>set table. covers ucs iv) \<longleftrightarrow> (\<exists>i. 0 \<le> int i \<and> int i \<le> int ?n - 1 \<and> covers ucs (table ! i))"
    using assms(2) by (auto simp: in_set_conv_nth Bex_def)
  show ?thesis
  proof (cases "unat ucs < unat (first (table ! 0)) \<or> unat (mbi_last (table ! (?n - 1))) < unat ucs")
    case True
    have "\<not> covers ucs (table ! i)" if "i < ?n" for i
    proof -
      have "unat (first (table ! 0)) \<le> unat (first (table ! i))"
        using ascending_order [OF assms(1), of 0 i] ascending_proper [OF assms(1), of 0] that assms(2) by (cases "i = 0") auto
      moreover have "unat (mbi_last (table ! i)) \<le> unat (mbi_last (table ! (?n - 1)))"
      proof (cases "i = ?n - 1")
        case False
        then have "i < ?n - 1" "?n - 1 < ?n" using that by linarith+
        then show ?thesis
          using ascending_order [OF assms(1), of i "?n - 1"] ascending_proper [OF assms(1), of "?n - 1"] by linarith
      qed simp
      ultimately show ?thesis using True by (auto simp: covers_unat)
    qed
    then have "\<not> (\<exists>iv\<in>set table. covers ucs iv)" by (auto simp: in_set_conv_nth)
    then show ?thesis using ends True by (auto simp: mbbisearch_def word_less_nat_alt unat_ucast16)
  next
    case False
    then show ?thesis using ends bisearch_loop_spec [OF assms(1), of 0 "int ?n - 1" ucs] unfolding all
      by (simp add: mbbisearch_def word_less_nat_alt unat_ucast16)
  qed
qed

section \<open>Widths\<close>

lemma ascii_dsplen_range: "s \<noteq> [] \<Longrightarrow> \<exists>w. pg_ascii_dsplen s = Inr w \<and> - 1 \<le> w \<and> w \<le> 2"
  by (auto simp: pg_ascii_dsplen_def)

lemma ucs_wcwidth_range: "\<exists>w. ucs_wcwidth ucs = Inr w \<and> - 1 \<le> w \<and> w \<le> 2"
proof -
  have "mbbisearch ucs combining (int (length combining) - 1) = Inr (\<exists>iv\<in>set combining. covers ucs iv)"
    using length_combining by (intro mbbisearch_spec combining_ascending) auto
  then show ?thesis by (auto simp: ucs_wcwidth_def)
qed

lemma utf_dsplen_range: "4 \<le> length s \<Longrightarrow> \<exists>w. pg_utf_dsplen s = Inr w \<and> - 1 \<le> w \<and> w \<le> 2"
proof -
  assume "4 \<le> length s"
  then have "\<exists>c. utf8_to_unicode s = Inr c" by (auto simp: utf8_to_unicode_def at_def)
  then show ?thesis using ucs_wcwidth_range by (auto simp: pg_utf_dsplen_def)
qed

lemmas dsplen_defs = pg_euc_dsplen_def pg_eucjp_dsplen_def pg_euckr_dsplen_def pg_euccn_dsplen_def pg_euctw_dsplen_def
  pg_johab_dsplen_def pg_mule_dsplen_def pg_latin1_dsplen_def pg_sjis_dsplen_def pg_big5_dsplen_def pg_gbk_dsplen_def
  pg_uhc_dsplen_def pg_gb18030_dsplen_def

lemmas mblen_defs = pg_ascii_mblen_def pg_latin1_mblen_def euc_defs pg_johab_mblen_def pg_mule_mblen_def pg_utf_mblen_def
  pg_sjis_mblen_def pg_big5_mblen_def pg_gbk_mblen_def pg_uhc_mblen_def pg_gb18030_mblen_def

text \<open>
  The binary search of \<open>mbbisearch\<close> in the table of combining characters ends, stays inside the
  table, and answers whether the character lies in one of its intervals.
\<close>
theorem mbbisearch_is_membership:
  "mbbisearch ucs combining (int (length combining) - 1) = Inr (\<exists>iv\<in>set combining. covers ucs iv)"
  using length_combining by (intro mbbisearch_spec combining_ascending) auto

text \<open>
  C40: For every encoding of the table, a pointer with at least four readable bytes gets a character
  length between one and the maximum the table states, and a display width between -1 and 2.
\<close>
theorem table_lengths_in_range:
  assumes "t \<in> set pg_wchar_table" "4 \<le> length s"
  shows "\<exists>l w. mblen t s = Inr l \<and> 1 \<le> l \<and> l \<le> maxmblen t \<and> dsplen t s = Inr w \<and> - 1 \<le> w \<and> w \<le> 2"
proof -
  have ne: "s \<noteq> []" using assms(2) by auto
  obtain w where w: "pg_ascii_dsplen s = Inr w" "- 1 \<le> w" "w \<le> 2" using ascii_dsplen_range [OF ne] by blast
  obtain u where u: "pg_utf_dsplen s = Inr u" "- 1 \<le> u" "u \<le> 2" using utf_dsplen_range [OF assms(2)] by blast
  have at: "at s 1 = Inr (s ! 1)" using assms(2) by (simp add: at_def)
  have "\<exists>l. mblen t s = Inr l \<and> 1 \<le> l \<and> l \<le> maxmblen t"
    using assms(1) ne at unfolding pg_wchar_table_def
    by (auto simp: server_entry_def client_entry_def mblen_defs)
  moreover have "\<exists>w. dsplen t s = Inr w \<and> - 1 \<le> w \<and> w \<le> 2"
    using assms(1) ne w u unfolding pg_wchar_table_def
    by (auto simp: server_entry_def client_entry_def dsplen_defs)
  ultimately show ?thesis by blast
qed

theorem table_lengths_in_range_witness:
  "\<exists>l w. pg_utf_mblen [0xE4, 0xBD, 0xA0, 0] = Inr l \<and> 1 \<le> l \<and> l \<le> 4 \<and>
     pg_utf_dsplen [0xE4, 0xBD, 0xA0, 0] = Inr w \<and> - 1 \<le> w \<and> w \<le> 2"
  using table_lengths_in_range [of "server_entry pg_utf2wchar_with_len pg_wchar2utf_with_len pg_utf_mblen
      pg_utf_dsplen pg_utf8_verifier 4" "[0xE4, 0xBD, 0xA0, 0]"]
  by (simp add: pg_wchar_table_def server_entry_def)

end
