(* ===== verification/Ra_Tree.thy ===== *)
theory Ra_Tree
  imports Pg_Prelude
begin

text \<open>
  Relational algebra trees of the optimizer and its predicate push-down, \<^verbatim>\<open>relational_algebra.h\<close>,
  \<^verbatim>\<open>ra_tree.h\<close> and \<^verbatim>\<open>ra_tree.cc\<close>.

  A node of a plan has an address, so that the comparison of two \<^verbatim>\<open>shared_ptr\<close> is the comparison of
  addresses and an assignment through a pointer changes the node with that address
  (\<open>modify\<close>). A tree is full: a relation has no child, a join two, every other operator one
  (\<^verbatim>\<open>n_children\<close>). Expressions and predicates are values; \<open>Null_Ptr\<close> is the null pointer. The only
  predicate objects the push-down changes are conjunctions it has made itself, so they have
  one owner.
\<close>

section \<open>Data\<close>

datatype Join_Type =
    Cross_Product | Inner | Dependent_Inner_Left | Left | Semi_Left | Semi_Left_Dependent | Anti_Left
  | Anti_Left_Dependent | In_Left | In_Left_Dependent | Anti_In_Left | Anti_In_Left_Dependent | Full_Outer

datatype Bool_Operator = Op_And | Op_Or | Op_Not

datatype Const_DataType = Const_Int | Const_Float | Const_String

datatype Null_Test_Type = Is_Null | Is_Not_Null

datatype Sort_Direction = Order_Default | Order_Asc | Order_Desc

datatype ra_expr =
    Null_Ptr
  | Attribute string string  \<comment> \<open>name, alias\<close>
  | Constant string Const_DataType
  | Expression ra_expr ra_expr string  \<comment> \<open>\<^verbatim>\<open>l_arg\<close>, \<^verbatim>\<open>r_arg\<close>, operator\<close>
  | Func_Call string "ra_expr list" bool bool
  | Type_Cast string string ra_expr
  | Select_Expression ra_expr string
  | Expr_List "ra_expr list"
  | In_List "ra_expr list"
  | Case_When ra_expr ra_expr
  | Case_Expr "ra_expr list" ra_expr
  | Null_Test ra_expr Null_Test_Type
  | Predicate ra_expr ra_expr string
  | Bool_Predicate Bool_Operator "ra_expr list"
  | Where_Subquery_Marker nat Join_Type

record join_node =
  join_predicate :: "ra_expr option"
  join_type :: Join_Type
  join_alias :: string
  join_columns :: "string list"
  right_marker :: nat

record projection_node =
  proj_args :: "ra_expr list"
  subquery_alias :: string
  subquery_columns :: "string list"
  proj_distinct :: bool

datatype leaf_node = Relation string string | Values "ra_expr list" string string | Dummy

datatype unary_node =
    Selection "ra_expr option"
  | Projection projection_node
  | Order_By "ra_expr list" "Sort_Direction list"
  | Group_By "ra_expr list" bool
  | Having ra_expr

datatype ra_node =
    Leaf nat leaf_node
  | Unary nat unary_node ra_node
  | Join nat join_node ra_node ra_node

primrec node_addr :: "ra_node \<Rightarrow> nat" where
  "node_addr (Leaf a l) = a"
| "node_addr (Unary a u c) = a"
| "node_addr (Join a j l r) = a"

primrec child_nodes :: "ra_node \<Rightarrow> ra_node list" where
  "child_nodes (Leaf a l) = []"
| "child_nodes (Unary a u c) = [c]"
| "child_nodes (Join a j l r) = [l, r]"

section \<open>Names\<close>

text \<open>\<^verbatim>\<open>std::to_string\<close> of a marker, which is an unsigned 64-bit number of at most twenty digits.\<close>

fun to_digits :: "nat \<Rightarrow> nat \<Rightarrow> string" where
  "to_digits 0 n = []"
| "to_digits (Suc k) n = (if n < 10 then [char_of (48 + n)] else to_digits k (n div 10) @ [char_of (48 + n mod 10)])"

definition marker_name :: "nat \<Rightarrow> string" where
  "marker_name m = ''marker_'' @ to_digits 20 m"

definition get_tpch_relation_name :: "string \<Rightarrow> string" where
  "get_tpch_relation_name attr_name =
     (let attr_prefix = takeWhile (\<lambda>c. c \<noteq> CHR ''_'') attr_name in
      if attr_prefix = ''p'' then ''part''
      else if attr_prefix = ''s'' then ''supplier''
      else if attr_prefix = ''ps'' then ''partsupp''
      else if attr_prefix = ''c'' then ''customer''
      else if attr_prefix = ''n'' then ''nation''
      else if attr_prefix = ''l'' then ''lineitem''
      else if attr_prefix = ''r'' then ''region''
      else if attr_prefix = ''o'' then ''orders''
      else '''')"

definition get_relation_from_attribute :: "string \<Rightarrow> string \<Rightarrow> string" where
  "get_relation_from_attribute attr_name attr_alias =
     (if length attr_alias > 0 then attr_alias else get_tpch_relation_name attr_name)"

fun get_expression_relations :: "ra_expr \<Rightarrow> string list res" where
  "get_expression_relations Null_Ptr = Inl NullDeref"
| "get_expression_relations (Attribute n a) = Inr [get_relation_from_attribute n a]"
| "get_expression_relations (Expression l r op) =
     bindE (get_expression_relations l) (\<lambda>xs. bindE (get_expression_relations r) (\<lambda>ys. Inr (xs @ ys)))"
| "get_expression_relations (Func_Call f [] agg d) = Inr []"
| "get_expression_relations (Func_Call f (arg # args) agg d) =
     bindE (get_expression_relations arg) (\<lambda>xs.
     bindE (get_expression_relations (Func_Call f args agg d)) (\<lambda>ys. Inr (xs @ ys)))"
| "get_expression_relations (Type_Cast ty tm e) = get_expression_relations e"
| "get_expression_relations (Where_Subquery_Marker m ty) = Inr [marker_name m]"
| "get_expression_relations _ = Inr []"

text \<open>For a node that is not a predicate the code prints a message and collects nothing.\<close>

fun get_predicate_relations :: "ra_expr \<Rightarrow> string list res" where
  "get_predicate_relations Null_Ptr = Inl NullDeref"
| "get_predicate_relations (Predicate l r op) =
     bindE (get_expression_relations l) (\<lambda>xs. bindE (get_expression_relations r) (\<lambda>ys. Inr (xs @ ys)))"
| "get_predicate_relations (Where_Subquery_Marker m ty) = get_expression_relations (Where_Subquery_Marker m ty)"
| "get_predicate_relations (Bool_Predicate b []) = Inr []"
| "get_predicate_relations (Bool_Predicate b (arg # args)) =
     bindE (get_predicate_relations arg) (\<lambda>xs. bindE (get_predicate_relations (Bool_Predicate b args)) (\<lambda>ys. Inr (xs @ ys)))"
| "get_predicate_relations (Null_Test e ty) = get_expression_relations e"
| "get_predicate_relations _ = Inr []"

fun get_relations_aliases :: "ra_node \<Rightarrow> (string \<times> string) list" where
  "get_relations_aliases (Join a j l r) =
     (if length (join_alias j) > 0 then [('''', join_alias j)]
      else if right_marker j \<noteq> 0 then ('''', marker_name (right_marker j)) # get_relations_aliases l
      else get_relations_aliases l @ get_relations_aliases r)"
| "get_relations_aliases (Leaf a (Relation n al)) = [(n, al)]"
| "get_relations_aliases (Leaf a _) = []"
| "get_relations_aliases (Unary a (Projection pr) c) =
     (if subquery_alias pr \<noteq> '''' then [('''', subquery_alias pr)] else get_relations_aliases c)"
| "get_relations_aliases (Unary a _ c) = get_relations_aliases c"

definition has_relations_defined :: "ra_node \<Rightarrow> string list \<Rightarrow> bool" where
  "has_relations_defined node relations =
     list_all (\<lambda>needed. list_ex (\<lambda>(n, al). needed = n \<or> needed = al) (get_relations_aliases node)) relations"

section \<open>Searching the tree\<close>

fun get_all_selections :: "ra_node \<Rightarrow> nat list" where
  "get_all_selections (Leaf a l) = []"
| "get_all_selections (Unary a u c) = (case u of Selection p \<Rightarrow> [a] | _ \<Rightarrow> []) @ get_all_selections c"
| "get_all_selections (Join a j l r) = get_all_selections l @ get_all_selections r"

fun find_node_where_relations_defined :: "ra_node \<Rightarrow> string list \<Rightarrow> ra_node option" where
  "find_node_where_relations_defined (Leaf a l) relations =
     (if has_relations_defined (Leaf a l) relations then Some (Leaf a l) else None)"
| "find_node_where_relations_defined (Unary a u c) relations =
     (if has_relations_defined (Unary a u c) relations
      then (case find_node_where_relations_defined c relations of Some n \<Rightarrow> Some n | None \<Rightarrow> Some (Unary a u c))
      else None)"
| "find_node_where_relations_defined (Join a j l r) relations =
     (if has_relations_defined (Join a j l r) relations
      then (case find_node_where_relations_defined l relations of
              Some n \<Rightarrow> Some n
            | None \<Rightarrow> (case find_node_where_relations_defined r relations of Some n \<Rightarrow> Some n | None \<Rightarrow> Some (Join a j l r)))
      else None)"

text \<open>The parent of a node, with the index of the child. A node may be the direct child of the start.\<close>

fun get_node_parent :: "ra_node \<Rightarrow> nat \<Rightarrow> (nat \<times> nat) option" where
  "get_node_parent (Leaf a l) target = None"
| "get_node_parent (Unary a u c) target = (if node_addr c = target then Some (a, 0) else get_node_parent c target)"
| "get_node_parent (Join a j l r) target =
     (if node_addr l = target then Some (a, 0)
      else if node_addr r = target then Some (a, 1)
      else case get_node_parent l target of Some p \<Rightarrow> Some p | None \<Rightarrow> get_node_parent r target)"

fun node_at :: "ra_node \<Rightarrow> nat \<Rightarrow> ra_node option" where
  "node_at (Leaf a l) b = (if a = b then Some (Leaf a l) else None)"
| "node_at (Unary a u c) b = (if a = b then Some (Unary a u c) else node_at c b)"
| "node_at (Join a j l r) b =
     (if a = b then Some (Join a j l r) else case node_at l b of Some n \<Rightarrow> Some n | None \<Rightarrow> node_at r b)"

fun modify :: "nat \<Rightarrow> (ra_node \<Rightarrow> ra_node) \<Rightarrow> ra_node \<Rightarrow> ra_node" where
  "modify b f (Leaf a l) = (if a = b then f (Leaf a l) else Leaf a l)"
| "modify b f (Unary a u c) = (if a = b then f (Unary a u c) else Unary a u (modify b f c))"
| "modify b f (Join a j l r) = (if a = b then f (Join a j l r) else Join a j (modify b f l) (modify b f r))"

section \<open>Predicates\<close>

text \<open>Nodes other than predicates are reported and left out.\<close>

fun split_selection_predicates :: "ra_expr \<Rightarrow> ra_expr list res" where
  "split_selection_predicates Null_Ptr = Inl NullDeref"
| "split_selection_predicates (Where_Subquery_Marker m ty) = Inr [Where_Subquery_Marker m ty]"
| "split_selection_predicates (Null_Test e ty) = Inr [Null_Test e ty]"
| "split_selection_predicates (Predicate l r op) = Inr [Predicate l r op]"
| "split_selection_predicates (Bool_Predicate Op_And []) = Inr []"
| "split_selection_predicates (Bool_Predicate Op_And (arg # args)) =
     bindE (split_selection_predicates arg) (\<lambda>xs.
     bindE (split_selection_predicates (Bool_Predicate Op_And args)) (\<lambda>ys. Inr (xs @ ys)))"
| "split_selection_predicates (Bool_Predicate b args) = Inr [Bool_Predicate b args]"
| "split_selection_predicates _ = Inr []"

text \<open>
  The new predicate of a selection or join. Behind a predicate of another kind, a subquery marker for
  example, none of the branches applies and the added predicate is lost.
\<close>

fun add_predicate :: "ra_expr \<Rightarrow> ra_expr option \<Rightarrow> ra_expr option" where
  "add_predicate p None = Some p"
| "add_predicate p (Some (Bool_Predicate b args)) =
     (if b = Op_And then Some (Bool_Predicate Op_And (args @ [p]))
      else Some (Bool_Predicate Op_And [Bool_Predicate b args, p]))"
| "add_predicate p (Some (Predicate l r op)) = Some (Bool_Predicate Op_And [Predicate l r op, p])"
| "add_predicate p (Some (Null_Test e ty)) = Some (Bool_Predicate Op_And [Null_Test e ty, p])"
| "add_predicate p (Some q) = Some q"

fun add_predicate_to_selection :: "ra_expr \<Rightarrow> ra_node \<Rightarrow> ra_node" where
  "add_predicate_to_selection p (Unary a (Selection q) c) = Unary a (Selection (add_predicate p q)) c"
| "add_predicate_to_selection p n = n"

fun add_predicate_to_join :: "ra_expr \<Rightarrow> ra_node \<Rightarrow> ra_node" where
  "add_predicate_to_join p (Join a j l r) =
     Join a (j\<lparr>join_type := if join_type j = Cross_Product then Inner else join_type j,
       join_predicate := add_predicate p (join_predicate j)\<rparr>) l r"
| "add_predicate_to_join p n = n"

fun predicate_contains_subquery :: "ra_expr \<Rightarrow> bool res" where
  "predicate_contains_subquery Null_Ptr = Inl NullDeref"
| "predicate_contains_subquery (Bool_Predicate b []) = Inr False"
| "predicate_contains_subquery (Bool_Predicate b (arg # args)) =
     bindE (predicate_contains_subquery arg) (\<lambda>found.
     if found then Inr True else predicate_contains_subquery (Bool_Predicate b args))"
| "predicate_contains_subquery (Predicate l r op) =
     bindE (predicate_contains_subquery l) (\<lambda>found. if found then Inr True else predicate_contains_subquery r)"
| "predicate_contains_subquery (Where_Subquery_Marker m ty) = Inr True"
| "predicate_contains_subquery _ = Inr False"

section \<open>Push-down\<close>

text \<open>The tree and the address the next \<^verbatim>\<open>make_shared\<close> returns.\<close>

type_synonym plan = "ra_node \<times> nat"

fun set_child :: "nat \<Rightarrow> ra_node \<Rightarrow> ra_node \<Rightarrow> ra_node" where
  "set_child i new (Leaf a l) = Leaf a l"
| "set_child i new (Unary a u c) = Unary a u new"
| "set_child i new (Join a j l r) = (if i = 0 then Join a j new r else Join a j l new)"

definition insert_selection :: "nat \<Rightarrow> ra_expr \<Rightarrow> nat \<Rightarrow> ra_node \<Rightarrow> ra_node" where
  "insert_selection new p i parent =
     (case parent of
        Unary a (Selection q) c \<Rightarrow> add_predicate_to_selection p parent
      | _ \<Rightarrow> if i < length (child_nodes parent)
            then set_child i (Unary new (Selection (Some p)) (child_nodes parent ! i)) parent else parent)"

definition find_lowest_child_insert_selection :: "ra_expr \<times> string list \<Rightarrow> nat \<Rightarrow> bool \<Rightarrow> plan \<Rightarrow> (bool \<times> plan) res" where
  "find_lowest_child_insert_selection predicate_relations selection cp_to_join plan =
     (let (p, relations) = predicate_relations; (root, new) = plan in
      case node_at root selection of
        Some (Unary a u c) \<Rightarrow>
          (case find_node_where_relations_defined c relations of
             None \<Rightarrow> Inr (False, plan)
           | Some it \<Rightarrow>
               bindE (case it of
                        Join b j l r \<Rightarrow> if cp_to_join then bindE (predicate_contains_subquery p) (\<lambda>sub. Inr (\<not> sub)) else Inr False
                      | _ \<Rightarrow> Inr False) (\<lambda>to_join.
               if to_join then Inr (True, (modify (node_addr it) (add_predicate_to_join p) root, new))
               else case get_node_parent root (node_addr it) of
                      None \<Rightarrow> Inl OutOfBounds
                    | Some (parent, i) \<Rightarrow> Inr (True, (modify parent (insert_selection new p i) root, Suc new))))
      | _ \<Rightarrow> Inl OutOfBounds)"

fun push_predicates :: "(ra_expr \<times> string list) list \<Rightarrow> nat \<Rightarrow> bool \<Rightarrow> plan \<Rightarrow> plan res" where
  "push_predicates [] selection cp_to_join plan = Inr plan"
| "push_predicates (p_r # rest) selection cp_to_join plan =
     bindE (find_lowest_child_insert_selection p_r selection cp_to_join plan) (\<lambda>(found, (root, new)).
     push_predicates rest selection cp_to_join
       (if found then (root, new) else (modify selection (add_predicate_to_selection (fst p_r)) root, new)))"

definition drop_empty_selection :: "nat \<Rightarrow> plan \<Rightarrow> plan res" where
  "drop_empty_selection selection plan =
     (let (root, new) = plan in
      case node_at root selection of
        Some (Unary a (Selection None) c) \<Rightarrow>
          (case get_node_parent root selection of
             None \<Rightarrow> Inl OutOfBounds
           | Some (parent, i) \<Rightarrow> Inr (modify parent (set_child i c) root, new))
      | _ \<Rightarrow> Inr plan)"

fun push_selections :: "(nat \<times> (ra_expr \<times> string list) list) list \<Rightarrow> bool \<Rightarrow> plan \<Rightarrow> plan res" where
  "push_selections [] cp_to_join plan = Inr plan"
| "push_selections ((selection, ps) # rest) cp_to_join plan =
     bindE (push_predicates ps selection cp_to_join plan) (\<lambda>plan.
     bindE (drop_empty_selection selection plan) (push_selections rest cp_to_join))"

text \<open>The first loop takes the predicates out of the selections and finds the relations they need.\<close>

fun with_relations :: "ra_expr list \<Rightarrow> (ra_expr \<times> string list) list res" where
  "with_relations [] = Inr []"
| "with_relations (p # ps) =
     bindE (get_predicate_relations p) (\<lambda>r. bindE (with_relations ps) (\<lambda>rest. Inr ((p, r) # rest)))"

fun clear_predicate :: "ra_node \<Rightarrow> ra_node" where
  "clear_predicate (Unary a (Selection q) c) = Unary a (Selection None) c"
| "clear_predicate n = n"

fun extract_predicates :: "nat list \<Rightarrow> ra_node \<Rightarrow> ((nat \<times> (ra_expr \<times> string list) list) list \<times> ra_node) res" where
  "extract_predicates [] root = Inr ([], root)"
| "extract_predicates (selection # rest) root =
     (case node_at root selection of
        Some (Unary a (Selection (Some p)) c) \<Rightarrow>
          bindE (split_selection_predicates p) (\<lambda>ps.
          bindE (with_relations ps) (\<lambda>p_rs.
          bindE (extract_predicates rest (modify selection clear_predicate root)) (\<lambda>(out, root).
          Inr ((selection, p_rs) # out, root))))
      | _ \<Rightarrow> Inl NullDeref)"

definition push_down_predicates :: "bool \<Rightarrow> plan \<Rightarrow> plan res" where
  "push_down_predicates cp_to_join plan =
     (let (root, new) = plan in
      bindE (extract_predicates (get_all_selections root) root) (\<lambda>(sels, root).
      push_selections sels cp_to_join (root, new)))"

end
