(* ===== verification/Ra_Pushdown.thy ===== *)
theory Ra_Pushdown
  imports Ra_Tree
begin

text \<open>
  What the predicate push-down of \<^verbatim>\<open>ra_tree.cc\<close> means. A plan is evaluated to a list of rows, a row
  gives a tuple to every relation name, alias and subquery marker that is visible, and an
  outer row is there for correlated subqueries. The tables, the truth of a single
  predicate, the value of a subquery and the operators the push-down never moves a
  predicate through are arguments. On plans that satisfy \<open>pushable\<close> the push-down does not
  change the result, row by row and in the same order; the conditions of \<open>pushable\<close> are the
  ones the code does not check.
\<close>

section \<open>Evaluation\<close>

type_synonym 'v row = "string \<rightharpoonup> 'v"

record 'v semantics =
  table :: "string \<Rightarrow> 'v list"
  truth :: "ra_expr \<Rightarrow> 'v row \<Rightarrow> bool"
  subquery :: "join_node \<Rightarrow> 'v row \<Rightarrow> 'v row list \<Rightarrow> 'v"
  unary_op :: "unary_node \<Rightarrow> ('v row \<Rightarrow> 'v row list) \<Rightarrow> 'v row \<Rightarrow> 'v row list"
  join_op :: "join_node \<Rightarrow> ('v row \<Rightarrow> 'v row list) \<Rightarrow> ('v row \<Rightarrow> 'v row list) \<Rightarrow> 'v row \<Rightarrow> 'v row list"

definition defs :: "ra_node \<Rightarrow> string set" where
  "defs t = fst ` set (get_relations_aliases t) \<union> snd ` set (get_relations_aliases t)"

text \<open>All names that occur in an expression, in contrast to the ones the optimizer collects.\<close>

fun mentions :: "ra_expr \<Rightarrow> string list" where
  "mentions Null_Ptr = []"
| "mentions (Attribute n a) = [get_relation_from_attribute n a]"
| "mentions (Constant d ty) = []"
| "mentions (Expression l r op) = mentions l @ mentions r"
| "mentions (Func_Call f args agg d) = concat (map mentions args)"
| "mentions (Type_Cast ty tm e) = mentions e"
| "mentions (Select_Expression e n) = mentions e"
| "mentions (Expr_List args) = concat (map mentions args)"
| "mentions (In_List args) = concat (map mentions args)"
| "mentions (Case_When w t) = mentions w @ mentions t"
| "mentions (Case_Expr args e) = concat (map mentions args) @ mentions e"
| "mentions (Null_Test e ty) = mentions e"
| "mentions (Predicate l r op) = mentions l @ mentions r"
| "mentions (Bool_Predicate b args) = concat (map mentions args)"
| "mentions (Where_Subquery_Marker m ty) = [marker_name m]"

text \<open>A row passes a conjunction when it passes every part; NULL counts as not passing.\<close>

fun holds :: "'v semantics \<Rightarrow> ra_expr \<Rightarrow> 'v row \<Rightarrow> bool" where
  "holds S (Bool_Predicate Op_And args) r = list_all (\<lambda>p. holds S p r) args"
| "holds S p r = truth S p (r |` set (mentions p))"

definition passes :: "'v semantics \<Rightarrow> ra_expr option \<Rightarrow> 'v row \<Rightarrow> bool" where
  "passes S q r = (case q of None \<Rightarrow> True | Some p \<Rightarrow> holds S p r)"

text \<open>
  Evaluation with predicates that were taken out of their selections and are still to be placed:
  \<open>pend a\<close> are the ones of the selection at address \<open>a\<close>.
\<close>

definition marks :: "join_node \<Rightarrow> bool" where
  "marks j \<longleftrightarrow> join_alias j = '''' \<and> right_marker j \<noteq> 0"

definition multiplies :: "join_node \<Rightarrow> bool" where
  "multiplies j \<longleftrightarrow> join_alias j = '''' \<and> right_marker j = 0 \<and> (join_type j = Cross_Product \<or> join_type j = Inner)"

definition extends_left :: "join_node \<Rightarrow> bool" where
  "extends_left j \<longleftrightarrow> join_alias j = '''' \<and> right_marker j = 0 \<and> join_type j = Left"

definition join_rows :: "'v semantics \<Rightarrow> join_node \<Rightarrow> string set \<Rightarrow> ('v row \<Rightarrow> 'v row list) \<Rightarrow> ('v row \<Rightarrow> 'v row list) \<Rightarrow> 'v row \<Rightarrow> 'v row list" where
  "join_rows S j vis L R env =
     (if marks j then map (\<lambda>x. x(marker_name (right_marker j) \<mapsto> subquery S j (env ++ x) (R (env ++ x)))) (L env)
      else if multiplies j
      then filter (\<lambda>z. passes S (join_predicate j) (env ++ z)) (concat (map (\<lambda>x. map (\<lambda>y. x ++ y) (R env)) (L env)))
      else if extends_left j
      then concat (map (\<lambda>x. let partners = filter (\<lambda>y. passes S (join_predicate j) (env ++ (x ++ y))) (R env) in
             if partners = [] then [x] else map (\<lambda>y. x ++ y) partners) (L env))
      else map (\<lambda>z. z |` vis) (join_op S j L R env))"

fun evalp :: "'v semantics \<Rightarrow> (nat \<Rightarrow> ra_expr list) \<Rightarrow> ra_node \<Rightarrow> 'v row \<Rightarrow> 'v row list" where
  "evalp S pend (Leaf a l) env =
     (case l of Relation n al \<Rightarrow> map (\<lambda>v x. if x = n \<or> x = al then Some v else None) (table S n) | _ \<Rightarrow> [Map.empty])"
| "evalp S pend (Unary a u c) env =
     (case u of
        Selection q \<Rightarrow> filter (\<lambda>z. passes S q (env ++ z) \<and> list_all (\<lambda>p. holds S p (env ++ z)) (pend a)) (evalp S pend c env)
      | _ \<Rightarrow> map (\<lambda>z. z |` defs (Unary a u c)) (unary_op S u (evalp S pend c) env))"
| "evalp S pend (Join a j l r) env = join_rows S j (defs (Join a j l r)) (evalp S pend l) (evalp S pend r) env"

definition eval :: "'v semantics \<Rightarrow> ra_node \<Rightarrow> 'v row \<Rightarrow> 'v row list" where
  "eval S t = evalp S (\<lambda>a. []) t"

section \<open>Names and rows\<close>

lemma has_relations_defined_iff: "has_relations_defined t rs \<longleftrightarrow> set rs \<subseteq> defs t"
proof -
  have "list_ex (\<lambda>(n, al). x = n \<or> x = al) L \<longleftrightarrow> x \<in> fst ` set L \<union> snd ` set L" for x :: string and L
    by (induction L) auto
  then show ?thesis by (auto simp: has_relations_defined_def defs_def list_all_iff)
qed

lemma defs_simps:
  "defs (Leaf a (Relation n al)) = {n, al}" "defs (Leaf a (Values vs al col)) = {}" "defs (Leaf a Dummy) = {}"
  "defs (Unary a (Selection q) c) = defs c"
  "marks j \<Longrightarrow> defs (Join a j l r) = insert '''' (insert (marker_name (right_marker j)) (defs l))"
  "multiplies j \<or> extends_left j \<Longrightarrow> defs (Join a j l r) = defs l \<union> defs r"
  by (auto simp: defs_def marks_def multiplies_def extends_left_def)

lemma holds_cong:
  "(\<And>x. x \<in> set (mentions p) \<Longrightarrow> r x = r' x) \<Longrightarrow> holds S p r = holds S p r'"
proof (induction S p r arbitrary: r' rule: holds.induct)
  case (1 S args r)
  have "holds S p r = holds S p r'" if "p \<in> set args" for p
    by (rule 1(1) [OF that]) (use 1(2) that in auto)
  then show ?case by (simp add: list_all_iff)
qed (auto intro!: arg_cong [where f = "truth _ _"] simp: restrict_map_def fun_eq_iff)

lemma evalp_dom: "z \<in> set (evalp S pend t env) \<Longrightarrow> dom z \<subseteq> defs t"
proof (induction S pend t env arbitrary: z rule: evalp.induct)
  case (1 S pend a l env)
  then show ?case by (auto simp: defs_simps split: leaf_node.splits if_splits)
next
  case (2 S pend a u c env)
  then show ?case by (cases u) (auto simp: defs_simps dom_def restrict_map_def split: if_splits)
next
  case (3 S pend a j l r env)
  have l: "dom x \<subseteq> defs l" if "x \<in> set (evalp S pend l env)" for x using 3(1) that by (auto simp: join_rows_def)
  have r: "dom y \<subseteq> defs r" if "y \<in> set (evalp S pend r env)" for y env using 3(2) that by (auto simp: join_rows_def)
  show ?case
  proof (cases "marks j \<or> multiplies j \<or> extends_left j")
    case False
    then obtain w where "z = w |` defs (Join a j l r)" using 3(3) by (auto simp: join_rows_def)
    then show ?thesis by simp
  next
    case True
    consider x v where "marks j" "x \<in> set (evalp S pend l env)" "z = x(marker_name (right_marker j) \<mapsto> v)"
      | x y where "multiplies j \<or> extends_left j" "x \<in> set (evalp S pend l env)" "y \<in> set (evalp S pend r env)" "z = x ++ y"
      | "extends_left j" "z \<in> set (evalp S pend l env)"
      using True 3(3) by (auto simp: join_rows_def Let_def split: if_splits)
    then show ?thesis
    proof cases
      case (1 x v)
      then have "dom z = insert (marker_name (right_marker j)) (dom x)" by simp
      then show ?thesis using l [of x] 1(1,2) by (auto simp: defs_simps)
    next
      case (2 x y)
      then show ?thesis using l [of x] r [of y env] by (auto simp: defs_simps)
    next
      case 3
      then show ?thesis using l [of z] by (auto simp: defs_simps)
    qed
  qed
qed

section \<open>Structure\<close>

primrec ids :: "ra_node \<Rightarrow> nat list" where
  "ids (Leaf a l) = [a]"
| "ids (Unary a u c) = a # ids c"
| "ids (Join a j l r) = a # ids l @ ids r"

text \<open>A plan without its selections and addresses.\<close>

fun skeleton :: "ra_node \<Rightarrow> ra_node" where
  "skeleton (Leaf a l) = Leaf 0 l"
| "skeleton (Unary a u c) = (case u of Selection q \<Rightarrow> skeleton c | _ \<Rightarrow> Unary 0 u (skeleton c))"
| "skeleton (Join a j l r) = Join 0 j (skeleton l) (skeleton r)"

text \<open>The selections with the skeletons below them, and the condition that their predicates can be extended.\<close>

fun selections :: "ra_node \<Rightarrow> (nat \<times> ra_node) set" where
  "selections (Leaf a l) = {}"
| "selections (Unary a u c) = (case u of Selection q \<Rightarrow> {(a, skeleton c)} | _ \<Rightarrow> {}) \<union> selections c"
| "selections (Join a j l r) = selections l \<union> selections r"

definition conjunct :: "ra_expr \<Rightarrow> bool" where
  "conjunct p \<longleftrightarrow> (case p of Predicate l r op \<Rightarrow> True | Null_Test e ty \<Rightarrow> True | Bool_Predicate b args \<Rightarrow> True | _ \<Rightarrow> False)"

fun extensible :: "ra_node \<Rightarrow> bool" where
  "extensible (Leaf a l) = True"
| "extensible (Unary a u c) \<longleftrightarrow> (case u of Selection (Some q) \<Rightarrow> conjunct q | _ \<Rightarrow> True) \<and> extensible c"
| "extensible (Join a j l r) \<longleftrightarrow> extensible l \<and> extensible r"

text \<open>
  Where a predicate that needs the names \<open>N\<close> may be placed at the lowest node that defines
  them. A subquery in FROM with an alias and a join with an alias are not entered, which fails
  in the code when the alias is also a name inside. A name is not on both sides of a join,
  and not only on the inner side of an outer join.
\<close>

fun pushable :: "string set \<Rightarrow> ra_node \<Rightarrow> bool" where
  "pushable N (Leaf a l) = True"
| "pushable N (Unary a u c) =
     (case u of Selection q \<Rightarrow> pushable N c | _ \<Rightarrow> N \<subseteq> defs (Unary a u c) \<longrightarrow> \<not> N \<subseteq> defs c)"
| "pushable N (Join a j l r) =
     (N \<subseteq> defs (Join a j l r) \<longrightarrow>
      (if N \<subseteq> defs l
       then pushable N l \<and> (if marks j then marker_name (right_marker j) \<notin> N else (multiplies j \<or> extends_left j) \<and> N \<inter> defs r = {})
       else if N \<subseteq> defs r then multiplies j \<and> pushable N r \<and> N \<inter> defs l = {}
       else True))"

lemma skeleton_names: "get_relations_aliases (skeleton t) = get_relations_aliases t"
proof (induction t)
  case (Leaf a l)
  then show ?case by (cases l) auto
next
  case (Unary a u c)
  then show ?case by (cases u) auto
qed auto

lemma skeleton_defs: "defs (skeleton t) = defs t"
  by (simp add: defs_def skeleton_names)

lemma skeleton_pushable: "pushable N (skeleton t) = pushable N t"
proof (induction t)
  case (Unary a u c)
  have "defs (Unary 0 u (skeleton c)) = defs (Unary a u c)" by (cases u) (auto simp: defs_def skeleton_names)
  then show ?case using Unary by (cases u) (auto simp: skeleton_defs defs_simps)
next
  case (Join a j l r)
  have "defs (Join 0 j (skeleton l) (skeleton r)) = defs (Join a j l r)" by (auto simp: defs_def skeleton_names)
  then show ?case using Join by (simp add: skeleton_defs)
qed simp

lemma addr_in_ids: "node_addr t \<in> set (ids t)"
  by (cases t) auto

lemma node_at_None: "node_at t a = None \<longleftrightarrow> a \<notin> set (ids t)"
  by (induction t) (auto split: option.splits)

lemma node_at_Some: "node_at t a = Some n \<Longrightarrow> node_addr n = a \<and> set (ids n) \<subseteq> set (ids t) \<and> selections n \<subseteq> selections t"
  by (induction t) (auto split: if_splits option.splits)

lemma modify_other: "a \<notin> set (ids t) \<Longrightarrow> modify a f t = t"
  by (induction t) auto

lemma selections_ids: "(a, K) \<in> selections t \<Longrightarrow> a \<in> set (ids t)"
  by (induction t) (auto split: unary_node.splits)

lemma selections_node:
  assumes "distinct (ids t)" "(a, K) \<in> selections t"
  shows "\<exists>q c. node_at t a = Some (Unary a (Selection q) c) \<and> skeleton c = K"
  using assms
proof (induction t)
  case (Unary b u c)
  then show ?case using selections_ids [of a K c] by (cases u) auto
next
  case (Join b j l r)
  show ?case
  proof (cases "(a, K) \<in> selections l")
    case True
    then show ?thesis using Join.IH(1) Join.prems(1) selections_ids [OF True] by auto
  next
    case False
    then have r: "(a, K) \<in> selections r" using Join.prems by auto
    then have "a \<notin> set (ids l)" "a \<noteq> b" using selections_ids [OF r] Join.prems(1) by auto
    then show ?thesis using Join.IH(2) Join.prems(1) r node_at_None [of l a] by auto
  qed
qed auto

text \<open>One change of the plan: \<open>X\<close> are new addresses, \<open>Y\<close> the selections that may be gone.\<close>

definition refines :: "'v semantics \<Rightarrow> nat set \<Rightarrow> (nat \<times> ra_node) set \<Rightarrow> (nat \<Rightarrow> ra_expr list) \<Rightarrow> ra_node \<Rightarrow> (nat \<Rightarrow> ra_expr list) \<Rightarrow> ra_node \<Rightarrow> bool" where
  "refines S X Y pend t pend' t' \<longleftrightarrow>
     distinct (ids t') \<and> set (ids t') \<subseteq> set (ids t) \<union> X \<and> skeleton t' = skeleton t \<and> node_addr t' = node_addr t \<and>
     selections t \<subseteq> selections t' \<union> Y \<and> (extensible t \<longrightarrow> extensible t') \<and> evalp S pend' t' = evalp S pend t"

lemma evalp_pend: "(\<And>b. b \<in> set (ids t) \<Longrightarrow> pend b = pend' b) \<Longrightarrow> evalp S pend t = evalp S pend' t"
proof (induction t)
  case (Unary a u c)
  then have "evalp S pend c = evalp S pend' c" "pend a = pend' a" by auto
  then show ?case by (intro ext) (auto split: unary_node.splits)
next
  case (Join a j l r)
  then have "evalp S pend l = evalp S pend' l" "evalp S pend r = evalp S pend' r" by auto
  then show ?case by (intro ext) simp
qed (intro ext, simp)

lemma skeleton_evalp_Unary:
  assumes "evalp S pend' c' = evalp S pend c" "skeleton c' = skeleton c" "pend' a = pend a"
  shows "evalp S pend' (Unary a u c') = evalp S pend (Unary a u c)" "skeleton (Unary a u c') = skeleton (Unary a u c)"
proof -
  have "defs (Unary a u c') = defs (Unary a u c)"
    using assms(2) by (cases u) (auto simp: defs_def skeleton_names [symmetric, of c] skeleton_names [symmetric, of c'])
  then show "evalp S pend' (Unary a u c') = evalp S pend (Unary a u c)" using assms(1,3) by (intro ext) (auto split: unary_node.splits)
  show "skeleton (Unary a u c') = skeleton (Unary a u c)" using assms(2) by (cases u) auto
qed

lemma skeleton_evalp_Join:
  assumes "evalp S pend' l' = evalp S pend l" "skeleton l' = skeleton l" "evalp S pend' r' = evalp S pend r" "skeleton r' = skeleton r"
  shows "evalp S pend' (Join a j l' r') = evalp S pend (Join a j l r)" "skeleton (Join a j l' r') = skeleton (Join a j l r)"
proof -
  have "defs (Join a j l' r') = defs (Join a j l r)"
    using assms(2,4) by (auto simp: defs_def simp flip: skeleton_names [of l] skeleton_names [of l'] skeleton_names [of r] skeleton_names [of r'])
  then show "evalp S pend' (Join a j l' r') = evalp S pend (Join a j l r)" using assms(1,3) by (intro ext) simp
  show "skeleton (Join a j l' r') = skeleton (Join a j l r)" using assms by simp
qed

lemma refines_modify:
  assumes "distinct (ids t)" "node_at t a = Some n" "refines S X Y pend n pend' (f n)" "X \<inter> set (ids t) = {}"
    "\<And>b. b \<in> set (ids t) \<Longrightarrow> b \<notin> set (ids n) \<Longrightarrow> pend' b = pend b"
  shows "refines S X Y pend t pend' (modify a f t)"
  using assms
proof (induction t)
  case (Leaf b l)
  then show ?case by (simp split: if_splits)
next
  case (Unary b u c)
  show ?case
  proof (cases "a = b")
    case True
    then show ?thesis using Unary.prems by auto
  next
    case False
    then have n: "node_at c a = Some n" using Unary.prems(2) by simp
    have "b \<notin> set (ids n)" using node_at_Some [OF n] Unary.prems(1) by auto
    then have b: "pend' b = pend b" using Unary.prems(5) by simp
    have IH: "refines S X Y pend c pend' (modify a f c)" using Unary n by auto
    then have c: "evalp S pend' (modify a f c) = evalp S pend c" "skeleton (modify a f c) = skeleton c" by (auto simp: refines_def)
    have "b \<notin> set (ids (modify a f c))" using IH Unary.prems(1,4) by (auto simp: refines_def)
    then show ?thesis using IH False skeleton_evalp_Unary [OF c b] by (auto simp: refines_def split: unary_node.splits option.splits)
  qed
next
  case (Join b j l r)
  show ?case
  proof (cases "a = b")
    case True
    then show ?thesis using Join.prems by auto
  next
    case ne: False
    show ?thesis
    proof (cases "a \<in> set (ids l)")
      case True
      then have n: "node_at l a = Some n" and r: "modify a f r = r"
        using Join.prems(1,2) ne modify_other [of a r f] node_at_None [of l a] by (auto split: option.splits)
      have IH: "refines S X Y pend l pend' (modify a f l)" using Join.IH(1) Join.prems n by auto
      have "evalp S pend' r = evalp S pend r"
        by (rule evalp_pend) (use Join.prems(1,5) node_at_Some [OF n] in auto)
      then have eq: "evalp S pend' (Join b j (modify a f l) r) = evalp S pend (Join b j l r)" "skeleton (modify a f l) = skeleton l"
        using IH by (auto intro!: skeleton_evalp_Join simp: refines_def)
      then show ?thesis using IH Join.prems(1,4) ne r by (auto simp: refines_def)
    next
      case False
      then have n: "node_at r a = Some n" and l: "modify a f l = l"
        using Join.prems(2) ne modify_other [of a l f] node_at_None [of l a] by auto
      have IH: "refines S X Y pend r pend' (modify a f r)" using Join.IH(2) Join.prems n by auto
      have "evalp S pend' l = evalp S pend l"
        by (rule evalp_pend) (use Join.prems(1,5) node_at_Some [OF n] in auto)
      then have eq: "evalp S pend' (Join b j l (modify a f r)) = evalp S pend (Join b j l r)" "skeleton (modify a f r) = skeleton r"
        using IH by (auto intro!: skeleton_evalp_Join simp: refines_def)
      then show ?thesis using IH Join.prems(1,4) ne l by (auto simp: refines_def)
    qed
  qed
qed

lemma parent_outside: "x \<notin> set (ids t) \<Longrightarrow> get_node_parent t x = None"
proof (induction t)
  case (Unary a u c)
  then show ?case using addr_in_ids [of c] by auto
next
  case (Join a j l r)
  then show ?case using addr_in_ids [of l] addr_in_ids [of r] by auto
qed simp

lemma parent_exists:
  assumes "distinct (ids t)" "x \<in> set (ids t)" "x \<noteq> node_addr t"
  shows "\<exists>par i m. get_node_parent t x = Some (par, i) \<and> par \<in> set (ids t) \<and> node_at t par = Some m \<and> i < length (child_nodes m) \<and>
    node_at t x = Some (child_nodes m ! i)"
  using assms
proof (induction t)
  case (Unary a u c)
  have c: "node_at c (node_addr c) = Some c" by (cases c) auto
  show ?case
  proof (cases "x = node_addr c")
    case True
    then show ?thesis using Unary.prems c by auto
  next
    case False
    then obtain par i m where m: "get_node_parent c x = Some (par, i)" "par \<in> set (ids c)" "node_at c par = Some m" "i < length (child_nodes m)"
      "node_at c x = Some (child_nodes m ! i)" using Unary by auto
    then show ?thesis using Unary.prems False by auto
  qed
next
  case (Join a j l r)
  have self: "node_at t (node_addr t) = Some t" for t by (cases t) auto
  have l: "node_at l y = None" if "y \<in> set (ids r)" for y using that Join.prems(1) node_at_None [of l y] by auto
  consider "x = node_addr l" | "x = node_addr r" | "x \<in> set (ids l)" "x \<noteq> node_addr l" "x \<noteq> node_addr r"
    | "x \<in> set (ids r)" "x \<noteq> node_addr l" "x \<noteq> node_addr r" using Join.prems by auto
  then show ?case
  proof cases
    case 1
    then show ?thesis using Join.prems self [of l] by auto
  next
    case 2
    then show ?thesis using Join.prems self [of r] l [OF addr_in_ids [of r]] addr_in_ids [of r] addr_in_ids [of l] by auto
  next
    case 3
    then obtain par i m where m: "get_node_parent l x = Some (par, i)" "par \<in> set (ids l)" "node_at l par = Some m" "i < length (child_nodes m)"
      "node_at l x = Some (child_nodes m ! i)" using Join by auto
    then show ?thesis using Join.prems 3 by auto
  next
    case 4
    then obtain par i m where m: "get_node_parent r x = Some (par, i)" "par \<in> set (ids r)" "node_at r par = Some m" "i < length (child_nodes m)"
      "node_at r x = Some (child_nodes m ! i)" using Join by auto
    moreover have "get_node_parent l x = None" using 4 Join.prems(1) by (intro parent_outside) auto
    ultimately show ?thesis using Join.prems 4 l [of x] l [of par] by auto
  qed
qed simp

lemma node_at_below: "distinct (ids t) \<Longrightarrow> node_at t a = Some n \<Longrightarrow> a \<noteq> node_addr t \<Longrightarrow> node_addr t \<notin> set (ids n)"
proof (induction t)
  case (Unary b u c)
  then show ?case using node_at_Some [of c a n] by auto
next
  case (Join b j l r)
  then show ?case using node_at_Some [of l a n] node_at_Some [of r a n] by (auto split: option.splits)
qed auto

lemma parent_in_subtree:
  assumes "distinct (ids t)" "node_at t a = Some n" "x \<in> set (ids n)" "x \<noteq> a"
  shows "get_node_parent t x = get_node_parent n x"
  using assms
proof (induction t)
  case (Leaf b l)
  then show ?case by (auto split: if_splits)
next
  case (Unary b u c)
  show ?case
  proof (cases "a = b")
    case False
    then have n: "node_at c a = Some n" using Unary.prems by simp
    have "x \<noteq> node_addr c"
    proof (cases "a = node_addr c")
      case False
      then show ?thesis using node_at_below [OF _ n False] Unary.prems(1,3) by auto
    qed (use Unary.prems(4) in simp)
    then show ?thesis using Unary n by auto
  qed (use Unary.prems in auto)
next
  case (Join b j l r)
  show ?case
  proof (cases "a = b")
    case ne: False
    have top: "x \<noteq> node_addr t" if "distinct (ids t)" "node_at t a = Some n" for t
      using node_at_below [OF that] Join.prems(3,4) by metis
    show ?thesis
    proof (cases "node_at l a")
      case None
      then have n: "node_at r a = Some n" using Join.prems(2) ne by simp
      then have x: "x \<in> set (ids r)" "x \<notin> set (ids l)" using node_at_Some [OF n] Join.prems(1,3) by auto
      then have "x \<noteq> node_addr l" using addr_in_ids [of l] by auto
      then show ?thesis using Join n x parent_outside [OF x(2)] top [OF _ n] by auto
    next
      case (Some m)
      then have n: "node_at l a = Some n" using Join.prems(2) ne by simp
      then have x: "x \<in> set (ids l)" "x \<notin> set (ids r)" using node_at_Some [OF n] Join.prems(1,3) by auto
      then have "x \<noteq> node_addr r" using addr_in_ids [of r] by auto
      then show ?thesis using Join n x parent_outside [OF x(2)] top [OF _ n] by (auto split: option.splits)
    qed
  qed (use Join.prems in auto)
qed

lemma modify_in_subtree:
  assumes "distinct (ids t)" "node_at t a = Some n" "b \<in> set (ids n)"
  shows "modify b f t = modify a (modify b f) t"
  using assms
proof (induction t)
  case (Unary d u c)
  then show ?case
  proof (cases "a = d")
    case False
    then have n: "node_at c a = Some n" using Unary.prems by simp
    then have "b \<noteq> d" using node_at_Some [OF n] Unary.prems(1,3) by auto
    then show ?thesis using Unary False n by auto
  qed auto
next
  case (Join d j l r)
  show ?case
  proof (cases "a = d")
    case ne: False
    show ?thesis
    proof (cases "node_at l a")
      case None
      then have n: "node_at r a = Some n" using Join.prems(2) ne by simp
      then have "b \<in> set (ids r)" "a \<in> set (ids r)" using node_at_Some [OF n] Join.prems(3) node_at_None [of r a] by auto
      then have "b \<notin> set (ids l)" "a \<notin> set (ids l)" "b \<noteq> d" using Join.prems(1) by auto
      then show ?thesis using Join n ne by (auto simp: modify_other)
    next
      case (Some m)
      then have n: "node_at l a = Some n" using Join.prems(2) ne by simp
      then have "b \<in> set (ids l)" "a \<in> set (ids l)" using node_at_Some [OF n] Join.prems(3) node_at_None [of l a] by auto
      then have "b \<notin> set (ids r)" "a \<notin> set (ids r)" "b \<noteq> d" using Join.prems(1) by auto
      then show ?thesis using Join n ne by (auto simp: modify_other)
    qed
  qed auto
qed auto

section \<open>Placing one predicate\<close>

lemma find_node_None: "find_node_where_relations_defined t rs = None \<longleftrightarrow> \<not> set rs \<subseteq> defs t"
  by (cases t) (auto simp: has_relations_defined_iff split: option.splits)

lemma find_node_in: "find_node_where_relations_defined t rs = Some it \<Longrightarrow> node_addr it \<in> set (ids t)"
  by (induction t) (auto split: if_splits option.splits)

lemma holds_hidden:
  assumes "set (mentions p) \<subseteq> N" "dom y \<inter> N = {}"
  shows "holds S p (env ++ (x ++ y)) = holds S p (env ++ x)"
proof (rule holds_cong)
  fix n assume "n \<in> set (mentions p)"
  then have "y n = None" using assms by auto
  then show "(env ++ (x ++ y)) n = (env ++ x) n" by (simp add: map_add_def)
qed

lemma holds_covered:
  assumes "set (mentions p) \<subseteq> N" "dom x \<inter> N = {}"
  shows "holds S p (env ++ (x ++ y)) = holds S p (env ++ y)"
proof (rule holds_cong)
  fix n assume "n \<in> set (mentions p)"
  then have "x n = None" using assms by auto
  then show "(env ++ (x ++ y)) n = (env ++ y) n" by (simp add: map_add_def split: option.splits)
qed

lemma holds_upd:
  assumes "set (mentions p) \<subseteq> N" "m \<notin> N"
  shows "holds S p ((env ++ x)(m \<mapsto> v)) = holds S p (env ++ x)"
proof (rule holds_cong)
  fix n assume "n \<in> set (mentions p)"
  then have "n \<noteq> m" using assms by auto
  then show "((env ++ x)(m \<mapsto> v)) n = (env ++ x) n" by simp
qed

lemma filter_concat_map: "filter P (concat (map f xs)) = concat (map (\<lambda>x. filter P (f x)) xs)"
  by (induction xs) auto

lemma concat_map_filter: "concat (map f (filter P xs)) = concat (map (\<lambda>x. if P x then f x else []) xs)"
  by (induction xs) auto

lemma join_rows_left:
  assumes N: "set (mentions p) \<subseteq> N"
    and j: "if marks j then marker_name (right_marker j) \<notin> N else (multiplies j \<or> extends_left j) \<and> N \<inter> A = {}"
    and R: "\<And>env y. y \<in> set (R env) \<Longrightarrow> dom y \<subseteq> A"
  shows "join_rows S j vis (\<lambda>env. filter (\<lambda>x. holds S p (env ++ x)) (L env)) R env =
    filter (\<lambda>z. holds S p (env ++ z)) (join_rows S j vis L R env)"
proof (cases "marks j")
  case True
  then show ?thesis using j by (simp add: join_rows_def filter_map comp_def holds_upd [OF N])
next
  case False
  then have A: "N \<inter> A = {}" using j by simp
  have pr: "holds S p (env ++ (x ++ y)) = holds S p (env ++ x)" if "y \<in> set (R env)" for x y env
    by (rule holds_hidden [OF N]) (use A R [OF that] in blast)
  show ?thesis
  proof (cases "multiplies j")
    case True
    have "filter (\<lambda>z. holds S p (env ++ z)) (map (\<lambda>y. x ++ y) (R env)) = (if holds S p (env ++ x) then map (\<lambda>y. x ++ y) (R env) else [])" for x
      using pr by (auto simp: filter_map comp_def filter_empty_conv intro!: filter_True)
    then have eq: "filter (\<lambda>z. holds S p (env ++ z)) (concat (map (\<lambda>x. map (\<lambda>y. x ++ y) (R env)) (L env))) =
      concat (map (\<lambda>x. map (\<lambda>y. x ++ y) (R env)) (filter (\<lambda>x. holds S p (env ++ x)) (L env)))"
      by (simp add: filter_concat_map concat_map_filter)
    show ?thesis using False True by (simp add: join_rows_def flip: eq) (simp add: conj_commute)
  next
    case neg: False
    then have left: "extends_left j" using j False by simp
    let ?part = "\<lambda>x. filter (\<lambda>y. passes S (join_predicate j) (env ++ (x ++ y))) (R env)"
    let ?rows = "\<lambda>x. if ?part x = [] then [x] else map (\<lambda>y. x ++ y) (?part x)"
    have "filter (\<lambda>z. holds S p (env ++ z)) (?rows x) = (if holds S p (env ++ x) then ?rows x else [])" for x
      using pr by (auto simp: filter_map comp_def filter_empty_conv simp del: filter_filter intro!: filter_True)
    then have "filter (\<lambda>z. holds S p (env ++ z)) (concat (map ?rows (L env))) = concat (map ?rows (filter (\<lambda>x. holds S p (env ++ x)) (L env)))"
      by (simp only: filter_concat_map concat_map_filter)
    then show ?thesis using False neg left by (simp only: join_rows_def Let_def if_True if_False)
  qed
qed

lemma join_rows_right:
  assumes N: "set (mentions p) \<subseteq> N" and j: "multiplies j" "N \<inter> A = {}"
    and L: "\<And>env x. x \<in> set (L env) \<Longrightarrow> dom x \<subseteq> A"
  shows "join_rows S j vis L (\<lambda>env. filter (\<lambda>y. holds S p (env ++ y)) (R env)) env =
    filter (\<lambda>z. holds S p (env ++ z)) (join_rows S j vis L R env)"
proof -
  have "\<not> marks j" using j(1) by (auto simp: marks_def multiplies_def)
  have pr: "holds S p (env ++ (x ++ y)) = holds S p (env ++ y)" if "x \<in> set (L env)" for x y env
    by (rule holds_covered [OF N]) (use j(2) L [OF that] in blast)
  have eq: "filter (\<lambda>z. holds S p (env ++ z)) (concat (map (\<lambda>x. map (\<lambda>y. x ++ y) (R env)) (L env))) =
    concat (map (\<lambda>x. map (\<lambda>y. x ++ y) (filter (\<lambda>y. holds S p (env ++ y)) (R env))) (L env))"
    unfolding filter_concat_map using pr
    by (intro arg_cong [where f = concat] map_cong refl) (simp add: filter_map comp_def)
  show ?thesis using j(1) \<open>\<not> marks j\<close> by (simp add: join_rows_def flip: eq) (simp add: conj_commute)
qed

lemma passes_add:
  assumes "case q of None \<Rightarrow> True | Some q' \<Rightarrow> conjunct q'" "conjunct p"
  shows "passes S (add_predicate p q) r \<longleftrightarrow> passes S q r \<and> holds S p r"
    "\<exists>q'. add_predicate p q = Some q' \<and> conjunct q'"
proof -
  show "passes S (add_predicate p q) r \<longleftrightarrow> passes S q r \<and> holds S p r"
  proof (cases q)
    case (Some q')
    then show ?thesis using assms(1) by (cases q') (auto simp: passes_def conjunct_def)
  qed (simp add: passes_def)
  show "\<exists>q'. add_predicate p q = Some q' \<and> conjunct q'"
  proof (cases q)
    case (Some q')
    then show ?thesis using assms(1) by (cases q') (auto simp: conjunct_def)
  qed (simp add: assms(2))
qed

definition placed :: "'v semantics \<Rightarrow> nat \<Rightarrow> ra_expr \<Rightarrow> (nat \<Rightarrow> ra_expr list) \<Rightarrow> ra_node \<Rightarrow> ra_node \<Rightarrow> bool" where
  "placed S new p pend c c' \<longleftrightarrow>
     distinct (ids c') \<and> set (ids c') \<subseteq> insert new (set (ids c)) \<and> skeleton c' = skeleton c \<and> selections c \<subseteq> selections c' \<and>
     extensible c' \<and> evalp S pend c' = (\<lambda>env. filter (\<lambda>z. holds S p (env ++ z)) (evalp S pend c env))"

text \<open>What the insertion makes of a subtree: a selection above it or somewhere inside.\<close>

definition target :: "nat \<Rightarrow> ra_expr \<Rightarrow> ra_node \<Rightarrow> ra_node \<Rightarrow> ra_node" where
  "target new p it c =
     (if node_addr it = node_addr c then Unary new (Selection (Some p)) c
      else case get_node_parent c (node_addr it) of None \<Rightarrow> c | Some (par, i) \<Rightarrow> modify par (insert_selection new p i) c)"

lemma placed_above:
  assumes "distinct (ids c)" "new \<notin> set (ids c)" "pend new = []" "extensible c" "conjunct p"
  shows "placed S new p pend c (Unary new (Selection (Some p)) c)"
  using assms by (auto simp: placed_def passes_def)

lemma target_Selection:
  assumes "distinct (ids (Unary a (Selection q) c))" "find_node_where_relations_defined c rs = Some it"
  shows "target new p it (Unary a (Selection q) c) =
    (if node_addr it = node_addr c then Unary a (Selection (add_predicate p q)) c else Unary a (Selection q) (target new p it c))"
proof -
  have it: "node_addr it \<in> set (ids c)" by (rule find_node_in [OF assms(2)])
  then have ne: "node_addr it \<noteq> a" using assms(1) by auto
  show ?thesis
  proof (cases "node_addr it = node_addr c")
    case False
    obtain par i m where "get_node_parent c (node_addr it) = Some (par, i)" "par \<in> set (ids c)"
      using parent_exists [OF _ it False] assms(1) by auto
    moreover have "par \<noteq> a" using calculation assms(1) by auto
    ultimately show ?thesis using ne False by (simp add: target_def)
  qed (use ne in \<open>simp add: target_def insert_selection_def\<close>)
qed

lemma target_Join_left:
  assumes "distinct (ids (Join a j l r))" "find_node_where_relations_defined l rs = Some it"
  shows "target new p it (Join a j l r) = Join a j (target new p it l) r"
proof -
  have it: "node_addr it \<in> set (ids l)" by (rule find_node_in [OF assms(2)])
  then have ne: "node_addr it \<noteq> a" "node_addr it \<noteq> node_addr r" using assms(1) addr_in_ids [of r] by auto
  show ?thesis
  proof (cases "node_addr it = node_addr l")
    case False
    obtain par i m where par: "get_node_parent l (node_addr it) = Some (par, i)" "par \<in> set (ids l)"
      using parent_exists [OF _ it False] assms(1) by auto
    then have "par \<noteq> a" "modify par f r = r" for f using assms(1) modify_other [of par r] by auto
    then show ?thesis using ne False par by (simp add: target_def)
  qed (use ne in \<open>simp add: target_def insert_selection_def\<close>)
qed

lemma target_Join_right:
  assumes "distinct (ids (Join a j l r))" "find_node_where_relations_defined r rs = Some it"
  shows "target new p it (Join a j l r) = Join a j l (target new p it r)"
proof -
  have it: "node_addr it \<in> set (ids r)" by (rule find_node_in [OF assms(2)])
  then have ne: "node_addr it \<noteq> a" "node_addr it \<noteq> node_addr l" "node_addr it \<notin> set (ids l)" using assms(1) addr_in_ids [of l] by auto
  show ?thesis
  proof (cases "node_addr it = node_addr r")
    case False
    obtain par i m where par: "get_node_parent r (node_addr it) = Some (par, i)" "par \<in> set (ids r)"
      using parent_exists [OF _ it False] assms(1) by auto
    then have "par \<noteq> a" "modify par f l = l" for f using assms(1) modify_other [of par l] by auto
    then show ?thesis using ne False par by (simp add: target_def parent_outside)
  qed (use ne in \<open>simp add: target_def insert_selection_def\<close>)
qed

lemma placed_Join_left:
  assumes "placed S new p pend l l'" "distinct (ids (Join a j l r))" "new \<notin> set (ids (Join a j l r))" "extensible (Join a j l r)"
    "set (mentions p) \<subseteq> N"
    "if marks j then marker_name (right_marker j) \<notin> N else (multiplies j \<or> extends_left j) \<and> N \<inter> defs r = {}"
  shows "placed S new p pend (Join a j l r) (Join a j l' r)"
proof -
  have l': "skeleton l' = skeleton l" "evalp S pend l' = (\<lambda>env. filter (\<lambda>z. holds S p (env ++ z)) (evalp S pend l env))"
    using assms(1) by (auto simp: placed_def)
  have vis: "defs (Join a j l' r) = defs (Join a j l r)"
    using l'(1) by (auto simp: defs_def simp flip: skeleton_names [of l] skeleton_names [of l'])
  have "evalp S pend (Join a j l' r) env = filter (\<lambda>z. holds S p (env ++ z)) (evalp S pend (Join a j l r) env)" for env
    by (simp only: evalp.simps vis l'(2), rule join_rows_left [OF assms(5,6)]) (rule evalp_dom)
  then show ?thesis using assms(1-4) l'(1) by (auto simp: placed_def)
qed

lemma placed_Join_right:
  assumes "placed S new p pend r r'" "distinct (ids (Join a j l r))" "new \<notin> set (ids (Join a j l r))" "extensible (Join a j l r)"
    "set (mentions p) \<subseteq> N" "multiplies j" "N \<inter> defs l = {}"
  shows "placed S new p pend (Join a j l r) (Join a j l r')"
proof -
  have r': "skeleton r' = skeleton r" "evalp S pend r' = (\<lambda>env. filter (\<lambda>z. holds S p (env ++ z)) (evalp S pend r env))"
    using assms(1) by (auto simp: placed_def)
  have vis: "defs (Join a j l r') = defs (Join a j l r)"
    using r'(1) by (auto simp: defs_def simp flip: skeleton_names [of r] skeleton_names [of r'])
  have "evalp S pend (Join a j l r') env = filter (\<lambda>z. holds S p (env ++ z)) (evalp S pend (Join a j l r) env)" for env
    by (simp only: evalp.simps vis r'(2), rule join_rows_right [OF assms(5,6,7)]) (rule evalp_dom)
  then show ?thesis using assms(1-4) r'(1) by (auto simp: placed_def)
qed

lemma placed_Selection:
  assumes "placed S new p pend c c'" "distinct (ids (Unary a (Selection q) c))" "new \<notin> set (ids (Unary a (Selection q) c))"
    "extensible (Unary a (Selection q) c)"
  shows "placed S new p pend (Unary a (Selection q) c) (Unary a (Selection q) c')"
  using assms by (auto simp: placed_def conj_commute split: option.splits)

lemma placed_add:
  assumes "distinct (ids (Unary a (Selection q) c))" "extensible (Unary a (Selection q) c)" "conjunct p"
  shows "placed S new p pend (Unary a (Selection q) c) (Unary a (Selection (add_predicate p q)) c)"
proof -
  have q: "case q of None \<Rightarrow> True | Some q' \<Rightarrow> conjunct q'" using assms(2) by (simp split: option.splits)
  obtain q' where q': "add_predicate p q = Some q'" "conjunct q'" using passes_add(2) [OF q assms(3)] by blast
  have "evalp S pend (Unary a (Selection (add_predicate p q)) c) env =
    filter (\<lambda>z. holds S p (env ++ z)) (evalp S pend (Unary a (Selection q) c) env)" for env
    by (simp add: passes_add(1) [OF q assms(3)]) (simp add: conj_ac)
  then show ?thesis using assms(1,2) q' by (auto simp: placed_def)
qed

lemma place:
  assumes "distinct (ids c)" "new \<notin> set (ids c)" "pend new = []" "find_node_where_relations_defined c rs = Some it"
    "pushable (set rs) c" "set (mentions p) \<subseteq> set rs" "extensible c" "conjunct p"
  shows "placed S new p pend c (target new p it c)"
  using assms
proof (induction c)
  case (Leaf a l)
  then show ?case by (auto simp: target_def intro!: placed_above split: if_splits)
next
  case (Unary a u c)
  have N: "set rs \<subseteq> defs (Unary a u c)" using Unary.prems(4) find_node_None by (metis option.distinct(1))
  show ?case
  proof (cases "\<exists>q. u = Selection q")
    case True
    then obtain q where u: "u = Selection q" by blast
    have it: "find_node_where_relations_defined c rs = Some it"
      using Unary.prems(4) N find_node_None [of c rs] by (auto simp: u defs_simps split: if_splits option.splits)
    show ?thesis
    proof (cases "node_addr it = node_addr c")
      case True
      then show ?thesis using Unary.prems target_Selection [of a q c rs it] it by (auto simp: u intro!: placed_add)
    next
      case False
      have "placed S new p pend c (target new p it c)" using Unary it by (auto simp: u)
      then show ?thesis using Unary.prems target_Selection [of a q c rs it] it False by (auto simp: u intro!: placed_Selection)
    qed
  next
    case False
    then have "\<not> set rs \<subseteq> defs c" using Unary.prems(5) N by (auto split: unary_node.splits)
    then have "it = Unary a u c" using Unary.prems(4) find_node_None [of c rs] by (auto split: if_splits option.splits)
    then show ?thesis using Unary.prems by (auto simp: target_def intro!: placed_above)
  qed
next
  case (Join a j l r)
  have N: "set rs \<subseteq> defs (Join a j l r)" using Join.prems(4) find_node_None by (metis option.distinct(1))
  consider (l) "set rs \<subseteq> defs l" | (r) "\<not> set rs \<subseteq> defs l" "set rs \<subseteq> defs r" | (here) "\<not> set rs \<subseteq> defs l" "\<not> set rs \<subseteq> defs r"
    by blast
  then show ?case
  proof cases
    case l
    have it: "find_node_where_relations_defined l rs = Some it"
      using Join.prems(4) find_node_None [of l rs] l by (auto split: if_splits option.splits)
    have "placed S new p pend l (target new p it l)" using Join it N l by auto
    then show ?thesis using Join.prems N l target_Join_left [OF Join.prems(1) it] by (auto intro!: placed_Join_left [where N = "set rs"])
  next
    case r
    have it: "find_node_where_relations_defined r rs = Some it"
      using Join.prems(4) find_node_None [of l rs] find_node_None [of r rs] r by (auto split: if_splits option.splits)
    have "placed S new p pend r (target new p it r)" using Join it N r by auto
    then show ?thesis using Join.prems N r target_Join_right [OF Join.prems(1) it] by (auto intro!: placed_Join_right [where N = "set rs"])
  next
    case here
    then have "it = Join a j l r"
      using Join.prems(4) find_node_None [of l rs] find_node_None [of r rs] by (auto split: if_splits option.splits)
    then show ?thesis using Join.prems by (auto simp: target_def intro!: placed_above)
  qed
qed

lemma subtree_ok:
  "distinct (ids t) \<Longrightarrow> extensible t \<Longrightarrow> node_at t a = Some n \<Longrightarrow> distinct (ids n) \<and> extensible n"
  by (induction t) (auto split: if_splits option.splits)

lemma ids_modify_same:
  "node_at t a = Some n \<Longrightarrow> set (ids (f n)) \<subseteq> set (ids n) \<Longrightarrow> distinct (ids t) \<Longrightarrow> set (ids (modify a f t)) \<subseteq> set (ids t)"
proof (induction t)
  case (Join b j l r)
  then show ?case using modify_other [of a l f] modify_other [of a r f] node_at_None [of l a] node_at_None [of r a]
    by (cases "a = b"; cases "a \<in> set (ids l)") (auto split: option.splits)
qed (auto split: if_splits)

section \<open>The loops\<close>

lemma refines_refl: "distinct (ids t) \<Longrightarrow> refines S X Y pend t pend t"
  by (auto simp: refines_def)

lemma refines_trans:
  "refines S X Y pend t pend' t' \<Longrightarrow> refines S X' Y' pend' t' pend'' t'' \<Longrightarrow> refines S (X \<union> X') (Y \<union> Y') pend t pend'' t''"
  unfolding refines_def by auto

lemma refines_weaken: "refines S X Y pend t pend' t' \<Longrightarrow> X \<subseteq> X' \<Longrightarrow> Y \<subseteq> Y' \<Longrightarrow> refines S X' Y' pend t pend' t'"
  unfolding refines_def by blast

lemma placed_refines:
  assumes "placed S new p pend' n n'" "n = Unary a (Selection q) c" "a \<notin> set (ids c)" "node_addr n' = a" "pend a = p # pend' a"
    "\<And>b. b \<noteq> a \<Longrightarrow> pend b = pend' b"
  shows "refines S {new} {} pend n pend' n'"
proof -
  have "evalp S pend c = evalp S pend' c"
  proof (rule evalp_pend)
    fix b assume "b \<in> set (ids c)"
    then have "b \<noteq> a" using assms(3) by blast
    then show "pend b = pend' b" by (rule assms(6))
  qed
  then have "evalp S pend n = (\<lambda>env. filter (\<lambda>z. holds S p (env ++ z)) (evalp S pend' n env))"
    using assms(2,5) by (auto simp: fun_eq_iff conj_ac)
  then show ?thesis using assms(1,2,4) by (auto simp: placed_def refines_def)
qed

text \<open>The state of the second loop, and what is known of a predicate of the selection \<open>a\<close>.\<close>

definition plan_inv :: "ra_node \<Rightarrow> nat \<Rightarrow> (nat \<Rightarrow> ra_expr list) \<Rightarrow> bool" where
  "plan_inv t new pend \<longleftrightarrow> distinct (ids t) \<and> (\<forall>b\<in>set (ids t). b < new) \<and> extensible t \<and> (\<forall>b\<ge>new. pend b = [])"

definition item_ok :: "ra_node \<Rightarrow> ra_expr \<times> string list \<Rightarrow> bool" where
  "item_ok K p_r \<longleftrightarrow> conjunct (fst p_r) \<and> set (mentions (fst p_r)) \<subseteq> set (snd p_r) \<and> pushable (set (snd p_r)) K"

lemma placed_at_selection:
  assumes inv: "plan_inv t new pend" and n: "node_at t a = Some (Unary a (Selection q) c)" and pend: "pend a = p # ps"
    and f: "placed S new p (pend(a := ps)) (Unary a (Selection q) c) (f (Unary a (Selection q) c))" "node_addr (f (Unary a (Selection q) c)) = a"
  shows "refines S {new} {} pend t (pend(a := ps)) (modify a f t)" "plan_inv (modify a f t) (Suc new) (pend(a := ps))"
proof -
  have t: "distinct (ids t)" "extensible t" "new \<notin> set (ids t)" "\<forall>b\<ge>new. pend b = []" "\<forall>b\<in>set (ids t). b < new"
    using inv by (auto simp: plan_inv_def)
  have a: "a \<notin> set (ids c)" "a < new"
    using subtree_ok [OF t(1,2) n] node_at_None [of t a] n t(5) by auto
  have "refines S {new} {} pend (Unary a (Selection q) c) (pend(a := ps)) (f (Unary a (Selection q) c))"
    by (rule placed_refines [OF f(1) refl _ f(2)]) (use a(1) pend in auto)
  then show r: "refines S {new} {} pend t (pend(a := ps)) (modify a f t)"
    by (rule refines_modify [OF t(1) n]) (use t(3) in auto)
  then have "set (ids (modify a f t)) \<subseteq> set (ids t) \<union> {new}" "distinct (ids (modify a f t))" "extensible (modify a f t)"
    using t(2) by (auto simp: refines_def)
  moreover have "\<forall>b\<in>set (ids t) \<union> {new}. b < Suc new" using t(5) less_SucI by blast
  ultimately show "plan_inv (modify a f t) (Suc new) (pend(a := ps))" using t(4) a(2) by (auto simp: plan_inv_def)
qed

lemma push_one:
  assumes inv: "plan_inv t new pend" and sel: "(a, K) \<in> selections t" and ok: "item_ok K (p, rs)" and pend: "pend a = p # ps"
  shows "\<exists>t' new'. push_predicates [(p, rs)] a False (t, new) = Inr (t', new') \<and> new \<le> new' \<and>
    refines S {new..<new'} {} pend t (pend(a := ps)) t' \<and> plan_inv t' new' (pend(a := ps))"
proof -
  have t: "distinct (ids t)" "extensible t" "new \<notin> set (ids t)" "\<forall>b\<ge>new. pend b = []" "\<forall>b\<in>set (ids t). b < new"
    using inv by (auto simp: plan_inv_def)
  obtain q c where n: "node_at t a = Some (Unary a (Selection q) c)" and K: "skeleton c = K"
    using selections_node [OF t(1) sel] by blast
  let ?n = "Unary a (Selection q) c"
  have sub: "distinct (ids ?n)" "extensible ?n" "set (ids ?n) \<subseteq> set (ids t)"
    using node_at_Some [OF n] subtree_ok [OF t(1,2) n] by auto
  have p: "conjunct p" "set (mentions p) \<subseteq> set rs" "pushable (set rs) c"
    using ok K skeleton_pushable [of "set rs" c] by (auto simp: item_ok_def)
  note fin = placed_at_selection [OF inv n pend, of S]
  show ?thesis
  proof (cases "find_node_where_relations_defined c rs")
    case None
    have run: "push_predicates [(p, rs)] a False (t, new) = Inr (modify a (add_predicate_to_selection p) t, new)"
      using n None by (simp add: find_lowest_child_insert_selection_def)
    have pl: "placed S new p (pend(a := ps)) ?n (add_predicate_to_selection p ?n)"
      using placed_add [OF sub(1,2) p(1)] by simp
    have same: "set (ids (modify a (add_predicate_to_selection p) t)) \<subseteq> set (ids t)"
      by (rule ids_modify_same [OF n _ t(1)]) simp
    have "refines S {new} {} pend t (pend(a := ps)) (modify a (add_predicate_to_selection p) t)"
      using fin [of "add_predicate_to_selection p"] pl by simp
    then have "refines S {} {} pend t (pend(a := ps)) (modify a (add_predicate_to_selection p) t)"
      using same by (auto simp: refines_def)
    then show ?thesis using run fin [of "add_predicate_to_selection p"] pl same t(4,5) selections_ids [OF sel] by (auto simp: plan_inv_def)
  next
    case (Some it)
    have it: "node_addr it \<in> set (ids c)" by (rule find_node_in [OF Some])
    then have ne: "node_addr it \<noteq> a" "node_addr it \<in> set (ids ?n)" using sub(1) by auto
    obtain par i m where par: "get_node_parent ?n (node_addr it) = Some (par, i)" "par \<in> set (ids ?n)"
      using parent_exists [OF sub(1) ne(2)] ne(1) by auto
    have fnd: "find_node_where_relations_defined ?n rs = Some it"
      using Some find_node_None [of ?n rs] find_node_None [of c rs] by (auto simp: defs_simps split: if_splits)
    have tgt: "modify par (insert_selection new p i) ?n = target new p it ?n" using ne(1) par(1) by (simp add: target_def)
    have addr: "node_addr (target new p it ?n) = a" using target_Selection [OF sub(1) Some] by simp
    have "placed S new p (pend(a := ps)) ?n (target new p it ?n)"
      by (rule place [OF sub(1) _ _ fnd _ p(2) sub(2) p(1)]) (use sub(3) t(3,4) p(3) sel selections_ids [OF sel] in auto)
    note fin = fin [of "modify par (insert_selection new p i)", unfolded tgt, OF this addr]
    have run: "push_predicates [(p, rs)] a False (t, new) = Inr (modify par (insert_selection new p i) t, Suc new)"
      using n Some par(1) parent_in_subtree [OF t(1) n ne(2,1)]
      by (cases it) (simp_all add: find_lowest_child_insert_selection_def)
    show ?thesis using run fin modify_in_subtree [OF t(1) n par(2), of "insert_selection new p i"]
      by (intro exI [of _ "modify par (insert_selection new p i) t"] exI [of _ "Suc new"]) (auto simp: atLeastLessThanSuc)
  qed
qed

lemma push_predicates_Cons:
  "push_predicates (p_r # rest) a cp plan = bindE (push_predicates [p_r] a cp plan) (push_predicates rest a cp)"
  by (auto simp: bindE_def split: sum.splits)

lemma push_predicates_ok:
  assumes "plan_inv t new pend" "(a, K) \<in> selections t" "list_all (item_ok K) p_rs" "pend a = map fst p_rs"
  shows "\<exists>t' new'. push_predicates p_rs a False (t, new) = Inr (t', new') \<and> new \<le> new' \<and>
    refines S {new..<new'} {} pend t (pend(a := [])) t' \<and> plan_inv t' new' (pend(a := []))"
  using assms
proof (induction p_rs arbitrary: t new pend)
  case Nil
  then have "pend(a := []) = pend" by auto
  then show ?case using Nil by (auto simp: plan_inv_def intro: refines_refl)
next
  case (Cons p_r p_rs)
  obtain p rs where p_r: "p_r = (p, rs)" by (cases p_r)
  have ok: "item_ok K (p, rs)" and pend: "pend a = p # map fst p_rs" using Cons.prems(3,4) by (auto simp: p_r)
  obtain t1 n1 where t1: "push_predicates [(p, rs)] a False (t, new) = Inr (t1, n1)" "new \<le> n1"
    "refines S {new..<n1} {} pend t (pend(a := map fst p_rs)) t1" "plan_inv t1 n1 (pend(a := map fst p_rs))"
    using push_one [OF Cons.prems(1,2) ok pend] by blast
  have "(a, K) \<in> selections t1" "list_all (item_ok K) p_rs" "(pend(a := map fst p_rs)) a = map fst p_rs"
    using t1(3) Cons.prems(2,3) by (auto simp: refines_def)
  from Cons.IH [OF t1(4) this] obtain t2 n2 where t2: "push_predicates p_rs a False (t1, n1) = Inr (t2, n2)" "n1 \<le> n2"
    "refines S {n1..<n2} {} (pend(a := map fst p_rs)) t1 (pend(a := [])) t2" "plan_inv t2 n2 (pend(a := []))"
    unfolding fun_upd_upd by blast
  have "{new..<n1} \<union> {n1..<n2} = {new..<n2}" using t1(2) t2(2) by auto
  then have "refines S {new..<n2} {} pend t (pend(a := [])) t2" using refines_trans [OF t1(3) t2(3)] by simp
  moreover have "push_predicates (p_r # p_rs) a False (t, new) = Inr (t2, n2)"
    unfolding p_r push_predicates_Cons [of _ p_rs] t1(1) using t2(1) by simp
  moreover have "new \<le> n2" using t1(2) t2(2) by simp
  ultimately show ?case using t2(4) by blast
qed

lemma evalp_empty_selection: "pend a = [] \<Longrightarrow> evalp S pend (Unary a (Selection None) c) = evalp S pend c"
  by (intro ext) (simp add: passes_def)

lemma drop_child:
  assumes "distinct (ids m)" "i < length (child_nodes m)" "child_nodes m ! i = Unary a (Selection None) c" "pend a = []"
  shows "refines S {} {(a, skeleton c)} pend m pend (set_child i c m)"
proof (cases m)
  case (Unary b u d)
  then have d: "d = Unary a (Selection None) c" using assms by simp
  have eq: "evalp S pend c = evalp S pend d" "skeleton c = skeleton d" using evalp_empty_selection [of pend a S c] assms(4) by (auto simp: d)
  show ?thesis using assms(1) skeleton_evalp_Unary [OF eq refl, of b u] by (auto simp: Unary d refines_def split: unary_node.splits)
next
  case (Join b j l r)
  show ?thesis
  proof (cases "i = 0")
    case True
    then have l: "l = Unary a (Selection None) c" using assms Join by simp
    have eq: "evalp S pend c = evalp S pend l" "skeleton c = skeleton l" using evalp_empty_selection [of pend a S c] assms(4) by (auto simp: l)
    show ?thesis using assms(1) True skeleton_evalp_Join [OF eq refl refl, of b j r] by (auto simp: Join l refines_def)
  next
    case False
    then have r: "r = Unary a (Selection None) c" using assms Join by (cases i) auto
    have eq: "evalp S pend c = evalp S pend r" "skeleton c = skeleton r" using evalp_empty_selection [of pend a S c] assms(4) by (auto simp: r)
    show ?thesis using assms(1) False skeleton_evalp_Join [OF refl refl eq, of b j l] by (auto simp: Join r refines_def)
  qed
qed (use assms in auto)

lemma drop_empty_selection_ok:
  assumes inv: "plan_inv t new pend" and sel: "(a, K) \<in> selections t" and root: "a \<noteq> node_addr t" and pend: "pend a = []"
  shows "\<exists>t'. drop_empty_selection a (t, new) = Inr (t', new) \<and> refines S {} {(a, K)} pend t pend t' \<and> plan_inv t' new pend"
proof -
  have t: "distinct (ids t)" "extensible t" "\<forall>b\<in>set (ids t). b < new" "\<forall>b\<ge>new. pend b = []" using inv by (auto simp: plan_inv_def)
  obtain q c where n: "node_at t a = Some (Unary a (Selection q) c)" and K: "skeleton c = K"
    using selections_node [OF t(1) sel] by blast
  show ?thesis
  proof (cases q)
    case (Some p)
    then show ?thesis using n t refines_refl [OF t(1)] inv by (auto simp: drop_empty_selection_def)
  next
    case None
    obtain par i m where par: "get_node_parent t a = Some (par, i)" "node_at t par = Some m" "i < length (child_nodes m)"
      "node_at t a = Some (child_nodes m ! i)" using parent_exists [OF t(1) selections_ids [OF sel] root] by auto
    have "refines S {} {(a, skeleton c)} pend m pend (set_child i c m)"
      by (rule drop_child) (use par n None pend subtree_ok [OF t(1,2) par(2)] in auto)
    then have r: "refines S {} {(a, K)} pend t pend (modify par (set_child i c) t)"
      unfolding K by (intro refines_modify [OF t(1) par(2)]) auto
    then have "plan_inv (modify par (set_child i c) t) new pend" using t by (auto simp: plan_inv_def refines_def)
    moreover have "drop_empty_selection a (t, new) = Inr (modify par (set_child i c) t, new)"
      using n None par(1) by (simp add: drop_empty_selection_def)
    ultimately show ?thesis using r by blast
  qed
qed

definition pending :: "(nat \<times> (ra_expr \<times> string list) list) list \<Rightarrow> nat \<Rightarrow> ra_expr list" where
  "pending sels b = (case map_of sels b of None \<Rightarrow> [] | Some p_rs \<Rightarrow> map fst p_rs)"

lemma push_selections_ok:
  assumes "plan_inv t new (pending sels)" "distinct (map fst sels)" "node_addr t \<notin> fst ` set sels"
    "\<And>a p_rs. (a, p_rs) \<in> set sels \<Longrightarrow> \<exists>K. (a, K) \<in> selections t \<and> list_all (item_ok K) p_rs"
  shows "\<exists>t' new'. push_selections sels False (t, new) = Inr (t', new') \<and> skeleton t' = skeleton t \<and>
    evalp S (\<lambda>b. []) t' = evalp S (pending sels) t"
  using assms
proof (induction sels arbitrary: t new)
  case Nil
  then show ?case by (simp add: pending_def [abs_def])
next
  case (Cons s sels)
  obtain a p_rs where s: "s = (a, p_rs)" by (cases s)
  obtain K where K: "(a, K) \<in> selections t" "list_all (item_ok K) p_rs" using Cons.prems(4) [of a p_rs] by (auto simp: s)
  have none: "map_of sels a = None" using Cons.prems(2) by (simp add: s map_of_eq_None_iff)
  have pend: "pending (s # sels) a = map fst p_rs" "(pending (s # sels))(a := []) = pending sels"
    using none by (auto simp: pending_def s fun_eq_iff)
  obtain t1 n1 where t1: "push_predicates p_rs a False (t, new) = Inr (t1, n1)" "refines S {new..<n1} {} (pending (s # sels)) t (pending sels) t1"
    "plan_inv t1 n1 (pending sels)" using push_predicates_ok [OF Cons.prems(1) K pend(1), of S] unfolding pend(2) by blast
  have a1: "(a, K) \<in> selections t1" "a \<noteq> node_addr t1" "pending sels a = []"
    using t1(2) K(1) Cons.prems(3) by (auto simp: refines_def s simp flip: pend(2))
  obtain t2 where t2: "drop_empty_selection a (t1, n1) = Inr (t2, n1)" "refines S {} {(a, K)} (pending sels) t1 (pending sels) t2"
    "plan_inv t2 n1 (pending sels)" using drop_empty_selection_ok [OF t1(3) a1, of S] by blast
  have all: "refines S ({new..<n1} \<union> {}) ({} \<union> {(a, K)}) (pending (s # sels)) t (pending sels) t2" by (rule refines_trans [OF t1(2) t2(2)])
  have "\<exists>K. (b, K) \<in> selections t2 \<and> list_all (item_ok K) p_rs'" if b: "(b, p_rs') \<in> set sels" for b p_rs'
  proof -
    obtain K' where "(b, K') \<in> selections t" "list_all (item_ok K') p_rs'" using Cons.prems(4) [of b p_rs'] b by auto
    moreover have "b \<noteq> a" using b Cons.prems(2) by (force simp: s)
    ultimately show ?thesis using all by (auto simp: refines_def)
  qed
  then obtain t' new' where "push_selections sels False (t2, n1) = Inr (t', new')" "skeleton t' = skeleton t2"
    "evalp S (\<lambda>b. []) t' = evalp S (pending sels) t2"
    using Cons.IH [OF t2(3)] Cons.prems(2,3) all by (auto simp: refines_def)
  then show ?case using t1(1) t2(1) all by (auto simp: s refines_def)
qed

section \<open>Taking the predicates out\<close>

text \<open>
  The conditions under which the push-down is right. Every selection has a predicate made of
  comparisons, null tests and boolean combinations, in which no subquery marker stands alone as
  one part of the conjunction; the names the optimizer collects for a part are all names in it.
\<close>

fun splittable :: "ra_expr \<Rightarrow> bool" where
  "splittable (Predicate l r op) = True"
| "splittable (Null_Test e ty) = True"
| "splittable (Bool_Predicate b args) = (b = Op_And \<longrightarrow> list_all splittable args)"
| "splittable _ = False"

definition part_ok :: "ra_node \<Rightarrow> ra_expr \<Rightarrow> bool" where
  "part_ok c p = (case get_predicate_relations p of Inl e \<Rightarrow> False | Inr rs \<Rightarrow> set (mentions p) \<subseteq> set rs \<and> pushable (set rs) c)"

definition predicate_ok :: "ra_node \<Rightarrow> ra_expr option \<Rightarrow> bool" where
  "predicate_ok c q =
     (case q of
        None \<Rightarrow> False
      | Some p \<Rightarrow> splittable p \<and> (case split_selection_predicates p of Inl e \<Rightarrow> False | Inr ps \<Rightarrow> list_all (part_ok c) ps))"

fun plan_ok :: "ra_node \<Rightarrow> bool" where
  "plan_ok (Leaf a l) = True"
| "plan_ok (Unary a u c) \<longleftrightarrow> (case u of Selection q \<Rightarrow> predicate_ok c q | _ \<Rightarrow> True) \<and> plan_ok c"
| "plan_ok (Join a j l r) \<longleftrightarrow> plan_ok l \<and> plan_ok r"

lemma split_holds:
  "splittable p \<Longrightarrow> \<exists>ps. split_selection_predicates p = Inr ps \<and> list_all conjunct ps \<and> (\<forall>r. holds S p r = list_all (\<lambda>x. holds S x r) ps)"
proof (induction p rule: split_selection_predicates.induct)
  case (6 arg args)
  then obtain xs ys where "split_selection_predicates arg = Inr xs" "list_all conjunct xs" "\<forall>r. holds S arg r = list_all (\<lambda>x. holds S x r) xs"
    "split_selection_predicates (Bool_Predicate Op_And args) = Inr ys" "list_all conjunct ys"
    "\<forall>r. holds S (Bool_Predicate Op_And args) r = list_all (\<lambda>x. holds S x r) ys" by auto
  then show ?case by auto
qed (auto simp: conjunct_def)

lemma with_relations_ok:
  "list_all (part_ok c) ps \<Longrightarrow> list_all conjunct ps \<Longrightarrow>
   \<exists>p_rs. with_relations ps = Inr p_rs \<and> map fst p_rs = ps \<and> list_all (item_ok (skeleton c)) p_rs"
proof (induction ps)
  case (Cons p ps)
  then obtain rs p_rs where "get_predicate_relations p = Inr rs" "set (mentions p) \<subseteq> set rs" "pushable (set rs) c"
    "with_relations ps = Inr p_rs" "map fst p_rs = ps" "list_all (item_ok (skeleton c)) p_rs"
    by (auto simp: part_ok_def split: sum.splits)
  moreover have "item_ok (skeleton c) (p, rs)" using calculation(2,3) Cons.prems(2) by (simp add: item_ok_def skeleton_pushable)
  ultimately show ?case by auto
qed simp

lemma selections_addrs: "set (get_all_selections t) = fst ` selections t"
  by (induction t) (auto split: unary_node.splits simp: image_Un)

lemma distinct_selections: "distinct (ids t) \<Longrightarrow> distinct (get_all_selections t)"
proof (induction t)
  case (Unary a u c)
  then show ?case using selections_ids [of a _ c] by (auto simp: selections_addrs split: unary_node.splits)
next
  case (Join a j l r)
  then show ?case using selections_ids [of _ _ l] selections_ids [of _ _ r] by (fastforce simp: selections_addrs)
qed simp

lemma plan_ok_node: "plan_ok t \<Longrightarrow> node_at t a = Some (Unary a (Selection q) c) \<Longrightarrow> predicate_ok c q"
  by (induction t) (auto split: if_splits option.splits)


fun clear_set :: "nat set \<Rightarrow> ra_node \<Rightarrow> ra_node" where
  "clear_set A (Leaf a l) = Leaf a l"
| "clear_set A (Unary a u c) = Unary a (case u of Selection q \<Rightarrow> Selection (if a \<in> A then None else q) | _ \<Rightarrow> u) (clear_set A c)"
| "clear_set A (Join a j l r) = Join a j (clear_set A l) (clear_set A r)"

fun sel_preds :: "ra_node \<Rightarrow> (nat \<times> ra_expr option) set" where
  "sel_preds (Leaf a l) = {}"
| "sel_preds (Unary a u c) = (case u of Selection q \<Rightarrow> {(a, q)} | _ \<Rightarrow> {}) \<union> sel_preds c"
| "sel_preds (Join a j l r) = sel_preds l \<union> sel_preds r"

lemma clear_set_facts [simp]:
  "ids (clear_set A t) = ids t" "node_addr (clear_set A t) = node_addr t"
  by (induction t) auto

lemma clear_set_skeleton [simp]: "skeleton (clear_set A t) = skeleton t"
  by (induction t) (auto split: unary_node.splits)

lemma clear_set_selections [simp]: "selections (clear_set A t) = selections t"
  by (induction t) (auto split: unary_node.splits)

lemma clear_set_empty: "clear_set {} t = t"
  by (induction t) (auto split: unary_node.splits)

lemma clear_set_cong: "(\<And>b. b \<in> set (ids t) \<Longrightarrow> b \<in> A \<longleftrightarrow> b \<in> B) \<Longrightarrow> clear_set A t = clear_set B t"
  by (induction t) (auto split: unary_node.splits)

lemma modify_clear: "distinct (ids t) \<Longrightarrow> modify a clear_predicate (clear_set A t) = clear_set (insert a A) t"
proof (induction t)
  case (Unary b u c)
  then show ?case using clear_set_cong [of c A "insert b A"] by (cases u) auto
next
  case (Join b j l r)
  then show ?case using clear_set_cong [of l A "insert b A"] clear_set_cong [of r A "insert b A"] by auto
qed auto

lemma node_at_clear:
  "node_at t b = Some (Unary b (Selection q) c) \<Longrightarrow> b \<notin> A \<Longrightarrow> node_at (clear_set A t) b = Some (Unary b (Selection q) (clear_set A c))"
proof (induction t)
  case (Join d j l r)
  have "node_at (clear_set A l) b = None" if "node_at l b = None" using that by (simp add: node_at_None)
  then show ?case using Join by (auto split: if_splits option.splits)
qed (auto split: if_splits)

lemma sel_preds_node:
  assumes "distinct (ids t)" "(a, q) \<in> sel_preds t"
  shows "\<exists>c. node_at t a = Some (Unary a (Selection q) c)"
  using assms
proof (induction t)
  case (Unary b u c)
  show ?case
  proof (cases "(a, q) \<in> sel_preds c")
    case True
    then obtain d where d: "node_at c a = Some (Unary a (Selection q) d)" using Unary by auto
    then have "a \<in> set (ids c)" using node_at_None [of c a] by auto
    then show ?thesis using d Unary.prems(1) by auto
  qed (use Unary.prems in \<open>auto split: unary_node.splits\<close>)
next
  case (Join b j l r)
  show ?case
  proof (cases "(a, q) \<in> sel_preds l")
    case True
    then obtain d where d: "node_at l a = Some (Unary a (Selection q) d)" using Join by auto
    then have "a \<in> set (ids l)" using node_at_None [of l a] by auto
    then show ?thesis using d Join.prems(1) by auto
  next
    case False
    then obtain d where d: "node_at r a = Some (Unary a (Selection q) d)" using Join by auto
    then have "a \<in> set (ids r)" using node_at_None [of r a] by auto
    then show ?thesis using d Join.prems(1) node_at_None [of l a] by auto
  qed
qed simp

lemma evalp_clear:
  assumes "\<And>a q. (a, q) \<in> sel_preds t \<Longrightarrow> a \<in> A \<and> (\<forall>r. passes S q r = list_all (\<lambda>x. holds S x r) (pend a))"
  shows "evalp S pend (clear_set A t) = evalp S (\<lambda>b. []) t"
  using assms
proof (induction t)
  case (Unary a u c)
  have c: "evalp S pend (clear_set A c) = evalp S (\<lambda>b. []) c" by (rule Unary.IH) (use Unary.prems in auto)
  show ?case
  proof (cases "\<exists>q. u = Selection q")
    case True
    then obtain q where u: "u = Selection q" by blast
    have "a \<in> A" "\<forall>r. passes S q r = list_all (\<lambda>x. holds S x r) (pend a)" using Unary.prems [of a q] by (auto simp: u)
    then show ?thesis by (intro ext) (simp add: u c passes_def [of S None])
  next
    case False
    then have "clear_set A (Unary a u c) = Unary a u (clear_set A c)" by (auto split: unary_node.splits)
    moreover have "defs (Unary a u (clear_set A c)) = defs (Unary a u c)"
      by (cases u) (auto simp: defs_def simp flip: skeleton_names [of c] skeleton_names [of "clear_set A c"])
    ultimately show ?thesis using False c by (intro ext) (auto split: unary_node.splits)
  qed
next
  case (Join a j l r)
  have "evalp S pend (clear_set A l) = evalp S (\<lambda>b. []) l" by (rule Join.IH(1)) (use Join.prems in auto)
  moreover have "evalp S pend (clear_set A r) = evalp S (\<lambda>b. []) r" by (rule Join.IH(2)) (use Join.prems in auto)
  ultimately show ?case unfolding clear_set.simps by (intro skeleton_evalp_Join) simp_all
qed (intro ext, simp)

lemma extract_ok:
  assumes "distinct (ids t)" "distinct L" "A \<inter> set L = {}"
    "\<And>a. a \<in> set L \<Longrightarrow> \<exists>q c. node_at t a = Some (Unary a (Selection q) c) \<and> predicate_ok c q"
  shows "\<exists>out. extract_predicates L (clear_set A t) = Inr (out, clear_set (A \<union> set L) t) \<and> map fst out = L \<and>
    (\<forall>(a, p_rs)\<in>set out. \<exists>p c. node_at t a = Some (Unary a (Selection (Some p)) c) \<and>
       split_selection_predicates p = Inr (map fst p_rs) \<and> splittable p \<and> list_all (item_ok (skeleton c)) p_rs)"
  using assms(2-4)
proof (induction L arbitrary: A)
  case (Cons a L)
  obtain q c where n: "node_at t a = Some (Unary a (Selection q) c)" "predicate_ok c q" using Cons.prems(3) [of a] by auto
  then obtain p ps where p: "q = Some p" "splittable p" "split_selection_predicates p = Inr ps" "list_all (part_ok c) ps"
    by (auto simp: predicate_ok_def split: option.splits sum.splits)
  obtain p_rs where p_rs: "with_relations ps = Inr p_rs" "map fst p_rs = ps" "list_all (item_ok (skeleton c)) p_rs"
    using with_relations_ok [OF p(4)] split_holds [OF p(2)] p(3) by auto
  obtain out where out: "extract_predicates L (clear_set (insert a A) t) = Inr (out, clear_set (insert a A \<union> set L) t)" "map fst out = L"
    "\<forall>(a, p_rs)\<in>set out. \<exists>p c. node_at t a = Some (Unary a (Selection (Some p)) c) \<and>
       split_selection_predicates p = Inr (map fst p_rs) \<and> splittable p \<and> list_all (item_ok (skeleton c)) p_rs"
    using Cons.IH [of "insert a A"] Cons.prems by auto
  have "node_at (clear_set A t) a = Some (Unary a (Selection (Some p)) (clear_set A c))"
    using node_at_clear [OF n(1), of A] Cons.prems(2) p(1) by auto
  then show ?case using out p p_rs n(1) by (auto simp: modify_clear [OF assms(1)])
qed simp

lemma clear_all_extensible: "fst ` sel_preds t \<subseteq> A \<Longrightarrow> extensible (clear_set A t)"
  by (induction t) (auto split: unary_node.splits option.splits)

lemma sel_preds_selections: "fst ` sel_preds t = fst ` selections t"
  by (induction t) (auto split: unary_node.splits simp: image_Un)

text \<open>The first loop on the whole plan.\<close>

lemma extract_all:
  assumes "distinct (ids root)" "plan_ok root"
  shows "\<exists>out. extract_predicates (get_all_selections root) root = Inr (out, clear_set (set (get_all_selections root)) root) \<and>
    map fst out = get_all_selections root \<and>
    (\<forall>a p_rs. (a, p_rs) \<in> set out \<longrightarrow> (\<exists>p c. node_at root a = Some (Unary a (Selection (Some p)) c) \<and>
       split_selection_predicates p = Inr (map fst p_rs) \<and> splittable p \<and> list_all (item_ok (skeleton c)) p_rs))"
proof -
  have "\<exists>q c. node_at root a = Some (Unary a (Selection q) c) \<and> predicate_ok c q" if "a \<in> set (get_all_selections root)" for a
    using that selections_node [OF assms(1)] plan_ok_node [OF assms(2)] by (force simp: selections_addrs)
  from extract_ok [OF assms(1) distinct_selections [OF assms(1)] _ this, of "{}"] show ?thesis
    by (fastforce simp: clear_set_empty)
qed

lemma pending_entries:
  assumes "distinct (map fst out)"
  shows "(a, p_rs) \<in> set out \<Longrightarrow> pending out a = map fst p_rs" "a \<notin> set (map fst out) \<Longrightarrow> pending out a = []"
proof -
  show "pending out a = map fst p_rs" if "(a, p_rs) \<in> set out" using assms that by (simp add: pending_def)
  show "pending out a = []" if "a \<notin> set (map fst out)"
  proof -
    have "map_of out a = None" using that by (simp add: map_of_eq_None_iff)
    then show ?thesis by (simp add: pending_def)
  qed
qed

lemma pending_start:
  assumes "distinct (ids root)" "map fst out = get_all_selections root"
    "\<And>a p_rs. (a, p_rs) \<in> set out \<Longrightarrow> \<exists>p c. node_at root a = Some (Unary a (Selection (Some p)) c) \<and>
       split_selection_predicates p = Inr (map fst p_rs) \<and> splittable p"
  shows "evalp S (pending out) (clear_set (set (get_all_selections root)) root) = eval S root"
  unfolding eval_def
proof (rule evalp_clear)
  fix a q assume aq: "(a, q) \<in> sel_preds root"
  have dist: "distinct (map fst out)" using assms(2) distinct_selections [OF assms(1)] by simp
  have a: "a \<in> set (get_all_selections root)" using aq sel_preds_selections [of root] by (force simp: selections_addrs)
  then obtain p_rs where p_rs: "(a, p_rs) \<in> set out" using assms(2) by (metis (no_types, lifting) imageE list.set_map prod.collapse)
  obtain c where "node_at root a = Some (Unary a (Selection q) c)" using sel_preds_node [OF assms(1) aq] by blast
  then obtain p where "q = Some p" "split_selection_predicates p = Inr (map fst p_rs)" "splittable p" using assms(3) [OF p_rs] by auto
  then show "a \<in> set (get_all_selections root) \<and> (\<forall>r. passes S q r = list_all (\<lambda>x. holds S x r) (pending out a))"
    using a split_holds [of p S] pending_entries(1) [OF dist p_rs] by (auto simp: passes_def)
qed

lemma push_down_run:
  assumes "distinct (ids root)" "list_all (\<lambda>a. a < new) (ids root)" "node_addr root \<notin> set (get_all_selections root)" "plan_ok root"
  shows "\<exists>root' new'. push_down_predicates False (root, new) = Inr (root', new') \<and> skeleton root' = skeleton root \<and> eval S root' = eval S root"
proof -
  let ?A = "set (get_all_selections root)" let ?t = "clear_set ?A root"
  obtain out where out: "extract_predicates (get_all_selections root) root = Inr (out, ?t)" "map fst out = get_all_selections root"
    and parts: "\<And>a p_rs. (a, p_rs) \<in> set out \<Longrightarrow> \<exists>p c. node_at root a = Some (Unary a (Selection (Some p)) c) \<and>
       split_selection_predicates p = Inr (map fst p_rs) \<and> splittable p \<and> list_all (item_ok (skeleton c)) p_rs"
    using extract_all [OF assms(1,4)] by blast
  have dist: "distinct (map fst out)" using out(2) distinct_selections [OF assms(1)] by simp
  have start: "evalp S (pending out) ?t = eval S root"
    by (rule pending_start [OF assms(1) out(2)]) (use parts in blast)
  have ext: "extensible ?t" by (rule clear_all_extensible) (simp add: sel_preds_selections selections_addrs)
  have small: "b < new" if "b \<in> set (ids root)" for b using assms(2) that by (simp add: list_all_iff)
  have "pending out b = []" if "new \<le> b" for b
    by (rule pending_entries(2) [OF dist]) (use that small selections_ids [of b _ root] in \<open>force simp: out(2) selections_addrs\<close>)
  then have inv: "plan_inv ?t new (pending out)" using assms(1) ext small by (auto simp: plan_inv_def)
  have "\<exists>K. (a, K) \<in> selections ?t \<and> list_all (item_ok K) p_rs" if ap: "(a, p_rs) \<in> set out" for a p_rs
  proof -
    have "a \<in> ?A" using ap out(2) by (metis fst_conv image_eqI list.set_map)
    then obtain K where K: "(a, K) \<in> selections root" by (auto simp: selections_addrs)
    then show ?thesis using selections_node [OF assms(1) K] parts [OF ap] by auto
  qed
  moreover have "node_addr ?t \<notin> fst ` set out" using assms(3) out(2) by (metis clear_set_facts(2) list.set_map)
  ultimately obtain t' new' where "push_selections out False (?t, new) = Inr (t', new')" "skeleton t' = skeleton ?t"
    "evalp S (\<lambda>b. []) t' = evalp S (pending out) ?t" using push_selections_ok [OF inv dist] by blast
  then show ?thesis using out(1) start by (auto simp: push_down_predicates_def eval_def)
qed

section \<open>Properties\<close>

text \<open>
  C1: Predicate push-down does not change what a query returns. For a plan with distinct nodes and no
  selection at the root, in which every part of a WHERE conjunction satisfies the conditions of
  \<open>plan_ok\<close>, \<open>push_down_predicates\<close> ends without an error, changes nothing but selections, and the
  new plan has the same rows in the same order as the old one for every database, every
  meaning of the predicates and of the other operators, and every outer row.
\<close>
theorem push_down_predicates_preserves:
  assumes "distinct (ids root)" "list_all (\<lambda>a. a < new) (ids root)" "node_addr root \<notin> set (get_all_selections root)" "plan_ok root"
  shows "\<exists>root' new'. push_down_predicates False (root, new) = Inr (root', new') \<and> skeleton root' = skeleton root \<and>
    (\<forall>S env. eval S root' env = eval S root env)"
proof -
  note run = push_down_run [OF assms]
  obtain root' new' where r: "push_down_predicates False (root, new) = Inr (root', new')" "skeleton root' = skeleton root"
    using run [of undefined] by blast
  then have "eval S root' env = eval S root env" for S env using run [of S] by auto
  then show ?thesis using r by blast
qed

definition cross :: join_node where
  "cross = \<lparr>join_predicate = None, join_type = Cross_Product, join_alias = '''', join_columns = [], right_marker = 0\<rparr>"

definition sample_plan :: ra_node where
  "sample_plan =
     Unary 0 (Projection \<lparr>proj_args = [Attribute ''c_name'' ''''], subquery_alias = '''', subquery_columns = [], proj_distinct = False\<rparr>)
       (Unary 1 (Selection (Some (Bool_Predicate Op_And
          [Predicate (Attribute ''o_total'' '''') (Constant ''5'' Const_Int) ''>'',
           Predicate (Attribute ''c_key'' '''') (Attribute ''o_ckey'' '''') ''='',
           Null_Test (Attribute ''c_name'' '''') Is_Not_Null])))
         (Join 2 cross (Leaf 3 (Relation ''customer'' '''')) (Leaf 4 (Relation ''orders'' ''''))))"

theorem push_down_predicates_preserves_witness:
  "\<exists>root' new'. push_down_predicates False (sample_plan, 5) = Inr (root', new') \<and> skeleton root' = skeleton sample_plan \<and>
     (\<forall>(S :: int semantics) env. eval S root' env = eval S sample_plan env)"
proof (rule push_down_predicates_preserves)
  show "distinct (ids sample_plan)" by code_simp
  show "list_all (\<lambda>a. a < 5) (ids sample_plan)" by code_simp
  show "node_addr sample_plan \<notin> set (get_all_selections sample_plan)" by code_simp
  show "plan_ok sample_plan" by code_simp
qed

section \<open>Where push-down goes wrong\<close>












end
