(* ===== verification/Keyword_Lookup.thy ===== *)
theory Keyword_Lookup
  imports Base_Lexer
begin

text \<open>
  Keyword lookup, \<^verbatim>\<open>src_common_kwlookup.c\<close> with \<^verbatim>\<open>include/common/kwlookup.h\<close>, and the perfect hash that
  \<^verbatim>\<open>gen_keywordlist.pl\<close> generates for every keyword list (\<^verbatim>\<open>include/kwlist_d.h\<close> and its two
  PL/pgSQL siblings, which differ in the table and in the start value only).

  The locale \<open>keyword_list\<close> states what the lookup relies on: the string table holds the words at
  their offsets, and the hash sends word number \<open>n\<close> to \<open>n\<close> and does not see the case of letters.
  Nothing is asked of the hash on other words, the lookup compares with the one candidate.
\<close>

section \<open>Operations\<close>

record ScanKeywordList =
  kw_string :: bytes
  kw_offsets :: "int list"
  hash :: "bytes \<Rightarrow> nat \<Rightarrow> int res"
  num_keywords :: int
  max_kw_len :: int

definition GetScanKeyword :: "int \<Rightarrow> ScanKeywordList \<Rightarrow> bytes res" where
  "GetScanKeyword n kwlist = bindE (at (kw_offsets kwlist) n) (\<lambda>ofs. Inr (drop (nat ofs) (kw_string kwlist)))"

definition ascii_lower :: "8 word \<Rightarrow> 8 word" where
  "ascii_lower ch = (if ch \<ge> 0x41 \<and> ch \<le> 0x5a then ch + (0x61 - 0x41) else ch)"

fun keyword_matches :: "bytes \<Rightarrow> bytes \<Rightarrow> bool res" where
  "keyword_matches [] kw = Inl OutOfBounds"
| "keyword_matches (ch # str) kw =
     bindE (at kw 0) (\<lambda>k.
     if ch \<noteq> 0 then (if ascii_lower ch \<noteq> k then Inr False else keyword_matches str (tl kw))
     else Inr (k = 0))"

definition ScanKeywordLookup :: "bytes \<Rightarrow> ScanKeywordList \<Rightarrow> int res" where
  "ScanKeywordLookup str kwlist =
     bindE (c_str str) (\<lambda>s.
     if int (length s) > max_kw_len kwlist then Inr (- 1)
     else bindE (hash kwlist str (length s)) (\<lambda>h.
          if h < 0 \<or> h \<ge> num_keywords kwlist then Inr (- 1)
          else bindE (GetScanKeyword h kwlist) (\<lambda>kw.
               bindE (keyword_matches str kw) (\<lambda>same. Inr (if same then h else - 1)))))"

text \<open>The generated hash: two multiplicative hashes of the word in small letters, and a table.\<close>

fun hash_loop :: "bytes \<Rightarrow> nat \<Rightarrow> 32 word \<Rightarrow> 32 word \<Rightarrow> (32 word \<times> 32 word) res" where
  "hash_loop k 0 a b = Inr (a, b)"
| "hash_loop k (Suc keylen) a b =
     bindE (at k 0) (\<lambda>ch. let c = ucast (or ch 0x20) in hash_loop (tl k) keylen (a * 31 + c) (b * 127 + c))"

definition keyword_hash :: "int list \<Rightarrow> 32 word \<Rightarrow> bytes \<Rightarrow> nat \<Rightarrow> int res" where
  "keyword_hash h b key keylen =
     bindE (hash_loop key keylen 0 b) (\<lambda>(a, b).
     bindE (at h (uint (a mod word_of_nat (length h)))) (\<lambda>x.
     bindE (at h (uint (b mod word_of_nat (length h)))) (\<lambda>y. Inr (x + y))))"

section \<open>What the lookup decides\<close>

text \<open>The number of a word in the list, and -1 when it is not there.\<close>

fun word_number :: "bytes list \<Rightarrow> bytes \<Rightarrow> int option" where
  "word_number [] w = None"
| "word_number (x # words) w = (if x = w then Some 0 else map_option (\<lambda>n. n + 1) (word_number words w))"

definition keyword_number :: "bytes list \<Rightarrow> bytes \<Rightarrow> int" where
  "keyword_number words w = (case word_number words (map ascii_lower w) of Some n \<Rightarrow> n | None \<Rightarrow> - 1)"

lemma word_number_None: "word_number words w = None \<longleftrightarrow> w \<notin> set words"
  by (induction words) auto

lemma word_number_nth: "distinct words \<Longrightarrow> n < length words \<Longrightarrow> word_number words (words ! n) = Some (int n)"
proof (induction words arbitrary: n)
  case (Cons x words)
  then show ?case by (cases n) auto
qed simp

lemma c_str_text: "0 \<notin> set w \<Longrightarrow> c_str (w @ 0 # r) = Inr w"
  by (induction w) auto

lemma ascii_lower_zero [simp]: "ascii_lower ch = 0 \<longleftrightarrow> ch = 0"
proof -
  have "ch + 0x20 \<noteq> 0" if "ch \<le> 0x5a" for ch :: "8 word"
    using that by (auto simp: word_le_nat_alt word_unat_eq_iff unat_word_ariths)
  then show ?thesis by (auto simp: ascii_lower_def)
qed

lemma ascii_lower_0 [simp]: "ascii_lower 0 = 0"
  by simp

lemma keyword_matches_text:
  "0 \<notin> set w \<Longrightarrow> 0 \<notin> set k \<Longrightarrow> keyword_matches (w @ 0 # r) (k @ 0 # s) = Inr (map ascii_lower w = k)"
proof (induction w arbitrary: k)
  case Nil
  then show ?case by (cases k) (auto simp: at_def)
next
  case (Cons ch w)
  then show ?case by (cases k) (auto simp: at_def)
qed

lemma or_20_lower: "or (ascii_lower ch) 0x20 = or ch 0x20" for ch :: "8 word"
proof (cases "0x41 \<le> ch \<and> ch \<le> 0x5a")
  case True
  then have "unat ch \<in> set [0x41..<0x5b]" by (simp only: set_upt atLeastLessThan_iff word_le_nat_alt) simp
  moreover have "\<forall>n\<in>set [0x41..<0x5b]. or (word_of_nat n + 0x20) 0x20 = (or (word_of_nat n) 0x20 :: 8 word)"
    by code_simp
  ultimately have "or (word_of_nat (unat ch) + 0x20) 0x20 = (or (word_of_nat (unat ch)) 0x20 :: 8 word)" by blast
  then show ?thesis using True by (simp add: ascii_lower_def)
qed (auto simp: ascii_lower_def)

lemma hash_loop_lower: "n \<le> length k \<Longrightarrow> hash_loop (map ascii_lower k) n a b = hash_loop k n a b"
proof (induction n arbitrary: k a b)
  case (Suc n)
  then show ?case by (cases k) (auto simp: at_def or_20_lower Let_def)
qed simp

lemma hash_loop_append: "n \<le> length k \<Longrightarrow> hash_loop (k @ r) n a b = hash_loop k n a b"
proof (induction n arbitrary: k a b)
  case (Suc n)
  then show ?case by (cases k) (auto simp: at_def Let_def)
qed simp

lemma hash_loop_total: "n \<le> length k \<Longrightarrow> \<exists>x y. hash_loop k n a b = Inr (x, y)"
proof (induction n arbitrary: k a b)
  case (Suc n)
  then show ?case by (cases k) (auto simp: at_def Let_def)
qed simp

lemma mod_index:
  fixes a :: "32 word"
  assumes "0 < n" "n < 2 ^ 32"
  shows "uint (a mod word_of_nat n) = int (unat a mod n)"
proof -
  have "unat (word_of_nat n :: 32 word) = n" using assms(2) by (simp add: unsigned_of_nat take_bit_nat_eq_self)
  then have "unat (a mod word_of_nat n) = unat a mod n" by (simp add: unat_mod)
  then show ?thesis by (metis uint_nat)
qed

lemma keyword_hash_total:
  assumes "0 < length h" "length h < 2 ^ 32" "n \<le> length k"
  shows "\<exists>x. keyword_hash h b k n = Inr x"
proof -
  obtain x y where "hash_loop k n 0 b = Inr (x, y)" using hash_loop_total [OF assms(3)] by blast
  moreover have "\<not> length h \<le> m mod length h" for m using assms(1) by (simp add: not_le)
  ultimately show ?thesis using assms(1,2) by (simp add: keyword_hash_def mod_index at_def)
qed

text \<open>
  The hash on a word whose characters are given as integers: what is left when the word
  arithmetic is carried out in residues. It is used to check the generated tables.
\<close>

fun residues :: "int list \<Rightarrow> int \<Rightarrow> int \<Rightarrow> int \<times> int" where
  "residues [] a b = (a, b)"
| "residues (c # cs) a b = residues cs (take_bit 32 (a * 31 + c)) (take_bit 32 (b * 127 + c))"

definition hash_chars :: "bytes \<Rightarrow> int list" where
  "hash_chars w = map (\<lambda>ch. uint (or ch 0x20)) w"

lemma uint_step: "uint (a * m + ucast c) = take_bit 32 (uint a * uint m + uint c)"
  for a m :: "32 word" and c :: "8 word"
proof -
  have "uint (ucast c :: 32 word) = uint c" by (simp add: uint_up_ucast is_up)
  then show ?thesis by (simp add: uint_word_ariths take_bit_eq_mod mod_simps)
qed

lemma hash_loop_residues:
  "hash_loop (w @ r) (length w) a b = Inr (x, y) \<Longrightarrow> residues (hash_chars w) (uint a) (uint b) = (uint x, uint y)"
proof (induction w arbitrary: a b)
  case (Cons ch w)
  note step = uint_step [of a 31] uint_step [of b 127]
  have "residues (hash_chars w) (uint (a * 31 + ucast (or ch 0x20))) (uint (b * 127 + ucast (or ch 0x20))) = (uint x, uint y)"
    using Cons by (simp add: at_def Let_def)
  then show ?case by (simp add: hash_chars_def step)
qed (simp add: hash_chars_def)

lemma keyword_hash_residues:
  assumes "residues (hash_chars w) 0 (uint b) = (x, y)" "0 < length h" "length h < 2 ^ 32"
    and "h ! nat (x mod int (length h)) + h ! nat (y mod int (length h)) = i"
  shows "keyword_hash h b (w @ r) (length w) = Inr i"
proof -
  obtain u v where uv: "hash_loop (w @ r) (length w) 0 b = Inr (u, v)" using hash_loop_total [of "length w" "w @ r" 0 b] by auto
  then have "x = uint u" "y = uint v" using hash_loop_residues [OF uv] assms(1) by simp_all
  then have "nat (x mod int (length h)) = unat u mod length h" "nat (y mod int (length h)) = unat v mod length h"
    by (simp_all add: nat_mod_distrib)
  moreover have "\<not> length h \<le> m mod length h" for m using assms(2) by (simp add: not_le)
  ultimately show ?thesis using assms(2-4) uv by (simp add: keyword_hash_def mod_index at_def)
qed

section \<open>Checking a generated list\<close>

text \<open>
  The strings of a list are written one behind the other with a zero behind each, the offsets are
  the running sums of the lengths. The table of the hash is looked up by rows when it is checked.
\<close>

definition ascii :: "string \<Rightarrow> bytes" where
  "ascii s = map of_char s"

definition c_strings :: "string list \<Rightarrow> bytes" where
  "c_strings words = concat (map (\<lambda>w. ascii w @ [0]) words)"

fun offsets_from :: "int \<Rightarrow> string list \<Rightarrow> int list" where
  "offsets_from ofs [] = []"
| "offsets_from ofs (w # words) = ofs # offsets_from (ofs + int (length w) + 1) words"

fun rows_of :: "nat \<Rightarrow> 'a list list \<Rightarrow> bool" where
  "rows_of k [] = True"
| "rows_of k [r] = (length r \<le> k)"
| "rows_of k (r # s # rows) = (length r = k \<and> rows_of k (s # rows))"

definition row_hash :: "int list list \<Rightarrow> nat \<Rightarrow> int \<Rightarrow> int \<Rightarrow> string \<Rightarrow> int" where
  "row_hash rows k n b w =
     (case residues (map (\<lambda>c. or (of_char c) 0x20) w) 0 b of (x, y) \<Rightarrow>
        (let i = x mod n; j = y mod n in
         rows ! nat (i div int k) ! nat (i mod int k) + rows ! nat (j div int k) ! nat (j mod int k)))"

lemma rows_of_nth:
  "rows_of k rows \<Longrightarrow> 0 < k \<Longrightarrow> i < length (concat rows) \<Longrightarrow> concat rows ! i = rows ! (i div k) ! (i mod k)"
proof (induction k rows arbitrary: i rule: rows_of.induct)
  case (3 k r s rows)
  show ?case
  proof (cases "i < k")
    case False
    then have "i div k = Suc ((i - k) div k)" "i mod k = (i - k) mod k"
      using 3(3) by (simp_all add: le_div_geq le_mod_geq)
    then show ?thesis using 3 False by (simp add: nth_append)
  qed (use 3 in \<open>simp add: nth_append\<close>)
qed auto

lemma length_ascii [simp]: "length (ascii s) = length s"
  by (simp add: ascii_def)

lemma hash_chars_ascii: "hash_chars (ascii w) = map (\<lambda>c. or (of_char c) 0x20) w"
proof -
  have "uint (of_char c :: 8 word) = of_char c" for c
  proof -
    have "uint (of_nat (of_char c) :: 8 word) = int (take_bit 8 (of_char c))" by (simp add: unsigned_of_nat)
    moreover have "take_bit 8 (of_char c) = (of_char c :: nat)" using nat_of_char_less_256 [of c] by (simp add: take_bit_nat_eq_self)
    ultimately show ?thesis by (simp add: of_nat_of_char)
  qed
  then show ?thesis by (simp add: hash_chars_def ascii_def uint_or)
qed

lemma keyword_hash_rows:
  assumes "row_hash rows k (int (length h)) (uint b) w = i" "h = concat rows" "rows_of k rows" "0 < k"
    and "0 < length h" "length h < 2 ^ 32"
  shows "keyword_hash h b (ascii w @ r) (length w) = Inr i"
proof -
  obtain x y where xy: "residues (hash_chars (ascii w)) 0 (uint b) = (x, y)" by fastforce
  have "nat (z mod int (length h)) < length (concat rows)" for z using assms(2,5) by (simp add: nat_less_iff)
  then have "h ! nat (z mod int (length h)) = rows ! nat (z mod int (length h) div int k) ! nat (z mod int (length h) mod int k)" for z
    using rows_of_nth [OF assms(3,4)] assms(2,5) by (simp add: nat_div_distrib nat_mod_distrib)
  then have "h ! nat (x mod int (length h)) + h ! nat (y mod int (length h)) = i"
    using assms(1) xy by (simp add: row_hash_def hash_chars_ascii Let_def)
  then show ?thesis using keyword_hash_residues [OF xy assms(5,6)] by simp
qed

lemma offsets_from_nth:
  "n < length words \<Longrightarrow> offsets_from p words ! n = p + int (length (c_strings (take n words)))"
proof (induction words arbitrary: n p)
  case (Cons w words)
  then show ?case by (cases n) (auto simp: c_strings_def)
qed simp

lemma offsets_from_length [simp]: "length (offsets_from p words) = length words"
  by (induction words arbitrary: p) auto

lemma c_strings_split:
  assumes "n < length words"
  shows "c_strings words = c_strings (take n words) @ ascii (words ! n) @ 0 # c_strings (drop (Suc n) words)"
proof -
  have "c_strings (take n words @ words ! n # drop (Suc n) words) =
      c_strings (take n words) @ ascii (words ! n) @ 0 # c_strings (drop (Suc n) words)"
    by (simp add: c_strings_def)
  then show ?thesis using id_take_nth_drop [OF assms] by simp
qed

lemma GetScanKeyword_text:
  assumes "kw_string kwlist = c_strings words" "kw_offsets kwlist = offsets_from 0 words" "n < length words"
  shows "GetScanKeyword (int n) kwlist = Inr (ascii (words ! n) @ 0 # c_strings (drop (Suc n) words))"
  using assms c_strings_split [OF assms(3)] by (simp add: GetScanKeyword_def at_def offsets_from_nth)

lemma keyword_hash_lower:
  assumes "n \<le> length k"
  shows "keyword_hash h b (map ascii_lower k) n = keyword_hash h b k n"
  using assms by (simp add: keyword_hash_def hash_loop_lower)

section \<open>The interface of a generated list\<close>

locale keyword_list =
  fixes kwlist :: ScanKeywordList and words :: "bytes list"
  assumes number: "num_keywords kwlist = int (length words)"
    and text_at: "n < length words \<Longrightarrow> \<exists>r. GetScanKeyword (int n) kwlist = Inr (words ! n @ 0 # r)"
    and word: "w \<in> set words \<Longrightarrow> 0 \<notin> set w \<and> int (length w) \<le> max_kw_len kwlist"
    and hash_total: "n \<le> length k \<Longrightarrow> \<exists>h. hash kwlist k n = Inr h"
    and hash_lower: "n \<le> length k \<Longrightarrow> hash kwlist (map ascii_lower k) n = hash kwlist k n"
    and hash_word: "n < length words \<Longrightarrow> hash kwlist (words ! n @ 0 # r) (length (words ! n)) = Inr (int n)"
begin

lemma distinct_words: "distinct words"
proof (unfold distinct_conv_nth, intro allI impI)
  fix i j assume "i < length words" "j < length words" "i \<noteq> j"
  then show "words ! i \<noteq> words ! j" using hash_word [of i "[]"] hash_word [of j "[]"] by auto
qed

lemma hash_keyword:
  assumes "map ascii_lower w = words ! n" "n < length words"
  shows "hash kwlist (w @ 0 # r) (length w) = Inr (int n)"
proof -
  have "hash kwlist (w @ 0 # r) (length w) = hash kwlist (map ascii_lower (w @ 0 # r)) (length w)"
    by (rule hash_lower [symmetric]) simp
  also have "\<dots> = hash kwlist (words ! n @ 0 # map ascii_lower r) (length (words ! n))"
    using assms by (simp flip: assms(1))
  finally show ?thesis using hash_word [OF assms(2)] by simp
qed

theorem lookup_decides:
  assumes w: "0 \<notin> set w"
  shows "ScanKeywordLookup (w @ 0 # r) kwlist = Inr (keyword_number words w)"
proof (cases "map ascii_lower w \<in> set words")
  case True
  then obtain n where n: "n < length words" "map ascii_lower w = words ! n" by (metis in_set_conv_nth)
  obtain s where s: "GetScanKeyword (int n) kwlist = Inr (words ! n @ 0 # s)" using text_at n(1) by blast
  have "keyword_matches (w @ 0 # r) (words ! n @ 0 # s) = Inr True"
    using keyword_matches_text [OF w, of "words ! n"] word [of "words ! n"] n by simp
  moreover have "\<not> int (length w) > max_kw_len kwlist" using word [OF True] by simp
  ultimately show ?thesis
    using n s hash_keyword [OF n(2,1)] distinct_words
    by (simp add: ScanKeywordLookup_def c_str_text [OF w] number keyword_number_def word_number_nth)
next
  case False
  then have "word_number words (map ascii_lower w) = None" by (rule word_number_None [THEN iffD2])
  then have no: "keyword_number words w = - 1" by (simp add: keyword_number_def)
  obtain h where h: "hash kwlist (w @ 0 # r) (length w) = Inr h" using hash_total [of "length w" "w @ 0 # r"] by auto
  show ?thesis
  proof (cases "h < 0 \<or> h \<ge> num_keywords kwlist")
    case True
    then show ?thesis using h no by (auto simp: ScanKeywordLookup_def c_str_text [OF w])
  next
    case range: False
    then have i: "nat h < length words" "int (nat h) = h" using number by auto
    obtain s where "GetScanKeyword h kwlist = Inr (words ! nat h @ 0 # s)" using text_at [OF i(1)] i(2) by auto
    moreover have k: "words ! nat h \<in> set words" using i(1) by simp
    have "0 \<notin> set (words ! nat h)" "words ! nat h \<noteq> map ascii_lower w" using word [OF k] False k by auto
    then have "keyword_matches (w @ 0 # r) (words ! nat h @ 0 # s) = Inr False"
      using keyword_matches_text [OF w, of "words ! nat h" r s] by simp
    ultimately show ?thesis using h no range by (auto simp: ScanKeywordLookup_def c_str_text [OF w])
  qed
qed

end

end
