(* ===== verification/Keyword_Tables.thy ===== *)
theory Keyword_Tables
  imports Keyword_Lookup
begin

text \<open>
  The three generated keyword lists as they stand in the headers: \<^verbatim>\<open>ScanKeywords\<close> of
  \<^verbatim>\<open>include/kwlist_d.h\<close> with the token codes and categories of \<^verbatim>\<open>include/parser/kwlist.h\<close>, and the
  reserved and the unreserved words of PL/pgSQL, \<^verbatim>\<open>include/pl_reserved_kwlist_d.h\<close> and
  \<^verbatim>\<open>include/pl_unreserved_kwlist_d.h\<close>. Each is an instance of \<open>keyword_list\<close>: that the offsets, the
  hash table and the words belong together is computed here, word by word.

  The long tables are written in three parts of 150 words. A token code is the number the
  grammar's header gives its name.
\<close>

section \<open>The words of the core grammar\<close>

definition ScanKeywords_kw_string_1 :: "string list" where
  "ScanKeywords_kw_string_1 =
    [''abort'', ''absolute'', ''access'', ''action'', ''add'', ''admin'', ''after'', ''aggregate'', ''all'',
     ''also'', ''alter'', ''always'', ''analyse'', ''analyze'', ''and'', ''any'', ''array'', ''as'', ''asc'',
     ''assertion'', ''assignment'', ''asymmetric'', ''at'', ''attach'', ''attribute'', ''authorization'',
     ''backward'', ''before'', ''begin'', ''between'', ''bigint'', ''binary'', ''bit'', ''boolean'', ''both'',
     ''by'', ''cache'', ''call'', ''called'', ''cascade'', ''cascaded'', ''case'', ''cast'', ''catalog'', ''chain'',
     ''char'', ''character'', ''characteristics'', ''check'', ''checkpoint'', ''class'', ''close'', ''cluster'',
     ''coalesce'', ''collate'', ''collation'', ''column'', ''columns'', ''comment'', ''comments'', ''commit'',
     ''committed'', ''concurrently'', ''configuration'', ''conflict'', ''connection'', ''constraint'',
     ''constraints'', ''content'', ''continue'', ''conversion'', ''copy'', ''cost'', ''create'', ''cross'', ''csv'',
     ''cube'', ''current'', ''current_catalog'', ''current_date'', ''current_role'', ''current_schema'',
     ''current_time'', ''current_timestamp'', ''current_user'', ''cursor'', ''cycle'', ''data'', ''database'',
     ''day'', ''deallocate'', ''dec'', ''decimal'', ''declare'', ''default'', ''defaults'', ''deferrable'',
     ''deferred'', ''definer'', ''delete'', ''delimiter'', ''delimiters'', ''depends'', ''desc'', ''detach'',
     ''dictionary'', ''disable'', ''discard'', ''distinct'', ''do'', ''document'', ''domain'', ''double'', ''drop'',
     ''each'', ''else'', ''enable'', ''encoding'', ''encrypted'', ''end'', ''enum'', ''escape'', ''event'',
     ''except'', ''exclude'', ''excluding'', ''exclusive'', ''execute'', ''exists'', ''explain'', ''expression'',
     ''extension'', ''external'', ''extract'', ''false'', ''family'', ''fetch'', ''filter'', ''first'', ''float'',
     ''following'', ''for'', ''force'', ''foreign'', ''forward'', ''freeze'', ''from'', ''full'', ''function'',
     ''functions'']"

definition ScanKeywords_kw_string_2 :: "string list" where
  "ScanKeywords_kw_string_2 =
    [''generated'', ''global'', ''grant'', ''granted'', ''greatest'', ''group'', ''grouping'', ''groups'',
     ''handler'', ''having'', ''header'', ''hold'', ''hour'', ''identity'', ''if'', ''ilike'', ''immediate'',
     ''immutable'', ''implicit'', ''import'', ''in'', ''include'', ''including'', ''increment'', ''index'',
     ''indexes'', ''inherit'', ''inherits'', ''initially'', ''inline'', ''inner'', ''inout'', ''input'',
     ''insensitive'', ''insert'', ''instead'', ''int'', ''integer'', ''intersect'', ''interval'', ''into'',
     ''invoker'', ''is'', ''isnull'', ''isolation'', ''join'', ''key'', ''label'', ''language'', ''large'',
     ''last'', ''lateral'', ''leading'', ''leakproof'', ''least'', ''left'', ''level'', ''like'', ''limit'',
     ''listen'', ''load'', ''local'', ''localtime'', ''localtimestamp'', ''location'', ''lock'', ''locked'',
     ''logged'', ''mapping'', ''match'', ''materialized'', ''maxvalue'', ''method'', ''minute'', ''minvalue'',
     ''mode'', ''month'', ''move'', ''name'', ''names'', ''national'', ''natural'', ''nchar'', ''new'', ''next'',
     ''nfc'', ''nfd'', ''nfkc'', ''nfkd'', ''no'', ''none'', ''normalize'', ''normalized'', ''not'', ''nothing'',
     ''notify'', ''notnull'', ''nowait'', ''null'', ''nullif'', ''nulls'', ''numeric'', ''object'', ''of'', ''off'',
     ''offset'', ''oids'', ''old'', ''on'', ''only'', ''operator'', ''option'', ''options'', ''or'', ''order'',
     ''ordinality'', ''others'', ''out'', ''outer'', ''over'', ''overlaps'', ''overlay'', ''overriding'', ''owned'',
     ''owner'', ''parallel'', ''parser'', ''partial'', ''partition'', ''passing'', ''password'', ''placing'',
     ''plans'', ''policy'', ''position'', ''preceding'', ''precision'', ''prepare'', ''prepared'', ''preserve'',
     ''primary'', ''prior'', ''privileges'', ''procedural'', ''procedure'', ''procedures'', ''program'',
     ''publication'', ''quote'', ''range'']"

definition ScanKeywords_kw_string_3 :: "string list" where
  "ScanKeywords_kw_string_3 =
    [''read'', ''real'', ''reassign'', ''recheck'', ''recursive'', ''ref'', ''references'', ''referencing'',
     ''refresh'', ''reindex'', ''relative'', ''release'', ''rename'', ''repeatable'', ''replace'', ''replica'',
     ''reset'', ''restart'', ''restrict'', ''returning'', ''returns'', ''revoke'', ''right'', ''role'',
     ''rollback'', ''rollup'', ''routine'', ''routines'', ''row'', ''rows'', ''rule'', ''savepoint'', ''schema'',
     ''schemas'', ''scroll'', ''search'', ''second'', ''security'', ''select'', ''sequence'', ''sequences'',
     ''serializable'', ''server'', ''session'', ''session_user'', ''set'', ''setof'', ''sets'', ''share'', ''show'',
     ''similar'', ''simple'', ''skip'', ''smallint'', ''snapshot'', ''some'', ''sql'', ''stable'', ''standalone'',
     ''start'', ''statement'', ''statistics'', ''stdin'', ''stdout'', ''storage'', ''stored'', ''strict'',
     ''strip'', ''subscription'', ''substring'', ''support'', ''symmetric'', ''sysid'', ''system'', ''table'',
     ''tables'', ''tablesample'', ''tablespace'', ''temp'', ''template'', ''temporary'', ''text'', ''then'',
     ''ties'', ''time'', ''timestamp'', ''to'', ''trailing'', ''transaction'', ''transform'', ''treat'',
     ''trigger'', ''trim'', ''true'', ''truncate'', ''trusted'', ''type'', ''types'', ''uescape'', ''unbounded'',
     ''uncommitted'', ''unencrypted'', ''union'', ''unique'', ''unknown'', ''unlisten'', ''unlogged'', ''until'',
     ''update'', ''user'', ''using'', ''vacuum'', ''valid'', ''validate'', ''validator'', ''value'', ''values'',
     ''varchar'', ''variadic'', ''varying'', ''verbose'', ''version'', ''view'', ''views'', ''volatile'', ''when'',
     ''where'', ''whitespace'', ''window'', ''with'', ''within'', ''without'', ''work'', ''wrapper'', ''write'',
     ''xml'', ''xmlattributes'', ''xmlconcat'', ''xmlelement'', ''xmlexists'', ''xmlforest'', ''xmlnamespaces'',
     ''xmlparse'', ''xmlpi'', ''xmlroot'', ''xmlserialize'', ''xmltable'', ''year'', ''yes'', ''zone'']"

definition ScanKeywords_words :: "string list" where
  "ScanKeywords_words = ScanKeywords_kw_string_1 @ ScanKeywords_kw_string_2 @ ScanKeywords_kw_string_3"

definition ScanKeywords_kw_offsets_1 :: "int list" where
  "ScanKeywords_kw_offsets_1 =
    [0, 6, 15, 22, 29, 33, 39, 45, 55, 59, 64, 70, 77, 85, 93, 97, 101, 107, 110, 114, 124, 135, 146, 149, 156, 166,
     180, 189, 196, 202, 210, 217, 224, 228, 236, 241, 244, 250, 255, 262, 270, 279, 284, 289, 297, 303, 308, 318,
     334, 340, 351, 357, 363, 371, 380, 388, 398, 405, 413, 421, 430, 437, 447, 460, 474, 483, 494, 505, 517, 525,
     534, 545, 550, 555, 562, 568, 572, 577, 585, 601, 614, 627, 642, 655, 673, 686, 693, 699, 704, 713, 717, 728,
     732, 740, 748, 756, 765, 776, 785, 793, 800, 810, 821, 829, 834, 841, 852, 860, 868, 877, 880, 889, 896, 903,
     908, 913, 918, 925, 934, 944, 948, 953, 960, 966, 973, 981, 991, 1001, 1009, 1016, 1024, 1035, 1045, 1054,
     1062, 1068, 1075, 1081, 1088, 1094, 1100, 1110, 1114, 1120, 1128, 1136, 1143, 1148, 1153, 1162]"

definition ScanKeywords_kw_offsets_2 :: "int list" where
  "ScanKeywords_kw_offsets_2 =
    [1172, 1182, 1189, 1195, 1203, 1212, 1218, 1227, 1234, 1242, 1249, 1256, 1261, 1266, 1275, 1278, 1284, 1294,
     1304, 1313, 1320, 1323, 1331, 1341, 1351, 1357, 1365, 1373, 1382, 1392, 1399, 1405, 1411, 1417, 1429, 1436,
     1444, 1448, 1456, 1466, 1475, 1480, 1488, 1491, 1498, 1508, 1513, 1517, 1523, 1532, 1538, 1543, 1551, 1559,
     1569, 1575, 1580, 1586, 1591, 1597, 1604, 1609, 1615, 1625, 1640, 1649, 1654, 1661, 1668, 1676, 1682, 1695,
     1704, 1711, 1718, 1727, 1732, 1738, 1743, 1748, 1754, 1763, 1771, 1777, 1781, 1786, 1790, 1794, 1799, 1804,
     1807, 1812, 1822, 1833, 1837, 1845, 1852, 1860, 1867, 1872, 1879, 1885, 1893, 1900, 1903, 1907, 1914, 1919,
     1923, 1926, 1931, 1940, 1947, 1955, 1958, 1964, 1975, 1982, 1986, 1992, 1997, 2006, 2014, 2025, 2031, 2037,
     2046, 2053, 2061, 2071, 2079, 2088, 2096, 2102, 2109, 2118, 2128, 2138, 2146, 2155, 2164, 2172, 2178, 2189,
     2200, 2210, 2221, 2229, 2241, 2247]"

definition ScanKeywords_kw_offsets_3 :: "int list" where
  "ScanKeywords_kw_offsets_3 =
    [2253, 2258, 2263, 2272, 2280, 2290, 2294, 2305, 2317, 2325, 2333, 2342, 2350, 2357, 2368, 2376, 2384, 2390,
     2398, 2407, 2417, 2425, 2432, 2438, 2443, 2452, 2459, 2467, 2476, 2480, 2485, 2490, 2500, 2507, 2515, 2522,
     2529, 2536, 2545, 2552, 2561, 2571, 2584, 2591, 2599, 2612, 2616, 2622, 2627, 2633, 2638, 2646, 2653, 2658,
     2667, 2676, 2681, 2685, 2692, 2703, 2709, 2719, 2730, 2736, 2743, 2751, 2758, 2765, 2771, 2784, 2794, 2802,
     2812, 2818, 2825, 2831, 2838, 2850, 2861, 2866, 2875, 2885, 2890, 2895, 2900, 2905, 2915, 2918, 2927, 2939,
     2949, 2955, 2963, 2968, 2973, 2982, 2990, 2995, 3001, 3009, 3019, 3031, 3043, 3049, 3056, 3064, 3073, 3082,
     3088, 3095, 3100, 3106, 3113, 3119, 3128, 3138, 3144, 3151, 3159, 3168, 3176, 3184, 3192, 3197, 3203, 3212,
     3217, 3223, 3234, 3241, 3246, 3253, 3261, 3266, 3274, 3280, 3284, 3298, 3308, 3319, 3329, 3339, 3353, 3362,
     3368, 3376, 3389, 3398, 3403, 3407]"

definition ScanKeywords_h :: "int list" where
  "ScanKeywords_h =
    [-172, 32767, 32767, 32767, 0, 56, 362, 32767, 0, 90, -251, 332, 32767, 66, 298, 0, 32767, 88, 27, 22, -125,
     317, 0, 32767, -35, 0, 32767, 32767, 32767, 52, 32767, 275, 32767, -277, 32767, 32767, 316, 177, 32767, 0, 398,
     58, 272, -88, 0, -147, 242, 143, 401, 0, 32767, 0, 293, 355, 0, 0, 303, 32767, 225, 580, 0, 378, 0, 0, 32767,
     -25, -312, 32767, -210, 0, 32767, -19, 32767, 91, 307, 354, 32767, 32767, -18, 36, 32767, 32767, 402, 292, 165,
     274, 0, 32767, 10, -20, 32767, 294, 32767, -622, 326, 32767, -128, 0, 33, 32767, 32767, 325, 32767, 276, 343,
     32767, 96, 173, 32767, 32767, 32767, 0, 32767, 320, -128, 32767, 357, 24, -9, 427, 32767, 32767, 0, 32767, 0,
     0, 32767, 32767, 405, 32767, 125, 32767, 0, 32767, -40, 32767, 0, 80, 0, 32767, 0, 95, -146, 0, 32767, 26, 165,
     32767, 41, 32767, 418, 32767, 32767, 40, 32767, 147, 32767, 32767, 32767, 91, 110, 9, 305, -340, 32767, 103,
     32767, 0, 329, 32767, 32767, 310, 32767, 32767, 147, -262, 422, 393, 382, 136, 32767, 177, 0, 32767, 32767,
     102, 0, 32767, 83, 141, 28, 167, -421, 32767, 38, 111, 0, 479, 32767, 32767, 29, 439, 32767, 427, -6, 182,
     32767, 74, 32767, 360, 236, 32767, 32767, 327, -63, 162, 154, 184, 90, 263, 115, 127, 539, 347, -72, 32767,
     -159, 32767, -249, 152, 32767, 357, 404, -110, 32767, 404, 345, 32767, 80, 352, 422, 61, 32767, 32767, 32767,
     243, 126, 117, 32767, 0, 32767, 32767, 208, 32767, 32767, -20, 430, -195, 32767, 32767, 32767, 118, -62, 32767,
     32767, 98, 136, 0, 0, 32767, 261, 32767, 0, 32767, 230, 37, 750, 154, 32767, -86, 87, 32767, 6, 61, 32767, 205,
     32767, 517, 107, 66, 304, 32767, 0, 32767, 32767, 32767, 333, 32767, 357, 239, 32767, 32767, 437, -26, 32767,
     210, 0, 20, 369, 10, 32767, -78, 616, 70, 0, 32767, 86, 32767, 0, 32767, 14, 60, 32, 32767, 373, 32767, -218,
     320, 32767, 268, 32767, 32767, 425, -67, 0, 32767, 252, 32767, -93, 193, -362, -140, 32767, -328, 32767, 0,
     319, 336, 32767, 121, 0, 32767, 207, 32767, 481, -176, 276, 47, 235, 32767, 0, 221, 32767, 228, 32767, 84,
     32767, 32767, 32767, 32767, 32767, 32767, 290, 32767, 32767, 84, -170, 82, 246, -43, 201, 155, -7, 299, 32767,
     32767, 241, 32767, -418, 32767, 32767, -303, 32767, 32767, -40, 308, 32767, 0, 178, -67, 32767, 273, 32767, 0,
     32767, 69, 387, 32767, 341, 0, 0, -19, 324, -88, 166, 32767, 6, 20, 32767, 17, 22, 359, 32767, 32767, 172, 0,
     32767, 0, 206, 88, 0, 32767, 35, 0, 275, 114, 339, 32767, 32767, 32767, 32767, 32767, 524, 0, -52, 191, -115,
     9, 200, 102, 0, 32767, 3, 0, 0, 0, -288, 0, -132, 32767, 0, 32767, 300, 0, 0, 0, 212, 32767, 260, 32767, -279,
     104, 506, 0, 640, 38, 268, 32767, 131, 32767, 32767, 32767, 32767, 0, 0, 32767, 32767, 18, 100, 44, 67, 270,
     245, 283, 224, -66, 32767, 32767, 32767, -67, 32767, 389, 32767, 0, 125, 354, 32767, 32767, -21, 124, 0, 204,
     32767, 0, 99, 32767, 267, 32767, 0, 32767, 32767, 231, 32767, -129, -113, 108, 23, 0, 0, 32767, 32767, 0,
     32767, 269, 32767, 32767, -133, 32767, -384, 32767, 32767, 0, 32767, 32767, 32767, 0, 32767, 32767, 32767, 0,
     322, 424, 117, -29, 32767, 32767, 145, 0, 0, 323, 119, 32767, 32767, 32767, 392, -164, -143, -25, -106, 0, 97,
     32767, 32767, 235, 32767, 0, 32767, 411, 363, 32767, 31, 32767, 443, 32767, 76, 29, 32767, 323, 32767, 142,
     32767, 0, 244, 0, 32767, 28, 32767, 0, 377, -8, -45, 32767, 37, 0, 350, 0, 32767, 32767, 38, 416, 32767, 265,
     -78, -308, -51, 705, 32767, 32767, 0, 66, 0, 32767, 32767, 32767, 81, -250, 32767, 1, 421, 32767, 32767, 0,
     32767, 401, 198, 32767, 256, 290, 210, 32767, 32767, 32767, 32767, 0, 444, 211, -99, 220, 64, 32767, 32767,
     32767, 32767, 190, 19, 0, 216, 32767, 262, 32767, 404, 562, -222, 0, 0, -162, 32767, 192, 65, 32767, 150, 191,
     0, 218, 267, 32767, 32767, 32767, 399, 189, 356, 532, 0, 32767, 429, 32767, 32767, 54, 279, 151, 0, 353, 394,
     176, 215, 32767, 15, 153, 137, 92, 420, 47, 253, 0, 298, 32767, 32767, 32767, 234, 164, 241, 32767, 0, 409, 0,
     32767, 0, 32767, 0, 70, 32767, 32767, 32767, 0, 32767, 32767, 32767, -138, 32767, 32767, -46, 32767, 97, 32767,
     0, -126, 32767, 169, 322, 392, 32767, 0, 32767, 32767, 0, 282, 296, 32767, 0, 403, 32767, -24, 32767, -34,
     32767, 32767, 32767, 418, 32767, 0, 97, 238, 32767, 144, 428, 32767, 2, 32767, 32767, 32767, 194, -182, 12,
     32767, 391, 32767, 880, 32767, 32767, 50, 331, 0, 0, 358, 20, 32767, 32767, 222, 317, 32767, 0, 125, 32767, 0,
     32767, 284, 32767, 32767, 197, 0, 63, 32767, 0, 188, 32767, 32767, 147, 190, 344, 32767, -42, 32767, 0, 187,
     32767, 32767, 350, 32767, 0, 0, 127, 32767, 32767, 161, 32767, 0, 0, 382, 32767, 32767, 316, 130, 32767, 379,
     32767, 383, 368, 93, -195, 0, 233, 73, 32767, 100, 32767, 338, 90, 32767, 258, 32767, 32767, 235, 175, 32767,
     32767, 0, -9, 0, 0, 32767, 32767, 111, 417, 330, 0, 0, 225, 32767, 0, 0, 32767, 0, 64, 32767, 32767, 16, 113,
     29, 0, 32767, 32767, 0, 43, 0, 365, -41, -284, 0, 0, 0, 61, 314, 255, 0, 32767, 145, 32767, -445, 32767, 32767,
     154]"

definition ScanKeywords_hash_func :: "bytes \<Rightarrow> nat \<Rightarrow> int res" where
  "ScanKeywords_hash_func = keyword_hash ScanKeywords_h 3"

definition ScanKeywords :: ScanKeywordList where
  "ScanKeywords =
     \<lparr>kw_string = c_strings ScanKeywords_words,
      kw_offsets = ScanKeywords_kw_offsets_1 @ ScanKeywords_kw_offsets_2 @ ScanKeywords_kw_offsets_3,
      hash = ScanKeywords_hash_func, num_keywords = 450, max_kw_len = 17\<rparr>"

text \<open>The list of \<^verbatim>\<open>kwlist.h\<close>: name, token code and category of every keyword.\<close>

abbreviation (input) UNRESERVED_KEYWORD :: int where "UNRESERVED_KEYWORD \<equiv> 0"
abbreviation (input) COL_NAME_KEYWORD :: int where "COL_NAME_KEYWORD \<equiv> 1"
abbreviation (input) TYPE_FUNC_NAME_KEYWORD :: int where "TYPE_FUNC_NAME_KEYWORD \<equiv> 2"
abbreviation (input) RESERVED_KEYWORD :: int where "RESERVED_KEYWORD \<equiv> 3"

definition PG_KEYWORD_1 :: "(string \<times> int \<times> int) list" where
  "PG_KEYWORD_1 =
    [(''abort'', 277, UNRESERVED_KEYWORD), (''absolute'', 278, UNRESERVED_KEYWORD),
     (''access'', 279, UNRESERVED_KEYWORD), (''action'', 280, UNRESERVED_KEYWORD),
     (''add'', 281, UNRESERVED_KEYWORD), (''admin'', 282, UNRESERVED_KEYWORD), (''after'', 283, UNRESERVED_KEYWORD),
     (''aggregate'', 284, UNRESERVED_KEYWORD), (''all'', 285, RESERVED_KEYWORD),
     (''also'', 286, UNRESERVED_KEYWORD), (''alter'', 287, UNRESERVED_KEYWORD),
     (''always'', 288, UNRESERVED_KEYWORD), (''analyse'', 289, RESERVED_KEYWORD),
     (''analyze'', 290, RESERVED_KEYWORD), (''and'', 291, RESERVED_KEYWORD), (''any'', 292, RESERVED_KEYWORD),
     (''array'', 293, RESERVED_KEYWORD), (''as'', 294, RESERVED_KEYWORD), (''asc'', 295, RESERVED_KEYWORD),
     (''assertion'', 296, UNRESERVED_KEYWORD), (''assignment'', 297, UNRESERVED_KEYWORD),
     (''asymmetric'', 298, RESERVED_KEYWORD), (''at'', 299, UNRESERVED_KEYWORD),
     (''attach'', 300, UNRESERVED_KEYWORD), (''attribute'', 301, UNRESERVED_KEYWORD),
     (''authorization'', 302, TYPE_FUNC_NAME_KEYWORD), (''backward'', 303, UNRESERVED_KEYWORD),
     (''before'', 304, UNRESERVED_KEYWORD), (''begin'', 305, UNRESERVED_KEYWORD),
     (''between'', 306, COL_NAME_KEYWORD), (''bigint'', 307, COL_NAME_KEYWORD),
     (''binary'', 308, TYPE_FUNC_NAME_KEYWORD), (''bit'', 309, COL_NAME_KEYWORD),
     (''boolean'', 310, COL_NAME_KEYWORD), (''both'', 311, RESERVED_KEYWORD), (''by'', 312, UNRESERVED_KEYWORD),
     (''cache'', 313, UNRESERVED_KEYWORD), (''call'', 314, UNRESERVED_KEYWORD),
     (''called'', 315, UNRESERVED_KEYWORD), (''cascade'', 316, UNRESERVED_KEYWORD),
     (''cascaded'', 317, UNRESERVED_KEYWORD), (''case'', 318, RESERVED_KEYWORD), (''cast'', 319, RESERVED_KEYWORD),
     (''catalog'', 320, UNRESERVED_KEYWORD), (''chain'', 321, UNRESERVED_KEYWORD),
     (''char'', 322, COL_NAME_KEYWORD), (''character'', 323, COL_NAME_KEYWORD),
     (''characteristics'', 324, UNRESERVED_KEYWORD), (''check'', 325, RESERVED_KEYWORD),
     (''checkpoint'', 326, UNRESERVED_KEYWORD), (''class'', 327, UNRESERVED_KEYWORD),
     (''close'', 328, UNRESERVED_KEYWORD), (''cluster'', 329, UNRESERVED_KEYWORD),
     (''coalesce'', 330, COL_NAME_KEYWORD), (''collate'', 331, RESERVED_KEYWORD),
     (''collation'', 332, TYPE_FUNC_NAME_KEYWORD), (''column'', 333, RESERVED_KEYWORD),
     (''columns'', 334, UNRESERVED_KEYWORD), (''comment'', 335, UNRESERVED_KEYWORD),
     (''comments'', 336, UNRESERVED_KEYWORD), (''commit'', 337, UNRESERVED_KEYWORD),
     (''committed'', 338, UNRESERVED_KEYWORD), (''concurrently'', 339, TYPE_FUNC_NAME_KEYWORD),
     (''configuration'', 340, UNRESERVED_KEYWORD), (''conflict'', 341, UNRESERVED_KEYWORD),
     (''connection'', 342, UNRESERVED_KEYWORD), (''constraint'', 343, RESERVED_KEYWORD),
     (''constraints'', 344, UNRESERVED_KEYWORD), (''content'', 345, UNRESERVED_KEYWORD),
     (''continue'', 346, UNRESERVED_KEYWORD), (''conversion'', 347, UNRESERVED_KEYWORD),
     (''copy'', 348, UNRESERVED_KEYWORD), (''cost'', 349, UNRESERVED_KEYWORD), (''create'', 350, RESERVED_KEYWORD),
     (''cross'', 351, TYPE_FUNC_NAME_KEYWORD), (''csv'', 352, UNRESERVED_KEYWORD),
     (''cube'', 353, UNRESERVED_KEYWORD), (''current'', 354, UNRESERVED_KEYWORD),
     (''current_catalog'', 355, RESERVED_KEYWORD), (''current_date'', 356, RESERVED_KEYWORD),
     (''current_role'', 357, RESERVED_KEYWORD), (''current_schema'', 358, TYPE_FUNC_NAME_KEYWORD),
     (''current_time'', 359, RESERVED_KEYWORD), (''current_timestamp'', 360, RESERVED_KEYWORD),
     (''current_user'', 361, RESERVED_KEYWORD), (''cursor'', 362, UNRESERVED_KEYWORD),
     (''cycle'', 363, UNRESERVED_KEYWORD), (''data'', 364, UNRESERVED_KEYWORD),
     (''database'', 365, UNRESERVED_KEYWORD), (''day'', 366, UNRESERVED_KEYWORD),
     (''deallocate'', 367, UNRESERVED_KEYWORD), (''dec'', 368, COL_NAME_KEYWORD),
     (''decimal'', 369, COL_NAME_KEYWORD), (''declare'', 370, UNRESERVED_KEYWORD),
     (''default'', 371, RESERVED_KEYWORD), (''defaults'', 372, UNRESERVED_KEYWORD),
     (''deferrable'', 373, RESERVED_KEYWORD), (''deferred'', 374, UNRESERVED_KEYWORD),
     (''definer'', 375, UNRESERVED_KEYWORD), (''delete'', 376, UNRESERVED_KEYWORD),
     (''delimiter'', 377, UNRESERVED_KEYWORD), (''delimiters'', 378, UNRESERVED_KEYWORD),
     (''depends'', 379, UNRESERVED_KEYWORD), (''desc'', 380, RESERVED_KEYWORD),
     (''detach'', 381, UNRESERVED_KEYWORD), (''dictionary'', 382, UNRESERVED_KEYWORD),
     (''disable'', 383, UNRESERVED_KEYWORD), (''discard'', 384, UNRESERVED_KEYWORD),
     (''distinct'', 385, RESERVED_KEYWORD), (''do'', 386, RESERVED_KEYWORD),
     (''document'', 387, UNRESERVED_KEYWORD), (''domain'', 388, UNRESERVED_KEYWORD),
     (''double'', 389, UNRESERVED_KEYWORD), (''drop'', 390, UNRESERVED_KEYWORD),
     (''each'', 391, UNRESERVED_KEYWORD), (''else'', 392, RESERVED_KEYWORD), (''enable'', 393, UNRESERVED_KEYWORD),
     (''encoding'', 394, UNRESERVED_KEYWORD), (''encrypted'', 395, UNRESERVED_KEYWORD),
     (''end'', 396, RESERVED_KEYWORD), (''enum'', 397, UNRESERVED_KEYWORD), (''escape'', 398, UNRESERVED_KEYWORD),
     (''event'', 399, UNRESERVED_KEYWORD), (''except'', 400, RESERVED_KEYWORD),
     (''exclude'', 401, UNRESERVED_KEYWORD), (''excluding'', 402, UNRESERVED_KEYWORD),
     (''exclusive'', 403, UNRESERVED_KEYWORD), (''execute'', 404, UNRESERVED_KEYWORD),
     (''exists'', 405, COL_NAME_KEYWORD), (''explain'', 406, UNRESERVED_KEYWORD),
     (''expression'', 407, UNRESERVED_KEYWORD), (''extension'', 408, UNRESERVED_KEYWORD),
     (''external'', 409, UNRESERVED_KEYWORD), (''extract'', 410, COL_NAME_KEYWORD),
     (''false'', 411, RESERVED_KEYWORD), (''family'', 412, UNRESERVED_KEYWORD), (''fetch'', 413, RESERVED_KEYWORD),
     (''filter'', 414, UNRESERVED_KEYWORD), (''first'', 415, UNRESERVED_KEYWORD),
     (''float'', 416, COL_NAME_KEYWORD), (''following'', 417, UNRESERVED_KEYWORD), (''for'', 418, RESERVED_KEYWORD),
     (''force'', 419, UNRESERVED_KEYWORD), (''foreign'', 420, RESERVED_KEYWORD),
     (''forward'', 421, UNRESERVED_KEYWORD), (''freeze'', 422, TYPE_FUNC_NAME_KEYWORD),
     (''from'', 423, RESERVED_KEYWORD), (''full'', 424, TYPE_FUNC_NAME_KEYWORD),
     (''function'', 425, UNRESERVED_KEYWORD), (''functions'', 426, UNRESERVED_KEYWORD)]"

definition PG_KEYWORD_2 :: "(string \<times> int \<times> int) list" where
  "PG_KEYWORD_2 =
    [(''generated'', 427, UNRESERVED_KEYWORD), (''global'', 428, UNRESERVED_KEYWORD),
     (''grant'', 429, RESERVED_KEYWORD), (''granted'', 430, UNRESERVED_KEYWORD),
     (''greatest'', 431, COL_NAME_KEYWORD), (''group'', 432, RESERVED_KEYWORD),
     (''grouping'', 433, COL_NAME_KEYWORD), (''groups'', 434, UNRESERVED_KEYWORD),
     (''handler'', 435, UNRESERVED_KEYWORD), (''having'', 436, RESERVED_KEYWORD),
     (''header'', 437, UNRESERVED_KEYWORD), (''hold'', 438, UNRESERVED_KEYWORD),
     (''hour'', 439, UNRESERVED_KEYWORD), (''identity'', 440, UNRESERVED_KEYWORD),
     (''if'', 441, UNRESERVED_KEYWORD), (''ilike'', 442, TYPE_FUNC_NAME_KEYWORD),
     (''immediate'', 443, UNRESERVED_KEYWORD), (''immutable'', 444, UNRESERVED_KEYWORD),
     (''implicit'', 445, UNRESERVED_KEYWORD), (''import'', 446, UNRESERVED_KEYWORD),
     (''in'', 447, RESERVED_KEYWORD), (''include'', 448, UNRESERVED_KEYWORD),
     (''including'', 449, UNRESERVED_KEYWORD), (''increment'', 450, UNRESERVED_KEYWORD),
     (''index'', 451, UNRESERVED_KEYWORD), (''indexes'', 452, UNRESERVED_KEYWORD),
     (''inherit'', 453, UNRESERVED_KEYWORD), (''inherits'', 454, UNRESERVED_KEYWORD),
     (''initially'', 455, RESERVED_KEYWORD), (''inline'', 456, UNRESERVED_KEYWORD),
     (''inner'', 457, TYPE_FUNC_NAME_KEYWORD), (''inout'', 458, COL_NAME_KEYWORD),
     (''input'', 459, UNRESERVED_KEYWORD), (''insensitive'', 460, UNRESERVED_KEYWORD),
     (''insert'', 461, UNRESERVED_KEYWORD), (''instead'', 462, UNRESERVED_KEYWORD),
     (''int'', 463, COL_NAME_KEYWORD), (''integer'', 464, COL_NAME_KEYWORD), (''intersect'', 465, RESERVED_KEYWORD),
     (''interval'', 466, COL_NAME_KEYWORD), (''into'', 467, RESERVED_KEYWORD),
     (''invoker'', 468, UNRESERVED_KEYWORD), (''is'', 469, TYPE_FUNC_NAME_KEYWORD),
     (''isnull'', 470, TYPE_FUNC_NAME_KEYWORD), (''isolation'', 471, UNRESERVED_KEYWORD),
     (''join'', 472, TYPE_FUNC_NAME_KEYWORD), (''key'', 473, UNRESERVED_KEYWORD),
     (''label'', 474, UNRESERVED_KEYWORD), (''language'', 475, UNRESERVED_KEYWORD),
     (''large'', 476, UNRESERVED_KEYWORD), (''last'', 477, UNRESERVED_KEYWORD),
     (''lateral'', 478, RESERVED_KEYWORD), (''leading'', 479, RESERVED_KEYWORD),
     (''leakproof'', 480, UNRESERVED_KEYWORD), (''least'', 481, COL_NAME_KEYWORD),
     (''left'', 482, TYPE_FUNC_NAME_KEYWORD), (''level'', 483, UNRESERVED_KEYWORD),
     (''like'', 484, TYPE_FUNC_NAME_KEYWORD), (''limit'', 485, RESERVED_KEYWORD),
     (''listen'', 486, UNRESERVED_KEYWORD), (''load'', 487, UNRESERVED_KEYWORD),
     (''local'', 488, UNRESERVED_KEYWORD), (''localtime'', 489, RESERVED_KEYWORD),
     (''localtimestamp'', 490, RESERVED_KEYWORD), (''location'', 491, UNRESERVED_KEYWORD),
     (''lock'', 492, UNRESERVED_KEYWORD), (''locked'', 493, UNRESERVED_KEYWORD),
     (''logged'', 494, UNRESERVED_KEYWORD), (''mapping'', 495, UNRESERVED_KEYWORD),
     (''match'', 496, UNRESERVED_KEYWORD), (''materialized'', 497, UNRESERVED_KEYWORD),
     (''maxvalue'', 498, UNRESERVED_KEYWORD), (''method'', 499, UNRESERVED_KEYWORD),
     (''minute'', 500, UNRESERVED_KEYWORD), (''minvalue'', 501, UNRESERVED_KEYWORD),
     (''mode'', 502, UNRESERVED_KEYWORD), (''month'', 503, UNRESERVED_KEYWORD), (''move'', 504, UNRESERVED_KEYWORD),
     (''name'', 505, UNRESERVED_KEYWORD), (''names'', 506, UNRESERVED_KEYWORD),
     (''national'', 507, COL_NAME_KEYWORD), (''natural'', 508, TYPE_FUNC_NAME_KEYWORD),
     (''nchar'', 509, COL_NAME_KEYWORD), (''new'', 510, UNRESERVED_KEYWORD), (''next'', 511, UNRESERVED_KEYWORD),
     (''nfc'', 512, UNRESERVED_KEYWORD), (''nfd'', 513, UNRESERVED_KEYWORD), (''nfkc'', 514, UNRESERVED_KEYWORD),
     (''nfkd'', 515, UNRESERVED_KEYWORD), (''no'', 516, UNRESERVED_KEYWORD), (''none'', 517, COL_NAME_KEYWORD),
     (''normalize'', 518, COL_NAME_KEYWORD), (''normalized'', 519, UNRESERVED_KEYWORD),
     (''not'', 520, RESERVED_KEYWORD), (''nothing'', 521, UNRESERVED_KEYWORD),
     (''notify'', 522, UNRESERVED_KEYWORD), (''notnull'', 523, TYPE_FUNC_NAME_KEYWORD),
     (''nowait'', 524, UNRESERVED_KEYWORD), (''null'', 525, RESERVED_KEYWORD), (''nullif'', 526, COL_NAME_KEYWORD),
     (''nulls'', 527, UNRESERVED_KEYWORD), (''numeric'', 528, COL_NAME_KEYWORD),
     (''object'', 529, UNRESERVED_KEYWORD), (''of'', 530, UNRESERVED_KEYWORD), (''off'', 531, UNRESERVED_KEYWORD),
     (''offset'', 532, RESERVED_KEYWORD), (''oids'', 533, UNRESERVED_KEYWORD), (''old'', 534, UNRESERVED_KEYWORD),
     (''on'', 535, RESERVED_KEYWORD), (''only'', 536, RESERVED_KEYWORD), (''operator'', 537, UNRESERVED_KEYWORD),
     (''option'', 538, UNRESERVED_KEYWORD), (''options'', 539, UNRESERVED_KEYWORD), (''or'', 540, RESERVED_KEYWORD),
     (''order'', 541, RESERVED_KEYWORD), (''ordinality'', 542, UNRESERVED_KEYWORD),
     (''others'', 543, UNRESERVED_KEYWORD), (''out'', 544, COL_NAME_KEYWORD),
     (''outer'', 545, TYPE_FUNC_NAME_KEYWORD), (''over'', 546, UNRESERVED_KEYWORD),
     (''overlaps'', 547, TYPE_FUNC_NAME_KEYWORD), (''overlay'', 548, COL_NAME_KEYWORD),
     (''overriding'', 549, UNRESERVED_KEYWORD), (''owned'', 550, UNRESERVED_KEYWORD),
     (''owner'', 551, UNRESERVED_KEYWORD), (''parallel'', 552, UNRESERVED_KEYWORD),
     (''parser'', 553, UNRESERVED_KEYWORD), (''partial'', 554, UNRESERVED_KEYWORD),
     (''partition'', 555, UNRESERVED_KEYWORD), (''passing'', 556, UNRESERVED_KEYWORD),
     (''password'', 557, UNRESERVED_KEYWORD), (''placing'', 558, RESERVED_KEYWORD),
     (''plans'', 559, UNRESERVED_KEYWORD), (''policy'', 560, UNRESERVED_KEYWORD),
     (''position'', 561, COL_NAME_KEYWORD), (''preceding'', 562, UNRESERVED_KEYWORD),
     (''precision'', 563, COL_NAME_KEYWORD), (''prepare'', 565, UNRESERVED_KEYWORD),
     (''prepared'', 566, UNRESERVED_KEYWORD), (''preserve'', 564, UNRESERVED_KEYWORD),
     (''primary'', 567, RESERVED_KEYWORD), (''prior'', 568, UNRESERVED_KEYWORD),
     (''privileges'', 569, UNRESERVED_KEYWORD), (''procedural'', 570, UNRESERVED_KEYWORD),
     (''procedure'', 571, UNRESERVED_KEYWORD), (''procedures'', 572, UNRESERVED_KEYWORD),
     (''program'', 573, UNRESERVED_KEYWORD), (''publication'', 574, UNRESERVED_KEYWORD),
     (''quote'', 575, UNRESERVED_KEYWORD), (''range'', 576, UNRESERVED_KEYWORD)]"

definition PG_KEYWORD_3 :: "(string \<times> int \<times> int) list" where
  "PG_KEYWORD_3 =
    [(''read'', 577, UNRESERVED_KEYWORD), (''real'', 578, COL_NAME_KEYWORD),
     (''reassign'', 579, UNRESERVED_KEYWORD), (''recheck'', 580, UNRESERVED_KEYWORD),
     (''recursive'', 581, UNRESERVED_KEYWORD), (''ref'', 582, UNRESERVED_KEYWORD),
     (''references'', 583, RESERVED_KEYWORD), (''referencing'', 584, UNRESERVED_KEYWORD),
     (''refresh'', 585, UNRESERVED_KEYWORD), (''reindex'', 586, UNRESERVED_KEYWORD),
     (''relative'', 587, UNRESERVED_KEYWORD), (''release'', 588, UNRESERVED_KEYWORD),
     (''rename'', 589, UNRESERVED_KEYWORD), (''repeatable'', 590, UNRESERVED_KEYWORD),
     (''replace'', 591, UNRESERVED_KEYWORD), (''replica'', 592, UNRESERVED_KEYWORD),
     (''reset'', 593, UNRESERVED_KEYWORD), (''restart'', 594, UNRESERVED_KEYWORD),
     (''restrict'', 595, UNRESERVED_KEYWORD), (''returning'', 596, RESERVED_KEYWORD),
     (''returns'', 597, UNRESERVED_KEYWORD), (''revoke'', 598, UNRESERVED_KEYWORD),
     (''right'', 599, TYPE_FUNC_NAME_KEYWORD), (''role'', 600, UNRESERVED_KEYWORD),
     (''rollback'', 601, UNRESERVED_KEYWORD), (''rollup'', 602, UNRESERVED_KEYWORD),
     (''routine'', 603, UNRESERVED_KEYWORD), (''routines'', 604, UNRESERVED_KEYWORD),
     (''row'', 605, COL_NAME_KEYWORD), (''rows'', 606, UNRESERVED_KEYWORD), (''rule'', 607, UNRESERVED_KEYWORD),
     (''savepoint'', 608, UNRESERVED_KEYWORD), (''schema'', 609, UNRESERVED_KEYWORD),
     (''schemas'', 610, UNRESERVED_KEYWORD), (''scroll'', 611, UNRESERVED_KEYWORD),
     (''search'', 612, UNRESERVED_KEYWORD), (''second'', 613, UNRESERVED_KEYWORD),
     (''security'', 614, UNRESERVED_KEYWORD), (''select'', 615, RESERVED_KEYWORD),
     (''sequence'', 616, UNRESERVED_KEYWORD), (''sequences'', 617, UNRESERVED_KEYWORD),
     (''serializable'', 618, UNRESERVED_KEYWORD), (''server'', 619, UNRESERVED_KEYWORD),
     (''session'', 620, UNRESERVED_KEYWORD), (''session_user'', 621, RESERVED_KEYWORD),
     (''set'', 622, UNRESERVED_KEYWORD), (''setof'', 624, COL_NAME_KEYWORD), (''sets'', 623, UNRESERVED_KEYWORD),
     (''share'', 625, UNRESERVED_KEYWORD), (''show'', 626, UNRESERVED_KEYWORD),
     (''similar'', 627, TYPE_FUNC_NAME_KEYWORD), (''simple'', 628, UNRESERVED_KEYWORD),
     (''skip'', 629, UNRESERVED_KEYWORD), (''smallint'', 630, COL_NAME_KEYWORD),
     (''snapshot'', 631, UNRESERVED_KEYWORD), (''some'', 632, RESERVED_KEYWORD), (''sql'', 633, UNRESERVED_KEYWORD),
     (''stable'', 634, UNRESERVED_KEYWORD), (''standalone'', 635, UNRESERVED_KEYWORD),
     (''start'', 636, UNRESERVED_KEYWORD), (''statement'', 637, UNRESERVED_KEYWORD),
     (''statistics'', 638, UNRESERVED_KEYWORD), (''stdin'', 639, UNRESERVED_KEYWORD),
     (''stdout'', 640, UNRESERVED_KEYWORD), (''storage'', 641, UNRESERVED_KEYWORD),
     (''stored'', 642, UNRESERVED_KEYWORD), (''strict'', 643, UNRESERVED_KEYWORD),
     (''strip'', 644, UNRESERVED_KEYWORD), (''subscription'', 645, UNRESERVED_KEYWORD),
     (''substring'', 646, COL_NAME_KEYWORD), (''support'', 647, UNRESERVED_KEYWORD),
     (''symmetric'', 648, RESERVED_KEYWORD), (''sysid'', 649, UNRESERVED_KEYWORD),
     (''system'', 650, UNRESERVED_KEYWORD), (''table'', 651, RESERVED_KEYWORD),
     (''tables'', 652, UNRESERVED_KEYWORD), (''tablesample'', 653, TYPE_FUNC_NAME_KEYWORD),
     (''tablespace'', 654, UNRESERVED_KEYWORD), (''temp'', 655, UNRESERVED_KEYWORD),
     (''template'', 656, UNRESERVED_KEYWORD), (''temporary'', 657, UNRESERVED_KEYWORD),
     (''text'', 658, UNRESERVED_KEYWORD), (''then'', 659, RESERVED_KEYWORD), (''ties'', 660, UNRESERVED_KEYWORD),
     (''time'', 661, COL_NAME_KEYWORD), (''timestamp'', 662, COL_NAME_KEYWORD), (''to'', 663, RESERVED_KEYWORD),
     (''trailing'', 664, RESERVED_KEYWORD), (''transaction'', 665, UNRESERVED_KEYWORD),
     (''transform'', 666, UNRESERVED_KEYWORD), (''treat'', 667, COL_NAME_KEYWORD),
     (''trigger'', 668, UNRESERVED_KEYWORD), (''trim'', 669, COL_NAME_KEYWORD), (''true'', 670, RESERVED_KEYWORD),
     (''truncate'', 671, UNRESERVED_KEYWORD), (''trusted'', 672, UNRESERVED_KEYWORD),
     (''type'', 673, UNRESERVED_KEYWORD), (''types'', 674, UNRESERVED_KEYWORD),
     (''uescape'', 675, UNRESERVED_KEYWORD), (''unbounded'', 676, UNRESERVED_KEYWORD),
     (''uncommitted'', 677, UNRESERVED_KEYWORD), (''unencrypted'', 678, UNRESERVED_KEYWORD),
     (''union'', 679, RESERVED_KEYWORD), (''unique'', 680, RESERVED_KEYWORD),
     (''unknown'', 681, UNRESERVED_KEYWORD), (''unlisten'', 682, UNRESERVED_KEYWORD),
     (''unlogged'', 683, UNRESERVED_KEYWORD), (''until'', 684, UNRESERVED_KEYWORD),
     (''update'', 685, UNRESERVED_KEYWORD), (''user'', 686, RESERVED_KEYWORD), (''using'', 687, RESERVED_KEYWORD),
     (''vacuum'', 688, UNRESERVED_KEYWORD), (''valid'', 689, UNRESERVED_KEYWORD),
     (''validate'', 690, UNRESERVED_KEYWORD), (''validator'', 691, UNRESERVED_KEYWORD),
     (''value'', 692, UNRESERVED_KEYWORD), (''values'', 693, COL_NAME_KEYWORD),
     (''varchar'', 694, COL_NAME_KEYWORD), (''variadic'', 695, RESERVED_KEYWORD),
     (''varying'', 696, UNRESERVED_KEYWORD), (''verbose'', 697, TYPE_FUNC_NAME_KEYWORD),
     (''version'', 698, UNRESERVED_KEYWORD), (''view'', 699, UNRESERVED_KEYWORD),
     (''views'', 700, UNRESERVED_KEYWORD), (''volatile'', 701, UNRESERVED_KEYWORD),
     (''when'', 702, RESERVED_KEYWORD), (''where'', 703, RESERVED_KEYWORD),
     (''whitespace'', 704, UNRESERVED_KEYWORD), (''window'', 705, RESERVED_KEYWORD),
     (''with'', 706, RESERVED_KEYWORD), (''within'', 707, UNRESERVED_KEYWORD),
     (''without'', 708, UNRESERVED_KEYWORD), (''work'', 709, UNRESERVED_KEYWORD),
     (''wrapper'', 710, UNRESERVED_KEYWORD), (''write'', 711, UNRESERVED_KEYWORD),
     (''xml'', 712, UNRESERVED_KEYWORD), (''xmlattributes'', 713, COL_NAME_KEYWORD),
     (''xmlconcat'', 714, COL_NAME_KEYWORD), (''xmlelement'', 715, COL_NAME_KEYWORD),
     (''xmlexists'', 716, COL_NAME_KEYWORD), (''xmlforest'', 717, COL_NAME_KEYWORD),
     (''xmlnamespaces'', 718, COL_NAME_KEYWORD), (''xmlparse'', 719, COL_NAME_KEYWORD),
     (''xmlpi'', 720, COL_NAME_KEYWORD), (''xmlroot'', 721, COL_NAME_KEYWORD),
     (''xmlserialize'', 722, COL_NAME_KEYWORD), (''xmltable'', 723, COL_NAME_KEYWORD),
     (''year'', 724, UNRESERVED_KEYWORD), (''yes'', 725, UNRESERVED_KEYWORD), (''zone'', 726, UNRESERVED_KEYWORD)]"

definition PG_KEYWORDS :: "(string \<times> int \<times> int) list" where
  "PG_KEYWORDS = PG_KEYWORD_1 @ PG_KEYWORD_2 @ PG_KEYWORD_3"

definition ScanKeywordTokens :: "int list" where
  "ScanKeywordTokens = map (\<lambda>(kwname, value, category). value) PG_KEYWORDS"

definition ScanKeywordCategories :: "int list" where
  "ScanKeywordCategories = map (\<lambda>(kwname, value, category). category) PG_KEYWORDS"

section \<open>The words of PL/pgSQL\<close>

definition ReservedPLKeywords_kw_string :: "string list" where
  "ReservedPLKeywords_kw_string =
    [''all'', ''begin'', ''by'', ''case'', ''declare'', ''else'', ''end'', ''execute'', ''for'', ''foreach'',
     ''from'', ''if'', ''in'', ''into'', ''loop'', ''not'', ''null'', ''or'', ''strict'', ''then'', ''to'',
     ''using'', ''when'', ''while'']"

definition ReservedPLKeywords_kw_offsets :: "int list" where
  "ReservedPLKeywords_kw_offsets =
    [0, 4, 10, 13, 18, 26, 31, 35, 43, 47, 55, 60, 63, 66, 71, 76, 80, 85, 88, 95, 100, 103, 109, 114]"

definition ReservedPLKeywords_h :: "int list" where
  "ReservedPLKeywords_h =
    [-2, 127, 7, 127, 0, 127, 127, 127, 18, 5, 127, 27, 127, 0, 127, 127, 0, 39, 32, 22, 10, 127, 19, -26, 127, -11,
     0, 12, 127, 127, -1, 28, 20, 0, 23, 127, 0, 14, -8, 127, 127, 127, 13, 5, 127, -23, 1, 0, 127]"

definition ReservedPLKeywords_hash_func :: "bytes \<Rightarrow> nat \<Rightarrow> int res" where
  "ReservedPLKeywords_hash_func = keyword_hash ReservedPLKeywords_h 1"

definition ReservedPLKeywords :: ScanKeywordList where
  "ReservedPLKeywords =
     \<lparr>kw_string = c_strings ReservedPLKeywords_kw_string, kw_offsets = ReservedPLKeywords_kw_offsets,
      hash = ReservedPLKeywords_hash_func, num_keywords = 24, max_kw_len = 7\<rparr>"

definition ReservedPLKeywordTokens :: "int list" where
  "ReservedPLKeywordTokens =
    [284, 289, 290, 292, 307, 313, 315, 319, 323, 324, 326, 329, 331, 334, 338, 344, 346, 349, 375, 378, 379, 383,
     386, 387]"

definition UnreservedPLKeywords_kw_string :: "string list" where
  "UnreservedPLKeywords_kw_string =
    [''absolute'', ''alias'', ''and'', ''array'', ''assert'', ''backward'', ''call'', ''chain'', ''close'',
     ''collate'', ''column'', ''column_name'', ''commit'', ''constant'', ''constraint'', ''constraint_name'',
     ''continue'', ''current'', ''cursor'', ''datatype'', ''debug'', ''default'', ''detail'', ''diagnostics'',
     ''do'', ''dump'', ''elseif'', ''elsif'', ''errcode'', ''error'', ''exception'', ''exit'', ''fetch'', ''first'',
     ''forward'', ''get'', ''hint'', ''import'', ''info'', ''insert'', ''is'', ''last'', ''log'', ''message'',
     ''message_text'', ''move'', ''next'', ''no'', ''notice'', ''open'', ''option'', ''perform'', ''pg_context'',
     ''pg_datatype_name'', ''pg_exception_context'', ''pg_exception_detail'', ''pg_exception_hint'',
     ''print_strict_params'', ''prior'', ''query'', ''raise'', ''relative'', ''reset'', ''return'',
     ''returned_sqlstate'', ''reverse'', ''rollback'', ''row_count'', ''rowtype'', ''schema'', ''schema_name'',
     ''scroll'', ''set'', ''slice'', ''sqlstate'', ''stacked'', ''table'', ''table_name'', ''type'', ''use_column'',
     ''use_variable'', ''variable_conflict'', ''warning'']"

definition UnreservedPLKeywords_kw_offsets :: "int list" where
  "UnreservedPLKeywords_kw_offsets =
    [0, 9, 15, 19, 25, 32, 41, 46, 52, 58, 66, 73, 85, 92, 101, 112, 128, 137, 145, 152, 161, 167, 175, 182, 194,
     197, 202, 209, 215, 223, 229, 239, 244, 250, 256, 264, 268, 273, 280, 285, 292, 295, 300, 304, 312, 325, 330,
     335, 338, 345, 350, 357, 365, 376, 393, 414, 434, 452, 472, 478, 484, 490, 499, 505, 512, 530, 538, 547, 557,
     565, 572, 584, 591, 595, 601, 610, 618, 624, 635, 640, 651, 664, 682]"

definition UnreservedPLKeywords_h :: "int list" where
  "UnreservedPLKeywords_h =
    [10, 32767, 32767, 57, 32767, 62, 21, 32767, 54, 18, 32767, 58, 59, -54, 47, 0, -22, -64, 32767, -22, 33, 44,
     -5, 32767, 32767, 43, 57, 102, 32767, -65, 7, 32767, 13, 32767, -28, 14, 32767, 32767, 82, 32767, 0, 0, 32767,
     8, -43, 0, 19, 8, 75, -58, 32767, 32767, 0, 22, 29, 32767, -50, 6, 32767, 0, 30, 32767, 32767, 29, 0, 104,
     32767, 32767, 26, 0, 32767, 32767, -9, 2, 32767, 50, 39, 38, 39, 80, 32767, 32767, 32767, 32767, -67, 89,
     32767, -40, 64, 32767, 32767, 26, 10, 27, 32767, 19, 51, -13, 26, 32767, 32767, 32767, 84, 23, 0, 66, 12, -5,
     32767, 32767, 0, 50, 141, 72, 45, 32767, 32767, 0, -22, 0, 32767, 32767, -34, 0, 19, -5, 32767, 32767, 32767,
     0, 37, 13, 32767, 32767, 32767, 32767, -68, -4, 32767, 32767, 78, 32767, 32767, 0, 85, 32767, 32767, 32767,
     -93, 32767, 0, 0, 32767, 74, 5, 32767, 32767, 71, 0, 32767, 32767, 0, 32767, 32767, 32767, 46, 70]"

definition UnreservedPLKeywords_hash_func :: "bytes \<Rightarrow> nat \<Rightarrow> int res" where
  "UnreservedPLKeywords_hash_func = keyword_hash UnreservedPLKeywords_h 1"

definition UnreservedPLKeywords :: ScanKeywordList where
  "UnreservedPLKeywords =
     \<lparr>kw_string = c_strings UnreservedPLKeywords_kw_string, kw_offsets = UnreservedPLKeywords_kw_offsets,
      hash = UnreservedPLKeywords_hash_func, num_keywords = 83, max_kw_len = 20\<rparr>"

definition UnreservedPLKeywordTokens :: "int list" where
  "UnreservedPLKeywordTokens =
    [282, 283, 285, 286, 287, 288, 291, 293, 294, 295, 296, 297, 298, 299, 300, 301, 302, 303, 304, 305, 306, 308,
     309, 310, 311, 312, 314, 314, 316, 317, 318, 320, 321, 322, 325, 327, 328, 330, 332, 333, 335, 336, 337, 339,
     340, 341, 342, 343, 345, 347, 348, 350, 351, 352, 353, 354, 355, 356, 357, 358, 359, 360, 361, 362, 363, 364,
     365, 366, 367, 368, 369, 370, 371, 372, 373, 374, 376, 377, 380, 381, 382, 384, 385]"

section \<open>The tables belong together\<close>

text \<open>The hash tables by rows of 30, and the hash of every word computed on them.\<close>

definition ScanKeywords_rows :: "int list list" where
  "ScanKeywords_rows =
    [
     [-172, 32767, 32767, 32767, 0, 56, 362, 32767, 0, 90, -251, 332, 32767, 66, 298, 0, 32767, 88, 27, 22, -125, 317, 0, 32767, -35, 0, 32767, 32767, 32767, 52],
     [32767, 275, 32767, -277, 32767, 32767, 316, 177, 32767, 0, 398, 58, 272, -88, 0, -147, 242, 143, 401, 0, 32767, 0, 293, 355, 0, 0, 303, 32767, 225, 580],
     [0, 378, 0, 0, 32767, -25, -312, 32767, -210, 0, 32767, -19, 32767, 91, 307, 354, 32767, 32767, -18, 36, 32767, 32767, 402, 292, 165, 274, 0, 32767, 10, -20],
     [32767, 294, 32767, -622, 326, 32767, -128, 0, 33, 32767, 32767, 325, 32767, 276, 343, 32767, 96, 173, 32767, 32767, 32767, 0, 32767, 320, -128, 32767, 357, 24, -9, 427],
     [32767, 32767, 0, 32767, 0, 0, 32767, 32767, 405, 32767, 125, 32767, 0, 32767, -40, 32767, 0, 80, 0, 32767, 0, 95, -146, 0, 32767, 26, 165, 32767, 41, 32767],
     [418, 32767, 32767, 40, 32767, 147, 32767, 32767, 32767, 91, 110, 9, 305, -340, 32767, 103, 32767, 0, 329, 32767, 32767, 310, 32767, 32767, 147, -262, 422, 393, 382, 136],
     [32767, 177, 0, 32767, 32767, 102, 0, 32767, 83, 141, 28, 167, -421, 32767, 38, 111, 0, 479, 32767, 32767, 29, 439, 32767, 427, -6, 182, 32767, 74, 32767, 360],
     [236, 32767, 32767, 327, -63, 162, 154, 184, 90, 263, 115, 127, 539, 347, -72, 32767, -159, 32767, -249, 152, 32767, 357, 404, -110, 32767, 404, 345, 32767, 80, 352],
     [422, 61, 32767, 32767, 32767, 243, 126, 117, 32767, 0, 32767, 32767, 208, 32767, 32767, -20, 430, -195, 32767, 32767, 32767, 118, -62, 32767, 32767, 98, 136, 0, 0, 32767],
     [261, 32767, 0, 32767, 230, 37, 750, 154, 32767, -86, 87, 32767, 6, 61, 32767, 205, 32767, 517, 107, 66, 304, 32767, 0, 32767, 32767, 32767, 333, 32767, 357, 239],
     [32767, 32767, 437, -26, 32767, 210, 0, 20, 369, 10, 32767, -78, 616, 70, 0, 32767, 86, 32767, 0, 32767, 14, 60, 32, 32767, 373, 32767, -218, 320, 32767, 268],
     [32767, 32767, 425, -67, 0, 32767, 252, 32767, -93, 193, -362, -140, 32767, -328, 32767, 0, 319, 336, 32767, 121, 0, 32767, 207, 32767, 481, -176, 276, 47, 235, 32767],
     [0, 221, 32767, 228, 32767, 84, 32767, 32767, 32767, 32767, 32767, 32767, 290, 32767, 32767, 84, -170, 82, 246, -43, 201, 155, -7, 299, 32767, 32767, 241, 32767, -418, 32767],
     [32767, -303, 32767, 32767, -40, 308, 32767, 0, 178, -67, 32767, 273, 32767, 0, 32767, 69, 387, 32767, 341, 0, 0, -19, 324, -88, 166, 32767, 6, 20, 32767, 17],
     [22, 359, 32767, 32767, 172, 0, 32767, 0, 206, 88, 0, 32767, 35, 0, 275, 114, 339, 32767, 32767, 32767, 32767, 32767, 524, 0, -52, 191, -115, 9, 200, 102],
     [0, 32767, 3, 0, 0, 0, -288, 0, -132, 32767, 0, 32767, 300, 0, 0, 0, 212, 32767, 260, 32767, -279, 104, 506, 0, 640, 38, 268, 32767, 131, 32767],
     [32767, 32767, 32767, 0, 0, 32767, 32767, 18, 100, 44, 67, 270, 245, 283, 224, -66, 32767, 32767, 32767, -67, 32767, 389, 32767, 0, 125, 354, 32767, 32767, -21, 124],
     [0, 204, 32767, 0, 99, 32767, 267, 32767, 0, 32767, 32767, 231, 32767, -129, -113, 108, 23, 0, 0, 32767, 32767, 0, 32767, 269, 32767, 32767, -133, 32767, -384, 32767],
     [32767, 0, 32767, 32767, 32767, 0, 32767, 32767, 32767, 0, 322, 424, 117, -29, 32767, 32767, 145, 0, 0, 323, 119, 32767, 32767, 32767, 392, -164, -143, -25, -106, 0],
     [97, 32767, 32767, 235, 32767, 0, 32767, 411, 363, 32767, 31, 32767, 443, 32767, 76, 29, 32767, 323, 32767, 142, 32767, 0, 244, 0, 32767, 28, 32767, 0, 377, -8],
     [-45, 32767, 37, 0, 350, 0, 32767, 32767, 38, 416, 32767, 265, -78, -308, -51, 705, 32767, 32767, 0, 66, 0, 32767, 32767, 32767, 81, -250, 32767, 1, 421, 32767],
     [32767, 0, 32767, 401, 198, 32767, 256, 290, 210, 32767, 32767, 32767, 32767, 0, 444, 211, -99, 220, 64, 32767, 32767, 32767, 32767, 190, 19, 0, 216, 32767, 262, 32767],
     [404, 562, -222, 0, 0, -162, 32767, 192, 65, 32767, 150, 191, 0, 218, 267, 32767, 32767, 32767, 399, 189, 356, 532, 0, 32767, 429, 32767, 32767, 54, 279, 151],
     [0, 353, 394, 176, 215, 32767, 15, 153, 137, 92, 420, 47, 253, 0, 298, 32767, 32767, 32767, 234, 164, 241, 32767, 0, 409, 0, 32767, 0, 32767, 0, 70],
     [32767, 32767, 32767, 0, 32767, 32767, 32767, -138, 32767, 32767, -46, 32767, 97, 32767, 0, -126, 32767, 169, 322, 392, 32767, 0, 32767, 32767, 0, 282, 296, 32767, 0, 403],
     [32767, -24, 32767, -34, 32767, 32767, 32767, 418, 32767, 0, 97, 238, 32767, 144, 428, 32767, 2, 32767, 32767, 32767, 194, -182, 12, 32767, 391, 32767, 880, 32767, 32767, 50],
     [331, 0, 0, 358, 20, 32767, 32767, 222, 317, 32767, 0, 125, 32767, 0, 32767, 284, 32767, 32767, 197, 0, 63, 32767, 0, 188, 32767, 32767, 147, 190, 344, 32767],
     [-42, 32767, 0, 187, 32767, 32767, 350, 32767, 0, 0, 127, 32767, 32767, 161, 32767, 0, 0, 382, 32767, 32767, 316, 130, 32767, 379, 32767, 383, 368, 93, -195, 0],
     [233, 73, 32767, 100, 32767, 338, 90, 32767, 258, 32767, 32767, 235, 175, 32767, 32767, 0, -9, 0, 0, 32767, 32767, 111, 417, 330, 0, 0, 225, 32767, 0, 0],
     [32767, 0, 64, 32767, 32767, 16, 113, 29, 0, 32767, 32767, 0, 43, 0, 365, -41, -284, 0, 0, 0, 61, 314, 255, 0, 32767, 145, 32767, -445, 32767, 32767],
     [154]]"

lemma ScanKeywords_h_rows: "ScanKeywords_h = concat ScanKeywords_rows"
  by (simp add: ScanKeywords_h_def ScanKeywords_rows_def)

lemma ScanKeywords_rows_of: "rows_of 30 ScanKeywords_rows"
  by (simp add: ScanKeywords_rows_def)

definition ReservedPLKeywords_rows :: "int list list" where
  "ReservedPLKeywords_rows =
    [
     [-2, 127, 7, 127, 0, 127, 127, 127, 18, 5, 127, 27, 127, 0, 127, 127, 0, 39, 32, 22, 10, 127, 19, -26, 127, -11, 0, 12, 127, 127],
     [-1, 28, 20, 0, 23, 127, 0, 14, -8, 127, 127, 127, 13, 5, 127, -23, 1, 0, 127]]"

lemma ReservedPLKeywords_h_rows: "ReservedPLKeywords_h = concat ReservedPLKeywords_rows"
  by (simp add: ReservedPLKeywords_h_def ReservedPLKeywords_rows_def)

lemma ReservedPLKeywords_rows_of: "rows_of 30 ReservedPLKeywords_rows"
  by (simp add: ReservedPLKeywords_rows_def)

definition UnreservedPLKeywords_rows :: "int list list" where
  "UnreservedPLKeywords_rows =
    [
     [10, 32767, 32767, 57, 32767, 62, 21, 32767, 54, 18, 32767, 58, 59, -54, 47, 0, -22, -64, 32767, -22, 33, 44, -5, 32767, 32767, 43, 57, 102, 32767, -65],
     [7, 32767, 13, 32767, -28, 14, 32767, 32767, 82, 32767, 0, 0, 32767, 8, -43, 0, 19, 8, 75, -58, 32767, 32767, 0, 22, 29, 32767, -50, 6, 32767, 0],
     [30, 32767, 32767, 29, 0, 104, 32767, 32767, 26, 0, 32767, 32767, -9, 2, 32767, 50, 39, 38, 39, 80, 32767, 32767, 32767, 32767, -67, 89, 32767, -40, 64, 32767],
     [32767, 26, 10, 27, 32767, 19, 51, -13, 26, 32767, 32767, 32767, 84, 23, 0, 66, 12, -5, 32767, 32767, 0, 50, 141, 72, 45, 32767, 32767, 0, -22, 0],
     [32767, 32767, -34, 0, 19, -5, 32767, 32767, 32767, 0, 37, 13, 32767, 32767, 32767, 32767, -68, -4, 32767, 32767, 78, 32767, 32767, 0, 85, 32767, 32767, 32767, -93, 32767],
     [0, 0, 32767, 74, 5, 32767, 32767, 71, 0, 32767, 32767, 0, 32767, 32767, 32767, 46, 70]]"

lemma UnreservedPLKeywords_h_rows: "UnreservedPLKeywords_h = concat UnreservedPLKeywords_rows"
  by (simp add: UnreservedPLKeywords_h_def UnreservedPLKeywords_rows_def)

lemma UnreservedPLKeywords_rows_of: "rows_of 30 UnreservedPLKeywords_rows"
  by (simp add: UnreservedPLKeywords_rows_def)

lemma ScanKeywords_hash_1: "map (row_hash ScanKeywords_rows 30 901 3) ScanKeywords_kw_string_1 = [0..149]"
  by code_simp

lemma ScanKeywords_hash_2: "map (row_hash ScanKeywords_rows 30 901 3) ScanKeywords_kw_string_2 = [150..299]"
  by code_simp

lemma ScanKeywords_hash_3: "map (row_hash ScanKeywords_rows 30 901 3) ScanKeywords_kw_string_3 = [300..449]"
  by code_simp

lemma ReservedPLKeywords_hash: "map (row_hash ReservedPLKeywords_rows 30 49 1) ReservedPLKeywords_kw_string = [0..23]"
  by code_simp

lemma UnreservedPLKeywords_hash: "map (row_hash UnreservedPLKeywords_rows 30 167 1) UnreservedPLKeywords_kw_string = [0..82]"
  by code_simp

lemma ScanKeywords_offsets: "kw_offsets ScanKeywords = offsets_from 0 ScanKeywords_words"
  by code_simp

lemma ReservedPLKeywords_offsets: "ReservedPLKeywords_kw_offsets = offsets_from 0 ReservedPLKeywords_kw_string"
  by code_simp

lemma UnreservedPLKeywords_offsets: "UnreservedPLKeywords_kw_offsets = offsets_from 0 UnreservedPLKeywords_kw_string"
  by code_simp

lemma ScanKeywords_length: "length ScanKeywords_words = 450 \<and> length ScanKeywords_h = 901"
  by code_simp

lemma PG_KEYWORDS_names: "map fst PG_KEYWORDS = ScanKeywords_words"
  by code_simp


lemma ScanKeywordTokens_sorted: "foldr insort ScanKeywordTokens [] = [277..726]"
  by code_simp

lemma ScanKeywordTokens_distinct: "distinct ScanKeywordTokens"
proof -
  have "sort ScanKeywordTokens = [277..726]" using ScanKeywordTokens_sorted by (simp add: sort_key_def)
  then show ?thesis by (metis distinct_sort distinct_upto)
qed

definition word_ok :: "nat \<Rightarrow> string \<Rightarrow> bool" where
  "word_ok n w = (list_all (\<lambda>c. of_char c \<noteq> (0 :: nat)) w \<and> length w \<le> n)"

lemma ScanKeywords_word_ok: "list_all (word_ok 17) ScanKeywords_words"
  by code_simp

lemma ReservedPLKeywords_word_ok: "list_all (word_ok 7) ReservedPLKeywords_kw_string"
  by code_simp

lemma UnreservedPLKeywords_word_ok: "list_all (word_ok 20) UnreservedPLKeywords_kw_string"
  by code_simp

lemma ascii_inj [simp]: "ascii a = ascii b \<longleftrightarrow> a = b"
proof -
  have "inj (of_char :: char \<Rightarrow> 8 word)"
  proof (rule injI)
    fix c d :: char
    assume "(of_char c :: 8 word) = of_char d"
    then have "[of_char c] = ([of_char d] :: bytes)" by simp
    then have "hash_chars (ascii [c]) = hash_chars (ascii [d]) \<and> unat (of_char c :: 8 word) = unat (of_char d :: 8 word)"
      by (simp add: ascii_def)
    moreover have "unat (of_char c :: 8 word) = of_char c" for c
    proof -
      have "unat (of_nat (of_char c) :: 8 word) = take_bit 8 (of_char c)" by (simp add: unsigned_of_nat)
      moreover have "take_bit 8 (of_char c) = (of_char c :: nat)" using nat_of_char_less_256 [of c] by (simp add: take_bit_nat_eq_self)
      ultimately show ?thesis by (simp add: of_nat_of_char)
    qed
    ultimately show "c = d" by simp
  qed
  then show ?thesis by (simp add: ascii_def inj_map_eq_map)
qed

lemma ascii_nonzero: "word_ok n w \<Longrightarrow> 0 \<notin> set (ascii w) \<and> length (ascii w) \<le> n"
proof -
  assume w: "word_ok n w"
  have "(of_char c :: 8 word) = 0 \<Longrightarrow> of_char c = (0 :: nat)" for c
    using ascii_inj [of "[c]" "[CHR 0x00]"] by (simp add: ascii_def)
  then show ?thesis using w by (force simp: word_ok_def ascii_def list_all_iff)
qed

text \<open>What the tables have in common makes each of them an instance of the interface.\<close>

lemma generated_list:
  assumes "kwlist = \<lparr>kw_string = c_strings words, kw_offsets = offsets_from 0 words, hash = keyword_hash h b, num_keywords = n, max_kw_len = int m\<rparr>"
    and "map (row_hash rows 30 (int (length h)) (uint b)) words = [0..n - 1]" "h = concat rows" "rows_of 30 rows"
    and "0 < length h" "length h < 2 ^ 32" "n = int (length words)" "list_all (word_ok m) words"
  shows "keyword_list kwlist (map ascii words)"
proof (unfold_locales, goal_cases)
  case (2 i)
  then show ?case using GetScanKeyword_text [of kwlist words i] assms(1) by auto
next
  case (3 w)
  then show ?case using assms(1,8) ascii_nonzero [of m] by (auto simp: list_all_iff)
next
  case (4 k key)
  then show ?case using keyword_hash_total [OF assms(5,6)] assms(1) by simp
next
  case (5 k key)
  then show ?case using keyword_hash_lower assms(1) by simp
next
  case (6 i r)
  have "map (row_hash rows 30 (int (length h)) (uint b)) words ! i = [0..n - 1] ! i" by (simp only: assms(2))
  then have "row_hash rows 30 (int (length h)) (uint b) (words ! i) = int i"
    using 6 assms(7) by (simp add: nth_upto)
  from keyword_hash_rows [OF this] show ?case using 6 assms by simp
qed (use assms in simp)

interpretation core_keywords: keyword_list ScanKeywords "map ascii ScanKeywords_words"
proof (rule generated_list [OF _ _ ScanKeywords_h_rows ScanKeywords_rows_of])
  show "ScanKeywords = \<lparr>kw_string = c_strings ScanKeywords_words, kw_offsets = offsets_from 0 ScanKeywords_words,
      hash = keyword_hash ScanKeywords_h 3, num_keywords = 450, max_kw_len = int 17\<rparr>"
    using ScanKeywords_offsets by (simp add: ScanKeywords_def ScanKeywords_hash_func_def)
  have "[0..149] @ [150..299] @ [300..449] = [0..449 :: int]" by code_simp
  then show "map (row_hash ScanKeywords_rows 30 (int (length ScanKeywords_h)) (uint (3 :: 32 word))) ScanKeywords_words = [0..450 - 1]"
    using ScanKeywords_hash_1 ScanKeywords_hash_2 ScanKeywords_hash_3 by (simp add: ScanKeywords_words_def ScanKeywords_length)
qed (use ScanKeywords_length ScanKeywords_word_ok in simp_all)

interpretation plpgsql_reserved: keyword_list ReservedPLKeywords "map ascii ReservedPLKeywords_kw_string"
proof (rule generated_list [OF _ _ ReservedPLKeywords_h_rows ReservedPLKeywords_rows_of])
  have h: "length ReservedPLKeywords_h = 49" "length ReservedPLKeywords_kw_string = 24" by code_simp+
  show "ReservedPLKeywords = \<lparr>kw_string = c_strings ReservedPLKeywords_kw_string, kw_offsets = offsets_from 0 ReservedPLKeywords_kw_string,
      hash = keyword_hash ReservedPLKeywords_h 1, num_keywords = 24, max_kw_len = int 7\<rparr>"
    using ReservedPLKeywords_offsets by (simp add: ReservedPLKeywords_def ReservedPLKeywords_hash_func_def)
  show "map (row_hash ReservedPLKeywords_rows 30 (int (length ReservedPLKeywords_h)) (uint (1 :: 32 word))) ReservedPLKeywords_kw_string = [0..24 - 1]"
    using ReservedPLKeywords_hash by (simp add: h)
  show "0 < length ReservedPLKeywords_h" "length ReservedPLKeywords_h < 2 ^ 32" "24 = int (length ReservedPLKeywords_kw_string)"
    by (simp_all add: h)
qed (rule ReservedPLKeywords_word_ok)

interpretation plpgsql_unreserved: keyword_list UnreservedPLKeywords "map ascii UnreservedPLKeywords_kw_string"
proof (rule generated_list [OF _ _ UnreservedPLKeywords_h_rows UnreservedPLKeywords_rows_of])
  have h: "length UnreservedPLKeywords_h = 167" "length UnreservedPLKeywords_kw_string = 83" by code_simp+
  show "UnreservedPLKeywords = \<lparr>kw_string = c_strings UnreservedPLKeywords_kw_string, kw_offsets = offsets_from 0 UnreservedPLKeywords_kw_string,
      hash = keyword_hash UnreservedPLKeywords_h 1, num_keywords = 83, max_kw_len = int 20\<rparr>"
    using UnreservedPLKeywords_offsets by (simp add: UnreservedPLKeywords_def UnreservedPLKeywords_hash_func_def)
  show "map (row_hash UnreservedPLKeywords_rows 30 (int (length UnreservedPLKeywords_h)) (uint (1 :: 32 word))) UnreservedPLKeywords_kw_string = [0..83 - 1]"
    using UnreservedPLKeywords_hash by (simp add: h)
  show "0 < length UnreservedPLKeywords_h" "length UnreservedPLKeywords_h < 2 ^ 32" "83 = int (length UnreservedPLKeywords_kw_string)"
    by (simp_all add: h)
qed (rule UnreservedPLKeywords_word_ok)

section \<open>Properties\<close>

definition keyword_entry :: "bytes \<Rightarrow> (int \<times> int) option" where
  "keyword_entry w = map_of (map (\<lambda>(kwname, value, category). (ascii kwname, value, category)) PG_KEYWORDS) (map ascii_lower w)"

lemma PG_KEYWORDS_nth:
  assumes "i < 450"
  shows "ScanKeywords_words ! i = fst (PG_KEYWORDS ! i)"
    "at ScanKeywordTokens (int i) = Inr (fst (snd (PG_KEYWORDS ! i)))"
    "at ScanKeywordCategories (int i) = Inr (snd (snd (PG_KEYWORDS ! i)))"
proof -
  have "length PG_KEYWORDS = 450" by (metis PG_KEYWORDS_names ScanKeywords_length length_map)
  then show "ScanKeywords_words ! i = fst (PG_KEYWORDS ! i)"
    "at ScanKeywordTokens (int i) = Inr (fst (snd (PG_KEYWORDS ! i)))"
    "at ScanKeywordCategories (int i) = Inr (snd (snd (PG_KEYWORDS ! i)))"
    using assms by (simp_all flip: PG_KEYWORDS_names
        add: at_def ScanKeywordTokens_def ScanKeywordCategories_def case_prod_beta)
qed

lemma keyword_entry_cases:
  shows "keyword_entry w = None \<Longrightarrow> map ascii_lower w \<notin> ascii ` set ScanKeywords_words"
    and "keyword_entry w = Some (value, category) \<Longrightarrow>
      \<exists>i<450. map ascii_lower w = ascii (ScanKeywords_words ! i) \<and> PG_KEYWORDS ! i = (ScanKeywords_words ! i, value, category)"
proof -
  assume "keyword_entry w = None"
  then have "map ascii_lower w \<notin> ascii ` fst ` set PG_KEYWORDS"
    by (auto simp: keyword_entry_def map_of_eq_None_iff image_iff split: prod.splits)
  then show "map ascii_lower w \<notin> ascii ` set ScanKeywords_words" by (metis PG_KEYWORDS_names list.set_map)
next
  assume "keyword_entry w = Some (value, category)"
  then obtain k where k: "(k, value, category) \<in> set PG_KEYWORDS" "map ascii_lower w = ascii k"
    by (auto simp: keyword_entry_def dest!: map_of_SomeD)
  moreover have "length PG_KEYWORDS = 450" by (metis PG_KEYWORDS_names ScanKeywords_length length_map)
  ultimately obtain i where "i < 450" "PG_KEYWORDS ! i = (k, value, category)" by (metis in_set_conv_nth)
  then show "\<exists>i<450. map ascii_lower w = ascii (ScanKeywords_words ! i) \<and> PG_KEYWORDS ! i = (ScanKeywords_words ! i, value, category)"
    using PG_KEYWORDS_nth(1) k(2) by auto
qed

lemma lookup_entry:
  assumes "0 \<notin> set w"
  shows "case keyword_entry w of
      None \<Rightarrow> ScanKeywordLookup (w @ 0 # r) ScanKeywords = Inr (- 1)
    | Some (value, category) \<Rightarrow>
        \<exists>n s. ScanKeywordLookup (w @ 0 # r) ScanKeywords = Inr n \<and> 0 \<le> n \<and>
          at ScanKeywordTokens n = Inr value \<and> at ScanKeywordCategories n = Inr category \<and>
          GetScanKeyword n ScanKeywords = Inr (map ascii_lower w @ 0 # s)"
proof (cases "keyword_entry w")
  case None
  then have "word_number (map ascii ScanKeywords_words) (map ascii_lower w) = None"
    using keyword_entry_cases(1) by (simp add: word_number_None)
  then show ?thesis using None core_keywords.lookup_decides [OF assms] by (simp add: keyword_number_def)
next
  case (Some e)
  obtain v c where e: "e = (v, c)" by (cases e)
  then obtain i where i: "i < 450" "map ascii_lower w = ascii (ScanKeywords_words ! i)" "PG_KEYWORDS ! i = (ScanKeywords_words ! i, v, c)"
    using keyword_entry_cases(2) Some by blast
  have n: "i < length (map ascii ScanKeywords_words)" using i(1) ScanKeywords_length by simp
  have "keyword_number (map ascii ScanKeywords_words) w = int i"
    using word_number_nth [OF core_keywords.distinct_words n] i n by (simp add: keyword_number_def)
  then have "ScanKeywordLookup (w @ 0 # r) ScanKeywords = Inr (int i)" using core_keywords.lookup_decides [OF assms] by simp
  moreover obtain s where "GetScanKeyword (int i) ScanKeywords = Inr (map ascii_lower w @ 0 # s)"
    using core_keywords.text_at [OF n] i n by auto
  ultimately show ?thesis using Some e i PG_KEYWORDS_nth(2,3) [OF i(1)] by auto
qed

text \<open>The three keywords behind which the filter of the grammar looks are the only ones with their codes.\<close>

definition filter_keyword :: "string \<times> int \<times> int \<Rightarrow> bool" where
  "filter_keyword e = (case e of (k, v, c) \<Rightarrow>
     277 \<le> v \<and> (v = NOT_P \<longrightarrow> k = ''not'') \<and> (v = NULLS_P \<longrightarrow> k = ''nulls'') \<and> (v = WITH \<longrightarrow> k = ''with''))"

lemma filter_keywords: "list_all filter_keyword PG_KEYWORD_1" "list_all filter_keyword PG_KEYWORD_2" "list_all filter_keyword PG_KEYWORD_3"
  by code_simp+

lemma keyword_entry_values:
  assumes "keyword_entry w = Some (v, c)"
  shows "277 \<le> v" "v = NOT_P \<Longrightarrow> map ascii_lower w = ascii ''not''" "v = NULLS_P \<Longrightarrow> map ascii_lower w = ascii ''nulls''"
    "v = WITH \<Longrightarrow> map ascii_lower w = ascii ''with''"
proof -
  obtain i where i: "i < 450" "map ascii_lower w = ascii (ScanKeywords_words ! i)" "PG_KEYWORDS ! i = (ScanKeywords_words ! i, v, c)"
    using keyword_entry_cases(2) [OF assms] by blast
  have "length PG_KEYWORDS = 450" by (metis PG_KEYWORDS_names ScanKeywords_length length_map)
  then have "PG_KEYWORDS ! i \<in> set PG_KEYWORDS" using i(1) by simp
  moreover have "list_all filter_keyword PG_KEYWORDS" using filter_keywords by (simp add: PG_KEYWORDS_def)
  ultimately have "filter_keyword (ScanKeywords_words ! i, v, c)" unfolding i(3) by (simp add: list_all_iff)
  then show "277 \<le> v" "v = NOT_P \<Longrightarrow> map ascii_lower w = ascii ''not''" "v = NULLS_P \<Longrightarrow> map ascii_lower w = ascii ''nulls''"
    "v = WITH \<Longrightarrow> map ascii_lower w = ascii ''with''" using i(2) by (auto simp: filter_keyword_def)
qed

text \<open>
  C11: The scanner recognises exactly the keywords of the list, in any mixture of capital and small
  ASCII letters: a word that \<^verbatim>\<open>kwlist.h\<close> lists is found under a number whose entries in the
  arrays of token codes and categories and in the string table are those of that line, and every
  other word gives -1. The perfect hash is the generated one, checked word by word.
\<close>

theorem keyword_recognised:
  assumes "0 \<notin> set w"
  shows "case keyword_entry w of
      None \<Rightarrow> ScanKeywordLookup (w @ 0 # r) ScanKeywords = Inr (- 1)
    | Some (value, category) \<Rightarrow>
        \<exists>n s. ScanKeywordLookup (w @ 0 # r) ScanKeywords = Inr n \<and> 0 \<le> n \<and>
          at ScanKeywordTokens n = Inr value \<and> at ScanKeywordCategories n = Inr category \<and>
          GetScanKeyword n ScanKeywords = Inr (map ascii_lower w @ 0 # s)"
  by (rule lookup_entry [OF assms])

theorem keyword_recognised_witness:
  "\<exists>n. ScanKeywordLookup (ascii ''Zone'' @ [0]) ScanKeywords = Inr n \<and> at ScanKeywordTokens n = Inr 726"
proof -
  have w: "0 \<notin> set (ascii ''Zone'')" by (simp add: ascii_def)
  have "keyword_entry (ascii ''Zone'') = Some (726, 0)" by code_simp
  then show ?thesis using keyword_recognised [OF w, of "[]"] by auto
qed

lemma keyword_entry_ascii:
  assumes "map ascii_lower (ascii k) = ascii k"
  shows "keyword_entry (ascii k) = map_of PG_KEYWORDS k"
proof -
  have "map_of (map (\<lambda>(kwname, value, category). (ascii kwname, value, category)) ps) (ascii k) = map_of ps k"
    for ps :: "(string \<times> int \<times> int) list"
    by (induction ps) auto
  then show ?thesis by (simp add: keyword_entry_def assms)
qed

text \<open>The words that both grammars reserve, computed by one pass over each part of the list.\<close>

definition reserved_twice :: "(string \<times> int \<times> int) list \<Rightarrow> string list" where
  "reserved_twice ps = map fst (filter (\<lambda>(k, value, category). category = RESERVED_KEYWORD \<and> k \<in> set ReservedPLKeywords_kw_string) ps)"

lemma reserved_twice_parts:
  "reserved_twice PG_KEYWORD_1 = [''all'', ''case'', ''else'', ''end'', ''for'', ''from'']"
  "reserved_twice PG_KEYWORD_2 = [''in'', ''into'', ''not'', ''null'', ''or'']"
  "reserved_twice PG_KEYWORD_3 = [''then'', ''to'', ''using'', ''when'']"
  by code_simp+

lemma reserved_twice_entry:
  assumes "k \<in> set ReservedPLKeywords_kw_string" "map ascii_lower (ascii k) = ascii k"
  shows "(\<exists>value. keyword_entry (ascii k) = Some (value, RESERVED_KEYWORD)) \<longleftrightarrow> k \<in> set (reserved_twice PG_KEYWORDS)"
proof -
  have "distinct (map fst PG_KEYWORDS)"
    using core_keywords.distinct_words PG_KEYWORDS_names by (simp add: distinct_map)
  then have "keyword_entry (ascii k) = Some (v, c) \<longleftrightarrow> (k, v, c) \<in> set PG_KEYWORDS" for v c
    using keyword_entry_ascii [OF assms(2)] by (simp add: map_of_eq_Some_iff)
  then show ?thesis using assms(1) by (force simp: reserved_twice_def)
qed

text \<open>
  The keyword lists of PL/pgSQL keep what their comments ask for. No word is in both of them, so
  a word the core scanner reports as a reserved keyword is never found as an unreserved one, and
  the words reserved by PL/pgSQL which the core grammar does not reserve are the nine named there.
\<close>

theorem plpgsql_keyword_lists:
  "(0 \<notin> set w \<longrightarrow> (\<exists>n\<ge>0. ScanKeywordLookup (w @ 0 # r) ReservedPLKeywords = Inr n) \<longrightarrow>
      ScanKeywordLookup (w @ 0 # r) UnreservedPLKeywords = Inr (- 1)) \<and>
   filter (\<lambda>k. \<forall>value. keyword_entry (ascii k) \<noteq> Some (value, RESERVED_KEYWORD)) ReservedPLKeywords_kw_string =
     [''begin'', ''by'', ''declare'', ''execute'', ''foreach'', ''if'', ''loop'', ''strict'', ''while'']"
proof (intro conjI impI)
  assume w: "0 \<notin> set w" and r: "\<exists>n\<ge>0. ScanKeywordLookup (w @ 0 # r) ReservedPLKeywords = Inr n"
  have "list_all (\<lambda>k. k \<notin> set UnreservedPLKeywords_kw_string) ReservedPLKeywords_kw_string" by code_simp
  moreover have "map ascii_lower w \<in> ascii ` set ReservedPLKeywords_kw_string"
    using r word_number_None [of "map ascii ReservedPLKeywords_kw_string" "map ascii_lower w"]
    by (auto simp: plpgsql_reserved.lookup_decides [OF w] keyword_number_def split: option.splits)
  ultimately have "map ascii_lower w \<notin> set (map ascii UnreservedPLKeywords_kw_string)" by (auto simp: list_all_iff)
  then have "word_number (map ascii UnreservedPLKeywords_kw_string) (map ascii_lower w) = None"
    by (rule word_number_None [THEN iffD2])
  then show "ScanKeywordLookup (w @ 0 # r) UnreservedPLKeywords = Inr (- 1)"
    by (simp add: plpgsql_unreserved.lookup_decides [OF w] keyword_number_def)
next
  have "list_all (\<lambda>k. map ascii_lower (ascii k) = ascii k) ReservedPLKeywords_kw_string" by code_simp
  then have "k \<in> set ReservedPLKeywords_kw_string \<Longrightarrow>
      (\<forall>value. keyword_entry (ascii k) \<noteq> Some (value, RESERVED_KEYWORD)) = (k \<notin> set (reserved_twice PG_KEYWORDS))" for k
    using reserved_twice_entry [of k] by (auto simp: list_all_iff)
  then have "filter (\<lambda>k. \<forall>value. keyword_entry (ascii k) \<noteq> Some (value, RESERVED_KEYWORD)) ReservedPLKeywords_kw_string =
      filter (\<lambda>k. k \<notin> set (reserved_twice PG_KEYWORDS)) ReservedPLKeywords_kw_string"
    by (rule filter_cong [OF refl])
  also have "reserved_twice PG_KEYWORDS = [''all'', ''case'', ''else'', ''end'', ''for'', ''from'', ''in'', ''into'', ''not'', ''null'', ''or'', ''then'', ''to'', ''using'', ''when'']"
    using reserved_twice_parts by (simp add: PG_KEYWORDS_def reserved_twice_def)
  also have "filter (\<lambda>k. k \<notin> set \<dots>) ReservedPLKeywords_kw_string =
      [''begin'', ''by'', ''declare'', ''execute'', ''foreach'', ''if'', ''loop'', ''strict'', ''while'']"
    by code_simp
  finally show "filter (\<lambda>k. \<forall>value. keyword_entry (ascii k) \<noteq> Some (value, RESERVED_KEYWORD)) ReservedPLKeywords_kw_string =
     [''begin'', ''by'', ''declare'', ''execute'', ''foreach'', ''if'', ''loop'', ''strict'', ''while'']" .
qed

theorem plpgsql_keyword_lists_witness:
  "ScanKeywordLookup (ascii ''LOOP'' @ [0]) UnreservedPLKeywords = Inr (- 1)"
proof -
  have "ScanKeywordLookup (ascii ''LOOP'' @ [0]) ReservedPLKeywords = Inr 14" by code_simp
  then show ?thesis using plpgsql_keyword_lists [of "ascii ''LOOP''" "[]"] by (auto simp: ascii_def)
qed


end
