(* ===== verification/Scan_Literal.thy ===== *)
theory Scan_Literal
  imports Keyword_Tables
begin

text \<open>
  The state of the flex scanner and the helpers its rule actions call, \<^verbatim>\<open>src_backend_parser_scan.c\<close>:
  the expandable buffer in which the value of a literal is collected, integer literals, Unicode
  and single character escapes, and the warnings about escapes.

  \<open>lit_rep\<close> is the invariant of the literal buffer and \<open>lit_value\<close> what it stands for: a list of
  bytes that \<open>addlit\<close> and \<open>addlitchar\<close> extend, however often the buffer has to grow.
\<close>

section \<open>State\<close>

datatype start_cond = INITIAL | xb | xc | xd | xh | xq | xqs | xe | xdolq | xui | xus | xeu

datatype backslash_quote_type = BACKSLASH_QUOTE_OFF | BACKSLASH_QUOTE_ON | BACKSLASH_QUOTE_SAFE_ENCODING

text \<open>
  What does not change while a text is scanned: the settings copied by \<open>scanner_init\<close>, the keyword
  list and its token codes, the encodings, and the locale's \<^verbatim>\<open>isupper\<close> and \<^verbatim>\<open>tolower\<close>.
\<close>

record scan_config =
  standard_conforming_strings :: bool
  escape_string_warning :: bool
  backslash_quote :: backslash_quote_type
  keywordlist :: ScanKeywordList
  keyword_tokens :: "int list"
  server :: pg_enc2name
  client_encoding :: int
  Utf8ToServerConvProc :: conversion
  isupper :: "8 word \<Rightarrow> bool"
  tolower :: "8 word \<Rightarrow> 8 word"

text \<open>
  \<^verbatim>\<open>core_yy_extra_type\<close>, the variables behind \<^verbatim>\<open>yylval\<close> and \<^verbatim>\<open>yylloc\<close>, and the part of flex's own
  state that the actions see; \<open>warnings\<close> collects the texts of \<^verbatim>\<open>ereport(WARNING)\<close>. The field
  \<open>llocend\<close> is \<^verbatim>\<open>yyllocend\<close>.
\<close>

record lexer =
  literalbuf :: "8 word block"
  literallen :: int
  literalalloc :: int
  state_before_str_stop :: start_cond
  xcdepth :: int
  dolqstart :: "bytes option"
  save_yylloc :: int
  utf16_first_part :: pg_wchar
  warn_on_first_escape :: bool
  saw_non_ascii :: bool
  llocend :: int
  yystart :: start_cond
  yypos :: nat
  yylength :: nat
  yyval :: core_YYSTYPE
  yyloc :: int
  warnings :: "string list"

section \<open>The literal buffer\<close>

definition startlit :: "lexer \<Rightarrow> lexer" where
  "startlit lx = lx\<lparr>literallen := 0\<rparr>"

function grow_alloc :: "int \<Rightarrow> int \<Rightarrow> int res" where
  "grow_alloc need alloc =
     (if alloc \<le> 0 then Inl Diverges
      else bindE (c_int (alloc * 2)) (\<lambda>alloc. if need \<ge> alloc then grow_alloc need alloc else Inr alloc))"
  by pat_completeness auto

termination grow_alloc
  by (relation "measure (\<lambda>(need, alloc). nat (need - alloc))") (auto simp: c_int_def split: if_splits)

declare grow_alloc.simps [simp del]

definition addlit :: "bytes \<Rightarrow> lexer \<Rightarrow> lexer res" where
  "addlit ytext lx =
     bindE (c_int (literallen lx + int (length ytext))) (\<lambda>need.
     bindE (if need \<ge> literalalloc lx
            then bindE (grow_alloc need (literalalloc lx)) (\<lambda>alloc.
                 bindE (repalloc 1 (literalbuf lx) alloc) (\<lambda>b. Inr (lx\<lparr>literalalloc := alloc, literalbuf := b\<rparr>)))
            else Inr lx) (\<lambda>lx.
     bindE (memcpy_to (literalbuf lx) (literallen lx) (map Some ytext)) (\<lambda>b.
     Inr (lx\<lparr>literalbuf := b, literallen := need\<rparr>))))"

definition addlitchar :: "8 word \<Rightarrow> lexer \<Rightarrow> lexer res" where
  "addlitchar ychar lx =
     bindE (c_int (literallen lx + 1)) (\<lambda>need.
     bindE (if need \<ge> literalalloc lx
            then bindE (c_int (literalalloc lx * 2)) (\<lambda>alloc.
                 bindE (repalloc 1 (literalbuf lx) alloc) (\<lambda>b. Inr (lx\<lparr>literalalloc := alloc, literalbuf := b\<rparr>)))
            else Inr lx) (\<lambda>lx.
     bindE (store (literalbuf lx) (literallen lx) ychar) (\<lambda>b.
     Inr (lx\<lparr>literalbuf := b, literallen := need\<rparr>))))"

definition litbufdup :: "lexer \<Rightarrow> 8 word block res" where
  "litbufdup lx =
     (let llen = literallen lx in
      bindE (c_int (llen + 1)) (\<lambda>n.
      bindE (palloc 1 n) (\<lambda>new.
      bindE (cells (literalbuf lx) 0 llen) (\<lambda>src.
      bindE (memcpy_to new 0 src) (\<lambda>new. store new llen 0)))))"

text \<open>The text of the buffer is a list of bytes; the buffer has 1024 bytes or a doubling of that.\<close>

definition buffer_size :: "int \<Rightarrow> bool" where
  "buffer_size a \<longleftrightarrow> (\<exists>k. a = 1024 * 2 ^ k)"

definition lit_rep :: "lexer \<Rightarrow> bytes \<Rightarrow> bool" where
  "lit_rep lx t \<longleftrightarrow>
     literallen lx = int (length t) \<and> literalalloc lx = int (length (literalbuf lx)) \<and>
     literallen lx < literalalloc lx \<and> literalalloc lx \<le> 2 ^ 29 \<and> buffer_size (literalalloc lx) \<and>
     take (length t) (literalbuf lx) = map Some t"

abbreviation too_large :: pg_error where
  "too_large \<equiv> Elog ''invalid memory alloc request size''"

lemma doubling_bound:
  fixes a :: int
  assumes "buffer_size a" "a < 2 ^ 30"
  shows "a \<le> 2 ^ 29"
proof -
  obtain k where k: "a = 1024 * 2 ^ k" using assms(1) by (auto simp: buffer_size_def)
  have "(2 :: int) ^ (10 + k) < 2 ^ 30" using assms(2) k by (simp add: power_add)
  then have "k \<le> 19" using power_less_imp_less_exp [of "2 :: int" "10 + k" 30] by simp
  then have "(2 :: int) ^ (10 + k) \<le> 2 ^ 29" by (intro power_increasing) simp_all
  then show ?thesis using k by (simp add: power_add)
qed

lemma buffer_size_double: "buffer_size a \<Longrightarrow> buffer_size (a * 2)"
  unfolding buffer_size_def by (metis mult.assoc power_Suc2)

lemma buffer_size_pos: "buffer_size a \<Longrightarrow> 1024 \<le> a"
  by (auto simp: buffer_size_def)

lemma grow_alloc_ok:
  "buffer_size alloc \<Longrightarrow> alloc \<le> need \<Longrightarrow> need < 2 ^ 30 \<Longrightarrow>
   \<exists>a. grow_alloc need alloc = Inr a \<and> buffer_size a \<and> need < a \<and> a \<le> 2 ^ 30 \<and> alloc < a \<and> a \<le> 2 * need"
proof (induction need alloc rule: grow_alloc.induct)
  case (1 need alloc)
  have pos: "0 < alloc" using buffer_size_pos 1(2) by fastforce
  note dbl = buffer_size_double [OF 1(2)]
  have int: "c_int (alloc * 2) = Inr (alloc * 2)" using 1(3,4) pos by (intro c_int_ok) simp_all
  show ?case
  proof (cases "need \<ge> alloc * 2")
    case True
    obtain a where "grow_alloc need (alloc * 2) = Inr a" "buffer_size a" "need < a" "a \<le> 2 ^ 30" "alloc * 2 < a" "a \<le> 2 * need"
      using 1(1) [OF _ int True dbl True 1(4)] pos by auto
    then show ?thesis using pos int True by (subst grow_alloc.simps) simp
  next
    case False
    moreover have "alloc \<le> 2 ^ 29" using doubling_bound [OF 1(2)] 1(3,4) by simp
    ultimately show ?thesis using pos int dbl 1(3) by (subst grow_alloc.simps) simp
  qed
qed

lemma lit_rep_cong:
  "literalbuf lx' = literalbuf lx \<Longrightarrow> literallen lx' = literallen lx \<Longrightarrow> literalalloc lx' = literalalloc lx \<Longrightarrow> lit_rep lx' t = lit_rep lx t"
  by (simp add: lit_rep_def)

lemma startlit_rep: "lit_rep lx t \<Longrightarrow> lit_rep (startlit lx) []"
  by (auto simp: lit_rep_def startlit_def)

text \<open>Room for more: what the two operations have in common once the new size is known.\<close>

lemma grown_rep:
  assumes "lit_rep lx t" "buffer_size a" "literalalloc lx \<le> a" "a \<le> 2 ^ 29"
  shows "\<exists>b. repalloc 1 (literalbuf lx) a = Inr b \<and> lit_rep (lx\<lparr>literalalloc := a, literalbuf := b\<rparr>) t"
proof -
  have "repalloc 1 (literalbuf lx) a = Inr (literalbuf lx @ replicate (nat a - length (literalbuf lx)) None)"
    using assms by (intro repalloc_grow) (auto simp: lit_rep_def)
  then show ?thesis using assms by (auto simp: lit_rep_def)
qed

lemma refused_size: "2 ^ 30 \<le> a \<Longrightarrow> repalloc 1 b a = Inl too_large"
  by (simp add: repalloc_def)

lemma stored_rep:
  assumes "lit_rep lx t" "int (length t + length s) < literalalloc lx"
  shows "\<exists>b. memcpy_to (literalbuf lx) (literallen lx) (map Some s) = Inr b \<and>
    lit_rep (lx\<lparr>literalbuf := b, literallen := int (length t + length s)\<rparr>) (t @ s)"
proof -
  have l: "literallen lx = int (length t)" "length t + length s < length (literalbuf lx)" using assms by (auto simp: lit_rep_def)
  then have "memcpy_to (literalbuf lx) (int (length t)) (map Some s) =
      Inr (take (length t) (literalbuf lx) @ map Some s @ drop (length t + length (map Some s)) (literalbuf lx))"
    by (intro memcpy_to_ok) simp
  then show ?thesis using assms l by (auto simp: lit_rep_def)
qed

text \<open>After adding \<open>n\<close> bytes only the three fields of the buffer have changed.\<close>

definition extends :: "lexer \<Rightarrow> lexer \<Rightarrow> bool" where
  "extends lx lx' \<longleftrightarrow>
     lx' = lx\<lparr>literalbuf := literalbuf lx', literalalloc := literalalloc lx', literallen := literallen lx'\<rparr>"

lemma addlit_rep:
  assumes rep: "lit_rep lx t" and n: "int (length t + length s) < 2 ^ 30"
  shows "if int (length t + length s) < 2 ^ 29
    then \<exists>lx'. addlit s lx = Inr lx' \<and> lit_rep lx' (t @ s) \<and> extends lx lx'
    else addlit s lx = Inl too_large"
proof -
  let ?n = "int (length t + length s)"
  have len: "literallen lx = int (length t)" using rep by (simp add: lit_rep_def)
  have int: "c_int (literallen lx + int (length s)) = Inr ?n" unfolding len using n by (subst c_int_ok) simp_all
  have k: "buffer_size (literalalloc lx)" using rep by (auto simp: lit_rep_def)
  have le: "literalalloc lx \<le> 2 ^ 29" using rep by (auto simp: lit_rep_def)
  show ?thesis
  proof (cases "?n \<ge> literalalloc lx")
    case False
    then have "?n < 2 ^ 29" using le by linarith
    moreover obtain b where "memcpy_to (literalbuf lx) (literallen lx) (map Some s) = Inr b"
      "lit_rep (lx\<lparr>literalbuf := b, literallen := ?n\<rparr>) (t @ s)" using stored_rep [OF rep, of s] False by auto
    ultimately show ?thesis using False int by (simp add: addlit_def extends_def)
  next
    case True
    obtain a where a: "grow_alloc ?n (literalalloc lx) = Inr a" "buffer_size a" "?n < a" "a \<le> 2 ^ 30" "literalalloc lx < a" "a \<le> 2 * ?n"
      using grow_alloc_ok [OF k True n] by blast
    show ?thesis
    proof (cases "?n < 2 ^ 29")
      case small: True
      have "a \<le> 2 ^ 29" by (rule doubling_bound [OF a(2)]) (use a(6) small in simp)
      then obtain b where b: "repalloc 1 (literalbuf lx) a = Inr b" "lit_rep (lx\<lparr>literalalloc := a, literalbuf := b\<rparr>) t"
        using grown_rep [OF rep a(2)] a(5) by auto
      obtain c where "memcpy_to b (literallen lx) (map Some s) = Inr c"
        "lit_rep (lx\<lparr>literalalloc := a, literalbuf := c, literallen := ?n\<rparr>) (t @ s)"
        using stored_rep [OF b(2), of s] a(3) by auto
      then show ?thesis using small True int a(1) b(1) by (simp add: addlit_def extends_def)
    next
      case False
      then have "\<not> a < 2 ^ 30" using doubling_bound [OF a(2)] a(3) by linarith
      then show ?thesis using False True int a(1) by (simp add: addlit_def refused_size)
    qed
  qed
qed

lemma addlitchar_addlit:
  assumes rep: "lit_rep lx t" and n: "int (length t) < 2 ^ 29"
  shows "addlitchar c lx = addlit [c] lx"
proof -
  have len: "literallen lx = int (length t)" "literallen lx < literalalloc lx" "literalalloc lx \<le> 2 ^ 29" "0 \<le> literallen lx"
    using rep by (auto simp: lit_rep_def)
  then have int: "c_int (literallen lx + 1) = Inr (literallen lx + 1)" "c_int (literalalloc lx * 2) = Inr (literalalloc lx * 2)"
    by (simp_all add: c_int_def)
  have grow: "grow_alloc (literallen lx + 1) (literalalloc lx) = Inr (literalalloc lx * 2)" if "literallen lx + 1 \<ge> literalalloc lx"
  proof -
    have "1024 \<le> literalalloc lx" using rep by (intro buffer_size_pos) (auto simp: lit_rep_def)
    then show ?thesis using len int(2) that by (subst grow_alloc.simps) simp
  qed
  have "memcpy_to b (literallen lx) [Some c] = store b (literallen lx) c" for b :: "8 word block"
    using len(4) by (auto simp: memcpy_to_def store_def upd_conv_take_nth_drop nat_less_iff)
  then show ?thesis using int grow len(1) by (simp add: addlitchar_def addlit_def bindE_def len(4) cong: if_cong sum.case_cong split: sum.split)
qed

lemma litbufdup_rep:
  assumes "lit_rep lx t"
  shows "litbufdup lx = Inr (map Some t @ [Some 0])"
proof -
  have l: "literallen lx = int (length t)" "length t \<le> length (literalbuf lx)" "int (length t) < 2 ^ 29"
    "take (length t) (literalbuf lx) = map Some t" using assms by (auto simp: lit_rep_def)
  then have "c_int (literallen lx + 1) = Inr (literallen lx + 1)" by (simp add: c_int_def)
  moreover have "(palloc 1 (literallen lx + 1) :: 8 word block res) = Inr (replicate (Suc (length t)) None)"
    using l by (simp add: palloc_def nat_add_distrib)
  moreover have "cells (literalbuf lx) 0 (literallen lx) = Inr (map Some t)"
    using l cells_ok [of 0 "length t" "literalbuf lx"] by simp
  moreover have "memcpy_to (replicate (Suc (length t)) None) 0 (map Some t) = Inr (map Some t @ [None])"
    using memcpy_to_ok [of 0 "map Some t" "replicate (Suc (length t)) None"]
    by (simp add: drop_replicate replicate_Suc [of 0] del: replicate_Suc)
  moreover have "store (map Some t @ [None]) (literallen lx) 0 = Inr (map Some t @ [Some 0])"
    by (rule store_split) (simp add: l)
  ultimately show ?thesis unfolding litbufdup_def Let_def by simp
qed

section \<open>Numbers\<close>

abbreviation (input) FCONST :: int where "FCONST \<equiv> 260"
abbreviation (input) ICONST :: int where "ICONST \<equiv> 266"

text \<open>
  \<^verbatim>\<open>strtol\<close> and \<^verbatim>\<open>strtoul\<close> of the C library: white space, a sign, for base 16 an optional \<^verbatim>\<open>0x\<close>,
  then digits. The result is the sign, the magnitude and what follows the number; without a
  digit nothing is consumed.
\<close>

definition digit_value :: "8 word \<Rightarrow> int" where
  "digit_value c =
     (if 0x30 \<le> c \<and> c \<le> 0x39 then uint c - 0x30
      else if 0x61 \<le> c \<and> c \<le> 0x7a then uint c - 0x61 + 10
      else if 0x41 \<le> c \<and> c \<le> 0x5a then uint c - 0x41 + 10
      else 36)"

fun read_digits :: "int \<Rightarrow> int \<Rightarrow> bytes \<Rightarrow> int \<times> bytes" where
  "read_digits base v [] = (v, [])"
| "read_digits base v (c # s) = (if digit_value c < base then read_digits base (v * base + digit_value c) s else (v, c # s))"

definition read_number :: "int \<Rightarrow> bytes \<Rightarrow> bool \<times> int \<times> bytes" where
  "read_number base str =
     (let s = dropWhile (\<lambda>c. c \<in> {0x20, 0x09, 0x0a, 0x0b, 0x0c, 0x0d}) str;
          neg = (s \<noteq> [] \<and> hd s = 0x2d);
          s = (if s \<noteq> [] \<and> hd s \<in> {0x2b, 0x2d} then tl s else s);
          s = (if base = 16 \<and> 2 < length s \<and> s ! 0 = 0x30 \<and> s ! 1 \<in> {0x78, 0x58} \<and> digit_value (s ! 2) < 16 then drop 2 s else s)
      in if s \<noteq> [] \<and> digit_value (hd s) < base then (neg, read_digits base 0 s) else (False, 0, str))"

definition strtol :: "bytes \<Rightarrow> int \<Rightarrow> int \<times> bytes \<times> bool" where
  "strtol str base =
     (case read_number base str of (neg, v, rest) \<Rightarrow>
        let x = (if neg then - v else v) in
        if x > 2 ^ 63 - 1 then (2 ^ 63 - 1, rest, True)
        else if x < - (2 ^ 63) then (- (2 ^ 63), rest, True)
        else (x, rest, False))"

definition strtoul :: "bytes \<Rightarrow> int \<Rightarrow> int" where
  "strtoul str base =
     (case read_number base str of (neg, v, rest) \<Rightarrow>
        if v > 2 ^ 64 - 1 then 2 ^ 64 - 1 else if neg then (- v) mod 2 ^ 64 else v)"

definition strtoint :: "bytes \<Rightarrow> int \<Rightarrow> int \<times> bytes \<times> bool" where
  "strtoint str base =
     (case strtol str base of (val, endptr, erange) \<Rightarrow>
        let i = sint (word_of_int val :: 32 word) in (i, endptr, erange \<or> val \<noteq> i))"

definition process_integer_literal :: "bytes \<Rightarrow> lexer \<Rightarrow> int \<times> lexer" where
  "process_integer_literal token lx =
     (case strtoint token 10 of (val, endptr, erange) \<Rightarrow>
        if endptr \<noteq> [] \<or> erange then (FCONST, lx\<lparr>yyval := Str token\<rparr>)
        else (ICONST, lx\<lparr>yyval := Ival val\<rparr>))"

section \<open>Escapes\<close>

text \<open>An error of the scanner quotes the buffer from the location to the zero behind the token.\<close>

definition yyerror :: "string \<Rightarrow> bytes \<Rightarrow> lexer \<Rightarrow> 'a res" where
  "yyerror msg buf lx = scanner_yyerror msg (buf[yypos lx := 0]) (nat (yyloc lx))"

definition warn_escape :: "scan_config \<Rightarrow> string \<Rightarrow> lexer \<Rightarrow> lexer" where
  "warn_escape cfg msg lx =
     (let lx = (if warn_on_first_escape lx \<and> escape_string_warning cfg then lx\<lparr>warnings := warnings lx @ [msg]\<rparr> else lx) in
      lx\<lparr>warn_on_first_escape := False\<rparr>)"

definition check_escape_warning :: "scan_config \<Rightarrow> lexer \<Rightarrow> lexer" where
  "check_escape_warning cfg = warn_escape cfg ''nonstandard use of escape in a string literal''"

definition backslash :: char where
  "backslash = CHR 0x5C"

definition check_string_escape_warning :: "scan_config \<Rightarrow> 8 word \<Rightarrow> lexer \<Rightarrow> lexer" where
  "check_string_escape_warning cfg ychar =
     (if ychar = 0x27 then warn_escape cfg (''nonstandard use of '' @ [backslash, CHR 0x27] @ '' in a string literal'')
      else if ychar = 0x5c then warn_escape cfg (''nonstandard use of '' @ [backslash, backslash] @ '' in a string literal'')
      else check_escape_warning cfg)"

definition unescape_single_char :: "8 word \<Rightarrow> lexer \<Rightarrow> 8 word \<times> lexer" where
  "unescape_single_char c lx =
     (if c = 0x62 then (0x08, lx)
      else if c = 0x66 then (0x0c, lx)
      else if c = 0x6e then (0x0a, lx)
      else if c = 0x72 then (0x0d, lx)
      else if c = 0x74 then (0x09, lx)
      else (c, if c = 0 \<or> IS_HIGHBIT_SET c then lx\<lparr>saw_non_ascii := True\<rparr> else lx))"

definition addunicode :: "scan_config \<Rightarrow> pg_wchar \<Rightarrow> bytes \<Rightarrow> lexer \<Rightarrow> lexer res" where
  "addunicode cfg c buf lx =
     (if \<not> is_valid_unicode_codepoint c then yyerror ''invalid Unicode escape value'' buf lx
      else bindE (pg_unicode_to_server (server cfg) (Utf8ToServerConvProc cfg) c (replicate 17 None)) (\<lambda>b.
           bindE (c_text b) (\<lambda>t. addlit t lx)))"

end
