(* ===== verification/Scan_Actions.thy ===== *)
theory Scan_Actions
  imports Scan_Literal
begin

text \<open>
  \<^verbatim>\<open>core_yylex\<close> of \<^verbatim>\<open>src_backend_parser_scan.c\<close>: the actions of the 65 rules and of the end of the
  input, and the loop of flex around them.

  Which rule matches how many characters is the argument \<open>dfa\<close>: given the start condition, the
  buffer and the position it returns the number of the rule (the case label of the source) and the
  length of the match, or the end of the input. The predicate \<open>dfa_ok\<close> of \<^verbatim>\<open>Scan_Total\<close> says what the
  actions rely on; \<^verbatim>\<open>Flex_Match\<close> has the generated matcher, \<open>flex_dfa\<close>, and \<^verbatim>\<open>Flex_Contract\<close> shows
  that it is such an argument.

  An action gets the state in which \<open>yypos\<close> and \<open>yylength\<close> already are the end and the length of
  the match. It either lets the loop go on (\<open>Again\<close>) or returns a token code (\<open>Token\<close>).
\<close>

section \<open>Results and macros\<close>

datatype yy_act = Rule nat nat | Eof

type_synonym dfa = "start_cond \<Rightarrow> bytes \<Rightarrow> nat \<Rightarrow> yy_act"

datatype step = Again lexer | Token int lexer

abbreviation (input) BCONST :: int where "BCONST \<equiv> 263"
abbreviation (input) XCONST_tok :: int where "XCONST_tok \<equiv> 264"
abbreviation (input) Op :: int where "Op \<equiv> 265"
abbreviation (input) PARAM :: int where "PARAM \<equiv> 267"
abbreviation (input) TYPECAST :: int where "TYPECAST \<equiv> 268"
abbreviation (input) DOT_DOT :: int where "DOT_DOT \<equiv> 269"
abbreviation (input) COLON_EQUALS :: int where "COLON_EQUALS \<equiv> 270"
abbreviation (input) EQUALS_GREATER :: int where "EQUALS_GREATER \<equiv> 271"
abbreviation (input) LESS_EQUALS :: int where "LESS_EQUALS \<equiv> 272"
abbreviation (input) GREATER_EQUALS :: int where "GREATER_EQUALS \<equiv> 273"
abbreviation (input) NOT_EQUALS :: int where "NOT_EQUALS \<equiv> 274"

definition set_yylloc :: "nat \<Rightarrow> lexer \<Rightarrow> lexer" where
  "set_yylloc p lx = lx\<lparr>yyloc := int p\<rparr>"

definition yyless :: "nat \<Rightarrow> nat \<Rightarrow> lexer \<Rightarrow> lexer" where
  "yyless p n lx = lx\<lparr>yypos := p + n, yylength := n\<rparr>"

definition yytext :: "bytes \<Rightarrow> nat \<Rightarrow> lexer \<Rightarrow> bytes" where
  "yytext buf p lx = take (yylength lx) (drop p buf)"

definition set_llocend :: "nat \<Rightarrow> lexer \<Rightarrow> lexer" where
  "set_llocend p lx = lx\<lparr>llocend := int p + int (yylength lx)\<rparr>"

text \<open>A \<^verbatim>\<open>char\<close> that is returned as a token is sign-extended.\<close>

definition char_token :: "8 word \<Rightarrow> int" where
  "char_token c = sint c"

text \<open>The bytes of a block whose cells have been written.\<close>

fun initialised :: "8 word block \<Rightarrow> bytes res" where
  "initialised [] = Inr []"
| "initialised (None # b) = Inl Uninitialised"
| "initialised (Some c # b) = bindE (initialised b) (\<lambda>s. Inr (c # s))"

section \<open>Comments\<close>

definition act_comment :: "nat \<Rightarrow> nat \<Rightarrow> lexer \<Rightarrow> step res" where
  "act_comment r p lx =
     (if r = 2 then Inr (Token SQL_COMMENT (set_yylloc p lx))
      else if r = 3 then Inr (Again (yyless p 2 ((set_yylloc p lx)\<lparr>xcdepth := 0, yystart := xc\<rparr>)))
      else if r = 4 then bindE (c_int (xcdepth lx + 1)) (\<lambda>d. Inr (Again (yyless p 2 (lx\<lparr>xcdepth := d\<rparr>))))
      else if r = 5
      then (if xcdepth lx \<le> 0 then Inr (Token C_COMMENT (set_llocend p (lx\<lparr>yystart := INITIAL\<rparr>)))
            else Inr (Again (lx\<lparr>xcdepth := xcdepth lx - 1\<rparr>)))
      else Inr (Again lx))"

section \<open>Bit strings and national characters\<close>

definition keyword_token :: "scan_config \<Rightarrow> int \<Rightarrow> lexer \<Rightarrow> step res" where
  "keyword_token cfg kwnum lx =
     bindE (GetScanKeyword kwnum (keywordlist cfg)) (\<lambda>kw.
     bindE (c_str kw) (\<lambda>s.
     bindE (at (keyword_tokens cfg) kwnum) (\<lambda>t. Inr (Token t (lx\<lparr>yyval := Keyword s\<rparr>)))))"

definition act_bits :: "scan_config \<Rightarrow> bytes \<Rightarrow> nat \<Rightarrow> nat \<Rightarrow> lexer \<Rightarrow> step res" where
  "act_bits cfg buf r p lx =
     (if r = 9 then bindE (addlitchar 0x62 (startlit ((set_yylloc p lx)\<lparr>yystart := xb\<rparr>))) (\<lambda>lx. Inr (Again lx))
      else if r = 10 \<or> r = 11 then bindE (addlit (yytext buf p lx) lx) (\<lambda>lx. Inr (Again lx))
      else if r = 12 then bindE (addlitchar 0x78 (startlit ((set_yylloc p lx)\<lparr>yystart := xh\<rparr>))) (\<lambda>lx. Inr (Again lx))
      else let lx = yyless p 1 (set_yylloc p lx) in
           bindE (ScanKeywordLookup (ascii ''nchar'' @ [0]) (keywordlist cfg)) (\<lambda>kwnum.
           if kwnum \<ge> 0 then keyword_token cfg kwnum lx
           else Inr (Token IDENT (set_llocend p (lx\<lparr>yyval := Str (ascii ''n'')\<rparr>)))))"

section \<open>Quoted strings\<close>

definition act_quote_start :: "scan_config \<Rightarrow> nat \<Rightarrow> nat \<Rightarrow> lexer \<Rightarrow> step res" where
  "act_quote_start cfg r p lx =
     (if r = 14
      then Inr (Again (startlit ((set_yylloc p lx)\<lparr>warn_on_first_escape := True, saw_non_ascii := False,
             yystart := if standard_conforming_strings cfg then xq else xe\<rparr>)))
      else if r = 15
      then Inr (Again (startlit ((set_yylloc p lx)\<lparr>warn_on_first_escape := False, saw_non_ascii := False, yystart := xe\<rparr>)))
      else let lx = set_yylloc p lx in
           if \<not> standard_conforming_strings cfg then Inl (Elog ''unsafe use of string constant with Unicode escapes'')
           else Inr (Again (startlit (lx\<lparr>yystart := xus\<rparr>))))"

definition literal_token :: "int \<Rightarrow> nat \<Rightarrow> lexer \<Rightarrow> step res" where
  "literal_token t p lx =
     bindE (litbufdup lx) (\<lambda>b. bindE (c_text b) (\<lambda>s. Inr (Token t (set_llocend p (lx\<lparr>yyval := Str s\<rparr>)))))"

definition verify_literal :: "scan_config \<Rightarrow> lexer \<Rightarrow> unit res" where
  "verify_literal cfg lx =
     (if saw_non_ascii lx
      then bindE (cells (literalbuf lx) 0 (literallen lx)) (\<lambda>b. bindE (initialised b) (\<lambda>s.
           bindE (pg_verifymbstr (server cfg) s (literallen lx) False) (\<lambda>ok. Inr ())))
      else Inr ())"

definition quote_end :: "scan_config \<Rightarrow> bytes \<Rightarrow> nat \<Rightarrow> lexer \<Rightarrow> step res" where
  "quote_end cfg buf p lx =
     (let lx = (yyless p 0 lx)\<lparr>yystart := INITIAL\<rparr> in
      case state_before_str_stop lx of
        xb \<Rightarrow> literal_token BCONST p lx
      | xh \<Rightarrow> literal_token XCONST_tok p lx
      | xq \<Rightarrow> bindE (verify_literal cfg lx) (\<lambda>_. literal_token SCONST p lx)
      | xe \<Rightarrow> bindE (verify_literal cfg lx) (\<lambda>_. literal_token SCONST p lx)
      | xus \<Rightarrow> literal_token USCONST p lx
      | _ \<Rightarrow> yyerror ''unhandled previous state in xqs'' buf lx)"

definition act_quote_stop :: "scan_config \<Rightarrow> bytes \<Rightarrow> nat \<Rightarrow> nat \<Rightarrow> lexer \<Rightarrow> step res" where
  "act_quote_stop cfg buf r p lx =
     (if r = 17 then Inr (Again (lx\<lparr>state_before_str_stop := yystart lx, yystart := xqs\<rparr>))
      else if r = 18 then Inr (Again (lx\<lparr>yystart := state_before_str_stop lx\<rparr>))
      else quote_end cfg buf p lx)"

definition invalid_surrogate :: "bytes \<Rightarrow> lexer \<Rightarrow> 'a res" where
  "invalid_surrogate = yyerror ''invalid Unicode surrogate pair''"

text \<open>Rules 24 and 25: the location points to the escape while it is converted.\<close>

definition act_unicode :: "scan_config \<Rightarrow> bytes \<Rightarrow> nat \<Rightarrow> nat \<Rightarrow> lexer \<Rightarrow> step res" where
  "act_unicode cfg buf r p lx =
     (let c = word_of_int (strtoul (drop 2 (yytext buf p lx)) 16) in
      if r = 24
      then let lx = check_escape_warning cfg lx; lx = lx\<lparr>save_yylloc := yyloc lx\<rparr>; lx = set_yylloc p lx in
           bindE (if is_utf16_surrogate_first c then Inr (lx\<lparr>utf16_first_part := c, yystart := xeu\<rparr>)
                  else if is_utf16_surrogate_second c then invalid_surrogate buf lx
                  else addunicode cfg c buf lx) (\<lambda>lx.
           Inr (Again (lx\<lparr>yyloc := save_yylloc lx\<rparr>)))
      else let lx = lx\<lparr>save_yylloc := yyloc lx\<rparr>; lx = set_yylloc p lx in
           if \<not> is_utf16_surrogate_second c then invalid_surrogate buf lx
           else bindE (addunicode cfg (surrogate_pair_to_codepoint (utf16_first_part lx) c) buf lx) (\<lambda>lx.
                Inr (Again (lx\<lparr>yyloc := save_yylloc lx, yystart := xe\<rparr>))))"

text \<open>Rules 30 and 31: a byte given by its octal or hexadecimal value.\<close>

definition add_byte :: "scan_config \<Rightarrow> 8 word \<Rightarrow> lexer \<Rightarrow> step res" where
  "add_byte cfg c lx =
     bindE (addlitchar c (check_escape_warning cfg lx)) (\<lambda>lx.
     Inr (Again (if c = 0 \<or> IS_HIGHBIT_SET c then lx\<lparr>saw_non_ascii := True\<rparr> else lx)))"

definition PG_ENCODING_IS_CLIENT_ONLY :: "int \<Rightarrow> bool" where
  "PG_ENCODING_IS_CLIENT_ONLY enc \<longleftrightarrow> enc > 34 \<and> enc < 42"

definition act_backslash :: "scan_config \<Rightarrow> bytes \<Rightarrow> nat \<Rightarrow> lexer \<Rightarrow> step res" where
  "act_backslash cfg buf p lx =
     bindE (at (yytext buf p lx @ [0]) 1) (\<lambda>c.
     if c = 0x27 \<and> (backslash_quote cfg = BACKSLASH_QUOTE_OFF \<or>
           backslash_quote cfg = BACKSLASH_QUOTE_SAFE_ENCODING \<and> PG_ENCODING_IS_CLIENT_ONLY (client_encoding cfg))
     then Inl (Elog (''unsafe use of '' @ [backslash, CHR 0x27] @ '' in a string literal''))
     else let (ch, lx) = unescape_single_char c (check_string_escape_warning cfg c lx) in
          bindE (addlitchar ch lx) (\<lambda>lx. Inr (Again lx)))"

definition act_string :: "scan_config \<Rightarrow> bytes \<Rightarrow> nat \<Rightarrow> nat \<Rightarrow> lexer \<Rightarrow> step res" where
  "act_string cfg buf r p lx =
     (if r = 21 then bindE (addlitchar 0x27 lx) (\<lambda>lx. Inr (Again lx))
      else if r = 22 \<or> r = 23 then bindE (addlit (yytext buf p lx) lx) (\<lambda>lx. Inr (Again lx))
      else if r = 24 \<or> r = 25 then act_unicode cfg buf r p lx
      else if r = 26 \<or> r = 27 then invalid_surrogate buf (set_yylloc p lx)
      else if r = 28 then Inl (Elog ''invalid Unicode escape'')
      else if r = 29 then act_backslash cfg buf p lx
      else if r = 30 then add_byte cfg (word_of_int (strtoul (drop 1 (yytext buf p lx)) 8)) lx
      else if r = 31 then add_byte cfg (word_of_int (strtoul (drop 2 (yytext buf p lx)) 16)) lx
      else bindE (at (yytext buf p lx @ [0]) 0) (\<lambda>c. bindE (addlitchar c lx) (\<lambda>lx. Inr (Again lx))))"

section \<open>Dollar quotes\<close>

definition act_dolq :: "bytes \<Rightarrow> nat \<Rightarrow> nat \<Rightarrow> lexer \<Rightarrow> step res" where
  "act_dolq buf r p lx =
     (if r = 33 then Inr (Again (startlit ((set_yylloc p lx)\<lparr>dolqstart := Some (yytext buf p lx), yystart := xdolq\<rparr>)))
      else if r = 34
      then bindE (at (yytext buf p lx @ [0]) 0) (\<lambda>c. Inr (Token (char_token c) (yyless p 1 (set_yylloc p lx))))
      else if r = 35
      then (case dolqstart lx of
              None \<Rightarrow> Inl NullDeref
            | Some d \<Rightarrow>
                if yytext buf p lx = d
                then literal_token SCONST p (lx\<lparr>dolqstart := None, yystart := INITIAL\<rparr>)
                else bindE (addlit (take (yylength lx - 1) (yytext buf p lx)) lx) (\<lambda>lx'.
                     Inr (Again (yyless p (yylength lx - 1) lx'))))
      else if r = 36 \<or> r = 37 then bindE (addlit (yytext buf p lx) lx) (\<lambda>lx. Inr (Again lx))
      else bindE (at (yytext buf p lx @ [0]) 0) (\<lambda>c. bindE (addlitchar c lx) (\<lambda>lx. Inr (Again lx))))"

section \<open>Quoted identifiers\<close>

definition ident_token :: "scan_config \<Rightarrow> bytes \<Rightarrow> nat \<Rightarrow> lexer \<Rightarrow> step res" where
  "ident_token cfg word p lx =
     bindE (downcase_truncate_identifier (isupper cfg) (tolower cfg) (server cfg) word (int (length word)) True) (\<lambda>(ident, notice).
     bindE (c_text ident) (\<lambda>s. Inr (Token IDENT (set_llocend p (lx\<lparr>yyval := Str s\<rparr>)))))"

definition act_ident :: "scan_config \<Rightarrow> bytes \<Rightarrow> nat \<Rightarrow> nat \<Rightarrow> lexer \<Rightarrow> step res" where
  "act_ident cfg buf r p lx =
     (if r = 39 then Inr (Again (startlit ((set_yylloc p lx)\<lparr>yystart := xd\<rparr>)))
      else if r = 40 then Inr (Again (startlit ((set_yylloc p lx)\<lparr>yystart := xui\<rparr>)))
      else if r = 41
      then let lx = lx\<lparr>yystart := INITIAL\<rparr> in
           if literallen lx = 0 then yyerror ''zero-length delimited identifier'' buf lx
           else bindE (litbufdup lx) (\<lambda>ident.
                bindE (if literallen lx \<ge> NAMEDATALEN
                       then bindE (truncate_identifier (server cfg) ident (literallen lx) True) (\<lambda>(ident, notice). Inr ident)
                       else Inr ident) (\<lambda>ident.
                bindE (c_text ident) (\<lambda>s. Inr (Token IDENT (set_llocend p (lx\<lparr>yyval := Str s\<rparr>))))))
      else if r = 42
      then let lx = lx\<lparr>yystart := INITIAL\<rparr> in
           if literallen lx = 0 then yyerror ''zero-length delimited identifier'' buf lx
           else literal_token UIDENT p lx
      else if r = 43 then bindE (addlitchar 0x22 lx) (\<lambda>lx. Inr (Again lx))
      else if r = 44 then bindE (addlit (yytext buf p lx) lx) (\<lambda>lx. Inr (Again lx))
      else let lx = yyless p 1 (set_yylloc p lx) in ident_token cfg (yytext buf p lx) p lx)"

section \<open>Operators\<close>

text \<open>The first occurrence of a character, and of two characters in a row.\<close>

fun strchr :: "bytes \<Rightarrow> 8 word \<Rightarrow> nat option" where
  "strchr [] c = None"
| "strchr (x # s) c = (if x = c then Some 0 else map_option Suc (strchr s c))"

fun strstr2 :: "bytes \<Rightarrow> 8 word \<Rightarrow> 8 word \<Rightarrow> nat option" where
  "strstr2 (x # y # s) c d = (if x = c \<and> y = d then Some 0 else map_option Suc (strstr2 (y # s) c d))"
| "strstr2 _ c d = None"

text \<open>Where a comment starts inside the operator: at the first slash-star or dash-dash.\<close>

definition comment_start :: "bytes \<Rightarrow> nat option" where
  "comment_start s =
     (case (strstr2 s 0x2f 0x2a, strstr2 s 0x2d 0x2d) of
        (Some slashstar, Some dashdash) \<Rightarrow> Some (if slashstar > dashdash then dashdash else slashstar)
      | (None, dashdash) \<Rightarrow> dashdash
      | (slashstar, None) \<Rightarrow> slashstar)"

definition plus_minus :: "8 word \<Rightarrow> bool" where
  "plus_minus c \<longleftrightarrow> c = 0x2b \<or> c = 0x2d"

text \<open>The characters that occur in no operator of standard SQL: tilde, !, @, #, ^, &, |, backquote, ?, %.\<close>

definition non_sql_char :: "8 word \<Rightarrow> bool" where
  "non_sql_char c \<longleftrightarrow> c \<in> {0x7e, 0x21, 0x40, 0x23, 0x5e, 0x26, 0x7c, 0x60, 0x3f, 0x25}"

fun strip_plus_minus :: "bytes \<Rightarrow> nat \<Rightarrow> nat" where
  "strip_plus_minus s 0 = 0"
| "strip_plus_minus s (Suc n) = (if n > 1 \<and> plus_minus (s ! (n - 1)) then strip_plus_minus s n else n)"

definition trim_operator :: "bytes \<Rightarrow> nat" where
  "trim_operator s =
     (let nchars = (case comment_start s of Some i \<Rightarrow> i | None \<Rightarrow> length s) in
      if nchars > 1 \<and> plus_minus (s ! (nchars - 1)) \<and> \<not> list_ex non_sql_char (take (nchars - 1) s)
      then strip_plus_minus s nchars else nchars)"

definition leading_question_operators :: "bytes list" where
  "leading_question_operators =
     map ascii [''?<@'', ''?@>'', ''?~'', ''?@'', ''?|'', ''?&'', ''?#'', ''?-'', ''?-|'', ''?||'']"

definition inner_question_operators :: "bytes list" where
  "inner_question_operators = map ascii [''^?'', ''#?'', ''@?'']"

definition operator_length :: "bytes \<Rightarrow> nat" where
  "operator_length s =
     (let nchars = trim_operator s;
          nchars = (if hd s = 0x3f \<and> s \<notin> set leading_question_operators then 1 else nchars)
      in case strchr s 0x3f of
           Some i \<Rightarrow> if hd s \<noteq> 0x3f \<and> s \<notin> set inner_question_operators then i else nchars
         | None \<Rightarrow> nchars)"

definition self_chars :: bytes where
  "self_chars = ascii '',()[].;:+-*/%^<>=?''"

definition short_operator :: "bytes \<Rightarrow> int option" where
  "short_operator s =
     (if length s = 1 \<and> hd s \<in> set self_chars then Some (char_token (hd s))
      else if s = ascii ''=>'' then Some EQUALS_GREATER
      else if s = ascii ''>='' then Some GREATER_EQUALS
      else if s = ascii ''<='' then Some LESS_EQUALS
      else if s = ascii ''<>'' then Some NOT_EQUALS
      else if s = ascii ''!='' then Some NOT_EQUALS
      else None)"

definition act_operator :: "bytes \<Rightarrow> nat \<Rightarrow> lexer \<Rightarrow> step res" where
  "act_operator buf p lx =
     (let nchars = operator_length (yytext buf p lx); lx0 = set_yylloc p lx;
          lx = (if nchars < yylength lx then yyless p nchars lx0 else lx0) in
      case if nchars < yylength lx0 then short_operator (yytext buf p lx) else None of
        Some t \<Rightarrow> Inr (Token t lx)
      | None \<Rightarrow>
          if int nchars \<ge> NAMEDATALEN then yyerror ''operator too long'' buf lx
          else Inr (Token Op (lx\<lparr>yyval := Str (yytext buf p lx)\<rparr>)))"

section \<open>Fixed tokens, numbers and words\<close>

definition act_fixed :: "bytes \<Rightarrow> nat \<Rightarrow> nat \<Rightarrow> lexer \<Rightarrow> step res" where
  "act_fixed buf r p lx =
     (if r = 46 then bindE (at (yytext buf p lx @ [0]) 1) (\<lambda>c. Inr (Token (char_token c) lx))
      else let lx = set_yylloc p lx in
        if r = 47 then Inr (Token TYPECAST lx)
        else if r = 48 then Inr (Token DOT_DOT lx)
        else if r = 49 then Inr (Token COLON_EQUALS lx)
        else if r = 50 then Inr (Token EQUALS_GREATER lx)
        else if r = 51 then Inr (Token LESS_EQUALS lx)
        else if r = 52 then Inr (Token GREATER_EQUALS lx)
        else if r = 53 \<or> r = 54 then Inr (Token NOT_EQUALS lx)
        else bindE (at (yytext buf p lx @ [0]) 0) (\<lambda>c. Inr (Token (char_token c) lx)))"

definition integer_token :: "bytes \<Rightarrow> nat \<Rightarrow> lexer \<Rightarrow> step res" where
  "integer_token buf p lx = (case process_integer_literal (yytext buf p lx) lx of (t, lx) \<Rightarrow> Inr (Token t lx))"

definition act_number :: "bytes \<Rightarrow> nat \<Rightarrow> nat \<Rightarrow> lexer \<Rightarrow> step res" where
  "act_number buf r p lx =
     (if r = 57
      then Inr (Token PARAM ((set_yylloc p lx)\<lparr>yyval :=
             Ival (sint (word_of_int (fst (strtol (drop 1 (yytext buf p lx)) 10)) :: 32 word))\<rparr>))
      else if r = 58 then integer_token buf p (set_yylloc p lx)
      else if r = 59 \<or> r = 61 then Inr (Token FCONST ((set_yylloc p lx)\<lparr>yyval := Str (yytext buf p lx)\<rparr>))
      else if r = 60 then integer_token buf p (set_yylloc p (yyless p (yylength lx - 2) lx))
      else if r = 62 then integer_token buf p (set_yylloc p (yyless p (yylength lx - 1) lx))
      else integer_token buf p (set_yylloc p (yyless p (yylength lx - 2) lx)))"

definition act_word :: "scan_config \<Rightarrow> bytes \<Rightarrow> nat \<Rightarrow> lexer \<Rightarrow> step res" where
  "act_word cfg buf p lx =
     (let lx = set_yylloc p lx; word = yytext buf p lx; question = (word \<noteq> [] \<and> List.last word = 0x3f);
          keyword_text = (if question then butlast word else word) in
      bindE (ScanKeywordLookup (keyword_text @ [0]) (keywordlist cfg)) (\<lambda>kwnum.
      if kwnum \<ge> 0 then keyword_token cfg kwnum (if question then yyless p (yylength lx - 1) lx else lx)
      else ident_token cfg word p lx))"

section \<open>The loop\<close>

definition act_eof :: "scan_config \<Rightarrow> bytes \<Rightarrow> nat \<Rightarrow> lexer \<Rightarrow> step res" where
  "act_eof cfg buf p lx =
     (case yystart lx of
        INITIAL \<Rightarrow> Inr (Token 0 (set_yylloc p lx))
      | xc \<Rightarrow> yyerror ''unterminated /* comment'' buf lx
      | xb \<Rightarrow> yyerror ''unterminated bit string literal'' buf lx
      | xh \<Rightarrow> yyerror ''unterminated hexadecimal string literal'' buf lx
      | xqs \<Rightarrow> quote_end cfg buf p lx
      | xeu \<Rightarrow> invalid_surrogate buf (set_yylloc p lx)
      | xdolq \<Rightarrow> yyerror ''unterminated dollar-quoted string'' buf lx
      | xd \<Rightarrow> yyerror ''unterminated quoted identifier'' buf lx
      | xui \<Rightarrow> yyerror ''unterminated quoted identifier'' buf lx
      | _ \<Rightarrow> yyerror ''unterminated quoted string'' buf lx)"

definition do_action :: "scan_config \<Rightarrow> bytes \<Rightarrow> nat \<Rightarrow> nat \<Rightarrow> lexer \<Rightarrow> step res" where
  "do_action cfg buf r p lx =
     (if r \<le> 8 then act_comment r p lx
      else if r \<le> 13 then act_bits cfg buf r p lx
      else if r \<le> 16 then act_quote_start cfg r p lx
      else if r \<le> 20 then act_quote_stop cfg buf r p lx
      else if r \<le> 32 then act_string cfg buf r p lx
      else if r \<le> 38 then act_dolq buf r p lx
      else if r \<le> 45 then act_ident cfg buf r p lx
      else if r \<le> 55 then act_fixed buf r p lx
      else if r = 56 then act_operator buf p lx
      else if r \<le> 63 then act_number buf r p lx
      else if r = 64 then act_word cfg buf p lx
      else if r = 65 then bindE (at (yytext buf p lx @ [0]) 0) (\<lambda>c. Inr (Token (char_token c) (set_yylloc p lx)))
      else Inl (Elog ''flex scanner jammed''))"

definition scan_step :: "dfa \<Rightarrow> scan_config \<Rightarrow> bytes \<Rightarrow> lexer \<Rightarrow> step res" where
  "scan_step dfa cfg buf lx =
     (case dfa (yystart lx) buf (yypos lx) of
        Eof \<Rightarrow> act_eof cfg buf (yypos lx) (lx\<lparr>yylength := 0\<rparr>)
      | Rule r n \<Rightarrow> do_action cfg buf r (yypos lx) (lx\<lparr>yypos := yypos lx + n, yylength := n\<rparr>))"

partial_function (option) core_yylex_run :: "dfa \<Rightarrow> scan_config \<Rightarrow> bytes \<Rightarrow> lexer \<Rightarrow> (int \<times> lexer) res option" where
  "core_yylex_run dfa cfg buf lx =
     (case scan_step dfa cfg buf lx of
        Inl e \<Rightarrow> Some (Inl e)
      | Inr (Token t lx) \<Rightarrow> Some (Inr (t, lx))
      | Inr (Again lx) \<Rightarrow> core_yylex_run dfa cfg buf lx)"

declare core_yylex_run.simps [code]

end
