(* ===== verification/Flex_Table.thy ===== *)
theory Flex_Table
  imports Main
begin

text \<open>
  The transition table of the scanner, \<^verbatim>\<open>yy_transition\<close> in \<^verbatim>\<open>src_backend_parser_scan.c\<close>, as flex has
  generated it: pairs of \<^verbatim>\<open>yy_verify\<close> and \<^verbatim>\<open>yy_nxt\<close>, a hundred per definition and five per line like
  in the source. The array is declared with 254 entries more than its initializer has; they are zero.
\<close>

type_synonym yy_trans_info = "int \<times> int"

definition yy_transition_0 :: "yy_trans_info list" where
  "yy_transition_0 = [
     (0, 0), (0, 17422), (0, 0), (0, 17420), (1, 6192),
     (2, 6192), (3, 6192), (4, 6192), (5, 6192), (6, 6192),
     (7, 6192), (8, 6192), (9, 6194), (10, 6199), (11, 6192),
     (12, 6194), (13, 6194), (14, 6192), (15, 6192), (16, 6192),
     (17, 6192), (18, 6192), (19, 6192), (20, 6192), (21, 6192),
     (22, 6192), (23, 6192), (24, 6192), (25, 6192), (26, 6192),
     (27, 6192), (28, 6192), (29, 6192), (30, 6192), (31, 6192),
     (32, 6194), (33, 6201), (34, 6196), (35, 6241), (36, 6307),
     (37, 6564), (38, 6241), (39, 6214), (40, 6216), (41, 6216),
     (42, 6564), (43, 6564), (44, 6216), (45, 6575), (46, 6594),
     (47, 6665), (48, 6667), (49, 6667), (50, 6667), (51, 6667),
     (52, 6667), (53, 6667), (54, 6667), (55, 6667), (56, 6667),
     (57, 6667), (58, 6219), (59, 6216), (60, 6732), (61, 6743),
     (62, 6810), (63, 6564), (64, 6241), (65, 6842), (66, 7099),
     (67, 6842), (68, 6842), (69, 7356), (70, 6842), (71, 6842),
     (72, 6842), (73, 6842), (74, 6842), (75, 6842), (76, 6842),
     (77, 6842), (78, 7613), (79, 6842), (80, 6842), (81, 6842),
     (82, 6842), (83, 6842), (84, 6842), (85, 7870), (86, 6842),
     (87, 6842), (88, 8127), (89, 6842), (90, 6842), (91, 6216),
     (92, 6192), (93, 6216), (94, 6564), (95, 6842), (96, 6241)]"

definition yy_transition_1 :: "yy_trans_info list" where
  "yy_transition_1 = [
     (97, 6842), (98, 7099), (99, 6842), (100, 6842), (101, 7356),
     (102, 6842), (103, 6842), (104, 6842), (105, 6842), (106, 6842),
     (107, 6842), (108, 6842), (109, 6842), (110, 7613), (111, 6842),
     (112, 6842), (113, 6842), (114, 6842), (115, 6842), (116, 6842),
     (117, 7870), (118, 6842), (119, 6842), (120, 8127), (121, 6842),
     (122, 6842), (123, 6192), (124, 6241), (125, 6192), (126, 6241),
     (127, 6192), (128, 6842), (129, 6842), (130, 6842), (131, 6842),
     (132, 6842), (133, 6842), (134, 6842), (135, 6842), (136, 6842),
     (137, 6842), (138, 6842), (139, 6842), (140, 6842), (141, 6842),
     (142, 6842), (143, 6842), (144, 6842), (145, 6842), (146, 6842),
     (147, 6842), (148, 6842), (149, 6842), (150, 6842), (151, 6842),
     (152, 6842), (153, 6842), (154, 6842), (155, 6842), (156, 6842),
     (157, 6842), (158, 6842), (159, 6842), (160, 6842), (161, 6842),
     (162, 6842), (163, 6842), (164, 6842), (165, 6842), (166, 6842),
     (167, 6842), (168, 6842), (169, 6842), (170, 6842), (171, 6842),
     (172, 6842), (173, 6842), (174, 6842), (175, 6842), (176, 6842),
     (177, 6842), (178, 6842), (179, 6842), (180, 6842), (181, 6842),
     (182, 6842), (183, 6842), (184, 6842), (185, 6842), (186, 6842),
     (187, 6842), (188, 6842), (189, 6842), (190, 6842), (191, 6842),
     (192, 6842), (193, 6842), (194, 6842), (195, 6842), (196, 6842)]"

definition yy_transition_2 :: "yy_trans_info list" where
  "yy_transition_2 = [
     (197, 6842), (198, 6842), (199, 6842), (200, 6842), (201, 6842),
     (202, 6842), (203, 6842), (204, 6842), (205, 6842), (206, 6842),
     (207, 6842), (208, 6842), (209, 6842), (210, 6842), (211, 6842),
     (212, 6842), (213, 6842), (214, 6842), (215, 6842), (216, 6842),
     (217, 6842), (218, 6842), (219, 6842), (220, 6842), (221, 6842),
     (222, 6842), (223, 6842), (224, 6842), (225, 6842), (226, 6842),
     (227, 6842), (228, 6842), (229, 6842), (230, 6842), (231, 6842),
     (232, 6842), (233, 6842), (234, 6842), (235, 6842), (236, 6842),
     (237, 6842), (238, 6842), (239, 6842), (240, 6842), (241, 6842),
     (242, 6842), (243, 6842), (244, 6842), (245, 6842), (246, 6842),
     (247, 6842), (248, 6842), (249, 6842), (250, 6842), (251, 6842),
     (252, 6842), (253, 6842), (254, 6842), (255, 6842), (256, 6192),
     (0, 0), (0, 17162), (1, 5934), (2, 5934), (3, 5934),
     (4, 5934), (5, 5934), (6, 5934), (7, 5934), (8, 5934),
     (9, 5936), (10, 5941), (11, 5934), (12, 5936), (13, 5936),
     (14, 5934), (15, 5934), (16, 5934), (17, 5934), (18, 5934),
     (19, 5934), (20, 5934), (21, 5934), (22, 5934), (23, 5934),
     (24, 5934), (25, 5934), (26, 5934), (27, 5934), (28, 5934),
     (29, 5934), (30, 5934), (31, 5934), (32, 5936), (33, 5943),
     (34, 5938), (35, 5983), (36, 6049), (37, 6306), (38, 5983)]"

definition yy_transition_3 :: "yy_trans_info list" where
  "yy_transition_3 = [
     (39, 5956), (40, 5958), (41, 5958), (42, 6306), (43, 6306),
     (44, 5958), (45, 6317), (46, 6336), (47, 6407), (48, 6409),
     (49, 6409), (50, 6409), (51, 6409), (52, 6409), (53, 6409),
     (54, 6409), (55, 6409), (56, 6409), (57, 6409), (58, 5961),
     (59, 5958), (60, 6474), (61, 6485), (62, 6552), (63, 6306),
     (64, 5983), (65, 6584), (66, 6841), (67, 6584), (68, 6584),
     (69, 7098), (70, 6584), (71, 6584), (72, 6584), (73, 6584),
     (74, 6584), (75, 6584), (76, 6584), (77, 6584), (78, 7355),
     (79, 6584), (80, 6584), (81, 6584), (82, 6584), (83, 6584),
     (84, 6584), (85, 7612), (86, 6584), (87, 6584), (88, 7869),
     (89, 6584), (90, 6584), (91, 5958), (92, 5934), (93, 5958),
     (94, 6306), (95, 6584), (96, 5983), (97, 6584), (98, 6841),
     (99, 6584), (100, 6584), (101, 7098), (102, 6584), (103, 6584),
     (104, 6584), (105, 6584), (106, 6584), (107, 6584), (108, 6584),
     (109, 6584), (110, 7355), (111, 6584), (112, 6584), (113, 6584),
     (114, 6584), (115, 6584), (116, 6584), (117, 7612), (118, 6584),
     (119, 6584), (120, 7869), (121, 6584), (122, 6584), (123, 5934),
     (124, 5983), (125, 5934), (126, 5983), (127, 5934), (128, 6584),
     (129, 6584), (130, 6584), (131, 6584), (132, 6584), (133, 6584),
     (134, 6584), (135, 6584), (136, 6584), (137, 6584), (138, 6584)]"

definition yy_transition_4 :: "yy_trans_info list" where
  "yy_transition_4 = [
     (139, 6584), (140, 6584), (141, 6584), (142, 6584), (143, 6584),
     (144, 6584), (145, 6584), (146, 6584), (147, 6584), (148, 6584),
     (149, 6584), (150, 6584), (151, 6584), (152, 6584), (153, 6584),
     (154, 6584), (155, 6584), (156, 6584), (157, 6584), (158, 6584),
     (159, 6584), (160, 6584), (161, 6584), (162, 6584), (163, 6584),
     (164, 6584), (165, 6584), (166, 6584), (167, 6584), (168, 6584),
     (169, 6584), (170, 6584), (171, 6584), (172, 6584), (173, 6584),
     (174, 6584), (175, 6584), (176, 6584), (177, 6584), (178, 6584),
     (179, 6584), (180, 6584), (181, 6584), (182, 6584), (183, 6584),
     (184, 6584), (185, 6584), (186, 6584), (187, 6584), (188, 6584),
     (189, 6584), (190, 6584), (191, 6584), (192, 6584), (193, 6584),
     (194, 6584), (195, 6584), (196, 6584), (197, 6584), (198, 6584),
     (199, 6584), (200, 6584), (201, 6584), (202, 6584), (203, 6584),
     (204, 6584), (205, 6584), (206, 6584), (207, 6584), (208, 6584),
     (209, 6584), (210, 6584), (211, 6584), (212, 6584), (213, 6584),
     (214, 6584), (215, 6584), (216, 6584), (217, 6584), (218, 6584),
     (219, 6584), (220, 6584), (221, 6584), (222, 6584), (223, 6584),
     (224, 6584), (225, 6584), (226, 6584), (227, 6584), (228, 6584),
     (229, 6584), (230, 6584), (231, 6584), (232, 6584), (233, 6584),
     (234, 6584), (235, 6584), (236, 6584), (237, 6584), (238, 6584)]"

definition yy_transition_5 :: "yy_trans_info list" where
  "yy_transition_5 = [
     (239, 6584), (240, 6584), (241, 6584), (242, 6584), (243, 6584),
     (244, 6584), (245, 6584), (246, 6584), (247, 6584), (248, 6584),
     (249, 6584), (250, 6584), (251, 6584), (252, 6584), (253, 6584),
     (254, 6584), (255, 6584), (256, 5934), (0, 11), (0, 16904),
     (1, 7868), (2, 7868), (3, 7868), (4, 7868), (5, 7868),
     (6, 7868), (7, 7868), (8, 7868), (9, 7868), (10, 7868),
     (11, 7868), (12, 7868), (13, 7868), (14, 7868), (15, 7868),
     (16, 7868), (17, 7868), (18, 7868), (19, 7868), (20, 7868),
     (21, 7868), (22, 7868), (23, 7868), (24, 7868), (25, 7868),
     (26, 7868), (27, 7868), (28, 7868), (29, 7868), (30, 7868),
     (31, 7868), (32, 7868), (33, 7868), (34, 7868), (35, 7868),
     (36, 7868), (37, 7868), (38, 7868), (39, 5705), (40, 7868),
     (41, 7868), (42, 7868), (43, 7868), (44, 7868), (45, 7868),
     (46, 7868), (47, 7868), (48, 7868), (49, 7868), (50, 7868),
     (51, 7868), (52, 7868), (53, 7868), (54, 7868), (55, 7868),
     (56, 7868), (57, 7868), (58, 7868), (59, 7868), (60, 7868),
     (61, 7868), (62, 7868), (63, 7868), (64, 7868), (65, 7868),
     (66, 7868), (67, 7868), (68, 7868), (69, 7868), (70, 7868),
     (71, 7868), (72, 7868), (73, 7868), (74, 7868), (75, 7868),
     (76, 7868), (77, 7868), (78, 7868), (79, 7868), (80, 7868)]"

definition yy_transition_6 :: "yy_trans_info list" where
  "yy_transition_6 = [
     (81, 7868), (82, 7868), (83, 7868), (84, 7868), (85, 7868),
     (86, 7868), (87, 7868), (88, 7868), (89, 7868), (90, 7868),
     (91, 7868), (92, 7868), (93, 7868), (94, 7868), (95, 7868),
     (96, 7868), (97, 7868), (98, 7868), (99, 7868), (100, 7868),
     (101, 7868), (102, 7868), (103, 7868), (104, 7868), (105, 7868),
     (106, 7868), (107, 7868), (108, 7868), (109, 7868), (110, 7868),
     (111, 7868), (112, 7868), (113, 7868), (114, 7868), (115, 7868),
     (116, 7868), (117, 7868), (118, 7868), (119, 7868), (120, 7868),
     (121, 7868), (122, 7868), (123, 7868), (124, 7868), (125, 7868),
     (126, 7868), (127, 7868), (128, 7868), (129, 7868), (130, 7868),
     (131, 7868), (132, 7868), (133, 7868), (134, 7868), (135, 7868),
     (136, 7868), (137, 7868), (138, 7868), (139, 7868), (140, 7868),
     (141, 7868), (142, 7868), (143, 7868), (144, 7868), (145, 7868),
     (146, 7868), (147, 7868), (148, 7868), (149, 7868), (150, 7868),
     (151, 7868), (152, 7868), (153, 7868), (154, 7868), (155, 7868),
     (156, 7868), (157, 7868), (158, 7868), (159, 7868), (160, 7868),
     (161, 7868), (162, 7868), (163, 7868), (164, 7868), (165, 7868),
     (166, 7868), (167, 7868), (168, 7868), (169, 7868), (170, 7868),
     (171, 7868), (172, 7868), (173, 7868), (174, 7868), (175, 7868),
     (176, 7868), (177, 7868), (178, 7868), (179, 7868), (180, 7868)]"

definition yy_transition_7 :: "yy_trans_info list" where
  "yy_transition_7 = [
     (181, 7868), (182, 7868), (183, 7868), (184, 7868), (185, 7868),
     (186, 7868), (187, 7868), (188, 7868), (189, 7868), (190, 7868),
     (191, 7868), (192, 7868), (193, 7868), (194, 7868), (195, 7868),
     (196, 7868), (197, 7868), (198, 7868), (199, 7868), (200, 7868),
     (201, 7868), (202, 7868), (203, 7868), (204, 7868), (205, 7868),
     (206, 7868), (207, 7868), (208, 7868), (209, 7868), (210, 7868),
     (211, 7868), (212, 7868), (213, 7868), (214, 7868), (215, 7868),
     (216, 7868), (217, 7868), (218, 7868), (219, 7868), (220, 7868),
     (221, 7868), (222, 7868), (223, 7868), (224, 7868), (225, 7868),
     (226, 7868), (227, 7868), (228, 7868), (229, 7868), (230, 7868),
     (231, 7868), (232, 7868), (233, 7868), (234, 7868), (235, 7868),
     (236, 7868), (237, 7868), (238, 7868), (239, 7868), (240, 7868),
     (241, 7868), (242, 7868), (243, 7868), (244, 7868), (245, 7868),
     (246, 7868), (247, 7868), (248, 7868), (249, 7868), (250, 7868),
     (251, 7868), (252, 7868), (253, 7868), (254, 7868), (255, 7868),
     (256, 7868), (0, 11), (0, 16646), (1, 7610), (2, 7610),
     (3, 7610), (4, 7610), (5, 7610), (6, 7610), (7, 7610),
     (8, 7610), (9, 7610), (10, 7610), (11, 7610), (12, 7610),
     (13, 7610), (14, 7610), (15, 7610), (16, 7610), (17, 7610),
     (18, 7610), (19, 7610), (20, 7610), (21, 7610), (22, 7610)]"

definition yy_transition_8 :: "yy_trans_info list" where
  "yy_transition_8 = [
     (23, 7610), (24, 7610), (25, 7610), (26, 7610), (27, 7610),
     (28, 7610), (29, 7610), (30, 7610), (31, 7610), (32, 7610),
     (33, 7610), (34, 7610), (35, 7610), (36, 7610), (37, 7610),
     (38, 7610), (39, 5447), (40, 7610), (41, 7610), (42, 7610),
     (43, 7610), (44, 7610), (45, 7610), (46, 7610), (47, 7610),
     (48, 7610), (49, 7610), (50, 7610), (51, 7610), (52, 7610),
     (53, 7610), (54, 7610), (55, 7610), (56, 7610), (57, 7610),
     (58, 7610), (59, 7610), (60, 7610), (61, 7610), (62, 7610),
     (63, 7610), (64, 7610), (65, 7610), (66, 7610), (67, 7610),
     (68, 7610), (69, 7610), (70, 7610), (71, 7610), (72, 7610),
     (73, 7610), (74, 7610), (75, 7610), (76, 7610), (77, 7610),
     (78, 7610), (79, 7610), (80, 7610), (81, 7610), (82, 7610),
     (83, 7610), (84, 7610), (85, 7610), (86, 7610), (87, 7610),
     (88, 7610), (89, 7610), (90, 7610), (91, 7610), (92, 7610),
     (93, 7610), (94, 7610), (95, 7610), (96, 7610), (97, 7610),
     (98, 7610), (99, 7610), (100, 7610), (101, 7610), (102, 7610),
     (103, 7610), (104, 7610), (105, 7610), (106, 7610), (107, 7610),
     (108, 7610), (109, 7610), (110, 7610), (111, 7610), (112, 7610),
     (113, 7610), (114, 7610), (115, 7610), (116, 7610), (117, 7610),
     (118, 7610), (119, 7610), (120, 7610), (121, 7610), (122, 7610)]"

definition yy_transition_9 :: "yy_trans_info list" where
  "yy_transition_9 = [
     (123, 7610), (124, 7610), (125, 7610), (126, 7610), (127, 7610),
     (128, 7610), (129, 7610), (130, 7610), (131, 7610), (132, 7610),
     (133, 7610), (134, 7610), (135, 7610), (136, 7610), (137, 7610),
     (138, 7610), (139, 7610), (140, 7610), (141, 7610), (142, 7610),
     (143, 7610), (144, 7610), (145, 7610), (146, 7610), (147, 7610),
     (148, 7610), (149, 7610), (150, 7610), (151, 7610), (152, 7610),
     (153, 7610), (154, 7610), (155, 7610), (156, 7610), (157, 7610),
     (158, 7610), (159, 7610), (160, 7610), (161, 7610), (162, 7610),
     (163, 7610), (164, 7610), (165, 7610), (166, 7610), (167, 7610),
     (168, 7610), (169, 7610), (170, 7610), (171, 7610), (172, 7610),
     (173, 7610), (174, 7610), (175, 7610), (176, 7610), (177, 7610),
     (178, 7610), (179, 7610), (180, 7610), (181, 7610), (182, 7610),
     (183, 7610), (184, 7610), (185, 7610), (186, 7610), (187, 7610),
     (188, 7610), (189, 7610), (190, 7610), (191, 7610), (192, 7610),
     (193, 7610), (194, 7610), (195, 7610), (196, 7610), (197, 7610),
     (198, 7610), (199, 7610), (200, 7610), (201, 7610), (202, 7610),
     (203, 7610), (204, 7610), (205, 7610), (206, 7610), (207, 7610),
     (208, 7610), (209, 7610), (210, 7610), (211, 7610), (212, 7610),
     (213, 7610), (214, 7610), (215, 7610), (216, 7610), (217, 7610),
     (218, 7610), (219, 7610), (220, 7610), (221, 7610), (222, 7610)]"

definition yy_transition_10 :: "yy_trans_info list" where
  "yy_transition_10 = [
     (223, 7610), (224, 7610), (225, 7610), (226, 7610), (227, 7610),
     (228, 7610), (229, 7610), (230, 7610), (231, 7610), (232, 7610),
     (233, 7610), (234, 7610), (235, 7610), (236, 7610), (237, 7610),
     (238, 7610), (239, 7610), (240, 7610), (241, 7610), (242, 7610),
     (243, 7610), (244, 7610), (245, 7610), (246, 7610), (247, 7610),
     (248, 7610), (249, 7610), (250, 7610), (251, 7610), (252, 7610),
     (253, 7610), (254, 7610), (255, 7610), (256, 7610), (0, 0),
     (0, 16388), (1, 7610), (2, 7610), (3, 7610), (4, 7610),
     (5, 7610), (6, 7610), (7, 7610), (8, 7610), (9, 7610),
     (10, 7610), (11, 7610), (12, 7610), (13, 7610), (14, 7610),
     (15, 7610), (16, 7610), (17, 7610), (18, 7610), (19, 7610),
     (20, 7610), (21, 7610), (22, 7610), (23, 7610), (24, 7610),
     (25, 7610), (26, 7610), (27, 7610), (28, 7610), (29, 7610),
     (30, 7610), (31, 7610), (32, 7610), (33, 7868), (34, 7610),
     (35, 7868), (36, 7610), (37, 7868), (38, 7868), (39, 7610),
     (40, 7610), (41, 7610), (42, 5192), (43, 7868), (44, 7610),
     (45, 7868), (46, 7610), (47, 5196), (48, 7610), (49, 7610),
     (50, 7610), (51, 7610), (52, 7610), (53, 7610), (54, 7610),
     (55, 7610), (56, 7610), (57, 7610), (58, 7610), (59, 7610),
     (60, 7868), (61, 7868), (62, 7868), (63, 7868), (64, 7868)]"

definition yy_transition_11 :: "yy_trans_info list" where
  "yy_transition_11 = [
     (65, 7610), (66, 7610), (67, 7610), (68, 7610), (69, 7610),
     (70, 7610), (71, 7610), (72, 7610), (73, 7610), (74, 7610),
     (75, 7610), (76, 7610), (77, 7610), (78, 7610), (79, 7610),
     (80, 7610), (81, 7610), (82, 7610), (83, 7610), (84, 7610),
     (85, 7610), (86, 7610), (87, 7610), (88, 7610), (89, 7610),
     (90, 7610), (91, 7610), (92, 7610), (93, 7610), (94, 7868),
     (95, 7610), (96, 7868), (97, 7610), (98, 7610), (99, 7610),
     (100, 7610), (101, 7610), (102, 7610), (103, 7610), (104, 7610),
     (105, 7610), (106, 7610), (107, 7610), (108, 7610), (109, 7610),
     (110, 7610), (111, 7610), (112, 7610), (113, 7610), (114, 7610),
     (115, 7610), (116, 7610), (117, 7610), (118, 7610), (119, 7610),
     (120, 7610), (121, 7610), (122, 7610), (123, 7610), (124, 7868),
     (125, 7610), (126, 7868), (127, 7610), (128, 7610), (129, 7610),
     (130, 7610), (131, 7610), (132, 7610), (133, 7610), (134, 7610),
     (135, 7610), (136, 7610), (137, 7610), (138, 7610), (139, 7610),
     (140, 7610), (141, 7610), (142, 7610), (143, 7610), (144, 7610),
     (145, 7610), (146, 7610), (147, 7610), (148, 7610), (149, 7610),
     (150, 7610), (151, 7610), (152, 7610), (153, 7610), (154, 7610),
     (155, 7610), (156, 7610), (157, 7610), (158, 7610), (159, 7610),
     (160, 7610), (161, 7610), (162, 7610), (163, 7610), (164, 7610)]"

definition yy_transition_12 :: "yy_trans_info list" where
  "yy_transition_12 = [
     (165, 7610), (166, 7610), (167, 7610), (168, 7610), (169, 7610),
     (170, 7610), (171, 7610), (172, 7610), (173, 7610), (174, 7610),
     (175, 7610), (176, 7610), (177, 7610), (178, 7610), (179, 7610),
     (180, 7610), (181, 7610), (182, 7610), (183, 7610), (184, 7610),
     (185, 7610), (186, 7610), (187, 7610), (188, 7610), (189, 7610),
     (190, 7610), (191, 7610), (192, 7610), (193, 7610), (194, 7610),
     (195, 7610), (196, 7610), (197, 7610), (198, 7610), (199, 7610),
     (200, 7610), (201, 7610), (202, 7610), (203, 7610), (204, 7610),
     (205, 7610), (206, 7610), (207, 7610), (208, 7610), (209, 7610),
     (210, 7610), (211, 7610), (212, 7610), (213, 7610), (214, 7610),
     (215, 7610), (216, 7610), (217, 7610), (218, 7610), (219, 7610),
     (220, 7610), (221, 7610), (222, 7610), (223, 7610), (224, 7610),
     (225, 7610), (226, 7610), (227, 7610), (228, 7610), (229, 7610),
     (230, 7610), (231, 7610), (232, 7610), (233, 7610), (234, 7610),
     (235, 7610), (236, 7610), (237, 7610), (238, 7610), (239, 7610),
     (240, 7610), (241, 7610), (242, 7610), (243, 7610), (244, 7610),
     (245, 7610), (246, 7610), (247, 7610), (248, 7610), (249, 7610),
     (250, 7610), (251, 7610), (252, 7610), (253, 7610), (254, 7610),
     (255, 7610), (256, 7610), (0, 0), (0, 16130), (1, 7352),
     (2, 7352), (3, 7352), (4, 7352), (5, 7352), (6, 7352)]"

definition yy_transition_13 :: "yy_trans_info list" where
  "yy_transition_13 = [
     (7, 7352), (8, 7352), (9, 7352), (10, 7352), (11, 7352),
     (12, 7352), (13, 7352), (14, 7352), (15, 7352), (16, 7352),
     (17, 7352), (18, 7352), (19, 7352), (20, 7352), (21, 7352),
     (22, 7352), (23, 7352), (24, 7352), (25, 7352), (26, 7352),
     (27, 7352), (28, 7352), (29, 7352), (30, 7352), (31, 7352),
     (32, 7352), (33, 7610), (34, 7352), (35, 7610), (36, 7352),
     (37, 7610), (38, 7610), (39, 7352), (40, 7352), (41, 7352),
     (42, 4934), (43, 7610), (44, 7352), (45, 7610), (46, 7352),
     (47, 4938), (48, 7352), (49, 7352), (50, 7352), (51, 7352),
     (52, 7352), (53, 7352), (54, 7352), (55, 7352), (56, 7352),
     (57, 7352), (58, 7352), (59, 7352), (60, 7610), (61, 7610),
     (62, 7610), (63, 7610), (64, 7610), (65, 7352), (66, 7352),
     (67, 7352), (68, 7352), (69, 7352), (70, 7352), (71, 7352),
     (72, 7352), (73, 7352), (74, 7352), (75, 7352), (76, 7352),
     (77, 7352), (78, 7352), (79, 7352), (80, 7352), (81, 7352),
     (82, 7352), (83, 7352), (84, 7352), (85, 7352), (86, 7352),
     (87, 7352), (88, 7352), (89, 7352), (90, 7352), (91, 7352),
     (92, 7352), (93, 7352), (94, 7610), (95, 7352), (96, 7610),
     (97, 7352), (98, 7352), (99, 7352), (100, 7352), (101, 7352),
     (102, 7352), (103, 7352), (104, 7352), (105, 7352), (106, 7352)]"

definition yy_transition_14 :: "yy_trans_info list" where
  "yy_transition_14 = [
     (107, 7352), (108, 7352), (109, 7352), (110, 7352), (111, 7352),
     (112, 7352), (113, 7352), (114, 7352), (115, 7352), (116, 7352),
     (117, 7352), (118, 7352), (119, 7352), (120, 7352), (121, 7352),
     (122, 7352), (123, 7352), (124, 7610), (125, 7352), (126, 7610),
     (127, 7352), (128, 7352), (129, 7352), (130, 7352), (131, 7352),
     (132, 7352), (133, 7352), (134, 7352), (135, 7352), (136, 7352),
     (137, 7352), (138, 7352), (139, 7352), (140, 7352), (141, 7352),
     (142, 7352), (143, 7352), (144, 7352), (145, 7352), (146, 7352),
     (147, 7352), (148, 7352), (149, 7352), (150, 7352), (151, 7352),
     (152, 7352), (153, 7352), (154, 7352), (155, 7352), (156, 7352),
     (157, 7352), (158, 7352), (159, 7352), (160, 7352), (161, 7352),
     (162, 7352), (163, 7352), (164, 7352), (165, 7352), (166, 7352),
     (167, 7352), (168, 7352), (169, 7352), (170, 7352), (171, 7352),
     (172, 7352), (173, 7352), (174, 7352), (175, 7352), (176, 7352),
     (177, 7352), (178, 7352), (179, 7352), (180, 7352), (181, 7352),
     (182, 7352), (183, 7352), (184, 7352), (185, 7352), (186, 7352),
     (187, 7352), (188, 7352), (189, 7352), (190, 7352), (191, 7352),
     (192, 7352), (193, 7352), (194, 7352), (195, 7352), (196, 7352),
     (197, 7352), (198, 7352), (199, 7352), (200, 7352), (201, 7352),
     (202, 7352), (203, 7352), (204, 7352), (205, 7352), (206, 7352)]"

definition yy_transition_15 :: "yy_trans_info list" where
  "yy_transition_15 = [
     (207, 7352), (208, 7352), (209, 7352), (210, 7352), (211, 7352),
     (212, 7352), (213, 7352), (214, 7352), (215, 7352), (216, 7352),
     (217, 7352), (218, 7352), (219, 7352), (220, 7352), (221, 7352),
     (222, 7352), (223, 7352), (224, 7352), (225, 7352), (226, 7352),
     (227, 7352), (228, 7352), (229, 7352), (230, 7352), (231, 7352),
     (232, 7352), (233, 7352), (234, 7352), (235, 7352), (236, 7352),
     (237, 7352), (238, 7352), (239, 7352), (240, 7352), (241, 7352),
     (242, 7352), (243, 7352), (244, 7352), (245, 7352), (246, 7352),
     (247, 7352), (248, 7352), (249, 7352), (250, 7352), (251, 7352),
     (252, 7352), (253, 7352), (254, 7352), (255, 7352), (256, 7352),
     (0, 0), (0, 15872), (1, 7610), (2, 7610), (3, 7610),
     (4, 7610), (5, 7610), (6, 7610), (7, 7610), (8, 7610),
     (9, 7610), (10, 7610), (11, 7610), (12, 7610), (13, 7610),
     (14, 7610), (15, 7610), (16, 7610), (17, 7610), (18, 7610),
     (19, 7610), (20, 7610), (21, 7610), (22, 7610), (23, 7610),
     (24, 7610), (25, 7610), (26, 7610), (27, 7610), (28, 7610),
     (29, 7610), (30, 7610), (31, 7610), (32, 7610), (33, 7610),
     (34, 4685), (35, 7610), (36, 7610), (37, 7610), (38, 7610),
     (39, 7610), (40, 7610), (41, 7610), (42, 7610), (43, 7610),
     (44, 7610), (45, 7610), (46, 7610), (47, 7610), (48, 7610)]"

definition yy_transition_16 :: "yy_trans_info list" where
  "yy_transition_16 = [
     (49, 7610), (50, 7610), (51, 7610), (52, 7610), (53, 7610),
     (54, 7610), (55, 7610), (56, 7610), (57, 7610), (58, 7610),
     (59, 7610), (60, 7610), (61, 7610), (62, 7610), (63, 7610),
     (64, 7610), (65, 7610), (66, 7610), (67, 7610), (68, 7610),
     (69, 7610), (70, 7610), (71, 7610), (72, 7610), (73, 7610),
     (74, 7610), (75, 7610), (76, 7610), (77, 7610), (78, 7610),
     (79, 7610), (80, 7610), (81, 7610), (82, 7610), (83, 7610),
     (84, 7610), (85, 7610), (86, 7610), (87, 7610), (88, 7610),
     (89, 7610), (90, 7610), (91, 7610), (92, 7610), (93, 7610),
     (94, 7610), (95, 7610), (96, 7610), (97, 7610), (98, 7610),
     (99, 7610), (100, 7610), (101, 7610), (102, 7610), (103, 7610),
     (104, 7610), (105, 7610), (106, 7610), (107, 7610), (108, 7610),
     (109, 7610), (110, 7610), (111, 7610), (112, 7610), (113, 7610),
     (114, 7610), (115, 7610), (116, 7610), (117, 7610), (118, 7610),
     (119, 7610), (120, 7610), (121, 7610), (122, 7610), (123, 7610),
     (124, 7610), (125, 7610), (126, 7610), (127, 7610), (128, 7610),
     (129, 7610), (130, 7610), (131, 7610), (132, 7610), (133, 7610),
     (134, 7610), (135, 7610), (136, 7610), (137, 7610), (138, 7610),
     (139, 7610), (140, 7610), (141, 7610), (142, 7610), (143, 7610),
     (144, 7610), (145, 7610), (146, 7610), (147, 7610), (148, 7610)]"

definition yy_transition_17 :: "yy_trans_info list" where
  "yy_transition_17 = [
     (149, 7610), (150, 7610), (151, 7610), (152, 7610), (153, 7610),
     (154, 7610), (155, 7610), (156, 7610), (157, 7610), (158, 7610),
     (159, 7610), (160, 7610), (161, 7610), (162, 7610), (163, 7610),
     (164, 7610), (165, 7610), (166, 7610), (167, 7610), (168, 7610),
     (169, 7610), (170, 7610), (171, 7610), (172, 7610), (173, 7610),
     (174, 7610), (175, 7610), (176, 7610), (177, 7610), (178, 7610),
     (179, 7610), (180, 7610), (181, 7610), (182, 7610), (183, 7610),
     (184, 7610), (185, 7610), (186, 7610), (187, 7610), (188, 7610),
     (189, 7610), (190, 7610), (191, 7610), (192, 7610), (193, 7610),
     (194, 7610), (195, 7610), (196, 7610), (197, 7610), (198, 7610),
     (199, 7610), (200, 7610), (201, 7610), (202, 7610), (203, 7610),
     (204, 7610), (205, 7610), (206, 7610), (207, 7610), (208, 7610),
     (209, 7610), (210, 7610), (211, 7610), (212, 7610), (213, 7610),
     (214, 7610), (215, 7610), (216, 7610), (217, 7610), (218, 7610),
     (219, 7610), (220, 7610), (221, 7610), (222, 7610), (223, 7610),
     (224, 7610), (225, 7610), (226, 7610), (227, 7610), (228, 7610),
     (229, 7610), (230, 7610), (231, 7610), (232, 7610), (233, 7610),
     (234, 7610), (235, 7610), (236, 7610), (237, 7610), (238, 7610),
     (239, 7610), (240, 7610), (241, 7610), (242, 7610), (243, 7610),
     (244, 7610), (245, 7610), (246, 7610), (247, 7610), (248, 7610)]"

definition yy_transition_18 :: "yy_trans_info list" where
  "yy_transition_18 = [
     (249, 7610), (250, 7610), (251, 7610), (252, 7610), (253, 7610),
     (254, 7610), (255, 7610), (256, 7610), (0, 0), (0, 15614),
     (1, 7352), (2, 7352), (3, 7352), (4, 7352), (5, 7352),
     (6, 7352), (7, 7352), (8, 7352), (9, 7352), (10, 7352),
     (11, 7352), (12, 7352), (13, 7352), (14, 7352), (15, 7352),
     (16, 7352), (17, 7352), (18, 7352), (19, 7352), (20, 7352),
     (21, 7352), (22, 7352), (23, 7352), (24, 7352), (25, 7352),
     (26, 7352), (27, 7352), (28, 7352), (29, 7352), (30, 7352),
     (31, 7352), (32, 7352), (33, 7352), (34, 4427), (35, 7352),
     (36, 7352), (37, 7352), (38, 7352), (39, 7352), (40, 7352),
     (41, 7352), (42, 7352), (43, 7352), (44, 7352), (45, 7352),
     (46, 7352), (47, 7352), (48, 7352), (49, 7352), (50, 7352),
     (51, 7352), (52, 7352), (53, 7352), (54, 7352), (55, 7352),
     (56, 7352), (57, 7352), (58, 7352), (59, 7352), (60, 7352),
     (61, 7352), (62, 7352), (63, 7352), (64, 7352), (65, 7352),
     (66, 7352), (67, 7352), (68, 7352), (69, 7352), (70, 7352),
     (71, 7352), (72, 7352), (73, 7352), (74, 7352), (75, 7352),
     (76, 7352), (77, 7352), (78, 7352), (79, 7352), (80, 7352),
     (81, 7352), (82, 7352), (83, 7352), (84, 7352), (85, 7352),
     (86, 7352), (87, 7352), (88, 7352), (89, 7352), (90, 7352)]"

definition yy_transition_19 :: "yy_trans_info list" where
  "yy_transition_19 = [
     (91, 7352), (92, 7352), (93, 7352), (94, 7352), (95, 7352),
     (96, 7352), (97, 7352), (98, 7352), (99, 7352), (100, 7352),
     (101, 7352), (102, 7352), (103, 7352), (104, 7352), (105, 7352),
     (106, 7352), (107, 7352), (108, 7352), (109, 7352), (110, 7352),
     (111, 7352), (112, 7352), (113, 7352), (114, 7352), (115, 7352),
     (116, 7352), (117, 7352), (118, 7352), (119, 7352), (120, 7352),
     (121, 7352), (122, 7352), (123, 7352), (124, 7352), (125, 7352),
     (126, 7352), (127, 7352), (128, 7352), (129, 7352), (130, 7352),
     (131, 7352), (132, 7352), (133, 7352), (134, 7352), (135, 7352),
     (136, 7352), (137, 7352), (138, 7352), (139, 7352), (140, 7352),
     (141, 7352), (142, 7352), (143, 7352), (144, 7352), (145, 7352),
     (146, 7352), (147, 7352), (148, 7352), (149, 7352), (150, 7352),
     (151, 7352), (152, 7352), (153, 7352), (154, 7352), (155, 7352),
     (156, 7352), (157, 7352), (158, 7352), (159, 7352), (160, 7352),
     (161, 7352), (162, 7352), (163, 7352), (164, 7352), (165, 7352),
     (166, 7352), (167, 7352), (168, 7352), (169, 7352), (170, 7352),
     (171, 7352), (172, 7352), (173, 7352), (174, 7352), (175, 7352),
     (176, 7352), (177, 7352), (178, 7352), (179, 7352), (180, 7352),
     (181, 7352), (182, 7352), (183, 7352), (184, 7352), (185, 7352),
     (186, 7352), (187, 7352), (188, 7352), (189, 7352), (190, 7352)]"

definition yy_transition_20 :: "yy_trans_info list" where
  "yy_transition_20 = [
     (191, 7352), (192, 7352), (193, 7352), (194, 7352), (195, 7352),
     (196, 7352), (197, 7352), (198, 7352), (199, 7352), (200, 7352),
     (201, 7352), (202, 7352), (203, 7352), (204, 7352), (205, 7352),
     (206, 7352), (207, 7352), (208, 7352), (209, 7352), (210, 7352),
     (211, 7352), (212, 7352), (213, 7352), (214, 7352), (215, 7352),
     (216, 7352), (217, 7352), (218, 7352), (219, 7352), (220, 7352),
     (221, 7352), (222, 7352), (223, 7352), (224, 7352), (225, 7352),
     (226, 7352), (227, 7352), (228, 7352), (229, 7352), (230, 7352),
     (231, 7352), (232, 7352), (233, 7352), (234, 7352), (235, 7352),
     (236, 7352), (237, 7352), (238, 7352), (239, 7352), (240, 7352),
     (241, 7352), (242, 7352), (243, 7352), (244, 7352), (245, 7352),
     (246, 7352), (247, 7352), (248, 7352), (249, 7352), (250, 7352),
     (251, 7352), (252, 7352), (253, 7352), (254, 7352), (255, 7352),
     (256, 7352), (0, 10), (0, 15356), (1, 7352), (2, 7352),
     (3, 7352), (4, 7352), (5, 7352), (6, 7352), (7, 7352),
     (8, 7352), (9, 7352), (10, 7352), (11, 7352), (12, 7352),
     (13, 7352), (14, 7352), (15, 7352), (16, 7352), (17, 7352),
     (18, 7352), (19, 7352), (20, 7352), (21, 7352), (22, 7352),
     (23, 7352), (24, 7352), (25, 7352), (26, 7352), (27, 7352),
     (28, 7352), (29, 7352), (30, 7352), (31, 7352), (32, 7352)]"

definition yy_transition_21 :: "yy_trans_info list" where
  "yy_transition_21 = [
     (33, 7352), (34, 7352), (35, 7352), (36, 7352), (37, 7352),
     (38, 7352), (39, 4157), (40, 7352), (41, 7352), (42, 7352),
     (43, 7352), (44, 7352), (45, 7352), (46, 7352), (47, 7352),
     (48, 7352), (49, 7352), (50, 7352), (51, 7352), (52, 7352),
     (53, 7352), (54, 7352), (55, 7352), (56, 7352), (57, 7352),
     (58, 7352), (59, 7352), (60, 7352), (61, 7352), (62, 7352),
     (63, 7352), (64, 7352), (65, 7352), (66, 7352), (67, 7352),
     (68, 7352), (69, 7352), (70, 7352), (71, 7352), (72, 7352),
     (73, 7352), (74, 7352), (75, 7352), (76, 7352), (77, 7352),
     (78, 7352), (79, 7352), (80, 7352), (81, 7352), (82, 7352),
     (83, 7352), (84, 7352), (85, 7352), (86, 7352), (87, 7352),
     (88, 7352), (89, 7352), (90, 7352), (91, 7352), (92, 7352),
     (93, 7352), (94, 7352), (95, 7352), (96, 7352), (97, 7352),
     (98, 7352), (99, 7352), (100, 7352), (101, 7352), (102, 7352),
     (103, 7352), (104, 7352), (105, 7352), (106, 7352), (107, 7352),
     (108, 7352), (109, 7352), (110, 7352), (111, 7352), (112, 7352),
     (113, 7352), (114, 7352), (115, 7352), (116, 7352), (117, 7352),
     (118, 7352), (119, 7352), (120, 7352), (121, 7352), (122, 7352),
     (123, 7352), (124, 7352), (125, 7352), (126, 7352), (127, 7352),
     (128, 7352), (129, 7352), (130, 7352), (131, 7352), (132, 7352)]"

definition yy_transition_22 :: "yy_trans_info list" where
  "yy_transition_22 = [
     (133, 7352), (134, 7352), (135, 7352), (136, 7352), (137, 7352),
     (138, 7352), (139, 7352), (140, 7352), (141, 7352), (142, 7352),
     (143, 7352), (144, 7352), (145, 7352), (146, 7352), (147, 7352),
     (148, 7352), (149, 7352), (150, 7352), (151, 7352), (152, 7352),
     (153, 7352), (154, 7352), (155, 7352), (156, 7352), (157, 7352),
     (158, 7352), (159, 7352), (160, 7352), (161, 7352), (162, 7352),
     (163, 7352), (164, 7352), (165, 7352), (166, 7352), (167, 7352),
     (168, 7352), (169, 7352), (170, 7352), (171, 7352), (172, 7352),
     (173, 7352), (174, 7352), (175, 7352), (176, 7352), (177, 7352),
     (178, 7352), (179, 7352), (180, 7352), (181, 7352), (182, 7352),
     (183, 7352), (184, 7352), (185, 7352), (186, 7352), (187, 7352),
     (188, 7352), (189, 7352), (190, 7352), (191, 7352), (192, 7352),
     (193, 7352), (194, 7352), (195, 7352), (196, 7352), (197, 7352),
     (198, 7352), (199, 7352), (200, 7352), (201, 7352), (202, 7352),
     (203, 7352), (204, 7352), (205, 7352), (206, 7352), (207, 7352),
     (208, 7352), (209, 7352), (210, 7352), (211, 7352), (212, 7352),
     (213, 7352), (214, 7352), (215, 7352), (216, 7352), (217, 7352),
     (218, 7352), (219, 7352), (220, 7352), (221, 7352), (222, 7352),
     (223, 7352), (224, 7352), (225, 7352), (226, 7352), (227, 7352),
     (228, 7352), (229, 7352), (230, 7352), (231, 7352), (232, 7352)]"

definition yy_transition_23 :: "yy_trans_info list" where
  "yy_transition_23 = [
     (233, 7352), (234, 7352), (235, 7352), (236, 7352), (237, 7352),
     (238, 7352), (239, 7352), (240, 7352), (241, 7352), (242, 7352),
     (243, 7352), (244, 7352), (245, 7352), (246, 7352), (247, 7352),
     (248, 7352), (249, 7352), (250, 7352), (251, 7352), (252, 7352),
     (253, 7352), (254, 7352), (255, 7352), (256, 7352), (0, 10),
     (0, 15098), (1, 7094), (2, 7094), (3, 7094), (4, 7094),
     (5, 7094), (6, 7094), (7, 7094), (8, 7094), (9, 7094),
     (10, 7094), (11, 7094), (12, 7094), (13, 7094), (14, 7094),
     (15, 7094), (16, 7094), (17, 7094), (18, 7094), (19, 7094),
     (20, 7094), (21, 7094), (22, 7094), (23, 7094), (24, 7094),
     (25, 7094), (26, 7094), (27, 7094), (28, 7094), (29, 7094),
     (30, 7094), (31, 7094), (32, 7094), (33, 7094), (34, 7094),
     (35, 7094), (36, 7094), (37, 7094), (38, 7094), (39, 3899),
     (40, 7094), (41, 7094), (42, 7094), (43, 7094), (44, 7094),
     (45, 7094), (46, 7094), (47, 7094), (48, 7094), (49, 7094),
     (50, 7094), (51, 7094), (52, 7094), (53, 7094), (54, 7094),
     (55, 7094), (56, 7094), (57, 7094), (58, 7094), (59, 7094),
     (60, 7094), (61, 7094), (62, 7094), (63, 7094), (64, 7094),
     (65, 7094), (66, 7094), (67, 7094), (68, 7094), (69, 7094),
     (70, 7094), (71, 7094), (72, 7094), (73, 7094), (74, 7094)]"

definition yy_transition_24 :: "yy_trans_info list" where
  "yy_transition_24 = [
     (75, 7094), (76, 7094), (77, 7094), (78, 7094), (79, 7094),
     (80, 7094), (81, 7094), (82, 7094), (83, 7094), (84, 7094),
     (85, 7094), (86, 7094), (87, 7094), (88, 7094), (89, 7094),
     (90, 7094), (91, 7094), (92, 7094), (93, 7094), (94, 7094),
     (95, 7094), (96, 7094), (97, 7094), (98, 7094), (99, 7094),
     (100, 7094), (101, 7094), (102, 7094), (103, 7094), (104, 7094),
     (105, 7094), (106, 7094), (107, 7094), (108, 7094), (109, 7094),
     (110, 7094), (111, 7094), (112, 7094), (113, 7094), (114, 7094),
     (115, 7094), (116, 7094), (117, 7094), (118, 7094), (119, 7094),
     (120, 7094), (121, 7094), (122, 7094), (123, 7094), (124, 7094),
     (125, 7094), (126, 7094), (127, 7094), (128, 7094), (129, 7094),
     (130, 7094), (131, 7094), (132, 7094), (133, 7094), (134, 7094),
     (135, 7094), (136, 7094), (137, 7094), (138, 7094), (139, 7094),
     (140, 7094), (141, 7094), (142, 7094), (143, 7094), (144, 7094),
     (145, 7094), (146, 7094), (147, 7094), (148, 7094), (149, 7094),
     (150, 7094), (151, 7094), (152, 7094), (153, 7094), (154, 7094),
     (155, 7094), (156, 7094), (157, 7094), (158, 7094), (159, 7094),
     (160, 7094), (161, 7094), (162, 7094), (163, 7094), (164, 7094),
     (165, 7094), (166, 7094), (167, 7094), (168, 7094), (169, 7094),
     (170, 7094), (171, 7094), (172, 7094), (173, 7094), (174, 7094)]"

definition yy_transition_25 :: "yy_trans_info list" where
  "yy_transition_25 = [
     (175, 7094), (176, 7094), (177, 7094), (178, 7094), (179, 7094),
     (180, 7094), (181, 7094), (182, 7094), (183, 7094), (184, 7094),
     (185, 7094), (186, 7094), (187, 7094), (188, 7094), (189, 7094),
     (190, 7094), (191, 7094), (192, 7094), (193, 7094), (194, 7094),
     (195, 7094), (196, 7094), (197, 7094), (198, 7094), (199, 7094),
     (200, 7094), (201, 7094), (202, 7094), (203, 7094), (204, 7094),
     (205, 7094), (206, 7094), (207, 7094), (208, 7094), (209, 7094),
     (210, 7094), (211, 7094), (212, 7094), (213, 7094), (214, 7094),
     (215, 7094), (216, 7094), (217, 7094), (218, 7094), (219, 7094),
     (220, 7094), (221, 7094), (222, 7094), (223, 7094), (224, 7094),
     (225, 7094), (226, 7094), (227, 7094), (228, 7094), (229, 7094),
     (230, 7094), (231, 7094), (232, 7094), (233, 7094), (234, 7094),
     (235, 7094), (236, 7094), (237, 7094), (238, 7094), (239, 7094),
     (240, 7094), (241, 7094), (242, 7094), (243, 7094), (244, 7094),
     (245, 7094), (246, 7094), (247, 7094), (248, 7094), (249, 7094),
     (250, 7094), (251, 7094), (252, 7094), (253, 7094), (254, 7094),
     (255, 7094), (256, 7094), (0, 0), (0, 14840), (1, 7094),
     (2, 7094), (3, 7094), (4, 7094), (5, 7094), (6, 7094),
     (7, 7094), (8, 7094), (9, 7094), (10, 7094), (11, 7094),
     (12, 7094), (13, 7094), (14, 7094), (15, 7094), (16, 7094)]"

definition yy_transition_26 :: "yy_trans_info list" where
  "yy_transition_26 = [
     (17, 7094), (18, 7094), (19, 7094), (20, 7094), (21, 7094),
     (22, 7094), (23, 7094), (24, 7094), (25, 7094), (26, 7094),
     (27, 7094), (28, 7094), (29, 7094), (30, 7094), (31, 7094),
     (32, 7094), (33, 7094), (34, 7094), (35, 7094), (36, 7094),
     (37, 7094), (38, 7094), (39, 3670), (40, 7094), (41, 7094),
     (42, 7094), (43, 7094), (44, 7094), (45, 7094), (46, 7094),
     (47, 7094), (48, 7094), (49, 7094), (50, 7094), (51, 7094),
     (52, 7094), (53, 7094), (54, 7094), (55, 7094), (56, 7094),
     (57, 7094), (58, 7094), (59, 7094), (60, 7094), (61, 7094),
     (62, 7094), (63, 7094), (64, 7094), (65, 7094), (66, 7094),
     (67, 7094), (68, 7094), (69, 7094), (70, 7094), (71, 7094),
     (72, 7094), (73, 7094), (74, 7094), (75, 7094), (76, 7094),
     (77, 7094), (78, 7094), (79, 7094), (80, 7094), (81, 7094),
     (82, 7094), (83, 7094), (84, 7094), (85, 7094), (86, 7094),
     (87, 7094), (88, 7094), (89, 7094), (90, 7094), (91, 7094),
     (92, 7094), (93, 7094), (94, 7094), (95, 7094), (96, 7094),
     (97, 7094), (98, 7094), (99, 7094), (100, 7094), (101, 7094),
     (102, 7094), (103, 7094), (104, 7094), (105, 7094), (106, 7094),
     (107, 7094), (108, 7094), (109, 7094), (110, 7094), (111, 7094),
     (112, 7094), (113, 7094), (114, 7094), (115, 7094), (116, 7094)]"

definition yy_transition_27 :: "yy_trans_info list" where
  "yy_transition_27 = [
     (117, 7094), (118, 7094), (119, 7094), (120, 7094), (121, 7094),
     (122, 7094), (123, 7094), (124, 7094), (125, 7094), (126, 7094),
     (127, 7094), (128, 7094), (129, 7094), (130, 7094), (131, 7094),
     (132, 7094), (133, 7094), (134, 7094), (135, 7094), (136, 7094),
     (137, 7094), (138, 7094), (139, 7094), (140, 7094), (141, 7094),
     (142, 7094), (143, 7094), (144, 7094), (145, 7094), (146, 7094),
     (147, 7094), (148, 7094), (149, 7094), (150, 7094), (151, 7094),
     (152, 7094), (153, 7094), (154, 7094), (155, 7094), (156, 7094),
     (157, 7094), (158, 7094), (159, 7094), (160, 7094), (161, 7094),
     (162, 7094), (163, 7094), (164, 7094), (165, 7094), (166, 7094),
     (167, 7094), (168, 7094), (169, 7094), (170, 7094), (171, 7094),
     (172, 7094), (173, 7094), (174, 7094), (175, 7094), (176, 7094),
     (177, 7094), (178, 7094), (179, 7094), (180, 7094), (181, 7094),
     (182, 7094), (183, 7094), (184, 7094), (185, 7094), (186, 7094),
     (187, 7094), (188, 7094), (189, 7094), (190, 7094), (191, 7094),
     (192, 7094), (193, 7094), (194, 7094), (195, 7094), (196, 7094),
     (197, 7094), (198, 7094), (199, 7094), (200, 7094), (201, 7094),
     (202, 7094), (203, 7094), (204, 7094), (205, 7094), (206, 7094),
     (207, 7094), (208, 7094), (209, 7094), (210, 7094), (211, 7094),
     (212, 7094), (213, 7094), (214, 7094), (215, 7094), (216, 7094)]"

definition yy_transition_28 :: "yy_trans_info list" where
  "yy_transition_28 = [
     (217, 7094), (218, 7094), (219, 7094), (220, 7094), (221, 7094),
     (222, 7094), (223, 7094), (224, 7094), (225, 7094), (226, 7094),
     (227, 7094), (228, 7094), (229, 7094), (230, 7094), (231, 7094),
     (232, 7094), (233, 7094), (234, 7094), (235, 7094), (236, 7094),
     (237, 7094), (238, 7094), (239, 7094), (240, 7094), (241, 7094),
     (242, 7094), (243, 7094), (244, 7094), (245, 7094), (246, 7094),
     (247, 7094), (248, 7094), (249, 7094), (250, 7094), (251, 7094),
     (252, 7094), (253, 7094), (254, 7094), (255, 7094), (256, 7094),
     (0, 0), (0, 14582), (1, 6836), (2, 6836), (3, 6836),
     (4, 6836), (5, 6836), (6, 6836), (7, 6836), (8, 6836),
     (9, 6836), (10, 6836), (11, 6836), (12, 6836), (13, 6836),
     (14, 6836), (15, 6836), (16, 6836), (17, 6836), (18, 6836),
     (19, 6836), (20, 6836), (21, 6836), (22, 6836), (23, 6836),
     (24, 6836), (25, 6836), (26, 6836), (27, 6836), (28, 6836),
     (29, 6836), (30, 6836), (31, 6836), (32, 6836), (33, 6836),
     (34, 6836), (35, 6836), (36, 6836), (37, 6836), (38, 6836),
     (39, 3412), (40, 6836), (41, 6836), (42, 6836), (43, 6836),
     (44, 6836), (45, 6836), (46, 6836), (47, 6836), (48, 6836),
     (49, 6836), (50, 6836), (51, 6836), (52, 6836), (53, 6836),
     (54, 6836), (55, 6836), (56, 6836), (57, 6836), (58, 6836)]"

definition yy_transition_29 :: "yy_trans_info list" where
  "yy_transition_29 = [
     (59, 6836), (60, 6836), (61, 6836), (62, 6836), (63, 6836),
     (64, 6836), (65, 6836), (66, 6836), (67, 6836), (68, 6836),
     (69, 6836), (70, 6836), (71, 6836), (72, 6836), (73, 6836),
     (74, 6836), (75, 6836), (76, 6836), (77, 6836), (78, 6836),
     (79, 6836), (80, 6836), (81, 6836), (82, 6836), (83, 6836),
     (84, 6836), (85, 6836), (86, 6836), (87, 6836), (88, 6836),
     (89, 6836), (90, 6836), (91, 6836), (92, 6836), (93, 6836),
     (94, 6836), (95, 6836), (96, 6836), (97, 6836), (98, 6836),
     (99, 6836), (100, 6836), (101, 6836), (102, 6836), (103, 6836),
     (104, 6836), (105, 6836), (106, 6836), (107, 6836), (108, 6836),
     (109, 6836), (110, 6836), (111, 6836), (112, 6836), (113, 6836),
     (114, 6836), (115, 6836), (116, 6836), (117, 6836), (118, 6836),
     (119, 6836), (120, 6836), (121, 6836), (122, 6836), (123, 6836),
     (124, 6836), (125, 6836), (126, 6836), (127, 6836), (128, 6836),
     (129, 6836), (130, 6836), (131, 6836), (132, 6836), (133, 6836),
     (134, 6836), (135, 6836), (136, 6836), (137, 6836), (138, 6836),
     (139, 6836), (140, 6836), (141, 6836), (142, 6836), (143, 6836),
     (144, 6836), (145, 6836), (146, 6836), (147, 6836), (148, 6836),
     (149, 6836), (150, 6836), (151, 6836), (152, 6836), (153, 6836),
     (154, 6836), (155, 6836), (156, 6836), (157, 6836), (158, 6836)]"

definition yy_transition_30 :: "yy_trans_info list" where
  "yy_transition_30 = [
     (159, 6836), (160, 6836), (161, 6836), (162, 6836), (163, 6836),
     (164, 6836), (165, 6836), (166, 6836), (167, 6836), (168, 6836),
     (169, 6836), (170, 6836), (171, 6836), (172, 6836), (173, 6836),
     (174, 6836), (175, 6836), (176, 6836), (177, 6836), (178, 6836),
     (179, 6836), (180, 6836), (181, 6836), (182, 6836), (183, 6836),
     (184, 6836), (185, 6836), (186, 6836), (187, 6836), (188, 6836),
     (189, 6836), (190, 6836), (191, 6836), (192, 6836), (193, 6836),
     (194, 6836), (195, 6836), (196, 6836), (197, 6836), (198, 6836),
     (199, 6836), (200, 6836), (201, 6836), (202, 6836), (203, 6836),
     (204, 6836), (205, 6836), (206, 6836), (207, 6836), (208, 6836),
     (209, 6836), (210, 6836), (211, 6836), (212, 6836), (213, 6836),
     (214, 6836), (215, 6836), (216, 6836), (217, 6836), (218, 6836),
     (219, 6836), (220, 6836), (221, 6836), (222, 6836), (223, 6836),
     (224, 6836), (225, 6836), (226, 6836), (227, 6836), (228, 6836),
     (229, 6836), (230, 6836), (231, 6836), (232, 6836), (233, 6836),
     (234, 6836), (235, 6836), (236, 6836), (237, 6836), (238, 6836),
     (239, 6836), (240, 6836), (241, 6836), (242, 6836), (243, 6836),
     (244, 6836), (245, 6836), (246, 6836), (247, 6836), (248, 6836),
     (249, 6836), (250, 6836), (251, 6836), (252, 6836), (253, 6836),
     (254, 6836), (255, 6836), (256, 6836), (0, 19), (0, 14324)]"

definition yy_transition_31 :: "yy_trans_info list" where
  "yy_transition_31 = [
     (1, 3156), (2, 3156), (3, 3156), (4, 3156), (5, 3156),
     (6, 3156), (7, 3156), (8, 3156), (9, 6836), (10, 6841),
     (11, 3156), (12, 6836), (13, 6857), (14, 3156), (15, 3156),
     (16, 3156), (17, 3156), (18, 3156), (19, 3156), (20, 3156),
     (21, 3156), (22, 3156), (23, 3156), (24, 3156), (25, 3156),
     (26, 3156), (27, 3156), (28, 3156), (29, 3156), (30, 3156),
     (31, 3156), (32, 6836), (33, 3156), (34, 3156), (35, 3156),
     (36, 3156), (37, 3156), (38, 3156), (39, 3156), (40, 3156),
     (41, 3156), (42, 3156), (43, 3156), (44, 3156), (45, 3158),
     (46, 3156), (47, 3156), (48, 3156), (49, 3156), (50, 3156),
     (51, 3156), (52, 3156), (53, 3156), (54, 3156), (55, 3156),
     (56, 3156), (57, 3156), (58, 3156), (59, 3156), (60, 3156),
     (61, 3156), (62, 3156), (63, 3156), (64, 3156), (65, 3156),
     (66, 3156), (67, 3156), (68, 3156), (69, 3156), (70, 3156),
     (71, 3156), (72, 3156), (73, 3156), (74, 3156), (75, 3156),
     (76, 3156), (77, 3156), (78, 3156), (79, 3156), (80, 3156),
     (81, 3156), (82, 3156), (83, 3156), (84, 3156), (85, 3156),
     (86, 3156), (87, 3156), (88, 3156), (89, 3156), (90, 3156),
     (91, 3156), (92, 3156), (93, 3156), (94, 3156), (95, 3156),
     (96, 3156), (97, 3156), (98, 3156), (99, 3156), (100, 3156)]"

definition yy_transition_32 :: "yy_trans_info list" where
  "yy_transition_32 = [
     (101, 3156), (102, 3156), (103, 3156), (104, 3156), (105, 3156),
     (106, 3156), (107, 3156), (108, 3156), (109, 3156), (110, 3156),
     (111, 3156), (112, 3156), (113, 3156), (114, 3156), (115, 3156),
     (116, 3156), (117, 3156), (118, 3156), (119, 3156), (120, 3156),
     (121, 3156), (122, 3156), (123, 3156), (124, 3156), (125, 3156),
     (126, 3156), (127, 3156), (128, 3156), (129, 3156), (130, 3156),
     (131, 3156), (132, 3156), (133, 3156), (134, 3156), (135, 3156),
     (136, 3156), (137, 3156), (138, 3156), (139, 3156), (140, 3156),
     (141, 3156), (142, 3156), (143, 3156), (144, 3156), (145, 3156),
     (146, 3156), (147, 3156), (148, 3156), (149, 3156), (150, 3156),
     (151, 3156), (152, 3156), (153, 3156), (154, 3156), (155, 3156),
     (156, 3156), (157, 3156), (158, 3156), (159, 3156), (160, 3156),
     (161, 3156), (162, 3156), (163, 3156), (164, 3156), (165, 3156),
     (166, 3156), (167, 3156), (168, 3156), (169, 3156), (170, 3156),
     (171, 3156), (172, 3156), (173, 3156), (174, 3156), (175, 3156),
     (176, 3156), (177, 3156), (178, 3156), (179, 3156), (180, 3156),
     (181, 3156), (182, 3156), (183, 3156), (184, 3156), (185, 3156),
     (186, 3156), (187, 3156), (188, 3156), (189, 3156), (190, 3156),
     (191, 3156), (192, 3156), (193, 3156), (194, 3156), (195, 3156),
     (196, 3156), (197, 3156), (198, 3156), (199, 3156), (200, 3156)]"

definition yy_transition_33 :: "yy_trans_info list" where
  "yy_transition_33 = [
     (201, 3156), (202, 3156), (203, 3156), (204, 3156), (205, 3156),
     (206, 3156), (207, 3156), (208, 3156), (209, 3156), (210, 3156),
     (211, 3156), (212, 3156), (213, 3156), (214, 3156), (215, 3156),
     (216, 3156), (217, 3156), (218, 3156), (219, 3156), (220, 3156),
     (221, 3156), (222, 3156), (223, 3156), (224, 3156), (225, 3156),
     (226, 3156), (227, 3156), (228, 3156), (229, 3156), (230, 3156),
     (231, 3156), (232, 3156), (233, 3156), (234, 3156), (235, 3156),
     (236, 3156), (237, 3156), (238, 3156), (239, 3156), (240, 3156),
     (241, 3156), (242, 3156), (243, 3156), (244, 3156), (245, 3156),
     (246, 3156), (247, 3156), (248, 3156), (249, 3156), (250, 3156),
     (251, 3156), (252, 3156), (253, 3156), (254, 3156), (255, 3156),
     (256, 3156), (0, 19), (0, 14066), (1, 2898), (2, 2898),
     (3, 2898), (4, 2898), (5, 2898), (6, 2898), (7, 2898),
     (8, 2898), (9, 6578), (10, 6583), (11, 2898), (12, 6578),
     (13, 6599), (14, 2898), (15, 2898), (16, 2898), (17, 2898),
     (18, 2898), (19, 2898), (20, 2898), (21, 2898), (22, 2898),
     (23, 2898), (24, 2898), (25, 2898), (26, 2898), (27, 2898),
     (28, 2898), (29, 2898), (30, 2898), (31, 2898), (32, 6578),
     (33, 2898), (34, 2898), (35, 2898), (36, 2898), (37, 2898),
     (38, 2898), (39, 2898), (40, 2898), (41, 2898), (42, 2898)]"

definition yy_transition_34 :: "yy_trans_info list" where
  "yy_transition_34 = [
     (43, 2898), (44, 2898), (45, 2900), (46, 2898), (47, 2898),
     (48, 2898), (49, 2898), (50, 2898), (51, 2898), (52, 2898),
     (53, 2898), (54, 2898), (55, 2898), (56, 2898), (57, 2898),
     (58, 2898), (59, 2898), (60, 2898), (61, 2898), (62, 2898),
     (63, 2898), (64, 2898), (65, 2898), (66, 2898), (67, 2898),
     (68, 2898), (69, 2898), (70, 2898), (71, 2898), (72, 2898),
     (73, 2898), (74, 2898), (75, 2898), (76, 2898), (77, 2898),
     (78, 2898), (79, 2898), (80, 2898), (81, 2898), (82, 2898),
     (83, 2898), (84, 2898), (85, 2898), (86, 2898), (87, 2898),
     (88, 2898), (89, 2898), (90, 2898), (91, 2898), (92, 2898),
     (93, 2898), (94, 2898), (95, 2898), (96, 2898), (97, 2898),
     (98, 2898), (99, 2898), (100, 2898), (101, 2898), (102, 2898),
     (103, 2898), (104, 2898), (105, 2898), (106, 2898), (107, 2898),
     (108, 2898), (109, 2898), (110, 2898), (111, 2898), (112, 2898),
     (113, 2898), (114, 2898), (115, 2898), (116, 2898), (117, 2898),
     (118, 2898), (119, 2898), (120, 2898), (121, 2898), (122, 2898),
     (123, 2898), (124, 2898), (125, 2898), (126, 2898), (127, 2898),
     (128, 2898), (129, 2898), (130, 2898), (131, 2898), (132, 2898),
     (133, 2898), (134, 2898), (135, 2898), (136, 2898), (137, 2898),
     (138, 2898), (139, 2898), (140, 2898), (141, 2898), (142, 2898)]"

definition yy_transition_35 :: "yy_trans_info list" where
  "yy_transition_35 = [
     (143, 2898), (144, 2898), (145, 2898), (146, 2898), (147, 2898),
     (148, 2898), (149, 2898), (150, 2898), (151, 2898), (152, 2898),
     (153, 2898), (154, 2898), (155, 2898), (156, 2898), (157, 2898),
     (158, 2898), (159, 2898), (160, 2898), (161, 2898), (162, 2898),
     (163, 2898), (164, 2898), (165, 2898), (166, 2898), (167, 2898),
     (168, 2898), (169, 2898), (170, 2898), (171, 2898), (172, 2898),
     (173, 2898), (174, 2898), (175, 2898), (176, 2898), (177, 2898),
     (178, 2898), (179, 2898), (180, 2898), (181, 2898), (182, 2898),
     (183, 2898), (184, 2898), (185, 2898), (186, 2898), (187, 2898),
     (188, 2898), (189, 2898), (190, 2898), (191, 2898), (192, 2898),
     (193, 2898), (194, 2898), (195, 2898), (196, 2898), (197, 2898),
     (198, 2898), (199, 2898), (200, 2898), (201, 2898), (202, 2898),
     (203, 2898), (204, 2898), (205, 2898), (206, 2898), (207, 2898),
     (208, 2898), (209, 2898), (210, 2898), (211, 2898), (212, 2898),
     (213, 2898), (214, 2898), (215, 2898), (216, 2898), (217, 2898),
     (218, 2898), (219, 2898), (220, 2898), (221, 2898), (222, 2898),
     (223, 2898), (224, 2898), (225, 2898), (226, 2898), (227, 2898),
     (228, 2898), (229, 2898), (230, 2898), (231, 2898), (232, 2898),
     (233, 2898), (234, 2898), (235, 2898), (236, 2898), (237, 2898),
     (238, 2898), (239, 2898), (240, 2898), (241, 2898), (242, 2898)]"

definition yy_transition_36 :: "yy_trans_info list" where
  "yy_transition_36 = [
     (243, 2898), (244, 2898), (245, 2898), (246, 2898), (247, 2898),
     (248, 2898), (249, 2898), (250, 2898), (251, 2898), (252, 2898),
     (253, 2898), (254, 2898), (255, 2898), (256, 2898), (0, 0),
     (0, 13808), (1, 6388), (2, 6388), (3, 6388), (4, 6388),
     (5, 6388), (6, 6388), (7, 6388), (8, 6388), (9, 6388),
     (10, 6646), (11, 6388), (12, 6388), (13, 6388), (14, 6388),
     (15, 6388), (16, 6388), (17, 6388), (18, 6388), (19, 6388),
     (20, 6388), (21, 6388), (22, 6388), (23, 6388), (24, 6388),
     (25, 6388), (26, 6388), (27, 6388), (28, 6388), (29, 6388),
     (30, 6388), (31, 6388), (32, 6388), (33, 6388), (34, 6388),
     (35, 6388), (36, 6388), (37, 6388), (38, 6388), (39, 2645),
     (40, 6388), (41, 6388), (42, 6388), (43, 6388), (44, 6388),
     (45, 6388), (46, 6388), (47, 6388), (48, 6388), (49, 6388),
     (50, 6388), (51, 6388), (52, 6388), (53, 6388), (54, 6388),
     (55, 6388), (56, 6388), (57, 6388), (58, 6388), (59, 6388),
     (60, 6388), (61, 6388), (62, 6388), (63, 6388), (64, 6388),
     (65, 6388), (66, 6388), (67, 6388), (68, 6388), (69, 6388),
     (70, 6388), (71, 6388), (72, 6388), (73, 6388), (74, 6388),
     (75, 6388), (76, 6388), (77, 6388), (78, 6388), (79, 6388),
     (80, 6388), (81, 6388), (82, 6388), (83, 6388), (84, 6388)]"

definition yy_transition_37 :: "yy_trans_info list" where
  "yy_transition_37 = [
     (85, 6388), (86, 6388), (87, 6388), (88, 6388), (89, 6388),
     (90, 6388), (91, 6388), (92, 6904), (93, 6388), (94, 6388),
     (95, 6388), (96, 6388), (97, 6388), (98, 6388), (99, 6388),
     (100, 6388), (101, 6388), (102, 6388), (103, 6388), (104, 6388),
     (105, 6388), (106, 6388), (107, 6388), (108, 6388), (109, 6388),
     (110, 6388), (111, 6388), (112, 6388), (113, 6388), (114, 6388),
     (115, 6388), (116, 6388), (117, 6388), (118, 6388), (119, 6388),
     (120, 6388), (121, 6388), (122, 6388), (123, 6388), (124, 6388),
     (125, 6388), (126, 6388), (127, 6388), (128, 6388), (129, 6388),
     (130, 6388), (131, 6388), (132, 6388), (133, 6388), (134, 6388),
     (135, 6388), (136, 6388), (137, 6388), (138, 6388), (139, 6388),
     (140, 6388), (141, 6388), (142, 6388), (143, 6388), (144, 6388),
     (145, 6388), (146, 6388), (147, 6388), (148, 6388), (149, 6388),
     (150, 6388), (151, 6388), (152, 6388), (153, 6388), (154, 6388),
     (155, 6388), (156, 6388), (157, 6388), (158, 6388), (159, 6388),
     (160, 6388), (161, 6388), (162, 6388), (163, 6388), (164, 6388),
     (165, 6388), (166, 6388), (167, 6388), (168, 6388), (169, 6388),
     (170, 6388), (171, 6388), (172, 6388), (173, 6388), (174, 6388),
     (175, 6388), (176, 6388), (177, 6388), (178, 6388), (179, 6388),
     (180, 6388), (181, 6388), (182, 6388), (183, 6388), (184, 6388)]"

definition yy_transition_38 :: "yy_trans_info list" where
  "yy_transition_38 = [
     (185, 6388), (186, 6388), (187, 6388), (188, 6388), (189, 6388),
     (190, 6388), (191, 6388), (192, 6388), (193, 6388), (194, 6388),
     (195, 6388), (196, 6388), (197, 6388), (198, 6388), (199, 6388),
     (200, 6388), (201, 6388), (202, 6388), (203, 6388), (204, 6388),
     (205, 6388), (206, 6388), (207, 6388), (208, 6388), (209, 6388),
     (210, 6388), (211, 6388), (212, 6388), (213, 6388), (214, 6388),
     (215, 6388), (216, 6388), (217, 6388), (218, 6388), (219, 6388),
     (220, 6388), (221, 6388), (222, 6388), (223, 6388), (224, 6388),
     (225, 6388), (226, 6388), (227, 6388), (228, 6388), (229, 6388),
     (230, 6388), (231, 6388), (232, 6388), (233, 6388), (234, 6388),
     (235, 6388), (236, 6388), (237, 6388), (238, 6388), (239, 6388),
     (240, 6388), (241, 6388), (242, 6388), (243, 6388), (244, 6388),
     (245, 6388), (246, 6388), (247, 6388), (248, 6388), (249, 6388),
     (250, 6388), (251, 6388), (252, 6388), (253, 6388), (254, 6388),
     (255, 6388), (256, 6388), (0, 0), (0, 13550), (1, 6130),
     (2, 6130), (3, 6130), (4, 6130), (5, 6130), (6, 6130),
     (7, 6130), (8, 6130), (9, 6130), (10, 6388), (11, 6130),
     (12, 6130), (13, 6130), (14, 6130), (15, 6130), (16, 6130),
     (17, 6130), (18, 6130), (19, 6130), (20, 6130), (21, 6130),
     (22, 6130), (23, 6130), (24, 6130), (25, 6130), (26, 6130)]"

definition yy_transition_39 :: "yy_trans_info list" where
  "yy_transition_39 = [
     (27, 6130), (28, 6130), (29, 6130), (30, 6130), (31, 6130),
     (32, 6130), (33, 6130), (34, 6130), (35, 6130), (36, 6130),
     (37, 6130), (38, 6130), (39, 2387), (40, 6130), (41, 6130),
     (42, 6130), (43, 6130), (44, 6130), (45, 6130), (46, 6130),
     (47, 6130), (48, 6130), (49, 6130), (50, 6130), (51, 6130),
     (52, 6130), (53, 6130), (54, 6130), (55, 6130), (56, 6130),
     (57, 6130), (58, 6130), (59, 6130), (60, 6130), (61, 6130),
     (62, 6130), (63, 6130), (64, 6130), (65, 6130), (66, 6130),
     (67, 6130), (68, 6130), (69, 6130), (70, 6130), (71, 6130),
     (72, 6130), (73, 6130), (74, 6130), (75, 6130), (76, 6130),
     (77, 6130), (78, 6130), (79, 6130), (80, 6130), (81, 6130),
     (82, 6130), (83, 6130), (84, 6130), (85, 6130), (86, 6130),
     (87, 6130), (88, 6130), (89, 6130), (90, 6130), (91, 6130),
     (92, 6646), (93, 6130), (94, 6130), (95, 6130), (96, 6130),
     (97, 6130), (98, 6130), (99, 6130), (100, 6130), (101, 6130),
     (102, 6130), (103, 6130), (104, 6130), (105, 6130), (106, 6130),
     (107, 6130), (108, 6130), (109, 6130), (110, 6130), (111, 6130),
     (112, 6130), (113, 6130), (114, 6130), (115, 6130), (116, 6130),
     (117, 6130), (118, 6130), (119, 6130), (120, 6130), (121, 6130),
     (122, 6130), (123, 6130), (124, 6130), (125, 6130), (126, 6130)]"

definition yy_transition_40 :: "yy_trans_info list" where
  "yy_transition_40 = [
     (127, 6130), (128, 6130), (129, 6130), (130, 6130), (131, 6130),
     (132, 6130), (133, 6130), (134, 6130), (135, 6130), (136, 6130),
     (137, 6130), (138, 6130), (139, 6130), (140, 6130), (141, 6130),
     (142, 6130), (143, 6130), (144, 6130), (145, 6130), (146, 6130),
     (147, 6130), (148, 6130), (149, 6130), (150, 6130), (151, 6130),
     (152, 6130), (153, 6130), (154, 6130), (155, 6130), (156, 6130),
     (157, 6130), (158, 6130), (159, 6130), (160, 6130), (161, 6130),
     (162, 6130), (163, 6130), (164, 6130), (165, 6130), (166, 6130),
     (167, 6130), (168, 6130), (169, 6130), (170, 6130), (171, 6130),
     (172, 6130), (173, 6130), (174, 6130), (175, 6130), (176, 6130),
     (177, 6130), (178, 6130), (179, 6130), (180, 6130), (181, 6130),
     (182, 6130), (183, 6130), (184, 6130), (185, 6130), (186, 6130),
     (187, 6130), (188, 6130), (189, 6130), (190, 6130), (191, 6130),
     (192, 6130), (193, 6130), (194, 6130), (195, 6130), (196, 6130),
     (197, 6130), (198, 6130), (199, 6130), (200, 6130), (201, 6130),
     (202, 6130), (203, 6130), (204, 6130), (205, 6130), (206, 6130),
     (207, 6130), (208, 6130), (209, 6130), (210, 6130), (211, 6130),
     (212, 6130), (213, 6130), (214, 6130), (215, 6130), (216, 6130),
     (217, 6130), (218, 6130), (219, 6130), (220, 6130), (221, 6130),
     (222, 6130), (223, 6130), (224, 6130), (225, 6130), (226, 6130)]"

definition yy_transition_41 :: "yy_trans_info list" where
  "yy_transition_41 = [
     (227, 6130), (228, 6130), (229, 6130), (230, 6130), (231, 6130),
     (232, 6130), (233, 6130), (234, 6130), (235, 6130), (236, 6130),
     (237, 6130), (238, 6130), (239, 6130), (240, 6130), (241, 6130),
     (242, 6130), (243, 6130), (244, 6130), (245, 6130), (246, 6130),
     (247, 6130), (248, 6130), (249, 6130), (250, 6130), (251, 6130),
     (252, 6130), (253, 6130), (254, 6130), (255, 6130), (256, 6130),
     (0, 0), (0, 13292), (1, 6646), (2, 6646), (3, 6646),
     (4, 6646), (5, 6646), (6, 6646), (7, 6646), (8, 6646),
     (9, 6646), (10, 6904), (11, 6646), (12, 6646), (13, 6646),
     (14, 6646), (15, 6646), (16, 6646), (17, 6646), (18, 6646),
     (19, 6646), (20, 6646), (21, 6646), (22, 6646), (23, 6646),
     (24, 6646), (25, 6646), (26, 6646), (27, 6646), (28, 6646),
     (29, 6646), (30, 6646), (31, 6646), (32, 6646), (33, 6646),
     (34, 6646), (35, 6646), (36, 7162), (37, 6646), (38, 6646),
     (39, 6646), (40, 6646), (41, 6646), (42, 6646), (43, 6646),
     (44, 6646), (45, 6646), (46, 6646), (47, 6646), (48, 6646),
     (49, 6646), (50, 6646), (51, 6646), (52, 6646), (53, 6646),
     (54, 6646), (55, 6646), (56, 6646), (57, 6646), (58, 6646),
     (59, 6646), (60, 6646), (61, 6646), (62, 6646), (63, 6646),
     (64, 6646), (65, 6646), (66, 6646), (67, 6646), (68, 6646)]"

definition yy_transition_42 :: "yy_trans_info list" where
  "yy_transition_42 = [
     (69, 6646), (70, 6646), (71, 6646), (72, 6646), (73, 6646),
     (74, 6646), (75, 6646), (76, 6646), (77, 6646), (78, 6646),
     (79, 6646), (80, 6646), (81, 6646), (82, 6646), (83, 6646),
     (84, 6646), (85, 6646), (86, 6646), (87, 6646), (88, 6646),
     (89, 6646), (90, 6646), (91, 6646), (92, 6646), (93, 6646),
     (94, 6646), (95, 6646), (96, 6646), (97, 6646), (98, 6646),
     (99, 6646), (100, 6646), (101, 6646), (102, 6646), (103, 6646),
     (104, 6646), (105, 6646), (106, 6646), (107, 6646), (108, 6646),
     (109, 6646), (110, 6646), (111, 6646), (112, 6646), (113, 6646),
     (114, 6646), (115, 6646), (116, 6646), (117, 6646), (118, 6646),
     (119, 6646), (120, 6646), (121, 6646), (122, 6646), (123, 6646),
     (124, 6646), (125, 6646), (126, 6646), (127, 6646), (128, 6646),
     (129, 6646), (130, 6646), (131, 6646), (132, 6646), (133, 6646),
     (134, 6646), (135, 6646), (136, 6646), (137, 6646), (138, 6646),
     (139, 6646), (140, 6646), (141, 6646), (142, 6646), (143, 6646),
     (144, 6646), (145, 6646), (146, 6646), (147, 6646), (148, 6646),
     (149, 6646), (150, 6646), (151, 6646), (152, 6646), (153, 6646),
     (154, 6646), (155, 6646), (156, 6646), (157, 6646), (158, 6646),
     (159, 6646), (160, 6646), (161, 6646), (162, 6646), (163, 6646),
     (164, 6646), (165, 6646), (166, 6646), (167, 6646), (168, 6646)]"

definition yy_transition_43 :: "yy_trans_info list" where
  "yy_transition_43 = [
     (169, 6646), (170, 6646), (171, 6646), (172, 6646), (173, 6646),
     (174, 6646), (175, 6646), (176, 6646), (177, 6646), (178, 6646),
     (179, 6646), (180, 6646), (181, 6646), (182, 6646), (183, 6646),
     (184, 6646), (185, 6646), (186, 6646), (187, 6646), (188, 6646),
     (189, 6646), (190, 6646), (191, 6646), (192, 6646), (193, 6646),
     (194, 6646), (195, 6646), (196, 6646), (197, 6646), (198, 6646),
     (199, 6646), (200, 6646), (201, 6646), (202, 6646), (203, 6646),
     (204, 6646), (205, 6646), (206, 6646), (207, 6646), (208, 6646),
     (209, 6646), (210, 6646), (211, 6646), (212, 6646), (213, 6646),
     (214, 6646), (215, 6646), (216, 6646), (217, 6646), (218, 6646),
     (219, 6646), (220, 6646), (221, 6646), (222, 6646), (223, 6646),
     (224, 6646), (225, 6646), (226, 6646), (227, 6646), (228, 6646),
     (229, 6646), (230, 6646), (231, 6646), (232, 6646), (233, 6646),
     (234, 6646), (235, 6646), (236, 6646), (237, 6646), (238, 6646),
     (239, 6646), (240, 6646), (241, 6646), (242, 6646), (243, 6646),
     (244, 6646), (245, 6646), (246, 6646), (247, 6646), (248, 6646),
     (249, 6646), (250, 6646), (251, 6646), (252, 6646), (253, 6646),
     (254, 6646), (255, 6646), (256, 6646), (0, 0), (0, 13034),
     (1, 6388), (2, 6388), (3, 6388), (4, 6388), (5, 6388),
     (6, 6388), (7, 6388), (8, 6388), (9, 6388), (10, 6646)]"

definition yy_transition_44 :: "yy_trans_info list" where
  "yy_transition_44 = [
     (11, 6388), (12, 6388), (13, 6388), (14, 6388), (15, 6388),
     (16, 6388), (17, 6388), (18, 6388), (19, 6388), (20, 6388),
     (21, 6388), (22, 6388), (23, 6388), (24, 6388), (25, 6388),
     (26, 6388), (27, 6388), (28, 6388), (29, 6388), (30, 6388),
     (31, 6388), (32, 6388), (33, 6388), (34, 6388), (35, 6388),
     (36, 6904), (37, 6388), (38, 6388), (39, 6388), (40, 6388),
     (41, 6388), (42, 6388), (43, 6388), (44, 6388), (45, 6388),
     (46, 6388), (47, 6388), (48, 6388), (49, 6388), (50, 6388),
     (51, 6388), (52, 6388), (53, 6388), (54, 6388), (55, 6388),
     (56, 6388), (57, 6388), (58, 6388), (59, 6388), (60, 6388),
     (61, 6388), (62, 6388), (63, 6388), (64, 6388), (65, 6388),
     (66, 6388), (67, 6388), (68, 6388), (69, 6388), (70, 6388),
     (71, 6388), (72, 6388), (73, 6388), (74, 6388), (75, 6388),
     (76, 6388), (77, 6388), (78, 6388), (79, 6388), (80, 6388),
     (81, 6388), (82, 6388), (83, 6388), (84, 6388), (85, 6388),
     (86, 6388), (87, 6388), (88, 6388), (89, 6388), (90, 6388),
     (91, 6388), (92, 6388), (93, 6388), (94, 6388), (95, 6388),
     (96, 6388), (97, 6388), (98, 6388), (99, 6388), (100, 6388),
     (101, 6388), (102, 6388), (103, 6388), (104, 6388), (105, 6388),
     (106, 6388), (107, 6388), (108, 6388), (109, 6388), (110, 6388)]"

definition yy_transition_45 :: "yy_trans_info list" where
  "yy_transition_45 = [
     (111, 6388), (112, 6388), (113, 6388), (114, 6388), (115, 6388),
     (116, 6388), (117, 6388), (118, 6388), (119, 6388), (120, 6388),
     (121, 6388), (122, 6388), (123, 6388), (124, 6388), (125, 6388),
     (126, 6388), (127, 6388), (128, 6388), (129, 6388), (130, 6388),
     (131, 6388), (132, 6388), (133, 6388), (134, 6388), (135, 6388),
     (136, 6388), (137, 6388), (138, 6388), (139, 6388), (140, 6388),
     (141, 6388), (142, 6388), (143, 6388), (144, 6388), (145, 6388),
     (146, 6388), (147, 6388), (148, 6388), (149, 6388), (150, 6388),
     (151, 6388), (152, 6388), (153, 6388), (154, 6388), (155, 6388),
     (156, 6388), (157, 6388), (158, 6388), (159, 6388), (160, 6388),
     (161, 6388), (162, 6388), (163, 6388), (164, 6388), (165, 6388),
     (166, 6388), (167, 6388), (168, 6388), (169, 6388), (170, 6388),
     (171, 6388), (172, 6388), (173, 6388), (174, 6388), (175, 6388),
     (176, 6388), (177, 6388), (178, 6388), (179, 6388), (180, 6388),
     (181, 6388), (182, 6388), (183, 6388), (184, 6388), (185, 6388),
     (186, 6388), (187, 6388), (188, 6388), (189, 6388), (190, 6388),
     (191, 6388), (192, 6388), (193, 6388), (194, 6388), (195, 6388),
     (196, 6388), (197, 6388), (198, 6388), (199, 6388), (200, 6388),
     (201, 6388), (202, 6388), (203, 6388), (204, 6388), (205, 6388),
     (206, 6388), (207, 6388), (208, 6388), (209, 6388), (210, 6388)]"

definition yy_transition_46 :: "yy_trans_info list" where
  "yy_transition_46 = [
     (211, 6388), (212, 6388), (213, 6388), (214, 6388), (215, 6388),
     (216, 6388), (217, 6388), (218, 6388), (219, 6388), (220, 6388),
     (221, 6388), (222, 6388), (223, 6388), (224, 6388), (225, 6388),
     (226, 6388), (227, 6388), (228, 6388), (229, 6388), (230, 6388),
     (231, 6388), (232, 6388), (233, 6388), (234, 6388), (235, 6388),
     (236, 6388), (237, 6388), (238, 6388), (239, 6388), (240, 6388),
     (241, 6388), (242, 6388), (243, 6388), (244, 6388), (245, 6388),
     (246, 6388), (247, 6388), (248, 6388), (249, 6388), (250, 6388),
     (251, 6388), (252, 6388), (253, 6388), (254, 6388), (255, 6388),
     (256, 6388), (0, 0), (0, 12776), (1, 4514), (2, 4514),
     (3, 4514), (4, 4514), (5, 4514), (6, 4514), (7, 4514),
     (8, 4514), (9, 4514), (10, 4514), (11, 4514), (12, 4514),
     (13, 4514), (14, 4514), (15, 4514), (16, 4514), (17, 4514),
     (18, 4514), (19, 4514), (20, 4514), (21, 4514), (22, 4514),
     (23, 4514), (24, 4514), (25, 4514), (26, 4514), (27, 4514),
     (28, 4514), (29, 4514), (30, 4514), (31, 4514), (32, 4514),
     (33, 4514), (34, 1615), (35, 4514), (36, 4514), (37, 4514),
     (38, 4514), (39, 4514), (40, 4514), (41, 4514), (42, 4514),
     (43, 4514), (44, 4514), (45, 4514), (46, 4514), (47, 4514),
     (48, 4514), (49, 4514), (50, 4514), (51, 4514), (52, 4514)]"

definition yy_transition_47 :: "yy_trans_info list" where
  "yy_transition_47 = [
     (53, 4514), (54, 4514), (55, 4514), (56, 4514), (57, 4514),
     (58, 4514), (59, 4514), (60, 4514), (61, 4514), (62, 4514),
     (63, 4514), (64, 4514), (65, 4514), (66, 4514), (67, 4514),
     (68, 4514), (69, 4514), (70, 4514), (71, 4514), (72, 4514),
     (73, 4514), (74, 4514), (75, 4514), (76, 4514), (77, 4514),
     (78, 4514), (79, 4514), (80, 4514), (81, 4514), (82, 4514),
     (83, 4514), (84, 4514), (85, 4514), (86, 4514), (87, 4514),
     (88, 4514), (89, 4514), (90, 4514), (91, 4514), (92, 4514),
     (93, 4514), (94, 4514), (95, 4514), (96, 4514), (97, 4514),
     (98, 4514), (99, 4514), (100, 4514), (101, 4514), (102, 4514),
     (103, 4514), (104, 4514), (105, 4514), (106, 4514), (107, 4514),
     (108, 4514), (109, 4514), (110, 4514), (111, 4514), (112, 4514),
     (113, 4514), (114, 4514), (115, 4514), (116, 4514), (117, 4514),
     (118, 4514), (119, 4514), (120, 4514), (121, 4514), (122, 4514),
     (123, 4514), (124, 4514), (125, 4514), (126, 4514), (127, 4514),
     (128, 4514), (129, 4514), (130, 4514), (131, 4514), (132, 4514),
     (133, 4514), (134, 4514), (135, 4514), (136, 4514), (137, 4514),
     (138, 4514), (139, 4514), (140, 4514), (141, 4514), (142, 4514),
     (143, 4514), (144, 4514), (145, 4514), (146, 4514), (147, 4514),
     (148, 4514), (149, 4514), (150, 4514), (151, 4514), (152, 4514)]"

definition yy_transition_48 :: "yy_trans_info list" where
  "yy_transition_48 = [
     (153, 4514), (154, 4514), (155, 4514), (156, 4514), (157, 4514),
     (158, 4514), (159, 4514), (160, 4514), (161, 4514), (162, 4514),
     (163, 4514), (164, 4514), (165, 4514), (166, 4514), (167, 4514),
     (168, 4514), (169, 4514), (170, 4514), (171, 4514), (172, 4514),
     (173, 4514), (174, 4514), (175, 4514), (176, 4514), (177, 4514),
     (178, 4514), (179, 4514), (180, 4514), (181, 4514), (182, 4514),
     (183, 4514), (184, 4514), (185, 4514), (186, 4514), (187, 4514),
     (188, 4514), (189, 4514), (190, 4514), (191, 4514), (192, 4514),
     (193, 4514), (194, 4514), (195, 4514), (196, 4514), (197, 4514),
     (198, 4514), (199, 4514), (200, 4514), (201, 4514), (202, 4514),
     (203, 4514), (204, 4514), (205, 4514), (206, 4514), (207, 4514),
     (208, 4514), (209, 4514), (210, 4514), (211, 4514), (212, 4514),
     (213, 4514), (214, 4514), (215, 4514), (216, 4514), (217, 4514),
     (218, 4514), (219, 4514), (220, 4514), (221, 4514), (222, 4514),
     (223, 4514), (224, 4514), (225, 4514), (226, 4514), (227, 4514),
     (228, 4514), (229, 4514), (230, 4514), (231, 4514), (232, 4514),
     (233, 4514), (234, 4514), (235, 4514), (236, 4514), (237, 4514),
     (238, 4514), (239, 4514), (240, 4514), (241, 4514), (242, 4514),
     (243, 4514), (244, 4514), (245, 4514), (246, 4514), (247, 4514),
     (248, 4514), (249, 4514), (250, 4514), (251, 4514), (252, 4514)]"

definition yy_transition_49 :: "yy_trans_info list" where
  "yy_transition_49 = [
     (253, 4514), (254, 4514), (255, 4514), (256, 4514), (0, 0),
     (0, 12518), (1, 4256), (2, 4256), (3, 4256), (4, 4256),
     (5, 4256), (6, 4256), (7, 4256), (8, 4256), (9, 4256),
     (10, 4256), (11, 4256), (12, 4256), (13, 4256), (14, 4256),
     (15, 4256), (16, 4256), (17, 4256), (18, 4256), (19, 4256),
     (20, 4256), (21, 4256), (22, 4256), (23, 4256), (24, 4256),
     (25, 4256), (26, 4256), (27, 4256), (28, 4256), (29, 4256),
     (30, 4256), (31, 4256), (32, 4256), (33, 4256), (34, 1357),
     (35, 4256), (36, 4256), (37, 4256), (38, 4256), (39, 4256),
     (40, 4256), (41, 4256), (42, 4256), (43, 4256), (44, 4256),
     (45, 4256), (46, 4256), (47, 4256), (48, 4256), (49, 4256),
     (50, 4256), (51, 4256), (52, 4256), (53, 4256), (54, 4256),
     (55, 4256), (56, 4256), (57, 4256), (58, 4256), (59, 4256),
     (60, 4256), (61, 4256), (62, 4256), (63, 4256), (64, 4256),
     (65, 4256), (66, 4256), (67, 4256), (68, 4256), (69, 4256),
     (70, 4256), (71, 4256), (72, 4256), (73, 4256), (74, 4256),
     (75, 4256), (76, 4256), (77, 4256), (78, 4256), (79, 4256),
     (80, 4256), (81, 4256), (82, 4256), (83, 4256), (84, 4256),
     (85, 4256), (86, 4256), (87, 4256), (88, 4256), (89, 4256),
     (90, 4256), (91, 4256), (92, 4256), (93, 4256), (94, 4256)]"

definition yy_transition_50 :: "yy_trans_info list" where
  "yy_transition_50 = [
     (95, 4256), (96, 4256), (97, 4256), (98, 4256), (99, 4256),
     (100, 4256), (101, 4256), (102, 4256), (103, 4256), (104, 4256),
     (105, 4256), (106, 4256), (107, 4256), (108, 4256), (109, 4256),
     (110, 4256), (111, 4256), (112, 4256), (113, 4256), (114, 4256),
     (115, 4256), (116, 4256), (117, 4256), (118, 4256), (119, 4256),
     (120, 4256), (121, 4256), (122, 4256), (123, 4256), (124, 4256),
     (125, 4256), (126, 4256), (127, 4256), (128, 4256), (129, 4256),
     (130, 4256), (131, 4256), (132, 4256), (133, 4256), (134, 4256),
     (135, 4256), (136, 4256), (137, 4256), (138, 4256), (139, 4256),
     (140, 4256), (141, 4256), (142, 4256), (143, 4256), (144, 4256),
     (145, 4256), (146, 4256), (147, 4256), (148, 4256), (149, 4256),
     (150, 4256), (151, 4256), (152, 4256), (153, 4256), (154, 4256),
     (155, 4256), (156, 4256), (157, 4256), (158, 4256), (159, 4256),
     (160, 4256), (161, 4256), (162, 4256), (163, 4256), (164, 4256),
     (165, 4256), (166, 4256), (167, 4256), (168, 4256), (169, 4256),
     (170, 4256), (171, 4256), (172, 4256), (173, 4256), (174, 4256),
     (175, 4256), (176, 4256), (177, 4256), (178, 4256), (179, 4256),
     (180, 4256), (181, 4256), (182, 4256), (183, 4256), (184, 4256),
     (185, 4256), (186, 4256), (187, 4256), (188, 4256), (189, 4256),
     (190, 4256), (191, 4256), (192, 4256), (193, 4256), (194, 4256)]"

definition yy_transition_51 :: "yy_trans_info list" where
  "yy_transition_51 = [
     (195, 4256), (196, 4256), (197, 4256), (198, 4256), (199, 4256),
     (200, 4256), (201, 4256), (202, 4256), (203, 4256), (204, 4256),
     (205, 4256), (206, 4256), (207, 4256), (208, 4256), (209, 4256),
     (210, 4256), (211, 4256), (212, 4256), (213, 4256), (214, 4256),
     (215, 4256), (216, 4256), (217, 4256), (218, 4256), (219, 4256),
     (220, 4256), (221, 4256), (222, 4256), (223, 4256), (224, 4256),
     (225, 4256), (226, 4256), (227, 4256), (228, 4256), (229, 4256),
     (230, 4256), (231, 4256), (232, 4256), (233, 4256), (234, 4256),
     (235, 4256), (236, 4256), (237, 4256), (238, 4256), (239, 4256),
     (240, 4256), (241, 4256), (242, 4256), (243, 4256), (244, 4256),
     (245, 4256), (246, 4256), (247, 4256), (248, 4256), (249, 4256),
     (250, 4256), (251, 4256), (252, 4256), (253, 4256), (254, 4256),
     (255, 4256), (256, 4256), (0, 0), (0, 12260), (1, 4514),
     (2, 4514), (3, 4514), (4, 4514), (5, 4514), (6, 4514),
     (7, 4514), (8, 4514), (9, 4514), (10, 4514), (11, 4514),
     (12, 4514), (13, 4514), (14, 4514), (15, 4514), (16, 4514),
     (17, 4514), (18, 4514), (19, 4514), (20, 4514), (21, 4514),
     (22, 4514), (23, 4514), (24, 4514), (25, 4514), (26, 4514),
     (27, 4514), (28, 4514), (29, 4514), (30, 4514), (31, 4514),
     (32, 4514), (33, 4514), (34, 4514), (35, 4514), (36, 4514)]"

definition yy_transition_52 :: "yy_trans_info list" where
  "yy_transition_52 = [
     (37, 4514), (38, 4514), (39, 1090), (40, 4514), (41, 4514),
     (42, 4514), (43, 4514), (44, 4514), (45, 4514), (46, 4514),
     (47, 4514), (48, 4514), (49, 4514), (50, 4514), (51, 4514),
     (52, 4514), (53, 4514), (54, 4514), (55, 4514), (56, 4514),
     (57, 4514), (58, 4514), (59, 4514), (60, 4514), (61, 4514),
     (62, 4514), (63, 4514), (64, 4514), (65, 4514), (66, 4514),
     (67, 4514), (68, 4514), (69, 4514), (70, 4514), (71, 4514),
     (72, 4514), (73, 4514), (74, 4514), (75, 4514), (76, 4514),
     (77, 4514), (78, 4514), (79, 4514), (80, 4514), (81, 4514),
     (82, 4514), (83, 4514), (84, 4514), (85, 4514), (86, 4514),
     (87, 4514), (88, 4514), (89, 4514), (90, 4514), (91, 4514),
     (92, 4514), (93, 4514), (94, 4514), (95, 4514), (96, 4514),
     (97, 4514), (98, 4514), (99, 4514), (100, 4514), (101, 4514),
     (102, 4514), (103, 4514), (104, 4514), (105, 4514), (106, 4514),
     (107, 4514), (108, 4514), (109, 4514), (110, 4514), (111, 4514),
     (112, 4514), (113, 4514), (114, 4514), (115, 4514), (116, 4514),
     (117, 4514), (118, 4514), (119, 4514), (120, 4514), (121, 4514),
     (122, 4514), (123, 4514), (124, 4514), (125, 4514), (126, 4514),
     (127, 4514), (128, 4514), (129, 4514), (130, 4514), (131, 4514),
     (132, 4514), (133, 4514), (134, 4514), (135, 4514), (136, 4514)]"

definition yy_transition_53 :: "yy_trans_info list" where
  "yy_transition_53 = [
     (137, 4514), (138, 4514), (139, 4514), (140, 4514), (141, 4514),
     (142, 4514), (143, 4514), (144, 4514), (145, 4514), (146, 4514),
     (147, 4514), (148, 4514), (149, 4514), (150, 4514), (151, 4514),
     (152, 4514), (153, 4514), (154, 4514), (155, 4514), (156, 4514),
     (157, 4514), (158, 4514), (159, 4514), (160, 4514), (161, 4514),
     (162, 4514), (163, 4514), (164, 4514), (165, 4514), (166, 4514),
     (167, 4514), (168, 4514), (169, 4514), (170, 4514), (171, 4514),
     (172, 4514), (173, 4514), (174, 4514), (175, 4514), (176, 4514),
     (177, 4514), (178, 4514), (179, 4514), (180, 4514), (181, 4514),
     (182, 4514), (183, 4514), (184, 4514), (185, 4514), (186, 4514),
     (187, 4514), (188, 4514), (189, 4514), (190, 4514), (191, 4514),
     (192, 4514), (193, 4514), (194, 4514), (195, 4514), (196, 4514),
     (197, 4514), (198, 4514), (199, 4514), (200, 4514), (201, 4514),
     (202, 4514), (203, 4514), (204, 4514), (205, 4514), (206, 4514),
     (207, 4514), (208, 4514), (209, 4514), (210, 4514), (211, 4514),
     (212, 4514), (213, 4514), (214, 4514), (215, 4514), (216, 4514),
     (217, 4514), (218, 4514), (219, 4514), (220, 4514), (221, 4514),
     (222, 4514), (223, 4514), (224, 4514), (225, 4514), (226, 4514),
     (227, 4514), (228, 4514), (229, 4514), (230, 4514), (231, 4514),
     (232, 4514), (233, 4514), (234, 4514), (235, 4514), (236, 4514)]"

definition yy_transition_54 :: "yy_trans_info list" where
  "yy_transition_54 = [
     (237, 4514), (238, 4514), (239, 4514), (240, 4514), (241, 4514),
     (242, 4514), (243, 4514), (244, 4514), (245, 4514), (246, 4514),
     (247, 4514), (248, 4514), (249, 4514), (250, 4514), (251, 4514),
     (252, 4514), (253, 4514), (254, 4514), (255, 4514), (256, 4514),
     (0, 0), (0, 12002), (1, 4256), (2, 4256), (3, 4256),
     (4, 4256), (5, 4256), (6, 4256), (7, 4256), (8, 4256),
     (9, 4256), (10, 4256), (11, 4256), (12, 4256), (13, 4256),
     (14, 4256), (15, 4256), (16, 4256), (17, 4256), (18, 4256),
     (19, 4256), (20, 4256), (21, 4256), (22, 4256), (23, 4256),
     (24, 4256), (25, 4256), (26, 4256), (27, 4256), (28, 4256),
     (29, 4256), (30, 4256), (31, 4256), (32, 4256), (33, 4256),
     (34, 4256), (35, 4256), (36, 4256), (37, 4256), (38, 4256),
     (39, 832), (40, 4256), (41, 4256), (42, 4256), (43, 4256),
     (44, 4256), (45, 4256), (46, 4256), (47, 4256), (48, 4256),
     (49, 4256), (50, 4256), (51, 4256), (52, 4256), (53, 4256),
     (54, 4256), (55, 4256), (56, 4256), (57, 4256), (58, 4256),
     (59, 4256), (60, 4256), (61, 4256), (62, 4256), (63, 4256),
     (64, 4256), (65, 4256), (66, 4256), (67, 4256), (68, 4256),
     (69, 4256), (70, 4256), (71, 4256), (72, 4256), (73, 4256),
     (74, 4256), (75, 4256), (76, 4256), (77, 4256), (78, 4256)]"

definition yy_transition_55 :: "yy_trans_info list" where
  "yy_transition_55 = [
     (79, 4256), (80, 4256), (81, 4256), (82, 4256), (83, 4256),
     (84, 4256), (85, 4256), (86, 4256), (87, 4256), (88, 4256),
     (89, 4256), (90, 4256), (91, 4256), (92, 4256), (93, 4256),
     (94, 4256), (95, 4256), (96, 4256), (97, 4256), (98, 4256),
     (99, 4256), (100, 4256), (101, 4256), (102, 4256), (103, 4256),
     (104, 4256), (105, 4256), (106, 4256), (107, 4256), (108, 4256),
     (109, 4256), (110, 4256), (111, 4256), (112, 4256), (113, 4256),
     (114, 4256), (115, 4256), (116, 4256), (117, 4256), (118, 4256),
     (119, 4256), (120, 4256), (121, 4256), (122, 4256), (123, 4256),
     (124, 4256), (125, 4256), (126, 4256), (127, 4256), (128, 4256),
     (129, 4256), (130, 4256), (131, 4256), (132, 4256), (133, 4256),
     (134, 4256), (135, 4256), (136, 4256), (137, 4256), (138, 4256),
     (139, 4256), (140, 4256), (141, 4256), (142, 4256), (143, 4256),
     (144, 4256), (145, 4256), (146, 4256), (147, 4256), (148, 4256),
     (149, 4256), (150, 4256), (151, 4256), (152, 4256), (153, 4256),
     (154, 4256), (155, 4256), (156, 4256), (157, 4256), (158, 4256),
     (159, 4256), (160, 4256), (161, 4256), (162, 4256), (163, 4256),
     (164, 4256), (165, 4256), (166, 4256), (167, 4256), (168, 4256),
     (169, 4256), (170, 4256), (171, 4256), (172, 4256), (173, 4256),
     (174, 4256), (175, 4256), (176, 4256), (177, 4256), (178, 4256)]"

definition yy_transition_56 :: "yy_trans_info list" where
  "yy_transition_56 = [
     (179, 4256), (180, 4256), (181, 4256), (182, 4256), (183, 4256),
     (184, 4256), (185, 4256), (186, 4256), (187, 4256), (188, 4256),
     (189, 4256), (190, 4256), (191, 4256), (192, 4256), (193, 4256),
     (194, 4256), (195, 4256), (196, 4256), (197, 4256), (198, 4256),
     (199, 4256), (200, 4256), (201, 4256), (202, 4256), (203, 4256),
     (204, 4256), (205, 4256), (206, 4256), (207, 4256), (208, 4256),
     (209, 4256), (210, 4256), (211, 4256), (212, 4256), (213, 4256),
     (214, 4256), (215, 4256), (216, 4256), (217, 4256), (218, 4256),
     (219, 4256), (220, 4256), (221, 4256), (222, 4256), (223, 4256),
     (224, 4256), (225, 4256), (226, 4256), (227, 4256), (228, 4256),
     (229, 4256), (230, 4256), (231, 4256), (232, 4256), (233, 4256),
     (234, 4256), (235, 4256), (236, 4256), (237, 4256), (238, 4256),
     (239, 4256), (240, 4256), (241, 4256), (242, 4256), (243, 4256),
     (244, 4256), (245, 4256), (246, 4256), (247, 4256), (248, 4256),
     (249, 4256), (250, 4256), (251, 4256), (252, 4256), (253, 4256),
     (254, 4256), (255, 4256), (256, 4256), (0, 0), (0, 11744),
     (1, 593), (2, 593), (3, 593), (4, 593), (5, 593),
     (6, 593), (7, 593), (8, 593), (9, 593), (10, 597),
     (11, 593), (12, 593), (13, 593), (14, 593), (15, 593),
     (16, 593), (17, 593), (18, 593), (19, 593), (20, 593)]"

definition yy_transition_57 :: "yy_trans_info list" where
  "yy_transition_57 = [
     (21, 593), (22, 593), (23, 593), (24, 593), (25, 593),
     (26, 593), (27, 593), (28, 593), (29, 593), (30, 593),
     (31, 593), (32, 593), (33, 593), (34, 593), (35, 593),
     (36, 593), (37, 593), (38, 593), (39, 593), (40, 593),
     (41, 593), (42, 593), (43, 593), (44, 593), (45, 593),
     (46, 593), (47, 593), (48, 593), (49, 593), (50, 593),
     (51, 593), (52, 593), (53, 593), (54, 593), (55, 593),
     (56, 593), (57, 593), (58, 593), (59, 593), (60, 593),
     (61, 593), (62, 593), (63, 593), (64, 593), (65, 593),
     (66, 593), (67, 593), (68, 593), (69, 593), (70, 593),
     (71, 593), (72, 593), (73, 593), (74, 593), (75, 593),
     (76, 593), (77, 593), (78, 593), (79, 593), (80, 593),
     (81, 593), (82, 593), (83, 593), (84, 593), (85, 593),
     (86, 593), (87, 593), (88, 593), (89, 593), (90, 593),
     (91, 593), (92, 637), (93, 593), (94, 593), (95, 593),
     (96, 593), (97, 593), (98, 593), (99, 593), (100, 593),
     (101, 593), (102, 593), (103, 593), (104, 593), (105, 593),
     (106, 593), (107, 593), (108, 593), (109, 593), (110, 593),
     (111, 593), (112, 593), (113, 593), (114, 593), (115, 593),
     (116, 593), (117, 593), (118, 593), (119, 593), (120, 593)]"

definition yy_transition_58 :: "yy_trans_info list" where
  "yy_transition_58 = [
     (121, 593), (122, 593), (123, 593), (124, 593), (125, 593),
     (126, 593), (127, 593), (128, 593), (129, 593), (130, 593),
     (131, 593), (132, 593), (133, 593), (134, 593), (135, 593),
     (136, 593), (137, 593), (138, 593), (139, 593), (140, 593),
     (141, 593), (142, 593), (143, 593), (144, 593), (145, 593),
     (146, 593), (147, 593), (148, 593), (149, 593), (150, 593),
     (151, 593), (152, 593), (153, 593), (154, 593), (155, 593),
     (156, 593), (157, 593), (158, 593), (159, 593), (160, 593),
     (161, 593), (162, 593), (163, 593), (164, 593), (165, 593),
     (166, 593), (167, 593), (168, 593), (169, 593), (170, 593),
     (171, 593), (172, 593), (173, 593), (174, 593), (175, 593),
     (176, 593), (177, 593), (178, 593), (179, 593), (180, 593),
     (181, 593), (182, 593), (183, 593), (184, 593), (185, 593),
     (186, 593), (187, 593), (188, 593), (189, 593), (190, 593),
     (191, 593), (192, 593), (193, 593), (194, 593), (195, 593),
     (196, 593), (197, 593), (198, 593), (199, 593), (200, 593),
     (201, 593), (202, 593), (203, 593), (204, 593), (205, 593),
     (206, 593), (207, 593), (208, 593), (209, 593), (210, 593),
     (211, 593), (212, 593), (213, 593), (214, 593), (215, 593),
     (216, 593), (217, 593), (218, 593), (219, 593), (220, 593)]"

definition yy_transition_59 :: "yy_trans_info list" where
  "yy_transition_59 = [
     (221, 593), (222, 593), (223, 593), (224, 593), (225, 593),
     (226, 593), (227, 593), (228, 593), (229, 593), (230, 593),
     (231, 593), (232, 593), (233, 593), (234, 593), (235, 593),
     (236, 593), (237, 593), (238, 593), (239, 593), (240, 593),
     (241, 593), (242, 593), (243, 593), (244, 593), (245, 593),
     (246, 593), (247, 593), (248, 593), (249, 593), (250, 593),
     (251, 593), (252, 593), (253, 593), (254, 593), (255, 593),
     (256, 593), (0, 0), (0, 11486), (1, 335), (2, 335),
     (3, 335), (4, 335), (5, 335), (6, 335), (7, 335),
     (8, 335), (9, 335), (10, 339), (11, 335), (12, 335),
     (13, 335), (14, 335), (15, 335), (16, 335), (17, 335),
     (18, 335), (19, 335), (20, 335), (21, 335), (22, 335),
     (23, 335), (24, 335), (25, 335), (26, 335), (27, 335),
     (28, 335), (29, 335), (30, 335), (31, 335), (32, 335),
     (33, 335), (34, 335), (35, 335), (36, 335), (37, 335),
     (38, 335), (39, 335), (40, 335), (41, 335), (42, 335),
     (43, 335), (44, 335), (45, 335), (46, 335), (47, 335),
     (48, 335), (49, 335), (50, 335), (51, 335), (52, 335),
     (53, 335), (54, 335), (55, 335), (56, 335), (57, 335),
     (58, 335), (59, 335), (60, 335), (61, 335), (62, 335)]"

definition yy_transition_60 :: "yy_trans_info list" where
  "yy_transition_60 = [
     (63, 335), (64, 335), (65, 335), (66, 335), (67, 335),
     (68, 335), (69, 335), (70, 335), (71, 335), (72, 335),
     (73, 335), (74, 335), (75, 335), (76, 335), (77, 335),
     (78, 335), (79, 335), (80, 335), (81, 335), (82, 335),
     (83, 335), (84, 335), (85, 335), (86, 335), (87, 335),
     (88, 335), (89, 335), (90, 335), (91, 335), (92, 379),
     (93, 335), (94, 335), (95, 335), (96, 335), (97, 335),
     (98, 335), (99, 335), (100, 335), (101, 335), (102, 335),
     (103, 335), (104, 335), (105, 335), (106, 335), (107, 335),
     (108, 335), (109, 335), (110, 335), (111, 335), (112, 335),
     (113, 335), (114, 335), (115, 335), (116, 335), (117, 335),
     (118, 335), (119, 335), (120, 335), (121, 335), (122, 335),
     (123, 335), (124, 335), (125, 335), (126, 335), (127, 335),
     (128, 335), (129, 335), (130, 335), (131, 335), (132, 335),
     (133, 335), (134, 335), (135, 335), (136, 335), (137, 335),
     (138, 335), (139, 335), (140, 335), (141, 335), (142, 335),
     (143, 335), (144, 335), (145, 335), (146, 335), (147, 335),
     (148, 335), (149, 335), (150, 335), (151, 335), (152, 335),
     (153, 335), (154, 335), (155, 335), (156, 335), (157, 335),
     (158, 335), (159, 335), (160, 335), (161, 335), (162, 335)]"

definition yy_transition_61 :: "yy_trans_info list" where
  "yy_transition_61 = [
     (163, 335), (164, 335), (165, 335), (166, 335), (167, 335),
     (168, 335), (169, 335), (170, 335), (171, 335), (172, 335),
     (173, 335), (174, 335), (175, 335), (176, 335), (177, 335),
     (178, 335), (179, 335), (180, 335), (181, 335), (182, 335),
     (183, 335), (184, 335), (185, 335), (186, 335), (187, 335),
     (188, 335), (189, 335), (190, 335), (191, 335), (192, 335),
     (193, 335), (194, 335), (195, 335), (196, 335), (197, 335),
     (198, 335), (199, 335), (200, 335), (201, 335), (202, 335),
     (203, 335), (204, 335), (205, 335), (206, 335), (207, 335),
     (208, 335), (209, 335), (210, 335), (211, 335), (212, 335),
     (213, 335), (214, 335), (215, 335), (216, 335), (217, 335),
     (218, 335), (219, 335), (220, 335), (221, 335), (222, 335),
     (223, 335), (224, 335), (225, 335), (226, 335), (227, 335),
     (228, 335), (229, 335), (230, 335), (231, 335), (232, 335),
     (233, 335), (234, 335), (235, 335), (236, 335), (237, 335),
     (238, 335), (239, 335), (240, 335), (241, 335), (242, 335),
     (243, 335), (244, 335), (245, 335), (246, 335), (247, 335),
     (248, 335), (249, 335), (250, 335), (251, 335), (252, 335),
     (253, 335), (254, 335), (255, 335), (256, 335), (0, 65),
     (0, 11228), (0, 1), (0, 11226), (0, 39), (0, 11224)]"

definition yy_transition_62 :: "yy_trans_info list" where
  "yy_transition_62 = [
     (0, 0), (0, 1), (0, 11221), (0, 56), (0, 11219),
     (0, 0), (9, 5098), (10, 5098), (0, 0), (12, 5098),
     (13, 5098), (9, 5093), (10, 5093), (0, 0), (12, 5093),
     (13, 5093), (0, 14), (0, 11206), (0, 55), (0, 11204),
     (0, 0), (0, 55), (0, 11201), (0, 17), (0, 11199),
     (0, 0), (0, 7), (0, 11196), (0, 0), (32, 5098),
     (0, 7), (0, 11192), (0, 0), (0, 0), (32, 5093),
     (0, 41), (0, 11187), (33, 5346), (0, 0), (35, 5346),
     (0, 0), (37, 5346), (38, 5346), (0, 56), (0, 11179),
     (0, 0), (42, 5346), (43, 5346), (0, 0), (45, 5346),
     (0, 0), (47, 5346), (0, 17), (0, 11170), (0, 20),
     (0, 11168), (0, 19), (0, 11166), (0, 0), (0, 17),
     (0, 11163), (0, 42), (0, 11161), (0, 0), (60, 5346),
     (61, 5357), (62, 5346), (63, 5346), (64, 5346), (42, 348),
     (34, 346), (0, 26), (0, 11151), (42, 7050), (47, 353),
     (0, 27), (0, 11147), (33, 5306), (0, 0), (35, 5306),
     (58, 100), (37, 5306), (38, 5306), (61, 102), (0, 0),
     (0, 0), (42, 5306), (43, 5306), (0, 0), (45, 5306),
     (0, 0), (47, 5306), (39, 331), (0, 0), (0, 0),
     (0, 0), (34, 320), (0, 0), (94, 5346), (39, 324)]"

definition yy_transition_63 :: "yy_trans_info list" where
  "yy_transition_63 = [
     (96, 5346), (0, 0), (0, 0), (0, 0), (60, 5306),
     (61, 5306), (62, 5306), (63, 5306), (64, 5306), (0, 65),
     (0, 11113), (0, 0), (0, 0), (0, 0), (0, 0),
     (0, 26), (0, 11107), (0, 33), (0, 11105), (0, 48),
     (0, 11103), (0, 47), (0, 11101), (0, 49), (0, 11099),
     (0, 0), (0, 0), (0, 0), (124, 5346), (0, 0),
     (126, 5346), (0, 0), (0, 0), (0, 0), (0, 0),
     (0, 0), (0, 0), (0, 0), (94, 5306), (0, 0),
     (96, 5306), (0, 0), (0, 64), (0, 11080), (0, 9),
     (0, 11078), (36, 8), (0, 15), (0, 11075), (0, 0),
     (0, 0), (0, 0), (0, 0), (0, 0), (0, 0),
     (0, 0), (0, 0), (0, 0), (48, 5268), (49, 5268),
     (50, 5268), (51, 5268), (52, 5268), (53, 5268), (54, 5268),
     (55, 5268), (56, 5268), (57, 5268), (124, 5306), (0, 0),
     (126, 5306), (0, 46), (0, 11051), (0, 13), (0, 11049),
     (65, 5331), (66, 5331), (67, 5331), (68, 5331), (69, 5331),
     (70, 5331), (71, 5331), (72, 5331), (73, 5331), (74, 5331),
     (75, 5331), (76, 5331), (77, 5331), (78, 5331), (79, 5331),
     (80, 5331), (81, 5331), (82, 5331), (83, 5331), (84, 5331),
     (85, 5331), (86, 5331), (87, 5331), (88, 5331), (89, 5331)]"

definition yy_transition_64 :: "yy_trans_info list" where
  "yy_transition_64 = [
     (90, 5331), (85, 8881), (0, 0), (0, 0), (0, 0),
     (95, 5331), (63, 0), (97, 5331), (98, 5331), (99, 5331),
     (100, 5331), (101, 5331), (102, 5331), (103, 5331), (104, 5331),
     (105, 5331), (106, 5331), (107, 5331), (108, 5331), (109, 5331),
     (110, 5331), (111, 5331), (112, 5331), (113, 5331), (114, 5331),
     (115, 5331), (116, 5331), (117, 5331), (118, 5331), (119, 5331),
     (120, 5331), (121, 5331), (122, 5331), (117, 8904), (0, 0),
     (63, -29), (0, 0), (0, 0), (128, 5331), (129, 5331),
     (130, 5331), (131, 5331), (132, 5331), (133, 5331), (134, 5331),
     (135, 5331), (136, 5331), (137, 5331), (138, 5331), (139, 5331),
     (140, 5331), (141, 5331), (142, 5331), (143, 5331), (144, 5331),
     (145, 5331), (146, 5331), (147, 5331), (148, 5331), (149, 5331),
     (150, 5331), (151, 5331), (152, 5331), (153, 5331), (154, 5331),
     (155, 5331), (156, 5331), (157, 5331), (158, 5331), (159, 5331),
     (160, 5331), (161, 5331), (162, 5331), (163, 5331), (164, 5331),
     (165, 5331), (166, 5331), (167, 5331), (168, 5331), (169, 5331),
     (170, 5331), (171, 5331), (172, 5331), (173, 5331), (174, 5331),
     (175, 5331), (176, 5331), (177, 5331), (178, 5331), (179, 5331),
     (180, 5331), (181, 5331), (182, 5331), (183, 5331), (184, 5331),
     (185, 5331), (186, 5331), (187, 5331), (188, 5331), (189, 5331)]"

definition yy_transition_65 :: "yy_trans_info list" where
  "yy_transition_65 = [
     (190, 5331), (191, 5331), (192, 5331), (193, 5331), (194, 5331),
     (195, 5331), (196, 5331), (197, 5331), (198, 5331), (199, 5331),
     (200, 5331), (201, 5331), (202, 5331), (203, 5331), (204, 5331),
     (205, 5331), (206, 5331), (207, 5331), (208, 5331), (209, 5331),
     (210, 5331), (211, 5331), (212, 5331), (213, 5331), (214, 5331),
     (215, 5331), (216, 5331), (217, 5331), (218, 5331), (219, 5331),
     (220, 5331), (221, 5331), (222, 5331), (223, 5331), (224, 5331),
     (225, 5331), (226, 5331), (227, 5331), (228, 5331), (229, 5331),
     (230, 5331), (231, 5331), (232, 5331), (233, 5331), (234, 5331),
     (235, 5331), (236, 5331), (237, 5331), (238, 5331), (239, 5331),
     (240, 5331), (241, 5331), (242, 5331), (243, 5331), (244, 5331),
     (245, 5331), (246, 5331), (247, 5331), (248, 5331), (249, 5331),
     (250, 5331), (251, 5331), (252, 5331), (253, 5331), (254, 5331),
     (255, 5331), (0, 55), (0, 10856), (0, 45), (0, 10854),
     (0, 12), (0, 10852), (0, 0), (0, 0), (0, 8),
     (0, 10848), (0, 0), (0, 55), (0, 10845), (0, 5),
     (0, 10843), (0, 43), (0, 10841), (0, 21), (0, 10839),
     (0, 19), (0, 10837), (0, 18), (0, 10835), (0, 29),
     (0, 10833), (0, 35), (0, 10831), (0, 60), (0, 10829),
     (0, 0), (0, 55), (0, 10826), (0, 40), (0, 10824)]"

definition yy_transition_66 :: "yy_trans_info list" where
  "yy_transition_66 = [
     (33, 4983), (0, 0), (35, 4983), (34, 30), (37, 4983),
     (38, 4983), (0, 16), (0, 10816), (39, 38), (42, 4983),
     (43, 4983), (33, 4972), (45, 4983), (35, 4972), (47, 4983),
     (37, 4972), (38, 4972), (42, 0), (0, 30), (0, 10804),
     (42, 4972), (43, 4972), (47, 5), (45, 5320), (0, 0),
     (47, 4972), (0, 0), (60, 4983), (61, 4983), (62, 4983),
     (63, 4983), (64, 4983), (0, 31), (0, 10790), (0, 24),
     (0, 10788), (0, 25), (0, 10786), (60, 4972), (61, 4972),
     (62, 4972), (63, 4972), (64, 4972), (46, -277), (0, 0),
     (48, 5559), (49, 5559), (50, 5559), (51, 5559), (52, 5559),
     (53, 5559), (54, 5559), (55, 5559), (56, 5559), (57, 5559),
     (0, 0), (0, 0), (0, 0), (0, 0), (0, 0),
     (0, 0), (94, 4983), (0, 0), (96, 4983), (0, 0),
     (0, 0), (0, 0), (0, 55), (0, 10755), (0, 58),
     (0, 10753), (0, 0), (94, 4972), (0, 0), (96, 4972),
     (0, 0), (0, 0), (0, 0), (0, 0), (0, 0),
     (0, 0), (0, 0), (0, 0), (0, 0), (0, 0),
     (0, 0), (0, 0), (0, 0), (0, 0), (0, 0),
     (0, 0), (124, 4983), (0, 0), (126, 4983), (0, 0),
     (0, 0), (0, 0), (0, 0), (0, 0), (0, 0)]"

definition yy_transition_67 :: "yy_trans_info list" where
  "yy_transition_67 = [
     (0, 0), (33, 4882), (124, 4972), (35, 4882), (126, 4972),
     (37, 4882), (38, 4882), (0, 0), (0, 0), (0, 0),
     (42, 5513), (43, 4882), (0, 0), (45, 4882), (0, 0),
     (47, 4882), (46, 5513), (0, 0), (48, 5577), (49, 5577),
     (50, 5577), (51, 5577), (52, 5577), (53, 5577), (54, 5577),
     (55, 5577), (56, 5577), (57, 5577), (60, 4882), (61, 4882),
     (62, 4882), (63, 4882), (64, 4882), (0, 0), (0, 55),
     (0, 10688), (0, 0), (0, 0), (0, 0), (69, 5599),
     (0, 0), (0, 0), (0, 0), (0, 0), (0, 0),
     (0, 55), (0, 10677), (0, 0), (0, 0), (0, 0),
     (0, 0), (0, 0), (0, 0), (0, 0), (0, 0),
     (0, 0), (0, 0), (0, 0), (0, 0), (0, 0),
     (0, 0), (0, 0), (94, 4882), (0, 0), (96, 4882),
     (0, 0), (0, 0), (0, 0), (33, 4815), (0, 0),
     (35, 4815), (101, 5599), (37, 4815), (38, 4815), (0, 0),
     (0, 0), (0, 0), (42, 4815), (43, 4815), (33, 4804),
     (45, 4815), (35, 4804), (47, 4815), (37, 4804), (38, 4804),
     (0, 0), (0, 0), (0, 0), (42, 4804), (43, 4804),
     (0, 0), (45, 4804), (124, 4882), (47, 4804), (126, 4882),
     (60, 4815), (61, 5574), (62, 5615), (63, 4815), (64, 4815)]"

definition yy_transition_68 :: "yy_trans_info list" where
  "yy_transition_68 = [
     (0, 0), (0, 0), (0, 0), (0, 0), (0, 0),
     (0, 0), (60, 4804), (61, 4804), (62, 5671), (63, 4804),
     (64, 4804), (0, 0), (0, 55), (0, 10610), (0, 0),
     (0, 0), (0, 0), (0, 0), (0, 0), (0, 0),
     (0, 0), (0, 0), (0, 0), (0, 0), (0, 0),
     (0, 0), (0, 0), (0, 0), (0, 0), (94, 4815),
     (0, 0), (96, 4815), (0, 0), (0, 0), (0, 0),
     (0, 0), (0, 0), (0, 0), (0, 0), (0, 0),
     (94, 4804), (0, 0), (96, 4804), (0, 0), (0, 64),
     (0, 10578), (33, 4737), (0, 0), (35, 4737), (0, 0),
     (37, 4737), (38, 4737), (0, 0), (0, 0), (0, 0),
     (42, 4737), (43, 4737), (0, 0), (45, 4737), (124, 4815),
     (47, 4737), (126, 4815), (0, 0), (0, 0), (0, 0),
     (0, 0), (0, 0), (0, 0), (0, 0), (0, 0),
     (124, 4804), (0, 0), (126, 4804), (60, 4737), (61, 5615),
     (62, 4737), (63, 4737), (64, 4737), (0, 0), (0, 0),
     (0, 0), (36, 5663), (0, 0), (0, 0), (0, 0),
     (0, 0), (0, 0), (0, 0), (0, 0), (0, 0),
     (0, 0), (0, 0), (0, 0), (48, 5663), (49, 5663),
     (50, 5663), (51, 5663), (52, 5663), (53, 5663), (54, 5663)]"

definition yy_transition_69 :: "yy_trans_info list" where
  "yy_transition_69 = [
     (55, 5663), (56, 5663), (57, 5663), (0, 0), (0, 0),
     (0, 0), (0, 0), (94, 4737), (63, -502), (96, 4737),
     (65, 5663), (66, 5663), (67, 5663), (68, 5663), (69, 5663),
     (70, 5663), (71, 5663), (72, 5663), (73, 5663), (74, 5663),
     (75, 5663), (76, 5663), (77, 5663), (78, 5663), (79, 5663),
     (80, 5663), (81, 5663), (82, 5663), (83, 5663), (84, 5663),
     (85, 5663), (86, 5663), (87, 5663), (88, 5663), (89, 5663),
     (90, 5663), (0, 0), (124, 4737), (0, 0), (126, 4737),
     (95, 5663), (0, 0), (97, 5663), (98, 5663), (99, 5663),
     (100, 5663), (101, 5663), (102, 5663), (103, 5663), (104, 5663),
     (105, 5663), (106, 5663), (107, 5663), (108, 5663), (109, 5663),
     (110, 5663), (111, 5663), (112, 5663), (113, 5663), (114, 5663),
     (115, 5663), (116, 5663), (117, 5663), (118, 5663), (119, 5663),
     (120, 5663), (121, 5663), (122, 5663), (0, 0), (0, 0),
     (0, 0), (0, 0), (0, 0), (128, 5663), (129, 5663),
     (130, 5663), (131, 5663), (132, 5663), (133, 5663), (134, 5663),
     (135, 5663), (136, 5663), (137, 5663), (138, 5663), (139, 5663),
     (140, 5663), (141, 5663), (142, 5663), (143, 5663), (144, 5663),
     (145, 5663), (146, 5663), (147, 5663), (148, 5663), (149, 5663),
     (150, 5663), (151, 5663), (152, 5663), (153, 5663), (154, 5663)]"

definition yy_transition_70 :: "yy_trans_info list" where
  "yy_transition_70 = [
     (155, 5663), (156, 5663), (157, 5663), (158, 5663), (159, 5663),
     (160, 5663), (161, 5663), (162, 5663), (163, 5663), (164, 5663),
     (165, 5663), (166, 5663), (167, 5663), (168, 5663), (169, 5663),
     (170, 5663), (171, 5663), (172, 5663), (173, 5663), (174, 5663),
     (175, 5663), (176, 5663), (177, 5663), (178, 5663), (179, 5663),
     (180, 5663), (181, 5663), (182, 5663), (183, 5663), (184, 5663),
     (185, 5663), (186, 5663), (187, 5663), (188, 5663), (189, 5663),
     (190, 5663), (191, 5663), (192, 5663), (193, 5663), (194, 5663),
     (195, 5663), (196, 5663), (197, 5663), (198, 5663), (199, 5663),
     (200, 5663), (201, 5663), (202, 5663), (203, 5663), (204, 5663),
     (205, 5663), (206, 5663), (207, 5663), (208, 5663), (209, 5663),
     (210, 5663), (211, 5663), (212, 5663), (213, 5663), (214, 5663),
     (215, 5663), (216, 5663), (217, 5663), (218, 5663), (219, 5663),
     (220, 5663), (221, 5663), (222, 5663), (223, 5663), (224, 5663),
     (225, 5663), (226, 5663), (227, 5663), (228, 5663), (229, 5663),
     (230, 5663), (231, 5663), (232, 5663), (233, 5663), (234, 5663),
     (235, 5663), (236, 5663), (237, 5663), (238, 5663), (239, 5663),
     (240, 5663), (241, 5663), (242, 5663), (243, 5663), (244, 5663),
     (245, 5663), (246, 5663), (247, 5663), (248, 5663), (249, 5663),
     (250, 5663), (251, 5663), (252, 5663), (253, 5663), (254, 5663)]"

definition yy_transition_71 :: "yy_trans_info list" where
  "yy_transition_71 = [
     (255, 5663), (0, 64), (0, 10321), (0, 0), (0, 0),
     (0, 0), (0, 0), (0, 0), (0, 0), (0, 0),
     (0, 0), (0, 0), (0, 0), (0, 0), (0, 0),
     (0, 0), (0, 0), (0, 0), (0, 0), (0, 0),
     (0, 0), (0, 0), (0, 0), (0, 0), (0, 0),
     (0, 0), (0, 0), (0, 0), (0, 0), (0, 0),
     (0, 0), (0, 0), (0, 0), (0, 0), (0, 0),
     (0, 0), (0, 0), (0, 0), (36, 5406), (0, 0),
     (0, 0), (39, -757), (0, 0), (0, 0), (0, 0),
     (0, 0), (0, 0), (0, 0), (0, 0), (0, 0),
     (48, 5406), (49, 5406), (50, 5406), (51, 5406), (52, 5406),
     (53, 5406), (54, 5406), (55, 5406), (56, 5406), (57, 5406),
     (0, 0), (0, 0), (0, 0), (0, 0), (0, 0),
     (63, -759), (0, 0), (65, 5406), (66, 5406), (67, 5406),
     (68, 5406), (69, 5406), (70, 5406), (71, 5406), (72, 5406),
     (73, 5406), (74, 5406), (75, 5406), (76, 5406), (77, 5406),
     (78, 5406), (79, 5406), (80, 5406), (81, 5406), (82, 5406),
     (83, 5406), (84, 5406), (85, 5406), (86, 5406), (87, 5406),
     (88, 5406), (89, 5406), (90, 5406), (0, 0), (0, 0),
     (0, 0), (0, 0), (95, 5406), (0, 0), (97, 5406)]"

definition yy_transition_72 :: "yy_trans_info list" where
  "yy_transition_72 = [
     (98, 5406), (99, 5406), (100, 5406), (101, 5406), (102, 5406),
     (103, 5406), (104, 5406), (105, 5406), (106, 5406), (107, 5406),
     (108, 5406), (109, 5406), (110, 5406), (111, 5406), (112, 5406),
     (113, 5406), (114, 5406), (115, 5406), (116, 5406), (117, 5406),
     (118, 5406), (119, 5406), (120, 5406), (121, 5406), (122, 5406),
     (0, 0), (0, 0), (0, 0), (0, 0), (0, 0),
     (128, 5406), (129, 5406), (130, 5406), (131, 5406), (132, 5406),
     (133, 5406), (134, 5406), (135, 5406), (136, 5406), (137, 5406),
     (138, 5406), (139, 5406), (140, 5406), (141, 5406), (142, 5406),
     (143, 5406), (144, 5406), (145, 5406), (146, 5406), (147, 5406),
     (148, 5406), (149, 5406), (150, 5406), (151, 5406), (152, 5406),
     (153, 5406), (154, 5406), (155, 5406), (156, 5406), (157, 5406),
     (158, 5406), (159, 5406), (160, 5406), (161, 5406), (162, 5406),
     (163, 5406), (164, 5406), (165, 5406), (166, 5406), (167, 5406),
     (168, 5406), (169, 5406), (170, 5406), (171, 5406), (172, 5406),
     (173, 5406), (174, 5406), (175, 5406), (176, 5406), (177, 5406),
     (178, 5406), (179, 5406), (180, 5406), (181, 5406), (182, 5406),
     (183, 5406), (184, 5406), (185, 5406), (186, 5406), (187, 5406),
     (188, 5406), (189, 5406), (190, 5406), (191, 5406), (192, 5406),
     (193, 5406), (194, 5406), (195, 5406), (196, 5406), (197, 5406)]"

definition yy_transition_73 :: "yy_trans_info list" where
  "yy_transition_73 = [
     (198, 5406), (199, 5406), (200, 5406), (201, 5406), (202, 5406),
     (203, 5406), (204, 5406), (205, 5406), (206, 5406), (207, 5406),
     (208, 5406), (209, 5406), (210, 5406), (211, 5406), (212, 5406),
     (213, 5406), (214, 5406), (215, 5406), (216, 5406), (217, 5406),
     (218, 5406), (219, 5406), (220, 5406), (221, 5406), (222, 5406),
     (223, 5406), (224, 5406), (225, 5406), (226, 5406), (227, 5406),
     (228, 5406), (229, 5406), (230, 5406), (231, 5406), (232, 5406),
     (233, 5406), (234, 5406), (235, 5406), (236, 5406), (237, 5406),
     (238, 5406), (239, 5406), (240, 5406), (241, 5406), (242, 5406),
     (243, 5406), (244, 5406), (245, 5406), (246, 5406), (247, 5406),
     (248, 5406), (249, 5406), (250, 5406), (251, 5406), (252, 5406),
     (253, 5406), (254, 5406), (255, 5406), (0, 64), (0, 10064),
     (0, 0), (0, 0), (0, 0), (0, 0), (0, 0),
     (0, 0), (0, 0), (0, 0), (0, 0), (0, 0),
     (0, 0), (0, 0), (0, 0), (0, 0), (0, 0),
     (0, 0), (0, 0), (0, 0), (0, 0), (0, 0),
     (0, 0), (0, 0), (0, 0), (0, 0), (0, 0),
     (0, 0), (0, 0), (0, 0), (0, 0), (0, 0),
     (0, 0), (0, 0), (0, 0), (0, 0), (0, 0),
     (36, 5149), (0, 0), (0, 0), (39, -1011), (0, 0)]"

definition yy_transition_74 :: "yy_trans_info list" where
  "yy_transition_74 = [
     (0, 0), (0, 0), (0, 0), (0, 0), (0, 0),
     (0, 0), (0, 0), (48, 5149), (49, 5149), (50, 5149),
     (51, 5149), (52, 5149), (53, 5149), (54, 5149), (55, 5149),
     (56, 5149), (57, 5149), (0, 0), (0, 0), (0, 0),
     (0, 0), (0, 0), (63, -987), (0, 0), (65, 5149),
     (66, 5149), (67, 5149), (68, 5149), (69, 5149), (70, 5149),
     (71, 5149), (72, 5149), (73, 5149), (74, 5149), (75, 5149),
     (76, 5149), (77, 5149), (78, 5149), (79, 5149), (80, 5149),
     (81, 5149), (82, 5149), (83, 5149), (84, 5149), (85, 5149),
     (86, 5149), (87, 5149), (88, 5149), (89, 5149), (90, 5149),
     (0, 0), (0, 0), (0, 0), (0, 0), (95, 5149),
     (0, 0), (97, 5149), (98, 5149), (99, 5149), (100, 5149),
     (101, 5149), (102, 5149), (103, 5149), (104, 5149), (105, 5149),
     (106, 5149), (107, 5149), (108, 5149), (109, 5149), (110, 5149),
     (111, 5149), (112, 5149), (113, 5149), (114, 5149), (115, 5149),
     (116, 5149), (117, 5149), (118, 5149), (119, 5149), (120, 5149),
     (121, 5149), (122, 5149), (0, 0), (0, 0), (0, 0),
     (0, 0), (0, 0), (128, 5149), (129, 5149), (130, 5149),
     (131, 5149), (132, 5149), (133, 5149), (134, 5149), (135, 5149),
     (136, 5149), (137, 5149), (138, 5149), (139, 5149), (140, 5149)]"

definition yy_transition_75 :: "yy_trans_info list" where
  "yy_transition_75 = [
     (141, 5149), (142, 5149), (143, 5149), (144, 5149), (145, 5149),
     (146, 5149), (147, 5149), (148, 5149), (149, 5149), (150, 5149),
     (151, 5149), (152, 5149), (153, 5149), (154, 5149), (155, 5149),
     (156, 5149), (157, 5149), (158, 5149), (159, 5149), (160, 5149),
     (161, 5149), (162, 5149), (163, 5149), (164, 5149), (165, 5149),
     (166, 5149), (167, 5149), (168, 5149), (169, 5149), (170, 5149),
     (171, 5149), (172, 5149), (173, 5149), (174, 5149), (175, 5149),
     (176, 5149), (177, 5149), (178, 5149), (179, 5149), (180, 5149),
     (181, 5149), (182, 5149), (183, 5149), (184, 5149), (185, 5149),
     (186, 5149), (187, 5149), (188, 5149), (189, 5149), (190, 5149),
     (191, 5149), (192, 5149), (193, 5149), (194, 5149), (195, 5149),
     (196, 5149), (197, 5149), (198, 5149), (199, 5149), (200, 5149),
     (201, 5149), (202, 5149), (203, 5149), (204, 5149), (205, 5149),
     (206, 5149), (207, 5149), (208, 5149), (209, 5149), (210, 5149),
     (211, 5149), (212, 5149), (213, 5149), (214, 5149), (215, 5149),
     (216, 5149), (217, 5149), (218, 5149), (219, 5149), (220, 5149),
     (221, 5149), (222, 5149), (223, 5149), (224, 5149), (225, 5149),
     (226, 5149), (227, 5149), (228, 5149), (229, 5149), (230, 5149),
     (231, 5149), (232, 5149), (233, 5149), (234, 5149), (235, 5149),
     (236, 5149), (237, 5149), (238, 5149), (239, 5149), (240, 5149)]"

definition yy_transition_76 :: "yy_trans_info list" where
  "yy_transition_76 = [
     (241, 5149), (242, 5149), (243, 5149), (244, 5149), (245, 5149),
     (246, 5149), (247, 5149), (248, 5149), (249, 5149), (250, 5149),
     (251, 5149), (252, 5149), (253, 5149), (254, 5149), (255, 5149),
     (0, 64), (0, 9807), (0, 0), (0, 0), (0, 0),
     (0, 0), (0, 0), (0, 0), (0, 0), (0, 0),
     (0, 0), (0, 0), (0, 0), (0, 0), (0, 0),
     (0, 0), (0, 0), (0, 0), (0, 0), (0, 0),
     (0, 0), (0, 0), (0, 0), (0, 0), (0, 0),
     (0, 0), (0, 0), (0, 0), (0, 0), (0, 0),
     (0, 0), (0, 0), (0, 0), (0, 0), (0, 0),
     (0, 0), (0, 0), (36, 4892), (0, 0), (0, 0),
     (39, -1242), (0, 0), (0, 0), (0, 0), (0, 0),
     (0, 0), (0, 0), (0, 0), (0, 0), (48, 4892),
     (49, 4892), (50, 4892), (51, 4892), (52, 4892), (53, 4892),
     (54, 4892), (55, 4892), (56, 4892), (57, 4892), (0, 0),
     (0, 0), (0, 0), (0, 0), (0, 0), (63, -1273),
     (0, 0), (65, 4892), (66, 4892), (67, 4892), (68, 4892),
     (69, 4892), (70, 4892), (71, 4892), (72, 4892), (73, 4892),
     (74, 4892), (75, 4892), (76, 4892), (77, 4892), (78, 4892),
     (79, 4892), (80, 4892), (81, 4892), (82, 4892), (83, 4892)]"

definition yy_transition_77 :: "yy_trans_info list" where
  "yy_transition_77 = [
     (84, 4892), (85, 4892), (86, 4892), (87, 4892), (88, 4892),
     (89, 4892), (90, 4892), (0, 0), (0, 0), (0, 0),
     (0, 0), (95, 4892), (0, 0), (97, 4892), (98, 4892),
     (99, 4892), (100, 4892), (101, 4892), (102, 4892), (103, 4892),
     (104, 4892), (105, 4892), (106, 4892), (107, 4892), (108, 4892),
     (109, 4892), (110, 4892), (111, 4892), (112, 4892), (113, 4892),
     (114, 4892), (115, 4892), (116, 4892), (117, 4892), (118, 4892),
     (119, 4892), (120, 4892), (121, 4892), (122, 4892), (0, 0),
     (0, 0), (0, 0), (0, 0), (0, 0), (128, 4892),
     (129, 4892), (130, 4892), (131, 4892), (132, 4892), (133, 4892),
     (134, 4892), (135, 4892), (136, 4892), (137, 4892), (138, 4892),
     (139, 4892), (140, 4892), (141, 4892), (142, 4892), (143, 4892),
     (144, 4892), (145, 4892), (146, 4892), (147, 4892), (148, 4892),
     (149, 4892), (150, 4892), (151, 4892), (152, 4892), (153, 4892),
     (154, 4892), (155, 4892), (156, 4892), (157, 4892), (158, 4892),
     (159, 4892), (160, 4892), (161, 4892), (162, 4892), (163, 4892),
     (164, 4892), (165, 4892), (166, 4892), (167, 4892), (168, 4892),
     (169, 4892), (170, 4892), (171, 4892), (172, 4892), (173, 4892),
     (174, 4892), (175, 4892), (176, 4892), (177, 4892), (178, 4892),
     (179, 4892), (180, 4892), (181, 4892), (182, 4892), (183, 4892)]"

definition yy_transition_78 :: "yy_trans_info list" where
  "yy_transition_78 = [
     (184, 4892), (185, 4892), (186, 4892), (187, 4892), (188, 4892),
     (189, 4892), (190, 4892), (191, 4892), (192, 4892), (193, 4892),
     (194, 4892), (195, 4892), (196, 4892), (197, 4892), (198, 4892),
     (199, 4892), (200, 4892), (201, 4892), (202, 4892), (203, 4892),
     (204, 4892), (205, 4892), (206, 4892), (207, 4892), (208, 4892),
     (209, 4892), (210, 4892), (211, 4892), (212, 4892), (213, 4892),
     (214, 4892), (215, 4892), (216, 4892), (217, 4892), (218, 4892),
     (219, 4892), (220, 4892), (221, 4892), (222, 4892), (223, 4892),
     (224, 4892), (225, 4892), (226, 4892), (227, 4892), (228, 4892),
     (229, 4892), (230, 4892), (231, 4892), (232, 4892), (233, 4892),
     (234, 4892), (235, 4892), (236, 4892), (237, 4892), (238, 4892),
     (239, 4892), (240, 4892), (241, 4892), (242, 4892), (243, 4892),
     (244, 4892), (245, 4892), (246, 4892), (247, 4892), (248, 4892),
     (249, 4892), (250, 4892), (251, 4892), (252, 4892), (253, 4892),
     (254, 4892), (255, 4892), (0, 64), (0, 9550), (0, 0),
     (0, 0), (0, 0), (0, 0), (0, 0), (0, 0),
     (0, 0), (0, 0), (0, 0), (0, 0), (0, 0),
     (0, 0), (0, 0), (0, 0), (0, 0), (0, 0),
     (0, 0), (0, 0), (0, 0), (0, 0), (0, 0),
     (0, 0), (0, 0), (0, 0), (0, 0), (0, 0)]"

definition yy_transition_79 :: "yy_trans_info list" where
  "yy_transition_79 = [
     (0, 0), (0, 0), (0, 0), (0, 0), (0, 0),
     (0, 0), (0, 0), (0, 0), (0, 0), (36, 4635),
     (0, 0), (38, -1304), (0, 0), (0, 0), (0, 0),
     (0, 0), (0, 0), (0, 0), (0, 0), (0, 0),
     (0, 0), (48, 4635), (49, 4635), (50, 4635), (51, 4635),
     (52, 4635), (53, 4635), (54, 4635), (55, 4635), (56, 4635),
     (57, 4635), (0, 0), (0, 0), (0, 0), (0, 0),
     (0, 0), (63, -1530), (0, 0), (65, 4635), (66, 4635),
     (67, 4635), (68, 4635), (69, 4635), (70, 4635), (71, 4635),
     (72, 4635), (73, 4635), (74, 4635), (75, 4635), (76, 4635),
     (77, 4635), (78, 4635), (79, 4635), (80, 4635), (81, 4635),
     (82, 4635), (83, 4635), (84, 4635), (85, 4635), (86, 4635),
     (87, 4635), (88, 4635), (89, 4635), (90, 4635), (0, 0),
     (0, 0), (0, 0), (0, 0), (95, 4635), (0, 0),
     (97, 4635), (98, 4635), (99, 4635), (100, 4635), (101, 4635),
     (102, 4635), (103, 4635), (104, 4635), (105, 4635), (106, 4635),
     (107, 4635), (108, 4635), (109, 4635), (110, 4635), (111, 4635),
     (112, 4635), (113, 4635), (114, 4635), (115, 4635), (116, 4635),
     (117, 4635), (118, 4635), (119, 4635), (120, 4635), (121, 4635),
     (122, 4635), (0, 0), (0, 0), (0, 0), (0, 0)]"

definition yy_transition_80 :: "yy_trans_info list" where
  "yy_transition_80 = [
     (0, 0), (128, 4635), (129, 4635), (130, 4635), (131, 4635),
     (132, 4635), (133, 4635), (134, 4635), (135, 4635), (136, 4635),
     (137, 4635), (138, 4635), (139, 4635), (140, 4635), (141, 4635),
     (142, 4635), (143, 4635), (144, 4635), (145, 4635), (146, 4635),
     (147, 4635), (148, 4635), (149, 4635), (150, 4635), (151, 4635),
     (152, 4635), (153, 4635), (154, 4635), (155, 4635), (156, 4635),
     (157, 4635), (158, 4635), (159, 4635), (160, 4635), (161, 4635),
     (162, 4635), (163, 4635), (164, 4635), (165, 4635), (166, 4635),
     (167, 4635), (168, 4635), (169, 4635), (170, 4635), (171, 4635),
     (172, 4635), (173, 4635), (174, 4635), (175, 4635), (176, 4635),
     (177, 4635), (178, 4635), (179, 4635), (180, 4635), (181, 4635),
     (182, 4635), (183, 4635), (184, 4635), (185, 4635), (186, 4635),
     (187, 4635), (188, 4635), (189, 4635), (190, 4635), (191, 4635),
     (192, 4635), (193, 4635), (194, 4635), (195, 4635), (196, 4635),
     (197, 4635), (198, 4635), (199, 4635), (200, 4635), (201, 4635),
     (202, 4635), (203, 4635), (204, 4635), (205, 4635), (206, 4635),
     (207, 4635), (208, 4635), (209, 4635), (210, 4635), (211, 4635),
     (212, 4635), (213, 4635), (214, 4635), (215, 4635), (216, 4635),
     (217, 4635), (218, 4635), (219, 4635), (220, 4635), (221, 4635),
     (222, 4635), (223, 4635), (224, 4635), (225, 4635), (226, 4635)]"

definition yy_transition_81 :: "yy_trans_info list" where
  "yy_transition_81 = [
     (227, 4635), (228, 4635), (229, 4635), (230, 4635), (231, 4635),
     (232, 4635), (233, 4635), (234, 4635), (235, 4635), (236, 4635),
     (237, 4635), (238, 4635), (239, 4635), (240, 4635), (241, 4635),
     (242, 4635), (243, 4635), (244, 4635), (245, 4635), (246, 4635),
     (247, 4635), (248, 4635), (249, 4635), (250, 4635), (251, 4635),
     (252, 4635), (253, 4635), (254, 4635), (255, 4635), (0, 64),
     (0, 9293), (0, 0), (0, 0), (0, 0), (0, 0),
     (0, 0), (0, 0), (0, 0), (0, 0), (0, 0),
     (0, 0), (0, 0), (0, 0), (0, 0), (0, 0),
     (0, 0), (0, 0), (0, 0), (0, 0), (0, 0),
     (0, 0), (0, 0), (0, 0), (0, 0), (0, 0),
     (0, 0), (0, 0), (0, 0), (0, 0), (0, 0),
     (0, 0), (0, 0), (0, 0), (0, 0), (0, 0),
     (0, 0), (36, 4378), (0, 0), (0, 0), (39, -1559),
     (0, 0), (0, 0), (0, 0), (0, 0), (0, 0),
     (0, 0), (0, 0), (0, 0), (48, 4378), (49, 4378),
     (50, 4378), (51, 4378), (52, 4378), (53, 4378), (54, 4378),
     (55, 4378), (56, 4378), (57, 4378), (0, 0), (0, 0),
     (0, 0), (0, 0), (0, 0), (63, -1787), (0, 0),
     (65, 4378), (66, 4378), (67, 4378), (68, 4378), (69, 4378)]"

definition yy_transition_82 :: "yy_trans_info list" where
  "yy_transition_82 = [
     (70, 4378), (71, 4378), (72, 4378), (73, 4378), (74, 4378),
     (75, 4378), (76, 4378), (77, 4378), (78, 4378), (79, 4378),
     (80, 4378), (81, 4378), (82, 4378), (83, 4378), (84, 4378),
     (85, 4378), (86, 4378), (87, 4378), (88, 4378), (89, 4378),
     (90, 4378), (0, 0), (0, 0), (0, 0), (0, 0),
     (95, 4378), (0, 0), (97, 4378), (98, 4378), (99, 4378),
     (100, 4378), (101, 4378), (102, 4378), (103, 4378), (104, 4378),
     (105, 4378), (106, 4378), (107, 4378), (108, 4378), (109, 4378),
     (110, 4378), (111, 4378), (112, 4378), (113, 4378), (114, 4378),
     (115, 4378), (116, 4378), (117, 4378), (118, 4378), (119, 4378),
     (120, 4378), (121, 4378), (122, 4378), (0, 0), (0, 0),
     (0, 0), (0, 0), (0, 0), (128, 4378), (129, 4378),
     (130, 4378), (131, 4378), (132, 4378), (133, 4378), (134, 4378),
     (135, 4378), (136, 4378), (137, 4378), (138, 4378), (139, 4378),
     (140, 4378), (141, 4378), (142, 4378), (143, 4378), (144, 4378),
     (145, 4378), (146, 4378), (147, 4378), (148, 4378), (149, 4378),
     (150, 4378), (151, 4378), (152, 4378), (153, 4378), (154, 4378),
     (155, 4378), (156, 4378), (157, 4378), (158, 4378), (159, 4378),
     (160, 4378), (161, 4378), (162, 4378), (163, 4378), (164, 4378),
     (165, 4378), (166, 4378), (167, 4378), (168, 4378), (169, 4378)]"

definition yy_transition_83 :: "yy_trans_info list" where
  "yy_transition_83 = [
     (170, 4378), (171, 4378), (172, 4378), (173, 4378), (174, 4378),
     (175, 4378), (176, 4378), (177, 4378), (178, 4378), (179, 4378),
     (180, 4378), (181, 4378), (182, 4378), (183, 4378), (184, 4378),
     (185, 4378), (186, 4378), (187, 4378), (188, 4378), (189, 4378),
     (190, 4378), (191, 4378), (192, 4378), (193, 4378), (194, 4378),
     (195, 4378), (196, 4378), (197, 4378), (198, 4378), (199, 4378),
     (200, 4378), (201, 4378), (202, 4378), (203, 4378), (204, 4378),
     (205, 4378), (206, 4378), (207, 4378), (208, 4378), (209, 4378),
     (210, 4378), (211, 4378), (212, 4378), (213, 4378), (214, 4378),
     (215, 4378), (216, 4378), (217, 4378), (218, 4378), (219, 4378),
     (220, 4378), (221, 4378), (222, 4378), (223, 4378), (224, 4378),
     (225, 4378), (226, 4378), (227, 4378), (228, 4378), (229, 4378),
     (230, 4378), (231, 4378), (232, 4378), (233, 4378), (234, 4378),
     (235, 4378), (236, 4378), (237, 4378), (238, 4378), (239, 4378),
     (240, 4378), (241, 4378), (242, 4378), (243, 4378), (244, 4378),
     (245, 4378), (246, 4378), (247, 4378), (248, 4378), (249, 4378),
     (250, 4378), (251, 4378), (252, 4378), (253, 4378), (254, 4378),
     (255, 4378), (0, 11), (0, 9036), (1, 4378), (2, 4378),
     (3, 4378), (4, 4378), (5, 4378), (6, 4378), (7, 4378),
     (8, 4378), (9, 4378), (10, 4378), (11, 4378), (12, 4378)]"

definition yy_transition_84 :: "yy_trans_info list" where
  "yy_transition_84 = [
     (13, 4378), (14, 4378), (15, 4378), (16, 4378), (17, 4378),
     (18, 4378), (19, 4378), (20, 4378), (21, 4378), (22, 4378),
     (23, 4378), (24, 4378), (25, 4378), (26, 4378), (27, 4378),
     (28, 4378), (29, 4378), (30, 4378), (31, 4378), (32, 4378),
     (33, 4378), (34, 4378), (35, 4378), (36, 4378), (37, 4378),
     (38, 4378), (0, 0), (40, 4378), (41, 4378), (42, 4378),
     (43, 4378), (44, 4378), (45, 4378), (46, 4378), (47, 4378),
     (48, 4378), (49, 4378), (50, 4378), (51, 4378), (52, 4378),
     (53, 4378), (54, 4378), (55, 4378), (56, 4378), (57, 4378),
     (58, 4378), (59, 4378), (60, 4378), (61, 4378), (62, 4378),
     (63, 4378), (64, 4378), (65, 4378), (66, 4378), (67, 4378),
     (68, 4378), (69, 4378), (70, 4378), (71, 4378), (72, 4378),
     (73, 4378), (74, 4378), (75, 4378), (76, 4378), (77, 4378),
     (78, 4378), (79, 4378), (80, 4378), (81, 4378), (82, 4378),
     (83, 4378), (84, 4378), (85, 4378), (86, 4378), (87, 4378),
     (88, 4378), (89, 4378), (90, 4378), (91, 4378), (92, 4378),
     (93, 4378), (94, 4378), (95, 4378), (96, 4378), (97, 4378),
     (98, 4378), (99, 4378), (100, 4378), (101, 4378), (102, 4378),
     (103, 4378), (104, 4378), (105, 4378), (106, 4378), (107, 4378),
     (108, 4378), (109, 4378), (110, 4378), (111, 4378), (112, 4378)]"

definition yy_transition_85 :: "yy_trans_info list" where
  "yy_transition_85 = [
     (113, 4378), (114, 4378), (115, 4378), (116, 4378), (117, 4378),
     (118, 4378), (119, 4378), (120, 4378), (121, 4378), (122, 4378),
     (123, 4378), (124, 4378), (125, 4378), (126, 4378), (127, 4378),
     (128, 4378), (129, 4378), (130, 4378), (131, 4378), (132, 4378),
     (133, 4378), (134, 4378), (135, 4378), (136, 4378), (137, 4378),
     (138, 4378), (139, 4378), (140, 4378), (141, 4378), (142, 4378),
     (143, 4378), (144, 4378), (145, 4378), (146, 4378), (147, 4378),
     (148, 4378), (149, 4378), (150, 4378), (151, 4378), (152, 4378),
     (153, 4378), (154, 4378), (155, 4378), (156, 4378), (157, 4378),
     (158, 4378), (159, 4378), (160, 4378), (161, 4378), (162, 4378),
     (163, 4378), (164, 4378), (165, 4378), (166, 4378), (167, 4378),
     (168, 4378), (169, 4378), (170, 4378), (171, 4378), (172, 4378),
     (173, 4378), (174, 4378), (175, 4378), (176, 4378), (177, 4378),
     (178, 4378), (179, 4378), (180, 4378), (181, 4378), (182, 4378),
     (183, 4378), (184, 4378), (185, 4378), (186, 4378), (187, 4378),
     (188, 4378), (189, 4378), (190, 4378), (191, 4378), (192, 4378),
     (193, 4378), (194, 4378), (195, 4378), (196, 4378), (197, 4378),
     (198, 4378), (199, 4378), (200, 4378), (201, 4378), (202, 4378),
     (203, 4378), (204, 4378), (205, 4378), (206, 4378), (207, 4378),
     (208, 4378), (209, 4378), (210, 4378), (211, 4378), (212, 4378)]"

definition yy_transition_86 :: "yy_trans_info list" where
  "yy_transition_86 = [
     (213, 4378), (214, 4378), (215, 4378), (216, 4378), (217, 4378),
     (218, 4378), (219, 4378), (220, 4378), (221, 4378), (222, 4378),
     (223, 4378), (224, 4378), (225, 4378), (226, 4378), (227, 4378),
     (228, 4378), (229, 4378), (230, 4378), (231, 4378), (232, 4378),
     (233, 4378), (234, 4378), (235, 4378), (236, 4378), (237, 4378),
     (238, 4378), (239, 4378), (240, 4378), (241, 4378), (242, 4378),
     (243, 4378), (244, 4378), (245, 4378), (246, 4378), (247, 4378),
     (248, 4378), (249, 4378), (250, 4378), (251, 4378), (252, 4378),
     (253, 4378), (254, 4378), (255, 4378), (256, 4378), (0, 6),
     (0, 8778), (1, 4378), (2, 4378), (3, 4378), (4, 4378),
     (5, 4378), (6, 4378), (7, 4378), (8, 4378), (9, 4378),
     (10, 4378), (11, 4378), (12, 4378), (13, 4378), (14, 4378),
     (15, 4378), (16, 4378), (17, 4378), (18, 4378), (19, 4378),
     (20, 4378), (21, 4378), (22, 4378), (23, 4378), (24, 4378),
     (25, 4378), (26, 4378), (27, 4378), (28, 4378), (29, 4378),
     (30, 4378), (31, 4378), (32, 4378), (33, 4378), (34, 4378),
     (35, 4378), (36, 4378), (37, 4378), (38, 4378), (39, 4378),
     (40, 4378), (41, 4378), (0, 0), (43, 4378), (44, 4378),
     (45, 4378), (46, 4378), (0, 0), (48, 4378), (49, 4378),
     (50, 4378), (51, 4378), (52, 4378), (53, 4378), (54, 4378)]"

definition yy_transition_87 :: "yy_trans_info list" where
  "yy_transition_87 = [
     (55, 4378), (56, 4378), (57, 4378), (58, 4378), (59, 4378),
     (60, 4378), (61, 4378), (62, 4378), (63, 4378), (64, 4378),
     (65, 4378), (66, 4378), (67, 4378), (68, 4378), (69, 4378),
     (70, 4378), (71, 4378), (72, 4378), (73, 4378), (74, 4378),
     (75, 4378), (76, 4378), (77, 4378), (78, 4378), (79, 4378),
     (80, 4378), (81, 4378), (82, 4378), (83, 4378), (84, 4378),
     (85, 4378), (86, 4378), (87, 4378), (88, 4378), (89, 4378),
     (90, 4378), (91, 4378), (92, 4378), (93, 4378), (94, 4378),
     (95, 4378), (96, 4378), (97, 4378), (98, 4378), (99, 4378),
     (100, 4378), (101, 4378), (102, 4378), (103, 4378), (104, 4378),
     (105, 4378), (106, 4378), (107, 4378), (108, 4378), (109, 4378),
     (110, 4378), (111, 4378), (112, 4378), (113, 4378), (114, 4378),
     (115, 4378), (116, 4378), (117, 4378), (118, 4378), (119, 4378),
     (120, 4378), (121, 4378), (122, 4378), (123, 4378), (124, 4378),
     (125, 4378), (126, 4378), (127, 4378), (128, 4378), (129, 4378),
     (130, 4378), (131, 4378), (132, 4378), (133, 4378), (134, 4378),
     (135, 4378), (136, 4378), (137, 4378), (138, 4378), (139, 4378),
     (140, 4378), (141, 4378), (142, 4378), (143, 4378), (144, 4378),
     (145, 4378), (146, 4378), (147, 4378), (148, 4378), (149, 4378),
     (150, 4378), (151, 4378), (152, 4378), (153, 4378), (154, 4378)]"

definition yy_transition_88 :: "yy_trans_info list" where
  "yy_transition_88 = [
     (155, 4378), (156, 4378), (157, 4378), (158, 4378), (159, 4378),
     (160, 4378), (161, 4378), (162, 4378), (163, 4378), (164, 4378),
     (165, 4378), (166, 4378), (167, 4378), (168, 4378), (169, 4378),
     (170, 4378), (171, 4378), (172, 4378), (173, 4378), (174, 4378),
     (175, 4378), (176, 4378), (177, 4378), (178, 4378), (179, 4378),
     (180, 4378), (181, 4378), (182, 4378), (183, 4378), (184, 4378),
     (185, 4378), (186, 4378), (187, 4378), (188, 4378), (189, 4378),
     (190, 4378), (191, 4378), (192, 4378), (193, 4378), (194, 4378),
     (195, 4378), (196, 4378), (197, 4378), (198, 4378), (199, 4378),
     (200, 4378), (201, 4378), (202, 4378), (203, 4378), (204, 4378),
     (205, 4378), (206, 4378), (207, 4378), (208, 4378), (209, 4378),
     (210, 4378), (211, 4378), (212, 4378), (213, 4378), (214, 4378),
     (215, 4378), (216, 4378), (217, 4378), (218, 4378), (219, 4378),
     (220, 4378), (221, 4378), (222, 4378), (223, 4378), (224, 4378),
     (225, 4378), (226, 4378), (227, 4378), (228, 4378), (229, 4378),
     (230, 4378), (231, 4378), (232, 4378), (233, 4378), (234, 4378),
     (235, 4378), (236, 4378), (237, 4378), (238, 4378), (239, 4378),
     (240, 4378), (241, 4378), (242, 4378), (243, 4378), (244, 4378),
     (245, 4378), (246, 4378), (247, 4378), (248, 4378), (249, 4378),
     (250, 4378), (251, 4378), (252, 4378), (253, 4378), (254, 4378)]"

definition yy_transition_89 :: "yy_trans_info list" where
  "yy_transition_89 = [
     (255, 4378), (256, 4378), (0, 6), (0, 8520), (1, 4120),
     (2, 4120), (3, 4120), (4, 4120), (5, 4120), (6, 4120),
     (7, 4120), (8, 4120), (9, 4120), (10, 4120), (11, 4120),
     (12, 4120), (13, 4120), (14, 4120), (15, 4120), (16, 4120),
     (17, 4120), (18, 4120), (19, 4120), (20, 4120), (21, 4120),
     (22, 4120), (23, 4120), (24, 4120), (25, 4120), (26, 4120),
     (27, 4120), (28, 4120), (29, 4120), (30, 4120), (31, 4120),
     (32, 4120), (33, 4120), (34, 4120), (35, 4120), (36, 4120),
     (37, 4120), (38, 4120), (39, 4120), (40, 4120), (41, 4120),
     (0, 0), (43, 4120), (44, 4120), (45, 4120), (46, 4120),
     (0, 0), (48, 4120), (49, 4120), (50, 4120), (51, 4120),
     (52, 4120), (53, 4120), (54, 4120), (55, 4120), (56, 4120),
     (57, 4120), (58, 4120), (59, 4120), (60, 4120), (61, 4120),
     (62, 4120), (63, 4120), (64, 4120), (65, 4120), (66, 4120),
     (67, 4120), (68, 4120), (69, 4120), (70, 4120), (71, 4120),
     (72, 4120), (73, 4120), (74, 4120), (75, 4120), (76, 4120),
     (77, 4120), (78, 4120), (79, 4120), (80, 4120), (81, 4120),
     (82, 4120), (83, 4120), (84, 4120), (85, 4120), (86, 4120),
     (87, 4120), (88, 4120), (89, 4120), (90, 4120), (91, 4120),
     (92, 4120), (93, 4120), (94, 4120), (95, 4120), (96, 4120)]"

definition yy_transition_90 :: "yy_trans_info list" where
  "yy_transition_90 = [
     (97, 4120), (98, 4120), (99, 4120), (100, 4120), (101, 4120),
     (102, 4120), (103, 4120), (104, 4120), (105, 4120), (106, 4120),
     (107, 4120), (108, 4120), (109, 4120), (110, 4120), (111, 4120),
     (112, 4120), (113, 4120), (114, 4120), (115, 4120), (116, 4120),
     (117, 4120), (118, 4120), (119, 4120), (120, 4120), (121, 4120),
     (122, 4120), (123, 4120), (124, 4120), (125, 4120), (126, 4120),
     (127, 4120), (128, 4120), (129, 4120), (130, 4120), (131, 4120),
     (132, 4120), (133, 4120), (134, 4120), (135, 4120), (136, 4120),
     (137, 4120), (138, 4120), (139, 4120), (140, 4120), (141, 4120),
     (142, 4120), (143, 4120), (144, 4120), (145, 4120), (146, 4120),
     (147, 4120), (148, 4120), (149, 4120), (150, 4120), (151, 4120),
     (152, 4120), (153, 4120), (154, 4120), (155, 4120), (156, 4120),
     (157, 4120), (158, 4120), (159, 4120), (160, 4120), (161, 4120),
     (162, 4120), (163, 4120), (164, 4120), (165, 4120), (166, 4120),
     (167, 4120), (168, 4120), (169, 4120), (170, 4120), (171, 4120),
     (172, 4120), (173, 4120), (174, 4120), (175, 4120), (176, 4120),
     (177, 4120), (178, 4120), (179, 4120), (180, 4120), (181, 4120),
     (182, 4120), (183, 4120), (184, 4120), (185, 4120), (186, 4120),
     (187, 4120), (188, 4120), (189, 4120), (190, 4120), (191, 4120),
     (192, 4120), (193, 4120), (194, 4120), (195, 4120), (196, 4120)]"

definition yy_transition_91 :: "yy_trans_info list" where
  "yy_transition_91 = [
     (197, 4120), (198, 4120), (199, 4120), (200, 4120), (201, 4120),
     (202, 4120), (203, 4120), (204, 4120), (205, 4120), (206, 4120),
     (207, 4120), (208, 4120), (209, 4120), (210, 4120), (211, 4120),
     (212, 4120), (213, 4120), (214, 4120), (215, 4120), (216, 4120),
     (217, 4120), (218, 4120), (219, 4120), (220, 4120), (221, 4120),
     (222, 4120), (223, 4120), (224, 4120), (225, 4120), (226, 4120),
     (227, 4120), (228, 4120), (229, 4120), (230, 4120), (231, 4120),
     (232, 4120), (233, 4120), (234, 4120), (235, 4120), (236, 4120),
     (237, 4120), (238, 4120), (239, 4120), (240, 4120), (241, 4120),
     (242, 4120), (243, 4120), (244, 4120), (245, 4120), (246, 4120),
     (247, 4120), (248, 4120), (249, 4120), (250, 4120), (251, 4120),
     (252, 4120), (253, 4120), (254, 4120), (255, 4120), (256, 4120),
     (0, 44), (0, 8262), (1, 4248), (2, 4248), (3, 4248),
     (4, 4248), (5, 4248), (6, 4248), (7, 4248), (8, 4248),
     (9, 4248), (10, 4248), (11, 4248), (12, 4248), (13, 4248),
     (14, 4248), (15, 4248), (16, 4248), (17, 4248), (18, 4248),
     (19, 4248), (20, 4248), (21, 4248), (22, 4248), (23, 4248),
     (24, 4248), (25, 4248), (26, 4248), (27, 4248), (28, 4248),
     (29, 4248), (30, 4248), (31, 4248), (32, 4248), (33, 4248),
     (0, 0), (35, 4248), (36, 4248), (37, 4248), (38, 4248)]"

definition yy_transition_92 :: "yy_trans_info list" where
  "yy_transition_92 = [
     (39, 4248), (40, 4248), (41, 4248), (42, 4248), (43, 4248),
     (44, 4248), (45, 4248), (46, 4248), (47, 4248), (48, 4248),
     (49, 4248), (50, 4248), (51, 4248), (52, 4248), (53, 4248),
     (54, 4248), (55, 4248), (56, 4248), (57, 4248), (58, 4248),
     (59, 4248), (60, 4248), (61, 4248), (62, 4248), (63, 4248),
     (64, 4248), (65, 4248), (66, 4248), (67, 4248), (68, 4248),
     (69, 4248), (70, 4248), (71, 4248), (72, 4248), (73, 4248),
     (74, 4248), (75, 4248), (76, 4248), (77, 4248), (78, 4248),
     (79, 4248), (80, 4248), (81, 4248), (82, 4248), (83, 4248),
     (84, 4248), (85, 4248), (86, 4248), (87, 4248), (88, 4248),
     (89, 4248), (90, 4248), (91, 4248), (92, 4248), (93, 4248),
     (94, 4248), (95, 4248), (96, 4248), (97, 4248), (98, 4248),
     (99, 4248), (100, 4248), (101, 4248), (102, 4248), (103, 4248),
     (104, 4248), (105, 4248), (106, 4248), (107, 4248), (108, 4248),
     (109, 4248), (110, 4248), (111, 4248), (112, 4248), (113, 4248),
     (114, 4248), (115, 4248), (116, 4248), (117, 4248), (118, 4248),
     (119, 4248), (120, 4248), (121, 4248), (122, 4248), (123, 4248),
     (124, 4248), (125, 4248), (126, 4248), (127, 4248), (128, 4248),
     (129, 4248), (130, 4248), (131, 4248), (132, 4248), (133, 4248),
     (134, 4248), (135, 4248), (136, 4248), (137, 4248), (138, 4248)]"

definition yy_transition_93 :: "yy_trans_info list" where
  "yy_transition_93 = [
     (139, 4248), (140, 4248), (141, 4248), (142, 4248), (143, 4248),
     (144, 4248), (145, 4248), (146, 4248), (147, 4248), (148, 4248),
     (149, 4248), (150, 4248), (151, 4248), (152, 4248), (153, 4248),
     (154, 4248), (155, 4248), (156, 4248), (157, 4248), (158, 4248),
     (159, 4248), (160, 4248), (161, 4248), (162, 4248), (163, 4248),
     (164, 4248), (165, 4248), (166, 4248), (167, 4248), (168, 4248),
     (169, 4248), (170, 4248), (171, 4248), (172, 4248), (173, 4248),
     (174, 4248), (175, 4248), (176, 4248), (177, 4248), (178, 4248),
     (179, 4248), (180, 4248), (181, 4248), (182, 4248), (183, 4248),
     (184, 4248), (185, 4248), (186, 4248), (187, 4248), (188, 4248),
     (189, 4248), (190, 4248), (191, 4248), (192, 4248), (193, 4248),
     (194, 4248), (195, 4248), (196, 4248), (197, 4248), (198, 4248),
     (199, 4248), (200, 4248), (201, 4248), (202, 4248), (203, 4248),
     (204, 4248), (205, 4248), (206, 4248), (207, 4248), (208, 4248),
     (209, 4248), (210, 4248), (211, 4248), (212, 4248), (213, 4248),
     (214, 4248), (215, 4248), (216, 4248), (217, 4248), (218, 4248),
     (219, 4248), (220, 4248), (221, 4248), (222, 4248), (223, 4248),
     (224, 4248), (225, 4248), (226, 4248), (227, 4248), (228, 4248),
     (229, 4248), (230, 4248), (231, 4248), (232, 4248), (233, 4248),
     (234, 4248), (235, 4248), (236, 4248), (237, 4248), (238, 4248)]"

definition yy_transition_94 :: "yy_trans_info list" where
  "yy_transition_94 = [
     (239, 4248), (240, 4248), (241, 4248), (242, 4248), (243, 4248),
     (244, 4248), (245, 4248), (246, 4248), (247, 4248), (248, 4248),
     (249, 4248), (250, 4248), (251, 4248), (252, 4248), (253, 4248),
     (254, 4248), (255, 4248), (256, 4248), (0, 10), (0, 8004),
     (1, 4248), (2, 4248), (3, 4248), (4, 4248), (5, 4248),
     (6, 4248), (7, 4248), (8, 4248), (9, 4248), (10, 4248),
     (11, 4248), (12, 4248), (13, 4248), (14, 4248), (15, 4248),
     (16, 4248), (17, 4248), (18, 4248), (19, 4248), (20, 4248),
     (21, 4248), (22, 4248), (23, 4248), (24, 4248), (25, 4248),
     (26, 4248), (27, 4248), (28, 4248), (29, 4248), (30, 4248),
     (31, 4248), (32, 4248), (33, 4248), (34, 4248), (35, 4248),
     (36, 4248), (37, 4248), (38, 4248), (0, 0), (40, 4248),
     (41, 4248), (42, 4248), (43, 4248), (44, 4248), (45, 4248),
     (46, 4248), (47, 4248), (48, 4248), (49, 4248), (50, 4248),
     (51, 4248), (52, 4248), (53, 4248), (54, 4248), (55, 4248),
     (56, 4248), (57, 4248), (58, 4248), (59, 4248), (60, 4248),
     (61, 4248), (62, 4248), (63, 4248), (64, 4248), (65, 4248),
     (66, 4248), (67, 4248), (68, 4248), (69, 4248), (70, 4248),
     (71, 4248), (72, 4248), (73, 4248), (74, 4248), (75, 4248),
     (76, 4248), (77, 4248), (78, 4248), (79, 4248), (80, 4248)]"

definition yy_transition_95 :: "yy_trans_info list" where
  "yy_transition_95 = [
     (81, 4248), (82, 4248), (83, 4248), (84, 4248), (85, 4248),
     (86, 4248), (87, 4248), (88, 4248), (89, 4248), (90, 4248),
     (91, 4248), (92, 4248), (93, 4248), (94, 4248), (95, 4248),
     (96, 4248), (97, 4248), (98, 4248), (99, 4248), (100, 4248),
     (101, 4248), (102, 4248), (103, 4248), (104, 4248), (105, 4248),
     (106, 4248), (107, 4248), (108, 4248), (109, 4248), (110, 4248),
     (111, 4248), (112, 4248), (113, 4248), (114, 4248), (115, 4248),
     (116, 4248), (117, 4248), (118, 4248), (119, 4248), (120, 4248),
     (121, 4248), (122, 4248), (123, 4248), (124, 4248), (125, 4248),
     (126, 4248), (127, 4248), (128, 4248), (129, 4248), (130, 4248),
     (131, 4248), (132, 4248), (133, 4248), (134, 4248), (135, 4248),
     (136, 4248), (137, 4248), (138, 4248), (139, 4248), (140, 4248),
     (141, 4248), (142, 4248), (143, 4248), (144, 4248), (145, 4248),
     (146, 4248), (147, 4248), (148, 4248), (149, 4248), (150, 4248),
     (151, 4248), (152, 4248), (153, 4248), (154, 4248), (155, 4248),
     (156, 4248), (157, 4248), (158, 4248), (159, 4248), (160, 4248),
     (161, 4248), (162, 4248), (163, 4248), (164, 4248), (165, 4248),
     (166, 4248), (167, 4248), (168, 4248), (169, 4248), (170, 4248),
     (171, 4248), (172, 4248), (173, 4248), (174, 4248), (175, 4248),
     (176, 4248), (177, 4248), (178, 4248), (179, 4248), (180, 4248)]"

definition yy_transition_96 :: "yy_trans_info list" where
  "yy_transition_96 = [
     (181, 4248), (182, 4248), (183, 4248), (184, 4248), (185, 4248),
     (186, 4248), (187, 4248), (188, 4248), (189, 4248), (190, 4248),
     (191, 4248), (192, 4248), (193, 4248), (194, 4248), (195, 4248),
     (196, 4248), (197, 4248), (198, 4248), (199, 4248), (200, 4248),
     (201, 4248), (202, 4248), (203, 4248), (204, 4248), (205, 4248),
     (206, 4248), (207, 4248), (208, 4248), (209, 4248), (210, 4248),
     (211, 4248), (212, 4248), (213, 4248), (214, 4248), (215, 4248),
     (216, 4248), (217, 4248), (218, 4248), (219, 4248), (220, 4248),
     (221, 4248), (222, 4248), (223, 4248), (224, 4248), (225, 4248),
     (226, 4248), (227, 4248), (228, 4248), (229, 4248), (230, 4248),
     (231, 4248), (232, 4248), (233, 4248), (234, 4248), (235, 4248),
     (236, 4248), (237, 4248), (238, 4248), (239, 4248), (240, 4248),
     (241, 4248), (242, 4248), (243, 4248), (244, 4248), (245, 4248),
     (246, 4248), (247, 4248), (248, 4248), (249, 4248), (250, 4248),
     (251, 4248), (252, 4248), (253, 4248), (254, 4248), (255, 4248),
     (256, 4248), (0, 22), (0, 7746), (1, 4248), (2, 4248),
     (3, 4248), (4, 4248), (5, 4248), (6, 4248), (7, 4248),
     (8, 4248), (9, 4248), (10, 4248), (11, 4248), (12, 4248),
     (13, 4248), (14, 4248), (15, 4248), (16, 4248), (17, 4248),
     (18, 4248), (19, 4248), (20, 4248), (21, 4248), (22, 4248)]"

definition yy_transition_97 :: "yy_trans_info list" where
  "yy_transition_97 = [
     (23, 4248), (24, 4248), (25, 4248), (26, 4248), (27, 4248),
     (28, 4248), (29, 4248), (30, 4248), (31, 4248), (32, 4248),
     (33, 4248), (34, 4248), (35, 4248), (36, 4248), (37, 4248),
     (38, 4248), (0, 0), (40, 4248), (41, 4248), (42, 4248),
     (43, 4248), (44, 4248), (45, 4248), (46, 4248), (47, 4248),
     (48, 4248), (49, 4248), (50, 4248), (51, 4248), (52, 4248),
     (53, 4248), (54, 4248), (55, 4248), (56, 4248), (57, 4248),
     (58, 4248), (59, 4248), (60, 4248), (61, 4248), (62, 4248),
     (63, 4248), (64, 4248), (65, 4248), (66, 4248), (67, 4248),
     (68, 4248), (69, 4248), (70, 4248), (71, 4248), (72, 4248),
     (73, 4248), (74, 4248), (75, 4248), (76, 4248), (77, 4248),
     (78, 4248), (79, 4248), (80, 4248), (81, 4248), (82, 4248),
     (83, 4248), (84, 4248), (85, 4248), (86, 4248), (87, 4248),
     (88, 4248), (89, 4248), (90, 4248), (91, 4248), (92, 4248),
     (93, 4248), (94, 4248), (95, 4248), (96, 4248), (97, 4248),
     (98, 4248), (99, 4248), (100, 4248), (101, 4248), (102, 4248),
     (103, 4248), (104, 4248), (105, 4248), (106, 4248), (107, 4248),
     (108, 4248), (109, 4248), (110, 4248), (111, 4248), (112, 4248),
     (113, 4248), (114, 4248), (115, 4248), (116, 4248), (117, 4248),
     (118, 4248), (119, 4248), (120, 4248), (121, 4248), (122, 4248)]"

definition yy_transition_98 :: "yy_trans_info list" where
  "yy_transition_98 = [
     (123, 4248), (124, 4248), (125, 4248), (126, 4248), (127, 4248),
     (128, 4248), (129, 4248), (130, 4248), (131, 4248), (132, 4248),
     (133, 4248), (134, 4248), (135, 4248), (136, 4248), (137, 4248),
     (138, 4248), (139, 4248), (140, 4248), (141, 4248), (142, 4248),
     (143, 4248), (144, 4248), (145, 4248), (146, 4248), (147, 4248),
     (148, 4248), (149, 4248), (150, 4248), (151, 4248), (152, 4248),
     (153, 4248), (154, 4248), (155, 4248), (156, 4248), (157, 4248),
     (158, 4248), (159, 4248), (160, 4248), (161, 4248), (162, 4248),
     (163, 4248), (164, 4248), (165, 4248), (166, 4248), (167, 4248),
     (168, 4248), (169, 4248), (170, 4248), (171, 4248), (172, 4248),
     (173, 4248), (174, 4248), (175, 4248), (176, 4248), (177, 4248),
     (178, 4248), (179, 4248), (180, 4248), (181, 4248), (182, 4248),
     (183, 4248), (184, 4248), (185, 4248), (186, 4248), (187, 4248),
     (188, 4248), (189, 4248), (190, 4248), (191, 4248), (192, 4248),
     (193, 4248), (194, 4248), (195, 4248), (196, 4248), (197, 4248),
     (198, 4248), (199, 4248), (200, 4248), (201, 4248), (202, 4248),
     (203, 4248), (204, 4248), (205, 4248), (206, 4248), (207, 4248),
     (208, 4248), (209, 4248), (210, 4248), (211, 4248), (212, 4248),
     (213, 4248), (214, 4248), (215, 4248), (216, 4248), (217, 4248),
     (218, 4248), (219, 4248), (220, 4248), (221, 4248), (222, 4248)]"

definition yy_transition_99 :: "yy_trans_info list" where
  "yy_transition_99 = [
     (223, 4248), (224, 4248), (225, 4248), (226, 4248), (227, 4248),
     (228, 4248), (229, 4248), (230, 4248), (231, 4248), (232, 4248),
     (233, 4248), (234, 4248), (235, 4248), (236, 4248), (237, 4248),
     (238, 4248), (239, 4248), (240, 4248), (241, 4248), (242, 4248),
     (243, 4248), (244, 4248), (245, 4248), (246, 4248), (247, 4248),
     (248, 4248), (249, 4248), (250, 4248), (251, 4248), (252, 4248),
     (253, 4248), (254, 4248), (255, 4248), (256, 4248), (0, 19),
     (0, 7488), (0, 0), (0, 0), (0, 0), (0, 19),
     (0, 7483), (0, 0), (0, 0), (0, 0), (9, 4248),
     (10, 4253), (0, 0), (12, 4248), (13, 4253), (9, 4264),
     (10, 4264), (0, 0), (12, 4264), (13, 4264), (0, 0),
     (0, 19), (0, 7467), (0, 0), (0, 0), (0, 0),
     (0, 0), (0, 0), (0, 0), (0, 0), (0, 0),
     (9, 4248), (10, 4248), (32, 4248), (12, 4248), (13, 4248),
     (0, 0), (0, 0), (32, 4264), (0, 0), (0, 0),
     (0, 0), (0, 0), (0, 0), (0, 0), (39, -3352),
     (45, -3349), (0, 0), (0, 0), (0, 0), (0, 0),
     (45, -3354), (0, 0), (0, 0), (32, 4248), (0, 0),
     (0, 0), (0, 0), (0, 0), (0, 0), (0, 0),
     (39, -3368), (0, 0), (0, 0), (0, 0), (0, 0)]"

definition yy_transition_100 :: "yy_trans_info list" where
  "yy_transition_100 = [
     (0, 0), (45, -3370), (0, 23), (0, 7420), (1, 4248),
     (2, 4248), (3, 4248), (4, 4248), (5, 4248), (6, 4248),
     (7, 4248), (8, 4248), (9, 4248), (10, 4248), (11, 4248),
     (12, 4248), (13, 4248), (14, 4248), (15, 4248), (16, 4248),
     (17, 4248), (18, 4248), (19, 4248), (20, 4248), (21, 4248),
     (22, 4248), (23, 4248), (24, 4248), (25, 4248), (26, 4248),
     (27, 4248), (28, 4248), (29, 4248), (30, 4248), (31, 4248),
     (32, 4248), (33, 4248), (34, 4248), (35, 4248), (36, 4248),
     (37, 4248), (38, 4248), (0, 0), (40, 4248), (41, 4248),
     (42, 4248), (43, 4248), (44, 4248), (45, 4248), (46, 4248),
     (47, 4248), (48, 4248), (49, 4248), (50, 4248), (51, 4248),
     (52, 4248), (53, 4248), (54, 4248), (55, 4248), (56, 4248),
     (57, 4248), (58, 4248), (59, 4248), (60, 4248), (61, 4248),
     (62, 4248), (63, 4248), (64, 4248), (65, 4248), (66, 4248),
     (67, 4248), (68, 4248), (69, 4248), (70, 4248), (71, 4248),
     (72, 4248), (73, 4248), (74, 4248), (75, 4248), (76, 4248),
     (77, 4248), (78, 4248), (79, 4248), (80, 4248), (81, 4248),
     (82, 4248), (83, 4248), (84, 4248), (85, 4248), (86, 4248),
     (87, 4248), (88, 4248), (89, 4248), (90, 4248), (91, 4248),
     (0, 0), (93, 4248), (94, 4248), (95, 4248), (96, 4248)]"

definition yy_transition_101 :: "yy_trans_info list" where
  "yy_transition_101 = [
     (97, 4248), (98, 4248), (99, 4248), (100, 4248), (101, 4248),
     (102, 4248), (103, 4248), (104, 4248), (105, 4248), (106, 4248),
     (107, 4248), (108, 4248), (109, 4248), (110, 4248), (111, 4248),
     (112, 4248), (113, 4248), (114, 4248), (115, 4248), (116, 4248),
     (117, 4248), (118, 4248), (119, 4248), (120, 4248), (121, 4248),
     (122, 4248), (123, 4248), (124, 4248), (125, 4248), (126, 4248),
     (127, 4248), (128, 4248), (129, 4248), (130, 4248), (131, 4248),
     (132, 4248), (133, 4248), (134, 4248), (135, 4248), (136, 4248),
     (137, 4248), (138, 4248), (139, 4248), (140, 4248), (141, 4248),
     (142, 4248), (143, 4248), (144, 4248), (145, 4248), (146, 4248),
     (147, 4248), (148, 4248), (149, 4248), (150, 4248), (151, 4248),
     (152, 4248), (153, 4248), (154, 4248), (155, 4248), (156, 4248),
     (157, 4248), (158, 4248), (159, 4248), (160, 4248), (161, 4248),
     (162, 4248), (163, 4248), (164, 4248), (165, 4248), (166, 4248),
     (167, 4248), (168, 4248), (169, 4248), (170, 4248), (171, 4248),
     (172, 4248), (173, 4248), (174, 4248), (175, 4248), (176, 4248),
     (177, 4248), (178, 4248), (179, 4248), (180, 4248), (181, 4248),
     (182, 4248), (183, 4248), (184, 4248), (185, 4248), (186, 4248),
     (187, 4248), (188, 4248), (189, 4248), (190, 4248), (191, 4248),
     (192, 4248), (193, 4248), (194, 4248), (195, 4248), (196, 4248)]"

definition yy_transition_102 :: "yy_trans_info list" where
  "yy_transition_102 = [
     (197, 4248), (198, 4248), (199, 4248), (200, 4248), (201, 4248),
     (202, 4248), (203, 4248), (204, 4248), (205, 4248), (206, 4248),
     (207, 4248), (208, 4248), (209, 4248), (210, 4248), (211, 4248),
     (212, 4248), (213, 4248), (214, 4248), (215, 4248), (216, 4248),
     (217, 4248), (218, 4248), (219, 4248), (220, 4248), (221, 4248),
     (222, 4248), (223, 4248), (224, 4248), (225, 4248), (226, 4248),
     (227, 4248), (228, 4248), (229, 4248), (230, 4248), (231, 4248),
     (232, 4248), (233, 4248), (234, 4248), (235, 4248), (236, 4248),
     (237, 4248), (238, 4248), (239, 4248), (240, 4248), (241, 4248),
     (242, 4248), (243, 4248), (244, 4248), (245, 4248), (246, 4248),
     (247, 4248), (248, 4248), (249, 4248), (250, 4248), (251, 4248),
     (252, 4248), (253, 4248), (254, 4248), (255, 4248), (256, 4248),
     (0, 23), (0, 7162), (1, 3990), (2, 3990), (3, 3990),
     (4, 3990), (5, 3990), (6, 3990), (7, 3990), (8, 3990),
     (9, 3990), (10, 3990), (11, 3990), (12, 3990), (13, 3990),
     (14, 3990), (15, 3990), (16, 3990), (17, 3990), (18, 3990),
     (19, 3990), (20, 3990), (21, 3990), (22, 3990), (23, 3990),
     (24, 3990), (25, 3990), (26, 3990), (27, 3990), (28, 3990),
     (29, 3990), (30, 3990), (31, 3990), (32, 3990), (33, 3990),
     (34, 3990), (35, 3990), (36, 3990), (37, 3990), (38, 3990)]"

definition yy_transition_103 :: "yy_trans_info list" where
  "yy_transition_103 = [
     (0, 0), (40, 3990), (41, 3990), (42, 3990), (43, 3990),
     (44, 3990), (45, 3990), (46, 3990), (47, 3990), (48, 3990),
     (49, 3990), (50, 3990), (51, 3990), (52, 3990), (53, 3990),
     (54, 3990), (55, 3990), (56, 3990), (57, 3990), (58, 3990),
     (59, 3990), (60, 3990), (61, 3990), (62, 3990), (63, 3990),
     (64, 3990), (65, 3990), (66, 3990), (67, 3990), (68, 3990),
     (69, 3990), (70, 3990), (71, 3990), (72, 3990), (73, 3990),
     (74, 3990), (75, 3990), (76, 3990), (77, 3990), (78, 3990),
     (79, 3990), (80, 3990), (81, 3990), (82, 3990), (83, 3990),
     (84, 3990), (85, 3990), (86, 3990), (87, 3990), (88, 3990),
     (89, 3990), (90, 3990), (91, 3990), (0, 0), (93, 3990),
     (94, 3990), (95, 3990), (96, 3990), (97, 3990), (98, 3990),
     (99, 3990), (100, 3990), (101, 3990), (102, 3990), (103, 3990),
     (104, 3990), (105, 3990), (106, 3990), (107, 3990), (108, 3990),
     (109, 3990), (110, 3990), (111, 3990), (112, 3990), (113, 3990),
     (114, 3990), (115, 3990), (116, 3990), (117, 3990), (118, 3990),
     (119, 3990), (120, 3990), (121, 3990), (122, 3990), (123, 3990),
     (124, 3990), (125, 3990), (126, 3990), (127, 3990), (128, 3990),
     (129, 3990), (130, 3990), (131, 3990), (132, 3990), (133, 3990),
     (134, 3990), (135, 3990), (136, 3990), (137, 3990), (138, 3990)]"

definition yy_transition_104 :: "yy_trans_info list" where
  "yy_transition_104 = [
     (139, 3990), (140, 3990), (141, 3990), (142, 3990), (143, 3990),
     (144, 3990), (145, 3990), (146, 3990), (147, 3990), (148, 3990),
     (149, 3990), (150, 3990), (151, 3990), (152, 3990), (153, 3990),
     (154, 3990), (155, 3990), (156, 3990), (157, 3990), (158, 3990),
     (159, 3990), (160, 3990), (161, 3990), (162, 3990), (163, 3990),
     (164, 3990), (165, 3990), (166, 3990), (167, 3990), (168, 3990),
     (169, 3990), (170, 3990), (171, 3990), (172, 3990), (173, 3990),
     (174, 3990), (175, 3990), (176, 3990), (177, 3990), (178, 3990),
     (179, 3990), (180, 3990), (181, 3990), (182, 3990), (183, 3990),
     (184, 3990), (185, 3990), (186, 3990), (187, 3990), (188, 3990),
     (189, 3990), (190, 3990), (191, 3990), (192, 3990), (193, 3990),
     (194, 3990), (195, 3990), (196, 3990), (197, 3990), (198, 3990),
     (199, 3990), (200, 3990), (201, 3990), (202, 3990), (203, 3990),
     (204, 3990), (205, 3990), (206, 3990), (207, 3990), (208, 3990),
     (209, 3990), (210, 3990), (211, 3990), (212, 3990), (213, 3990),
     (214, 3990), (215, 3990), (216, 3990), (217, 3990), (218, 3990),
     (219, 3990), (220, 3990), (221, 3990), (222, 3990), (223, 3990),
     (224, 3990), (225, 3990), (226, 3990), (227, 3990), (228, 3990),
     (229, 3990), (230, 3990), (231, 3990), (232, 3990), (233, 3990),
     (234, 3990), (235, 3990), (236, 3990), (237, 3990), (238, 3990)]"

definition yy_transition_105 :: "yy_trans_info list" where
  "yy_transition_105 = [
     (239, 3990), (240, 3990), (241, 3990), (242, 3990), (243, 3990),
     (244, 3990), (245, 3990), (246, 3990), (247, 3990), (248, 3990),
     (249, 3990), (250, 3990), (251, 3990), (252, 3990), (253, 3990),
     (254, 3990), (255, 3990), (256, 3990), (0, 32), (0, 6904),
     (1, -3929), (2, -3929), (3, -3929), (4, -3929), (5, -3929),
     (6, -3929), (7, -3929), (8, -3929), (9, -3929), (10, -3929),
     (11, -3929), (12, -3929), (13, -3929), (14, -3929), (15, -3929),
     (16, -3929), (17, -3929), (18, -3929), (19, -3929), (20, -3929),
     (21, -3929), (22, -3929), (23, -3929), (24, -3929), (25, -3929),
     (26, -3929), (27, -3929), (28, -3929), (29, -3929), (30, -3929),
     (31, -3929), (32, -3929), (33, -3929), (34, -3929), (35, -3929),
     (36, -3929), (37, -3929), (38, -3929), (39, -3929), (40, -3929),
     (41, -3929), (42, -3929), (43, -3929), (44, -3929), (45, -3929),
     (46, -3929), (47, -3929), (48, 3990), (49, 3990), (50, 3990),
     (51, 3990), (52, 3990), (53, 3990), (54, 3990), (55, 3990),
     (56, -3929), (57, -3929), (58, -3929), (59, -3929), (60, -3929),
     (61, -3929), (62, -3929), (63, -3929), (64, -3929), (65, -3929),
     (66, -3929), (67, -3929), (68, -3929), (69, -3929), (70, -3929),
     (71, -3929), (72, -3929), (73, -3929), (74, -3929), (75, -3929),
     (76, -3929), (77, -3929), (78, -3929), (79, -3929), (80, -3929)]"

definition yy_transition_106 :: "yy_trans_info list" where
  "yy_transition_106 = [
     (81, -3929), (82, -3929), (83, -3929), (84, -3929), (85, 3998),
     (86, -3929), (87, -3929), (88, -3929), (89, -3929), (90, -3929),
     (91, -3929), (92, -3929), (93, -3929), (94, -3929), (95, -3929),
     (96, -3929), (97, -3929), (98, -3929), (99, -3929), (100, -3929),
     (101, -3929), (102, -3929), (103, -3929), (104, -3929), (105, -3929),
     (106, -3929), (107, -3929), (108, -3929), (109, -3929), (110, -3929),
     (111, -3929), (112, -3929), (113, -3929), (114, -3929), (115, -3929),
     (116, -3929), (117, 4021), (118, -3929), (119, -3929), (120, 4059),
     (121, -3929), (122, -3929), (123, -3929), (124, -3929), (125, -3929),
     (126, -3929), (127, -3929), (128, -3929), (129, -3929), (130, -3929),
     (131, -3929), (132, -3929), (133, -3929), (134, -3929), (135, -3929),
     (136, -3929), (137, -3929), (138, -3929), (139, -3929), (140, -3929),
     (141, -3929), (142, -3929), (143, -3929), (144, -3929), (145, -3929),
     (146, -3929), (147, -3929), (148, -3929), (149, -3929), (150, -3929),
     (151, -3929), (152, -3929), (153, -3929), (154, -3929), (155, -3929),
     (156, -3929), (157, -3929), (158, -3929), (159, -3929), (160, -3929),
     (161, -3929), (162, -3929), (163, -3929), (164, -3929), (165, -3929),
     (166, -3929), (167, -3929), (168, -3929), (169, -3929), (170, -3929),
     (171, -3929), (172, -3929), (173, -3929), (174, -3929), (175, -3929),
     (176, -3929), (177, -3929), (178, -3929), (179, -3929), (180, -3929)]"

definition yy_transition_107 :: "yy_trans_info list" where
  "yy_transition_107 = [
     (181, -3929), (182, -3929), (183, -3929), (184, -3929), (185, -3929),
     (186, -3929), (187, -3929), (188, -3929), (189, -3929), (190, -3929),
     (191, -3929), (192, -3929), (193, -3929), (194, -3929), (195, -3929),
     (196, -3929), (197, -3929), (198, -3929), (199, -3929), (200, -3929),
     (201, -3929), (202, -3929), (203, -3929), (204, -3929), (205, -3929),
     (206, -3929), (207, -3929), (208, -3929), (209, -3929), (210, -3929),
     (211, -3929), (212, -3929), (213, -3929), (214, -3929), (215, -3929),
     (216, -3929), (217, -3929), (218, -3929), (219, -3929), (220, -3929),
     (221, -3929), (222, -3929), (223, -3929), (224, -3929), (225, -3929),
     (226, -3929), (227, -3929), (228, -3929), (229, -3929), (230, -3929),
     (231, -3929), (232, -3929), (233, -3929), (234, -3929), (235, -3929),
     (236, -3929), (237, -3929), (238, -3929), (239, -3929), (240, -3929),
     (241, -3929), (242, -3929), (243, -3929), (244, -3929), (245, -3929),
     (246, -3929), (247, -3929), (248, -3929), (249, -3929), (250, -3929),
     (251, -3929), (252, -3929), (253, -3929), (254, -3929), (255, -3929),
     (256, -3929), (0, 36), (0, 6646), (1, 3905), (2, 3905),
     (3, 3905), (4, 3905), (5, 3905), (6, 3905), (7, 3905),
     (8, 3905), (9, 3905), (10, 3905), (11, 3905), (12, 3905),
     (13, 3905), (14, 3905), (15, 3905), (16, 3905), (17, 3905),
     (18, 3905), (19, 3905), (20, 3905), (21, 3905), (22, 3905)]"

definition yy_transition_108 :: "yy_trans_info list" where
  "yy_transition_108 = [
     (23, 3905), (24, 3905), (25, 3905), (26, 3905), (27, 3905),
     (28, 3905), (29, 3905), (30, 3905), (31, 3905), (32, 3905),
     (33, 3905), (34, 3905), (35, 3905), (0, 0), (37, 3905),
     (38, 3905), (39, 3905), (40, 3905), (41, 3905), (42, 3905),
     (43, 3905), (44, 3905), (45, 3905), (46, 3905), (47, 3905),
     (48, 3905), (49, 3905), (50, 3905), (51, 3905), (52, 3905),
     (53, 3905), (54, 3905), (55, 3905), (56, 3905), (57, 3905),
     (58, 3905), (59, 3905), (60, 3905), (61, 3905), (62, 3905),
     (63, 3905), (64, 3905), (65, 3905), (66, 3905), (67, 3905),
     (68, 3905), (69, 3905), (70, 3905), (71, 3905), (72, 3905),
     (73, 3905), (74, 3905), (75, 3905), (76, 3905), (77, 3905),
     (78, 3905), (79, 3905), (80, 3905), (81, 3905), (82, 3905),
     (83, 3905), (84, 3905), (85, 3905), (86, 3905), (87, 3905),
     (88, 3905), (89, 3905), (90, 3905), (91, 3905), (92, 3905),
     (93, 3905), (94, 3905), (95, 3905), (96, 3905), (97, 3905),
     (98, 3905), (99, 3905), (100, 3905), (101, 3905), (102, 3905),
     (103, 3905), (104, 3905), (105, 3905), (106, 3905), (107, 3905),
     (108, 3905), (109, 3905), (110, 3905), (111, 3905), (112, 3905),
     (113, 3905), (114, 3905), (115, 3905), (116, 3905), (117, 3905),
     (118, 3905), (119, 3905), (120, 3905), (121, 3905), (122, 3905)]"

definition yy_transition_109 :: "yy_trans_info list" where
  "yy_transition_109 = [
     (123, 3905), (124, 3905), (125, 3905), (126, 3905), (127, 3905),
     (128, 3905), (129, 3905), (130, 3905), (131, 3905), (132, 3905),
     (133, 3905), (134, 3905), (135, 3905), (136, 3905), (137, 3905),
     (138, 3905), (139, 3905), (140, 3905), (141, 3905), (142, 3905),
     (143, 3905), (144, 3905), (145, 3905), (146, 3905), (147, 3905),
     (148, 3905), (149, 3905), (150, 3905), (151, 3905), (152, 3905),
     (153, 3905), (154, 3905), (155, 3905), (156, 3905), (157, 3905),
     (158, 3905), (159, 3905), (160, 3905), (161, 3905), (162, 3905),
     (163, 3905), (164, 3905), (165, 3905), (166, 3905), (167, 3905),
     (168, 3905), (169, 3905), (170, 3905), (171, 3905), (172, 3905),
     (173, 3905), (174, 3905), (175, 3905), (176, 3905), (177, 3905),
     (178, 3905), (179, 3905), (180, 3905), (181, 3905), (182, 3905),
     (183, 3905), (184, 3905), (185, 3905), (186, 3905), (187, 3905),
     (188, 3905), (189, 3905), (190, 3905), (191, 3905), (192, 3905),
     (193, 3905), (194, 3905), (195, 3905), (196, 3905), (197, 3905),
     (198, 3905), (199, 3905), (200, 3905), (201, 3905), (202, 3905),
     (203, 3905), (204, 3905), (205, 3905), (206, 3905), (207, 3905),
     (208, 3905), (209, 3905), (210, 3905), (211, 3905), (212, 3905),
     (213, 3905), (214, 3905), (215, 3905), (216, 3905), (217, 3905),
     (218, 3905), (219, 3905), (220, 3905), (221, 3905), (222, 3905)]"

definition yy_transition_110 :: "yy_trans_info list" where
  "yy_transition_110 = [
     (223, 3905), (224, 3905), (225, 3905), (226, 3905), (227, 3905),
     (228, 3905), (229, 3905), (230, 3905), (231, 3905), (232, 3905),
     (233, 3905), (234, 3905), (235, 3905), (236, 3905), (237, 3905),
     (238, 3905), (239, 3905), (240, 3905), (241, 3905), (242, 3905),
     (243, 3905), (244, 3905), (245, 3905), (246, 3905), (247, 3905),
     (248, 3905), (249, 3905), (250, 3905), (251, 3905), (252, 3905),
     (253, 3905), (254, 3905), (255, 3905), (256, 3905), (0, 36),
     (0, 6388), (1, 3647), (2, 3647), (3, 3647), (4, 3647),
     (5, 3647), (6, 3647), (7, 3647), (8, 3647), (9, 3647),
     (10, 3647), (11, 3647), (12, 3647), (13, 3647), (14, 3647),
     (15, 3647), (16, 3647), (17, 3647), (18, 3647), (19, 3647),
     (20, 3647), (21, 3647), (22, 3647), (23, 3647), (24, 3647),
     (25, 3647), (26, 3647), (27, 3647), (28, 3647), (29, 3647),
     (30, 3647), (31, 3647), (32, 3647), (33, 3647), (34, 3647),
     (35, 3647), (0, 0), (37, 3647), (38, 3647), (39, 3647),
     (40, 3647), (41, 3647), (42, 3647), (43, 3647), (44, 3647),
     (45, 3647), (46, 3647), (47, 3647), (48, 3647), (49, 3647),
     (50, 3647), (51, 3647), (52, 3647), (53, 3647), (54, 3647),
     (55, 3647), (56, 3647), (57, 3647), (58, 3647), (59, 3647),
     (60, 3647), (61, 3647), (62, 3647), (63, 3647), (64, 3647)]"

definition yy_transition_111 :: "yy_trans_info list" where
  "yy_transition_111 = [
     (65, 3647), (66, 3647), (67, 3647), (68, 3647), (69, 3647),
     (70, 3647), (71, 3647), (72, 3647), (73, 3647), (74, 3647),
     (75, 3647), (76, 3647), (77, 3647), (78, 3647), (79, 3647),
     (80, 3647), (81, 3647), (82, 3647), (83, 3647), (84, 3647),
     (85, 3647), (86, 3647), (87, 3647), (88, 3647), (89, 3647),
     (90, 3647), (91, 3647), (92, 3647), (93, 3647), (94, 3647),
     (95, 3647), (96, 3647), (97, 3647), (98, 3647), (99, 3647),
     (100, 3647), (101, 3647), (102, 3647), (103, 3647), (104, 3647),
     (105, 3647), (106, 3647), (107, 3647), (108, 3647), (109, 3647),
     (110, 3647), (111, 3647), (112, 3647), (113, 3647), (114, 3647),
     (115, 3647), (116, 3647), (117, 3647), (118, 3647), (119, 3647),
     (120, 3647), (121, 3647), (122, 3647), (123, 3647), (124, 3647),
     (125, 3647), (126, 3647), (127, 3647), (128, 3647), (129, 3647),
     (130, 3647), (131, 3647), (132, 3647), (133, 3647), (134, 3647),
     (135, 3647), (136, 3647), (137, 3647), (138, 3647), (139, 3647),
     (140, 3647), (141, 3647), (142, 3647), (143, 3647), (144, 3647),
     (145, 3647), (146, 3647), (147, 3647), (148, 3647), (149, 3647),
     (150, 3647), (151, 3647), (152, 3647), (153, 3647), (154, 3647),
     (155, 3647), (156, 3647), (157, 3647), (158, 3647), (159, 3647),
     (160, 3647), (161, 3647), (162, 3647), (163, 3647), (164, 3647)]"

definition yy_transition_112 :: "yy_trans_info list" where
  "yy_transition_112 = [
     (165, 3647), (166, 3647), (167, 3647), (168, 3647), (169, 3647),
     (170, 3647), (171, 3647), (172, 3647), (173, 3647), (174, 3647),
     (175, 3647), (176, 3647), (177, 3647), (178, 3647), (179, 3647),
     (180, 3647), (181, 3647), (182, 3647), (183, 3647), (184, 3647),
     (185, 3647), (186, 3647), (187, 3647), (188, 3647), (189, 3647),
     (190, 3647), (191, 3647), (192, 3647), (193, 3647), (194, 3647),
     (195, 3647), (196, 3647), (197, 3647), (198, 3647), (199, 3647),
     (200, 3647), (201, 3647), (202, 3647), (203, 3647), (204, 3647),
     (205, 3647), (206, 3647), (207, 3647), (208, 3647), (209, 3647),
     (210, 3647), (211, 3647), (212, 3647), (213, 3647), (214, 3647),
     (215, 3647), (216, 3647), (217, 3647), (218, 3647), (219, 3647),
     (220, 3647), (221, 3647), (222, 3647), (223, 3647), (224, 3647),
     (225, 3647), (226, 3647), (227, 3647), (228, 3647), (229, 3647),
     (230, 3647), (231, 3647), (232, 3647), (233, 3647), (234, 3647),
     (235, 3647), (236, 3647), (237, 3647), (238, 3647), (239, 3647),
     (240, 3647), (241, 3647), (242, 3647), (243, 3647), (244, 3647),
     (245, 3647), (246, 3647), (247, 3647), (248, 3647), (249, 3647),
     (250, 3647), (251, 3647), (252, 3647), (253, 3647), (254, 3647),
     (255, 3647), (256, 3647), (0, 38), (0, 6130), (0, 1),
     (0, 6128), (0, 0), (0, 0), (0, 0), (0, 0)]"

definition yy_transition_113 :: "yy_trans_info list" where
  "yy_transition_113 = [
     (0, 0), (0, 0), (0, 0), (0, 0), (9, 0),
     (10, 0), (0, 0), (12, 0), (13, 0), (0, 0),
     (0, 0), (0, 0), (0, 0), (0, 0), (0, 0),
     (0, 0), (0, 0), (0, 0), (0, 0), (0, 0),
     (0, 0), (0, 0), (0, 0), (0, 0), (0, 0),
     (0, 0), (0, 0), (32, 0), (0, 0), (36, -4701),
     (0, 0), (0, 0), (0, 0), (0, 0), (0, 0),
     (0, 0), (0, 0), (0, 0), (0, 0), (0, 0),
     (0, 0), (0, 0), (0, 0), (0, 0), (0, 0),
     (0, 0), (0, 0), (0, 0), (0, 0), (0, 0),
     (0, 0), (0, 0), (0, 0), (0, 0), (0, 0),
     (0, 0), (0, 0), (0, 0), (65, 3647), (66, 3647),
     (67, 3647), (68, 3647), (69, 3647), (70, 3647), (71, 3647),
     (72, 3647), (73, 3647), (74, 3647), (75, 3647), (76, 3647),
     (77, 3647), (78, 3647), (79, 3647), (80, 3647), (81, 3647),
     (82, 3647), (83, 3647), (84, 3647), (85, 3647), (86, 3647),
     (87, 3647), (88, 3647), (89, 3647), (90, 3647), (0, 0),
     (0, 0), (0, 0), (0, 0), (95, 3647), (0, 0),
     (97, 3647), (98, 3647), (99, 3647), (100, 3647), (101, 3647),
     (102, 3647), (103, 3647), (104, 3647), (105, 3647), (106, 3647)]"

definition yy_transition_114 :: "yy_trans_info list" where
  "yy_transition_114 = [
     (107, 3647), (108, 3647), (109, 3647), (110, 3647), (111, 3647),
     (112, 3647), (113, 3647), (114, 3647), (115, 3647), (116, 3647),
     (117, 3647), (118, 3647), (119, 3647), (120, 3647), (121, 3647),
     (122, 3647), (0, 0), (0, 0), (0, 0), (0, 0),
     (0, 0), (128, 3647), (129, 3647), (130, 3647), (131, 3647),
     (132, 3647), (133, 3647), (134, 3647), (135, 3647), (136, 3647),
     (137, 3647), (138, 3647), (139, 3647), (140, 3647), (141, 3647),
     (142, 3647), (143, 3647), (144, 3647), (145, 3647), (146, 3647),
     (147, 3647), (148, 3647), (149, 3647), (150, 3647), (151, 3647),
     (152, 3647), (153, 3647), (154, 3647), (155, 3647), (156, 3647),
     (157, 3647), (158, 3647), (159, 3647), (160, 3647), (161, 3647),
     (162, 3647), (163, 3647), (164, 3647), (165, 3647), (166, 3647),
     (167, 3647), (168, 3647), (169, 3647), (170, 3647), (171, 3647),
     (172, 3647), (173, 3647), (174, 3647), (175, 3647), (176, 3647),
     (177, 3647), (178, 3647), (179, 3647), (180, 3647), (181, 3647),
     (182, 3647), (183, 3647), (184, 3647), (185, 3647), (186, 3647),
     (187, 3647), (188, 3647), (189, 3647), (190, 3647), (191, 3647),
     (192, 3647), (193, 3647), (194, 3647), (195, 3647), (196, 3647),
     (197, 3647), (198, 3647), (199, 3647), (200, 3647), (201, 3647),
     (202, 3647), (203, 3647), (204, 3647), (205, 3647), (206, 3647)]"

definition yy_transition_115 :: "yy_trans_info list" where
  "yy_transition_115 = [
     (207, 3647), (208, 3647), (209, 3647), (210, 3647), (211, 3647),
     (212, 3647), (213, 3647), (214, 3647), (215, 3647), (216, 3647),
     (217, 3647), (218, 3647), (219, 3647), (220, 3647), (221, 3647),
     (222, 3647), (223, 3647), (224, 3647), (225, 3647), (226, 3647),
     (227, 3647), (228, 3647), (229, 3647), (230, 3647), (231, 3647),
     (232, 3647), (233, 3647), (234, 3647), (235, 3647), (236, 3647),
     (237, 3647), (238, 3647), (239, 3647), (240, 3647), (241, 3647),
     (242, 3647), (243, 3647), (244, 3647), (245, 3647), (246, 3647),
     (247, 3647), (248, 3647), (249, 3647), (250, 3647), (251, 3647),
     (252, 3647), (253, 3647), (254, 3647), (255, 3647), (0, 56),
     (0, 5873), (0, 0), (0, 0), (0, 0), (0, 0),
     (0, 0), (0, 0), (0, 0), (0, 0), (0, 0),
     (0, 54), (0, 5862), (0, 0), (0, 0), (0, 0),
     (0, 0), (0, 0), (0, 0), (0, 0), (0, 0),
     (0, 0), (0, 0), (0, 0), (0, 0), (0, 0),
     (0, 0), (0, 0), (0, 57), (0, 5845), (0, 0),
     (0, 0), (0, 0), (0, 0), (33, 0), (0, 0),
     (35, 0), (0, 0), (37, 0), (38, 0), (0, 0),
     (0, 0), (0, 0), (42, 0), (43, 0), (33, -11),
     (45, 0), (35, -11), (47, 0), (37, -11), (38, -11)]"

definition yy_transition_116 :: "yy_trans_info list" where
  "yy_transition_116 = [
     (0, 0), (0, 0), (0, 0), (42, -11), (43, -11),
     (0, 0), (45, -11), (0, 0), (47, -11), (0, 0),
     (60, 0), (61, 0), (62, 0), (63, 0), (64, 0),
     (0, 0), (0, 0), (0, 0), (0, 0), (0, 0),
     (0, 0), (60, -11), (61, -11), (62, -11), (63, -11),
     (64, -11), (48, 0), (49, 0), (50, 0), (51, 0),
     (52, 0), (53, 0), (54, 0), (55, 0), (56, 0),
     (57, 0), (0, 0), (0, 0), (0, 0), (0, 0),
     (0, 34), (0, 5782), (0, 0), (0, 0), (94, 0),
     (0, 0), (96, 0), (0, 0), (0, 0), (0, 0),
     (0, 0), (0, 0), (0, 0), (0, 0), (0, 0),
     (94, -11), (0, 0), (96, -11), (0, 0), (0, 0),
     (0, 0), (0, 0), (0, 0), (0, 0), (0, 0),
     (0, 0), (0, 0), (0, 0), (0, 0), (0, 0),
     (0, 0), (0, 0), (0, 0), (0, 0), (124, 0),
     (0, 0), (126, 0), (36, -5323), (0, 0), (0, 0),
     (0, 0), (0, 0), (0, 0), (0, 0), (0, 0),
     (124, -11), (0, 0), (126, -11), (0, 0), (48, 3638),
     (49, 3638), (50, 3638), (51, 3638), (52, 3638), (53, 3638),
     (54, 3638), (55, 3638), (56, 3638), (57, 3638), (0, 0)]"

definition yy_transition_117 :: "yy_trans_info list" where
  "yy_transition_117 = [
     (0, 0), (0, 0), (0, 0), (0, 0), (0, 0),
     (0, 0), (65, 3638), (66, 3638), (67, 3638), (68, 3638),
     (69, 3638), (70, 3638), (71, 3638), (72, 3638), (73, 3638),
     (74, 3638), (75, 3638), (76, 3638), (77, 3638), (78, 3638),
     (79, 3638), (80, 3638), (81, 3638), (82, 3638), (83, 3638),
     (84, 3638), (85, 3638), (86, 3638), (87, 3638), (88, 3638),
     (89, 3638), (90, 3638), (0, 0), (0, 0), (0, 0),
     (0, 0), (95, 3638), (0, 0), (97, 3638), (98, 3638),
     (99, 3638), (100, 3638), (101, 3638), (102, 3638), (103, 3638),
     (104, 3638), (105, 3638), (106, 3638), (107, 3638), (108, 3638),
     (109, 3638), (110, 3638), (111, 3638), (112, 3638), (113, 3638),
     (114, 3638), (115, 3638), (116, 3638), (117, 3638), (118, 3638),
     (119, 3638), (120, 3638), (121, 3638), (122, 3638), (0, 0),
     (0, 0), (0, 0), (0, 0), (0, 0), (128, 3638),
     (129, 3638), (130, 3638), (131, 3638), (132, 3638), (133, 3638),
     (134, 3638), (135, 3638), (136, 3638), (137, 3638), (138, 3638),
     (139, 3638), (140, 3638), (141, 3638), (142, 3638), (143, 3638),
     (144, 3638), (145, 3638), (146, 3638), (147, 3638), (148, 3638),
     (149, 3638), (150, 3638), (151, 3638), (152, 3638), (153, 3638),
     (154, 3638), (155, 3638), (156, 3638), (157, 3638), (158, 3638)]"

definition yy_transition_118 :: "yy_trans_info list" where
  "yy_transition_118 = [
     (159, 3638), (160, 3638), (161, 3638), (162, 3638), (163, 3638),
     (164, 3638), (165, 3638), (166, 3638), (167, 3638), (168, 3638),
     (169, 3638), (170, 3638), (171, 3638), (172, 3638), (173, 3638),
     (174, 3638), (175, 3638), (176, 3638), (177, 3638), (178, 3638),
     (179, 3638), (180, 3638), (181, 3638), (182, 3638), (183, 3638),
     (184, 3638), (185, 3638), (186, 3638), (187, 3638), (188, 3638),
     (189, 3638), (190, 3638), (191, 3638), (192, 3638), (193, 3638),
     (194, 3638), (195, 3638), (196, 3638), (197, 3638), (198, 3638),
     (199, 3638), (200, 3638), (201, 3638), (202, 3638), (203, 3638),
     (204, 3638), (205, 3638), (206, 3638), (207, 3638), (208, 3638),
     (209, 3638), (210, 3638), (211, 3638), (212, 3638), (213, 3638),
     (214, 3638), (215, 3638), (216, 3638), (217, 3638), (218, 3638),
     (219, 3638), (220, 3638), (221, 3638), (222, 3638), (223, 3638),
     (224, 3638), (225, 3638), (226, 3638), (227, 3638), (228, 3638),
     (229, 3638), (230, 3638), (231, 3638), (232, 3638), (233, 3638),
     (234, 3638), (235, 3638), (236, 3638), (237, 3638), (238, 3638),
     (239, 3638), (240, 3638), (241, 3638), (242, 3638), (243, 3638),
     (244, 3638), (245, 3638), (246, 3638), (247, 3638), (248, 3638),
     (249, 3638), (250, 3638), (251, 3638), (252, 3638), (253, 3638),
     (254, 3638), (255, 3638), (0, 2), (0, 5525), (1, 3638)]"

definition yy_transition_119 :: "yy_trans_info list" where
  "yy_transition_119 = [
     (2, 3638), (3, 3638), (4, 3638), (5, 3638), (6, 3638),
     (7, 3638), (8, 3638), (9, 3638), (0, 0), (11, 3638),
     (12, 3638), (0, 0), (14, 3638), (15, 3638), (16, 3638),
     (17, 3638), (18, 3638), (19, 3638), (20, 3638), (21, 3638),
     (22, 3638), (23, 3638), (24, 3638), (25, 3638), (26, 3638),
     (27, 3638), (28, 3638), (29, 3638), (30, 3638), (31, 3638),
     (32, 3638), (33, 3896), (34, 3638), (35, 3896), (36, 3638),
     (37, 3896), (38, 3896), (39, 3638), (40, 3638), (41, 3638),
     (42, 3896), (43, 3896), (44, 3638), (45, 3896), (46, 3638),
     (47, 3896), (48, 3638), (49, 3638), (50, 3638), (51, 3638),
     (52, 3638), (53, 3638), (54, 3638), (55, 3638), (56, 3638),
     (57, 3638), (58, 3638), (59, 3638), (60, 3896), (61, 3896),
     (62, 3896), (63, 3896), (64, 3896), (65, 3638), (66, 3638),
     (67, 3638), (68, 3638), (69, 3638), (70, 3638), (71, 3638),
     (72, 3638), (73, 3638), (74, 3638), (75, 3638), (76, 3638),
     (77, 3638), (78, 3638), (79, 3638), (80, 3638), (81, 3638),
     (82, 3638), (83, 3638), (84, 3638), (85, 3638), (86, 3638),
     (87, 3638), (88, 3638), (89, 3638), (90, 3638), (91, 3638),
     (92, 3638), (93, 3638), (94, 3896), (95, 3638), (96, 3896),
     (97, 3638), (98, 3638), (99, 3638), (100, 3638), (101, 3638)]"

definition yy_transition_120 :: "yy_trans_info list" where
  "yy_transition_120 = [
     (102, 3638), (103, 3638), (104, 3638), (105, 3638), (106, 3638),
     (107, 3638), (108, 3638), (109, 3638), (110, 3638), (111, 3638),
     (112, 3638), (113, 3638), (114, 3638), (115, 3638), (116, 3638),
     (117, 3638), (118, 3638), (119, 3638), (120, 3638), (121, 3638),
     (122, 3638), (123, 3638), (124, 3896), (125, 3638), (126, 3896),
     (127, 3638), (128, 3638), (129, 3638), (130, 3638), (131, 3638),
     (132, 3638), (133, 3638), (134, 3638), (135, 3638), (136, 3638),
     (137, 3638), (138, 3638), (139, 3638), (140, 3638), (141, 3638),
     (142, 3638), (143, 3638), (144, 3638), (145, 3638), (146, 3638),
     (147, 3638), (148, 3638), (149, 3638), (150, 3638), (151, 3638),
     (152, 3638), (153, 3638), (154, 3638), (155, 3638), (156, 3638),
     (157, 3638), (158, 3638), (159, 3638), (160, 3638), (161, 3638),
     (162, 3638), (163, 3638), (164, 3638), (165, 3638), (166, 3638),
     (167, 3638), (168, 3638), (169, 3638), (170, 3638), (171, 3638),
     (172, 3638), (173, 3638), (174, 3638), (175, 3638), (176, 3638),
     (177, 3638), (178, 3638), (179, 3638), (180, 3638), (181, 3638),
     (182, 3638), (183, 3638), (184, 3638), (185, 3638), (186, 3638),
     (187, 3638), (188, 3638), (189, 3638), (190, 3638), (191, 3638),
     (192, 3638), (193, 3638), (194, 3638), (195, 3638), (196, 3638),
     (197, 3638), (198, 3638), (199, 3638), (200, 3638), (201, 3638)]"

definition yy_transition_121 :: "yy_trans_info list" where
  "yy_transition_121 = [
     (202, 3638), (203, 3638), (204, 3638), (205, 3638), (206, 3638),
     (207, 3638), (208, 3638), (209, 3638), (210, 3638), (211, 3638),
     (212, 3638), (213, 3638), (214, 3638), (215, 3638), (216, 3638),
     (217, 3638), (218, 3638), (219, 3638), (220, 3638), (221, 3638),
     (222, 3638), (223, 3638), (224, 3638), (225, 3638), (226, 3638),
     (227, 3638), (228, 3638), (229, 3638), (230, 3638), (231, 3638),
     (232, 3638), (233, 3638), (234, 3638), (235, 3638), (236, 3638),
     (237, 3638), (238, 3638), (239, 3638), (240, 3638), (241, 3638),
     (242, 3638), (243, 3638), (244, 3638), (245, 3638), (246, 3638),
     (247, 3638), (248, 3638), (249, 3638), (250, 3638), (251, 3638),
     (252, 3638), (253, 3638), (254, 3638), (255, 3638), (256, 3638),
     (0, 59), (0, 5267), (0, 0), (0, 0), (0, 0),
     (0, 0), (0, 0), (0, 0), (0, 0), (0, 0),
     (0, 0), (0, 0), (0, 0), (0, 0), (0, 0),
     (0, 0), (0, 0), (0, 0), (0, 0), (0, 0),
     (0, 0), (0, 0), (0, 0), (0, 0), (0, 0),
     (0, 3), (0, 5242), (0, 59), (0, 5240), (0, 0),
     (0, 0), (0, 0), (0, 0), (0, 0), (0, 0),
     (0, 0), (0, 0), (0, 0), (0, 0), (0, 0),
     (0, 0), (0, 0), (0, 0), (0, 0), (0, 0)]"

definition yy_transition_122 :: "yy_trans_info list" where
  "yy_transition_122 = [
     (0, 0), (0, 0), (0, 0), (0, 0), (48, 0),
     (49, 0), (50, 0), (51, 0), (52, 0), (53, 0),
     (54, 0), (55, 0), (56, 0), (57, 0), (33, 3871),
     (0, 0), (35, 3871), (0, 0), (37, 3871), (38, 3871),
     (0, 0), (0, 0), (0, 0), (42, 3871), (43, 3871),
     (69, 113), (45, 3871), (0, 0), (47, 3871), (46, -5589),
     (0, 0), (48, 3871), (49, 3871), (50, 3871), (51, 3871),
     (52, 3871), (53, 3871), (54, 3871), (55, 3871), (56, 3871),
     (57, 3871), (60, 3871), (61, 3871), (62, 3871), (63, 3871),
     (64, 3871), (0, 58), (0, 5176), (0, 0), (0, 0),
     (0, 0), (0, 0), (69, 86), (0, 0), (0, 0),
     (0, 0), (0, 0), (101, 113), (0, 0), (0, 0),
     (0, 0), (0, 0), (0, 0), (0, 0), (0, 0),
     (0, 0), (0, 0), (0, 0), (0, 62), (0, 5154),
     (0, 0), (0, 0), (0, 0), (0, 0), (0, 0),
     (94, 3871), (0, 0), (96, 3871), (0, 0), (0, 0),
     (0, 0), (0, 0), (0, 0), (0, 0), (101, 86),
     (0, 0), (0, 0), (0, 0), (0, 0), (0, 0),
     (0, 0), (0, 0), (0, 0), (46, -64), (0, 0),
     (48, 0), (49, 0), (50, 0), (51, 0), (52, 0)]"

definition yy_transition_123 :: "yy_trans_info list" where
  "yy_transition_123 = [
     (53, 0), (54, 0), (55, 0), (56, 0), (57, 0),
     (124, 3871), (0, 0), (126, 3871), (0, 51), (0, 5114),
     (0, 0), (0, 0), (43, 3807), (0, 0), (45, 3807),
     (0, 0), (69, 22), (48, 3849), (49, 3849), (50, 3849),
     (51, 3849), (52, 3849), (53, 3849), (54, 3849), (55, 3849),
     (56, 3849), (57, 3849), (0, 0), (0, 0), (0, 0),
     (0, 0), (0, 0), (0, 0), (0, 0), (0, 0),
     (0, 0), (0, 0), (0, 0), (0, 0), (0, 0),
     (0, 0), (0, 0), (33, -759), (0, 0), (35, -759),
     (0, 0), (37, -759), (38, -759), (101, 22), (0, 53),
     (0, 5073), (42, -759), (43, -759), (0, 0), (45, -759),
     (0, 0), (47, -759), (0, 0), (0, 0), (0, 0),
     (0, 0), (0, 0), (0, 0), (0, 0), (0, 0),
     (0, 0), (0, 0), (0, 0), (0, 0), (60, -759),
     (61, -759), (62, -759), (63, -759), (64, -759), (0, 0),
     (0, 0), (0, 0), (0, 0), (0, 0), (0, 0),
     (0, 0), (0, 0), (0, 0), (33, -800), (0, 0),
     (35, -800), (0, 0), (37, -800), (38, -800), (0, 0),
     (0, 0), (0, 0), (42, -800), (43, -800), (0, 0),
     (45, -800), (0, 0), (47, -800), (0, 0), (0, 0)]"

definition yy_transition_124 :: "yy_trans_info list" where
  "yy_transition_124 = [
     (0, 0), (0, 0), (0, 0), (94, -759), (0, 0),
     (96, -759), (0, 0), (0, 0), (0, 0), (0, 0),
     (60, -800), (61, -800), (62, -800), (63, -800), (64, -800),
     (0, 0), (0, 50), (0, 5006), (0, 0), (0, 0),
     (0, 0), (0, 0), (0, 0), (0, 0), (0, 0),
     (0, 0), (0, 0), (0, 52), (0, 4995), (0, 0),
     (0, 0), (0, 0), (0, 0), (124, -759), (0, 0),
     (126, -759), (0, 0), (0, 0), (0, 0), (0, 0),
     (0, 0), (0, 0), (0, 0), (0, 0), (94, -800),
     (0, 0), (96, -800), (0, 0), (0, 0), (0, 0),
     (33, -867), (0, 0), (35, -867), (0, 0), (37, -867),
     (38, -867), (0, 0), (0, 0), (0, 0), (42, -867),
     (43, -867), (33, -878), (45, -867), (35, -878), (47, -867),
     (37, -878), (38, -878), (0, 0), (0, 0), (0, 0),
     (42, -878), (43, -878), (0, 0), (45, -878), (124, -800),
     (47, -878), (126, -800), (60, -867), (61, -867), (62, -867),
     (63, -867), (64, -867), (0, 0), (0, 0), (0, 0),
     (0, 0), (0, 0), (0, 0), (60, -878), (61, -878),
     (62, -878), (63, -878), (64, -878), (0, 0), (0, 0),
     (0, 0), (0, 0), (0, 0), (0, 0), (0, 0)]"

definition yy_transition_125 :: "yy_trans_info list" where
  "yy_transition_125 = [
     (0, 0), (0, 0), (0, 0), (0, 0), (0, 0),
     (0, 0), (0, 0), (0, 64), (0, 4915), (0, 0),
     (0, 0), (94, -867), (0, 0), (96, -867), (0, 0),
     (0, 0), (0, 0), (0, 0), (0, 0), (0, 0),
     (0, 0), (0, 0), (94, -878), (0, 0), (96, -878),
     (0, 0), (0, 0), (0, 0), (0, 0), (0, 0),
     (0, 0), (0, 0), (0, 0), (0, 0), (0, 0),
     (0, 0), (0, 0), (0, 0), (0, 0), (0, 0),
     (0, 0), (124, -867), (0, 0), (126, -867), (36, 0),
     (0, 0), (0, 0), (0, 0), (0, 0), (0, 0),
     (0, 0), (0, 0), (124, -878), (0, 0), (126, -878),
     (0, 0), (48, 0), (49, 0), (50, 0), (51, 0),
     (52, 0), (53, 0), (54, 0), (55, 0), (56, 0),
     (57, 0), (0, 0), (0, 0), (0, 0), (0, 0),
     (0, 0), (63, -6165), (0, 0), (65, 0), (66, 0),
     (67, 0), (68, 0), (69, 0), (70, 0), (71, 0),
     (72, 0), (73, 0), (74, 0), (75, 0), (76, 0),
     (77, 0), (78, 0), (79, 0), (80, 0), (81, 0),
     (82, 0), (83, 0), (84, 0), (85, 0), (86, 0),
     (87, 0), (88, 0), (89, 0), (90, 0), (0, 0)]"

definition yy_transition_126 :: "yy_trans_info list" where
  "yy_transition_126 = [
     (0, 0), (0, 0), (0, 0), (95, 0), (0, 0),
     (97, 0), (98, 0), (99, 0), (100, 0), (101, 0),
     (102, 0), (103, 0), (104, 0), (105, 0), (106, 0),
     (107, 0), (108, 0), (109, 0), (110, 0), (111, 0),
     (112, 0), (113, 0), (114, 0), (115, 0), (116, 0),
     (117, 0), (118, 0), (119, 0), (120, 0), (121, 0),
     (122, 0), (0, 0), (0, 0), (0, 0), (0, 0),
     (0, 0), (128, 0), (129, 0), (130, 0), (131, 0),
     (132, 0), (133, 0), (134, 0), (135, 0), (136, 0),
     (137, 0), (138, 0), (139, 0), (140, 0), (141, 0),
     (142, 0), (143, 0), (144, 0), (145, 0), (146, 0),
     (147, 0), (148, 0), (149, 0), (150, 0), (151, 0),
     (152, 0), (153, 0), (154, 0), (155, 0), (156, 0),
     (157, 0), (158, 0), (159, 0), (160, 0), (161, 0),
     (162, 0), (163, 0), (164, 0), (165, 0), (166, 0),
     (167, 0), (168, 0), (169, 0), (170, 0), (171, 0),
     (172, 0), (173, 0), (174, 0), (175, 0), (176, 0),
     (177, 0), (178, 0), (179, 0), (180, 0), (181, 0),
     (182, 0), (183, 0), (184, 0), (185, 0), (186, 0),
     (187, 0), (188, 0), (189, 0), (190, 0), (191, 0)]"

definition yy_transition_127 :: "yy_trans_info list" where
  "yy_transition_127 = [
     (192, 0), (193, 0), (194, 0), (195, 0), (196, 0),
     (197, 0), (198, 0), (199, 0), (200, 0), (201, 0),
     (202, 0), (203, 0), (204, 0), (205, 0), (206, 0),
     (207, 0), (208, 0), (209, 0), (210, 0), (211, 0),
     (212, 0), (213, 0), (214, 0), (215, 0), (216, 0),
     (217, 0), (218, 0), (219, 0), (220, 0), (221, 0),
     (222, 0), (223, 0), (224, 0), (225, 0), (226, 0),
     (227, 0), (228, 0), (229, 0), (230, 0), (231, 0),
     (232, 0), (233, 0), (234, 0), (235, 0), (236, 0),
     (237, 0), (238, 0), (239, 0), (240, 0), (241, 0),
     (242, 0), (243, 0), (244, 0), (245, 0), (246, 0),
     (247, 0), (248, 0), (249, 0), (250, 0), (251, 0),
     (252, 0), (253, 0), (254, 0), (255, 0), (0, 11),
     (0, 4658), (1, 0), (2, 0), (3, 0), (4, 0),
     (5, 0), (6, 0), (7, 0), (8, 0), (9, 0),
     (10, 0), (11, 0), (12, 0), (13, 0), (14, 0),
     (15, 0), (16, 0), (17, 0), (18, 0), (19, 0),
     (20, 0), (21, 0), (22, 0), (23, 0), (24, 0),
     (25, 0), (26, 0), (27, 0), (28, 0), (29, 0),
     (30, 0), (31, 0), (32, 0), (33, 0), (34, 0)]"

definition yy_transition_128 :: "yy_trans_info list" where
  "yy_transition_128 = [
     (35, 0), (36, 0), (37, 0), (38, 0), (0, 0),
     (40, 0), (41, 0), (42, 0), (43, 0), (44, 0),
     (45, 0), (46, 0), (47, 0), (48, 0), (49, 0),
     (50, 0), (51, 0), (52, 0), (53, 0), (54, 0),
     (55, 0), (56, 0), (57, 0), (58, 0), (59, 0),
     (60, 0), (61, 0), (62, 0), (63, 0), (64, 0),
     (65, 0), (66, 0), (67, 0), (68, 0), (69, 0),
     (70, 0), (71, 0), (72, 0), (73, 0), (74, 0),
     (75, 0), (76, 0), (77, 0), (78, 0), (79, 0),
     (80, 0), (81, 0), (82, 0), (83, 0), (84, 0),
     (85, 0), (86, 0), (87, 0), (88, 0), (89, 0),
     (90, 0), (91, 0), (92, 0), (93, 0), (94, 0),
     (95, 0), (96, 0), (97, 0), (98, 0), (99, 0),
     (100, 0), (101, 0), (102, 0), (103, 0), (104, 0),
     (105, 0), (106, 0), (107, 0), (108, 0), (109, 0),
     (110, 0), (111, 0), (112, 0), (113, 0), (114, 0),
     (115, 0), (116, 0), (117, 0), (118, 0), (119, 0),
     (120, 0), (121, 0), (122, 0), (123, 0), (124, 0),
     (125, 0), (126, 0), (127, 0), (128, 0), (129, 0),
     (130, 0), (131, 0), (132, 0), (133, 0), (134, 0)]"

definition yy_transition_129 :: "yy_trans_info list" where
  "yy_transition_129 = [
     (135, 0), (136, 0), (137, 0), (138, 0), (139, 0),
     (140, 0), (141, 0), (142, 0), (143, 0), (144, 0),
     (145, 0), (146, 0), (147, 0), (148, 0), (149, 0),
     (150, 0), (151, 0), (152, 0), (153, 0), (154, 0),
     (155, 0), (156, 0), (157, 0), (158, 0), (159, 0),
     (160, 0), (161, 0), (162, 0), (163, 0), (164, 0),
     (165, 0), (166, 0), (167, 0), (168, 0), (169, 0),
     (170, 0), (171, 0), (172, 0), (173, 0), (174, 0),
     (175, 0), (176, 0), (177, 0), (178, 0), (179, 0),
     (180, 0), (181, 0), (182, 0), (183, 0), (184, 0),
     (185, 0), (186, 0), (187, 0), (188, 0), (189, 0),
     (190, 0), (191, 0), (192, 0), (193, 0), (194, 0),
     (195, 0), (196, 0), (197, 0), (198, 0), (199, 0),
     (200, 0), (201, 0), (202, 0), (203, 0), (204, 0),
     (205, 0), (206, 0), (207, 0), (208, 0), (209, 0),
     (210, 0), (211, 0), (212, 0), (213, 0), (214, 0),
     (215, 0), (216, 0), (217, 0), (218, 0), (219, 0),
     (220, 0), (221, 0), (222, 0), (223, 0), (224, 0),
     (225, 0), (226, 0), (227, 0), (228, 0), (229, 0),
     (230, 0), (231, 0), (232, 0), (233, 0), (234, 0)]"

definition yy_transition_130 :: "yy_trans_info list" where
  "yy_transition_130 = [
     (235, 0), (236, 0), (237, 0), (238, 0), (239, 0),
     (240, 0), (241, 0), (242, 0), (243, 0), (244, 0),
     (245, 0), (246, 0), (247, 0), (248, 0), (249, 0),
     (250, 0), (251, 0), (252, 0), (253, 0), (254, 0),
     (255, 0), (256, 0), (0, 6), (0, 4400), (1, 0),
     (2, 0), (3, 0), (4, 0), (5, 0), (6, 0),
     (7, 0), (8, 0), (9, 0), (10, 0), (11, 0),
     (12, 0), (13, 0), (14, 0), (15, 0), (16, 0),
     (17, 0), (18, 0), (19, 0), (20, 0), (21, 0),
     (22, 0), (23, 0), (24, 0), (25, 0), (26, 0),
     (27, 0), (28, 0), (29, 0), (30, 0), (31, 0),
     (32, 0), (33, 0), (34, 0), (35, 0), (36, 0),
     (37, 0), (38, 0), (39, 0), (40, 0), (41, 0),
     (0, 0), (43, 0), (44, 0), (45, 0), (46, 0),
     (0, 0), (48, 0), (49, 0), (50, 0), (51, 0),
     (52, 0), (53, 0), (54, 0), (55, 0), (56, 0),
     (57, 0), (58, 0), (59, 0), (60, 0), (61, 0),
     (62, 0), (63, 0), (64, 0), (65, 0), (66, 0),
     (67, 0), (68, 0), (69, 0), (70, 0), (71, 0),
     (72, 0), (73, 0), (74, 0), (75, 0), (76, 0)]"

definition yy_transition_131 :: "yy_trans_info list" where
  "yy_transition_131 = [
     (77, 0), (78, 0), (79, 0), (80, 0), (81, 0),
     (82, 0), (83, 0), (84, 0), (85, 0), (86, 0),
     (87, 0), (88, 0), (89, 0), (90, 0), (91, 0),
     (92, 0), (93, 0), (94, 0), (95, 0), (96, 0),
     (97, 0), (98, 0), (99, 0), (100, 0), (101, 0),
     (102, 0), (103, 0), (104, 0), (105, 0), (106, 0),
     (107, 0), (108, 0), (109, 0), (110, 0), (111, 0),
     (112, 0), (113, 0), (114, 0), (115, 0), (116, 0),
     (117, 0), (118, 0), (119, 0), (120, 0), (121, 0),
     (122, 0), (123, 0), (124, 0), (125, 0), (126, 0),
     (127, 0), (128, 0), (129, 0), (130, 0), (131, 0),
     (132, 0), (133, 0), (134, 0), (135, 0), (136, 0),
     (137, 0), (138, 0), (139, 0), (140, 0), (141, 0),
     (142, 0), (143, 0), (144, 0), (145, 0), (146, 0),
     (147, 0), (148, 0), (149, 0), (150, 0), (151, 0),
     (152, 0), (153, 0), (154, 0), (155, 0), (156, 0),
     (157, 0), (158, 0), (159, 0), (160, 0), (161, 0),
     (162, 0), (163, 0), (164, 0), (165, 0), (166, 0),
     (167, 0), (168, 0), (169, 0), (170, 0), (171, 0),
     (172, 0), (173, 0), (174, 0), (175, 0), (176, 0)]"

definition yy_transition_132 :: "yy_trans_info list" where
  "yy_transition_132 = [
     (177, 0), (178, 0), (179, 0), (180, 0), (181, 0),
     (182, 0), (183, 0), (184, 0), (185, 0), (186, 0),
     (187, 0), (188, 0), (189, 0), (190, 0), (191, 0),
     (192, 0), (193, 0), (194, 0), (195, 0), (196, 0),
     (197, 0), (198, 0), (199, 0), (200, 0), (201, 0),
     (202, 0), (203, 0), (204, 0), (205, 0), (206, 0),
     (207, 0), (208, 0), (209, 0), (210, 0), (211, 0),
     (212, 0), (213, 0), (214, 0), (215, 0), (216, 0),
     (217, 0), (218, 0), (219, 0), (220, 0), (221, 0),
     (222, 0), (223, 0), (224, 0), (225, 0), (226, 0),
     (227, 0), (228, 0), (229, 0), (230, 0), (231, 0),
     (232, 0), (233, 0), (234, 0), (235, 0), (236, 0),
     (237, 0), (238, 0), (239, 0), (240, 0), (241, 0),
     (242, 0), (243, 0), (244, 0), (245, 0), (246, 0),
     (247, 0), (248, 0), (249, 0), (250, 0), (251, 0),
     (252, 0), (253, 0), (254, 0), (255, 0), (256, 0),
     (0, 4), (0, 4142), (0, 0), (0, 0), (0, 0),
     (0, 0), (0, 0), (0, 0), (0, 0), (0, 0),
     (0, 0), (0, 0), (0, 0), (0, 0), (0, 0),
     (0, 0), (0, 0), (0, 0), (0, 0), (0, 0)]"

definition yy_transition_133 :: "yy_trans_info list" where
  "yy_transition_133 = [
     (0, 0), (0, 0), (0, 0), (0, 0), (0, 0),
     (0, 0), (0, 0), (0, 0), (0, 0), (0, 0),
     (0, 0), (0, 0), (0, 0), (0, 0), (33, 2863),
     (0, 0), (35, 2863), (0, 0), (37, 2863), (38, 2863),
     (0, 0), (0, 0), (0, 0), (42, 2863), (43, 2863),
     (0, 0), (45, 2863), (0, 0), (47, 2863), (0, 0),
     (0, 0), (0, 0), (0, 0), (0, 0), (0, 0),
     (0, 0), (0, 0), (0, 0), (0, 0), (0, 0),
     (0, 0), (60, 2863), (61, 2863), (62, 2863), (63, 2863),
     (64, 2863), (0, 0), (0, 0), (0, 0), (0, 0),
     (0, 0), (0, 0), (0, 0), (0, 0), (0, 0),
     (0, 0), (0, 0), (0, 0), (0, 0), (0, 0),
     (0, 0), (0, 0), (0, 0), (0, 0), (0, 0),
     (0, 0), (0, 0), (0, 0), (0, 0), (0, 0),
     (0, 0), (0, 0), (0, 0), (0, 0), (0, 0),
     (94, 2863), (0, 0), (96, 2863), (0, 0), (0, 0),
     (0, 0), (0, 0), (0, 0), (0, 0), (0, 0),
     (0, 0), (0, 0), (0, 0), (0, 0), (0, 0),
     (0, 0), (0, 0), (0, 0), (0, 0), (0, 0),
     (0, 0), (0, 0), (0, 0), (0, 0), (0, 0)]"

definition yy_transition_134 :: "yy_trans_info list" where
  "yy_transition_134 = [
     (0, 0), (0, 0), (0, 0), (0, 0), (0, 0),
     (124, 2863), (0, 0), (126, 2863), (0, 44), (0, 4014),
     (1, 0), (2, 0), (3, 0), (4, 0), (5, 0),
     (6, 0), (7, 0), (8, 0), (9, 0), (10, 0),
     (11, 0), (12, 0), (13, 0), (14, 0), (15, 0),
     (16, 0), (17, 0), (18, 0), (19, 0), (20, 0),
     (21, 0), (22, 0), (23, 0), (24, 0), (25, 0),
     (26, 0), (27, 0), (28, 0), (29, 0), (30, 0),
     (31, 0), (32, 0), (33, 0), (0, 0), (35, 0),
     (36, 0), (37, 0), (38, 0), (39, 0), (40, 0),
     (41, 0), (42, 0), (43, 0), (44, 0), (45, 0),
     (46, 0), (47, 0), (48, 0), (49, 0), (50, 0),
     (51, 0), (52, 0), (53, 0), (54, 0), (55, 0),
     (56, 0), (57, 0), (58, 0), (59, 0), (60, 0),
     (61, 0), (62, 0), (63, 0), (64, 0), (65, 0),
     (66, 0), (67, 0), (68, 0), (69, 0), (70, 0),
     (71, 0), (72, 0), (73, 0), (74, 0), (75, 0),
     (76, 0), (77, 0), (78, 0), (79, 0), (80, 0),
     (81, 0), (82, 0), (83, 0), (84, 0), (85, 0),
     (86, 0), (87, 0), (88, 0), (89, 0), (90, 0)]"

definition yy_transition_135 :: "yy_trans_info list" where
  "yy_transition_135 = [
     (91, 0), (92, 0), (93, 0), (94, 0), (95, 0),
     (96, 0), (97, 0), (98, 0), (99, 0), (100, 0),
     (101, 0), (102, 0), (103, 0), (104, 0), (105, 0),
     (106, 0), (107, 0), (108, 0), (109, 0), (110, 0),
     (111, 0), (112, 0), (113, 0), (114, 0), (115, 0),
     (116, 0), (117, 0), (118, 0), (119, 0), (120, 0),
     (121, 0), (122, 0), (123, 0), (124, 0), (125, 0),
     (126, 0), (127, 0), (128, 0), (129, 0), (130, 0),
     (131, 0), (132, 0), (133, 0), (134, 0), (135, 0),
     (136, 0), (137, 0), (138, 0), (139, 0), (140, 0),
     (141, 0), (142, 0), (143, 0), (144, 0), (145, 0),
     (146, 0), (147, 0), (148, 0), (149, 0), (150, 0),
     (151, 0), (152, 0), (153, 0), (154, 0), (155, 0),
     (156, 0), (157, 0), (158, 0), (159, 0), (160, 0),
     (161, 0), (162, 0), (163, 0), (164, 0), (165, 0),
     (166, 0), (167, 0), (168, 0), (169, 0), (170, 0),
     (171, 0), (172, 0), (173, 0), (174, 0), (175, 0),
     (176, 0), (177, 0), (178, 0), (179, 0), (180, 0),
     (181, 0), (182, 0), (183, 0), (184, 0), (185, 0),
     (186, 0), (187, 0), (188, 0), (189, 0), (190, 0)]"

definition yy_transition_136 :: "yy_trans_info list" where
  "yy_transition_136 = [
     (191, 0), (192, 0), (193, 0), (194, 0), (195, 0),
     (196, 0), (197, 0), (198, 0), (199, 0), (200, 0),
     (201, 0), (202, 0), (203, 0), (204, 0), (205, 0),
     (206, 0), (207, 0), (208, 0), (209, 0), (210, 0),
     (211, 0), (212, 0), (213, 0), (214, 0), (215, 0),
     (216, 0), (217, 0), (218, 0), (219, 0), (220, 0),
     (221, 0), (222, 0), (223, 0), (224, 0), (225, 0),
     (226, 0), (227, 0), (228, 0), (229, 0), (230, 0),
     (231, 0), (232, 0), (233, 0), (234, 0), (235, 0),
     (236, 0), (237, 0), (238, 0), (239, 0), (240, 0),
     (241, 0), (242, 0), (243, 0), (244, 0), (245, 0),
     (246, 0), (247, 0), (248, 0), (249, 0), (250, 0),
     (251, 0), (252, 0), (253, 0), (254, 0), (255, 0),
     (256, 0), (0, 10), (0, 3756), (1, 0), (2, 0),
     (3, 0), (4, 0), (5, 0), (6, 0), (7, 0),
     (8, 0), (9, 0), (10, 0), (11, 0), (12, 0),
     (13, 0), (14, 0), (15, 0), (16, 0), (17, 0),
     (18, 0), (19, 0), (20, 0), (21, 0), (22, 0),
     (23, 0), (24, 0), (25, 0), (26, 0), (27, 0),
     (28, 0), (29, 0), (30, 0), (31, 0), (32, 0)]"

definition yy_transition_137 :: "yy_trans_info list" where
  "yy_transition_137 = [
     (33, 0), (34, 0), (35, 0), (36, 0), (37, 0),
     (38, 0), (0, 0), (40, 0), (41, 0), (42, 0),
     (43, 0), (44, 0), (45, 0), (46, 0), (47, 0),
     (48, 0), (49, 0), (50, 0), (51, 0), (52, 0),
     (53, 0), (54, 0), (55, 0), (56, 0), (57, 0),
     (58, 0), (59, 0), (60, 0), (61, 0), (62, 0),
     (63, 0), (64, 0), (65, 0), (66, 0), (67, 0),
     (68, 0), (69, 0), (70, 0), (71, 0), (72, 0),
     (73, 0), (74, 0), (75, 0), (76, 0), (77, 0),
     (78, 0), (79, 0), (80, 0), (81, 0), (82, 0),
     (83, 0), (84, 0), (85, 0), (86, 0), (87, 0),
     (88, 0), (89, 0), (90, 0), (91, 0), (92, 0),
     (93, 0), (94, 0), (95, 0), (96, 0), (97, 0),
     (98, 0), (99, 0), (100, 0), (101, 0), (102, 0),
     (103, 0), (104, 0), (105, 0), (106, 0), (107, 0),
     (108, 0), (109, 0), (110, 0), (111, 0), (112, 0),
     (113, 0), (114, 0), (115, 0), (116, 0), (117, 0),
     (118, 0), (119, 0), (120, 0), (121, 0), (122, 0),
     (123, 0), (124, 0), (125, 0), (126, 0), (127, 0),
     (128, 0), (129, 0), (130, 0), (131, 0), (132, 0)]"

definition yy_transition_138 :: "yy_trans_info list" where
  "yy_transition_138 = [
     (133, 0), (134, 0), (135, 0), (136, 0), (137, 0),
     (138, 0), (139, 0), (140, 0), (141, 0), (142, 0),
     (143, 0), (144, 0), (145, 0), (146, 0), (147, 0),
     (148, 0), (149, 0), (150, 0), (151, 0), (152, 0),
     (153, 0), (154, 0), (155, 0), (156, 0), (157, 0),
     (158, 0), (159, 0), (160, 0), (161, 0), (162, 0),
     (163, 0), (164, 0), (165, 0), (166, 0), (167, 0),
     (168, 0), (169, 0), (170, 0), (171, 0), (172, 0),
     (173, 0), (174, 0), (175, 0), (176, 0), (177, 0),
     (178, 0), (179, 0), (180, 0), (181, 0), (182, 0),
     (183, 0), (184, 0), (185, 0), (186, 0), (187, 0),
     (188, 0), (189, 0), (190, 0), (191, 0), (192, 0),
     (193, 0), (194, 0), (195, 0), (196, 0), (197, 0),
     (198, 0), (199, 0), (200, 0), (201, 0), (202, 0),
     (203, 0), (204, 0), (205, 0), (206, 0), (207, 0),
     (208, 0), (209, 0), (210, 0), (211, 0), (212, 0),
     (213, 0), (214, 0), (215, 0), (216, 0), (217, 0),
     (218, 0), (219, 0), (220, 0), (221, 0), (222, 0),
     (223, 0), (224, 0), (225, 0), (226, 0), (227, 0),
     (228, 0), (229, 0), (230, 0), (231, 0), (232, 0)]"

definition yy_transition_139 :: "yy_trans_info list" where
  "yy_transition_139 = [
     (233, 0), (234, 0), (235, 0), (236, 0), (237, 0),
     (238, 0), (239, 0), (240, 0), (241, 0), (242, 0),
     (243, 0), (244, 0), (245, 0), (246, 0), (247, 0),
     (248, 0), (249, 0), (250, 0), (251, 0), (252, 0),
     (253, 0), (254, 0), (255, 0), (256, 0), (0, 22),
     (0, 3498), (1, 0), (2, 0), (3, 0), (4, 0),
     (5, 0), (6, 0), (7, 0), (8, 0), (9, 0),
     (10, 0), (11, 0), (12, 0), (13, 0), (14, 0),
     (15, 0), (16, 0), (17, 0), (18, 0), (19, 0),
     (20, 0), (21, 0), (22, 0), (23, 0), (24, 0),
     (25, 0), (26, 0), (27, 0), (28, 0), (29, 0),
     (30, 0), (31, 0), (32, 0), (33, 0), (34, 0),
     (35, 0), (36, 0), (37, 0), (38, 0), (0, 0),
     (40, 0), (41, 0), (42, 0), (43, 0), (44, 0),
     (45, 0), (46, 0), (47, 0), (48, 0), (49, 0),
     (50, 0), (51, 0), (52, 0), (53, 0), (54, 0),
     (55, 0), (56, 0), (57, 0), (58, 0), (59, 0),
     (60, 0), (61, 0), (62, 0), (63, 0), (64, 0),
     (65, 0), (66, 0), (67, 0), (68, 0), (69, 0),
     (70, 0), (71, 0), (72, 0), (73, 0), (74, 0)]"

definition yy_transition_140 :: "yy_trans_info list" where
  "yy_transition_140 = [
     (75, 0), (76, 0), (77, 0), (78, 0), (79, 0),
     (80, 0), (81, 0), (82, 0), (83, 0), (84, 0),
     (85, 0), (86, 0), (87, 0), (88, 0), (89, 0),
     (90, 0), (91, 0), (92, 0), (93, 0), (94, 0),
     (95, 0), (96, 0), (97, 0), (98, 0), (99, 0),
     (100, 0), (101, 0), (102, 0), (103, 0), (104, 0),
     (105, 0), (106, 0), (107, 0), (108, 0), (109, 0),
     (110, 0), (111, 0), (112, 0), (113, 0), (114, 0),
     (115, 0), (116, 0), (117, 0), (118, 0), (119, 0),
     (120, 0), (121, 0), (122, 0), (123, 0), (124, 0),
     (125, 0), (126, 0), (127, 0), (128, 0), (129, 0),
     (130, 0), (131, 0), (132, 0), (133, 0), (134, 0),
     (135, 0), (136, 0), (137, 0), (138, 0), (139, 0),
     (140, 0), (141, 0), (142, 0), (143, 0), (144, 0),
     (145, 0), (146, 0), (147, 0), (148, 0), (149, 0),
     (150, 0), (151, 0), (152, 0), (153, 0), (154, 0),
     (155, 0), (156, 0), (157, 0), (158, 0), (159, 0),
     (160, 0), (161, 0), (162, 0), (163, 0), (164, 0),
     (165, 0), (166, 0), (167, 0), (168, 0), (169, 0),
     (170, 0), (171, 0), (172, 0), (173, 0), (174, 0)]"

definition yy_transition_141 :: "yy_trans_info list" where
  "yy_transition_141 = [
     (175, 0), (176, 0), (177, 0), (178, 0), (179, 0),
     (180, 0), (181, 0), (182, 0), (183, 0), (184, 0),
     (185, 0), (186, 0), (187, 0), (188, 0), (189, 0),
     (190, 0), (191, 0), (192, 0), (193, 0), (194, 0),
     (195, 0), (196, 0), (197, 0), (198, 0), (199, 0),
     (200, 0), (201, 0), (202, 0), (203, 0), (204, 0),
     (205, 0), (206, 0), (207, 0), (208, 0), (209, 0),
     (210, 0), (211, 0), (212, 0), (213, 0), (214, 0),
     (215, 0), (216, 0), (217, 0), (218, 0), (219, 0),
     (220, 0), (221, 0), (222, 0), (223, 0), (224, 0),
     (225, 0), (226, 0), (227, 0), (228, 0), (229, 0),
     (230, 0), (231, 0), (232, 0), (233, 0), (234, 0),
     (235, 0), (236, 0), (237, 0), (238, 0), (239, 0),
     (240, 0), (241, 0), (242, 0), (243, 0), (244, 0),
     (245, 0), (246, 0), (247, 0), (248, 0), (249, 0),
     (250, 0), (251, 0), (252, 0), (253, 0), (254, 0),
     (255, 0), (256, 0), (0, 19), (0, 3240), (0, 0),
     (0, 0), (0, 0), (0, 19), (0, 3235), (0, 0),
     (0, 0), (0, 0), (9, 0), (10, 5), (0, 0),
     (12, 0), (13, 5), (9, 16), (10, 16), (0, 0)]"

definition yy_transition_142 :: "yy_trans_info list" where
  "yy_transition_142 = [
     (12, 16), (13, 16), (0, 0), (0, 19), (0, 3219),
     (0, 0), (0, 0), (0, 0), (0, 0), (0, 0),
     (0, 0), (0, 0), (0, 0), (9, 0), (10, 0),
     (32, 0), (12, 0), (13, 0), (0, 0), (0, 0),
     (32, 16), (0, 0), (0, 0), (0, 0), (0, 0),
     (0, 0), (0, 0), (39, -7600), (45, -7597), (0, 0),
     (0, 0), (0, 0), (0, 0), (45, -7602), (0, 0),
     (0, 0), (32, 0), (0, 0), (0, 0), (0, 0),
     (0, 0), (0, 0), (0, 0), (39, -7616), (0, 0),
     (0, 0), (0, 0), (0, 0), (0, 0), (45, -7618),
     (0, 23), (0, 3172), (1, 0), (2, 0), (3, 0),
     (4, 0), (5, 0), (6, 0), (7, 0), (8, 0),
     (9, 0), (10, 0), (11, 0), (12, 0), (13, 0),
     (14, 0), (15, 0), (16, 0), (17, 0), (18, 0),
     (19, 0), (20, 0), (21, 0), (22, 0), (23, 0),
     (24, 0), (25, 0), (26, 0), (27, 0), (28, 0),
     (29, 0), (30, 0), (31, 0), (32, 0), (33, 0),
     (34, 0), (35, 0), (36, 0), (37, 0), (38, 0),
     (0, 0), (40, 0), (41, 0), (42, 0), (43, 0),
     (44, 0), (45, 0), (46, 0), (47, 0), (48, 0)]"

definition yy_transition_143 :: "yy_trans_info list" where
  "yy_transition_143 = [
     (49, 0), (50, 0), (51, 0), (52, 0), (53, 0),
     (54, 0), (55, 0), (56, 0), (57, 0), (58, 0),
     (59, 0), (60, 0), (61, 0), (62, 0), (63, 0),
     (64, 0), (65, 0), (66, 0), (67, 0), (68, 0),
     (69, 0), (70, 0), (71, 0), (72, 0), (73, 0),
     (74, 0), (75, 0), (76, 0), (77, 0), (78, 0),
     (79, 0), (80, 0), (81, 0), (82, 0), (83, 0),
     (84, 0), (85, 0), (86, 0), (87, 0), (88, 0),
     (89, 0), (90, 0), (91, 0), (0, 0), (93, 0),
     (94, 0), (95, 0), (96, 0), (97, 0), (98, 0),
     (99, 0), (100, 0), (101, 0), (102, 0), (103, 0),
     (104, 0), (105, 0), (106, 0), (107, 0), (108, 0),
     (109, 0), (110, 0), (111, 0), (112, 0), (113, 0),
     (114, 0), (115, 0), (116, 0), (117, 0), (118, 0),
     (119, 0), (120, 0), (121, 0), (122, 0), (123, 0),
     (124, 0), (125, 0), (126, 0), (127, 0), (128, 0),
     (129, 0), (130, 0), (131, 0), (132, 0), (133, 0),
     (134, 0), (135, 0), (136, 0), (137, 0), (138, 0),
     (139, 0), (140, 0), (141, 0), (142, 0), (143, 0),
     (144, 0), (145, 0), (146, 0), (147, 0), (148, 0)]"

definition yy_transition_144 :: "yy_trans_info list" where
  "yy_transition_144 = [
     (149, 0), (150, 0), (151, 0), (152, 0), (153, 0),
     (154, 0), (155, 0), (156, 0), (157, 0), (158, 0),
     (159, 0), (160, 0), (161, 0), (162, 0), (163, 0),
     (164, 0), (165, 0), (166, 0), (167, 0), (168, 0),
     (169, 0), (170, 0), (171, 0), (172, 0), (173, 0),
     (174, 0), (175, 0), (176, 0), (177, 0), (178, 0),
     (179, 0), (180, 0), (181, 0), (182, 0), (183, 0),
     (184, 0), (185, 0), (186, 0), (187, 0), (188, 0),
     (189, 0), (190, 0), (191, 0), (192, 0), (193, 0),
     (194, 0), (195, 0), (196, 0), (197, 0), (198, 0),
     (199, 0), (200, 0), (201, 0), (202, 0), (203, 0),
     (204, 0), (205, 0), (206, 0), (207, 0), (208, 0),
     (209, 0), (210, 0), (211, 0), (212, 0), (213, 0),
     (214, 0), (215, 0), (216, 0), (217, 0), (218, 0),
     (219, 0), (220, 0), (221, 0), (222, 0), (223, 0),
     (224, 0), (225, 0), (226, 0), (227, 0), (228, 0),
     (229, 0), (230, 0), (231, 0), (232, 0), (233, 0),
     (234, 0), (235, 0), (236, 0), (237, 0), (238, 0),
     (239, 0), (240, 0), (241, 0), (242, 0), (243, 0),
     (244, 0), (245, 0), (246, 0), (247, 0), (248, 0)]"

definition yy_transition_145 :: "yy_trans_info list" where
  "yy_transition_145 = [
     (249, 0), (250, 0), (251, 0), (252, 0), (253, 0),
     (254, 0), (255, 0), (256, 0), (0, 30), (0, 2914),
     (0, 0), (0, 0), (0, 0), (0, 0), (0, 0),
     (0, 0), (0, 28), (0, 2906), (0, 0), (0, 0),
     (0, 0), (0, 0), (0, 0), (0, 0), (0, 0),
     (0, 0), (0, 0), (0, 0), (0, 0), (0, 0),
     (0, 0), (0, 0), (0, 0), (0, 0), (0, 0),
     (0, 0), (0, 0), (0, 0), (0, 0), (0, 28),
     (0, 2883), (0, 0), (0, 0), (0, 0), (0, 0),
     (0, 0), (0, 0), (0, 0), (0, 0), (0, 0),
     (0, 0), (0, 0), (0, 0), (0, 0), (0, 0),
     (0, 0), (0, 0), (48, 1652), (49, 1652), (50, 1652),
     (51, 1652), (52, 1652), (53, 1652), (54, 1652), (55, 1652),
     (48, 1676), (49, 1676), (50, 1676), (51, 1676), (52, 1676),
     (53, 1676), (54, 1676), (55, 1676), (56, 1676), (57, 1676),
     (0, 0), (0, 0), (0, 29), (0, 2845), (0, 0),
     (0, 0), (0, 0), (65, 1676), (66, 1676), (67, 1676),
     (68, 1676), (69, 1676), (70, 1676), (48, 1691), (49, 1691),
     (50, 1691), (51, 1691), (52, 1691), (53, 1691), (54, 1691),
     (55, 1691), (56, 1691), (57, 1691), (0, 0), (0, 0)]"

definition yy_transition_146 :: "yy_trans_info list" where
  "yy_transition_146 = [
     (0, 0), (0, 0), (0, 0), (0, 0), (0, 0),
     (65, 1691), (66, 1691), (67, 1691), (68, 1691), (69, 1691),
     (70, 1691), (0, 0), (0, 0), (0, 0), (97, 1676),
     (98, 1676), (99, 1676), (100, 1676), (101, 1676), (102, 1676),
     (0, 0), (0, 0), (0, 0), (0, 0), (0, 0),
     (0, 0), (48, 1676), (49, 1676), (50, 1676), (51, 1676),
     (52, 1676), (53, 1676), (54, 1676), (55, 1676), (56, 1676),
     (57, 1676), (0, 0), (97, 1691), (98, 1691), (99, 1691),
     (100, 1691), (101, 1691), (102, 1691), (65, 1676), (66, 1676),
     (67, 1676), (68, 1676), (69, 1676), (70, 1676), (0, 0),
     (0, 0), (0, 0), (0, 0), (0, 0), (0, 0),
     (0, 0), (0, 0), (0, 0), (0, 0), (0, 0),
     (0, 0), (0, 0), (0, 0), (0, 0), (0, 0),
     (0, 0), (0, 0), (0, 0), (0, 0), (0, 0),
     (0, 0), (0, 0), (0, 0), (0, 0), (0, 0),
     (97, 1676), (98, 1676), (99, 1676), (100, 1676), (101, 1676),
     (102, 1676), (0, 36), (0, 2741), (1, 0), (2, 0),
     (3, 0), (4, 0), (5, 0), (6, 0), (7, 0),
     (8, 0), (9, 0), (10, 0), (11, 0), (12, 0),
     (13, 0), (14, 0), (15, 0), (16, 0), (17, 0)]"

definition yy_transition_147 :: "yy_trans_info list" where
  "yy_transition_147 = [
     (18, 0), (19, 0), (20, 0), (21, 0), (22, 0),
     (23, 0), (24, 0), (25, 0), (26, 0), (27, 0),
     (28, 0), (29, 0), (30, 0), (31, 0), (32, 0),
     (33, 0), (34, 0), (35, 0), (0, 0), (37, 0),
     (38, 0), (39, 0), (40, 0), (41, 0), (42, 0),
     (43, 0), (44, 0), (45, 0), (46, 0), (47, 0),
     (48, 0), (49, 0), (50, 0), (51, 0), (52, 0),
     (53, 0), (54, 0), (55, 0), (56, 0), (57, 0),
     (58, 0), (59, 0), (60, 0), (61, 0), (62, 0),
     (63, 0), (64, 0), (65, 0), (66, 0), (67, 0),
     (68, 0), (69, 0), (70, 0), (71, 0), (72, 0),
     (73, 0), (74, 0), (75, 0), (76, 0), (77, 0),
     (78, 0), (79, 0), (80, 0), (81, 0), (82, 0),
     (83, 0), (84, 0), (85, 0), (86, 0), (87, 0),
     (88, 0), (89, 0), (90, 0), (91, 0), (92, 0),
     (93, 0), (94, 0), (95, 0), (96, 0), (97, 0),
     (98, 0), (99, 0), (100, 0), (101, 0), (102, 0),
     (103, 0), (104, 0), (105, 0), (106, 0), (107, 0),
     (108, 0), (109, 0), (110, 0), (111, 0), (112, 0),
     (113, 0), (114, 0), (115, 0), (116, 0), (117, 0)]"

definition yy_transition_148 :: "yy_trans_info list" where
  "yy_transition_148 = [
     (118, 0), (119, 0), (120, 0), (121, 0), (122, 0),
     (123, 0), (124, 0), (125, 0), (126, 0), (127, 0),
     (128, 0), (129, 0), (130, 0), (131, 0), (132, 0),
     (133, 0), (134, 0), (135, 0), (136, 0), (137, 0),
     (138, 0), (139, 0), (140, 0), (141, 0), (142, 0),
     (143, 0), (144, 0), (145, 0), (146, 0), (147, 0),
     (148, 0), (149, 0), (150, 0), (151, 0), (152, 0),
     (153, 0), (154, 0), (155, 0), (156, 0), (157, 0),
     (158, 0), (159, 0), (160, 0), (161, 0), (162, 0),
     (163, 0), (164, 0), (165, 0), (166, 0), (167, 0),
     (168, 0), (169, 0), (170, 0), (171, 0), (172, 0),
     (173, 0), (174, 0), (175, 0), (176, 0), (177, 0),
     (178, 0), (179, 0), (180, 0), (181, 0), (182, 0),
     (183, 0), (184, 0), (185, 0), (186, 0), (187, 0),
     (188, 0), (189, 0), (190, 0), (191, 0), (192, 0),
     (193, 0), (194, 0), (195, 0), (196, 0), (197, 0),
     (198, 0), (199, 0), (200, 0), (201, 0), (202, 0),
     (203, 0), (204, 0), (205, 0), (206, 0), (207, 0),
     (208, 0), (209, 0), (210, 0), (211, 0), (212, 0),
     (213, 0), (214, 0), (215, 0), (216, 0), (217, 0)]"

definition yy_transition_149 :: "yy_trans_info list" where
  "yy_transition_149 = [
     (218, 0), (219, 0), (220, 0), (221, 0), (222, 0),
     (223, 0), (224, 0), (225, 0), (226, 0), (227, 0),
     (228, 0), (229, 0), (230, 0), (231, 0), (232, 0),
     (233, 0), (234, 0), (235, 0), (236, 0), (237, 0),
     (238, 0), (239, 0), (240, 0), (241, 0), (242, 0),
     (243, 0), (244, 0), (245, 0), (246, 0), (247, 0),
     (248, 0), (249, 0), (250, 0), (251, 0), (252, 0),
     (253, 0), (254, 0), (255, 0), (256, 0), (0, 37),
     (0, 2483), (0, 0), (0, 0), (0, 0), (0, 0),
     (0, 0), (0, 0), (0, 0), (0, 0), (0, 0),
     (0, 0), (0, 0), (0, 0), (0, 0), (0, 0),
     (0, 0), (0, 0), (0, 0), (0, 0), (0, 0),
     (0, 0), (0, 0), (0, 0), (0, 0), (0, 0),
     (0, 0), (0, 0), (0, 0), (0, 0), (0, 0),
     (0, 0), (0, 0), (0, 0), (0, 0), (0, 0),
     (0, 0), (36, -8348), (0, 0), (0, 0), (0, 0),
     (0, 0), (0, 0), (0, 0), (0, 0), (0, 0),
     (0, 0), (0, 0), (0, 0), (48, 1373), (49, 1373),
     (50, 1373), (51, 1373), (52, 1373), (53, 1373), (54, 1373),
     (55, 1373), (56, 1373), (57, 1373), (0, 0), (0, 0)]"

definition yy_transition_150 :: "yy_trans_info list" where
  "yy_transition_150 = [
     (0, 0), (0, 0), (0, 0), (0, 0), (0, 0),
     (65, 1373), (66, 1373), (67, 1373), (68, 1373), (69, 1373),
     (70, 1373), (71, 1373), (72, 1373), (73, 1373), (74, 1373),
     (75, 1373), (76, 1373), (77, 1373), (78, 1373), (79, 1373),
     (80, 1373), (81, 1373), (82, 1373), (83, 1373), (84, 1373),
     (85, 1373), (86, 1373), (87, 1373), (88, 1373), (89, 1373),
     (90, 1373), (0, 0), (0, 0), (0, 0), (0, 0),
     (95, 1373), (0, 0), (97, 1373), (98, 1373), (99, 1373),
     (100, 1373), (101, 1373), (102, 1373), (103, 1373), (104, 1373),
     (105, 1373), (106, 1373), (107, 1373), (108, 1373), (109, 1373),
     (110, 1373), (111, 1373), (112, 1373), (113, 1373), (114, 1373),
     (115, 1373), (116, 1373), (117, 1373), (118, 1373), (119, 1373),
     (120, 1373), (121, 1373), (122, 1373), (0, 0), (0, 0),
     (0, 0), (0, 0), (0, 0), (128, 1373), (129, 1373),
     (130, 1373), (131, 1373), (132, 1373), (133, 1373), (134, 1373),
     (135, 1373), (136, 1373), (137, 1373), (138, 1373), (139, 1373),
     (140, 1373), (141, 1373), (142, 1373), (143, 1373), (144, 1373),
     (145, 1373), (146, 1373), (147, 1373), (148, 1373), (149, 1373),
     (150, 1373), (151, 1373), (152, 1373), (153, 1373), (154, 1373),
     (155, 1373), (156, 1373), (157, 1373), (158, 1373), (159, 1373)]"

definition yy_transition_151 :: "yy_trans_info list" where
  "yy_transition_151 = [
     (160, 1373), (161, 1373), (162, 1373), (163, 1373), (164, 1373),
     (165, 1373), (166, 1373), (167, 1373), (168, 1373), (169, 1373),
     (170, 1373), (171, 1373), (172, 1373), (173, 1373), (174, 1373),
     (175, 1373), (176, 1373), (177, 1373), (178, 1373), (179, 1373),
     (180, 1373), (181, 1373), (182, 1373), (183, 1373), (184, 1373),
     (185, 1373), (186, 1373), (187, 1373), (188, 1373), (189, 1373),
     (190, 1373), (191, 1373), (192, 1373), (193, 1373), (194, 1373),
     (195, 1373), (196, 1373), (197, 1373), (198, 1373), (199, 1373),
     (200, 1373), (201, 1373), (202, 1373), (203, 1373), (204, 1373),
     (205, 1373), (206, 1373), (207, 1373), (208, 1373), (209, 1373),
     (210, 1373), (211, 1373), (212, 1373), (213, 1373), (214, 1373),
     (215, 1373), (216, 1373), (217, 1373), (218, 1373), (219, 1373),
     (220, 1373), (221, 1373), (222, 1373), (223, 1373), (224, 1373),
     (225, 1373), (226, 1373), (227, 1373), (228, 1373), (229, 1373),
     (230, 1373), (231, 1373), (232, 1373), (233, 1373), (234, 1373),
     (235, 1373), (236, 1373), (237, 1373), (238, 1373), (239, 1373),
     (240, 1373), (241, 1373), (242, 1373), (243, 1373), (244, 1373),
     (245, 1373), (246, 1373), (247, 1373), (248, 1373), (249, 1373),
     (250, 1373), (251, 1373), (252, 1373), (253, 1373), (254, 1373),
     (255, 1373), (0, 28), (0, 2226), (0, 0), (0, 0)]"

definition yy_transition_152 :: "yy_trans_info list" where
  "yy_transition_152 = [
     (0, 0), (0, 0), (0, 0), (0, 0), (0, 0),
     (0, 0), (0, 0), (0, 0), (0, 0), (0, 0),
     (0, 0), (0, 0), (0, 0), (0, 0), (0, 0),
     (0, 0), (0, 0), (0, 0), (0, 0), (0, 28),
     (0, 2203), (0, 0), (0, 0), (0, 0), (0, 0),
     (0, 0), (0, 0), (0, 0), (0, 0), (0, 0),
     (0, 0), (0, 0), (0, 0), (0, 0), (0, 0),
     (0, 0), (0, 0), (0, 0), (0, 0), (0, 0),
     (0, 0), (0, 0), (0, 0), (0, 0), (0, 0),
     (48, 1373), (49, 1373), (50, 1373), (51, 1373), (52, 1373),
     (53, 1373), (54, 1373), (55, 1373), (56, 1373), (57, 1373),
     (0, 0), (0, 0), (0, 0), (0, 0), (0, 0),
     (0, 0), (0, 0), (65, 1373), (66, 1373), (67, 1373),
     (68, 1373), (69, 1373), (70, 1373), (48, 1373), (49, 1373),
     (50, 1373), (51, 1373), (52, 1373), (53, 1373), (54, 1373),
     (55, 1373), (56, 1373), (57, 1373), (0, 34), (0, 2144),
     (0, 0), (0, 0), (0, 0), (0, 0), (0, 0),
     (65, 1373), (66, 1373), (67, 1373), (68, 1373), (69, 1373),
     (70, 1373), (0, 0), (0, 0), (0, 0), (97, 1373),
     (98, 1373), (99, 1373), (100, 1373), (101, 1373), (102, 1373)]"

definition yy_transition_153 :: "yy_trans_info list" where
  "yy_transition_153 = [
     (0, 0), (0, 0), (0, 0), (0, 0), (0, 0),
     (0, 0), (0, 0), (0, 0), (0, 0), (0, 0),
     (0, 0), (0, 0), (0, 0), (0, 0), (0, 0),
     (36, -8961), (0, 0), (97, 1373), (98, 1373), (99, 1373),
     (100, 1373), (101, 1373), (102, 1373), (0, 0), (0, 0),
     (0, 0), (0, 0), (48, 0), (49, 0), (50, 0),
     (51, 0), (52, 0), (53, 0), (54, 0), (55, 0),
     (56, 0), (57, 0), (0, 0), (0, 0), (0, 0),
     (0, 0), (0, 0), (0, 0), (0, 0), (65, 0),
     (66, 0), (67, 0), (68, 0), (69, 0), (70, 0),
     (71, 0), (72, 0), (73, 0), (74, 0), (75, 0),
     (76, 0), (77, 0), (78, 0), (79, 0), (80, 0),
     (81, 0), (82, 0), (83, 0), (84, 0), (85, 0),
     (86, 0), (87, 0), (88, 0), (89, 0), (90, 0),
     (0, 0), (0, 0), (0, 0), (0, 0), (95, 0),
     (0, 0), (97, 0), (98, 0), (99, 0), (100, 0),
     (101, 0), (102, 0), (103, 0), (104, 0), (105, 0),
     (106, 0), (107, 0), (108, 0), (109, 0), (110, 0),
     (111, 0), (112, 0), (113, 0), (114, 0), (115, 0),
     (116, 0), (117, 0), (118, 0), (119, 0), (120, 0)]"

definition yy_transition_154 :: "yy_trans_info list" where
  "yy_transition_154 = [
     (121, 0), (122, 0), (0, 0), (0, 0), (0, 0),
     (0, 0), (0, 0), (128, 0), (129, 0), (130, 0),
     (131, 0), (132, 0), (133, 0), (134, 0), (135, 0),
     (136, 0), (137, 0), (138, 0), (139, 0), (140, 0),
     (141, 0), (142, 0), (143, 0), (144, 0), (145, 0),
     (146, 0), (147, 0), (148, 0), (149, 0), (150, 0),
     (151, 0), (152, 0), (153, 0), (154, 0), (155, 0),
     (156, 0), (157, 0), (158, 0), (159, 0), (160, 0),
     (161, 0), (162, 0), (163, 0), (164, 0), (165, 0),
     (166, 0), (167, 0), (168, 0), (169, 0), (170, 0),
     (171, 0), (172, 0), (173, 0), (174, 0), (175, 0),
     (176, 0), (177, 0), (178, 0), (179, 0), (180, 0),
     (181, 0), (182, 0), (183, 0), (184, 0), (185, 0),
     (186, 0), (187, 0), (188, 0), (189, 0), (190, 0),
     (191, 0), (192, 0), (193, 0), (194, 0), (195, 0),
     (196, 0), (197, 0), (198, 0), (199, 0), (200, 0),
     (201, 0), (202, 0), (203, 0), (204, 0), (205, 0),
     (206, 0), (207, 0), (208, 0), (209, 0), (210, 0),
     (211, 0), (212, 0), (213, 0), (214, 0), (215, 0),
     (216, 0), (217, 0), (218, 0), (219, 0), (220, 0)]"

definition yy_transition_155 :: "yy_trans_info list" where
  "yy_transition_155 = [
     (221, 0), (222, 0), (223, 0), (224, 0), (225, 0),
     (226, 0), (227, 0), (228, 0), (229, 0), (230, 0),
     (231, 0), (232, 0), (233, 0), (234, 0), (235, 0),
     (236, 0), (237, 0), (238, 0), (239, 0), (240, 0),
     (241, 0), (242, 0), (243, 0), (244, 0), (245, 0),
     (246, 0), (247, 0), (248, 0), (249, 0), (250, 0),
     (251, 0), (252, 0), (253, 0), (254, 0), (255, 0),
     (0, 2), (0, 1887), (1, 0), (2, 0), (3, 0),
     (4, 0), (5, 0), (6, 0), (7, 0), (8, 0),
     (9, 0), (0, 0), (11, 0), (12, 0), (0, 0),
     (14, 0), (15, 0), (16, 0), (17, 0), (18, 0),
     (19, 0), (20, 0), (21, 0), (22, 0), (23, 0),
     (24, 0), (25, 0), (26, 0), (27, 0), (28, 0),
     (29, 0), (30, 0), (31, 0), (32, 0), (33, 0),
     (34, 0), (35, 0), (36, 0), (37, 0), (38, 0),
     (39, 0), (40, 0), (41, 0), (42, 0), (43, 0),
     (44, 0), (45, 0), (46, 0), (47, 0), (48, 0),
     (49, 0), (50, 0), (51, 0), (52, 0), (53, 0),
     (54, 0), (55, 0), (56, 0), (57, 0), (58, 0),
     (59, 0), (60, 0), (61, 0), (62, 0), (63, 0)]"

definition yy_transition_156 :: "yy_trans_info list" where
  "yy_transition_156 = [
     (64, 0), (65, 0), (66, 0), (67, 0), (68, 0),
     (69, 0), (70, 0), (71, 0), (72, 0), (73, 0),
     (74, 0), (75, 0), (76, 0), (77, 0), (78, 0),
     (79, 0), (80, 0), (81, 0), (82, 0), (83, 0),
     (84, 0), (85, 0), (86, 0), (87, 0), (88, 0),
     (89, 0), (90, 0), (91, 0), (92, 0), (93, 0),
     (94, 0), (95, 0), (96, 0), (97, 0), (98, 0),
     (99, 0), (100, 0), (101, 0), (102, 0), (103, 0),
     (104, 0), (105, 0), (106, 0), (107, 0), (108, 0),
     (109, 0), (110, 0), (111, 0), (112, 0), (113, 0),
     (114, 0), (115, 0), (116, 0), (117, 0), (118, 0),
     (119, 0), (120, 0), (121, 0), (122, 0), (123, 0),
     (124, 0), (125, 0), (126, 0), (127, 0), (128, 0),
     (129, 0), (130, 0), (131, 0), (132, 0), (133, 0),
     (134, 0), (135, 0), (136, 0), (137, 0), (138, 0),
     (139, 0), (140, 0), (141, 0), (142, 0), (143, 0),
     (144, 0), (145, 0), (146, 0), (147, 0), (148, 0),
     (149, 0), (150, 0), (151, 0), (152, 0), (153, 0),
     (154, 0), (155, 0), (156, 0), (157, 0), (158, 0),
     (159, 0), (160, 0), (161, 0), (162, 0), (163, 0)]"

definition yy_transition_157 :: "yy_trans_info list" where
  "yy_transition_157 = [
     (164, 0), (165, 0), (166, 0), (167, 0), (168, 0),
     (169, 0), (170, 0), (171, 0), (172, 0), (173, 0),
     (174, 0), (175, 0), (176, 0), (177, 0), (178, 0),
     (179, 0), (180, 0), (181, 0), (182, 0), (183, 0),
     (184, 0), (185, 0), (186, 0), (187, 0), (188, 0),
     (189, 0), (190, 0), (191, 0), (192, 0), (193, 0),
     (194, 0), (195, 0), (196, 0), (197, 0), (198, 0),
     (199, 0), (200, 0), (201, 0), (202, 0), (203, 0),
     (204, 0), (205, 0), (206, 0), (207, 0), (208, 0),
     (209, 0), (210, 0), (211, 0), (212, 0), (213, 0),
     (214, 0), (215, 0), (216, 0), (217, 0), (218, 0),
     (219, 0), (220, 0), (221, 0), (222, 0), (223, 0),
     (224, 0), (225, 0), (226, 0), (227, 0), (228, 0),
     (229, 0), (230, 0), (231, 0), (232, 0), (233, 0),
     (234, 0), (235, 0), (236, 0), (237, 0), (238, 0),
     (239, 0), (240, 0), (241, 0), (242, 0), (243, 0),
     (244, 0), (245, 0), (246, 0), (247, 0), (248, 0),
     (249, 0), (250, 0), (251, 0), (252, 0), (253, 0),
     (254, 0), (255, 0), (256, 0), (0, 2), (0, 1629),
     (1, -258), (2, -258), (3, -258), (4, -258), (5, -258)]"

definition yy_transition_158 :: "yy_trans_info list" where
  "yy_transition_158 = [
     (6, -258), (7, -258), (8, -258), (9, -258), (0, 0),
     (11, -258), (12, -258), (0, 0), (14, -258), (15, -258),
     (16, -258), (17, -258), (18, -258), (19, -258), (20, -258),
     (21, -258), (22, -258), (23, -258), (24, -258), (25, -258),
     (26, -258), (27, -258), (28, -258), (29, -258), (30, -258),
     (31, -258), (32, -258), (33, 0), (34, -258), (35, 0),
     (36, -258), (37, 0), (38, 0), (39, -258), (40, -258),
     (41, -258), (42, 0), (43, 0), (44, -258), (45, 0),
     (46, -258), (47, 0), (48, -258), (49, -258), (50, -258),
     (51, -258), (52, -258), (53, -258), (54, -258), (55, -258),
     (56, -258), (57, -258), (58, -258), (59, -258), (60, 0),
     (61, 0), (62, 0), (63, 0), (64, 0), (65, -258),
     (66, -258), (67, -258), (68, -258), (69, -258), (70, -258),
     (71, -258), (72, -258), (73, -258), (74, -258), (75, -258),
     (76, -258), (77, -258), (78, -258), (79, -258), (80, -258),
     (81, -258), (82, -258), (83, -258), (84, -258), (85, -258),
     (86, -258), (87, -258), (88, -258), (89, -258), (90, -258),
     (91, -258), (92, -258), (93, -258), (94, 0), (95, -258),
     (96, 0), (97, -258), (98, -258), (99, -258), (100, -258),
     (101, -258), (102, -258), (103, -258), (104, -258), (105, -258)]"

definition yy_transition_159 :: "yy_trans_info list" where
  "yy_transition_159 = [
     (106, -258), (107, -258), (108, -258), (109, -258), (110, -258),
     (111, -258), (112, -258), (113, -258), (114, -258), (115, -258),
     (116, -258), (117, -258), (118, -258), (119, -258), (120, -258),
     (121, -258), (122, -258), (123, -258), (124, 0), (125, -258),
     (126, 0), (127, -258), (128, -258), (129, -258), (130, -258),
     (131, -258), (132, -258), (133, -258), (134, -258), (135, -258),
     (136, -258), (137, -258), (138, -258), (139, -258), (140, -258),
     (141, -258), (142, -258), (143, -258), (144, -258), (145, -258),
     (146, -258), (147, -258), (148, -258), (149, -258), (150, -258),
     (151, -258), (152, -258), (153, -258), (154, -258), (155, -258),
     (156, -258), (157, -258), (158, -258), (159, -258), (160, -258),
     (161, -258), (162, -258), (163, -258), (164, -258), (165, -258),
     (166, -258), (167, -258), (168, -258), (169, -258), (170, -258),
     (171, -258), (172, -258), (173, -258), (174, -258), (175, -258),
     (176, -258), (177, -258), (178, -258), (179, -258), (180, -258),
     (181, -258), (182, -258), (183, -258), (184, -258), (185, -258),
     (186, -258), (187, -258), (188, -258), (189, -258), (190, -258),
     (191, -258), (192, -258), (193, -258), (194, -258), (195, -258),
     (196, -258), (197, -258), (198, -258), (199, -258), (200, -258),
     (201, -258), (202, -258), (203, -258), (204, -258), (205, -258)]"

definition yy_transition_160 :: "yy_trans_info list" where
  "yy_transition_160 = [
     (206, -258), (207, -258), (208, -258), (209, -258), (210, -258),
     (211, -258), (212, -258), (213, -258), (214, -258), (215, -258),
     (216, -258), (217, -258), (218, -258), (219, -258), (220, -258),
     (221, -258), (222, -258), (223, -258), (224, -258), (225, -258),
     (226, -258), (227, -258), (228, -258), (229, -258), (230, -258),
     (231, -258), (232, -258), (233, -258), (234, -258), (235, -258),
     (236, -258), (237, -258), (238, -258), (239, -258), (240, -258),
     (241, -258), (242, -258), (243, -258), (244, -258), (245, -258),
     (246, -258), (247, -258), (248, -258), (249, -258), (250, -258),
     (251, -258), (252, -258), (253, -258), (254, -258), (255, -258),
     (256, -258), (0, 3), (0, 1371), (0, 59), (0, 1369),
     (0, 0), (0, 0), (0, 0), (0, 0), (0, 0),
     (0, 0), (0, 0), (0, 0), (0, 0), (0, 0),
     (0, 0), (0, 0), (0, 0), (0, 0), (0, 0),
     (0, 0), (0, 0), (0, 0), (0, 0), (0, 0),
     (0, 63), (0, 1347), (0, 0), (0, 0), (0, 0),
     (0, 0), (0, 0), (0, 0), (0, 0), (0, 0),
     (33, 0), (0, 0), (35, 0), (0, 0), (37, 0),
     (38, 0), (0, 0), (0, 0), (0, 0), (42, 0),
     (43, 0), (0, 0), (45, 0), (0, 0), (47, 0)]"

definition yy_transition_161 :: "yy_trans_info list" where
  "yy_transition_161 = [
     (0, 0), (0, 0), (48, 0), (49, 0), (50, 0),
     (51, 0), (52, 0), (53, 0), (54, 0), (55, 0),
     (56, 0), (57, 0), (60, 0), (61, 0), (62, 0),
     (63, 0), (64, 0), (0, 61), (0, 1305), (0, 0),
     (0, 0), (0, 0), (0, 0), (69, -3785), (48, 42),
     (49, 42), (50, 42), (51, 42), (52, 42), (53, 42),
     (54, 42), (55, 42), (56, 42), (57, 42), (0, 0),
     (0, 0), (0, 0), (0, 0), (0, 0), (0, 0),
     (0, 0), (0, 0), (0, 0), (0, 4), (0, 1279),
     (0, 0), (94, 0), (0, 0), (96, 0), (0, 0),
     (0, 0), (0, 0), (0, 0), (0, 0), (0, 0),
     (101, -3785), (0, 0), (0, 0), (0, 0), (0, 0),
     (0, 30), (0, 1262), (0, 0), (0, 0), (0, 0),
     (0, 0), (48, 0), (49, 0), (50, 0), (51, 0),
     (52, 0), (53, 0), (54, 0), (55, 0), (56, 0),
     (57, 0), (124, 0), (33, 0), (126, 0), (35, 0),
     (0, 0), (37, 0), (38, 0), (0, 0), (0, 0),
     (0, 0), (42, 0), (43, 0), (0, 0), (45, 0),
     (0, 0), (47, 0), (0, 28), (0, 1230), (0, 0),
     (0, 0), (0, 0), (0, 0), (0, 0), (0, 0)]"

definition yy_transition_162 :: "yy_trans_info list" where
  "yy_transition_162 = [
     (0, 0), (0, 0), (0, 0), (0, 0), (60, 0),
     (61, 0), (62, 0), (63, 0), (64, 0), (48, -9542),
     (49, -9542), (50, -9542), (51, -9542), (52, -9542), (53, -9542),
     (54, -9542), (55, -9542), (0, 0), (0, 0), (0, 0),
     (0, 0), (0, 0), (0, 0), (0, 0), (0, 0),
     (0, 0), (0, 0), (0, 0), (0, 0), (0, 0),
     (0, 28), (0, 1192), (0, 0), (0, 0), (0, 0),
     (0, 0), (0, 0), (0, 0), (94, 0), (0, 0),
     (96, 0), (48, 438), (49, 438), (50, 438), (51, 438),
     (52, 438), (53, 438), (54, 438), (55, 438), (56, 438),
     (57, 438), (0, 0), (0, 0), (0, 31), (0, 1169),
     (0, 0), (0, 0), (0, 0), (65, 438), (66, 438),
     (67, 438), (68, 438), (69, 438), (70, 438), (0, 0),
     (0, 0), (0, 0), (0, 0), (124, 0), (0, 0),
     (126, 0), (0, 0), (0, 0), (0, 0), (0, 0),
     (0, 0), (0, 0), (0, 0), (0, 0), (48, 423),
     (49, 423), (50, 423), (51, 423), (52, 423), (53, 423),
     (54, 423), (55, 423), (56, 423), (57, 423), (0, 0),
     (97, 438), (98, 438), (99, 438), (100, 438), (101, 438),
     (102, 438), (65, 423), (66, 423), (67, 423), (68, 423)]"

definition yy_transition_163 :: "yy_trans_info list" where
  "yy_transition_163 = [
     (69, 423), (70, 423), (48, -9621), (49, -9621), (50, -9621),
     (51, -9621), (52, -9621), (53, -9621), (54, -9621), (55, -9621),
     (56, -9621), (57, -9621), (0, 37), (0, 1110), (0, 0),
     (0, 0), (0, 0), (0, 0), (0, 0), (65, -9621),
     (66, -9621), (67, -9621), (68, -9621), (69, -9621), (70, -9621),
     (0, 0), (0, 0), (0, 0), (97, 423), (98, 423),
     (99, 423), (100, 423), (101, 423), (102, 423), (0, 0),
     (0, 0), (0, 0), (0, 0), (0, 0), (0, 0),
     (0, 0), (0, 0), (0, 0), (0, 0), (0, 0),
     (0, 0), (0, 0), (0, 0), (0, 0), (36, -9721),
     (0, 0), (97, -9621), (98, -9621), (99, -9621), (100, -9621),
     (101, -9621), (102, -9621), (0, 0), (0, 0), (0, 0),
     (0, 0), (48, 0), (49, 0), (50, 0), (51, 0),
     (52, 0), (53, 0), (54, 0), (55, 0), (56, 0),
     (57, 0), (0, 0), (0, 0), (0, 0), (0, 0),
     (0, 0), (0, 0), (0, 0), (65, 0), (66, 0),
     (67, 0), (68, 0), (69, 0), (70, 0), (71, 0),
     (72, 0), (73, 0), (74, 0), (75, 0), (76, 0),
     (77, 0), (78, 0), (79, 0), (80, 0), (81, 0),
     (82, 0), (83, 0), (84, 0), (85, 0), (86, 0)]"

definition yy_transition_164 :: "yy_trans_info list" where
  "yy_transition_164 = [
     (87, 0), (88, 0), (89, 0), (90, 0), (0, 0),
     (0, 0), (0, 0), (0, 0), (95, 0), (0, 0),
     (97, 0), (98, 0), (99, 0), (100, 0), (101, 0),
     (102, 0), (103, 0), (104, 0), (105, 0), (106, 0),
     (107, 0), (108, 0), (109, 0), (110, 0), (111, 0),
     (112, 0), (113, 0), (114, 0), (115, 0), (116, 0),
     (117, 0), (118, 0), (119, 0), (120, 0), (121, 0),
     (122, 0), (0, 0), (0, 0), (0, 0), (0, 0),
     (0, 0), (128, 0), (129, 0), (130, 0), (131, 0),
     (132, 0), (133, 0), (134, 0), (135, 0), (136, 0),
     (137, 0), (138, 0), (139, 0), (140, 0), (141, 0),
     (142, 0), (143, 0), (144, 0), (145, 0), (146, 0),
     (147, 0), (148, 0), (149, 0), (150, 0), (151, 0),
     (152, 0), (153, 0), (154, 0), (155, 0), (156, 0),
     (157, 0), (158, 0), (159, 0), (160, 0), (161, 0),
     (162, 0), (163, 0), (164, 0), (165, 0), (166, 0),
     (167, 0), (168, 0), (169, 0), (170, 0), (171, 0),
     (172, 0), (173, 0), (174, 0), (175, 0), (176, 0),
     (177, 0), (178, 0), (179, 0), (180, 0), (181, 0),
     (182, 0), (183, 0), (184, 0), (185, 0), (186, 0)]"

definition yy_transition_165 :: "yy_trans_info list" where
  "yy_transition_165 = [
     (187, 0), (188, 0), (189, 0), (190, 0), (191, 0),
     (192, 0), (193, 0), (194, 0), (195, 0), (196, 0),
     (197, 0), (198, 0), (199, 0), (200, 0), (201, 0),
     (202, 0), (203, 0), (204, 0), (205, 0), (206, 0),
     (207, 0), (208, 0), (209, 0), (210, 0), (211, 0),
     (212, 0), (213, 0), (214, 0), (215, 0), (216, 0),
     (217, 0), (218, 0), (219, 0), (220, 0), (221, 0),
     (222, 0), (223, 0), (224, 0), (225, 0), (226, 0),
     (227, 0), (228, 0), (229, 0), (230, 0), (231, 0),
     (232, 0), (233, 0), (234, 0), (235, 0), (236, 0),
     (237, 0), (238, 0), (239, 0), (240, 0), (241, 0),
     (242, 0), (243, 0), (244, 0), (245, 0), (246, 0),
     (247, 0), (248, 0), (249, 0), (250, 0), (251, 0),
     (252, 0), (253, 0), (254, 0), (255, 0), (0, 28),
     (0, 853), (0, 0), (0, 0), (0, 0), (0, 0),
     (0, 0), (0, 0), (0, 0), (0, 0), (0, 0),
     (0, 0), (0, 0), (0, 0), (0, 0), (0, 0),
     (0, 0), (0, 0), (0, 0), (0, 0), (0, 0),
     (0, 0), (0, 0), (0, 28), (0, 830), (0, 0),
     (0, 0), (0, 0), (0, 0), (0, 0), (0, 0)]"

definition yy_transition_166 :: "yy_trans_info list" where
  "yy_transition_166 = [
     (0, 0), (0, 0), (0, 0), (0, 0), (0, 0),
     (0, 0), (0, 0), (0, 0), (0, 0), (0, 0),
     (0, 0), (0, 0), (0, 0), (0, 0), (0, 0),
     (0, 0), (0, 0), (0, 0), (48, 143), (49, 143),
     (50, 143), (51, 143), (52, 143), (53, 143), (54, 143),
     (55, 143), (56, 143), (57, 143), (0, 0), (0, 0),
     (0, 28), (0, 792), (0, 0), (0, 0), (0, 0),
     (65, 143), (66, 143), (67, 143), (68, 143), (69, 143),
     (70, 143), (48, 143), (49, 143), (50, 143), (51, 143),
     (52, 143), (53, 143), (54, 143), (55, 143), (56, 143),
     (57, 143), (0, 0), (0, 0), (0, 28), (0, 769),
     (0, 0), (0, 0), (0, 0), (65, 143), (66, 143),
     (67, 143), (68, 143), (69, 143), (70, 143), (0, 0),
     (0, 0), (0, 0), (97, 143), (98, 143), (99, 143),
     (100, 143), (101, 143), (102, 143), (0, 0), (0, 0),
     (0, 0), (0, 0), (0, 0), (0, 0), (48, 143),
     (49, 143), (50, 143), (51, 143), (52, 143), (53, 143),
     (54, 143), (55, 143), (56, 143), (57, 143), (0, 0),
     (97, 143), (98, 143), (99, 143), (100, 143), (101, 143),
     (102, 143), (65, 143), (66, 143), (67, 143), (68, 143)]"

definition yy_transition_167 :: "yy_trans_info list" where
  "yy_transition_167 = [
     (69, 143), (70, 143), (48, 143), (49, 143), (50, 143),
     (51, 143), (52, 143), (53, 143), (54, 143), (55, 143),
     (56, 143), (57, 143), (0, 28), (0, 710), (0, 0),
     (0, 0), (0, 0), (0, 0), (0, 0), (65, 143),
     (66, 143), (67, 143), (68, 143), (69, 143), (70, 143),
     (0, 0), (0, 0), (0, 0), (97, 143), (98, 143),
     (99, 143), (100, 143), (101, 143), (102, 143), (0, 0),
     (0, 28), (0, 687), (0, 0), (0, 0), (0, 0),
     (0, 0), (0, 0), (0, 0), (0, 0), (0, 0),
     (0, 0), (0, 0), (0, 0), (0, 0), (0, 0),
     (0, 0), (97, 143), (98, 143), (99, 143), (100, 143),
     (101, 143), (102, 143), (0, 0), (0, 0), (0, 0),
     (0, 0), (48, 143), (49, 143), (50, 143), (51, 143),
     (52, 143), (53, 143), (54, 143), (55, 143), (56, 143),
     (57, 143), (0, 0), (0, 0), (0, 28), (0, 649),
     (0, 0), (0, 0), (0, 0), (65, 143), (66, 143),
     (67, 143), (68, 143), (69, 143), (70, 143), (48, 143),
     (49, 143), (50, 143), (51, 143), (52, 143), (53, 143),
     (54, 143), (55, 143), (56, 143), (57, 143), (0, 0),
     (0, 0), (0, 28), (0, 626), (0, 0), (0, 0)]"

definition yy_transition_168 :: "yy_trans_info list" where
  "yy_transition_168 = [
     (0, 0), (65, 143), (66, 143), (67, 143), (68, 143),
     (69, 143), (70, 143), (0, 0), (0, 0), (0, 0),
     (97, 143), (98, 143), (99, 143), (100, 143), (101, 143),
     (102, 143), (0, 0), (0, 0), (0, 0), (0, 0),
     (0, 0), (0, 0), (48, 143), (49, 143), (50, 143),
     (51, 143), (52, 143), (53, 143), (54, 143), (55, 143),
     (56, 143), (57, 143), (0, 0), (97, 143), (98, 143),
     (99, 143), (100, 143), (101, 143), (102, 143), (65, 143),
     (66, 143), (67, 143), (68, 143), (69, 143), (70, 143),
     (48, -10162), (49, -10162), (50, -10162), (51, -10162), (52, -10162),
     (53, -10162), (54, -10162), (55, -10162), (56, -10162), (57, -10162),
     (0, 28), (0, 567), (0, 0), (0, 0), (0, 0),
     (0, 0), (0, 0), (65, -10162), (66, -10162), (67, -10162),
     (68, -10162), (69, -10162), (70, -10162), (0, 0), (0, 0),
     (0, 0), (97, 143), (98, 143), (99, 143), (100, 143),
     (101, 143), (102, 143), (0, 0), (0, 28), (0, 544),
     (0, 0), (0, 0), (0, 0), (0, 0), (0, 0),
     (0, 0), (0, 0), (0, 0), (0, 0), (0, 0),
     (0, 0), (0, 0), (0, 0), (0, 0), (97, -10162),
     (98, -10162), (99, -10162), (100, -10162), (101, -10162), (102, -10162)]"

definition yy_transition_169 :: "yy_trans_info list" where
  "yy_transition_169 = [
     (0, 0), (0, 0), (0, 0), (0, 0), (48, 84),
     (49, 84), (50, 84), (51, 84), (52, 84), (53, 84),
     (54, 84), (55, 84), (56, 84), (57, 84), (0, 0),
     (0, 0), (0, 28), (0, 506), (0, 0), (0, 0),
     (0, 0), (65, 84), (66, 84), (67, 84), (68, 84),
     (69, 84), (70, 84), (48, -10242), (49, -10242), (50, -10242),
     (51, -10242), (52, -10242), (53, -10242), (54, -10242), (55, -10242),
     (56, -10242), (57, -10242), (0, 0), (0, 0), (0, 28),
     (0, 483), (0, 0), (0, 0), (0, 0), (65, -10242),
     (66, -10242), (67, -10242), (68, -10242), (69, -10242), (70, -10242),
     (0, 0), (0, 0), (0, 0), (97, 84), (98, 84),
     (99, 84), (100, 84), (101, 84), (102, 84), (0, 0),
     (0, 0), (0, 0), (0, 0), (0, 0), (0, 0),
     (48, 82), (49, 82), (50, 82), (51, 82), (52, 82),
     (53, 82), (54, 82), (55, 82), (56, 82), (57, 82),
     (0, 0), (97, -10242), (98, -10242), (99, -10242), (100, -10242),
     (101, -10242), (102, -10242), (65, 82), (66, 82), (67, 82),
     (68, 82), (69, 82), (70, 82), (48, 82), (49, 82),
     (50, 82), (51, 82), (52, 82), (53, 82), (54, 82),
     (55, 82), (56, 82), (57, 82), (0, 28), (0, 424)]"

definition yy_transition_170 :: "yy_trans_info list" where
  "yy_transition_170 = [
     (0, 0), (0, 0), (0, 0), (0, 0), (0, 0),
     (65, 82), (66, 82), (67, 82), (68, 82), (69, 82),
     (70, 82), (0, 0), (0, 0), (0, 0), (97, 82),
     (98, 82), (99, 82), (100, 82), (101, 82), (102, 82),
     (0, 0), (0, 28), (0, 401), (0, 0), (0, 0),
     (0, 0), (0, 0), (0, 0), (0, 0), (0, 0),
     (0, 0), (0, 0), (0, 0), (0, 0), (0, 0),
     (0, 0), (0, 0), (97, 82), (98, 82), (99, 82),
     (100, 82), (101, 82), (102, 82), (0, 0), (0, 0),
     (0, 0), (0, 0), (48, 61), (49, 61), (50, 61),
     (51, 61), (52, 61), (53, 61), (54, 61), (55, 61),
     (56, 61), (57, 61), (0, 0), (0, 0), (0, 28),
     (0, 363), (0, 0), (0, 0), (0, 0), (65, 61),
     (66, 61), (67, 61), (68, 61), (69, 61), (70, 61),
     (48, 61), (49, 61), (50, 61), (51, 61), (52, 61),
     (53, 61), (54, 61), (55, 61), (56, 61), (57, 61),
     (0, 0), (0, 0), (0, 28), (0, 340), (0, 0),
     (0, 0), (0, 0), (65, 61), (66, 61), (67, 61),
     (68, 61), (69, 61), (70, 61), (0, 0), (0, 0),
     (0, 0), (97, 61), (98, 61), (99, 61), (100, 61)]"

definition yy_transition_171 :: "yy_trans_info list" where
  "yy_transition_171 = [
     (101, 61), (102, 61), (0, 0), (0, 0), (0, 0),
     (0, 0), (0, 0), (0, 0), (48, 82), (49, 82),
     (50, 82), (51, 82), (52, 82), (53, 82), (54, 82),
     (55, 82), (56, 82), (57, 82), (0, 0), (97, 61),
     (98, 61), (99, 61), (100, 61), (101, 61), (102, 61),
     (65, 82), (66, 82), (67, 82), (68, 82), (69, 82),
     (70, 82), (48, 82), (49, 82), (50, 82), (51, 82),
     (52, 82), (53, 82), (54, 82), (55, 82), (56, 82),
     (57, 82), (0, 28), (0, 281), (0, 0), (0, 0),
     (0, 0), (0, 0), (0, 0), (65, 82), (66, 82),
     (67, 82), (68, 82), (69, 82), (70, 82), (0, 0),
     (0, 0), (0, 0), (97, 82), (98, 82), (99, 82),
     (100, 82), (101, 82), (102, 82), (0, 0), (0, 28),
     (0, 258), (0, 0), (0, 0), (0, 0), (0, 0),
     (0, 0), (0, 0), (0, 0), (0, 0), (0, 0),
     (0, 0), (0, 0), (0, 0), (0, 0), (0, 0),
     (97, 82), (98, 82), (99, 82), (100, 82), (101, 82),
     (102, 82), (0, 0), (0, 0), (0, 0), (0, 0),
     (48, -10507), (49, -10507), (50, -10507), (51, -10507), (52, -10507),
     (53, -10507), (54, -10507), (55, -10507), (56, -10507), (57, -10507)]"

definition yy_transition_172 :: "yy_trans_info list" where
  "yy_transition_172 = [
     (0, 0), (0, 0), (0, 0), (0, 0), (0, 0),
     (0, 0), (0, 0), (65, -10507), (66, -10507), (67, -10507),
     (68, -10507), (69, -10507), (70, -10507), (48, -10528), (49, -10528),
     (50, -10528), (51, -10528), (52, -10528), (53, -10528), (54, -10528),
     (55, -10528), (56, -10528), (57, -10528), (0, 0), (0, 0),
     (0, 0), (0, 0), (0, 0), (0, 0), (0, 0),
     (65, -10528), (66, -10528), (67, -10528), (68, -10528), (69, -10528),
     (70, -10528), (0, 0), (0, 0), (0, 0), (97, -10507),
     (98, -10507), (99, -10507), (100, -10507), (101, -10507), (102, -10507),
     (0, 0), (0, 0), (0, 0), (0, 0), (0, 0),
     (0, 0), (0, 0), (0, 0), (0, 0), (0, 0),
     (0, 0), (0, 0), (0, 0), (0, 0), (0, 0),
     (0, 0), (0, 0), (97, -10528), (98, -10528), (99, -10528),
     (100, -10528), (101, -10528), (102, -10528), (0, 0), (0, 0),
     (0, 0), (0, 0), (0, 0), (0, 0), (0, 0),
     (0, 0), (0, 0), (0, 0), (0, 0), (0, 0),
     (0, 0), (0, 0), (0, 0), (0, 0), (0, 0),
     (0, 0), (0, 0), (0, 0), (0, 0), (0, 0),
     (0, 0), (0, 0), (0, 0), (0, 0), (0, 0),
     (0, 0), (0, 0), (0, 0), (0, 0), (0, 0)]"

definition yy_transition_173 :: "yy_trans_info list" where
  "yy_transition_173 = [
     (0, 0), (0, 0), (0, 0), (0, 0), (0, 0),
     (0, 0), (0, 0), (0, 0), (0, 0), (0, 0),
     (0, 0), (0, 0), (0, 0), (0, 0), (0, 0),
     (0, 0), (0, 0), (0, 0), (0, 0), (0, 0),
     (0, 0), (0, 0), (0, 0), (0, 0), (0, 0),
     (0, 0), (0, 0), (0, 0), (0, 0), (0, 0),
     (0, 0), (0, 0), (0, 0), (0, 0), (0, 0),
     (0, 0), (0, 0), (0, 0), (0, 0), (0, 0),
     (0, 0), (0, 0), (0, 0), (0, 0), (0, 0),
     (0, 0), (0, 0), (0, 0), (0, 0), (0, 0),
     (0, 0), (0, 0), (0, 0), (0, 0), (0, 0),
     (0, 0), (0, 0), (0, 0), (0, 0), (0, 0),
     (0, 0), (0, 0), (0, 0), (0, 0), (0, 0),
     (0, 0), (0, 0), (0, 0), (0, 0), (0, 0),
     (0, 0), (0, 0), (0, 0), (0, 0), (0, 0),
     (0, 0), (0, 0), (0, 0), (0, 0), (0, 0),
     (0, 0), (0, 0), (0, 0), (0, 0), (0, 0),
     (0, 0), (0, 0), (0, 0), (0, 0), (0, 0),
     (0, 0), (0, 0), (0, 0), (0, 0), (0, 0),
     (0, 0), (0, 0), (0, 0), (0, 0), (0, 0)]"

definition yy_transition_174 :: "yy_trans_info list" where
  "yy_transition_174 = [
     (0, 0), (0, 0), (0, 0), (0, 0), (0, 0),
     (0, 0), (0, 0), (0, 0), (0, 0), (0, 0),
     (0, 0), (0, 0), (0, 0), (0, 0), (0, 0),
     (0, 0), (0, 0), (0, 0), (0, 0), (0, 0),
     (0, 0), (0, 0), (257, 67), (1, 0)]"

definition yy_transitions :: "yy_trans_info list list" where
  "yy_transitions = [
     yy_transition_0, yy_transition_1, yy_transition_2, yy_transition_3, yy_transition_4,
     yy_transition_5, yy_transition_6, yy_transition_7, yy_transition_8, yy_transition_9,
     yy_transition_10, yy_transition_11, yy_transition_12, yy_transition_13, yy_transition_14,
     yy_transition_15, yy_transition_16, yy_transition_17, yy_transition_18, yy_transition_19,
     yy_transition_20, yy_transition_21, yy_transition_22, yy_transition_23, yy_transition_24,
     yy_transition_25, yy_transition_26, yy_transition_27, yy_transition_28, yy_transition_29,
     yy_transition_30, yy_transition_31, yy_transition_32, yy_transition_33, yy_transition_34,
     yy_transition_35, yy_transition_36, yy_transition_37, yy_transition_38, yy_transition_39,
     yy_transition_40, yy_transition_41, yy_transition_42, yy_transition_43, yy_transition_44,
     yy_transition_45, yy_transition_46, yy_transition_47, yy_transition_48, yy_transition_49,
     yy_transition_50, yy_transition_51, yy_transition_52, yy_transition_53, yy_transition_54,
     yy_transition_55, yy_transition_56, yy_transition_57, yy_transition_58, yy_transition_59,
     yy_transition_60, yy_transition_61, yy_transition_62, yy_transition_63, yy_transition_64,
     yy_transition_65, yy_transition_66, yy_transition_67, yy_transition_68, yy_transition_69,
     yy_transition_70, yy_transition_71, yy_transition_72, yy_transition_73, yy_transition_74,
     yy_transition_75, yy_transition_76, yy_transition_77, yy_transition_78, yy_transition_79,
     yy_transition_80, yy_transition_81, yy_transition_82, yy_transition_83, yy_transition_84,
     yy_transition_85, yy_transition_86, yy_transition_87, yy_transition_88, yy_transition_89,
     yy_transition_90, yy_transition_91, yy_transition_92, yy_transition_93, yy_transition_94,
     yy_transition_95, yy_transition_96, yy_transition_97, yy_transition_98, yy_transition_99,
     yy_transition_100, yy_transition_101, yy_transition_102, yy_transition_103, yy_transition_104,
     yy_transition_105, yy_transition_106, yy_transition_107, yy_transition_108, yy_transition_109,
     yy_transition_110, yy_transition_111, yy_transition_112, yy_transition_113, yy_transition_114,
     yy_transition_115, yy_transition_116, yy_transition_117, yy_transition_118, yy_transition_119,
     yy_transition_120, yy_transition_121, yy_transition_122, yy_transition_123, yy_transition_124,
     yy_transition_125, yy_transition_126, yy_transition_127, yy_transition_128, yy_transition_129,
     yy_transition_130, yy_transition_131, yy_transition_132, yy_transition_133, yy_transition_134,
     yy_transition_135, yy_transition_136, yy_transition_137, yy_transition_138, yy_transition_139,
     yy_transition_140, yy_transition_141, yy_transition_142, yy_transition_143, yy_transition_144,
     yy_transition_145, yy_transition_146, yy_transition_147, yy_transition_148, yy_transition_149,
     yy_transition_150, yy_transition_151, yy_transition_152, yy_transition_153, yy_transition_154,
     yy_transition_155, yy_transition_156, yy_transition_157, yy_transition_158, yy_transition_159,
     yy_transition_160, yy_transition_161, yy_transition_162, yy_transition_163, yy_transition_164,
     yy_transition_165, yy_transition_166, yy_transition_167, yy_transition_168, yy_transition_169,
     yy_transition_170, yy_transition_171, yy_transition_172, yy_transition_173, yy_transition_174]"

definition yy_transition :: "yy_trans_info list" where
  "yy_transition = concat yy_transitions @ replicate 254 (0, 0)"

text \<open>The offset of the state for each value of \<^verbatim>\<open>yy_start\<close>.\<close>

definition yy_start_state_list :: "int list" where
  "yy_start_state_list =
     [1, 3, 261, 519, 777, 1035, 1293, 1551, 1809, 2067, 2325, 2583, 2841,
      3099, 3357, 3615, 3873, 4131, 4389, 4647, 4905, 5163, 5421, 5679, 5937]"

section \<open>Finding an entry\<close>

lemma part_length_0: "length yy_transition_0 = 100"
  by (simp add: yy_transition_0_def)

lemma part_length_1: "length yy_transition_1 = 100"
  by (simp add: yy_transition_1_def)

lemma part_length_2: "length yy_transition_2 = 100"
  by (simp add: yy_transition_2_def)

lemma part_length_3: "length yy_transition_3 = 100"
  by (simp add: yy_transition_3_def)

lemma part_length_4: "length yy_transition_4 = 100"
  by (simp add: yy_transition_4_def)

lemma part_length_5: "length yy_transition_5 = 100"
  by (simp add: yy_transition_5_def)

lemma part_length_6: "length yy_transition_6 = 100"
  by (simp add: yy_transition_6_def)

lemma part_length_7: "length yy_transition_7 = 100"
  by (simp add: yy_transition_7_def)

lemma part_length_8: "length yy_transition_8 = 100"
  by (simp add: yy_transition_8_def)

lemma part_length_9: "length yy_transition_9 = 100"
  by (simp add: yy_transition_9_def)

lemma part_length_10: "length yy_transition_10 = 100"
  by (simp add: yy_transition_10_def)

lemma part_length_11: "length yy_transition_11 = 100"
  by (simp add: yy_transition_11_def)

lemma part_length_12: "length yy_transition_12 = 100"
  by (simp add: yy_transition_12_def)

lemma part_length_13: "length yy_transition_13 = 100"
  by (simp add: yy_transition_13_def)

lemma part_length_14: "length yy_transition_14 = 100"
  by (simp add: yy_transition_14_def)

lemma part_length_15: "length yy_transition_15 = 100"
  by (simp add: yy_transition_15_def)

lemma part_length_16: "length yy_transition_16 = 100"
  by (simp add: yy_transition_16_def)

lemma part_length_17: "length yy_transition_17 = 100"
  by (simp add: yy_transition_17_def)

lemma part_length_18: "length yy_transition_18 = 100"
  by (simp add: yy_transition_18_def)

lemma part_length_19: "length yy_transition_19 = 100"
  by (simp add: yy_transition_19_def)

lemma part_length_20: "length yy_transition_20 = 100"
  by (simp add: yy_transition_20_def)

lemma part_length_21: "length yy_transition_21 = 100"
  by (simp add: yy_transition_21_def)

lemma part_length_22: "length yy_transition_22 = 100"
  by (simp add: yy_transition_22_def)

lemma part_length_23: "length yy_transition_23 = 100"
  by (simp add: yy_transition_23_def)

lemma part_length_24: "length yy_transition_24 = 100"
  by (simp add: yy_transition_24_def)

lemma part_length_25: "length yy_transition_25 = 100"
  by (simp add: yy_transition_25_def)

lemma part_length_26: "length yy_transition_26 = 100"
  by (simp add: yy_transition_26_def)

lemma part_length_27: "length yy_transition_27 = 100"
  by (simp add: yy_transition_27_def)

lemma part_length_28: "length yy_transition_28 = 100"
  by (simp add: yy_transition_28_def)

lemma part_length_29: "length yy_transition_29 = 100"
  by (simp add: yy_transition_29_def)

lemma part_length_30: "length yy_transition_30 = 100"
  by (simp add: yy_transition_30_def)

lemma part_length_31: "length yy_transition_31 = 100"
  by (simp add: yy_transition_31_def)

lemma part_length_32: "length yy_transition_32 = 100"
  by (simp add: yy_transition_32_def)

lemma part_length_33: "length yy_transition_33 = 100"
  by (simp add: yy_transition_33_def)

lemma part_length_34: "length yy_transition_34 = 100"
  by (simp add: yy_transition_34_def)

lemma part_length_35: "length yy_transition_35 = 100"
  by (simp add: yy_transition_35_def)

lemma part_length_36: "length yy_transition_36 = 100"
  by (simp add: yy_transition_36_def)

lemma part_length_37: "length yy_transition_37 = 100"
  by (simp add: yy_transition_37_def)

lemma part_length_38: "length yy_transition_38 = 100"
  by (simp add: yy_transition_38_def)

lemma part_length_39: "length yy_transition_39 = 100"
  by (simp add: yy_transition_39_def)

lemma part_length_40: "length yy_transition_40 = 100"
  by (simp add: yy_transition_40_def)

lemma part_length_41: "length yy_transition_41 = 100"
  by (simp add: yy_transition_41_def)

lemma part_length_42: "length yy_transition_42 = 100"
  by (simp add: yy_transition_42_def)

lemma part_length_43: "length yy_transition_43 = 100"
  by (simp add: yy_transition_43_def)

lemma part_length_44: "length yy_transition_44 = 100"
  by (simp add: yy_transition_44_def)

lemma part_length_45: "length yy_transition_45 = 100"
  by (simp add: yy_transition_45_def)

lemma part_length_46: "length yy_transition_46 = 100"
  by (simp add: yy_transition_46_def)

lemma part_length_47: "length yy_transition_47 = 100"
  by (simp add: yy_transition_47_def)

lemma part_length_48: "length yy_transition_48 = 100"
  by (simp add: yy_transition_48_def)

lemma part_length_49: "length yy_transition_49 = 100"
  by (simp add: yy_transition_49_def)

lemma part_length_50: "length yy_transition_50 = 100"
  by (simp add: yy_transition_50_def)

lemma part_length_51: "length yy_transition_51 = 100"
  by (simp add: yy_transition_51_def)

lemma part_length_52: "length yy_transition_52 = 100"
  by (simp add: yy_transition_52_def)

lemma part_length_53: "length yy_transition_53 = 100"
  by (simp add: yy_transition_53_def)

lemma part_length_54: "length yy_transition_54 = 100"
  by (simp add: yy_transition_54_def)

lemma part_length_55: "length yy_transition_55 = 100"
  by (simp add: yy_transition_55_def)

lemma part_length_56: "length yy_transition_56 = 100"
  by (simp add: yy_transition_56_def)

lemma part_length_57: "length yy_transition_57 = 100"
  by (simp add: yy_transition_57_def)

lemma part_length_58: "length yy_transition_58 = 100"
  by (simp add: yy_transition_58_def)

lemma part_length_59: "length yy_transition_59 = 100"
  by (simp add: yy_transition_59_def)

lemma part_length_60: "length yy_transition_60 = 100"
  by (simp add: yy_transition_60_def)

lemma part_length_61: "length yy_transition_61 = 100"
  by (simp add: yy_transition_61_def)

lemma part_length_62: "length yy_transition_62 = 100"
  by (simp add: yy_transition_62_def)

lemma part_length_63: "length yy_transition_63 = 100"
  by (simp add: yy_transition_63_def)

lemma part_length_64: "length yy_transition_64 = 100"
  by (simp add: yy_transition_64_def)

lemma part_length_65: "length yy_transition_65 = 100"
  by (simp add: yy_transition_65_def)

lemma part_length_66: "length yy_transition_66 = 100"
  by (simp add: yy_transition_66_def)

lemma part_length_67: "length yy_transition_67 = 100"
  by (simp add: yy_transition_67_def)

lemma part_length_68: "length yy_transition_68 = 100"
  by (simp add: yy_transition_68_def)

lemma part_length_69: "length yy_transition_69 = 100"
  by (simp add: yy_transition_69_def)

lemma part_length_70: "length yy_transition_70 = 100"
  by (simp add: yy_transition_70_def)

lemma part_length_71: "length yy_transition_71 = 100"
  by (simp add: yy_transition_71_def)

lemma part_length_72: "length yy_transition_72 = 100"
  by (simp add: yy_transition_72_def)

lemma part_length_73: "length yy_transition_73 = 100"
  by (simp add: yy_transition_73_def)

lemma part_length_74: "length yy_transition_74 = 100"
  by (simp add: yy_transition_74_def)

lemma part_length_75: "length yy_transition_75 = 100"
  by (simp add: yy_transition_75_def)

lemma part_length_76: "length yy_transition_76 = 100"
  by (simp add: yy_transition_76_def)

lemma part_length_77: "length yy_transition_77 = 100"
  by (simp add: yy_transition_77_def)

lemma part_length_78: "length yy_transition_78 = 100"
  by (simp add: yy_transition_78_def)

lemma part_length_79: "length yy_transition_79 = 100"
  by (simp add: yy_transition_79_def)

lemma part_length_80: "length yy_transition_80 = 100"
  by (simp add: yy_transition_80_def)

lemma part_length_81: "length yy_transition_81 = 100"
  by (simp add: yy_transition_81_def)

lemma part_length_82: "length yy_transition_82 = 100"
  by (simp add: yy_transition_82_def)

lemma part_length_83: "length yy_transition_83 = 100"
  by (simp add: yy_transition_83_def)

lemma part_length_84: "length yy_transition_84 = 100"
  by (simp add: yy_transition_84_def)

lemma part_length_85: "length yy_transition_85 = 100"
  by (simp add: yy_transition_85_def)

lemma part_length_86: "length yy_transition_86 = 100"
  by (simp add: yy_transition_86_def)

lemma part_length_87: "length yy_transition_87 = 100"
  by (simp add: yy_transition_87_def)

lemma part_length_88: "length yy_transition_88 = 100"
  by (simp add: yy_transition_88_def)

lemma part_length_89: "length yy_transition_89 = 100"
  by (simp add: yy_transition_89_def)

lemma part_length_90: "length yy_transition_90 = 100"
  by (simp add: yy_transition_90_def)

lemma part_length_91: "length yy_transition_91 = 100"
  by (simp add: yy_transition_91_def)

lemma part_length_92: "length yy_transition_92 = 100"
  by (simp add: yy_transition_92_def)

lemma part_length_93: "length yy_transition_93 = 100"
  by (simp add: yy_transition_93_def)

lemma part_length_94: "length yy_transition_94 = 100"
  by (simp add: yy_transition_94_def)

lemma part_length_95: "length yy_transition_95 = 100"
  by (simp add: yy_transition_95_def)

lemma part_length_96: "length yy_transition_96 = 100"
  by (simp add: yy_transition_96_def)

lemma part_length_97: "length yy_transition_97 = 100"
  by (simp add: yy_transition_97_def)

lemma part_length_98: "length yy_transition_98 = 100"
  by (simp add: yy_transition_98_def)

lemma part_length_99: "length yy_transition_99 = 100"
  by (simp add: yy_transition_99_def)

lemma part_length_100: "length yy_transition_100 = 100"
  by (simp add: yy_transition_100_def)

lemma part_length_101: "length yy_transition_101 = 100"
  by (simp add: yy_transition_101_def)

lemma part_length_102: "length yy_transition_102 = 100"
  by (simp add: yy_transition_102_def)

lemma part_length_103: "length yy_transition_103 = 100"
  by (simp add: yy_transition_103_def)

lemma part_length_104: "length yy_transition_104 = 100"
  by (simp add: yy_transition_104_def)

lemma part_length_105: "length yy_transition_105 = 100"
  by (simp add: yy_transition_105_def)

lemma part_length_106: "length yy_transition_106 = 100"
  by (simp add: yy_transition_106_def)

lemma part_length_107: "length yy_transition_107 = 100"
  by (simp add: yy_transition_107_def)

lemma part_length_108: "length yy_transition_108 = 100"
  by (simp add: yy_transition_108_def)

lemma part_length_109: "length yy_transition_109 = 100"
  by (simp add: yy_transition_109_def)

lemma part_length_110: "length yy_transition_110 = 100"
  by (simp add: yy_transition_110_def)

lemma part_length_111: "length yy_transition_111 = 100"
  by (simp add: yy_transition_111_def)

lemma part_length_112: "length yy_transition_112 = 100"
  by (simp add: yy_transition_112_def)

lemma part_length_113: "length yy_transition_113 = 100"
  by (simp add: yy_transition_113_def)

lemma part_length_114: "length yy_transition_114 = 100"
  by (simp add: yy_transition_114_def)

lemma part_length_115: "length yy_transition_115 = 100"
  by (simp add: yy_transition_115_def)

lemma part_length_116: "length yy_transition_116 = 100"
  by (simp add: yy_transition_116_def)

lemma part_length_117: "length yy_transition_117 = 100"
  by (simp add: yy_transition_117_def)

lemma part_length_118: "length yy_transition_118 = 100"
  by (simp add: yy_transition_118_def)

lemma part_length_119: "length yy_transition_119 = 100"
  by (simp add: yy_transition_119_def)

lemma part_length_120: "length yy_transition_120 = 100"
  by (simp add: yy_transition_120_def)

lemma part_length_121: "length yy_transition_121 = 100"
  by (simp add: yy_transition_121_def)

lemma part_length_122: "length yy_transition_122 = 100"
  by (simp add: yy_transition_122_def)

lemma part_length_123: "length yy_transition_123 = 100"
  by (simp add: yy_transition_123_def)

lemma part_length_124: "length yy_transition_124 = 100"
  by (simp add: yy_transition_124_def)

lemma part_length_125: "length yy_transition_125 = 100"
  by (simp add: yy_transition_125_def)

lemma part_length_126: "length yy_transition_126 = 100"
  by (simp add: yy_transition_126_def)

lemma part_length_127: "length yy_transition_127 = 100"
  by (simp add: yy_transition_127_def)

lemma part_length_128: "length yy_transition_128 = 100"
  by (simp add: yy_transition_128_def)

lemma part_length_129: "length yy_transition_129 = 100"
  by (simp add: yy_transition_129_def)

lemma part_length_130: "length yy_transition_130 = 100"
  by (simp add: yy_transition_130_def)

lemma part_length_131: "length yy_transition_131 = 100"
  by (simp add: yy_transition_131_def)

lemma part_length_132: "length yy_transition_132 = 100"
  by (simp add: yy_transition_132_def)

lemma part_length_133: "length yy_transition_133 = 100"
  by (simp add: yy_transition_133_def)

lemma part_length_134: "length yy_transition_134 = 100"
  by (simp add: yy_transition_134_def)

lemma part_length_135: "length yy_transition_135 = 100"
  by (simp add: yy_transition_135_def)

lemma part_length_136: "length yy_transition_136 = 100"
  by (simp add: yy_transition_136_def)

lemma part_length_137: "length yy_transition_137 = 100"
  by (simp add: yy_transition_137_def)

lemma part_length_138: "length yy_transition_138 = 100"
  by (simp add: yy_transition_138_def)

lemma part_length_139: "length yy_transition_139 = 100"
  by (simp add: yy_transition_139_def)

lemma part_length_140: "length yy_transition_140 = 100"
  by (simp add: yy_transition_140_def)

lemma part_length_141: "length yy_transition_141 = 100"
  by (simp add: yy_transition_141_def)

lemma part_length_142: "length yy_transition_142 = 100"
  by (simp add: yy_transition_142_def)

lemma part_length_143: "length yy_transition_143 = 100"
  by (simp add: yy_transition_143_def)

lemma part_length_144: "length yy_transition_144 = 100"
  by (simp add: yy_transition_144_def)

lemma part_length_145: "length yy_transition_145 = 100"
  by (simp add: yy_transition_145_def)

lemma part_length_146: "length yy_transition_146 = 100"
  by (simp add: yy_transition_146_def)

lemma part_length_147: "length yy_transition_147 = 100"
  by (simp add: yy_transition_147_def)

lemma part_length_148: "length yy_transition_148 = 100"
  by (simp add: yy_transition_148_def)

lemma part_length_149: "length yy_transition_149 = 100"
  by (simp add: yy_transition_149_def)

lemma part_length_150: "length yy_transition_150 = 100"
  by (simp add: yy_transition_150_def)

lemma part_length_151: "length yy_transition_151 = 100"
  by (simp add: yy_transition_151_def)

lemma part_length_152: "length yy_transition_152 = 100"
  by (simp add: yy_transition_152_def)

lemma part_length_153: "length yy_transition_153 = 100"
  by (simp add: yy_transition_153_def)

lemma part_length_154: "length yy_transition_154 = 100"
  by (simp add: yy_transition_154_def)

lemma part_length_155: "length yy_transition_155 = 100"
  by (simp add: yy_transition_155_def)

lemma part_length_156: "length yy_transition_156 = 100"
  by (simp add: yy_transition_156_def)

lemma part_length_157: "length yy_transition_157 = 100"
  by (simp add: yy_transition_157_def)

lemma part_length_158: "length yy_transition_158 = 100"
  by (simp add: yy_transition_158_def)

lemma part_length_159: "length yy_transition_159 = 100"
  by (simp add: yy_transition_159_def)

lemma part_length_160: "length yy_transition_160 = 100"
  by (simp add: yy_transition_160_def)

lemma part_length_161: "length yy_transition_161 = 100"
  by (simp add: yy_transition_161_def)

lemma part_length_162: "length yy_transition_162 = 100"
  by (simp add: yy_transition_162_def)

lemma part_length_163: "length yy_transition_163 = 100"
  by (simp add: yy_transition_163_def)

lemma part_length_164: "length yy_transition_164 = 100"
  by (simp add: yy_transition_164_def)

lemma part_length_165: "length yy_transition_165 = 100"
  by (simp add: yy_transition_165_def)

lemma part_length_166: "length yy_transition_166 = 100"
  by (simp add: yy_transition_166_def)

lemma part_length_167: "length yy_transition_167 = 100"
  by (simp add: yy_transition_167_def)

lemma part_length_168: "length yy_transition_168 = 100"
  by (simp add: yy_transition_168_def)

lemma part_length_169: "length yy_transition_169 = 100"
  by (simp add: yy_transition_169_def)

lemma part_length_170: "length yy_transition_170 = 100"
  by (simp add: yy_transition_170_def)

lemma part_length_171: "length yy_transition_171 = 100"
  by (simp add: yy_transition_171_def)

lemma part_length_172: "length yy_transition_172 = 100"
  by (simp add: yy_transition_172_def)

lemma part_length_173: "length yy_transition_173 = 100"
  by (simp add: yy_transition_173_def)

lemma part_length_174: "length yy_transition_174 = 24"
  by (simp add: yy_transition_174_def)

lemmas part_lengths =
  part_length_0 part_length_1 part_length_2 part_length_3 part_length_4 part_length_5 part_length_6 part_length_7
  part_length_8 part_length_9 part_length_10 part_length_11 part_length_12 part_length_13 part_length_14 part_length_15
  part_length_16 part_length_17 part_length_18 part_length_19 part_length_20 part_length_21 part_length_22 part_length_23
  part_length_24 part_length_25 part_length_26 part_length_27 part_length_28 part_length_29 part_length_30 part_length_31
  part_length_32 part_length_33 part_length_34 part_length_35 part_length_36 part_length_37 part_length_38 part_length_39
  part_length_40 part_length_41 part_length_42 part_length_43 part_length_44 part_length_45 part_length_46 part_length_47
  part_length_48 part_length_49 part_length_50 part_length_51 part_length_52 part_length_53 part_length_54 part_length_55
  part_length_56 part_length_57 part_length_58 part_length_59 part_length_60 part_length_61 part_length_62 part_length_63
  part_length_64 part_length_65 part_length_66 part_length_67 part_length_68 part_length_69 part_length_70 part_length_71
  part_length_72 part_length_73 part_length_74 part_length_75 part_length_76 part_length_77 part_length_78 part_length_79
  part_length_80 part_length_81 part_length_82 part_length_83 part_length_84 part_length_85 part_length_86 part_length_87
  part_length_88 part_length_89 part_length_90 part_length_91 part_length_92 part_length_93 part_length_94 part_length_95
  part_length_96 part_length_97 part_length_98 part_length_99 part_length_100 part_length_101 part_length_102 part_length_103
  part_length_104 part_length_105 part_length_106 part_length_107 part_length_108 part_length_109 part_length_110 part_length_111
  part_length_112 part_length_113 part_length_114 part_length_115 part_length_116 part_length_117 part_length_118 part_length_119
  part_length_120 part_length_121 part_length_122 part_length_123 part_length_124 part_length_125 part_length_126 part_length_127
  part_length_128 part_length_129 part_length_130 part_length_131 part_length_132 part_length_133 part_length_134 part_length_135
  part_length_136 part_length_137 part_length_138 part_length_139 part_length_140 part_length_141 part_length_142 part_length_143
  part_length_144 part_length_145 part_length_146 part_length_147 part_length_148 part_length_149 part_length_150 part_length_151
  part_length_152 part_length_153 part_length_154 part_length_155 part_length_156 part_length_157 part_length_158 part_length_159
  part_length_160 part_length_161 part_length_162 part_length_163 part_length_164 part_length_165 part_length_166 part_length_167
  part_length_168 part_length_169 part_length_170 part_length_171 part_length_172 part_length_173 part_length_174

lemma yy_transitions_lengths: "map length yy_transitions = replicate 174 100 @ [24]"
  by (simp add: yy_transitions_def part_lengths numeral_nat)

lemma length_yy_transition: "length yy_transition = 17678"
  by (simp add: yy_transition_def length_concat yy_transitions_lengths sum_list_replicate)

lemma part_at_0: "yy_transitions ! 0 = yy_transition_0"
  by (simp add: yy_transitions_def)

lemma part_at_1: "yy_transitions ! 1 = yy_transition_1"
  by (simp add: yy_transitions_def)

lemma part_at_2: "yy_transitions ! 2 = yy_transition_2"
  by (simp add: yy_transitions_def)

lemma part_at_3: "yy_transitions ! 3 = yy_transition_3"
  by (simp add: yy_transitions_def)

lemma part_at_4: "yy_transitions ! 4 = yy_transition_4"
  by (simp add: yy_transitions_def)

lemma part_at_5: "yy_transitions ! 5 = yy_transition_5"
  by (simp add: yy_transitions_def)

lemma part_at_6: "yy_transitions ! 6 = yy_transition_6"
  by (simp add: yy_transitions_def)

lemma part_at_7: "yy_transitions ! 7 = yy_transition_7"
  by (simp add: yy_transitions_def)

lemma part_at_8: "yy_transitions ! 8 = yy_transition_8"
  by (simp add: yy_transitions_def)

lemma part_at_9: "yy_transitions ! 9 = yy_transition_9"
  by (simp add: yy_transitions_def)

lemma part_at_10: "yy_transitions ! 10 = yy_transition_10"
  by (simp add: yy_transitions_def)

lemma part_at_11: "yy_transitions ! 11 = yy_transition_11"
  by (simp add: yy_transitions_def)

lemma part_at_12: "yy_transitions ! 12 = yy_transition_12"
  by (simp add: yy_transitions_def)

lemma part_at_13: "yy_transitions ! 13 = yy_transition_13"
  by (simp add: yy_transitions_def)

lemma part_at_14: "yy_transitions ! 14 = yy_transition_14"
  by (simp add: yy_transitions_def)

lemma part_at_15: "yy_transitions ! 15 = yy_transition_15"
  by (simp add: yy_transitions_def)

lemma part_at_16: "yy_transitions ! 16 = yy_transition_16"
  by (simp add: yy_transitions_def)

lemma part_at_17: "yy_transitions ! 17 = yy_transition_17"
  by (simp add: yy_transitions_def)

lemma part_at_18: "yy_transitions ! 18 = yy_transition_18"
  by (simp add: yy_transitions_def)

lemma part_at_19: "yy_transitions ! 19 = yy_transition_19"
  by (simp add: yy_transitions_def)

lemma part_at_20: "yy_transitions ! 20 = yy_transition_20"
  by (simp add: yy_transitions_def)

lemma part_at_21: "yy_transitions ! 21 = yy_transition_21"
  by (simp add: yy_transitions_def)

lemma part_at_22: "yy_transitions ! 22 = yy_transition_22"
  by (simp add: yy_transitions_def)

lemma part_at_23: "yy_transitions ! 23 = yy_transition_23"
  by (simp add: yy_transitions_def)

lemma part_at_24: "yy_transitions ! 24 = yy_transition_24"
  by (simp add: yy_transitions_def)

lemma part_at_25: "yy_transitions ! 25 = yy_transition_25"
  by (simp add: yy_transitions_def)

lemma part_at_26: "yy_transitions ! 26 = yy_transition_26"
  by (simp add: yy_transitions_def)

lemma part_at_27: "yy_transitions ! 27 = yy_transition_27"
  by (simp add: yy_transitions_def)

lemma part_at_28: "yy_transitions ! 28 = yy_transition_28"
  by (simp add: yy_transitions_def)

lemma part_at_29: "yy_transitions ! 29 = yy_transition_29"
  by (simp add: yy_transitions_def)

lemma part_at_30: "yy_transitions ! 30 = yy_transition_30"
  by (simp add: yy_transitions_def)

lemma part_at_31: "yy_transitions ! 31 = yy_transition_31"
  by (simp add: yy_transitions_def)

lemma part_at_32: "yy_transitions ! 32 = yy_transition_32"
  by (simp add: yy_transitions_def)

lemma part_at_33: "yy_transitions ! 33 = yy_transition_33"
  by (simp add: yy_transitions_def)

lemma part_at_34: "yy_transitions ! 34 = yy_transition_34"
  by (simp add: yy_transitions_def)

lemma part_at_35: "yy_transitions ! 35 = yy_transition_35"
  by (simp add: yy_transitions_def)

lemma part_at_36: "yy_transitions ! 36 = yy_transition_36"
  by (simp add: yy_transitions_def)

lemma part_at_37: "yy_transitions ! 37 = yy_transition_37"
  by (simp add: yy_transitions_def)

lemma part_at_38: "yy_transitions ! 38 = yy_transition_38"
  by (simp add: yy_transitions_def)

lemma part_at_39: "yy_transitions ! 39 = yy_transition_39"
  by (simp add: yy_transitions_def)

lemma part_at_40: "yy_transitions ! 40 = yy_transition_40"
  by (simp add: yy_transitions_def)

lemma part_at_41: "yy_transitions ! 41 = yy_transition_41"
  by (simp add: yy_transitions_def)

lemma part_at_42: "yy_transitions ! 42 = yy_transition_42"
  by (simp add: yy_transitions_def)

lemma part_at_43: "yy_transitions ! 43 = yy_transition_43"
  by (simp add: yy_transitions_def)

lemma part_at_44: "yy_transitions ! 44 = yy_transition_44"
  by (simp add: yy_transitions_def)

lemma part_at_45: "yy_transitions ! 45 = yy_transition_45"
  by (simp add: yy_transitions_def)

lemma part_at_46: "yy_transitions ! 46 = yy_transition_46"
  by (simp add: yy_transitions_def)

lemma part_at_47: "yy_transitions ! 47 = yy_transition_47"
  by (simp add: yy_transitions_def)

lemma part_at_48: "yy_transitions ! 48 = yy_transition_48"
  by (simp add: yy_transitions_def)

lemma part_at_49: "yy_transitions ! 49 = yy_transition_49"
  by (simp add: yy_transitions_def)

lemma part_at_50: "yy_transitions ! 50 = yy_transition_50"
  by (simp add: yy_transitions_def)

lemma part_at_51: "yy_transitions ! 51 = yy_transition_51"
  by (simp add: yy_transitions_def)

lemma part_at_52: "yy_transitions ! 52 = yy_transition_52"
  by (simp add: yy_transitions_def)

lemma part_at_53: "yy_transitions ! 53 = yy_transition_53"
  by (simp add: yy_transitions_def)

lemma part_at_54: "yy_transitions ! 54 = yy_transition_54"
  by (simp add: yy_transitions_def)

lemma part_at_55: "yy_transitions ! 55 = yy_transition_55"
  by (simp add: yy_transitions_def)

lemma part_at_56: "yy_transitions ! 56 = yy_transition_56"
  by (simp add: yy_transitions_def)

lemma part_at_57: "yy_transitions ! 57 = yy_transition_57"
  by (simp add: yy_transitions_def)

lemma part_at_58: "yy_transitions ! 58 = yy_transition_58"
  by (simp add: yy_transitions_def)

lemma part_at_59: "yy_transitions ! 59 = yy_transition_59"
  by (simp add: yy_transitions_def)

lemma part_at_60: "yy_transitions ! 60 = yy_transition_60"
  by (simp add: yy_transitions_def)

lemma part_at_61: "yy_transitions ! 61 = yy_transition_61"
  by (simp add: yy_transitions_def)

lemma part_at_62: "yy_transitions ! 62 = yy_transition_62"
  by (simp add: yy_transitions_def)

lemma part_at_63: "yy_transitions ! 63 = yy_transition_63"
  by (simp add: yy_transitions_def)

lemma part_at_64: "yy_transitions ! 64 = yy_transition_64"
  by (simp add: yy_transitions_def)

lemma part_at_65: "yy_transitions ! 65 = yy_transition_65"
  by (simp add: yy_transitions_def)

lemma part_at_66: "yy_transitions ! 66 = yy_transition_66"
  by (simp add: yy_transitions_def)

lemma part_at_67: "yy_transitions ! 67 = yy_transition_67"
  by (simp add: yy_transitions_def)

lemma part_at_68: "yy_transitions ! 68 = yy_transition_68"
  by (simp add: yy_transitions_def)

lemma part_at_69: "yy_transitions ! 69 = yy_transition_69"
  by (simp add: yy_transitions_def)

lemma part_at_70: "yy_transitions ! 70 = yy_transition_70"
  by (simp add: yy_transitions_def)

lemma part_at_71: "yy_transitions ! 71 = yy_transition_71"
  by (simp add: yy_transitions_def)

lemma part_at_72: "yy_transitions ! 72 = yy_transition_72"
  by (simp add: yy_transitions_def)

lemma part_at_73: "yy_transitions ! 73 = yy_transition_73"
  by (simp add: yy_transitions_def)

lemma part_at_74: "yy_transitions ! 74 = yy_transition_74"
  by (simp add: yy_transitions_def)

lemma part_at_75: "yy_transitions ! 75 = yy_transition_75"
  by (simp add: yy_transitions_def)

lemma part_at_76: "yy_transitions ! 76 = yy_transition_76"
  by (simp add: yy_transitions_def)

lemma part_at_77: "yy_transitions ! 77 = yy_transition_77"
  by (simp add: yy_transitions_def)

lemma part_at_78: "yy_transitions ! 78 = yy_transition_78"
  by (simp add: yy_transitions_def)

lemma part_at_79: "yy_transitions ! 79 = yy_transition_79"
  by (simp add: yy_transitions_def)

lemma part_at_80: "yy_transitions ! 80 = yy_transition_80"
  by (simp add: yy_transitions_def)

lemma part_at_81: "yy_transitions ! 81 = yy_transition_81"
  by (simp add: yy_transitions_def)

lemma part_at_82: "yy_transitions ! 82 = yy_transition_82"
  by (simp add: yy_transitions_def)

lemma part_at_83: "yy_transitions ! 83 = yy_transition_83"
  by (simp add: yy_transitions_def)

lemma part_at_84: "yy_transitions ! 84 = yy_transition_84"
  by (simp add: yy_transitions_def)

lemma part_at_85: "yy_transitions ! 85 = yy_transition_85"
  by (simp add: yy_transitions_def)

lemma part_at_86: "yy_transitions ! 86 = yy_transition_86"
  by (simp add: yy_transitions_def)

lemma part_at_87: "yy_transitions ! 87 = yy_transition_87"
  by (simp add: yy_transitions_def)

lemma part_at_88: "yy_transitions ! 88 = yy_transition_88"
  by (simp add: yy_transitions_def)

lemma part_at_89: "yy_transitions ! 89 = yy_transition_89"
  by (simp add: yy_transitions_def)

lemma part_at_90: "yy_transitions ! 90 = yy_transition_90"
  by (simp add: yy_transitions_def)

lemma part_at_91: "yy_transitions ! 91 = yy_transition_91"
  by (simp add: yy_transitions_def)

lemma part_at_92: "yy_transitions ! 92 = yy_transition_92"
  by (simp add: yy_transitions_def)

lemma part_at_93: "yy_transitions ! 93 = yy_transition_93"
  by (simp add: yy_transitions_def)

lemma part_at_94: "yy_transitions ! 94 = yy_transition_94"
  by (simp add: yy_transitions_def)

lemma part_at_95: "yy_transitions ! 95 = yy_transition_95"
  by (simp add: yy_transitions_def)

lemma part_at_96: "yy_transitions ! 96 = yy_transition_96"
  by (simp add: yy_transitions_def)

lemma part_at_97: "yy_transitions ! 97 = yy_transition_97"
  by (simp add: yy_transitions_def)

lemma part_at_98: "yy_transitions ! 98 = yy_transition_98"
  by (simp add: yy_transitions_def)

lemma part_at_99: "yy_transitions ! 99 = yy_transition_99"
  by (simp add: yy_transitions_def)

lemma part_at_100: "yy_transitions ! 100 = yy_transition_100"
  by (simp add: yy_transitions_def)

lemma part_at_101: "yy_transitions ! 101 = yy_transition_101"
  by (simp add: yy_transitions_def)

lemma part_at_102: "yy_transitions ! 102 = yy_transition_102"
  by (simp add: yy_transitions_def)

lemma part_at_103: "yy_transitions ! 103 = yy_transition_103"
  by (simp add: yy_transitions_def)

lemma part_at_104: "yy_transitions ! 104 = yy_transition_104"
  by (simp add: yy_transitions_def)

lemma part_at_105: "yy_transitions ! 105 = yy_transition_105"
  by (simp add: yy_transitions_def)

lemma part_at_106: "yy_transitions ! 106 = yy_transition_106"
  by (simp add: yy_transitions_def)

lemma part_at_107: "yy_transitions ! 107 = yy_transition_107"
  by (simp add: yy_transitions_def)

lemma part_at_108: "yy_transitions ! 108 = yy_transition_108"
  by (simp add: yy_transitions_def)

lemma part_at_109: "yy_transitions ! 109 = yy_transition_109"
  by (simp add: yy_transitions_def)

lemma part_at_110: "yy_transitions ! 110 = yy_transition_110"
  by (simp add: yy_transitions_def)

lemma part_at_111: "yy_transitions ! 111 = yy_transition_111"
  by (simp add: yy_transitions_def)

lemma part_at_112: "yy_transitions ! 112 = yy_transition_112"
  by (simp add: yy_transitions_def)

lemma part_at_113: "yy_transitions ! 113 = yy_transition_113"
  by (simp add: yy_transitions_def)

lemma part_at_114: "yy_transitions ! 114 = yy_transition_114"
  by (simp add: yy_transitions_def)

lemma part_at_115: "yy_transitions ! 115 = yy_transition_115"
  by (simp add: yy_transitions_def)

lemma part_at_116: "yy_transitions ! 116 = yy_transition_116"
  by (simp add: yy_transitions_def)

lemma part_at_117: "yy_transitions ! 117 = yy_transition_117"
  by (simp add: yy_transitions_def)

lemma part_at_118: "yy_transitions ! 118 = yy_transition_118"
  by (simp add: yy_transitions_def)

lemma part_at_119: "yy_transitions ! 119 = yy_transition_119"
  by (simp add: yy_transitions_def)

lemma part_at_120: "yy_transitions ! 120 = yy_transition_120"
  by (simp add: yy_transitions_def)

lemma part_at_121: "yy_transitions ! 121 = yy_transition_121"
  by (simp add: yy_transitions_def)

lemma part_at_122: "yy_transitions ! 122 = yy_transition_122"
  by (simp add: yy_transitions_def)

lemma part_at_123: "yy_transitions ! 123 = yy_transition_123"
  by (simp add: yy_transitions_def)

lemma part_at_124: "yy_transitions ! 124 = yy_transition_124"
  by (simp add: yy_transitions_def)

lemma part_at_125: "yy_transitions ! 125 = yy_transition_125"
  by (simp add: yy_transitions_def)

lemma part_at_126: "yy_transitions ! 126 = yy_transition_126"
  by (simp add: yy_transitions_def)

lemma part_at_127: "yy_transitions ! 127 = yy_transition_127"
  by (simp add: yy_transitions_def)

lemma part_at_128: "yy_transitions ! 128 = yy_transition_128"
  by (simp add: yy_transitions_def)

lemma part_at_129: "yy_transitions ! 129 = yy_transition_129"
  by (simp add: yy_transitions_def)

lemma part_at_130: "yy_transitions ! 130 = yy_transition_130"
  by (simp add: yy_transitions_def)

lemma part_at_131: "yy_transitions ! 131 = yy_transition_131"
  by (simp add: yy_transitions_def)

lemma part_at_132: "yy_transitions ! 132 = yy_transition_132"
  by (simp add: yy_transitions_def)

lemma part_at_133: "yy_transitions ! 133 = yy_transition_133"
  by (simp add: yy_transitions_def)

lemma part_at_134: "yy_transitions ! 134 = yy_transition_134"
  by (simp add: yy_transitions_def)

lemma part_at_135: "yy_transitions ! 135 = yy_transition_135"
  by (simp add: yy_transitions_def)

lemma part_at_136: "yy_transitions ! 136 = yy_transition_136"
  by (simp add: yy_transitions_def)

lemma part_at_137: "yy_transitions ! 137 = yy_transition_137"
  by (simp add: yy_transitions_def)

lemma part_at_138: "yy_transitions ! 138 = yy_transition_138"
  by (simp add: yy_transitions_def)

lemma part_at_139: "yy_transitions ! 139 = yy_transition_139"
  by (simp add: yy_transitions_def)

lemma part_at_140: "yy_transitions ! 140 = yy_transition_140"
  by (simp add: yy_transitions_def)

lemma part_at_141: "yy_transitions ! 141 = yy_transition_141"
  by (simp add: yy_transitions_def)

lemma part_at_142: "yy_transitions ! 142 = yy_transition_142"
  by (simp add: yy_transitions_def)

lemma part_at_143: "yy_transitions ! 143 = yy_transition_143"
  by (simp add: yy_transitions_def)

lemma part_at_144: "yy_transitions ! 144 = yy_transition_144"
  by (simp add: yy_transitions_def)

lemma part_at_145: "yy_transitions ! 145 = yy_transition_145"
  by (simp add: yy_transitions_def)

lemma part_at_146: "yy_transitions ! 146 = yy_transition_146"
  by (simp add: yy_transitions_def)

lemma part_at_147: "yy_transitions ! 147 = yy_transition_147"
  by (simp add: yy_transitions_def)

lemma part_at_148: "yy_transitions ! 148 = yy_transition_148"
  by (simp add: yy_transitions_def)

lemma part_at_149: "yy_transitions ! 149 = yy_transition_149"
  by (simp add: yy_transitions_def)

lemma part_at_150: "yy_transitions ! 150 = yy_transition_150"
  by (simp add: yy_transitions_def)

lemma part_at_151: "yy_transitions ! 151 = yy_transition_151"
  by (simp add: yy_transitions_def)

lemma part_at_152: "yy_transitions ! 152 = yy_transition_152"
  by (simp add: yy_transitions_def)

lemma part_at_153: "yy_transitions ! 153 = yy_transition_153"
  by (simp add: yy_transitions_def)

lemma part_at_154: "yy_transitions ! 154 = yy_transition_154"
  by (simp add: yy_transitions_def)

lemma part_at_155: "yy_transitions ! 155 = yy_transition_155"
  by (simp add: yy_transitions_def)

lemma part_at_156: "yy_transitions ! 156 = yy_transition_156"
  by (simp add: yy_transitions_def)

lemma part_at_157: "yy_transitions ! 157 = yy_transition_157"
  by (simp add: yy_transitions_def)

lemma part_at_158: "yy_transitions ! 158 = yy_transition_158"
  by (simp add: yy_transitions_def)

lemma part_at_159: "yy_transitions ! 159 = yy_transition_159"
  by (simp add: yy_transitions_def)

lemma part_at_160: "yy_transitions ! 160 = yy_transition_160"
  by (simp add: yy_transitions_def)

lemma part_at_161: "yy_transitions ! 161 = yy_transition_161"
  by (simp add: yy_transitions_def)

lemma part_at_162: "yy_transitions ! 162 = yy_transition_162"
  by (simp add: yy_transitions_def)

lemma part_at_163: "yy_transitions ! 163 = yy_transition_163"
  by (simp add: yy_transitions_def)

lemma part_at_164: "yy_transitions ! 164 = yy_transition_164"
  by (simp add: yy_transitions_def)

lemma part_at_165: "yy_transitions ! 165 = yy_transition_165"
  by (simp add: yy_transitions_def)

lemma part_at_166: "yy_transitions ! 166 = yy_transition_166"
  by (simp add: yy_transitions_def)

lemma part_at_167: "yy_transitions ! 167 = yy_transition_167"
  by (simp add: yy_transitions_def)

lemma part_at_168: "yy_transitions ! 168 = yy_transition_168"
  by (simp add: yy_transitions_def)

lemma part_at_169: "yy_transitions ! 169 = yy_transition_169"
  by (simp add: yy_transitions_def)

lemma part_at_170: "yy_transitions ! 170 = yy_transition_170"
  by (simp add: yy_transitions_def)

lemma part_at_171: "yy_transitions ! 171 = yy_transition_171"
  by (simp add: yy_transitions_def)

lemma part_at_172: "yy_transitions ! 172 = yy_transition_172"
  by (simp add: yy_transitions_def)

lemma part_at_173: "yy_transitions ! 173 = yy_transition_173"
  by (simp add: yy_transitions_def)

lemma part_at_174: "yy_transitions ! 174 = yy_transition_174"
  by (simp add: yy_transitions_def)


lemma nth_concat_uniform:
  "list_all (\<lambda>p. length p = n) (butlast ps) \<Longrightarrow> k < length ps \<Longrightarrow> j < n \<Longrightarrow> j < length (ps ! k) \<Longrightarrow> concat ps ! (n * k + j) = ps ! k ! j"
proof (induction ps arbitrary: k)
  case Nil
  then show ?case by simp
next
  case (Cons p ps)
  show ?case
  proof (cases k)
    case 0
    then show ?thesis using Cons.prems by (simp add: nth_append)
  next
    case (Suc i)
    then have "ps \<noteq> []" using Cons.prems by auto
    then have "length p = n" "list_all (\<lambda>p. length p = n) (butlast ps)" using Cons.prems by simp_all
    then show ?thesis using Cons Suc by (simp add: nth_append)
  qed
qed

lemma yy_transition_nth:
  assumes "k < 174 \<and> j < 100 \<or> k = 174 \<and> j < 24"
  shows "yy_transition ! (100 * k + j) = yy_transitions ! k ! j"
proof -
  have len: "length yy_transitions = 175" using arg_cong [OF yy_transitions_lengths, of length] by simp
  have "map length (butlast yy_transitions) = replicate 174 100" using arg_cong [OF yy_transitions_lengths, of butlast] by (simp add: map_butlast)
  then have u: "list_all (\<lambda>p. length p = 100) (butlast yy_transitions)"
    by (simp only: list_all_iff) (metis image_eqI in_set_replicate set_map)
  have "map length yy_transitions ! k = (if k < 174 then 100 else 24)" using assms unfolding yy_transitions_lengths by (auto simp: nth_append)
  then have l: "j < length (yy_transitions ! k)" "k < length yy_transitions" "j < 100" using assms len by (auto split: if_splits)
  have "length (concat yy_transitions) = 17424" by (simp add: length_concat yy_transitions_lengths sum_list_replicate)
  moreover have "100 * k + j < 17424" using assms by auto
  ultimately show ?thesis using nth_concat_uniform [OF u l(2,3,1)] by (simp add: yy_transition_def nth_append)
qed

end
