(* ===== verification/Flex_Rows.thy ===== *)
theory Flex_Rows
  imports Flex_Table
begin

text \<open>
  The automaton in the transition table. A state is an offset into \<^verbatim>\<open>yy_transition\<close>: the entry in front of it
  holds the rule to take there, the 256 entries behind it are looked up by the next byte and count
  when \<open>yy_verify\<close> is that byte. The rows of the 154 states that can be reached from a start state are
  listed here as runs: up to which byte, and how far to go. \<open>flex_states\<close> says that the table has
  exactly these rows; it is checked entry by entry.
\<close>

section \<open>Rows\<close>

type_synonym row = "(int \<times> int option) list"

fun row_lookup :: "row \<Rightarrow> int \<Rightarrow> int option" where
  "row_lookup [] c = None"
| "row_lookup ((hi, t) # r) c = (if c < hi then t else row_lookup r c)"

definition entry_ok :: "yy_trans_info \<Rightarrow> int \<Rightarrow> int option \<Rightarrow> bool" where
  "entry_ok e c t = (case t of None \<Rightarrow> fst e \<noteq> c | Some n \<Rightarrow> e = (c, n))"

fun row_ok :: "yy_trans_info list \<Rightarrow> int \<Rightarrow> row \<Rightarrow> bool" where
  "row_ok [] c r = True"
| "row_ok (e # es) c [] = (256 \<le> c)"
| "row_ok (e # es) c ((hi, t) # r) =
     (if hi \<le> c then row_ok (e # es) c r else entry_ok e c t \<and> row_ok es (c + 1) ((hi, t) # r))"

lemma row_ok_nth:
  "row_ok es c r \<Longrightarrow> j < length es \<Longrightarrow> c + int j < 256 \<Longrightarrow> entry_ok (es ! j) (c + int j) (row_lookup r (c + int j))"
proof (induction es c r arbitrary: j rule: row_ok.induct)
  case (3 e es c hi t r)
  show ?case
  proof (cases "hi \<le> c")
    case True
    then show ?thesis using 3 by simp
  next
    case False
    then have e: "entry_ok e c t" "row_ok es (c + 1) ((hi, t) # r)" using 3(3) by simp_all
    show ?thesis
    proof (cases j)
      case 0
      then show ?thesis using e(1) False by simp
    next
      case (Suc i)
      then show ?thesis using 3(2) [OF False e(2), of i] 3(4,5) by (simp add: algebra_simps)
    qed
  qed
qed simp_all

definition flex_state :: "int \<times> int \<times> row \<Rightarrow> bool" where
  "flex_state s = (case s of (b, a, r) \<Rightarrow>
     0 < b \<and> b + 256 \<le> int (length yy_transition) \<and> snd (yy_transition ! nat (b - 1)) = a \<and>
     (\<forall>c. 0 \<le> c \<longrightarrow> c < 256 \<longrightarrow> entry_ok (yy_transition ! nat (b + c)) c (row_lookup r c)))"

lemma flex_stateI:
  assumes "yy_transitions ! q0 = p0" "yy_transitions ! q1 = p1" "yy_transitions ! q2 = p2" "yy_transitions ! q3 = p3"
    and "length p0 = 100" "length p1 = 100" "length p2 = 100" "length p3 = n"
    and "q1 = q0 + 1 \<and> q2 = q0 + 2 \<and> q3 = q0 + 3 \<and> q2 < 174 \<and> b = 100 * int q0 + int k \<and> 0 < k \<and> k < 100 \<and>
      (n = 100 \<and> q3 < 174 \<or> n = 24 \<and> q3 = 174 \<and> b < 17169)"
    and "snd (p0 ! (k - 1)) = a"
    and "row_ok (drop k p0) 0 r \<and> row_ok p1 (100 - int k) r \<and> row_ok p2 (200 - int k) r \<and> row_ok p3 (300 - int k) r"
  shows "flex_state (b, a, r)"
proof -
  note q = assms(9) and rows = assms(11)
  have nth: "yy_transition ! (100 * q + j) = yy_transitions ! q ! j" if "q < 174 \<and> j < 100 \<or> q = 174 \<and> j < 24" for q j
    by (rule yy_transition_nth [OF that])
  have "entry_ok (yy_transition ! nat (b + c)) c (row_lookup r c)" if c: "0 \<le> c" "c < 256" for c
  proof -
    define i where "i = k + nat c"
    have b: "nat (b + c) = 100 * q0 + i" and ci: "c = int i - int k" using q c by (simp_all add: i_def)
    consider "i < 100" | "100 \<le> i" "i < 200" | "200 \<le> i" "i < 300" | "300 \<le> i" "i < 356" using q c by (atomize_elim) (simp add: i_def, linarith)
    then show ?thesis
    proof cases
      case 1
      then have "entry_ok (drop k p0 ! nat c) (0 + int (nat c)) (row_lookup r (0 + int (nat c)))"
        using rows q c assms(5) by (intro row_ok_nth) (simp_all add: i_def)
      moreover have "drop k p0 ! nat c = p0 ! i" using q assms(5) by (simp add: i_def)
      moreover have "yy_transition ! (100 * q0 + i) = p0 ! i" using nth [of q0 i] 1 q assms(1) by simp
      ultimately show ?thesis using c b by simp
    next
      case 2
      then have "entry_ok (p1 ! (i - 100)) (100 - int k + int (i - 100)) (row_lookup r (100 - int k + int (i - 100)))"
        using rows q c assms(6) ci by (intro row_ok_nth) simp_all
      moreover have "yy_transition ! (100 * q0 + i) = p1 ! (i - 100)" using nth [of q1 "i - 100"] 2 q assms(2) by simp
      ultimately show ?thesis using b 2 ci by (simp add: of_nat_diff)
    next
      case 3
      then have "entry_ok (p2 ! (i - 200)) (200 - int k + int (i - 200)) (row_lookup r (200 - int k + int (i - 200)))"
        using rows q c assms(7) ci by (intro row_ok_nth) simp_all
      moreover have "yy_transition ! (100 * q0 + i) = p2 ! (i - 200)" using nth [of q2 "i - 200"] 3 q assms(3) by simp
      ultimately show ?thesis using b 3 ci by (simp add: of_nat_diff)
    next
      case 4
      have n: "i - 300 < n" using 4 q c ci by auto
      then have "entry_ok (p3 ! (i - 300)) (300 - int k + int (i - 300)) (row_lookup r (300 - int k + int (i - 300)))"
        using rows c assms(8) ci 4 by (intro row_ok_nth) simp_all
      moreover have "yy_transition ! (100 * q0 + i) = p3 ! (i - 300)" using nth [of q3 "i - 300"] 4 n q assms(4) by auto
      ultimately show ?thesis using b 4 ci by (simp add: of_nat_diff)
    qed
  qed
  moreover have "yy_transition ! nat (b - 1) = p0 ! (k - 1)"
  proof -
    have "nat (b - 1) = 100 * q0 + (k - 1)" using q by (simp add: nat_diff_distrib)
    moreover have "k - 1 < 100" "100 * q0 + (k - 1) = 100 * q0 + k - 1" using q by auto
    ultimately show ?thesis using nth [of q0 "k - 1"] q assms(1) by simp
  qed
  moreover have "0 < b" "b + 256 \<le> 17678" using q by auto
  ultimately show ?thesis using assms(10) by (simp add: flex_state_def length_yy_transition)
qed

section \<open>The rows of the table\<close>

definition row_3 :: row where
  "row_3 =
     [(1, Some 17420), (9, Some 6192), (10, Some 6194), (11, Some 6199), (12, Some 6192), (14, Some 6194),
      (32, Some 6192), (33, Some 6194), (34, Some 6201), (35, Some 6196), (36, Some 6241), (37, Some 6307),
      (38, Some 6564), (39, Some 6241), (40, Some 6214), (42, Some 6216), (44, Some 6564), (45, Some 6216),
      (46, Some 6575), (47, Some 6594), (48, Some 6665), (58, Some 6667), (59, Some 6219), (60, Some 6216),
      (61, Some 6732), (62, Some 6743), (63, Some 6810), (64, Some 6564), (65, Some 6241), (66, Some 6842),
      (67, Some 7099), (69, Some 6842), (70, Some 7356), (78, Some 6842), (79, Some 7613), (85, Some 6842),
      (86, Some 7870), (88, Some 6842), (89, Some 8127), (91, Some 6842), (92, Some 6216), (93, Some 6192),
      (94, Some 6216), (95, Some 6564), (96, Some 6842), (97, Some 6241), (98, Some 6842), (99, Some 7099),
      (101, Some 6842), (102, Some 7356), (110, Some 6842), (111, Some 7613), (117, Some 6842), (118, Some 7870),
      (120, Some 6842), (121, Some 8127), (123, Some 6842), (124, Some 6192), (125, Some 6241), (126, Some 6192),
      (127, Some 6241), (128, Some 6192), (256, Some 6842)]"

definition row_519 :: row where
  "row_519 =
     [(1, Some 16904), (39, Some 7868), (40, Some 5705), (256, Some 7868)]"

definition row_1035 :: row where
  "row_1035 =
     [(1, Some 16388), (33, Some 7610), (34, Some 7868), (35, Some 7610), (36, Some 7868), (37, Some 7610),
      (39, Some 7868), (42, Some 7610), (43, Some 5192), (44, Some 7868), (45, Some 7610), (46, Some 7868),
      (47, Some 7610), (48, Some 5196), (60, Some 7610), (65, Some 7868), (94, Some 7610), (95, Some 7868),
      (96, Some 7610), (97, Some 7868), (124, Some 7610), (125, Some 7868), (126, Some 7610), (127, Some 7868),
      (256, Some 7610)]"

definition row_1551 :: row where
  "row_1551 =
     [(1, Some 15872), (34, Some 7610), (35, Some 4685), (256, Some 7610)]"

definition row_2067 :: row where
  "row_2067 =
     [(1, Some 15356), (39, Some 7352), (40, Some 4157), (256, Some 7352)]"

definition row_2583 :: row where
  "row_2583 =
     [(1, Some 14840), (39, Some 7094), (40, Some 3670), (256, Some 7094)]"

definition row_3099 :: row where
  "row_3099 =
     [(1, Some 14324), (9, Some 3156), (10, Some 6836), (11, Some 6841), (12, Some 3156), (13, Some 6836),
      (14, Some 6857), (32, Some 3156), (33, Some 6836), (45, Some 3156), (46, Some 3158), (256, Some 3156)]"

definition row_3615 :: row where
  "row_3615 =
     [(1, Some 13808), (10, Some 6388), (11, Some 6646), (39, Some 6388), (40, Some 2645), (92, Some 6388),
      (93, Some 6904), (256, Some 6388)]"

definition row_4131 :: row where
  "row_4131 =
     [(1, Some 13292), (10, Some 6646), (11, Some 6904), (36, Some 6646), (37, Some 7162), (256, Some 6646)]"

definition row_4647 :: row where
  "row_4647 =
     [(1, Some 12776), (34, Some 4514), (35, Some 1615), (256, Some 4514)]"

definition row_5163 :: row where
  "row_5163 =
     [(1, Some 12260), (39, Some 4514), (40, Some 1090), (256, Some 4514)]"

definition row_5679 :: row where
  "row_5679 =
     [(1, Some 11744), (10, Some 593), (11, Some 597), (92, Some 593), (93, Some 637), (256, Some 593)]"

definition row_6195 :: row where
  "row_6195 =
     [(1, Some 11228), (256, None)]"

definition row_6197 :: row where
  "row_6197 =
     [(1, Some 11226), (9, None), (11, Some 5098), (12, None), (14, Some 5098), (32, None),
      (33, Some 5098), (256, None)]"

definition row_6199 :: row where
  "row_6199 =
     [(1, Some 11224), (256, None)]"

definition row_6202 :: row where
  "row_6202 =
     [(1, Some 11221), (9, None), (11, Some 5093), (12, None), (14, Some 5093), (32, None),
      (33, Some 5093), (256, None)]"

definition row_6204 :: row where
  "row_6204 =
     [(1, Some 11219), (33, None), (34, Some 5346), (35, None), (36, Some 5346), (37, None),
      (39, Some 5346), (42, None), (44, Some 5346), (45, None), (46, Some 5346), (47, None),
      (48, Some 5346), (60, None), (61, Some 5346), (62, Some 5357), (65, Some 5346), (94, None),
      (95, Some 5346), (96, None), (97, Some 5346), (124, None), (125, Some 5346), (126, None),
      (127, Some 5346), (256, None)]"

definition row_6217 :: row where
  "row_6217 =
     [(1, Some 11206), (256, None)]"

definition row_6219 :: row where
  "row_6219 =
     [(1, Some 11204), (256, None)]"

definition row_6222 :: row where
  "row_6222 =
     [(1, Some 11201), (58, None), (59, Some 100), (61, None), (62, Some 102), (256, None)]"

definition row_6224 :: row where
  "row_6224 =
     [(1, Some 11199), (256, None)]"

definition row_6227 :: row where
  "row_6227 =
     [(1, Some 11196), (42, None), (43, Some 348), (47, None), (48, Some 353), (256, None)]"

definition row_6231 :: row where
  "row_6231 =
     [(1, Some 11192), (42, None), (43, Some 7050), (256, None)]"

definition row_6236 :: row where
  "row_6236 =
     [(1, Some 11187), (34, None), (35, Some 346), (256, None)]"

definition row_6244 :: row where
  "row_6244 =
     [(1, Some 11179), (33, None), (34, Some 5306), (35, None), (36, Some 5306), (37, None),
      (39, Some 5306), (42, None), (44, Some 5306), (45, None), (46, Some 5306), (47, None),
      (48, Some 5306), (60, None), (65, Some 5306), (94, None), (95, Some 5306), (96, None),
      (97, Some 5306), (124, None), (125, Some 5306), (126, None), (127, Some 5306), (256, None)]"

definition row_6253 :: row where
  "row_6253 =
     [(1, Some 11170), (39, None), (40, Some 331), (256, None)]"

definition row_6255 :: row where
  "row_6255 =
     [(1, Some 11168), (256, None)]"

definition row_6257 :: row where
  "row_6257 =
     [(1, Some 11166), (256, None)]"

definition row_6260 :: row where
  "row_6260 =
     [(1, Some 11163), (39, None), (40, Some 324), (256, None)]"

definition row_6262 :: row where
  "row_6262 =
     [(1, Some 11161), (34, None), (35, Some 320), (256, None)]"

definition row_6272 :: row where
  "row_6272 =
     [(1, Some 11151), (256, None)]"

definition row_6276 :: row where
  "row_6276 =
     [(1, Some 11147), (256, None)]"

definition row_6310 :: row where
  "row_6310 =
     [(1, Some 11113), (36, None), (37, Some 8), (48, None), (58, Some 5268), (65, None),
      (91, Some 5331), (95, None), (96, Some 5331), (97, None), (123, Some 5331), (128, None),
      (256, Some 5331)]"

definition row_6316 :: row where
  "row_6316 =
     [(1, Some 11107), (85, None), (86, Some 8881), (117, None), (118, Some 8904), (256, None)]"

definition row_6318 :: row where
  "row_6318 =
     [(1, Some 11105), (256, None)]"

definition row_6320 :: row where
  "row_6320 =
     [(1, Some 11103), (256, None)]"

definition row_6322 :: row where
  "row_6322 =
     [(1, Some 11101), (256, None)]"

definition row_6324 :: row where
  "row_6324 =
     [(1, Some 11099), (256, None)]"

definition row_6343 :: row where
  "row_6343 =
     [(1, Some 11080), (63, None), (64, Some 0), (256, None)]"

definition row_6345 :: row where
  "row_6345 =
     [(1, Some 11078), (256, None)]"

definition row_6348 :: row where
  "row_6348 =
     [(1, Some 11075), (256, None)]"

definition row_6372 :: row where
  "row_6372 =
     [(1, Some 11051), (63, None), (64, Some (- 29)), (256, None)]"

definition row_6374 :: row where
  "row_6374 =
     [(1, Some 11049), (256, None)]"

definition row_6567 :: row where
  "row_6567 =
     [(1, Some 10856), (33, None), (34, Some 4983), (35, None), (36, Some 4983), (37, None),
      (39, Some 4983), (42, None), (44, Some 4983), (45, None), (46, Some 4983), (47, None),
      (48, Some 4983), (60, None), (65, Some 4983), (94, None), (95, Some 4983), (96, None),
      (97, Some 4983), (124, None), (125, Some 4983), (126, None), (127, Some 4983), (256, None)]"

definition row_6569 :: row where
  "row_6569 =
     [(1, Some 10854), (34, None), (35, Some 30), (39, None), (40, Some 38), (256, None)]"

definition row_6571 :: row where
  "row_6571 =
     [(1, Some 10852), (256, None)]"

definition row_6575 :: row where
  "row_6575 =
     [(1, Some 10848), (42, None), (43, Some 0), (47, None), (48, Some 5), (256, None)]"

definition row_6578 :: row where
  "row_6578 =
     [(1, Some 10845), (33, None), (34, Some 4972), (35, None), (36, Some 4972), (37, None),
      (39, Some 4972), (42, None), (44, Some 4972), (45, None), (46, Some 5320), (47, None),
      (48, Some 4972), (60, None), (65, Some 4972), (94, None), (95, Some 4972), (96, None),
      (97, Some 4972), (124, None), (125, Some 4972), (126, None), (127, Some 4972), (256, None)]"

definition row_6580 :: row where
  "row_6580 =
     [(1, Some 10843), (256, None)]"

definition row_6582 :: row where
  "row_6582 =
     [(1, Some 10841), (256, None)]"

definition row_6584 :: row where
  "row_6584 =
     [(1, Some 10839), (256, None)]"

definition row_6586 :: row where
  "row_6586 =
     [(1, Some 10837), (256, None)]"

definition row_6588 :: row where
  "row_6588 =
     [(1, Some 10835), (256, None)]"

definition row_6590 :: row where
  "row_6590 =
     [(1, Some 10833), (256, None)]"

definition row_6592 :: row where
  "row_6592 =
     [(1, Some 10831), (256, None)]"

definition row_6594 :: row where
  "row_6594 =
     [(1, Some 10829), (256, None)]"

definition row_6597 :: row where
  "row_6597 =
     [(1, Some 10826), (46, None), (47, Some (- 277)), (48, None), (58, Some 5559), (256, None)]"

definition row_6599 :: row where
  "row_6599 =
     [(1, Some 10824), (256, None)]"

definition row_6607 :: row where
  "row_6607 =
     [(1, Some 10816), (256, None)]"

definition row_6619 :: row where
  "row_6619 =
     [(1, Some 10804), (256, None)]"

definition row_6633 :: row where
  "row_6633 =
     [(1, Some 10790), (256, None)]"

definition row_6635 :: row where
  "row_6635 =
     [(1, Some 10788), (256, None)]"

definition row_6637 :: row where
  "row_6637 =
     [(1, Some 10786), (256, None)]"

definition row_6668 :: row where
  "row_6668 =
     [(1, Some 10755), (33, None), (34, Some 4882), (35, None), (36, Some 4882), (37, None),
      (39, Some 4882), (42, None), (43, Some 5513), (44, Some 4882), (45, None), (46, Some 4882),
      (47, None), (48, Some 4882), (60, None), (65, Some 4882), (94, None), (95, Some 4882),
      (96, None), (97, Some 4882), (124, None), (125, Some 4882), (126, None), (127, Some 4882),
      (256, None)]"

definition row_6670 :: row where
  "row_6670 =
     [(1, Some 10753), (46, None), (47, Some 5513), (48, None), (58, Some 5577), (69, None),
      (70, Some 5599), (101, None), (102, Some 5599), (256, None)]"

definition row_6735 :: row where
  "row_6735 =
     [(1, Some 10688), (33, None), (34, Some 4815), (35, None), (36, Some 4815), (37, None),
      (39, Some 4815), (42, None), (44, Some 4815), (45, None), (46, Some 4815), (47, None),
      (48, Some 4815), (60, None), (61, Some 4815), (62, Some 5574), (63, Some 5615), (65, Some 4815),
      (94, None), (95, Some 4815), (96, None), (97, Some 4815), (124, None), (125, Some 4815),
      (126, None), (127, Some 4815), (256, None)]"

definition row_6746 :: row where
  "row_6746 =
     [(1, Some 10677), (33, None), (34, Some 4804), (35, None), (36, Some 4804), (37, None),
      (39, Some 4804), (42, None), (44, Some 4804), (45, None), (46, Some 4804), (47, None),
      (48, Some 4804), (60, None), (62, Some 4804), (63, Some 5671), (65, Some 4804), (94, None),
      (95, Some 4804), (96, None), (97, Some 4804), (124, None), (125, Some 4804), (126, None),
      (127, Some 4804), (256, None)]"

definition row_6813 :: row where
  "row_6813 =
     [(1, Some 10610), (33, None), (34, Some 4737), (35, None), (36, Some 4737), (37, None),
      (39, Some 4737), (42, None), (44, Some 4737), (45, None), (46, Some 4737), (47, None),
      (48, Some 4737), (60, None), (61, Some 4737), (62, Some 5615), (65, Some 4737), (94, None),
      (95, Some 4737), (96, None), (97, Some 4737), (124, None), (125, Some 4737), (126, None),
      (127, Some 4737), (256, None)]"

definition row_6845 :: row where
  "row_6845 =
     [(1, Some 10578), (36, None), (37, Some 5663), (48, None), (58, Some 5663), (63, None),
      (64, Some (- 502)), (65, None), (91, Some 5663), (95, None), (96, Some 5663), (97, None),
      (123, Some 5663), (128, None), (256, Some 5663)]"

definition row_7102 :: row where
  "row_7102 =
     [(1, Some 10321), (36, None), (37, Some 5406), (39, None), (40, Some (- 757)), (48, None),
      (58, Some 5406), (63, None), (64, Some (- 759)), (65, None), (91, Some 5406), (95, None),
      (96, Some 5406), (97, None), (123, Some 5406), (128, None), (256, Some 5406)]"

definition row_7359 :: row where
  "row_7359 =
     [(1, Some 10064), (36, None), (37, Some 5149), (39, None), (40, Some (- 1011)), (48, None),
      (58, Some 5149), (63, None), (64, Some (- 987)), (65, None), (91, Some 5149), (95, None),
      (96, Some 5149), (97, None), (123, Some 5149), (128, None), (256, Some 5149)]"

definition row_7616 :: row where
  "row_7616 =
     [(1, Some 9807), (36, None), (37, Some 4892), (39, None), (40, Some (- 1242)), (48, None),
      (58, Some 4892), (63, None), (64, Some (- 1273)), (65, None), (91, Some 4892), (95, None),
      (96, Some 4892), (97, None), (123, Some 4892), (128, None), (256, Some 4892)]"

definition row_7873 :: row where
  "row_7873 =
     [(1, Some 9550), (36, None), (37, Some 4635), (38, None), (39, Some (- 1304)), (48, None),
      (58, Some 4635), (63, None), (64, Some (- 1530)), (65, None), (91, Some 4635), (95, None),
      (96, Some 4635), (97, None), (123, Some 4635), (128, None), (256, Some 4635)]"

definition row_8130 :: row where
  "row_8130 =
     [(1, Some 9293), (36, None), (37, Some 4378), (39, None), (40, Some (- 1559)), (48, None),
      (58, Some 4378), (63, None), (64, Some (- 1787)), (65, None), (91, Some 4378), (95, None),
      (96, Some 4378), (97, None), (123, Some 4378), (128, None), (256, Some 4378)]"

definition row_8387 :: row where
  "row_8387 =
     [(1, Some 9036), (39, Some 4378), (40, None), (256, Some 4378)]"

definition row_8645 :: row where
  "row_8645 =
     [(1, Some 8778), (42, Some 4378), (43, None), (47, Some 4378), (48, None), (256, Some 4378)]"

definition row_8903 :: row where
  "row_8903 =
     [(1, Some 8520), (42, Some 4120), (43, None), (47, Some 4120), (48, None), (256, Some 4120)]"

definition row_9161 :: row where
  "row_9161 =
     [(1, Some 8262), (34, Some 4248), (35, None), (256, Some 4248)]"

definition row_9419 :: row where
  "row_9419 =
     [(1, Some 8004), (39, Some 4248), (40, None), (256, Some 4248)]"

definition row_9677 :: row where
  "row_9677 =
     [(1, Some 7746), (39, Some 4248), (40, None), (256, Some 4248)]"

definition row_9935 :: row where
  "row_9935 =
     [(1, Some 7488), (9, None), (10, Some 4248), (11, Some 4253), (12, None), (13, Some 4248),
      (14, Some 4253), (32, None), (33, Some 4248), (45, None), (46, Some (- 3349)), (256, None)]"

definition row_9940 :: row where
  "row_9940 =
     [(1, Some 7483), (9, None), (11, Some 4264), (12, None), (14, Some 4264), (32, None),
      (33, Some 4264), (39, None), (40, Some (- 3352)), (45, None), (46, Some (- 3354)), (256, None)]"

definition row_9956 :: row where
  "row_9956 =
     [(1, Some 7467), (9, None), (11, Some 4248), (12, None), (14, Some 4248), (32, None),
      (33, Some 4248), (39, None), (40, Some (- 3368)), (45, None), (46, Some (- 3370)), (256, None)]"

definition row_10003 :: row where
  "row_10003 =
     [(1, Some 7420), (39, Some 4248), (40, None), (92, Some 4248), (93, None), (256, Some 4248)]"

definition row_10261 :: row where
  "row_10261 =
     [(1, Some 7162), (39, Some 3990), (40, None), (92, Some 3990), (93, None), (256, Some 3990)]"

definition row_10519 :: row where
  "row_10519 =
     [(1, Some 6904), (48, Some (- 3929)), (56, Some 3990), (85, Some (- 3929)), (86, Some 3998), (117, Some (- 3929)),
      (118, Some 4021), (120, Some (- 3929)), (121, Some 4059), (256, Some (- 3929))]"

definition row_10777 :: row where
  "row_10777 =
     [(1, Some 6646), (36, Some 3905), (37, None), (256, Some 3905)]"

definition row_11035 :: row where
  "row_11035 =
     [(1, Some 6388), (36, Some 3647), (37, None), (256, Some 3647)]"

definition row_11293 :: row where
  "row_11293 =
     [(1, Some 6130), (36, None), (37, Some (- 4701)), (65, None), (91, Some 3647), (95, None),
      (96, Some 3647), (97, None), (123, Some 3647), (128, None), (256, Some 3647)]"

definition row_11295 :: row where
  "row_11295 =
     [(1, Some 6128), (9, None), (11, Some 0), (12, None), (14, Some 0), (32, None),
      (33, Some 0), (256, None)]"

definition row_11550 :: row where
  "row_11550 =
     [(1, Some 5873), (33, None), (34, Some 0), (35, None), (36, Some 0), (37, None),
      (39, Some 0), (42, None), (44, Some 0), (45, None), (46, Some 0), (47, None),
      (48, Some 0), (60, None), (65, Some 0), (94, None), (95, Some 0), (96, None),
      (97, Some 0), (124, None), (125, Some 0), (126, None), (127, Some 0), (256, None)]"

definition row_11561 :: row where
  "row_11561 =
     [(1, Some 5862), (33, None), (34, Some (- 11)), (35, None), (36, Some (- 11)), (37, None),
      (39, Some (- 11)), (42, None), (44, Some (- 11)), (45, None), (46, Some (- 11)), (47, None),
      (48, Some (- 11)), (60, None), (65, Some (- 11)), (94, None), (95, Some (- 11)), (96, None),
      (97, Some (- 11)), (124, None), (125, Some (- 11)), (126, None), (127, Some (- 11)), (256, None)]"

definition row_11578 :: row where
  "row_11578 =
     [(1, Some 5845), (48, None), (58, Some 0), (256, None)]"

definition row_11641 :: row where
  "row_11641 =
     [(1, Some 5782), (36, None), (37, Some (- 5323)), (48, None), (58, Some 3638), (65, None),
      (91, Some 3638), (95, None), (96, Some 3638), (97, None), (123, Some 3638), (128, None),
      (256, Some 3638)]"

definition row_11898 :: row where
  "row_11898 =
     [(1, Some 5525), (10, Some 3638), (11, None), (13, Some 3638), (14, None), (33, Some 3638),
      (34, Some 3896), (35, Some 3638), (36, Some 3896), (37, Some 3638), (39, Some 3896), (42, Some 3638),
      (44, Some 3896), (45, Some 3638), (46, Some 3896), (47, Some 3638), (48, Some 3896), (60, Some 3638),
      (65, Some 3896), (94, Some 3638), (95, Some 3896), (96, Some 3638), (97, Some 3896), (124, Some 3638),
      (125, Some 3896), (126, Some 3638), (127, Some 3896), (256, Some 3638)]"

definition row_12156 :: row where
  "row_12156 =
     [(1, Some 5267), (48, None), (58, Some 0), (69, None), (70, Some 113), (101, None),
      (102, Some 113), (256, None)]"

definition row_12181 :: row where
  "row_12181 =
     [(1, Some 5242), (33, None), (34, Some 3871), (35, None), (36, Some 3871), (37, None),
      (39, Some 3871), (42, None), (44, Some 3871), (45, None), (46, Some 3871), (47, None),
      (48, Some 3871), (60, None), (65, Some 3871), (94, None), (95, Some 3871), (96, None),
      (97, Some 3871), (124, None), (125, Some 3871), (126, None), (127, Some 3871), (256, None)]"

definition row_12183 :: row where
  "row_12183 =
     [(1, Some 5240), (46, None), (47, Some (- 5589)), (48, None), (58, Some 3871), (69, None),
      (70, Some 86), (101, None), (102, Some 86), (256, None)]"

definition row_12247 :: row where
  "row_12247 =
     [(1, Some 5176), (46, None), (47, Some (- 64)), (48, None), (58, Some 0), (69, None),
      (70, Some 22), (101, None), (102, Some 22), (256, None)]"

definition row_12269 :: row where
  "row_12269 =
     [(1, Some 5154), (43, None), (44, Some 3807), (45, None), (46, Some 3807), (48, None),
      (58, Some 3849), (256, None)]"

definition row_12309 :: row where
  "row_12309 =
     [(1, Some 5114), (33, None), (34, Some (- 759)), (35, None), (36, Some (- 759)), (37, None),
      (39, Some (- 759)), (42, None), (44, Some (- 759)), (45, None), (46, Some (- 759)), (47, None),
      (48, Some (- 759)), (60, None), (65, Some (- 759)), (94, None), (95, Some (- 759)), (96, None),
      (97, Some (- 759)), (124, None), (125, Some (- 759)), (126, None), (127, Some (- 759)), (256, None)]"

definition row_12350 :: row where
  "row_12350 =
     [(1, Some 5073), (33, None), (34, Some (- 800)), (35, None), (36, Some (- 800)), (37, None),
      (39, Some (- 800)), (42, None), (44, Some (- 800)), (45, None), (46, Some (- 800)), (47, None),
      (48, Some (- 800)), (60, None), (65, Some (- 800)), (94, None), (95, Some (- 800)), (96, None),
      (97, Some (- 800)), (124, None), (125, Some (- 800)), (126, None), (127, Some (- 800)), (256, None)]"

definition row_12417 :: row where
  "row_12417 =
     [(1, Some 5006), (33, None), (34, Some (- 867)), (35, None), (36, Some (- 867)), (37, None),
      (39, Some (- 867)), (42, None), (44, Some (- 867)), (45, None), (46, Some (- 867)), (47, None),
      (48, Some (- 867)), (60, None), (65, Some (- 867)), (94, None), (95, Some (- 867)), (96, None),
      (97, Some (- 867)), (124, None), (125, Some (- 867)), (126, None), (127, Some (- 867)), (256, None)]"

definition row_12428 :: row where
  "row_12428 =
     [(1, Some 4995), (33, None), (34, Some (- 878)), (35, None), (36, Some (- 878)), (37, None),
      (39, Some (- 878)), (42, None), (44, Some (- 878)), (45, None), (46, Some (- 878)), (47, None),
      (48, Some (- 878)), (60, None), (65, Some (- 878)), (94, None), (95, Some (- 878)), (96, None),
      (97, Some (- 878)), (124, None), (125, Some (- 878)), (126, None), (127, Some (- 878)), (256, None)]"

definition row_12508 :: row where
  "row_12508 =
     [(1, Some 4915), (36, None), (37, Some 0), (48, None), (58, Some 0), (63, None),
      (64, Some (- 6165)), (65, None), (91, Some 0), (95, None), (96, Some 0), (97, None),
      (123, Some 0), (128, None), (256, Some 0)]"

definition row_12765 :: row where
  "row_12765 =
     [(1, Some 4658), (39, Some 0), (40, None), (256, Some 0)]"

definition row_13023 :: row where
  "row_13023 =
     [(1, Some 4400), (42, Some 0), (43, None), (47, Some 0), (48, None), (256, Some 0)]"

definition row_13281 :: row where
  "row_13281 =
     [(1, Some 4142), (33, None), (34, Some 2863), (35, None), (36, Some 2863), (37, None),
      (39, Some 2863), (42, None), (44, Some 2863), (45, None), (46, Some 2863), (47, None),
      (48, Some 2863), (60, None), (65, Some 2863), (94, None), (95, Some 2863), (96, None),
      (97, Some 2863), (124, None), (125, Some 2863), (126, None), (127, Some 2863), (256, None)]"

definition row_13409 :: row where
  "row_13409 =
     [(1, Some 4014), (34, Some 0), (35, None), (256, Some 0)]"

definition row_13667 :: row where
  "row_13667 =
     [(1, Some 3756), (39, Some 0), (40, None), (256, Some 0)]"

definition row_13925 :: row where
  "row_13925 =
     [(1, Some 3498), (39, Some 0), (40, None), (256, Some 0)]"

definition row_14183 :: row where
  "row_14183 =
     [(1, Some 3240), (9, None), (10, Some 0), (11, Some 5), (12, None), (13, Some 0),
      (14, Some 5), (32, None), (33, Some 0), (45, None), (46, Some (- 7597)), (256, None)]"

definition row_14188 :: row where
  "row_14188 =
     [(1, Some 3235), (9, None), (11, Some 16), (12, None), (14, Some 16), (32, None),
      (33, Some 16), (39, None), (40, Some (- 7600)), (45, None), (46, Some (- 7602)), (256, None)]"

definition row_14204 :: row where
  "row_14204 =
     [(1, Some 3219), (9, None), (11, Some 0), (12, None), (14, Some 0), (32, None),
      (33, Some 0), (39, None), (40, Some (- 7616)), (45, None), (46, Some (- 7618)), (256, None)]"

definition row_14251 :: row where
  "row_14251 =
     [(1, Some 3172), (39, Some 0), (40, None), (92, Some 0), (93, None), (256, Some 0)]"

definition row_14509 :: row where
  "row_14509 =
     [(1, Some 2914), (48, None), (56, Some 1652), (256, None)]"

definition row_14517 :: row where
  "row_14517 =
     [(1, Some 2906), (48, None), (58, Some 1676), (65, None), (71, Some 1676), (97, None),
      (103, Some 1676), (256, None)]"

definition row_14540 :: row where
  "row_14540 =
     [(1, Some 2883), (48, None), (58, Some 1691), (65, None), (71, Some 1691), (97, None),
      (103, Some 1691), (256, None)]"

definition row_14578 :: row where
  "row_14578 =
     [(1, Some 2845), (48, None), (58, Some 1676), (65, None), (71, Some 1676), (97, None),
      (103, Some 1676), (256, None)]"

definition row_14682 :: row where
  "row_14682 =
     [(1, Some 2741), (36, Some 0), (37, None), (256, Some 0)]"

definition row_14940 :: row where
  "row_14940 =
     [(1, Some 2483), (36, None), (37, Some (- 8348)), (48, None), (58, Some 1373), (65, None),
      (91, Some 1373), (95, None), (96, Some 1373), (97, None), (123, Some 1373), (128, None),
      (256, Some 1373)]"

definition row_15197 :: row where
  "row_15197 =
     [(1, Some 2226), (48, None), (58, Some 1373), (65, None), (71, Some 1373), (97, None),
      (103, Some 1373), (256, None)]"

definition row_15220 :: row where
  "row_15220 =
     [(1, Some 2203), (48, None), (58, Some 1373), (65, None), (71, Some 1373), (97, None),
      (103, Some 1373), (256, None)]"

definition row_15279 :: row where
  "row_15279 =
     [(1, Some 2144), (36, None), (37, Some (- 8961)), (48, None), (58, Some 0), (65, None),
      (91, Some 0), (95, None), (96, Some 0), (97, None), (123, Some 0), (128, None),
      (256, Some 0)]"

definition row_15536 :: row where
  "row_15536 =
     [(1, Some 1887), (10, Some 0), (11, None), (13, Some 0), (14, None), (256, Some 0)]"

definition row_15794 :: row where
  "row_15794 =
     [(1, Some 1629), (10, Some (- 258)), (11, None), (13, Some (- 258)), (14, None), (33, Some (- 258)),
      (34, Some 0), (35, Some (- 258)), (36, Some 0), (37, Some (- 258)), (39, Some 0), (42, Some (- 258)),
      (44, Some 0), (45, Some (- 258)), (46, Some 0), (47, Some (- 258)), (48, Some 0), (60, Some (- 258)),
      (65, Some 0), (94, Some (- 258)), (95, Some 0), (96, Some (- 258)), (97, Some 0), (124, Some (- 258)),
      (125, Some 0), (126, Some (- 258)), (127, Some 0), (256, Some (- 258))]"

definition row_16052 :: row where
  "row_16052 =
     [(1, Some 1371), (33, None), (34, Some 0), (35, None), (36, Some 0), (37, None),
      (39, Some 0), (42, None), (44, Some 0), (45, None), (46, Some 0), (47, None),
      (48, Some 0), (60, None), (65, Some 0), (94, None), (95, Some 0), (96, None),
      (97, Some 0), (124, None), (125, Some 0), (126, None), (127, Some 0), (256, None)]"

definition row_16054 :: row where
  "row_16054 =
     [(1, Some 1369), (48, None), (58, Some 0), (69, None), (70, Some (- 3785)), (101, None),
      (102, Some (- 3785)), (256, None)]"

definition row_16076 :: row where
  "row_16076 =
     [(1, Some 1347), (48, None), (58, Some 42), (256, None)]"

definition row_16118 :: row where
  "row_16118 =
     [(1, Some 1305), (48, None), (58, Some 0), (256, None)]"

definition row_16144 :: row where
  "row_16144 =
     [(1, Some 1279), (33, None), (34, Some 0), (35, None), (36, Some 0), (37, None),
      (39, Some 0), (42, None), (44, Some 0), (45, None), (46, Some 0), (47, None),
      (48, Some 0), (60, None), (65, Some 0), (94, None), (95, Some 0), (96, None),
      (97, Some 0), (124, None), (125, Some 0), (126, None), (127, Some 0), (256, None)]"

definition row_16161 :: row where
  "row_16161 =
     [(1, Some 1262), (48, None), (56, Some (- 9542)), (256, None)]"

definition row_16193 :: row where
  "row_16193 =
     [(1, Some 1230), (48, None), (58, Some 438), (65, None), (71, Some 438), (97, None),
      (103, Some 438), (256, None)]"

definition row_16231 :: row where
  "row_16231 =
     [(1, Some 1192), (48, None), (58, Some 423), (65, None), (71, Some 423), (97, None),
      (103, Some 423), (256, None)]"

definition row_16254 :: row where
  "row_16254 =
     [(1, Some 1169), (48, None), (58, Some (- 9621)), (65, None), (71, Some (- 9621)), (97, None),
      (103, Some (- 9621)), (256, None)]"

definition row_16313 :: row where
  "row_16313 =
     [(1, Some 1110), (36, None), (37, Some (- 9721)), (48, None), (58, Some 0), (65, None),
      (91, Some 0), (95, None), (96, Some 0), (97, None), (123, Some 0), (128, None),
      (256, Some 0)]"

definition row_16570 :: row where
  "row_16570 =
     [(1, Some 853), (48, None), (58, Some 143), (65, None), (71, Some 143), (97, None),
      (103, Some 143), (256, None)]"

definition row_16593 :: row where
  "row_16593 =
     [(1, Some 830), (48, None), (58, Some 143), (65, None), (71, Some 143), (97, None),
      (103, Some 143), (256, None)]"

definition row_16631 :: row where
  "row_16631 =
     [(1, Some 792), (48, None), (58, Some 143), (65, None), (71, Some 143), (97, None),
      (103, Some 143), (256, None)]"

definition row_16654 :: row where
  "row_16654 =
     [(1, Some 769), (48, None), (58, Some 143), (65, None), (71, Some 143), (97, None),
      (103, Some 143), (256, None)]"

definition row_16713 :: row where
  "row_16713 =
     [(1, Some 710), (48, None), (58, Some 143), (65, None), (71, Some 143), (97, None),
      (103, Some 143), (256, None)]"

definition row_16736 :: row where
  "row_16736 =
     [(1, Some 687), (48, None), (58, Some 143), (65, None), (71, Some 143), (97, None),
      (103, Some 143), (256, None)]"

definition row_16774 :: row where
  "row_16774 =
     [(1, Some 649), (48, None), (58, Some 143), (65, None), (71, Some 143), (97, None),
      (103, Some 143), (256, None)]"

definition row_16797 :: row where
  "row_16797 =
     [(1, Some 626), (48, None), (58, Some (- 10162)), (65, None), (71, Some (- 10162)), (97, None),
      (103, Some (- 10162)), (256, None)]"

definition row_16856 :: row where
  "row_16856 =
     [(1, Some 567), (48, None), (58, Some 84), (65, None), (71, Some 84), (97, None),
      (103, Some 84), (256, None)]"

definition row_16879 :: row where
  "row_16879 =
     [(1, Some 544), (48, None), (58, Some (- 10242)), (65, None), (71, Some (- 10242)), (97, None),
      (103, Some (- 10242)), (256, None)]"

definition row_16917 :: row where
  "row_16917 =
     [(1, Some 506), (48, None), (58, Some 82), (65, None), (71, Some 82), (97, None),
      (103, Some 82), (256, None)]"

definition row_16940 :: row where
  "row_16940 =
     [(1, Some 483), (48, None), (58, Some 82), (65, None), (71, Some 82), (97, None),
      (103, Some 82), (256, None)]"

definition row_16999 :: row where
  "row_16999 =
     [(1, Some 424), (48, None), (58, Some 61), (65, None), (71, Some 61), (97, None),
      (103, Some 61), (256, None)]"

definition row_17022 :: row where
  "row_17022 =
     [(1, Some 401), (48, None), (58, Some 61), (65, None), (71, Some 61), (97, None),
      (103, Some 61), (256, None)]"

definition row_17060 :: row where
  "row_17060 =
     [(1, Some 363), (48, None), (58, Some 82), (65, None), (71, Some 82), (97, None),
      (103, Some 82), (256, None)]"

definition row_17083 :: row where
  "row_17083 =
     [(1, Some 340), (48, None), (58, Some 82), (65, None), (71, Some 82), (97, None),
      (103, Some 82), (256, None)]"

definition row_17142 :: row where
  "row_17142 =
     [(1, Some 281), (48, None), (58, Some (- 10507)), (65, None), (71, Some (- 10507)), (97, None),
      (103, Some (- 10507)), (256, None)]"

definition row_17165 :: row where
  "row_17165 =
     [(1, Some 258), (48, None), (58, Some (- 10528)), (65, None), (71, Some (- 10528)), (97, None),
      (103, Some (- 10528)), (256, None)]"

text \<open>The states that can be reached in each start condition, with the rule to take in them.\<close>

definition states_INITIAL :: "(int \<times> int \<times> row) list" where
  "states_INITIAL =
     [(3, 0, row_3), (6195, 65, row_6195), (6197, 1, row_6197), (6199, 39, row_6199), (6202, 1, row_6202),
      (6204, 56, row_6204), (6217, 14, row_6217), (6219, 55, row_6219), (6222, 55, row_6222), (6244, 56, row_6244),
      (6310, 65, row_6310), (6318, 33, row_6318), (6320, 48, row_6320), (6322, 47, row_6322), (6324, 49, row_6324),
      (6343, 64, row_6343), (6345, 9, row_6345), (6348, 15, row_6348), (6372, 46, row_6372), (6374, 13, row_6374),
      (6567, 55, row_6567), (6569, 45, row_6569), (6571, 12, row_6571), (6578, 55, row_6578), (6594, 60, row_6594),
      (6597, 55, row_6597), (6599, 40, row_6599), (6607, 16, row_6607), (6668, 55, row_6668), (6670, 58, row_6670),
      (6735, 55, row_6735), (6746, 55, row_6746), (6813, 55, row_6813), (6845, 64, row_6845), (7102, 64, row_7102),
      (7359, 64, row_7359), (7616, 64, row_7616), (7873, 64, row_7873), (8130, 64, row_8130), (11295, 1, row_11295),
      (11550, 56, row_11550), (11561, 54, row_11561), (11578, 57, row_11578), (11641, 34, row_11641), (11898, 2, row_11898),
      (12156, 59, row_12156), (12181, 3, row_12181), (12183, 59, row_12183), (12247, 58, row_12247), (12269, 62, row_12269),
      (12309, 51, row_12309), (12350, 53, row_12350), (12417, 50, row_12417), (12428, 52, row_12428), (12508, 64, row_12508),
      (15279, 34, row_15279), (15536, 2, row_15536), (15794, 2, row_15794), (16052, 3, row_16052), (16054, 59, row_16054),
      (16076, 63, row_16076), (16118, 61, row_16118)]"

definition states_xb :: "(int \<times> int \<times> row) list" where
  "states_xb =
     [(519, 11, row_519), (6224, 17, row_6224), (8387, 11, row_8387), (12765, 11, row_12765)]"

definition states_xc :: "(int \<times> int \<times> row) list" where
  "states_xc =
     [(1035, 0, row_1035), (6227, 7, row_6227), (6231, 7, row_6231), (6575, 8, row_6575), (6580, 5, row_6580),
      (8645, 6, row_8645), (8903, 6, row_8903), (13023, 6, row_13023), (13281, 4, row_13281), (16144, 4, row_16144)]"

definition states_xd :: "(int \<times> int \<times> row) list" where
  "states_xd =
     [(1551, 0, row_1551), (6236, 41, row_6236), (6582, 43, row_6582), (9161, 44, row_9161), (13409, 44, row_13409)]"

definition states_xh :: "(int \<times> int \<times> row) list" where
  "states_xh =
     [(2067, 10, row_2067), (6224, 17, row_6224), (9419, 10, row_9419), (13667, 10, row_13667)]"

definition states_xq :: "(int \<times> int \<times> row) list" where
  "states_xq =
     [(2583, 0, row_2583), (6253, 17, row_6253), (6584, 21, row_6584), (9677, 22, row_9677), (13925, 22, row_13925)]"

definition states_xqs :: "(int \<times> int \<times> row) list" where
  "states_xqs =
     [(3099, 19, row_3099), (6255, 20, row_6255), (6257, 19, row_6257), (6586, 19, row_6586), (6588, 18, row_6588),
      (9935, 19, row_9935), (9940, 19, row_9940), (9956, 19, row_9956), (14183, 19, row_14183), (14188, 19, row_14188),
      (14204, 19, row_14204)]"

definition states_xe :: "(int \<times> int \<times> row) list" where
  "states_xe =
     [(3615, 0, row_3615), (6260, 17, row_6260), (6584, 21, row_6584), (6590, 29, row_6590), (6619, 30, row_6619),
      (6633, 31, row_6633), (6635, 24, row_6635), (10003, 23, row_10003), (10261, 23, row_10261), (10519, 32, row_10519),
      (14251, 23, row_14251), (14509, 30, row_14509), (14517, 28, row_14517), (14540, 28, row_14540), (14578, 29, row_14578),
      (16161, 30, row_16161), (16193, 28, row_16193), (16231, 28, row_16231), (16254, 31, row_16254), (16631, 28, row_16631),
      (16654, 28, row_16654), (16774, 28, row_16774), (16797, 28, row_16797), (16917, 28, row_16917), (16999, 28, row_16999),
      (17060, 28, row_17060), (17142, 28, row_17142)]"

definition states_xdolq :: "(int \<times> int \<times> row) list" where
  "states_xdolq =
     [(4131, 0, row_4131), (6592, 35, row_6592), (10777, 36, row_10777), (11035, 36, row_11035), (11293, 38, row_11293),
      (14682, 36, row_14682), (14940, 37, row_14940), (16313, 37, row_16313)]"

definition states_xui :: "(int \<times> int \<times> row) list" where
  "states_xui =
     [(4647, 0, row_4647), (6262, 42, row_6262), (6582, 43, row_6582), (9161, 44, row_9161), (13409, 44, row_13409)]"

definition states_xus :: "(int \<times> int \<times> row) list" where
  "states_xus =
     [(5163, 0, row_5163), (6253, 17, row_6253), (6584, 21, row_6584), (9677, 22, row_9677), (13925, 22, row_13925)]"

definition states_xeu :: "(int \<times> int \<times> row) list" where
  "states_xeu =
     [(5679, 0, row_5679), (6272, 26, row_6272), (6276, 27, row_6276), (6316, 26, row_6316), (6637, 25, row_6637),
      (15197, 28, row_15197), (15220, 28, row_15220), (16570, 28, row_16570), (16593, 28, row_16593), (16713, 28, row_16713),
      (16736, 28, row_16736), (16856, 28, row_16856), (16879, 28, row_16879), (16940, 28, row_16940), (17022, 28, row_17022),
      (17083, 28, row_17083), (17165, 28, row_17165)]"

lemma flex_state_3: "flex_state (3, 0, row_3)"
proof (rule flex_stateI [OF part_at_0 part_at_1 part_at_2 part_at_3 part_length_0 part_length_1 part_length_2 part_length_3, where k = 3])
  show "row_ok (drop 3 yy_transition_0) 0 row_3 \<and> row_ok yy_transition_1 (100 - int 3) row_3 \<and>
      row_ok yy_transition_2 (200 - int 3) row_3 \<and> row_ok yy_transition_3 (300 - int 3) row_3" by code_simp
  show "snd (yy_transition_0 ! (3 - 1)) = 0" by code_simp
qed simp

lemma flex_state_519: "flex_state (519, 11, row_519)"
proof (rule flex_stateI [OF part_at_5 part_at_6 part_at_7 part_at_8 part_length_5 part_length_6 part_length_7 part_length_8, where k = 19])
  show "row_ok (drop 19 yy_transition_5) 0 row_519 \<and> row_ok yy_transition_6 (100 - int 19) row_519 \<and>
      row_ok yy_transition_7 (200 - int 19) row_519 \<and> row_ok yy_transition_8 (300 - int 19) row_519" by code_simp
  show "snd (yy_transition_5 ! (19 - 1)) = 11" by code_simp
qed simp

lemma flex_state_1035: "flex_state (1035, 0, row_1035)"
proof (rule flex_stateI [OF part_at_10 part_at_11 part_at_12 part_at_13 part_length_10 part_length_11 part_length_12 part_length_13, where k = 35])
  show "row_ok (drop 35 yy_transition_10) 0 row_1035 \<and> row_ok yy_transition_11 (100 - int 35) row_1035 \<and>
      row_ok yy_transition_12 (200 - int 35) row_1035 \<and> row_ok yy_transition_13 (300 - int 35) row_1035" by code_simp
  show "snd (yy_transition_10 ! (35 - 1)) = 0" by code_simp
qed simp

lemma flex_state_1551: "flex_state (1551, 0, row_1551)"
proof (rule flex_stateI [OF part_at_15 part_at_16 part_at_17 part_at_18 part_length_15 part_length_16 part_length_17 part_length_18, where k = 51])
  show "row_ok (drop 51 yy_transition_15) 0 row_1551 \<and> row_ok yy_transition_16 (100 - int 51) row_1551 \<and>
      row_ok yy_transition_17 (200 - int 51) row_1551 \<and> row_ok yy_transition_18 (300 - int 51) row_1551" by code_simp
  show "snd (yy_transition_15 ! (51 - 1)) = 0" by code_simp
qed simp

lemma flex_state_2067: "flex_state (2067, 10, row_2067)"
proof (rule flex_stateI [OF part_at_20 part_at_21 part_at_22 part_at_23 part_length_20 part_length_21 part_length_22 part_length_23, where k = 67])
  show "row_ok (drop 67 yy_transition_20) 0 row_2067 \<and> row_ok yy_transition_21 (100 - int 67) row_2067 \<and>
      row_ok yy_transition_22 (200 - int 67) row_2067 \<and> row_ok yy_transition_23 (300 - int 67) row_2067" by code_simp
  show "snd (yy_transition_20 ! (67 - 1)) = 10" by code_simp
qed simp

lemma flex_state_2583: "flex_state (2583, 0, row_2583)"
proof (rule flex_stateI [OF part_at_25 part_at_26 part_at_27 part_at_28 part_length_25 part_length_26 part_length_27 part_length_28, where k = 83])
  show "row_ok (drop 83 yy_transition_25) 0 row_2583 \<and> row_ok yy_transition_26 (100 - int 83) row_2583 \<and>
      row_ok yy_transition_27 (200 - int 83) row_2583 \<and> row_ok yy_transition_28 (300 - int 83) row_2583" by code_simp
  show "snd (yy_transition_25 ! (83 - 1)) = 0" by code_simp
qed simp

lemma flex_state_3099: "flex_state (3099, 19, row_3099)"
proof (rule flex_stateI [OF part_at_30 part_at_31 part_at_32 part_at_33 part_length_30 part_length_31 part_length_32 part_length_33, where k = 99])
  show "row_ok (drop 99 yy_transition_30) 0 row_3099 \<and> row_ok yy_transition_31 (100 - int 99) row_3099 \<and>
      row_ok yy_transition_32 (200 - int 99) row_3099 \<and> row_ok yy_transition_33 (300 - int 99) row_3099" by code_simp
  show "snd (yy_transition_30 ! (99 - 1)) = 19" by code_simp
qed simp

lemma flex_state_3615: "flex_state (3615, 0, row_3615)"
proof (rule flex_stateI [OF part_at_36 part_at_37 part_at_38 part_at_39 part_length_36 part_length_37 part_length_38 part_length_39, where k = 15])
  show "row_ok (drop 15 yy_transition_36) 0 row_3615 \<and> row_ok yy_transition_37 (100 - int 15) row_3615 \<and>
      row_ok yy_transition_38 (200 - int 15) row_3615 \<and> row_ok yy_transition_39 (300 - int 15) row_3615" by code_simp
  show "snd (yy_transition_36 ! (15 - 1)) = 0" by code_simp
qed simp

lemma flex_state_4131: "flex_state (4131, 0, row_4131)"
proof (rule flex_stateI [OF part_at_41 part_at_42 part_at_43 part_at_44 part_length_41 part_length_42 part_length_43 part_length_44, where k = 31])
  show "row_ok (drop 31 yy_transition_41) 0 row_4131 \<and> row_ok yy_transition_42 (100 - int 31) row_4131 \<and>
      row_ok yy_transition_43 (200 - int 31) row_4131 \<and> row_ok yy_transition_44 (300 - int 31) row_4131" by code_simp
  show "snd (yy_transition_41 ! (31 - 1)) = 0" by code_simp
qed simp

lemma flex_state_4647: "flex_state (4647, 0, row_4647)"
proof (rule flex_stateI [OF part_at_46 part_at_47 part_at_48 part_at_49 part_length_46 part_length_47 part_length_48 part_length_49, where k = 47])
  show "row_ok (drop 47 yy_transition_46) 0 row_4647 \<and> row_ok yy_transition_47 (100 - int 47) row_4647 \<and>
      row_ok yy_transition_48 (200 - int 47) row_4647 \<and> row_ok yy_transition_49 (300 - int 47) row_4647" by code_simp
  show "snd (yy_transition_46 ! (47 - 1)) = 0" by code_simp
qed simp

lemma flex_state_5163: "flex_state (5163, 0, row_5163)"
proof (rule flex_stateI [OF part_at_51 part_at_52 part_at_53 part_at_54 part_length_51 part_length_52 part_length_53 part_length_54, where k = 63])
  show "row_ok (drop 63 yy_transition_51) 0 row_5163 \<and> row_ok yy_transition_52 (100 - int 63) row_5163 \<and>
      row_ok yy_transition_53 (200 - int 63) row_5163 \<and> row_ok yy_transition_54 (300 - int 63) row_5163" by code_simp
  show "snd (yy_transition_51 ! (63 - 1)) = 0" by code_simp
qed simp

lemma flex_state_5679: "flex_state (5679, 0, row_5679)"
proof (rule flex_stateI [OF part_at_56 part_at_57 part_at_58 part_at_59 part_length_56 part_length_57 part_length_58 part_length_59, where k = 79])
  show "row_ok (drop 79 yy_transition_56) 0 row_5679 \<and> row_ok yy_transition_57 (100 - int 79) row_5679 \<and>
      row_ok yy_transition_58 (200 - int 79) row_5679 \<and> row_ok yy_transition_59 (300 - int 79) row_5679" by code_simp
  show "snd (yy_transition_56 ! (79 - 1)) = 0" by code_simp
qed simp

lemma flex_state_6195: "flex_state (6195, 65, row_6195)"
proof (rule flex_stateI [OF part_at_61 part_at_62 part_at_63 part_at_64 part_length_61 part_length_62 part_length_63 part_length_64, where k = 95])
  show "row_ok (drop 95 yy_transition_61) 0 row_6195 \<and> row_ok yy_transition_62 (100 - int 95) row_6195 \<and>
      row_ok yy_transition_63 (200 - int 95) row_6195 \<and> row_ok yy_transition_64 (300 - int 95) row_6195" by code_simp
  show "snd (yy_transition_61 ! (95 - 1)) = 65" by code_simp
qed simp

lemma flex_state_6197: "flex_state (6197, 1, row_6197)"
proof (rule flex_stateI [OF part_at_61 part_at_62 part_at_63 part_at_64 part_length_61 part_length_62 part_length_63 part_length_64, where k = 97])
  show "row_ok (drop 97 yy_transition_61) 0 row_6197 \<and> row_ok yy_transition_62 (100 - int 97) row_6197 \<and>
      row_ok yy_transition_63 (200 - int 97) row_6197 \<and> row_ok yy_transition_64 (300 - int 97) row_6197" by code_simp
  show "snd (yy_transition_61 ! (97 - 1)) = 1" by code_simp
qed simp

lemma flex_state_6199: "flex_state (6199, 39, row_6199)"
proof (rule flex_stateI [OF part_at_61 part_at_62 part_at_63 part_at_64 part_length_61 part_length_62 part_length_63 part_length_64, where k = 99])
  show "row_ok (drop 99 yy_transition_61) 0 row_6199 \<and> row_ok yy_transition_62 (100 - int 99) row_6199 \<and>
      row_ok yy_transition_63 (200 - int 99) row_6199 \<and> row_ok yy_transition_64 (300 - int 99) row_6199" by code_simp
  show "snd (yy_transition_61 ! (99 - 1)) = 39" by code_simp
qed simp

lemma flex_state_6202: "flex_state (6202, 1, row_6202)"
proof (rule flex_stateI [OF part_at_62 part_at_63 part_at_64 part_at_65 part_length_62 part_length_63 part_length_64 part_length_65, where k = 2])
  show "row_ok (drop 2 yy_transition_62) 0 row_6202 \<and> row_ok yy_transition_63 (100 - int 2) row_6202 \<and>
      row_ok yy_transition_64 (200 - int 2) row_6202 \<and> row_ok yy_transition_65 (300 - int 2) row_6202" by code_simp
  show "snd (yy_transition_62 ! (2 - 1)) = 1" by code_simp
qed simp

lemma flex_state_6204: "flex_state (6204, 56, row_6204)"
proof (rule flex_stateI [OF part_at_62 part_at_63 part_at_64 part_at_65 part_length_62 part_length_63 part_length_64 part_length_65, where k = 4])
  show "row_ok (drop 4 yy_transition_62) 0 row_6204 \<and> row_ok yy_transition_63 (100 - int 4) row_6204 \<and>
      row_ok yy_transition_64 (200 - int 4) row_6204 \<and> row_ok yy_transition_65 (300 - int 4) row_6204" by code_simp
  show "snd (yy_transition_62 ! (4 - 1)) = 56" by code_simp
qed simp

lemma flex_state_6217: "flex_state (6217, 14, row_6217)"
proof (rule flex_stateI [OF part_at_62 part_at_63 part_at_64 part_at_65 part_length_62 part_length_63 part_length_64 part_length_65, where k = 17])
  show "row_ok (drop 17 yy_transition_62) 0 row_6217 \<and> row_ok yy_transition_63 (100 - int 17) row_6217 \<and>
      row_ok yy_transition_64 (200 - int 17) row_6217 \<and> row_ok yy_transition_65 (300 - int 17) row_6217" by code_simp
  show "snd (yy_transition_62 ! (17 - 1)) = 14" by code_simp
qed simp

lemma flex_state_6219: "flex_state (6219, 55, row_6219)"
proof (rule flex_stateI [OF part_at_62 part_at_63 part_at_64 part_at_65 part_length_62 part_length_63 part_length_64 part_length_65, where k = 19])
  show "row_ok (drop 19 yy_transition_62) 0 row_6219 \<and> row_ok yy_transition_63 (100 - int 19) row_6219 \<and>
      row_ok yy_transition_64 (200 - int 19) row_6219 \<and> row_ok yy_transition_65 (300 - int 19) row_6219" by code_simp
  show "snd (yy_transition_62 ! (19 - 1)) = 55" by code_simp
qed simp

lemma flex_state_6222: "flex_state (6222, 55, row_6222)"
proof (rule flex_stateI [OF part_at_62 part_at_63 part_at_64 part_at_65 part_length_62 part_length_63 part_length_64 part_length_65, where k = 22])
  show "row_ok (drop 22 yy_transition_62) 0 row_6222 \<and> row_ok yy_transition_63 (100 - int 22) row_6222 \<and>
      row_ok yy_transition_64 (200 - int 22) row_6222 \<and> row_ok yy_transition_65 (300 - int 22) row_6222" by code_simp
  show "snd (yy_transition_62 ! (22 - 1)) = 55" by code_simp
qed simp

lemma flex_state_6224: "flex_state (6224, 17, row_6224)"
proof (rule flex_stateI [OF part_at_62 part_at_63 part_at_64 part_at_65 part_length_62 part_length_63 part_length_64 part_length_65, where k = 24])
  show "row_ok (drop 24 yy_transition_62) 0 row_6224 \<and> row_ok yy_transition_63 (100 - int 24) row_6224 \<and>
      row_ok yy_transition_64 (200 - int 24) row_6224 \<and> row_ok yy_transition_65 (300 - int 24) row_6224" by code_simp
  show "snd (yy_transition_62 ! (24 - 1)) = 17" by code_simp
qed simp

lemma flex_state_6227: "flex_state (6227, 7, row_6227)"
proof (rule flex_stateI [OF part_at_62 part_at_63 part_at_64 part_at_65 part_length_62 part_length_63 part_length_64 part_length_65, where k = 27])
  show "row_ok (drop 27 yy_transition_62) 0 row_6227 \<and> row_ok yy_transition_63 (100 - int 27) row_6227 \<and>
      row_ok yy_transition_64 (200 - int 27) row_6227 \<and> row_ok yy_transition_65 (300 - int 27) row_6227" by code_simp
  show "snd (yy_transition_62 ! (27 - 1)) = 7" by code_simp
qed simp

lemma flex_state_6231: "flex_state (6231, 7, row_6231)"
proof (rule flex_stateI [OF part_at_62 part_at_63 part_at_64 part_at_65 part_length_62 part_length_63 part_length_64 part_length_65, where k = 31])
  show "row_ok (drop 31 yy_transition_62) 0 row_6231 \<and> row_ok yy_transition_63 (100 - int 31) row_6231 \<and>
      row_ok yy_transition_64 (200 - int 31) row_6231 \<and> row_ok yy_transition_65 (300 - int 31) row_6231" by code_simp
  show "snd (yy_transition_62 ! (31 - 1)) = 7" by code_simp
qed simp

lemma flex_state_6236: "flex_state (6236, 41, row_6236)"
proof (rule flex_stateI [OF part_at_62 part_at_63 part_at_64 part_at_65 part_length_62 part_length_63 part_length_64 part_length_65, where k = 36])
  show "row_ok (drop 36 yy_transition_62) 0 row_6236 \<and> row_ok yy_transition_63 (100 - int 36) row_6236 \<and>
      row_ok yy_transition_64 (200 - int 36) row_6236 \<and> row_ok yy_transition_65 (300 - int 36) row_6236" by code_simp
  show "snd (yy_transition_62 ! (36 - 1)) = 41" by code_simp
qed simp

lemma flex_state_6244: "flex_state (6244, 56, row_6244)"
proof (rule flex_stateI [OF part_at_62 part_at_63 part_at_64 part_at_65 part_length_62 part_length_63 part_length_64 part_length_65, where k = 44])
  show "row_ok (drop 44 yy_transition_62) 0 row_6244 \<and> row_ok yy_transition_63 (100 - int 44) row_6244 \<and>
      row_ok yy_transition_64 (200 - int 44) row_6244 \<and> row_ok yy_transition_65 (300 - int 44) row_6244" by code_simp
  show "snd (yy_transition_62 ! (44 - 1)) = 56" by code_simp
qed simp

lemma flex_state_6253: "flex_state (6253, 17, row_6253)"
proof (rule flex_stateI [OF part_at_62 part_at_63 part_at_64 part_at_65 part_length_62 part_length_63 part_length_64 part_length_65, where k = 53])
  show "row_ok (drop 53 yy_transition_62) 0 row_6253 \<and> row_ok yy_transition_63 (100 - int 53) row_6253 \<and>
      row_ok yy_transition_64 (200 - int 53) row_6253 \<and> row_ok yy_transition_65 (300 - int 53) row_6253" by code_simp
  show "snd (yy_transition_62 ! (53 - 1)) = 17" by code_simp
qed simp

lemma flex_state_6255: "flex_state (6255, 20, row_6255)"
proof (rule flex_stateI [OF part_at_62 part_at_63 part_at_64 part_at_65 part_length_62 part_length_63 part_length_64 part_length_65, where k = 55])
  show "row_ok (drop 55 yy_transition_62) 0 row_6255 \<and> row_ok yy_transition_63 (100 - int 55) row_6255 \<and>
      row_ok yy_transition_64 (200 - int 55) row_6255 \<and> row_ok yy_transition_65 (300 - int 55) row_6255" by code_simp
  show "snd (yy_transition_62 ! (55 - 1)) = 20" by code_simp
qed simp

lemma flex_state_6257: "flex_state (6257, 19, row_6257)"
proof (rule flex_stateI [OF part_at_62 part_at_63 part_at_64 part_at_65 part_length_62 part_length_63 part_length_64 part_length_65, where k = 57])
  show "row_ok (drop 57 yy_transition_62) 0 row_6257 \<and> row_ok yy_transition_63 (100 - int 57) row_6257 \<and>
      row_ok yy_transition_64 (200 - int 57) row_6257 \<and> row_ok yy_transition_65 (300 - int 57) row_6257" by code_simp
  show "snd (yy_transition_62 ! (57 - 1)) = 19" by code_simp
qed simp

lemma flex_state_6260: "flex_state (6260, 17, row_6260)"
proof (rule flex_stateI [OF part_at_62 part_at_63 part_at_64 part_at_65 part_length_62 part_length_63 part_length_64 part_length_65, where k = 60])
  show "row_ok (drop 60 yy_transition_62) 0 row_6260 \<and> row_ok yy_transition_63 (100 - int 60) row_6260 \<and>
      row_ok yy_transition_64 (200 - int 60) row_6260 \<and> row_ok yy_transition_65 (300 - int 60) row_6260" by code_simp
  show "snd (yy_transition_62 ! (60 - 1)) = 17" by code_simp
qed simp

lemma flex_state_6262: "flex_state (6262, 42, row_6262)"
proof (rule flex_stateI [OF part_at_62 part_at_63 part_at_64 part_at_65 part_length_62 part_length_63 part_length_64 part_length_65, where k = 62])
  show "row_ok (drop 62 yy_transition_62) 0 row_6262 \<and> row_ok yy_transition_63 (100 - int 62) row_6262 \<and>
      row_ok yy_transition_64 (200 - int 62) row_6262 \<and> row_ok yy_transition_65 (300 - int 62) row_6262" by code_simp
  show "snd (yy_transition_62 ! (62 - 1)) = 42" by code_simp
qed simp

lemma flex_state_6272: "flex_state (6272, 26, row_6272)"
proof (rule flex_stateI [OF part_at_62 part_at_63 part_at_64 part_at_65 part_length_62 part_length_63 part_length_64 part_length_65, where k = 72])
  show "row_ok (drop 72 yy_transition_62) 0 row_6272 \<and> row_ok yy_transition_63 (100 - int 72) row_6272 \<and>
      row_ok yy_transition_64 (200 - int 72) row_6272 \<and> row_ok yy_transition_65 (300 - int 72) row_6272" by code_simp
  show "snd (yy_transition_62 ! (72 - 1)) = 26" by code_simp
qed simp

lemma flex_state_6276: "flex_state (6276, 27, row_6276)"
proof (rule flex_stateI [OF part_at_62 part_at_63 part_at_64 part_at_65 part_length_62 part_length_63 part_length_64 part_length_65, where k = 76])
  show "row_ok (drop 76 yy_transition_62) 0 row_6276 \<and> row_ok yy_transition_63 (100 - int 76) row_6276 \<and>
      row_ok yy_transition_64 (200 - int 76) row_6276 \<and> row_ok yy_transition_65 (300 - int 76) row_6276" by code_simp
  show "snd (yy_transition_62 ! (76 - 1)) = 27" by code_simp
qed simp

lemma flex_state_6310: "flex_state (6310, 65, row_6310)"
proof (rule flex_stateI [OF part_at_63 part_at_64 part_at_65 part_at_66 part_length_63 part_length_64 part_length_65 part_length_66, where k = 10])
  show "row_ok (drop 10 yy_transition_63) 0 row_6310 \<and> row_ok yy_transition_64 (100 - int 10) row_6310 \<and>
      row_ok yy_transition_65 (200 - int 10) row_6310 \<and> row_ok yy_transition_66 (300 - int 10) row_6310" by code_simp
  show "snd (yy_transition_63 ! (10 - 1)) = 65" by code_simp
qed simp

lemma flex_state_6316: "flex_state (6316, 26, row_6316)"
proof (rule flex_stateI [OF part_at_63 part_at_64 part_at_65 part_at_66 part_length_63 part_length_64 part_length_65 part_length_66, where k = 16])
  show "row_ok (drop 16 yy_transition_63) 0 row_6316 \<and> row_ok yy_transition_64 (100 - int 16) row_6316 \<and>
      row_ok yy_transition_65 (200 - int 16) row_6316 \<and> row_ok yy_transition_66 (300 - int 16) row_6316" by code_simp
  show "snd (yy_transition_63 ! (16 - 1)) = 26" by code_simp
qed simp

lemma flex_state_6318: "flex_state (6318, 33, row_6318)"
proof (rule flex_stateI [OF part_at_63 part_at_64 part_at_65 part_at_66 part_length_63 part_length_64 part_length_65 part_length_66, where k = 18])
  show "row_ok (drop 18 yy_transition_63) 0 row_6318 \<and> row_ok yy_transition_64 (100 - int 18) row_6318 \<and>
      row_ok yy_transition_65 (200 - int 18) row_6318 \<and> row_ok yy_transition_66 (300 - int 18) row_6318" by code_simp
  show "snd (yy_transition_63 ! (18 - 1)) = 33" by code_simp
qed simp

lemma flex_state_6320: "flex_state (6320, 48, row_6320)"
proof (rule flex_stateI [OF part_at_63 part_at_64 part_at_65 part_at_66 part_length_63 part_length_64 part_length_65 part_length_66, where k = 20])
  show "row_ok (drop 20 yy_transition_63) 0 row_6320 \<and> row_ok yy_transition_64 (100 - int 20) row_6320 \<and>
      row_ok yy_transition_65 (200 - int 20) row_6320 \<and> row_ok yy_transition_66 (300 - int 20) row_6320" by code_simp
  show "snd (yy_transition_63 ! (20 - 1)) = 48" by code_simp
qed simp

lemma flex_state_6322: "flex_state (6322, 47, row_6322)"
proof (rule flex_stateI [OF part_at_63 part_at_64 part_at_65 part_at_66 part_length_63 part_length_64 part_length_65 part_length_66, where k = 22])
  show "row_ok (drop 22 yy_transition_63) 0 row_6322 \<and> row_ok yy_transition_64 (100 - int 22) row_6322 \<and>
      row_ok yy_transition_65 (200 - int 22) row_6322 \<and> row_ok yy_transition_66 (300 - int 22) row_6322" by code_simp
  show "snd (yy_transition_63 ! (22 - 1)) = 47" by code_simp
qed simp

lemma flex_state_6324: "flex_state (6324, 49, row_6324)"
proof (rule flex_stateI [OF part_at_63 part_at_64 part_at_65 part_at_66 part_length_63 part_length_64 part_length_65 part_length_66, where k = 24])
  show "row_ok (drop 24 yy_transition_63) 0 row_6324 \<and> row_ok yy_transition_64 (100 - int 24) row_6324 \<and>
      row_ok yy_transition_65 (200 - int 24) row_6324 \<and> row_ok yy_transition_66 (300 - int 24) row_6324" by code_simp
  show "snd (yy_transition_63 ! (24 - 1)) = 49" by code_simp
qed simp

lemma flex_state_6343: "flex_state (6343, 64, row_6343)"
proof (rule flex_stateI [OF part_at_63 part_at_64 part_at_65 part_at_66 part_length_63 part_length_64 part_length_65 part_length_66, where k = 43])
  show "row_ok (drop 43 yy_transition_63) 0 row_6343 \<and> row_ok yy_transition_64 (100 - int 43) row_6343 \<and>
      row_ok yy_transition_65 (200 - int 43) row_6343 \<and> row_ok yy_transition_66 (300 - int 43) row_6343" by code_simp
  show "snd (yy_transition_63 ! (43 - 1)) = 64" by code_simp
qed simp

lemma flex_state_6345: "flex_state (6345, 9, row_6345)"
proof (rule flex_stateI [OF part_at_63 part_at_64 part_at_65 part_at_66 part_length_63 part_length_64 part_length_65 part_length_66, where k = 45])
  show "row_ok (drop 45 yy_transition_63) 0 row_6345 \<and> row_ok yy_transition_64 (100 - int 45) row_6345 \<and>
      row_ok yy_transition_65 (200 - int 45) row_6345 \<and> row_ok yy_transition_66 (300 - int 45) row_6345" by code_simp
  show "snd (yy_transition_63 ! (45 - 1)) = 9" by code_simp
qed simp

lemma flex_state_6348: "flex_state (6348, 15, row_6348)"
proof (rule flex_stateI [OF part_at_63 part_at_64 part_at_65 part_at_66 part_length_63 part_length_64 part_length_65 part_length_66, where k = 48])
  show "row_ok (drop 48 yy_transition_63) 0 row_6348 \<and> row_ok yy_transition_64 (100 - int 48) row_6348 \<and>
      row_ok yy_transition_65 (200 - int 48) row_6348 \<and> row_ok yy_transition_66 (300 - int 48) row_6348" by code_simp
  show "snd (yy_transition_63 ! (48 - 1)) = 15" by code_simp
qed simp

lemma flex_state_6372: "flex_state (6372, 46, row_6372)"
proof (rule flex_stateI [OF part_at_63 part_at_64 part_at_65 part_at_66 part_length_63 part_length_64 part_length_65 part_length_66, where k = 72])
  show "row_ok (drop 72 yy_transition_63) 0 row_6372 \<and> row_ok yy_transition_64 (100 - int 72) row_6372 \<and>
      row_ok yy_transition_65 (200 - int 72) row_6372 \<and> row_ok yy_transition_66 (300 - int 72) row_6372" by code_simp
  show "snd (yy_transition_63 ! (72 - 1)) = 46" by code_simp
qed simp

lemma flex_state_6374: "flex_state (6374, 13, row_6374)"
proof (rule flex_stateI [OF part_at_63 part_at_64 part_at_65 part_at_66 part_length_63 part_length_64 part_length_65 part_length_66, where k = 74])
  show "row_ok (drop 74 yy_transition_63) 0 row_6374 \<and> row_ok yy_transition_64 (100 - int 74) row_6374 \<and>
      row_ok yy_transition_65 (200 - int 74) row_6374 \<and> row_ok yy_transition_66 (300 - int 74) row_6374" by code_simp
  show "snd (yy_transition_63 ! (74 - 1)) = 13" by code_simp
qed simp

lemma flex_state_6567: "flex_state (6567, 55, row_6567)"
proof (rule flex_stateI [OF part_at_65 part_at_66 part_at_67 part_at_68 part_length_65 part_length_66 part_length_67 part_length_68, where k = 67])
  show "row_ok (drop 67 yy_transition_65) 0 row_6567 \<and> row_ok yy_transition_66 (100 - int 67) row_6567 \<and>
      row_ok yy_transition_67 (200 - int 67) row_6567 \<and> row_ok yy_transition_68 (300 - int 67) row_6567" by code_simp
  show "snd (yy_transition_65 ! (67 - 1)) = 55" by code_simp
qed simp

lemma flex_state_6569: "flex_state (6569, 45, row_6569)"
proof (rule flex_stateI [OF part_at_65 part_at_66 part_at_67 part_at_68 part_length_65 part_length_66 part_length_67 part_length_68, where k = 69])
  show "row_ok (drop 69 yy_transition_65) 0 row_6569 \<and> row_ok yy_transition_66 (100 - int 69) row_6569 \<and>
      row_ok yy_transition_67 (200 - int 69) row_6569 \<and> row_ok yy_transition_68 (300 - int 69) row_6569" by code_simp
  show "snd (yy_transition_65 ! (69 - 1)) = 45" by code_simp
qed simp

lemma flex_state_6571: "flex_state (6571, 12, row_6571)"
proof (rule flex_stateI [OF part_at_65 part_at_66 part_at_67 part_at_68 part_length_65 part_length_66 part_length_67 part_length_68, where k = 71])
  show "row_ok (drop 71 yy_transition_65) 0 row_6571 \<and> row_ok yy_transition_66 (100 - int 71) row_6571 \<and>
      row_ok yy_transition_67 (200 - int 71) row_6571 \<and> row_ok yy_transition_68 (300 - int 71) row_6571" by code_simp
  show "snd (yy_transition_65 ! (71 - 1)) = 12" by code_simp
qed simp

lemma flex_state_6575: "flex_state (6575, 8, row_6575)"
proof (rule flex_stateI [OF part_at_65 part_at_66 part_at_67 part_at_68 part_length_65 part_length_66 part_length_67 part_length_68, where k = 75])
  show "row_ok (drop 75 yy_transition_65) 0 row_6575 \<and> row_ok yy_transition_66 (100 - int 75) row_6575 \<and>
      row_ok yy_transition_67 (200 - int 75) row_6575 \<and> row_ok yy_transition_68 (300 - int 75) row_6575" by code_simp
  show "snd (yy_transition_65 ! (75 - 1)) = 8" by code_simp
qed simp

lemma flex_state_6578: "flex_state (6578, 55, row_6578)"
proof (rule flex_stateI [OF part_at_65 part_at_66 part_at_67 part_at_68 part_length_65 part_length_66 part_length_67 part_length_68, where k = 78])
  show "row_ok (drop 78 yy_transition_65) 0 row_6578 \<and> row_ok yy_transition_66 (100 - int 78) row_6578 \<and>
      row_ok yy_transition_67 (200 - int 78) row_6578 \<and> row_ok yy_transition_68 (300 - int 78) row_6578" by code_simp
  show "snd (yy_transition_65 ! (78 - 1)) = 55" by code_simp
qed simp

lemma flex_state_6580: "flex_state (6580, 5, row_6580)"
proof (rule flex_stateI [OF part_at_65 part_at_66 part_at_67 part_at_68 part_length_65 part_length_66 part_length_67 part_length_68, where k = 80])
  show "row_ok (drop 80 yy_transition_65) 0 row_6580 \<and> row_ok yy_transition_66 (100 - int 80) row_6580 \<and>
      row_ok yy_transition_67 (200 - int 80) row_6580 \<and> row_ok yy_transition_68 (300 - int 80) row_6580" by code_simp
  show "snd (yy_transition_65 ! (80 - 1)) = 5" by code_simp
qed simp

lemma flex_state_6582: "flex_state (6582, 43, row_6582)"
proof (rule flex_stateI [OF part_at_65 part_at_66 part_at_67 part_at_68 part_length_65 part_length_66 part_length_67 part_length_68, where k = 82])
  show "row_ok (drop 82 yy_transition_65) 0 row_6582 \<and> row_ok yy_transition_66 (100 - int 82) row_6582 \<and>
      row_ok yy_transition_67 (200 - int 82) row_6582 \<and> row_ok yy_transition_68 (300 - int 82) row_6582" by code_simp
  show "snd (yy_transition_65 ! (82 - 1)) = 43" by code_simp
qed simp

lemma flex_state_6584: "flex_state (6584, 21, row_6584)"
proof (rule flex_stateI [OF part_at_65 part_at_66 part_at_67 part_at_68 part_length_65 part_length_66 part_length_67 part_length_68, where k = 84])
  show "row_ok (drop 84 yy_transition_65) 0 row_6584 \<and> row_ok yy_transition_66 (100 - int 84) row_6584 \<and>
      row_ok yy_transition_67 (200 - int 84) row_6584 \<and> row_ok yy_transition_68 (300 - int 84) row_6584" by code_simp
  show "snd (yy_transition_65 ! (84 - 1)) = 21" by code_simp
qed simp

lemma flex_state_6586: "flex_state (6586, 19, row_6586)"
proof (rule flex_stateI [OF part_at_65 part_at_66 part_at_67 part_at_68 part_length_65 part_length_66 part_length_67 part_length_68, where k = 86])
  show "row_ok (drop 86 yy_transition_65) 0 row_6586 \<and> row_ok yy_transition_66 (100 - int 86) row_6586 \<and>
      row_ok yy_transition_67 (200 - int 86) row_6586 \<and> row_ok yy_transition_68 (300 - int 86) row_6586" by code_simp
  show "snd (yy_transition_65 ! (86 - 1)) = 19" by code_simp
qed simp

lemma flex_state_6588: "flex_state (6588, 18, row_6588)"
proof (rule flex_stateI [OF part_at_65 part_at_66 part_at_67 part_at_68 part_length_65 part_length_66 part_length_67 part_length_68, where k = 88])
  show "row_ok (drop 88 yy_transition_65) 0 row_6588 \<and> row_ok yy_transition_66 (100 - int 88) row_6588 \<and>
      row_ok yy_transition_67 (200 - int 88) row_6588 \<and> row_ok yy_transition_68 (300 - int 88) row_6588" by code_simp
  show "snd (yy_transition_65 ! (88 - 1)) = 18" by code_simp
qed simp

lemma flex_state_6590: "flex_state (6590, 29, row_6590)"
proof (rule flex_stateI [OF part_at_65 part_at_66 part_at_67 part_at_68 part_length_65 part_length_66 part_length_67 part_length_68, where k = 90])
  show "row_ok (drop 90 yy_transition_65) 0 row_6590 \<and> row_ok yy_transition_66 (100 - int 90) row_6590 \<and>
      row_ok yy_transition_67 (200 - int 90) row_6590 \<and> row_ok yy_transition_68 (300 - int 90) row_6590" by code_simp
  show "snd (yy_transition_65 ! (90 - 1)) = 29" by code_simp
qed simp

lemma flex_state_6592: "flex_state (6592, 35, row_6592)"
proof (rule flex_stateI [OF part_at_65 part_at_66 part_at_67 part_at_68 part_length_65 part_length_66 part_length_67 part_length_68, where k = 92])
  show "row_ok (drop 92 yy_transition_65) 0 row_6592 \<and> row_ok yy_transition_66 (100 - int 92) row_6592 \<and>
      row_ok yy_transition_67 (200 - int 92) row_6592 \<and> row_ok yy_transition_68 (300 - int 92) row_6592" by code_simp
  show "snd (yy_transition_65 ! (92 - 1)) = 35" by code_simp
qed simp

lemma flex_state_6594: "flex_state (6594, 60, row_6594)"
proof (rule flex_stateI [OF part_at_65 part_at_66 part_at_67 part_at_68 part_length_65 part_length_66 part_length_67 part_length_68, where k = 94])
  show "row_ok (drop 94 yy_transition_65) 0 row_6594 \<and> row_ok yy_transition_66 (100 - int 94) row_6594 \<and>
      row_ok yy_transition_67 (200 - int 94) row_6594 \<and> row_ok yy_transition_68 (300 - int 94) row_6594" by code_simp
  show "snd (yy_transition_65 ! (94 - 1)) = 60" by code_simp
qed simp

lemma flex_state_6597: "flex_state (6597, 55, row_6597)"
proof (rule flex_stateI [OF part_at_65 part_at_66 part_at_67 part_at_68 part_length_65 part_length_66 part_length_67 part_length_68, where k = 97])
  show "row_ok (drop 97 yy_transition_65) 0 row_6597 \<and> row_ok yy_transition_66 (100 - int 97) row_6597 \<and>
      row_ok yy_transition_67 (200 - int 97) row_6597 \<and> row_ok yy_transition_68 (300 - int 97) row_6597" by code_simp
  show "snd (yy_transition_65 ! (97 - 1)) = 55" by code_simp
qed simp

lemma flex_state_6599: "flex_state (6599, 40, row_6599)"
proof (rule flex_stateI [OF part_at_65 part_at_66 part_at_67 part_at_68 part_length_65 part_length_66 part_length_67 part_length_68, where k = 99])
  show "row_ok (drop 99 yy_transition_65) 0 row_6599 \<and> row_ok yy_transition_66 (100 - int 99) row_6599 \<and>
      row_ok yy_transition_67 (200 - int 99) row_6599 \<and> row_ok yy_transition_68 (300 - int 99) row_6599" by code_simp
  show "snd (yy_transition_65 ! (99 - 1)) = 40" by code_simp
qed simp

lemma flex_state_6607: "flex_state (6607, 16, row_6607)"
proof (rule flex_stateI [OF part_at_66 part_at_67 part_at_68 part_at_69 part_length_66 part_length_67 part_length_68 part_length_69, where k = 7])
  show "row_ok (drop 7 yy_transition_66) 0 row_6607 \<and> row_ok yy_transition_67 (100 - int 7) row_6607 \<and>
      row_ok yy_transition_68 (200 - int 7) row_6607 \<and> row_ok yy_transition_69 (300 - int 7) row_6607" by code_simp
  show "snd (yy_transition_66 ! (7 - 1)) = 16" by code_simp
qed simp

lemma flex_state_6619: "flex_state (6619, 30, row_6619)"
proof (rule flex_stateI [OF part_at_66 part_at_67 part_at_68 part_at_69 part_length_66 part_length_67 part_length_68 part_length_69, where k = 19])
  show "row_ok (drop 19 yy_transition_66) 0 row_6619 \<and> row_ok yy_transition_67 (100 - int 19) row_6619 \<and>
      row_ok yy_transition_68 (200 - int 19) row_6619 \<and> row_ok yy_transition_69 (300 - int 19) row_6619" by code_simp
  show "snd (yy_transition_66 ! (19 - 1)) = 30" by code_simp
qed simp

lemma flex_state_6633: "flex_state (6633, 31, row_6633)"
proof (rule flex_stateI [OF part_at_66 part_at_67 part_at_68 part_at_69 part_length_66 part_length_67 part_length_68 part_length_69, where k = 33])
  show "row_ok (drop 33 yy_transition_66) 0 row_6633 \<and> row_ok yy_transition_67 (100 - int 33) row_6633 \<and>
      row_ok yy_transition_68 (200 - int 33) row_6633 \<and> row_ok yy_transition_69 (300 - int 33) row_6633" by code_simp
  show "snd (yy_transition_66 ! (33 - 1)) = 31" by code_simp
qed simp

lemma flex_state_6635: "flex_state (6635, 24, row_6635)"
proof (rule flex_stateI [OF part_at_66 part_at_67 part_at_68 part_at_69 part_length_66 part_length_67 part_length_68 part_length_69, where k = 35])
  show "row_ok (drop 35 yy_transition_66) 0 row_6635 \<and> row_ok yy_transition_67 (100 - int 35) row_6635 \<and>
      row_ok yy_transition_68 (200 - int 35) row_6635 \<and> row_ok yy_transition_69 (300 - int 35) row_6635" by code_simp
  show "snd (yy_transition_66 ! (35 - 1)) = 24" by code_simp
qed simp

lemma flex_state_6637: "flex_state (6637, 25, row_6637)"
proof (rule flex_stateI [OF part_at_66 part_at_67 part_at_68 part_at_69 part_length_66 part_length_67 part_length_68 part_length_69, where k = 37])
  show "row_ok (drop 37 yy_transition_66) 0 row_6637 \<and> row_ok yy_transition_67 (100 - int 37) row_6637 \<and>
      row_ok yy_transition_68 (200 - int 37) row_6637 \<and> row_ok yy_transition_69 (300 - int 37) row_6637" by code_simp
  show "snd (yy_transition_66 ! (37 - 1)) = 25" by code_simp
qed simp

lemma flex_state_6668: "flex_state (6668, 55, row_6668)"
proof (rule flex_stateI [OF part_at_66 part_at_67 part_at_68 part_at_69 part_length_66 part_length_67 part_length_68 part_length_69, where k = 68])
  show "row_ok (drop 68 yy_transition_66) 0 row_6668 \<and> row_ok yy_transition_67 (100 - int 68) row_6668 \<and>
      row_ok yy_transition_68 (200 - int 68) row_6668 \<and> row_ok yy_transition_69 (300 - int 68) row_6668" by code_simp
  show "snd (yy_transition_66 ! (68 - 1)) = 55" by code_simp
qed simp

lemma flex_state_6670: "flex_state (6670, 58, row_6670)"
proof (rule flex_stateI [OF part_at_66 part_at_67 part_at_68 part_at_69 part_length_66 part_length_67 part_length_68 part_length_69, where k = 70])
  show "row_ok (drop 70 yy_transition_66) 0 row_6670 \<and> row_ok yy_transition_67 (100 - int 70) row_6670 \<and>
      row_ok yy_transition_68 (200 - int 70) row_6670 \<and> row_ok yy_transition_69 (300 - int 70) row_6670" by code_simp
  show "snd (yy_transition_66 ! (70 - 1)) = 58" by code_simp
qed simp

lemma flex_state_6735: "flex_state (6735, 55, row_6735)"
proof (rule flex_stateI [OF part_at_67 part_at_68 part_at_69 part_at_70 part_length_67 part_length_68 part_length_69 part_length_70, where k = 35])
  show "row_ok (drop 35 yy_transition_67) 0 row_6735 \<and> row_ok yy_transition_68 (100 - int 35) row_6735 \<and>
      row_ok yy_transition_69 (200 - int 35) row_6735 \<and> row_ok yy_transition_70 (300 - int 35) row_6735" by code_simp
  show "snd (yy_transition_67 ! (35 - 1)) = 55" by code_simp
qed simp

lemma flex_state_6746: "flex_state (6746, 55, row_6746)"
proof (rule flex_stateI [OF part_at_67 part_at_68 part_at_69 part_at_70 part_length_67 part_length_68 part_length_69 part_length_70, where k = 46])
  show "row_ok (drop 46 yy_transition_67) 0 row_6746 \<and> row_ok yy_transition_68 (100 - int 46) row_6746 \<and>
      row_ok yy_transition_69 (200 - int 46) row_6746 \<and> row_ok yy_transition_70 (300 - int 46) row_6746" by code_simp
  show "snd (yy_transition_67 ! (46 - 1)) = 55" by code_simp
qed simp

lemma flex_state_6813: "flex_state (6813, 55, row_6813)"
proof (rule flex_stateI [OF part_at_68 part_at_69 part_at_70 part_at_71 part_length_68 part_length_69 part_length_70 part_length_71, where k = 13])
  show "row_ok (drop 13 yy_transition_68) 0 row_6813 \<and> row_ok yy_transition_69 (100 - int 13) row_6813 \<and>
      row_ok yy_transition_70 (200 - int 13) row_6813 \<and> row_ok yy_transition_71 (300 - int 13) row_6813" by code_simp
  show "snd (yy_transition_68 ! (13 - 1)) = 55" by code_simp
qed simp

lemma flex_state_6845: "flex_state (6845, 64, row_6845)"
proof (rule flex_stateI [OF part_at_68 part_at_69 part_at_70 part_at_71 part_length_68 part_length_69 part_length_70 part_length_71, where k = 45])
  show "row_ok (drop 45 yy_transition_68) 0 row_6845 \<and> row_ok yy_transition_69 (100 - int 45) row_6845 \<and>
      row_ok yy_transition_70 (200 - int 45) row_6845 \<and> row_ok yy_transition_71 (300 - int 45) row_6845" by code_simp
  show "snd (yy_transition_68 ! (45 - 1)) = 64" by code_simp
qed simp

lemma flex_state_7102: "flex_state (7102, 64, row_7102)"
proof (rule flex_stateI [OF part_at_71 part_at_72 part_at_73 part_at_74 part_length_71 part_length_72 part_length_73 part_length_74, where k = 2])
  show "row_ok (drop 2 yy_transition_71) 0 row_7102 \<and> row_ok yy_transition_72 (100 - int 2) row_7102 \<and>
      row_ok yy_transition_73 (200 - int 2) row_7102 \<and> row_ok yy_transition_74 (300 - int 2) row_7102" by code_simp
  show "snd (yy_transition_71 ! (2 - 1)) = 64" by code_simp
qed simp

lemma flex_state_7359: "flex_state (7359, 64, row_7359)"
proof (rule flex_stateI [OF part_at_73 part_at_74 part_at_75 part_at_76 part_length_73 part_length_74 part_length_75 part_length_76, where k = 59])
  show "row_ok (drop 59 yy_transition_73) 0 row_7359 \<and> row_ok yy_transition_74 (100 - int 59) row_7359 \<and>
      row_ok yy_transition_75 (200 - int 59) row_7359 \<and> row_ok yy_transition_76 (300 - int 59) row_7359" by code_simp
  show "snd (yy_transition_73 ! (59 - 1)) = 64" by code_simp
qed simp

lemma flex_state_7616: "flex_state (7616, 64, row_7616)"
proof (rule flex_stateI [OF part_at_76 part_at_77 part_at_78 part_at_79 part_length_76 part_length_77 part_length_78 part_length_79, where k = 16])
  show "row_ok (drop 16 yy_transition_76) 0 row_7616 \<and> row_ok yy_transition_77 (100 - int 16) row_7616 \<and>
      row_ok yy_transition_78 (200 - int 16) row_7616 \<and> row_ok yy_transition_79 (300 - int 16) row_7616" by code_simp
  show "snd (yy_transition_76 ! (16 - 1)) = 64" by code_simp
qed simp

lemma flex_state_7873: "flex_state (7873, 64, row_7873)"
proof (rule flex_stateI [OF part_at_78 part_at_79 part_at_80 part_at_81 part_length_78 part_length_79 part_length_80 part_length_81, where k = 73])
  show "row_ok (drop 73 yy_transition_78) 0 row_7873 \<and> row_ok yy_transition_79 (100 - int 73) row_7873 \<and>
      row_ok yy_transition_80 (200 - int 73) row_7873 \<and> row_ok yy_transition_81 (300 - int 73) row_7873" by code_simp
  show "snd (yy_transition_78 ! (73 - 1)) = 64" by code_simp
qed simp

lemma flex_state_8130: "flex_state (8130, 64, row_8130)"
proof (rule flex_stateI [OF part_at_81 part_at_82 part_at_83 part_at_84 part_length_81 part_length_82 part_length_83 part_length_84, where k = 30])
  show "row_ok (drop 30 yy_transition_81) 0 row_8130 \<and> row_ok yy_transition_82 (100 - int 30) row_8130 \<and>
      row_ok yy_transition_83 (200 - int 30) row_8130 \<and> row_ok yy_transition_84 (300 - int 30) row_8130" by code_simp
  show "snd (yy_transition_81 ! (30 - 1)) = 64" by code_simp
qed simp

lemma flex_state_8387: "flex_state (8387, 11, row_8387)"
proof (rule flex_stateI [OF part_at_83 part_at_84 part_at_85 part_at_86 part_length_83 part_length_84 part_length_85 part_length_86, where k = 87])
  show "row_ok (drop 87 yy_transition_83) 0 row_8387 \<and> row_ok yy_transition_84 (100 - int 87) row_8387 \<and>
      row_ok yy_transition_85 (200 - int 87) row_8387 \<and> row_ok yy_transition_86 (300 - int 87) row_8387" by code_simp
  show "snd (yy_transition_83 ! (87 - 1)) = 11" by code_simp
qed simp

lemma flex_state_8645: "flex_state (8645, 6, row_8645)"
proof (rule flex_stateI [OF part_at_86 part_at_87 part_at_88 part_at_89 part_length_86 part_length_87 part_length_88 part_length_89, where k = 45])
  show "row_ok (drop 45 yy_transition_86) 0 row_8645 \<and> row_ok yy_transition_87 (100 - int 45) row_8645 \<and>
      row_ok yy_transition_88 (200 - int 45) row_8645 \<and> row_ok yy_transition_89 (300 - int 45) row_8645" by code_simp
  show "snd (yy_transition_86 ! (45 - 1)) = 6" by code_simp
qed simp

lemma flex_state_8903: "flex_state (8903, 6, row_8903)"
proof (rule flex_stateI [OF part_at_89 part_at_90 part_at_91 part_at_92 part_length_89 part_length_90 part_length_91 part_length_92, where k = 3])
  show "row_ok (drop 3 yy_transition_89) 0 row_8903 \<and> row_ok yy_transition_90 (100 - int 3) row_8903 \<and>
      row_ok yy_transition_91 (200 - int 3) row_8903 \<and> row_ok yy_transition_92 (300 - int 3) row_8903" by code_simp
  show "snd (yy_transition_89 ! (3 - 1)) = 6" by code_simp
qed simp

lemma flex_state_9161: "flex_state (9161, 44, row_9161)"
proof (rule flex_stateI [OF part_at_91 part_at_92 part_at_93 part_at_94 part_length_91 part_length_92 part_length_93 part_length_94, where k = 61])
  show "row_ok (drop 61 yy_transition_91) 0 row_9161 \<and> row_ok yy_transition_92 (100 - int 61) row_9161 \<and>
      row_ok yy_transition_93 (200 - int 61) row_9161 \<and> row_ok yy_transition_94 (300 - int 61) row_9161" by code_simp
  show "snd (yy_transition_91 ! (61 - 1)) = 44" by code_simp
qed simp

lemma flex_state_9419: "flex_state (9419, 10, row_9419)"
proof (rule flex_stateI [OF part_at_94 part_at_95 part_at_96 part_at_97 part_length_94 part_length_95 part_length_96 part_length_97, where k = 19])
  show "row_ok (drop 19 yy_transition_94) 0 row_9419 \<and> row_ok yy_transition_95 (100 - int 19) row_9419 \<and>
      row_ok yy_transition_96 (200 - int 19) row_9419 \<and> row_ok yy_transition_97 (300 - int 19) row_9419" by code_simp
  show "snd (yy_transition_94 ! (19 - 1)) = 10" by code_simp
qed simp

lemma flex_state_9677: "flex_state (9677, 22, row_9677)"
proof (rule flex_stateI [OF part_at_96 part_at_97 part_at_98 part_at_99 part_length_96 part_length_97 part_length_98 part_length_99, where k = 77])
  show "row_ok (drop 77 yy_transition_96) 0 row_9677 \<and> row_ok yy_transition_97 (100 - int 77) row_9677 \<and>
      row_ok yy_transition_98 (200 - int 77) row_9677 \<and> row_ok yy_transition_99 (300 - int 77) row_9677" by code_simp
  show "snd (yy_transition_96 ! (77 - 1)) = 22" by code_simp
qed simp

lemma flex_state_9935: "flex_state (9935, 19, row_9935)"
proof (rule flex_stateI [OF part_at_99 part_at_100 part_at_101 part_at_102 part_length_99 part_length_100 part_length_101 part_length_102, where k = 35])
  show "row_ok (drop 35 yy_transition_99) 0 row_9935 \<and> row_ok yy_transition_100 (100 - int 35) row_9935 \<and>
      row_ok yy_transition_101 (200 - int 35) row_9935 \<and> row_ok yy_transition_102 (300 - int 35) row_9935" by code_simp
  show "snd (yy_transition_99 ! (35 - 1)) = 19" by code_simp
qed simp

lemma flex_state_9940: "flex_state (9940, 19, row_9940)"
proof (rule flex_stateI [OF part_at_99 part_at_100 part_at_101 part_at_102 part_length_99 part_length_100 part_length_101 part_length_102, where k = 40])
  show "row_ok (drop 40 yy_transition_99) 0 row_9940 \<and> row_ok yy_transition_100 (100 - int 40) row_9940 \<and>
      row_ok yy_transition_101 (200 - int 40) row_9940 \<and> row_ok yy_transition_102 (300 - int 40) row_9940" by code_simp
  show "snd (yy_transition_99 ! (40 - 1)) = 19" by code_simp
qed simp

lemma flex_state_9956: "flex_state (9956, 19, row_9956)"
proof (rule flex_stateI [OF part_at_99 part_at_100 part_at_101 part_at_102 part_length_99 part_length_100 part_length_101 part_length_102, where k = 56])
  show "row_ok (drop 56 yy_transition_99) 0 row_9956 \<and> row_ok yy_transition_100 (100 - int 56) row_9956 \<and>
      row_ok yy_transition_101 (200 - int 56) row_9956 \<and> row_ok yy_transition_102 (300 - int 56) row_9956" by code_simp
  show "snd (yy_transition_99 ! (56 - 1)) = 19" by code_simp
qed simp

lemma flex_state_10003: "flex_state (10003, 23, row_10003)"
proof (rule flex_stateI [OF part_at_100 part_at_101 part_at_102 part_at_103 part_length_100 part_length_101 part_length_102 part_length_103, where k = 3])
  show "row_ok (drop 3 yy_transition_100) 0 row_10003 \<and> row_ok yy_transition_101 (100 - int 3) row_10003 \<and>
      row_ok yy_transition_102 (200 - int 3) row_10003 \<and> row_ok yy_transition_103 (300 - int 3) row_10003" by code_simp
  show "snd (yy_transition_100 ! (3 - 1)) = 23" by code_simp
qed simp

lemma flex_state_10261: "flex_state (10261, 23, row_10261)"
proof (rule flex_stateI [OF part_at_102 part_at_103 part_at_104 part_at_105 part_length_102 part_length_103 part_length_104 part_length_105, where k = 61])
  show "row_ok (drop 61 yy_transition_102) 0 row_10261 \<and> row_ok yy_transition_103 (100 - int 61) row_10261 \<and>
      row_ok yy_transition_104 (200 - int 61) row_10261 \<and> row_ok yy_transition_105 (300 - int 61) row_10261" by code_simp
  show "snd (yy_transition_102 ! (61 - 1)) = 23" by code_simp
qed simp

lemma flex_state_10519: "flex_state (10519, 32, row_10519)"
proof (rule flex_stateI [OF part_at_105 part_at_106 part_at_107 part_at_108 part_length_105 part_length_106 part_length_107 part_length_108, where k = 19])
  show "row_ok (drop 19 yy_transition_105) 0 row_10519 \<and> row_ok yy_transition_106 (100 - int 19) row_10519 \<and>
      row_ok yy_transition_107 (200 - int 19) row_10519 \<and> row_ok yy_transition_108 (300 - int 19) row_10519" by code_simp
  show "snd (yy_transition_105 ! (19 - 1)) = 32" by code_simp
qed simp

lemma flex_state_10777: "flex_state (10777, 36, row_10777)"
proof (rule flex_stateI [OF part_at_107 part_at_108 part_at_109 part_at_110 part_length_107 part_length_108 part_length_109 part_length_110, where k = 77])
  show "row_ok (drop 77 yy_transition_107) 0 row_10777 \<and> row_ok yy_transition_108 (100 - int 77) row_10777 \<and>
      row_ok yy_transition_109 (200 - int 77) row_10777 \<and> row_ok yy_transition_110 (300 - int 77) row_10777" by code_simp
  show "snd (yy_transition_107 ! (77 - 1)) = 36" by code_simp
qed simp

lemma flex_state_11035: "flex_state (11035, 36, row_11035)"
proof (rule flex_stateI [OF part_at_110 part_at_111 part_at_112 part_at_113 part_length_110 part_length_111 part_length_112 part_length_113, where k = 35])
  show "row_ok (drop 35 yy_transition_110) 0 row_11035 \<and> row_ok yy_transition_111 (100 - int 35) row_11035 \<and>
      row_ok yy_transition_112 (200 - int 35) row_11035 \<and> row_ok yy_transition_113 (300 - int 35) row_11035" by code_simp
  show "snd (yy_transition_110 ! (35 - 1)) = 36" by code_simp
qed simp

lemma flex_state_11293: "flex_state (11293, 38, row_11293)"
proof (rule flex_stateI [OF part_at_112 part_at_113 part_at_114 part_at_115 part_length_112 part_length_113 part_length_114 part_length_115, where k = 93])
  show "row_ok (drop 93 yy_transition_112) 0 row_11293 \<and> row_ok yy_transition_113 (100 - int 93) row_11293 \<and>
      row_ok yy_transition_114 (200 - int 93) row_11293 \<and> row_ok yy_transition_115 (300 - int 93) row_11293" by code_simp
  show "snd (yy_transition_112 ! (93 - 1)) = 38" by code_simp
qed simp

lemma flex_state_11295: "flex_state (11295, 1, row_11295)"
proof (rule flex_stateI [OF part_at_112 part_at_113 part_at_114 part_at_115 part_length_112 part_length_113 part_length_114 part_length_115, where k = 95])
  show "row_ok (drop 95 yy_transition_112) 0 row_11295 \<and> row_ok yy_transition_113 (100 - int 95) row_11295 \<and>
      row_ok yy_transition_114 (200 - int 95) row_11295 \<and> row_ok yy_transition_115 (300 - int 95) row_11295" by code_simp
  show "snd (yy_transition_112 ! (95 - 1)) = 1" by code_simp
qed simp

lemma flex_state_11550: "flex_state (11550, 56, row_11550)"
proof (rule flex_stateI [OF part_at_115 part_at_116 part_at_117 part_at_118 part_length_115 part_length_116 part_length_117 part_length_118, where k = 50])
  show "row_ok (drop 50 yy_transition_115) 0 row_11550 \<and> row_ok yy_transition_116 (100 - int 50) row_11550 \<and>
      row_ok yy_transition_117 (200 - int 50) row_11550 \<and> row_ok yy_transition_118 (300 - int 50) row_11550" by code_simp
  show "snd (yy_transition_115 ! (50 - 1)) = 56" by code_simp
qed simp

lemma flex_state_11561: "flex_state (11561, 54, row_11561)"
proof (rule flex_stateI [OF part_at_115 part_at_116 part_at_117 part_at_118 part_length_115 part_length_116 part_length_117 part_length_118, where k = 61])
  show "row_ok (drop 61 yy_transition_115) 0 row_11561 \<and> row_ok yy_transition_116 (100 - int 61) row_11561 \<and>
      row_ok yy_transition_117 (200 - int 61) row_11561 \<and> row_ok yy_transition_118 (300 - int 61) row_11561" by code_simp
  show "snd (yy_transition_115 ! (61 - 1)) = 54" by code_simp
qed simp

lemma flex_state_11578: "flex_state (11578, 57, row_11578)"
proof (rule flex_stateI [OF part_at_115 part_at_116 part_at_117 part_at_118 part_length_115 part_length_116 part_length_117 part_length_118, where k = 78])
  show "row_ok (drop 78 yy_transition_115) 0 row_11578 \<and> row_ok yy_transition_116 (100 - int 78) row_11578 \<and>
      row_ok yy_transition_117 (200 - int 78) row_11578 \<and> row_ok yy_transition_118 (300 - int 78) row_11578" by code_simp
  show "snd (yy_transition_115 ! (78 - 1)) = 57" by code_simp
qed simp

lemma flex_state_11641: "flex_state (11641, 34, row_11641)"
proof (rule flex_stateI [OF part_at_116 part_at_117 part_at_118 part_at_119 part_length_116 part_length_117 part_length_118 part_length_119, where k = 41])
  show "row_ok (drop 41 yy_transition_116) 0 row_11641 \<and> row_ok yy_transition_117 (100 - int 41) row_11641 \<and>
      row_ok yy_transition_118 (200 - int 41) row_11641 \<and> row_ok yy_transition_119 (300 - int 41) row_11641" by code_simp
  show "snd (yy_transition_116 ! (41 - 1)) = 34" by code_simp
qed simp

lemma flex_state_11898: "flex_state (11898, 2, row_11898)"
proof (rule flex_stateI [OF part_at_118 part_at_119 part_at_120 part_at_121 part_length_118 part_length_119 part_length_120 part_length_121, where k = 98])
  show "row_ok (drop 98 yy_transition_118) 0 row_11898 \<and> row_ok yy_transition_119 (100 - int 98) row_11898 \<and>
      row_ok yy_transition_120 (200 - int 98) row_11898 \<and> row_ok yy_transition_121 (300 - int 98) row_11898" by code_simp
  show "snd (yy_transition_118 ! (98 - 1)) = 2" by code_simp
qed simp

lemma flex_state_12156: "flex_state (12156, 59, row_12156)"
proof (rule flex_stateI [OF part_at_121 part_at_122 part_at_123 part_at_124 part_length_121 part_length_122 part_length_123 part_length_124, where k = 56])
  show "row_ok (drop 56 yy_transition_121) 0 row_12156 \<and> row_ok yy_transition_122 (100 - int 56) row_12156 \<and>
      row_ok yy_transition_123 (200 - int 56) row_12156 \<and> row_ok yy_transition_124 (300 - int 56) row_12156" by code_simp
  show "snd (yy_transition_121 ! (56 - 1)) = 59" by code_simp
qed simp

lemma flex_state_12181: "flex_state (12181, 3, row_12181)"
proof (rule flex_stateI [OF part_at_121 part_at_122 part_at_123 part_at_124 part_length_121 part_length_122 part_length_123 part_length_124, where k = 81])
  show "row_ok (drop 81 yy_transition_121) 0 row_12181 \<and> row_ok yy_transition_122 (100 - int 81) row_12181 \<and>
      row_ok yy_transition_123 (200 - int 81) row_12181 \<and> row_ok yy_transition_124 (300 - int 81) row_12181" by code_simp
  show "snd (yy_transition_121 ! (81 - 1)) = 3" by code_simp
qed simp

lemma flex_state_12183: "flex_state (12183, 59, row_12183)"
proof (rule flex_stateI [OF part_at_121 part_at_122 part_at_123 part_at_124 part_length_121 part_length_122 part_length_123 part_length_124, where k = 83])
  show "row_ok (drop 83 yy_transition_121) 0 row_12183 \<and> row_ok yy_transition_122 (100 - int 83) row_12183 \<and>
      row_ok yy_transition_123 (200 - int 83) row_12183 \<and> row_ok yy_transition_124 (300 - int 83) row_12183" by code_simp
  show "snd (yy_transition_121 ! (83 - 1)) = 59" by code_simp
qed simp

lemma flex_state_12247: "flex_state (12247, 58, row_12247)"
proof (rule flex_stateI [OF part_at_122 part_at_123 part_at_124 part_at_125 part_length_122 part_length_123 part_length_124 part_length_125, where k = 47])
  show "row_ok (drop 47 yy_transition_122) 0 row_12247 \<and> row_ok yy_transition_123 (100 - int 47) row_12247 \<and>
      row_ok yy_transition_124 (200 - int 47) row_12247 \<and> row_ok yy_transition_125 (300 - int 47) row_12247" by code_simp
  show "snd (yy_transition_122 ! (47 - 1)) = 58" by code_simp
qed simp

lemma flex_state_12269: "flex_state (12269, 62, row_12269)"
proof (rule flex_stateI [OF part_at_122 part_at_123 part_at_124 part_at_125 part_length_122 part_length_123 part_length_124 part_length_125, where k = 69])
  show "row_ok (drop 69 yy_transition_122) 0 row_12269 \<and> row_ok yy_transition_123 (100 - int 69) row_12269 \<and>
      row_ok yy_transition_124 (200 - int 69) row_12269 \<and> row_ok yy_transition_125 (300 - int 69) row_12269" by code_simp
  show "snd (yy_transition_122 ! (69 - 1)) = 62" by code_simp
qed simp

lemma flex_state_12309: "flex_state (12309, 51, row_12309)"
proof (rule flex_stateI [OF part_at_123 part_at_124 part_at_125 part_at_126 part_length_123 part_length_124 part_length_125 part_length_126, where k = 9])
  show "row_ok (drop 9 yy_transition_123) 0 row_12309 \<and> row_ok yy_transition_124 (100 - int 9) row_12309 \<and>
      row_ok yy_transition_125 (200 - int 9) row_12309 \<and> row_ok yy_transition_126 (300 - int 9) row_12309" by code_simp
  show "snd (yy_transition_123 ! (9 - 1)) = 51" by code_simp
qed simp

lemma flex_state_12350: "flex_state (12350, 53, row_12350)"
proof (rule flex_stateI [OF part_at_123 part_at_124 part_at_125 part_at_126 part_length_123 part_length_124 part_length_125 part_length_126, where k = 50])
  show "row_ok (drop 50 yy_transition_123) 0 row_12350 \<and> row_ok yy_transition_124 (100 - int 50) row_12350 \<and>
      row_ok yy_transition_125 (200 - int 50) row_12350 \<and> row_ok yy_transition_126 (300 - int 50) row_12350" by code_simp
  show "snd (yy_transition_123 ! (50 - 1)) = 53" by code_simp
qed simp

lemma flex_state_12417: "flex_state (12417, 50, row_12417)"
proof (rule flex_stateI [OF part_at_124 part_at_125 part_at_126 part_at_127 part_length_124 part_length_125 part_length_126 part_length_127, where k = 17])
  show "row_ok (drop 17 yy_transition_124) 0 row_12417 \<and> row_ok yy_transition_125 (100 - int 17) row_12417 \<and>
      row_ok yy_transition_126 (200 - int 17) row_12417 \<and> row_ok yy_transition_127 (300 - int 17) row_12417" by code_simp
  show "snd (yy_transition_124 ! (17 - 1)) = 50" by code_simp
qed simp

lemma flex_state_12428: "flex_state (12428, 52, row_12428)"
proof (rule flex_stateI [OF part_at_124 part_at_125 part_at_126 part_at_127 part_length_124 part_length_125 part_length_126 part_length_127, where k = 28])
  show "row_ok (drop 28 yy_transition_124) 0 row_12428 \<and> row_ok yy_transition_125 (100 - int 28) row_12428 \<and>
      row_ok yy_transition_126 (200 - int 28) row_12428 \<and> row_ok yy_transition_127 (300 - int 28) row_12428" by code_simp
  show "snd (yy_transition_124 ! (28 - 1)) = 52" by code_simp
qed simp

lemma flex_state_12508: "flex_state (12508, 64, row_12508)"
proof (rule flex_stateI [OF part_at_125 part_at_126 part_at_127 part_at_128 part_length_125 part_length_126 part_length_127 part_length_128, where k = 8])
  show "row_ok (drop 8 yy_transition_125) 0 row_12508 \<and> row_ok yy_transition_126 (100 - int 8) row_12508 \<and>
      row_ok yy_transition_127 (200 - int 8) row_12508 \<and> row_ok yy_transition_128 (300 - int 8) row_12508" by code_simp
  show "snd (yy_transition_125 ! (8 - 1)) = 64" by code_simp
qed simp

lemma flex_state_12765: "flex_state (12765, 11, row_12765)"
proof (rule flex_stateI [OF part_at_127 part_at_128 part_at_129 part_at_130 part_length_127 part_length_128 part_length_129 part_length_130, where k = 65])
  show "row_ok (drop 65 yy_transition_127) 0 row_12765 \<and> row_ok yy_transition_128 (100 - int 65) row_12765 \<and>
      row_ok yy_transition_129 (200 - int 65) row_12765 \<and> row_ok yy_transition_130 (300 - int 65) row_12765" by code_simp
  show "snd (yy_transition_127 ! (65 - 1)) = 11" by code_simp
qed simp

lemma flex_state_13023: "flex_state (13023, 6, row_13023)"
proof (rule flex_stateI [OF part_at_130 part_at_131 part_at_132 part_at_133 part_length_130 part_length_131 part_length_132 part_length_133, where k = 23])
  show "row_ok (drop 23 yy_transition_130) 0 row_13023 \<and> row_ok yy_transition_131 (100 - int 23) row_13023 \<and>
      row_ok yy_transition_132 (200 - int 23) row_13023 \<and> row_ok yy_transition_133 (300 - int 23) row_13023" by code_simp
  show "snd (yy_transition_130 ! (23 - 1)) = 6" by code_simp
qed simp

lemma flex_state_13281: "flex_state (13281, 4, row_13281)"
proof (rule flex_stateI [OF part_at_132 part_at_133 part_at_134 part_at_135 part_length_132 part_length_133 part_length_134 part_length_135, where k = 81])
  show "row_ok (drop 81 yy_transition_132) 0 row_13281 \<and> row_ok yy_transition_133 (100 - int 81) row_13281 \<and>
      row_ok yy_transition_134 (200 - int 81) row_13281 \<and> row_ok yy_transition_135 (300 - int 81) row_13281" by code_simp
  show "snd (yy_transition_132 ! (81 - 1)) = 4" by code_simp
qed simp

lemma flex_state_13409: "flex_state (13409, 44, row_13409)"
proof (rule flex_stateI [OF part_at_134 part_at_135 part_at_136 part_at_137 part_length_134 part_length_135 part_length_136 part_length_137, where k = 9])
  show "row_ok (drop 9 yy_transition_134) 0 row_13409 \<and> row_ok yy_transition_135 (100 - int 9) row_13409 \<and>
      row_ok yy_transition_136 (200 - int 9) row_13409 \<and> row_ok yy_transition_137 (300 - int 9) row_13409" by code_simp
  show "snd (yy_transition_134 ! (9 - 1)) = 44" by code_simp
qed simp

lemma flex_state_13667: "flex_state (13667, 10, row_13667)"
proof (rule flex_stateI [OF part_at_136 part_at_137 part_at_138 part_at_139 part_length_136 part_length_137 part_length_138 part_length_139, where k = 67])
  show "row_ok (drop 67 yy_transition_136) 0 row_13667 \<and> row_ok yy_transition_137 (100 - int 67) row_13667 \<and>
      row_ok yy_transition_138 (200 - int 67) row_13667 \<and> row_ok yy_transition_139 (300 - int 67) row_13667" by code_simp
  show "snd (yy_transition_136 ! (67 - 1)) = 10" by code_simp
qed simp

lemma flex_state_13925: "flex_state (13925, 22, row_13925)"
proof (rule flex_stateI [OF part_at_139 part_at_140 part_at_141 part_at_142 part_length_139 part_length_140 part_length_141 part_length_142, where k = 25])
  show "row_ok (drop 25 yy_transition_139) 0 row_13925 \<and> row_ok yy_transition_140 (100 - int 25) row_13925 \<and>
      row_ok yy_transition_141 (200 - int 25) row_13925 \<and> row_ok yy_transition_142 (300 - int 25) row_13925" by code_simp
  show "snd (yy_transition_139 ! (25 - 1)) = 22" by code_simp
qed simp

lemma flex_state_14183: "flex_state (14183, 19, row_14183)"
proof (rule flex_stateI [OF part_at_141 part_at_142 part_at_143 part_at_144 part_length_141 part_length_142 part_length_143 part_length_144, where k = 83])
  show "row_ok (drop 83 yy_transition_141) 0 row_14183 \<and> row_ok yy_transition_142 (100 - int 83) row_14183 \<and>
      row_ok yy_transition_143 (200 - int 83) row_14183 \<and> row_ok yy_transition_144 (300 - int 83) row_14183" by code_simp
  show "snd (yy_transition_141 ! (83 - 1)) = 19" by code_simp
qed simp

lemma flex_state_14188: "flex_state (14188, 19, row_14188)"
proof (rule flex_stateI [OF part_at_141 part_at_142 part_at_143 part_at_144 part_length_141 part_length_142 part_length_143 part_length_144, where k = 88])
  show "row_ok (drop 88 yy_transition_141) 0 row_14188 \<and> row_ok yy_transition_142 (100 - int 88) row_14188 \<and>
      row_ok yy_transition_143 (200 - int 88) row_14188 \<and> row_ok yy_transition_144 (300 - int 88) row_14188" by code_simp
  show "snd (yy_transition_141 ! (88 - 1)) = 19" by code_simp
qed simp

lemma flex_state_14204: "flex_state (14204, 19, row_14204)"
proof (rule flex_stateI [OF part_at_142 part_at_143 part_at_144 part_at_145 part_length_142 part_length_143 part_length_144 part_length_145, where k = 4])
  show "row_ok (drop 4 yy_transition_142) 0 row_14204 \<and> row_ok yy_transition_143 (100 - int 4) row_14204 \<and>
      row_ok yy_transition_144 (200 - int 4) row_14204 \<and> row_ok yy_transition_145 (300 - int 4) row_14204" by code_simp
  show "snd (yy_transition_142 ! (4 - 1)) = 19" by code_simp
qed simp

lemma flex_state_14251: "flex_state (14251, 23, row_14251)"
proof (rule flex_stateI [OF part_at_142 part_at_143 part_at_144 part_at_145 part_length_142 part_length_143 part_length_144 part_length_145, where k = 51])
  show "row_ok (drop 51 yy_transition_142) 0 row_14251 \<and> row_ok yy_transition_143 (100 - int 51) row_14251 \<and>
      row_ok yy_transition_144 (200 - int 51) row_14251 \<and> row_ok yy_transition_145 (300 - int 51) row_14251" by code_simp
  show "snd (yy_transition_142 ! (51 - 1)) = 23" by code_simp
qed simp

lemma flex_state_14509: "flex_state (14509, 30, row_14509)"
proof (rule flex_stateI [OF part_at_145 part_at_146 part_at_147 part_at_148 part_length_145 part_length_146 part_length_147 part_length_148, where k = 9])
  show "row_ok (drop 9 yy_transition_145) 0 row_14509 \<and> row_ok yy_transition_146 (100 - int 9) row_14509 \<and>
      row_ok yy_transition_147 (200 - int 9) row_14509 \<and> row_ok yy_transition_148 (300 - int 9) row_14509" by code_simp
  show "snd (yy_transition_145 ! (9 - 1)) = 30" by code_simp
qed simp

lemma flex_state_14517: "flex_state (14517, 28, row_14517)"
proof (rule flex_stateI [OF part_at_145 part_at_146 part_at_147 part_at_148 part_length_145 part_length_146 part_length_147 part_length_148, where k = 17])
  show "row_ok (drop 17 yy_transition_145) 0 row_14517 \<and> row_ok yy_transition_146 (100 - int 17) row_14517 \<and>
      row_ok yy_transition_147 (200 - int 17) row_14517 \<and> row_ok yy_transition_148 (300 - int 17) row_14517" by code_simp
  show "snd (yy_transition_145 ! (17 - 1)) = 28" by code_simp
qed simp

lemma flex_state_14540: "flex_state (14540, 28, row_14540)"
proof (rule flex_stateI [OF part_at_145 part_at_146 part_at_147 part_at_148 part_length_145 part_length_146 part_length_147 part_length_148, where k = 40])
  show "row_ok (drop 40 yy_transition_145) 0 row_14540 \<and> row_ok yy_transition_146 (100 - int 40) row_14540 \<and>
      row_ok yy_transition_147 (200 - int 40) row_14540 \<and> row_ok yy_transition_148 (300 - int 40) row_14540" by code_simp
  show "snd (yy_transition_145 ! (40 - 1)) = 28" by code_simp
qed simp

lemma flex_state_14578: "flex_state (14578, 29, row_14578)"
proof (rule flex_stateI [OF part_at_145 part_at_146 part_at_147 part_at_148 part_length_145 part_length_146 part_length_147 part_length_148, where k = 78])
  show "row_ok (drop 78 yy_transition_145) 0 row_14578 \<and> row_ok yy_transition_146 (100 - int 78) row_14578 \<and>
      row_ok yy_transition_147 (200 - int 78) row_14578 \<and> row_ok yy_transition_148 (300 - int 78) row_14578" by code_simp
  show "snd (yy_transition_145 ! (78 - 1)) = 29" by code_simp
qed simp

lemma flex_state_14682: "flex_state (14682, 36, row_14682)"
proof (rule flex_stateI [OF part_at_146 part_at_147 part_at_148 part_at_149 part_length_146 part_length_147 part_length_148 part_length_149, where k = 82])
  show "row_ok (drop 82 yy_transition_146) 0 row_14682 \<and> row_ok yy_transition_147 (100 - int 82) row_14682 \<and>
      row_ok yy_transition_148 (200 - int 82) row_14682 \<and> row_ok yy_transition_149 (300 - int 82) row_14682" by code_simp
  show "snd (yy_transition_146 ! (82 - 1)) = 36" by code_simp
qed simp

lemma flex_state_14940: "flex_state (14940, 37, row_14940)"
proof (rule flex_stateI [OF part_at_149 part_at_150 part_at_151 part_at_152 part_length_149 part_length_150 part_length_151 part_length_152, where k = 40])
  show "row_ok (drop 40 yy_transition_149) 0 row_14940 \<and> row_ok yy_transition_150 (100 - int 40) row_14940 \<and>
      row_ok yy_transition_151 (200 - int 40) row_14940 \<and> row_ok yy_transition_152 (300 - int 40) row_14940" by code_simp
  show "snd (yy_transition_149 ! (40 - 1)) = 37" by code_simp
qed simp

lemma flex_state_15197: "flex_state (15197, 28, row_15197)"
proof (rule flex_stateI [OF part_at_151 part_at_152 part_at_153 part_at_154 part_length_151 part_length_152 part_length_153 part_length_154, where k = 97])
  show "row_ok (drop 97 yy_transition_151) 0 row_15197 \<and> row_ok yy_transition_152 (100 - int 97) row_15197 \<and>
      row_ok yy_transition_153 (200 - int 97) row_15197 \<and> row_ok yy_transition_154 (300 - int 97) row_15197" by code_simp
  show "snd (yy_transition_151 ! (97 - 1)) = 28" by code_simp
qed simp

lemma flex_state_15220: "flex_state (15220, 28, row_15220)"
proof (rule flex_stateI [OF part_at_152 part_at_153 part_at_154 part_at_155 part_length_152 part_length_153 part_length_154 part_length_155, where k = 20])
  show "row_ok (drop 20 yy_transition_152) 0 row_15220 \<and> row_ok yy_transition_153 (100 - int 20) row_15220 \<and>
      row_ok yy_transition_154 (200 - int 20) row_15220 \<and> row_ok yy_transition_155 (300 - int 20) row_15220" by code_simp
  show "snd (yy_transition_152 ! (20 - 1)) = 28" by code_simp
qed simp

lemma flex_state_15279: "flex_state (15279, 34, row_15279)"
proof (rule flex_stateI [OF part_at_152 part_at_153 part_at_154 part_at_155 part_length_152 part_length_153 part_length_154 part_length_155, where k = 79])
  show "row_ok (drop 79 yy_transition_152) 0 row_15279 \<and> row_ok yy_transition_153 (100 - int 79) row_15279 \<and>
      row_ok yy_transition_154 (200 - int 79) row_15279 \<and> row_ok yy_transition_155 (300 - int 79) row_15279" by code_simp
  show "snd (yy_transition_152 ! (79 - 1)) = 34" by code_simp
qed simp

lemma flex_state_15536: "flex_state (15536, 2, row_15536)"
proof (rule flex_stateI [OF part_at_155 part_at_156 part_at_157 part_at_158 part_length_155 part_length_156 part_length_157 part_length_158, where k = 36])
  show "row_ok (drop 36 yy_transition_155) 0 row_15536 \<and> row_ok yy_transition_156 (100 - int 36) row_15536 \<and>
      row_ok yy_transition_157 (200 - int 36) row_15536 \<and> row_ok yy_transition_158 (300 - int 36) row_15536" by code_simp
  show "snd (yy_transition_155 ! (36 - 1)) = 2" by code_simp
qed simp

lemma flex_state_15794: "flex_state (15794, 2, row_15794)"
proof (rule flex_stateI [OF part_at_157 part_at_158 part_at_159 part_at_160 part_length_157 part_length_158 part_length_159 part_length_160, where k = 94])
  show "row_ok (drop 94 yy_transition_157) 0 row_15794 \<and> row_ok yy_transition_158 (100 - int 94) row_15794 \<and>
      row_ok yy_transition_159 (200 - int 94) row_15794 \<and> row_ok yy_transition_160 (300 - int 94) row_15794" by code_simp
  show "snd (yy_transition_157 ! (94 - 1)) = 2" by code_simp
qed simp

lemma flex_state_16052: "flex_state (16052, 3, row_16052)"
proof (rule flex_stateI [OF part_at_160 part_at_161 part_at_162 part_at_163 part_length_160 part_length_161 part_length_162 part_length_163, where k = 52])
  show "row_ok (drop 52 yy_transition_160) 0 row_16052 \<and> row_ok yy_transition_161 (100 - int 52) row_16052 \<and>
      row_ok yy_transition_162 (200 - int 52) row_16052 \<and> row_ok yy_transition_163 (300 - int 52) row_16052" by code_simp
  show "snd (yy_transition_160 ! (52 - 1)) = 3" by code_simp
qed simp

lemma flex_state_16054: "flex_state (16054, 59, row_16054)"
proof (rule flex_stateI [OF part_at_160 part_at_161 part_at_162 part_at_163 part_length_160 part_length_161 part_length_162 part_length_163, where k = 54])
  show "row_ok (drop 54 yy_transition_160) 0 row_16054 \<and> row_ok yy_transition_161 (100 - int 54) row_16054 \<and>
      row_ok yy_transition_162 (200 - int 54) row_16054 \<and> row_ok yy_transition_163 (300 - int 54) row_16054" by code_simp
  show "snd (yy_transition_160 ! (54 - 1)) = 59" by code_simp
qed simp

lemma flex_state_16076: "flex_state (16076, 63, row_16076)"
proof (rule flex_stateI [OF part_at_160 part_at_161 part_at_162 part_at_163 part_length_160 part_length_161 part_length_162 part_length_163, where k = 76])
  show "row_ok (drop 76 yy_transition_160) 0 row_16076 \<and> row_ok yy_transition_161 (100 - int 76) row_16076 \<and>
      row_ok yy_transition_162 (200 - int 76) row_16076 \<and> row_ok yy_transition_163 (300 - int 76) row_16076" by code_simp
  show "snd (yy_transition_160 ! (76 - 1)) = 63" by code_simp
qed simp

lemma flex_state_16118: "flex_state (16118, 61, row_16118)"
proof (rule flex_stateI [OF part_at_161 part_at_162 part_at_163 part_at_164 part_length_161 part_length_162 part_length_163 part_length_164, where k = 18])
  show "row_ok (drop 18 yy_transition_161) 0 row_16118 \<and> row_ok yy_transition_162 (100 - int 18) row_16118 \<and>
      row_ok yy_transition_163 (200 - int 18) row_16118 \<and> row_ok yy_transition_164 (300 - int 18) row_16118" by code_simp
  show "snd (yy_transition_161 ! (18 - 1)) = 61" by code_simp
qed simp

lemma flex_state_16144: "flex_state (16144, 4, row_16144)"
proof (rule flex_stateI [OF part_at_161 part_at_162 part_at_163 part_at_164 part_length_161 part_length_162 part_length_163 part_length_164, where k = 44])
  show "row_ok (drop 44 yy_transition_161) 0 row_16144 \<and> row_ok yy_transition_162 (100 - int 44) row_16144 \<and>
      row_ok yy_transition_163 (200 - int 44) row_16144 \<and> row_ok yy_transition_164 (300 - int 44) row_16144" by code_simp
  show "snd (yy_transition_161 ! (44 - 1)) = 4" by code_simp
qed simp

lemma flex_state_16161: "flex_state (16161, 30, row_16161)"
proof (rule flex_stateI [OF part_at_161 part_at_162 part_at_163 part_at_164 part_length_161 part_length_162 part_length_163 part_length_164, where k = 61])
  show "row_ok (drop 61 yy_transition_161) 0 row_16161 \<and> row_ok yy_transition_162 (100 - int 61) row_16161 \<and>
      row_ok yy_transition_163 (200 - int 61) row_16161 \<and> row_ok yy_transition_164 (300 - int 61) row_16161" by code_simp
  show "snd (yy_transition_161 ! (61 - 1)) = 30" by code_simp
qed simp

lemma flex_state_16193: "flex_state (16193, 28, row_16193)"
proof (rule flex_stateI [OF part_at_161 part_at_162 part_at_163 part_at_164 part_length_161 part_length_162 part_length_163 part_length_164, where k = 93])
  show "row_ok (drop 93 yy_transition_161) 0 row_16193 \<and> row_ok yy_transition_162 (100 - int 93) row_16193 \<and>
      row_ok yy_transition_163 (200 - int 93) row_16193 \<and> row_ok yy_transition_164 (300 - int 93) row_16193" by code_simp
  show "snd (yy_transition_161 ! (93 - 1)) = 28" by code_simp
qed simp

lemma flex_state_16231: "flex_state (16231, 28, row_16231)"
proof (rule flex_stateI [OF part_at_162 part_at_163 part_at_164 part_at_165 part_length_162 part_length_163 part_length_164 part_length_165, where k = 31])
  show "row_ok (drop 31 yy_transition_162) 0 row_16231 \<and> row_ok yy_transition_163 (100 - int 31) row_16231 \<and>
      row_ok yy_transition_164 (200 - int 31) row_16231 \<and> row_ok yy_transition_165 (300 - int 31) row_16231" by code_simp
  show "snd (yy_transition_162 ! (31 - 1)) = 28" by code_simp
qed simp

lemma flex_state_16254: "flex_state (16254, 31, row_16254)"
proof (rule flex_stateI [OF part_at_162 part_at_163 part_at_164 part_at_165 part_length_162 part_length_163 part_length_164 part_length_165, where k = 54])
  show "row_ok (drop 54 yy_transition_162) 0 row_16254 \<and> row_ok yy_transition_163 (100 - int 54) row_16254 \<and>
      row_ok yy_transition_164 (200 - int 54) row_16254 \<and> row_ok yy_transition_165 (300 - int 54) row_16254" by code_simp
  show "snd (yy_transition_162 ! (54 - 1)) = 31" by code_simp
qed simp

lemma flex_state_16313: "flex_state (16313, 37, row_16313)"
proof (rule flex_stateI [OF part_at_163 part_at_164 part_at_165 part_at_166 part_length_163 part_length_164 part_length_165 part_length_166, where k = 13])
  show "row_ok (drop 13 yy_transition_163) 0 row_16313 \<and> row_ok yy_transition_164 (100 - int 13) row_16313 \<and>
      row_ok yy_transition_165 (200 - int 13) row_16313 \<and> row_ok yy_transition_166 (300 - int 13) row_16313" by code_simp
  show "snd (yy_transition_163 ! (13 - 1)) = 37" by code_simp
qed simp

lemma flex_state_16570: "flex_state (16570, 28, row_16570)"
proof (rule flex_stateI [OF part_at_165 part_at_166 part_at_167 part_at_168 part_length_165 part_length_166 part_length_167 part_length_168, where k = 70])
  show "row_ok (drop 70 yy_transition_165) 0 row_16570 \<and> row_ok yy_transition_166 (100 - int 70) row_16570 \<and>
      row_ok yy_transition_167 (200 - int 70) row_16570 \<and> row_ok yy_transition_168 (300 - int 70) row_16570" by code_simp
  show "snd (yy_transition_165 ! (70 - 1)) = 28" by code_simp
qed simp

lemma flex_state_16593: "flex_state (16593, 28, row_16593)"
proof (rule flex_stateI [OF part_at_165 part_at_166 part_at_167 part_at_168 part_length_165 part_length_166 part_length_167 part_length_168, where k = 93])
  show "row_ok (drop 93 yy_transition_165) 0 row_16593 \<and> row_ok yy_transition_166 (100 - int 93) row_16593 \<and>
      row_ok yy_transition_167 (200 - int 93) row_16593 \<and> row_ok yy_transition_168 (300 - int 93) row_16593" by code_simp
  show "snd (yy_transition_165 ! (93 - 1)) = 28" by code_simp
qed simp

lemma flex_state_16631: "flex_state (16631, 28, row_16631)"
proof (rule flex_stateI [OF part_at_166 part_at_167 part_at_168 part_at_169 part_length_166 part_length_167 part_length_168 part_length_169, where k = 31])
  show "row_ok (drop 31 yy_transition_166) 0 row_16631 \<and> row_ok yy_transition_167 (100 - int 31) row_16631 \<and>
      row_ok yy_transition_168 (200 - int 31) row_16631 \<and> row_ok yy_transition_169 (300 - int 31) row_16631" by code_simp
  show "snd (yy_transition_166 ! (31 - 1)) = 28" by code_simp
qed simp

lemma flex_state_16654: "flex_state (16654, 28, row_16654)"
proof (rule flex_stateI [OF part_at_166 part_at_167 part_at_168 part_at_169 part_length_166 part_length_167 part_length_168 part_length_169, where k = 54])
  show "row_ok (drop 54 yy_transition_166) 0 row_16654 \<and> row_ok yy_transition_167 (100 - int 54) row_16654 \<and>
      row_ok yy_transition_168 (200 - int 54) row_16654 \<and> row_ok yy_transition_169 (300 - int 54) row_16654" by code_simp
  show "snd (yy_transition_166 ! (54 - 1)) = 28" by code_simp
qed simp

lemma flex_state_16713: "flex_state (16713, 28, row_16713)"
proof (rule flex_stateI [OF part_at_167 part_at_168 part_at_169 part_at_170 part_length_167 part_length_168 part_length_169 part_length_170, where k = 13])
  show "row_ok (drop 13 yy_transition_167) 0 row_16713 \<and> row_ok yy_transition_168 (100 - int 13) row_16713 \<and>
      row_ok yy_transition_169 (200 - int 13) row_16713 \<and> row_ok yy_transition_170 (300 - int 13) row_16713" by code_simp
  show "snd (yy_transition_167 ! (13 - 1)) = 28" by code_simp
qed simp

lemma flex_state_16736: "flex_state (16736, 28, row_16736)"
proof (rule flex_stateI [OF part_at_167 part_at_168 part_at_169 part_at_170 part_length_167 part_length_168 part_length_169 part_length_170, where k = 36])
  show "row_ok (drop 36 yy_transition_167) 0 row_16736 \<and> row_ok yy_transition_168 (100 - int 36) row_16736 \<and>
      row_ok yy_transition_169 (200 - int 36) row_16736 \<and> row_ok yy_transition_170 (300 - int 36) row_16736" by code_simp
  show "snd (yy_transition_167 ! (36 - 1)) = 28" by code_simp
qed simp

lemma flex_state_16774: "flex_state (16774, 28, row_16774)"
proof (rule flex_stateI [OF part_at_167 part_at_168 part_at_169 part_at_170 part_length_167 part_length_168 part_length_169 part_length_170, where k = 74])
  show "row_ok (drop 74 yy_transition_167) 0 row_16774 \<and> row_ok yy_transition_168 (100 - int 74) row_16774 \<and>
      row_ok yy_transition_169 (200 - int 74) row_16774 \<and> row_ok yy_transition_170 (300 - int 74) row_16774" by code_simp
  show "snd (yy_transition_167 ! (74 - 1)) = 28" by code_simp
qed simp

lemma flex_state_16797: "flex_state (16797, 28, row_16797)"
proof (rule flex_stateI [OF part_at_167 part_at_168 part_at_169 part_at_170 part_length_167 part_length_168 part_length_169 part_length_170, where k = 97])
  show "row_ok (drop 97 yy_transition_167) 0 row_16797 \<and> row_ok yy_transition_168 (100 - int 97) row_16797 \<and>
      row_ok yy_transition_169 (200 - int 97) row_16797 \<and> row_ok yy_transition_170 (300 - int 97) row_16797" by code_simp
  show "snd (yy_transition_167 ! (97 - 1)) = 28" by code_simp
qed simp

lemma flex_state_16856: "flex_state (16856, 28, row_16856)"
proof (rule flex_stateI [OF part_at_168 part_at_169 part_at_170 part_at_171 part_length_168 part_length_169 part_length_170 part_length_171, where k = 56])
  show "row_ok (drop 56 yy_transition_168) 0 row_16856 \<and> row_ok yy_transition_169 (100 - int 56) row_16856 \<and>
      row_ok yy_transition_170 (200 - int 56) row_16856 \<and> row_ok yy_transition_171 (300 - int 56) row_16856" by code_simp
  show "snd (yy_transition_168 ! (56 - 1)) = 28" by code_simp
qed simp

lemma flex_state_16879: "flex_state (16879, 28, row_16879)"
proof (rule flex_stateI [OF part_at_168 part_at_169 part_at_170 part_at_171 part_length_168 part_length_169 part_length_170 part_length_171, where k = 79])
  show "row_ok (drop 79 yy_transition_168) 0 row_16879 \<and> row_ok yy_transition_169 (100 - int 79) row_16879 \<and>
      row_ok yy_transition_170 (200 - int 79) row_16879 \<and> row_ok yy_transition_171 (300 - int 79) row_16879" by code_simp
  show "snd (yy_transition_168 ! (79 - 1)) = 28" by code_simp
qed simp

lemma flex_state_16917: "flex_state (16917, 28, row_16917)"
proof (rule flex_stateI [OF part_at_169 part_at_170 part_at_171 part_at_172 part_length_169 part_length_170 part_length_171 part_length_172, where k = 17])
  show "row_ok (drop 17 yy_transition_169) 0 row_16917 \<and> row_ok yy_transition_170 (100 - int 17) row_16917 \<and>
      row_ok yy_transition_171 (200 - int 17) row_16917 \<and> row_ok yy_transition_172 (300 - int 17) row_16917" by code_simp
  show "snd (yy_transition_169 ! (17 - 1)) = 28" by code_simp
qed simp

lemma flex_state_16940: "flex_state (16940, 28, row_16940)"
proof (rule flex_stateI [OF part_at_169 part_at_170 part_at_171 part_at_172 part_length_169 part_length_170 part_length_171 part_length_172, where k = 40])
  show "row_ok (drop 40 yy_transition_169) 0 row_16940 \<and> row_ok yy_transition_170 (100 - int 40) row_16940 \<and>
      row_ok yy_transition_171 (200 - int 40) row_16940 \<and> row_ok yy_transition_172 (300 - int 40) row_16940" by code_simp
  show "snd (yy_transition_169 ! (40 - 1)) = 28" by code_simp
qed simp

lemma flex_state_16999: "flex_state (16999, 28, row_16999)"
proof (rule flex_stateI [OF part_at_169 part_at_170 part_at_171 part_at_172 part_length_169 part_length_170 part_length_171 part_length_172, where k = 99])
  show "row_ok (drop 99 yy_transition_169) 0 row_16999 \<and> row_ok yy_transition_170 (100 - int 99) row_16999 \<and>
      row_ok yy_transition_171 (200 - int 99) row_16999 \<and> row_ok yy_transition_172 (300 - int 99) row_16999" by code_simp
  show "snd (yy_transition_169 ! (99 - 1)) = 28" by code_simp
qed simp

lemma flex_state_17022: "flex_state (17022, 28, row_17022)"
proof (rule flex_stateI [OF part_at_170 part_at_171 part_at_172 part_at_173 part_length_170 part_length_171 part_length_172 part_length_173, where k = 22])
  show "row_ok (drop 22 yy_transition_170) 0 row_17022 \<and> row_ok yy_transition_171 (100 - int 22) row_17022 \<and>
      row_ok yy_transition_172 (200 - int 22) row_17022 \<and> row_ok yy_transition_173 (300 - int 22) row_17022" by code_simp
  show "snd (yy_transition_170 ! (22 - 1)) = 28" by code_simp
qed simp

lemma flex_state_17060: "flex_state (17060, 28, row_17060)"
proof (rule flex_stateI [OF part_at_170 part_at_171 part_at_172 part_at_173 part_length_170 part_length_171 part_length_172 part_length_173, where k = 60])
  show "row_ok (drop 60 yy_transition_170) 0 row_17060 \<and> row_ok yy_transition_171 (100 - int 60) row_17060 \<and>
      row_ok yy_transition_172 (200 - int 60) row_17060 \<and> row_ok yy_transition_173 (300 - int 60) row_17060" by code_simp
  show "snd (yy_transition_170 ! (60 - 1)) = 28" by code_simp
qed simp

lemma flex_state_17083: "flex_state (17083, 28, row_17083)"
proof (rule flex_stateI [OF part_at_170 part_at_171 part_at_172 part_at_173 part_length_170 part_length_171 part_length_172 part_length_173, where k = 83])
  show "row_ok (drop 83 yy_transition_170) 0 row_17083 \<and> row_ok yy_transition_171 (100 - int 83) row_17083 \<and>
      row_ok yy_transition_172 (200 - int 83) row_17083 \<and> row_ok yy_transition_173 (300 - int 83) row_17083" by code_simp
  show "snd (yy_transition_170 ! (83 - 1)) = 28" by code_simp
qed simp

lemma flex_state_17142: "flex_state (17142, 28, row_17142)"
proof (rule flex_stateI [OF part_at_171 part_at_172 part_at_173 part_at_174 part_length_171 part_length_172 part_length_173 part_length_174, where k = 42])
  show "row_ok (drop 42 yy_transition_171) 0 row_17142 \<and> row_ok yy_transition_172 (100 - int 42) row_17142 \<and>
      row_ok yy_transition_173 (200 - int 42) row_17142 \<and> row_ok yy_transition_174 (300 - int 42) row_17142" by code_simp
  show "snd (yy_transition_171 ! (42 - 1)) = 28" by code_simp
qed simp

lemma flex_state_17165: "flex_state (17165, 28, row_17165)"
proof (rule flex_stateI [OF part_at_171 part_at_172 part_at_173 part_at_174 part_length_171 part_length_172 part_length_173 part_length_174, where k = 65])
  show "row_ok (drop 65 yy_transition_171) 0 row_17165 \<and> row_ok yy_transition_172 (100 - int 65) row_17165 \<and>
      row_ok yy_transition_173 (200 - int 65) row_17165 \<and> row_ok yy_transition_174 (300 - int 65) row_17165" by code_simp
  show "snd (yy_transition_171 ! (65 - 1)) = 28" by code_simp
qed simp

lemma flex_states:
  "list_all flex_state states_INITIAL"
  "list_all flex_state states_xb"
  "list_all flex_state states_xc"
  "list_all flex_state states_xd"
  "list_all flex_state states_xh"
  "list_all flex_state states_xq"
  "list_all flex_state states_xqs"
  "list_all flex_state states_xe"
  "list_all flex_state states_xdolq"
  "list_all flex_state states_xui"
  "list_all flex_state states_xus"
  "list_all flex_state states_xeu"
  by (simp_all only: states_INITIAL_def states_xb_def states_xc_def states_xd_def states_xh_def states_xq_def states_xqs_def states_xe_def states_xdolq_def states_xui_def states_xus_def states_xeu_def list.pred_inject
    flex_state_3 flex_state_519 flex_state_1035 flex_state_1551 flex_state_2067 flex_state_2583 flex_state_3099 flex_state_3615
    flex_state_4131 flex_state_4647 flex_state_5163 flex_state_5679 flex_state_6195 flex_state_6197 flex_state_6199 flex_state_6202
    flex_state_6204 flex_state_6217 flex_state_6219 flex_state_6222 flex_state_6224 flex_state_6227 flex_state_6231 flex_state_6236
    flex_state_6244 flex_state_6253 flex_state_6255 flex_state_6257 flex_state_6260 flex_state_6262 flex_state_6272 flex_state_6276
    flex_state_6310 flex_state_6316 flex_state_6318 flex_state_6320 flex_state_6322 flex_state_6324 flex_state_6343 flex_state_6345
    flex_state_6348 flex_state_6372 flex_state_6374 flex_state_6567 flex_state_6569 flex_state_6571 flex_state_6575 flex_state_6578
    flex_state_6580 flex_state_6582 flex_state_6584 flex_state_6586 flex_state_6588 flex_state_6590 flex_state_6592 flex_state_6594
    flex_state_6597 flex_state_6599 flex_state_6607 flex_state_6619 flex_state_6633 flex_state_6635 flex_state_6637 flex_state_6668
    flex_state_6670 flex_state_6735 flex_state_6746 flex_state_6813 flex_state_6845 flex_state_7102 flex_state_7359 flex_state_7616
    flex_state_7873 flex_state_8130 flex_state_8387 flex_state_8645 flex_state_8903 flex_state_9161 flex_state_9419 flex_state_9677
    flex_state_9935 flex_state_9940 flex_state_9956 flex_state_10003 flex_state_10261 flex_state_10519 flex_state_10777 flex_state_11035
    flex_state_11293 flex_state_11295 flex_state_11550 flex_state_11561 flex_state_11578 flex_state_11641 flex_state_11898 flex_state_12156
    flex_state_12181 flex_state_12183 flex_state_12247 flex_state_12269 flex_state_12309 flex_state_12350 flex_state_12417 flex_state_12428
    flex_state_12508 flex_state_12765 flex_state_13023 flex_state_13281 flex_state_13409 flex_state_13667 flex_state_13925 flex_state_14183
    flex_state_14188 flex_state_14204 flex_state_14251 flex_state_14509 flex_state_14517 flex_state_14540 flex_state_14578 flex_state_14682
    flex_state_14940 flex_state_15197 flex_state_15220 flex_state_15279 flex_state_15536 flex_state_15794 flex_state_16052 flex_state_16054
    flex_state_16076 flex_state_16118 flex_state_16144 flex_state_16161 flex_state_16193 flex_state_16231 flex_state_16254 flex_state_16313
    flex_state_16570 flex_state_16593 flex_state_16631 flex_state_16654 flex_state_16713 flex_state_16736 flex_state_16774 flex_state_16797
    flex_state_16856 flex_state_16879 flex_state_16917 flex_state_16940 flex_state_16999 flex_state_17022 flex_state_17060 flex_state_17083
    flex_state_17142 flex_state_17165)

end
