(* ===== verification/Flex_Match.thy ===== *)
theory Flex_Match
  imports Scan_Actions Flex_Rows
begin

text \<open>
  The matcher that flex generated, \<^verbatim>\<open>src_backend_parser_scan.c\<close>: the loop \<^verbatim>\<open>yy_match\<close> over the
  transition table, \<^verbatim>\<open>yy_find_action\<close>, the end of the buffer with \<^verbatim>\<open>yy_get_next_buffer\<close> and the scan
  up to the previous state, and the transition on a zero byte. Together they are \<open>flex_dfa\<close>, the
  argument of the rule actions.

  The section behind shows that on the buffer of a C string the matcher never leaves the table
  and finds the longest run of the automaton whose rows are listed in \<open>Flex_Rows\<close>.
\<close>

section \<open>The matcher\<close>

definition yy_start :: "start_cond \<Rightarrow> int" where
  "yy_start s = 1 + 2 * (case s of INITIAL \<Rightarrow> 0 | xb \<Rightarrow> 1 | xc \<Rightarrow> 2 | xd \<Rightarrow> 3 | xh \<Rightarrow> 4 | xq \<Rightarrow> 5 | xqs \<Rightarrow> 6
     | xe \<Rightarrow> 7 | xdolq \<Rightarrow> 8 | xui \<Rightarrow> 9 | xus \<Rightarrow> 10 | xeu \<Rightarrow> 11)"

definition YY_SC_TO_UI :: "8 word \<Rightarrow> int" where
  "YY_SC_TO_UI c = uint c"

abbreviation YY_END_OF_BUFFER :: int where "YY_END_OF_BUFFER \<equiv> 67"

text \<open>The loop \<^verbatim>\<open>yy_match\<close>, which returns the state and the position where it stops.\<close>

function yy_match :: "bytes \<Rightarrow> int \<Rightarrow> nat \<Rightarrow> (int \<times> nat) res" where
  "yy_match buf st cp =
     bindE (at buf (int cp)) (\<lambda>c.
     bindE (at yy_transition (st + YY_SC_TO_UI c)) (\<lambda>(yy_verify, yy_nxt).
     if yy_verify = YY_SC_TO_UI c then yy_match buf (st + yy_nxt) (cp + 1) else Inr (st, cp)))"
  by pat_completeness auto

termination
  by (relation "measure (\<lambda>(buf, st, cp). length buf - cp)") (auto simp: at_def split: if_splits)

declare yy_match.simps [simp del]

fun yy_get_previous_state :: "int \<Rightarrow> bytes \<Rightarrow> int res" where
  "yy_get_previous_state st [] = Inr st"
| "yy_get_previous_state st (c # cs) =
     bindE (at yy_transition (st + (if c \<noteq> 0 then YY_SC_TO_UI c else 256))) (\<lambda>(yy_verify, yy_nxt).
     yy_get_previous_state (st + yy_nxt) cs)"

definition yy_try_NUL_trans :: "int \<Rightarrow> int option res" where
  "yy_try_NUL_trans st =
     bindE (at yy_transition (st + 256)) (\<lambda>(yy_verify, yy_nxt). Inr (if yy_verify \<noteq> 256 then None else Some (st + yy_nxt)))"

text \<open>\<^verbatim>\<open>yy_get_next_buffer\<close> of a buffer that is never refilled.\<close>

datatype eob_act = EOB_ACT_END_OF_FILE | EOB_ACT_LAST_MATCH

definition yy_get_next_buffer :: "nat \<Rightarrow> nat \<Rightarrow> eob_act" where
  "yy_get_next_buffer bp cp = (if cp - bp = 1 then EOB_ACT_END_OF_FILE else EOB_ACT_LAST_MATCH)"

definition yy_find_action :: "int \<Rightarrow> int res" where
  "yy_find_action st = bindE (at yy_transition (st - 1)) (\<lambda>(yy_verify, yy_nxt). Inr yy_nxt)"

text \<open>
  One match from \<open>bp\<close> on, continued from state \<open>st\<close> at \<open>cp\<close>; \<open>start\<close> is the state of the start
  condition and \<open>n\<close> is \<^verbatim>\<open>yy_n_chars\<close>. The text that is scanned has no zero bytes, so the branch of a
  zero inside the buffer is not taken; it is here because the code has it.
\<close>

function yy_scan :: "bytes \<Rightarrow> nat \<Rightarrow> int \<Rightarrow> nat \<Rightarrow> int \<Rightarrow> nat \<Rightarrow> yy_act res" where
  "yy_scan buf n start bp st cp0 =
     bindE (yy_match buf st cp0) (\<lambda>(st, cp).
     bindE (yy_find_action st) (\<lambda>act.
     if act \<noteq> YY_END_OF_BUFFER then Inr (Rule (nat act) (cp - bp))
     else if cp \<le> cp0 then Inl Diverges
     else if cp \<le> n then
       bindE (yy_get_previous_state start (take (cp - bp - 1) (drop bp buf))) (\<lambda>st.
       bindE (yy_try_NUL_trans st) (\<lambda>next. case next of
         Some st' \<Rightarrow> yy_scan buf n start bp st' cp
       | None \<Rightarrow> bindE (yy_find_action st) (\<lambda>act. Inr (Rule (nat act) (cp - bp - 1)))))
     else case yy_get_next_buffer bp cp of
       EOB_ACT_END_OF_FILE \<Rightarrow> Inr Eof
     | EOB_ACT_LAST_MATCH \<Rightarrow>
         bindE (yy_get_previous_state start (take (n - bp) (drop bp buf))) (\<lambda>st.
         bindE (yy_find_action st) (\<lambda>act. Inr (Rule (nat act) (n - bp))))))"
  by pat_completeness auto

termination
  by (relation "measure (\<lambda>(buf, n, start, bp, st, cp). Suc n - cp)") auto

declare yy_scan.simps [simp del]

definition flex_scan :: "start_cond \<Rightarrow> bytes \<Rightarrow> nat \<Rightarrow> yy_act res" where
  "flex_scan s buf bp =
     bindE (at yy_start_state_list (yy_start s)) (\<lambda>start. yy_scan buf (length buf - 2) start bp start bp)"

text \<open>The matcher as the argument of \<open>core_yylex_run\<close>. That the second case does not occur is \<open>flex_scan_runs\<close>.\<close>

definition flex_dfa :: dfa where
  "flex_dfa s buf bp = (case flex_scan s buf bp of Inr a \<Rightarrow> a | Inl e \<Rightarrow> Rule 66 0)"

section \<open>The automaton\<close>

definition states :: "start_cond \<Rightarrow> (int \<times> int \<times> row) list" where
  "states s =
     (case s of
        INITIAL \<Rightarrow> states_INITIAL | xb \<Rightarrow> states_xb | xc \<Rightarrow> states_xc | xd \<Rightarrow> states_xd | xh \<Rightarrow> states_xh
      | xq \<Rightarrow> states_xq | xqs \<Rightarrow> states_xqs | xe \<Rightarrow> states_xe | xdolq \<Rightarrow> states_xdolq | xui \<Rightarrow> states_xui
      | xus \<Rightarrow> states_xus | xeu \<Rightarrow> states_xeu)"

definition start_state :: "start_cond \<Rightarrow> int" where
  "start_state s = yy_start_state_list ! nat (yy_start s)"

definition next_state :: "start_cond \<Rightarrow> int \<Rightarrow> 8 word \<Rightarrow> int option" where
  "next_state s b c =
     (case map_of (states s) b of None \<Rightarrow> None | Some (a, r) \<Rightarrow> map_option (\<lambda>n. b + n) (row_lookup r (uint c)))"

definition state_rule :: "start_cond \<Rightarrow> int \<Rightarrow> nat" where
  "state_rule s b = (case map_of (states s) b of None \<Rightarrow> 66 | Some (a, r) \<Rightarrow> nat a)"

fun longest_run :: "start_cond \<Rightarrow> int \<Rightarrow> bytes \<Rightarrow> int \<times> nat" where
  "longest_run s b [] = (b, 0)"
| "longest_run s b (c # cs) =
     (case next_state s b c of
        None \<Rightarrow> (b, 0)
      | Some b' \<Rightarrow> (case longest_run s b' cs of (e, n) \<Rightarrow> (e, Suc n)))"

definition longest_match :: "start_cond \<Rightarrow> bytes \<Rightarrow> yy_act" where
  "longest_match s cs = (if cs = [] then Eof else case longest_run s (start_state s) cs of (b, n) \<Rightarrow> Rule (state_rule s b) n)"

text \<open>
  What is checked of every state: the zero byte leads to the state of the end of the buffer, any
  other byte stays among the states of the start condition, and the rule is not the end of the buffer.
\<close>

fun targets_ok :: "int \<Rightarrow> int list \<Rightarrow> row \<Rightarrow> bool" where
  "targets_ok b bs [] = True"
| "targets_ok b bs ((hi, None) # r) = targets_ok b bs r"
| "targets_ok b bs ((hi, Some n) # r) = (b + n \<in> set bs \<and> targets_ok b bs r)"

definition state_closed :: "int list \<Rightarrow> int \<times> int \<times> row \<Rightarrow> bool" where
  "state_closed bs s = (case s of (b, a, r) \<Rightarrow>
     0 \<le> a \<and> a \<noteq> YY_END_OF_BUFFER \<and> (case r of [] \<Rightarrow> False | (hi, t) # r' \<Rightarrow> hi = 1 \<and> t = Some (17423 - b) \<and> targets_ok b bs r'))"

lemma states_closed: "list_all (state_closed (map fst (states s))) (states s)"
  by (cases s; simp only: states_def start_cond.case) code_simp+

lemma start_state: "start_state s \<in> fst ` set (states s)"
proof -
  have "start_state s \<in> set (map fst (states s))"
    by (cases s; simp only: states_def start_state_def yy_start_def start_cond.case) code_simp+
  then show ?thesis by simp
qed

lemma flex_state_of:
  assumes "map_of (states s) b = Some (a, r)"
  shows "flex_state (b, a, r)"
proof -
  have "list_all flex_state (states s)" by (cases s) (simp_all add: states_def flex_states)
  then show ?thesis using map_of_SomeD [OF assms] by (auto simp: list_all_iff)
qed

lemma state_closed_of:
  "map_of (states s) b = Some (a, r) \<Longrightarrow> state_closed (map fst (states s)) (b, a, r)"
  using states_closed [of s] map_of_SomeD by (fastforce simp: list_all_iff)

lemma state_known: "b \<in> fst ` set (states s) \<Longrightarrow> \<exists>a r. map_of (states s) b = Some (a, r)"
  by (metis (no_types, opaque_lifting) map_of_eq_None_iff not_None_eq surj_pair)

lemma targets_ok_lookup:
  "targets_ok b bs r \<Longrightarrow> row_lookup r c = Some n \<Longrightarrow> b + n \<in> set bs"
  by (induction b bs r rule: targets_ok.induct) (auto split: if_splits)

lemma uint_byte: "0 \<le> uint (c :: 8 word)" "uint (c :: 8 word) < 256" "c \<noteq> 0 \<Longrightarrow> 1 \<le> uint (c :: 8 word)"
proof -
  show "0 \<le> uint c" "uint c < 256" using uint_bounded [of c] by simp_all
  show "1 \<le> uint c" if "c \<noteq> 0" using that \<open>0 \<le> uint c\<close> by (metis int_one_le_iff_zero_less less_le uint_0_iff)
qed

lemma next_state_closed:
  assumes "b \<in> fst ` set (states s)" "c \<noteq> 0" "next_state s b c = Some b'"
  shows "b' \<in> fst ` set (states s)"
proof -
  obtain a r where r: "map_of (states s) b = Some (a, r)" using state_known [OF assms(1)] by blast
  obtain n where n: "row_lookup r (uint c) = Some n" "b' = b + n" using assms(3) r by (auto simp: next_state_def)
  obtain t r' where r': "r = (1, t) # r'" "targets_ok b (map fst (states s)) r'"
    using state_closed_of [OF r] by (auto simp: state_closed_def split: list.splits)
  then have "row_lookup r' (uint c) = Some n" using n(1) uint_byte(3) [OF assms(2)] by simp
  then show ?thesis using targets_ok_lookup [OF r'(2)] n(2) by simp
qed

lemma at_behind: "at (pre @ x # rest) (int (length pre)) = Inr x"
  by (simp add: at_def)

lemma next_entry:
  assumes "b \<in> fst ` set (states s)"
  shows "\<exists>v n. at yy_transition (b + uint c) = Inr (v, n) \<and>
    (case next_state s b c of None \<Rightarrow> v \<noteq> uint c | Some b' \<Rightarrow> v = uint c \<and> b + n = b')"
proof -
  obtain a r where r: "map_of (states s) b = Some (a, r)" using state_known [OF assms] by blast
  have "0 < b" "b + 256 \<le> int (length yy_transition)" and e: "entry_ok (yy_transition ! nat (b + uint c)) (uint c) (row_lookup r (uint c))"
    using flex_state_of [OF r] uint_byte(1,2) [of c] by (auto simp: flex_state_def)
  then have "at yy_transition (b + uint c) = Inr (yy_transition ! nat (b + uint c))"
    using uint_byte(1,2) [of c] by (simp add: at_def not_less add_nonneg_nonneg)
  then show ?thesis using e r by (cases "yy_transition ! nat (b + uint c)") (auto simp: entry_ok_def next_state_def split: option.splits)
qed

lemma zero_entry:
  assumes "b \<in> fst ` set (states s)"
  shows "at yy_transition b = Inr (0, 17423 - b)"
proof -
  obtain a r where r: "map_of (states s) b = Some (a, r)" using state_known [OF assms] by blast
  then have "next_state s b 0 = Some 17423" using state_closed_of [OF r] by (auto simp: next_state_def state_closed_def split: list.splits)
  then show ?thesis using next_entry [OF assms, of 0] by auto
qed

lemma last_state: "at yy_transition 17423 = Inr (1, 0)" "yy_find_action 17423 = Inr YY_END_OF_BUFFER"
proof -
  have "yy_transition ! 17423 = yy_transition_174 ! 23" using yy_transition_nth [of 174 23] part_at_174 by simp
  moreover have "yy_transition_174 ! 23 = (1, 0)" by (simp add: yy_transition_174_def)
  ultimately show "at yy_transition 17423 = Inr (1, 0)" by (simp add: at_def length_yy_transition)
  have "yy_transition ! 17422 = yy_transition_174 ! 22" using yy_transition_nth [of 174 22] part_at_174 by simp
  moreover have "yy_transition_174 ! 22 = (257, 67)" by (simp add: yy_transition_174_def)
  ultimately show "yy_find_action 17423 = Inr YY_END_OF_BUFFER" by (simp add: yy_find_action_def at_def length_yy_transition)
qed

lemma find_action:
  assumes "b \<in> fst ` set (states s)"
  shows "\<exists>a. yy_find_action b = Inr a \<and> a \<noteq> YY_END_OF_BUFFER \<and> nat a = state_rule s b"
proof -
  obtain a r where r: "map_of (states s) b = Some (a, r)" using state_known [OF assms] by blast
  then have "yy_find_action b = Inr a" using flex_state_of [OF r]
    by (cases "yy_transition ! nat (b - 1)") (auto simp: flex_state_def yy_find_action_def at_def)
  then show ?thesis using r state_closed_of [OF r] by (auto simp: state_closed_def state_rule_def)
qed

section \<open>The matcher runs the automaton\<close>

lemma longest_run_bounds:
  "b \<in> fst ` set (states s) \<Longrightarrow> 0 \<notin> set cs \<Longrightarrow> longest_run s b cs = (e, n) \<Longrightarrow> n \<le> length cs \<and> e \<in> fst ` set (states s)"
proof (induction cs arbitrary: b n)
  case (Cons c cs)
  then have "c \<noteq> 0" by auto
  then show ?case using Cons next_state_closed [OF Cons.prems(1)] by (force split: option.splits prod.splits)
qed simp

lemma yy_match_run:
  assumes "b \<in> fst ` set (states s)" "0 \<notin> set cs" "longest_run s b cs = (e, n)"
  shows "yy_match (pre @ cs @ [0, 0]) b (length pre) =
    Inr (if n = length cs then (17423, length pre + n + 1) else (e, length pre + n))"
  using assms
proof (induction cs arbitrary: pre b n)
  case Nil
  have "yy_match (pre @ [0, 0]) 17423 (Suc (length pre)) = Inr (17423, Suc (length pre))"
    using last_state(1) at_behind [of "pre @ [0]" "0 :: 8 word" "[]"] by (subst yy_match.simps) (simp add: YY_SC_TO_UI_def)
  then show ?case using Nil zero_entry [OF Nil.prems(1)] at_behind [of pre "0 :: 8 word" "[0]"]
    by (subst yy_match.simps) (simp add: YY_SC_TO_UI_def)
next
  case (Cons c cs)
  have c: "at (pre @ (c # cs) @ [0, 0]) (int (length pre)) = Inr c" using at_behind [of pre c "cs @ [0, 0]"] by simp
  obtain v k where e: "at yy_transition (b + uint c) = Inr (v, k)"
    "case next_state s b c of None \<Rightarrow> v \<noteq> uint c | Some b' \<Rightarrow> v = uint c \<and> b + k = b'" using next_entry [OF Cons.prems(1)] by blast
  show ?case
  proof (cases "next_state s b c")
    case None
    then show ?thesis using c e Cons.prems(3) by (subst yy_match.simps) (simp add: YY_SC_TO_UI_def)
  next
    case (Some b')
    obtain m where m: "longest_run s b' cs = (e, m)" "n = Suc m" using Cons.prems(3) Some by (auto split: prod.splits)
    have "c \<noteq> 0" using Cons.prems(2) by auto
    then have "b' \<in> fst ` set (states s)" using next_state_closed [OF Cons.prems(1) _ Some] by blast
    from Cons.IH [OF this _ m(1), of "pre @ [c]"] Cons.prems(2)
    have "yy_match (pre @ (c # cs) @ [0, 0]) b' (Suc (length pre)) = Inr (if m = length cs then (17423, length pre + m + 2) else (e, length pre + m + 1))"
      by (auto split: if_splits)
    then show ?thesis using c e Some m(2) by (subst yy_match.simps) (simp add: YY_SC_TO_UI_def)
  qed
qed

lemma yy_get_previous_state_run:
  "b \<in> fst ` set (states s) \<Longrightarrow> 0 \<notin> set cs \<Longrightarrow> longest_run s b cs = (e, length cs) \<Longrightarrow> yy_get_previous_state b cs = Inr e"
proof (induction cs arbitrary: b)
  case (Cons c cs)
  obtain v k where e: "at yy_transition (b + uint c) = Inr (v, k)"
    "case next_state s b c of None \<Rightarrow> v \<noteq> uint c | Some b' \<Rightarrow> v = uint c \<and> b + k = b'" using next_entry [OF Cons.prems(1)] by blast
  obtain b' where b': "next_state s b c = Some b'" "longest_run s b' cs = (e, length cs)"
    using Cons.prems(3) by (auto split: option.splits prod.splits)
  have "c \<noteq> 0" using Cons.prems(2) by auto
  moreover from this have "b' \<in> fst ` set (states s)" using next_state_closed [OF Cons.prems(1) _ b'(1)] by blast
  ultimately show ?case using Cons b' e by (simp add: YY_SC_TO_UI_def)
qed simp

lemma flex_scan_runs:
  assumes "0 \<notin> set str" "p \<le> length str"
  shows "flex_scan s (str @ [0, 0]) p = Inr (longest_match s (drop p str))"
proof -
  define cs where "cs = drop p str"
  obtain e n where run: "longest_run s (start_state s) cs = (e, n)" by fastforce
  have z: "0 \<notin> set cs" using assms(1) by (auto simp: cs_def dest: in_set_dropD)
  have len: "length str = p + length cs" using assms(2) by (simp add: cs_def)
  have e: "n \<le> length cs" "e \<in> fst ` set (states s)" using longest_run_bounds [OF start_state z run] by simp_all
  obtain a where a: "yy_find_action e = Inr a" "a \<noteq> YY_END_OF_BUFFER" "nat a = state_rule s e" using find_action [OF e(2)] by blast
  have m: "yy_match (str @ [0, 0]) (start_state s) p = Inr (if n = length cs then (17423, p + n + 1) else (e, p + n))"
  proof -
    have "take p str @ cs @ [0, 0] = str @ [0, 0]" unfolding cs_def by (metis append_assoc append_take_drop_id)
    moreover have "length (take p str) = p" using assms(2) by simp
    ultimately show ?thesis using yy_match_run [OF start_state z run, of "take p str"] by (simp only:)
  qed
  have start: "at yy_start_state_list (yy_start s) = Inr (start_state s)"
    by (cases s) (simp_all add: at_def yy_start_def start_state_def yy_start_state_list_def)
  have tk: "take (length cs) (drop p (str @ [0, 0])) = cs" using assms(2) by (simp add: cs_def)
  show ?thesis
  proof (cases "n = length cs")
    case False
    then have "cs \<noteq> []" using e(1) by auto
    then show ?thesis using m a start False run len
      by (simp add: flex_scan_def yy_scan.simps longest_match_def cs_def [symmetric])
  next
    case True
    have prev: "yy_get_previous_state (start_state s) cs = Inr e"
      using yy_get_previous_state_run [OF start_state z] run True by simp
    show ?thesis
    proof (cases "cs = []")
      case empty: True
      then show ?thesis using m start True len last_state(2)
        by (simp add: flex_scan_def yy_scan.simps longest_match_def cs_def [symmetric] yy_get_next_buffer_def)
    next
      case False
      then show ?thesis using m start True len last_state(2) prev a run tk
        by (simp add: flex_scan_def yy_scan.simps longest_match_def cs_def [symmetric] yy_get_next_buffer_def)
    qed
  qed
qed

lemma flex_dfa_longest_match:
  "0 \<notin> set str \<Longrightarrow> p \<le> length str \<Longrightarrow> flex_dfa s (str @ [0, 0]) p = longest_match s (drop p str)"
  by (simp add: flex_dfa_def flex_scan_runs)

end
