(* ===== verification/Scan_Total.thy ===== *)
theory Scan_Total
  imports Scan_Actions
begin

text \<open>
  The scanner as a whole: what its actions need of the generated tables (\<open>dfa_ok\<close>), the invariant
  \<open>mid\<close> that holds between two rules of one token, and the consequence that a call of
  \<open>core_yylex\<close> always returns, with a token inside the text or with an error message, and never
  leaves a buffer, reads an unset cell or overflows.
\<close>

section \<open>Errors that are messages\<close>

definition is_elog :: "pg_error \<Rightarrow> bool" where
  "is_elog e \<longleftrightarrow> (case e of Elog m \<Rightarrow> True | _ \<Rightarrow> False)"

lemma is_elog_simps [simp]: "is_elog (Elog m)"
  by (simp add: is_elog_def)

text \<open>A call that returns, or leaves with a message.\<close>

definition safe :: "('a \<Rightarrow> bool) \<Rightarrow> 'a res \<Rightarrow> bool" where
  "safe P r \<longleftrightarrow> (case r of Inl e \<Rightarrow> is_elog e | Inr x \<Rightarrow> P x)"

lemma safe_simps [simp]: "safe P (Inr x) = P x" "safe P (Inl e) = is_elog e"
  by (simp_all add: safe_def)

lemma safe_bindE: "safe (\<lambda>x. safe P (f x)) r \<Longrightarrow> safe P (bindE r f)"
  by (cases r) simp_all

lemma safe_mono: "safe P r \<Longrightarrow> (\<And>x. P x \<Longrightarrow> Q x) \<Longrightarrow> safe Q r"
  by (cases r) simp_all

lemma safe_bind: "safe P r \<Longrightarrow> (\<And>x. P x \<Longrightarrow> safe Q (f x)) \<Longrightarrow> safe Q (bindE r f)"
  by (cases r) simp_all

lemma c_str_total: "0 \<in> set s \<Longrightarrow> \<exists>t. c_str s = Inr t"
  by (induction s) auto

lemma scanner_yyerror_elog:
  assumes "loc < length buf" "0 \<in> set (drop loc buf)"
  shows "\<exists>m. scanner_yyerror msg buf loc = Inl (Elog m)"
  using assms c_str_total [OF assms(2)] by (auto simp: scanner_yyerror_def at_def)

lemma yyerror_safe:
  fixes P :: "'a \<Rightarrow> bool"
  assumes "0 \<le> yyloc lx" "yyloc lx \<le> int (length str)" "buf = scan_text str"
  shows "safe P (yyerror msg buf lx)"
proof -
  have l: "nat (yyloc lx) < length (buf[yypos lx := 0])" using assms by auto
  have "(buf[yypos lx := 0]) ! (length str + 1) = 0" using assms(3)
    by (cases "yypos lx = length str + 1") (simp_all add: nth_append)
  then have "0 \<in> set (drop (nat (yyloc lx)) (buf[yypos lx := 0]))"
    using assms by (auto simp: in_set_conv_nth intro!: exI [of _ "length str + 1 - nat (yyloc lx)"])
  then have "\<exists>m. (scanner_yyerror msg (buf[yypos lx := 0]) (nat (yyloc lx)) :: 'a res) = Inl (Elog m)"
    by (rule scanner_yyerror_elog [OF l])
  then show ?thesis by (auto simp: yyerror_def)
qed

lemma c_text_total: "0 \<in> set t \<Longrightarrow> \<exists>s. c_text (map Some t @ r) = Inr s"
  by (induction t) auto

lemma initialised_map [simp]: "initialised (map Some s) = Inr s"
  by (induction s) auto

section \<open>Helpers in UTF-8\<close>

lemma utf_mblen_total: "s \<noteq> [] \<Longrightarrow> \<exists>l. pg_utf_mblen s = Inr l \<and> 1 \<le> l \<and> l \<le> 4"
  by (auto simp: pg_utf_mblen_def at_def)

text \<open>Clipping ends in front of the limit for any bytes, valid or not.\<close>

lemma mbcliplen_total:
  assumes "0 \<le> clen" "clen < limit" "limit \<le> 63" "limit - clen \<le> len" "len \<le> int (length s)"
  shows "\<exists>r. mbcliplen_loop pg_utf_mblen s len limit clen = Inr r \<and> 0 \<le> r \<and> r \<le> limit"
  using assms
proof (induction "nat len" arbitrary: s len clen rule: less_induct)
  case less
  have "0 < len" "s \<noteq> []" using less.prems by auto
  obtain l where l: "pg_utf_mblen s = Inr l" "1 \<le> l" "l \<le> 4" using utf_mblen_total [OF \<open>s \<noteq> []\<close>] by blast
  have c: "c_int (clen + l) = Inr (clen + l)" using less.prems l by (intro c_int_ok) simp_all
  show ?case
  proof (cases "s ! 0 \<noteq> 0 \<and> clen + l < limit")
    case True
    have "\<exists>r. mbcliplen_loop pg_utf_mblen (drop (nat l) s) (len - l) limit (clen + l) = Inr r \<and> 0 \<le> r \<and> r \<le> limit"
      by (rule less.hyps) (use True l less.prems in auto)
    then show ?thesis using True l c \<open>0 < len\<close> \<open>s \<noteq> []\<close> by (subst mbcliplen_loop.simps) (simp add: at_def)
  next
    case False
    then show ?thesis using l c \<open>0 < len\<close> \<open>s \<noteq> []\<close> less.prems by (subst mbcliplen_loop.simps) (auto simp: at_def)
  qed
qed

lemma written_map: "written (map Some t) = t"
  using written_text [of t] by simp

lemma truncate_identifier_total:
  assumes "encoding db = 6" "length t = n" "64 \<le> n"
  shows "\<exists>b notice s. truncate_identifier db (map Some (t @ [0])) (int n) True = Inr (b, notice) \<and> c_text b = Inr s"
proof -
  let ?b = "map Some (t @ [0])"
  have "\<exists>r. mbcliplen_loop pg_utf_mblen (t @ [0]) (int n) 63 0 = Inr r \<and> 0 \<le> r \<and> r \<le> 63"
    by (rule mbcliplen_total) (use assms in simp_all)
  then obtain k where k: "mbcliplen_loop pg_utf_mblen (t @ [0]) (int n) 63 0 = Inr (int k)" "k \<le> 63"
    by (metis nonneg_int_cases of_nat_le_iff of_nat_numeral)
  have mbl: "mblen utf8_entry = pg_utf_mblen" "maxmblen utf8_entry = 4" by (simp_all add: server_entry_def)
  have clip: "pg_mbcliplen db (written ?b) (int n) 63 = Inr (int k)"
    unfolding written_map using k(1) assms(1) utf8_entry_facts(1,3) mbl
    by (simp add: pg_mbcliplen_def pg_encoding_mbcliplen_def pg_encoding_max_length_def)
  have src: "cells ?b 0 (int k) = Inr (map Some (take k t))"
    using cells_ok [of 0 k ?b] assms(2,3) k(2) by (simp add: take_map)
  have buf: "memcpy_to (replicate 64 None) 0 (map Some (take k t)) = Inr (map Some (take k t) @ replicate (64 - k) None)"
    using memcpy_to_ok [of 0 "map Some (take k t)" "replicate 64 None"] assms(2,3) k(2) by (simp add: min_def)
  have zero: "store (map Some (take k t) @ replicate (64 - k) None) (int k) 0 = Inr (map Some (take k t) @ Some 0 # replicate (63 - k) None)"
  proof -
    have "replicate (64 - k) None = None # replicate (63 - k) (None :: 8 word option)" using k(2) by (simp flip: replicate_Suc)
    moreover have "int k = int (length (map Some (take k t)))" using assms(2,3) k(2) by simp
    ultimately show ?thesis by (simp only: store_split)
  qed
  obtain shown where shown: "c_text ?b = Inr shown" using c_text_total [of "t @ [0]" "[]"] by auto
  obtain cut where cut: "c_text (map Some (take k t) @ Some 0 # replicate (63 - k) None) = Inr cut"
    using c_text_total [of "take k t @ [0]" "replicate (63 - k) None"] by auto
  have out: "store ?b (int k) 0 = Inr (map Some ((t @ [0])[k := 0]))" using assms(2,3) k(2) by (simp add: store_ok map_update)
  have "0 \<in> set ((t @ [0])[k := 0])" using assms(2,3) k(2) by (simp add: set_update_memI)
  then obtain s where s: "c_text (map Some ((t @ [0])[k := 0])) = Inr s" using c_text_total [of "(t @ [0])[k := 0]" "[]"] by auto
  show ?thesis using clip src buf zero shown cut out s assms(3) by (simp add: truncate_identifier_def)
qed

lemma downcase_total:
  assumes "encoding db = 6" "int (length word) + 1 \<le> MaxAllocSize"
  shows "\<exists>b notice s. downcase_truncate_identifier up low db word (int (length word)) True = Inr (b, notice) \<and> c_text b = Inr s"
proof -
  let ?text = "map (downcase_char up low (maxmblen utf8_entry = 1)) word"
  have t: "at pg_wchar_table (encoding db) = Inr utf8_entry" using assms(1) utf8_entry_facts(1) by simp
  note run = downcase_truncate_run [OF t le_refl assms(2), of ?text up low True]
  show ?thesis
  proof (cases "64 \<le> length word")
    case True
    then show ?thesis using run truncate_identifier_total [OF assms(1), of ?text "length word"] by simp
  next
    case False
    then show ?thesis using run c_text_total [of "?text @ [0]" "[]"] by simp
  qed
qed

lemma verify_total:
  assumes "encoding db = 6" "length s = n"
  shows "safe (\<lambda>x. True) (pg_verifymbstr db s (int n) False)"
proof (cases "\<exists>ks. chars_ok (mbverify utf8_entry) s n ks")
  case True
  then obtain ks where "chars_ok (mbverify utf8_entry) s n ks" by blast
  from pg_verify_mbstr_len_valid [OF utf8_entry_facts(3,1) _ this] assms
  show ?thesis by (simp add: pg_verifymbstr_def GetDatabaseEncoding_def)
next
  case False
  obtain k m where km: "k < n" "0 < m" "k + m \<le> n" "pg_verify_mbstr_len 6 s (int n) False = reject 6 (drop k s) (int m) False"
    using pg_verify_mbstr_len_invalid [OF utf8_entry_facts(3,1) _ False] assms(2) by blast
  obtain l where "pg_encoding_mblen 6 (drop k s) = Inr l" "1 \<le> l"
    using server_entry_mblen [OF utf8_entry_facts(4), of "drop k s"] km assms(2) by auto
  moreover have "m \<le> length (drop k s)" using km assms(2) by simp
  ultimately have "(report_invalid_encoding 6 (drop k s) (int m) :: int res) = Inl (Elog (invalid_message 6 (take (min (min (nat l) m) 8) (drop k s))))"
    using km(2) by (intro report_invalid_encoding_ok [OF utf8_entry_facts(3)])
  then have "\<exists>e. reject 6 (drop k s) (int m) False = Inl (Elog e)" by (simp add: reject_def)
  then show ?thesis using km(4) assms(1) by (auto simp: pg_verifymbstr_def GetDatabaseEncoding_def)
qed

section \<open>What the tables promise\<close>

text \<open>
  The rules of each start condition, and the shape of the text a rule can match where its action
  depends on it: the longest match is taken, and of two rules with the same match the first one,
  so a comment is never seen by the operator rule.
\<close>

definition rules_of :: "start_cond \<Rightarrow> nat list" where
  "rules_of s =
     (case s of
        INITIAL \<Rightarrow> [1, 2, 3, 9, 12, 13, 14, 15, 16, 33, 34, 39, 40] @ [45..<66]
      | xb \<Rightarrow> [11, 17] | xh \<Rightarrow> [10, 17] | xc \<Rightarrow> [4..<9] | xq \<Rightarrow> [17, 21, 22] | xus \<Rightarrow> [17, 21, 22]
      | xe \<Rightarrow> [17, 21, 23, 24, 28, 29, 30, 31, 32] | xeu \<Rightarrow> [25, 26, 27, 28] | xqs \<Rightarrow> [18, 19, 20]
      | xdolq \<Rightarrow> [35, 36, 37, 38] | xd \<Rightarrow> [41, 43, 44] | xui \<Rightarrow> [42, 43, 44])"

lemma rule_start:
  assumes "r \<in> set (rules_of s)"
  shows "1 \<le> r \<and> r \<le> 65" "r \<le> 3 \<or> r \<in> {9, 12, 13, 14, 15, 16, 33, 34, 39, 40} \<or> 45 \<le> r \<Longrightarrow> s = INITIAL"
    "4 \<le> r \<and> r \<le> 8 \<Longrightarrow> s = xc" "r = 10 \<Longrightarrow> s = xh" "r = 11 \<Longrightarrow> s = xb" "r = 17 \<Longrightarrow> s \<in> {xb, xh, xq, xe, xus}"
    "18 \<le> r \<and> r \<le> 20 \<Longrightarrow> s = xqs" "r = 21 \<Longrightarrow> s \<in> {xq, xe, xus}" "r = 22 \<Longrightarrow> s \<in> {xq, xus}"
    "r = 23 \<or> r = 24 \<or> 29 \<le> r \<and> r \<le> 32 \<Longrightarrow> s = xe" "r \<in> {25, 26, 27} \<Longrightarrow> s = xeu" "r = 28 \<Longrightarrow> s \<in> {xe, xeu}"
    "35 \<le> r \<and> r \<le> 38 \<Longrightarrow> s = xdolq" "r = 41 \<Longrightarrow> s = xd" "r = 42 \<Longrightarrow> s = xui" "r \<in> {43, 44} \<Longrightarrow> s \<in> {xd, xui}"
  using assms by (cases s; auto simp: rules_of_def)+

definition operator_text :: "bytes \<Rightarrow> bool" where
  "operator_text s \<longleftrightarrow> s \<noteq> [] \<and> comment_start s \<noteq> Some 0"

definition rule_text :: "nat \<Rightarrow> bytes \<Rightarrow> bool" where
  "rule_text r s =
     (if r \<in> {3, 4} then take 2 s = [0x2f, 0x2a]
      else if r = 29 then length s = 2
      else if r = 35 then 2 \<le> length s
      else if r = 46 then length s = 2 \<and> s ! 0 \<in> {0x65, 0x45} \<and> s ! 1 = 0x3f
      else if r = 56 then operator_text s
      else if r = 62 then 2 \<le> length s
      else if r \<in> {60, 63} then 3 \<le> length s
      else if r = 64 then s \<noteq> [0x3f] \<and> s \<noteq> []
      else s \<noteq> [])"

definition match_ok :: "start_cond \<Rightarrow> bytes \<Rightarrow> nat \<Rightarrow> yy_act \<Rightarrow> bool" where
  "match_ok s str p m =
     (case m of
        Eof \<Rightarrow> p = length str
      | Rule r n \<Rightarrow> 0 < n \<and> p + n \<le> length str \<and> r \<in> set (rules_of s) \<and> rule_text r (take n (drop p str)))"

definition start_conds :: "start_cond list" where
  "start_conds = [INITIAL, xb, xc, xd, xh, xq, xqs, xe, xdolq, xui, xus, xeu]"

definition dfa_ok :: "dfa \<Rightarrow> bytes \<Rightarrow> bool" where
  "dfa_ok dfa str \<longleftrightarrow>
     list_all (\<lambda>s. list_all (\<lambda>p. match_ok s str p (dfa s (scan_text str) p)) [0..<Suc (length str)]) start_conds"

text \<open>The configuration of the library: the keywords of the core grammar, and UTF-8.\<close>

definition config_ok :: "scan_config \<Rightarrow> bool" where
  "config_ok cfg \<longleftrightarrow>
     encoding (server cfg) = 6 \<and> keywordlist cfg = ScanKeywords \<and> keyword_tokens cfg = ScanKeywordTokens"

definition text_ok :: "bytes \<Rightarrow> bool" where
  "text_ok str \<longleftrightarrow> 0 \<notin> set str \<and> length str < 2 ^ 29"

lemma dfa_okD:
  assumes "dfa_ok dfa str" "p \<le> length str"
  shows "match_ok s str p (dfa s (scan_text str) p)"
proof -
  have "s \<in> set start_conds" by (cases s) (simp_all add: start_conds_def)
  moreover have "p \<in> set [0..<Suc (length str)]" using assms(2) by (simp only: set_upt atLeastLessThan_iff) simp
  ultimately show ?thesis using assms(1) unfolding dfa_ok_def list_all_iff by blast
qed

section \<open>The invariant of a call\<close>

definition literal_ok :: "lexer \<Rightarrow> bool" where
  "literal_ok lx \<longleftrightarrow> (\<exists>t. lit_rep lx t)"

definition mid :: "bytes \<Rightarrow> nat \<Rightarrow> lexer \<Rightarrow> bool" where
  "mid str p0 lx \<longleftrightarrow>
     p0 \<le> yypos lx \<and> yypos lx \<le> length str \<and> literal_ok lx \<and>
     (yystart lx \<noteq> INITIAL \<longrightarrow> int p0 \<le> yyloc lx \<and> yyloc lx < int (yypos lx)) \<and>
     (yystart lx = xc \<longrightarrow> 0 \<le> xcdepth lx \<and> xcdepth lx \<le> int (yypos lx)) \<and>
     (yystart lx = xqs \<longrightarrow> state_before_str_stop lx \<in> {xb, xh, xq, xe, xus}) \<and>
     (yystart lx = xdolq \<longrightarrow> dolqstart lx \<noteq> None)"

text \<open>
  A token that has been found: the scanner is back in its initial state and can go on, and the
  token lies in the text between the two positions. The one exception is rule 46, the letter E
  and a question mark, which does not set the location (\<open>e_question\<close>).
  \<open>extent\<close> says what a caller can find of the token's end in \<^verbatim>\<open>yyllocend\<close> and \<^verbatim>\<open>yyleng\<close>.
\<close>

definition extent :: "int \<Rightarrow> lexer \<Rightarrow> bool" where
  "extent t lx \<longleftrightarrow>
     (if t \<in> {IDENT, SCONST, BCONST, XCONST_tok, C_COMMENT} then llocend lx = int (yypos lx)
      else if t \<in> {UIDENT, USCONST} then yyloc lx + int (yylength lx) < int (yypos lx)
      else yyloc lx + int (yylength lx) = int (yypos lx))"

definition e_question :: "bytes \<Rightarrow> nat \<Rightarrow> bool" where
  "e_question str e \<longleftrightarrow> 2 \<le> e \<and> str ! (e - 2) \<in> {0x65, 0x45} \<and> str ! (e - 1) = 0x3f"

definition found :: "bytes \<Rightarrow> nat \<Rightarrow> int \<Rightarrow> lexer \<Rightarrow> bool" where
  "found str p0 t lx \<longleftrightarrow>
     yystart lx = INITIAL \<and> literal_ok lx \<and> yypos lx \<le> length str \<and>
     (if t = 0 then yypos lx = length str \<and> yyloc lx = int (length str)
      else p0 < yypos lx \<and>
           (int p0 \<le> yyloc lx \<and> yyloc lx < int (yypos lx) \<and> extent t lx \<or> t = char_token 0x3f \<and> e_question str (yypos lx))) \<and>
     (t \<in> {UIDENT, USCONST, SCONST} \<longrightarrow> (\<exists>s. yyval lx = Str s)) \<and>
     (t = NOT_P \<longrightarrow> int (yypos lx) = yyloc lx + 3) \<and> (t = NULLS_P \<longrightarrow> int (yypos lx) = yyloc lx + 5) \<and>
     (t = WITH \<longrightarrow> int (yypos lx) = yyloc lx + 4)"

definition progress :: "bytes \<Rightarrow> nat \<Rightarrow> nat \<Rightarrow> step res \<Rightarrow> bool" where
  "progress str p0 p r =
     safe (\<lambda>s. case s of Again lx \<Rightarrow> mid str p0 lx \<and> p < yypos lx | Token t lx \<Rightarrow> found str p0 t lx) r"

lemma progress_simps [simp]:
  "progress str p0 p (Inr (Again lx)) \<longleftrightarrow> mid str p0 lx \<and> p < yypos lx"
  "progress str p0 p (Inr (Token t lx)) \<longleftrightarrow> found str p0 t lx"
  "progress str p0 p (Inl e) = is_elog e"
  by (simp_all add: progress_def)

lemma progress_bind: "safe P r \<Longrightarrow> (\<And>x. P x \<Longrightarrow> progress str p0 p (f x)) \<Longrightarrow> progress str p0 p (bindE r f)"
  by (cases r) simp_all

lemma progress_yyerror:
  "0 \<le> yyloc lx \<Longrightarrow> yyloc lx \<le> int (length str) \<Longrightarrow> progress str p0 p (yyerror msg (scan_text str) lx)"
  unfolding progress_def by (rule yyerror_safe) simp_all

text \<open>Adding to the literal succeeds or is refused as too large, and changes nothing else.\<close>

definition same_but_literal :: "lexer \<Rightarrow> lexer \<Rightarrow> bool" where
  "same_but_literal lx lx' \<longleftrightarrow> extends lx lx' \<and> literal_ok lx'"

lemma addlit_safe:
  assumes "literal_ok lx" "length s \<le> 2 ^ 29"
  shows "safe (same_but_literal lx) (addlit s lx)"
proof -
  obtain t where t: "lit_rep lx t" using assms(1) by (auto simp: literal_ok_def)
  then have "int (length t) < 2 ^ 29" by (auto simp: lit_rep_def)
  then have "int (length t + length s) < 2 ^ 30" using assms(2) by simp
  from addlit_rep [OF t this] show ?thesis
    by (auto simp: same_but_literal_def literal_ok_def split: if_splits)
qed

lemma addlitchar_safe:
  assumes "literal_ok lx"
  shows "safe (same_but_literal lx) (addlitchar c lx)"
proof -
  obtain t where t: "lit_rep lx t" using assms by (auto simp: literal_ok_def)
  then have "int (length t) < 2 ^ 29" by (auto simp: lit_rep_def)
  then have "addlitchar c lx = addlit [c] lx" by (rule addlitchar_addlit [OF t])
  then show ?thesis using addlit_safe [OF assms, of "[c]"] by simp
qed

lemma same_but_literalD:
  assumes "same_but_literal lx lx'"
  shows "literal_ok lx'" "yystart lx' = yystart lx" "yypos lx' = yypos lx" "yyloc lx' = yyloc lx" "xcdepth lx' = xcdepth lx"
    "yylength lx' = yylength lx" "state_before_str_stop lx' = state_before_str_stop lx" "dolqstart lx' = dolqstart lx"
    "save_yylloc lx' = save_yylloc lx" "yyval lx' = yyval lx"
proof -
  show "literal_ok lx'" using assms by (simp add: same_but_literal_def)
  have "lx' = lx\<lparr>literalbuf := literalbuf lx', literalalloc := literalalloc lx', literallen := literallen lx'\<rparr>"
    using assms by (simp add: same_but_literal_def extends_def)
  then obtain a b c where "lx' = lx\<lparr>literalbuf := a, literalalloc := b, literallen := c\<rparr>" by blast
  then show "yystart lx' = yystart lx" "yypos lx' = yypos lx" "yyloc lx' = yyloc lx" "xcdepth lx' = xcdepth lx"
    "yylength lx' = yylength lx" "state_before_str_stop lx' = state_before_str_stop lx" "dolqstart lx' = dolqstart lx"
    "save_yylloc lx' = save_yylloc lx" "yyval lx' = yyval lx"
    by simp_all
qed

lemma literal_ok_cong:
  "literalbuf lx' = literalbuf lx \<Longrightarrow> literallen lx' = literallen lx \<Longrightarrow> literalalloc lx' = literalalloc lx \<Longrightarrow> literal_ok lx' = literal_ok lx"
  by (simp add: literal_ok_def lit_rep_def)

lemma literal_ok_upd [simp]:
  "literal_ok (lx\<lparr>yystart := a\<rparr>) = literal_ok lx" "literal_ok (lx\<lparr>yypos := b\<rparr>) = literal_ok lx"
  "literal_ok (lx\<lparr>yylength := n\<rparr>) = literal_ok lx" "literal_ok (lx\<lparr>yyloc := c\<rparr>) = literal_ok lx"
  "literal_ok (lx\<lparr>yyval := v\<rparr>) = literal_ok lx" "literal_ok (lx\<lparr>xcdepth := c\<rparr>) = literal_ok lx"
  "literal_ok (lx\<lparr>llocend := c\<rparr>) = literal_ok lx" "literal_ok (lx\<lparr>dolqstart := d\<rparr>) = literal_ok lx"
  "literal_ok (lx\<lparr>state_before_str_stop := a\<rparr>) = literal_ok lx" "literal_ok (lx\<lparr>warn_on_first_escape := w\<rparr>) = literal_ok lx"
  "literal_ok (lx\<lparr>saw_non_ascii := w\<rparr>) = literal_ok lx" "literal_ok (lx\<lparr>save_yylloc := c\<rparr>) = literal_ok lx"
  "literal_ok (lx\<lparr>utf16_first_part := u\<rparr>) = literal_ok lx" "literal_ok (lx\<lparr>warnings := ws\<rparr>) = literal_ok lx"
  by (rule literal_ok_cong; simp)+

lemma literal_ok_startlit [simp]: "literal_ok lx \<Longrightarrow> literal_ok (startlit lx)"
  using startlit_rep by (auto simp: literal_ok_def)

lemma mid_literal: "mid str p0 lx \<Longrightarrow> same_but_literal lx lx' \<Longrightarrow> mid str p0 lx'"
  using same_but_literalD [of lx lx'] by (simp add: mid_def)

text \<open>The state in which an action starts.\<close>

lemma mid_match:
  assumes "mid str p0 lx" "match_ok (yystart lx) str (yypos lx) (Rule r n)"
  shows "mid str p0 (lx\<lparr>yypos := yypos lx + n, yylength := n\<rparr>)"
  using assms by (auto simp: mid_def match_ok_def)

lemma yytext_match:
  assumes "p + yylength lx \<le> length str"
  shows "yytext (scan_text str) p lx = take (yylength lx) (drop p str)" "length (yytext (scan_text str) p lx) = yylength lx"
  using assms by (simp_all add: yytext_def)

section \<open>The actions\<close>

definition matched :: "bytes \<Rightarrow> nat \<Rightarrow> nat \<Rightarrow> nat \<Rightarrow> nat \<Rightarrow> lexer \<Rightarrow> bool" where
  "matched str p0 r p n lx \<longleftrightarrow>
     mid str p0 lx \<and> yypos lx = p + n \<and> yylength lx = n \<and> p0 \<le> p \<and> 0 < n \<and> p + n \<le> length str \<and>
     r \<in> set (rules_of (yystart lx)) \<and> rule_text r (take n (drop p str)) \<and>
     (yystart lx \<noteq> INITIAL \<longrightarrow> yyloc lx < int p) \<and> (yystart lx = xc \<longrightarrow> xcdepth lx \<le> int p)"

lemma matched_match:
  assumes "mid str p0 lx" "match_ok (yystart lx) str (yypos lx) (Rule r n)"
  shows "matched str p0 r (yypos lx) n (lx\<lparr>yypos := yypos lx + n, yylength := n\<rparr>)"
  using mid_match [OF assms] assms by (auto simp: matched_def match_ok_def mid_def)

lemma matchedD:
  assumes "matched str p0 r p n lx"
  shows "mid str p0 lx" "yypos lx = p + n" "yylength lx = n" "p0 \<le> p" "0 < n" "p + n \<le> length str" "literal_ok lx"
    "rule_text r (take n (drop p str))" "r \<in> set (rules_of (yystart lx))"
    "yytext (scan_text str) p lx = take n (drop p str)" "length (yytext (scan_text str) p lx) = n"
proof -
  show m: "mid str p0 lx" "yypos lx = p + n" "p0 \<le> p" "0 < n"
    "rule_text r (take n (drop p str))" "r \<in> set (rules_of (yystart lx))"
    using assms unfolding matched_def by blast+
  show n: "yylength lx = n" and e: "p + n \<le> length str" using assms unfolding matched_def by blast+
  show "literal_ok lx" using m(1) unfolding mid_def by blast
  show "yytext (scan_text str) p lx = take n (drop p str)" "length (yytext (scan_text str) p lx) = n"
    using yytext_match [of p lx str] n e by simp_all
qed

text \<open>Going on without a change of the state, after a change of the literal, and returning a token.\<close>

lemma progress_again: "matched str p0 r p n lx \<Longrightarrow> progress str p0 p (Inr (Again lx))"
  by (simp add: matched_def)

lemma progress_literal:
  assumes "matched str p0 r p n lx" "safe (same_but_literal lx) m"
  shows "progress str p0 p (bindE m (\<lambda>lx. Inr (Again lx)))"
  using assms(2)
proof (rule progress_bind)
  fix lx' assume l: "same_but_literal lx lx'"
  then show "progress str p0 p (Inr (Again lx'))"
    using assms(1) mid_literal [OF matchedD(1) [OF assms(1)] l] same_but_literalD(3) [OF l] by (simp add: matched_def)
qed

lemma addlit_text_safe:
  assumes "matched str p0 r p n lx" "text_ok str"
  shows "safe (same_but_literal lx) (addlit (take k (yytext (scan_text str) p lx)) lx)"
proof (rule addlit_safe [OF matchedD(7) [OF assms(1)]])
  show "length (take k (yytext (scan_text str) p lx)) \<le> 2 ^ 29"
    using matchedD(6,11) [OF assms(1)] assms(2) by (auto simp: text_ok_def min_def)
qed

lemma found_plain:
  assumes "yystart lx = INITIAL" "literal_ok lx" "p0 < yypos lx" "yypos lx \<le> length str" "int p0 \<le> yyloc lx"
    "yyloc lx + int (yylength lx) = int (yypos lx)" "0 < yylength lx" "t \<noteq> 0"
    "t \<notin> {IDENT, UIDENT, USCONST, SCONST, BCONST, XCONST_tok, C_COMMENT, NOT_P, NULLS_P, WITH}"
  shows "found str p0 t lx"
  using assms by (simp add: found_def extent_def)

lemma char_token_bound:
  assumes "c \<noteq> 0"
  shows "char_token c \<noteq> 0" "char_token c < 128"
proof -
  show "char_token c \<noteq> 0" using assms by (simp add: char_token_def signed_eq_0_iff)
  show "char_token c < 128" using sint_lt [of c] by (simp add: char_token_def)
qed

lemma yytext_nonzero: "text_ok str \<Longrightarrow> matched str p0 r p n lx \<Longrightarrow> i < n \<Longrightarrow> yytext (scan_text str) p lx ! i \<noteq> 0"
proof -
  assume a: "text_ok str" "matched str p0 r p n lx" "i < n"
  then have "yytext (scan_text str) p lx ! i = str ! (p + i)" using matchedD [OF a(2)] by simp
  moreover have "str ! (p + i) \<in> set str" using matchedD(6) [OF a(2)] a(3) by simp
  ultimately show ?thesis using a(1) by (metis text_ok_def)
qed

lemma act_comment_progress:
  assumes m: "matched str p0 r p n lx" and "r \<le> 8" "text_ok str"
  shows "progress str p0 p (act_comment r p lx)"
proof -
  note d = matchedD [OF m]
  have len: "int (length str) < 2 ^ 29" using assms(3) by (simp add: text_ok_def)
  have st: "1 \<le> r" "r \<le> 3 \<Longrightarrow> yystart lx = INITIAL" "4 \<le> r \<Longrightarrow> yystart lx = xc"
    using rule_start [OF d(9)] assms(2) by auto
  then consider "r = 1" | "r = 2" "yystart lx = INITIAL" | "r = 3" "yystart lx = INITIAL"
    | "r = 4" "yystart lx = xc" | "r = 5" "yystart lx = xc" | "6 \<le> r"
    by linarith
  then show ?thesis
  proof cases
    case 1 then show ?thesis using progress_again [OF m] by (simp add: act_comment_def)
  next
    case 2 then show ?thesis using d by (auto simp: act_comment_def set_yylloc_def intro!: found_plain)
  next
    case 3
    then have "2 \<le> n" using d(5,6,8) by (cases "n < 2") (auto simp: rule_text_def dest!: arg_cong [of _ _ length])
    then show ?thesis using 3 d m by (simp add: act_comment_def set_yylloc_def yyless_def mid_def)
  next
    case 4
    then have "2 \<le> n" using d(5,6,8) by (cases "n < 2") (auto simp: rule_text_def dest!: arg_cong [of _ _ length])
    moreover have "0 \<le> xcdepth lx" "xcdepth lx \<le> int p" using m 4 by (simp_all add: matched_def mid_def)
    ultimately show ?thesis using 4 d m len by (simp add: act_comment_def yyless_def mid_def matched_def c_int_ok)
  next
    case 5
    then show ?thesis using d m by (auto simp: act_comment_def set_llocend_def mid_def matched_def found_def extent_def)
  next
    case 6 then show ?thesis using progress_again [OF m] by (simp add: act_comment_def)
  qed
qed

lemma act_quote_start_progress:
  assumes m: "matched str p0 r p n lx" and "r \<in> {14, 15, 16}"
  shows "progress str p0 p (act_quote_start cfg r p lx)"
proof -
  note d = matchedD [OF m]
  have "yystart lx = INITIAL" using rule_start(2) [OF d(9)] assms(2) by auto
  moreover have sl: "yypos (startlit l) = yypos l" "yyloc (startlit l) = yyloc l" "yystart (startlit l) = yystart l"
    "xcdepth (startlit l) = xcdepth l" for l by (simp_all add: startlit_def)
  ultimately show ?thesis using d m by (auto simp: act_quote_start_def set_yylloc_def mid_def Let_def)
qed

lemma keyword_token_found:
  assumes "config_ok cfg" "0 \<notin> set w" "ScanKeywordLookup (w @ [0]) (keywordlist cfg) = Inr k" "0 \<le> k"
  shows "\<exists>t s. keyword_token cfg k lx = Inr (Token t (lx\<lparr>yyval := Keyword s\<rparr>)) \<and> 277 \<le> t \<and>
    (t = NOT_P \<longrightarrow> map ascii_lower w = ascii ''not'') \<and> (t = NULLS_P \<longrightarrow> map ascii_lower w = ascii ''nulls'') \<and>
    (t = WITH \<longrightarrow> map ascii_lower w = ascii ''with'')"
proof -
  have cfg: "keywordlist cfg = ScanKeywords" "keyword_tokens cfg = ScanKeywordTokens" using assms(1) by (simp_all add: config_ok_def)
  obtain v c where e: "keyword_entry w = Some (v, c)"
    using lookup_entry [OF assms(2), of "[]"] assms(3,4) cfg by (cases "keyword_entry w") auto
  then obtain s where s: "at ScanKeywordTokens k = Inr v" "GetScanKeyword k ScanKeywords = Inr (map ascii_lower w @ 0 # s)"
    using lookup_entry [OF assms(2), of "[]"] assms(3,4) cfg by auto
  have "0 \<notin> set (map ascii_lower w)" using assms(2) by auto
  then have "c_str (map ascii_lower w @ 0 # s) = Inr (map ascii_lower w)" by (rule c_str_text)
  then show ?thesis using s keyword_entry_values [OF e] cfg by (auto simp: keyword_token_def)
qed

lemma lookup_total:
  assumes "config_ok cfg" "0 \<notin> set w"
  shows "\<exists>k. ScanKeywordLookup (w @ [0]) (keywordlist cfg) = Inr k"
  using assms lookup_entry [OF assms(2), of "[]"] by (auto simp: config_ok_def split: option.splits)

text \<open>A literal that ends at the current position.\<close>

lemma literal_token_found:
  assumes "literal_ok lx" "yystart lx = INITIAL" "yypos lx \<le> length str" "int p0 \<le> yyloc lx" "yyloc lx < int q"
    and "yypos lx = q + yylength lx" "t \<in> {UIDENT, USCONST, SCONST, BCONST, XCONST_tok}"
  shows "progress str p0 p (literal_token t q lx)"
proof -
  obtain l where "lit_rep lx l" using assms(1) by (auto simp: literal_ok_def)
  then have "litbufdup lx = Inr (map Some l @ [Some 0])" by (rule litbufdup_rep)
  moreover obtain s where "c_text (map Some l @ [Some 0]) = Inr s" using c_text_total [of "l @ [0]" "[]"] by auto
  moreover have "128 \<le> t" using assms(7) by auto
  then have "t \<noteq> char_token 0x3f" using char_token_bound(2) [of "0x3f"] by fastforce
  ultimately show ?thesis using assms by (auto simp: literal_token_def found_def extent_def set_llocend_def)
qed

lemma act_bits_progress:
  assumes m: "matched str p0 r p n lx" and "9 \<le> r" "r \<le> 13" "text_ok str" "config_ok cfg"
  shows "progress str p0 p (act_bits cfg (scan_text str) r p lx)"
proof -
  note d = matchedD [OF m]
  consider "r = 9 \<or> r = 12" "yystart lx = INITIAL" | "r = 10 \<or> r = 11" | "r = 13" "yystart lx = INITIAL"
    using assms(2,3) rule_start(2) [OF d(9)] by force
  then show ?thesis
  proof cases
    case 1
    define c where "c = (if r = 9 then xb else xh)"
    let ?lx = "startlit ((set_yylloc p lx)\<lparr>yystart := c\<rparr>)"
    have "literal_ok ?lx" using d(7) by (simp add: set_yylloc_def)
    moreover from this have mid: "mid str p0 ?lx" using d by (simp add: mid_def startlit_def set_yylloc_def c_def)
    ultimately have "literal_ok ?lx" by simp
    note add = addlitchar_safe [OF this]
    have "progress str p0 p (bindE (addlitchar x ?lx) (\<lambda>lx. Inr (Again lx)))" for x
    proof (rule progress_bind [OF add])
      fix lx' assume l: "same_but_literal ?lx lx'"
      show "progress str p0 p (Inr (Again lx'))"
        using mid_literal [OF mid l] same_but_literalD(3) [OF l] d(2,5) by (simp add: startlit_def set_yylloc_def)
    qed
    then show ?thesis using 1 by (auto simp: act_bits_def c_def)
  next
    case 2
    then show ?thesis
      using progress_literal [OF m addlit_text_safe [OF m assms(4), of n]] d(11) by (auto simp: act_bits_def)
  next
    case 3
    have w: "0 \<notin> set (ascii ''nchar'')" by (simp add: ascii_def)
    obtain k where k: "ScanKeywordLookup (ascii ''nchar'' @ [0]) (keywordlist cfg) = Inr k"
      using lookup_total [OF assms(5) w] by blast
    have low: "map ascii_lower (ascii ''nchar'') = ascii ''nchar''" by code_simp
    let ?lx = "yyless p 1 (set_yylloc p lx)"
    show ?thesis
    proof (cases "0 \<le> k")
      case True
      obtain t s where t: "keyword_token cfg k ?lx = Inr (Token t (?lx\<lparr>yyval := Keyword s\<rparr>))" "277 \<le> t"
        "t = NOT_P \<longrightarrow> ascii ''nchar'' = ascii ''not''" "t = NULLS_P \<longrightarrow> ascii ''nchar'' = ascii ''nulls''"
        "t = WITH \<longrightarrow> ascii ''nchar'' = ascii ''with''"
        using keyword_token_found [OF assms(5) w k True, of ?lx] low by auto
      then have "found str p0 t (?lx\<lparr>yyval := Keyword s\<rparr>)"
        using d 3 by (intro found_plain) (auto simp: yyless_def set_yylloc_def)
      then show ?thesis using 3 k True t(1) by (simp add: act_bits_def Let_def)
    next
      case False
      then show ?thesis using 3 k d by (simp add: act_bits_def found_def extent_def yyless_def set_yylloc_def set_llocend_def Let_def)
    qed
  qed
qed

lemma quote_end_progress:
  assumes "mid str p0 lx" "yypos lx = p + k" "yystart lx = xqs" "yyloc lx < int p" "p \<le> length str" "config_ok cfg"
  shows "progress str p0 q (quote_end cfg (scan_text str) p lx)"
proof -
  let ?lx = "(yyless p 0 lx)\<lparr>yystart := INITIAL\<rparr>"
  have mid: "state_before_str_stop lx \<in> {xb, xh, xq, xe, xus}" "literal_ok lx" "int p0 \<le> yyloc lx"
    using assms(1,3) by (auto simp: mid_def)
  have ok: "literal_ok ?lx" using mid(2) by (simp add: yyless_def)
  have lit: "progress str p0 q (literal_token t p ?lx)" if "t \<in> {UIDENT, USCONST, SCONST, BCONST, XCONST_tok}" for t
    by (rule literal_token_found [OF ok]) (use assms(4,5) mid(3) that in \<open>simp_all add: yyless_def\<close>)
  have "safe (\<lambda>x. True) (verify_literal cfg ?lx)"
  proof -
    obtain t where t: "lit_rep ?lx t" using ok by (auto simp: literal_ok_def)
    then have "cells (literalbuf ?lx) 0 (literallen ?lx) = Inr (map Some t)" "literallen ?lx = int (length t)"
      using cells_ok [of 0 "length t" "literalbuf ?lx"] by (auto simp: lit_rep_def)
    moreover have "safe (\<lambda>x. True) (pg_verifymbstr (server cfg) t (int (length t)) False)"
      using verify_total [OF _ refl] assms(6) by (simp add: config_ok_def)
    ultimately show ?thesis by (auto simp: verify_literal_def intro: safe_bind)
  qed
  then have v: "progress str p0 q (bindE (verify_literal cfg ?lx) (\<lambda>_. literal_token SCONST p ?lx))"
    by (rule progress_bind) (simp add: lit)
  have l: "progress str p0 q (literal_token BCONST p ?lx)" "progress str p0 q (literal_token XCONST_tok p ?lx)"
    "progress str p0 q (literal_token USCONST p ?lx)" by (simp_all add: lit)
  have st: "state_before_str_stop ?lx = state_before_str_stop lx" by (simp add: yyless_def)
  from mid(1) consider "state_before_str_stop lx = xb" | "state_before_str_stop lx = xh" | "state_before_str_stop lx = xq"
    | "state_before_str_stop lx = xe" | "state_before_str_stop lx = xus" by blast
  then show ?thesis unfolding quote_end_def Let_def st using v l by cases (simp_all only: start_cond.case)
qed

lemma act_quote_stop_progress:
  assumes m: "matched str p0 r p n lx" and "17 \<le> r" "r \<le> 20" "config_ok cfg"
  shows "progress str p0 p (act_quote_stop cfg (scan_text str) r p lx)"
proof -
  note d = matchedD [OF m]
  consider "r = 17" "yystart lx \<in> {xb, xh, xq, xe, xus}" | "r = 18" "yystart lx = xqs" | "19 \<le> r" "yystart lx = xqs"
    using assms(2,3) rule_start(6,7) [OF d(9)] by force
  then show ?thesis
  proof cases
    case 1
    then show ?thesis using m d by (auto simp: act_quote_stop_def mid_def)
  next
    case 2
    then show ?thesis using m d by (auto simp: act_quote_stop_def mid_def)
  next
    case 3
    then show ?thesis
      using quote_end_progress [OF d(1,2) 3(2) _ _ assms(4)] m d(6) by (simp add: act_quote_stop_def matched_def)
  qed
qed

lemma progress_extended:
  assumes "mid str p0 lx" "p < yypos lx" "safe (same_but_literal lx) m"
    and "\<And>lx'. same_but_literal lx lx' \<Longrightarrow> mid str p0 lx' \<Longrightarrow> mid str p0 (f lx') \<and> yypos (f lx') = yypos lx'"
  shows "progress str p0 p (bindE m (\<lambda>lx. Inr (Again (f lx))))"
  using assms(3)
proof (rule progress_bind)
  fix lx' assume l: "same_but_literal lx lx'"
  show "progress str p0 p (Inr (Again (f lx')))"
    using assms(4) [OF l mid_literal [OF assms(1) l]] same_but_literalD(3) [OF l] assms(2) by simp
qed

lemma mid_upd [simp]:
  "mid str p0 (lx\<lparr>saw_non_ascii := b\<rparr>) = mid str p0 lx" "mid str p0 (lx\<lparr>warn_on_first_escape := b\<rparr>) = mid str p0 lx"
  "mid str p0 (lx\<lparr>warnings := ws\<rparr>) = mid str p0 lx" "mid str p0 (lx\<lparr>save_yylloc := i\<rparr>) = mid str p0 lx"
  "mid str p0 (lx\<lparr>utf16_first_part := u\<rparr>) = mid str p0 lx"
  by (simp_all add: mid_def)

lemma mid_warnings [simp]:
  "mid str p0 (check_escape_warning cfg lx) = mid str p0 lx" "mid str p0 (check_string_escape_warning cfg c lx) = mid str p0 lx"
  "yypos (check_escape_warning cfg lx) = yypos lx" "yypos (check_string_escape_warning cfg c lx) = yypos lx"
  "yyloc (check_escape_warning cfg lx) = yyloc lx" "yystart (check_escape_warning cfg lx) = yystart lx"
  "xcdepth (check_escape_warning cfg lx) = xcdepth lx"
  "literal_ok (check_escape_warning cfg lx) = literal_ok lx" "literal_ok (check_string_escape_warning cfg c lx) = literal_ok lx"
  by (simp_all add: check_escape_warning_def check_string_escape_warning_def warn_escape_def Let_def)

lemma add_byte_progress:
  assumes "matched str p0 r p n lx"
  shows "progress str p0 p (add_byte cfg c lx)"
proof -
  note d = matchedD [OF assms]
  show ?thesis unfolding add_byte_def
  proof (rule progress_extended)
    show "safe (same_but_literal (check_escape_warning cfg lx)) (addlitchar c (check_escape_warning cfg lx))"
      by (rule addlitchar_safe) (simp add: d(7))
  qed (use d in simp_all)
qed

lemma c_text_length: "c_text (map Some (s @ [0]) @ b) = Inr t \<Longrightarrow> length t \<le> length s"
  by (induction s arbitrary: t) (auto simp: bindE_eq_Inr split: if_splits)

lemma addunicode_safe:
  assumes "config_ok cfg" "literal_ok lx" "0 \<le> yyloc lx" "yyloc lx \<le> int (length str)"
    and "is_valid_unicode_codepoint c \<Longrightarrow> scalar_value c"
  shows "safe (same_but_literal lx) (addunicode cfg c (scan_text str) lx)"
proof (cases "is_valid_unicode_codepoint c")
  case True
  let ?u = "utf8_bytes c"
  have "pg_unicode_to_server (server cfg) (Utf8ToServerConvProc cfg) c (replicate 17 None) =
      Inr (map Some (?u @ [0]) @ drop (Suc (length ?u)) (replicate 17 None))"
    using assms(1) True assms(5) by (intro pg_unicode_to_server_stores) (simp_all add: config_ok_def GetDatabaseEncoding_def)
  moreover obtain t where t: "c_text (map Some (?u @ [0]) @ drop (Suc (length ?u)) (replicate 17 None)) = Inr t"
    using c_text_total [of "?u @ [0]"] by auto
  moreover have "length t \<le> 2 ^ 29" using c_text_length [OF t] length_utf8_bytes(2) [of c] by simp
  moreover from this have "safe (same_but_literal lx) (addlit t lx)" by (rule addlit_safe [OF assms(2)])
  ultimately show ?thesis using True t by (simp add: addunicode_def)
next
  case False
  then show ?thesis using assms(3,4) by (simp add: addunicode_def yyerror_safe)
qed

lemma scalar_value_unless:
  "is_valid_unicode_codepoint c \<Longrightarrow> \<not> is_utf16_surrogate_first c \<Longrightarrow> \<not> is_utf16_surrogate_second c \<Longrightarrow> scalar_value c"
  by (auto simp: is_valid_unicode_codepoint_def is_utf16_surrogate_first_def is_utf16_surrogate_second_def scalar_value_def word_le_nat_alt)

lemma act_unicode_progress:
  assumes m: "matched str p0 r p n lx" and r: "r = 24 \<or> r = 25" and cfg: "config_ok cfg"
  shows "progress str p0 p (act_unicode cfg (scan_text str) r p lx)"
proof -
  note d = matchedD [OF m]
  define c :: pg_wchar where "c = word_of_int (strtoul (drop 2 (yytext (scan_text str) p lx)) 16)"
  have st: "r = 24 \<Longrightarrow> yystart lx = xe" "r = 25 \<Longrightarrow> yystart lx = xeu" using rule_start(10,11) [OF d(9)] by auto
  then have loc: "int p0 \<le> yyloc lx" "yyloc lx < int p" using r m by (auto simp: matched_def mid_def)
  have p: "0 \<le> yyloc (set_yylloc p l) \<and> yyloc (set_yylloc p l) \<le> int (length str)" for l using d(6) by (simp add: set_yylloc_def)
  let ?w = "check_escape_warning cfg lx"
  let ?a = "set_yylloc p (?w\<lparr>save_yylloc := yyloc ?w\<rparr>)" and ?b = "set_yylloc p (lx\<lparr>save_yylloc := yyloc lx\<rparr>)"
  have mids: "mid str p0 ?a" "mid str p0 ?b" "literal_ok ?a" "literal_ok ?b" "p < yypos ?a" "p < yypos ?b"
    using d st r by (auto simp: set_yylloc_def mid_def [of _ _ "_\<lparr>yyloc := _\<rparr>"] mid_def [of _ _ lx])
  have back24: "mid str p0 (lx'\<lparr>yyloc := save_yylloc lx'\<rparr>) \<and> yypos (lx'\<lparr>yyloc := save_yylloc lx'\<rparr>) = yypos lx'"
    if "same_but_literal ?a lx'" "mid str p0 lx'" for lx'
    using that(2) same_but_literalD [OF that(1)] d(2,5) loc by (simp add: mid_def set_yylloc_def)
  have back25: "mid str p0 (lx'\<lparr>yyloc := save_yylloc lx', yystart := xe\<rparr>) \<and> yypos (lx'\<lparr>yyloc := save_yylloc lx', yystart := xe\<rparr>) = yypos lx'"
    if "same_but_literal ?b lx'" "mid str p0 lx'" for lx'
    using that(2) same_but_literalD [OF that(1)] d(2,5) loc by (simp add: mid_def set_yylloc_def)
  show ?thesis
  proof (cases "r = 24")
    case True
    have uni: "safe (same_but_literal ?a) (addunicode cfg c (scan_text str) ?a)"
      if "\<not> is_utf16_surrogate_first c" "\<not> is_utf16_surrogate_second c"
      by (rule addunicode_safe [OF cfg mids(3)]) (use p that scalar_value_unless in auto)
    have act: "act_unicode cfg (scan_text str) r p lx =
        bindE (if is_utf16_surrogate_first c then Inr (?a\<lparr>utf16_first_part := c, yystart := xeu\<rparr>)
               else if is_utf16_surrogate_second c then invalid_surrogate (scan_text str) ?a
               else addunicode cfg c (scan_text str) ?a) (\<lambda>lx. Inr (Again (lx\<lparr>yyloc := save_yylloc lx\<rparr>)))"
      using True by (simp add: act_unicode_def c_def Let_def)
    show ?thesis
    proof (cases "is_utf16_surrogate_first c")
      case True
      have "mid str p0 (?a\<lparr>utf16_first_part := c, yystart := xeu, yyloc := save_yylloc ?a\<rparr>)"
        using mids(1) d(2,5) loc by (simp add: mid_def set_yylloc_def)
      then show ?thesis unfolding act using True mids(5) by (simp add: set_yylloc_def)
    next
      case False
      show ?thesis
      proof (cases "is_utf16_surrogate_second c")
        case True
        have "safe (\<lambda>x. False) (invalid_surrogate (scan_text str) ?a :: lexer res)"
          unfolding invalid_surrogate_def using p by (intro yyerror_safe) auto
        then show ?thesis unfolding act using True False by (auto intro: progress_bind)
      next
        case second: False
        show ?thesis unfolding act using False second
          by (simp only: if_False) (rule progress_extended [OF mids(1,5) uni back24])
      qed
    qed
  next
    case False
    define u where "u = surrogate_pair_to_codepoint (utf16_first_part lx) c"
    have "scalar_value u" using surrogate_pair_range [of "utf16_first_part lx" c]
      by (auto simp: u_def scalar_value_def word_le_nat_alt)
    then have uni: "safe (same_but_literal ?b) (addunicode cfg u (scan_text str) ?b)"
      using addunicode_safe [OF cfg mids(4), of str u] p by blast
    have act: "act_unicode cfg (scan_text str) r p lx =
        (if \<not> is_utf16_surrogate_second c then invalid_surrogate (scan_text str) ?b
         else bindE (addunicode cfg u (scan_text str) ?b) (\<lambda>lx. Inr (Again (lx\<lparr>yyloc := save_yylloc lx, yystart := xe\<rparr>))))"
      using False by (simp add: act_unicode_def c_def u_def set_yylloc_def Let_def)
    show ?thesis
    proof (cases "is_utf16_surrogate_second c")
      case True
      then show ?thesis unfolding act by (simp only: not_True_eq_False if_False) (rule progress_extended [OF mids(2,6) uni back25])
    next
      case False
      then show ?thesis unfolding act invalid_surrogate_def using p by (auto intro: progress_yyerror)
    qed
  qed
qed

lemma act_backslash_progress:
  assumes m: "matched str p0 29 p n lx"
  shows "progress str p0 p (act_backslash cfg (scan_text str) p lx)"
proof -
  note d = matchedD [OF m]
  have "n = 2" using d(6,8) by (simp add: rule_text_def)
  then obtain c where c: "at (yytext (scan_text str) p lx @ [0]) 1 = Inr c" using d(11) by (simp add: at_def)
  obtain ch l where u: "unescape_single_char c (check_string_escape_warning cfg c lx) = (ch, l)" by fastforce
  then have "mid str p0 l" "yypos l = yypos lx" "literal_ok l"
    using d(1,7) by (auto simp: unescape_single_char_def split: if_splits)
  then have "progress str p0 p (bindE (addlitchar ch l) (\<lambda>lx. Inr (Again lx)))"
    using d(2,5) by (intro progress_extended [where f = "\<lambda>x. x", OF _ _ addlitchar_safe]) simp_all
  then show ?thesis using c u by (simp add: act_backslash_def)
qed

lemma first_char:
  assumes "matched str p0 r p n lx" "text_ok str"
  shows "\<exists>c. at (yytext (scan_text str) p lx @ [0]) 0 = Inr c \<and> c \<noteq> 0"
  using matchedD(5,11) [OF assms(1)] yytext_nonzero [OF assms(2,1), of 0] by (auto simp: at_def nth_append)

lemma act_string_progress:
  assumes m: "matched str p0 r p n lx" and "21 \<le> r" "r \<le> 32" "config_ok cfg" "text_ok str"
  shows "progress str p0 p (act_string cfg (scan_text str) r p lx)"
proof -
  note d = matchedD [OF m]
  note ch = progress_literal [OF m addlitchar_safe [OF d(7)]]
  consider "r = 21" | "r = 22 \<or> r = 23" | "r = 24 \<or> r = 25" | "r = 26 \<or> r = 27" | "r = 28" | "r = 29" | "r = 30" | "r = 31" | "r = 32"
    using assms(2,3) by atomize_elim presburger
  then show ?thesis
  proof cases
    case 2
    then show ?thesis using progress_literal [OF m addlit_text_safe [OF m assms(5), of n]] d(11) by (auto simp: act_string_def)
  next
    case 3
    then show ?thesis using act_unicode_progress [OF m 3 assms(4)] by (auto simp: act_string_def)
  next
    case 4
    have "progress str p0 p (invalid_surrogate (scan_text str) (set_yylloc p lx))"
      unfolding invalid_surrogate_def using d(6) by (intro progress_yyerror) (simp_all add: set_yylloc_def)
    then show ?thesis using 4 by (auto simp: act_string_def)
  next
    case 6
    then show ?thesis using act_backslash_progress m by (simp add: act_string_def)
  next
    case 9
    then show ?thesis using first_char [OF m assms(5)] ch by (auto simp: act_string_def)
  qed (use ch add_byte_progress [OF m] in \<open>simp_all add: act_string_def\<close>)
qed

lemma act_dolq_progress:
  assumes m: "matched str p0 r p n lx" and "33 \<le> r" "r \<le> 38" "text_ok str"
  shows "progress str p0 p (act_dolq (scan_text str) r p lx)"
proof -
  note d = matchedD [OF m]
  consider "r = 33" "yystart lx = INITIAL" | "r = 34" "yystart lx = INITIAL" | "r = 35" "yystart lx = xdolq" | "r = 36 \<or> r = 37" | "r = 38"
    using assms(2,3) rule_start(2,13) [OF d(9)] by force
  then show ?thesis
  proof cases
    case 1
    then show ?thesis using d by (simp add: act_dolq_def mid_def startlit_def set_yylloc_def literal_ok_startlit [unfolded startlit_def])
  next
    case 2
    obtain c where c: "at (yytext (scan_text str) p lx @ [0]) 0 = Inr c" "c \<noteq> 0" using first_char [OF m assms(4)] by blast
    have "found str p0 (char_token c) (yyless p 1 (set_yylloc p lx))"
      using char_token_bound [OF c(2)] d 2 by (intro found_plain) (auto simp: yyless_def set_yylloc_def)
    then show ?thesis using 2 c by (simp add: act_dolq_def)
  next
    case 3
    obtain q where q: "dolqstart lx = Some q" "int p0 \<le> yyloc lx" "yyloc lx < int p" using m 3 by (auto simp: matched_def mid_def)
    show ?thesis
    proof (cases "yytext (scan_text str) p lx = q")
      case True
      have "progress str p0 p (literal_token SCONST p (lx\<lparr>dolqstart := None, yystart := INITIAL\<rparr>))"
        using d q by (intro literal_token_found) simp_all
      then show ?thesis using 3 q True by (simp add: act_dolq_def)
    next
      case False
      have n: "2 \<le> n" using 3 d(6,8) by (simp add: rule_text_def)
      have "progress str p0 p (bindE (addlit (take (n - 1) (yytext (scan_text str) p lx)) lx) (\<lambda>lx'. Inr (Again (yyless p (n - 1) lx'))))"
      proof (rule progress_bind [OF addlit_text_safe [OF m assms(4)]])
        fix lx' assume l: "same_but_literal lx lx'"
        have "p0 \<le> p + n - 1" "p + n - 1 \<le> length str" "yyloc lx < int (p + n - 1)" using d(4,6) n q(3) by linarith+
        then have "mid str p0 (yyless p (n - 1) lx')"
          using mid_literal [OF d(1) l] same_but_literalD [OF l] 3 d q n by (simp add: mid_def yyless_def)
        then show "progress str p0 p (Inr (Again (yyless p (n - 1) lx')))" using n by (simp add: yyless_def)
      qed
      then show ?thesis using 3 q False d(3) by (simp add: act_dolq_def)
    qed
  next
    case 4
    then show ?thesis using progress_literal [OF m addlit_text_safe [OF m assms(4), of n]] d(11) by (auto simp: act_dolq_def)
  next
    case 5
    then show ?thesis using first_char [OF m assms(4)] progress_literal [OF m addlitchar_safe [OF d(7)]] by (auto simp: act_dolq_def)
  qed
qed

lemma ident_token_found:
  assumes "config_ok cfg" "length word < 2 ^ 29" "yystart lx = INITIAL" "literal_ok lx" "p0 \<le> p" "yyloc lx = int p" "p < yypos lx"
    "yypos lx \<le> length str" "yypos lx = p + yylength lx"
  shows "progress str p0 q (ident_token cfg word p lx)"
proof -
  have "encoding (server cfg) = 6" "int (length word) + 1 \<le> MaxAllocSize" using assms(1,2) by (simp_all add: config_ok_def)
  then obtain b notice s where "downcase_truncate_identifier (isupper cfg) (tolower cfg) (server cfg) word (int (length word)) True = Inr (b, notice)"
    "c_text b = Inr s" using downcase_total by meson
  then show ?thesis using assms(3-) by (simp add: ident_token_def found_def extent_def set_llocend_def)
qed

lemma act_ident_progress:
  assumes m: "matched str p0 r p n lx" and "39 \<le> r" "r \<le> 45" "text_ok str" "config_ok cfg"
  shows "progress str p0 p (act_ident cfg (scan_text str) r p lx)"
proof -
  note d = matchedD [OF m]
  note add = progress_literal [OF m addlitchar_safe [OF d(7)]] progress_literal [OF m addlit_text_safe [OF m assms(4), of n]]
  consider "r = 39 \<or> r = 40" "yystart lx = INITIAL" | "r = 41" "yystart lx = xd" | "r = 42" "yystart lx = xui" | "r = 43 \<or> r = 44" | "r = 45" "yystart lx = INITIAL"
    using assms(2,3) rule_start(2,14,15) [OF d(9)] by force
  then show ?thesis
  proof cases
    case 1
    then show ?thesis using d by (auto simp: act_ident_def mid_def startlit_def set_yylloc_def literal_ok_startlit [unfolded startlit_def])
  next
    case 2
    let ?lx = "lx\<lparr>yystart := INITIAL\<rparr>"
    have loc: "int p0 \<le> yyloc lx" "yyloc lx < int p" using m 2 by (auto simp: matched_def mid_def)
    obtain l where l: "lit_rep ?lx l" using d(7) by (auto simp: literal_ok_def lit_rep_def)
    then have len: "literallen ?lx = int (length l)" by (simp add: lit_rep_def)
    have found: "progress str p0 p (bindE (c_text b) (\<lambda>s. Inr (Token IDENT (set_llocend p (?lx\<lparr>yyval := Str s\<rparr>)))))"
      if "\<exists>s. c_text b = Inr s" for b
      using that d loc by (auto simp: found_def extent_def set_llocend_def)
    have trunc: "\<exists>b notice s. truncate_identifier (server cfg) (map Some l @ [Some 0]) (int (length l)) True = Inr (b, notice) \<and> c_text b = Inr s"
      if "64 \<le> length l"
      using truncate_identifier_total [OF _ refl that, of "server cfg"] assms(5) by (simp add: config_ok_def)
    show ?thesis
    proof (cases "length l < 64")
      case True
      then show ?thesis using 2 len litbufdup_rep [OF l] found c_text_total [of "l @ [0]" "[]"] d(6) loc
        by (auto simp: act_ident_def Let_def intro: progress_yyerror)
    next
      case False
      then obtain b notice s where b: "truncate_identifier (server cfg) (map Some l @ [Some 0]) (int (length l)) True = Inr (b, notice)" "c_text b = Inr s"
        using trunc by fastforce
      have act: "act_ident cfg (scan_text str) r p lx = bindE (c_text b) (\<lambda>s. Inr (Token IDENT (set_llocend p (?lx\<lparr>yyval := Str s\<rparr>))))"
        using 2 len litbufdup_rep [OF l] b(1) False by (auto simp: act_ident_def Let_def)
      show ?thesis unfolding act by (rule found) (use b(2) in blast)
    qed
  next
    case 3
    have loc: "int p0 \<le> yyloc lx" "yyloc lx < int p" using m 3 by (auto simp: matched_def mid_def)
    have "progress str p0 p (literal_token UIDENT p (lx\<lparr>yystart := INITIAL\<rparr>))" using d loc by (intro literal_token_found) simp_all
    then show ?thesis using 3 d loc by (auto simp: act_ident_def Let_def intro: progress_yyerror)
  next
    case 4
    then show ?thesis using add d(11) by (auto simp: act_ident_def)
  next
    case 5
    let ?lx = "yyless p 1 (set_yylloc p lx)"
    have "length (yytext (scan_text str) p ?lx) = 1" using d by (simp add: yytext_def yyless_def)
    then have "progress str p0 p (ident_token cfg (yytext (scan_text str) p ?lx) p ?lx)"
      using 5 d by (intro ident_token_found [OF assms(5)]) (simp_all add: yyless_def set_yylloc_def)
    then show ?thesis using 5 by (simp add: act_ident_def Let_def)
  qed
qed

lemma strip_plus_minus_bounds: "0 < n \<Longrightarrow> n \<le> length s \<Longrightarrow> 1 < n \<Longrightarrow> 0 < strip_plus_minus s n \<and> strip_plus_minus s n < n"
proof (induction s n rule: strip_plus_minus.induct)
  case (2 s n)
  then show ?case by (cases "n > 1 \<and> plus_minus (s ! (n - 1))") auto
qed simp

lemma strstr2_bound: "strstr2 s c d = Some i \<Longrightarrow> Suc i < length s"
  by (induction s c d arbitrary: i rule: strstr2.induct) (auto split: if_splits)

lemma strchr_bound: "strchr s c = Some i \<Longrightarrow> i < length s \<and> s ! i = c \<and> (\<forall>j<i. s ! j \<noteq> c)"
proof (induction s c arbitrary: i rule: strchr.induct)
  case (2 x s c)
  show ?case
  proof (cases "x = c")
    case False
    then obtain k where k: "strchr s c = Some k" "i = Suc k" using 2(2) by auto
    then have "k < length s \<and> s ! k = c \<and> (\<forall>j<k. s ! j \<noteq> c)" using 2(1) [OF False] by simp
    then show ?thesis using False k(2) by (auto simp: less_Suc_eq_0_disj)
  qed (use 2(2) in simp)
qed simp

lemma comment_start_bound: "comment_start s = Some i \<Longrightarrow> i < length s"
  using strstr2_bound [of s "0x2f" "0x2a"] strstr2_bound [of s "0x2d" "0x2d"]
  by (fastforce simp: comment_start_def split: option.splits if_splits)

lemma trim_operator_bounds:
  assumes "operator_text s"
  shows "0 < trim_operator s \<and> trim_operator s \<le> length s"
proof -
  define n where "n = (case comment_start s of Some i \<Rightarrow> i | None \<Rightarrow> length s)"
  have n: "0 < n" "n \<le> length s"
    using assms comment_start_bound [of s] by (auto simp: n_def operator_text_def split: option.splits intro: gr0I)
  have "trim_operator s = n \<or> (1 < n \<and> trim_operator s = strip_plus_minus s n)"
    by (simp add: trim_operator_def n_def Let_def)
  then show ?thesis using n strip_plus_minus_bounds [of n s] by auto
qed

lemma operator_length_bounds:
  assumes "operator_text s"
  shows "0 < operator_length s \<and> operator_length s \<le> length s"
proof -
  have s: "s \<noteq> []" "s ! 0 = hd s" using assms by (simp_all add: operator_text_def hd_conv_nth)
  have "0 < i" if "strchr s 0x3f = Some i" "hd s \<noteq> 0x3f" for i
    using strchr_bound [OF that(1)] that(2) s by (cases i) auto
  then show ?thesis using trim_operator_bounds [OF assms] strchr_bound [of s "0x3f"] s(1)
    by (fastforce simp: operator_length_def Let_def Suc_le_eq split: option.splits)
qed

lemma short_operator_range:
  assumes "short_operator s = Some t" "\<forall>c\<in>set s. c \<noteq> 0"
  shows "t \<noteq> 0 \<and> t < 275 \<and> t \<notin> {IDENT, UIDENT, USCONST, SCONST, BCONST, XCONST_tok}"
proof -
  have "t = char_token (hd s) \<and> hd s \<noteq> 0 \<or> t \<in> {270, 271, 272, 273, 274}"
    using assms by (cases s) (auto simp: short_operator_def split: if_splits)
  then show ?thesis using char_token_bound [of "hd s"] by auto
qed

lemma act_operator_progress:
  assumes m: "matched str p0 56 p n lx" and "text_ok str"
  shows "progress str p0 p (act_operator (scan_text str) p lx)"
proof -
  note d = matchedD [OF m]
  have init: "yystart lx = INITIAL" using rule_start(2) [OF d(9)] by simp
  define k where "k = operator_length (take n (drop p str))"
  have "operator_text (take n (drop p str))" using d(8) by (simp add: rule_text_def)
  from operator_length_bounds [OF this] have k: "0 < k" "k \<le> n" using d(6) by (auto simp: k_def)
  define l where "l = (if k < n then yyless p k (set_yylloc p lx) else set_yylloc p lx)"
  have l: "yystart l = INITIAL" "literal_ok l" "yypos l = p + k" "yyloc l = int p" "yylength l = k"
    using d init k by (auto simp: l_def yyless_def set_yylloc_def)
  have tx: "yytext (scan_text str) p l = take k (drop p str)" using yytext_match(1) [of p l str] l(5) k d(6) by simp
  have act: "act_operator (scan_text str) p lx =
     (case if k < n then short_operator (yytext (scan_text str) p l) else None of
        Some t \<Rightarrow> Inr (Token t l)
      | None \<Rightarrow> if int k \<ge> NAMEDATALEN then yyerror ''operator too long'' (scan_text str) l
                else Inr (Token Op (l\<lparr>yyval := Str (yytext (scan_text str) p l)\<rparr>)))"
    unfolding act_operator_def d(10) k_def [symmetric] Let_def l_def using d(3) by (simp add: set_yylloc_def)
  have nz: "\<forall>c\<in>set (yytext (scan_text str) p l). c \<noteq> 0"
    unfolding tx using assms(2) by (auto simp: text_ok_def dest!: in_set_takeD in_set_dropD)
  have "found str p0 t l" if "short_operator (yytext (scan_text str) p l) = Some t" for t
    using short_operator_range [OF that nz] l d(4,6) k by (intro found_plain) auto
  moreover have "found str p0 Op (l\<lparr>yyval := v\<rparr>)" for v
    using l d(4,6) k by (intro found_plain) auto
  moreover have "progress str p0 p (yyerror msg (scan_text str) l)" for msg
    using l d(6) by (intro progress_yyerror) simp_all
  ultimately show ?thesis unfolding act by (auto split: option.splits if_splits)
qed

lemma integer_token_found:
  assumes "yystart lx = INITIAL" "literal_ok lx" "p0 \<le> p" "0 < yylength lx" "yypos lx = p + yylength lx" "yypos lx \<le> length str"
  shows "progress str p0 q (integer_token buf p (set_yylloc p lx))"
proof -
  obtain t v where t: "process_integer_literal (yytext buf p (set_yylloc p lx)) (set_yylloc p lx) = (t, (set_yylloc p lx)\<lparr>yyval := v\<rparr>)"
    "t = FCONST \<or> t = ICONST"
    by (cases "strtoint (yytext buf p (set_yylloc p lx)) 10")
      (fastforce simp: process_integer_literal_def split: if_splits)
  have "found str p0 t ((set_yylloc p lx)\<lparr>yyval := v\<rparr>)"
    using t(2) assms by (intro found_plain) (auto simp: set_yylloc_def)
  then show ?thesis using t(1) by (simp add: integer_token_def)
qed

lemma act_number_progress:
  assumes m: "matched str p0 r p n lx" and "57 \<le> r" "r \<le> 63"
  shows "progress str p0 p (act_number (scan_text str) r p lx)"
proof -
  note d = matchedD [OF m]
  have init: "yystart lx = INITIAL" using rule_start(2) [OF d(9)] assms(2) by simp
  have int: "progress str p0 p (integer_token (scan_text str) p (set_yylloc p (yyless p k lx)))" if "0 < k" "k \<le> n" for k
    using init d(4,6,7) that by (intro integer_token_found) (simp_all add: yyless_def)
  have plain: "found str p0 t ((set_yylloc p lx)\<lparr>yyval := v\<rparr>)" if "t = PARAM \<or> t = FCONST" for t v
    by (rule found_plain) (use init d(2-7) that in \<open>auto simp: set_yylloc_def\<close>)
  consider "r = 57" | "r = 58" | "r = 59 \<or> r = 61" | "r = 60 \<or> r = 63" | "r = 62" using assms(2,3) by atomize_elim presburger
  then show ?thesis
  proof cases
    case 2
    have "progress str p0 p (integer_token (scan_text str) p (set_yylloc p lx))"
      using init d(2,3,4,5,6,7) by (intro integer_token_found) simp_all
    then show ?thesis using 2 by (simp add: act_number_def)
  next
    case 4
    then have "3 \<le> n" using d(6,8) by (auto simp: rule_text_def)
    then show ?thesis using 4 int [of "n - 2"] d(3) by (auto simp: act_number_def)
  next
    case 5
    then have "2 \<le> n" using d(6,8) by (auto simp: rule_text_def)
    then show ?thesis using 5 int [of "n - 1"] d(3) by (auto simp: act_number_def)
  qed (use plain in \<open>auto simp: act_number_def\<close>)
qed

lemma act_fixed_progress:
  assumes m: "matched str p0 r p n lx" and "46 \<le> r" "r \<le> 55" "text_ok str"
  shows "progress str p0 p (act_fixed (scan_text str) r p lx)"
proof -
  note d = matchedD [OF m]
  have init: "yystart lx = INITIAL" using rule_start(2) [OF d(9)] assms(2) by simp
  have plain: "found str p0 t (set_yylloc p lx)" if "t \<noteq> 0" "t < 275" "t \<notin> {IDENT, UIDENT, USCONST, SCONST, BCONST, XCONST_tok}" for t
  proof (rule found_plain)
    show "t \<notin> {IDENT, UIDENT, USCONST, SCONST, BCONST, XCONST_tok, C_COMMENT, NOT_P, NULLS_P, WITH}" using that(2,3) by auto
  qed (use init d(2-7) that(1) in \<open>simp_all add: set_yylloc_def\<close>)
  show ?thesis
  proof (cases "r = 46")
    case True
    then have n: "n = 2" "take n (drop p str) ! 1 = 0x3f" "take n (drop p str) ! 0 \<in> {0x65, 0x45}" using d(6,8) by (auto simp: rule_text_def)
    then have "e_question str (p + 2)" using d(6) by (simp add: e_question_def)
    note q = this
    have "at (yytext (scan_text str) p lx @ [0]) 1 = Inr (yytext (scan_text str) p lx ! 1)"
      using d(11) n(1) by (simp add: at_def nth_append)
    then have "at (yytext (scan_text str) p lx @ [0]) 1 = Inr 0x3f" using n d(10) by simp
    moreover have "found str p0 (char_token 0x3f) lx"
      using char_token_bound [of "0x3f"] init d q n(1) by (simp add: found_def)
    ultimately show ?thesis using True by (simp add: act_fixed_def)
  next
    case False
    obtain c where c: "at (yytext (scan_text str) p lx @ [0]) 0 = Inr c" "c \<noteq> 0" using first_char [OF m assms(4)] by blast
    have "found str p0 (char_token c) (set_yylloc p lx)" using char_token_bound [OF c(2)] by (intro plain) auto
    moreover have "yytext (scan_text str) p (set_yylloc p lx) = yytext (scan_text str) p lx" by (simp add: yytext_def set_yylloc_def)
    ultimately show ?thesis using False c(1) by (auto simp: act_fixed_def Let_def intro: plain)
  qed
qed

lemma act_word_progress:
  assumes m: "matched str p0 64 p n lx" and "text_ok str" "config_ok cfg"
  shows "progress str p0 p (act_word cfg (scan_text str) p lx)"
proof -
  note d = matchedD [OF m]
  have init: "yystart lx = INITIAL" using rule_start(2) [OF d(9)] by simp
  define word where "word = take n (drop p str)"
  define question where "question = (word \<noteq> [] \<and> List.last word = 0x3f)"
  define kt where "kt = (if question then butlast word else word)"
  define l where "l = (if question then yyless p (n - 1) (set_yylloc p lx) else set_yylloc p lx)"
  have word: "length word = n" "word \<noteq> [0x3f]" using d(5,6,8) by (auto simp: word_def rule_text_def)
  have n1: "1 < n" if question
  proof (rule ccontr)
    assume "\<not> 1 < n"
    then obtain c where "word = [c]" using word(1) d(5) by (cases word) auto
    then show False using that word(2) by (simp add: question_def)
  qed
  have l: "yystart l = INITIAL" "literal_ok l" "yyloc l = int p" "yypos l = p + length kt" "yylength l = length kt" "0 < length kt" "length kt \<le> n"
    using init d(2,3,5,7) word(1) n1 by (auto simp: l_def kt_def yyless_def set_yylloc_def simp flip: length_greater_0_conv)
  have "set kt \<subseteq> set str" unfolding kt_def word_def by (auto dest!: in_set_butlastD in_set_takeD in_set_dropD split: if_splits)
  then have nz: "0 \<notin> set kt" using assms(2) by (auto simp: text_ok_def)
  obtain k where k: "ScanKeywordLookup (kt @ [0]) (keywordlist cfg) = Inr k" using lookup_total [OF assms(3) nz] by blast
  have act: "act_word cfg (scan_text str) p lx =
     (if k \<ge> 0 then keyword_token cfg k l else ident_token cfg word p (set_yylloc p lx))"
  proof -
    have y: "yytext (scan_text str) p (set_yylloc p lx) = word" "yylength (set_yylloc p lx) = n"
      using d(3,10) by (simp_all add: yytext_def set_yylloc_def word_def)
    show ?thesis unfolding act_word_def Let_def y question_def [symmetric] kt_def [symmetric] k l_def by simp
  qed
  show ?thesis
  proof (cases "0 \<le> k")
    case True
    obtain t s where t: "keyword_token cfg k l = Inr (Token t (l\<lparr>yyval := Keyword s\<rparr>))" "277 \<le> t"
      "t = NOT_P \<longrightarrow> map ascii_lower kt = ascii ''not''" "t = NULLS_P \<longrightarrow> map ascii_lower kt = ascii ''nulls''"
      "t = WITH \<longrightarrow> map ascii_lower kt = ascii ''with''"
      using keyword_token_found [OF assms(3) nz k True] by blast
    have "t = NOT_P \<longrightarrow> length kt = 3" "t = NULLS_P \<longrightarrow> length kt = 5" "t = WITH \<longrightarrow> length kt = 4"
      using t(3-5) by (auto dest!: arg_cong [of "map _ _" _ length])
    moreover have "p0 < p + length kt" using l(6) d(4) by linarith
    ultimately have "found str p0 t (l\<lparr>yyval := Keyword s\<rparr>)"
      using t(2) l(1-5,7) d(4,6) l(6) by (simp add: found_def extent_def del: length_greater_0_conv)
    then show ?thesis unfolding act using True t(1) by simp
  next
    case False
    have "progress str p0 p (ident_token cfg word p (set_yylloc p lx))"
      using word(1) d(2-7) init assms(2) by (intro ident_token_found [OF assms(3)]) (simp_all add: set_yylloc_def text_ok_def)
    then show ?thesis unfolding act using False by simp
  qed
qed

lemma act_eof_progress:
  assumes "mid str p0 lx" "yypos lx = length str" "config_ok cfg"
  shows "progress str p0 q (act_eof cfg (scan_text str) (yypos lx) (lx\<lparr>yylength := 0\<rparr>))"
proof (cases "yystart lx = INITIAL")
  case True
  then show ?thesis using assms(1,2) by (simp add: act_eof_def set_yylloc_def found_def extent_def mid_def)
next
  case False
  let ?lx = "lx\<lparr>yylength := 0\<rparr>"
  have loc: "int p0 \<le> yyloc lx" "yyloc lx < int (yypos lx)" using assms(1) False by (auto simp: mid_def)
  then have err: "progress str p0 q (yyerror msg (scan_text str) ?lx)" for msg
    using assms(2) by (intro progress_yyerror) simp_all
  have sur: "progress str p0 q (invalid_surrogate (scan_text str) (set_yylloc (yypos lx) ?lx))"
    unfolding invalid_surrogate_def using assms(2) by (intro progress_yyerror) (simp_all add: set_yylloc_def)
  have mid: "mid str p0 ?lx" using assms(1) by (simp add: mid_def)
  have quote: "progress str p0 q (quote_end cfg (scan_text str) (yypos lx) ?lx)" if "yystart lx = xqs"
    using quote_end_progress [OF mid, of "yypos lx" 0 cfg] that loc assms(2,3) by simp
  show ?thesis using False err sur quote by (cases "yystart lx") (simp_all add: act_eof_def)
qed

lemma do_action_progress:
  assumes m: "matched str p0 r p n lx" and "text_ok str" "config_ok cfg"
  shows "progress str p0 p (do_action cfg (scan_text str) r p lx)"
proof -
  note r = rule_start(1) [OF matchedD(9) [OF m]]
  consider "r \<le> 8" | "9 \<le> r" "r \<le> 13" | "r \<in> {14, 15, 16}" | "17 \<le> r" "r \<le> 20" | "21 \<le> r" "r \<le> 32" | "33 \<le> r" "r \<le> 38"
    | "39 \<le> r" "r \<le> 45" | "46 \<le> r" "r \<le> 55" | "r = 56" | "57 \<le> r" "r \<le> 63" | "r = 64" | "r = 65"
    using r by atomize_elim (simp, presburger)
  then show ?thesis
  proof cases
    case 12
    obtain c where c: "at (yytext (scan_text str) p lx @ [0]) 0 = Inr c" "c \<noteq> 0" using first_char [OF m assms(2)] by blast
    have "found str p0 (char_token c) (set_yylloc p lx)"
    proof (rule found_plain)
      show "char_token c \<notin> {IDENT, UIDENT, USCONST, SCONST, BCONST, XCONST_tok, C_COMMENT, NOT_P, NULLS_P, WITH}"
        using char_token_bound(2) [OF c(2)] by auto
    qed (use char_token_bound(1) [OF c(2)] matchedD(2-7) [OF m] rule_start(2) [OF matchedD(9) [OF m]] 12 in \<open>simp_all add: set_yylloc_def\<close>)
    then show ?thesis using 12 c(1) by (simp add: do_action_def)
  qed (use act_comment_progress [OF m] act_bits_progress [OF m] act_quote_start_progress [OF m] act_quote_stop_progress [OF m]
      act_string_progress [OF m] act_dolq_progress [OF m] act_ident_progress [OF m] act_fixed_progress [OF m]
      act_operator_progress act_number_progress [OF m] act_word_progress m assms(2,3) in \<open>auto simp: do_action_def\<close>)
qed

lemma scan_step_progress:
  assumes "dfa_ok dfa str" "text_ok str" "config_ok cfg" "mid str p0 lx"
  shows "progress str p0 (yypos lx) (scan_step dfa cfg (scan_text str) lx)"
proof -
  have "yypos lx \<le> length str" using assms(4) by (simp add: mid_def)
  note ok = dfa_okD [OF assms(1) this, of "yystart lx"]
  show ?thesis
  proof (cases "dfa (yystart lx) (scan_text str) (yypos lx)")
    case (Rule r n)
    then show ?thesis
      using do_action_progress [OF matched_match [OF assms(4)] assms(2,3)] ok by (simp add: scan_step_def)
  next
    case Eof
    then show ?thesis using act_eof_progress [OF assms(4) _ assms(3)] ok by (simp add: scan_step_def match_ok_def)
  qed
qed

end
