(* ===== verification/Flex_Contract.thy ===== *)
theory Flex_Contract
  imports Flex_Match Scan_Total
begin

text \<open>
  The generated matcher keeps the contract \<open>dfa_ok\<close> under which the rule actions are verified: it
  always moves forward, only finds rules of the start condition, and the matched texts have the
  form the actions rely on.

  The texts on which the automaton can reach a state are bounded by a \<open>kind\<close>: finitely many texts,
  a prefix, a length, the texts of operators that do not start a comment, or words. \<open>state_sound\<close>
  checks that the kinds are closed under every transition and fit the rule of the state.
\<close>

section \<open>Kinds of matched texts\<close>

datatype kind = Exact "bytes list" | Prefix bytes | AtLeast nat | Long nat | Operator | Word

fun holds :: "kind \<Rightarrow> bytes \<Rightarrow> bool" where
  "holds (Exact ts) t = (t \<in> set ts)"
| "holds (Prefix p) t = (take (length p) t = p)"
| "holds (AtLeast n) t = (n \<le> length t)"
| "holds (Long n) t = (length t = n)"
| "holds Operator t = (operator_text t \<and> t \<noteq> [0x2f] \<and> t \<noteq> [0x2d])"
| "holds Word t = (t \<noteq> [] \<and> hd t \<noteq> 0x3f)"

definition exact_after :: "kind \<Rightarrow> int \<Rightarrow> int \<Rightarrow> kind \<Rightarrow> bool" where
  "exact_after k lo hi k' =
     (case k of
        Exact ts \<Rightarrow> list_all (\<lambda>c. list_all (\<lambda>t. holds k' (t @ [word_of_int c])) ts) [lo..hi - 1]
      | _ \<Rightarrow> False)"

fun least_length :: "kind \<Rightarrow> nat" where
  "least_length (Exact []) = 0"
| "least_length (Exact (t # ts)) = (if list_all (\<lambda>u. length t \<le> length u) ts then length t else 0)"
| "least_length (Prefix p) = length p"
| "least_length (AtLeast n) = n"
| "least_length (Long n) = n"
| "least_length Operator = 1"
| "least_length Word = 1"

text \<open>The texts of kind \<open>k\<close> with a byte from \<open>lo\<close> up to \<open>hi\<close> behind them are of kind \<open>k'\<close>.\<close>

definition after :: "kind \<Rightarrow> int \<Rightarrow> int \<Rightarrow> kind \<Rightarrow> bool" where
  "after k lo hi k' =
     (case k' of
        AtLeast n \<Rightarrow> n \<le> least_length k + 1
      | Long n \<Rightarrow> exact_after k lo hi k'
      | Exact ts \<Rightarrow> exact_after k lo hi k'
      | Prefix p \<Rightarrow> k = k' \<or> exact_after k lo hi k'
      | Operator \<Rightarrow> k = k' \<or> exact_after k lo hi k'
      | Word \<Rightarrow> k = k' \<or> exact_after k lo hi k')"

definition any_text :: "nat \<Rightarrow> bool" where
  "any_text r \<longleftrightarrow> r \<notin> {3, 4, 29, 35, 46, 56, 60, 62, 63, 64}"

definition fits :: "nat \<Rightarrow> kind \<Rightarrow> bool" where
  "fits r k =
     (case k of
        Exact ts \<Rightarrow> list_all (rule_text r) ts
      | Prefix p \<Rightarrow> r \<in> {3, 4} \<and> p = [0x2f, 0x2a]
      | AtLeast n \<Rightarrow> 1 \<le> n \<and> any_text r \<or> r \<in> {35, 62} \<and> 2 \<le> n \<or> r \<in> {60, 63} \<and> 3 \<le> n
      | Long n \<Rightarrow> 1 \<le> n \<and> any_text r \<or> r = 29 \<and> n = 2
      | Operator \<Rightarrow> any_text r \<or> r = 56
      | Word \<Rightarrow> any_text r \<or> r = 64)"

definition kind_table :: "(int \<times> kind) list" where
  "kind_table =
     [(6668, Exact [[0x2f]]), (6578, Exact [[0x2d]]), (6231, Exact [[0x2f]]), (12181, Prefix [0x2f, 0x2a]),
      (16052, Prefix [0x2f, 0x2a]), (13281, Prefix [0x2f, 0x2a]), (16144, Prefix [0x2f, 0x2a]),
      (10519, Exact [[0x5c]]), (6590, Long 2), (14578, Long 2), (14940, AtLeast 2), (16313, AtLeast 2), (6592, AtLeast 2),
      (7359, Exact [[0x45], [0x65]]), (6372, Exact [[0x45, 0x3f], [0x65, 0x3f]]),
      (6343, Word), (12508, Word), (6845, Word), (7102, Word), (7616, Word), (7873, Word), (8130, Word),
      (6204, Operator), (6244, Operator), (6567, Operator), (6735, Operator), (6746, Operator), (6813, Operator),
      (11550, Operator), (11561, Operator), (12309, Operator), (12350, Operator), (12417, Operator), (12428, Operator),
      (12183, AtLeast 2), (6594, AtLeast 3), (12269, AtLeast 2), (16076, AtLeast 3)]"

definition kind_of :: "int \<Rightarrow> int \<Rightarrow> kind" where
  "kind_of start b = (if b = start then Exact [[]] else case map_of kind_table b of Some k \<Rightarrow> k | None \<Rightarrow> AtLeast 1)"

fun runs_sound :: "int \<Rightarrow> int \<Rightarrow> int \<Rightarrow> row \<Rightarrow> bool" where
  "runs_sound start b lo [] = True"
| "runs_sound start b lo ((hi, None) # r) = runs_sound start b hi r"
| "runs_sound start b lo ((hi, Some n) # r) =
     (b + n \<noteq> start \<and> after (kind_of start b) lo hi (kind_of start (b + n)) \<and> runs_sound start b hi r)"

text \<open>The checks of a state. The start state has to have a way out for every byte but zero.\<close>

fun full_row :: "int \<Rightarrow> row \<Rightarrow> bool" where
  "full_row lo [] = (256 \<le> lo)"
| "full_row lo ((hi, t) # r) = (t \<noteq> None \<and> full_row hi r)"

definition state_sound :: "start_cond \<Rightarrow> int \<times> int \<times> row \<Rightarrow> bool" where
  "state_sound s st =
     (case st of (b, a, r) \<Rightarrow>
        runs_sound (start_state s) b 1 (tl r) \<and>
        (if b = start_state s then full_row 0 r else nat a \<in> set (rules_of s) \<and> fits (nat a) (kind_of (start_state s) b)))"

lemma states_sound: "list_all (state_sound s) (states s)"
  by (cases s; simp only: states_def start_cond.case) code_simp+

section \<open>Soundness of the checks\<close>

lemma least_length: "holds k t \<Longrightarrow> least_length k \<le> length t"
proof (cases k)
  case (Exact ts)
  assume "holds k t"
  then show ?thesis using Exact by (cases ts) (auto simp: list_all_iff)
next
  case (Prefix p)
  assume "holds k t"
  then have "length (take (length p) t) = length p" using Prefix by simp
  then show ?thesis using Prefix by simp
qed (auto simp: operator_text_def Suc_le_eq)

lemma exact_after_sound:
  assumes "exact_after k lo hi k'" "holds k t" "lo \<le> uint c" "uint c < hi"
  shows "holds k' (t @ [c])"
proof -
  obtain ts where k: "k = Exact ts" using assms(1) by (cases k) (simp_all add: exact_after_def)
  have "uint c \<in> set [lo..hi - 1]" using assms(3,4) by simp
  moreover have "t \<in> set ts" using k assms(2) by simp
  ultimately have "holds k' (t @ [word_of_int (uint c)])" using assms(1) unfolding k exact_after_def list_all_iff kind.case by blast
  then show ?thesis by simp
qed

lemma comment_start_first: "comment_start s = Some 0 \<longleftrightarrow> take 2 s = [0x2f, 0x2a] \<or> take 2 s = [0x2d, 0x2d]"
proof (cases s)
  case (Cons a u)
  then show ?thesis by (cases u) (auto simp: comment_start_def split: option.splits)
qed (simp add: comment_start_def)

lemma operator_grows:
  assumes "holds Operator t"
  shows "holds Operator (t @ [c])"
proof (cases t)
  case (Cons a u)
  then show ?thesis using assms by (cases u) (auto simp: operator_text_def comment_start_first)
qed (use assms in \<open>simp add: operator_text_def\<close>)

lemma after_sound:
  assumes "after k lo hi k'" "holds k t" "lo \<le> uint c" "uint c < hi"
  shows "holds k' (t @ [c])"
proof (cases k')
  case (AtLeast n)
  then show ?thesis using assms(1) least_length [OF assms(2)] by (simp add: after_def)
next
  case (Prefix p)
  have "take (length p) (t @ [c]) = p" if "take (length p) t = p"
    using that by (metis append_Nil2 append_assoc append_eq_conv_conj append_take_drop_id)
  then have "holds (Prefix p) t \<Longrightarrow> holds (Prefix p) (t @ [c])" by (simp del: take_append)
  then show ?thesis using Prefix assms exact_after_sound by (auto simp: after_def simp del: holds.simps)
next
  case Operator
  then show ?thesis using assms exact_after_sound operator_grows by (auto simp: after_def simp del: holds.simps)
next
  case Word
  have "holds Word (t @ [c])" if "holds Word t" using that by simp
  then show ?thesis using Word assms exact_after_sound by (auto simp: after_def simp del: holds.simps)
qed (use assms exact_after_sound in \<open>auto simp: after_def simp del: holds.simps\<close>)

lemma fits_sound:
  assumes "fits r k" "holds k t"
  shows "rule_text r t"
proof (cases k)
  case (Exact ts)
  then show ?thesis using assms by (auto simp: fits_def list_all_iff)
next
  case (Prefix p)
  then have "take 2 t = [0x2f, 0x2a]" "r \<in> {3, 4}" using assms by (auto simp: fits_def numeral_2_eq_2)
  then show ?thesis by (auto simp: rule_text_def)
qed (use assms in \<open>auto simp: fits_def rule_text_def any_text_def operator_text_def\<close>)

lemma runs_sound_lookup:
  "runs_sound start b lo r \<Longrightarrow> lo \<le> c \<Longrightarrow> row_lookup r c = Some n \<Longrightarrow>
   b + n \<noteq> start \<and> (\<exists>lo hi. lo \<le> c \<and> c < hi \<and> after (kind_of start b) lo hi (kind_of start (b + n)))"
proof (induction start b lo r rule: runs_sound.induct)
  case (2 start b lo hi r)
  then show ?case by (cases "c < hi") simp_all
next
  case (3 start b lo hi m r)
  then show ?case by (cases "c < hi") auto
qed simp

lemma full_row_lookup: "full_row lo r \<Longrightarrow> lo \<le> c \<Longrightarrow> c < 256 \<Longrightarrow> row_lookup r c \<noteq> None"
  by (induction lo r rule: full_row.induct) auto

lemma state_sound_of: "map_of (states s) b = Some (a, r) \<Longrightarrow> state_sound s (b, a, r)"
  using states_sound [of s] map_of_SomeD by (fastforce simp: list_all_iff)

lemma next_state_sound:
  assumes "b \<in> fst ` set (states s)" "c \<noteq> 0" "next_state s b c = Some b'" "holds (kind_of (start_state s) b) t"
  shows "b' \<noteq> start_state s \<and> holds (kind_of (start_state s) b') (t @ [c])"
proof -
  obtain a r where r: "map_of (states s) b = Some (a, r)" using state_known [OF assms(1)] by blast
  obtain n where n: "row_lookup r (uint c) = Some n" "b' = b + n" using assms(3) r by (auto simp: next_state_def)
  obtain v r' where r': "r = (1, v) # r'" using state_closed_of [OF r] by (auto simp: state_closed_def split: list.splits)
  have "1 \<le> uint c" by (rule uint_byte(3) [OF assms(2)])
  then have "row_lookup r' (uint c) = Some n" using n(1) r' by simp
  moreover have "runs_sound (start_state s) b 1 r'" using state_sound_of [OF r] r' by (simp add: state_sound_def)
  ultimately obtain lo hi where "b + n \<noteq> start_state s" "lo \<le> uint c" "uint c < hi"
    "after (kind_of (start_state s) b) lo hi (kind_of (start_state s) (b + n))"
    using runs_sound_lookup \<open>1 \<le> uint c\<close> by blast
  then show ?thesis using after_sound [of _ lo hi _ t c] assms(4) n(2) by auto
qed

lemma longest_run_sound:
  assumes "b \<in> fst ` set (states s)" "0 \<notin> set cs" "longest_run s b cs = (e, n)" "holds (kind_of (start_state s) b) t"
  shows "holds (kind_of (start_state s) e) (t @ take n cs) \<and> (0 < n \<longrightarrow> e \<noteq> start_state s)"
  using assms
proof (induction cs arbitrary: b n t)
  case (Cons c cs)
  show ?case
  proof (cases "next_state s b c")
    case None
    then show ?thesis using Cons.prems by simp
  next
    case (Some b')
    obtain m where m: "longest_run s b' cs = (e, m)" "n = Suc m" using Cons.prems(3) Some by (auto split: prod.splits)
    have c: "c \<noteq> 0" using Cons.prems(2) by auto
    note b' = next_state_closed [OF Cons.prems(1) c Some] next_state_sound [OF Cons.prems(1) c Some Cons.prems(4)]
    have "holds (kind_of (start_state s) e) ((t @ [c]) @ take m cs) \<and> (0 < m \<longrightarrow> e \<noteq> start_state s)"
      using Cons.IH [OF b'(1) _ m(1) conjunct2 [OF b'(2)]] Cons.prems(2) by simp
    moreover have "m = 0 \<Longrightarrow> e = b'" using m(1) by (cases cs) (auto split: option.splits prod.splits)
    ultimately show ?thesis using m(2) b'(2) by auto
  qed
qed simp

lemma longest_match_ok:
  assumes "0 \<notin> set str" "p \<le> length str"
  shows "match_ok s str p (longest_match s (drop p str))"
proof (cases "drop p str")
  case Nil
  then show ?thesis using assms(2) by (simp add: longest_match_def match_ok_def)
next
  case (Cons c cs)
  define t where "t = c # cs"
  have t: "drop p str = t" "0 \<notin> set t" "c \<noteq> 0" using assms(1) Cons in_set_dropD [of _ p str] by (auto simp: t_def)
  obtain e n where run: "longest_run s (start_state s) t = (e, n)" by fastforce
  have "holds (kind_of (start_state s) e) (take n t)" "0 < n \<Longrightarrow> e \<noteq> start_state s"
    using longest_run_sound [OF start_state t(2) run, of "[]"] by (simp_all add: kind_of_def)
  moreover have n: "n \<le> length t" "e \<in> fst ` set (states s)" using longest_run_bounds [OF start_state t(2) run] by simp_all
  moreover obtain a r where r: "map_of (states s) e = Some (a, r)" using state_known [OF n(2)] by blast
  moreover have "0 < n"
  proof -
    obtain a0 r0 where r0: "map_of (states s) (start_state s) = Some (a0, r0)" using state_known [OF start_state] by blast
    then have "full_row 0 r0" using state_sound_of by (fastforce simp: state_sound_def)
    then have "next_state s (start_state s) c \<noteq> None" using full_row_lookup uint_byte(1,2) [of c] r0 by (simp add: next_state_def)
    then show ?thesis using run by (auto simp: t_def split: prod.splits)
  qed
  ultimately have "state_rule s e \<in> set (rules_of s)" "rule_text (state_rule s e) (take n t)"
    using state_sound_of [OF r] fits_sound by (auto simp: state_sound_def state_rule_def)
  moreover have "p + n \<le> length str" using n(1) t(1) assms(2) by (metis add_le_cancel_left le_add_diff_inverse length_drop)
  ultimately show ?thesis using run t(1) \<open>0 < n\<close> by (simp add: longest_match_def match_ok_def t_def)
qed

lemma flex_dfa_ok:
  assumes "text_ok str"
  shows "dfa_ok flex_dfa str"
proof -
  have z: "0 \<notin> set str" using assms by (simp add: text_ok_def)
  have "match_ok s str p (flex_dfa s (scan_text str) p)" if "p \<le> length str" for s p
    using longest_match_ok [OF z that] flex_dfa_longest_match [OF z that] by simp
  then show ?thesis unfolding dfa_ok_def list_all_iff by (simp only: set_upt atLeastLessThan_iff) simp
qed

text \<open>
  C8: The table-driven matcher of the scanner refines the automaton of its patterns. On the buffer of
  any C string, in any start condition and at any position, it stays inside the transition table of
  17678 entries and inside the buffer, and returns the longest run of the automaton with the rule
  of the state it ends in, or the end of the input behind the last byte. The match is not empty,
  lies in the text, and the rule and the matched text are what the actions rely on (\<open>match_ok\<close>).
\<close>

theorem flex_scan_refines:
  assumes "0 \<notin> set str" "p \<le> length str"
  shows "flex_scan s (scan_text str) p = Inr (longest_match s (drop p str)) \<and>
    match_ok s str p (longest_match s (drop p str))"
  using flex_scan_runs [OF assms] longest_match_ok [OF assms] by blast

theorem flex_scan_refines_witness:
  "flex_scan xc (scan_text (ascii ''/* a **/'')) 2 = Inr (longest_match xc (ascii '' a **/'')) \<and>
   longest_match xc (ascii '' a **/'') = Rule 6 3"
proof -
  have "flex_scan xc (scan_text (ascii ''/* a **/'')) 2 = Inr (longest_match xc (drop 2 (ascii ''/* a **/'')))"
    using flex_scan_refines [of "ascii ''/* a **/''" 2 xc] by (simp add: ascii_def)
  moreover have "longest_match xc (ascii '' a **/'') = Rule 6 3" by code_simp
  moreover have "drop 2 (ascii ''/* a **/'') = ascii '' a **/''" by (simp add: ascii_def)
  ultimately show ?thesis by simp
qed

section \<open>The matcher as a function of the text\<close>

text \<open>The same function without the table, on the buffer; it is used to evaluate examples.\<close>

definition automaton_dfa :: dfa where
  "automaton_dfa s buf p =
     (if length buf - 2 < p then Rule 66 0 else longest_match s (drop p (take (length buf - 2) buf)))"

lemma flex_dfa_beyond:
  assumes "length str < p"
  shows "flex_dfa s (str @ [0, 0]) p = Rule 66 0"
proof -
  have out: "yy_match (str @ [0, 0]) st q = Inl OutOfBounds" if "length str + 2 \<le> q" for st q
    using that by (subst yy_match.simps) (simp add: at_def)
  have start: "at yy_start_state_list (yy_start s) = Inr (start_state s)"
    by (cases s) (simp_all add: at_def yy_start_def start_state_def yy_start_state_list_def)
  have "yy_match (str @ [0, 0]) (start_state s) p = Inl OutOfBounds"
  proof (cases "p = length str + 1")
    case True
    have "at (str @ [0, 0]) (int p) = Inr 0" using at_behind [of "str @ [0]" "0 :: 8 word" "[]"] True by simp
    then show ?thesis using zero_entry [OF start_state] out True by (subst yy_match.simps) (simp add: YY_SC_TO_UI_def)
  next
    case False
    then show ?thesis using out assms by simp
  qed
  then show ?thesis using start by (simp add: flex_dfa_def flex_scan_def yy_scan.simps)
qed

lemma flex_dfa_automaton: "0 \<notin> set str \<Longrightarrow> flex_dfa s (scan_text str) p = automaton_dfa s (scan_text str) p"
  using flex_dfa_beyond [of str p s] flex_dfa_longest_match [of str p s] by (auto simp: automaton_dfa_def not_less)

lemma core_yylex_run_le:
  assumes "\<And>s p. d s buf p = d' s buf p"
    and "core_yylex_run d cfg buf lx = Some r"
  shows "core_yylex_run d' cfg buf lx = Some r"
proof -
  have step: "scan_step d c buf l = scan_step d' c buf l" for c l using assms(1) by (simp add: scan_step_def)
  have "d = d \<longrightarrow> buf = buf \<longrightarrow> core_yylex_run d' cfg buf lx = Some r"
  proof (rule core_yylex_run.raw_induct [OF _ assms(2), where P = "\<lambda>e c b l r. e = d \<longrightarrow> b = buf \<longrightarrow> core_yylex_run d' c buf l = Some r"])
    fix run e c b l r
    assume ih: "\<And>e c b l r. run e c b l = Some r \<Longrightarrow> e = d \<longrightarrow> b = buf \<longrightarrow> core_yylex_run d' c buf l = Some r"
      and "(case scan_step e c b l of Inl e \<Rightarrow> Some (Inl e) | Inr (Token t l) \<Rightarrow> Some (Inr (t, l)) | Inr (Again l) \<Rightarrow> run e c b l) = Some r"
    then show "e = d \<longrightarrow> b = buf \<longrightarrow> core_yylex_run d' c buf l = Some r"
      using step by (subst core_yylex_run.simps) (auto split: sum.splits step.splits)
  qed
  then show ?thesis by simp
qed

lemma core_yylex_run_cong:
  assumes "\<And>s p. d s buf p = d' s buf p"
  shows "core_yylex_run d cfg buf lx = core_yylex_run d' cfg buf lx"
proof (cases "core_yylex_run d cfg buf lx")
  case None
  then show ?thesis using core_yylex_run_le [of d' buf d cfg lx] assms by (cases "core_yylex_run d' cfg buf lx") auto
qed (use core_yylex_run_le [of d buf d' cfg lx] assms in auto)

lemma core_yylex_automaton:
  "0 \<notin> set str \<Longrightarrow> core_yylex_run flex_dfa cfg (scan_text str) lx = core_yylex_run automaton_dfa cfg (scan_text str) lx"
  by (rule core_yylex_run_cong) (rule flex_dfa_automaton)

end
