(* ===== verification/Scan_Token.thy ===== *)
theory Scan_Token
  imports Flex_Contract Pg_Scan
begin

text \<open>
  One call of the scanner, and what its callers can rely on: the filter in front of the grammar
  (\<^verbatim>\<open>base_yylex\<close>) and \<^verbatim>\<open>pg_query_scan\<close>, whose token extents are read out of the scanner's state.
\<close>

section \<open>A whole call\<close>

definition idle :: "bytes \<Rightarrow> lexer \<Rightarrow> bool" where
  "idle str lx \<longleftrightarrow> yystart lx = INITIAL \<and> literal_ok lx \<and> yypos lx \<le> length str"

lemma core_yylex_returns:
  assumes "dfa_ok dfa str" "text_ok str" "config_ok cfg"
  shows "mid str p0 lx \<Longrightarrow> \<exists>r. core_yylex_run dfa cfg (scan_text str) lx = Some r \<and> safe (\<lambda>(t, lx'). found str p0 t lx') r"
proof (induction "length str - yypos lx" arbitrary: lx rule: less_induct)
  case less
  note p = scan_step_progress [OF assms less.prems]
  show ?case
  proof (cases "scan_step dfa cfg (scan_text str) lx")
    case (Inl e)
    then show ?thesis using p by (subst core_yylex_run.simps) simp
  next
    case (Inr s)
    show ?thesis
    proof (cases s)
      case (Again lx')
      then have m: "mid str p0 lx'" "yypos lx < yypos lx'" using p Inr by simp_all
      moreover from m(1) have "yypos lx' \<le> length str" by (simp add: mid_def)
      ultimately have "length str - yypos lx' < length str - yypos lx" by linarith
      from less.hyps [OF this m(1)] show ?thesis using Inr Again by (subst core_yylex_run.simps) simp
    next
      case (Token t lx')
      then show ?thesis using p Inr by (subst core_yylex_run.simps) simp
    qed
  qed
qed

lemma core_yylex_idle:
  assumes "dfa_ok dfa str" "text_ok str" "config_ok cfg" "idle str lx"
  shows "\<exists>r. core_yylex_run dfa cfg (scan_text str) lx = Some r \<and> safe (\<lambda>(t, lx'). found str (yypos lx) t lx' \<and> idle str lx') r"
proof -
  have "mid str (yypos lx) lx" using assms(4) by (simp add: mid_def idle_def)
  then obtain r where r: "core_yylex_run dfa cfg (scan_text str) lx = Some r" "safe (\<lambda>(t, lx'). found str (yypos lx) t lx') r"
    using core_yylex_returns [OF assms(1-3)] by blast
  have "idle str lx'" if "found str p t lx'" for p t lx' using that unfolding found_def idle_def by blast
  then have "safe (\<lambda>(t, lx'). found str (yypos lx) t lx' \<and> idle str lx') r" using safe_mono [OF r(2)] by (auto split: prod.splits)
  then show ?thesis using r(1) by blast
qed

section \<open>The settings and the initial state\<close>

definition sample_config :: scan_config where
  "sample_config =
     \<lparr>standard_conforming_strings = True, escape_string_warning = True, backslash_quote = BACKSLASH_QUOTE_SAFE_ENCODING,
      keywordlist = ScanKeywords, keyword_tokens = ScanKeywordTokens, server = \<lparr>enc_name = ''UTF8'', encoding = 6\<rparr>,
      client_encoding = 6, Utf8ToServerConvProc = None, isupper = (\<lambda>c. False), tolower = (\<lambda>c. c)\<rparr>"

text \<open>The scanner after \<open>scanner_init\<close>: an empty literal buffer of 1024 bytes, the other fields as they were.\<close>

definition lexer_init :: "lexer \<Rightarrow> lexer" where
  "lexer_init lx = lx\<lparr>literalalloc := 1024, literalbuf := replicate 1024 None, literallen := 0, yystart := INITIAL, yypos := 0\<rparr>"

definition sample_lexer :: lexer where
  "sample_lexer = lexer_init
     \<lparr>literalbuf = [], literallen = 0, literalalloc = 0, state_before_str_stop = INITIAL, xcdepth = 0, dolqstart = None,
      save_yylloc = 0, utf16_first_part = 0, warn_on_first_escape = False, saw_non_ascii = False, llocend = 0, yystart = INITIAL,
      yypos = 0, yylength = 0, yyval = Ival 0, yyloc = 0, warnings = []\<rparr>"

lemma lexer_init_rep: "lit_rep (lexer_init lx) []"
  by (auto simp: lit_rep_def lexer_init_def buffer_size_def intro: exI [of _ 0])

lemma lexer_init_idle: "idle str (lexer_init lx)"
  using lexer_init_rep [of lx] by (auto simp: idle_def literal_ok_def lexer_init_def)

lemma sample_config_ok: "config_ok sample_config"
  by (simp add: config_ok_def sample_config_def)

lemma sample_lexer_idle: "idle str sample_lexer"
  by (simp add: sample_lexer_def lexer_init_idle)

abbreviation sample_text :: bytes where
  "sample_text \<equiv> ascii '' /* a /* b */ c **/ 42''"

lemma sample_text_ok: "text_ok sample_text"
  by (simp add: text_ok_def ascii_def)

section \<open>Properties\<close>

text \<open>
  C7: A call of the scanner always returns. From any state between two tokens, and in particular
  after \<open>scanner_init\<close>, on any text of less than 2^29 bytes without a zero, it delivers a token
  that lies behind the previous one and inside the text, or the end of the text, or it raises an
  error with a message. It never overflows an integer, leaves a buffer or reads an unset byte,
  and after a token it is between two tokens again.
\<close>

theorem core_yylex_total:
  assumes "text_ok str" "config_ok cfg" "idle str lx"
  shows "\<exists>r. core_yylex_run flex_dfa cfg (scan_text str) lx = Some r \<and>
    (case r of
       Inl e \<Rightarrow> \<exists>message. e = Elog message
     | Inr (t, lx') \<Rightarrow> found str (yypos lx) t lx' \<and> idle str lx')"
proof -
  obtain r where r: "core_yylex_run flex_dfa cfg (scan_text str) lx = Some r"
    "safe (\<lambda>(t, lx'). found str (yypos lx) t lx' \<and> idle str lx') r"
    using core_yylex_idle [OF flex_dfa_ok [OF assms(1)] assms] by blast
  have "is_elog e \<Longrightarrow> \<exists>message. e = Elog message" for e by (cases e) (auto simp: is_elog_def)
  then show ?thesis using r by (auto split: sum.splits)
qed

lemma sample_run:
  "case core_yylex_run automaton_dfa cfg (scan_text sample_text) sample_lexer of
     Some (Inr (t, lx)) \<Rightarrow> t = C_COMMENT \<and> yypos lx = 19 | _ \<Rightarrow> False"
  by code_simp

theorem core_yylex_total_witness:
  "\<exists>lx. core_yylex_run flex_dfa sample_config (scan_text sample_text) sample_lexer = Some (Inr (C_COMMENT, lx)) \<and>
     found sample_text 0 C_COMMENT lx \<and> yypos lx = 19"
proof -
  obtain r where r: "core_yylex_run flex_dfa sample_config (scan_text sample_text) sample_lexer = Some r"
    "case r of Inl e \<Rightarrow> \<exists>message. e = Elog message | Inr (t, lx') \<Rightarrow> found sample_text (yypos sample_lexer) t lx' \<and> idle sample_text lx'"
    using core_yylex_total [OF sample_text_ok sample_config_ok sample_lexer_idle] by blast
  moreover have "yypos sample_lexer = 0" by (simp add: sample_lexer_def lexer_init_def)
  moreover have "0 \<notin> set sample_text" using sample_text_ok by (simp add: text_ok_def)
  ultimately show ?thesis using sample_run [of sample_config]
    by (auto simp: core_yylex_automaton split: option.splits sum.splits prod.splits)
qed

text \<open>
  The scanner as the filter of the grammar sees it: started between two tokens at a position, it
  gives the token and the position behind it. What else is in the state is that of \<open>lx\<close>.
\<close>

definition scan_matcher :: "scan_config \<Rightarrow> lexer \<Rightarrow> matcher" where
  "scan_matcher cfg lx buf p =
     (case core_yylex_run flex_dfa cfg buf (lx\<lparr>yypos := p\<rparr>) of
        None \<Rightarrow> Inl Diverges
      | Some (Inl e) \<Rightarrow> Inl e
      | Some (Inr (t, lx')) \<Rightarrow> Inr (\<lparr>code = t, lval = yyval lx', lloc = nat (yyloc lx')\<rparr>, yypos lx'))"

definition no_e_question :: "bytes \<Rightarrow> bool" where
  "no_e_question str \<longleftrightarrow> list_all (\<lambda>e. \<not> e_question str e) [0..<Suc (length str)]"

lemma found_token_ok:
  assumes "found str p t lx" "no_e_question str" "p \<le> length str"
  shows "token_ok str p \<lparr>code = t, lval = yyval lx, lloc = nat (yyloc lx)\<rparr> (yypos lx)"
proof -
  have e: "yypos lx \<le> length str" using assms(1) by (simp add: found_def)
  then have "yypos lx \<in> set [0..<Suc (length str)]" by (simp only: set_upt atLeastLessThan_iff) simp
  then have "\<not> e_question str (yypos lx)" using assms(2) unfolding no_e_question_def list_all_iff by blast
  then have loc: "if t = 0 then yypos lx = length str \<and> yyloc lx = int (length str)
      else p < yypos lx \<and> int p \<le> yyloc lx \<and> yyloc lx < int (yypos lx)"
    using assms(1) by (auto simp: found_def)
  have key: "t = NOT_P \<longrightarrow> int (yypos lx) = yyloc lx + 3" "t = NULLS_P \<longrightarrow> int (yypos lx) = yyloc lx + 5"
    "t = WITH \<longrightarrow> int (yypos lx) = yyloc lx + 4" "t \<in> {UIDENT, USCONST, SCONST} \<longrightarrow> (\<exists>s. yyval lx = Str s)"
    using assms(1) unfolding found_def by blast+
  show ?thesis
  proof (cases "t = 0")
    case True
    then show ?thesis using loc assms(3) by (simp add: token_ok_def)
  next
    case False
    then have "p \<le> nat (yyloc lx)" "nat (yyloc lx) < yypos lx" "0 \<le> yyloc lx" using loc by auto
    then show ?thesis using False key e by (auto simp: token_ok_def)
  qed
qed

text \<open>
  C9: The scanner keeps the contract of the filter that sits between it and the grammar: on a text
  in which no letter E stands directly in front of a question mark, tokens follow one another
  inside the text, the end is reported at its length, NOT, NULLS and WITH have the lengths the
  filter has wired in, and quoted tokens carry a string. So everything proved of \<open>base_yylex\<close>
  under this contract holds for the filter on top of this scanner.
\<close>

theorem scan_matcher_keeps_contract:
  assumes "text_ok str" "config_ok cfg" "idle str lx" "no_e_question str"
  shows "scanner_ok (scan_matcher cfg lx) str"
proof -
  have "case scan_matcher cfg lx (scan_text str) p of Inl e \<Rightarrow> True | Inr (t, e) \<Rightarrow> token_ok str p t e"
    if p: "p \<le> length str" for p
  proof -
    have "idle str (lx\<lparr>yypos := p\<rparr>)" using assms(3) p by (simp add: idle_def)
    from core_yylex_idle [OF flex_dfa_ok [OF assms(1)] assms(1,2) this] obtain r where
      r: "core_yylex_run flex_dfa cfg (scan_text str) (lx\<lparr>yypos := p\<rparr>) = Some r" "safe (\<lambda>(t, lx'). found str p t lx' \<and> idle str lx') r"
      by auto
    then show ?thesis using found_token_ok [OF _ assms(4) p] by (auto simp: scan_matcher_def split: sum.splits)
  qed
  then have "list_all (\<lambda>p. case scan_matcher cfg lx (scan_text str) p of Inl e \<Rightarrow> True | Inr (t, e) \<Rightarrow> token_ok str p t e)
      [0..<Suc (length str)]"
    unfolding list_all_iff by (simp only: set_upt atLeastLessThan_iff) (simp add: less_Suc_eq_le)
  then show ?thesis using assms(1) by (simp add: scanner_ok_def text_ok_def)
qed

theorem scan_matcher_keeps_contract_witness:
  "scanner_ok (scan_matcher sample_config sample_lexer) sample_text"
proof -
  have "no_e_question sample_text" by code_simp
  from scan_matcher_keeps_contract [OF sample_text_ok sample_config_ok sample_lexer_idle this] show ?thesis .
qed

text \<open>
  What \<^verbatim>\<open>pg_query_scan\<close> reads out of the scanner after a call: the token, \<^verbatim>\<open>yylloc\<close>, \<^verbatim>\<open>yyleng\<close> and
  \<^verbatim>\<open>yyllocend\<close>. \<^verbatim>\<open>tok_end\<close> is not read, it is the position where the scanner goes on. The keyword
  class comes from the \<^verbatim>\<open>switch\<close> that is generated from \<^verbatim>\<open>kwlist.h\<close>.
\<close>

definition scanned_token :: "int \<Rightarrow> lexer \<Rightarrow> scanned" where
  "scanned_token t lx =
     \<lparr>tok = t, yylloc = yyloc lx, tok_end = int (yypos lx), yyleng = int (yylength lx), yyllocend = llocend lx\<rparr>"

definition kw_class :: "int \<Rightarrow> int option" where
  "kw_class t = map_of (map snd PG_KEYWORDS) t"

text \<open>
  C20: The extent \<^verbatim>\<open>pg_query_scan\<close> reports for a token is its place in the text: it starts at the
  location, which is not before the place where the call began, and ends where the scanner goes
  on. There are two exceptions. Identifiers and strings with Unicode escapes (\<^verbatim>\<open>UIDENT\<close>,
  \<^verbatim>\<open>USCONST\<close>) are missing in the list of the tokens that end at \<^verbatim>\<open>yyllocend\<close>: they are reported
  too short, because \<^verbatim>\<open>yyleng\<close> is the length of the last match only. And the question mark behind a
  letter E (rule 46, \<^verbatim>\<open>scan.c:5507\<close>) is returned without \<^verbatim>\<open>SET_YYLLOC\<close>, so its location is the one
  of an earlier token; nothing is claimed of its extent.
\<close>

theorem scan_extents:
  assumes "text_ok str" "config_ok cfg" "idle str lx"
    and "core_yylex_run flex_dfa cfg (scan_text str) lx = Some (Inr (t, lx'))" "t \<noteq> 0"
  shows "t = char_token 0x3f \<and> e_question str (yypos lx') \<or>
    start (output_token kw_class (scanned_token t lx')) = yyloc lx' \<and> int (yypos lx) \<le> yyloc lx' \<and>
    (if t \<in> {UIDENT, USCONST} then end_ofs (output_token kw_class (scanned_token t lx')) < int (yypos lx')
     else end_ofs (output_token kw_class (scanned_token t lx')) = int (yypos lx'))"
proof -
  have "found str (yypos lx) t lx'" using core_yylex_idle [OF flex_dfa_ok [OF assms(1)] assms(1-3)] assms(4) by auto
  then have "int (yypos lx) \<le> yyloc lx' \<and> extent t lx' \<or> t = char_token 0x3f \<and> e_question str (yypos lx')"
    using assms(5) by (auto simp: found_def)
  then show ?thesis by (auto simp: output_token_def token_end_def scanned_token_def extent_def split: if_splits)
qed

abbreviation unicode_text :: bytes where
  "unicode_text \<equiv> ascii ''U&'' @ [0x27] @ ascii ''abc'' @ [0x27] @ ascii '' 1''"

lemma unicode_text_ok: "text_ok unicode_text" "no_e_question unicode_text"
proof -
  show "text_ok unicode_text" by (simp add: text_ok_def ascii_def)
qed code_simp

lemma unicode_run:
  "case core_yylex_run automaton_dfa (sample_config\<lparr>keywordlist := k, keyword_tokens := ts\<rparr>) (scan_text unicode_text) sample_lexer of
     Some (Inr (t, lx)) \<Rightarrow> t = USCONST \<and> yypos lx = 7 \<and> yyloc lx = 0 \<and> yylength lx = 0 | _ \<Rightarrow> False"
  by code_simp

theorem scan_extents_witness:
  "\<exists>lx. core_yylex_run flex_dfa sample_config (scan_text unicode_text) sample_lexer = Some (Inr (USCONST, lx)) \<and>
     yypos lx = 7 \<and> end_ofs (output_token kw_class (scanned_token USCONST lx)) < 7"
proof -
  have "sample_config = sample_config\<lparr>keywordlist := ScanKeywords, keyword_tokens := ScanKeywordTokens\<rparr>"
    by (simp add: sample_config_def)
  then obtain lx where lx: "core_yylex_run flex_dfa sample_config (scan_text unicode_text) sample_lexer = Some (Inr (USCONST, lx))" "yypos lx = 7"
    using unicode_run [where k = ScanKeywords and ts = ScanKeywordTokens] core_yylex_automaton [of unicode_text sample_config sample_lexer] unicode_text_ok(1)
    by (auto simp: text_ok_def simp del: append_assoc append_Cons append_Nil set_append split: option.splits sum.splits prod.splits)
  from scan_extents [OF unicode_text_ok(1) sample_config_ok sample_lexer_idle lx(1)] lx show ?thesis
    by (auto simp: char_token_def)
qed

section \<open>All tokens of a text\<close>












end
