(* ===== verification/Scan_Quoted.thy ===== *)
theory Scan_Quoted
  imports Scan_Token
begin

text \<open>
  What the scanner reads out of quoted text: identifiers in double quotes and string constants, the
  plain ones and those with backslash escapes. Quotes inside are written twice, and so are
  backslashes behind an E; the value of the token is the text with that undone, and the scanner
  stops behind the closing quote.

  The locale \<open>quoted_body\<close> is the common part, the run through the inside of such a text; it is
  interpreted for the three start conditions \<^verbatim>\<open>xd\<close>, \<^verbatim>\<open>xq\<close> and \<^verbatim>\<open>xe\<close>.
\<close>

section \<open>Runs of the automaton\<close>

lemma longest_run_span:
  assumes "list_all (\<lambda>c. next_state s b c = Some b2 \<and> next_state s b2 c = Some b2) u"
    and "rest = [] \<or> next_state s b (hd rest) = None \<and> next_state s b2 (hd rest) = None"
  shows "longest_run s b (u @ rest) = (if u = [] then b else b2, length u)"
proof -
  have loop: "list_all (\<lambda>c. next_state s b2 c = Some b2) u \<Longrightarrow> longest_run s b2 (u @ rest) = (b2, length u)" for u
    using assms(2) by (induction u; cases rest) auto
  show ?thesis
  proof (cases u)
    case Nil
    then show ?thesis using assms(2) by (cases rest) auto
  next
    case (Cons c v)
    have "list_all (\<lambda>c. next_state s b2 c = Some b2) v" using assms(1) Cons by (auto simp: list_all_iff)
    then show ?thesis using loop [of v] assms(1) Cons by simp
  qed
qed

lemma longest_match_Cons:
  "next_state s (start_state s) c = Some b \<Longrightarrow>
   longest_match s (c # cs) = (case longest_run s b cs of (e, n) \<Rightarrow> Rule (state_rule s e) (Suc n))"
  by (simp add: longest_match_def split: prod.splits)

lemma byte_zero: "(uint (c :: 8 word) < 1) = (uint c = 0)"
  using uint_byte(1) [of c] by linarith

lemma byte_eq: "(c = (0x22 :: 8 word)) = (uint c = 34)" "(c = (0x27 :: 8 word)) = (uint c = 39)"
  "(c = (0x5c :: 8 word)) = (uint c = 92)" "(c = (0 :: 8 word)) = (uint c = 0)"
  by (simp_all add: word_uint_eq_iff)

lemma xd_states:
  "next_state xd (start_state xd) 0x22 = Some 6236"
  "c \<noteq> 0 \<Longrightarrow> c \<noteq> 0x22 \<Longrightarrow> next_state xd (start_state xd) c = Some 9161"
  "c \<noteq> 0 \<Longrightarrow> next_state xd 6236 c = (if c = 0x22 then Some 6582 else None)"
  "c \<noteq> 0 \<Longrightarrow> next_state xd 6582 c = None"
  "c \<noteq> 0 \<Longrightarrow> next_state xd 9161 c = (if c = 0x22 then None else Some 13409)"
  "c \<noteq> 0 \<Longrightarrow> next_state xd 13409 c = (if c = 0x22 then None else Some 13409)"
  "state_rule xd 6236 = 41" "state_rule xd 6582 = 43" "state_rule xd 9161 = 44" "state_rule xd 13409 = 44"
  using uint_byte(1,2) [of c]
  by (auto simp: next_state_def state_rule_def states_def states_xd_def start_state_def yy_start_def yy_start_state_list_def
      row_1551_def row_6236_def row_6582_def row_9161_def row_13409_def byte_eq byte_zero)

lemma xq_states:
  "next_state xq (start_state xq) 0x27 = Some 6253"
  "c \<noteq> 0 \<Longrightarrow> c \<noteq> 0x27 \<Longrightarrow> next_state xq (start_state xq) c = Some 9677"
  "c \<noteq> 0 \<Longrightarrow> next_state xq 6253 c = (if c = 0x27 then Some 6584 else None)"
  "c \<noteq> 0 \<Longrightarrow> next_state xq 6584 c = None"
  "c \<noteq> 0 \<Longrightarrow> next_state xq 9677 c = (if c = 0x27 then None else Some 13925)"
  "c \<noteq> 0 \<Longrightarrow> next_state xq 13925 c = (if c = 0x27 then None else Some 13925)"
  "state_rule xq 6253 = 17" "state_rule xq 6584 = 21" "state_rule xq 9677 = 22" "state_rule xq 13925 = 22"
  using uint_byte(1,2) [of c]
  by (auto simp: next_state_def state_rule_def states_def states_xq_def start_state_def yy_start_def yy_start_state_list_def
      row_2583_def row_6253_def row_6584_def row_9677_def row_13925_def byte_eq byte_zero)

lemma xe_states:
  "next_state xe (start_state xe) 0x27 = Some 6260"
  "next_state xe (start_state xe) 0x5c = Some 10519"
  "c \<noteq> 0 \<Longrightarrow> c \<noteq> 0x27 \<Longrightarrow> c \<noteq> 0x5c \<Longrightarrow> next_state xe (start_state xe) c = Some (if c = 0x0a then 10261 else 10003)"
  "c \<noteq> 0 \<Longrightarrow> next_state xe 6260 c = (if c = 0x27 then Some 6584 else None)"
  "c \<noteq> 0 \<Longrightarrow> next_state xe 6584 c = None"
  "next_state xe 10519 0x5c = Some 6590"
  "c \<noteq> 0 \<Longrightarrow> next_state xe 6590 c = None"
  "c \<noteq> 0 \<Longrightarrow> next_state xe 10003 c = (if c = 0x27 \<or> c = 0x5c then None else Some 14251)"
  "c \<noteq> 0 \<Longrightarrow> next_state xe 10261 c = (if c = 0x27 \<or> c = 0x5c then None else Some 14251)"
  "c \<noteq> 0 \<Longrightarrow> next_state xe 14251 c = (if c = 0x27 \<or> c = 0x5c then None else Some 14251)"
  "state_rule xe 6260 = 17" "state_rule xe 6584 = 21" "state_rule xe 6590 = 29"
  "state_rule xe 10003 = 23" "state_rule xe 10261 = 23" "state_rule xe 14251 = 23"
proof -
  have ten: "(c = 0x0a) = (uint c = 10)" by (simp add: word_uint_eq_iff)
  show "next_state xe (start_state xe) 0x27 = Some 6260"
    "next_state xe (start_state xe) 0x5c = Some 10519"
    "c \<noteq> 0 \<Longrightarrow> c \<noteq> 0x27 \<Longrightarrow> c \<noteq> 0x5c \<Longrightarrow> next_state xe (start_state xe) c = Some (if c = 0x0a then 10261 else 10003)"
    "c \<noteq> 0 \<Longrightarrow> next_state xe 6260 c = (if c = 0x27 then Some 6584 else None)"
    "c \<noteq> 0 \<Longrightarrow> next_state xe 6584 c = None"
    "next_state xe 10519 0x5c = Some 6590"
    "c \<noteq> 0 \<Longrightarrow> next_state xe 6590 c = None"
    "c \<noteq> 0 \<Longrightarrow> next_state xe 10003 c = (if c = 0x27 \<or> c = 0x5c then None else Some 14251)"
    "c \<noteq> 0 \<Longrightarrow> next_state xe 10261 c = (if c = 0x27 \<or> c = 0x5c then None else Some 14251)"
    "c \<noteq> 0 \<Longrightarrow> next_state xe 14251 c = (if c = 0x27 \<or> c = 0x5c then None else Some 14251)"
    "state_rule xe 6260 = 17" "state_rule xe 6584 = 21" "state_rule xe 6590 = 29"
    "state_rule xe 10003 = 23" "state_rule xe 10261 = 23" "state_rule xe 14251 = 23"
    using uint_byte(1,2) [of c]
    by (auto simp: next_state_def state_rule_def states_def states_xe_def start_state_def yy_start_def yy_start_state_list_def ten
        row_3615_def row_6260_def row_6584_def row_10519_def row_6590_def row_10003_def row_10261_def row_14251_def byte_eq byte_zero)
qed

section \<open>The inside of a quoted text\<close>

text \<open>Every byte of \<open>D\<close> is written twice.\<close>

definition doubled :: "bytes \<Rightarrow> bytes \<Rightarrow> bytes" where
  "doubled D s = concat (map (\<lambda>c. if c \<in> set D then [c, c] else [c]) s)"

lemma doubled_simps [simp]:
  "doubled D [] = []" "doubled D (c # s) = (if c \<in> set D then c # c # doubled D s else c # doubled D s)"
  "doubled D (s @ t) = doubled D s @ doubled D t"
  by (simp_all add: doubled_def)

lemma doubled_plain: "list_all (\<lambda>c. c \<notin> set D) u \<Longrightarrow> doubled D u = u"
  by (induction u) simp_all

lemma set_doubled [simp]: "set (doubled D s) = set s"
  by (induction s) auto

text \<open>
  The contract: as long as \<open>ok\<close> holds, a stretch without a byte of \<open>D\<close> is one match that is added
  to the literal, and a doubled byte is one match that adds it once.
\<close>

definition advanced :: "nat \<Rightarrow> lexer \<Rightarrow> lexer" where
  "advanced n lx = lx\<lparr>yypos := yypos lx + n, yylength := n\<rparr>"

text \<open>The run to the closing quote collects the text; nothing else in the state changes.\<close>

definition collected :: "(lexer \<Rightarrow> bool) \<Rightarrow> bytes \<Rightarrow> nat \<Rightarrow> lexer \<Rightarrow> lexer \<Rightarrow> bool" where
  "collected ok t n lx lx' \<longleftrightarrow>
     ok lx' \<and> lit_rep lx' t \<and> yypos lx' = yypos lx + n \<and>
     lx' = lx\<lparr>literalbuf := literalbuf lx', literalalloc := literalalloc lx', literallen := literallen lx',
       yypos := yypos lx', yylength := yylength lx'\<rparr>"

locale quoted_body =
  fixes ok :: "lexer \<Rightarrow> bool" and D :: bytes
  assumes plain: "ok lx \<Longrightarrow> 0 \<notin> set (pre @ u @ rest) \<Longrightarrow> yypos lx = length pre \<Longrightarrow> u \<noteq> [] \<Longrightarrow>
      list_all (\<lambda>c. c \<notin> set D) u \<Longrightarrow> rest \<noteq> [] \<Longrightarrow> hd rest \<in> set D \<Longrightarrow>
      scan_step flex_dfa cfg (scan_text (pre @ u @ rest)) lx = bindE (addlit u (advanced (length u) lx)) (\<lambda>lx. Inr (Again lx))"
    and twice: "ok lx \<Longrightarrow> 0 \<notin> set (pre @ c # c # rest) \<Longrightarrow> yypos lx = length pre \<Longrightarrow> c \<in> set D \<Longrightarrow>
      scan_step flex_dfa cfg (scan_text (pre @ c # c # rest)) lx = bindE (addlitchar c (advanced 2 lx)) (\<lambda>lx. Inr (Again lx))"
    and kept: "ok lx \<Longrightarrow> extends (advanced n lx) lx' \<Longrightarrow> ok lx'"
begin

lemma collected_trans:
  assumes "collected ok t n lx lx'" "collected ok t' m lx' lx''"
  shows "collected ok t' (n + m) lx lx''"
  using assms unfolding collected_def by (cases lx; cases lx'; cases lx'') simp

lemma body_run:
  assumes "ok lx" "lit_rep lx t" "0 \<notin> set (pre @ s)" "0 \<notin> set (q # rest)" "yypos lx = length pre" "q \<in> set D"
    and "length (t @ s) < 2 ^ 29"
  shows "\<exists>lx'. collected ok (t @ s) (length (doubled D s)) lx lx' \<and>
    core_yylex_run flex_dfa cfg (scan_text (pre @ doubled D s @ q # rest)) lx =
    core_yylex_run flex_dfa cfg (scan_text (pre @ doubled D s @ q # rest)) lx'"
  using assms
proof (induction s arbitrary: pre t lx rule: length_induct)
  case (1 s)
  note prems = 1(2-8)
  define str where "str = pre @ doubled D s @ q # rest"
  have step: ?case
    if s: "s = u @ v" "u \<noteq> []" and lx': "collected ok (t @ u) (length (doubled D u)) lx lx'"
      and run: "scan_step flex_dfa cfg (scan_text str) lx = Inr (Again lx')" for u v lx'
  proof -
    have v: "length v < length s" using s by simp
    have pos: "yypos lx' = length (pre @ doubled D u)" using lx' prems(5) by (simp add: collected_def)
    have c: "ok lx'" "lit_rep lx' (t @ u)" using lx' by (simp_all add: collected_def)
    have "0 \<notin> set ((pre @ doubled D u) @ v)" "length ((t @ u) @ v) < 2 ^ 29" using prems(3,7) s(1) by auto
    then obtain lx'' where l: "collected ok ((t @ u) @ v) (length (doubled D v)) lx' lx''"
      "core_yylex_run flex_dfa cfg (scan_text ((pre @ doubled D u) @ doubled D v @ q # rest)) lx' =
       core_yylex_run flex_dfa cfg (scan_text ((pre @ doubled D u) @ doubled D v @ q # rest)) lx''"
      using 1(1) v c prems(4,6) pos by blast
    have eq: "(pre @ doubled D u) @ doubled D v @ q # rest = str" by (simp add: str_def s(1))
    have "core_yylex_run flex_dfa cfg (scan_text str) lx = core_yylex_run flex_dfa cfg (scan_text str) lx'"
      using run by (subst core_yylex_run.simps) simp
    moreover have "collected ok (t @ s) (length (doubled D s)) lx lx''" using collected_trans [OF lx' l(1)] by (simp add: s(1))
    ultimately have "collected ok (t @ s) (length (doubled D s)) lx lx'' \<and>
        core_yylex_run flex_dfa cfg (scan_text str) lx = core_yylex_run flex_dfa cfg (scan_text str) lx''"
      using l(2) unfolding eq by (simp only:)
    then show ?thesis unfolding str_def by blast
  qed
  have rep: "lit_rep (advanced n lx) t" for n
    by (rule iffD2 [OF lit_rep_cong prems(2)]) (simp_all add: advanced_def)
  have finished: "collected ok t' n lx lx'" if "extends (advanced n lx) lx'" "lit_rep lx' t'" for n lx' t'
    using that kept [OF prems(1) that(1)] unfolding collected_def extends_def advanced_def
    by (cases lx; cases lx') simp
  show ?case
  proof (cases s)
    case Nil
    have "collected ok t 0 lx lx" using prems(1,2) by (simp add: collected_def)
    then show ?thesis using Nil by auto
  next
    case (Cons c v)
    show ?thesis
    proof (cases "c \<in> set D")
      case True
      then have str: "str = pre @ c # c # doubled D v @ q # rest" by (simp add: str_def Cons)
      have "0 \<notin> set (pre @ c # c # doubled D v @ q # rest)" using prems(3,4) Cons by auto
      then have run: "scan_step flex_dfa cfg (scan_text str) lx = bindE (addlitchar c (advanced 2 lx)) (\<lambda>lx. Inr (Again lx))"
        unfolding str by (rule twice [OF prems(1) _ prems(5) True])
      have "int (length t + length [c]) < 2 ^ 29" using prems(7) Cons by simp
      then obtain lx' where l: "addlit [c] (advanced 2 lx) = Inr lx'" "lit_rep lx' (t @ [c])" "extends (advanced 2 lx) lx'"
        using addlit_rep [OF rep, of "[c]" 2] by auto
      moreover have "addlitchar c (advanced 2 lx) = addlit [c] (advanced 2 lx)"
        using addlitchar_addlit [OF rep] prems(7) Cons by simp
      ultimately show ?thesis using step [of "[c]" v lx'] finished [OF l(3,2)] run True Cons by (simp add: numeral_2_eq_2)
    next
      case False
      define u where "u = takeWhile (\<lambda>c. c \<notin> set D) s"
      define w where "w = dropWhile (\<lambda>c. c \<notin> set D) s"
      have s: "s = u @ w" by (simp add: u_def w_def)
      have u: "u \<noteq> []" "list_all (\<lambda>c. c \<notin> set D) u" using False Cons by (auto simp: u_def list_all_iff dest: set_takeWhileD)
      have str: "str = pre @ u @ doubled D w @ q # rest" by (simp add: str_def s doubled_plain [OF u(2)])
      have "hd (doubled D w @ q # rest) \<in> set D"
      proof (cases w)
        case (Cons d w')
        then have "d \<in> set D" using hd_dropWhile [of "\<lambda>c. c \<notin> set D" s] by (simp add: w_def)
        then show ?thesis using Cons by simp
      qed (use prems(6) in simp)
      moreover have "0 \<notin> set (pre @ u @ doubled D w @ q # rest)" using prems(3,4) s by auto
      ultimately have run: "scan_step flex_dfa cfg (scan_text str) lx = bindE (addlit u (advanced (length u) lx)) (\<lambda>lx. Inr (Again lx))"
        unfolding str by (intro plain [OF prems(1) _ prems(5) u]) simp_all
      have "int (length t + length u) < 2 ^ 29" using prems(7) s by simp
      then obtain lx' where l: "addlit u (advanced (length u) lx) = Inr lx'" "lit_rep lx' (t @ u)" "extends (advanced (length u) lx) lx'"
        using addlit_rep [OF rep, of u "length u"] by auto
      then show ?thesis using step [OF s u(1), of lx'] finished [OF l(3,2)] run by (simp add: doubled_plain [OF u(2)])
    qed
  qed
qed

end

section \<open>Identifiers and strings\<close>

lemma scan_step_match:
  assumes "0 \<notin> set (pre @ t)" "yypos lx = length pre" "longest_match (yystart lx) t = Rule r n"
  shows "scan_step flex_dfa cfg (scan_text (pre @ t)) lx = do_action cfg (scan_text (pre @ t)) r (length pre) (advanced n lx)"
proof -
  have "flex_dfa (yystart lx) (scan_text (pre @ t)) (length pre) = Rule r n"
    using flex_dfa_longest_match [of "pre @ t" "length pre"] assms(1,3) by simp
  then show ?thesis using assms(2) by (simp add: scan_step_def advanced_def)
qed

lemma matched_text:
  "yytext (scan_text (pre @ u @ rest)) (length pre) (advanced (length u) lx) = u"
  by (simp add: yytext_def advanced_def)

lemma longest_match_span:
  assumes start: "\<And>c. c \<in> set u \<Longrightarrow> next_state s (start_state s) c \<in> {Some b, Some b'}"
    and loop: "\<And>c. c \<in> set u \<Longrightarrow> next_state s b c = Some b2 \<and> next_state s b' c = Some b2 \<and> next_state s b2 c = Some b2"
    and stop: "rest = [] \<or> next_state s b (hd rest) = None \<and> next_state s b' (hd rest) = None \<and> next_state s b2 (hd rest) = None"
    and u: "u \<noteq> []" and r: "state_rule s b = r" "state_rule s b' = r" "state_rule s b2 = r"
  shows "longest_match s (u @ rest) = Rule r (length u)"
proof -
  obtain c v where c: "u = c # v" using u by (cases u) simp_all
  then have "next_state s (start_state s) c = Some b \<or> next_state s (start_state s) c = Some b'" using start [of c] by simp
  moreover have "longest_run s b (v @ rest) = (if v = [] then b else b2, length v)"
    using longest_run_span [of s b b2 v rest] loop stop by (auto simp: c list_all_iff)
  moreover have "longest_run s b' (v @ rest) = (if v = [] then b' else b2, length v)"
    using longest_run_span [of s b' b2 v rest] loop stop by (auto simp: c list_all_iff)
  ultimately show ?thesis using r by (auto simp: c longest_match_Cons)
qed

interpretation quoted_name: quoted_body "\<lambda>lx. yystart lx = xd" "[0x22]"
proof
  fix lx :: lexer and pre u rest :: bytes and cfg :: scan_config
  assume a: "yystart lx = xd" "0 \<notin> set (pre @ u @ rest)" "yypos lx = length pre" "u \<noteq> []"
    "list_all (\<lambda>c. c \<notin> set [0x22]) u" "rest \<noteq> []" "hd rest \<in> set [0x22]"
  have "longest_match xd (u @ rest) = Rule 44 (length u)"
  proof (rule longest_match_span [where b = 9161 and b' = 9161 and ?b2.0 = 13409])
    fix c assume "c \<in> set u"
    then have "c \<noteq> 0" "c \<noteq> 0x22" using a(2,5) by (auto simp: list_all_iff)
    then show "next_state xd (start_state xd) c \<in> {Some 9161, Some 9161}"
      "next_state xd 9161 c = Some 13409 \<and> next_state xd 9161 c = Some 13409 \<and> next_state xd 13409 c = Some 13409"
      by (simp_all add: xd_states)
  qed (use a in \<open>simp_all add: xd_states\<close>)
  then show "scan_step flex_dfa cfg (scan_text (pre @ u @ rest)) lx = bindE (addlit u (advanced (length u) lx)) (\<lambda>lx. Inr (Again lx))"
    using scan_step_match [of pre "u @ rest" lx 44 "length u" cfg] a(1-3) matched_text [of pre u rest lx]
    by (simp add: do_action_def act_ident_def)
next
  fix lx :: lexer and pre rest :: bytes and c cfg
  assume a: "yystart lx = xd" "0 \<notin> set (pre @ c # c # rest)" "yypos lx = length pre" "c \<in> set [0x22]"
  then have "longest_match xd (c # c # rest) = Rule 43 2"
    by (cases rest) (auto simp: longest_match_Cons xd_states)
  then show "scan_step flex_dfa cfg (scan_text (pre @ c # c # rest)) lx = bindE (addlitchar c (advanced 2 lx)) (\<lambda>lx. Inr (Again lx))"
    using scan_step_match [of pre "c # c # rest" lx 43 2 cfg] a by (simp add: do_action_def act_ident_def)
next
  fix lx lx' :: lexer and n
  assume "yystart lx = xd" "extends (advanced n lx) lx'"
  then show "yystart lx' = xd" unfolding extends_def advanced_def by (cases lx; cases lx') simp
qed

interpretation plain_string: quoted_body "\<lambda>lx. yystart lx = xq" "[0x27]"
proof
  fix lx :: lexer and pre u rest :: bytes and cfg :: scan_config
  assume a: "yystart lx = xq" "0 \<notin> set (pre @ u @ rest)" "yypos lx = length pre" "u \<noteq> []"
    "list_all (\<lambda>c. c \<notin> set [0x27]) u" "rest \<noteq> []" "hd rest \<in> set [0x27]"
  have "longest_match xq (u @ rest) = Rule 22 (length u)"
  proof (rule longest_match_span [where b = 9677 and b' = 9677 and ?b2.0 = 13925])
    fix c assume "c \<in> set u"
    then have "c \<noteq> 0" "c \<noteq> 0x27" using a(2,5) by (auto simp: list_all_iff)
    then show "next_state xq (start_state xq) c \<in> {Some 9677, Some 9677}"
      "next_state xq 9677 c = Some 13925 \<and> next_state xq 9677 c = Some 13925 \<and> next_state xq 13925 c = Some 13925"
      by (simp_all add: xq_states)
  qed (use a in \<open>simp_all add: xq_states\<close>)
  then show "scan_step flex_dfa cfg (scan_text (pre @ u @ rest)) lx = bindE (addlit u (advanced (length u) lx)) (\<lambda>lx. Inr (Again lx))"
    using scan_step_match [of pre "u @ rest" lx 22 "length u" cfg] a(1-3) matched_text [of pre u rest lx]
    by (simp add: do_action_def act_string_def)
next
  fix lx :: lexer and pre rest :: bytes and c cfg
  assume a: "yystart lx = xq" "0 \<notin> set (pre @ c # c # rest)" "yypos lx = length pre" "c \<in> set [0x27]"
  then have "longest_match xq (c # c # rest) = Rule 21 2"
    by (cases rest) (auto simp: longest_match_Cons xq_states)
  then show "scan_step flex_dfa cfg (scan_text (pre @ c # c # rest)) lx = bindE (addlitchar c (advanced 2 lx)) (\<lambda>lx. Inr (Again lx))"
    using scan_step_match [of pre "c # c # rest" lx 21 2 cfg] a by (simp add: do_action_def act_string_def)
next
  fix lx lx' :: lexer and n
  assume "yystart lx = xq" "extends (advanced n lx) lx'"
  then show "yystart lx' = xq" unfolding extends_def advanced_def by (cases lx; cases lx') simp
qed

lemma warn_escape_done: "\<not> warn_on_first_escape lx \<Longrightarrow> warn_escape cfg m (lx :: lexer) = lx"
  by (cases lx) (simp add: warn_escape_def)

lemma act_backslash_double:
  assumes "\<not> warn_on_first_escape lx" "yytext buf p lx = [0x5c, 0x5c]"
  shows "act_backslash cfg buf p lx = bindE (addlitchar 0x5c lx) (\<lambda>lx. Inr (Again lx))"
  using assms by (simp add: act_backslash_def at_def check_string_escape_warning_def warn_escape_done unescape_single_char_def IS_HIGHBIT_SET_def)

interpretation escape_string: quoted_body "\<lambda>lx. yystart lx = xe \<and> \<not> warn_on_first_escape lx" "[0x27, 0x5c]"
proof
  fix lx :: lexer and pre u rest :: bytes and cfg :: scan_config
  assume a: "yystart lx = xe \<and> \<not> warn_on_first_escape lx" "0 \<notin> set (pre @ u @ rest)" "yypos lx = length pre" "u \<noteq> []"
    "list_all (\<lambda>c. c \<notin> set [0x27, 0x5c]) u" "rest \<noteq> []" "hd rest \<in> set [0x27, 0x5c]"
  have "longest_match xe (u @ rest) = Rule 23 (length u)"
  proof (rule longest_match_span [where b = 10003 and b' = 10261 and ?b2.0 = 14251])
    fix c assume "c \<in> set u"
    then have "c \<noteq> 0" "c \<noteq> 0x27" "c \<noteq> 0x5c" using a(2,5) by (auto simp: list_all_iff)
    then show "next_state xe (start_state xe) c \<in> {Some 10003, Some 10261}"
      "next_state xe 10003 c = Some 14251 \<and> next_state xe 10261 c = Some 14251 \<and> next_state xe 14251 c = Some 14251"
      by (simp_all add: xe_states)
  qed (use a in \<open>auto simp: xe_states\<close>)
  then show "scan_step flex_dfa cfg (scan_text (pre @ u @ rest)) lx = bindE (addlit u (advanced (length u) lx)) (\<lambda>lx. Inr (Again lx))"
    using scan_step_match [of pre "u @ rest" lx 23 "length u" cfg] a(1-3) matched_text [of pre u rest lx]
    by (simp add: do_action_def act_string_def)
next
  fix lx :: lexer and pre rest :: bytes and c cfg
  assume a: "yystart lx = xe \<and> \<not> warn_on_first_escape lx" "0 \<notin> set (pre @ c # c # rest)" "yypos lx = length pre" "c \<in> set [0x27, 0x5c]"
  have two: "yytext (scan_text (pre @ c # c # rest)) (length pre) (advanced 2 lx) = [c, c]"
    using matched_text [of pre "[c, c]" rest lx] by (simp add: numeral_2_eq_2)
  have "longest_match xe (c # c # rest) = Rule (if c = 0x27 then 21 else 29) 2"
    using a(2,4) by (cases rest) (auto simp: longest_match_Cons xe_states)
  then have "scan_step flex_dfa cfg (scan_text (pre @ c # c # rest)) lx =
      do_action cfg (scan_text (pre @ c # c # rest)) (if c = 0x27 then 21 else 29) (length pre) (advanced 2 lx)"
    using scan_step_match [of pre "c # c # rest" lx _ 2 cfg] a by simp
  then show "scan_step flex_dfa cfg (scan_text (pre @ c # c # rest)) lx = bindE (addlitchar c (advanced 2 lx)) (\<lambda>lx. Inr (Again lx))"
    using a(1,4) two act_backslash_double [of "advanced 2 lx" "scan_text (pre @ c # c # rest)" "length pre" cfg]
    by (auto simp: do_action_def act_string_def advanced_def)
next
  fix lx lx' :: lexer and n
  assume "yystart lx = xe \<and> \<not> warn_on_first_escape lx" "extends (advanced n lx) lx'"
  then show "yystart lx' = xe \<and> \<not> warn_on_first_escape lx'" unfolding extends_def advanced_def by (cases lx; cases lx') simp
qed

section \<open>Whole tokens\<close>

text \<open>
  The scanner, standing behind \<open>pre\<close>, reads \<open>w\<close> as one token: \<open>t\<close> with value \<open>v\<close>, located at the
  beginning of \<open>w\<close>, and then stands behind \<open>w\<close>, ready for the next.
\<close>

definition reads :: "scan_config \<Rightarrow> bytes \<Rightarrow> bytes \<Rightarrow> bytes \<Rightarrow> int \<Rightarrow> core_YYSTYPE \<Rightarrow> lexer \<Rightarrow> lexer \<Rightarrow> bool" where
  "reads cfg pre w rest t v lx lx' \<longleftrightarrow>
     core_yylex_run flex_dfa cfg (scan_text (pre @ w @ rest)) lx = Some (Inr (t, lx')) \<and>
     yyval lx' = v \<and> yyloc lx' = int (length pre) \<and> yypos lx' = length (pre @ w) \<and> idle (pre @ w @ rest) lx'"

lemma run_again: "scan_step dfa cfg buf lx = Inr (Again lx') \<Longrightarrow> core_yylex_run dfa cfg buf lx = core_yylex_run dfa cfg buf lx'"
  by (subst core_yylex_run.simps) simp

lemma run_token: "scan_step dfa cfg buf lx = Inr (Token t lx') \<Longrightarrow> core_yylex_run dfa cfg buf lx = Some (Inr (t, lx'))"
  by (subst core_yylex_run.simps) simp

lemma collected_fields:
  assumes "collected ok t n lx lx'"
  shows "ok lx'" "lit_rep lx' t" "yypos lx' = yypos lx + n" "yyloc lx' = yyloc lx" "saw_non_ascii lx' = saw_non_ascii lx"
  using assms unfolding collected_def by (cases lx; cases lx'; simp)+

lemma quote_states:
  "next_state INITIAL (start_state INITIAL) 0x22 = Some 6199" "next_state INITIAL (start_state INITIAL) 0x27 = Some 6217"
  "next_state INITIAL (start_state INITIAL) 0x45 = Some 7359" "next_state INITIAL 7359 0x27 = Some 6348"
  "c \<noteq> 0 \<Longrightarrow> next_state INITIAL 6199 c = None" "c \<noteq> 0 \<Longrightarrow> next_state INITIAL 6217 c = None" "c \<noteq> 0 \<Longrightarrow> next_state INITIAL 6348 c = None"
  "state_rule INITIAL 6199 = 39" "state_rule INITIAL 6217 = 14" "state_rule INITIAL 6348 = 15"
  using uint_byte(1,2) [of c]
  by (auto simp: next_state_def state_rule_def states_def states_INITIAL_def start_state_def yy_start_def yy_start_state_list_def
      row_3_def row_6199_def row_6217_def row_6348_def row_7359_def byte_eq byte_zero)

lemma longest_run_stop: "(\<And>c. c \<in> set cs \<Longrightarrow> next_state s b c = None) \<Longrightarrow> longest_run s b cs = (b, 0)"
  by (cases cs) simp_all

lemma quote_matches:
  assumes "0 \<notin> set cs"
  shows "longest_match INITIAL (0x22 # cs) = Rule 39 1" "longest_match INITIAL (0x27 # cs) = Rule 14 1"
    "longest_match INITIAL (0x45 # 0x27 # cs) = Rule 15 2"
proof -
  have nz: "c \<in> set cs \<Longrightarrow> c \<noteq> 0" for c using assms by auto
  show "longest_match INITIAL (0x22 # cs) = Rule 39 1" "longest_match INITIAL (0x27 # cs) = Rule 14 1"
    "longest_match INITIAL (0x45 # 0x27 # cs) = Rule 15 2"
    by (simp_all add: longest_match_Cons quote_states longest_run_stop nz)
qed

lemma closing_matches:
  assumes "0 \<notin> set rest" "rest = [] \<or> hd rest \<noteq> 0x22"
  shows "longest_match xd (0x22 # rest) = Rule 41 1"
  using assms by (cases rest) (auto simp: longest_match_Cons xd_states)

lemma lit_rep_yystart: "lit_rep lx s \<Longrightarrow> lit_rep (lx\<lparr>yystart := st\<rparr>) s" "lit_rep lx s \<Longrightarrow> lit_rep (advanced n lx) s"
  "lit_rep lx s \<Longrightarrow> literallen lx = int (length s)"
  by (auto simp: lit_rep_def advanced_def)

lemma act_name_close:
  assumes "lit_rep lx s" "s \<noteq> []" "length s < 64" "0 \<notin> set s"
  shows "act_ident cfg buf 41 p lx = Inr (Token IDENT (set_llocend p (lx\<lparr>yystart := INITIAL, yyval := Str s\<rparr>)))"
  using assms(2,3) lit_rep_yystart(3) [OF assms(1)] litbufdup_rep [OF lit_rep_yystart(1) [OF assms(1), of INITIAL]] c_text_ok [OF assms(4), of "[]"]
  by (simp add: act_ident_def Let_def)

lemma literal_token_rep:
  assumes "lit_rep lx s" "0 \<notin> set s"
  shows "literal_token t p lx = Inr (Token t (set_llocend p (lx\<lparr>yyval := Str s\<rparr>)))"
  using litbufdup_rep [OF assms(1)] c_text_ok [OF assms(2), of "[]"] by (simp add: literal_token_def)

lemma idle_after:
  assumes "lit_rep lx s" "yypos lx \<le> length str" "yystart lx = INITIAL"
  shows "idle str (set_llocend p (lx\<lparr>yyval := v\<rparr>))"
proof -
  have "lit_rep (set_llocend p (lx\<lparr>yyval := v\<rparr>)) s" by (rule iffD2 [OF lit_rep_cong assms(1)]) (simp_all add: set_llocend_def)
  then show ?thesis using assms(2,3) by (auto simp: idle_def literal_ok_def set_llocend_def)
qed

lemma scan_quoted_name:
  assumes ok: "text_ok (pre @ w @ rest)" and w: "w = 0x22 # doubled [0x22] s @ [0x22]"
    and s: "s \<noteq> []" "length s < 64" and rest: "rest = [] \<or> hd rest \<noteq> 0x22"
    and lx: "idle (pre @ w @ rest) lx" "yypos lx = length pre"
  shows "\<exists>lx'. reads cfg pre w rest IDENT (Str s) lx lx'"
proof -
  define str where "str = pre @ w @ rest"
  have z: "0 \<notin> set pre" "0 \<notin> set s" "0 \<notin> set rest" and len: "length str < 2 ^ 29"
    using ok w by (auto simp: text_ok_def str_def)
  define lx1 where "lx1 = startlit ((set_yylloc (length pre) (advanced 1 lx))\<lparr>yystart := xd\<rparr>)"
  have "longest_match INITIAL (w @ rest) = Rule 39 1" using quote_matches(1) z by (simp add: w)
  then have "scan_step flex_dfa cfg (scan_text str) lx = Inr (Again lx1)"
    using scan_step_match [of pre "w @ rest" lx 39 1 cfg] z lx w
    by (simp add: idle_def str_def do_action_def act_ident_def lx1_def)
  note first = run_again [OF this]
  have str1: "str = (pre @ [0x22]) @ doubled [0x22] s @ 0x22 # rest" by (simp add: str_def w)
  obtain t where t: "lit_rep lx t" using lx(1) by (auto simp: idle_def literal_ok_def)
  have r1: "lit_rep lx1 []" unfolding lx1_def
    by (rule startlit_rep, rule iffD2 [OF lit_rep_cong t]) (simp_all add: set_yylloc_def advanced_def)
  have l1: "yystart lx1 = xd" "yypos lx1 = length (pre @ [0x22])" "yyloc lx1 = int (length pre)"
    using lx(2) by (simp_all add: lx1_def startlit_def set_yylloc_def advanced_def)
  obtain lx2 where c2: "collected (\<lambda>lx. yystart lx = xd) ([] @ s) (length (doubled [0x22] s)) lx1 lx2"
    and second: "core_yylex_run flex_dfa cfg (scan_text str) lx1 = core_yylex_run flex_dfa cfg (scan_text str) lx2"
    using quoted_name.body_run [OF l1(1) r1 _ _ l1(2), of s "0x22" rest cfg] z s unfolding str1 by auto
  then have l2: "yystart lx2 = xd" "lit_rep lx2 s" "yypos lx2 = length (pre @ [0x22] @ doubled [0x22] s)" "yyloc lx2 = int (length pre)"
    using collected_fields [OF c2] l1 by simp_all
  define p where "p = length (pre @ [0x22] @ doubled [0x22] s)"
  define lx3 where "lx3 = (advanced 1 lx2)\<lparr>yystart := INITIAL\<rparr>"
  have l3: "lit_rep lx3 s" unfolding lx3_def by (intro lit_rep_yystart l2(2))
  have str2: "str = (pre @ [0x22] @ doubled [0x22] s) @ 0x22 # rest" by (simp add: str1)
  have "scan_step flex_dfa cfg (scan_text str) lx2 = do_action cfg (scan_text str) 41 p (advanced 1 lx2)"
    unfolding str2 p_def using z l2 closing_matches rest by (intro scan_step_match) simp_all
  also have "\<dots> = Inr (Token IDENT (set_llocend p (lx3\<lparr>yyval := Str s\<rparr>)))"
    using act_name_close [OF lit_rep_yystart(2) [OF l2(2)]] s z by (simp add: do_action_def lx3_def)
  finally have third: "core_yylex_run flex_dfa cfg (scan_text str) lx2 = Some (Inr (IDENT, set_llocend p (lx3\<lparr>yyval := Str s\<rparr>)))"
    by (rule run_token)
  have pos: "yypos lx3 = length (pre @ w)" "yyloc lx3 = int (length pre)" "yystart lx3 = INITIAL" using l2 by (simp_all add: lx3_def advanced_def w)
  then have "idle str (set_llocend p (lx3\<lparr>yyval := Str s\<rparr>))" by (intro idle_after [OF l3]) (simp_all add: str_def)
  then have "reads cfg pre w rest IDENT (Str s) lx (set_llocend p (lx3\<lparr>yyval := Str s\<rparr>))"
    using first second third pos by (simp add: reads_def str_def set_llocend_def)
  then show ?thesis by blast
qed

section \<open>String constants\<close>

text \<open>
  Behind the closing quote the scanner looks for a continuation: white space with a line break, and
  another quote. \<open>continues\<close> is a text where that cannot be excluded.
\<close>

definition continues :: "bytes \<Rightarrow> bool" where
  "continues rest \<longleftrightarrow>
     rest \<noteq> [] \<and> hd rest \<in> {0x09, 0x0a, 0x0c, 0x0d, 0x20} \<and> (0x0a \<in> set rest \<or> 0x0d \<in> set rest)"

lemma blank_eq: "(c = (0x09 :: 8 word)) = (uint c = 9)" "(c = (0x0a :: 8 word)) = (uint c = 10)"
  "(c = (0x0c :: 8 word)) = (uint c = 12)" "(c = (0x0d :: 8 word)) = (uint c = 13)" "(c = (0x20 :: 8 word)) = (uint c = 32)"
  by (simp_all add: word_uint_eq_iff)

lemma xqs_states:
  "c \<noteq> 0 \<Longrightarrow> c \<notin> {0x09, 0x0a, 0x0c, 0x0d, 0x20} \<Longrightarrow> next_state xqs (start_state xqs) c \<in> {Some 6255, Some 6257}"
  "c \<noteq> 0 \<Longrightarrow> c \<noteq> 0x0a \<Longrightarrow> c \<noteq> 0x0d \<Longrightarrow> next_state xqs (start_state xqs) c \<in> {Some 6255, Some 6257, Some 9935}"
  "c \<noteq> 0 \<Longrightarrow> next_state xqs 6255 c = None" "c \<noteq> 0 \<Longrightarrow> next_state xqs 6257 c = None" "c \<noteq> 0 \<Longrightarrow> next_state xqs 6586 c = None"
  "c \<noteq> 0 \<Longrightarrow> c \<noteq> 0x0a \<Longrightarrow> c \<noteq> 0x0d \<Longrightarrow> next_state xqs 9935 c \<in> {None, Some 6586, Some 14183}"
  "c \<noteq> 0 \<Longrightarrow> c \<noteq> 0x0a \<Longrightarrow> c \<noteq> 0x0d \<Longrightarrow> next_state xqs 14183 c \<in> {None, Some 6586, Some 14183}"
  "state_rule xqs 6255 = 20" "state_rule xqs 6257 = 19" "state_rule xqs 6586 = 19" "state_rule xqs 9935 = 19" "state_rule xqs 14183 = 19"
  using uint_byte(1,2) [of c]
  by (auto simp: next_state_def state_rule_def states_def states_xqs_def start_state_def yy_start_def yy_start_state_list_def
      row_3099_def row_6255_def row_6257_def row_6586_def row_9935_def row_14183_def byte_eq byte_zero blank_eq)

lemma xqs_run:
  assumes "0 \<notin> set cs"
  shows "b \<in> {6255, 6257, 6586} \<Longrightarrow> longest_run xqs b cs = (b, 0)"
    and "0x0a \<notin> set cs \<Longrightarrow> 0x0d \<notin> set cs \<Longrightarrow> b \<in> {6255, 6257, 6586, 9935, 14183} \<Longrightarrow>
      state_rule xqs (fst (longest_run xqs b cs)) \<in> {19, 20}"
proof -
  have stuck: "longest_run xqs b cs = (b, 0)" if "b \<in> {6255, 6257, 6586}" "0 \<notin> set cs" for b cs
    using that by (cases cs) (auto simp: xqs_states)
  then show "b \<in> {6255, 6257, 6586} \<Longrightarrow> longest_run xqs b cs = (b, 0)" using assms by blast
  show "0x0a \<notin> set cs \<Longrightarrow> 0x0d \<notin> set cs \<Longrightarrow> b \<in> {6255, 6257, 6586, 9935, 14183} \<Longrightarrow>
      state_rule xqs (fst (longest_run xqs b cs)) \<in> {19, 20}"
    using assms
  proof (induction cs arbitrary: b)
    case Nil
    then show ?case by (auto simp: xqs_states)
  next
    case (Cons c cs)
    then have c: "c \<noteq> 0" "c \<noteq> 0x0a" "c \<noteq> 0x0d" by auto
    show ?case
    proof (cases "b \<in> {6255, 6257, 6586}")
      case True
      then show ?thesis using stuck [OF True Cons.prems(4)] by (auto simp: xqs_states)
    next
      case False
      then have n: "next_state xqs b c \<in> {None, Some 6586, Some 14183}" "state_rule xqs b = 19"
        using Cons.prems(3) xqs_states(6,7) [OF c] by (auto simp: xqs_states)
      show ?thesis
      proof (cases "next_state xqs b c")
        case (Some b')
        then have "state_rule xqs (fst (longest_run xqs b' cs)) \<in> {19, 20}" using Cons.IH [of b'] Cons.prems n(1) by auto
        then show ?thesis using Some by (auto split: prod.splits)
      qed (use n in simp)
    qed
  qed
qed

lemma no_continuation_match:
  assumes "0 \<notin> set rest" "rest \<noteq> []" "\<not> continues rest"
  shows "\<exists>r n. longest_match xqs rest = Rule r n \<and> r \<in> {19, 20}"
proof -
  obtain c cs where rest: "rest = c # cs" using assms(2) by (cases rest) simp_all
  have c: "c \<noteq> 0" "0 \<notin> set cs" using assms(1) rest by auto
  show ?thesis
  proof (cases "c \<in> {0x09, 0x0a, 0x0c, 0x0d, 0x20}")
    case True
    then have nl: "0x0a \<notin> set (c # cs)" "0x0d \<notin> set (c # cs)" using assms(3) rest by (auto simp: continues_def)
    then have "next_state xqs (start_state xqs) c \<in> {Some 6255, Some 6257, Some 9935}" using xqs_states(2) [OF c(1)] by auto
    then obtain b where b: "next_state xqs (start_state xqs) c = Some b" "b \<in> {6255, 6257, 6586, 9935, 14183}" by auto
    have "state_rule xqs (fst (longest_run xqs b cs)) \<in> {19, 20}" using xqs_run(2) [OF c(2) _ _ b(2)] nl by simp
    then show ?thesis using b(1) by (auto simp: rest longest_match_Cons split: prod.splits)
  next
    case False
    from xqs_states(1) [OF c(1) False] show ?thesis using xqs_run(1) [OF c(2)] by (auto simp: rest longest_match_Cons xqs_states)
  qed
qed

definition string_end :: "nat \<Rightarrow> bytes \<Rightarrow> lexer \<Rightarrow> lexer" where
  "string_end p s lx = set_llocend p (lx\<lparr>yypos := p, yylength := 0, yystart := INITIAL, yyval := Str s\<rparr>)"

lemma quote_end_rep:
  assumes "state_before_str_stop lx \<in> {xq, xe}" "\<not> saw_non_ascii lx" "lit_rep lx s" "0 \<notin> set s"
  shows "quote_end cfg buf p lx = Inr (Token SCONST (string_end p s lx))"
proof -
  have "lit_rep ((yyless p 0 lx)\<lparr>yystart := INITIAL\<rparr>) s"
    by (rule iffD2 [OF lit_rep_cong assms(3)]) (simp_all add: yyless_def)
  from literal_token_rep [OF this assms(4)] show ?thesis
    using assms(1,2) by (auto simp: quote_end_def verify_literal_def yyless_def string_end_def Let_def)
qed

lemma string_end_step:
  assumes "0 \<notin> set (pre @ rest)" "\<not> continues rest" "yystart lx = xqs" "yypos lx = length pre"
    and "state_before_str_stop lx \<in> {xq, xe}" "\<not> saw_non_ascii lx" "lit_rep lx s" "0 \<notin> set s"
  shows "scan_step flex_dfa cfg (scan_text (pre @ rest)) lx = Inr (Token SCONST (string_end (length pre) s lx))"
proof (cases "rest = []")
  case True
  have "flex_dfa xqs (scan_text (pre @ rest)) (length pre) = Eof"
    using flex_dfa_longest_match [of "pre @ rest" "length pre" xqs] assms(1) True by (simp add: longest_match_def)
  moreover have "lit_rep (lx\<lparr>yylength := 0\<rparr>) s" by (rule iffD2 [OF lit_rep_cong assms(7)]) simp_all
  then have "quote_end cfg buf p (lx\<lparr>yylength := 0\<rparr>) = Inr (Token SCONST (string_end p s (lx\<lparr>yylength := 0\<rparr>)))" for buf p
    using assms(5,6,8) by (intro quote_end_rep) simp_all
  ultimately show ?thesis using assms(3,4) by (simp add: scan_step_def act_eof_def string_end_def)
next
  case False
  obtain r n where r: "longest_match xqs rest = Rule r n" "r \<in> {19, 20}" using no_continuation_match assms(1,2) False by fastforce
  have "quote_end cfg buf p (advanced n lx) = Inr (Token SCONST (string_end p s (advanced n lx)))" for buf p
    using assms(5-8) lit_rep_yystart(2) by (intro quote_end_rep) (simp_all add: advanced_def)
  then show ?thesis using scan_step_match [OF assms(1,4), of r n cfg] r assms(3)
    by (auto simp: do_action_def act_quote_stop_def string_end_def advanced_def)
qed

text \<open>From the opening quote on, both kinds of string are read alike.\<close>

lemma scan_string_body:
  assumes run: "\<exists>lx2. collected ok s n lx1 lx2 \<and> core_yylex_run flex_dfa cfg (scan_text str) lx1 = core_yylex_run flex_dfa cfg (scan_text str) lx2"
    and start: "\<And>lx. ok lx \<Longrightarrow> yystart lx = st" "st \<in> {xq, xe}"
    and str: "str = front @ 0x27 # rest" "0 \<notin> set str" "0 \<notin> set s" "\<not> continues rest" "rest = [] \<or> hd rest \<noteq> 0x27"
    and lx1: "yypos lx1 + n = length front" "yyloc lx1 = int loc" "\<not> saw_non_ascii lx1"
  shows "\<exists>lx'. core_yylex_run flex_dfa cfg (scan_text str) lx1 = Some (Inr (SCONST, lx')) \<and>
    yyval lx' = Str s \<and> yyloc lx' = int loc \<and> yypos lx' = length front + 1 \<and> idle str lx'"
proof -
  obtain lx2 where c: "collected ok s n lx1 lx2" and first: "core_yylex_run flex_dfa cfg (scan_text str) lx1 = core_yylex_run flex_dfa cfg (scan_text str) lx2"
    using run by blast
  note f = collected_fields [OF c]
  have l2: "yystart lx2 = st" using start(1) f(1) by blast
  have "longest_match st (0x27 # rest) = Rule 17 1"
    using start(2) str by (cases rest) (auto simp: longest_match_Cons xq_states xe_states)
  then have step: "scan_step flex_dfa cfg (scan_text str) lx2 = do_action cfg (scan_text str) 17 (length front) (advanced 1 lx2)"
    unfolding str(1) using str(1,2) f(3) lx1(1) l2 by (intro scan_step_match) simp_all
  define lx3 where "lx3 = (advanced 1 lx2)\<lparr>state_before_str_stop := st, yystart := xqs\<rparr>"
  have "scan_step flex_dfa cfg (scan_text str) lx2 = Inr (Again lx3)"
    using step l2 by (simp add: do_action_def act_quote_stop_def lx3_def advanced_def)
  note second = run_again [OF this]
  have l3: "lit_rep lx3 s" unfolding lx3_def by (rule iffD2 [OF lit_rep_cong f(2)]) (simp_all add: advanced_def)
  have str3: "str = (front @ [0x27]) @ rest" by (simp add: str(1))
  have "scan_step flex_dfa cfg (scan_text str) lx3 = Inr (Token SCONST (string_end (length (front @ [0x27])) s lx3))"
    unfolding str3 using str f start(2) lx1 l3 by (intro string_end_step) (auto simp: lx3_def advanced_def)
  note third = run_token [OF this]
  have "idle str (string_end (length (front @ [0x27])) s lx3)"
    unfolding string_end_def using l3
    by (intro idle_after [where s = s]) (auto simp: str3 lit_rep_def)
  then show ?thesis using first second third f(4) lx1(2) by (simp add: string_end_def set_llocend_def lx3_def advanced_def)
qed

lemma scan_plain_string:
  assumes ok: "text_ok (pre @ w @ rest)" "standard_conforming_strings cfg" and w: "w = 0x27 # doubled [0x27] s @ [0x27]"
    and rest: "rest = [] \<or> hd rest \<noteq> 0x27" "\<not> continues rest"
    and lx: "idle (pre @ w @ rest) lx" "yypos lx = length pre"
  shows "\<exists>lx'. reads cfg pre w rest SCONST (Str s) lx lx'"
proof -
  define str where "str = pre @ w @ rest"
  have z: "0 \<notin> set pre" "0 \<notin> set s" "0 \<notin> set rest" and len: "length str < 2 ^ 29" using ok w by (auto simp: text_ok_def str_def)
  define lx1 where "lx1 = startlit ((set_yylloc (length pre) (advanced 1 lx))\<lparr>warn_on_first_escape := True, saw_non_ascii := False, yystart := xq\<rparr>)"
  have "longest_match INITIAL (w @ rest) = Rule 14 1" using quote_matches(2) z by (simp add: w)
  then have "scan_step flex_dfa cfg (scan_text str) lx = Inr (Again lx1)"
    using scan_step_match [of pre "w @ rest" lx 14 1 cfg] z lx w ok(2)
    by (simp add: idle_def str_def do_action_def act_quote_start_def lx1_def)
  note first = run_again [OF this]
  obtain t where t: "lit_rep lx t" using lx(1) by (auto simp: idle_def literal_ok_def)
  have r1: "lit_rep lx1 []" unfolding lx1_def
    by (rule startlit_rep, rule iffD2 [OF lit_rep_cong t]) (simp_all add: set_yylloc_def advanced_def)
  have l1: "yystart lx1 = xq" "yypos lx1 = length (pre @ [0x27])" "yyloc lx1 = int (length pre)" "\<not> saw_non_ascii lx1"
    using lx(2) by (simp_all add: lx1_def startlit_def set_yylloc_def advanced_def)
  have str1: "str = (pre @ [0x27]) @ doubled [0x27] s @ 0x27 # rest" by (simp add: str_def w)
  have "length s \<le> length (doubled [0x27] s)" by (induction s) auto
  then have "\<exists>lx2. collected (\<lambda>lx. yystart lx = xq) ([] @ s) (length (doubled [0x27] s)) lx1 lx2 \<and>
      core_yylex_run flex_dfa cfg (scan_text str) lx1 = core_yylex_run flex_dfa cfg (scan_text str) lx2"
    using plain_string.body_run [OF l1(1) r1 _ _ l1(2), of s "0x27" rest cfg] z len unfolding str1 by simp
  then have "\<exists>lx'. core_yylex_run flex_dfa cfg (scan_text str) lx1 = Some (Inr (SCONST, lx')) \<and>
      yyval lx' = Str s \<and> yyloc lx' = int (length pre) \<and> yypos lx' = length (pre @ [0x27] @ doubled [0x27] s) + 1 \<and> idle str lx'"
    using z rest l1 by (intro scan_string_body [where st = xq and ok = "\<lambda>lx. yystart lx = xq" and rest = rest]) (simp_all add: str1)
  then show ?thesis using first unfolding reads_def str_def [symmetric] by (auto simp: w)
qed

lemma scan_escape_string:
  assumes ok: "text_ok (pre @ w @ rest)" and w: "w = 0x45 # 0x27 # doubled [0x27, 0x5c] s @ [0x27]"
    and rest: "rest = [] \<or> hd rest \<noteq> 0x27" "\<not> continues rest"
    and lx: "idle (pre @ w @ rest) lx" "yypos lx = length pre"
  shows "\<exists>lx'. reads cfg pre w rest SCONST (Str s) lx lx'"
proof -
  define str where "str = pre @ w @ rest"
  have z: "0 \<notin> set pre" "0 \<notin> set s" "0 \<notin> set rest" and len: "length str < 2 ^ 29" using ok w by (auto simp: text_ok_def str_def)
  define lx1 where "lx1 = startlit ((set_yylloc (length pre) (advanced 2 lx))\<lparr>warn_on_first_escape := False, saw_non_ascii := False, yystart := xe\<rparr>)"
  have "longest_match INITIAL (w @ rest) = Rule 15 2" using quote_matches(3) z by (simp add: w)
  then have "scan_step flex_dfa cfg (scan_text str) lx = Inr (Again lx1)"
    using scan_step_match [of pre "w @ rest" lx 15 2 cfg] z lx w
    by (simp add: idle_def str_def do_action_def act_quote_start_def lx1_def)
  note first = run_again [OF this]
  obtain t where t: "lit_rep lx t" using lx(1) by (auto simp: idle_def literal_ok_def)
  have r1: "lit_rep lx1 []" unfolding lx1_def
    by (rule startlit_rep, rule iffD2 [OF lit_rep_cong t]) (simp_all add: set_yylloc_def advanced_def)
  have l1: "yystart lx1 = xe \<and> \<not> warn_on_first_escape lx1" "yypos lx1 = length (pre @ [0x45, 0x27])" "yyloc lx1 = int (length pre)" "\<not> saw_non_ascii lx1"
    using lx(2) by (simp_all add: lx1_def startlit_def set_yylloc_def advanced_def)
  have str1: "str = (pre @ [0x45, 0x27]) @ doubled [0x27, 0x5c] s @ 0x27 # rest" by (simp add: str_def w)
  have "length s \<le> length (doubled [0x27, 0x5c] s)" by (induction s) auto
  then have "\<exists>lx2. collected (\<lambda>lx. yystart lx = xe \<and> \<not> warn_on_first_escape lx) ([] @ s) (length (doubled [0x27, 0x5c] s)) lx1 lx2 \<and>
      core_yylex_run flex_dfa cfg (scan_text str) lx1 = core_yylex_run flex_dfa cfg (scan_text str) lx2"
    using escape_string.body_run [OF l1(1) r1 _ _ l1(2), of s "0x27" rest cfg] z len unfolding str1 by simp
  then have "\<exists>lx'. core_yylex_run flex_dfa cfg (scan_text str) lx1 = Some (Inr (SCONST, lx')) \<and>
      yyval lx' = Str s \<and> yyloc lx' = int (length pre) \<and> yypos lx' = length (pre @ [0x45, 0x27] @ doubled [0x27, 0x5c] s) + 1 \<and> idle str lx'"
    using z rest l1 by (intro scan_string_body [where st = xe and ok = "\<lambda>lx. yystart lx = xe \<and> \<not> warn_on_first_escape lx" and rest = rest]) (simp_all add: str1)
  then show ?thesis using first unfolding reads_def str_def [symmetric] by (auto simp: w)
qed

end
