(* ===== verification/Scan_Names.thy ===== *)
theory Scan_Names
  imports Scan_Quoted
begin

text \<open>
  What the scanner reads out of an unquoted name in small letters, and of the dot between names:
  an identifier with that text, or the token of the keyword it is.
\<close>

section \<open>Words\<close>

definition name_char :: "8 word \<Rightarrow> bool" where
  "name_char c \<longleftrightarrow> 0x61 \<le> c \<and> c \<le> 0x7a \<or> 0x30 \<le> c \<and> c \<le> 0x39 \<or> c = 0x5f"

definition name_start :: "8 word \<Rightarrow> bool" where
  "name_start c \<longleftrightarrow> 0x61 \<le> c \<and> c \<le> 0x7a \<or> c = 0x5f"

definition plain_name :: "bytes \<Rightarrow> bool" where
  "plain_name s \<longleftrightarrow> s \<noteq> [] \<and> name_start (hd s) \<and> list_all name_char s"

text \<open>
  What cannot follow a name without being read with it: letters, digits, underscores, dollars and
  bytes above 7F, the question mark the scanner accepts there, and a quote or ampersand, which
  turn some letters into the beginning of a string. A double quote is left out too, which would
  continue a quoted name.
\<close>

definition ends_name :: "bytes \<Rightarrow> bool" where
  "ends_name rest \<longleftrightarrow>
     rest = [] \<or> (let c = hd rest in
       \<not> (name_char c \<or> 0x41 \<le> c \<and> c \<le> 0x5a \<or> 0x80 \<le> c \<or> c \<in> {0x22, 0x24, 0x26, 0x27, 0x3f}))"

abbreviation word_states :: "int list" where
  "word_states \<equiv> [6845, 7102, 7359, 7616, 7873, 8130, 12508]"

lemma name_char_uint: "name_char c \<longleftrightarrow> 97 \<le> uint c \<and> uint c \<le> 122 \<or> 48 \<le> uint c \<and> uint c \<le> 57 \<or> uint c = 95"
  by (simp add: name_char_def word_le_def word_uint_eq_iff)

lemma name_start_uint: "name_start c \<longleftrightarrow> 97 \<le> uint c \<and> uint c \<le> 122 \<or> uint c = 95"
  by (simp add: name_start_def word_le_def word_uint_eq_iff)

lemma ends_name_uint:
  assumes "ends_name (c # rest)"
  shows "\<not> (97 \<le> uint c \<and> uint c \<le> 122)" "\<not> (48 \<le> uint c \<and> uint c \<le> 57)" "uint c \<noteq> 95" "\<not> (65 \<le> uint c \<and> uint c \<le> 90)"
    "uint c < 128" "uint c \<noteq> 36" "uint c \<noteq> 38" "uint c \<noteq> 39" "uint c \<noteq> 63"
  using assms by (simp_all add: ends_name_def name_char_uint Let_def word_le_def word_uint_eq_iff not_le)

definition word_rows :: "(int \<times> row) list" where
  "word_rows = [(6845, row_6845), (7102, row_7102), (7359, row_7359), (7616, row_7616), (7873, row_7873), (8130, row_8130), (12508, row_12508)]"

lemma start_row: "map_of (states INITIAL) 3 = Some (0, row_3)" "start_state INITIAL = 3"
  by (simp_all add: states_def states_INITIAL_def start_state_def yy_start_def yy_start_state_list_def)

lemma word_row: "b \<in> set word_states \<Longrightarrow> \<exists>r. map_of (states INITIAL) b = Some (64, r) \<and> (b, r) \<in> set word_rows"
  by (auto simp: states_def states_INITIAL_def word_rows_def)

lemma start_checked: "list_all (\<lambda>u. case row_lookup row_3 u of None \<Rightarrow> False | Some n \<Rightarrow> 3 + n \<in> set word_states) (95 # [97..122])"
  by code_simp

lemma next_checked: "list_all (\<lambda>(b, r). list_all (\<lambda>u. row_lookup r u = Some (12508 - b)) (95 # [97..122] @ [48..57])) word_rows"
  by code_simp

lemma stop_checked:
  "list_all (\<lambda>(b, r). list_all (\<lambda>u. row_lookup r u = None) ([1..35] @ 37 # [40..47] @ [58..62] @ 64 # [91..94] @ 96 # [123..127])) word_rows"
  by code_simp

lemma word_start:
  assumes "name_start c"
  shows "\<exists>b. next_state INITIAL (start_state INITIAL) c = Some b \<and> b \<in> set word_states"
proof -
  have "uint c \<in> set (95 # [97..122])" using assms by (simp only: list.set set_upto name_start_uint) (simp, presburger)
  then have "case row_lookup row_3 (uint c) of None \<Rightarrow> False | Some n \<Rightarrow> 3 + n \<in> set word_states"
    using start_checked unfolding list_all_iff by blast
  then show ?thesis unfolding next_state_def start_row by (auto split: option.splits)
qed

lemma word_next:
  assumes "b \<in> set word_states"
  shows "name_char c \<Longrightarrow> next_state INITIAL b c = Some 12508" "state_rule INITIAL b = 64"
proof -
  obtain r where r: "map_of (states INITIAL) b = Some (64, r)" "(b, r) \<in> set word_rows" using word_row [OF assms] by blast
  show "state_rule INITIAL b = 64" using r(1) by (simp add: state_rule_def)
  assume "name_char c"
  then have "uint c \<in> set (95 # [97..122] @ [48..57])" by (simp only: set_append list.set set_upto name_char_uint) (simp, presburger)
  then have "row_lookup r (uint c) = Some (12508 - b)" using next_checked r(2) unfolding list_all_iff by blast
  then show "next_state INITIAL b c = Some 12508" using r(1) by (simp add: next_state_def)
qed

lemma word_stop:
  assumes "b \<in> set word_states" "ends_name (c # rest)" "c \<noteq> 0"
  shows "next_state INITIAL b c = None"
proof -
  obtain r where r: "map_of (states INITIAL) b = Some (64, r)" "(b, r) \<in> set word_rows" using word_row [OF assms(1)] by blast
  have "uint c \<in> set ([1..35] @ 37 # [40..47] @ [58..62] @ 64 # [91..94] @ 96 # [123..127])"
    using ends_name_uint [OF assms(2)] uint_byte(3) [OF assms(3)] by (simp only: set_append list.set set_upto) (simp, presburger)
  then have "row_lookup r (uint c) = None" using stop_checked r(2) unfolding list_all_iff by blast
  then show ?thesis using r(1) by (simp add: next_state_def)
qed

lemma word_match:
  assumes "plain_name s" "ends_name rest" "0 \<notin> set rest"
  shows "longest_match INITIAL (s @ rest) = Rule 64 (length s)"
proof -
  obtain c v where s: "s = c # v" using assms(1) by (cases s) (simp_all add: plain_name_def)
  then obtain b where b: "next_state INITIAL (start_state INITIAL) c = Some b" "b \<in> set word_states"
    using assms(1) word_start by (auto simp: plain_name_def)
  have "longest_run INITIAL b (v @ rest) = (if v = [] then b else 12508, length v)"
  proof (rule longest_run_span)
    show "list_all (\<lambda>c. next_state INITIAL b c = Some 12508 \<and> next_state INITIAL 12508 c = Some 12508) v"
      using assms(1) word_next(1) [OF b(2)] word_next(1) [of 12508] by (simp add: plain_name_def s list_all_iff)
    show "rest = [] \<or> next_state INITIAL b (hd rest) = None \<and> next_state INITIAL 12508 (hd rest) = None"
      using assms(2,3) word_stop [OF b(2)] word_stop [of 12508] by (cases rest) auto
  qed
  then show ?thesis using b word_next(2) [OF b(2)] word_next(2) [of 12508] by (simp add: s longest_match_Cons)
qed

lemma name_char_fixed:
  assumes "name_char c"
  shows "ascii_lower c = c" "downcase_char up low single c = c" "c \<noteq> 0" "c \<noteq> 0x3f"
proof -
  have "\<not> IS_HIGHBIT_SET c" using assms by (auto simp: IS_HIGHBIT_SET_ge name_char_uint word_le_def)
  then show "ascii_lower c = c" "downcase_char up low single c = c" "c \<noteq> 0" "c \<noteq> 0x3f"
    using assms by (auto simp: name_char_uint ascii_lower_def downcase_char_def word_le_def word_uint_eq_iff)
qed

lemma act_word_text:
  assumes "yytext buf p (set_yylloc p lx) = s" "s \<noteq> []" "List.last s \<noteq> 0x3f"
  shows "act_word cfg buf p lx =
    bindE (ScanKeywordLookup (s @ [0]) (keywordlist cfg)) (\<lambda>kwnum.
      if kwnum \<ge> 0 then keyword_token cfg kwnum (set_yylloc p lx) else ident_token cfg s p (set_yylloc p lx))"
  unfolding act_word_def Let_def assms(1) using assms(2,3) by simp

lemma scan_plain_name:
  assumes ok: "text_ok (pre @ s @ rest)" "config_ok cfg" and s: "plain_name s" "length s < 64" and rest: "ends_name rest"
    and lx: "idle (pre @ s @ rest) lx" "yypos lx = length pre"
  shows "\<exists>lx'. case keyword_entry s of
      None \<Rightarrow> reads cfg pre s rest IDENT (Str s) lx lx'
    | Some (value, category) \<Rightarrow> reads cfg pre s rest value (Keyword s) lx lx'"
proof -
  define str where "str = pre @ s @ rest"
  have z: "0 \<notin> set str" "0 \<notin> set s" "0 \<notin> set rest" and len: "length str < 2 ^ 29" using ok(1) by (auto simp: text_ok_def str_def)
  define lx1 where "lx1 = set_yylloc (length pre) (advanced (length s) lx)"
  have "scan_step flex_dfa cfg (scan_text str) lx = do_action cfg (scan_text str) 64 (length pre) (advanced (length s) lx)"
    unfolding str_def using lx z word_match [OF s(1) rest z(3)] by (intro scan_step_match) (simp_all add: idle_def str_def)
  moreover have word: "yytext (scan_text str) (length pre) (set_yylloc (length pre) (advanced (length s) lx)) = s"
    unfolding str_def by (simp add: yytext_def set_yylloc_def advanced_def)
  have all: "list_all name_char s" and ne: "s \<noteq> []" using s(1) by (simp_all add: plain_name_def)
  then have q: "List.last s \<noteq> 0x3f" using name_char_fixed(4) by (auto simp: list_all_iff)
  have kw: "keywordlist cfg = ScanKeywords" "keyword_tokens cfg = ScanKeywordTokens" "encoding (server cfg) = 6" using ok(2) by (simp_all add: config_ok_def)
  ultimately have step: "scan_step flex_dfa cfg (scan_text str) lx =
      bindE (ScanKeywordLookup (s @ [0]) ScanKeywords) (\<lambda>kwnum.
        if kwnum \<ge> 0 then keyword_token cfg kwnum lx1 else ident_token cfg s (length pre) lx1)"
    unfolding lx1_def using act_word_text [OF word ne q, of cfg] by (simp add: do_action_def kw)
  have lower: "map ascii_lower s = s" using all name_char_fixed(1) by (induction s) simp_all
  obtain t where t: "lit_rep lx t" using lx(1) by (auto simp: idle_def literal_ok_def)
  have r1: "lit_rep lx1 t" unfolding lx1_def by (rule iffD2 [OF lit_rep_cong t]) (simp_all add: set_yylloc_def advanced_def)
  have l1: "yystart lx1 = INITIAL" "yypos lx1 = length (pre @ s)" "yyloc lx1 = int (length pre)"
    using lx by (simp_all add: lx1_def set_yylloc_def advanced_def idle_def)
  have idle: "idle str (lx1\<lparr>yyval := v\<rparr>)" "idle str (set_llocend p (lx1\<lparr>yyval := v\<rparr>))" for v p
  proof -
    have "lit_rep (lx1\<lparr>yyval := v\<rparr>) t" by (rule iffD2 [OF lit_rep_cong r1]) simp_all
    then show "idle str (lx1\<lparr>yyval := v\<rparr>)" using l1 by (auto simp: idle_def literal_ok_def str_def)
    show "idle str (set_llocend p (lx1\<lparr>yyval := v\<rparr>))" using l1 by (intro idle_after [OF r1]) (simp_all add: str_def)
  qed
  show ?thesis
  proof (cases "keyword_entry s")
    case None
    then have look: "ScanKeywordLookup (s @ [0]) ScanKeywords = Inr (- 1)" using lookup_entry [OF z(2), of "[]"] by simp
    obtain e where e: "at pg_wchar_table (encoding (server cfg)) = Inr e" using kw(3) by (simp add: at_def pg_wchar_table_def)
    have "map (downcase_char (isupper cfg) (tolower cfg) b) (take (length s) s) = s" for b
      using all name_char_fixed(2) by (induction s) simp_all
    then have "downcase_truncate_identifier (isupper cfg) (tolower cfg) (server cfg) s (int (length s)) True = Inr (map Some (s @ [0]), None)"
      using downcase_truncate_run [OF e, of "length s" s s "isupper cfg" "tolower cfg" True] s(2) by simp
    then have "scan_step flex_dfa cfg (scan_text str) lx = Inr (Token IDENT (set_llocend (length pre) (lx1\<lparr>yyval := Str s\<rparr>)))"
      using step look c_text_ok [OF z(2), of "[]"] by (simp add: ident_token_def)
    from run_token [OF this] have "reads cfg pre s rest IDENT (Str s) lx (set_llocend (length pre) (lx1\<lparr>yyval := Str s\<rparr>))"
      unfolding reads_def str_def [symmetric] using idle(2) l1 by (simp add: set_llocend_def)
    then show ?thesis using None by auto
  next
    case (Some vc)
    obtain v c where vc: "vc = (v, c)" by (cases vc)
    obtain n r where n: "ScanKeywordLookup (s @ [0]) ScanKeywords = Inr n" "0 \<le> n" "at ScanKeywordTokens n = Inr v"
      "GetScanKeyword n ScanKeywords = Inr (s @ 0 # r)" using lookup_entry [OF z(2), of "[]"] Some vc lower by auto
    then have "scan_step flex_dfa cfg (scan_text str) lx = Inr (Token v (lx1\<lparr>yyval := Keyword s\<rparr>))"
      using step kw c_str_text [OF z(2)] by (simp add: keyword_token_def)
    from run_token [OF this] have "reads cfg pre s rest v (Keyword s) lx (lx1\<lparr>yyval := Keyword s\<rparr>)"
      unfolding reads_def str_def [symmetric] using idle(1) l1 by simp
    then show ?thesis using Some vc by auto
  qed
qed

lemma dot_states:
  "next_state INITIAL (start_state INITIAL) 0x2e = Some 6597" "state_rule INITIAL 6597 = 55"
  "c \<noteq> 0 \<Longrightarrow> c \<noteq> 0x2e \<Longrightarrow> \<not> (0x30 \<le> c \<and> c \<le> 0x39) \<Longrightarrow> next_state INITIAL 6597 c = None"
proof -
  have u: "(c = 0x2e) = (uint c = 46)" "(0x30 \<le> c \<and> c \<le> 0x39) = (48 \<le> uint c \<and> uint c \<le> 57)"
    by (simp_all add: word_le_def word_uint_eq_iff)
  show "c \<noteq> 0 \<Longrightarrow> c \<noteq> 0x2e \<Longrightarrow> \<not> (0x30 \<le> c \<and> c \<le> 0x39) \<Longrightarrow> next_state INITIAL 6597 c = None"
    using uint_byte(1,2) [of c] by (auto simp: u next_state_def states_def states_INITIAL_def row_6597_def byte_eq byte_zero)
  show "next_state INITIAL (start_state INITIAL) 0x2e = Some 6597" "state_rule INITIAL 6597 = 55"
    by (simp_all add: next_state_def state_rule_def states_def states_INITIAL_def start_state_def yy_start_def yy_start_state_list_def row_3_def)
qed

lemma scan_dot:
  assumes ok: "text_ok (pre @ 0x2e # rest)" and rest: "rest = [] \<or> hd rest \<noteq> 0x2e \<and> \<not> (0x30 \<le> hd rest \<and> hd rest \<le> 0x39)"
    and lx: "idle (pre @ 0x2e # rest) lx" "yypos lx = length pre"
  shows "\<exists>lx'. reads cfg pre [0x2e] rest 46 (yyval lx) lx lx'"
proof -
  define str where "str = pre @ 0x2e # rest"
  have z: "0 \<notin> set str" "0 \<notin> set rest" using ok by (auto simp: text_ok_def str_def)
  define lx1 where "lx1 = set_yylloc (length pre) (advanced 1 lx)"
  have "longest_match INITIAL (0x2e # rest) = Rule 55 1"
    using rest z(2) by (cases rest) (auto simp: longest_match_Cons dot_states)
  then have "scan_step flex_dfa cfg (scan_text str) lx = do_action cfg (scan_text str) 55 (length pre) (advanced 1 lx)"
    unfolding str_def using lx z by (intro scan_step_match) (simp_all add: idle_def str_def)
  moreover have "yytext (scan_text str) (length pre) lx1 = [0x2e]"
    unfolding str_def lx1_def by (simp add: yytext_def set_yylloc_def advanced_def)
  moreover have "set_yylloc (length pre) (advanced 1 lx) = lx1" by (simp add: lx1_def)
  ultimately have "scan_step flex_dfa cfg (scan_text str) lx = Inr (Token 46 lx1)"
    by (simp add: do_action_def act_fixed_def Let_def at_def char_token_def)
  note run = run_token [OF this]
  obtain t where t: "lit_rep lx t" using lx(1) by (auto simp: idle_def literal_ok_def)
  have "lit_rep lx1 t" unfolding lx1_def by (rule iffD2 [OF lit_rep_cong t]) (simp_all add: set_yylloc_def advanced_def)
  moreover have "yystart lx1 = INITIAL" "yypos lx1 = length (pre @ [0x2e])" "yyloc lx1 = int (length pre)" "yyval lx1 = yyval lx"
    using lx by (simp_all add: lx1_def set_yylloc_def advanced_def idle_def)
  ultimately have "reads cfg pre [0x2e] rest 46 (yyval lx) lx lx1"
    using run by (auto simp: reads_def str_def idle_def literal_ok_def)
  then show ?thesis by blast
qed

end
