(* ===== verification/Deparse_Names.thy ===== *)
theory Deparse_Names
  imports Scan_Names StringInfo
begin

text \<open>
  How the deparser writes names and string constants, \<^verbatim>\<open>pg_query_deparse.c\<close> with
  \<^verbatim>\<open>quote_identifier\<close> of \<^verbatim>\<open>src_backend_utils_adt_ruleutils.c\<close>, judged by the scanner: what is written
  is read back as the same name or string, wherever it stands in a query.

  C strings are byte lists with their terminator; the text buffer holds characters, and \<open>chars\<close>
  goes from the one to the other.
\<close>

section \<open>Names\<close>

definition byte_char :: "8 word \<Rightarrow> char" where
  "byte_char c = char_of (unat c)"

definition chars :: "bytes \<Rightarrow> string" where
  "chars s = map byte_char s"

text \<open>The first loop: is the name safe without quotes, and how many quotes are in it?\<close>

fun name_loop :: "bytes \<Rightarrow> bool \<Rightarrow> int \<Rightarrow> (bool \<times> int) res" where
  "name_loop [] is_safe nquotes = Inl OutOfBounds"
| "name_loop (ch # ptr) is_safe nquotes =
     (if ch = 0 then Inr (is_safe, nquotes)
      else if 0x61 \<le> ch \<and> ch \<le> 0x7a \<or> 0x30 \<le> ch \<and> ch \<le> 0x39 \<or> ch = 0x5f then name_loop ptr is_safe nquotes
      else if ch = 0x22 then bindE (c_int (nquotes + 1)) (\<lambda>nquotes. name_loop ptr False nquotes)
      else name_loop ptr False nquotes)"

text \<open>The second loop: copying with every quote doubled.\<close>

fun quote_loop :: "bytes \<Rightarrow> 8 word block \<Rightarrow> int \<Rightarrow> (8 word block \<times> int) res" where
  "quote_loop [] result optr = Inl OutOfBounds"
| "quote_loop (ch # ptr) result optr =
     (if ch = 0 then Inr (result, optr)
      else if ch = 0x22 then
        bindE (store result optr 0x22) (\<lambda>result.
        bindE (store result (optr + 1) ch) (\<lambda>result. quote_loop ptr result (optr + 2)))
      else bindE (store result optr ch) (\<lambda>result. quote_loop ptr result (optr + 1)))"

definition keyword_safe :: "bytes \<Rightarrow> bool res" where
  "keyword_safe ident =
     bindE (ScanKeywordLookup ident ScanKeywords) (\<lambda>kwnum.
       if kwnum \<ge> 0
       then bindE (at ScanKeywordCategories kwnum) (\<lambda>category. Inr (category = UNRESERVED_KEYWORD))
       else Inr True)"

definition quote_copy :: "bytes \<Rightarrow> int \<Rightarrow> 8 word block res" where
  "quote_copy ident nquotes =
     bindE (c_str ident) (\<lambda>s.
     bindE (palloc 1 (int (length s) + nquotes + 2 + 1)) (\<lambda>result.
     bindE (store result 0 0x22) (\<lambda>result.
     bindE (quote_loop ident result 1) (\<lambda>(result, optr).
     bindE (store result optr 0x22) (\<lambda>result.
     store result (optr + 1) 0)))))"

definition quote_identifier :: "bool \<Rightarrow> bytes \<Rightarrow> 8 word block res" where
  "quote_identifier quote_all_identifiers ident =
     bindE (at ident 0) (\<lambda>c.
     bindE (name_loop ident (0x61 \<le> c \<and> c \<le> 0x7a \<or> c = 0x5f) 0) (\<lambda>(is_safe, nquotes).
     bindE (if quote_all_identifiers then Inr False else Inr is_safe) (\<lambda>is_safe.
     bindE (if is_safe then keyword_safe ident else Inr False) (\<lambda>is_safe.
     if is_safe then Inr (map Some ident)
     else quote_copy ident nquotes))))"

definition append_identifier :: "bool \<Rightarrow> StringInfoData \<Rightarrow> bytes \<Rightarrow> StringInfoData res" where
  "append_identifier quote_all_identifiers str ident =
     bindE (quote_identifier quote_all_identifiers ident) (\<lambda>result.
     bindE (c_text result) (\<lambda>s. appendStringInfoString str (chars s)))"

definition deparseColId :: "bool \<Rightarrow> StringInfoData \<Rightarrow> bytes \<Rightarrow> StringInfoData res" where
  "deparseColId quote_all_identifiers str s = append_identifier quote_all_identifiers str s"

definition deparseColLabel :: "bool \<Rightarrow> StringInfoData \<Rightarrow> bytes \<Rightarrow> StringInfoData res" where
  "deparseColLabel quote_all_identifiers str s = append_identifier quote_all_identifiers str s"

fun deparseAnyName :: "bool \<Rightarrow> StringInfoData \<Rightarrow> bytes list \<Rightarrow> StringInfoData res" where
  "deparseAnyName qai str [] = Inr str"
| "deparseAnyName qai str (part # parts) =
     bindE (append_identifier qai str part) (\<lambda>str.
     bindE (if parts \<noteq> [] then appendStringInfoChar str (CHR ''.'') else Inr str) (\<lambda>str.
     deparseAnyName qai str parts))"

definition deparseAnyNameSkipFirst :: "bool \<Rightarrow> StringInfoData \<Rightarrow> bytes list \<Rightarrow> StringInfoData res" where
  "deparseAnyNameSkipFirst qai str parts = deparseAnyName qai str (drop 1 parts)"

text \<open>The loop of \<open>deparseAnyNameSkipLast\<close>, which knows the index of the current cell.\<close>

fun skip_last_loop :: "bool \<Rightarrow> StringInfoData \<Rightarrow> nat \<Rightarrow> nat \<Rightarrow> bytes list \<Rightarrow> StringInfoData res" where
  "skip_last_loop qai str n i [] = Inr str"
| "skip_last_loop qai str n i (part # parts) =
     bindE (if parts \<noteq> []
            then bindE (append_identifier qai str part) (\<lambda>str.
                 if int i < int n - 2 then appendStringInfoChar str (CHR ''.'') else Inr str)
            else Inr str) (\<lambda>str.
     skip_last_loop qai str n (i + 1) parts)"

definition deparseAnyNameSkipLast :: "bool \<Rightarrow> StringInfoData \<Rightarrow> bytes list \<Rightarrow> StringInfoData res" where
  "deparseAnyNameSkipLast qai str parts = skip_last_loop qai str (length parts) 0 parts"

section \<open>String constants\<close>

fun literal_loop :: "StringInfoData \<Rightarrow> bytes \<Rightarrow> StringInfoData res" where
  "literal_loop buf [] = Inl OutOfBounds"
| "literal_loop buf (ch # valptr) =
     (if ch = 0 then Inr buf
      else
        bindE (if ch = 0x27 \<or> ch = 0x5c then appendStringInfoChar buf (byte_char ch) else Inr buf) (\<lambda>buf.
        bindE (appendStringInfoChar buf (byte_char ch)) (\<lambda>buf.
        literal_loop buf valptr)))"

definition deparseStringLiteral :: "StringInfoData \<Rightarrow> bytes \<Rightarrow> StringInfoData res" where
  "deparseStringLiteral buf val =
     bindE (c_str val) (\<lambda>s.
     bindE (if 0x5c \<in> set s then appendStringInfoChar buf (CHR ''E'') else Inr buf) (\<lambda>buf.
     bindE (appendStringInfoChar buf (CHR 0x27)) (\<lambda>buf.
     bindE (literal_loop buf val) (\<lambda>buf.
     appendStringInfoChar buf (CHR 0x27)))))"

definition deparseNonReservedWordOrSconst :: "bool \<Rightarrow> StringInfoData \<Rightarrow> bytes \<Rightarrow> StringInfoData res" where
  "deparseNonReservedWordOrSconst qai str val =
     bindE (c_str val) (\<lambda>s.
     if length s = 0 then appendStringInfoString str [CHR 0x27, CHR 0x27]
     else if length s \<ge> 64 then deparseStringLiteral str val
     else append_identifier qai str val)"

text \<open>\<^verbatim>\<open>strcmp(s, lit) == 0\<close>.\<close>

definition c_is :: "bytes \<Rightarrow> string \<Rightarrow> bool res" where
  "c_is s lit = bindE (c_str s) (\<lambda>t. Inr (t = ascii lit))"

definition deparseOptBooleanOrString :: "bool \<Rightarrow> StringInfoData \<Rightarrow> bytes option \<Rightarrow> StringInfoData res" where
  "deparseOptBooleanOrString qai str s0 =
     (case s0 of
        None \<Rightarrow> Inr str
      | Some s \<Rightarrow>
          bindE (c_is s ''true'') (\<lambda>b. if b then appendStringInfoString str ''TRUE'' else
          bindE (c_is s ''false'') (\<lambda>b. if b then appendStringInfoString str ''FALSE'' else
          bindE (c_is s ''on'') (\<lambda>b. if b then appendStringInfoString str ''ON'' else
          bindE (c_is s ''off'') (\<lambda>b. if b then appendStringInfoString str ''OFF'' else
          deparseNonReservedWordOrSconst qai str s)))))"

section \<open>What is written\<close>

definition safe_name :: "bool \<Rightarrow> bytes \<Rightarrow> bool" where
  "safe_name qai s \<longleftrightarrow> \<not> qai \<and> plain_name s \<and> (\<forall>v c. keyword_entry s = Some (v, c) \<longrightarrow> c = UNRESERVED_KEYWORD)"

definition written_name :: "bool \<Rightarrow> bytes \<Rightarrow> bytes" where
  "written_name qai s = (if safe_name qai s then s else 0x22 # doubled [0x22] s @ [0x22])"

definition written_literal :: "bytes \<Rightarrow> bytes" where
  "written_literal s = (if 0x5c \<in> set s then [0x45] else []) @ 0x27 # doubled [0x27, 0x5c] s @ [0x27]"

lemma of_char_byte_char [simp]: "of_char (byte_char c) = c"
proof -
  have "(of_char (byte_char c) :: 8 word) = of_nat (of_char (byte_char c))" by (simp add: of_char_def)
  also have "(of_char (byte_char c) :: nat) = unat c" 
  proof -
    have "unat c < 2 ^ LENGTH(8)" by (rule unsigned_less)
    then show ?thesis by (simp add: byte_char_def)
  qed
  finally show ?thesis by simp
qed

lemma ascii_chars [simp]: "ascii (chars s) = s" "chars (s @ t) = chars s @ chars t" "chars [] = []" "length (chars s) = length s"
  "chars (c # s) = byte_char c # chars s"
  by (simp_all add: ascii_def chars_def comp_def)

lemma name_loop_text:
  assumes "0 \<notin> set s" "0 \<le> n" "n + int (length s) \<le> INT_MAX"
  shows "name_loop (s @ 0 # r) is_safe n = Inr (is_safe \<and> list_all name_char s, n + int (count_list s 0x22))"
  using assms
proof (induction s arbitrary: is_safe n)
  case (Cons c s)
  have "\<not> name_char 0x22" by (simp add: name_char_def)
  then show ?case using Cons by (auto simp: name_char_def c_int_ok)
qed simp

lemma length_doubled: "length (doubled [d] s) = length s + count_list s d"
  by (induction s) auto

lemma quote_loop_text:
  assumes "0 \<notin> set s" "optr = int (length done')" "length (doubled [0x22] s) \<le> length free"
  shows "quote_loop (s @ 0 # r) (map Some done' @ free) optr =
     Inr (map Some (done' @ doubled [0x22] s) @ drop (length (doubled [0x22] s)) free, optr + int (length (doubled [0x22] s)))"
  using assms
proof (induction s arbitrary: done' free optr)
  case (Cons c s)
  show ?case
  proof (cases "c = 0x22")
    case True
    obtain a b free' where f: "free = a # b # free'" using Cons.prems(3) True by (cases free; cases "List.tl free") auto
    have "store (map Some done' @ free) optr 0x22 = Inr (map Some (done' @ [0x22]) @ b # free')"
      using Cons.prems(2) f by (simp add: store_split)
    moreover have "store (map Some (done' @ [0x22]) @ b # free') (optr + 1) 0x22 = Inr (map Some (done' @ [0x22, 0x22]) @ free')"
      using store_split [of "optr + 1" "map Some (done' @ [0x22])" b free'] Cons.prems(2) by simp
    ultimately show ?thesis
      using Cons.IH [of "optr + 2" "done' @ [0x22, 0x22]" free'] Cons.prems True f by simp
  next
    case False
    obtain a free' where f: "free = a # free'" using Cons.prems(3) False by (cases free) auto
    have "store (map Some done' @ free) optr c = Inr (map Some (done' @ [c]) @ free')"
      using Cons.prems(2) f by (simp add: store_split)
    then show ?thesis
      using Cons.IH [of "optr + 1" "done' @ [c]" free'] Cons.prems False f by simp
  qed
qed simp

lemma keyword_safe_text:
  assumes "0 \<notin> set s"
  shows "keyword_safe (s @ 0 # r) = Inr (\<forall>v c. keyword_entry s = Some (v, c) \<longrightarrow> c = UNRESERVED_KEYWORD)"
  using lookup_entry [OF assms, of r] by (auto simp: keyword_safe_def split: option.splits)

lemma quote_copy_text:
  assumes s: "0 \<notin> set s" "length s < 2 ^ 28"
  shows "quote_copy (s @ [0]) (int (count_list s 0x22)) = Inr (map Some (0x22 # doubled [0x22] s @ [0x22]) @ [Some 0])"
proof -
  let ?d = "doubled [0x22] s"
  have len: "length ?d = length s + count_list s 0x22" by (rule length_doubled)
  have "count_list s 0x22 \<le> length s" by (rule count_le_length)
  then have p: "palloc 1 (int (length s) + int (count_list s 0x22) + 2 + 1) = Inr (replicate (length ?d + 3) (None :: 8 word option))"
    using s(2) len by (simp add: palloc_def nat_add_distrib)
  have q: "quote_loop (s @ [0]) (Some 0x22 # replicate (length ?d + 2) None) 1 =
      Inr (map Some (0x22 # ?d) @ [None, None], 1 + int (length ?d))"
    using quote_loop_text [OF s(1), of 1 "[0x22]" "replicate (length ?d) None @ [None, None]" "[]"]
    unfolding replicate_add [of "length ?d" 2] by (simp add: numeral_2_eq_2)
  have st: "store (map Some (0x22 # ?d) @ [None, None]) (1 + int (length ?d)) 0x22 = Inr (map Some (0x22 # ?d @ [0x22]) @ [None])"
    "store (map Some (0x22 # ?d @ [0x22]) @ [None]) (1 + int (length ?d) + 1) 0 = Inr (map Some (0x22 # ?d @ [0x22]) @ [Some 0])"
    using store_split [of "1 + int (length ?d)" "map Some (0x22 # ?d)" None "[None]" "0x22"]
      store_split [of "1 + int (length ?d) + 1" "map Some (0x22 # ?d @ [0x22])" None "[]" 0] by simp_all
  have s0: "store (replicate (length ?d + 3) None) 0 0x22 = Inr (Some 0x22 # replicate (length ?d + 2) (None :: 8 word option))"
    by (simp add: store_def numeral_eq_Suc)
  show ?thesis
    using c_str_text [OF s(1), of "[]"] by (simp only: quote_copy_def p s0 q st bindE_Inr prod.case)
qed

lemma quote_identifier_text:
  assumes s: "0 \<notin> set s" "length s < 2 ^ 28"
  shows "\<exists>b. quote_identifier qai (s @ [0]) = Inr b \<and> c_text b = Inr (written_name qai s)"
proof -
  define first_ok where "first_ok \<longleftrightarrow> 0x61 \<le> hd (s @ [0]) \<and> hd (s @ [0]) \<le> 0x7a \<or> hd (s @ [0]) = 0x5f"
  have plain: "plain_name s \<longleftrightarrow> first_ok \<and> list_all name_char s" by (cases s) (auto simp: first_ok_def plain_name_def name_start_def)
  have first: "at (s @ [0]) 0 = Inr (hd (s @ [0]))" by (cases s) (simp_all add: at_def)
  have loop: "name_loop (s @ [0]) x 0 = Inr (x \<and> list_all name_char s, int (count_list s 0x22))" for x
    using name_loop_text [OF s(1), of 0 "[]" x] s(2) by simp
  have "quote_identifier qai (s @ [0]) =
      (if safe_name qai s then Inr (map Some (s @ [0])) else quote_copy (s @ [0]) (int (count_list s 0x22)))"
    unfolding quote_identifier_def first bindE_Inr first_ok_def [symmetric] loop prod.case plain [symmetric]
    using keyword_safe_text [OF s(1), of "[]"] by (cases "\<not> qai \<and> plain_name s") (auto simp: safe_name_def)
  moreover have "c_text (map Some (0x22 # doubled [0x22] s @ [0x22]) @ [Some 0]) = Inr (0x22 # doubled [0x22] s @ [0x22])"
    using c_text_ok [of "0x22 # doubled [0x22] s @ [0x22]" "[]"] s(1) by simp
  ultimately show ?thesis
    using quote_copy_text [OF s] c_text_ok [OF s(1), of "[]"] by (simp add: written_name_def)
qed

lemma c_str_end: "0 \<notin> set s \<Longrightarrow> c_str (s @ [0]) = Inr s"
  using c_str_text [of s "[]"] by simp

lemma char_law: "si_ok b \<Longrightarrow> puts si_ok si_text si_limit b [c] (appendStringInfoChar b c)"
  using si.putc_law [of b c] by (simp add: appendCharMacro_eq)

lemma append_identifier_puts:
  assumes "0 \<notin> set s" "length s < 2 ^ 28" "si_ok str"
  shows "puts si_ok si_text si_limit str (chars (written_name qai s)) (append_identifier qai str (s @ [0]))"
  using quote_identifier_text [OF assms(1,2), of qai] si.put_law [OF assms(3)] by (auto simp: append_identifier_def)

text \<open>Names with dots between them.\<close>

fun dotted :: "bytes list \<Rightarrow> bytes" where
  "dotted [] = []"
| "dotted (w # ws) = w @ (if ws \<noteq> [] then [0x2e] else []) @ dotted ws"

definition name_ok :: "bytes \<Rightarrow> bool" where
  "name_ok s \<longleftrightarrow> s \<noteq> [] \<and> 0 \<notin> set s \<and> length s < 64"

abbreviation c_strs :: "bytes list \<Rightarrow> bytes list" where
  "c_strs ns \<equiv> map (\<lambda>s. s @ [0]) ns"

lemma byte_chars: "byte_char 0x2e = CHR ''.''" "byte_char 0x45 = CHR ''E''" "byte_char 0x27 = CHR 0x27"
  by code_simp+

lemma dot_puts: "si_ok str \<Longrightarrow> puts si_ok si_text si_limit str (chars (if c then [0x2e] else [])) (if c then appendStringInfoChar str (CHR ''.'') else Inr str)"
  using char_law si.puts_done by (simp add: byte_chars)

lemma deparseAnyName_puts:
  assumes "list_all name_ok ns" "si_ok str"
  shows "puts si_ok si_text si_limit str (chars (dotted (map (written_name qai) ns))) (deparseAnyName qai str (c_strs ns))"
  using assms
proof (induction ns arbitrary: str)
  case (Cons s ns)
  have wr: "chars (dotted (written_name qai s # map (written_name qai) ns)) =
      chars (written_name qai s) @ chars (if c_strs ns \<noteq> [] then [0x2e] else []) @ chars (dotted (map (written_name qai) ns))" by simp
  have "0 \<notin> set s" "length s < 2 ^ 28" using Cons.prems(1) by (simp_all add: name_ok_def)
  then show ?case unfolding list.map(2) deparseAnyName.simps unfolding wr using Cons
    by (intro si.puts_bind append_identifier_puts dot_puts Cons.IH) simp_all
qed (simp add: puts_def)

lemma skip_last_puts:
  assumes "list_all name_ok ns" "si_ok str" "n = i + length ns"
  shows "puts si_ok si_text si_limit str (chars (dotted (map (written_name qai) (butlast ns)))) (skip_last_loop qai str n i (c_strs ns))"
  using assms
proof (induction ns arbitrary: str i)
  case (Cons s ns)
  show ?case
  proof (cases "ns = []")
    case False
    then have dot: "(int i < int n - 2) = (butlast ns \<noteq> [])" using Cons.prems(3) by (cases ns) auto
    have wr: "chars (dotted (map (written_name qai) (butlast (s # ns)))) =
        (chars (written_name qai s) @ chars (if butlast ns \<noteq> [] then [0x2e] else [])) @ chars (dotted (map (written_name qai) (butlast ns)))"
      using False by simp
    have s: "0 \<notin> set s" "length s < 2 ^ 28" "c_strs ns \<noteq> []" using Cons.prems(1) False by (simp_all add: name_ok_def)
    show ?thesis unfolding list.map(2) skip_last_loop.simps if_P [OF s(3)] dot unfolding wr using Cons.prems s
      by (intro si.puts_bind append_identifier_puts dot_puts Cons.IH) simp_all
  qed (use si.puts_done [OF Cons.prems(2)] in simp)
qed (simp add: puts_def)

lemma literal_loop_puts:
  assumes "0 \<notin> set s" "si_ok buf"
  shows "puts si_ok si_text si_limit buf (chars (doubled [0x27, 0x5c] s)) (literal_loop buf (s @ [0]))"
  using assms
proof (induction s arbitrary: buf)
  case (Cons c s)
  have "puts si_ok si_text si_limit buf (chars (if c = 0x27 \<or> c = 0x5c then [c] else []))
      (if c = 0x27 \<or> c = 0x5c then appendStringInfoChar buf (byte_char c) else Inr buf)"
    using char_law [OF Cons.prems(2)] si.puts_done [OF Cons.prems(2)] by simp
  moreover have wr: "chars (doubled [0x27, 0x5c] (c # s)) =
      chars (if c = 0x27 \<or> c = 0x5c then [c] else []) @ [byte_char c] @ chars (doubled [0x27, 0x5c] s)" by simp
  moreover have c: "c \<noteq> 0" "0 \<notin> set s" using Cons.prems(1) by auto
  ultimately show ?case unfolding append_Cons literal_loop.simps if_not_P [OF c(1)] unfolding wr
    by (intro si.puts_bind char_law Cons.IH) simp_all
qed (simp add: puts_def)

lemma deparseStringLiteral_puts:
  assumes "0 \<notin> set s" "si_ok buf"
  shows "puts si_ok si_text si_limit buf (chars (written_literal s)) (deparseStringLiteral buf (s @ [0]))"
proof -
  have "puts si_ok si_text si_limit buf (chars (if 0x5c \<in> set s then [0x45] else []))
      (if 0x5c \<in> set s then appendStringInfoChar buf (CHR ''E'') else Inr buf)"
    using char_law [OF assms(2)] si.puts_done [OF assms(2)] by (simp add: byte_chars)
  moreover have "chars (written_literal s) =
      chars (if 0x5c \<in> set s then [0x45] else []) @ [CHR 0x27] @ chars (doubled [0x27, 0x5c] s) @ [CHR 0x27]"
    by (simp add: written_literal_def byte_chars)
  ultimately show ?thesis using assms(1) char_law literal_loop_puts [OF assms(1)]
    unfolding deparseStringLiteral_def c_str_end [OF assms(1)] bindE_Inr by (simp only:) (blast intro: si.puts_bind)
qed

section \<open>Reading it back\<close>

text \<open>The tokens a name may be read as: an identifier, or a keyword the grammar accepts as a name.\<close>

definition name_token :: "bytes \<Rightarrow> int \<Rightarrow> core_YYSTYPE \<Rightarrow> bool" where
  "name_token s t v \<longleftrightarrow> t = IDENT \<and> v = Str s \<or> keyword_entry s = Some (t, UNRESERVED_KEYWORD) \<and> v = Keyword s"

lemma scan_written_name:
  assumes ok: "text_ok (pre @ written_name qai s @ rest)" "config_ok cfg" and s: "name_ok s" and rest: "ends_name rest"
    and lx: "idle (pre @ written_name qai s @ rest) lx" "yypos lx = length pre"
  shows "\<exists>t v lx'. name_token s t v \<and> reads cfg pre (written_name qai s) rest t v lx lx'"
proof (cases "safe_name qai s")
  case True
  then have w: "written_name qai s = s" "plain_name s" by (simp_all add: written_name_def safe_name_def)
  have "\<exists>lx'. case keyword_entry s of
      None \<Rightarrow> reads cfg pre s rest IDENT (Str s) lx lx'
    | Some (value, category) \<Rightarrow> reads cfg pre s rest value (Keyword s) lx lx'"
    using scan_plain_name [OF _ ok(2) w(2) _ rest] ok(1) lx s w(1) by (simp add: name_ok_def)
  then obtain lx' where r: "case keyword_entry s of
      None \<Rightarrow> reads cfg pre s rest IDENT (Str s) lx lx'
    | Some (value, category) \<Rightarrow> reads cfg pre s rest value (Keyword s) lx lx'" by blast
  show ?thesis
  proof (cases "keyword_entry s")
    case None
    then have "name_token s IDENT (Str s) \<and> reads cfg pre (written_name qai s) rest IDENT (Str s) lx lx'"
      using r w(1) by (simp add: name_token_def)
    then show ?thesis by blast
  next
    case (Some vc)
    obtain v c where vc: "vc = (v, c)" by (cases vc)
    have "c = UNRESERVED_KEYWORD" using True Some vc by (simp add: safe_name_def)
    then have "name_token s v (Keyword s) \<and> reads cfg pre (written_name qai s) rest v (Keyword s) lx lx'"
      using r w(1) Some vc by (simp add: name_token_def)
    then show ?thesis by blast
  qed
next
  case False
  then have w: "written_name qai s = 0x22 # doubled [0x22] s @ [0x22]" by (simp add: written_name_def)
  have "rest = [] \<or> hd rest \<noteq> 0x22" using rest by (auto simp: ends_name_def Let_def)
  then have "\<exists>lx'. reads cfg pre (written_name qai s) rest IDENT (Str s) lx lx'"
    using scan_quoted_name [OF ok(1) w] s lx by (simp add: name_ok_def)
  then show ?thesis by (auto simp: name_token_def)
qed

lemma scan_written_literal:
  assumes ok: "text_ok (pre @ written_literal s @ rest)" "standard_conforming_strings cfg"
    and rest: "rest = [] \<or> hd rest \<noteq> 0x27" "\<not> continues rest"
    and lx: "idle (pre @ written_literal s @ rest) lx" "yypos lx = length pre"
  shows "\<exists>lx'. reads cfg pre (written_literal s) rest SCONST (Str s) lx lx'"
proof (cases "0x5c \<in> set s")
  case True
  then have "written_literal s = 0x45 # 0x27 # doubled [0x27, 0x5c] s @ [0x27]" by (simp add: written_literal_def)
  from scan_escape_string [OF ok(1) this rest lx] show ?thesis .
next
  case False
  then have "doubled [0x27, 0x5c] s = doubled [0x27] s" by (induction s) auto
  then have "written_literal s = 0x27 # doubled [0x27] s @ [0x27]" using False by (simp add: written_literal_def)
  from scan_plain_string [OF ok this rest lx] show ?thesis .
qed

text \<open>Several tokens in a row, each with what is asked of it.\<close>

type_synonym piece = "bytes \<times> (int \<Rightarrow> core_YYSTYPE \<Rightarrow> bool)"

fun reads_all :: "scan_config \<Rightarrow> bytes \<Rightarrow> piece list \<Rightarrow> bytes \<Rightarrow> lexer \<Rightarrow> lexer \<Rightarrow> bool" where
  "reads_all cfg pre [] rest lx lx' \<longleftrightarrow> lx' = lx"
| "reads_all cfg pre ((w, P) # ps) rest lx lx' \<longleftrightarrow>
     (\<exists>t v lx1. P t v \<and> reads cfg pre w (concat (map fst ps) @ rest) t v lx lx1 \<and> reads_all cfg (pre @ w) ps rest lx1 lx')"

fun name_pieces :: "bool \<Rightarrow> bytes list \<Rightarrow> piece list" where
  "name_pieces qai [] = []"
| "name_pieces qai (s # ns) =
     (written_name qai s, name_token s) # (if ns = [] then [] else ([0x2e], \<lambda>t v. t = 0x2e) # name_pieces qai ns)"

lemma name_pieces_text: "concat (map fst (name_pieces qai ns)) = dotted (map (written_name qai) ns)"
  by (induction ns) auto

lemma dotted_hd:
  assumes "list_all name_ok ns" "ns \<noteq> []"
  shows "\<exists>c u. dotted (map (written_name qai) ns) = c # u \<and> c \<noteq> 0x2e \<and> \<not> (0x30 \<le> c \<and> c \<le> 0x39)"
proof -
  obtain s ns' where n: "ns = s # ns'" using assms(2) by (cases ns) auto
  show ?thesis
  proof (cases "safe_name qai s")
    case True
    then obtain c u where "s = c # u" "name_start c" by (cases s) (auto simp: safe_name_def plain_name_def)
    then show ?thesis using True by (auto simp: n written_name_def name_start_def word_le_def)
  qed (simp add: n written_name_def word_le_def)
qed

lemma ends_name_dot: "ends_name (0x2e # r)"
  by (simp add: ends_name_def name_char_def)

lemma scan_dotted:
  assumes "text_ok (pre @ dotted (map (written_name qai) ns) @ rest)" "config_ok cfg" "list_all name_ok ns" "ends_name rest"
    and "idle (pre @ dotted (map (written_name qai) ns) @ rest) lx" "yypos lx = length pre"
  shows "\<exists>lx'. reads_all cfg pre (name_pieces qai ns) rest lx lx'"
  using assms
proof (induction ns arbitrary: pre lx)
  case (Cons s ns)
  let ?w = "written_name qai s" and ?tail = "dotted (map (written_name qai) ns) @ rest"
  show ?case
  proof (cases "ns = []")
    case True
    then show ?thesis using scan_written_name [of pre qai s rest cfg lx] Cons.prems by auto
  next
    case False
    then have str: "pre @ dotted (map (written_name qai) (s # ns)) @ rest = pre @ ?w @ 0x2e # ?tail" by simp
    obtain t v lx1 where name: "name_token s t v" "reads cfg pre ?w (0x2e # ?tail) t v lx lx1"
      using scan_written_name [of pre qai s "0x2e # ?tail" cfg lx] Cons.prems ends_name_dot unfolding str by auto
    have "?tail = [] \<or> hd ?tail \<noteq> 0x2e \<and> \<not> (0x30 \<le> hd ?tail \<and> hd ?tail \<le> 0x39)"
      using dotted_hd [of ns qai] Cons.prems(3) False by auto
    then obtain lx2 where dot: "reads cfg (pre @ ?w) [0x2e] ?tail 46 (yyval lx1) lx1 lx2"
      using scan_dot [of "pre @ ?w" ?tail lx1 cfg] Cons.prems(1) name(2) unfolding str by (auto simp: reads_def)
    obtain lx3 where "reads_all cfg (pre @ ?w @ [0x2e]) (name_pieces qai ns) rest lx2 lx3"
      using Cons.IH [of "pre @ ?w @ [0x2e]" lx2] Cons.prems dot unfolding str by (auto simp: reads_def)
    then have "reads_all cfg pre (name_pieces qai (s # ns)) rest lx lx3"
      using False name dot by (simp add: name_pieces_text) blast
    then show ?thesis by blast
  qed
qed auto

section \<open>Properties\<close>

text \<open>\<open>w\<close> is read back as the tokens \<open>ps\<close>, wherever it stands and whatever \<open>follow\<close> allows behind it.\<close>

definition reads_back :: "scan_config \<Rightarrow> (bytes \<Rightarrow> bool) \<Rightarrow> bytes \<Rightarrow> piece list \<Rightarrow> bool" where
  "reads_back cfg follow w ps \<longleftrightarrow>
     (\<forall>pre rest lx. text_ok (pre @ w @ rest) \<longrightarrow> follow rest \<longrightarrow> idle (pre @ w @ rest) lx \<longrightarrow> yypos lx = length pre \<longrightarrow>
        (\<exists>lx'. reads_all cfg pre ps rest lx lx'))"

definition ends_literal :: "bytes \<Rightarrow> bool" where
  "ends_literal rest \<longleftrightarrow> (rest = [] \<or> hd rest \<noteq> 0x27) \<and> \<not> continues rest"

lemma name_back:
  assumes "config_ok cfg" "name_ok s"
  shows "reads_back cfg ends_name (written_name qai s) [(written_name qai s, name_token s)]"
  using scan_written_name [OF _ assms(1,2)] by (simp add: reads_back_def) blast

lemma literal_back:
  assumes "standard_conforming_strings cfg"
  shows "reads_back cfg ends_literal (written_literal s) [(written_literal s, \<lambda>t v. t = SCONST \<and> v = Str s)]"
  using scan_written_literal [OF _ assms] by (simp add: reads_back_def ends_literal_def)

lemma dotted_back:
  assumes "config_ok cfg" "list_all name_ok ns"
  shows "reads_back cfg ends_name (dotted (map (written_name qai) ns)) (name_pieces qai ns)"
  using scan_dotted [OF _ assms] by (simp add: reads_back_def)

lemma written_name_same: "written_name qai s = s \<longleftrightarrow> safe_name qai s"
proof -
  have "length s < length (0x22 # doubled [0x22] s @ [0x22])" by (simp add: length_doubled)
  then have "0x22 # doubled [0x22] s @ [0x22] \<noteq> s" by (metis less_irrefl)
  then show ?thesis by (simp add: written_name_def)
qed

definition written_names :: "bool \<Rightarrow> bytes list \<Rightarrow> bytes" where
  "written_names qai ns = concat (map fst (name_pieces qai ns))"

lemma first_reads:
  assumes "reads_back cfg follow w ps" "text_ok (w @ rest)" "follow rest"
  shows "\<exists>lx'. reads_all cfg [] ps rest sample_lexer lx'"
proof -
  have "idle ([] @ w @ rest) sample_lexer" "yypos sample_lexer = length ([] :: bytes)"
    by (simp_all add: sample_lexer_idle) (simp add: sample_lexer_def lexer_init_def)
  then show ?thesis using assms by (fastforce simp: reads_back_def)
qed

text \<open>
  C10: What \<^verbatim>\<open>quote_identifier\<close> writes is read back by the scanner as the same name. For every name of 1 to 63
  bytes without a zero, whatever the bytes, the function returns without leaving its buffer, and
  the scanner started in front of the result in any query reads one token, an identifier or an unreserved
  keyword with exactly this name, and stops behind it. The name is left without quotes only when it
  consists of small letters, digits and underscores and is no other keyword.
\<close>

theorem quote_identifier_scans_back:
  assumes "config_ok cfg" "name_ok s"
  shows "\<exists>b w. quote_identifier qai (s @ [0]) = Inr b \<and> c_text b = Inr w \<and>
    reads_back cfg ends_name w [(w, name_token s)] \<and>
    (w = s \<longleftrightarrow> \<not> qai \<and> plain_name s \<and> (\<forall>v c. keyword_entry s = Some (v, c) \<longrightarrow> c = UNRESERVED_KEYWORD))"
proof -
  have "0 \<notin> set s" "length s < 2 ^ 28" using assms(2) by (simp_all add: name_ok_def)
  then obtain b where "quote_identifier qai (s @ [0]) = Inr b" "c_text b = Inr (written_name qai s)"
    using quote_identifier_text by blast
  then show ?thesis using name_back [OF assms] written_name_same [of qai s] by (auto simp: safe_name_def)
qed

theorem quote_identifier_scans_back_witness:
  "\<exists>b w lx. quote_identifier False (ascii ''Zone'' @ [0]) = Inr b \<and> c_text b = Inr w \<and> w \<noteq> ascii ''Zone'' \<and>
     reads_all sample_config [] [(w, name_token (ascii ''Zone''))] (ascii ''.x'') sample_lexer lx"
proof -
  have n: "name_ok (ascii ''Zone'')" "\<not> plain_name (ascii ''Zone'')" by (simp_all add: name_ok_def plain_name_def name_start_def ascii_def word_le_def)
  obtain b w where w: "quote_identifier False (ascii ''Zone'' @ [0]) = Inr b" "c_text b = Inr w"
    "reads_back sample_config ends_name w [(w, name_token (ascii ''Zone''))]" "w \<noteq> ascii ''Zone''"
    using quote_identifier_scans_back [OF sample_config_ok n(1), of False] n(2) by blast
  obtain b' where "quote_identifier False (ascii ''Zone'' @ [0]) = Inr b'" "c_text b' = Inr (written_name False (ascii ''Zone''))"
    using quote_identifier_text [of "ascii ''Zone''" False] n(1) by (auto simp: name_ok_def)
  then have "w = 0x22 # ascii ''Zone'' @ [0x22]" using w n(2) by (simp add: written_name_def safe_name_def ascii_def)
  then have "text_ok (w @ ascii ''.x'')" "ends_name (ascii ''.x'')" by (simp_all add: text_ok_def ascii_def ends_name_dot)
  with w show ?thesis using first_reads [OF w(3)] by blast
qed

text \<open>
  C21: Qualified names. What \<^verbatim>\<open>deparseAnyName\<close> appends for a list of names is read back as exactly these
  names with single dots between them; the variants that skip the first or the last name write
  the qualified name of the others, with no dot too many. The text before stays, and the only
  failure is an out of memory error of the buffer.
\<close>

theorem deparseAnyName_scans_back:
  assumes "config_ok cfg" "list_all name_ok ns" "si_ok str"
  shows "reads_back cfg ends_name (written_names qai ns) (name_pieces qai ns) \<and>
    puts si_ok si_text si_limit str (chars (written_names qai ns)) (deparseAnyName qai str (c_strs ns)) \<and>
    puts si_ok si_text si_limit str (chars (written_names qai (drop 1 ns))) (deparseAnyNameSkipFirst qai str (c_strs ns)) \<and>
    puts si_ok si_text si_limit str (chars (written_names qai (butlast ns))) (deparseAnyNameSkipLast qai str (c_strs ns))"
proof -
  have w: "written_names qai names = dotted (map (written_name qai) names)" for names
    by (simp add: written_names_def name_pieces_text)
  have "list_all name_ok (drop 1 ns)" using assms(2) by (auto simp: list_all_iff dest: in_set_dropD)
  from deparseAnyName_puts [OF this assms(3), of qai]
  have "puts si_ok si_text si_limit str (chars (written_names qai (drop 1 ns))) (deparseAnyNameSkipFirst qai str (c_strs ns))"
    by (simp add: deparseAnyNameSkipFirst_def drop_map w)
  moreover have "puts si_ok si_text si_limit str (chars (written_names qai (butlast ns))) (deparseAnyNameSkipLast qai str (c_strs ns))"
    using skip_last_puts [OF assms(2,3), of "length ns" 0 qai] by (simp add: deparseAnyNameSkipLast_def w)
  ultimately show ?thesis
    using dotted_back [OF assms(1,2)] deparseAnyName_puts [OF assms(2,3)] by (simp add: w)
qed

lemma written_name_small: "length s < 10 \<Longrightarrow> length (written_name qai s) < 23" "0 \<notin> set s \<Longrightarrow> 0 \<notin> set (written_name qai s)"
  using count_le_length [of s "0x22"] by (simp_all add: written_name_def length_doubled)

theorem deparseAnyName_scans_back_witness:
  "\<exists>w lx str'. deparseAnyName False demo_buf [ascii ''a'' @ [0], ascii ''b c'' @ [0]] = Inr str' \<and> si_text str' = ''ab'' @ chars w \<and>
     reads_all sample_config [] (name_pieces False [ascii ''a'', ascii ''b c'']) [] sample_lexer lx"
proof -
  let ?ns = "[ascii ''a'', ascii ''b c'']" and ?w = "written_names False [ascii ''a'', ascii ''b c'']"
  have n: "list_all name_ok ?ns" by (simp add: name_ok_def ascii_def)
  note w = deparseAnyName_scans_back [OF sample_config_ok n demo_buf_ok(1), of False]
  have small: "length ?w < 50" "0 \<notin> set ?w"
    using written_name_small [of "ascii ''a''" False] written_name_small [of "ascii ''b c''" False] by (simp_all add: ascii_def written_names_def)
  obtain str' where "deparseAnyName False demo_buf (c_strs ?ns) = Inr str'" "si_text str' = ''ab'' @ chars ?w"
    using si.puts_success [OF conjunct1 [OF conjunct2 [OF w]]] small(1) demo_buf_ok(2) by auto
  moreover have "text_ok (?w @ [])" "ends_name []" using small by (simp_all add: text_ok_def ends_name_def)
  ultimately show ?thesis using first_reads [OF conjunct1 [OF w]] by fastforce
qed

text \<open>
  C12: String constants. \<^verbatim>\<open>deparseStringLiteral\<close> appends a constant that the scanner reads as one string
  token with exactly the given bytes, whatever quotes, backslashes and other bytes are in
  them, unless what follows would continue it: a quote, or a line break and perhaps a quote behind it.
\<close>

theorem deparseStringLiteral_scans_back:
  assumes "standard_conforming_strings cfg" "0 \<notin> set s" "si_ok buf"
  shows "puts si_ok si_text si_limit buf (chars (written_literal s)) (deparseStringLiteral buf (s @ [0])) \<and>
    reads_back cfg ends_literal (written_literal s) [(written_literal s, \<lambda>t v. t = SCONST \<and> v = Str s)]"
  using deparseStringLiteral_puts [OF assms(2,3)] literal_back [OF assms(1)] by blast

theorem deparseStringLiteral_scans_back_witness:
  "\<exists>buf' lx. deparseStringLiteral demo_buf [0x27, 0x5c, 0x41, 0] = Inr buf' \<and>
     si_text buf' = ''ab'' @ chars [0x45, 0x27, 0x27, 0x27, 0x5c, 0x5c, 0x41, 0x27] \<and>
     reads_all sample_config [] [([0x45, 0x27, 0x27, 0x27, 0x5c, 0x5c, 0x41, 0x27], \<lambda>t v. t = SCONST \<and> v = Str [0x27, 0x5c, 0x41])] [0x29] sample_lexer lx"
proof -
  let ?s = "[0x27, 0x5c, 0x41] :: bytes"
  have "standard_conforming_strings sample_config" "0 \<notin> set ?s" by (simp_all add: sample_config_def)
  note w = deparseStringLiteral_scans_back [OF this demo_buf_ok(1)]
  have wr: "written_literal ?s = [0x45, 0x27, 0x27, 0x27, 0x5c, 0x5c, 0x41, 0x27]" by (simp add: written_literal_def)
  have "text_ok (written_literal ?s @ [0x29])" "ends_literal [0x29]" by (simp_all add: wr text_ok_def ends_literal_def continues_def)
  from first_reads [OF conjunct2 [OF w] this] obtain lx where
    "reads_all sample_config [] [(written_literal ?s, \<lambda>t v. t = SCONST \<and> v = Str ?s)] [0x29] sample_lexer lx" by blast
  moreover have "\<exists>buf'. deparseStringLiteral demo_buf (?s @ [0]) = Inr buf' \<and> si_ok buf' \<and> si_text buf' = si_text demo_buf @ chars (written_literal ?s)"
    by (rule si.puts_success [OF conjunct1 [OF w]]) (simp add: wr demo_buf_ok)
  ultimately show ?thesis unfolding wr demo_buf_ok(2) by auto
qed

text \<open>
  C22: Words or strings. \<^verbatim>\<open>deparseNonReservedWordOrSconst\<close> writes every string without a zero, the empty one and those
  too long for an identifier included, so that it is read back as one token with exactly that
  value: a string constant for those two, otherwise a name.
\<close>

theorem deparseNonReservedWordOrSconst_scans_back:
  assumes "config_ok cfg" "standard_conforming_strings cfg" "0 \<notin> set s" "si_ok str"
  shows "\<exists>w. puts si_ok si_text si_limit str (chars w) (deparseNonReservedWordOrSconst qai str (s @ [0])) \<and>
    reads_back cfg (\<lambda>rest. ends_name rest \<and> ends_literal rest) w
      [(w, if s \<noteq> [] \<and> length s < 64 then name_token s else (\<lambda>t v. t = SCONST \<and> v = Str s))]"
proof (cases "s \<noteq> [] \<and> length s < 64")
  case True
  then have "name_ok s" "length s < 2 ^ 28" using assms(3) by (simp_all add: name_ok_def)
  moreover have "deparseNonReservedWordOrSconst qai str (s @ [0]) = append_identifier qai str (s @ [0])"
    using True c_str_end [OF assms(3)] by (simp add: deparseNonReservedWordOrSconst_def)
  ultimately show ?thesis
    using True append_identifier_puts [OF assms(3) _ assms(4), of qai] name_back [OF assms(1), of s qai]
    by (intro exI [of _ "written_name qai s"]) (simp add: reads_back_def)
next
  case False
  have "puts si_ok si_text si_limit str (chars (written_literal s)) (deparseNonReservedWordOrSconst qai str (s @ [0]))"
  proof (cases "s = []")
    case True
    then show ?thesis using si.put_law [OF assms(4), of "[CHR 0x27, CHR 0x27]"]
      by (simp add: deparseNonReservedWordOrSconst_def written_literal_def byte_chars)
  next
    case nonempty: False
    then have "deparseNonReservedWordOrSconst qai str (s @ [0]) = deparseStringLiteral str (s @ [0])"
      using False c_str_end [OF assms(3)] by (simp add: deparseNonReservedWordOrSconst_def)
    then show ?thesis using deparseStringLiteral_puts [OF assms(3,4)] by simp
  qed
  then show ?thesis using False literal_back [OF assms(2), of s]
    by (intro exI [of _ "written_literal s"]) (auto simp: reads_back_def)
qed

theorem deparseNonReservedWordOrSconst_scans_back_witness:
  "\<exists>w str'. deparseNonReservedWordOrSconst False demo_buf [0] = Inr str' \<and> si_text str' = ''ab'' @ chars w \<and>
     reads_back sample_config (\<lambda>rest. ends_name rest \<and> ends_literal rest) w [(w, \<lambda>t v. t = SCONST \<and> v = Str [])]"
proof -
  have "standard_conforming_strings sample_config" "0 \<notin> set ([] :: bytes)" by (simp_all add: sample_config_def)
  from deparseNonReservedWordOrSconst_scans_back [OF sample_config_ok this demo_buf_ok(1), of False]
  obtain w where w: "puts si_ok si_text si_limit demo_buf (chars w) (deparseNonReservedWordOrSconst False demo_buf [0])"
    "reads_back sample_config (\<lambda>rest. ends_name rest \<and> ends_literal rest) w [(w, \<lambda>t v. t = SCONST \<and> v = Str [])]" by auto
  have "\<exists>e. deparseNonReservedWordOrSconst False demo_buf [0] = Inr e" 
    by (simp add: deparseNonReservedWordOrSconst_def appendStringInfoString_def appendBinaryStringInfo_def demo_buf_def
        enlargeStringInfo_def memcpy_to_def store_def)
  then show ?thesis using w demo_buf_ok(2) by (auto simp: puts_def)
qed

end
