(* ===== verification/Spec2Isabelle.thy ===== *)
theory Spec2Isabelle
  imports Json_Helper Pg_List Pg_Normalize Pg_Split Pg_Scan Bitmapset Base_Lexer Display_Width Ra_Pushdown Deparse_Names
begin

text \<open>
  A verification library for libpg_query with the SQL optimizer on top of it.

  \<^bold>\<open>The program.\<close> libpg_query is the raw parser of PostgreSQL 13 cut out as a C library
  (\<^verbatim>\<open>src/src/postgres\<close>) with entry points of its own (\<^verbatim>\<open>src/src/pg_query_*.c\<close>): normalization of queries,
  splitting into statements, token scans, fingerprints, output of parse trees. The optimizer
  (\<^verbatim>\<open>src/src/optimizer\<close>, C++) turns a parse tree into relational algebra, rewrites it and prints SQL again.
  A query goes through the flex scanner, the token filter \<open>base_yylex\<close>, the bison grammar and then to one of
  the clients. All of them rest on the string buffers, lists, bit sets and the encoding library.

  \<^bold>\<open>How C is modelled.\<close> Theory \<^verbatim>\<open>Pg_Prelude\<close>: a function that may raise an error or run into undefined
  behaviour returns a sum whose left side is the error; an access outside a block, to a cell never
  written, through a dangling pointer or a signed overflow is such an error, so a theorem that gives a
  result shows memory safety too. Integers are \<open>int\<close> with \<open>c_int\<close> at the width of a C \<^verbatim>\<open>int\<close>, and words
  where the code works on bits. The platform is the one of the repository: 64 bits, identifiers of at
  most 63 bytes, allocations of at most 3FFFFFFF bytes, assertions off.

  \<^bold>\<open>Theories, code and what is shown.\<close>
  \<^item> \<^verbatim>\<open>StringInfo\<close> (\<^verbatim>\<open>src_common_stringinfo.c\<close>, \<^verbatim>\<open>src_common_psprintf.c\<close>): growing buffers. Every append keeps
    the representation of a text, growth stays below the limit, and the retry loop of the formatted
    append ends for every formatter that reports the length it needs.
  \<^item> \<^verbatim>\<open>Json_Helper\<close> (\<^verbatim>\<open>pg_query_json_helper.c\<close>): escaped tokens can be read back.
  \<^item> \<^verbatim>\<open>Pg_Bitutils\<close>, \<^verbatim>\<open>Bitmapset\<close> (\<^verbatim>\<open>pg_bitutils.h\<close>, \<^verbatim>\<open>src_backend_nodes_bitmapset.c\<close>): bit positions and population
    counts; bit sets implement finite sets, and both iterations visit each member once. The locale
    \<open>set_iterator\<close> is interpreted for the destructive and the plain iteration.
  \<^item> \<^verbatim>\<open>Pg_List\<close> (\<^verbatim>\<open>src_backend_nodes_list.c\<close>): the array lists implement HOL lists across reallocation,
    deletion and concatenation of a list with itself.
  \<^item> \<^verbatim>\<open>Pg_Qsort\<close> (\<^verbatim>\<open>src_port_qsort.c\<close>): sorted permutation for a consistent comparator, permutation and
    termination for any.
  \<^item> \<^verbatim>\<open>Raw_Tree\<close>, \<^verbatim>\<open>Normalize_Walker\<close>, \<^verbatim>\<open>Normalize_Recorded\<close>, \<^verbatim>\<open>Pg_Normalize\<close> (\<^verbatim>\<open>src_backend_nodes_nodeFuncs.c\<close>,
    \<^verbatim>\<open>pg_query_normalize.c\<close>): the tree walker, the recorder of constants and the text replacement. The
    recorder finds exactly the constants of a tree in scope and keeps its arrays consistent; the
    normalized text is the query with the constants replaced, parse errors are reported.
    Three theorems show the defects of the GROUP BY branch and of the early return: the list that is read
    after its release, and the handler that is gone when an error is raised behind the walk.
  \<^item> \<^verbatim>\<open>Core_Scanner\<close>, \<^verbatim>\<open>Pg_Split\<close>, \<^verbatim>\<open>Pg_Scan\<close> (\<^verbatim>\<open>pg_query_split.c\<close>, \<^verbatim>\<open>pg_query_scan.c\<close>): statements and tokens
    for the token stream of a documented scanner; \<^verbatim>\<open>Scan_Token\<close> puts the modelled scanner below the
    token list.
  \<^item> \<^verbatim>\<open>Pg_Wchar\<close>, \<^verbatim>\<open>Encodings\<close>, \<^verbatim>\<open>Mbutils\<close>, \<^verbatim>\<open>Pg_Utf8\<close>, \<^verbatim>\<open>Display_Width\<close> (\<^verbatim>\<open>src_common_wchar.c\<close>,
    \<^verbatim>\<open>src_backend_utils_mb_mbutils.c\<close>, \<^verbatim>\<open>src_common_encnames.c\<close>): the 42 encodings. The contract of an
    encoding is the locale \<open>mb_encoding\<close>, interpreted for each family of encodings, and the one of a
    decoder is \<open>mb_decoder\<close>. UTF-8 validation accepts exactly the encodings of scalar values, decoding and
    encoding are inverse, clipping ends at character boundaries, lengths and widths are in range.
  \<^item> \<^verbatim>\<open>Scansup\<close>, \<^verbatim>\<open>Unicode_Escapes\<close> (\<^verbatim>\<open>src_backend_parser_scansup.c\<close>, \<^verbatim>\<open>src_backend_parser_parser.c\<close>): folding and
    truncation of identifiers; Unicode escapes with surrogate pairs refine \<open>unescape\<close>, inside the buffer.
  \<^item> \<^verbatim>\<open>Keyword_Lookup\<close>, \<^verbatim>\<open>Keyword_Tables\<close> (\<^verbatim>\<open>src_common_kwlookup.c\<close>, \<^verbatim>\<open>kwlist_d.h\<close>, \<^verbatim>\<open>kwlist.h\<close> and the two lists of
    PL/pgSQL): the lookup through a perfect hash finds exactly the words of the list, in any
    case of letters. The locale \<open>keyword_list\<close> is interpreted for all three lists.
  \<^item> \<^verbatim>\<open>Scan_Literal\<close>, \<^verbatim>\<open>Scan_Actions\<close>, \<^verbatim>\<open>Scan_Total\<close> (\<^verbatim>\<open>src_backend_parser_scan.c\<close>): the literal buffer, the 65
    rule actions and the loop around them, over any matcher that keeps the contract \<open>dfa_ok\<close>. \<open>mid\<close> is the
    invariant between two rules; every call returns a token inside the text or a message.
  \<^item> \<^verbatim>\<open>Flex_Table\<close>, \<^verbatim>\<open>Flex_Rows\<close>, \<^verbatim>\<open>Flex_Match\<close>, \<^verbatim>\<open>Flex_Contract\<close> (the same file): the generated table with its
    17678 entries, the rows of the 154 states read out of it, the matching loop with the end of the buffer,
    and the proof that it takes the longest match of that automaton and keeps \<open>dfa_ok\<close>.
  \<^item> \<^verbatim>\<open>Scan_Token\<close>, \<^verbatim>\<open>Scan_Quoted\<close>: \<^verbatim>\<open>core_yylex\<close> with the real table. It returns on every text, its tokens
    have the extents \<^verbatim>\<open>pg_query_scan\<close> reads, so that its result is one entry per token in the right place
    (with the exceptions the theorems name), and quoted identifiers and strings have the
    values their text stands for (locale \<open>quoted_body\<close>, interpreted for the three kinds of quotes).
  \<^item> \<^verbatim>\<open>Scan_Names\<close>, \<^verbatim>\<open>Deparse_Names\<close> (\<^verbatim>\<open>pg_query_deparse.c\<close>, \<^verbatim>\<open>quote_identifier\<close> of
    \<^verbatim>\<open>src_backend_utils_adt_ruleutils.c\<close>): names, qualified names and string constants as the deparser writes
    them are scanned back as the same names and strings, wherever they stand. The locale \<open>text_sink\<close> of
    \<^verbatim>\<open>StringInfo\<close> is the contract of the buffer they are appended to.
  \<^item> \<^verbatim>\<open>Base_Lexer\<close> (\<^verbatim>\<open>src_backend_parser_parser.c\<close>, parts of \<^verbatim>\<open>src_backend_parser_scan.c\<close>): the token filter with
    the zero bytes it moves in the scan buffer. It refines a filter on the list of tokens, every
    reachable state has the text of the current token for messages, and the end is reached. A
    comment between two words defeats the lookahead.
  \<^item> \<^verbatim>\<open>Ra_Tree\<close>, \<^verbatim>\<open>Ra_Pushdown\<close> (\<^verbatim>\<open>relational_algebra.h\<close>, \<^verbatim>\<open>ra_tree.cc\<close>): the algebra and the push-down of
    predicates. The rows of a plan are the same before and after under conditions the code does
    not check. Two theorems describe plans outside of them: the null test under a left join, which is moved
    below the join, and the comparison behind a subquery marker, which is lost.

  \<^bold>\<open>Arguments.\<close> What is not under \<^verbatim>\<open>src\<close>, or generated and not modelled, is an argument of the
  definitions that use it: the tokens normalization and splitting get (\<open>lexes\<close> is what is
  assumed of them), the parse tree, fingerprints, \<^verbatim>\<open>isupper\<close> and \<^verbatim>\<open>tolower\<close>, conversion procedures of other
  server encodings, formatted text. The scanner itself has no such argument for its matching.

  \<^bold>\<open>Loops.\<close> Loops are recursive functions with a termination proof. Where the code may run forever
  it is \<open>partial_function (option)\<close> and a theorem shows that it returns (\<open>appendStringInfo\<close>,
  \<open>base_yylex\<close>), or the missing progress is the error \<open>Diverges\<close>. The counters of the inner loops over
  words and bytes are the lengths of the arrays they run over, so no iteration is cut off. The scanner
  loop is \<open>core_yylex_run\<close>; \<open>core_yylex_total\<close> shows that it returns on every text shorter than \<open>2 ^ 29\<close> bytes, the
  bound under which the doubling of its buffers stays inside \<open>palloc\<close>'s limit; \<open>scan_loop\<close> is the loop of
  its callers over all tokens of a text.

  \<^bold>\<open>Not modelled.\<close> The generated grammar and per-node output, copy, comparison and
  fingerprint functions; protobuf and the vendored hash; the deparser's statements and expressions beyond their names and
  string constants; lengths of C strings from \<open>2 ^ 31\<close> bytes on, where a conversion to \<^verbatim>\<open>int\<close> cuts them; PL/pgSQL beyond its
  keyword lists; the error stack, settings and memory contexts beyond what \<open>palloc\<close> returns; positions that
  accompany error messages; of the optimizer, decorrelation of subqueries and the translation from
  and to SQL.

  \<^bold>\<open>Plan.\<close> Open are fingerprint tokens, the attribute functions and the decorrelation of the optimizer,
  and the expressions of the deparser.
\<close>

end
